(* ===== verification/Prelude.thy ===== *)
theory Prelude
  imports Main "HOL-Library.Word" "HOL-Library.Monad_Syntax"
begin

text \<open>
  What the components share: the machine types of the C code, little-endian byte images of
  integers (the hosts of the program are x86), C strings, and a heap with an allocator whose
  outcome is not under the program's control.

  Conventions of the whole development:
  \<^item> a function that can run into undefined behaviour of C (an out-of-range access, a division
    by zero, a double free) or that may not return has a result of type \<open>'a option\<close> whose
    \<open>None\<close> means exactly that; a theorem that a call is \<open>Some\<close> of something says that the
    call is safe and returns;
  \<^item> a pointer that the code asserts to be non-null (\<open>assert (self)\<close>) is a plain value, a
    pointer that may be null is an \<open>option\<close>;
  \<^item> \<open>int\<close> and \<open>ssize_t\<close> results are of type \<open>int\<close>, with the conversions that can change a
    value written out;
  \<^item> a C string is the list of its characters before the terminating null;
  \<^item> diagnostic output is not modelled.
\<close>

unbundle bit_operations_syntax

named_theorems regs \<open>constants of the register maps\<close>
named_theorems defs \<open>definitions of straight-line code\<close>

section \<open>Machine types\<close>

type_synonym u8 = "8 word"
type_synonym u16 = "16 word"
type_synonym u32 = "32 word"
type_synonym u64 = "64 word"

lemma unat_less_2p: "unat (w :: 'a::len word) < 2 ^ LENGTH('a)"
  by (rule unsigned_less)

lemma unat_of_nat_small:
  "n < 2 ^ LENGTH('a) \<Longrightarrow> unat (of_nat n :: 'a::len word) = n"
  by (simp add: unsigned_of_nat take_bit_nat_eq_self)

lemma ucast_ucast_up [simp]:
  fixes w :: "'a::len word"
  assumes "LENGTH('a) \<le> LENGTH('b::len)"
  shows "(ucast (ucast w :: 'b word) :: 'a word) = w"
  by (rule bit_word_eqI) (use assms in \<open>auto simp: bit_simps\<close>)

lemma unat_ucast_up:
  fixes w :: "'a::len word"
  assumes "LENGTH('a) \<le> LENGTH('b::len)"
  shows "unat (ucast w :: 'b word) = unat w"
proof -
  have "unat w < 2 ^ LENGTH('b)"
    using unat_less_2p [of w] assms by (meson less_le_trans one_le_numeral power_increasing)
  then show ?thesis by (simp add: unsigned_ucast_eq take_bit_nat_eq_self)
qed

section \<open>Little-endian images of integers\<close>

fun le_bytes :: "nat \<Rightarrow> 'a::len word \<Rightarrow> u8 list" where
  "le_bytes 0 w = []"
| "le_bytes (Suc n) w = ucast w # le_bytes n (drop_bit 8 w)"

fun le_word :: "u8 list \<Rightarrow> 'a::len word" where
  "le_word [] = 0"
| "le_word (b # bs) = ucast b OR push_bit 8 (le_word bs)"

lemma length_le_bytes [simp]: "length (le_bytes n w) = n"
  by (induction n arbitrary: w) auto

lemma le_word_le_bytes: "le_word (le_bytes n w) = take_bit (8 * n) w"
proof (induction n arbitrary: w)
  case 0
  then show ?case by simp
next
  case (Suc n)
  show ?case
    by (rule bit_word_eqI)
      (auto simp: Suc bit_simps bit_drop_bit_eq le_less_Suc_eq not_less)
qed

lemma le_word_le_bytes_full [simp]:
  fixes w :: "'a::len word"
  assumes "LENGTH('a) \<le> 8 * n"
  shows "le_word (le_bytes n w) = w"
  using assms by (simp add: le_word_le_bytes take_bit_word_eq_self)

lemma le_bytes_4:
  "le_bytes 4 w = [ucast w, ucast (drop_bit 8 w), ucast (drop_bit 16 w), ucast (drop_bit 24 w)]"
  by (simp add: eval_nat_numeral)

text \<open>Reading an integer of \<open>n\<close> bytes through a pointer into a buffer: undefined when the
  buffer is shorter than the integer.\<close>

definition rd_word :: "nat \<Rightarrow> u8 list \<Rightarrow> 'a::len word option" where
  "rd_word n bs = (if length bs < n then None else Some (le_word (take n bs)))"

lemma rd_word_le_bytes [simp]:
  fixes w :: "'a::len word"
  assumes "LENGTH('a) \<le> 8 * n"
  shows "rd_word n (le_bytes n w) = Some w"
  using assms by (simp add: rd_word_def)

text \<open>Storing an integer at the start of a buffer.\<close>

definition wr_word :: "nat \<Rightarrow> 'a::len word \<Rightarrow> u8 list \<Rightarrow> u8 list option" where
  "wr_word n w bs = (if length bs < n then None else Some (le_bytes n w @ drop n bs))"

lemma wr_word_length: "wr_word n w bs = Some bs' \<Longrightarrow> length bs' = length bs"
  by (auto simp: wr_word_def split: if_splits)

section \<open>Conversions between C integer types\<close>

text \<open>A value of a wider signed type stored in an \<open>int32_t\<close> (or \<open>int\<close>): the low 32 bits, read
  as two's complement. An \<open>uint32_t\<close> returned as \<open>ssize_t\<close> is zero-extended.\<close>

definition to_int32 :: "int \<Rightarrow> int" where
  "to_int32 v = sint (word_of_int v :: u32)"

definition ssize_of_u32 :: "u32 \<Rightarrow> int" where
  "ssize_of_u32 w = uint w"

lemma to_int32_id:
  assumes "- (2 ^ 31) \<le> v" and "v < 2 ^ 31"
  shows "to_int32 v = v"
  using assms by (simp add: to_int32_def signed_take_bit_int_eq_self sint_sbintrunc')

section \<open>The heap\<close>

text \<open>
  A heap of blocks. Addresses are given out in increasing order and never reused; whether
  the \<open>n\<close>-th request succeeds is decided by \<open>hp_ok\<close>, which is part of the state and unknown
  to the program. Freeing a block that is not live, or reading one, is undefined.
\<close>

record 'b heap =
  hp_next :: nat
  hp_mem :: "nat \<Rightarrow> 'b option"
  hp_ok :: "nat \<Rightarrow> bool"

definition halloc :: "'b \<Rightarrow> 'b heap \<Rightarrow> nat option \<times> 'b heap" where
  "halloc b h =
     (let a = hp_next h; h' = h\<lparr>hp_next := Suc a\<rparr>
      in if hp_ok h a then (Some a, h'\<lparr>hp_mem := (hp_mem h)(a := Some b)\<rparr>) else (None, h'))"

definition hfree :: "nat \<Rightarrow> 'b heap \<Rightarrow> 'b heap option" where
  "hfree a h = (case hp_mem h a of None \<Rightarrow> None
     | Some _ \<Rightarrow> Some (h\<lparr>hp_mem := (hp_mem h)(a := None)\<rparr>))"

definition hset :: "nat \<Rightarrow> 'b \<Rightarrow> 'b heap \<Rightarrow> 'b heap option" where
  "hset a b h = (case hp_mem h a of None \<Rightarrow> None
     | Some _ \<Rightarrow> Some (h\<lparr>hp_mem := (hp_mem h)(a := Some b)\<rparr>))"

text \<open>\<open>free (p)\<close> where \<open>p\<close> may be null.\<close>

definition hfree_opt :: "nat option \<Rightarrow> 'b heap \<Rightarrow> 'b heap option" where
  "hfree_opt p h = (case p of None \<Rightarrow> Some h | Some a \<Rightarrow> hfree a h)"

definition heap_wf :: "'b heap \<Rightarrow> bool" where
  "heap_wf h \<longleftrightarrow> (\<forall>a. hp_next h \<le> a \<longrightarrow> hp_mem h a = None)"

text \<open>Two heaps with the same live blocks: what "nothing leaked and nothing was touched" means.\<close>

definition heap_same :: "'b heap \<Rightarrow> 'b heap \<Rightarrow> bool" where
  "heap_same h h' \<longleftrightarrow> hp_mem h' = hp_mem h \<and> hp_next h \<le> hp_next h' \<and> hp_ok h' = hp_ok h"

lemma heap_same_refl [simp, intro]: "heap_same h h"
  by (simp add: heap_same_def)

lemma heap_same_trans [trans]: "heap_same a b \<Longrightarrow> heap_same b c \<Longrightarrow> heap_same a c"
  by (auto simp: heap_same_def)

lemma heap_wf_fresh: "heap_wf h \<Longrightarrow> hp_mem h (hp_next h) = None"
  by (simp add: heap_wf_def)

lemma heap_same_wf: "heap_same h h' \<Longrightarrow> heap_wf h \<Longrightarrow> heap_wf h'"
  by (auto simp: heap_same_def heap_wf_def)

lemma halloc_cases:
  obtains (fail) "halloc b h = (None, h\<lparr>hp_next := Suc (hp_next h)\<rparr>)" "\<not> hp_ok h (hp_next h)"
  | (ok) "halloc b h = (Some (hp_next h),
        h\<lparr>hp_next := Suc (hp_next h), hp_mem := (hp_mem h)(hp_next h := Some b)\<rparr>)"
      "hp_ok h (hp_next h)"
  by (cases "hp_ok h (hp_next h)") (auto simp: halloc_def Let_def)

lemma halloc_wf: "halloc b h = (r, h') \<Longrightarrow> heap_wf h \<Longrightarrow> heap_wf h'"
  by (auto simp: halloc_def heap_wf_def Let_def split: if_splits)

lemma hfree_wf: "hfree a h = Some h' \<Longrightarrow> heap_wf h \<Longrightarrow> heap_wf h'"
  by (auto simp: hfree_def heap_wf_def split: option.splits)

lemma hset_wf: "hset a b h = Some h' \<Longrightarrow> heap_wf h \<Longrightarrow> heap_wf h'"
  by (auto simp: hset_def heap_wf_def split: option.splits)

end
