(* ===== verification/Hutils.thy ===== *)
theory Hutils
  imports Prelude
begin

text \<open>
  libs/hutils: the helper library every other component links against. Modelled here are the
  division helpers of \<open>hutils_math.c\<close> and, of \<open>hutils_utils.c\<close>, the conversions between
  numbers and strings, string concatenation, copying and cloning, and the alignment
  arithmetic. The process functions (fork, exec, waitpid) are not modelled.
\<close>

section \<open>Blocks of memory\<close>

text \<open>What a heap block of the program holds: raw bytes, a C string, or an object.\<close>

datatype 'o blk = BBytes "u8 list" | BStr string | BObj 'o

section \<open>hutils_math.c\<close>

text \<open>Division by zero is undefined; so is the one signed quotient that does not fit.\<close>

definition s_hutils_div_u64_rem :: "u64 \<Rightarrow> u32 \<Rightarrow> (u64 \<times> u32) option" where
  "s_hutils_div_u64_rem dividend divisor =
     (if divisor = 0 then None
      else Some (dividend div ucast divisor, ucast (dividend mod ucast divisor)))"

definition hutils_div_u64_rem :: "u64 \<Rightarrow> u32 \<Rightarrow> (u64 \<times> u32) option" where
  "hutils_div_u64_rem dividend divisor = s_hutils_div_u64_rem dividend divisor"

definition hutils_div_u64 :: "u64 \<Rightarrow> u32 \<Rightarrow> u64 option" where
  "hutils_div_u64 dividend divisor = map_option fst (hutils_div_u64_rem dividend divisor)"

definition hutils_div64_u64 :: "u64 \<Rightarrow> u64 \<Rightarrow> u64 option" where
  "hutils_div64_u64 dividend divisor = (if divisor = 0 then None else Some (dividend div divisor))"

definition hutils_div64_s64 :: "int \<Rightarrow> int \<Rightarrow> int option" where
  "hutils_div64_s64 dividend divisor =
     (if divisor = 0 \<or> dividend = - (2 ^ 63) \<and> divisor = -1 then None
      else Some (sgn dividend * sgn divisor * (\<bar>dividend\<bar> div \<bar>divisor\<bar>)))"

section \<open>Numbers as strings\<close>

text \<open>The do-while loop of \<open>hutils_num_to_str_len\<close>: it need not end (base 1), so it is a
  partial function.\<close>

partial_function (option) num_to_str_loop :: "u32 \<Rightarrow> u32 \<Rightarrow> u32 \<Rightarrow> u32 option" where
  "num_to_str_loop rem base i =
     (let rem' = rem div base; i' = i + 1
      in if rem' > 0 then num_to_str_loop rem' base i' else Some i')"

definition hutils_num_to_str_len :: "u32 \<Rightarrow> u32 \<Rightarrow> u32 option" where
  "hutils_num_to_str_len key base = (if base = 0 then None else num_to_str_loop key base 0)"

definition hutils_hex_to_str_len :: "u32 \<Rightarrow> u32 option" where
  "hutils_hex_to_str_len key = hutils_num_to_str_len key 16"

definition hutils_dec_to_str_len :: "u32 \<Rightarrow> u32 option" where
  "hutils_dec_to_str_len key = hutils_num_to_str_len key 10"

text \<open>The C library's \<open>%u\<close> conversion and \<open>snprintf\<close>: what is stored is cut to the buffer,
  what is returned is the length of the whole text.\<close>

definition digit_char :: "nat \<Rightarrow> char" where
  "digit_char d = ''0123456789ABCDEF'' ! d"

fun fmt_u :: "nat \<Rightarrow> string" where
  "fmt_u n = (if n < 10 then [digit_char n] else fmt_u (n div 10) @ [digit_char (n mod 10)])"

declare fmt_u.simps [simp del]

definition snprintf :: "nat \<Rightarrow> string \<Rightarrow> string \<times> nat" where
  "snprintf n s = (take (n - 1) s, length s)"

definition hutils_stringify_dec_key :: "u32 \<Rightarrow> 'o blk heap \<Rightarrow> (nat option \<times> 'o blk heap) option" where
  "hutils_stringify_dec_key key h = do {
     len \<leftarrow> hutils_num_to_str_len key 10;
     let key_len = unat len + 1;
     case halloc (BStr []) h of
       (None, h1) \<Rightarrow> Some (None, h1)
     | (Some a, h1) \<Rightarrow> do {
         h2 \<leftarrow> hset a (BStr (fst (snprintf key_len (fmt_u (unat key))))) h1;
         Some (Some a, h2) } }"

text \<open>The bytes of the key are read through a byte pointer, most significant first.\<close>

definition hex_str :: "u32 \<Rightarrow> string" where
  "hex_str key =
     (let data = le_bytes 4 key
      in concat (map (\<lambda>i. let b = data ! (4 - 1 - i)
                          in [digit_char (unat (drop_bit 4 b)), digit_char (unat (b AND 15))])
           [0..<4]))"

definition hutils_stringify_hex_key :: "u32 \<Rightarrow> 'o blk heap \<Rightarrow> nat option \<times> 'o blk heap" where
  "hutils_stringify_hex_key key h = halloc (BStr (hex_str key)) h"

definition hutils_stringify_key :: "u32 \<Rightarrow> u32 \<Rightarrow> 'o blk heap \<Rightarrow> (nat option \<times> 'o blk heap) option" where
  "hutils_stringify_key key base h =
     (if base = 10 then hutils_stringify_dec_key key h
      else if base = 16 then Some (hutils_stringify_hex_key key h)
      else Some (None, h))"

text \<open>\<open>strtoul\<close> of the C library, for every base it accepts: white space, a sign, the prefix of
  base 16, then digits; too large a number is \<open>ULONG_MAX\<close>, a minus sign negates modulo
  \<open>2 ^ 64\<close>.\<close>

definition c_isspace :: "char \<Rightarrow> bool" where
  "c_isspace c \<longleftrightarrow> c = CHR '' '' \<or> 9 \<le> (of_char c :: nat) \<and> of_char c \<le> (13 :: nat)"

definition digit_val :: "char \<Rightarrow> nat" where
  "digit_val c =
     (let n = of_char c :: nat
      in if 48 \<le> n \<and> n \<le> 57 then n - 48
         else if 65 \<le> n \<and> n \<le> 90 then n - 55
         else if 97 \<le> n \<and> n \<le> 122 then n - 87 else 255)"

fun digits_val :: "nat \<Rightarrow> nat \<Rightarrow> string \<Rightarrow> nat" where
  "digits_val base acc [] = acc"
| "digits_val base acc (c # cs) =
     (if digit_val c < base then digits_val base (base * acc + digit_val c) cs else acc)"

definition hex_prefix :: "string \<Rightarrow> bool" where
  "hex_prefix s \<longleftrightarrow> (case s of a # x # d # _ \<Rightarrow> a = CHR ''0'' \<and> (x = CHR ''x'' \<or> x = CHR ''X'')
     \<and> digit_val d < 16 | _ \<Rightarrow> False)"

definition strtoul :: "string \<Rightarrow> nat \<Rightarrow> u64" where
  "strtoul str base =
     (let s1 = dropWhile c_isspace str;
          neg = (case s1 of c # _ \<Rightarrow> c = CHR ''-'' | [] \<Rightarrow> False);
          s2 = (case s1 of c # r \<Rightarrow> if c = CHR ''-'' \<or> c = CHR ''+'' then r else s1 | [] \<Rightarrow> []);
          b = (if base = 0 then (if hex_prefix s2 then 16
                 else if take 1 s2 = ''0'' then 8 else 10) else base);
          s3 = (if b = 16 \<and> hex_prefix s2 then drop 2 s2 else s2);
          v = digits_val b 0 s3
      in if base = 1 \<or> 36 < base then 0
         else if 2 ^ 64 \<le> v then - 1
         else if neg then - word_of_nat v else word_of_nat v)"

definition hutils_numerify_key :: "string \<Rightarrow> u32 \<Rightarrow> u32" where
  "hutils_numerify_key key base = ucast (strtoul key (unat base))"

definition hutils_numerify_dec_key :: "string \<Rightarrow> u32" where
  "hutils_numerify_dec_key key = hutils_numerify_key key 10"

definition hutils_numerify_hex_key :: "string \<Rightarrow> u32" where
  "hutils_numerify_hex_key key = hutils_numerify_key key 16"

section \<open>Concatenation, alignment, copies\<close>

definition s_hutils_concat_strings_raw ::
  "string \<Rightarrow> string \<Rightarrow> string option \<Rightarrow> bool \<Rightarrow> char \<Rightarrow> 'o blk heap \<Rightarrow>
     (nat option \<times> 'o blk heap) option" where
  "s_hutils_concat_strings_raw str1 str2 str3 with_sep sep h =
     (let num_sep_bytes = (if with_sep then 1 else 0 :: nat);
          sep_str = (if with_sep then [sep] else []);
          (str_len, text) =
            (case str3 of
               Some s3 \<Rightarrow> (length str1 + length str2 + length s3 + num_sep_bytes + 1,
                  str1 @ sep_str @ str2 @ s3)
             | None \<Rightarrow> (length str1 + length str2 + num_sep_bytes + 1, str1 @ sep_str @ str2))
      in case halloc (BStr []) h of
           (None, h1) \<Rightarrow> Some (None, h1)
         | (Some a, h1) \<Rightarrow> do {
             h2 \<leftarrow> hset a (BStr (fst (snprintf str_len text))) h1;
             Some (Some a, h2) })"

definition hutils_concat_strings ::
  "string \<Rightarrow> string \<Rightarrow> char \<Rightarrow> 'o blk heap \<Rightarrow> (nat option \<times> 'o blk heap) option" where
  "hutils_concat_strings str1 str2 sep h = s_hutils_concat_strings_raw str1 str2 None True sep h"

definition hutils_concat_strings_no_sep ::
  "string \<Rightarrow> string \<Rightarrow> 'o blk heap \<Rightarrow> (nat option \<times> 'o blk heap) option" where
  "hutils_concat_strings_no_sep str1 str2 h =
     s_hutils_concat_strings_raw str1 str2 None False (CHR 0x00) h"

definition hutils_concat_strings3 ::
  "string \<Rightarrow> string \<Rightarrow> string option \<Rightarrow> char \<Rightarrow> 'o blk heap \<Rightarrow> (nat option \<times> 'o blk heap) option" where
  "hutils_concat_strings3 str1 str2 str3 sep h = s_hutils_concat_strings_raw str1 str2 str3 True sep h"

definition hutils_calculate_padding :: "u32 \<Rightarrow> u32 \<Rightarrow> u32 option" where
  "hutils_calculate_padding val alignment =
     (if alignment = 0 then None
      else let exceeded = val mod alignment;
               remaining = alignment - exceeded;
               padding = remaining mod alignment
           in Some padding)"

definition hutils_align_value :: "u32 \<Rightarrow> u32 \<Rightarrow> u32 option" where
  "hutils_align_value val alignment =
     map_option (\<lambda>p. val + p) (hutils_calculate_padding val alignment)"

text \<open>\<open>snprintf\<close> of a plain \<open>%s\<close> cannot fail; the truncation test of \<open>hutils_clone_str\<close> is kept.\<close>

definition hutils_clone_str :: "string \<Rightarrow> 'o blk heap \<Rightarrow> (nat option \<times> 'o blk heap) option" where
  "hutils_clone_str str h =
     (let str_size = length str + 1
      in case halloc (BStr []) h of
           (None, h1) \<Rightarrow> Some (None, h1)
         | (Some a, h1) \<Rightarrow> do {
             let (txt, errs) = snprintf str_size str;
             h2 \<leftarrow> hset a (BStr txt) h1;
             if errs < str_size then Some (Some a, h2)
             else do { h3 \<leftarrow> hfree a h2; Some (None, h3) } })"

text \<open>The destination buffer and the value returned: \<open>errs + 1\<close>, also when the copy was cut.\<close>

definition hutils_copy_str :: "string \<Rightarrow> string \<Rightarrow> nat \<Rightarrow> string \<times> int" where
  "hutils_copy_str dest src sz =
     (let (txt, errs) = snprintf sz src
      in (if sz = 0 then dest else txt, int errs + 1))"

section \<open>Facts\<close>

subsection \<open>The number of digits\<close>

text \<open>\<open>is_len b n r\<close>: the numeral of \<open>n\<close> in base \<open>b\<close> has \<open>r\<close> digits.\<close>

definition is_len :: "nat \<Rightarrow> nat \<Rightarrow> nat \<Rightarrow> bool" where
  "is_len b n r \<longleftrightarrow> 1 \<le> r \<and> n < b ^ r \<and> (r = 1 \<or> b ^ (r - 1) \<le> n)"

lemma is_len_unique:
  assumes "1 < b" and "is_len b n r" and "is_len b n s"
  shows "r = s"
proof (rule ccontr)
  assume "r \<noteq> s"
  have step: False if "is_len b n r" "is_len b n s" "r < s" for r s
  proof -
    from that have "b ^ r \<le> b ^ (s - 1)"
      using assms(1) by (intro power_increasing) auto
    with that show False by (auto simp: is_len_def)
  qed
  from \<open>r \<noteq> s\<close> assms(2,3) step show False by (meson linorder_neqE_nat)
qed

lemma is_len_step:
  assumes "1 < b" and "is_len b (n div b) r" and "b \<le> n"
  shows "is_len b n (Suc r)"
proof -
  from assms have "n div b < b ^ r" by (simp add: is_len_def)
  then have "n < b ^ Suc r"
    using assms(1) by (metis bot_nat_0.extremum_strict bot_nat_0.not_eq_extremum div_less_iff_less_mult
        mult.commute power_Suc zero_less_iff_neq_zero)
  moreover have "b ^ r \<le> n"
  proof (cases "r = 1")
    case True
    with assms(3) show ?thesis by simp
  next
    case False
    with assms(2) have "b ^ (r - 1) \<le> n div b" and "1 \<le> r" by (auto simp: is_len_def)
    then have "b * b ^ (r - 1) \<le> n"
      using assms(1) by (metis less_eq_div_iff_mult_less_eq mult.commute order_less_trans zero_less_one)
    with \<open>1 \<le> r\<close> show ?thesis by (metis Suc_diff_1 less_eq_Suc_le One_nat_def power_Suc)
  qed
  ultimately show ?thesis by (simp add: is_len_def)
qed

lemma is_len_le:
  assumes "2 \<le> b" and "n < 2 ^ k" and "is_len b n r" and "1 \<le> k"
  shows "r \<le> k"
proof (rule ccontr)
  assume "\<not> r \<le> k"
  with assms(3,4) have "b ^ (r - 1) \<le> n" and "k \<le> r - 1" by (auto simp: is_len_def)
  moreover have "2 ^ k \<le> (b :: nat) ^ (r - 1)"
    using assms(1) \<open>k \<le> r - 1\<close>
    by (meson order_trans power_increasing power_mono one_le_numeral zero_le)
  ultimately show False using assms(2) by simp
qed

lemma num_to_str_loop_len:
  assumes "2 \<le> unat base"
  shows "\<exists>r. num_to_str_loop rem base i = Some (i + of_nat r) \<and> is_len (unat base) (unat rem) r"
proof (induction "unat rem" arbitrary: rem i rule: less_induct)
  case less
  have u: "unat (rem div base) = unat rem div unat base" by (simp add: unat_div)
  show ?case
  proof (cases "rem div base > 0")
    case False
    then have "unat rem div unat base = 0" using u by (simp add: word_greater_zero_iff)
    then have "unat rem < unat base" using assms by (simp add: div_eq_0_iff)
    then have "is_len (unat base) (unat rem) 1" by (simp add: is_len_def)
    with False show ?thesis
      by (intro exI [of _ 1]) (simp add: num_to_str_loop.simps [of rem] Let_def)
  next
    case True
    then have pos: "0 < unat rem div unat base" using u
      by (metis unat_gt_0 word_gt_0)
    then have "0 < unat rem" by (simp add: div_greater_zero_iff)
    with assms u have "unat (rem div base) < unat rem" by simp
    from less [OF this, of "i + 1"] obtain r where
      r: "num_to_str_loop (rem div base) base (i + 1) = Some (i + 1 + of_nat r)"
        "is_len (unat base) (unat rem div unat base) r" using u by auto
    have "unat base \<le> unat rem" using pos by (simp add: div_greater_zero_iff)
    with r(2) assms have "is_len (unat base) (unat rem) (Suc r)" by (intro is_len_step) auto
    with True r(1) show ?thesis
      by (intro exI [of _ "Suc r"]) (simp add: num_to_str_loop.simps [of rem] Let_def ac_simps)
  qed
qed

lemma hutils_num_to_str_len_Some:
  assumes "2 \<le> unat base"
  shows "\<exists>r. hutils_num_to_str_len key base = Some (of_nat r) \<and> is_len (unat base) (unat key) r \<and> r \<le> 32"
proof -
  from num_to_str_loop_len [OF assms, of key 0] obtain r where
    r: "num_to_str_loop key base 0 = Some (of_nat r)" "is_len (unat base) (unat key) r" by auto
  have "unat key < 2 ^ 32" using unat_less_2p [of key] by simp
  with is_len_le [OF assms _ r(2)] have "r \<le> 32" by simp
  moreover have "base \<noteq> 0" using assms by auto
  ultimately show ?thesis using r by (auto simp: hutils_num_to_str_len_def)
qed

lemma num_to_str_loop_base1:
  assumes "num_to_str_loop rem base i = Some r"
  shows "base = 1 \<longrightarrow> rem = 0"
proof (rule num_to_str_loop.raw_induct [where P = "\<lambda>rem base i r. base = 1 \<longrightarrow> rem = 0", OF _ assms])
  fix f :: "u32 \<Rightarrow> u32 \<Rightarrow> u32 \<Rightarrow> u32 option" and rem base i r
  assume IH: "\<And>rem base i r. f rem base i = Some r \<Longrightarrow> base = 1 \<longrightarrow> rem = 0"
    and eq: "(let rem' = rem div base; i' = i + 1 in if rem' > 0 then f rem' base i' else Some i') = Some r"
  show "base = 1 \<longrightarrow> rem = 0"
    using IH [of rem base "i + 1" r] eq
    by (auto simp: Let_def word_gt_0 split: if_splits)
qed

subsection \<open>Digits\<close>

lemma digit_char_facts:
  assumes "d < 16"
  shows "digit_val (digit_char d) = d" and "\<not> c_isspace (digit_char d)"
    and "digit_char d \<noteq> CHR ''-''" and "digit_char d \<noteq> CHR ''+''"
    and "digit_char d \<noteq> CHR ''x''" and "digit_char d \<noteq> CHR ''X''"
proof -
  have "\<forall>d \<in> set [0..<16]. digit_val (digit_char d) = d \<and> \<not> c_isspace (digit_char d) \<and>
     digit_char d \<noteq> CHR ''-'' \<and> digit_char d \<noteq> CHR ''+'' \<and>
     digit_char d \<noteq> CHR ''x'' \<and> digit_char d \<noteq> CHR ''X''"
    by code_simp
  with assms show "digit_val (digit_char d) = d" and "\<not> c_isspace (digit_char d)"
    and "digit_char d \<noteq> CHR ''-''" and "digit_char d \<noteq> CHR ''+''"
    and "digit_char d \<noteq> CHR ''x''" and "digit_char d \<noteq> CHR ''X''" by auto
qed

lemma digits_val_map:
  assumes "\<forall>d \<in> set ds. d < base" and "base \<le> 16"
  shows "digits_val base acc (map digit_char ds) = foldl (\<lambda>a d. base * a + d) acc ds"
  using assms by (induction ds arbitrary: acc) (auto simp: digit_char_facts)

text \<open>A text of digits is read back by \<open>strtoul\<close>: nothing is skipped and no prefix is seen.\<close>

lemma strtoul_digits:
  assumes "ds \<noteq> []" and "\<forall>d \<in> set ds. d < base" and "2 \<le> base" and "base \<le> 16"
    and "foldl (\<lambda>a d. base * a + d) 0 ds < 2 ^ 64"
  shows "strtoul (map digit_char ds) base = word_of_nat (foldl (\<lambda>a d. base * a + d) 0 ds)"
proof -
  obtain d es where ds: "ds = d # es" using assms(1) by (cases ds) auto
  have all16: "\<forall>x \<in> set ds. x < 16" using assms(2,4) by auto
  then have d: "d < 16" using ds by simp
  have nopre: "\<not> hex_prefix (map digit_char ds)"
    using ds all16 by (auto simp: hex_prefix_def digit_char_facts split: list.splits)
  have "dropWhile c_isspace (map digit_char ds) = map digit_char ds"
    using ds d by (simp add: digit_char_facts)
  then show ?thesis
    using assms nopre ds d digits_val_map [of ds base 0]
    by (simp add: strtoul_def Let_def digit_char_facts del: digits_val.simps)
qed

lemma fmt_u_digits:
  "\<exists>ds. fmt_u n = map digit_char ds \<and> ds \<noteq> [] \<and> (\<forall>d \<in> set ds. d < 10) \<and>
     foldl (\<lambda>a d. 10 * a + d) 0 ds = n"
proof (induction n rule: fmt_u.induct)
  case (1 n)
  show ?case
  proof (cases "n < 10")
    case True
    then show ?thesis by (intro exI [of _ "[n]"]) (simp add: fmt_u.simps [of n])
  next
    case False
    with 1 obtain ds where "fmt_u (n div 10) = map digit_char ds" "ds \<noteq> []"
      "\<forall>d \<in> set ds. d < 10" "foldl (\<lambda>a d. 10 * a + d) 0 ds = n div 10" by auto
    with False show ?thesis
      by (intro exI [of _ "ds @ [n mod 10]"]) (auto simp: fmt_u.simps [of n])
  qed
qed

lemma fmt_u_len: "is_len 10 n (length (fmt_u n))"
proof (induction n rule: fmt_u.induct)
  case (1 n)
  show ?case
  proof (cases "n < 10")
    case True
    then show ?thesis by (simp add: fmt_u.simps [of n] is_len_def)
  next
    case False
    with 1 have "is_len 10 (n div 10) (length (fmt_u (n div 10)))" by simp
    with False is_len_step [of 10 n] show ?thesis by (simp add: fmt_u.simps [of n])
  qed
qed

definition hex_digits :: "u32 \<Rightarrow> nat list" where
  "hex_digits k = [unat k div 2 ^ 28, unat k div 2 ^ 24 mod 16, unat k div 2 ^ 20 mod 16,
     unat k div 2 ^ 16 mod 16, unat k div 2 ^ 12 mod 16, unat k div 2 ^ 8 mod 16,
     unat k div 2 ^ 4 mod 16, unat k mod 16]"

lemma mod_256_div_16: "(a :: nat) mod 256 div 16 = a div 16 mod 16"
  using mod_mult2_eq [of a 16 16] by simp

lemma nibble_high: "unat (ucast (w :: u32) :: u8) div 16 = unat w div 16 mod 16"
  by (simp add: unsigned_ucast_eq take_bit_eq_mod mod_256_div_16)

lemma nibble_low: "unat ((ucast (w :: u32) :: u8) mod 16) = unat w mod 16"
  by (simp add: unat_mod unsigned_ucast_eq take_bit_eq_mod mod_mod_cancel)

lemma and_15_mod: "(w :: u8) AND 15 = w mod 16"
proof -
  have "w AND 15 = take_bit 4 w" by (simp add: take_bit_eq_mask mask_numeral)
  then show ?thesis by (simp add: take_bit_eq_mod)
qed

lemma hex_str_digits: "hex_str k = map digit_char (hex_digits k)"
proof -
  have "unat k div 268435456 < 16" using unat_less_2p [of k] by simp
  moreover have "[0..<4] = [0, 1, 2, 3 :: nat]" by (simp add: upt_rec)
  ultimately show ?thesis
    by (simp add: hex_str_def hex_digits_def Let_def le_bytes_4 drop_bit_eq_div and_15_mod
        nibble_high nibble_low unat_div div_mult2_eq [symmetric])
qed

lemma hex_digits_lt: "d \<in> set (hex_digits k) \<Longrightarrow> d < 16"
proof -
  have "unat k div 268435456 < 16" using unat_less_2p [of k] by simp
  then show "d \<in> set (hex_digits k) \<Longrightarrow> d < 16" by (auto simp: hex_digits_def)
qed

lemma div_mod_16: "(16 :: nat) * (n div 16) + n mod 16 = n"
  by simp

lemma hex_digits_foldl: "foldl (\<lambda>a d. 16 * a + d) 0 (hex_digits k) = unat k"
proof -
  have step: "16 * (n div (16 * m)) + n div m mod 16 = n div m" for n m :: nat
    using div_mod_16 [of "n div m"] by (simp add: div_mult2_eq mult.commute)
  show ?thesis
    using step [of "unat k" 16777216] step [of "unat k" 1048576] step [of "unat k" 65536]
      step [of "unat k" 4096] step [of "unat k" 256] step [of "unat k" 16] step [of "unat k" 1]
    by (simp add: hex_digits_def del: mult_div_mod_eq)
qed


subsection \<open>Allocation followed by a store\<close>

lemma halloc_hset:
  "(case halloc b h of (None, h1) \<Rightarrow> Some (None, h1)
     | (Some a, h1) \<Rightarrow> hset a c h1 \<bind> (\<lambda>h2. Some (Some a, h2))) = Some (halloc c h)"
  by (cases b h rule: halloc_cases) (simp_all add: halloc_def hset_def Let_def)

lemma snprintf_fits: "length s < n \<Longrightarrow> snprintf n s = (s, length s)"
  by (simp add: snprintf_def)

lemma stringify_dec: "hutils_stringify_dec_key key h = Some (halloc (BStr (fmt_u (unat key))) h)"
proof -
  obtain r where r: "hutils_num_to_str_len key 10 = Some (of_nat r)" "is_len 10 (unat key) r" "r \<le> 32"
    using hutils_num_to_str_len_Some [of 10 key] by auto
  have "r = length (fmt_u (unat key))"
    by (rule is_len_unique [OF _ r(2) fmt_u_len]) simp
  moreover have "unat (of_nat r :: u32) = r" using r(3) by (simp add: unat_of_nat_small)
  ultimately show ?thesis
    using r(1) by (simp add: hutils_stringify_dec_key_def snprintf_fits halloc_hset)
qed

lemma numerify_fmt_u: "hutils_numerify_key (fmt_u (unat key)) 10 = key"
proof -
  obtain ds where "fmt_u (unat key) = map digit_char ds" "ds \<noteq> []" "\<forall>d \<in> set ds. d < 10"
    "foldl (\<lambda>a d. 10 * a + d) 0 ds = unat key" using fmt_u_digits by blast
  then show ?thesis
    using strtoul_digits [of ds 10] unat_less_2p [of key] by (simp add: hutils_numerify_key_def)
qed

lemma numerify_hex_str: "hutils_numerify_key (hex_str key) 16 = key"
proof -
  have "hex_digits key \<noteq> []" by (simp add: hex_digits_def)
  moreover have "unat key < 2 ^ 64" using unat_less_2p [of key] by simp
  ultimately have "strtoul (map digit_char (hex_digits key)) 16 = word_of_nat (unat key)"
    using strtoul_digits [of "hex_digits key" 16] hex_digits_lt by (simp only: hex_digits_foldl) auto
  then show ?thesis by (simp add: hutils_numerify_key_def hex_str_digits)
qed

lemma concat_raw:
  "s_hutils_concat_strings_raw s1 s2 s3 ws sep h =
     Some (halloc (BStr (s1 @ (if ws then [sep] else []) @ s2 @ (case s3 of None \<Rightarrow> [] | Some s \<Rightarrow> s))) h)"
  by (simp add: s_hutils_concat_strings_raw_def Let_def snprintf_fits halloc_hset split: option.split)

lemma clone_str: "hutils_clone_str s (h :: 'o blk heap) = Some (halloc (BStr s) h)"
  by (cases "BStr [] :: 'o blk" h rule: halloc_cases)
    (simp_all add: hutils_clone_str_def snprintf_fits Let_def halloc_def hset_def)

lemma pad_nat:
  assumes "0 < (a :: nat)"
  shows "(a - x mod a) mod a < a" and "a dvd x + (a - x mod a) mod a"
proof -
  show "(a - x mod a) mod a < a" using assms by (rule mod_less_divisor)
  have "(x + (a - x mod a) mod a) mod a = (x mod a + (a - x mod a)) mod a"
    by (simp only: mod_add_left_eq mod_add_right_eq)
  also have "x mod a + (a - x mod a) = a"
    by (rule le_add_diff_inverse) (rule less_imp_le [OF mod_less_divisor [OF assms]])
  finally show "a dvd x + (a - x mod a) mod a" by (simp only: dvd_eq_mod_eq_0 mod_self)
qed

lemma mod_le_self_word:
  fixes a :: u32
  assumes "a \<noteq> 0"
  shows "x mod a \<le> a"
proof -
  have "unat x mod unat a < unat a" using assms by (simp add: unat_gt_0)
  then show ?thesis by (simp add: word_le_nat_alt unat_mod less_imp_le)
qed

section \<open>Properties\<close>

text \<open>C39: A key written by \<open>hutils_stringify_key\<close> in base 10 or 16 and read back by
  \<open>hutils_numerify_key\<close> in that base is the same key, for all 32-bit keys; the call never
  truncates the text, and allocates exactly one block (or fails with null when the allocator
  does), leaving every other block alone.\<close>

theorem stringify_numerify_roundtrip:
  assumes "base = 10 \<or> base = 16"
  shows "\<exists>s. hutils_stringify_key key base h = Some (halloc (BStr s) h) \<and>
    hutils_numerify_key s base = key"
  using assms
  by (auto simp: hutils_stringify_key_def hutils_stringify_hex_key_def stringify_dec
      intro: numerify_fmt_u numerify_hex_str)

theorem stringify_numerify_roundtrip_witness:
  "\<forall>h :: unit blk heap. \<exists>s. hutils_stringify_key 3735928559 16 h = Some (halloc (BStr s) h) \<and>
    hutils_numerify_key s 16 = 3735928559"
  by (intro allI stringify_numerify_roundtrip) simp

text \<open>C40: \<open>hutils_num_to_str_len\<close> returns for every base of at least 2, and its result is the
  number of digits of the key in that base: the only \<open>r \<ge> 1\<close> with
  \<open>base ^ (r - 1) \<le> key < base ^ r\<close> (1 for the key 0), with no room for a terminating null.
  With base 1 the loop ends for the key 0 only; with base 0 the division is undefined.\<close>

theorem num_to_str_len_digits:
  "(2 \<le> unat base \<longrightarrow> (\<exists>r. hutils_num_to_str_len key base = Some r \<and>
      is_len (unat base) (unat key) (unat r))) \<and>
   (hutils_num_to_str_len key 1 = None) = (key \<noteq> 0) \<and> hutils_num_to_str_len key 0 = None"
proof (intro conjI impI)
  assume "2 \<le> unat base"
  from hutils_num_to_str_len_Some [OF this, of key] obtain r where
    "hutils_num_to_str_len key base = Some (of_nat r)" "is_len (unat base) (unat key) r" "r \<le> 32"
    by auto
  moreover from this have "unat (of_nat r :: u32) = r" by (simp add: unat_of_nat_small)
  ultimately show "\<exists>r. hutils_num_to_str_len key base = Some r \<and>
      is_len (unat base) (unat key) (unat r)" by auto
next
  show "(hutils_num_to_str_len key 1 = None) = (key \<noteq> 0)"
    using num_to_str_loop_base1 [of key 1 0]
    by (cases "num_to_str_loop key 1 0"; cases "key = 0")
      (auto simp: hutils_num_to_str_len_def num_to_str_loop.simps [of 0])
next
  show "hutils_num_to_str_len key 0 = None" by (simp add: hutils_num_to_str_len_def)
qed

theorem num_to_str_len_digits_witness:
  "\<exists>r. hutils_num_to_str_len 1000 10 = Some r \<and> is_len 10 1000 (unat r)"
  using num_to_str_len_digits [of 10 1000] by simp

text \<open>\<open>hutils_align_value\<close> gives the least multiple of the alignment that is not below the
  value, for every non-zero alignment for which that multiple fits in 32 bits.\<close>

theorem align_value_least:
  assumes "alignment \<noteq> 0" and "unat val + unat alignment \<le> 2 ^ 32"
  shows "\<exists>v. hutils_align_value val alignment = Some v \<and> unat alignment dvd unat v \<and>
    unat val \<le> unat v \<and> unat v < unat val + unat alignment"
proof -
  define pad where "pad = (unat alignment - unat val mod unat alignment) mod unat alignment"
  have a: "0 < unat alignment" using assms(1) by (simp add: unat_gt_0)
  have p: "unat ((alignment - val mod alignment) mod alignment) = pad"
    unfolding pad_def by (simp only: unat_mod unat_sub [OF mod_le_self_word [OF assms(1)]])
  from a have pad: "pad < unat alignment" "unat alignment dvd unat val + pad"
    unfolding pad_def by (rule pad_nat)+
  then have "unat (val + (alignment - val mod alignment) mod alignment) = unat val + pad"
    using assms(2) p by (intro trans [OF unat_add_lem [THEN iffD1]]) auto
  with pad assms(1) show ?thesis
    by (simp add: hutils_align_value_def hutils_calculate_padding_def Let_def)
qed

theorem align_value_least_witness:
  "\<exists>v. hutils_align_value 13 8 = Some v \<and> unat (8 :: u32) dvd unat v \<and>
    unat (13 :: u32) \<le> unat v \<and> unat v < unat (13 :: u32) + unat (8 :: u32)"
  by (rule align_value_least) simp_all

end
