(* ===== verification/Llio.thy ===== *)
theory Llio
  imports Hutils
begin

text \<open>
  libs/llio: the low-level input/output layer every device access goes through: an endpoint (a
  name and whether it is open), the \<open>llio\<close> object that owns one, and the vector of operations of
  the device class behind it. An operation that the class does not provide is null.

  Objects are values here; the \<open>n\<close>-th allocation of a call succeeds iff \<open>al n\<close>. The operations
  of a class work on the whole state \<open>'s\<close> (the object and the device behind it); a data pointer
  is the value before and after the call.
\<close>

section \<open>Errors and endpoints (ll_io_endpoint.c)\<close>

datatype llio_err =
  LLIO_SUCCESS | LLIO_ERR_ALLOC | LLIO_ERR_FUNC_NOT_IMPL | LLIO_ERR_INV_FUNC_PARAM
| LLIO_ERR_SET_ENDP | LLIO_ERR_DEV_CLOSE | LLIO_ERR_CONN

fun llio_err_code :: "llio_err \<Rightarrow> int" where
  "llio_err_code LLIO_SUCCESS = 0"
| "llio_err_code LLIO_ERR_ALLOC = 1"
| "llio_err_code LLIO_ERR_FUNC_NOT_IMPL = 2"
| "llio_err_code LLIO_ERR_INV_FUNC_PARAM = 3"
| "llio_err_code LLIO_ERR_SET_ENDP = 4"
| "llio_err_code LLIO_ERR_DEV_CLOSE = 5"
| "llio_err_code LLIO_ERR_CONN = 6"

record llio_endpoint =
  ep_open :: bool
  ep_name :: "string option"

definition s_llio_endpoint_set_name ::
  "(nat \<Rightarrow> bool) \<Rightarrow> llio_endpoint \<Rightarrow> string option \<Rightarrow> llio_err \<times> llio_endpoint" where
  "s_llio_endpoint_set_name al self name =
     (if ep_open self then (LLIO_ERR_SET_ENDP, self)
      else case name of
        None \<Rightarrow> (LLIO_SUCCESS, self)
      | Some n \<Rightarrow> if al 0 then (LLIO_SUCCESS, self\<lparr>ep_name := Some n\<rparr>)
                  else (LLIO_ERR_ALLOC, self\<lparr>ep_name := None\<rparr>))"

definition llio_endpoint_set_name ::
  "(nat \<Rightarrow> bool) \<Rightarrow> llio_endpoint \<Rightarrow> string option \<Rightarrow> llio_err \<times> llio_endpoint" where
  "llio_endpoint_set_name al self name = s_llio_endpoint_set_name al self name"

definition llio_endpoint_new :: "(nat \<Rightarrow> bool) \<Rightarrow> string option \<Rightarrow> llio_endpoint option" where
  "llio_endpoint_new al ep =
     (if \<not> al 0 then None
      else let (err, self) = s_llio_endpoint_set_name (\<lambda>n. al (n + 1)) \<lparr>ep_open = False, ep_name = None\<rparr> ep
        in if err = LLIO_SUCCESS then Some self else None)"

definition llio_endpoint_destroy :: "llio_endpoint option \<Rightarrow> llio_err \<times> llio_endpoint option" where
  "llio_endpoint_destroy self_p = (LLIO_SUCCESS, None)"

definition llio_endpoint_set_open :: "llio_endpoint \<Rightarrow> bool \<Rightarrow> llio_err \<times> llio_endpoint" where
  "llio_endpoint_set_open self op = (LLIO_SUCCESS, self\<lparr>ep_open := op\<rparr>)"

definition llio_endpoint_get_open :: "llio_endpoint \<Rightarrow> bool" where
  "llio_endpoint_get_open self = ep_open self"

definition s_llio_endpoint_get_name :: "llio_endpoint \<Rightarrow> string option" where
  "s_llio_endpoint_get_name self = ep_name self"

definition llio_endpoint_get_name :: "llio_endpoint \<Rightarrow> string option" where
  "llio_endpoint_get_name self = s_llio_endpoint_get_name self"

text \<open>\<open>strdup\<close> of a null name is undefined; the inner \<open>option\<close> is the copy.\<close>

definition s_llio_endpoint_clone_name :: "(nat \<Rightarrow> bool) \<Rightarrow> llio_endpoint \<Rightarrow> string option option" where
  "s_llio_endpoint_clone_name al self =
     (case ep_name self of None \<Rightarrow> None | Some n \<Rightarrow> Some (if al 0 then Some n else None))"

definition llio_endpoint_clone_name :: "(nat \<Rightarrow> bool) \<Rightarrow> llio_endpoint \<Rightarrow> string option option" where
  "llio_endpoint_clone_name al self = s_llio_endpoint_clone_name al self"

section \<open>The object (ll_io_core.c)\<close>

text \<open>\<open>llio_new\<close> requires an endpoint and nothing ever sets it to null, so it is a plain value.\<close>

record 'd llio =
  dev_handler :: "'d option"
  llio_name :: string
  verbose :: int
  sdb_prefix_addr :: u64
  endpoint :: llio_endpoint

definition llio_new :: "(nat \<Rightarrow> bool) \<Rightarrow> string \<Rightarrow> string \<Rightarrow> int \<Rightarrow> 'd llio option" where
  "llio_new al nm ep verb =
     (if \<not> al 0 then None
      else if \<not> al 1 then None
      else case llio_endpoint_new (\<lambda>n. al (n + 2)) (Some ep) of
        None \<Rightarrow> None
      | Some e \<Rightarrow> Some \<lparr>dev_handler = None, llio_name = nm, verbose = verb, sdb_prefix_addr = 0, endpoint = e\<rparr>)"

definition llio_destroy :: "'d llio option \<Rightarrow> llio_err \<times> 'd llio option" where
  "llio_destroy self_p = (LLIO_SUCCESS, None)"

definition s_llio_get_endpoint_open :: "'d llio \<Rightarrow> bool" where
  "s_llio_get_endpoint_open self = llio_endpoint_get_open (endpoint self)"

definition llio_get_endpoint_open :: "'d llio \<Rightarrow> bool" where
  "llio_get_endpoint_open self = s_llio_get_endpoint_open self"

text \<open>The endpoint is replaced only when the present one is open.\<close>

definition llio_set_endpoint :: "'d llio \<Rightarrow> llio_endpoint \<Rightarrow> llio_err \<times> 'd llio" where
  "llio_set_endpoint self ep =
     (if \<not> s_llio_get_endpoint_open self then (LLIO_ERR_SET_ENDP, self)
      else let (err, _) = llio_endpoint_destroy (Some (endpoint self))
        in if err \<noteq> LLIO_SUCCESS then (LLIO_ERR_SET_ENDP, self)
           else (err, self\<lparr>endpoint := ep\<rparr>))"

definition llio_get_endpoint :: "'d llio \<Rightarrow> llio_endpoint" where
  "llio_get_endpoint self = endpoint self"

definition llio_set_endpoint_open :: "'d llio \<Rightarrow> bool \<Rightarrow> llio_err \<times> 'd llio" where
  "llio_set_endpoint_open self op =
     (let (err, e) = llio_endpoint_set_open (endpoint self) op in (err, self\<lparr>endpoint := e\<rparr>))"

definition llio_set_endpoint_name :: "(nat \<Rightarrow> bool) \<Rightarrow> 'd llio \<Rightarrow> string option \<Rightarrow> llio_err \<times> 'd llio" where
  "llio_set_endpoint_name al self name =
     (let (err, e) = llio_endpoint_set_name al (endpoint self) name in (err, self\<lparr>endpoint := e\<rparr>))"

definition llio_get_endpoint_name :: "'d llio \<Rightarrow> string option" where
  "llio_get_endpoint_name self = llio_endpoint_get_name (endpoint self)"

definition llio_clone_endpoint_name :: "(nat \<Rightarrow> bool) \<Rightarrow> 'd llio \<Rightarrow> string option option" where
  "llio_clone_endpoint_name al self = llio_endpoint_clone_name al (endpoint self)"

definition llio_set_dev_handler :: "'d llio \<Rightarrow> 'd option \<Rightarrow> llio_err \<times> 'd llio" where
  "llio_set_dev_handler self d = (LLIO_SUCCESS, self\<lparr>dev_handler := d\<rparr>)"

definition llio_get_dev_handler :: "'d llio \<Rightarrow> 'd option" where
  "llio_get_dev_handler self = dev_handler self"

definition llio_set_sdb_prefix_addr :: "'d llio \<Rightarrow> u64 \<Rightarrow> llio_err \<times> 'd llio" where
  "llio_set_sdb_prefix_addr self addr = (LLIO_SUCCESS, self\<lparr>sdb_prefix_addr := addr\<rparr>)"

definition llio_get_sdb_prefix_addr :: "'d llio \<Rightarrow> u64" where
  "llio_get_sdb_prefix_addr self = sdb_prefix_addr self"

section \<open>The operations of a device class\<close>

record 's llio_ops =
  ops_name :: string
  op_open :: "(llio_endpoint option \<Rightarrow> 's \<Rightarrow> (int \<times> 's) option) option"
  op_reset :: "('s \<Rightarrow> (int \<times> 's) option) option"
  op_release :: "(llio_endpoint option \<Rightarrow> 's \<Rightarrow> (int \<times> 's) option) option"
  op_read_16 :: "(u64 \<Rightarrow> u16 \<Rightarrow> 's \<Rightarrow> (int \<times> u16 \<times> 's) option) option"
  op_read_32 :: "(u64 \<Rightarrow> u32 \<Rightarrow> 's \<Rightarrow> (int \<times> u32 \<times> 's) option) option"
  op_read_64 :: "(u64 \<Rightarrow> u64 \<Rightarrow> 's \<Rightarrow> (int \<times> u64 \<times> 's) option) option"
  op_write_16 :: "(u64 \<Rightarrow> u16 \<Rightarrow> 's \<Rightarrow> (int \<times> 's) option) option"
  op_write_32 :: "(u64 \<Rightarrow> u32 \<Rightarrow> 's \<Rightarrow> (int \<times> 's) option) option"
  op_write_64 :: "(u64 \<Rightarrow> u64 \<Rightarrow> 's \<Rightarrow> (int \<times> 's) option) option"
  op_read_block :: "(u64 \<Rightarrow> u64 \<Rightarrow> u8 list \<Rightarrow> 's \<Rightarrow> (int \<times> u8 list \<times> 's) option) option"
  op_write_block :: "(u64 \<Rightarrow> u64 \<Rightarrow> u8 list \<Rightarrow> 's \<Rightarrow> (int \<times> 's) option) option"
  op_read_dma :: "(u64 \<Rightarrow> u64 \<Rightarrow> u8 list \<Rightarrow> 's \<Rightarrow> (int \<times> u8 list \<times> 's) option) option"
  op_write_dma :: "(u64 \<Rightarrow> u64 \<Rightarrow> u8 list \<Rightarrow> 's \<Rightarrow> (int \<times> 's) option) option"

text \<open>The wrapper around every operation: a null operation gives \<open>-LLIO_ERR_FUNC_NOT_IMPL\<close>.\<close>

definition not_impl :: int where
  "not_impl = - llio_err_code LLIO_ERR_FUNC_NOT_IMPL"

definition llio_get_ops_name :: "'s llio_ops option \<Rightarrow> string option" where
  "llio_get_ops_name ops = map_option ops_name ops"

definition llio_open :: "'s llio_ops \<Rightarrow> llio_endpoint option \<Rightarrow> 's \<Rightarrow> (int \<times> 's) option" where
  "llio_open ops ep s = (case op_open ops of None \<Rightarrow> Some (not_impl, s) | Some f \<Rightarrow> f ep s)"

definition llio_reset :: "'s llio_ops \<Rightarrow> 's \<Rightarrow> (int \<times> 's) option" where
  "llio_reset ops s = (case op_reset ops of None \<Rightarrow> Some (not_impl, s) | Some f \<Rightarrow> f s)"

definition llio_release :: "'s llio_ops \<Rightarrow> llio_endpoint option \<Rightarrow> 's \<Rightarrow> (int \<times> 's) option" where
  "llio_release ops ep s = (case op_release ops of None \<Rightarrow> Some (not_impl, s) | Some f \<Rightarrow> f ep s)"

definition llio_read_16 :: "'s llio_ops \<Rightarrow> u64 \<Rightarrow> u16 \<Rightarrow> 's \<Rightarrow> (int \<times> u16 \<times> 's) option" where
  "llio_read_16 ops offs data s =
     (case op_read_16 ops of None \<Rightarrow> Some (not_impl, data, s) | Some f \<Rightarrow> f offs data s)"

definition llio_read_32 :: "'s llio_ops \<Rightarrow> u64 \<Rightarrow> u32 \<Rightarrow> 's \<Rightarrow> (int \<times> u32 \<times> 's) option" where
  "llio_read_32 ops offs data s =
     (case op_read_32 ops of None \<Rightarrow> Some (not_impl, data, s) | Some f \<Rightarrow> f offs data s)"

definition llio_read_64 :: "'s llio_ops \<Rightarrow> u64 \<Rightarrow> u64 \<Rightarrow> 's \<Rightarrow> (int \<times> u64 \<times> 's) option" where
  "llio_read_64 ops offs data s =
     (case op_read_64 ops of None \<Rightarrow> Some (not_impl, data, s) | Some f \<Rightarrow> f offs data s)"

definition llio_write_16 :: "'s llio_ops \<Rightarrow> u64 \<Rightarrow> u16 \<Rightarrow> 's \<Rightarrow> (int \<times> 's) option" where
  "llio_write_16 ops offs data s =
     (case op_write_16 ops of None \<Rightarrow> Some (not_impl, s) | Some f \<Rightarrow> f offs data s)"

definition llio_write_32 :: "'s llio_ops \<Rightarrow> u64 \<Rightarrow> u32 \<Rightarrow> 's \<Rightarrow> (int \<times> 's) option" where
  "llio_write_32 ops offs data s =
     (case op_write_32 ops of None \<Rightarrow> Some (not_impl, s) | Some f \<Rightarrow> f offs data s)"

definition llio_write_64 :: "'s llio_ops \<Rightarrow> u64 \<Rightarrow> u64 \<Rightarrow> 's \<Rightarrow> (int \<times> 's) option" where
  "llio_write_64 ops offs data s =
     (case op_write_64 ops of None \<Rightarrow> Some (not_impl, s) | Some f \<Rightarrow> f offs data s)"

definition llio_read_block ::
  "'s llio_ops \<Rightarrow> u64 \<Rightarrow> u64 \<Rightarrow> u8 list \<Rightarrow> 's \<Rightarrow> (int \<times> u8 list \<times> 's) option" where
  "llio_read_block ops offs sz data s =
     (case op_read_block ops of None \<Rightarrow> Some (not_impl, data, s) | Some f \<Rightarrow> f offs sz data s)"

definition llio_write_block ::
  "'s llio_ops \<Rightarrow> u64 \<Rightarrow> u64 \<Rightarrow> u8 list \<Rightarrow> 's \<Rightarrow> (int \<times> 's) option" where
  "llio_write_block ops offs sz data s =
     (case op_write_block ops of None \<Rightarrow> Some (not_impl, s) | Some f \<Rightarrow> f offs sz data s)"

definition llio_read_dma ::
  "'s llio_ops \<Rightarrow> u64 \<Rightarrow> u64 \<Rightarrow> u8 list \<Rightarrow> 's \<Rightarrow> (int \<times> u8 list \<times> 's) option" where
  "llio_read_dma ops offs sz data s =
     (case op_read_dma ops of None \<Rightarrow> Some (not_impl, data, s) | Some f \<Rightarrow> f offs sz data s)"

definition llio_write_dma ::
  "'s llio_ops \<Rightarrow> u64 \<Rightarrow> u64 \<Rightarrow> u8 list \<Rightarrow> 's \<Rightarrow> (int \<times> 's) option" where
  "llio_write_dma ops offs sz data s =
     (case op_write_dma ops of None \<Rightarrow> Some (not_impl, s) | Some f \<Rightarrow> f offs sz data s)"

section \<open>Facts\<close>

lemma not_impl_val [simp]: "not_impl = -2"
  by (simp add: not_impl_def)

lemma set_name_open: "ep_open e \<Longrightarrow> s_llio_endpoint_set_name al e nm = (LLIO_ERR_SET_ENDP, e)"
  by (simp add: s_llio_endpoint_set_name_def)

section \<open>The interface to the components above\<close>

text \<open>A register bus: 32-bit reads and writes on a state with a view that gives the register at
  each address. The parameter readers and writers and the message servers rely on these laws.\<close>

locale reg_bus =
  fixes rd :: "'s \<Rightarrow> u64 \<Rightarrow> u32 \<Rightarrow> (int \<times> u32 \<times> 's) option"
    and wr :: "'s \<Rightarrow> u64 \<Rightarrow> u32 \<Rightarrow> (int \<times> 's) option"
    and view :: "'s \<Rightarrow> u64 \<Rightarrow> u32"
    and good :: "'s \<Rightarrow> bool"
    and mapped :: "u64 \<Rightarrow> bool"
  assumes rd_view: "good s \<Longrightarrow> mapped a \<Longrightarrow>
      \<exists>s'. rd s a d = Some (4, view s a, s') \<and> good s' \<and> (\<forall>b. mapped b \<longrightarrow> view s' b = view s b)"
    and wr_view: "good s \<Longrightarrow> mapped a \<Longrightarrow>
      \<exists>s'. wr s a v = Some (4, s') \<and> good s' \<and> (\<forall>b. mapped b \<longrightarrow> view s' b = (if b = a then v else view s b))"
begin

text \<open>A value written is read back, and the other registers keep theirs.\<close>

lemma write_read:
  assumes "good s" and "mapped a" and "mapped b"
  shows "\<exists>s1 s2. wr s a v = Some (4, s1) \<and> rd s1 b d = Some (4, if b = a then v else view s b, s2) \<and>
    good s2 \<and> (\<forall>c. mapped c \<longrightarrow> view s2 c = (if c = a then v else view s c))"
proof -
  obtain s1 where s1: "wr s a v = Some (4, s1)" "good s1"
    "\<forall>c. mapped c \<longrightarrow> view s1 c = (if c = a then v else view s c)" using wr_view [OF assms(1,2)] by blast
  obtain s2 where "rd s1 b d = Some (4, view s1 b, s2)" "good s2"
    "\<forall>c. mapped c \<longrightarrow> view s2 c = view s1 c" using rd_view [OF s1(2) assms(3)] by blast
  with s1 assms(3) show ?thesis by auto
qed

end

section \<open>Properties\<close>

text \<open>An endpoint that is not open cannot be replaced and one that is open can:
  \<open>llio_set_endpoint\<close> fails on every closed endpoint, leaving the object as it was, and on an open
  one installs the new endpoint, which may be closed, so that the object then counts as closed
  with its device still attached. Its comment says the opposite. The name, in contrast, can be
  set only while the endpoint is closed.\<close>

theorem llio_set_endpoint_inverted:
  "llio_set_endpoint self ep =
     (if llio_get_endpoint_open self then (LLIO_SUCCESS, self\<lparr>endpoint := ep\<rparr>)
      else (LLIO_ERR_SET_ENDP, self)) \<and>
   llio_set_endpoint_name al self (Some nm) =
     (if llio_get_endpoint_open self then (LLIO_ERR_SET_ENDP, self)
      else if al 0 then (LLIO_SUCCESS, self\<lparr>endpoint := (endpoint self)\<lparr>ep_name := Some nm\<rparr>\<rparr>)
      else (LLIO_ERR_ALLOC, self\<lparr>endpoint := (endpoint self)\<lparr>ep_name := None\<rparr>\<rparr>))"
  by (simp add: llio_set_endpoint_def llio_get_endpoint_open_def s_llio_get_endpoint_open_def
      llio_endpoint_get_open_def llio_endpoint_destroy_def llio_set_endpoint_name_def
      llio_endpoint_set_name_def s_llio_endpoint_set_name_def)

end
