(* ===== verification/Pcie.thy ===== *)
theory Pcie
  imports Llio
begin

text \<open>
  libs/llio/src/ops/ll_io_pcie.c with the register map of pcie_regs.h: the operations of the PCIe
  device class. A 64-bit address selects one of three windows (BARs) of the board by its top four
  bits; BAR2 (SDRAM) and BAR4 (Wishbone) show one page at a time, chosen by a page register in
  BAR0, so every access first sets the page. Blocks are cut into pages; a block that begins with
  the pattern the hardware returns on a timeout is retried.

  The board and the kernel driver are the parameter \<open>H\<close>, a record of what the code does with
  them; an access that faults is \<open>None\<close>. Data pointers of blocks are byte buffers with an offset.
\<close>

section \<open>The register map (pcie_regs.h)\<close>

definition PCIE_SDRAM_PG_MAX :: nat where [regs]: "PCIE_SDRAM_PG_MAX = 20"
definition PCIE_WB_PG_MAX :: nat where [regs]: "PCIE_WB_PG_MAX = 16"
definition PCIE_SDRAM_PG_MASK :: u64 where [regs]: "PCIE_SDRAM_PG_MASK = 2 ^ 20 - 1"
definition PCIE_WB_PG_MASK :: u64 where [regs]: "PCIE_WB_PG_MASK = 2 ^ 16 - 1"

definition PCIE_CFG_REG_SDRAM_PG :: u64 where [regs]: "PCIE_CFG_REG_SDRAM_PG = push_bit 2 7"
definition PCIE_CFG_REG_WB_PG :: u64 where [regs]: "PCIE_CFG_REG_WB_PG = push_bit 2 9"
definition PCIE_CFG_REG_DMA_US_BASE :: u64 where [regs]: "PCIE_CFG_REG_DMA_US_BASE = push_bit 2 11"
definition PCIE_CFG_REG_DMA_DS_BASE :: u64 where [regs]: "PCIE_CFG_REG_DMA_DS_BASE = push_bit 2 20"
definition PCIE_CFG_REG_DMA_PAH :: u64 where [regs]: "PCIE_CFG_REG_DMA_PAH = push_bit 2 0"
definition PCIE_CFG_REG_DMA_PAL :: u64 where [regs]: "PCIE_CFG_REG_DMA_PAL = push_bit 2 1"
definition PCIE_CFG_REG_DMA_HAH :: u64 where [regs]: "PCIE_CFG_REG_DMA_HAH = push_bit 2 2"
definition PCIE_CFG_REG_DMA_HAL :: u64 where [regs]: "PCIE_CFG_REG_DMA_HAL = push_bit 2 3"
definition PCIE_CFG_REG_DMA_BDAH :: u64 where [regs]: "PCIE_CFG_REG_DMA_BDAH = push_bit 2 4"
definition PCIE_CFG_REG_DMA_BDAL :: u64 where [regs]: "PCIE_CFG_REG_DMA_BDAL = push_bit 2 5"
definition PCIE_CFG_REG_DMA_LENG :: u64 where [regs]: "PCIE_CFG_REG_DMA_LENG = push_bit 2 6"
definition PCIE_CFG_REG_DMA_CTRL :: u64 where [regs]: "PCIE_CFG_REG_DMA_CTRL = push_bit 2 7"
definition PCIE_CFG_REG_DMA_STA :: u64 where [regs]: "PCIE_CFG_REG_DMA_STA = push_bit 2 8"
definition PCIE_CFG_REG_TX_CTRL :: u64 where [regs]: "PCIE_CFG_REG_TX_CTRL = push_bit 2 30"
definition PCIE_CFG_REG_EB_STACON :: u64 where [regs]: "PCIE_CFG_REG_EB_STACON = push_bit 2 36"
definition PCIE_CFG_TX_CTRL_CHANNEL_RST :: u32 where [regs]: "PCIE_CFG_TX_CTRL_CHANNEL_RST = 0x0A"

definition WBGEN2_PCIE_GEN_MASK :: "nat \<Rightarrow> nat \<Rightarrow> u64" where
  "WBGEN2_PCIE_GEN_MASK offset sz = push_bit offset (push_bit sz 1 - 1)"

definition WBGEN2_PCIE_GEN_WRITE :: "u64 \<Rightarrow> nat \<Rightarrow> nat \<Rightarrow> u64" where
  "WBGEN2_PCIE_GEN_WRITE val offset sz = push_bit offset (val AND (push_bit sz 1 - 1))"

definition WBGEN2_PCIE_GEN_READ :: "u64 \<Rightarrow> nat \<Rightarrow> nat \<Rightarrow> u64" where
  "WBGEN2_PCIE_GEN_READ reg offset sz = drop_bit offset reg AND (push_bit sz 1 - 1)"

definition PCIE_CFG_DMA_PAH_R :: "u64 \<Rightarrow> u64" where "PCIE_CFG_DMA_PAH_R reg = WBGEN2_PCIE_GEN_READ reg 32 32"
definition PCIE_CFG_DMA_PAL_R :: "u64 \<Rightarrow> u64" where "PCIE_CFG_DMA_PAL_R reg = WBGEN2_PCIE_GEN_READ reg 0 32"
definition PCIE_CFG_DMA_HAH_R :: "u64 \<Rightarrow> u64" where "PCIE_CFG_DMA_HAH_R reg = WBGEN2_PCIE_GEN_READ reg 32 32"
definition PCIE_CFG_DMA_HAL_R :: "u64 \<Rightarrow> u64" where "PCIE_CFG_DMA_HAL_R reg = WBGEN2_PCIE_GEN_READ reg 0 32"
definition PCIE_CFG_DMA_BDAH_R :: "u64 \<Rightarrow> u64" where "PCIE_CFG_DMA_BDAH_R reg = WBGEN2_PCIE_GEN_READ reg 32 32"
definition PCIE_CFG_DMA_BDAL_R :: "u64 \<Rightarrow> u64" where "PCIE_CFG_DMA_BDAL_R reg = WBGEN2_PCIE_GEN_READ reg 0 32"
definition PCIE_CFG_DMA_LENG_R :: "u64 \<Rightarrow> u64" where "PCIE_CFG_DMA_LENG_R reg = WBGEN2_PCIE_GEN_READ reg 0 32"
definition PCIE_CFG_DMA_CTRL_AINC :: u64 where "PCIE_CFG_DMA_CTRL_AINC = WBGEN2_PCIE_GEN_MASK 15 1"
definition PCIE_CFG_DMA_CTRL_BAR_W :: "u64 \<Rightarrow> u64" where
  "PCIE_CFG_DMA_CTRL_BAR_W val = WBGEN2_PCIE_GEN_WRITE val 16 3"
definition PCIE_CFG_DMA_CTRL_LAST :: u64 where "PCIE_CFG_DMA_CTRL_LAST = WBGEN2_PCIE_GEN_MASK 24 1"
definition PCIE_CFG_DMA_CTRL_VALID :: u64 where "PCIE_CFG_DMA_CTRL_VALID = WBGEN2_PCIE_GEN_MASK 25 1"
definition PCIE_CFG_DMA_STA_DONE :: u64 where "PCIE_CFG_DMA_STA_DONE = WBGEN2_PCIE_GEN_MASK 0 1"
definition PCIE_CFG_DMA_STA_BUSY :: u64 where "PCIE_CFG_DMA_STA_BUSY = WBGEN2_PCIE_GEN_MASK 1 1"
definition PCIE_CFG_DMA_STA_TIMEOUT :: u64 where "PCIE_CFG_DMA_STA_TIMEOUT = WBGEN2_PCIE_GEN_MASK 4 1"

definition BAR0NO :: u64 where [regs]: "BAR0NO = 0"
definition BAR2NO :: u64 where [regs]: "BAR2NO = 2"
definition BAR4NO :: u64 where [regs]: "BAR4NO = 4"
definition PCIE_ADDR_BAR_SHIFT :: nat where [regs]: "PCIE_ADDR_BAR_SHIFT = 60"
definition PCIE_ADDR_BAR_MASK :: u64 where
  [regs]: "PCIE_ADDR_BAR_MASK = push_bit PCIE_ADDR_BAR_SHIFT (push_bit 4 1 - 1)"
definition PCIE_ADDR_GEN_MASK :: u64 where [regs]: "PCIE_ADDR_GEN_MASK = push_bit 60 1 - 1"
definition BAR0_ADDR :: u64 where "BAR0_ADDR = push_bit PCIE_ADDR_BAR_SHIFT BAR0NO"
definition BAR2_ADDR :: u64 where "BAR2_ADDR = push_bit PCIE_ADDR_BAR_SHIFT BAR2NO"
definition BAR4_ADDR :: u64 where "BAR4_ADDR = push_bit PCIE_ADDR_BAR_SHIFT BAR4NO"

definition PCIE_ADDR_BAR :: "u64 \<Rightarrow> u64" where
  "PCIE_ADDR_BAR addr = drop_bit PCIE_ADDR_BAR_SHIFT (addr AND PCIE_ADDR_BAR_MASK)"
definition PCIE_ADDR_GEN :: "u64 \<Rightarrow> u64" where
  "PCIE_ADDR_GEN addr = addr AND PCIE_ADDR_GEN_MASK"
definition PCIE_ADDR_SDRAM_PG_OFFS :: "u64 \<Rightarrow> u64" where
  "PCIE_ADDR_SDRAM_PG_OFFS addr = addr AND PCIE_SDRAM_PG_MASK"
definition PCIE_ADDR_SDRAM_PG :: "u64 \<Rightarrow> u64" where
  "PCIE_ADDR_SDRAM_PG addr = drop_bit PCIE_SDRAM_PG_MAX (addr AND NOT PCIE_SDRAM_PG_MASK)"
definition PCIE_ADDR_WB_PG_OFFS :: "u64 \<Rightarrow> u64" where
  "PCIE_ADDR_WB_PG_OFFS addr = addr AND PCIE_WB_PG_MASK"
definition PCIE_ADDR_WB_PG :: "u64 \<Rightarrow> u64" where
  "PCIE_ADDR_WB_PG addr = drop_bit PCIE_WB_PG_MAX (addr AND NOT PCIE_WB_PG_MASK)"

section \<open>The board and the driver\<close>

text \<open>BAR0 and BAR2 are accessed as 32-bit words at a byte address, BAR4 as 64-bit cells by index.
  \<open>kmem_get n\<close> and \<open>kmem_put\<close> are the first bytes of the DMA buffer.\<close>

record 'd pcie_hw =
  bar_rd :: "u64 \<Rightarrow> u64 \<Rightarrow> 'd \<Rightarrow> (u32 \<times> 'd) option"
  bar_wr :: "u64 \<Rightarrow> u64 \<Rightarrow> u32 \<Rightarrow> 'd \<Rightarrow> 'd option"
  bar4_rd :: "u64 \<Rightarrow> 'd \<Rightarrow> (u64 \<times> 'd) option"
  bar4_wr :: "u64 \<Rightarrow> u64 \<Rightarrow> 'd \<Rightarrow> 'd option"
  pd_open :: "string option \<Rightarrow> 'd \<Rightarrow> int \<times> 'd"
  pd_close :: "'d \<Rightarrow> 'd"
  pd_mapBAR :: "u64 \<Rightarrow> 'd \<Rightarrow> bool \<times> 'd"
  pd_unmapBAR :: "u64 \<Rightarrow> 'd \<Rightarrow> 'd"
  pd_getBARsize :: "u64 \<Rightarrow> 'd \<Rightarrow> u32"
  pd_allocKernelMemory :: "nat \<Rightarrow> 'd \<Rightarrow> u64 option \<times> 'd"
  pd_freeKernelMemory :: "'d \<Rightarrow> 'd"
  kmem_get :: "nat \<Rightarrow> 'd \<Rightarrow> u8 list option"
  kmem_put :: "u8 list \<Rightarrow> 'd \<Rightarrow> 'd option"

definition BAR_RW_8 :: "'d pcie_hw \<Rightarrow> u64 \<Rightarrow> u64 \<Rightarrow> u32 \<Rightarrow> bool \<Rightarrow> 'd \<Rightarrow> (u32 \<times> 'd) option" where
  "BAR_RW_8 H bar addr data rw d =
     (if rw then bar_rd H bar addr d
      else do { d' \<leftarrow> bar_wr H bar addr data d; Some (data, d') })"

definition BAR0_RW :: "'d pcie_hw \<Rightarrow> u64 \<Rightarrow> u32 \<Rightarrow> bool \<Rightarrow> 'd \<Rightarrow> (u32 \<times> 'd) option" where
  "BAR0_RW H addr data rw d = BAR_RW_8 H BAR0NO addr data rw d"

definition BAR2_RW :: "'d pcie_hw \<Rightarrow> u64 \<Rightarrow> u32 \<Rightarrow> bool \<Rightarrow> 'd \<Rightarrow> (u32 \<times> 'd) option" where
  "BAR2_RW H addr data rw d = BAR_RW_8 H BAR2NO addr data rw d"

definition BAR4_RW :: "'d pcie_hw \<Rightarrow> u64 \<Rightarrow> u32 \<Rightarrow> bool \<Rightarrow> 'd \<Rightarrow> (u32 \<times> 'd) option" where
  "BAR4_RW H addr data rw d =
     (if rw then do { (v, d') \<leftarrow> bar4_rd H addr d; Some (ucast v, d') }
      else do { d' \<leftarrow> bar4_wr H addr (ucast data) d; Some (data, d') })"

text \<open>The word \<open>i\<close> bytes into a buffer.\<close>

definition buf_get :: "u8 list \<Rightarrow> nat \<Rightarrow> u32 option" where
  "buf_get buf i = rd_word 4 (drop i buf)"

definition buf_set :: "u8 list \<Rightarrow> nat \<Rightarrow> u32 \<Rightarrow> u8 list option" where
  "buf_set buf i w = (if length buf < i + 4 then None else Some (take i buf @ le_bytes 4 w @ drop (i + 4) buf))"

definition rw_elem ::
  "(u64 \<Rightarrow> u32 \<Rightarrow> bool \<Rightarrow> 'd \<Rightarrow> (u32 \<times> 'd) option) \<Rightarrow> u64 \<Rightarrow> nat \<Rightarrow> bool \<Rightarrow> u8 list \<times> 'd \<Rightarrow>
     (u8 list \<times> 'd) option" where
  "rw_elem access addr i rw bd =
     (case bd of (buf, d) \<Rightarrow> do {
        w \<leftarrow> (if rw then Some 0 else buf_get buf i);
        (v, d') \<leftarrow> access addr w rw d;
        buf' \<leftarrow> (if rw then buf_set buf i v else Some buf);
        Some (buf', d') })"

text \<open>The loops of the block macros: \<open>n\<close> elements are left, the next one is \<open>j\<close>; the buffer offset
  of \<open>datap\<close> is \<open>dp\<close>.\<close>

fun rw_elems ::
  "(u64 \<Rightarrow> u32 \<Rightarrow> bool \<Rightarrow> 'd \<Rightarrow> (u32 \<times> 'd) option) \<Rightarrow> nat \<Rightarrow> u32 \<Rightarrow> u64 \<Rightarrow> nat \<Rightarrow> bool \<Rightarrow>
     u8 list \<times> 'd \<Rightarrow> (u8 list \<times> 'd) option" where
  "rw_elems access 0 j addr dp rw bd = Some bd"
| "rw_elems access (Suc n) j addr dp rw bd = do {
     bd' \<leftarrow> rw_elem access (addr + ucast (push_bit 2 j)) (dp + 4 * unat j) rw bd;
     rw_elems access n (j + 1) addr dp rw bd' }"

definition BAR2_RW_BLOCK ::
  "'d pcie_hw \<Rightarrow> u32 \<Rightarrow> u32 \<Rightarrow> nat \<Rightarrow> bool \<Rightarrow> u8 list \<times> 'd \<Rightarrow> (u8 list \<times> 'd) option" where
  "BAR2_RW_BLOCK H addr sz dp rw bd = rw_elems (BAR2_RW H) (unat sz div 4) 0 (ucast addr) dp rw bd"

definition BAR4_RW_BLOCK ::
  "'d pcie_hw \<Rightarrow> u32 \<Rightarrow> u32 \<Rightarrow> nat \<Rightarrow> bool \<Rightarrow> u8 list \<times> 'd \<Rightarrow> (u8 list \<times> 'd) option" where
  "BAR4_RW_BLOCK H addr sz dp rw bd = do {
     bd' \<leftarrow> rw_elems (BAR4_RW H) (unat sz div 4) 0 (ucast addr) dp rw bd;
     if unat sz mod 4 \<noteq> 0
     then rw_elem (BAR4_RW H) (ucast (addr + push_bit 2 (sz div 4))) (dp + 4 * (unat sz div 4)) rw bd'
     else Some bd' }"

definition SET_PG :: "'d pcie_hw \<Rightarrow> u64 \<Rightarrow> u32 \<Rightarrow> 'd \<Rightarrow> 'd option" where
  "SET_PG H which num d = bar_wr H BAR0NO (push_bit 2 (drop_bit 2 which)) num d"

definition SET_SDRAM_PG :: "'d pcie_hw \<Rightarrow> u32 \<Rightarrow> 'd \<Rightarrow> 'd option" where
  "SET_SDRAM_PG H num d = SET_PG H PCIE_CFG_REG_SDRAM_PG num d"

definition SET_WB_PG :: "'d pcie_hw \<Rightarrow> u32 \<Rightarrow> 'd \<Rightarrow> 'd option" where
  "SET_WB_PG H num d = SET_PG H PCIE_CFG_REG_WB_PG num d"

section \<open>The device handler\<close>

definition READ_FROM_BAR :: bool where "READ_FROM_BAR = True"
definition WRITE_TO_BAR :: bool where "WRITE_TO_BAR = False"
definition PCIE_TIMEOUT_MAX_TRIES :: nat where "PCIE_TIMEOUT_MAX_TRIES = 32"
definition PCIE_TIMEOUT_PATT_SIZE :: nat where "PCIE_TIMEOUT_PATT_SIZE = 32"
definition PCIE_DMA_KERNEL_BUFF_SIZE :: nat where "PCIE_DMA_KERNEL_BUFF_SIZE = 2 ^ 20"

definition pcie_timeout_patt :: "u8 list" where
  "pcie_timeout_patt = replicate PCIE_TIMEOUT_PATT_SIZE 0xFF"

text \<open>The handler holds the sizes of the windows and the physical address of the DMA buffer; the
  mapped windows themselves are behind \<open>H\<close>.\<close>

record llio_dev_pcie =
  bar0_size :: u32
  bar2_size :: u32
  bar4_size :: u32
  kmem_pa :: u64

datatype pcie_dev_dma_type = PCIE_DMA_US | PCIE_DMA_DS

record 'd pcie =
  pc_llio :: "llio_dev_pcie llio"
  pc_dev :: 'd

definition pc_handler :: "'d pcie \<Rightarrow> llio_dev_pcie option" where
  "pc_handler self = llio_get_dev_handler (pc_llio self)"

definition pc_is_open :: "'d pcie \<Rightarrow> bool" where
  "pc_is_open self = llio_get_endpoint_open (pc_llio self)"

text \<open>The clean-up labels of the constructor, from the last to the first.\<close>

definition unwind :: "'d pcie_hw \<Rightarrow> nat \<Rightarrow> 'd \<Rightarrow> 'd" where
  "unwind H mapped d =
     (let d1 = (if 3 \<le> mapped then pd_unmapBAR H BAR4NO d else d);
          d2 = (if 2 \<le> mapped then pd_unmapBAR H BAR2NO d1 else d1);
          d3 = (if 1 \<le> mapped then pd_unmapBAR H BAR0NO d2 else d2)
      in pd_close H d3)"

definition llio_dev_pcie_new ::
  "'d pcie_hw \<Rightarrow> (nat \<Rightarrow> bool) \<Rightarrow> string option \<Rightarrow> 'd \<Rightarrow> llio_dev_pcie option \<times> 'd" where
  "llio_dev_pcie_new H al dev_entry d =
     (if \<not> al 0 \<or> \<not> al 1 \<or> \<not> al 2 then (None, d)
      else let (err, d1) = pd_open H dev_entry d
        in if err \<noteq> 0 then (None, d1)
           else let (m0, d2) = pd_mapBAR H BAR0NO d1
             in if \<not> m0 then (None, unwind H 0 d2)
                else let (m2, d3) = pd_mapBAR H BAR2NO d2
                  in if \<not> m2 then (None, unwind H 1 d3)
                     else let (m4, d4) = pd_mapBAR H BAR4NO d3
                       in if \<not> m4 then (None, unwind H 2 d4)
                          else let s0 = pd_getBARsize H BAR0NO d4;
                                   s2 = pd_getBARsize H BAR2NO d4;
                                   s4 = pd_getBARsize H BAR4NO d4
                            in if s0 = 0 \<or> s2 = 0 \<or> s4 = 0 then (None, unwind H 3 d4)
                               else case pd_allocKernelMemory H PCIE_DMA_KERNEL_BUFF_SIZE d4 of
                                   (None, d5) \<Rightarrow> (None, unwind H 3 d5)
                                 | (Some pa, d5) \<Rightarrow>
                                     (Some \<lparr>bar0_size = s0, bar2_size = s2, bar4_size = s4, kmem_pa = pa\<rparr>, d5))"

definition llio_dev_pcie_destroy :: "'d pcie_hw \<Rightarrow> llio_dev_pcie option \<Rightarrow> 'd \<Rightarrow> llio_err \<times> 'd" where
  "llio_dev_pcie_destroy H self_p d =
     (case self_p of
        None \<Rightarrow> (LLIO_SUCCESS, d)
      | Some _ \<Rightarrow> (LLIO_SUCCESS, unwind H 3 (pd_freeKernelMemory H d)))"

section \<open>Single accesses\<close>

text \<open>\<open>_pcie_rw_32\<close>: the status, the value of \<open>*data\<close> and the state afterwards. The page numbers
  are \<open>int\<close> variables.\<close>

definition s_pcie_rw_32 ::
  "'d pcie_hw \<Rightarrow> u64 \<Rightarrow> u32 \<Rightarrow> bool \<Rightarrow> 'd pcie \<Rightarrow> (int \<times> u32 \<times> 'd pcie) option" where
  "s_pcie_rw_32 H offs data rw self =
     (if \<not> pc_is_open self then Some (-1, data, self)
      else case pc_handler self of
        None \<Rightarrow> Some (-1, data, self)
      | Some dev_pcie \<Rightarrow>
          let bar_no = PCIE_ADDR_BAR offs;
              full_offs = PCIE_ADDR_GEN offs
          in if bar_no = BAR0NO then do {
               (v, d) \<leftarrow> BAR0_RW H full_offs data rw (pc_dev self);
               Some (4, v, self\<lparr>pc_dev := d\<rparr>) }
             else if bar_no = BAR2NO then do {
               let pg_num = (ucast (PCIE_ADDR_SDRAM_PG full_offs) :: u32);
               let pg_offs = PCIE_ADDR_SDRAM_PG_OFFS full_offs;
               d1 \<leftarrow> SET_SDRAM_PG H pg_num (pc_dev self);
               (v, d2) \<leftarrow> BAR2_RW H pg_offs data rw d1;
               Some (4, v, self\<lparr>pc_dev := d2\<rparr>) }
             else if bar_no = BAR4NO then do {
               let pg_num = (ucast (PCIE_ADDR_WB_PG full_offs) :: u32);
               let pg_offs = PCIE_ADDR_WB_PG_OFFS full_offs;
               d1 \<leftarrow> SET_WB_PG H pg_num (pc_dev self);
               (v, d2) \<leftarrow> BAR4_RW H pg_offs data rw d1;
               Some (4, v, self\<lparr>pc_dev := d2\<rparr>) }
             else Some (-1, data, self))"

definition pcie_read_32 :: "'d pcie_hw \<Rightarrow> u64 \<Rightarrow> u32 \<Rightarrow> 'd pcie \<Rightarrow> (int \<times> u32 \<times> 'd pcie) option" where
  "pcie_read_32 H offs data self = s_pcie_rw_32 H offs data READ_FROM_BAR self"

text \<open>Both halves of a 64-bit access use the same offset; the calls are taken from left to right.\<close>

definition pcie_read_64 :: "'d pcie_hw \<Rightarrow> u64 \<Rightarrow> u64 \<Rightarrow> 'd pcie \<Rightarrow> (int \<times> u64 \<times> 'd pcie) option" where
  "pcie_read_64 H offs data self = do {
     (r1, lo, s1) \<leftarrow> s_pcie_rw_32 H offs (ucast data) READ_FROM_BAR self;
     (r2, hi, s2) \<leftarrow> s_pcie_rw_32 H offs (ucast (drop_bit 32 data)) READ_FROM_BAR s1;
     Some (r1 + r2, ucast lo OR push_bit 32 (ucast hi), s2) }"

definition pcie_write_32 :: "'d pcie_hw \<Rightarrow> u64 \<Rightarrow> u32 \<Rightarrow> 'd pcie \<Rightarrow> (int \<times> 'd pcie) option" where
  "pcie_write_32 H offs data self = do {
     (r, _, s1) \<leftarrow> s_pcie_rw_32 H offs data WRITE_TO_BAR self;
     Some (r, s1) }"

definition pcie_write_64 :: "'d pcie_hw \<Rightarrow> u64 \<Rightarrow> u64 \<Rightarrow> 'd pcie \<Rightarrow> (int \<times> 'd pcie) option" where
  "pcie_write_64 H offs data self = do {
     (r1, _, s1) \<leftarrow> s_pcie_rw_32 H offs (ucast data) WRITE_TO_BAR self;
     (r2, _, s2) \<leftarrow> s_pcie_rw_32 H offs (ucast (drop_bit 32 data)) WRITE_TO_BAR s1;
     Some (r1 + r2, s2) }"

section \<open>Reset, open, release\<close>

definition s_pcie_timeout_reset :: "'d pcie_hw \<Rightarrow> 'd pcie \<Rightarrow> (int \<times> 'd pcie) option" where
  "s_pcie_timeout_reset H self = do {
     let offs = BAR0_ADDR OR PCIE_CFG_REG_TX_CTRL;
     (r, _, s1) \<leftarrow> s_pcie_rw_32 H offs PCIE_CFG_TX_CTRL_CHANNEL_RST WRITE_TO_BAR self;
     Some (if r = 4 then 0 else 1, s1) }"

definition s_pcie_reset_fpga :: "'d pcie_hw \<Rightarrow> 'd pcie \<Rightarrow> (int \<times> 'd pcie) option" where
  "s_pcie_reset_fpga H self = do {
     let offs = BAR0_ADDR OR PCIE_CFG_REG_EB_STACON;
     (r, _, s1) \<leftarrow> s_pcie_rw_32 H offs PCIE_CFG_TX_CTRL_CHANNEL_RST WRITE_TO_BAR self;
     Some (if r = 4 then 0 else 1, s1) }"

text \<open>When the handler cannot be created the status is still 0.\<close>

definition pcie_open ::
  "'d pcie_hw \<Rightarrow> (nat \<Rightarrow> bool) \<Rightarrow> llio_endpoint option \<Rightarrow> 'd pcie \<Rightarrow> (int \<times> 'd pcie) option" where
  "pcie_open H al ep self =
     (if pc_is_open self then Some (0, self)
      else
        let (lerr, l1) = (case ep of None \<Rightarrow> (LLIO_SUCCESS, pc_llio self)
              | Some e \<Rightarrow> llio_set_endpoint (pc_llio self) e)
        in if lerr \<noteq> LLIO_SUCCESS then Some (-1, self\<lparr>pc_llio := l1\<rparr>)
           else case llio_dev_pcie_new H al (llio_get_endpoint_name l1) (pc_dev self) of
               (None, d1) \<Rightarrow> Some (0, self\<lparr>pc_llio := l1, pc_dev := d1\<rparr>)
             | (Some dev_pcie, d1) \<Rightarrow> do {
                 d2 \<leftarrow> SET_SDRAM_PG H 0 d1;
                 d3 \<leftarrow> SET_WB_PG H 0 d2;
                 let l2 = snd (llio_set_dev_handler l1 (Some dev_pcie));
                 let l3 = snd (llio_set_endpoint_open l2 True);
                 let l4 = snd (llio_set_sdb_prefix_addr l3 BAR4_ADDR);
                 Some (0, self\<lparr>pc_llio := l4, pc_dev := d3\<rparr>) })"

definition pcie_reset :: "'d pcie_hw \<Rightarrow> 'd pcie \<Rightarrow> (int \<times> 'd pcie) option" where
  "pcie_reset H self =
     (if \<not> pc_is_open self then Some (-1, self)
      else do {
        (_, s1) \<leftarrow> s_pcie_reset_fpga H self;
        (_, s2) \<leftarrow> s_pcie_timeout_reset H s1;
        Some (0, s2) })"

definition pcie_release ::
  "'d pcie_hw \<Rightarrow> llio_endpoint option \<Rightarrow> 'd pcie \<Rightarrow> (int \<times> 'd pcie) option" where
  "pcie_release H ep self =
     (if \<not> pc_is_open self then Some (0, self)
      else case pc_handler self of
        None \<Rightarrow> Some (-1, self)
      | Some dev_pcie \<Rightarrow>
          let (lerr, d1) = llio_dev_pcie_destroy H (Some dev_pcie) (pc_dev self)
          in if lerr \<noteq> LLIO_SUCCESS then Some (-1, self\<lparr>pc_dev := d1\<rparr>)
             else let l1 = snd (llio_set_dev_handler (pc_llio self) None);
                      l2 = snd (llio_set_endpoint_open l1 False)
               in Some (0, self\<lparr>pc_llio := l2, pc_dev := d1\<rparr>))"

section \<open>Blocks\<close>

text \<open>The loops over the pages of a block: a page counter of 32 bits against a bound of 64, so they
  need not end. The bound is part of the constant arguments; the loop state has the page, the
  offset in it, the bytes left, the bytes done, the offset of \<open>datap\<close>, the buffer and the board.\<close>

partial_function (option) bar2_pages ::
  "'d pcie_hw \<Rightarrow> u32 \<Rightarrow> u64 \<Rightarrow> bool \<Rightarrow> u32 \<Rightarrow> u32 \<Rightarrow> u32 \<Rightarrow> u32 \<Rightarrow> nat \<Rightarrow> u8 list \<times> 'd \<Rightarrow>
     (u32 \<times> u8 list \<times> 'd) option" where
  "bar2_pages H bar_size pg_end rw pg offs num_bytes_rem num_bytes_rw dp bd =
     (if ucast pg < pg_end then do {
        d1 \<leftarrow> SET_SDRAM_PG H pg (snd bd);
        let num_bytes_page = (if offs + num_bytes_rem > bar_size then bar_size - offs else num_bytes_rem);
        bd' \<leftarrow> BAR2_RW_BLOCK H offs num_bytes_page dp rw (fst bd, d1);
        bar2_pages H bar_size pg_end rw (pg + 1) 0 (num_bytes_rem - num_bytes_page)
          (num_bytes_rw + num_bytes_page) (dp + unat num_bytes_page) bd' }
      else Some (num_bytes_rw, bd))"

partial_function (option) bar4_pages ::
  "'d pcie_hw \<Rightarrow> u32 \<Rightarrow> u64 \<Rightarrow> bool \<Rightarrow> u32 \<Rightarrow> u32 \<Rightarrow> u32 \<Rightarrow> u32 \<Rightarrow> u32 \<Rightarrow> u8 list \<times> 'd \<Rightarrow>
     (u32 \<times> u8 list \<times> 'd) option" where
  "bar4_pages H bar_size pg_end rw pg_start pg offs num_bytes_rem num_bytes_rw bd =
     (if ucast pg < pg_end then do {
        d1 \<leftarrow> SET_WB_PG H pg (snd bd);
        let num_bytes_page = (if num_bytes_rem > bar_size then bar_size - offs else num_bytes_rem);
        bd' \<leftarrow> BAR4_RW_BLOCK H offs num_bytes_page (unat ((pg - pg_start) * bar_size)) rw (fst bd, d1);
        bar4_pages H bar_size pg_end rw pg_start (pg + 1) 0 (num_bytes_rem - num_bytes_page)
          (num_bytes_rw + num_bytes_page) bd' }
      else Some (num_bytes_rw, bd))"

definition pages_end :: "u32 \<Rightarrow> u64 \<Rightarrow> u32 \<Rightarrow> u32 \<Rightarrow> u64" where
  "pages_end pg_start pg_offs sz bar_size = ucast pg_start + (pg_offs + ucast sz) div ucast bar_size + 1"

definition s_pcie_rw_bar2_block_raw ::
  "'d pcie_hw \<Rightarrow> u32 \<Rightarrow> u64 \<Rightarrow> u8 list \<Rightarrow> u32 \<Rightarrow> bool \<Rightarrow> 'd pcie \<Rightarrow> (int \<times> u8 list \<times> 'd pcie) option" where
  "s_pcie_rw_bar2_block_raw H pg_start pg_offs data sz rw self =
     (case pc_handler self of
        None \<Rightarrow> Some (-1, data, self)
      | Some dev_pcie \<Rightarrow>
          let bar_size = bar2_size dev_pcie
          in if bar_size = 0 then None
             else do {
               (n, buf, d) \<leftarrow> bar2_pages H bar_size (pages_end pg_start pg_offs sz bar_size) rw
                 pg_start (ucast pg_offs) sz 0 0 (data, pc_dev self);
               Some (uint n, buf, self\<lparr>pc_dev := d\<rparr>) })"

definition s_pcie_rw_bar4_block_raw ::
  "'d pcie_hw \<Rightarrow> u32 \<Rightarrow> u64 \<Rightarrow> u8 list \<Rightarrow> u32 \<Rightarrow> bool \<Rightarrow> 'd pcie \<Rightarrow> (int \<times> u8 list \<times> 'd pcie) option" where
  "s_pcie_rw_bar4_block_raw H pg_start pg_offs data sz rw self =
     (case pc_handler self of
        None \<Rightarrow> Some (-1, data, self)
      | Some dev_pcie \<Rightarrow>
          let bar_size = bar4_size dev_pcie
          in if bar_size = 0 then None
             else do {
               (n, buf, d) \<leftarrow> bar4_pages H bar_size (pages_end pg_start pg_offs sz bar_size) rw
                 pg_start pg_start (ucast pg_offs) sz 0 (data, pc_dev self);
               Some (uint n, buf, self\<lparr>pc_dev := d\<rparr>) })"

text \<open>The timeout detection around a block access, the same for both windows: \<open>n\<close> tries are
  left. The number of bytes is a \<open>size_t\<close>, so -1 counts as many.\<close>

definition looks_timed_out :: "int \<Rightarrow> u8 list \<Rightarrow> bool option" where
  "looks_timed_out num_bytes_rw data =
     (if num_bytes_rw < 0 \<or> int PCIE_TIMEOUT_PATT_SIZE \<le> num_bytes_rw
      then (if length data < PCIE_TIMEOUT_PATT_SIZE then None
            else Some (take PCIE_TIMEOUT_PATT_SIZE data = pcie_timeout_patt))
      else Some False)"

fun td_loop ::
  "'d pcie_hw \<Rightarrow> (u8 list \<Rightarrow> 'd pcie \<Rightarrow> (int \<times> u8 list \<times> 'd pcie) option) \<Rightarrow> nat \<Rightarrow>
     u8 list \<Rightarrow> 'd pcie \<Rightarrow> (int \<times> u8 list \<times> 'd pcie) option" where
  "td_loop H raw 0 data self = Some (-1, data, self)"
| "td_loop H raw (Suc n) data self = do {
     (num_bytes_rw, data', s1) \<leftarrow> raw data self;
     t \<leftarrow> looks_timed_out num_bytes_rw data';
     if t then do {
       (_, s2) \<leftarrow> s_pcie_timeout_reset H s1;
       td_loop H raw n data' s2 }
     else Some (num_bytes_rw, data', s1) }"

definition s_pcie_rw_bar2_block_td ::
  "'d pcie_hw \<Rightarrow> u32 \<Rightarrow> u64 \<Rightarrow> u8 list \<Rightarrow> u32 \<Rightarrow> bool \<Rightarrow> 'd pcie \<Rightarrow> (int \<times> u8 list \<times> 'd pcie) option" where
  "s_pcie_rw_bar2_block_td H pg_start pg_offs data sz rw self =
     td_loop H (\<lambda>data self. s_pcie_rw_bar2_block_raw H pg_start pg_offs data sz rw self)
       PCIE_TIMEOUT_MAX_TRIES data self"

definition s_pcie_rw_bar4_block_td ::
  "'d pcie_hw \<Rightarrow> u32 \<Rightarrow> u64 \<Rightarrow> u8 list \<Rightarrow> u32 \<Rightarrow> bool \<Rightarrow> 'd pcie \<Rightarrow> (int \<times> u8 list \<times> 'd pcie) option" where
  "s_pcie_rw_bar4_block_td H pg_start pg_offs data sz rw self =
     td_loop H (\<lambda>data self. s_pcie_rw_bar4_block_raw H pg_start pg_offs data sz rw self)
       PCIE_TIMEOUT_MAX_TRIES data self"

text \<open>The size is cut to 32 bits, the status goes through an \<open>int\<close>; BAR0 and invalid windows give 0.\<close>

definition s_pcie_rw_block ::
  "'d pcie_hw \<Rightarrow> u64 \<Rightarrow> u64 \<Rightarrow> u8 list \<Rightarrow> bool \<Rightarrow> 'd pcie \<Rightarrow> (int \<times> u8 list \<times> 'd pcie) option" where
  "s_pcie_rw_block H offs sz data rw self =
     (if \<not> pc_is_open self then Some (-1, data, self)
      else case pc_handler self of
        None \<Rightarrow> Some (-1, data, self)
      | Some dev_pcie \<Rightarrow>
          let bar_no = PCIE_ADDR_BAR offs;
              full_offs = PCIE_ADDR_GEN offs
          in if bar_no = BAR2NO then do {
               (r, data', s1) \<leftarrow> s_pcie_rw_bar2_block_td H (ucast (PCIE_ADDR_SDRAM_PG full_offs))
                 (PCIE_ADDR_SDRAM_PG_OFFS full_offs) data (ucast sz) rw self;
               Some (to_int32 r, data', s1) }
             else if bar_no = BAR4NO then do {
               (r, data', s1) \<leftarrow> s_pcie_rw_bar4_block_td H (ucast (PCIE_ADDR_WB_PG full_offs))
                 (PCIE_ADDR_WB_PG_OFFS full_offs) data (ucast sz) rw self;
               Some (to_int32 r, data', s1) }
             else Some (0, data, self))"

definition pcie_read_block ::
  "'d pcie_hw \<Rightarrow> u64 \<Rightarrow> u64 \<Rightarrow> u8 list \<Rightarrow> 'd pcie \<Rightarrow> (int \<times> u8 list \<times> 'd pcie) option" where
  "pcie_read_block H offs sz data self = s_pcie_rw_block H offs sz data READ_FROM_BAR self"

definition pcie_write_block ::
  "'d pcie_hw \<Rightarrow> u64 \<Rightarrow> u64 \<Rightarrow> u8 list \<Rightarrow> 'd pcie \<Rightarrow> (int \<times> 'd pcie) option" where
  "pcie_write_block H offs sz data self = do {
     (r, _, s1) \<leftarrow> s_pcie_rw_block H offs sz data WRITE_TO_BAR self;
     Some (r, s1) }"

section \<open>DMA\<close>

definition s_pcie_dma_base_addr :: "pcie_dev_dma_type \<Rightarrow> u64" where
  "s_pcie_dma_base_addr dma_type =
     (case dma_type of PCIE_DMA_US \<Rightarrow> PCIE_CFG_REG_DMA_US_BASE | PCIE_DMA_DS \<Rightarrow> PCIE_CFG_REG_DMA_DS_BASE)"

definition s_pcie_reset_dma :: "'d pcie_hw \<Rightarrow> pcie_dev_dma_type \<Rightarrow> 'd pcie \<Rightarrow> (int \<times> 'd pcie) option" where
  "s_pcie_reset_dma H dma_type self = do {
     let dma_base_addr = BAR0_ADDR OR s_pcie_dma_base_addr dma_type;
     let offs = dma_base_addr + PCIE_CFG_REG_DMA_CTRL;
     let data = (ucast (PCIE_CFG_DMA_CTRL_VALID OR ucast PCIE_CFG_TX_CTRL_CHANNEL_RST) :: u32);
     (r, _, s1) \<leftarrow> s_pcie_rw_32 H offs data WRITE_TO_BAR self;
     Some (if r = 4 then 0 else 1, s1) }"

text \<open>One register write of \<open>_pcie_set_dma\<close>, with the errors or-ed.\<close>

definition dma_wr :: "'d pcie_hw \<Rightarrow> u64 \<Rightarrow> u64 \<Rightarrow> int \<times> 'd pcie \<Rightarrow> (int \<times> 'd pcie) option" where
  "dma_wr H addr val es = do {
     (r, _, s1) \<leftarrow> s_pcie_rw_32 H addr (ucast val) WRITE_TO_BAR (snd es);
     Some (fst es OR (if r = 4 then 0 else 1), s1) }"

definition s_pcie_set_dma ::
  "'d pcie_hw \<Rightarrow> pcie_dev_dma_type \<Rightarrow> u64 \<Rightarrow> u64 \<Rightarrow> u64 \<Rightarrow> u64 \<Rightarrow> 'd pcie \<Rightarrow> (int \<times> 'd pcie) option" where
  "s_pcie_set_dma H dma_type device_addr sz bar_no next_bda self =
     (case pc_handler self of
        None \<Rightarrow> Some (-1, self)
      | Some dev_pcie \<Rightarrow> do {
          let base = BAR0_ADDR OR s_pcie_dma_base_addr dma_type;
          e1 \<leftarrow> dma_wr H (base + PCIE_CFG_REG_DMA_PAH) (PCIE_CFG_DMA_PAH_R device_addr) (0, self);
          e2 \<leftarrow> dma_wr H (base + PCIE_CFG_REG_DMA_PAL) (PCIE_CFG_DMA_PAL_R device_addr) e1;
          e3 \<leftarrow> dma_wr H (base + PCIE_CFG_REG_DMA_HAH) (PCIE_CFG_DMA_HAH_R (kmem_pa dev_pcie)) e2;
          e4 \<leftarrow> dma_wr H (base + PCIE_CFG_REG_DMA_HAL) (PCIE_CFG_DMA_HAL_R (kmem_pa dev_pcie)) e3;
          e5 \<leftarrow> dma_wr H (base + PCIE_CFG_REG_DMA_BDAH) (PCIE_CFG_DMA_BDAH_R next_bda) e4;
          e6 \<leftarrow> dma_wr H (base + PCIE_CFG_REG_DMA_BDAL) (PCIE_CFG_DMA_BDAL_R next_bda) e5;
          e7 \<leftarrow> dma_wr H (base + PCIE_CFG_REG_DMA_LENG) (PCIE_CFG_DMA_LENG_R sz) e6;
          dma_wr H (base + PCIE_CFG_REG_DMA_CTRL)
            (PCIE_CFG_DMA_CTRL_VALID OR PCIE_CFG_DMA_CTRL_LAST OR
             PCIE_CFG_DMA_CTRL_AINC OR PCIE_CFG_DMA_CTRL_BAR_W bar_no) e7 })"

definition s_pcie_get_dma_status_reg ::
  "'d pcie_hw \<Rightarrow> pcie_dev_dma_type \<Rightarrow> u32 \<Rightarrow> 'd pcie \<Rightarrow> (int \<times> u32 \<times> 'd pcie) option" where
  "s_pcie_get_dma_status_reg H dma_type status self = do {
     let dma_base_addr = BAR0_ADDR OR s_pcie_dma_base_addr dma_type;
     (r, data, s1) \<leftarrow> s_pcie_rw_32 H (dma_base_addr + PCIE_CFG_REG_DMA_STA) 0 READ_FROM_BAR self;
     if r \<noteq> 4 then Some (-1, status, s1) else Some (0, data, s1) }"

definition s_pcie_check_dma_completion ::
  "'d pcie_hw \<Rightarrow> pcie_dev_dma_type \<Rightarrow> 'd pcie \<Rightarrow> (int \<times> 'd pcie) option" where
  "s_pcie_check_dma_completion H dma_type self = do {
     (err, status, s1) \<leftarrow> s_pcie_get_dma_status_reg H dma_type 0 self;
     if err \<noteq> 0 then Some (-1, s1)
     else if ucast status AND PCIE_CFG_DMA_STA_DONE \<noteq> 0 then Some (0, s1)
     else if ucast status AND PCIE_CFG_DMA_STA_TIMEOUT \<noteq> 0 then Some (-1, s1)
     else Some (err, s1) }"

definition s_pcie_check_dma_busy ::
  "'d pcie_hw \<Rightarrow> pcie_dev_dma_type \<Rightarrow> 'd pcie \<Rightarrow> (int \<times> 'd pcie) option" where
  "s_pcie_check_dma_busy H dma_type self = do {
     (err, status, s1) \<leftarrow> s_pcie_get_dma_status_reg H dma_type 0 self;
     if err \<noteq> 0 then Some (-1, s1)
     else if ucast status AND PCIE_CFG_DMA_STA_BUSY \<noteq> 0 then Some (-1, s1)
     else Some (0, s1) }"

text \<open>The wait has no bound.\<close>

partial_function (option) s_pcie_wait_dma ::
  "'d pcie_hw \<Rightarrow> pcie_dev_dma_type \<Rightarrow> bool \<Rightarrow> 'd pcie \<Rightarrow> (int \<times> 'd pcie) option" where
  "s_pcie_wait_dma H dma_type block self = do {
     (c, s1) \<leftarrow> s_pcie_check_dma_completion H dma_type self;
     (b, s2) \<leftarrow> (if c \<noteq> 0 then Some (1, s1) else s_pcie_check_dma_busy H dma_type s1);
     let err = (if c \<noteq> 0 \<or> b \<noteq> 0 then 1 else 0 :: int);
     if err \<noteq> 0 \<and> block then s_pcie_wait_dma H dma_type block s2 else Some (err, s2) }"

definition s_pcie_configure_dma ::
  "'d pcie_hw \<Rightarrow> u64 \<Rightarrow> u64 \<Rightarrow> u64 \<Rightarrow> u64 \<Rightarrow> pcie_dev_dma_type \<Rightarrow> bool \<Rightarrow> 'd pcie \<Rightarrow>
     (int \<times> 'd pcie) option" where
  "s_pcie_configure_dma H device_addr next_bda sz bar_no dma_type block self = do {
     (e1, s1) \<leftarrow> s_pcie_check_dma_busy H dma_type self;
     if e1 \<noteq> 0 then Some (e1, s1) else do {
       (e2, s2) \<leftarrow> s_pcie_reset_dma H dma_type s1;
       if e2 \<noteq> 0 then Some (e2, s2) else do {
         (e3, s3) \<leftarrow> s_pcie_set_dma H dma_type device_addr sz bar_no next_bda s2;
         if e3 \<noteq> 0 then Some (e3, s3) else s_pcie_wait_dma H dma_type block s3 } } }"

definition size_clip :: "u64 \<Rightarrow> u64" where
  "size_clip sz = (if of_nat PCIE_DMA_KERNEL_BUFF_SIZE < sz then of_nat PCIE_DMA_KERNEL_BUFF_SIZE else sz)"

definition pcie_read_dma ::
  "'d pcie_hw \<Rightarrow> u64 \<Rightarrow> u64 \<Rightarrow> u8 list \<Rightarrow> 'd pcie \<Rightarrow> (int \<times> u8 list \<times> 'd pcie) option" where
  "pcie_read_dma H offs sz data self =
     (if \<not> pc_is_open self then Some (-1, data, self)
      else case pc_handler self of
        None \<Rightarrow> Some (-1, data, self)
      | Some dev_pcie \<Rightarrow> do {
          let size_clipped = size_clip sz;
          (err, s1) \<leftarrow> s_pcie_configure_dma H (PCIE_ADDR_GEN offs) 0 size_clipped (PCIE_ADDR_BAR offs)
             PCIE_DMA_US True self;
          if err \<noteq> 0 then Some (-1, data, s1)
          else do {
            mem \<leftarrow> kmem_get H (unat size_clipped) (pc_dev s1);
            if length data < unat size_clipped then None
            else Some (uint size_clipped, mem @ drop (unat size_clipped) data, s1) } })"

definition pcie_write_dma ::
  "'d pcie_hw \<Rightarrow> u64 \<Rightarrow> u64 \<Rightarrow> u8 list \<Rightarrow> 'd pcie \<Rightarrow> (int \<times> 'd pcie) option" where
  "pcie_write_dma H offs sz data self =
     (if \<not> pc_is_open self then Some (-1, self)
      else case pc_handler self of
        None \<Rightarrow> Some (-1, self)
      | Some dev_pcie \<Rightarrow> do {
          let size_clipped = size_clip sz;
          if length data < unat size_clipped then None
          else do {
            d \<leftarrow> kmem_put H (take (unat size_clipped) data) (pc_dev self);
            (err, s1) \<leftarrow> s_pcie_configure_dma H (PCIE_ADDR_GEN offs) 0 size_clipped (PCIE_ADDR_BAR offs)
               PCIE_DMA_DS True (self\<lparr>pc_dev := d\<rparr>);
            if err \<noteq> 0 then Some (-1, s1) else Some (uint size_clipped, s1) } })"

definition llio_ops_pcie :: "'d pcie_hw \<Rightarrow> (nat \<Rightarrow> bool) \<Rightarrow> 'd pcie llio_ops" where
  "llio_ops_pcie H al = \<lparr>ops_name = ''PCIE'',
     op_open = Some (pcie_open H al), op_reset = Some (pcie_reset H), op_release = Some (pcie_release H),
     op_read_16 = None, op_read_32 = Some (pcie_read_32 H), op_read_64 = Some (pcie_read_64 H),
     op_write_16 = None, op_write_32 = Some (pcie_write_32 H), op_write_64 = Some (pcie_write_64 H),
     op_read_block = Some (pcie_read_block H), op_write_block = Some (pcie_write_block H),
     op_read_dma = Some (pcie_read_dma H), op_write_dma = Some (pcie_write_dma H)\<rparr>"

section \<open>A board with memory behind its windows\<close>

text \<open>What the code relies on: the page registers select what the windows show, accesses inside a
  window succeed, and nothing else changes. The windows are byte addressed and every access moves 32
  bits, so accesses at addresses that are not multiples of 4 overlap; nothing is assumed of them. The
  view gives, for a board, the two page registers and the memory words by their (aligned) address.\<close>

definition word_addr :: "u64 \<Rightarrow> bool" where
  "word_addr a \<longleftrightarrow> take_bit 2 a = 0"

record 'd pcie_view =
  page2 :: "'d \<Rightarrow> u32"
  page4 :: "'d \<Rightarrow> u32"
  mem2 :: "'d \<Rightarrow> u64 \<Rightarrow> u32"
  mem4 :: "'d \<Rightarrow> u64 \<Rightarrow> u32"
  live :: "'d \<Rightarrow> bool"

definition pg_addr :: "nat \<Rightarrow> u32 \<Rightarrow> u64 \<Rightarrow> u64" where
  "pg_addr n pg offs = push_bit n (ucast pg) OR offs"

text \<open>The windows and their page registers; the whole board, with the register that resets the
  core after a timeout.\<close>

definition window_ok :: "'d pcie_hw \<Rightarrow> 'd pcie_view \<Rightarrow> bool" where
  "window_ok H V \<longleftrightarrow>
     (\<forall>d v. live V d \<longrightarrow> (\<exists>d'. bar_wr H 0 28 v d = Some d' \<and> live V d' \<and> page2 V d' = v \<and>
        page4 V d' = page4 V d \<and> mem2 V d' = mem2 V d \<and> mem4 V d' = mem4 V d)) \<and>
     (\<forall>d v. live V d \<longrightarrow> (\<exists>d'. bar_wr H 0 36 v d = Some d' \<and> live V d' \<and> page4 V d' = v \<and>
        page2 V d' = page2 V d \<and> mem2 V d' = mem2 V d \<and> mem4 V d' = mem4 V d)) \<and>
     (\<forall>d a. live V d \<longrightarrow> word_addr a \<longrightarrow> a < 2 ^ 20 \<longrightarrow>
        (\<exists>d'. bar_rd H 2 a d = Some (mem2 V d (pg_addr 20 (page2 V d) a), d') \<and>
        live V d' \<and> page2 V d' = page2 V d \<and> page4 V d' = page4 V d \<and> mem2 V d' = mem2 V d \<and>
        mem4 V d' = mem4 V d)) \<and>
     (\<forall>d a v. live V d \<longrightarrow> word_addr a \<longrightarrow> a < 2 ^ 20 \<longrightarrow> (\<exists>d'. bar_wr H 2 a v d = Some d' \<and>
        live V d' \<and> page2 V d' = page2 V d \<and> page4 V d' = page4 V d \<and>
        mem2 V d' = (mem2 V d)(pg_addr 20 (page2 V d) a := v) \<and> mem4 V d' = mem4 V d)) \<and>
     (\<forall>d a. live V d \<longrightarrow> word_addr a \<longrightarrow> a < 2 ^ 16 \<longrightarrow> (\<exists>d' w. bar4_rd H a d = Some (w, d') \<and>
        ucast w = mem4 V d (pg_addr 16 (page4 V d) a) \<and>
        live V d' \<and> page2 V d' = page2 V d \<and> page4 V d' = page4 V d \<and> mem2 V d' = mem2 V d \<and>
        mem4 V d' = mem4 V d)) \<and>
     (\<forall>d a v. live V d \<longrightarrow> word_addr a \<longrightarrow> a < 2 ^ 16 \<longrightarrow> (\<exists>d'. bar4_wr H a v d = Some d' \<and>
        live V d' \<and> page2 V d' = page2 V d \<and> page4 V d' = page4 V d \<and> mem2 V d' = mem2 V d \<and>
        mem4 V d' = (mem4 V d)(pg_addr 16 (page4 V d) a := ucast v)))"

definition board_ok :: "'d pcie_hw \<Rightarrow> 'd pcie_view \<Rightarrow> bool" where
  "board_ok H V \<longleftrightarrow> window_ok H V \<and>
     (\<forall>d v. live V d \<longrightarrow> (\<exists>d'. bar_wr H 0 120 v d = Some d' \<and> live V d' \<and> page2 V d' = page2 V d \<and>
        page4 V d' = page4 V d \<and> mem2 V d' = mem2 V d \<and> mem4 V d' = mem4 V d))"

lemma board_windows: "board_ok H V \<Longrightarrow> window_ok H V"
  by (simp add: board_ok_def)

lemma board_reset:
  "board_ok H V \<Longrightarrow> live V d \<Longrightarrow> \<exists>d'. bar_wr H 0 120 v d = Some d' \<and> live V d' \<and> page2 V d' = page2 V d \<and>
     page4 V d' = page4 V d \<and> mem2 V d' = mem2 V d \<and> mem4 V d' = mem4 V d"
  by (simp add: board_ok_def)

lemma window_okD:
  assumes "window_ok H V" and "live V d"
  shows "\<exists>d'. bar_wr H 0 28 v d = Some d' \<and> live V d' \<and> page2 V d' = v \<and>
        page4 V d' = page4 V d \<and> mem2 V d' = mem2 V d \<and> mem4 V d' = mem4 V d"
    and "\<exists>d'. bar_wr H 0 36 v d = Some d' \<and> live V d' \<and> page4 V d' = v \<and>
        page2 V d' = page2 V d \<and> mem2 V d' = mem2 V d \<and> mem4 V d' = mem4 V d"
    and "word_addr a \<Longrightarrow> a < 2 ^ 20 \<Longrightarrow> \<exists>d'. bar_rd H 2 a d = Some (mem2 V d (pg_addr 20 (page2 V d) a), d') \<and>
        live V d' \<and> page2 V d' = page2 V d \<and> page4 V d' = page4 V d \<and> mem2 V d' = mem2 V d \<and>
        mem4 V d' = mem4 V d"
    and "word_addr a \<Longrightarrow> a < 2 ^ 20 \<Longrightarrow> \<exists>d'. bar_wr H 2 a v d = Some d' \<and>
        live V d' \<and> page2 V d' = page2 V d \<and> page4 V d' = page4 V d \<and>
        mem2 V d' = (mem2 V d)(pg_addr 20 (page2 V d) a := v) \<and> mem4 V d' = mem4 V d"
    and "word_addr a \<Longrightarrow> a < 2 ^ 16 \<Longrightarrow> \<exists>d' w. bar4_rd H a d = Some (w, d') \<and>
        ucast w = mem4 V d (pg_addr 16 (page4 V d) a) \<and>
        live V d' \<and> page2 V d' = page2 V d \<and> page4 V d' = page4 V d \<and> mem2 V d' = mem2 V d \<and>
        mem4 V d' = mem4 V d"
    and "word_addr a \<Longrightarrow> a < 2 ^ 16 \<Longrightarrow> \<exists>d'. bar4_wr H a w d = Some d' \<and>
        live V d' \<and> page2 V d' = page2 V d \<and> page4 V d' = page4 V d \<and> mem2 V d' = mem2 V d \<and>
        mem4 V d' = (mem4 V d)(pg_addr 16 (page4 V d) a := ucast w)"
  using assms unfolding window_ok_def by (blast, blast, blast, blast, blast, blast)

section \<open>Addresses\<close>

lemma gen_mask: "PCIE_ADDR_GEN a = take_bit 60 a"
  by (simp add: PCIE_ADDR_GEN_def PCIE_ADDR_GEN_MASK_def take_bit_eq_mask mask_eq_exp_minus_1)

lemma pg_offs_bits:
  "PCIE_ADDR_SDRAM_PG_OFFS a = take_bit 20 a" "PCIE_ADDR_WB_PG_OFFS a = take_bit 16 a"
  by (simp_all add: PCIE_ADDR_SDRAM_PG_OFFS_def PCIE_ADDR_WB_PG_OFFS_def PCIE_SDRAM_PG_MASK_def
      PCIE_WB_PG_MASK_def take_bit_eq_mask mask_eq_exp_minus_1)

lemma drop_mask: "drop_bit n (a AND NOT (2 ^ n - 1)) = drop_bit n (a :: u64)"
  by (rule bit_word_eqI)
    (auto simp: bit_simps mask_eq_exp_minus_1 [symmetric] dest: bit_imp_le_length)

lemma pg_bits: "PCIE_ADDR_SDRAM_PG a = drop_bit 20 a" "PCIE_ADDR_WB_PG a = drop_bit 16 a"
  using drop_mask [of 20 a] drop_mask [of 16 a]
  by (simp_all add: PCIE_ADDR_SDRAM_PG_def PCIE_ADDR_WB_PG_def PCIE_SDRAM_PG_MASK_def
      PCIE_WB_PG_MASK_def PCIE_SDRAM_PG_MAX_def PCIE_WB_PG_MAX_def)

lemma word_addr_take: "2 \<le> n \<Longrightarrow> word_addr (take_bit n a) = word_addr a"
  by (simp add: word_addr_def min_def)

lemma word_addr_gen: "word_addr a \<Longrightarrow> word_addr (PCIE_ADDR_GEN a)"
  by (simp add: gen_mask word_addr_take)

lemma word_addr_nat: "4 dvd n \<Longrightarrow> word_addr (of_nat n)"
  unfolding word_addr_def take_bit_of_nat by (simp add: take_bit_eq_mod mod_eq_0_iff_dvd)

text \<open>Page and offset of an address below \<open>2 ^ (32 + n)\<close> give the address back.\<close>

lemma pg_addr_split:
  fixes a :: u64
  assumes "take_bit (32 + n) a = a"
  shows "pg_addr n (ucast (drop_bit n a)) (take_bit n a) = a"
proof (rule bit_word_eqI)
  fix i assume "i < LENGTH(64)"
  have "bit a i \<Longrightarrow> i < 32 + n" using assms by (metis bit_take_bit_iff)
  then show "bit (pg_addr n (ucast (drop_bit n a)) (take_bit n a)) i = bit a i"
    using \<open>i < LENGTH(64)\<close> by (auto simp: pg_addr_def bit_simps)
qed

text \<open>The addresses of words in the two windows.\<close>

definition sdram_addr :: "u64 \<Rightarrow> bool" where
  "sdram_addr a \<longleftrightarrow> PCIE_ADDR_BAR a = BAR2NO \<and> take_bit 52 (PCIE_ADDR_GEN a) = PCIE_ADDR_GEN a \<and> word_addr a"

definition wb_addr :: "u64 \<Rightarrow> bool" where
  "wb_addr a \<longleftrightarrow> PCIE_ADDR_BAR a = BAR4NO \<and> take_bit 48 (PCIE_ADDR_GEN a) = PCIE_ADDR_GEN a \<and> word_addr a"

text \<open>An address is its window and its generic part.\<close>

lemma bar_gen_inj:
  assumes "PCIE_ADDR_BAR a = PCIE_ADDR_BAR b" and "PCIE_ADDR_GEN a = PCIE_ADDR_GEN b"
  shows "a = b"
proof -
  have m: "push_bit 4 1 - 1 = (mask 4 :: u64)" by (simp add: mask_eq_exp_minus_1)
  have bar: "PCIE_ADDR_BAR x = drop_bit 60 x" for x
    unfolding PCIE_ADDR_BAR_def PCIE_ADDR_BAR_MASK_def PCIE_ADDR_BAR_SHIFT_def m
    by (rule bit_word_eqI) (auto simp: bit_simps dest: bit_imp_le_length)
  have "bit a i = bit b i" if "i < 64" for i
  proof (cases "i < 60")
    case True
    with assms(2) show ?thesis by (metis gen_mask bit_take_bit_iff)
  next
    case False
    then have "bit (drop_bit 60 a) (i - 60) = bit (drop_bit 60 b) (i - 60)"
      using assms(1) bar by simp
    with False show ?thesis by (simp add: bit_simps)
  qed
  then show ?thesis by (intro bit_word_eqI) simp
qed

section \<open>Single accesses on a board\<close>

definition pcie_view32 :: "'d pcie_view \<Rightarrow> 'd pcie \<Rightarrow> u64 \<Rightarrow> u32" where
  "pcie_view32 V self a =
     (if PCIE_ADDR_BAR a = BAR2NO then mem2 V (pc_dev self) (PCIE_ADDR_GEN a)
      else mem4 V (pc_dev self) (PCIE_ADDR_GEN a))"

definition pcie_good :: "'d pcie_hw \<Rightarrow> 'd pcie_view \<Rightarrow> 'd pcie \<Rightarrow> bool" where
  "pcie_good H V self \<longleftrightarrow> board_ok H V \<and> pc_is_open self \<and> pc_handler self \<noteq> None \<and> live V (pc_dev self)"

definition same_mem :: "'d pcie_view \<Rightarrow> 'd \<Rightarrow> 'd \<Rightarrow> bool" where
  "same_mem V d d' \<longleftrightarrow> live V d' \<and> mem2 V d' = mem2 V d \<and> mem4 V d' = mem4 V d"

lemma set_sdram_pg:
  assumes "window_ok H V" and "live V d"
  obtains d' where "SET_SDRAM_PG H n d = Some d'" "same_mem V d d'" "page2 V d' = n" "page4 V d' = page4 V d"
  using window_okD(1) [OF assms, of n] that
  by (auto simp: SET_SDRAM_PG_def SET_PG_def BAR0NO_def PCIE_CFG_REG_SDRAM_PG_def same_mem_def)

lemma set_wb_pg:
  assumes "window_ok H V" and "live V d"
  obtains d' where "SET_WB_PG H n d = Some d'" "same_mem V d d'" "page4 V d' = n" "page2 V d' = page2 V d"
  using window_okD(2) [OF assms, of n] that
  by (auto simp: SET_WB_PG_def SET_PG_def BAR0NO_def PCIE_CFG_REG_WB_PG_def same_mem_def)

lemma take_bit_less_20: "take_bit 20 (a :: u64) < 2 ^ 20" "take_bit 16 (a :: u64) < 2 ^ 16"
  using take_bit_nat_less_exp [of 20 "unat a"] take_bit_nat_less_exp [of 16 "unat a"]
  by (simp_all add: word_less_nat_alt unsigned_take_bit_eq)

lemma bar_distinct: "BAR2NO \<noteq> BAR0NO" "BAR4NO \<noteq> BAR0NO" "BAR4NO \<noteq> BAR2NO"
  by (simp_all add: regs)

lemma rw32_read:
  assumes g: "pcie_good H V self" and a: "sdram_addr a \<or> wb_addr a"
  shows "\<exists>d'. s_pcie_rw_32 H a x True self = Some (4, pcie_view32 V self a, self\<lparr>pc_dev := d'\<rparr>) \<and>
    same_mem V (pc_dev self) d'"
proof -
  obtain dev where dev: "pc_handler self = Some dev" and op: "pc_is_open self"
    and b: "window_ok H V" and l: "live V (pc_dev self)" using g by (auto simp: pcie_good_def board_windows)
  let ?g = "PCIE_ADDR_GEN a"
  have wa: "word_addr (take_bit 20 ?g)" "word_addr (take_bit 16 ?g)"
    using a by (auto simp: word_addr_take word_addr_gen sdram_addr_def wb_addr_def)
  from a show ?thesis
  proof
    assume a: "sdram_addr a"
    obtain d1 where d1: "SET_SDRAM_PG H (ucast (drop_bit 20 ?g)) (pc_dev self) = Some d1"
      "same_mem V (pc_dev self) d1" "page2 V d1 = ucast (drop_bit 20 ?g)" by (rule set_sdram_pg [OF b l])
    have l1: "live V d1" using d1 by (simp add: same_mem_def)
    have "pg_addr 20 (ucast (drop_bit 20 ?g)) (take_bit 20 ?g) = ?g"
      using a by (intro pg_addr_split) (simp add: sdram_addr_def)
    with window_okD(3) [OF b l1 wa(1) take_bit_less_20(1) [of ?g]] d1 obtain d2 where
      "bar_rd H 2 (take_bit 20 ?g) d1 = Some (mem2 V (pc_dev self) ?g, d2)" "same_mem V (pc_dev self) d2"
      by (auto simp: same_mem_def)
    then show ?thesis
      using dev op a d1 bar_distinct
      by (intro exI [of _ d2]) (simp add: s_pcie_rw_32_def Let_def sdram_addr_def pg_bits pg_offs_bits
          pcie_view32_def BAR2_RW_def BAR_RW_8_def BAR2NO_def BAR0NO_def)
  next
    assume a: "wb_addr a"
    obtain d1 where d1: "SET_WB_PG H (ucast (drop_bit 16 ?g)) (pc_dev self) = Some d1"
      "same_mem V (pc_dev self) d1" "page4 V d1 = ucast (drop_bit 16 ?g)" by (rule set_wb_pg [OF b l])
    have l1: "live V d1" using d1 by (simp add: same_mem_def)
    have "pg_addr 16 (ucast (drop_bit 16 ?g)) (take_bit 16 ?g) = ?g"
      using a by (intro pg_addr_split) (simp add: wb_addr_def)
    with window_okD(5) [OF b l1 wa(2) take_bit_less_20(2) [of ?g]] d1 obtain d2 w where
      "bar4_rd H (take_bit 16 ?g) d1 = Some (w, d2)" "ucast w = mem4 V (pc_dev self) ?g"
      "same_mem V (pc_dev self) d2"
      by (auto simp: same_mem_def)
    then show ?thesis
      using dev op a d1 bar_distinct
      by (auto simp: s_pcie_rw_32_def Let_def wb_addr_def pg_bits pg_offs_bits pcie_view32_def BAR4_RW_def)
  qed
qed

lemma rw32_write:
  assumes g: "pcie_good H V self" and a: "sdram_addr a \<or> wb_addr a"
  shows "\<exists>d'. s_pcie_rw_32 H a x False self = Some (4, x, self\<lparr>pc_dev := d'\<rparr>) \<and> live V d' \<and>
    mem2 V d' = (if sdram_addr a then (mem2 V (pc_dev self))(PCIE_ADDR_GEN a := x) else mem2 V (pc_dev self)) \<and>
    mem4 V d' = (if sdram_addr a then mem4 V (pc_dev self) else (mem4 V (pc_dev self))(PCIE_ADDR_GEN a := x))"
proof -
  obtain dev where dev: "pc_handler self = Some dev" and op: "pc_is_open self"
    and b: "window_ok H V" and l: "live V (pc_dev self)" using g by (auto simp: pcie_good_def board_windows)
  let ?g = "PCIE_ADDR_GEN a"
  have wa: "word_addr (take_bit 20 ?g)" "word_addr (take_bit 16 ?g)"
    using a by (auto simp: word_addr_take word_addr_gen sdram_addr_def wb_addr_def)
  show ?thesis
  proof (cases "sdram_addr a")
    case True
    obtain d1 where d1: "SET_SDRAM_PG H (ucast (drop_bit 20 ?g)) (pc_dev self) = Some d1"
      "same_mem V (pc_dev self) d1" "page2 V d1 = ucast (drop_bit 20 ?g)" by (rule set_sdram_pg [OF b l])
    have l1: "live V d1" using d1 by (simp add: same_mem_def)
    have "pg_addr 20 (ucast (drop_bit 20 ?g)) (take_bit 20 ?g) = ?g"
      using True by (intro pg_addr_split) (simp add: sdram_addr_def)
    with window_okD(4) [OF b l1 wa(1) take_bit_less_20(1) [of ?g], of x] d1 obtain d2 where
      "bar_wr H 2 (take_bit 20 ?g) x d1 = Some d2" "live V d2"
      "mem2 V d2 = (mem2 V (pc_dev self))(?g := x)" "mem4 V d2 = mem4 V (pc_dev self)"
      by (auto simp: same_mem_def)
    then show ?thesis
      using dev op True d1 bar_distinct
      by (intro exI [of _ d2]) (simp add: s_pcie_rw_32_def Let_def sdram_addr_def pg_bits pg_offs_bits
          BAR2_RW_def BAR_RW_8_def BAR2NO_def BAR0NO_def)
  next
    case False
    with a have a: "wb_addr a" by simp
    obtain d1 where d1: "SET_WB_PG H (ucast (drop_bit 16 ?g)) (pc_dev self) = Some d1"
      "same_mem V (pc_dev self) d1" "page4 V d1 = ucast (drop_bit 16 ?g)" by (rule set_wb_pg [OF b l])
    have l1: "live V d1" using d1 by (simp add: same_mem_def)
    have "pg_addr 16 (ucast (drop_bit 16 ?g)) (take_bit 16 ?g) = ?g"
      using a by (intro pg_addr_split) (simp add: wb_addr_def)
    with window_okD(6) [OF b l1 wa(2) take_bit_less_20(2) [of ?g], of "ucast x"] d1 obtain d2 where
      "bar4_wr H (take_bit 16 ?g) (ucast x) d1 = Some d2" "live V d2"
      "mem2 V d2 = mem2 V (pc_dev self)" "mem4 V d2 = (mem4 V (pc_dev self))(?g := x)"
      by (auto simp: same_mem_def)
    then show ?thesis
      using dev op a False d1 bar_distinct
      by (auto simp: s_pcie_rw_32_def Let_def wb_addr_def pg_bits pg_offs_bits BAR4_RW_def)
  qed
qed

section \<open>The PCIe class as a register bus\<close>

type_synonym 'd bus = "'d pcie_hw \<times> 'd pcie_view \<times> 'd pcie"

definition data_addr :: "u64 \<Rightarrow> bool" where
  "data_addr a \<longleftrightarrow> sdram_addr a \<or> wb_addr a"

fun bus_rd :: "'d bus \<Rightarrow> u64 \<Rightarrow> u32 \<Rightarrow> (int \<times> u32 \<times> 'd bus) option" where
  "bus_rd (H, V, self) a x =
     map_option (\<lambda>(r, v, s'). (r, v, (H, V, s'))) (llio_read_32 (llio_ops_pcie H (\<lambda>_. True)) a x self)"

fun bus_wr :: "'d bus \<Rightarrow> u64 \<Rightarrow> u32 \<Rightarrow> (int \<times> 'd bus) option" where
  "bus_wr (H, V, self) a x =
     map_option (\<lambda>(r, s'). (r, (H, V, s'))) (llio_write_32 (llio_ops_pcie H (\<lambda>_. True)) a x self)"

fun bus_view :: "'d bus \<Rightarrow> u64 \<Rightarrow> u32" where
  "bus_view (H, V, self) = pcie_view32 V self"

fun bus_good :: "'d bus \<Rightarrow> bool" where
  "bus_good (H, V, self) = pcie_good H V self"

lemma good_upd:
  "pcie_good H V self \<Longrightarrow> live V d \<Longrightarrow> pcie_good H V (self\<lparr>pc_dev := d\<rparr>)"
  by (simp add: pcie_good_def pc_is_open_def pc_handler_def)

lemma sdram_not_wb: "sdram_addr a \<Longrightarrow> \<not> wb_addr a"
  by (auto simp: sdram_addr_def wb_addr_def regs)

lemma view_write:
  assumes "data_addr a" and "data_addr b"
    and "mem2 V d' = (if sdram_addr a then (mem2 V d)(PCIE_ADDR_GEN a := x) else mem2 V d)"
    and "mem4 V d' = (if sdram_addr a then mem4 V d else (mem4 V d)(PCIE_ADDR_GEN a := x))"
  shows "pcie_view32 V (self\<lparr>pc_dev := d'\<rparr>) b = (if b = a then x else pcie_view32 V (self\<lparr>pc_dev := d\<rparr>) b)"
proof (cases "b = a")
  case True
  with assms bar_distinct show ?thesis
    by (auto simp: pcie_view32_def data_addr_def sdram_addr_def wb_addr_def)
next
  case False
  then have "PCIE_ADDR_BAR b \<noteq> PCIE_ADDR_BAR a \<or> PCIE_ADDR_GEN b \<noteq> PCIE_ADDR_GEN a"
    using bar_gen_inj by blast
  with False assms bar_distinct show ?thesis
    by (auto simp: pcie_view32_def data_addr_def sdram_addr_def wb_addr_def)
qed

interpretation pbus: reg_bus bus_rd bus_wr bus_view bus_good data_addr
proof
  fix s :: "'a bus" and a d
  obtain H V self where s: "s = (H, V, self)" by (cases s)
  assume g: "bus_good s" and a: "data_addr a"
  have g': "pcie_good H V self" and a': "sdram_addr a \<or> wb_addr a"
    using g a by (simp_all add: s data_addr_def)
  obtain d' where r: "s_pcie_rw_32 H a d True self = Some (4, pcie_view32 V self a, self\<lparr>pc_dev := d'\<rparr>)"
    "same_mem V (pc_dev self) d'" using rw32_read [OF g' a'] by blast
  have "bus_rd s a d = Some (4, bus_view s a, (H, V, self\<lparr>pc_dev := d'\<rparr>))"
    using r by (simp add: s llio_read_32_def llio_ops_pcie_def pcie_read_32_def READ_FROM_BAR_def)
  moreover have "bus_good (H, V, self\<lparr>pc_dev := d'\<rparr>)"
    using good_upd [OF g'] r by (simp add: same_mem_def)
  moreover have "bus_view (H, V, self\<lparr>pc_dev := d'\<rparr>) b = bus_view s b" for b
    using r by (simp add: s pcie_view32_def same_mem_def)
  ultimately show "\<exists>s'. bus_rd s a d = Some (4, bus_view s a, s') \<and> bus_good s' \<and>
      (\<forall>b. data_addr b \<longrightarrow> bus_view s' b = bus_view s b)" by blast
next
  fix s :: "'a bus" and a v
  obtain H V self where s: "s = (H, V, self)" by (cases s)
  assume g: "bus_good s" and a: "data_addr a"
  have g': "pcie_good H V self" and a': "sdram_addr a \<or> wb_addr a"
    using g a by (simp_all add: s data_addr_def)
  obtain d' where r: "s_pcie_rw_32 H a v False self = Some (4, v, self\<lparr>pc_dev := d'\<rparr>)" "live V d'"
    "mem2 V d' = (if sdram_addr a then (mem2 V (pc_dev self))(PCIE_ADDR_GEN a := v) else mem2 V (pc_dev self))"
    "mem4 V d' = (if sdram_addr a then mem4 V (pc_dev self) else (mem4 V (pc_dev self))(PCIE_ADDR_GEN a := v))"
    using rw32_write [OF g' a'] by blast
  have "bus_wr s a v = Some (4, (H, V, self\<lparr>pc_dev := d'\<rparr>))"
    using r by (simp add: s llio_write_32_def llio_ops_pcie_def pcie_write_32_def WRITE_TO_BAR_def)
  moreover have "bus_good (H, V, self\<lparr>pc_dev := d'\<rparr>)" using good_upd [OF g' r(2)] by simp
  moreover have "bus_view (H, V, self\<lparr>pc_dev := d'\<rparr>) b = (if b = a then v else bus_view s b)"
    if "data_addr b" for b
    using view_write [OF a that r(3,4), of self] by (simp add: s)
  ultimately show "\<exists>s'. bus_wr s a v = Some (4, s') \<and> bus_good s' \<and>
      (\<forall>b. data_addr b \<longrightarrow> bus_view s' b = (if b = a then v else bus_view s b))" by blast
qed

section \<open>A concrete board\<close>

text \<open>Two page registers, and two memories of bytes: an access of 32 bits moves four of them, at any
  address, so that accesses at addresses less than 4 apart overlap. The other registers of BAR0 read
  as 0; the board counts the resets of its core.\<close>

definition mem32 :: "(u64 \<Rightarrow> u8) \<Rightarrow> u64 \<Rightarrow> u32" where
  "mem32 m a = ucast (m a) OR push_bit 8 (ucast (m (a + 1))) OR push_bit 16 (ucast (m (a + 2))) OR
     push_bit 24 (ucast (m (a + 3)))"

definition mem32_put :: "(u64 \<Rightarrow> u8) \<Rightarrow> u64 \<Rightarrow> u32 \<Rightarrow> u64 \<Rightarrow> u8" where
  "mem32_put m a v = m(a := ucast v, a + 1 := ucast (drop_bit 8 v), a + 2 := ucast (drop_bit 16 v),
     a + 3 := ucast (drop_bit 24 v))"

definition mem_view :: "(u64 \<Rightarrow> u8) \<Rightarrow> u64 \<Rightarrow> u32" where
  "mem_view m a = (if word_addr a then mem32 m a else 0)"

record board =
  b_page2 :: u32
  b_page4 :: u32
  b_mem2 :: "u64 \<Rightarrow> u8"
  b_mem4 :: "u64 \<Rightarrow> u8"
  b_resets :: nat

definition board_hw :: "board pcie_hw" where
  "board_hw = \<lparr>
     bar_rd = (\<lambda>bar a d. if bar = 0 then Some (0, d)
       else if bar = 2 \<and> a < 2 ^ 20 then Some (mem32 (b_mem2 d) (pg_addr 20 (b_page2 d) a), d) else None),
     bar_wr = (\<lambda>bar a v d.
       if bar = 0 then Some (if a = 28 then d\<lparr>b_page2 := v\<rparr> else if a = 36 then d\<lparr>b_page4 := v\<rparr>
         else if a = 120 then d\<lparr>b_resets := Suc (b_resets d)\<rparr> else d)
       else if bar = 2 \<and> a < 2 ^ 20 then Some (d\<lparr>b_mem2 := mem32_put (b_mem2 d) (pg_addr 20 (b_page2 d) a) v\<rparr>)
       else None),
     bar4_rd = (\<lambda>a d. if a < 2 ^ 16 then Some (ucast (mem32 (b_mem4 d) (pg_addr 16 (b_page4 d) a)), d) else None),
     bar4_wr = (\<lambda>a v d. if a < 2 ^ 16
       then Some (d\<lparr>b_mem4 := mem32_put (b_mem4 d) (pg_addr 16 (b_page4 d) a) (ucast v)\<rparr>) else None),
     pd_open = (\<lambda>n d. (if n = Some ''/dev/fpga0'' then 0 else -1, d)), pd_close = (\<lambda>d. d),
     pd_mapBAR = (\<lambda>b d. (True, d)), pd_unmapBAR = (\<lambda>b d. d),
     pd_getBARsize = (\<lambda>b d. 2 ^ 20),
     pd_allocKernelMemory = (\<lambda>n d. (Some 4096, d)), pd_freeKernelMemory = (\<lambda>d. d),
     kmem_get = (\<lambda>n d. Some (replicate n 0)), kmem_put = (\<lambda>b d. Some d)\<rparr>"

definition board_view :: "board pcie_view" where
  "board_view = \<lparr>page2 = b_page2, page4 = b_page4, mem2 = (\<lambda>d. mem_view (b_mem2 d)),
     mem4 = (\<lambda>d. mem_view (b_mem4 d)), live = (\<lambda>_. True)\<rparr>"

definition board0 :: board where
  "board0 = \<lparr>b_page2 = 0, b_page4 = 0, b_mem2 = (\<lambda>_. 0), b_mem4 = (\<lambda>_. 0), b_resets = 0\<rparr>"

definition board_open :: "board pcie" where
  "board_open = \<lparr>pc_llio = \<lparr>dev_handler = Some \<lparr>bar0_size = 2 ^ 20, bar2_size = 2 ^ 20,
       bar4_size = 2 ^ 20, kmem_pa = 4096\<rparr>,
     llio_name = ''llio'', verbose = 0, sdb_prefix_addr = 0,
     endpoint = \<lparr>ep_open = True, ep_name = Some ''/dev/fpga0''\<rparr>\<rparr>, pc_dev = board0\<rparr>"

definition board_closed :: "board pcie" where
  "board_closed = \<lparr>pc_llio = \<lparr>dev_handler = None,
     llio_name = ''llio'', verbose = 0, sdb_prefix_addr = 0,
     endpoint = \<lparr>ep_open = False, ep_name = Some ''/dev/fpga0''\<rparr>\<rparr>, pc_dev = board0\<rparr>"

text \<open>The bytes of different aligned words are different.\<close>

lemma word_addr_drop:
  assumes "word_addr a" and "n < 4"
  shows "drop_bit 2 (a + of_nat n) = drop_bit 2 a"
proof -
  have z: "\<not> bit a i" if "i < 2" for i
    using arg_cong [OF assms(1) [unfolded word_addr_def], of "\<lambda>x. bit x i"] that by (simp add: bit_simps)
  have h: "\<not> bit n i" if "2 \<le> i" for i
  proof -
    have "n < 2 ^ i" using assms(2) power_increasing [OF that, of "2 :: nat"] by simp
    then show ?thesis by (simp add: bit_nat_def)
  qed
  have "a + of_nat n = a OR of_nat n"
    by (rule disjunctive_add) (use z h not_less in \<open>auto simp: bit_simps\<close>)
  then show ?thesis by (auto intro!: bit_word_eqI simp: bit_simps h)
qed

lemma word_bytes_apart:
  assumes "word_addr a" and "word_addr b" and "a + of_nat i = b + of_nat j" and "i < 4" and "j < 4"
  shows "a = b"
proof -
  have "drop_bit 2 a = drop_bit 2 b"
    using word_addr_drop [OF assms(1,4)] word_addr_drop [OF assms(2,5)] assms(3) by simp
  moreover have "take_bit 2 a = take_bit 2 b" using assms(1,2) by (simp add: word_addr_def)
  ultimately show ?thesis by (metis bits_ident)
qed

lemma mem32_put_get: "mem32 (mem32_put m a v) a = v"
proof (rule bit_word_eqI)
  fix n assume "n < LENGTH(32)"
  then consider "n < 8" | "8 \<le> n" "n < 16" | "16 \<le> n" "n < 24" | "24 \<le> n" "n < 32" by fastforce
  then show "bit (mem32 (mem32_put m a v) a) n = bit v n"
  proof cases
    case 1 then show ?thesis by (simp add: mem32_def mem32_put_def bit_simps)
  next
    case 2 then have "n - 8 < 8" by linarith
    with 2 show ?thesis by (simp add: mem32_def mem32_put_def bit_simps)
  next
    case 3 then have "\<not> n - 8 < 8" "n - 16 < 8" by linarith+
    with 3 show ?thesis by (simp add: mem32_def mem32_put_def bit_simps)
  next
    case 4 then have "\<not> n - 8 < 8" "\<not> n - 16 < 8" "n - 24 < 8" by linarith+
    with 4 show ?thesis by (simp add: mem32_def mem32_put_def bit_simps)
  qed
qed

lemma mem_view_put:
  assumes "word_addr a"
  shows "mem_view (mem32_put m a v) = (mem_view m)(a := v)"
proof
  fix b show "mem_view (mem32_put m a v) b = ((mem_view m)(a := v)) b"
  proof (cases "word_addr b \<and> b \<noteq> a")
    case False
    then consider "b = a" | "\<not> word_addr b" "b \<noteq> a" using assms by blast
    then show ?thesis by cases (simp_all add: mem_view_def mem32_put_get assms)
  next
    case True
    have ne: "b + of_nat i \<noteq> a + of_nat j" if "i < 4" "j < 4" for i j
      using word_bytes_apart [of b a i j] that True assms by blast
    have get: "mem32_put m a v (b + of_nat i) = m (b + of_nat i)" if i: "i < 4" for i
    proof -
      have "b + of_nat i \<noteq> a" "b + of_nat i \<noteq> a + 1" "b + of_nat i \<noteq> a + 2" "b + of_nat i \<noteq> a + 3"
        using ne [OF i, of 0] ne [OF i, of 1] ne [OF i, of 2] ne [OF i, of 3] by simp_all
      then show ?thesis unfolding mem32_put_def by (simp only: fun_upd_apply if_False)
    qed
    have "mem32_put m a v b = m b" "mem32_put m a v (b + 1) = m (b + 1)" "mem32_put m a v (b + 2) = m (b + 2)"
      "mem32_put m a v (b + 3) = m (b + 3)"
      using get [of 0] get [of 1] get [of 2] get [of 3] by simp_all
    then have "mem32 (mem32_put m a v) b = mem32 m b" unfolding mem32_def by (simp only:)
    with True show ?thesis by (simp add: mem_view_def)
  qed
qed

lemma word_addr_pg: "2 \<le> n \<Longrightarrow> word_addr a \<Longrightarrow> word_addr (pg_addr n pg a)"
proof -
  assume n: "2 \<le> n" and a: "word_addr a"
  have "\<not> bit a i" if "i < 2" for i
    using arg_cong [OF a [unfolded word_addr_def], of "\<lambda>x. bit x i"] that by (simp add: bit_simps)
  then show "word_addr (pg_addr n pg a)" unfolding word_addr_def pg_addr_def
    by (intro bit_word_eqI) (use n in \<open>auto simp: bit_simps\<close>)
qed

lemma board_hw_ok: "board_ok board_hw board_view"
  by (simp add: board_ok_def window_ok_def board_hw_def board_view_def mem_view_put word_addr_pg)
    (simp add: mem_view_def word_addr_pg)

lemma board_open_good: "pcie_good board_hw board_view board_open"
  by (simp add: pcie_good_def board_hw_ok)
    (simp add: board_view_def board_open_def pc_is_open_def pc_handler_def llio_get_endpoint_open_def
      s_llio_get_endpoint_open_def llio_endpoint_get_open_def llio_get_dev_handler_def)

section \<open>Blocks of the SDRAM window\<close>

definition splice :: "u8 list \<Rightarrow> nat \<Rightarrow> u8 list \<Rightarrow> u8 list" where
  "splice buf i xs = take i buf @ xs @ drop (i + length xs) buf"

primrec mem_words :: "(u64 \<Rightarrow> u32) \<Rightarrow> nat \<Rightarrow> nat \<Rightarrow> u8 list" where
  "mem_words m a 0 = []"
| "mem_words m a (Suc n) = le_bytes 4 (m (of_nat a)) @ mem_words m (a + 4) n"

lemma length_mem_words [simp]: "length (mem_words m a n) = 4 * n"
  by (induction n arbitrary: a) auto

lemma length_splice [simp]: "i + length xs \<le> length buf \<Longrightarrow> length (splice buf i xs) = length buf"
  by (simp add: splice_def)

lemma splice_Nil [simp]: "splice buf i [] = buf"
  by (simp add: splice_def)

lemma splice_splice:
  assumes "i + length xs + length ys \<le> length buf"
  shows "splice (splice buf i xs) (i + length xs) ys = splice buf i (xs @ ys)"
  using assms by (simp add: splice_def ac_simps)

lemma mem_words_add: "mem_words m a (n + k) = mem_words m a n @ mem_words m (a + 4 * n) k"
  by (induction n arbitrary: a) (auto simp: algebra_simps)

lemma buf_set_splice: "i + 4 \<le> length buf \<Longrightarrow> buf_set buf i w = Some (splice buf i (le_bytes 4 w))"
  by (simp add: buf_set_def splice_def)

lemma pg_addr_nat:
  assumes "o' < 2 ^ n" and "n \<le> 32"
  shows "pg_addr n pg (of_nat o') = of_nat (unat pg * 2 ^ n + o')"
proof -
  have b: "\<not> bit (of_nat o' :: u64) i" if "n \<le> i" for i
  proof -
    have "o' < 2 ^ i" using assms(1) that by (meson less_le_trans power_increasing one_le_numeral)
    then show ?thesis by (simp add: bit_simps bit_nat_def)
  qed
  have "push_bit n (ucast pg) OR of_nat o' = push_bit n (ucast pg) + (of_nat o' :: u64)"
    by (rule disjunctive_add [symmetric]) (use b in \<open>auto simp: bit_simps not_le\<close>)
  moreover have "push_bit n (ucast pg) = (of_nat (unat pg * 2 ^ n) :: u64)"
    by (simp add: push_bit_eq_mult unsigned_ucast_eq)
  ultimately show ?thesis by (simp add: pg_addr_def)
qed


lemma rw_elem_read:
  assumes b: "window_ok H V" and l: "live V d" and o': "o' < 2 ^ 20" "4 dvd o'" and i: "i + 4 \<le> length buf"
  shows "\<exists>d'. rw_elem (BAR2_RW H) (of_nat o') i True (buf, d) =
      Some (splice buf i (le_bytes 4 (mem2 V d (of_nat (unat (page2 V d) * 2 ^ 20 + o')))), d') \<and>
    same_mem V d d' \<and> page2 V d' = page2 V d"
proof -
  have "(of_nat o' :: u64) < 2 ^ 20"
    using o' by (simp add: word_less_nat_alt unat_of_nat_small)
  from window_okD(3) [OF b l word_addr_nat [OF o'(2)] this] obtain d' where
    "bar_rd H 2 (of_nat o') d = Some (mem2 V d (pg_addr 20 (page2 V d) (of_nat o')), d')"
    "same_mem V d d'" "page2 V d' = page2 V d" by (auto simp: same_mem_def)
  then show ?thesis
    using i by (simp add: rw_elem_def BAR2_RW_def BAR_RW_8_def BAR2NO_def pg_addr_nat [OF o'(1)]
        buf_set_splice)
qed

lemma rw_elems_read:
  assumes b: "window_ok H V" and a4: "4 dvd a"
  shows "live V d \<Longrightarrow> a + 4 * (unat j + n) \<le> 2 ^ 20 \<Longrightarrow> dp + 4 * (unat j + n) \<le> length buf \<Longrightarrow>
    \<exists>d'. rw_elems (BAR2_RW H) n j (of_nat a) dp True (buf, d) =
      Some (splice buf (dp + 4 * unat j)
        (mem_words (mem2 V d) (unat (page2 V d) * 2 ^ 20 + a + 4 * unat j) n), d') \<and>
    same_mem V d d' \<and> page2 V d' = page2 V d"
proof (induction n arbitrary: j buf d)
  case 0
  then show ?case by (simp add: same_mem_def)
next
  case (Suc n)
  have j: "unat (j + 1) = unat j + 1"
    using Suc.prems(2) by (intro trans [OF unat_add_lem [THEN iffD1]]) auto
  have "unat (push_bit 2 j) = 4 * unat j"
    using Suc.prems(2) by (simp add: push_bit_eq_mult unat_mult_lem [THEN iffD1])
  then have "(of_nat (unat (push_bit 2 j)) :: u64) = of_nat (4 * unat j)" by simp
  then have "ucast (push_bit 2 j) = (of_nat (4 * unat j) :: u64)" by simp
  then have addr: "of_nat a + ucast (push_bit 2 j) = (of_nat (a + 4 * unat j) :: u64)" by simp
  have "a + 4 * unat j < 2 ^ 20" "4 dvd a + 4 * unat j" "dp + 4 * unat j + 4 \<le> length buf" using Suc.prems a4 by auto
  from rw_elem_read [OF b Suc.prems(1) this] obtain d1 where
    d1: "rw_elem (BAR2_RW H) (of_nat (a + 4 * unat j)) (dp + 4 * unat j) True (buf, d) =
      Some (splice buf (dp + 4 * unat j)
        (le_bytes 4 (mem2 V d (of_nat (unat (page2 V d) * 2 ^ 20 + (a + 4 * unat j))))), d1)"
    "same_mem V d d1" "page2 V d1 = page2 V d" by blast
  let ?buf = "splice buf (dp + 4 * unat j)
        (le_bytes 4 (mem2 V d (of_nat (unat (page2 V d) * 2 ^ 20 + (a + 4 * unat j)))))"
  have len: "length ?buf = length buf" using Suc.prems by simp
  have "live V d1" "a + 4 * (unat (j + 1) + n) \<le> 2 ^ 20" "dp + 4 * (unat (j + 1) + n) \<le> length ?buf"
    using d1 Suc.prems j len by (auto simp: same_mem_def)
  from Suc.IH [OF this] obtain d2 where
    d2: "rw_elems (BAR2_RW H) n (j + 1) (of_nat a) dp True (?buf, d1) =
      Some (splice ?buf (dp + 4 * unat (j + 1))
        (mem_words (mem2 V d1) (unat (page2 V d1) * 2 ^ 20 + a + 4 * unat (j + 1)) n), d2)"
    "same_mem V d1 d2" "page2 V d2 = page2 V d1" by blast
  have "splice ?buf (dp + 4 * unat j + 4) (mem_words (mem2 V d) (unat (page2 V d) * 2 ^ 20 + a + 4 * unat j + 4) n) =
      splice buf (dp + 4 * unat j) (mem_words (mem2 V d) (unat (page2 V d) * 2 ^ 20 + a + 4 * unat j) (Suc n))"
    using splice_splice [of "dp + 4 * unat j" "le_bytes 4 (mem2 V d (of_nat (unat (page2 V d) * 2 ^ 20 + (a + 4 * unat j))))"
        "mem_words (mem2 V d) (unat (page2 V d) * 2 ^ 20 + a + 4 * unat j + 4) n" buf] Suc.prems
    by (simp add: add.assoc)
  with d1 d2 j addr show ?case by (auto simp: same_mem_def algebra_simps)
qed

text \<open>One page of the loop.\<close>

lemma block_read:
  assumes b: "window_ok H V" and o4: "4 dvd unat offs" and l: "live V d" and o': "unat offs + unat np \<le> 2 ^ 20"
    and np4: "4 dvd unat np" and buf: "dp + unat np \<le> length buf"
  shows "\<exists>d'. BAR2_RW_BLOCK H offs np dp True (buf, d) =
      Some (splice buf dp
        (mem_words (mem2 V d) (unat (page2 V d) * 2 ^ 20 + unat offs) (unat np div 4)), d') \<and>
    same_mem V d d' \<and> page2 V d' = page2 V d"
proof -
  have np: "4 * (unat np div 4) = unat np" using np4 by (rule dvd_mult_div_cancel)
  have "unat offs + 4 * (unat (0 :: u32) + unat np div 4) \<le> 2 ^ 20"
    "dp + 4 * (unat (0 :: u32) + unat np div 4) \<le> length buf" using np o' buf by simp_all
  from rw_elems_read [OF b o4 l this] show ?thesis by (simp add: BAR2_RW_BLOCK_def)
qed

lemma page_size_word: "unat (0x100000 :: u32) = 2 ^ 20"
  by simp

lemma split_page:
  fixes offs rem :: u32
  assumes "unat offs < 2 ^ 20" and "unat offs + unat rem < 2 ^ 32" and "4 dvd unat offs" and "4 dvd unat rem"
  defines "np \<equiv> (if offs + rem > 0x100000 then 0x100000 - offs else rem)"
  shows "unat np = min (2 ^ 20 - unat offs) (unat rem)" and "4 dvd unat np"
    and "unat (rem - np) = unat rem - unat np" and "np \<le> rem"
proof -
  have s: "unat (offs + rem) = unat offs + unat rem"
    using assms(2) by (intro unat_add_lem [THEN iffD1]) simp
  have m: "unat (0x100000 - offs) = 2 ^ 20 - unat offs"
    using assms(1) by (subst unat_sub) (auto simp: word_le_nat_alt)
  show np: "unat np = min (2 ^ 20 - unat offs) (unat rem)"
    using assms(1) s m by (auto simp: np_def word_less_nat_alt min_def)
  have "(4 :: nat) dvd 2 ^ 20 - unat offs"
    using assms(3) by (intro dvd_diff_nat) simp_all
  with assms(4) np show "4 dvd unat np" by (simp add: min_def)
  have le: "unat np \<le> unat rem" using np by simp
  then show "np \<le> rem" by (simp add: word_le_nat_alt)
  then show "unat (rem - np) = unat rem - unat np" by (rule unat_sub)
qed

lemma pages_count:
  assumes "x < (2 :: nat) ^ 20" and "x + r = n"
  shows "2 ^ 20 \<le> n \<Longrightarrow> (r - (2 ^ 20 - x)) div 2 ^ 20 + 1 = n div 2 ^ 20"
proof -
  assume "2 ^ 20 \<le> n"
  then have "n = (r - (2 ^ 20 - x)) + 2 ^ 20" using assms by linarith
  then show ?thesis by (metis div_add_self2 Suc_eq_plus1 power_not_zero zero_neq_numeral)
qed

lemma bar2_pages_read:
  assumes b: "window_ok H V"
  shows "live V d \<Longrightarrow> unat offs < 2 ^ 20 \<Longrightarrow> 4 dvd unat offs \<Longrightarrow> 4 dvd unat rem \<Longrightarrow>
    unat offs + unat rem < 2 ^ 32 \<Longrightarrow> k = (unat offs + unat rem) div 2 ^ 20 \<Longrightarrow>
    unat pg_end = unat pg + k + 1 \<Longrightarrow> unat pg_end < 2 ^ 32 \<Longrightarrow> dp + unat rem \<le> length buf \<Longrightarrow>
    \<exists>d'. bar2_pages H 0x100000 pg_end True pg offs rem nrw dp (buf, d) =
      Some (nrw + rem, splice buf dp
        (mem_words (mem2 V d) (unat pg * 2 ^ 20 + unat offs) (unat rem div 4)), d') \<and>
    same_mem V d d'"
proof (induction k arbitrary: pg offs rem nrw dp buf d)
  case (0 pg offs rem nrw dp buf d)
  then have lt: "unat offs + unat rem < 2 ^ 20" by (simp add: div_eq_0_iff)
  obtain d1 where d1: "SET_SDRAM_PG H pg d = Some d1" "same_mem V d d1" "page2 V d1 = pg"
    by (rule set_sdram_pg [OF b 0(1)])
  have l1: "live V d1" using d1 by (simp add: same_mem_def)
  have le: "unat offs + unat rem \<le> 2 ^ 20" using lt by simp
  from block_read [OF b 0(3) l1 le 0(4) 0(9)] d1 obtain d2 where
    d2: "BAR2_RW_BLOCK H offs rem dp True (buf, d1) = Some (splice buf dp
        (mem_words (mem2 V d) (unat pg * 2 ^ 20 + unat offs) (unat rem div 4)), d2)" "same_mem V d d2"
    by (auto simp: same_mem_def)
  have "unat (offs + rem) = unat offs + unat rem"
    using 0(5) by (intro unat_add_lem [THEN iffD1]) simp
  then have np: "\<not> offs + rem > 0x100000" using lt by (simp add: word_less_nat_alt)
  have in_range: "(ucast pg :: u64) < pg_end" using 0(7) by (simp add: word_less_nat_alt unat_ucast_up)
  have pg1: "unat (pg + 1) = unat pg + 1" using 0(7,8) by (intro trans [OF unat_add_lem [THEN iffD1]]) auto
  then have stop: "\<not> (ucast (pg + 1) :: u64) < pg_end" using 0(7) by (simp add: word_less_nat_alt unat_ucast_up)
  show ?case
    using d1 d2 np in_range stop
    by (simp add: bar2_pages.simps [of _ _ _ _ pg] bar2_pages.simps [of _ _ _ _ "pg + 1"])
next
  case (Suc k pg offs rem nrw dp buf d)
  define np where "np = (if offs + rem > 0x100000 then 0x100000 - offs else rem)"
  note sp = split_page [OF Suc.prems(2,5,3,4), folded np_def]
  have ge: "2 ^ 20 \<le> unat offs + unat rem" using Suc.prems(6)
    by (metis div_less not_less nat.distinct(1))
  then have npv: "unat np = 2 ^ 20 - unat offs" using sp(1) by linarith
  obtain d1 where d1: "SET_SDRAM_PG H pg d = Some d1" "same_mem V d d1" "page2 V d1 = pg"
    by (rule set_sdram_pg [OF b Suc.prems(1)])
  have l1: "live V d1" using d1 by (simp add: same_mem_def)
  have le: "unat offs + unat np \<le> 2 ^ 20" "dp + unat np \<le> length buf"
    using npv Suc.prems(2,9) sp(4) by (auto simp: word_le_nat_alt)
  let ?w1 = "mem_words (mem2 V d) (unat pg * 2 ^ 20 + unat offs) (unat np div 4)"
  from block_read [OF b Suc.prems(3) l1 le(1) sp(2) le(2)] d1 obtain d2 where
    d2: "BAR2_RW_BLOCK H offs np dp True (buf, d1) = Some (splice buf dp ?w1, d2)" "same_mem V d d2"
    by (auto simp: same_mem_def)
  have in_range: "(ucast pg :: u64) < pg_end" using Suc.prems(7) by (simp add: word_less_nat_alt unat_ucast_up)
  have pg1: "unat (pg + 1) = unat pg + 1"
    using Suc.prems(7,8) by (intro trans [OF unat_add_lem [THEN iffD1]]) auto
  have np4: "4 * (unat np div 4) = unat np" using sp(2) by (rule dvd_mult_div_cancel)
  have len: "length (splice buf dp ?w1) = length buf" using le(2) np4 by simp
  have rem': "unat (rem - np) = unat rem - (2 ^ 20 - unat offs)" using sp(3) npv by simp
  have k: "k = (unat (0 :: u32) + unat (rem - np)) div 2 ^ 20"
    using pages_count [OF Suc.prems(2) refl ge] Suc.prems(6) rem' by simp
  have d4: "4 dvd unat (rem - np)" using Suc.prems(4) sp(2,3) by (simp add: dvd_diff_nat)
  have pre: "live V d2" "unat (0 :: u32) < 2 ^ 20" "4 dvd unat (0 :: u32)"
    "unat (0 :: u32) + unat (rem - np) < 2 ^ 32" "unat pg_end = unat (pg + 1) + k + 1"
    "dp + unat np + unat (rem - np) \<le> length (splice buf dp ?w1)"
    using d2 Suc.prems(5,7,9) pg1 len sp(3,4) by (auto simp: same_mem_def word_le_nat_alt)
  from Suc.IH [OF pre(1,2,3) d4 pre(4) k pre(5) Suc.prems(8) pre(6), of "nrw + np"] obtain d3 where
    d3: "bar2_pages H 0x100000 pg_end True (pg + 1) 0 (rem - np) (nrw + np) (dp + unat np)
        (splice buf dp ?w1, d2) =
      Some (nrw + np + (rem - np), splice (splice buf dp ?w1) (dp + unat np)
        (mem_words (mem2 V d2) (unat (pg + 1) * 2 ^ 20 + unat (0 :: u32)) (unat (rem - np) div 4)), d3)"
    "same_mem V d2 d3" by blast
  have cnt: "unat np div 4 + unat (rem - np) div 4 = unat rem div 4"
  proof -
    have "unat np + unat (rem - np) = unat rem" using sp(3,4) by (simp add: word_le_nat_alt)
    with sp(2) show ?thesis by (metis div_plus_div_distrib_dvd_left)
  qed
  have addr: "unat (pg + 1) * 2 ^ 20 = unat pg * 2 ^ 20 + unat offs + 4 * (unat np div 4)"
    using np4 npv pg1 Suc.prems(2) by simp
  have "splice (splice buf dp ?w1) (dp + unat np)
        (mem_words (mem2 V d) (unat (pg + 1) * 2 ^ 20) (unat (rem - np) div 4)) =
      splice buf dp (?w1 @ mem_words (mem2 V d) (unat (pg + 1) * 2 ^ 20) (unat (rem - np) div 4))"
    using splice_splice [of dp ?w1 "mem_words (mem2 V d) (unat (pg + 1) * 2 ^ 20) (unat (rem - np) div 4)" buf]
      np4 pre(6) len d4 by simp
  also have "?w1 @ mem_words (mem2 V d) (unat (pg + 1) * 2 ^ 20) (unat (rem - np) div 4) =
      mem_words (mem2 V d) (unat pg * 2 ^ 20 + unat offs) (unat rem div 4)"
    unfolding addr by (simp only: mem_words_add [symmetric] cnt)
  finally have sp2: "splice (splice buf dp ?w1) (dp + unat np)
        (mem_words (mem2 V d) (unat (pg + 1) * 2 ^ 20) (unat (rem - np) div 4)) =
      splice buf dp (mem_words (mem2 V d) (unat pg * 2 ^ 20 + unat offs) (unat rem div 4))" .
  have "mem2 V d2 = mem2 V d" "same_mem V d d3" using d2 d3 by (auto simp: same_mem_def)
  with d1 d2 d3 in_range sp2 show ?case
    by (simp add: bar2_pages.simps [of _ _ _ _ pg] np_def [symmetric])
qed

text \<open>The whole block: from address \<open>a\<close> of the window, \<open>n\<close> bytes.\<close>

definition block_args :: "u64 \<Rightarrow> nat \<Rightarrow> bool" where
  "block_args offs n \<longleftrightarrow> PCIE_ADDR_BAR offs = BAR2NO \<and> 4 dvd unat (PCIE_ADDR_GEN offs) \<and> 4 dvd n \<and>
     n < 2 ^ 31 \<and> unat (PCIE_ADDR_GEN offs) + n < 2 ^ 52 - 2 ^ 20"

lemma nat_page:
  assumes "(a :: nat) + n < 2 ^ 52 - 2 ^ 20"
  shows "a div 2 ^ 20 < 2 ^ 32" and "a div 2 ^ 20 + (a mod 2 ^ 20 + n) div 2 ^ 20 + 1 < 2 ^ 32"
proof -
  have "a = 2 ^ 20 * (a div 2 ^ 20) + a mod 2 ^ 20" by (rule mult_div_mod_eq [symmetric])
  then have "a + n = (a mod 2 ^ 20 + n) + 2 ^ 20 * (a div 2 ^ 20)" by linarith
  then have e: "(a + n) div 2 ^ 20 = (a mod 2 ^ 20 + n) div 2 ^ 20 + a div 2 ^ 20"
    by (metis div_mult_self2 add.commute power_not_zero zero_neq_numeral)
  have "(a + n) div 2 ^ 20 < 2 ^ 32 - 1"
    by (rule less_mult_imp_div_less) (use assms in simp)
  then show "a div 2 ^ 20 + (a mod 2 ^ 20 + n) div 2 ^ 20 + 1 < 2 ^ 32" using e by simp
  then show "a div 2 ^ 20 < 2 ^ 32" by linarith
qed

lemma raw_read_window:
  assumes b: "window_ok H V" and l: "live V (pc_dev self)" and dev: "pc_handler self = Some dev" "bar2_size dev = 0x100000"
    and a: "block_args offs n" and len: "n \<le> length data"
  shows "\<exists>d'. s_pcie_rw_bar2_block_raw H (ucast (PCIE_ADDR_SDRAM_PG (PCIE_ADDR_GEN offs)))
      (PCIE_ADDR_SDRAM_PG_OFFS (PCIE_ADDR_GEN offs)) data (of_nat n) True self =
    Some (int n, splice data 0 (mem_words (mem2 V (pc_dev self)) (unat (PCIE_ADDR_GEN offs)) (n div 4)),
      self\<lparr>pc_dev := d'\<rparr>) \<and> same_mem V (pc_dev self) d'"
proof -
  define A where "A = unat (PCIE_ADDR_GEN offs)"
  have n: "n < 2 ^ 31" "4 dvd n" "4 dvd A" "A + n < 2 ^ 52 - 2 ^ 20"
    using a by (auto simp: block_args_def A_def)
  define pg :: u32 where "pg = ucast (drop_bit 20 (PCIE_ADDR_GEN offs))"
  define po where "po = take_bit 20 (PCIE_ADDR_GEN offs)"
  have pg: "unat pg = A div 2 ^ 20"
    using nat_page(1) [OF n(4)]
    by (simp add: pg_def unsigned_ucast_eq take_bit_nat_eq_self drop_bit_eq_div unat_div A_def)
  have po: "unat po = A mod 2 ^ 20"
    by (simp add: po_def take_bit_eq_mod unat_mod A_def)
  have po': "unat (ucast po :: u32) = A mod 2 ^ 20"
  proof -
    have "A mod 2 ^ 20 < 2 ^ 32" by (rule less_trans [OF mod_less_divisor]) simp_all
    then show ?thesis using po by (simp add: unsigned_ucast_eq take_bit_nat_eq_self)
  qed
  have un: "unat (of_nat n :: u32) = n" using n(1) by (intro unat_of_nat_small) simp
  let ?e = "pages_end pg po (of_nat n) 0x100000"
  have o1: "unat (po + ucast (of_nat n :: u32)) = A mod 2 ^ 20 + n"
  proof -
    have "unat (ucast (of_nat n :: u32) :: u64) = n" using un by (simp add: unat_ucast_up)
    moreover have "A mod 2 ^ 20 < 2 ^ 20" by simp
    ultimately show ?thesis
      using n(1) po by (subst unat_add_lem [THEN iffD1]) auto
  qed
  have o2: "unat ((po + ucast (of_nat n :: u32)) div ucast (0x100000 :: u32)) = (A mod 2 ^ 20 + n) div 2 ^ 20"
    using o1 by (simp add: unat_div)
  have e: "unat ?e = unat pg + (unat (ucast po :: u32) + unat (of_nat n :: u32)) div 2 ^ 20 + 1"
  proof -
    let ?q = "(po + ucast (of_nat n :: u32)) div ucast (0x100000 :: u32)"
    have up: "unat (ucast pg :: u64) = unat pg" by (simp add: unat_ucast_up)
    have "unat pg + unat ?q + 1 < 2 ^ 64" unfolding o2 pg
      by (rule less_trans [OF nat_page(2) [OF n(4)]]) simp
    then have "unat (ucast pg + ?q + 1) = unat pg + unat ?q + 1"
      using up by (simp add: unat_word_ariths)
    then show ?thesis unfolding pages_end_def o2 po' un by simp
  qed
  have lt: "unat ?e < 2 ^ 32" using e nat_page(2) [OF n(4)] pg po' un by simp
  have r: "4 dvd unat (ucast po :: u32)" "unat (ucast po :: u32) < 2 ^ 20"
    "unat (ucast po :: u32) + unat (of_nat n :: u32) < 2 ^ 32"
  proof -
    have "(4 :: nat) dvd 2 ^ 20" by simp
    then show "4 dvd unat (ucast po :: u32)" using po' n(3) by (simp add: dvd_mod)
    show lt20: "unat (ucast po :: u32) < 2 ^ 20" using po' by simp
    then show "unat (ucast po :: u32) + unat (of_nat n :: u32) < 2 ^ 32" using un n(1) by simp
  qed
  have d4: "4 dvd unat (of_nat n :: u32)" and ln: "0 + unat (of_nat n :: u32) \<le> length data"
    using un n(2) len by simp_all
  from bar2_pages_read [OF b l r(2,1) d4 r(3) refl e lt ln, of 0] obtain d' where
    d': "bar2_pages H 0x100000 ?e True pg (ucast po) (of_nat n) 0 0 (data, pc_dev self) =
      Some (0 + of_nat n, splice data 0 (mem_words (mem2 V (pc_dev self))
        (unat pg * 2 ^ 20 + unat (ucast po :: u32)) (unat (of_nat n :: u32) div 4)), d')"
    "same_mem V (pc_dev self) d'" by blast
  have "unat pg * 2 ^ 20 + unat (ucast po :: u32) = A"
    unfolding pg po' by (rule div_mult_mod_eq)
  moreover have "uint (of_nat n :: u32) = int n" using un by (metis uint_nat)
  ultimately show ?thesis
    using d' dev un by (intro exI [of _ d']) (unfold pg_bits pg_offs_bits pg_def [symmetric] po_def [symmetric] A_def [symmetric],
      simp add: s_pcie_rw_bar2_block_raw_def)
qed

text \<open>A count of the resets of the core: a function of the board that every write to the register of
  the reset increases and no other access changes.\<close>

definition counts_resets :: "'d pcie_hw \<Rightarrow> 'd pcie_view \<Rightarrow> ('d \<Rightarrow> nat) \<Rightarrow> bool" where
  "counts_resets H V cnt \<longleftrightarrow>
     (\<forall>a v d d'. live V d \<longrightarrow> bar_wr H 0 a v d = Some d' \<longrightarrow> cnt d' = cnt d + (if a = 120 then 1 else 0)) \<and>
     (\<forall>a v d d'. live V d \<longrightarrow> bar_rd H 2 a d = Some (v, d') \<longrightarrow> cnt d' = cnt d) \<and>
     (\<forall>a v d d'. live V d \<longrightarrow> bar_wr H 2 a v d = Some d' \<longrightarrow> cnt d' = cnt d) \<and>
     (\<forall>a v d d'. live V d \<longrightarrow> bar4_rd H a d = Some (v, d') \<longrightarrow> cnt d' = cnt d) \<and>
     (\<forall>a v d d'. live V d \<longrightarrow> bar4_wr H a v d = Some d' \<longrightarrow> cnt d' = cnt d)"

lemma window_counted:
  assumes "window_ok H V" and "counts_resets H V cnt"
  shows "window_ok H (V\<lparr>live := \<lambda>d. live V d \<and> cnt d = c\<rparr>)"
proof -
  note w = window_okD [OF assms(1)]
  have n: "live V d \<Longrightarrow> bar_wr H 0 a v d = Some d' \<Longrightarrow> a \<noteq> 120 \<Longrightarrow> cnt d' = cnt d"
      "live V d \<Longrightarrow> bar_rd H 2 a d = Some (v, d') \<Longrightarrow> cnt d' = cnt d"
      "live V d \<Longrightarrow> bar_wr H 2 a v d = Some d' \<Longrightarrow> cnt d' = cnt d"
      "live V d \<Longrightarrow> bar4_rd H a d = Some (x, d') \<Longrightarrow> cnt d' = cnt d"
      "live V d \<Longrightarrow> bar4_wr H a x d = Some d' \<Longrightarrow> cnt d' = cnt d" for d a v x d'
    using assms(2) unfolding counts_resets_def by auto
  have ne: "(28 :: u64) \<noteq> 120" "(36 :: u64) \<noteq> 120" by simp_all
  have u: "live (V\<lparr>live := f\<rparr>) = f" "page2 (V\<lparr>live := f\<rparr>) = page2 V" "page4 (V\<lparr>live := f\<rparr>) = page4 V"
      "mem2 (V\<lparr>live := f\<rparr>) = mem2 V" "mem4 (V\<lparr>live := f\<rparr>) = mem4 V" for f by simp_all
  show ?thesis
    unfolding window_ok_def u
  proof (intro conjI allI impI; elim conjE)
    fix d and v :: u32 assume l: "live V d" "cnt d = c"
    show "\<exists>d'. bar_wr H 0 28 v d = Some d' \<and> (live V d' \<and> cnt d' = c) \<and> page2 V d' = v \<and>
        page4 V d' = page4 V d \<and> mem2 V d' = mem2 V d \<and> mem4 V d' = mem4 V d"
      using w(1) [OF l(1), of v] n(1) [OF l(1) _ ne(1)] l(2) by fastforce
    show "\<exists>d'. bar_wr H 0 36 v d = Some d' \<and> (live V d' \<and> cnt d' = c) \<and> page4 V d' = v \<and>
        page2 V d' = page2 V d \<and> mem2 V d' = mem2 V d \<and> mem4 V d' = mem4 V d"
      using w(2) [OF l(1), of v] n(1) [OF l(1) _ ne(2)] l(2) by fastforce
  next
    fix d and a :: u64 assume l: "live V d" "cnt d = c" and a: "word_addr a" "a < 2 ^ 20"
    show "\<exists>d'. bar_rd H 2 a d = Some (mem2 V d (pg_addr 20 (page2 V d) a), d') \<and>
        (live V d' \<and> cnt d' = c) \<and> page2 V d' = page2 V d \<and> page4 V d' = page4 V d \<and> mem2 V d' = mem2 V d \<and>
        mem4 V d' = mem4 V d"
      using w(3) [OF l(1) a] n(2) [OF l(1)] l(2) by fastforce
    fix v
    show "\<exists>d'. bar_wr H 2 a v d = Some d' \<and> (live V d' \<and> cnt d' = c) \<and> page2 V d' = page2 V d \<and>
        page4 V d' = page4 V d \<and> mem2 V d' = (mem2 V d)(pg_addr 20 (page2 V d) a := v) \<and> mem4 V d' = mem4 V d"
      using w(4) [OF l(1) a, of v] n(3) [OF l(1)] l(2) by fastforce
  next
    fix d and a :: u64 assume l: "live V d" "cnt d = c" and a: "word_addr a" "a < 2 ^ 16"
    show "\<exists>d' w. bar4_rd H a d = Some (w, d') \<and> ucast w = mem4 V d (pg_addr 16 (page4 V d) a) \<and>
        (live V d' \<and> cnt d' = c) \<and> page2 V d' = page2 V d \<and> page4 V d' = page4 V d \<and> mem2 V d' = mem2 V d \<and>
        mem4 V d' = mem4 V d"
      using w(5) [OF l(1) a] n(4) [OF l(1)] l(2) by fastforce
    fix v
    show "\<exists>d'. bar4_wr H a v d = Some d' \<and> (live V d' \<and> cnt d' = c) \<and> page2 V d' = page2 V d \<and>
        page4 V d' = page4 V d \<and> mem2 V d' = mem2 V d \<and> mem4 V d' = (mem4 V d)(pg_addr 16 (page4 V d) a := ucast v)"
      using w(6) [OF l(1) a, of v] n(5) [OF l(1)] l(2) by fastforce
  qed
qed

lemma raw_read:
  assumes g: "pcie_good H V self" and dev: "pc_handler self = Some dev" "bar2_size dev = 0x100000"
    and a: "block_args offs n" and len: "n \<le> length data"
  shows "\<exists>d'. s_pcie_rw_bar2_block_raw H (ucast (PCIE_ADDR_SDRAM_PG (PCIE_ADDR_GEN offs)))
      (PCIE_ADDR_SDRAM_PG_OFFS (PCIE_ADDR_GEN offs)) data (of_nat n) True self =
    Some (int n, splice data 0 (mem_words (mem2 V (pc_dev self)) (unat (PCIE_ADDR_GEN offs)) (n div 4)),
      self\<lparr>pc_dev := d'\<rparr>) \<and> same_mem V (pc_dev self) d' \<and>
    (\<forall>cnt. counts_resets H V cnt \<longrightarrow> cnt d' = cnt (pc_dev self))"
proof -
  have b: "window_ok H V" and l: "live V (pc_dev self)" using g by (simp_all add: pcie_good_def board_windows)
  obtain d' where d': "s_pcie_rw_bar2_block_raw H (ucast (PCIE_ADDR_SDRAM_PG (PCIE_ADDR_GEN offs)))
      (PCIE_ADDR_SDRAM_PG_OFFS (PCIE_ADDR_GEN offs)) data (of_nat n) True self =
    Some (int n, splice data 0 (mem_words (mem2 V (pc_dev self)) (unat (PCIE_ADDR_GEN offs)) (n div 4)),
      self\<lparr>pc_dev := d'\<rparr>)" "same_mem V (pc_dev self) d'"
    using raw_read_window [OF b l dev a len] by blast
  have "cnt d' = cnt (pc_dev self)" if c: "counts_resets H V cnt" for cnt
  proof -
    let ?V = "V\<lparr>live := \<lambda>d. live V d \<and> cnt d = cnt (pc_dev self)\<rparr>"
    have "live ?V (pc_dev self)" using l by simp
    from raw_read_window [OF window_counted [OF b c] this dev a len] d'(1) obtain d2 where
      "self\<lparr>pc_dev := d'\<rparr> = self\<lparr>pc_dev := d2\<rparr>" "same_mem ?V (pc_dev self) d2" by auto
    then show ?thesis by (auto simp: same_mem_def dest: arg_cong [of _ _ pc_dev])
  qed
  with d' show ?thesis by blast
qed

lemma timeout_reset_same:
  assumes "pcie_good H V self"
  shows "\<exists>d'. s_pcie_timeout_reset H self = Some (0, self\<lparr>pc_dev := d'\<rparr>) \<and> same_mem V (pc_dev self) d' \<and>
    (\<forall>cnt. counts_resets H V cnt \<longrightarrow> cnt d' = cnt (pc_dev self) + 1)"
proof -
  have a: "PCIE_ADDR_BAR (BAR0_ADDR OR PCIE_CFG_REG_TX_CTRL) = BAR0NO"
    "PCIE_ADDR_GEN (BAR0_ADDR OR PCIE_CFG_REG_TX_CTRL) = 120"
    by (simp_all add: regs PCIE_ADDR_BAR_def PCIE_ADDR_GEN_def BAR0_ADDR_def)
  have l: "live V (pc_dev self)" using assms by (simp add: pcie_good_def)
  obtain d' where d': "bar_wr H 0 120 PCIE_CFG_TX_CTRL_CHANNEL_RST (pc_dev self) = Some d'"
    "same_mem V (pc_dev self) d'"
    using assms board_reset [of H V "pc_dev self" PCIE_CFG_TX_CTRL_CHANNEL_RST]
    by (auto simp: pcie_good_def same_mem_def)
  have "cnt d' = cnt (pc_dev self) + 1" if "counts_resets H V cnt" for cnt
    using that l d'(1) unfolding counts_resets_def by force
  with d' show ?thesis
    using assms
    by (auto simp: s_pcie_timeout_reset_def s_pcie_rw_32_def a BAR0_RW_def BAR_RW_8_def
        WRITE_TO_BAR_def BAR0NO_def pcie_good_def)
qed

text \<open>A block access that always delivers the timeout pattern exhausts the tries, one step of the
  invariant \<open>Q\<close> for each.\<close>

lemma td_exhausted:
  assumes raw: "\<And>k data self. Q k data self \<Longrightarrow> \<exists>r data' self1. raw data self = Some (r, data', self1) \<and>
      looks_timed_out r data' = Some True \<and>
      (\<exists>e self2. s_pcie_timeout_reset H self1 = Some (e, self2) \<and> Q (Suc k) data' self2)"
  shows "Q k data self \<Longrightarrow>
    \<exists>data' self'. td_loop H raw n data self = Some (-1, data', self') \<and> Q (k + n) data' self'"
proof (induction n arbitrary: k data self)
  case 0
  then show ?case by simp
next
  case (Suc n)
  from raw [OF Suc.prems] obtain r data' self1 e self2 where
    "raw data self = Some (r, data', self1)" "looks_timed_out r data' = Some True"
    "s_pcie_timeout_reset H self1 = Some (e, self2)" "Q (Suc k) data' self2" by blast
  with Suc.IH [of "Suc k" data' self2] show ?case by auto
qed


lemma td_done:
  "raw data self = Some (r, data', s1) \<Longrightarrow> looks_timed_out r data' = Some False \<Longrightarrow> 0 < k \<Longrightarrow>
     td_loop H raw k data self = Some (r, data', s1)"
  by (cases k) auto

lemma td_again:
  "raw data self = Some (r, data', s1) \<Longrightarrow> looks_timed_out r data' = Some True \<Longrightarrow>
     s_pcie_timeout_reset H s1 = Some (e, s2) \<Longrightarrow> 0 < k \<Longrightarrow>
     td_loop H raw k data self = td_loop H raw (k - 1) data' s2"
  by (cases k) auto

lemma splice_idem: "length xs \<le> length buf \<Longrightarrow> splice (splice buf 0 xs) 0 xs = splice buf 0 xs"
  by (simp add: splice_def)

lemma read_block_char:
  assumes g: "pcie_good H V self" and dev: "pc_handler self = Some dev" "bar2_size dev = 0x100000"
    and a: "block_args offs n" and len: "n \<le> length data"
  defines "ws \<equiv> mem_words (mem2 V (pc_dev self)) (unat (PCIE_ADDR_GEN offs)) (n div 4)"
  shows "\<exists>d'. pcie_read_block H offs (of_nat n) data self =
      Some (if 32 \<le> n \<and> take 32 ws = pcie_timeout_patt then -1 else int n, splice data 0 ws,
        self\<lparr>pc_dev := d'\<rparr>) \<and> same_mem V (pc_dev self) d' \<and>
    (\<forall>cnt. counts_resets H V cnt \<longrightarrow>
      cnt d' = cnt (pc_dev self) + (if 32 \<le> n \<and> take 32 ws = pcie_timeout_patt then 32 else 0))"
proof -
  let ?raw = "\<lambda>data self. s_pcie_rw_bar2_block_raw H (ucast (PCIE_ADDR_SDRAM_PG (PCIE_ADDR_GEN offs)))
      (PCIE_ADDR_SDRAM_PG_OFFS (PCIE_ADDR_GEN offs)) data (of_nat n) True self"
  have n: "n < 2 ^ 31" "4 * (n div 4) = n" using a by (auto simp: block_args_def)
  have lw: "length ws = n" using n by (simp add: ws_def)
  have t32: "take 32 (splice data 0 ws) = take 32 ws" if "32 \<le> n"
    using that lw by (simp add: splice_def)
  have timed: "looks_timed_out (int n) (splice data 0 ws) = Some (32 \<le> n \<and> take 32 ws = pcie_timeout_patt)"
  proof (cases "32 \<le> n")
    case True
    moreover have "length (splice data 0 ws) = length data" using lw len by simp
    ultimately show ?thesis using t32 len
      by (simp add: looks_timed_out_def PCIE_TIMEOUT_PATT_SIZE_def)
  qed (simp add: looks_timed_out_def PCIE_TIMEOUT_PATT_SIZE_def)
  have "\<exists>d'. td_loop H ?raw 32 data self =
      Some (if 32 \<le> n \<and> take 32 ws = pcie_timeout_patt then -1 else int n, splice data 0 ws,
        self\<lparr>pc_dev := d'\<rparr>) \<and> same_mem V (pc_dev self) d' \<and>
      (\<forall>cnt. counts_resets H V cnt \<longrightarrow>
        cnt d' = cnt (pc_dev self) + (if 32 \<le> n \<and> take 32 ws = pcie_timeout_patt then 32 else 0))"
  proof (cases "32 \<le> n \<and> take 32 ws = pcie_timeout_patt")
    case False
    obtain d' where d': "?raw data self = Some (int n, splice data 0 ws, self\<lparr>pc_dev := d'\<rparr>)"
      "same_mem V (pc_dev self) d'" "\<forall>cnt. counts_resets H V cnt \<longrightarrow> cnt d' = cnt (pc_dev self)"
      using raw_read [OF g dev a len] by (auto simp: ws_def)
    have "looks_timed_out (int n) (splice data 0 ws) = Some False" using timed False by auto
    from td_done [where raw = ?raw and data = data and k = 32, OF d'(1) this] d'(2,3) False show ?thesis
      by (intro exI [of _ d'] conjI) auto
  next
    case True
    let ?Q = "\<lambda>k data1 self1. \<exists>d1. self1 = self\<lparr>pc_dev := d1\<rparr> \<and> same_mem V (pc_dev self) d1 \<and>
        length data1 = length data \<and> splice data1 0 ws = splice data 0 ws \<and>
        (\<forall>cnt. counts_resets H V cnt \<longrightarrow> cnt d1 = cnt (pc_dev self) + k)"
    let ?P = "\<lambda>k data1 self1. ?Q k data1 self1 \<and> data1 = splice data 0 ws"
    have step: "\<exists>r data' self1. ?raw x y = Some (r, data', self1) \<and>
        looks_timed_out r data' = Some True \<and>
        (\<exists>e self2. s_pcie_timeout_reset H self1 = Some (e, self2) \<and> ?P (Suc k) data' self2)"
      if Q: "?Q k x y" for k x y
    proof -
      from Q obtain d1 where d1: "y = self\<lparr>pc_dev := d1\<rparr>" "same_mem V (pc_dev self) d1"
        "length x = length data" "splice x 0 ws = splice data 0 ws"
        "\<forall>cnt. counts_resets H V cnt \<longrightarrow> cnt d1 = cnt (pc_dev self) + k" by blast
      have gy: "pcie_good H V y" using good_upd [OF g] d1 by (simp add: same_mem_def)
      have dy: "pc_handler y = Some dev" using dev d1 by (simp add: pc_handler_def)
      obtain d2 where d2: "?raw x y = Some (int n, splice data 0 ws, y\<lparr>pc_dev := d2\<rparr>)"
        "same_mem V (pc_dev y) d2" "\<forall>cnt. counts_resets H V cnt \<longrightarrow> cnt d2 = cnt (pc_dev y)"
        using raw_read [OF gy dy dev(2) a, where data = x] d1 len by (auto simp: ws_def same_mem_def)
      have g2: "pcie_good H V (y\<lparr>pc_dev := d2\<rparr>)" using good_upd [OF gy] d2 by (simp add: same_mem_def)
      obtain d3 where d3: "s_pcie_timeout_reset H (y\<lparr>pc_dev := d2\<rparr>) = Some (0, y\<lparr>pc_dev := d2\<rparr>\<lparr>pc_dev := d3\<rparr>)"
        "same_mem V d2 d3" "\<forall>cnt. counts_resets H V cnt \<longrightarrow> cnt d3 = cnt d2 + 1"
        using timeout_reset_same [OF g2] by auto
      have "?P (Suc k) (splice data 0 ws) (y\<lparr>pc_dev := d2\<rparr>\<lparr>pc_dev := d3\<rparr>)"
      proof (intro conjI exI [of _ d3])
        show "\<forall>cnt. counts_resets H V cnt \<longrightarrow> cnt d3 = cnt (pc_dev self) + Suc k"
        proof (intro allI impI)
          fix cnt assume c: "counts_resets H V cnt"
          have "cnt d1 = cnt (pc_dev self) + k" "cnt d2 = cnt d1" "cnt d3 = cnt d2 + 1"
            using d1(1,5) d2(3) d3(3) c by (blast, force, blast)
          then show "cnt d3 = cnt (pc_dev self) + Suc k" by simp
        qed
      qed (use d1 d2 d3 lw len in \<open>auto simp: same_mem_def splice_idem\<close>)
      with d2 d3 timed True show ?thesis by auto
    qed
    have Q0: "?Q 0 data self"
    proof -
      have "live V (pc_dev self)" using g by (simp add: pcie_good_def)
      then show ?thesis by (intro exI [of _ "pc_dev self"]) (simp add: same_mem_def)
    qed
    from step [OF Q0] obtain r data' self1 e self2 where s1: "?raw data self = Some (r, data', self1)"
      "looks_timed_out r data' = Some True" "s_pcie_timeout_reset H self1 = Some (e, self2)"
      "?P (Suc 0) data' self2" by blast
    have stepP: "\<exists>r data' self1. ?raw x y = Some (r, data', self1) \<and>
        looks_timed_out r data' = Some True \<and>
        (\<exists>e self2. s_pcie_timeout_reset H self1 = Some (e, self2) \<and> ?P (Suc k) data' self2)"
      if "?P k x y" for k x y by (rule step) (use that in blast)
    have "\<exists>data'' self''. td_loop H ?raw 31 data' self2 = Some (-1, data'', self'') \<and> ?P (Suc 0 + 31) data'' self''"
      by (rule td_exhausted [where Q = ?P and raw = ?raw]) (rule stepP, assumption, rule s1(4))
    then obtain data'' self'' where e:
      "td_loop H ?raw 31 data' self2 = Some (-1, data'', self'')" "?P (Suc 0 + 31) data'' self''" by blast
    moreover from this td_again [where raw = ?raw and k = 32, OF s1(1,2,3)]
    have "td_loop H ?raw 32 data self = Some (-1, data'', self'')" by simp
    ultimately show ?thesis using True by auto
  qed
  moreover have "to_int32 (-1) = -1" "to_int32 (int n) = int n" using n by (simp_all add: to_int32_id)
  moreover have "PCIE_ADDR_BAR offs = BAR2NO" using a by (simp add: block_args_def)
  moreover have "pc_is_open self" using g by (simp add: pcie_good_def)
  moreover have "ucast (of_nat n :: u64) = (of_nat n :: u32)"
    unfolding word_unat_eq_iff using n by (simp add: unsigned_ucast_eq unat_of_nat_small take_bit_nat_eq_self)
  ultimately show ?thesis
    using dev by (auto simp: pcie_read_block_def s_pcie_rw_block_def READ_FROM_BAR_def Let_def
        s_pcie_rw_bar2_block_td_def PCIE_TIMEOUT_MAX_TRIES_def)
qed

section \<open>Properties\<close>

text \<open>C30: 32-bit accesses through the llio layer to the SDRAM and Wishbone windows of an open
  board, at addresses that are multiples of 4, behave as one flat memory of 32-bit words: a write
  returns 4 and the next read, at any such address of either window, returns 4 with the value written
  if the address is the same and with the former value otherwise. The page registers that every
  access rewrites are invisible. The windows are byte addressed; nothing is claimed of accesses at
  other addresses, which overlap. The words are taken to change only when they are written (\<open>board_ok\<close>).\<close>

theorem pcie_write_read_32:
  assumes "pcie_good H V self" and "data_addr a" and "data_addr b"
  shows "\<exists>s1 s2. llio_write_32 (llio_ops_pcie H al) a v self = Some (4, s1) \<and>
    llio_read_32 (llio_ops_pcie H al) b x s1 = Some (4, if b = a then v else pcie_view32 V self b, s2) \<and>
    pcie_good H V s2 \<and>
    (\<forall>c. data_addr c \<longrightarrow> pcie_view32 V s2 c = (if c = a then v else pcie_view32 V self c))"
proof -
  obtain t1 t2 where
    "bus_wr (H, V, self) a v = Some (4, t1)" "bus_rd t1 b x = Some (4, if b = a then v else pcie_view32 V self b, t2)"
    "bus_good t2" "\<forall>c. data_addr c \<longrightarrow> bus_view t2 c = (if c = a then v else pcie_view32 V self c)"
    using pbus.write_read [of "(H, V, self)" a b v x] assms by auto
  then show ?thesis
    by (auto simp: llio_write_32_def llio_read_32_def llio_ops_pcie_def)
qed

theorem pcie_write_read_32_witness:
  "\<exists>s1 s2. llio_write_32 (llio_ops_pcie board_hw (\<lambda>_. True)) 0x2000000000100010 7 board_open = Some (4, s1) \<and>
    llio_read_32 (llio_ops_pcie board_hw (\<lambda>_. True)) 0x2000000000100010 0 s1 = Some (4, 7, s2)"
proof -
  have "data_addr 0x2000000000100010"
    by (simp add: data_addr_def sdram_addr_def word_addr_def regs PCIE_ADDR_BAR_def PCIE_ADDR_GEN_def)
  from pcie_write_read_32 [OF board_open_good this this, of "\<lambda>_. True" 7 0] show ?thesis by auto
qed

text \<open>C31: a block read from the SDRAM window, of a multiple of 4 and less than \<open>2 ^ 31\<close> bytes, from an
  address that is a multiple of 4 and within the reach of the 32-bit page register, returns the memory
  from the address on, across any number of pages of 1 MiB, with the number of bytes and without a reset
  of the core; but if the first 32 bytes are all 0xFF it returns -1, since the code takes them for a
  timeout, having reset the core exactly 32 times, once after each try (for every count of the resets
  that the board has). The rest of the buffer and the memory of the board do not change.\<close>

theorem pcie_read_block_sdram:
  assumes "pcie_good H V self" and "pc_handler self = Some dev" and "bar2_size dev = 0x100000"
    and "block_args offs n" and "n \<le> length data"
  shows "\<exists>d'. pcie_read_block H offs (of_nat n) data self =
      Some (if 32 \<le> n \<and> take 32 (mem_words (mem2 V (pc_dev self)) (unat (PCIE_ADDR_GEN offs)) (n div 4)) = pcie_timeout_patt
            then -1 else int n,
        mem_words (mem2 V (pc_dev self)) (unat (PCIE_ADDR_GEN offs)) (n div 4) @ drop n data,
        self\<lparr>pc_dev := d'\<rparr>) \<and> same_mem V (pc_dev self) d' \<and>
    (\<forall>cnt. counts_resets H V cnt \<longrightarrow> cnt d' = cnt (pc_dev self) +
      (if 32 \<le> n \<and> take 32 (mem_words (mem2 V (pc_dev self)) (unat (PCIE_ADDR_GEN offs)) (n div 4)) = pcie_timeout_patt
       then 32 else 0))"
proof -
  have "4 * (n div 4) = n" using assms(4) by (auto simp: block_args_def)
  then show ?thesis using read_block_char [OF assms] by (simp add: splice_def)
qed

text \<open>The concrete board, all of whose memory is 0xFF, counts 32 resets; with zeros, none.\<close>

definition board_ones :: "board pcie" where
  "board_ones = board_open\<lparr>pc_dev := board0\<lparr>b_mem2 := (\<lambda>_. 0xFF)\<rparr>\<rparr>"

lemma board_counts: "counts_resets board_hw board_view b_resets"
  by (simp add: counts_resets_def board_hw_def)

theorem pcie_read_block_sdram_witness:
  "(\<exists>d'. pcie_read_block board_hw 0x20000000000FFFF8 (of_nat 16) (replicate 20 1) board_open =
     Some (16, replicate 16 0 @ replicate 4 1, board_open\<lparr>pc_dev := d'\<rparr>) \<and> b_resets d' = 0) \<and>
   (\<exists>d'. pcie_read_block board_hw 0x2000000000000010 (of_nat 32) (replicate 32 1) board_ones =
     Some (-1, replicate 32 0xFF, board_ones\<lparr>pc_dev := d'\<rparr>) \<and> b_resets d' = 32)"
proof
  have a: "block_args 0x20000000000FFFF8 16" "block_args 0x2000000000000010 32"
    by (simp_all add: block_args_def regs PCIE_ADDR_BAR_def PCIE_ADDR_GEN_def)
  have h: "pc_handler board_open = Some \<lparr>bar0_size = 2 ^ 20, bar2_size = 2 ^ 20, bar4_size = 2 ^ 20, kmem_pa = 4096\<rparr>"
    by (simp add: pc_handler_def board_open_def llio_get_dev_handler_def)
  then have h': "pc_handler board_ones = Some \<lparr>bar0_size = 2 ^ 20, bar2_size = 2 ^ 20, bar4_size = 2 ^ 20, kmem_pa = 4096\<rparr>"
    by (simp add: board_ones_def pc_handler_def)
  have w0: "mem_view (\<lambda>_. 0) k = 0" for k by (simp add: mem_view_def mem32_def)
  have m: "mem_words (mem2 board_view (pc_dev board_open)) k 4 = replicate 16 0" for k
    by (simp add: board_view_def board_open_def board0_def w0 eval_nat_numeral)
  have r0: "b_resets (pc_dev board_open) = 0" "b_resets (pc_dev board_ones) = 0"
    by (simp_all add: board_open_def board_ones_def board0_def)
  show "\<exists>d'. pcie_read_block board_hw 0x20000000000FFFF8 (of_nat 16) (replicate 20 1) board_open =
     Some (16, replicate 16 0 @ replicate 4 1, board_open\<lparr>pc_dev := d'\<rparr>) \<and> b_resets d' = 0"
  proof -
    obtain d' where "pcie_read_block board_hw 0x20000000000FFFF8 (of_nat 16) (replicate 20 1) board_open =
        Some (16, replicate 16 0 @ replicate 4 1, board_open\<lparr>pc_dev := d'\<rparr>)"
      "\<forall>cnt. counts_resets board_hw board_view cnt \<longrightarrow> cnt d' = cnt (pc_dev board_open)"
      using pcie_read_block_sdram [OF board_open_good h _ a(1), of "replicate 20 1"] by (auto simp: m)
    from this(1) this(2) [rule_format, OF board_counts] r0 show ?thesis by (intro exI [of _ d']) simp
  qed
  have g: "pcie_good board_hw board_view board_ones"
    unfolding board_ones_def by (rule good_upd [OF board_open_good]) (simp add: board_view_def)
  have "mem32 (\<lambda>_. 0xFF) k = 0xFFFFFFFF" for k by (simp add: mem32_def)
  then have v: "mem_view (\<lambda>_. 0xFF) (of_nat (4 * k)) = 0xFFFFFFFF" for k
    using word_addr_nat [of "4 * k"] by (simp add: mem_view_def)
  have "replicate 4 x = [x, x, x, x]" for x :: u8 by (simp add: eval_nat_numeral)
  then have b: "le_bytes 4 (0xFFFFFFFF :: u32) = replicate 4 0xFF" by (simp add: le_bytes_4)
  have "mem_words (mem_view (\<lambda>_. 0xFF)) (4 * k) n = replicate (4 * n) 0xFF" for k n
  proof (induction n arbitrary: k)
    case (Suc n)
    have "4 * k + 4 = 4 * Suc k" by simp
    then have "mem_words (mem_view (\<lambda>_. 0xFF)) (4 * k) (Suc n) =
        replicate 4 0xFF @ replicate (4 * n) 0xFF"
      unfolding mem_words.simps v b using Suc.IH [of "Suc k"] by (simp add: add.commute)
    then show ?case by (simp add: replicate_add [symmetric])
  qed simp
  from this [of 4 8] have m1: "mem_words (mem2 board_view (pc_dev board_ones)) 16 8 = replicate 32 0xFF"
    by (simp add: board_view_def board_ones_def)
  have o: "unat (PCIE_ADDR_GEN 0x2000000000000010) = 16" by (simp add: PCIE_ADDR_GEN_def regs)
  have p: "take 32 (replicate 32 0xFF) = pcie_timeout_patt" by (simp add: pcie_timeout_patt_def PCIE_TIMEOUT_PATT_SIZE_def)
  have l: "32 \<le> length (replicate 32 (1 :: u8))" and d8: "(32 :: nat) div 4 = 8" by simp_all
  have s: "bar2_size \<lparr>bar0_size = 2 ^ 20, bar2_size = 2 ^ 20, bar4_size = 2 ^ 20, kmem_pa = 4096\<rparr> = 0x100000" by simp
  show "\<exists>d'. pcie_read_block board_hw 0x2000000000000010 (of_nat 32) (replicate 32 1) board_ones =
     Some (-1, replicate 32 0xFF, board_ones\<lparr>pc_dev := d'\<rparr>) \<and> b_resets d' = 32"
  proof -
    obtain d' where "pcie_read_block board_hw 0x2000000000000010 (of_nat 32) (replicate 32 1) board_ones =
        Some (-1, replicate 32 0xFF @ drop 32 (replicate 32 1), board_ones\<lparr>pc_dev := d'\<rparr>)"
      "\<forall>cnt. counts_resets board_hw board_view cnt \<longrightarrow> cnt d' = cnt (pc_dev board_ones) + 32"
      using pcie_read_block_sdram [OF g h' s a(2), of "replicate 32 1"] p l unfolding o d8 m1
      by (simp only: if_True simp_thms order_refl) blast
    from this(1) this(2) [rule_format, OF board_counts] r0 show ?thesis by (intro exI [of _ d']) simp
  qed
qed

text \<open>A 64-bit access uses one register for both halves: the read returns the 32-bit register
  at the address twice, in the low and in the high half, and of a 64-bit write only the high half
  remains in that register; the register after it is not accessed.\<close>

theorem pcie_rw_64_same_register:
  assumes "pcie_good H V self" and "data_addr a"
  shows "(\<exists>s'. pcie_read_64 H a x self =
      Some (8, ucast (pcie_view32 V self a) OR push_bit 32 (ucast (pcie_view32 V self a)), s')) \<and>
    (\<exists>s'. pcie_write_64 H a x self = Some (8, s') \<and> pcie_good H V s' \<and>
      (\<forall>b. data_addr b \<longrightarrow> pcie_view32 V s' b = (if b = a then ucast (drop_bit 32 x) else pcie_view32 V self b)))"
proof
  have a: "sdram_addr a \<or> wb_addr a" using assms(2) by (simp add: data_addr_def)
  obtain d1 where r1: "s_pcie_rw_32 H a (ucast x) True self = Some (4, pcie_view32 V self a, self\<lparr>pc_dev := d1\<rparr>)"
    "same_mem V (pc_dev self) d1" using rw32_read [OF assms(1) a] by blast
  have g1: "pcie_good H V (self\<lparr>pc_dev := d1\<rparr>)" using good_upd [OF assms(1)] r1 by (simp add: same_mem_def)
  obtain d2 where r2: "s_pcie_rw_32 H a (ucast (drop_bit 32 x)) True (self\<lparr>pc_dev := d1\<rparr>) =
      Some (4, pcie_view32 V (self\<lparr>pc_dev := d1\<rparr>) a, self\<lparr>pc_dev := d1\<rparr>\<lparr>pc_dev := d2\<rparr>)"
    using rw32_read [OF g1 a] by blast
  have "pcie_view32 V (self\<lparr>pc_dev := d1\<rparr>) a = pcie_view32 V self a"
    using r1 by (simp add: pcie_view32_def same_mem_def)
  with r1 r2 show "\<exists>s'. pcie_read_64 H a x self =
      Some (8, ucast (pcie_view32 V self a) OR push_bit 32 (ucast (pcie_view32 V self a)), s')"
    by (simp add: pcie_read_64_def READ_FROM_BAR_def)
next
  obtain s1 where w1: "bus_wr (H, V, self) a (ucast x) = Some (4, s1)" "bus_good s1"
    "\<forall>b. data_addr b \<longrightarrow> bus_view s1 b = (if b = a then ucast x else pcie_view32 V self b)"
    using pbus.wr_view [of "(H, V, self)" a "ucast x"] assms by auto
  obtain s2 where w2: "bus_wr s1 a (ucast (drop_bit 32 x)) = Some (4, s2)" "bus_good s2"
    "\<forall>b. data_addr b \<longrightarrow> bus_view s2 b = (if b = a then ucast (drop_bit 32 x) else bus_view s1 b)"
    using pbus.wr_view [of s1 a "ucast (drop_bit 32 x)"] w1 assms by auto
  from w1(1) obtain t1 where t1: "s1 = (H, V, t1)" "pcie_write_32 H a (ucast x) self = Some (4, t1)"
    by (auto simp: llio_write_32_def llio_ops_pcie_def)
  from w2(1) t1 obtain t2 where "s2 = (H, V, t2)" "pcie_write_32 H a (ucast (drop_bit 32 x)) t1 = Some (4, t2)"
    by (auto simp: llio_write_32_def llio_ops_pcie_def)
  with t1 w1 w2 show "\<exists>s'. pcie_write_64 H a x self = Some (8, s') \<and> pcie_good H V s' \<and>
      (\<forall>b. data_addr b \<longrightarrow> pcie_view32 V s' b = (if b = a then ucast (drop_bit 32 x) else pcie_view32 V self b))"
    by (auto simp: pcie_write_64_def pcie_write_32_def bind_eq_Some_conv)
qed

theorem pcie_rw_64_same_register_witness:
  "(\<exists>s'. pcie_read_64 board_hw 0x2000000000000008 0 board_open = Some (8, 0, s')) \<and>
   (\<exists>s'. pcie_write_64 board_hw 0x2000000000000008 0x0000000500000007 board_open = Some (8, s') \<and>
     pcie_view32 board_view s' 0x2000000000000008 = 5 \<and> pcie_view32 board_view s' 0x200000000000000C = 0)"
proof -
  have a: "data_addr 0x2000000000000008" "data_addr 0x200000000000000C"
    by (simp_all add: data_addr_def sdram_addr_def word_addr_def regs PCIE_ADDR_BAR_def PCIE_ADDR_GEN_def)
  have v: "pcie_view32 board_view board_open k = 0" for k
    by (simp add: pcie_view32_def board_view_def board_open_def board0_def mem_view_def mem32_def)
  from pcie_rw_64_same_register [OF board_open_good a(1), of 0]
    pcie_rw_64_same_register [OF board_open_good a(1), of "0x0000000500000007"] a
  show ?thesis by (auto simp: v)
qed

lemmas pc_defs = pc_is_open_def pc_handler_def llio_get_endpoint_open_def s_llio_get_endpoint_open_def
  llio_endpoint_get_open_def llio_get_dev_handler_def llio_set_dev_handler_def llio_set_endpoint_open_def
  llio_endpoint_set_open_def llio_set_sdb_prefix_addr_def

text \<open>Opening and releasing. On a closed object, \<open>pcie_open\<close> with an endpoint argument fails
  with -1 and does nothing. Without one it sets up the device named by the object's endpoint; if
  that works it returns 0 with the object open, both page registers 0 and the Wishbone window
  as the base of the SDB, and a release closes it and drops the handler. If the device cannot
  be set up \<open>pcie_open\<close> returns 0 all the same, with the object closed, so that every access
  fails.\<close>

theorem pcie_open_results:
  assumes closed: "\<not> pc_is_open self" and b: "board_ok H V" and l: "live V d1"
    and n: "llio_dev_pcie_new H al (llio_get_endpoint_name (pc_llio self)) (pc_dev self) = (r, d1)"
  shows "pcie_open H al (Some e) self = Some (-1, self) \<and>
    (case r of
       None \<Rightarrow> pcie_open H al None self = Some (0, self\<lparr>pc_dev := d1\<rparr>) \<and>
         pcie_read_32 H offs x (self\<lparr>pc_dev := d1\<rparr>) = Some (-1, x, self\<lparr>pc_dev := d1\<rparr>)
     | Some dev \<Rightarrow> \<exists>s'. pcie_open H al None self = Some (0, s') \<and> pcie_good H V s' \<and>
         pc_handler s' = Some dev \<and> page2 V (pc_dev s') = 0 \<and> page4 V (pc_dev s') = 0 \<and>
         llio_get_sdb_prefix_addr (pc_llio s') = BAR4_ADDR \<and>
         (\<exists>s''. pcie_release H None s' = Some (0, s'') \<and> \<not> pc_is_open s'' \<and> pc_handler s'' = None))"
proof
  show "pcie_open H al (Some e) self = Some (-1, self)"
    using closed by (simp add: pcie_open_def llio_set_endpoint_def pc_defs)
  have upd: "\<not> pc_is_open (self\<lparr>pc_dev := d1\<rparr>)" using closed by (simp add: pc_defs)
  obtain d2 where d2: "SET_SDRAM_PG H 0 d1 = Some d2" "same_mem V d1 d2" "page2 V d2 = 0"
    by (rule set_sdram_pg [OF board_windows [OF b] l])
  then have l2: "live V d2" by (simp add: same_mem_def)
  obtain d3 where d3: "SET_WB_PG H 0 d2 = Some d3" "same_mem V d2 d3" "page4 V d3 = 0" "page2 V d3 = page2 V d2"
    by (rule set_wb_pg [OF board_windows [OF b] l2])
  show "case r of
       None \<Rightarrow> pcie_open H al None self = Some (0, self\<lparr>pc_dev := d1\<rparr>) \<and>
         pcie_read_32 H offs x (self\<lparr>pc_dev := d1\<rparr>) = Some (-1, x, self\<lparr>pc_dev := d1\<rparr>)
     | Some dev \<Rightarrow> \<exists>s'. pcie_open H al None self = Some (0, s') \<and> pcie_good H V s' \<and>
         pc_handler s' = Some dev \<and> page2 V (pc_dev s') = 0 \<and> page4 V (pc_dev s') = 0 \<and>
         llio_get_sdb_prefix_addr (pc_llio s') = BAR4_ADDR \<and>
         (\<exists>s''. pcie_release H None s' = Some (0, s'') \<and> \<not> pc_is_open s'' \<and> pc_handler s'' = None)"
  proof (cases r)
    case None
    with n closed upd show ?thesis by (simp add: pcie_open_def pcie_read_32_def s_pcie_rw_32_def)
  next
    case (Some dev)
    with n closed d2 d3 b show ?thesis
      by (simp add: pcie_open_def pcie_good_def same_mem_def pc_defs llio_get_sdb_prefix_addr_def
          pcie_release_def llio_dev_pcie_destroy_def)
  qed
qed

theorem pcie_open_results_witness:
  "pcie_open board_hw (\<lambda>_. True) (Some \<lparr>ep_open = False, ep_name = Some ''/dev/fpga0''\<rparr>) board_closed =
     Some (-1, board_closed) \<and>
   (\<exists>s'. pcie_open board_hw (\<lambda>_. True) None board_closed = Some (0, s') \<and> pcie_good board_hw board_view s') \<and>
   pcie_open board_hw (\<lambda>_. False) None board_closed = Some (0, board_closed)"
proof -
  have c: "\<not> pc_is_open board_closed" by (simp add: board_closed_def pc_defs)
  have n: "llio_get_endpoint_name (pc_llio board_closed) = Some ''/dev/fpga0''"
    by (simp add: board_closed_def llio_get_endpoint_name_def llio_endpoint_get_name_def s_llio_endpoint_get_name_def)
  have l: "live board_view d" for d by (simp add: board_view_def)
  have ok: "llio_dev_pcie_new board_hw (\<lambda>_. True) (llio_get_endpoint_name (pc_llio board_closed)) (pc_dev board_closed) =
      (Some \<lparr>bar0_size = 2 ^ 20, bar2_size = 2 ^ 20, bar4_size = 2 ^ 20, kmem_pa = 4096\<rparr>, pc_dev board_closed)"
    unfolding n by (simp add: llio_dev_pcie_new_def board_hw_def)
  have bad: "llio_dev_pcie_new board_hw (\<lambda>_. False) (llio_get_endpoint_name (pc_llio board_closed)) (pc_dev board_closed) =
      (None, pc_dev board_closed)"
    by (simp add: llio_dev_pcie_new_def)
  from pcie_open_results [OF c board_hw_ok l ok, of "\<lparr>ep_open = False, ep_name = Some ''/dev/fpga0''\<rparr>" 0 0]
    pcie_open_results [OF c board_hw_ok l bad, of "\<lparr>ep_open = False, ep_name = None\<rparr>" 0 0]
  show ?thesis by auto
qed

text \<open>The DMA registers of a channel are BAR0 words.\<close>

definition dma_reg :: "pcie_dev_dma_type \<Rightarrow> u64 \<Rightarrow> u64" where
  "dma_reg t r = s_pcie_dma_base_addr t + r"

lemmas dma_regs = PCIE_CFG_REG_DMA_US_BASE_def PCIE_CFG_REG_DMA_DS_BASE_def PCIE_CFG_REG_DMA_PAH_def
  PCIE_CFG_REG_DMA_PAL_def PCIE_CFG_REG_DMA_HAH_def PCIE_CFG_REG_DMA_HAL_def PCIE_CFG_REG_DMA_BDAH_def
  PCIE_CFG_REG_DMA_BDAL_def PCIE_CFG_REG_DMA_LENG_def PCIE_CFG_REG_DMA_CTRL_def PCIE_CFG_REG_DMA_STA_def

definition dma_reg_set :: "u64 set" where
  "dma_reg_set = {PCIE_CFG_REG_DMA_PAH, PCIE_CFG_REG_DMA_PAL, PCIE_CFG_REG_DMA_HAH, PCIE_CFG_REG_DMA_HAL,
     PCIE_CFG_REG_DMA_BDAH, PCIE_CFG_REG_DMA_BDAL, PCIE_CFG_REG_DMA_LENG, PCIE_CFG_REG_DMA_CTRL,
     PCIE_CFG_REG_DMA_STA}"

lemma dma_reg_addr:
  assumes "r \<in> dma_reg_set"
  shows "PCIE_ADDR_BAR ((BAR0_ADDR OR s_pcie_dma_base_addr t) + r) = BAR0NO"
    and "PCIE_ADDR_GEN ((BAR0_ADDR OR s_pcie_dma_base_addr t) + r) = dma_reg t r"
  using assms unfolding dma_reg_set_def
  by (cases t; auto simp: s_pcie_dma_base_addr_def dma_regs dma_reg_def BAR0_ADDR_def PCIE_ADDR_BAR_def
      PCIE_ADDR_GEN_def BAR0NO_def PCIE_ADDR_BAR_SHIFT_def PCIE_ADDR_BAR_MASK_def PCIE_ADDR_GEN_MASK_def)+

lemma rw32_dma:
  assumes "pc_is_open self" and "pc_handler self \<noteq> None" and "r \<in> dma_reg_set"
  shows "s_pcie_rw_32 H ((BAR0_ADDR OR s_pcie_dma_base_addr t) + r) v rw self =
    do { (w, d) \<leftarrow> BAR0_RW H (dma_reg t r) v rw (pc_dev self); Some (4, w, self\<lparr>pc_dev := d\<rparr>) }"
  using assms by (auto simp: s_pcie_rw_32_def dma_reg_addr)

text \<open>The flags of a status word.\<close>

definition sta_done :: "u32 \<Rightarrow> bool" where "sta_done w \<longleftrightarrow> bit w 0"
definition sta_busy :: "u32 \<Rightarrow> bool" where "sta_busy w \<longleftrightarrow> bit w 1"
definition sta_timeout :: "u32 \<Rightarrow> bool" where "sta_timeout w \<longleftrightarrow> bit w 4"

lemma sta_flag:
  fixes w :: u32
  assumes "n < 32"
  shows "(ucast w AND WBGEN2_PCIE_GEN_MASK n 1 \<noteq> 0) = bit w n"
proof -
  have "WBGEN2_PCIE_GEN_MASK n 1 = push_bit n 1" by (simp add: WBGEN2_PCIE_GEN_MASK_def)
  then show ?thesis
    using assms by (simp add: bit_iff_and_push_bit_not_eq_0 [symmetric] bit_ucast_iff del: push_bit_of_1)
qed

lemma sta_flags:
  "(ucast w AND PCIE_CFG_DMA_STA_DONE \<noteq> 0) = sta_done w"
  "(ucast w AND PCIE_CFG_DMA_STA_BUSY \<noteq> 0) = sta_busy w"
  "(ucast w AND PCIE_CFG_DMA_STA_TIMEOUT \<noteq> 0) = sta_timeout w"
  unfolding PCIE_CFG_DMA_STA_DONE_def PCIE_CFG_DMA_STA_BUSY_def PCIE_CFG_DMA_STA_TIMEOUT_def
    sta_done_def sta_busy_def sta_timeout_def
  by (rule sta_flag, simp)+

definition sta_stuck :: "u32 \<Rightarrow> bool" where
  "sta_stuck w \<longleftrightarrow> sta_timeout w \<and> \<not> sta_done w \<or> sta_busy w"

lemma get_status:
  assumes "pc_is_open self" and "pc_handler self \<noteq> None"
    and "bar_rd H 0 (dma_reg t PCIE_CFG_REG_DMA_STA) (pc_dev self) = Some (w, pc_dev self)"
  shows "s_pcie_get_dma_status_reg H t st self = Some (0, w, self)"
  using assms by (simp add: s_pcie_get_dma_status_reg_def rw32_dma dma_reg_set_def BAR0_RW_def
      BAR_RW_8_def READ_FROM_BAR_def BAR0NO_def)

lemma check_completion:
  assumes "pc_is_open self" and "pc_handler self \<noteq> None"
    and "bar_rd H 0 (dma_reg t PCIE_CFG_REG_DMA_STA) (pc_dev self) = Some (w, pc_dev self)"
  shows "s_pcie_check_dma_completion H t self = Some (if sta_timeout w \<and> \<not> sta_done w then -1 else 0, self)"
    and "s_pcie_check_dma_busy H t self = Some (if sta_busy w then -1 else 0, self)"
  using assms by (auto simp: s_pcie_check_dma_completion_def s_pcie_check_dma_busy_def get_status sta_flags)

lemma wait_stuck:
  assumes "s_pcie_wait_dma H t block self = Some y" and "block"
    and "pc_is_open self" and "pc_handler self \<noteq> None"
    and "bar_rd H 0 (dma_reg t PCIE_CFG_REG_DMA_STA) (pc_dev self) = Some (w, pc_dev self)"
    and "sta_stuck w"
  shows False
proof -
  let ?P = "\<lambda>H t b (self :: 'a pcie) (y :: int \<times> 'a pcie). b \<and> pc_is_open self \<and> pc_handler self \<noteq> None \<and>
      bar_rd H 0 (dma_reg t PCIE_CFG_REG_DMA_STA) (pc_dev self) = Some (w, pc_dev self) \<longrightarrow> False"
  have "?P H t block self y"
  proof (rule s_pcie_wait_dma.raw_induct [where P = ?P, OF _ assms(1)], rule impI)
    fix wait H t b and self :: "'a pcie" and y
    assume ih: "\<And>H t b self y. wait H t b self = Some y \<Longrightarrow> ?P H t b self y"
      and step: "s_pcie_check_dma_completion H t self \<bind> (\<lambda>(c, s1).
         (if c \<noteq> 0 then Some (1, s1) else s_pcie_check_dma_busy H t s1) \<bind>
         (\<lambda>(ba, s2). let err = if c \<noteq> 0 \<or> ba \<noteq> 0 then 1 else 0
            in if err \<noteq> 0 \<and> b then wait H t b s2 else Some (err, s2))) = Some y"
      and a: "b \<and> pc_is_open self \<and> pc_handler self \<noteq> None \<and>
        bar_rd H 0 (dma_reg t PCIE_CFG_REG_DMA_STA) (pc_dev self) = Some (w, pc_dev self)"
    have "wait H t b self = Some y"
      using step a assms(6) by (auto simp: check_completion Let_def sta_stuck_def split: if_splits)
    with ih a show False by blast
  qed
  with assms show False by blast
qed

text \<open>C38: waiting for a DMA, as long as the status register reads the same word. Without
  blocking the wait gives 0 exactly when the word has neither BUSY nor an unfinished TIMEOUT; in
  particular a channel that reports nothing at all, not even DONE, counts as complete. With
  blocking the wait gives 0 in the same cases and never returns in the others: a channel that
  reports a timeout is polled forever, and the timeout never reaches the caller.\<close>

theorem pcie_wait_dma_status:
  assumes "pc_is_open self" and "pc_handler self \<noteq> None"
    and "bar_rd H 0 (dma_reg t PCIE_CFG_REG_DMA_STA) (pc_dev self) = Some (w, pc_dev self)"
  shows "s_pcie_wait_dma H t block self =
    (if sta_timeout w \<and> \<not> sta_done w \<or> sta_busy w then (if block then None else Some (1, self))
     else Some (0, self))"
proof (cases "block \<and> sta_stuck w")
  case True
  then have "s_pcie_wait_dma H t block self = None"
    using wait_stuck [of H t block self] assms by (cases "s_pcie_wait_dma H t block self") auto
  with True show ?thesis by (simp add: sta_stuck_def)
next
  case False
  then show ?thesis
    by (subst s_pcie_wait_dma.simps) (use assms in \<open>auto simp: check_completion Let_def sta_stuck_def\<close>)
qed

text \<open>A board that only records the writes to BAR0, and one status word.\<close>

definition log_hw :: "u32 \<Rightarrow> (u64 \<times> u32) list pcie_hw" where
  "log_hw w = \<lparr>
     bar_rd = (\<lambda>bar a d. Some (w, d)),
     bar_wr = (\<lambda>bar a v d. Some (d @ [(a, v)])),
     bar4_rd = (\<lambda>a d. None), bar4_wr = (\<lambda>a v d. None),
     pd_open = (\<lambda>n d. (0, d)), pd_close = (\<lambda>d. d),
     pd_mapBAR = (\<lambda>b d. (True, d)), pd_unmapBAR = (\<lambda>b d. d),
     pd_getBARsize = (\<lambda>b d. 2 ^ 20),
     pd_allocKernelMemory = (\<lambda>n d. (Some 4096, d)), pd_freeKernelMemory = (\<lambda>d. d),
     kmem_get = (\<lambda>n d. Some (replicate n 9)), kmem_put = (\<lambda>b d. Some d)\<rparr>"

definition log_open :: "(u64 \<times> u32) list pcie" where
  "log_open = \<lparr>pc_llio = pc_llio board_open, pc_dev = []\<rparr>"

lemma log_open_open: "pc_is_open log_open" "pc_handler log_open \<noteq> None"
  by (simp_all add: log_open_def board_open_def pc_defs)

theorem pcie_wait_dma_status_witness:
  "s_pcie_wait_dma (log_hw 0) PCIE_DMA_US True log_open = Some (0, log_open) \<and>
   s_pcie_wait_dma (log_hw 0x10) PCIE_DMA_US True log_open = None"
proof -
  have "bar_rd (log_hw w) 0 (dma_reg PCIE_DMA_US PCIE_CFG_REG_DMA_STA) (pc_dev log_open) = Some (w, pc_dev log_open)" for w
    by (simp add: log_hw_def)
  from pcie_wait_dma_status [OF log_open_open this, of _ True]
  show ?thesis by (simp add: sta_timeout_def sta_done_def sta_busy_def)
qed

lemma gen_read_bits:
  "ucast (WBGEN2_PCIE_GEN_READ x n 32) = (ucast (drop_bit n x) :: u32)"
proof -
  have m: "push_bit 32 1 - 1 = (mask 32 :: u64)" by (simp add: mask_eq_exp_minus_1)
  show ?thesis
    unfolding WBGEN2_PCIE_GEN_READ_def m
    by (rule bit_word_eqI) (auto simp: bit_simps)
qed

lemma dma_ctrl_bits:
  "ucast (PCIE_CFG_DMA_CTRL_VALID OR PCIE_CFG_DMA_CTRL_LAST OR PCIE_CFG_DMA_CTRL_AINC OR
     PCIE_CFG_DMA_CTRL_BAR_W bar) = (0x03008000 OR push_bit 16 (take_bit 3 (ucast bar)) :: u32)"
proof -
  have m: "push_bit 3 1 - 1 = (mask 3 :: u64)" by (simp add: mask_eq_exp_minus_1)
  have b: "ucast (PCIE_CFG_DMA_CTRL_BAR_W bar) = (push_bit 16 (take_bit 3 (ucast bar)) :: u32)"
    unfolding PCIE_CFG_DMA_CTRL_BAR_W_def WBGEN2_PCIE_GEN_WRITE_def m
    by (rule bit_word_eqI) (auto simp: bit_simps)
  have f: "(ucast PCIE_CFG_DMA_CTRL_VALID OR ucast PCIE_CFG_DMA_CTRL_LAST OR ucast PCIE_CFG_DMA_CTRL_AINC :: u32) = 0x03008000"
    by (simp add: PCIE_CFG_DMA_CTRL_VALID_def PCIE_CFG_DMA_CTRL_LAST_def PCIE_CFG_DMA_CTRL_AINC_def
        WBGEN2_PCIE_GEN_MASK_def)
  show ?thesis unfolding unsigned_or_eq b f [symmetric] by (simp add: or.assoc)
qed

lemma handler_upd [simp]:
  "pc_is_open (self\<lparr>pc_dev := d\<rparr>) = pc_is_open self" "pc_handler (self\<lparr>pc_dev := d\<rparr>) = pc_handler self"
  by (simp_all add: pc_defs)

text \<open>What a DMA transfer programs. If a log of the BAR0 writes is kept and none of them
  fails, \<open>_pcie_set_dma\<close> returns 0 after writing the eight registers of the channel in this order:
  device address, host address of the kernel buffer and next descriptor, each as its high and
  low 32 bits, the low 32 bits of the length, and last the control word with the window number,
  which starts the transfer.\<close>

theorem pcie_set_dma_sequence:
  assumes w: "\<And>a v d. \<exists>d'. bar_wr H 0 a v d = Some d' \<and> wlog d' = wlog d @ [(a, v)]"
    and o: "pc_is_open self" and h: "pc_handler self = Some dev"
  shows "\<exists>d'. s_pcie_set_dma H t da sz bar bda self = Some (0, self\<lparr>pc_dev := d'\<rparr>) \<and>
    wlog d' = wlog (pc_dev self) @
      [(dma_reg t 0, ucast (drop_bit 32 da)), (dma_reg t 4, ucast da),
       (dma_reg t 8, ucast (drop_bit 32 (kmem_pa dev))), (dma_reg t 12, ucast (kmem_pa dev)),
       (dma_reg t 16, ucast (drop_bit 32 bda)), (dma_reg t 20, ucast bda),
       (dma_reg t 24, ucast sz),
       (dma_reg t 28, 0x03008000 OR push_bit 16 (take_bit 3 (ucast bar)))]"
proof -
  obtain nx where nx: "\<And>a v d. bar_wr H 0 a v d = Some (nx a v d)" "\<And>a v d. wlog (nx a v d) = wlog d @ [(a, v)]"
    using w by metis
  have wr: "dma_wr H ((BAR0_ADDR OR s_pcie_dma_base_addr t) + r) v (0, self\<lparr>pc_dev := d\<rparr>) =
      Some (0, self\<lparr>pc_dev := nx (dma_reg t r) (ucast v) d\<rparr>)" if "r \<in> dma_reg_set" for r v d
    using that o h nx by (simp add: dma_wr_def rw32_dma BAR0_RW_def BAR_RW_8_def WRITE_TO_BAR_def BAR0NO_def)
  have regs: "PCIE_CFG_REG_DMA_PAH \<in> dma_reg_set" "PCIE_CFG_REG_DMA_PAL \<in> dma_reg_set"
    "PCIE_CFG_REG_DMA_HAH \<in> dma_reg_set" "PCIE_CFG_REG_DMA_HAL \<in> dma_reg_set"
    "PCIE_CFG_REG_DMA_BDAH \<in> dma_reg_set" "PCIE_CFG_REG_DMA_BDAL \<in> dma_reg_set"
    "PCIE_CFG_REG_DMA_LENG \<in> dma_reg_set" "PCIE_CFG_REG_DMA_CTRL \<in> dma_reg_set"
    unfolding dma_reg_set_def by blast+
  have "s_pcie_set_dma H t da sz bar bda (self\<lparr>pc_dev := pc_dev self\<rparr>) =
    Some (0, self\<lparr>pc_dev := nx (dma_reg t PCIE_CFG_REG_DMA_CTRL) (0x03008000 OR push_bit 16 (take_bit 3 (ucast bar)))
     (nx (dma_reg t PCIE_CFG_REG_DMA_LENG) (ucast sz)
     (nx (dma_reg t PCIE_CFG_REG_DMA_BDAL) (ucast bda)
     (nx (dma_reg t PCIE_CFG_REG_DMA_BDAH) (ucast (drop_bit 32 bda))
     (nx (dma_reg t PCIE_CFG_REG_DMA_HAL) (ucast (kmem_pa dev))
     (nx (dma_reg t PCIE_CFG_REG_DMA_HAH) (ucast (drop_bit 32 (kmem_pa dev)))
     (nx (dma_reg t PCIE_CFG_REG_DMA_PAL) (ucast da)
     (nx (dma_reg t PCIE_CFG_REG_DMA_PAH) (ucast (drop_bit 32 da)) (pc_dev self))))))))\<rparr>)"
    unfolding s_pcie_set_dma_def Let_def handler_upd h option.case wr [OF regs(1)] wr [OF regs(2)] wr [OF regs(3)]
      wr [OF regs(4)] wr [OF regs(5)] wr [OF regs(6)] wr [OF regs(7)] wr [OF regs(8)] bind.bind_lunit
    by (simp add: gen_read_bits dma_ctrl_bits PCIE_CFG_DMA_PAH_R_def PCIE_CFG_DMA_PAL_R_def PCIE_CFG_DMA_HAH_R_def
        PCIE_CFG_DMA_HAL_R_def PCIE_CFG_DMA_BDAH_R_def PCIE_CFG_DMA_BDAL_R_def PCIE_CFG_DMA_LENG_R_def)
  moreover have "PCIE_CFG_REG_DMA_PAH = 0" "PCIE_CFG_REG_DMA_PAL = 4" "PCIE_CFG_REG_DMA_HAH = 8"
    "PCIE_CFG_REG_DMA_HAL = 12" "PCIE_CFG_REG_DMA_BDAH = 16" "PCIE_CFG_REG_DMA_BDAL = 20"
    "PCIE_CFG_REG_DMA_LENG = 24" "PCIE_CFG_REG_DMA_CTRL = 28"
    by (simp_all add: dma_regs)
  ultimately show ?thesis
    by (intro exI conjI) (simp, simp add: nx(2))
qed

theorem pcie_set_dma_sequence_witness:
  "\<exists>d'. s_pcie_set_dma (log_hw 0) PCIE_DMA_US 0x100000002 8 2 0 log_open = Some (0, log_open\<lparr>pc_dev := d'\<rparr>) \<and>
    d' = [(44, 1), (48, 2), (52, 0), (56, 4096), (60, 0), (64, 0), (68, 8), (72, 0x03028000)]"
proof -
  have h: "pc_handler log_open = Some \<lparr>bar0_size = 2 ^ 20, bar2_size = 2 ^ 20, bar4_size = 2 ^ 20, kmem_pa = 4096\<rparr>"
    by (simp add: log_open_def board_open_def pc_defs)
  have w: "\<exists>d'. bar_wr (log_hw 0) 0 a v d = Some d' \<and> id d' = id d @ [(a, v)]" for a v d
    by (simp add: log_hw_def)
  have "pc_dev log_open = []" by (simp add: log_open_def)
  with pcie_set_dma_sequence [OF w log_open_open(1) h, of PCIE_DMA_US "0x100000002" 8 2 0]
  show ?thesis by (simp add: dma_reg_def s_pcie_dma_base_addr_def dma_regs)
qed

end
