(* ===== verification/Disptable.thy ===== *)
theory Disptable
  imports Hutils
begin

text \<open>
  libs/disptable: the table that maps an opcode to the description of an exported function, and
  the call of that function. The hash table of the czmq library is a parameter with the laws its
  documentation gives; the operation descriptors, the handlers, the return buffers and the
  temporary key strings are heap blocks, so that leaks, double frees and the aliasing between a
  descriptor and the handlers that point to it are part of the model.
\<close>

section \<open>The hash table of czmq\<close>

text \<open>\<open>zhashx_insert\<close> fails (here \<open>None\<close>) exactly when the key is already there, \<open>zhashx_keys\<close> lists the keys,
  \<open>zhashx_delete\<close> removes a key. The item destructor the program registers is called by the
  program's model at the places where the library calls it.\<close>

record 'h zhashx =
  zh_new :: "'h option"
  zh_insert :: "'h \<Rightarrow> string \<Rightarrow> nat \<Rightarrow> 'h option"
  zh_lookup :: "'h \<Rightarrow> string \<Rightarrow> nat option"
  zh_delete :: "'h \<Rightarrow> string \<Rightarrow> 'h"
  zh_keys :: "'h \<Rightarrow> string list"

definition zhashx_ok :: "'h zhashx \<Rightarrow> bool" where
  "zhashx_ok Z \<longleftrightarrow>
     (\<forall>t. zh_new Z = Some t \<longrightarrow> zh_lookup Z t = Map.empty) \<and>
     (\<forall>t k v. (zh_insert Z t k v = None) = (zh_lookup Z t k \<noteq> None)) \<and>
     (\<forall>t k v t'. zh_insert Z t k v = Some t' \<longrightarrow> zh_lookup Z t' = (zh_lookup Z t)(k \<mapsto> v)) \<and>
     (\<forall>t k. zh_lookup Z (zh_delete Z t k) = (zh_lookup Z t)(k := None)) \<and>
     (\<forall>t. distinct (zh_keys Z t) \<and> set (zh_keys Z t) = dom (zh_lookup Z t))"

lemma zhashx_okD:
  assumes "zhashx_ok Z"
  shows "zh_new Z = Some t \<Longrightarrow> zh_lookup Z t = Map.empty"
    and "(zh_insert Z t k v = None) = (zh_lookup Z t k \<noteq> None)"
    and "zh_insert Z t k v = Some t' \<Longrightarrow> zh_lookup Z t' = (zh_lookup Z t)(k \<mapsto> v)"
    and "zh_lookup Z (zh_delete Z t k) = (zh_lookup Z t)(k := None)"
    and "distinct (zh_keys Z t)" and "set (zh_keys Z t) = dom (zh_lookup Z t)"
  using assms by (auto simp: zhashx_ok_def)

text \<open>An implementation, to show that the laws can be met and for concrete runs.\<close>

definition zh_alist :: "(string \<times> nat) list zhashx" where
  "zh_alist = \<lparr>zh_new = Some [],
     zh_insert = (\<lambda>t k v. if map_of t k = None then Some ((k, v) # t) else None),
     zh_lookup = map_of,
     zh_delete = (\<lambda>t k. filter (\<lambda>p. fst p \<noteq> k) t),
     zh_keys = (\<lambda>t. remdups (map fst t))\<rparr>"

lemma map_of_filter_neq: "map_of (filter (\<lambda>p. fst p \<noteq> k) t) = (map_of t)(k := None)"
  by (induction t) (auto simp: fun_eq_iff)

lemma zhashx_ok_alist: "zhashx_ok zh_alist"
  by (auto simp: zhashx_ok_def zh_alist_def map_of_filter_neq dom_map_of_conv_image_fst)

section \<open>Descriptors and handlers (disptable_core.h)\<close>

datatype disp_table_err =
  DISP_TABLE_SUCCESS | DISP_TABLE_ERR_ALLOC | DISP_TABLE_ERR_NULL_POINTER
| DISP_TABLE_ERR_NO_FUNC_REG | DISP_TABLE_ERR_BAD_MSG

datatype disp_val_owner = DISP_OWNER_FUNC | DISP_OWNER_OTHER

definition DISP_ARG_ENCODE_RAW :: "u32 \<Rightarrow> u32 \<Rightarrow> u32" where
  "DISP_ARG_ENCODE_RAW atype asize = push_bit 24 atype OR asize"

definition DISP_GET_ATYPE :: "u32 \<Rightarrow> u32" where
  "DISP_GET_ATYPE word = drop_bit 24 word"

definition DISP_GET_ASIZE :: "u32 \<Rightarrow> u32" where
  "DISP_GET_ASIZE word = word AND 0xFFFFFF"

definition DISP_ATYPE_NONE :: u32 where "DISP_ATYPE_NONE = 0"
definition DISP_ATYPE_UINT16 :: u32 where "DISP_ATYPE_UINT16 = 4"
definition DISP_ATYPE_INT32 :: u32 where "DISP_ATYPE_INT32 = 5"
definition DISP_ATYPE_UINT32 :: u32 where "DISP_ATYPE_UINT32 = 6"
definition DISP_ATYPE_UINT64 :: u32 where "DISP_ATYPE_UINT64 = 8"
definition DISP_ATYPE_DOUBLE :: u32 where "DISP_ATYPE_DOUBLE = 9"
definition DISP_ATYPE_STRUCT :: u32 where "DISP_ATYPE_STRUCT = 11"
definition DISP_ATYPE_VAR :: u32 where "DISP_ATYPE_VAR = 12"

lemmas atype_defs = DISP_ATYPE_NONE_def DISP_ATYPE_UINT16_def DISP_ATYPE_INT32_def
  DISP_ATYPE_UINT32_def DISP_ATYPE_UINT64_def DISP_ATYPE_DOUBLE_def DISP_ATYPE_STRUCT_def
  DISP_ATYPE_VAR_def

definition DISP_ARG_END :: u32 where
  "DISP_ARG_END = DISP_ARG_ENCODE_RAW DISP_ATYPE_NONE 0"

lemma DISP_ARG_END_0: "DISP_ARG_END = 0"
  by (simp add: DISP_ARG_END_def DISP_ARG_ENCODE_RAW_def DISP_ATYPE_NONE_def)

text \<open>An exported function gets the world behind the owner pointer, the arguments, and the
  bytes of the return buffer (or null); it gives its status, the new world and the new bytes.\<close>

type_synonym ('w, 'a) disp_table_func =
  "'w \<Rightarrow> 'a \<Rightarrow> u8 list option \<Rightarrow> (int \<times> 'w \<times> u8 list option) option"

record ('w, 'a) disp_op =
  dop_name :: string
  opcode :: u32
  func_fp :: "('w, 'a) disp_table_func option"
  retval :: u32
  retval_owner :: disp_val_owner
  args :: "u32 list"

record disp_op_handler =
  hd_op :: nat
  hd_ret :: "nat option"

datatype ('w, 'a) dobj = OOp "('w, 'a) disp_op" | OHandler disp_op_handler | OTable

type_synonym ('w, 'a) dheap = "('w, 'a) dobj blk heap"

record ('w, 'a) disp_table_ops =
  check_msg_args :: "(('w, 'a) disp_op \<Rightarrow> 'a \<Rightarrow> disp_table_err) option"

text \<open>The table: the address of its structure, its hash table and its operations.\<close>

record ('h, 'w, 'a) disp_table =
  dt_self :: nat
  table_h :: 'h
  dt_ops :: "('w, 'a) disp_table_ops"

text \<open>Reading a block through a typed pointer.\<close>

fun as_op :: "('w, 'a) dobj blk option \<Rightarrow> ('w, 'a) disp_op option" where
  "as_op (Some (BObj (OOp op))) = Some op"
| "as_op _ = None"

fun as_handler :: "('w, 'a) dobj blk option \<Rightarrow> disp_op_handler option" where
  "as_handler (Some (BObj (OHandler d))) = Some d"
| "as_handler _ = None"

fun as_str :: "'o blk option \<Rightarrow> string option" where
  "as_str (Some (BStr s)) = Some s"
| "as_str _ = None"

fun as_bytes :: "'o blk option \<Rightarrow> u8 list option" where
  "as_bytes (Some (BBytes b)) = Some b"
| "as_bytes _ = None"

lemma as_SomeD:
  "as_op x = Some op \<Longrightarrow> x = Some (BObj (OOp op))"
  "as_handler x = Some d \<Longrightarrow> x = Some (BObj (OHandler d))"
  "as_str y = Some s \<Longrightarrow> y = Some (BStr s)"
  "as_bytes y = Some b \<Longrightarrow> y = Some (BBytes b)"
  by (auto elim: as_op.elims as_handler.elims as_str.elims as_bytes.elims)

section \<open>Handlers\<close>

definition disp_op_handler_new :: "('w, 'a) dheap \<Rightarrow> nat option \<times> ('w, 'a) dheap" where
  "disp_op_handler_new h = halloc (BObj (OHandler \<lparr>hd_op = 0, hd_ret = None\<rparr>)) h"

definition disp_op_handler_destroy :: "nat option \<Rightarrow> ('w, 'a) dheap \<Rightarrow> ('w, 'a) dheap option" where
  "disp_op_handler_destroy self h = hfree_opt self h"

definition s_disp_table_free_item :: "nat option \<Rightarrow> ('w, 'a) dheap \<Rightarrow> ('w, 'a) dheap option" where
  "s_disp_table_free_item data h = disp_op_handler_destroy data h"

definition s_disp_table_alloc_ret ::
  "('w, 'a) disp_op \<Rightarrow> nat option \<Rightarrow> ('w, 'a) dheap \<Rightarrow> disp_table_err \<times> nat option \<times> ('w, 'a) dheap"
where
  "s_disp_table_alloc_ret op ret h =
     (if retval_owner op = DISP_OWNER_FUNC then (DISP_TABLE_SUCCESS, ret, h)
      else let sz = DISP_GET_ASIZE (retval op)
        in if sz = 0 then (DISP_TABLE_SUCCESS, ret, h)
           else case halloc (BBytes (replicate (unat sz) 0)) h of
             (None, h1) \<Rightarrow> (DISP_TABLE_ERR_ALLOC, None, h1)
           | (Some r, h1) \<Rightarrow> (DISP_TABLE_SUCCESS, Some r, h1))"

definition s_disp_table_cleanup_args_op ::
  "nat \<Rightarrow> ('w, 'a) dheap \<Rightarrow> (disp_table_err \<times> ('w, 'a) dheap) option" where
  "s_disp_table_cleanup_args_op hp h = do {
     d \<leftarrow> as_handler (hp_mem h hp);
     case hd_ret d of
       None \<Rightarrow> Some (DISP_TABLE_SUCCESS, h)
     | Some r \<Rightarrow> do {
         op \<leftarrow> as_op (hp_mem h (hd_op d));
         if retval_owner op = DISP_OWNER_FUNC then Some (DISP_TABLE_SUCCESS, h)
         else do {
           h1 \<leftarrow> hfree r h;
           h2 \<leftarrow> hset hp (BObj (OHandler (d\<lparr>hd_ret := None\<rparr>))) h1;
           Some (DISP_TABLE_SUCCESS, h2) } } }"

text \<open>The value stored through \<open>ret\<close> is the second component: unchanged on error.\<close>

definition s_disp_table_set_ret_op ::
  "nat \<Rightarrow> nat option \<Rightarrow> ('w, 'a) dheap \<Rightarrow> (disp_table_err \<times> nat option) option" where
  "s_disp_table_set_ret_op hp ret h = do {
     d \<leftarrow> as_handler (hp_mem h hp);
     op \<leftarrow> as_op (hp_mem h (hd_op d));
     if retval op = DISP_ARG_END then Some (DISP_TABLE_SUCCESS, None)
     else case hd_ret d of
       None \<Rightarrow> Some (DISP_TABLE_ERR_ALLOC, ret)
     | Some r \<Rightarrow> Some (DISP_TABLE_SUCCESS, Some r) }"

definition s_disp_table_lookup ::
  "'h zhashx \<Rightarrow> ('h, 'w, 'a) disp_table \<Rightarrow> u32 \<Rightarrow> ('w, 'a) dheap \<Rightarrow>
     (nat option \<times> ('w, 'a) dheap) option" where
  "s_disp_table_lookup Z self key h =
     (case hutils_stringify_hex_key key h of
        (None, h1) \<Rightarrow> Some (None, h1)
      | (Some kc, h1) \<Rightarrow> do {
          key_c \<leftarrow> as_str (hp_mem h1 kc);
          let d = zh_lookup Z (table_h self) key_c;
          h2 \<leftarrow> hfree kc h1;
          Some (d, h2) })"

section \<open>The table\<close>

definition s_disp_table_insert ::
  "'h zhashx \<Rightarrow> ('h, 'w, 'a) disp_table \<Rightarrow> nat \<Rightarrow> ('w, 'a) dheap \<Rightarrow>
     (disp_table_err \<times> ('h, 'w, 'a) disp_table \<times> ('w, 'a) dheap) option" where
  "s_disp_table_insert Z self disp_op h =
     (case disp_op_handler_new h of
        (None, h1) \<Rightarrow> Some (DISP_TABLE_ERR_ALLOC, self, h1)
      | (Some hp, h1) \<Rightarrow> do {
          h2 \<leftarrow> hset hp (BObj (OHandler \<lparr>hd_op = disp_op, hd_ret = None\<rparr>)) h1;
          op \<leftarrow> as_op (hp_mem h2 disp_op);
          let (herr, ret, h3) = s_disp_table_alloc_ret op None h2;
          h4 \<leftarrow> hset hp (BObj (OHandler \<lparr>hd_op = disp_op, hd_ret = ret\<rparr>)) h3;
          if herr \<noteq> DISP_TABLE_SUCCESS then do {
            h5 \<leftarrow> disp_op_handler_destroy (Some hp) h4;
            Some (DISP_TABLE_ERR_ALLOC, self, h5) }
          else case hutils_stringify_hex_key (opcode op) h4 of
            (None, h5) \<Rightarrow> do {
              (_, h6) \<leftarrow> s_disp_table_cleanup_args_op hp h5;
              h7 \<leftarrow> disp_op_handler_destroy (Some hp) h6;
              Some (DISP_TABLE_ERR_ALLOC, self, h7) }
          | (Some kc, h5) \<Rightarrow> do {
              key_c \<leftarrow> as_str (hp_mem h5 kc);
              case zh_insert Z (table_h self) key_c hp of
                None \<Rightarrow> do {
                  h6 \<leftarrow> hfree kc h5;
                  (_, h7) \<leftarrow> s_disp_table_cleanup_args_op hp h6;
                  h8 \<leftarrow> disp_op_handler_destroy (Some hp) h7;
                  Some (DISP_TABLE_ERR_ALLOC, self, h8) }
              | Some t \<Rightarrow> do {
                  h6 \<leftarrow> hfree kc h5;
                  Some (DISP_TABLE_SUCCESS, self\<lparr>table_h := t\<rparr>, h6) } } })"

text \<open>The inner variable \<open>err\<close> of the loop shadows the one that is returned.\<close>

fun s_disp_table_insert_all ::
  "'h zhashx \<Rightarrow> ('h, 'w, 'a) disp_table \<Rightarrow> nat list \<Rightarrow> ('w, 'a) dheap \<Rightarrow>
     (disp_table_err \<times> ('h, 'w, 'a) disp_table \<times> ('w, 'a) dheap) option" where
  "s_disp_table_insert_all Z self [] h = Some (DISP_TABLE_SUCCESS, self, h)"
| "s_disp_table_insert_all Z self (disp_op # rest) h = do {
     (inner_err, self', h') \<leftarrow> s_disp_table_insert Z self disp_op h;
     if inner_err = DISP_TABLE_SUCCESS then s_disp_table_insert_all Z self' rest h'
     else Some (DISP_TABLE_SUCCESS, self', h') }"

definition s_disp_table_remove ::
  "'h zhashx \<Rightarrow> ('h, 'w, 'a) disp_table \<Rightarrow> u32 \<Rightarrow> ('w, 'a) dheap \<Rightarrow>
     (disp_table_err \<times> ('h, 'w, 'a) disp_table \<times> ('w, 'a) dheap) option" where
  "s_disp_table_remove Z self key h =
     (case hutils_stringify_hex_key key h of
        (None, h1) \<Rightarrow> Some (DISP_TABLE_ERR_ALLOC, self, h1)
      | (Some kc, h1) \<Rightarrow> do {
          (d, h2) \<leftarrow> s_disp_table_lookup Z self key h1;
          case d of
            None \<Rightarrow> do { h3 \<leftarrow> hfree kc h2; Some (DISP_TABLE_ERR_ALLOC, self, h3) }
          | Some hp \<Rightarrow> do {
              (err, h3) \<leftarrow> s_disp_table_cleanup_args_op hp h2;
              if err \<noteq> DISP_TABLE_SUCCESS then do {
                h4 \<leftarrow> hfree kc h3; Some (DISP_TABLE_ERR_ALLOC, self, h4) }
              else do {
                key_c \<leftarrow> as_str (hp_mem h3 kc);
                h4 \<leftarrow> s_disp_table_free_item (zh_lookup Z (table_h self) key_c) h3;
                h5 \<leftarrow> hfree kc h4;
                Some (DISP_TABLE_SUCCESS,
                  self\<lparr>table_h := zh_delete Z (table_h self) key_c\<rparr>, h5) } } })"

fun remove_keys ::
  "'h zhashx \<Rightarrow> ('h, 'w, 'a) disp_table \<Rightarrow> string list \<Rightarrow> ('w, 'a) dheap \<Rightarrow>
     (('h, 'w, 'a) disp_table \<times> ('w, 'a) dheap) option" where
  "remove_keys Z self [] h = Some (self, h)"
| "remove_keys Z self (k # ks) h = do {
     (_, self', h') \<leftarrow> s_disp_table_remove Z self (hutils_numerify_hex_key k) h;
     remove_keys Z self' ks h' }"

definition s_disp_table_remove_all ::
  "'h zhashx \<Rightarrow> ('h, 'w, 'a) disp_table \<Rightarrow> ('w, 'a) dheap \<Rightarrow>
     (disp_table_err \<times> ('h, 'w, 'a) disp_table \<times> ('w, 'a) dheap) option" where
  "s_disp_table_remove_all Z self h = do {
     (self', h') \<leftarrow> remove_keys Z self (zh_keys Z (table_h self)) h;
     Some (DISP_TABLE_SUCCESS, self', h') }"

definition disp_table_new ::
  "'h zhashx \<Rightarrow> ('w, 'a) disp_table_ops \<Rightarrow> ('w, 'a) dheap \<Rightarrow>
     (('h, 'w, 'a) disp_table option \<times> ('w, 'a) dheap) option" where
  "disp_table_new Z ops h =
     (case halloc (BObj OTable) h of
        (None, h1) \<Rightarrow> Some (None, h1)
      | (Some a, h1) \<Rightarrow>
          (case zh_new Z of
             None \<Rightarrow> do { h2 \<leftarrow> hfree a h1; Some (None, h2) }
           | Some t \<Rightarrow> Some (Some \<lparr>dt_self = a, table_h = t, dt_ops = ops\<rparr>, h1)))"

text \<open>\<open>zhashx_destroy\<close> calls the destructor on every item that is left.\<close>

fun free_items :: "nat option list \<Rightarrow> ('w, 'a) dheap \<Rightarrow> ('w, 'a) dheap option" where
  "free_items [] h = Some h"
| "free_items (d # ds) h = do { h' \<leftarrow> s_disp_table_free_item d h; free_items ds h' }"

definition disp_table_destroy ::
  "'h zhashx \<Rightarrow> ('h, 'w, 'a) disp_table option \<Rightarrow> ('w, 'a) dheap \<Rightarrow>
     (disp_table_err \<times> ('w, 'a) dheap) option" where
  "disp_table_destroy Z self_p h =
     (case self_p of
        None \<Rightarrow> Some (DISP_TABLE_SUCCESS, h)
      | Some self \<Rightarrow> do {
          (_, self1, h1) \<leftarrow> s_disp_table_remove_all Z self h;
          h2 \<leftarrow> free_items (map (zh_lookup Z (table_h self1)) (zh_keys Z (table_h self1))) h1;
          h3 \<leftarrow> hfree (dt_self self1) h2;
          Some (DISP_TABLE_SUCCESS, h3) })"

definition disp_table_insert ::
  "'h zhashx \<Rightarrow> ('h, 'w, 'a) disp_table \<Rightarrow> nat \<Rightarrow> ('w, 'a) dheap \<Rightarrow>
     (disp_table_err \<times> ('h, 'w, 'a) disp_table \<times> ('w, 'a) dheap) option" where
  "disp_table_insert Z self disp_op h = s_disp_table_insert Z self disp_op h"

definition disp_table_insert_all ::
  "'h zhashx \<Rightarrow> ('h, 'w, 'a) disp_table \<Rightarrow> nat list \<Rightarrow> ('w, 'a) dheap \<Rightarrow>
     (disp_table_err \<times> ('h, 'w, 'a) disp_table \<times> ('w, 'a) dheap) option" where
  "disp_table_insert_all Z self disp_ops h = s_disp_table_insert_all Z self disp_ops h"

definition disp_table_remove ::
  "'h zhashx \<Rightarrow> ('h, 'w, 'a) disp_table \<Rightarrow> u32 \<Rightarrow> ('w, 'a) dheap \<Rightarrow>
     (disp_table_err \<times> ('h, 'w, 'a) disp_table \<times> ('w, 'a) dheap) option" where
  "disp_table_remove Z self key h = s_disp_table_remove Z self key h"

definition disp_table_remove_all ::
  "'h zhashx \<Rightarrow> ('h, 'w, 'a) disp_table \<Rightarrow> ('w, 'a) dheap \<Rightarrow>
     (disp_table_err \<times> ('h, 'w, 'a) disp_table \<times> ('w, 'a) dheap) option" where
  "disp_table_remove_all Z self h = s_disp_table_remove_all Z self h"

text \<open>\<open>disp_table_fill_desc\<close> walks two null-terminated vectors and writes the function pointers
  into the descriptors.\<close>

fun disp_table_fill_desc ::
  "nat list \<Rightarrow> ('w, 'a) disp_table_func list \<Rightarrow> ('w, 'a) dheap \<Rightarrow>
     (disp_table_err \<times> ('w, 'a) dheap) option" where
  "disp_table_fill_desc (p # ps) (f # fs) h = do {
     op \<leftarrow> as_op (hp_mem h p);
     h' \<leftarrow> hset p (BObj (OOp (op\<lparr>func_fp := Some f\<rparr>))) h;
     disp_table_fill_desc ps fs h' }"
| "disp_table_fill_desc [] [] h = Some (DISP_TABLE_SUCCESS, h)"
| "disp_table_fill_desc ps fs h = Some (DISP_TABLE_ERR_NULL_POINTER, h)"

section \<open>Calls\<close>

definition disp_table_ops_check_msg ::
  "('h, 'w, 'a) disp_table \<Rightarrow> ('w, 'a) disp_op \<Rightarrow> 'a \<Rightarrow> disp_table_err" where
  "disp_table_ops_check_msg self op as =
     (case check_msg_args (dt_ops self) of
        None \<Rightarrow> DISP_TABLE_ERR_NO_FUNC_REG
      | Some check \<Rightarrow> check op as)"

definition s_disp_table_set_ret ::
  "'h zhashx \<Rightarrow> ('h, 'w, 'a) disp_table \<Rightarrow> u32 \<Rightarrow> nat option \<Rightarrow> ('w, 'a) dheap \<Rightarrow>
     (disp_table_err \<times> nat option \<times> ('w, 'a) dheap) option" where
  "s_disp_table_set_ret Z self key ret h = do {
     (d, h1) \<leftarrow> s_disp_table_lookup Z self key h;
     case d of
       None \<Rightarrow> Some (DISP_TABLE_ERR_NO_FUNC_REG, ret, h1)
     | Some hp \<Rightarrow> do {
         (err, ret') \<leftarrow> s_disp_table_set_ret_op hp ret h1;
         Some (err, ret', h1) } }"

definition disp_table_set_ret ::
  "'h zhashx \<Rightarrow> ('h, 'w, 'a) disp_table \<Rightarrow> u32 \<Rightarrow> nat option \<Rightarrow> ('w, 'a) dheap \<Rightarrow>
     (disp_table_err \<times> nat option \<times> ('w, 'a) dheap) option" where
  "disp_table_set_ret Z self key ret h = s_disp_table_set_ret Z self key ret h"

definition s_disp_table_check_args ::
  "'h zhashx \<Rightarrow> ('h, 'w, 'a) disp_table \<Rightarrow> u32 \<Rightarrow> 'a \<Rightarrow> nat option \<Rightarrow> ('w, 'a) dheap \<Rightarrow>
     (disp_table_err \<times> nat option \<times> ('w, 'a) dheap) option" where
  "s_disp_table_check_args Z self key as ret h = do {
     (d, h1) \<leftarrow> s_disp_table_lookup Z self key h;
     case d of
       None \<Rightarrow> Some (DISP_TABLE_ERR_NO_FUNC_REG, ret, h1)
     | Some hp \<Rightarrow> do {
         hdl \<leftarrow> as_handler (hp_mem h1 hp);
         op \<leftarrow> as_op (hp_mem h1 (hd_op hdl));
         let err = disp_table_ops_check_msg self op as;
         if err \<noteq> DISP_TABLE_SUCCESS then Some (err, ret, h1)
         else do {
           (err', ret') \<leftarrow> s_disp_table_set_ret_op hp ret h1;
           Some (err', ret', h1) } } }"

definition disp_table_check_args ::
  "'h zhashx \<Rightarrow> ('h, 'w, 'a) disp_table \<Rightarrow> u32 \<Rightarrow> 'a \<Rightarrow> nat option \<Rightarrow> ('w, 'a) dheap \<Rightarrow>
     (disp_table_err \<times> nat option \<times> ('w, 'a) dheap) option" where
  "disp_table_check_args Z self key as ret h = s_disp_table_check_args Z self key as ret h"

definition disp_table_cleanup_args ::
  "'h zhashx \<Rightarrow> ('h, 'w, 'a) disp_table \<Rightarrow> u32 \<Rightarrow> ('w, 'a) dheap \<Rightarrow>
     (disp_table_err \<times> ('w, 'a) dheap) option" where
  "disp_table_cleanup_args Z self key h = do {
     (d, h1) \<leftarrow> s_disp_table_lookup Z self key h;
     case d of
       None \<Rightarrow> Some (DISP_TABLE_ERR_NO_FUNC_REG, h1)
     | Some hp \<Rightarrow> s_disp_table_cleanup_args_op hp h1 }"

text \<open>The public look-up dereferences the handler without a test: an absent key is undefined.\<close>

definition disp_table_lookup ::
  "'h zhashx \<Rightarrow> ('h, 'w, 'a) disp_table \<Rightarrow> u32 \<Rightarrow> ('w, 'a) dheap \<Rightarrow> (nat \<times> ('w, 'a) dheap) option" where
  "disp_table_lookup Z self key h = do {
     (d, h1) \<leftarrow> s_disp_table_lookup Z self key h;
     hp \<leftarrow> d;
     hdl \<leftarrow> as_handler (hp_mem h1 hp);
     Some (hd_op hdl, h1) }"

definition call_buf :: "nat option \<Rightarrow> ('w, 'a) dheap \<Rightarrow> u8 list option option" where
  "call_buf ret h = (case ret of None \<Rightarrow> Some None | Some r \<Rightarrow> map_option Some (as_bytes (hp_mem h r)))"

definition store_buf :: "nat option \<Rightarrow> u8 list option \<Rightarrow> ('w, 'a) dheap \<Rightarrow> ('w, 'a) dheap option" where
  "store_buf ret buf h =
     (case (ret, buf) of (Some r, Some b) \<Rightarrow> hset r (BBytes b) h | _ \<Rightarrow> Some h)"

definition s_disp_table_call ::
  "'h zhashx \<Rightarrow> ('h, 'w, 'a) disp_table \<Rightarrow> u32 \<Rightarrow> 'w \<Rightarrow> 'a \<Rightarrow> nat option \<Rightarrow> ('w, 'a) dheap \<Rightarrow>
     (int \<times> 'w \<times> ('w, 'a) dheap) option" where
  "s_disp_table_call Z self key w as ret h = do {
     (d, h1) \<leftarrow> s_disp_table_lookup Z self key h;
     case d of
       None \<Rightarrow> Some (-1, w, h1)
     | Some hp \<Rightarrow> do {
         hdl \<leftarrow> as_handler (hp_mem h1 hp);
         op \<leftarrow> as_op (hp_mem h1 (hd_op hdl));
         case func_fp op of
           None \<Rightarrow> Some (-1, w, h1)
         | Some f \<Rightarrow>
             if retval op \<noteq> DISP_ARG_END \<and> ret \<noteq> None \<or> retval op = DISP_ARG_END \<and> ret = None
             then do {
               buf \<leftarrow> call_buf ret h1;
               (err, w', buf') \<leftarrow> f w as buf;
               h2 \<leftarrow> store_buf ret buf' h1;
               Some (err, w', h2) }
             else Some (-1, w, h1) } }"

definition disp_table_call ::
  "'h zhashx \<Rightarrow> ('h, 'w, 'a) disp_table \<Rightarrow> u32 \<Rightarrow> 'w \<Rightarrow> 'a \<Rightarrow> nat option \<Rightarrow> ('w, 'a) dheap \<Rightarrow>
     (int \<times> 'w \<times> ('w, 'a) dheap) option" where
  "disp_table_call Z self key w as ret h = s_disp_table_call Z self key w as ret h"

definition disp_table_check_call ::
  "'h zhashx \<Rightarrow> ('h, 'w, 'a) disp_table \<Rightarrow> u32 \<Rightarrow> 'w \<Rightarrow> 'a \<Rightarrow> nat option \<Rightarrow> ('w, 'a) dheap \<Rightarrow>
     (int \<times> nat option \<times> 'w \<times> ('w, 'a) dheap) option" where
  "disp_table_check_call Z self key w as ret h = do {
     (herr, ret', h1) \<leftarrow> s_disp_table_check_args Z self key as ret h;
     if herr \<noteq> DISP_TABLE_SUCCESS then Some (-1, ret', w, h1)
     else do {
       (err, w', h2) \<leftarrow> s_disp_table_call Z self key w as ret' h1;
       Some (err, ret', w', h2) } }"

section \<open>Facts\<close>

lemma hex_str_inj [simp]: "hex_str a = hex_str b \<longleftrightarrow> a = b"
  by (metis numerify_hex_str)

lemma numerify_hex_key [simp]: "hutils_numerify_hex_key (hex_str k) = k"
  using numerify_hex_str [of k] by (simp add: hutils_numerify_hex_key_def)

lemmas heap_ops = halloc_def hset_def hfree_def hfree_opt_def Let_def

definition needs_ret :: "('w, 'a) disp_op \<Rightarrow> bool" where
  "needs_ret op \<longleftrightarrow> retval_owner op = DISP_OWNER_OTHER \<and> DISP_GET_ASIZE (retval op) \<noteq> 0"

lemma owner_neq [simp]: "x \<noteq> DISP_OWNER_FUNC \<longleftrightarrow> x = DISP_OWNER_OTHER"
  by (cases x) auto

lemma lookup_char:
  assumes "heap_wf h"
  obtains h' where "s_disp_table_lookup Z T key h = Some
     (if hp_ok h (hp_next h) then zh_lookup Z (table_h T) (hex_str key) else None, h')"
    "heap_same h h'"
proof -
  note fr = heap_wf_fresh [OF assms]
  have "\<exists>h'. s_disp_table_lookup Z T key h = Some
     (if hp_ok h (hp_next h) then zh_lookup Z (table_h T) (hex_str key) else None, h') \<and>
     heap_same h h'"
    by (auto simp: s_disp_table_lookup_def hutils_stringify_hex_key_def heap_ops heap_same_def fr
        fun_eq_iff)
  then show ?thesis using that by blast
qed

inductive insert_ok for Z and T :: "('h, 'w, 'a) disp_table" and p op h where
  dup: "heap_same h h' \<Longrightarrow> insert_ok Z T p op h DISP_TABLE_ERR_ALLOC T h'"
| ins: "zh_insert Z (table_h T) (hex_str (opcode op)) hp = Some t \<Longrightarrow> hp_mem h hp = None \<Longrightarrow>
    \<not> needs_ret op \<Longrightarrow>
    hp_mem h' = (hp_mem h)(hp \<mapsto> BObj (OHandler \<lparr>hd_op = p, hd_ret = None\<rparr>)) \<Longrightarrow>
    heap_wf h' \<Longrightarrow> hp_ok h' = hp_ok h \<Longrightarrow>
    insert_ok Z T p op h DISP_TABLE_SUCCESS (T\<lparr>table_h := t\<rparr>) h'"
| ins_ret: "zh_insert Z (table_h T) (hex_str (opcode op)) hp = Some t \<Longrightarrow> hp_mem h hp = None \<Longrightarrow>
    needs_ret op \<Longrightarrow> hp_mem h r = None \<Longrightarrow> r \<noteq> hp \<Longrightarrow>
    hp_mem h' = (hp_mem h)(hp \<mapsto> BObj (OHandler \<lparr>hd_op = p, hd_ret = Some r\<rparr>),
       r \<mapsto> BBytes (replicate (unat (DISP_GET_ASIZE (retval op))) 0)) \<Longrightarrow>
    heap_wf h' \<Longrightarrow> hp_ok h' = hp_ok h \<Longrightarrow>
    insert_ok Z T p op h DISP_TABLE_SUCCESS (T\<lparr>table_h := t\<rparr>) h'"

lemma insert_char:
  assumes "heap_wf h" and "as_op (hp_mem h p) = Some op"
  shows "\<exists>err T' h'. s_disp_table_insert Z T p h = Some (err, T', h') \<and>
    insert_ok Z T p op h err T' h' \<and>
    ((\<forall>n. hp_ok h n) \<and> zh_insert Z (table_h T) (hex_str (opcode op)) (hp_next h) \<noteq> None \<longrightarrow>
       err = DISP_TABLE_SUCCESS)"
proof -
  let ?n = "hp_next h"
  have fr: "hp_mem h ?n = None" "hp_mem h (Suc ?n) = None" "hp_mem h (Suc (Suc ?n)) = None"
    using assms(1) by (auto simp: heap_wf_def)
  have p: "p \<noteq> ?n" "hp_mem h p = Some (BObj (OOp op))"
    using assms(2) fr by (auto dest: as_SomeD)
  show ?thesis
  proof (cases "hp_ok h ?n")
    case False
    then show ?thesis
      by (intro exI conjI, unfold s_disp_table_insert_def disp_op_handler_new_def)
        (auto simp: heap_ops intro!: insert_ok.dup simp: heap_same_def)
  next
    case True
    note ops = s_disp_table_insert_def disp_op_handler_new_def heap_ops needs_ret_def
      s_disp_table_alloc_ret_def hutils_stringify_hex_key_def s_disp_table_cleanup_args_op_def
      disp_op_handler_destroy_def
    show ?thesis
    proof (cases "needs_ret op")
      case False
      then show ?thesis
        using True p fr assms(1)
        by (cases "zh_insert Z (table_h T) (hex_str (opcode op)) ?n"; cases "hp_ok h (Suc ?n)")
          (auto simp: ops heap_same_def heap_wf_def fun_eq_iff
            intro!: insert_ok.dup insert_ok.ins [where hp = ?n])
    next
      case ret: True
      show ?thesis
        using True ret p fr assms(1)
        by (cases "hp_ok h (Suc ?n)"; cases "hp_ok h (Suc (Suc ?n))";
            cases "zh_insert Z (table_h T) (hex_str (opcode op)) ?n")
          (auto simp: ops heap_same_def heap_wf_def fun_eq_iff
            intro!: insert_ok.dup insert_ok.ins_ret [where hp = ?n and r = "Suc ?n"])
    qed
  qed
qed

subsection \<open>The invariant of the table\<close>

definition ret_ok :: "(nat \<Rightarrow> ('w, 'a) dobj blk option) \<Rightarrow> ('w, 'a) disp_op \<Rightarrow> nat option \<Rightarrow> bool" where
  "ret_ok m op ret \<longleftrightarrow>
     (if needs_ret op
      then \<exists>r b. ret = Some r \<and> m r = Some (BBytes b) \<and> length b = unat (DISP_GET_ASIZE (retval op))
      else ret = None)"

definition entry_ok :: "(nat \<Rightarrow> ('w, 'a) dobj blk option) \<Rightarrow> string \<Rightarrow> nat \<Rightarrow> bool" where
  "entry_ok m k a \<longleftrightarrow> (\<exists>d op. m a = Some (BObj (OHandler d)) \<and> m (hd_op d) = Some (BObj (OOp op)) \<and>
     k = hex_str (opcode op) \<and> ret_ok m op (hd_ret d))"

text \<open>Every entry is a live handler of a live descriptor with the entry's opcode and a return
  buffer of the right size; no two entries share a handler or a buffer.\<close>

definition dt_ok ::
  "'h zhashx \<Rightarrow> ('h, 'w, 'a) disp_table \<Rightarrow> (nat \<Rightarrow> ('w, 'a) dobj blk option) \<Rightarrow> bool" where
  "dt_ok Z T m \<longleftrightarrow> m (dt_self T) = Some (BObj OTable) \<and>
     (\<forall>k a. zh_lookup Z (table_h T) k = Some a \<longrightarrow> entry_ok m k a) \<and>
     (\<forall>k k' a a' d d' r. zh_lookup Z (table_h T) k = Some a \<and> zh_lookup Z (table_h T) k' = Some a' \<and>
        m a = Some (BObj (OHandler d)) \<and> m a' = Some (BObj (OHandler d')) \<and>
        hd_ret d = Some r \<and> hd_ret d' = Some r \<longrightarrow> k = k')"

text \<open>What the table promises: a partial map from opcodes to descriptors.\<close>

definition dt_map ::
  "'h zhashx \<Rightarrow> ('h, 'w, 'a) disp_table \<Rightarrow> (nat \<Rightarrow> ('w, 'a) dobj blk option) \<Rightarrow> u32 \<Rightarrow> nat option" where
  "dt_map Z T m key = do {
     a \<leftarrow> zh_lookup Z (table_h T) (hex_str key);
     d \<leftarrow> as_handler (m a);
     Some (hd_op d) }"

lemma dt_ok_entry: "dt_ok Z T m \<Longrightarrow> zh_lookup Z (table_h T) k = Some a \<Longrightarrow> entry_ok m k a"
  unfolding dt_ok_def by blast

lemma dt_okD:
  assumes "dt_ok Z T m" and "zh_lookup Z (table_h T) k = Some a"
  obtains d op where "m a = Some (BObj (OHandler d))" "m (hd_op d) = Some (BObj (OOp op))"
    "k = hex_str (opcode op)" "ret_ok m op (hd_ret d)"
  using dt_ok_entry [OF assms] by (auto simp: entry_ok_def)

lemma dt_map_None:
  assumes "dt_ok Z T m"
  shows "dt_map Z T m key = None \<longleftrightarrow> zh_lookup Z (table_h T) (hex_str key) = None"
  by (cases "zh_lookup Z (table_h T) (hex_str key)") (auto simp: dt_map_def elim: dt_okD [OF assms])

lemma dt_mapD:
  assumes "dt_ok Z T m" and "dt_map Z T m key = Some p"
  obtains a d op where "zh_lookup Z (table_h T) (hex_str key) = Some a"
    "m a = Some (BObj (OHandler d))" "hd_op d = p" "m p = Some (BObj (OOp op))"
    "opcode op = key" "ret_ok m op (hd_ret d)"
proof -
  from assms(2) obtain a d where ad: "zh_lookup Z (table_h T) (hex_str key) = Some a"
    "as_handler (m a) = Some d" "hd_op d = p" by (auto simp: dt_map_def bind_eq_Some_conv)
  from assms(1) ad(1) obtain d' op where "m a = Some (BObj (OHandler d'))"
    "m (hd_op d') = Some (BObj (OOp op))" "hex_str key = hex_str (opcode op)" "ret_ok m op (hd_ret d')"
    by (rule dt_okD)
  with ad that show ?thesis by auto
qed

lemma entry_ok_mono:
  assumes "entry_ok m k a" and "\<And>x. m x \<noteq> None \<Longrightarrow> m' x = m x"
  shows "entry_ok m' k a"
proof -
  from assms(1) obtain d op where "m a = Some (BObj (OHandler d))" "m (hd_op d) = Some (BObj (OOp op))"
    "k = hex_str (opcode op)" "ret_ok m op (hd_ret d)" by (auto simp: entry_ok_def)
  moreover from this(4) assms(2) have "ret_ok m' op (hd_ret d)"
    by (auto simp: ret_ok_def split: if_splits)
  ultimately show ?thesis using assms(2) by (auto simp: entry_ok_def)
qed

lemma dt_ok_insert:
  assumes Z: "zhashx_ok Z" and ok: "dt_ok Z T m"
    and t: "zh_insert Z (table_h T) k hp = Some t"
    and mono: "\<And>x. m x \<noteq> None \<Longrightarrow> m' x = m x"
    and new: "entry_ok m' k hp" "m hp = None"
    and fresh: "\<And>d r. m' hp = Some (BObj (OHandler d)) \<Longrightarrow> hd_ret d = Some r \<Longrightarrow> m r = None"
  shows "dt_ok Z (T\<lparr>table_h := t\<rparr>) m'"
proof -
  have l: "zh_lookup Z t = (zh_lookup Z (table_h T))(k \<mapsto> hp)" by (rule zhashx_okD(3) [OF Z t])
  have old: "m' a = m a \<and> m a \<noteq> None \<and> entry_ok m' k' a \<and> a \<noteq> hp \<and>
      (\<forall>d r. m' a = Some (BObj (OHandler d)) \<and> hd_ret d = Some r \<longrightarrow> m r \<noteq> None)"
    if k': "zh_lookup Z (table_h T) k' = Some a" for k' a
  proof -
    have e3: "entry_ok m k' a" by (rule dt_ok_entry [OF ok k'])
    then obtain d op where e: "m a = Some (BObj (OHandler d))" "ret_ok m op (hd_ret d)"
      by (auto simp: entry_ok_def)
    from e(2) have "hd_ret d = Some r \<longrightarrow> m r \<noteq> None" for r by (auto simp: ret_ok_def split: if_splits)
    with e mono [of a] entry_ok_mono [OF e3 mono] new show ?thesis by auto
  qed
  show ?thesis
    unfolding dt_ok_def
  proof (intro conjI allI impI)
    show "m' (dt_self (T\<lparr>table_h := t\<rparr>)) = Some (BObj OTable)"
      using ok mono by (auto simp: dt_ok_def)
  next
    fix k' a assume "zh_lookup Z (table_h (T\<lparr>table_h := t\<rparr>)) k' = Some a"
    then show "entry_ok m' k' a" using l old new by (auto split: if_splits)
  next
    fix k1 k2 a1 a2 d1 d2 r
    assume a: "zh_lookup Z (table_h (T\<lparr>table_h := t\<rparr>)) k1 = Some a1 \<and>
      zh_lookup Z (table_h (T\<lparr>table_h := t\<rparr>)) k2 = Some a2 \<and>
      m' a1 = Some (BObj (OHandler d1)) \<and> m' a2 = Some (BObj (OHandler d2)) \<and>
      hd_ret d1 = Some r \<and> hd_ret d2 = Some r"
    consider "k1 = k" "k2 = k" | "k1 = k" "k2 \<noteq> k" | "k1 \<noteq> k" "k2 = k" | "k1 \<noteq> k" "k2 \<noteq> k"
      by blast
    then show "k1 = k2"
    proof cases
      case 2
      then have "m' hp = Some (BObj (OHandler d1))" and k2: "zh_lookup Z (table_h T) k2 = Some a2"
        using a l by auto
      with a fresh [of d1 r] old [OF k2] show ?thesis by blast
    next
      case 3
      then have "m' hp = Some (BObj (OHandler d2))" and k1: "zh_lookup Z (table_h T) k1 = Some a1"
        using a l by auto
      with a fresh [of d2 r] old [OF k1] show ?thesis by blast
    next
      case 4
      then have k: "zh_lookup Z (table_h T) k1 = Some a1" "zh_lookup Z (table_h T) k2 = Some a2"
        using a l by auto
      with a old [OF k(1)] old [OF k(2)] have "m a1 = Some (BObj (OHandler d1))" "m a2 = Some (BObj (OHandler d2))"
        by auto
      with ok k a show ?thesis by (auto simp: dt_ok_def)
    qed auto
  qed
qed

lemma dt_map_insert:
  assumes Z: "zhashx_ok Z" and ok: "dt_ok Z T m"
    and t: "zh_insert Z (table_h T) (hex_str k) hp = Some t"
    and mono: "\<And>x. m x \<noteq> None \<Longrightarrow> m' x = m x"
    and new: "m' hp = Some (BObj (OHandler d))"
  shows "dt_map Z (T\<lparr>table_h := t\<rparr>) m' = (dt_map Z T m)(k \<mapsto> hd_op d)"
proof
  fix key
  have l: "zh_lookup Z t = (zh_lookup Z (table_h T))(hex_str k \<mapsto> hp)" by (rule zhashx_okD(3) [OF Z t])
  have "m' a = m a" if "zh_lookup Z (table_h T) (hex_str key) = Some a" for a
    using ok that by (rule dt_okD) (simp add: mono)
  then show "dt_map Z (T\<lparr>table_h := t\<rparr>) m' key = ((dt_map Z T m)(k \<mapsto> hd_op d)) key"
    using l new by (cases "zh_lookup Z (table_h T) (hex_str key)") (auto simp: dt_map_def)
qed

lemma insert_ok_wf:
  assumes "insert_ok Z T p op h err T' h'" and "zhashx_ok Z" and "heap_wf h"
    and "dt_ok Z T (hp_mem h)" and "as_op (hp_mem h p) = Some op"
  shows "heap_wf h' \<and> hp_ok h' = hp_ok h \<and> dt_ok Z T' (hp_mem h') \<and>
    (\<forall>a. hp_mem h a \<noteq> None \<longrightarrow> hp_mem h' a = hp_mem h a) \<and>
    (if err = DISP_TABLE_SUCCESS
     then dt_map Z T (hp_mem h) (opcode op) = None \<and>
       dt_map Z T' (hp_mem h') = (dt_map Z T (hp_mem h))(opcode op \<mapsto> p)
     else err = DISP_TABLE_ERR_ALLOC \<and> T' = T \<and> heap_same h h')"
  using assms(1)
proof cases
  case dup
  then show ?thesis using assms by (auto simp: heap_same_def heap_wf_def)
next
  case (ins hp t)
  have p: "hp_mem h p = Some (BObj (OOp op))" using assms(5) by (rule as_SomeD)
  have mono: "hp_mem h x \<noteq> None \<Longrightarrow> hp_mem h' x = hp_mem h x" for x using ins by auto
  have new: "hp_mem h' hp = Some (BObj (OHandler \<lparr>hd_op = p, hd_ret = None\<rparr>))" using ins by simp
  have e: "entry_ok (hp_mem h') (hex_str (opcode op)) hp"
    using ins p mono by (auto simp: entry_ok_def ret_ok_def)
  have "zh_lookup Z (table_h T) (hex_str (opcode op)) = None"
    using zhashx_okD(2) [OF assms(2), of "table_h T"] ins(3) by (metis option.distinct(1))
  moreover have "dt_ok Z T' (hp_mem h')"
    unfolding ins(2)
    by (rule dt_ok_insert [OF assms(2,4) ins(3) mono e ins(4)]) (use new ins in auto)
  moreover have "dt_map Z T' (hp_mem h') = (dt_map Z T (hp_mem h))(opcode op \<mapsto> p)"
    unfolding ins(2) using dt_map_insert [OF assms(2,4) ins(3) mono new] by simp
  ultimately show ?thesis
    using dt_map_None [OF assms(4)] ins(1) ins(2) mono \<open>heap_wf h'\<close> \<open>hp_ok h' = hp_ok h\<close> by simp
next
  case (ins_ret hp t r)
  have p: "hp_mem h p = Some (BObj (OOp op))" using assms(5) by (rule as_SomeD)
  have mono: "hp_mem h x \<noteq> None \<Longrightarrow> hp_mem h' x = hp_mem h x" for x using ins_ret by auto
  have new: "hp_mem h' hp = Some (BObj (OHandler \<lparr>hd_op = p, hd_ret = Some r\<rparr>))" using ins_ret by simp
  have e: "entry_ok (hp_mem h') (hex_str (opcode op)) hp"
    using ins_ret p mono by (auto simp: entry_ok_def ret_ok_def)
  have "zh_lookup Z (table_h T) (hex_str (opcode op)) = None"
    using zhashx_okD(2) [OF assms(2), of "table_h T"] ins_ret(3) by (metis option.distinct(1))
  moreover have "dt_ok Z T' (hp_mem h')"
    unfolding ins_ret(2)
    by (rule dt_ok_insert [OF assms(2,4) ins_ret(3) mono e ins_ret(4)]) (use new ins_ret in auto)
  moreover have "dt_map Z T' (hp_mem h') = (dt_map Z T (hp_mem h))(opcode op \<mapsto> p)"
    unfolding ins_ret(2) using dt_map_insert [OF assms(2,4) ins_ret(3) mono new] by simp
  ultimately show ?thesis
    using dt_map_None [OF assms(4)] ins_ret(1) ins_ret(2) mono \<open>heap_wf h'\<close> \<open>hp_ok h' = hp_ok h\<close> by simp
qed

subsection \<open>Removal\<close>

definition drop_entry ::
  "(nat \<Rightarrow> ('w, 'a) dobj blk option) \<Rightarrow> nat \<Rightarrow> nat \<Rightarrow> ('w, 'a) dobj blk option" where
  "drop_entry m a x =
     (if x = a then None
      else case as_handler (m a) of
        Some d \<Rightarrow> if hd_ret d = Some x then None else m x | None \<Rightarrow> m x)"

lemma cleanup_destroy:
  assumes "hp_mem h a = Some (BObj (OHandler d))" and "hp_mem h (hd_op d) = Some (BObj (OOp op))"
    and "ret_ok (hp_mem h) op (hd_ret d)"
  obtains h1 h2 where "s_disp_table_cleanup_args_op a h = Some (DISP_TABLE_SUCCESS, h1)"
    "s_disp_table_free_item (Some a) h1 = Some h2"
    "hp_mem h2 = drop_entry (hp_mem h) a" "hp_next h2 = hp_next h" "hp_ok h2 = hp_ok h"
    "\<forall>x. x \<noteq> a \<longrightarrow> hp_mem h1 x = hp_mem h2 x"
proof -
  have "\<exists>h1 h2. s_disp_table_cleanup_args_op a h = Some (DISP_TABLE_SUCCESS, h1) \<and>
    s_disp_table_free_item (Some a) h1 = Some h2 \<and>
    hp_mem h2 = drop_entry (hp_mem h) a \<and> hp_next h2 = hp_next h \<and> hp_ok h2 = hp_ok h \<and>
    (\<forall>x. x \<noteq> a \<longrightarrow> hp_mem h1 x = hp_mem h2 x)"
    using assms
    by (cases "needs_ret op"; cases "hd_ret d")
      (auto simp: s_disp_table_cleanup_args_op_def s_disp_table_free_item_def
        disp_op_handler_destroy_def heap_ops ret_ok_def needs_ret_def drop_entry_def fun_eq_iff)
  then show ?thesis using that by blast
qed

lemma ret_ok_upd: "ret \<noteq> Some x \<Longrightarrow> ret_ok (m(x := v)) op ret = ret_ok m op ret"
  by (auto simp: ret_ok_def)

lemma remove_char:
  assumes wf: "heap_wf h" and ok: "dt_ok Z T (hp_mem h)"
  shows "\<exists>err T' h'. s_disp_table_remove Z T key h = Some (err, T', h') \<and>
    heap_wf h' \<and> hp_ok h' = hp_ok h \<and>
    (err = DISP_TABLE_ERR_ALLOC \<and> T' = T \<and> heap_same h h' \<or>
     err = DISP_TABLE_SUCCESS \<and> (\<exists>a. zh_lookup Z (table_h T) (hex_str key) = Some a \<and>
       T' = T\<lparr>table_h := zh_delete Z (table_h T) (hex_str key)\<rparr> \<and>
       hp_mem h' = drop_entry (hp_mem h) a)) \<and>
    ((\<forall>n. hp_ok h n) \<and> zh_lookup Z (table_h T) (hex_str key) \<noteq> None \<longrightarrow> err = DISP_TABLE_SUCCESS)"
proof -
  let ?n = "hp_next h"
  have fr: "hp_mem h ?n = None" by (rule heap_wf_fresh [OF wf])
  define h1 where "h1 = h\<lparr>hp_next := Suc ?n, hp_mem := (hp_mem h)(?n \<mapsto> BStr (hex_str key))\<rparr>"
  have wf1: "heap_wf h1" using wf by (auto simp: heap_wf_def h1_def)
  obtain h2 where l: "s_disp_table_lookup Z T key h1 = Some
     (if hp_ok h1 (hp_next h1) then zh_lookup Z (table_h T) (hex_str key) else None, h2)"
    and s: "heap_same h1 h2" by (rule lookup_char [OF wf1])
  have m2: "hp_mem h2 = hp_mem h1" "hp_ok h2 = hp_ok h" "Suc ?n \<le> hp_next h2"
    and wf2: "heap_wf h2"
    using s heap_same_wf [OF s wf1] by (auto simp: heap_same_def h1_def)
  show ?thesis
  proof (cases "hp_ok h ?n")
    case False
    then show ?thesis
      using wf by (auto simp: s_disp_table_remove_def hutils_stringify_hex_key_def halloc_def Let_def
          heap_same_def heap_wf_def)
  next
    case okn: True
    then have st: "hutils_stringify_hex_key key h = (Some ?n, h1)"
      by (simp add: hutils_stringify_hex_key_def halloc_def Let_def h1_def)
    show ?thesis
    proof (cases "hp_ok h1 (hp_next h1) \<and> zh_lookup Z (table_h T) (hex_str key) \<noteq> None")
      case False
      have "hfree ?n h2 = Some (h2\<lparr>hp_mem := hp_mem h\<rparr>)"
        using m2 fun_upd_idem [of "hp_mem h" ?n, OF fr] by (simp add: hfree_def h1_def)
      moreover have "heap_wf (h2\<lparr>hp_mem := hp_mem h\<rparr>)" "heap_same h (h2\<lparr>hp_mem := hp_mem h\<rparr>)"
        using wf m2 by (auto simp: heap_wf_def heap_same_def)
      moreover have "(if hp_ok h1 (hp_next h1) then zh_lookup Z (table_h T) (hex_str key) else None) = None"
        using False by auto
      moreover have "\<not> ((\<forall>n. hp_ok h n) \<and> zh_lookup Z (table_h T) (hex_str key) \<noteq> None)"
        using False by (auto simp: h1_def)
      ultimately show ?thesis
        unfolding s_disp_table_remove_def st l using m2 by (simp add: l)
    next
      case True
      then obtain a where a: "zh_lookup Z (table_h T) (hex_str key) = Some a"
        and ok1: "hp_ok h1 (hp_next h1)" by auto
      from ok a obtain d op where d: "hp_mem h a = Some (BObj (OHandler d))"
        "hp_mem h (hd_op d) = Some (BObj (OOp op))" "ret_ok (hp_mem h) op (hd_ret d)"
        by (rule dt_okD)
      have ne: "a \<noteq> ?n" "hd_op d \<noteq> ?n" "hd_ret d \<noteq> Some ?n"
        using d fr by (auto simp: ret_ok_def split: if_splits)
      have d2: "hp_mem h2 a = Some (BObj (OHandler d))" "hp_mem h2 (hd_op d) = Some (BObj (OOp op))"
        "ret_ok (hp_mem h2) op (hd_ret d)"
        using d ne by (simp_all add: m2 h1_def ret_ok_upd)
      obtain h3 h4 where c: "s_disp_table_cleanup_args_op a h2 = Some (DISP_TABLE_SUCCESS, h3)"
        "s_disp_table_free_item (Some a) h3 = Some h4" "hp_mem h4 = drop_entry (hp_mem h2) a"
        "hp_next h4 = hp_next h2" "hp_ok h4 = hp_ok h2" "\<forall>x. x \<noteq> a \<longrightarrow> hp_mem h3 x = hp_mem h4 x"
        using cleanup_destroy [OF d2] by metis
      have n4: "hp_mem h4 ?n = Some (BStr (hex_str key))"
        using ne d2 by (simp add: c drop_entry_def m2 h1_def)
      have n3: "hp_mem h3 ?n = Some (BStr (hex_str key))" using c(6) n4 ne by metis
      have f: "hfree ?n h4 = Some (h4\<lparr>hp_mem := drop_entry (hp_mem h) a\<rparr>)"
      proof -
        have "(drop_entry (hp_mem h2) a)(?n := None) = drop_entry (hp_mem h) a"
          using ne d fr by (simp add: drop_entry_def m2 h1_def fun_eq_iff)
        then show ?thesis using n4 by (simp add: hfree_def c)
      qed
      have "heap_wf (h4\<lparr>hp_mem := drop_entry (hp_mem h) a\<rparr>)"
        using wf c(4) m2 d by (auto simp: heap_wf_def drop_entry_def)
      then show ?thesis
        unfolding s_disp_table_remove_def st
        using a ok1 c f n3 by (simp add: l m2)
    qed
  qed
qed

definition dt_owned ::
  "'h zhashx \<Rightarrow> ('h, 'w, 'a) disp_table \<Rightarrow> (nat \<Rightarrow> ('w, 'a) dobj blk option) \<Rightarrow> nat set" where
  "dt_owned Z T m = {x. \<exists>k a. zh_lookup Z (table_h T) k = Some a \<and>
     (x = a \<or> (\<exists>d. m a = Some (BObj (OHandler d)) \<and> hd_ret d = Some x))}"

definition dt_clear ::
  "'h zhashx \<Rightarrow> ('h, 'w, 'a) disp_table \<Rightarrow> (nat \<Rightarrow> ('w, 'a) dobj blk option) \<Rightarrow>
     nat \<Rightarrow> ('w, 'a) dobj blk option" where
  "dt_clear Z T m x = (if x \<in> dt_owned Z T m then None else m x)"

lemma ret_bytes: "ret_ok m op (Some r) \<Longrightarrow> \<exists>b. m r = Some (BBytes b)"
  by (auto simp: ret_ok_def split: if_splits)

lemma dt_ok_handler_inj:
  assumes "dt_ok Z T m" "zh_lookup Z (table_h T) k = Some a" "zh_lookup Z (table_h T) k' = Some a"
  shows "k = k'"
  using dt_ok_entry [OF assms(1,2)] dt_ok_entry [OF assms(1,3)] by (auto simp: entry_ok_def)

lemma dt_ok_ret_inj:
  assumes "dt_ok Z T m" "zh_lookup Z (table_h T) k = Some a" "zh_lookup Z (table_h T) k' = Some a'"
    "m a = Some (BObj (OHandler d))" "m a' = Some (BObj (OHandler d'))"
    "hd_ret d = Some r" "hd_ret d' = Some r"
  shows "k = k'"
  using assms unfolding dt_ok_def by blast

lemma remove_entry:
  assumes ok: "dt_ok Z T m" and k: "zh_lookup Z (table_h T) k = Some a"
    and k': "zh_lookup Z (table_h T) k' = Some a'" and "k' \<noteq> k"
  shows "drop_entry m a a' = m a'" and "entry_ok (drop_entry m a) k' a'" and "a' \<noteq> a"
proof -
  obtain d op where d: "m a = Some (BObj (OHandler d))" "m (hd_op d) = Some (BObj (OOp op))"
    "k = hex_str (opcode op)" "ret_ok m op (hd_ret d)" by (rule dt_okD [OF ok k])
  obtain d' op' where d': "m a' = Some (BObj (OHandler d'))" "m (hd_op d') = Some (BObj (OOp op'))"
    "k' = hex_str (opcode op')" "ret_ok m op' (hd_ret d')" by (rule dt_okD [OF ok k'])
  show ne: "a' \<noteq> a" using dt_ok_handler_inj [OF ok k] k' assms(4) by auto
  have nr: "hd_ret d \<noteq> Some x" if "\<forall>b. m x \<noteq> Some (BBytes b)" for x
    using d(4) that ret_bytes by metis
  show e: "drop_entry m a a' = m a'" using ne d d' nr [of a'] by (auto simp: drop_entry_def)
  have o: "drop_entry m a (hd_op d') = m (hd_op d')"
    using d d' nr [of "hd_op d'"] by (auto simp: drop_entry_def)
  have "ret_ok (drop_entry m a) op' (hd_ret d')"
  proof (cases "hd_ret d'")
    case None
    then show ?thesis using d'(4) by (simp add: ret_ok_def split: if_splits)
  next
    case (Some r)
    then have "hd_ret d \<noteq> Some r" using dt_ok_ret_inj [OF ok k k' d(1) d'(1)] assms(4) by auto
    moreover have "r \<noteq> a" using d'(4) Some d(1) ret_bytes by fastforce
    ultimately have "drop_entry m a r = m r" using d(1) by (simp add: drop_entry_def)
    then show ?thesis using d'(4) Some by (simp add: ret_ok_def split: if_splits)
  qed
  with e o d' show "entry_ok (drop_entry m a) k' a'" by (auto simp: entry_ok_def)
qed

lemma dt_ok_remove:
  assumes Z: "zhashx_ok Z" and ok: "dt_ok Z T m" and k: "zh_lookup Z (table_h T) (hex_str key) = Some a"
  defines "T' \<equiv> T\<lparr>table_h := zh_delete Z (table_h T) (hex_str key)\<rparr>"
  shows "dt_ok Z T' (drop_entry m a)"
    and "dt_map Z T' (drop_entry m a) = (dt_map Z T m)(key := None)"
    and "dt_clear Z T' (drop_entry m a) = dt_clear Z T m"
proof -
  note r = remove_entry [OF ok k]
  have l: "zh_lookup Z (table_h T') = (zh_lookup Z (table_h T))(hex_str key := None)"
    using zhashx_okD(4) [OF Z] by (simp add: T'_def)
  obtain d op where d: "m a = Some (BObj (OHandler d))" "m (hd_op d) = Some (BObj (OOp op))"
    "hex_str key = hex_str (opcode op)" "ret_ok m op (hd_ret d)" by (rule dt_okD [OF ok k])
  have self: "drop_entry m a (dt_self T') = Some (BObj OTable)"
    using ok d ret_bytes [of m op "dt_self T"] by (auto simp: dt_ok_def drop_entry_def T'_def)
  show "dt_ok Z T' (drop_entry m a)"
    unfolding dt_ok_def
  proof (intro conjI allI impI self)
    fix k' a' assume "zh_lookup Z (table_h T') k' = Some a'"
    then show "entry_ok (drop_entry m a) k' a'" using r(2) by (auto simp: l split: if_splits)
  next
    fix k1 k2 a1 a2 d1 d2 r
    assume a: "zh_lookup Z (table_h T') k1 = Some a1 \<and> zh_lookup Z (table_h T') k2 = Some a2 \<and>
      drop_entry m a a1 = Some (BObj (OHandler d1)) \<and> drop_entry m a a2 = Some (BObj (OHandler d2)) \<and>
      hd_ret d1 = Some r \<and> hd_ret d2 = Some r"
    then have "zh_lookup Z (table_h T) k1 = Some a1" "zh_lookup Z (table_h T) k2 = Some a2"
      "k1 \<noteq> hex_str key" "k2 \<noteq> hex_str key" by (auto simp: l split: if_splits)
    with a show "k1 = k2"
      using remove_entry(1) [OF ok k] dt_ok_ret_inj [OF ok, of k1 a1 k2 a2 d1 d2 r] by auto
  qed
  show "dt_map Z T' (drop_entry m a) = (dt_map Z T m)(key := None)"
  proof
    fix x show "dt_map Z T' (drop_entry m a) x = ((dt_map Z T m)(key := None)) x"
      using r(1) by (cases "zh_lookup Z (table_h T) (hex_str x)") (auto simp: dt_map_def l)
  qed
  show "dt_clear Z T' (drop_entry m a) = dt_clear Z T m"
  proof
    fix x
    have sub: "x \<in> dt_owned Z T m" if x: "x \<in> dt_owned Z T' (drop_entry m a)"
    proof -
      from x obtain k' a' where "zh_lookup Z (table_h T) k' = Some a'" "k' \<noteq> hex_str key"
        "x = a' \<or> (\<exists>d. drop_entry m a a' = Some (BObj (OHandler d)) \<and> hd_ret d = Some x)"
        by (auto simp: dt_owned_def l split: if_splits)
      with r(1) [of k' a'] show ?thesis by (auto simp: dt_owned_def)
    qed
    have gone: "drop_entry m a x = None" if x: "x \<in> dt_owned Z T m" "x \<notin> dt_owned Z T' (drop_entry m a)"
    proof -
      from x(1) obtain k' a' where k': "zh_lookup Z (table_h T) k' = Some a'"
        "x = a' \<or> (\<exists>d. m a' = Some (BObj (OHandler d)) \<and> hd_ret d = Some x)"
        by (auto simp: dt_owned_def)
      show ?thesis
      proof (cases "k' = hex_str key")
        case True
        with k k' d show ?thesis by (auto simp: drop_entry_def)
      next
        case False
        with k' r(1) [OF k'(1)] have "x \<in> dt_owned Z T' (drop_entry m a)"
          by (auto simp: dt_owned_def l)
        with x(2) show ?thesis by simp
      qed
    qed
    have same: "drop_entry m a x = m x" if "x \<notin> dt_owned Z T m"
      using that k d by (auto simp: drop_entry_def dt_owned_def)
    show "dt_clear Z T' (drop_entry m a) x = dt_clear Z T m x"
      using sub gone same by (auto simp: dt_clear_def)
  qed
qed


lemma remove_keys_char:
  assumes Z: "zhashx_ok Z"
  shows "heap_wf h \<Longrightarrow> dt_ok Z T (hp_mem h) \<Longrightarrow> distinct ks \<Longrightarrow>
    set ks \<subseteq> dom (zh_lookup Z (table_h T)) \<Longrightarrow>
    \<exists>T' h'. remove_keys Z T ks h = Some (T', h') \<and> heap_wf h' \<and> hp_ok h' = hp_ok h \<and>
      dt_ok Z T' (hp_mem h') \<and> dt_clear Z T' (hp_mem h') = dt_clear Z T (hp_mem h) \<and>
      dt_self T' = dt_self T \<and>
      ((\<forall>n. hp_ok h n) \<longrightarrow> zh_lookup Z (table_h T') = (zh_lookup Z (table_h T)) |` (- set ks))"
proof (induction ks arbitrary: T h)
  case Nil
  then show ?case by simp
next
  case (Cons k ks)
  from Cons.prems obtain a0 where a0: "zh_lookup Z (table_h T) k = Some a0" by auto
  from dt_ok_entry [OF Cons.prems(2) a0] obtain key where
    k: "k = hex_str key" by (auto simp: entry_ok_def)
  then have key: "hutils_numerify_hex_key k = key" "k = hex_str key" by simp_all
  from remove_char [OF Cons.prems(1,2), of key] obtain err T1 h1 where
    r: "s_disp_table_remove Z T key h = Some (err, T1, h1)" and wf1: "heap_wf h1"
    and ok1: "hp_ok h1 = hp_ok h"
    and c: "err = DISP_TABLE_ERR_ALLOC \<and> T1 = T \<and> heap_same h h1 \<or>
     err = DISP_TABLE_SUCCESS \<and> (\<exists>a. zh_lookup Z (table_h T) (hex_str key) = Some a \<and>
       T1 = T\<lparr>table_h := zh_delete Z (table_h T) (hex_str key)\<rparr> \<and>
       hp_mem h1 = drop_entry (hp_mem h) a)"
    and s: "(\<forall>n. hp_ok h n) \<and> zh_lookup Z (table_h T) (hex_str key) \<noteq> None \<longrightarrow> err = DISP_TABLE_SUCCESS"
    by metis
  have step: "dt_ok Z T1 (hp_mem h1) \<and> dt_clear Z T1 (hp_mem h1) = dt_clear Z T (hp_mem h) \<and>
      dt_self T1 = dt_self T \<and> set ks \<subseteq> dom (zh_lookup Z (table_h T1)) \<and>
      ((\<forall>n. hp_ok h n) \<longrightarrow> zh_lookup Z (table_h T1) = (zh_lookup Z (table_h T))(k := None))"
    using c
  proof
    assume e: "err = DISP_TABLE_ERR_ALLOC \<and> T1 = T \<and> heap_same h h1"
    then have "\<not> (\<forall>n. hp_ok h n)" using s a0 key by auto
    with e Cons.prems show ?thesis by (auto simp: heap_same_def)
  next
    assume "err = DISP_TABLE_SUCCESS \<and> (\<exists>a. zh_lookup Z (table_h T) (hex_str key) = Some a \<and>
       T1 = T\<lparr>table_h := zh_delete Z (table_h T) (hex_str key)\<rparr> \<and>
       hp_mem h1 = drop_entry (hp_mem h) a)"
    then obtain a where a: "zh_lookup Z (table_h T) (hex_str key) = Some a"
      "T1 = T\<lparr>table_h := zh_delete Z (table_h T) (hex_str key)\<rparr>" "hp_mem h1 = drop_entry (hp_mem h) a"
      by auto
    have "set ks \<subseteq> dom ((zh_lookup Z (table_h T))(k := None))" using Cons.prems(3,4) by auto
    then show ?thesis
      using dt_ok_remove [OF Z Cons.prems(2) a(1)] a zhashx_okD(4) [OF Z] key by simp
  qed
  have d: "distinct ks" using Cons.prems by simp
  from Cons.IH [OF wf1 _ d] step obtain T2 h2 where
    i: "remove_keys Z T1 ks h1 = Some (T2, h2)" "heap_wf h2" "hp_ok h2 = hp_ok h1"
      "dt_ok Z T2 (hp_mem h2)" "dt_clear Z T2 (hp_mem h2) = dt_clear Z T1 (hp_mem h1)"
      "dt_self T2 = dt_self T1"
      "(\<forall>n. hp_ok h1 n) \<longrightarrow> zh_lookup Z (table_h T2) = (zh_lookup Z (table_h T1)) |` (- set ks)"
    by metis
  have "((zh_lookup Z (table_h T))(k := None)) |` (- set ks) =
      (zh_lookup Z (table_h T)) |` (- set (k # ks))"
    by (auto simp: restrict_map_def fun_eq_iff)
  with r i step ok1 key show ?case by auto
qed

lemma free_items_char:
  assumes "distinct as" and "\<forall>a \<in> set as. hp_mem h a \<noteq> None" and "heap_wf h"
  shows "\<exists>h'. free_items (map Some as) h = Some h' \<and> heap_wf h' \<and>
    hp_mem h' = (\<lambda>x. if x \<in> set as then None else hp_mem h x)"
  using assms
proof (induction as arbitrary: h)
  case Nil
  then show ?case by simp
next
  case (Cons a as)
  define h1 where "h1 = h\<lparr>hp_mem := (hp_mem h)(a := None)\<rparr>"
  have "s_disp_table_free_item (Some a) h = Some h1"
    using Cons.prems by (auto simp: s_disp_table_free_item_def disp_op_handler_destroy_def
        hfree_opt_def hfree_def h1_def)
  moreover have "distinct as" "\<forall>x \<in> set as. hp_mem h1 x \<noteq> None" "heap_wf h1"
    using Cons.prems by (auto simp: h1_def heap_wf_def)
  from Cons.IH [OF this] obtain h' where "free_items (map Some as) h1 = Some h'" "heap_wf h'"
    "hp_mem h' = (\<lambda>x. if x \<in> set as then None else hp_mem h1 x)" by blast
  ultimately show ?case by (auto simp: h1_def fun_eq_iff)
qed

lemma dt_clear_empty: "zh_lookup Z (table_h T) = Map.empty \<Longrightarrow> dt_clear Z T m = m"
  by (auto simp: dt_clear_def dt_owned_def fun_eq_iff)

lemma remaining_handlers:
  assumes Z: "zhashx_ok Z" and ok: "dt_ok Z T m"
  defines "hs \<equiv> map (\<lambda>k. the (zh_lookup Z (table_h T) k)) (zh_keys Z (table_h T))"
  shows "map (zh_lookup Z (table_h T)) (zh_keys Z (table_h T)) = map Some hs"
    and "distinct hs" and "\<forall>a \<in> set hs. \<exists>d. m a = Some (BObj (OHandler d))"
proof -
  have keys: "\<forall>k \<in> set (zh_keys Z (table_h T)). \<exists>a. zh_lookup Z (table_h T) k = Some a"
    using zhashx_okD(6) [OF Z, of "table_h T"] by auto
  then show "map (zh_lookup Z (table_h T)) (zh_keys Z (table_h T)) = map Some hs"
    by (auto simp: hs_def)
  have "inj_on (\<lambda>k. the (zh_lookup Z (table_h T) k)) (set (zh_keys Z (table_h T)))"
  proof (rule inj_onI)
    fix x y
    assume xy: "x \<in> set (zh_keys Z (table_h T))" "y \<in> set (zh_keys Z (table_h T))"
      "the (zh_lookup Z (table_h T) x) = the (zh_lookup Z (table_h T) y)"
    from keys xy(1,2) obtain a b where "zh_lookup Z (table_h T) x = Some a"
      "zh_lookup Z (table_h T) y = Some b" by blast
    with xy(3) show "x = y" using dt_ok_handler_inj [OF ok, of x a y] by simp
  qed
  then show "distinct hs"
    using zhashx_okD(5) [OF Z, of "table_h T"] by (simp add: hs_def distinct_map)
  show "\<forall>a \<in> set hs. \<exists>d. m a = Some (BObj (OHandler d))"
    using keys dt_ok_entry [OF ok] by (fastforce simp: hs_def entry_ok_def)
qed

lemma destroy_char:
  assumes Z: "zhashx_ok Z" and wf: "heap_wf h" and ok: "dt_ok Z T (hp_mem h)"
  shows "\<exists>h'. disp_table_destroy Z (Some T) h = Some (DISP_TABLE_SUCCESS, h') \<and>
    ((\<forall>n. hp_ok h n) \<longrightarrow> hp_mem h' = (dt_clear Z T (hp_mem h))(dt_self T := None))"
proof -
  let ?ks = "zh_keys Z (table_h T)"
  have ks: "distinct ?ks" "set ?ks \<subseteq> dom (zh_lookup Z (table_h T))"
    using zhashx_okD(5,6) [OF Z, of "table_h T"] by auto
  from remove_keys_char [OF Z wf ok ks] obtain T1 h1 where
    r: "remove_keys Z T ?ks h = Some (T1, h1)" "heap_wf h1" "dt_ok Z T1 (hp_mem h1)"
      "dt_clear Z T1 (hp_mem h1) = dt_clear Z T (hp_mem h)" "dt_self T1 = dt_self T"
      "(\<forall>n. hp_ok h n) \<longrightarrow> zh_lookup Z (table_h T1) = (zh_lookup Z (table_h T)) |` (- set ?ks)"
    by metis
  from remaining_handlers [OF Z r(3)] obtain hs where
    hs: "map (zh_lookup Z (table_h T1)) (zh_keys Z (table_h T1)) = map Some hs" "distinct hs"
      "\<forall>a \<in> set hs. \<exists>d. hp_mem h1 a = Some (BObj (OHandler d))" by blast
  obtain h2 where f: "free_items (map Some hs) h1 = Some h2"
    "hp_mem h2 = (\<lambda>x. if x \<in> set hs then None else hp_mem h1 x)"
    using free_items_char [OF hs(2) _ r(2)] hs(3) by force
  have self: "hp_mem h2 (dt_self T1) = Some (BObj OTable)"
    using r(3) hs(3) f(2) by (fastforce simp: dt_ok_def)
  have "hp_mem h2 = dt_clear Z T (hp_mem h)" if "\<forall>n. hp_ok h n"
  proof -
    have e: "zh_lookup Z (table_h T1) = Map.empty"
      using r(6) that zhashx_okD(6) [OF Z, of "table_h T"]
      by (auto simp: restrict_map_def fun_eq_iff domIff)
    then have "zh_keys Z (table_h T1) = []" using zhashx_okD(6) [OF Z, of "table_h T1"] by simp
    then have "hs = []" using hs(1) by simp
    then show ?thesis using f(2) r(4) dt_clear_empty [OF e] by simp
  qed
  moreover have "disp_table_destroy Z (Some T) h =
      Some (DISP_TABLE_SUCCESS, h2\<lparr>hp_mem := (hp_mem h2)(dt_self T1 := None)\<rparr>)"
    using r(1) f(1) hs(1) self by (simp add: disp_table_destroy_def s_disp_table_remove_all_def hfree_def)
  ultimately show ?thesis using r(5) by simp
qed

subsection \<open>Calls\<close>

text \<open>The table as its clients see it: opcode to descriptor and content of the return buffer.\<close>

definition ret_data :: "(nat \<Rightarrow> ('w, 'a) dobj blk option) \<Rightarrow> nat option \<Rightarrow> u8 list option" where
  "ret_data m ret = do { r \<leftarrow> ret; as_bytes (m r) }"

definition dt_entry ::
  "'h zhashx \<Rightarrow> ('h, 'w, 'a) disp_table \<Rightarrow> (nat \<Rightarrow> ('w, 'a) dobj blk option) \<Rightarrow> u32 \<Rightarrow>
     (('w, 'a) disp_op \<times> u8 list option) option" where
  "dt_entry Z T m key = do {
     a \<leftarrow> zh_lookup Z (table_h T) (hex_str key);
     d \<leftarrow> as_handler (m a);
     op \<leftarrow> as_op (m (hd_op d));
     Some (op, ret_data m (hd_ret d)) }"

definition abs_check_call ::
  "('w, 'a) disp_table_ops \<Rightarrow> (u32 \<Rightarrow> (('w, 'a) disp_op \<times> u8 list option) option) \<Rightarrow>
     u32 \<Rightarrow> 'w \<Rightarrow> 'a \<Rightarrow>
     (int \<times> u8 list option \<times> 'w \<times> (u32 \<Rightarrow> (('w, 'a) disp_op \<times> u8 list option) option)) option" where
  "abs_check_call ops D key w as =
     (case (D key, check_msg_args ops) of
        (Some (op, buf), Some check) \<Rightarrow>
          if check op as \<noteq> DISP_TABLE_SUCCESS then Some (-1, None, w, D)
          else (case (retval op = DISP_ARG_END, buf, func_fp op) of
              (True, _, None) \<Rightarrow> Some (-1, None, w, D)
            | (True, _, Some f) \<Rightarrow> do { (e, w', _) \<leftarrow> f w as None; Some (e, None, w', D) }
            | (False, None, _) \<Rightarrow> Some (-1, None, w, D)
            | (False, Some b, None) \<Rightarrow> Some (-1, Some b, w, D)
            | (False, Some b, Some f) \<Rightarrow> do {
                (e, w', b') \<leftarrow> f w as (Some b);
                let nb = (case b' of Some x \<Rightarrow> x | None \<Rightarrow> b);
                Some (e, Some nb, w', D(key \<mapsto> (op, Some nb))) })
      | _ \<Rightarrow> Some (-1, None, w, D))"

text \<open>A function writes inside its return buffer.\<close>

definition func_ok :: "('w, 'a) disp_table_func \<Rightarrow> bool" where
  "func_ok f \<longleftrightarrow> (\<forall>w as b e w' b'. f w as (Some b) = Some (e, w', Some b') \<longrightarrow> length b' = length b)"

lemma dt_entry_SomeD:
  assumes ok: "dt_ok Z T m" and k: "zh_lookup Z (table_h T) (hex_str key) = Some a"
  obtains d op where "m a = Some (BObj (OHandler d))" "m (hd_op d) = Some (BObj (OOp op))"
    "opcode op = key" "ret_ok m op (hd_ret d)" "dt_entry Z T m key = Some (op, ret_data m (hd_ret d))"
proof -
  obtain d op where d: "m a = Some (BObj (OHandler d))" "m (hd_op d) = Some (BObj (OOp op))"
    "hex_str key = hex_str (opcode op)" "ret_ok m op (hd_ret d)" by (rule dt_okD [OF ok k])
  then have "dt_entry Z T m key = Some (op, ret_data m (hd_ret d))" using k by (simp add: dt_entry_def)
  with d that show ?thesis by simp
qed

lemma dt_ok_store:
  assumes ok: "dt_ok Z T m" and k: "zh_lookup Z (table_h T) (hex_str key) = Some a"
    and d: "m a = Some (BObj (OHandler d))" "m (hd_op d) = Some (BObj (OOp op))" "hd_ret d = Some r"
    and b: "m r = Some (BBytes b)" "length nb = length b"
  shows "dt_ok Z T (m(r \<mapsto> BBytes nb))"
    and "dt_entry Z T (m(r \<mapsto> BBytes nb)) = (dt_entry Z T m)(key \<mapsto> (op, Some nb))"
proof -
  let ?m = "m(r \<mapsto> BBytes nb)"
  have e: "?m a' = Some (BObj (OHandler d'))" "?m (hd_op d') = Some (BObj (OOp op'))"
      "ret_ok ?m op' (hd_ret d')"
    if "m a' = Some (BObj (OHandler d'))" "m (hd_op d') = Some (BObj (OOp op'))"
      "ret_ok m op' (hd_ret d')" for a' d' op'
    using that b by (cases "hd_ret d'"; auto simp: ret_ok_def split: if_splits)+
  have en: "entry_ok ?m k' a'" if "zh_lookup Z (table_h T) k' = Some a'" for k' a'
    using dt_ok_entry [OF ok that] e unfolding entry_ok_def by blast
  have hm: "?m x = Some (BObj y) \<longleftrightarrow> m x = Some (BObj y)" for x y using b by auto
  show "dt_ok Z T ?m"
    using ok en unfolding dt_ok_def by (simp only: hm) blast
  show "dt_entry Z T ?m = (dt_entry Z T m)(key \<mapsto> (op, Some nb))"
  proof
    fix x
    show "dt_entry Z T ?m x = ((dt_entry Z T m)(key \<mapsto> (op, Some nb))) x"
    proof (cases "zh_lookup Z (table_h T) (hex_str x)")
      case None
      then have "x \<noteq> key" using k by auto
      with None show ?thesis by (simp add: dt_entry_def)
    next
      case (Some a')
      obtain d' op' where d': "m a' = Some (BObj (OHandler d'))" "m (hd_op d') = Some (BObj (OOp op'))"
        "ret_ok m op' (hd_ret d')" "dt_entry Z T m x = Some (op', ret_data m (hd_ret d'))"
        by (rule dt_entry_SomeD [OF ok Some])
      have l: "dt_entry Z T ?m x = Some (op', ret_data ?m (hd_ret d'))"
        using e [OF d'(1,2,3)] Some by (simp add: dt_entry_def)
      show ?thesis
      proof (cases "x = key")
        case True
        with l k Some d d' show ?thesis by (simp add: ret_data_def)
      next
        case False
        then have "hd_ret d' \<noteq> Some r" using dt_ok_ret_inj [OF ok Some k d'(1) d(1)] d(3) by auto
        then have "ret_data ?m (hd_ret d') = ret_data m (hd_ret d')"
          by (cases "hd_ret d'") (auto simp: ret_data_def)
        with l d' False show ?thesis by simp
      qed
    qed
  qed
qed

lemma lookup_all_ok:
  assumes "heap_wf h" and "\<forall>n. hp_ok h n"
  obtains h' where "s_disp_table_lookup Z T key h = Some (zh_lookup Z (table_h T) (hex_str key), h')"
    "hp_mem h' = hp_mem h" "hp_ok h' = hp_ok h" "heap_wf h'"
proof -
  obtain h' where "s_disp_table_lookup Z T key h = Some
     (if hp_ok h (hp_next h) then zh_lookup Z (table_h T) (hex_str key) else None, h')"
    "heap_same h h'" by (rule lookup_char [OF assms(1)])
  then show ?thesis
    using that [of h'] assms heap_same_wf [of h h'] by (simp add: heap_same_def)
qed

lemma check_call_char:
  assumes wf: "heap_wf h" and al: "\<forall>n. hp_ok h n" and ok: "dt_ok Z T (hp_mem h)"
    and fo: "\<And>op buf f. dt_entry Z T (hp_mem h) key = Some (op, buf) \<Longrightarrow> func_fp op = Some f \<Longrightarrow> func_ok f"
  shows "case disp_table_check_call Z T key w as None h of
      None \<Rightarrow> abs_check_call (dt_ops T) (dt_entry Z T (hp_mem h)) key w as = None
    | Some (e, ret, w', h') \<Rightarrow>
        abs_check_call (dt_ops T) (dt_entry Z T (hp_mem h)) key w as =
          Some (e, ret_data (hp_mem h') ret, w', dt_entry Z T (hp_mem h')) \<and>
        heap_wf h' \<and> hp_ok h' = hp_ok h \<and> dt_ok Z T (hp_mem h')"
proof -
  obtain h1 where l1: "s_disp_table_lookup Z T key h = Some (zh_lookup Z (table_h T) (hex_str key), h1)"
    "hp_mem h1 = hp_mem h" "hp_ok h1 = hp_ok h" "heap_wf h1" by (rule lookup_all_ok [OF wf al])
  have al1: "\<forall>n. hp_ok h1 n" using al l1 by simp
  obtain h2 where l2: "s_disp_table_lookup Z T key h1 = Some (zh_lookup Z (table_h T) (hex_str key), h2)"
    "hp_mem h2 = hp_mem h1" "hp_ok h2 = hp_ok h1" "heap_wf h2" by (rule lookup_all_ok [OF l1(4) al1])
  note defs1 = disp_table_check_call_def s_disp_table_check_args_def disp_table_ops_check_msg_def
    s_disp_table_set_ret_op_def s_disp_table_call_def abs_check_call_def
  show ?thesis
  proof (cases "zh_lookup Z (table_h T) (hex_str key)")
    case None
    then have "dt_entry Z T (hp_mem h) key = None" by (simp add: dt_entry_def)
    with None l1 wf ok show ?thesis by (simp add: defs1 ret_data_def)
  next
    case (Some a)
    obtain d op where d: "hp_mem h a = Some (BObj (OHandler d))" "hp_mem h (hd_op d) = Some (BObj (OOp op))"
      "ret_ok (hp_mem h) op (hd_ret d)"
      "dt_entry Z T (hp_mem h) key = Some (op, ret_data (hp_mem h) (hd_ret d))"
      by (rule dt_entry_SomeD [OF ok Some])
    note base = l1 l2 Some d(1,2,4) ok
    show ?thesis
    proof (cases "\<exists>check. check_msg_args (dt_ops T) = Some check \<and> check op as = DISP_TABLE_SUCCESS")
      case False
      then show ?thesis using base
        by (cases "check_msg_args (dt_ops T)") (simp_all add: defs1 ret_data_def)
    next
      case True
      then obtain check where c: "check_msg_args (dt_ops T) = Some check" "check op as = DISP_TABLE_SUCCESS"
        by blast
      show ?thesis
      proof (cases "retval op = DISP_ARG_END")
        case True
        then show ?thesis using base c
          by (cases "func_fp op")
            (auto simp: defs1 ret_data_def call_buf_def store_buf_def split: bind_splits option.split)
      next
        case re: False
        show ?thesis
        proof (cases "hd_ret d")
          case None
          then show ?thesis using base c re by (simp add: defs1 ret_data_def)
        next
          case (Some r)
          then obtain b where b: "hp_mem h r = Some (BBytes b)" using d(3) ret_bytes by metis
          show ?thesis
          proof (cases "func_fp op")
            case None
            then show ?thesis using base c re Some b by (simp add: defs1 ret_data_def)
          next
            case f: (Some f)
            note st = dt_ok_store [OF ok \<open>zh_lookup Z (table_h T) (hex_str key) = Some a\<close> d(1,2) Some b]
            have "func_ok f" using fo d(4) f by blast
            then have len: "length nb = length b" if "f w as (Some b) = Some (e, w', Some nb)" for e w' nb
              using that by (auto simp: func_ok_def)
            have idem: "(dt_entry Z T (hp_mem h))(key \<mapsto> (op, Some b)) = dt_entry Z T (hp_mem h)"
              using d(4) Some b by (simp add: ret_data_def fun_upd_idem)
            show ?thesis
            proof (cases "f w as (Some b)")
              case None
              then show ?thesis using base c re Some b f
                by (simp add: defs1 ret_data_def call_buf_def)
            next
              case fr: (Some res)
              obtain e w' b' where res: "res = (e, w', b')" by (cases res)
              show ?thesis
              proof (cases b')
                case None
                then show ?thesis using base c re Some b f fr res idem
                  by (simp add: defs1 ret_data_def call_buf_def store_buf_def)
              next
                case (Some nb)
                have "heap_wf (h2\<lparr>hp_mem := (hp_mem h)(r \<mapsto> BBytes nb)\<rparr>)"
                  using l1 l2 b by (auto simp: heap_wf_def)
                then show ?thesis
                  using base c re \<open>hd_ret d = Some r\<close> b f fr res Some st [OF len] 
                  by (simp add: defs1 ret_data_def call_buf_def store_buf_def hset_def)
              qed
            qed
          qed
        qed
      qed
    qed
  qed
qed

subsection \<open>Registering and filling vectors of descriptors\<close>

text \<open>What the registration of a vector achieves: the entries before the first opcode that is
  already taken.\<close>

fun reg_prefix :: "(u32 \<Rightarrow> nat option) \<Rightarrow> (u32 \<times> nat) list \<Rightarrow> u32 \<Rightarrow> nat option" where
  "reg_prefix D [] = D"
| "reg_prefix D ((k, p) # r) = (if D k = None then reg_prefix (D(k \<mapsto> p)) r else D)"

definition op_code :: "(nat \<Rightarrow> ('w, 'a) dobj blk option) \<Rightarrow> nat \<Rightarrow> u32" where
  "op_code m p = (case as_op (m p) of Some op \<Rightarrow> opcode op | None \<Rightarrow> 0)"

lemma insert_all_char:
  assumes Z: "zhashx_ok Z"
  shows "heap_wf h \<Longrightarrow> dt_ok Z T (hp_mem h) \<Longrightarrow> \<forall>n. hp_ok h n \<Longrightarrow>
    (\<forall>p \<in> set ps. as_op (hp_mem h p) \<noteq> None) \<Longrightarrow>
    \<exists>T' h'. s_disp_table_insert_all Z T ps h = Some (DISP_TABLE_SUCCESS, T', h') \<and>
      heap_wf h' \<and> dt_ok Z T' (hp_mem h') \<and>
      dt_map Z T' (hp_mem h') =
        reg_prefix (dt_map Z T (hp_mem h)) (map (\<lambda>p. (op_code (hp_mem h) p, p)) ps) \<and>
      hp_ok h' = hp_ok h \<and> dt_ops T' = dt_ops T \<and>
      (\<forall>a. hp_mem h a \<noteq> None \<longrightarrow> hp_mem h' a = hp_mem h a)"
proof (induction ps arbitrary: T h)
  case Nil
  then show ?case by (auto simp: fun_eq_iff)
next
  case (Cons p ps)
  then obtain op where op: "as_op (hp_mem h p) = Some op" by auto
  from insert_char [OF Cons.prems(1) op, of Z T] obtain err T1 h1 where
    i: "s_disp_table_insert Z T p h = Some (err, T1, h1)" "insert_ok Z T p op h err T1 h1"
    and s: "(\<forall>n. hp_ok h n) \<and> zh_insert Z (table_h T) (hex_str (opcode op)) (hp_next h) \<noteq> None \<longrightarrow>
       err = DISP_TABLE_SUCCESS" by metis
  note w = insert_ok_wf [OF i(2) Z Cons.prems(1,2) op]
  have mono: "hp_mem h1 x = hp_mem h x" if "hp_mem h x \<noteq> None" for x using w that by blast
  have live: "as_op (hp_mem h1 q) = as_op (hp_mem h q)" if "as_op (hp_mem h q) \<noteq> None" for q
    using that mono [of q] by (cases "hp_mem h q") auto
  then have codes: "map (\<lambda>q. (op_code (hp_mem h1) q, q)) ps = map (\<lambda>q. (op_code (hp_mem h) q, q)) ps"
    using Cons.prems(4) by (simp add: op_code_def)
  have free: "(zh_insert Z (table_h T) (hex_str (opcode op)) (hp_next h) \<noteq> None) =
      (dt_map Z T (hp_mem h) (opcode op) = None)"
    by (simp only: zhashx_okD(2) [OF Z] dt_map_None [OF Cons.prems(2)] not_not)
  show ?case
  proof (cases "dt_map Z T (hp_mem h) (opcode op) = None")
    case True
    then have e: "err = DISP_TABLE_SUCCESS" using s free Cons.prems(3) by blast
    have "\<forall>q \<in> set ps. as_op (hp_mem h1 q) \<noteq> None" "\<forall>n. hp_ok h1 n"
      using Cons.prems(3,4) live w by auto
    with Cons.IH [of h1 T1, unfolded codes] w obtain T2 h2 where
      "s_disp_table_insert_all Z T1 ps h1 = Some (DISP_TABLE_SUCCESS, T2, h2)"
      "heap_wf h2" "dt_ok Z T2 (hp_mem h2)"
      "dt_map Z T2 (hp_mem h2) =
        reg_prefix (dt_map Z T1 (hp_mem h1)) (map (\<lambda>p. (op_code (hp_mem h) p, p)) ps)"
      "hp_ok h2 = hp_ok h1" "dt_ops T2 = dt_ops T1"
      "\<forall>a. hp_mem h1 a \<noteq> None \<longrightarrow> hp_mem h2 a = hp_mem h1 a" by blast
    moreover have "op_code (hp_mem h) p = opcode op" using op by (simp add: op_code_def)
    moreover have "dt_ops T1 = dt_ops T" using i(2) by cases simp_all
    ultimately show ?thesis using i(1) e w True mono by simp
  next
    case False
    then have "err \<noteq> DISP_TABLE_SUCCESS" using w by auto
    with i(1) w False op show ?thesis by (auto simp: op_code_def heap_same_def)
  qed
qed

lemma fill_desc_char:
  assumes "distinct ps" and "\<forall>p \<in> set ps. as_op (hp_mem h p) \<noteq> None" and "heap_wf h"
  shows "\<exists>h'. disp_table_fill_desc ps fs h =
      Some (if length ps = length fs then DISP_TABLE_SUCCESS else DISP_TABLE_ERR_NULL_POINTER, h') \<and>
    heap_wf h' \<and> hp_ok h' = hp_ok h \<and>
    hp_mem h' = (\<lambda>x. case map_of (zip ps fs) x of None \<Rightarrow> hp_mem h x
       | Some f \<Rightarrow> map_option (\<lambda>op. BObj (OOp (op\<lparr>func_fp := Some f\<rparr>))) (as_op (hp_mem h x)))"
  using assms
proof (induction ps fs h rule: disp_table_fill_desc.induct)
  case (1 p ps f fs h)
  then obtain op where op: "hp_mem h p = Some (BObj (OOp op))" by (auto dest: as_SomeD)
  define h1 where "h1 = h\<lparr>hp_mem := (hp_mem h)(p \<mapsto> BObj (OOp (op\<lparr>func_fp := Some f\<rparr>)))\<rparr>"
  have s: "as_op (hp_mem h p) = Some op" "hset p (BObj (OOp (op\<lparr>func_fp := Some f\<rparr>))) h = Some h1"
    using op by (simp_all add: hset_def h1_def)
  have "distinct ps" "\<forall>q \<in> set ps. as_op (hp_mem h1 q) \<noteq> None" "heap_wf h1"
    using 1(2,3,4) op by (auto simp: h1_def heap_wf_def)
  from 1(1) [OF s(1,2) this] obtain h' where
    i: "disp_table_fill_desc ps fs h1 =
      Some (if length ps = length fs then DISP_TABLE_SUCCESS else DISP_TABLE_ERR_NULL_POINTER, h')"
    "heap_wf h'" "hp_ok h' = hp_ok h1"
    "hp_mem h' = (\<lambda>x. case map_of (zip ps fs) x of None \<Rightarrow> hp_mem h1 x
       | Some f \<Rightarrow> map_option (\<lambda>op. BObj (OOp (op\<lparr>func_fp := Some f\<rparr>))) (as_op (hp_mem h1 x)))"
    by blast
  have "map_of (zip ps fs) p = None"
    using 1(2) by (auto simp: map_of_eq_None_iff dest: set_zip_leftD)
  with i s op show ?case by (auto simp: h1_def fun_eq_iff split: option.split)
qed auto

lemma dt_entry_fill:
  assumes ok: "dt_ok Z T m"
    and m': "\<And>x. m' x = (case F x of None \<Rightarrow> m x
       | Some f \<Rightarrow> map_option (\<lambda>op. BObj (OOp (op\<lparr>func_fp := Some f\<rparr>))) (as_op (m x)))"
    and F: "\<And>x f. F x = Some f \<Longrightarrow> as_op (m x) \<noteq> None"
  shows "dt_entry Z T m' key = (case (dt_map Z T m key, dt_entry Z T m key) of
       (Some p, Some (op, buf)) \<Rightarrow> Some (case F p of None \<Rightarrow> op | Some f \<Rightarrow> op\<lparr>func_fp := Some f\<rparr>, buf)
     | _ \<Rightarrow> None)"
proof (cases "zh_lookup Z (table_h T) (hex_str key)")
  case None
  then show ?thesis by (simp add: dt_entry_def dt_map_def)
next
  case (Some a)
  obtain d op where d: "m a = Some (BObj (OHandler d))" "m (hd_op d) = Some (BObj (OOp op))"
    "ret_ok m op (hd_ret d)" "dt_entry Z T m key = Some (op, ret_data m (hd_ret d))"
    by (rule dt_entry_SomeD [OF ok Some])
  have noF: "F x = None" if "as_op (m x) = None" for x using F [of x] that by (cases "F x") auto
  have a: "m' a = m a" using noF [of a] d by (simp add: m')
  have r: "ret_data m' (hd_ret d) = ret_data m (hd_ret d)"
  proof (cases "hd_ret d")
    case (Some r)
    then obtain b where "m r = Some (BBytes b)" using d(3) ret_bytes by metis
    with Some noF [of r] show ?thesis by (simp add: ret_data_def m')
  qed (simp add: ret_data_def)
  have "as_op (m' (hd_op d)) = Some (case F (hd_op d) of None \<Rightarrow> op | Some f \<Rightarrow> op\<lparr>func_fp := Some f\<rparr>)"
    using d(2) by (simp add: m' split: option.split)
  then have "dt_entry Z T m' key = Some (case F (hd_op d) of None \<Rightarrow> op | Some f \<Rightarrow> op\<lparr>func_fp := Some f\<rparr>,
      ret_data m (hd_ret d))" using Some d(1) a r by (simp add: dt_entry_def)
  moreover have "dt_map Z T m key = Some (hd_op d)" using Some d(1) by (simp add: dt_map_def)
  ultimately show ?thesis using d(4) by simp
qed

section \<open>The interface to the message handlers\<close>

text \<open>A dispatcher: a state with an abstract view, and a checked call that does to the view what
  \<open>abs_check_call\<close> says. The message handlers rely on nothing else.\<close>

locale dispatcher =
  fixes check_call :: "'s \<Rightarrow> u32 \<Rightarrow> 'w \<Rightarrow> 'a \<Rightarrow> (int \<times> u8 list option \<times> 'w \<times> 's) option"
    and view :: "'s \<Rightarrow> u32 \<Rightarrow> (('w, 'a) disp_op \<times> u8 list option) option"
    and table_ops :: "'s \<Rightarrow> ('w, 'a) disp_table_ops"
    and good :: "'s \<Rightarrow> bool"
  assumes call_view: "good s \<Longrightarrow>
      map_option (\<lambda>(e, d, w', s'). (e, d, w', view s')) (check_call s key w as) =
        abs_check_call (table_ops s) (view s) key w as"
    and call_good: "good s \<Longrightarrow> check_call s key w as = Some (e, d, w', s') \<Longrightarrow>
      good s' \<and> table_ops s' = table_ops s"
begin

lemma absent_key:
  assumes "good s" and "view s key = None"
  shows "\<exists>s'. check_call s key w as = Some (-1, None, w, s') \<and> view s' = view s \<and> good s'"
  using call_view [OF assms(1), of key w as] call_good [OF assms(1), of key w as] assms(2)
  by (auto simp: abs_check_call_def)

lemma refused:
  assumes "good s" and "view s key = Some (op, buf)" and "check_msg_args (table_ops s) = Some check"
    and "check op as \<noteq> DISP_TABLE_SUCCESS"
  shows "\<exists>s'. check_call s key w as = Some (-1, None, w, s') \<and> view s' = view s \<and> good s'"
  using call_view [OF assms(1), of key w as] call_good [OF assms(1), of key w as] assms(2-)
  by (auto simp: abs_check_call_def)

lemma accepted:
  assumes "good s" and "view s key = Some (op, Some b)"
    and "check_msg_args (table_ops s) = Some check" and "check op as = DISP_TABLE_SUCCESS"
    and "retval op \<noteq> DISP_ARG_END" and "func_fp op = Some f" and "f w as (Some b) = Some (e, w', Some nb)"
  shows "\<exists>s'. check_call s key w as = Some (e, Some nb, w', s') \<and>
    view s' = (view s)(key \<mapsto> (op, Some nb)) \<and> good s'"
  using call_view [OF assms(1), of key w as] call_good [OF assms(1), of key w as] assms(2-)
  by (auto simp: abs_check_call_def)

lemma accepted_void:
  assumes "good s" and "view s key = Some (op, buf)"
    and "check_msg_args (table_ops s) = Some check" and "check op as = DISP_TABLE_SUCCESS"
    and "retval op = DISP_ARG_END" and "func_fp op = Some f" and "f w as None = Some (e, w', nb)"
  shows "\<exists>s'. check_call s key w as = Some (e, None, w', s') \<and> view s' = view s \<and> good s'"
  using call_view [OF assms(1), of key w as] call_good [OF assms(1), of key w as] assms(2-)
  by (auto simp: abs_check_call_def)

end

text \<open>The model's table as a dispatcher.\<close>

type_synonym ('h, 'w, 'a) dstate = "'h zhashx \<times> ('h, 'w, 'a) disp_table \<times> ('w, 'a) dheap"

fun dt_call :: "('h, 'w, 'a) dstate \<Rightarrow> u32 \<Rightarrow> 'w \<Rightarrow> 'a \<Rightarrow>
    (int \<times> u8 list option \<times> 'w \<times> ('h, 'w, 'a) dstate) option" where
  "dt_call (Z, T, h) key w as =
     map_option (\<lambda>(e, ret, w', h'). (e, ret_data (hp_mem h') ret, w', (Z, T, h')))
       (disp_table_check_call Z T key w as None h)"

fun dt_view :: "('h, 'w, 'a) dstate \<Rightarrow> u32 \<Rightarrow> (('w, 'a) disp_op \<times> u8 list option) option" where
  "dt_view (Z, T, h) = dt_entry Z T (hp_mem h)"

fun dt_table_ops :: "('h, 'w, 'a) dstate \<Rightarrow> ('w, 'a) disp_table_ops" where
  "dt_table_ops (Z, T, h) = dt_ops T"

fun dt_good :: "('h, 'w, 'a) dstate \<Rightarrow> bool" where
  "dt_good (Z, T, h) \<longleftrightarrow> heap_wf h \<and> (\<forall>n. hp_ok h n) \<and> dt_ok Z T (hp_mem h) \<and>
     (\<forall>key op buf f. dt_entry Z T (hp_mem h) key = Some (op, buf) \<and> func_fp op = Some f \<longrightarrow> func_ok f)"

lemma abs_check_call_ops:
  assumes "abs_check_call ops D key w as = Some (e, d, w', D')" and "D' k = Some (op, buf)"
  shows "\<exists>buf'. D k = Some (op, buf')"
  using assms
  by (auto simp: abs_check_call_def bind_eq_Some_conv Let_def
      split: option.splits if_splits bool.splits)

lemma dt_call_view:
  assumes g: "dt_good s"
  shows "map_option (\<lambda>(e, d, w', s'). (e, d, w', dt_view s')) (dt_call s key w as) =
      abs_check_call (dt_table_ops s) (dt_view s) key w as"
    and "dt_call s key w as = Some (e, d, w', s') \<Longrightarrow> dt_good s' \<and> dt_table_ops s' = dt_table_ops s"
proof -
  obtain Z T h where s: "s = (Z, T, h)" by (cases s)
  have c: "case disp_table_check_call Z T key w as None h of
      None \<Rightarrow> abs_check_call (dt_ops T) (dt_entry Z T (hp_mem h)) key w as = None
    | Some (e, ret, w', h') \<Rightarrow>
        abs_check_call (dt_ops T) (dt_entry Z T (hp_mem h)) key w as =
          Some (e, ret_data (hp_mem h') ret, w', dt_entry Z T (hp_mem h')) \<and>
        heap_wf h' \<and> hp_ok h' = hp_ok h \<and> dt_ok Z T (hp_mem h')"
    by (rule check_call_char) (use g s in auto)
  then show "map_option (\<lambda>(e, d, w', s'). (e, d, w', dt_view s')) (dt_call s key w as) =
      abs_check_call (dt_table_ops s) (dt_view s) key w as"
    by (cases "disp_table_check_call Z T key w as None h") (auto simp: s)
  assume r: "dt_call s key w as = Some (e, d, w', s')"
  with s obtain ret h' where h': "disp_table_check_call Z T key w as None h = Some (e, ret, w', h')"
    "s' = (Z, T, h')" by auto
  with c have a: "abs_check_call (dt_ops T) (dt_entry Z T (hp_mem h)) key w as =
      Some (e, ret_data (hp_mem h') ret, w', dt_entry Z T (hp_mem h'))"
    "heap_wf h'" "hp_ok h' = hp_ok h" "dt_ok Z T (hp_mem h')" by auto
  have "func_ok f" if "dt_entry Z T (hp_mem h') k = Some (op, buf)" "func_fp op = Some f" for k op buf f
    using abs_check_call_ops [OF a(1) that(1)] g s that(2) by auto
  with a g s h' show "dt_good s' \<and> dt_table_ops s' = dt_table_ops s" by auto
qed

interpretation dtab: dispatcher dt_call dt_view dt_table_ops dt_good
  by unfold_locales (rule dt_call_view, assumption+)+

text \<open>A new table with a list of descriptors of distinct opcodes registered in it.\<close>

lemma reg_prefix_distinct:
  "distinct (map fst xs) \<Longrightarrow> (\<forall>x \<in> set xs. D (fst x) = None) \<Longrightarrow> reg_prefix D xs = D ++ map_of xs"
proof (induction xs arbitrary: D)
  case (Cons x xs)
  obtain k p where x: "x = (k, p)" by (cases x)
  have "\<forall>y \<in> set xs. (D(k \<mapsto> p)) (fst y) = None" using Cons.prems x by auto
  with Cons.prems have "reg_prefix (D(k \<mapsto> p)) xs = D(k \<mapsto> p) ++ map_of xs" by (intro Cons.IH) simp_all
  with Cons.prems x have "reg_prefix D (x # xs) = D(k \<mapsto> p) ++ map_of xs" by (simp del: fun_upd_apply)
  also have "\<dots> = D ++ map_of (x # xs)"
  proof -
    have "map_of xs k = None" using Cons.prems(1) x by (simp add: map_of_eq_None_iff)
    with x show ?thesis by (auto simp: fun_eq_iff map_add_def split: option.split)
  qed
  finally show ?case .
qed simp

lemma dt_map_entry:
  assumes "dt_ok Z T m"
  shows "dt_map Z T m key = None \<Longrightarrow> dt_entry Z T m key = None"
    and "dt_map Z T m key = Some p \<Longrightarrow> m p = Some (BObj (OOp op)) \<Longrightarrow>
      \<exists>buf. dt_entry Z T m key = Some (op, buf) \<and>
        (if needs_ret op then \<exists>b. buf = Some b \<and> length b = unat (DISP_GET_ASIZE (retval op)) else buf = None)"
proof -
  show "dt_entry Z T m key = None" if "dt_map Z T m key = None"
    using that dt_map_None [OF assms] by (simp add: dt_entry_def)
  assume k: "dt_map Z T m key = Some p" and p: "m p = Some (BObj (OOp op))"
  from dt_mapD [OF assms k] obtain a d where a: "zh_lookup Z (table_h T) (hex_str key) = Some a"
    "m a = Some (BObj (OHandler d))" "hd_op d = p" "ret_ok m op (hd_ret d)"
    using p by (metis blk.inject(3) dobj.inject(1) option.inject)
  then have "dt_entry Z T m key = Some (op, ret_data m (hd_ret d))" using p by (simp add: dt_entry_def)
  with a(4) show "\<exists>buf. dt_entry Z T m key = Some (op, buf) \<and>
        (if needs_ret op then \<exists>b. buf = Some b \<and> length b = unat (DISP_GET_ASIZE (retval op)) else buf = None)"
    by (auto simp: ret_ok_def ret_data_def split: if_splits)
qed

text \<open>Registering descriptors with distinct opcodes in an empty table.\<close>

lemma insert_all_ready:
  assumes Z: "zhashx_ok Z" and e: "zh_lookup Z (table_h T0) = Map.empty" and ok0: "dt_ok Z T0 (hp_mem h0)"
    and w0: "heap_wf h0" "\<forall>n. hp_ok h0 n"
    and ps: "length ps = length descs" "\<forall>(p, op) \<in> set (zip ps descs). hp_mem h0 p = Some (BObj (OOp op))"
    and d: "distinct (map opcode descs)" and f: "\<forall>op \<in> set descs. \<forall>f. func_fp op = Some f \<longrightarrow> func_ok f"
  shows "\<exists>T h'. disp_table_insert_all Z T0 ps h0 = Some (DISP_TABLE_SUCCESS, T, h') \<and> dt_good (Z, T, h') \<and>
    dt_table_ops (Z, T, h') = dt_ops T0 \<and>
    (\<forall>op \<in> set descs. \<exists>buf. dt_view (Z, T, h') (opcode op) = Some (op, buf) \<and>
      (if needs_ret op then \<exists>b. buf = Some b \<and> length b = unat (DISP_GET_ASIZE (retval op)) else buf = None)) \<and>
    (\<forall>key. key \<notin> opcode ` set descs \<longrightarrow> dt_view (Z, T, h') key = None)"
proof -
  have m0: "dt_map Z T0 (hp_mem h0) = Map.empty" using e by (simp add: dt_map_def fun_eq_iff)
  have at: "hp_mem h0 (ps ! i) = Some (BObj (OOp (descs ! i)))" if "i < length descs" for i
  proof -
    have "(ps ! i, descs ! i) \<in> set (zip ps descs)" using that ps(1) by (auto simp: set_zip)
    then show ?thesis using ps(2) by blast
  qed
  have ex: "\<forall>p \<in> set ps. as_op (hp_mem h0 p) \<noteq> None"
    using at ps(1) by (auto simp: in_set_conv_nth)
  have codes: "map (\<lambda>p. (op_code (hp_mem h0) p, p)) ps = zip (map opcode descs) ps"
    by (rule nth_equalityI) (use at ps(1) in \<open>auto simp: op_code_def\<close>)
  from insert_all_char [OF Z w0(1) ok0 w0(2) ex] obtain T h' where
    i: "s_disp_table_insert_all Z T0 ps h0 = Some (DISP_TABLE_SUCCESS, T, h')"
    "heap_wf h'" "dt_ok Z T (hp_mem h')"
    "dt_map Z T (hp_mem h') = reg_prefix Map.empty (zip (map opcode descs) ps)"
    "hp_ok h' = hp_ok h0" "dt_ops T = dt_ops T0"
    "\<forall>a. hp_mem h0 a \<noteq> None \<longrightarrow> hp_mem h' a = hp_mem h0 a"
    unfolding codes m0 by auto
  have m: "dt_map Z T (hp_mem h') = map_of (zip (map opcode descs) ps)"
    using d ps(1) by (simp add: i(4) reg_prefix_distinct)
  have entry: "\<exists>buf. dt_entry Z T (hp_mem h') (opcode op) = Some (op, buf) \<and>
      (if needs_ret op then \<exists>b. buf = Some b \<and> length b = unat (DISP_GET_ASIZE (retval op)) else buf = None)"
    if op: "op \<in> set descs" for op
  proof -
    obtain j where j: "j < length descs" "op = descs ! j" using op unfolding in_set_conv_nth by blast
    have "map_of (zip (map opcode descs) ps) (map opcode descs ! j) = Some (ps ! j)"
      by (rule map_of_zip_nth, simp only: length_map ps(1), rule d, simp only: ps(1) j(1))
    then have "dt_map Z T (hp_mem h') (opcode op) = Some (ps ! j)"
      using j unfolding m by (simp only: nth_map)
    moreover have "hp_mem h' (ps ! j) = Some (BObj (OOp op))"
      using i(7) at [OF j(1)] j(2) by (metis option.distinct(1))
    ultimately show ?thesis by (rule dt_map_entry(2) [OF i(3)])
  qed
  have none: "dt_entry Z T (hp_mem h') key = None" if "key \<notin> opcode ` set descs" for key
  proof (rule dt_map_entry(1) [OF i(3)])
    show "dt_map Z T (hp_mem h') key = None"
      unfolding m map_of_eq_None_iff using that by (auto dest: set_zip_leftD)
  qed
  have "func_ok g" if "dt_entry Z T (hp_mem h') key = Some (op, buf)" "func_fp op = Some g" for key op buf g
  proof -
    have "key \<in> opcode ` set descs" using none [of key] that(1) by auto
    then obtain op' where "op' \<in> set descs" "key = opcode op'" by blast
    with entry [of op'] that f show ?thesis by auto
  qed
  with i w0 have "dt_good (Z, T, h')" by auto
  with i(1,6) entry none show ?thesis
    by (intro exI [of _ T] exI [of _ h']) (simp add: disp_table_insert_all_def del: dt_good.simps)
qed

lemma new_table_insert_all:
  assumes Z: "zhashx_ok Z" "zh_new Z \<noteq> None" and h: "heap_wf h" "\<forall>n. hp_ok h n"
    and ps: "length ps = length descs" "\<forall>(p, op) \<in> set (zip ps descs). hp_mem h p = Some (BObj (OOp op))"
    and d: "distinct (map opcode descs)" and f: "\<forall>op \<in> set descs. \<forall>f. func_fp op = Some f \<longrightarrow> func_ok f"
  shows "\<exists>T0 h0 T h'. disp_table_new Z ops h = Some (Some T0, h0) \<and>
    disp_table_insert_all Z T0 ps h0 = Some (DISP_TABLE_SUCCESS, T, h') \<and> dt_good (Z, T, h') \<and>
    dt_table_ops (Z, T, h') = ops \<and>
    (\<forall>op \<in> set descs. \<exists>buf. dt_view (Z, T, h') (opcode op) = Some (op, buf) \<and>
      (if needs_ret op then \<exists>b. buf = Some b \<and> length b = unat (DISP_GET_ASIZE (retval op)) else buf = None)) \<and>
    (\<forall>key. key \<notin> opcode ` set descs \<longrightarrow> dt_view (Z, T, h') key = None)"
proof -
  obtain t where t: "zh_new Z = Some t" using Z(2) by blast
  define T0 where "T0 = \<lparr>dt_self = hp_next h, table_h = t, dt_ops = ops\<rparr>"
  define h0 where "h0 = h\<lparr>hp_next := Suc (hp_next h), hp_mem := (hp_mem h)(hp_next h \<mapsto> BObj OTable)\<rparr>"
  have new: "disp_table_new Z ops h = Some (Some T0, h0)"
    using h(2) t by (simp add: disp_table_new_def halloc_def Let_def T0_def h0_def)
  have e: "zh_lookup Z (table_h T0) = Map.empty" using zhashx_okD(1) [OF Z(1) t] by (simp add: T0_def)
  have ok0: "dt_ok Z T0 (hp_mem h0)" using e by (simp add: dt_ok_def T0_def h0_def)
  have w0: "heap_wf h0" "\<forall>n. hp_ok h0 n" using h by (simp_all add: heap_wf_def h0_def)
  have at: "\<forall>(p, op) \<in> set (zip ps descs). hp_mem h0 p = Some (BObj (OOp op))"
  proof (clarify)
    fix p op assume "(p, op) \<in> set (zip ps descs)"
    then have m: "hp_mem h p = Some (BObj (OOp op))" using ps(2) by blast
    then have "p \<noteq> hp_next h" using heap_wf_fresh [OF h(1)] by auto
    with m show "hp_mem h0 p = Some (BObj (OOp op))" by (simp add: h0_def)
  qed
  have "dt_ops T0 = ops" by (simp add: T0_def)
  with new insert_all_ready [OF Z(1) e ok0 w0 ps(1) at d f] show ?thesis by blast
qed

section \<open>A concrete table\<close>

text \<open>Block 0 is a descriptor with a 4-byte return value, 1 the table, 2 the handler of the
  descriptor, 3 its return buffer, 4 and 5 two further descriptors with one opcode.\<close>

definition ex_op :: "u32 \<Rightarrow> (nat, 'a) disp_op" where
  "ex_op k = \<lparr>dop_name = ''op'', opcode = k,
     func_fp = Some (\<lambda>w as buf. Some (4, w + 1, map_option (\<lambda>b. replicate (length b) 1) buf)),
     retval = DISP_ARG_ENCODE_RAW DISP_ATYPE_UINT32 4, retval_owner = DISP_OWNER_OTHER, args = []\<rparr>"

definition ex_heap :: "(nat, 'a) dheap" where
  "ex_heap = \<lparr>hp_next = 6,
     hp_mem = [0 \<mapsto> BObj (OOp (ex_op 7)), 1 \<mapsto> BObj OTable,
       2 \<mapsto> BObj (OHandler \<lparr>hd_op = 0, hd_ret = Some 3\<rparr>), 3 \<mapsto> BBytes [0, 0, 0, 0],
       4 \<mapsto> BObj (OOp (ex_op 8)), 5 \<mapsto> BObj (OOp (ex_op 8))],
     hp_ok = (\<lambda>_. True)\<rparr>"

definition ex_table :: "((string \<times> nat) list, nat, 'a) disp_table" where
  "ex_table = \<lparr>dt_self = 1, table_h = [(hex_str 7, 2)],
     dt_ops = \<lparr>check_msg_args = Some (\<lambda>op as. DISP_TABLE_SUCCESS)\<rparr>\<rparr>"

lemma ex_call:
  "check_msg_args (dt_ops ex_table) = Some (\<lambda>op as. DISP_TABLE_SUCCESS)"
  "func_fp (ex_op k) = Some (\<lambda>w as buf. Some (4, w + 1, map_option (\<lambda>b. replicate (length b) 1) buf))"
  by (simp_all add: ex_table_def ex_op_def)

lemma ex_op_simps:
  "opcode (ex_op k) = k" "needs_ret (ex_op k)" "DISP_GET_ASIZE (retval (ex_op k)) = 4"
  "retval (ex_op k) \<noteq> DISP_ARG_END"
  by (simp_all add: ex_op_def needs_ret_def DISP_ARG_ENCODE_RAW_def DISP_GET_ASIZE_def atype_defs
      DISP_ARG_END_0)

lemma ex_ok: "heap_wf ex_heap" "hp_ok ex_heap n" "dt_ok zh_alist ex_table (hp_mem ex_heap)"
  by (auto simp: heap_wf_def ex_heap_def ex_table_def dt_ok_def entry_ok_def ret_ok_def ex_op_simps
      zh_alist_def split: if_splits)

lemma ex_ops: "as_op (hp_mem ex_heap 0) = Some (ex_op 7)" "as_op (hp_mem ex_heap 4) = Some (ex_op 8)"
  "as_op (hp_mem ex_heap 5) = Some (ex_op 8)"
  by (simp_all add: ex_heap_def)

lemma ex_entry: "dt_entry zh_alist ex_table (hp_mem ex_heap) k =
    (if k = 7 then Some (ex_op 7, Some [0, 0, 0, 0]) else None)"
  by (auto simp: dt_entry_def zh_alist_def ex_table_def ex_heap_def ret_data_def)

lemma ex_map: "dt_map zh_alist ex_table (hp_mem ex_heap) k = (if k = 7 then Some 0 else None)"
  by (auto simp: dt_map_def zh_alist_def ex_table_def ex_heap_def)

lemma ex_func_ok: "func_fp (ex_op k) = Some f \<Longrightarrow> func_ok f"
  by (auto simp: ex_op_def func_ok_def)

text \<open>The same with a fixed type of arguments.\<close>

abbreviation exh :: "(nat, nat) dheap" where "exh \<equiv> ex_heap"
abbreviation ext :: "((string \<times> nat) list, nat, nat) disp_table" where "ext \<equiv> ex_table"

lemma exh_ok: "heap_wf exh" "hp_ok exh n" "dt_ok zh_alist ext (hp_mem exh)"
  by (rule ex_ok)+

lemma exh_ops: "as_op (hp_mem exh 0) = Some (ex_op 7)" "as_op (hp_mem exh 4) = Some (ex_op 8)"
  "as_op (hp_mem exh 5) = Some (ex_op 8)"
  by (rule ex_ops)+

lemma exh_entry: "dt_entry zh_alist ext (hp_mem exh) k =
    (if k = 7 then Some (ex_op 7, Some [0, 0, 0, 0]) else None)"
  by (rule ex_entry)

lemma exh_map: "dt_map zh_alist ext (hp_mem exh) k = (if k = 7 then Some 0 else None)"
  by (rule ex_map)

section \<open>Properties\<close>

text \<open>C35: \<open>disp_table_insert\<close> is safe for every outcome of the allocator. On success the opcode was
  free and now maps to the descriptor, nothing that was live has changed, and the table's
  invariant holds; on failure, with the status for a failed allocation, the table is what it was
  and nothing has leaked. Success is certain when the allocator delivers and the opcode is free.\<close>

theorem disp_table_insert_spec:
  assumes "zhashx_ok Z" and "heap_wf h" and "dt_ok Z T (hp_mem h)" and "as_op (hp_mem h p) = Some op"
  shows "\<exists>err T' h'. disp_table_insert Z T p h = Some (err, T', h') \<and>
    heap_wf h' \<and> dt_ok Z T' (hp_mem h') \<and>
    (\<forall>a. hp_mem h a \<noteq> None \<longrightarrow> hp_mem h' a = hp_mem h a) \<and>
    (if err = DISP_TABLE_SUCCESS
     then dt_map Z T (hp_mem h) (opcode op) = None \<and>
       dt_map Z T' (hp_mem h') = (dt_map Z T (hp_mem h))(opcode op \<mapsto> p)
     else err = DISP_TABLE_ERR_ALLOC \<and> T' = T \<and> heap_same h h') \<and>
    ((\<forall>n. hp_ok h n) \<and> dt_map Z T (hp_mem h) (opcode op) = None \<longrightarrow> err = DISP_TABLE_SUCCESS)"
proof -
  from insert_char [OF assms(2,4), of Z T] obtain err T1 h1 where
    i: "s_disp_table_insert Z T p h = Some (err, T1, h1)" "insert_ok Z T p op h err T1 h1"
    and s: "(\<forall>n. hp_ok h n) \<and> zh_insert Z (table_h T) (hex_str (opcode op)) (hp_next h) \<noteq> None \<longrightarrow>
       err = DISP_TABLE_SUCCESS" by metis
  have "(zh_insert Z (table_h T) (hex_str (opcode op)) (hp_next h) \<noteq> None) =
      (dt_map Z T (hp_mem h) (opcode op) = None)"
    by (simp only: zhashx_okD(2) [OF assms(1)] dt_map_None [OF assms(3)] not_not)
  with i(1) s insert_ok_wf [OF i(2) assms] show ?thesis
    by (intro exI [of _ err] exI [of _ T1] exI [of _ h1]) (simp add: disp_table_insert_def)
qed

theorem disp_table_insert_spec_witness:
  "\<exists>err T' h'. disp_table_insert zh_alist ext 4 exh = Some (err, T', h') \<and>
    err = DISP_TABLE_SUCCESS \<and> dt_map zh_alist T' (hp_mem h') 8 = Some 4"
proof -
  from disp_table_insert_spec [OF zhashx_ok_alist exh_ok(1,3) exh_ops(2)] obtain err T' h' where
    "disp_table_insert zh_alist ext 4 exh = Some (err, T', h')"
    "if err = DISP_TABLE_SUCCESS
     then dt_map zh_alist ext (hp_mem exh) (opcode (ex_op 8)) = None \<and>
       dt_map zh_alist T' (hp_mem h') =
         (dt_map zh_alist ext (hp_mem exh))(opcode (ex_op 8) \<mapsto> 4)
     else err = DISP_TABLE_ERR_ALLOC \<and> T' = ext \<and> heap_same exh h'"
    "err = DISP_TABLE_SUCCESS" using exh_ok(2) by (auto simp: exh_map ex_op_simps)
  then show ?thesis by (simp add: ex_op_simps)
qed

text \<open>C36: \<open>disp_table_remove\<close> either takes exactly the given opcode out of the table and frees
  exactly its handler and return buffer, or fails with the table and the heap as they were. It
  succeeds whenever the opcode is registered and the temporary strings can be allocated.\<close>

theorem disp_table_remove_spec:
  assumes "zhashx_ok Z" and "heap_wf h" and "dt_ok Z T (hp_mem h)"
  shows "\<exists>err T' h'. disp_table_remove Z T key h = Some (err, T', h') \<and>
    heap_wf h' \<and> dt_ok Z T' (hp_mem h') \<and>
    (if err = DISP_TABLE_SUCCESS
     then dt_map Z T (hp_mem h) key \<noteq> None \<and>
       dt_map Z T' (hp_mem h') = (dt_map Z T (hp_mem h))(key := None) \<and>
       (\<exists>a. zh_lookup Z (table_h T) (hex_str key) = Some a \<and> hp_mem h' = drop_entry (hp_mem h) a)
     else err = DISP_TABLE_ERR_ALLOC \<and> T' = T \<and> heap_same h h') \<and>
    ((\<forall>n. hp_ok h n) \<and> dt_map Z T (hp_mem h) key \<noteq> None \<longrightarrow> err = DISP_TABLE_SUCCESS)"
proof -
  from remove_char [OF assms(2,3), of key] obtain err T1 h1 where
    r: "s_disp_table_remove Z T key h = Some (err, T1, h1)" "heap_wf h1"
    and c: "err = DISP_TABLE_ERR_ALLOC \<and> T1 = T \<and> heap_same h h1 \<or>
     err = DISP_TABLE_SUCCESS \<and> (\<exists>a. zh_lookup Z (table_h T) (hex_str key) = Some a \<and>
       T1 = T\<lparr>table_h := zh_delete Z (table_h T) (hex_str key)\<rparr> \<and>
       hp_mem h1 = drop_entry (hp_mem h) a)"
    and s: "(\<forall>n. hp_ok h n) \<and> zh_lookup Z (table_h T) (hex_str key) \<noteq> None \<longrightarrow> err = DISP_TABLE_SUCCESS"
    by metis
  note n = dt_map_None [OF assms(3), of key]
  from c show ?thesis
  proof
    assume "err = DISP_TABLE_ERR_ALLOC \<and> T1 = T \<and> heap_same h h1"
    with r s n assms(3) show ?thesis by (auto simp: disp_table_remove_def heap_same_def)
  next
    assume a: "err = DISP_TABLE_SUCCESS \<and> (\<exists>a. zh_lookup Z (table_h T) (hex_str key) = Some a \<and>
       T1 = T\<lparr>table_h := zh_delete Z (table_h T) (hex_str key)\<rparr> \<and>
       hp_mem h1 = drop_entry (hp_mem h) a)"
    then obtain a where "zh_lookup Z (table_h T) (hex_str key) = Some a" by blast
    with a r n dt_ok_remove [OF assms(1,3) this] show ?thesis by (auto simp: disp_table_remove_def)
  qed
qed

theorem disp_table_remove_spec_witness:
  "\<exists>T' h'. disp_table_remove zh_alist ext 7 exh = Some (DISP_TABLE_SUCCESS, T', h') \<and>
    dt_map zh_alist T' (hp_mem h') 7 = None"
  using disp_table_remove_spec [OF zhashx_ok_alist exh_ok(1,3), of 7] exh_ok(2)
  by (auto simp: exh_map)

text \<open>C37: \<open>disp_table_destroy\<close> never frees a block twice and never touches a dead one, whatever the
  allocator does to the temporary key strings; when it delivers them, exactly the table, its
  handlers and their return buffers are gone from the heap, so a table leaks nothing.\<close>

theorem disp_table_destroy_frees_all:
  assumes "zhashx_ok Z" and "heap_wf h" and "dt_ok Z T (hp_mem h)"
  shows "\<exists>h'. disp_table_destroy Z (Some T) h = Some (DISP_TABLE_SUCCESS, h') \<and>
    ((\<forall>n. hp_ok h n) \<longrightarrow> (\<forall>x. hp_mem h' x =
       (if x = dt_self T \<or> x \<in> dt_owned Z T (hp_mem h) then None else hp_mem h x)))"
  using destroy_char [OF assms] by (auto simp: dt_clear_def)

theorem disp_table_destroy_frees_all_witness:
  "\<exists>h'. disp_table_destroy zh_alist (Some ext) exh = Some (DISP_TABLE_SUCCESS, h') \<and>
    hp_mem h' 2 = None \<and> hp_mem h' 3 = None \<and> hp_mem h' 0 \<noteq> None"
proof -
  have "dt_owned zh_alist ext (hp_mem exh) = {2, 3}"
    by (auto simp: dt_owned_def zh_alist_def ex_table_def ex_heap_def split: if_splits)
  with disp_table_destroy_frees_all [OF zhashx_ok_alist exh_ok(1,3)] exh_ok(2) show ?thesis
    by (auto simp: ex_table_def) (auto simp: ex_heap_def)
qed

text \<open>\<open>disp_table_insert_all\<close> reports success in every case: the status of the failed insertion
  is kept in a variable of the loop body that hides the one returned. With an allocator that
  delivers, it registers the descriptors before the first one whose opcode is already taken, drops
  the rest, and still returns \<open>DISP_TABLE_SUCCESS\<close>.\<close>

theorem disp_table_insert_all_reports_success:
  assumes "zhashx_ok Z" and "heap_wf h" and "dt_ok Z T (hp_mem h)" and "\<forall>n. hp_ok h n"
    and "\<forall>p \<in> set ps. as_op (hp_mem h p) \<noteq> None"
  shows "\<exists>T' h'. disp_table_insert_all Z T ps h = Some (DISP_TABLE_SUCCESS, T', h') \<and>
    heap_wf h' \<and> dt_ok Z T' (hp_mem h') \<and>
    dt_map Z T' (hp_mem h') =
      reg_prefix (dt_map Z T (hp_mem h)) (map (\<lambda>p. (op_code (hp_mem h) p, p)) ps)"
  unfolding disp_table_insert_all_def using insert_all_char [OF assms(1-5)] by blast

theorem disp_table_insert_all_reports_success_witness:
  "\<exists>T' h'. disp_table_insert_all zh_alist ext [4, 5] exh = Some (DISP_TABLE_SUCCESS, T', h') \<and>
    dt_map zh_alist T' (hp_mem h') 8 = Some 4"
proof -
  have "\<forall>p \<in> set [4, 5]. as_op (hp_mem exh p) \<noteq> None" by (simp add: exh_ops)
  from disp_table_insert_all_reports_success [OF zhashx_ok_alist exh_ok(1,3) _ this] exh_ok(2)
  obtain T' h' where "disp_table_insert_all zh_alist ext [4, 5] exh =
      Some (DISP_TABLE_SUCCESS, T', h')" "dt_map zh_alist T' (hp_mem h') =
      reg_prefix (dt_map zh_alist ext (hp_mem exh))
        (map (\<lambda>p. (op_code (hp_mem exh) p, p)) [4, 5])" by blast
  then show ?thesis by (simp add: op_code_def exh_ops ex_op_simps exh_map)
qed

text \<open>Filling the descriptors after they were registered is seen by later calls, because the
  handlers hold the address of the descriptor: \<open>disp_table_fill_desc\<close> sets the function of each
  descriptor it is given, reports vectors of different lengths after filling the common part, and
  the table then dispatches to the new functions, with opcodes and return buffers unchanged.\<close>

theorem disp_table_fill_desc_dispatch:
  assumes "heap_wf h" and "dt_ok Z T (hp_mem h)" and "distinct ps"
    and "\<forall>p \<in> set ps. as_op (hp_mem h p) \<noteq> None"
  shows "\<exists>h'. disp_table_fill_desc ps fs h =
      Some (if length ps = length fs then DISP_TABLE_SUCCESS else DISP_TABLE_ERR_NULL_POINTER, h') \<and>
    (\<forall>key. dt_entry Z T (hp_mem h') key =
      (case (dt_map Z T (hp_mem h) key, dt_entry Z T (hp_mem h) key) of
         (Some p, Some (op, buf)) \<Rightarrow>
           Some (case map_of (zip ps fs) p of None \<Rightarrow> op | Some f \<Rightarrow> op\<lparr>func_fp := Some f\<rparr>, buf)
       | _ \<Rightarrow> None))"
proof -
  from fill_desc_char [OF assms(3,4,1)] obtain h' where f: "disp_table_fill_desc ps fs h =
      Some (if length ps = length fs then DISP_TABLE_SUCCESS else DISP_TABLE_ERR_NULL_POINTER, h')"
    "hp_mem h' = (\<lambda>x. case map_of (zip ps fs) x of None \<Rightarrow> hp_mem h x
       | Some f \<Rightarrow> map_option (\<lambda>op. BObj (OOp (op\<lparr>func_fp := Some f\<rparr>))) (as_op (hp_mem h x)))"
    by blast
  have live: "as_op (hp_mem h x) \<noteq> None" if "map_of (zip ps fs) x = Some g" for x g
    using assms(4) map_of_SomeD [OF that] by (auto dest: set_zip_leftD)
  have "dt_entry Z T (hp_mem h') key = (case (dt_map Z T (hp_mem h) key, dt_entry Z T (hp_mem h) key) of
       (Some p, Some (op, buf)) \<Rightarrow>
         Some (case map_of (zip ps fs) p of None \<Rightarrow> op | Some f \<Rightarrow> op\<lparr>func_fp := Some f\<rparr>, buf)
     | _ \<Rightarrow> None)" for key
    by (rule dt_entry_fill [OF assms(2) fun_cong [OF f(2)]]) (rule live)
  with f(1) show ?thesis by blast
qed

theorem disp_table_fill_desc_dispatch_witness:
  "\<exists>h'. disp_table_fill_desc [0] [\<lambda>w as buf. Some (9, w, buf)] exh = Some (DISP_TABLE_SUCCESS, h') \<and>
    map_option (func_fp \<circ> fst) (dt_entry zh_alist ext (hp_mem h') 7) =
      Some (Some (\<lambda>w as buf. Some (9, w, buf)))"
proof -
  have "\<forall>p \<in> set [0]. as_op (hp_mem exh p) \<noteq> None" by (simp add: exh_ops)
  from disp_table_fill_desc_dispatch [OF exh_ok(1,3) _ this, of "[\<lambda>w as buf. Some (9, w, buf)]"]
  show ?thesis by (auto simp: exh_map exh_entry)
qed

text \<open>C28: \<open>disp_table_check_call\<close> refines the abstract call: with an allocator that delivers the key
  strings, for a registered function that writes inside its buffer, the status, the bytes behind
  the returned pointer, the world and the next table are those of \<open>abs_check_call\<close>. So an absent
  opcode, a missing check, refused arguments, a missing function or a return value without a
  buffer give -1 and leave world and table alone, and otherwise the registered function is called
  once, with the entry's own buffer or with null exactly when no return value is declared.\<close>

theorem disp_table_check_call_refines:
  assumes "heap_wf h" and "\<forall>n. hp_ok h n" and "dt_ok Z T (hp_mem h)"
    and "\<forall>op buf f. dt_entry Z T (hp_mem h) key = Some (op, buf) \<and> func_fp op = Some f \<longrightarrow> func_ok f"
  shows "map_option (\<lambda>(e, ret, w', h'). (e, ret_data (hp_mem h') ret, w', dt_entry Z T (hp_mem h')))
      (disp_table_check_call Z T key w as None h) =
    abs_check_call (dt_ops T) (dt_entry Z T (hp_mem h)) key w as"
proof -
  have "case disp_table_check_call Z T key w as None h of
      None \<Rightarrow> abs_check_call (dt_ops T) (dt_entry Z T (hp_mem h)) key w as = None
    | Some (e, ret, w', h') \<Rightarrow>
        abs_check_call (dt_ops T) (dt_entry Z T (hp_mem h)) key w as =
          Some (e, ret_data (hp_mem h') ret, w', dt_entry Z T (hp_mem h')) \<and>
        heap_wf h' \<and> hp_ok h' = hp_ok h \<and> dt_ok Z T (hp_mem h')"
    by (rule check_call_char [OF assms(1-3)]) (use assms(4) in blast)
  then show ?thesis by (auto split: option.splits)
qed

theorem disp_table_check_call_refines_witness:
  "map_option (\<lambda>(e, ret, w', h'). (e, ret_data (hp_mem h') ret, w'))
      (disp_table_check_call zh_alist ext 7 10 (5 :: nat) None exh) = Some (4, Some [1, 1, 1, 1], 11)"
proof -
  have f: "\<forall>op buf f. dt_entry zh_alist ext (hp_mem exh) 7 = Some (op, buf) \<and>
      func_fp op = Some f \<longrightarrow> func_ok f" using ex_func_ok by (auto simp: exh_entry)
  have n: "\<forall>n. hp_ok exh n" using exh_ok(2) by blast
  have "map_option (\<lambda>(e, ret, w', h'). (e, ret_data (hp_mem h') ret, w',
        dt_entry zh_alist ext (hp_mem h')))
      (disp_table_check_call zh_alist ext 7 10 5 None exh) =
    abs_check_call (dt_ops ext) (dt_entry zh_alist ext (hp_mem exh)) 7 10 5"
    by (rule disp_table_check_call_refines [OF exh_ok(1) n exh_ok(3) f])
  also have "abs_check_call (dt_ops ext) (dt_entry zh_alist ext (hp_mem exh)) 7 10 5 =
      Some (4, Some [1, 1, 1, 1], 11,
        (dt_entry zh_alist ext (hp_mem exh))(7 \<mapsto> (ex_op 7, Some [1, 1, 1, 1])))"
    using ex_op_simps(4) by (simp add: abs_check_call_def exh_entry)
      (simp add: ex_table_def ex_op_def Let_def)
  finally show ?thesis by auto
qed

end
