(* ===== verification/Msg.thy ===== *)
theory Msg
  imports Disptable
begin

text \<open>
  src/msg: what both message servers of the program share. A request is a tagged message of
  frames: frame 0 is the opcode, the others are arguments. The frames' number and sizes are
  checked against the descriptor of the opcode, the registered function is called through the
  dispatch table, and its status is turned into a reply.

  The messages of czmq are lists of frames, a frame is a list of bytes. Whether building a reply
  succeeds is up to the library: \<open>ze 0\<close> is the outcome of \<open>zmsg_new\<close>, \<open>ze n\<close> that of the \<open>n\<close>-th
  \<open>zmsg_addmem\<close>. A reply that is handed to the transport is the value of the handler.
\<close>

section \<open>Messages\<close>

type_synonym frame = "u8 list"

record msg_args =
  tag :: u32
  content :: "frame list"

datatype msg_type = MSG_NOT_SUPPORTED | MSG_EXP_ZMQ | MSG_THSAFE_ZMQ

datatype msg_err =
  MSG_SUCCESS | MSG_ERR_ALLOC | MSG_FUNC_NOT_IMPL | MSG_ERR_INV | MSG_ERR_WRONG_ARGS
| MSG_ERR_UNEX_MSG | MSG_ERR_INV_LESS_ARGS | MSG_ERR_INV_MORE_ARGS | MSG_ERR_INV_SIZE_ARG

definition EXP_MSG_ZMQ_TAG :: u32 where "EXP_MSG_ZMQ_TAG = 0x0003cafe"
definition ZMQ_SERVER_ARGS_TAG :: u32 where "ZMQ_SERVER_ARGS_TAG = 0x0004beef"
definition MSG_OPCODE_SIZE :: nat where "MSG_OPCODE_SIZE = 4"

definition RW_OK :: nat where "RW_OK = 0"
definition RW_OOR :: nat where "RW_OOR = 1"
definition RW_USR_ERR :: nat where "RW_USR_ERR = 2"
definition RW_INV :: nat where "RW_INV = 3"
definition RW_READ_EAGAIN :: nat where "RW_READ_EAGAIN = 4"
definition RW_WRITE_EAGAIN :: nat where "RW_WRITE_EAGAIN = 5"
definition PARAM_OK :: u32 where "PARAM_OK = 0"
definition PARAM_ERR :: u32 where "PARAM_ERR = 1"

definition exp_msg_zmq_is :: "msg_args \<Rightarrow> bool" where
  "exp_msg_zmq_is self \<longleftrightarrow> tag self = EXP_MSG_ZMQ_TAG"

definition thsafe_msg_zmq_is :: "msg_args \<Rightarrow> bool" where
  "thsafe_msg_zmq_is self \<longleftrightarrow> tag self = ZMQ_SERVER_ARGS_TAG"

definition s_msg_guess_type :: "msg_args \<Rightarrow> msg_type" where
  "s_msg_guess_type msg =
     (if exp_msg_zmq_is msg then MSG_EXP_ZMQ
      else if thsafe_msg_zmq_is msg then MSG_THSAFE_ZMQ
      else MSG_NOT_SUPPORTED)"

definition msg_guess_type :: "msg_args \<Rightarrow> msg_type" where
  "msg_guess_type msg = s_msg_guess_type msg"

definition s_msg_validate :: "msg_args \<Rightarrow> msg_type \<Rightarrow> msg_err" where
  "s_msg_validate msg expected_msg_type =
     (case s_msg_guess_type msg of
        MSG_EXP_ZMQ \<Rightarrow> if expected_msg_type = MSG_EXP_ZMQ then MSG_SUCCESS else MSG_ERR_UNEX_MSG
      | MSG_THSAFE_ZMQ \<Rightarrow> if expected_msg_type = MSG_THSAFE_ZMQ then MSG_SUCCESS else MSG_ERR_UNEX_MSG
      | MSG_NOT_SUPPORTED \<Rightarrow> MSG_ERR_UNEX_MSG)"

definition msg_validate :: "msg_args \<Rightarrow> msg_type \<Rightarrow> msg_err" where
  "msg_validate msg expected_msg_type = s_msg_validate msg expected_msg_type"

section \<open>The check of the arguments\<close>

text \<open>The descriptor's argument words up to its terminator against the frames of the message.\<close>

fun check_args :: "u32 list \<Rightarrow> frame list \<Rightarrow> msg_err" where
  "check_args [] [] = MSG_SUCCESS"
| "check_args [] (_ # _) = MSG_ERR_INV_MORE_ARGS"
| "check_args (_ # _) [] = MSG_ERR_INV_LESS_ARGS"
| "check_args (a # args_it) (zmq_arg # zmq_msg) =
     (if length zmq_arg > unat (DISP_GET_ASIZE a) \<or>
         DISP_GET_ATYPE a \<noteq> DISP_ATYPE_VAR \<and> length zmq_arg \<noteq> unat (DISP_GET_ASIZE a)
      then MSG_ERR_INV_SIZE_ARG
      else check_args args_it zmq_msg)"

definition msg_check_gen_zmq_args :: "('w, 'a) disp_op \<Rightarrow> frame list \<Rightarrow> msg_err" where
  "msg_check_gen_zmq_args disp_op zmq_msg = check_args (args disp_op) zmq_msg"

section \<open>Opcode and reply\<close>

text \<open>The opcode frame is popped: the result has the error, the opcode and the rest.\<close>

definition s_msg_gen_get_opcode :: "frame list \<Rightarrow> msg_err \<times> u32 \<times> frame list" where
  "s_msg_gen_get_opcode zmq_msg =
     (case zmq_msg of
        [] \<Rightarrow> (MSG_ERR_WRONG_ARGS, 0, [])
      | opcode_frm # rest \<Rightarrow>
          if length opcode_frm = MSG_OPCODE_SIZE then (MSG_SUCCESS, le_word opcode_frm, rest)
          else (MSG_ERR_WRONG_ARGS, 0, rest))"

definition s_msg_exp_zmq_get_opcode :: "msg_args \<Rightarrow> msg_err \<times> u32 \<times> msg_args" where
  "s_msg_exp_zmq_get_opcode msg =
     (let (err, opc, rest) = s_msg_gen_get_opcode (content msg) in (err, opc, msg\<lparr>content := rest\<rparr>))"

definition s_msg_thsafe_zmq_get_opcode :: "msg_args \<Rightarrow> msg_err \<times> u32 \<times> msg_args" where
  "s_msg_thsafe_zmq_get_opcode msg =
     (let (err, opc, rest) = s_msg_gen_get_opcode (content msg) in (err, opc, msg\<lparr>content := rest\<rparr>))"

text \<open>The negation of the least \<open>int\<close> overflows.\<close>

definition s_msg_format_reply_code :: "int \<Rightarrow> u32 option" where
  "s_msg_format_reply_code reply_code =
     (if reply_code = - (2 ^ 31) then None
      else Some (word_of_int (if reply_code < 0 then - reply_code else reply_code)))"

definition s_msg_format_client_response :: "int \<Rightarrow> (msg_err \<times> u32 \<times> bool) option" where
  "s_msg_format_client_response disp_table_ret =
     (if disp_table_ret \<le> 0 then do {
        c \<leftarrow> s_msg_format_reply_code disp_table_ret;
        Some (MSG_SUCCESS, c, False) }
      else Some (MSG_SUCCESS, PARAM_OK, True))"

text \<open>\<open>zmsg_addmem\<close> of the data reads \<open>reply_size\<close> bytes through \<open>data_out\<close>: undefined when the
  pointer is null or there are fewer. The inner \<open>option\<close> is the message, null when the library
  fails.\<close>

definition s_msg_create_client_response ::
  "(nat \<Rightarrow> bool) \<Rightarrow> u32 \<Rightarrow> u32 \<Rightarrow> u8 list option \<Rightarrow> bool \<Rightarrow> frame list option option" where
  "s_msg_create_client_response ze reply_code reply_size data_out with_data_frame =
     (if \<not> ze 0 then Some None
      else if \<not> ze 1 then Some None
      else if with_data_frame then
        (if \<not> ze 2 then Some None
         else do {
           d \<leftarrow> data_out;
           if length d < unat reply_size then None
           else if \<not> ze 3 then Some None
           else Some (Some [le_bytes 4 reply_code, le_bytes 4 reply_size, take (unat reply_size) d]) })
      else Some (Some [le_bytes 4 reply_code]))"

text \<open>Both senders create the message and hand it to their transport if there is one.\<close>

definition s_msg_send_client_response_mlm ::
  "(nat \<Rightarrow> bool) \<Rightarrow> u32 \<Rightarrow> u32 \<Rightarrow> u8 list option \<Rightarrow> bool \<Rightarrow> frame list option option" where
  "s_msg_send_client_response_mlm ze reply_code reply_size data_out with_data_frame =
     s_msg_create_client_response ze reply_code reply_size data_out with_data_frame"

definition s_msg_send_client_response_sock ::
  "(nat \<Rightarrow> bool) \<Rightarrow> u32 \<Rightarrow> u32 \<Rightarrow> u8 list option \<Rightarrow> bool \<Rightarrow> frame list option option" where
  "s_msg_send_client_response_sock ze reply_code reply_size data_out with_data_frame =
     s_msg_create_client_response ze reply_code reply_size data_out with_data_frame"

section \<open>The request handlers\<close>

text \<open>The handlers take the checked call of the dispatch table (its state is \<open>s\<close>, the world behind
  the owner is \<open>w\<close>; the bytes of the call are what the return pointer points to). The result: the
  status, the reply sent (if any), the world and the table. \<open>worker\<close> is false when the component
  has no worker.\<close>

definition msg_handle_mlm_request ::
  "('s \<Rightarrow> u32 \<Rightarrow> 'w \<Rightarrow> msg_args \<Rightarrow> (int \<times> u8 list option \<times> 'w \<times> 's) option) \<Rightarrow> (nat \<Rightarrow> bool) \<Rightarrow> bool \<Rightarrow>
     msg_args \<Rightarrow> 'w \<Rightarrow> 's \<Rightarrow> (msg_err \<times> frame list option \<times> 'w \<times> 's) option" where
  "msg_handle_mlm_request check_call ze worker msg w s =
     (if s_msg_validate msg MSG_EXP_ZMQ \<noteq> MSG_SUCCESS
      then Some (s_msg_validate msg MSG_EXP_ZMQ, None, w, s)
      else if \<not> worker then Some (MSG_ERR_ALLOC, None, w, s)
      else let (err, opcode_data, msg') = s_msg_exp_zmq_get_opcode msg in
        if err \<noteq> MSG_SUCCESS then do {
          r \<leftarrow> s_msg_send_client_response_mlm ze PARAM_ERR 0 None False;
          Some (err, r, w, s) }
        else do {
          (disp_table_ret, ret, w', s') \<leftarrow> check_call s opcode_data w msg';
          (err', reply_code, with_data_frame) \<leftarrow> s_msg_format_client_response disp_table_ret;
          r \<leftarrow> s_msg_send_client_response_mlm ze reply_code (word_of_int disp_table_ret) ret with_data_frame;
          Some (err', r, w', s') })"

definition msg_handle_sock_request ::
  "('s \<Rightarrow> u32 \<Rightarrow> 'w \<Rightarrow> msg_args \<Rightarrow> (int \<times> u8 list option \<times> 'w \<times> 's) option) \<Rightarrow> (nat \<Rightarrow> bool) \<Rightarrow>
     msg_args \<Rightarrow> 'w \<Rightarrow> 's \<Rightarrow> (msg_err \<times> frame list option \<times> 'w \<times> 's) option" where
  "msg_handle_sock_request check_call ze msg w s =
     (if s_msg_validate msg MSG_THSAFE_ZMQ \<noteq> MSG_SUCCESS
      then Some (s_msg_validate msg MSG_THSAFE_ZMQ, None, w, s)
      else let (err, opcode_data, msg') = s_msg_thsafe_zmq_get_opcode msg in
        if err \<noteq> MSG_SUCCESS then do {
          r \<leftarrow> s_msg_send_client_response_sock ze PARAM_ERR 0 None False;
          Some (err, r, w, s) }
        else do {
          (disp_table_ret, ret, w', s') \<leftarrow> check_call s opcode_data w msg';
          (err', reply_code, with_data_frame) \<leftarrow> s_msg_format_client_response disp_table_ret;
          r \<leftarrow> s_msg_send_client_response_sock ze reply_code (word_of_int disp_table_ret) ret with_data_frame;
          Some (err', r, w', s') })"

section \<open>Facts\<close>

text \<open>A frame fits an argument word: the exact size, or up to it for a variable argument.\<close>

definition arg_fits :: "u32 \<Rightarrow> frame \<Rightarrow> bool" where
  "arg_fits a f \<longleftrightarrow> length f = unat (DISP_GET_ASIZE a) \<or>
     DISP_GET_ATYPE a = DISP_ATYPE_VAR \<and> length f < unat (DISP_GET_ASIZE a)"

lemma check_args_Cons:
  "check_args (a # as) (f # fs) = (if arg_fits a f then check_args as fs else MSG_ERR_INV_SIZE_ARG)"
  by (auto simp: arg_fits_def)

lemma check_args_iff: "check_args as fs = MSG_SUCCESS \<longleftrightarrow> list_all2 arg_fits as fs"
  by (induction as fs rule: list_induct2') (auto simp: check_args_Cons simp del: check_args.simps(4))

text \<open>The reply to a call that returned \<open>e\<close> with the bytes \<open>d\<close> behind its return pointer.\<close>

definition reply_of :: "int \<Rightarrow> u8 list option \<Rightarrow> frame list option" where
  "reply_of e d =
     (if e \<le> 0 then Some [le_bytes 4 (word_of_int \<bar>e\<bar> :: u32)]
      else do {
        b \<leftarrow> d;
        if int (length b) < e then None
        else Some [le_bytes 4 PARAM_OK, le_bytes 4 (word_of_int e :: u32), take (nat e) b] })"

lemma respond:
  assumes "- (2 ^ 31) < e" and "e < 2 ^ 31"
  shows "(s_msg_format_client_response e \<bind>
      (\<lambda>(err', reply_code, with_data_frame).
        s_msg_create_client_response (\<lambda>_. True) reply_code (word_of_int e) d with_data_frame \<bind>
          (\<lambda>r. Some (err', r, w', s')))) =
    map_option (\<lambda>r. (MSG_SUCCESS, Some r, w', s')) (reply_of e d)"
proof -
  have "unat (word_of_int e :: u32) = nat e" if "0 < e"
    using that assms(2) by (simp add: unsigned_of_int take_bit_int_eq_self)
  then show ?thesis
    using assms
    by (cases d) (auto simp: s_msg_format_client_response_def s_msg_format_reply_code_def reply_of_def
        s_msg_create_client_response_def abs_if PARAM_OK_def)
qed

text \<open>What a handler does, over the abstract view of the table: \<open>Some (err, reply, w, D)\<close>.\<close>

definition serve ::
  "msg_type \<Rightarrow> ('w, msg_args) disp_table_ops \<Rightarrow>
     (u32 \<Rightarrow> (('w, msg_args) disp_op \<times> u8 list option) option) \<Rightarrow> msg_args \<Rightarrow> 'w \<Rightarrow>
     (msg_err \<times> frame list option \<times> 'w \<times>
       (u32 \<Rightarrow> (('w, msg_args) disp_op \<times> u8 list option) option)) option" where
  "serve ty ops D msg w =
     (if msg_guess_type msg \<noteq> ty then Some (MSG_ERR_UNEX_MSG, None, w, D)
      else case content msg of
        [] \<Rightarrow> Some (MSG_ERR_WRONG_ARGS, Some [le_bytes 4 PARAM_ERR], w, D)
      | f # rest \<Rightarrow>
          if length f \<noteq> 4 then Some (MSG_ERR_WRONG_ARGS, Some [le_bytes 4 PARAM_ERR], w, D)
          else do {
            (e, d, w', D') \<leftarrow> abs_check_call ops D (le_word f) w (msg\<lparr>content := rest\<rparr>);
            r \<leftarrow> reply_of e d;
            Some (MSG_SUCCESS, Some r, w', D') })"

text \<open>Statuses of exported functions are \<open>int\<close> values other than the least one.\<close>

definition int_status ::
  "('w, msg_args) disp_table_ops \<Rightarrow> (u32 \<Rightarrow> (('w, msg_args) disp_op \<times> u8 list option) option) \<Rightarrow> bool"
where
  "int_status ops D \<longleftrightarrow> (\<forall>k w a e d w' D'. abs_check_call ops D k w a = Some (e, d, w', D') \<longrightarrow>
     - (2 ^ 31) < e \<and> e < 2 ^ 31)"

lemma validate_ok:
  "ty \<noteq> MSG_NOT_SUPPORTED \<Longrightarrow> s_msg_validate msg ty =
     (if msg_guess_type msg = ty then MSG_SUCCESS else MSG_ERR_UNEX_MSG)"
  by (cases ty) (auto simp: s_msg_validate_def msg_guess_type_def split: msg_type.split)

lemma gen_get_opcode:
  "s_msg_gen_get_opcode fs = (case fs of [] \<Rightarrow> (MSG_ERR_WRONG_ARGS, 0, [])
     | f # r \<Rightarrow> if length f = 4 then (MSG_SUCCESS, le_word f, r) else (MSG_ERR_WRONG_ARGS, 0, r))"
  by (cases fs) (simp_all add: s_msg_gen_get_opcode_def MSG_OPCODE_SIZE_def)

lemma send_error: "s_msg_create_client_response (\<lambda>_. True) c 0 None False = Some (Some [le_bytes 4 c])"
  by (simp add: s_msg_create_client_response_def)

lemma map_option_bind_case:
  "map_option g (m \<bind> f) = m \<bind> (\<lambda>x. map_option g (f x))"
  by (cases m) auto

text \<open>A dispatcher whose arguments are messages and whose functions have proper statuses.\<close>

locale msg_server = dispatcher check_call view table_ops good
  for check_call :: "'s \<Rightarrow> u32 \<Rightarrow> 'w \<Rightarrow> msg_args \<Rightarrow> (int \<times> u8 list option \<times> 'w \<times> 's) option"
    and view :: "'s \<Rightarrow> u32 \<Rightarrow> (('w, msg_args) disp_op \<times> u8 list option) option"
    and table_ops :: "'s \<Rightarrow> ('w, msg_args) disp_table_ops"
    and good :: "'s \<Rightarrow> bool" +
  assumes status: "good s \<Longrightarrow> int_status (table_ops s) (view s)"
begin

lemma call_reply:
  assumes g: "good s"
  shows "map_option (\<lambda>(err, r, w', s'). (err, r, w', view s'))
     (check_call s k w a \<bind> (\<lambda>(e, ret, w', s'). s_msg_format_client_response e \<bind>
        (\<lambda>(err', c, wd). s_msg_create_client_response (\<lambda>_. True) c (word_of_int e) ret wd \<bind>
           (\<lambda>r. Some (err', r, w', s'))))) =
   (abs_check_call (table_ops s) (view s) k w a \<bind> (\<lambda>(e, d, w', D'). reply_of e d \<bind>
        (\<lambda>r. Some (MSG_SUCCESS, Some r, w', D'))))"
proof (cases "check_call s k w a")
  case None
  then show ?thesis using call_view [OF g, of k w a] by simp
next
  case (Some x)
  obtain e d w' s' where x: "x = (e, d, w', s')" by (cases x)
  then have v: "abs_check_call (table_ops s) (view s) k w a = Some (e, d, w', view s')"
    using call_view [OF g, of k w a] Some by simp
  with status [OF g] have "- (2 ^ 31) < e" "e < 2 ^ 31" unfolding int_status_def by blast+
  from respond [OF this, of d w' s'] show ?thesis
    by (cases "reply_of e d") (simp_all add: Some x v)
qed

lemma sock_serves:
  assumes "good s"
  shows "map_option (\<lambda>(err, r, w', s'). (err, r, w', view s'))
      (msg_handle_sock_request check_call (\<lambda>_. True) msg w s) =
    serve MSG_THSAFE_ZMQ (table_ops s) (view s) msg w"
proof (cases "content msg")
  case Nil
  then show ?thesis
    by (auto simp: msg_handle_sock_request_def serve_def validate_ok s_msg_thsafe_zmq_get_opcode_def
        gen_get_opcode s_msg_send_client_response_sock_def send_error)
next
  case (Cons f rest)
  then show ?thesis
    using call_reply [OF assms, where k = "le_word f" and w = w and a = "msg\<lparr>content := rest\<rparr>"]
    by (auto simp: msg_handle_sock_request_def serve_def validate_ok s_msg_thsafe_zmq_get_opcode_def
        gen_get_opcode s_msg_send_client_response_sock_def send_error)
qed

lemma mlm_serves:
  assumes "good s"
  shows "map_option (\<lambda>(err, r, w', s'). (err, r, w', view s'))
      (msg_handle_mlm_request check_call (\<lambda>_. True) True msg w s) =
    serve MSG_EXP_ZMQ (table_ops s) (view s) msg w"
proof (cases "content msg")
  case Nil
  then show ?thesis
    by (auto simp: msg_handle_mlm_request_def serve_def validate_ok s_msg_exp_zmq_get_opcode_def
        gen_get_opcode s_msg_send_client_response_mlm_def send_error)
next
  case (Cons f rest)
  then show ?thesis
    using call_reply [OF assms, where k = "le_word f" and w = w and a = "msg\<lparr>content := rest\<rparr>"]
    by (auto simp: msg_handle_mlm_request_def serve_def validate_ok s_msg_exp_zmq_get_opcode_def
        gen_get_opcode s_msg_send_client_response_mlm_def send_error)
qed

end

text \<open>The model's table, restricted to functions with proper statuses, is such a server.\<close>

definition serving :: "('h, 'w, msg_args) dstate \<Rightarrow> bool" where
  "serving s \<longleftrightarrow> dt_good s \<and> (\<forall>key op buf f. dt_view s key = Some (op, buf) \<and> func_fp op = Some f \<longrightarrow>
     (\<forall>w a b e w' b'. f w a b = Some (e, w', b') \<longrightarrow> - (2 ^ 31) < e \<and> e < 2 ^ 31))"

lemma serving_status:
  assumes "serving s"
  shows "int_status (dt_table_ops s) (dt_view s)"
proof -
  have "- (2 ^ 31) < e \<and> e < 2 ^ 31"
    if c: "abs_check_call (dt_table_ops s) (dt_view s) k w a = Some (e, d, w', D')" for k w a e d w' D'
  proof (cases "e = -1")
    case False
    with c obtain op buf f b b' where "dt_view s k = Some (op, buf)" "func_fp op = Some f"
      "f w a b = Some (e, w', b')"
      by (auto simp: abs_check_call_def bind_eq_Some_conv Let_def
          split: option.splits if_splits bool.splits)
    with assms show ?thesis unfolding serving_def by blast
  qed simp
  then show ?thesis unfolding int_status_def by blast
qed

lemma serving_step:
  assumes "serving s" and c: "dt_call s key w as = Some (e, d, w', s')"
  shows "serving s'"
proof -
  have g: "dt_good s" using assms(1) by (simp add: serving_def)
  have v: "abs_check_call (dt_table_ops s) (dt_view s) key w as = Some (e, d, w', dt_view s')"
    using dtab.call_view [OF g, of key w as] c by simp
  have "dt_good s'" using dtab.call_good [OF g c] by simp
  moreover have "\<exists>buf'. dt_view s k = Some (op, buf')" if "dt_view s' k = Some (op, buf)" for k op buf
    by (rule abs_check_call_ops [OF v that])
  ultimately show ?thesis using assms(1) unfolding serving_def by blast
qed

interpretation mtab: msg_server dt_call dt_view dt_table_ops serving
proof
  show "serving s \<Longrightarrow> map_option (\<lambda>(e, d, w', s'). (e, d, w', dt_view s')) (dt_call s key w as) =
      abs_check_call (dt_table_ops s) (dt_view s) key w as" for s key w as
    unfolding serving_def by (rule dtab.call_view) blast
  show "serving s \<Longrightarrow> dt_call s key w as = Some (e, d, w', s') \<Longrightarrow>
      serving s' \<and> dt_table_ops s' = dt_table_ops s" for s key w as e d w' s'
    using serving_step [of s] dtab.call_good [of s] by (simp add: serving_def del: dt_call.simps)
  show "serving s \<Longrightarrow> int_status (dt_table_ops s) (dt_view s)" for s by (rule serving_status)
qed

subsection \<open>A table with all its operations\<close>

text \<open>The table of a component that has registered the operations \<open>ops\<close>: each has its return buffer.
  The component's check accepts the messages with the tag \<open>tg\<close> whose frames fit the descriptor.\<close>

definition op_buf :: "('w, 'a) disp_op \<Rightarrow> u8 list option \<Rightarrow> bool" where
  "op_buf op buf \<longleftrightarrow>
     (if needs_ret op then \<exists>b. buf = Some b \<and> length b = unat (DISP_GET_ASIZE (retval op)) else buf = None)"

definition table_ready ::
  "('w, msg_args) disp_table_ops \<Rightarrow> ('w, msg_args) disp_op list \<Rightarrow> ('h, 'w, msg_args) dstate \<Rightarrow> bool" where
  "table_ready tops ops s \<longleftrightarrow> dt_good s \<and> dt_table_ops s = tops \<and>
     (\<forall>op \<in> set ops. \<exists>buf. dt_view s (opcode op) = Some (op, buf) \<and> op_buf op buf)"

definition table_checks :: "('w, msg_args) disp_table_ops \<Rightarrow> u32 \<Rightarrow> bool" where
  "table_checks tops tg \<longleftrightarrow> (\<exists>check. check_msg_args tops = Some check \<and>
     (\<forall>op fs. (check op \<lparr>tag = tg, content = fs\<rparr> = DISP_TABLE_SUCCESS) = list_all2 arg_fits (args op) fs))"

lemma abs_check_call_view:
  assumes c: "abs_check_call tops D key w as = Some (e, d, w', D')" and k: "D k = Some (op, buf)"
    and f: "\<And>k op buf f. D k = Some (op, buf) \<Longrightarrow> func_fp op = Some f \<Longrightarrow> func_ok f"
  shows "\<exists>buf'. D' k = Some (op, buf') \<and> map_option length buf' = map_option length buf"
proof (cases "D' = D")
  case True
  with k show ?thesis by simp
next
  case False
  with c obtain op1 b f1 b' where o: "D key = Some (op1, Some b)" "func_fp op1 = Some f1"
    "f1 w as (Some b) = Some (e, w', b')" "D' = D(key \<mapsto> (op1, Some (case b' of Some x \<Rightarrow> x | None \<Rightarrow> b)))"
    by (auto simp: abs_check_call_def bind_eq_Some_conv Let_def split: option.splits if_splits bool.splits)
  have "length (case b' of Some x \<Rightarrow> x | None \<Rightarrow> b) = length b"
    using f [OF o(1,2)] o(3) by (cases b') (auto simp: func_ok_def)
  with o(1,4) k show ?thesis by (cases "k = key") auto
qed

lemma table_ready_call:
  assumes r: "table_ready tops ops s" and c: "dt_call s k w a = Some (e, d, w', s')"
  shows "table_ready tops ops s'"
proof -
  have g: "dt_good s" using r by (simp add: table_ready_def)
  have v: "abs_check_call (dt_table_ops s) (dt_view s) k w a = Some (e, d, w', dt_view s')"
    using dtab.call_view [OF g, of k w a] c by simp
  have g': "dt_good s'" "dt_table_ops s' = dt_table_ops s" using dtab.call_good [OF g c] by simp_all
  have f: "func_ok f" if "dt_view s k = Some (op, buf)" "func_fp op = Some f" for k op buf f
    using g that by (cases s) auto
  have "\<exists>buf'. dt_view s' (opcode op) = Some (op, buf') \<and> op_buf op buf'" if op: "op \<in> set ops" for op
  proof -
    obtain buf where b: "dt_view s (opcode op) = Some (op, buf)" "op_buf op buf"
      using r op unfolding table_ready_def by blast
    have "\<exists>buf'. dt_view s' (opcode op) = Some (op, buf') \<and> map_option length buf' = map_option length buf"
      by (rule abs_check_call_view [OF v b(1)]) (rule f)
    then obtain buf' where "dt_view s' (opcode op) = Some (op, buf')" "map_option length buf' = map_option length buf"
      by blast
    with b(2) show ?thesis by (cases buf'; cases buf) (auto simp: op_buf_def split: if_splits)
  qed
  with g' r show ?thesis unfolding table_ready_def by simp
qed

lemma table_accept:
  assumes r: "table_ready tops ops s" and chk: "table_checks tops tg" and op: "op \<in> set ops"
    and fits: "list_all2 arg_fits (args op) fs" and f: "func_fp op = Some f"
    and ret: "needs_ret op" "retval op \<noteq> DISP_ARG_END"
    and run: "\<And>b. length b = unat (DISP_GET_ASIZE (retval op)) \<Longrightarrow>
      \<exists>w' nb. f w \<lparr>tag = tg, content = fs\<rparr> (Some b) = Some (e, w', Some nb) \<and> P w' nb"
  shows "\<exists>w' nb s'. dt_call s (opcode op) w \<lparr>tag = tg, content = fs\<rparr> = Some (e, Some nb, w', s') \<and>
    P w' nb \<and> table_ready tops ops s'"
proof -
  obtain b where b: "dt_view s (opcode op) = Some (op, Some b)" "length b = unat (DISP_GET_ASIZE (retval op))"
    and g: "dt_good s" "dt_table_ops s = tops"
    using r op ret(1) unfolding table_ready_def op_buf_def by fastforce
  obtain w' nb where nb: "f w \<lparr>tag = tg, content = fs\<rparr> (Some b) = Some (e, w', Some nb)" "P w' nb"
    using run [OF b(2)] by blast
  obtain check where ch: "check_msg_args (dt_table_ops s) = Some check"
      "check op \<lparr>tag = tg, content = fs\<rparr> = DISP_TABLE_SUCCESS"
    using chk fits unfolding table_checks_def g(2) by blast
  from dtab.accepted [OF g(1) b(1) ch ret(2) f nb(1)] obtain s' where
    c: "dt_call s (opcode op) w \<lparr>tag = tg, content = fs\<rparr> = Some (e, Some nb, w', s')" by blast
  with table_ready_call [OF r c] nb(2) show ?thesis by blast
qed

lemma table_refuse:
  assumes r: "table_ready tops ops s" and chk: "table_checks tops tg" and op: "op \<in> set ops"
    and fits: "\<not> list_all2 arg_fits (args op) fs"
  shows "\<exists>s'. dt_call s (opcode op) w \<lparr>tag = tg, content = fs\<rparr> = Some (-1, None, w, s') \<and>
    table_ready tops ops s'"
proof -
  obtain buf where b: "dt_view s (opcode op) = Some (op, buf)" and g: "dt_good s" "dt_table_ops s = tops"
    using r op unfolding table_ready_def by blast
  obtain check where ch: "check_msg_args (dt_table_ops s) = Some check"
      "check op \<lparr>tag = tg, content = fs\<rparr> \<noteq> DISP_TABLE_SUCCESS"
    using chk fits unfolding table_checks_def g(2) by blast
  from dtab.refused [OF g(1) b ch, of w] obtain s' where
    c: "dt_call s (opcode op) w \<lparr>tag = tg, content = fs\<rparr> = Some (-1, None, w, s')" by blast
  with table_ready_call [OF r c] show ?thesis by blast
qed

section \<open>A concrete server\<close>

lemma ex_serving: "serving (zh_alist, ex_table, ex_heap :: (nat, msg_args) dheap)"
  using ex_ok ex_func_ok by (auto simp: serving_def ex_entry) (auto simp: ex_op_def)

lemma ex_reply:
  assumes "msg_guess_type msg = ty" and "content msg = [[7, 0, 0, 0]]"
  shows "serve ty (dt_table_ops (zh_alist, ex_table, ex_heap)) (dt_view (zh_alist, ex_table, ex_heap)) msg 10 =
    Some (MSG_SUCCESS, Some [[0, 0, 0, 0], [4, 0, 0, 0], [1, 1, 1, 1]], 11,
       (dt_view (zh_alist, ex_table, ex_heap))(7 \<mapsto> (ex_op 7, Some [1, 1, 1, 1])))"
  using assms ex_op_simps(4) [where k = 7]
  by (auto simp: serve_def abs_check_call_def ex_entry ex_call reply_of_def PARAM_OK_def le_bytes_4 Let_def
      split: bool.split)

lemma ex_tags:
  "msg_guess_type \<lparr>tag = ZMQ_SERVER_ARGS_TAG, content = c\<rparr> = MSG_THSAFE_ZMQ"
  "msg_guess_type \<lparr>tag = EXP_MSG_ZMQ_TAG, content = c\<rparr> = MSG_EXP_ZMQ"
  by (simp_all add: msg_guess_type_def s_msg_guess_type_def exp_msg_zmq_is_def thsafe_msg_zmq_is_def
      EXP_MSG_ZMQ_TAG_def ZMQ_SERVER_ARGS_TAG_def)

section \<open>Properties\<close>

text \<open>The argument check accepts a message exactly when it has as many frames as the descriptor
  has arguments and every frame has the size of its argument, or for a variable argument at most
  that size; otherwise the error is that of the first argument that has no frame or does not fit,
  or the one for surplus frames when all arguments fit.\<close>

theorem msg_check_gen_zmq_args_spec:
  "msg_check_gen_zmq_args op fs =
     (let n = length (takeWhile (\<lambda>(a, f). arg_fits a f) (zip (args op) fs))
      in if n < length (args op) \<and> n < length fs then MSG_ERR_INV_SIZE_ARG
         else if n < length (args op) then MSG_ERR_INV_LESS_ARGS
         else if n < length fs then MSG_ERR_INV_MORE_ARGS
         else MSG_SUCCESS) \<and>
   (msg_check_gen_zmq_args op fs = MSG_SUCCESS) = list_all2 arg_fits (args op) fs"
proof -
  have "check_args as fs =
     (let n = length (takeWhile (\<lambda>(a, f). arg_fits a f) (zip as fs))
      in if n < length as \<and> n < length fs then MSG_ERR_INV_SIZE_ARG
         else if n < length as then MSG_ERR_INV_LESS_ARGS
         else if n < length fs then MSG_ERR_INV_MORE_ARGS
         else MSG_SUCCESS)" for as fs
    by (induction as fs rule: list_induct2')
      (auto simp: check_args_Cons Let_def simp del: check_args.simps(4))
  from this [of "args op" fs] check_args_iff [of "args op" fs] show ?thesis
    unfolding msg_check_gen_zmq_args_def by (intro conjI)
qed

text \<open>C29: handling a socket request (the one of the device server) on a well-formed table does what
  \<open>serve\<close> says over the abstract table: a foreign tag is refused without a reply; a missing or
  wrongly sized opcode frame is answered with \<open>PARAM_ERR\<close> and touches nothing; otherwise the
  function of the opcode is called with the remaining frames, a status of at most 0 is answered
  with one frame holding its absolute value, and a positive one with \<open>PARAM_OK\<close>, the number of
  bytes and that many bytes of the return buffer. It is undefined only when the function is, or
  when its status exceeds the buffer.\<close>

theorem msg_handle_sock_request_serves:
  assumes "serving s"
  shows "map_option (\<lambda>(err, r, w', s'). (err, r, w', dt_view s'))
      (msg_handle_sock_request dt_call (\<lambda>_. True) msg w s) =
    serve MSG_THSAFE_ZMQ (dt_table_ops s) (dt_view s) msg w"
  by (rule mtab.sock_serves [OF assms])

theorem msg_handle_sock_request_serves_witness:
  "map_option (\<lambda>(err, r, w', s'). (err, r, w'))
      (msg_handle_sock_request dt_call (\<lambda>_. True)
        \<lparr>tag = ZMQ_SERVER_ARGS_TAG, content = [[7, 0, 0, 0]]\<rparr> 10 (zh_alist, ex_table, ex_heap)) =
    Some (MSG_SUCCESS, Some [[0, 0, 0, 0], [4, 0, 0, 0], [1, 1, 1, 1]], 11)"
proof -
  let ?m = "\<lparr>tag = ZMQ_SERVER_ARGS_TAG, content = [[7, 0, 0, 0]]\<rparr>"
  have r: "map_option (\<lambda>(err, r, w', s'). (err, r, w', dt_view s'))
      (msg_handle_sock_request dt_call (\<lambda>_. True) ?m 10 (zh_alist, ex_table, ex_heap)) =
    Some (MSG_SUCCESS, Some [[0, 0, 0, 0], [4, 0, 0, 0], [1, 1, 1, 1]], 11,
       (dt_view (zh_alist, ex_table, ex_heap))(7 \<mapsto> (ex_op 7, Some [1, 1, 1, 1])))"
    unfolding msg_handle_sock_request_serves [OF ex_serving] by (rule ex_reply) (simp_all add: ex_tags)
  then show ?thesis by auto
qed

text \<open>The same for the requests of the broker protocol, which the module instances answer: a
  worker being present, \<open>msg_handle_mlm_request\<close> does to the abstract table and the world what
  \<open>serve\<close> says for the tag of exported messages.\<close>

theorem msg_handle_mlm_request_serves:
  assumes "serving s"
  shows "map_option (\<lambda>(err, r, w', s'). (err, r, w', dt_view s'))
      (msg_handle_mlm_request dt_call (\<lambda>_. True) True msg w s) =
    serve MSG_EXP_ZMQ (dt_table_ops s) (dt_view s) msg w"
  by (rule mtab.mlm_serves [OF assms])

theorem msg_handle_mlm_request_serves_witness:
  "map_option (\<lambda>(err, r, w', s'). (err, r, w'))
      (msg_handle_mlm_request dt_call (\<lambda>_. True) True
        \<lparr>tag = EXP_MSG_ZMQ_TAG, content = [[7, 0, 0, 0]]\<rparr> 10 (zh_alist, ex_table, ex_heap)) =
    Some (MSG_SUCCESS, Some [[0, 0, 0, 0], [4, 0, 0, 0], [1, 1, 1, 1]], 11)"
proof -
  let ?m = "\<lparr>tag = EXP_MSG_ZMQ_TAG, content = [[7, 0, 0, 0]]\<rparr>"
  have r: "map_option (\<lambda>(err, r, w', s'). (err, r, w', dt_view s'))
      (msg_handle_mlm_request dt_call (\<lambda>_. True) True ?m 10 (zh_alist, ex_table, ex_heap)) =
    Some (MSG_SUCCESS, Some [[0, 0, 0, 0], [4, 0, 0, 0], [1, 1, 1, 1]], 11,
       (dt_view (zh_alist, ex_table, ex_heap))(7 \<mapsto> (ex_op 7, Some [1, 1, 1, 1])))"
    unfolding msg_handle_mlm_request_serves [OF ex_serving] by (rule ex_reply) (simp_all add: ex_tags)
  then show ?thesis by auto
qed

end
