(* ===== verification/Thsafe_Server.thy ===== *)
theory Thsafe_Server
  imports Msg Llio
begin

text \<open>
  The device server: src/msg/smio_thsafe_ops/smio_thsafe_zmq_server.c, the operations it registers
  in its dispatch table, and the parts of src/dev_io (dev_io_proto.c, dev_io_core.c) that receive a
  request, check its arguments, serve it and route the reply back.

  The owner of the operations is the state \<open>'s\<close> behind the llio layer, \<open>ops\<close> is its vector of
  operations. The endpoint argument of open and release is the address of the frame taken as an
  endpoint; what the program finds there is the parameter \<open>cast_ep\<close>.
\<close>

section \<open>Opcodes and arguments\<close>

definition THSAFE_OPCODE_OPEN :: u32 where "THSAFE_OPCODE_OPEN = 0"
definition THSAFE_OPCODE_RELEASE :: u32 where "THSAFE_OPCODE_RELEASE = 1"
definition THSAFE_OPCODE_READ_16 :: u32 where "THSAFE_OPCODE_READ_16 = 2"
definition THSAFE_OPCODE_READ_32 :: u32 where "THSAFE_OPCODE_READ_32 = 3"
definition THSAFE_OPCODE_READ_64 :: u32 where "THSAFE_OPCODE_READ_64 = 4"
definition THSAFE_OPCODE_WRITE_16 :: u32 where "THSAFE_OPCODE_WRITE_16 = 5"
definition THSAFE_OPCODE_WRITE_32 :: u32 where "THSAFE_OPCODE_WRITE_32 = 6"
definition THSAFE_OPCODE_WRITE_64 :: u32 where "THSAFE_OPCODE_WRITE_64 = 7"
definition THSAFE_OPCODE_READ_BLOCK :: u32 where "THSAFE_OPCODE_READ_BLOCK = 8"
definition THSAFE_OPCODE_WRITE_BLOCK :: u32 where "THSAFE_OPCODE_WRITE_BLOCK = 9"
definition THSAFE_OPCODE_READ_DMA :: u32 where "THSAFE_OPCODE_READ_DMA = 10"
definition THSAFE_OPCODE_WRITE_DMA :: u32 where "THSAFE_OPCODE_WRITE_DMA = 11"

lemmas opcodes = THSAFE_OPCODE_OPEN_def THSAFE_OPCODE_RELEASE_def THSAFE_OPCODE_READ_16_def
  THSAFE_OPCODE_READ_32_def THSAFE_OPCODE_READ_64_def THSAFE_OPCODE_WRITE_16_def
  THSAFE_OPCODE_WRITE_32_def THSAFE_OPCODE_WRITE_64_def THSAFE_OPCODE_READ_BLOCK_def
  THSAFE_OPCODE_WRITE_BLOCK_def THSAFE_OPCODE_READ_DMA_def THSAFE_OPCODE_WRITE_DMA_def

definition ZMQ_SERVER_BLOCK_SIZE :: u32 where "ZMQ_SERVER_BLOCK_SIZE = 2 ^ 20"

text \<open>\<open>sizeof (zmq_server_data_block_t)\<close>, and with it the room for a block.\<close>

definition ZMQ_SERVER_DATA_BLOCK_DATA_SIZE :: u32 where "ZMQ_SERVER_DATA_BLOCK_DATA_SIZE = 1"

definition block_arg :: u32 where
  "block_arg = DISP_ARG_ENCODE_RAW DISP_ATYPE_VAR (ZMQ_SERVER_DATA_BLOCK_DATA_SIZE + ZMQ_SERVER_BLOCK_SIZE)"

text \<open>The data of the first frame, and of the one after it; the null frame has none.\<close>

definition THSAFE_MSG_ZMQ_FIRST_ARG :: "msg_args \<Rightarrow> frame option" where
  "THSAFE_MSG_ZMQ_FIRST_ARG msg = (case content msg of f # _ \<Rightarrow> Some f | _ \<Rightarrow> None)"

definition THSAFE_MSG_ZMQ_NEXT_ARG :: "msg_args \<Rightarrow> frame option" where
  "THSAFE_MSG_ZMQ_NEXT_ARG msg = (case content msg of _ # f # _ \<Rightarrow> Some f | _ \<Rightarrow> None)"

text \<open>\<open>*(type *) ret = value\<close>.\<close>

definition put_ret :: "nat \<Rightarrow> 'v::len word \<Rightarrow> u8 list option \<Rightarrow> u8 list option option" where
  "put_ret n v ret = do { b \<leftarrow> ret; b' \<leftarrow> wr_word n v b; Some (Some b') }"

section \<open>The operations\<close>

type_synonym 's server_fun = "('s, msg_args) disp_table_func"

definition s_thsafe_zmq_server_open :: "(frame \<Rightarrow> llio_endpoint) \<Rightarrow> 's llio_ops \<Rightarrow> 's server_fun" where
  "s_thsafe_zmq_server_open cast_ep ops self msg ret = do {
     ep \<leftarrow> THSAFE_MSG_ZMQ_FIRST_ARG msg;
     (r, self') \<leftarrow> llio_open ops (Some (cast_ep ep)) self;
     let llio_ret = to_int32 r;
     ret' \<leftarrow> put_ret 4 (word_of_int llio_ret :: u32) ret;
     Some (if llio_ret < 0 then llio_ret else 4, self', ret') }"

definition s_thsafe_zmq_server_release :: "(frame \<Rightarrow> llio_endpoint) \<Rightarrow> 's llio_ops \<Rightarrow> 's server_fun" where
  "s_thsafe_zmq_server_release cast_ep ops self msg ret = do {
     ep \<leftarrow> THSAFE_MSG_ZMQ_FIRST_ARG msg;
     (r, self') \<leftarrow> llio_release ops (Some (cast_ep ep)) self;
     let llio_ret = to_int32 r;
     ret' \<leftarrow> put_ret 4 (word_of_int llio_ret :: u32) ret;
     Some (if llio_ret < 0 then llio_ret else 4, self', ret') }"

text \<open>The single reads and writes differ in the llio function and in the width \<open>n\<close> only, which the
  source repeats; the readers pass the return buffer itself as the data pointer.\<close>

definition server_read ::
  "nat \<Rightarrow> (u64 \<Rightarrow> 'v::len word \<Rightarrow> 's \<Rightarrow> (int \<times> 'v word \<times> 's) option) \<Rightarrow> 's server_fun" where
  "server_read n llio_read self msg ret = do {
     a \<leftarrow> THSAFE_MSG_ZMQ_FIRST_ARG msg;
     offset \<leftarrow> rd_word 8 a;
     b \<leftarrow> ret;
     old \<leftarrow> rd_word n b;
     (r, v, self') \<leftarrow> llio_read offset old self;
     ret' \<leftarrow> put_ret n v ret;
     Some (to_int32 r, self', ret') }"

definition server_write ::
  "nat \<Rightarrow> (u64 \<Rightarrow> 'v::len word \<Rightarrow> 's \<Rightarrow> (int \<times> 's) option) \<Rightarrow> 's server_fun" where
  "server_write n llio_write self msg ret = do {
     a \<leftarrow> THSAFE_MSG_ZMQ_FIRST_ARG msg;
     offset \<leftarrow> rd_word 8 a;
     d \<leftarrow> THSAFE_MSG_ZMQ_NEXT_ARG msg;
     data_write \<leftarrow> rd_word n d;
     (r, self') \<leftarrow> llio_write offset data_write self;
     ret' \<leftarrow> put_ret 4 (word_of_int (to_int32 r) :: u32) ret;
     Some (4, self', ret') }"

definition s_thsafe_zmq_server_read_16 :: "'s llio_ops \<Rightarrow> 's server_fun" where
  "s_thsafe_zmq_server_read_16 ops = server_read 2 (llio_read_16 ops)"

definition s_thsafe_zmq_server_read_32 :: "'s llio_ops \<Rightarrow> 's server_fun" where
  "s_thsafe_zmq_server_read_32 ops = server_read 4 (llio_read_32 ops)"

definition s_thsafe_zmq_server_read_64 :: "'s llio_ops \<Rightarrow> 's server_fun" where
  "s_thsafe_zmq_server_read_64 ops = server_read 8 (llio_read_64 ops)"

definition s_thsafe_zmq_server_write_16 :: "'s llio_ops \<Rightarrow> 's server_fun" where
  "s_thsafe_zmq_server_write_16 ops = server_write 2 (llio_write_16 ops)"

definition s_thsafe_zmq_server_write_32 :: "'s llio_ops \<Rightarrow> 's server_fun" where
  "s_thsafe_zmq_server_write_32 ops = server_write 4 (llio_write_32 ops)"

definition s_thsafe_zmq_server_write_64 :: "'s llio_ops \<Rightarrow> 's server_fun" where
  "s_thsafe_zmq_server_write_64 ops = server_write 8 (llio_write_64 ops)"

text \<open>Blocks: the requested size is passed on as it is, with the return buffer as the destination.\<close>

definition s_thsafe_zmq_server_read_block_generic ::
  "(u64 \<Rightarrow> u64 \<Rightarrow> u8 list \<Rightarrow> 's \<Rightarrow> (int \<times> u8 list \<times> 's) option) \<Rightarrow> 's server_fun" where
  "s_thsafe_zmq_server_read_block_generic llio_read_func self msg ret = do {
     a \<leftarrow> THSAFE_MSG_ZMQ_FIRST_ARG msg;
     offset \<leftarrow> rd_word 8 a;
     z \<leftarrow> THSAFE_MSG_ZMQ_NEXT_ARG msg;
     read_bsize \<leftarrow> rd_word 8 z;
     b \<leftarrow> ret;
     (r, b', self') \<leftarrow> llio_read_func offset read_bsize b self;
     Some (to_int32 r, self', Some b') }"

definition s_thsafe_zmq_server_write_block_generic ::
  "(u64 \<Rightarrow> u64 \<Rightarrow> u8 list \<Rightarrow> 's \<Rightarrow> (int \<times> 's) option) \<Rightarrow> 's server_fun" where
  "s_thsafe_zmq_server_write_block_generic llio_write_func self msg ret = do {
     a \<leftarrow> THSAFE_MSG_ZMQ_FIRST_ARG msg;
     offset \<leftarrow> rd_word 8 a;
     d \<leftarrow> THSAFE_MSG_ZMQ_NEXT_ARG msg;
     let data_write_size = (of_nat (length d) :: u32);
     (r, self') \<leftarrow> llio_write_func offset (ucast data_write_size) d self;
     ret' \<leftarrow> put_ret 4 (word_of_int (to_int32 r) :: u32) ret;
     Some (4, self', ret') }"

definition s_thsafe_zmq_server_read_block :: "'s llio_ops \<Rightarrow> 's server_fun" where
  "s_thsafe_zmq_server_read_block ops = s_thsafe_zmq_server_read_block_generic (llio_read_block ops)"

definition s_thsafe_zmq_server_write_block :: "'s llio_ops \<Rightarrow> 's server_fun" where
  "s_thsafe_zmq_server_write_block ops = s_thsafe_zmq_server_write_block_generic (llio_write_block ops)"

definition s_thsafe_zmq_server_read_dma :: "'s llio_ops \<Rightarrow> 's server_fun" where
  "s_thsafe_zmq_server_read_dma ops = s_thsafe_zmq_server_read_block_generic (llio_read_dma ops)"

definition s_thsafe_zmq_server_write_dma :: "'s llio_ops \<Rightarrow> 's server_fun" where
  "s_thsafe_zmq_server_write_dma ops = s_thsafe_zmq_server_write_block_generic (llio_write_dma ops)"

section \<open>The descriptors\<close>

text \<open>\<open>DISP_ARG_ENCODE (type, ctype)\<close> takes the size of the C type; with 0 in its place that is
  the size of an \<open>int\<close>.\<close>

type_synonym 's server_op = "('s, msg_args) disp_op"

definition INT32_ARG :: u32 where "INT32_ARG = DISP_ARG_ENCODE_RAW DISP_ATYPE_INT32 4"
definition UINT16_ARG :: u32 where "UINT16_ARG = DISP_ARG_ENCODE_RAW DISP_ATYPE_UINT16 2"
definition UINT32_ARG :: u32 where "UINT32_ARG = DISP_ARG_ENCODE_RAW DISP_ATYPE_UINT32 4"
definition UINT64_ARG :: u32 where "UINT64_ARG = DISP_ARG_ENCODE_RAW DISP_ATYPE_UINT64 8"
definition SIZE_ARG :: u32 where "SIZE_ARG = DISP_ARG_ENCODE_RAW DISP_ATYPE_STRUCT 8"
definition STRUCT_0_ARG :: u32 where "STRUCT_0_ARG = DISP_ARG_ENCODE_RAW DISP_ATYPE_STRUCT 4"

definition thsafe_zmq_server_open_exp :: "(frame \<Rightarrow> llio_endpoint) \<Rightarrow> 's llio_ops \<Rightarrow> 's server_op" where
  "thsafe_zmq_server_open_exp cast_ep ops = \<lparr>dop_name = ''open'', opcode = THSAFE_OPCODE_OPEN,
     func_fp = Some (s_thsafe_zmq_server_open cast_ep ops), retval = INT32_ARG,
     retval_owner = DISP_OWNER_OTHER, args = [STRUCT_0_ARG]\<rparr>"

definition thsafe_zmq_server_release_exp :: "(frame \<Rightarrow> llio_endpoint) \<Rightarrow> 's llio_ops \<Rightarrow> 's server_op" where
  "thsafe_zmq_server_release_exp cast_ep ops = \<lparr>dop_name = ''release'', opcode = THSAFE_OPCODE_RELEASE,
     func_fp = Some (s_thsafe_zmq_server_release cast_ep ops), retval = INT32_ARG,
     retval_owner = DISP_OWNER_OTHER, args = [STRUCT_0_ARG]\<rparr>"

definition thsafe_zmq_server_read_16_exp :: "'s llio_ops \<Rightarrow> 's server_op" where
  "thsafe_zmq_server_read_16_exp ops = \<lparr>dop_name = ''read_16'', opcode = THSAFE_OPCODE_READ_16,
     func_fp = Some (s_thsafe_zmq_server_read_16 ops), retval = UINT16_ARG,
     retval_owner = DISP_OWNER_OTHER, args = [UINT64_ARG]\<rparr>"

definition thsafe_zmq_server_read_32_exp :: "'s llio_ops \<Rightarrow> 's server_op" where
  "thsafe_zmq_server_read_32_exp ops = \<lparr>dop_name = ''read_32'', opcode = THSAFE_OPCODE_READ_32,
     func_fp = Some (s_thsafe_zmq_server_read_32 ops), retval = UINT32_ARG,
     retval_owner = DISP_OWNER_OTHER, args = [UINT64_ARG]\<rparr>"

definition thsafe_zmq_server_read_64_exp :: "'s llio_ops \<Rightarrow> 's server_op" where
  "thsafe_zmq_server_read_64_exp ops = \<lparr>dop_name = ''read_64'', opcode = THSAFE_OPCODE_READ_64,
     func_fp = Some (s_thsafe_zmq_server_read_64 ops), retval = UINT64_ARG,
     retval_owner = DISP_OWNER_OTHER, args = [UINT64_ARG]\<rparr>"

definition thsafe_zmq_server_write_16_exp :: "'s llio_ops \<Rightarrow> 's server_op" where
  "thsafe_zmq_server_write_16_exp ops = \<lparr>dop_name = ''write_16'', opcode = THSAFE_OPCODE_WRITE_16,
     func_fp = Some (s_thsafe_zmq_server_write_16 ops), retval = INT32_ARG,
     retval_owner = DISP_OWNER_OTHER, args = [UINT64_ARG, UINT16_ARG]\<rparr>"

definition thsafe_zmq_server_write_32_exp :: "'s llio_ops \<Rightarrow> 's server_op" where
  "thsafe_zmq_server_write_32_exp ops = \<lparr>dop_name = ''write_32'', opcode = THSAFE_OPCODE_WRITE_32,
     func_fp = Some (s_thsafe_zmq_server_write_32 ops), retval = INT32_ARG,
     retval_owner = DISP_OWNER_OTHER, args = [UINT64_ARG, UINT32_ARG]\<rparr>"

definition thsafe_zmq_server_write_64_exp :: "'s llio_ops \<Rightarrow> 's server_op" where
  "thsafe_zmq_server_write_64_exp ops = \<lparr>dop_name = ''write_64'', opcode = THSAFE_OPCODE_WRITE_64,
     func_fp = Some (s_thsafe_zmq_server_write_64 ops), retval = INT32_ARG,
     retval_owner = DISP_OWNER_OTHER, args = [UINT64_ARG, UINT64_ARG]\<rparr>"

definition thsafe_zmq_server_read_block_exp :: "'s llio_ops \<Rightarrow> 's server_op" where
  "thsafe_zmq_server_read_block_exp ops = \<lparr>dop_name = ''read_block'', opcode = THSAFE_OPCODE_READ_BLOCK,
     func_fp = Some (s_thsafe_zmq_server_read_block ops), retval = block_arg,
     retval_owner = DISP_OWNER_OTHER, args = [UINT64_ARG, SIZE_ARG]\<rparr>"

definition thsafe_zmq_server_write_block_exp :: "'s llio_ops \<Rightarrow> 's server_op" where
  "thsafe_zmq_server_write_block_exp ops = \<lparr>dop_name = ''write_block'', opcode = THSAFE_OPCODE_WRITE_BLOCK,
     func_fp = Some (s_thsafe_zmq_server_write_block ops), retval = INT32_ARG,
     retval_owner = DISP_OWNER_OTHER, args = [UINT64_ARG, block_arg]\<rparr>"

definition thsafe_zmq_server_read_dma_exp :: "'s llio_ops \<Rightarrow> 's server_op" where
  "thsafe_zmq_server_read_dma_exp ops = \<lparr>dop_name = ''read_dma'', opcode = THSAFE_OPCODE_READ_DMA,
     func_fp = Some (s_thsafe_zmq_server_read_dma ops), retval = block_arg,
     retval_owner = DISP_OWNER_OTHER, args = [UINT64_ARG, SIZE_ARG]\<rparr>"

definition thsafe_zmq_server_write_dma_exp :: "'s llio_ops \<Rightarrow> 's server_op" where
  "thsafe_zmq_server_write_dma_exp ops = \<lparr>dop_name = ''write_dma'', opcode = THSAFE_OPCODE_WRITE_DMA,
     func_fp = Some (s_thsafe_zmq_server_write_dma ops), retval = INT32_ARG,
     retval_owner = DISP_OWNER_OTHER, args = [UINT64_ARG, block_arg]\<rparr>"

definition smio_thsafe_zmq_server_ops :: "(frame \<Rightarrow> llio_endpoint) \<Rightarrow> 's llio_ops \<Rightarrow> 's server_op list" where
  "smio_thsafe_zmq_server_ops cast_ep ops =
     [thsafe_zmq_server_open_exp cast_ep ops, thsafe_zmq_server_release_exp cast_ep ops,
      thsafe_zmq_server_read_16_exp ops, thsafe_zmq_server_read_32_exp ops,
      thsafe_zmq_server_read_64_exp ops, thsafe_zmq_server_write_16_exp ops,
      thsafe_zmq_server_write_32_exp ops, thsafe_zmq_server_write_64_exp ops,
      thsafe_zmq_server_read_block_exp ops, thsafe_zmq_server_write_block_exp ops,
      thsafe_zmq_server_read_dma_exp ops, thsafe_zmq_server_write_dma_exp ops]"

lemmas server_exps = thsafe_zmq_server_open_exp_def thsafe_zmq_server_release_exp_def
  thsafe_zmq_server_read_16_exp_def thsafe_zmq_server_read_32_exp_def thsafe_zmq_server_read_64_exp_def
  thsafe_zmq_server_write_16_exp_def thsafe_zmq_server_write_32_exp_def thsafe_zmq_server_write_64_exp_def
  thsafe_zmq_server_read_block_exp_def thsafe_zmq_server_write_block_exp_def
  thsafe_zmq_server_read_dma_exp_def thsafe_zmq_server_write_dma_exp_def

lemmas server_funs = s_thsafe_zmq_server_open_def s_thsafe_zmq_server_release_def
  s_thsafe_zmq_server_read_16_def s_thsafe_zmq_server_read_32_def s_thsafe_zmq_server_read_64_def
  s_thsafe_zmq_server_write_16_def s_thsafe_zmq_server_write_32_def s_thsafe_zmq_server_write_64_def
  s_thsafe_zmq_server_read_block_def s_thsafe_zmq_server_write_block_def
  s_thsafe_zmq_server_read_dma_def s_thsafe_zmq_server_write_dma_def

section \<open>The protocol object (dev_io_proto.c)\<close>

datatype devio_err =
  DEVIO_SUCCESS | DEVIO_ERR_ALLOC | DEVIO_ERR_FUNC_NOT_IMPL | DEVIO_ERR_SMIO_DO_OP | DEVIO_ERR_NO_SMIO_OP
| DEVIO_ERR_NO_SMIO_ID | DEVIO_ERR_MAX_SMIOS | DEVIO_ERR_NO_NODES | DEVIO_ERR_UNINIT_POLLER
| DEVIO_ERR_INTERRUPTED_POLLER | DEVIO_ERR_BAD_MSG | DEVIO_ERR_TERMINATED | DEVIO_ERR_SMIO_DESTROY
| DEVIO_ERR_INV_SOCKET | DEVIO_ERR_MOD_LLIO | DEVIO_ERR_CFG | DEVIO_ERR_SIGACTION | DEVIO_ERR_WAITCHLD
| DEVIO_ERR_SPAWNCHLD

record devio_proto =
  routing_id :: "frame option"
  proto_content :: "frame list option"

definition devio_proto_new :: "bool \<Rightarrow> devio_proto option" where
  "devio_proto_new ok = (if ok then Some \<lparr>routing_id = None, proto_content = None\<rparr> else None)"

text \<open>A message on the wire of a ROUTER socket begins with the routing id of its sender. \<open>wire\<close> is
  the next message, null when the call is interrupted; \<open>rcvmore\<close> is what the socket says about parts
  left when it is no router.\<close>

definition devio_proto_recv ::
  "bool \<Rightarrow> bool \<Rightarrow> frame list option \<Rightarrow> devio_proto \<Rightarrow> devio_err \<times> devio_proto" where
  "devio_proto_recv is_router rcvmore wire self =
     (if is_router then
        (case wire of
           Some (rid # rest) \<Rightarrow>
             if rest = [] then (DEVIO_ERR_BAD_MSG, self\<lparr>routing_id := Some rid\<rparr>)
             else (DEVIO_SUCCESS, self\<lparr>routing_id := Some rid, proto_content := Some rest\<rparr>)
         | _ \<Rightarrow> (DEVIO_ERR_BAD_MSG, self\<lparr>routing_id := None\<rparr>))
      else if rcvmore then
        (case wire of
           None \<Rightarrow> (DEVIO_ERR_BAD_MSG, self\<lparr>proto_content := None\<rparr>)
         | Some m \<Rightarrow> (DEVIO_SUCCESS, self\<lparr>proto_content := Some m\<rparr>))
      else (DEVIO_SUCCESS, self\<lparr>proto_content := Some []\<rparr>))"

text \<open>\<open>ok\<close>: the routing id could be sent. The result has the frames on the wire; a null content goes
  out as one empty frame.\<close>

definition devio_proto_send :: "bool \<Rightarrow> bool \<Rightarrow> devio_proto \<Rightarrow> devio_err \<times> frame list" where
  "devio_proto_send is_router ok self =
     (let head = (if is_router then (case routing_id self of None \<Rightarrow> [] | Some r \<Rightarrow> [r]) else [])
      in if is_router \<and> \<not> ok then (DEVIO_ERR_BAD_MSG, [])
         else (DEVIO_SUCCESS, head @ (case proto_content self of None \<Rightarrow> [[]] | Some m \<Rightarrow> m)))"

definition devio_proto_get_routing_id :: "devio_proto \<Rightarrow> frame option" where
  "devio_proto_get_routing_id self = routing_id self"

definition devio_proto_set_routing_id :: "devio_proto \<Rightarrow> frame option \<Rightarrow> devio_err \<times> devio_proto" where
  "devio_proto_set_routing_id self rid = (DEVIO_SUCCESS, self\<lparr>routing_id := rid\<rparr>)"

definition devio_proto_get_content :: "devio_proto \<Rightarrow> frame list option" where
  "devio_proto_get_content self = proto_content self"

definition devio_proto_get_content_move :: "devio_proto \<Rightarrow> frame list option \<times> devio_proto" where
  "devio_proto_get_content_move self = (proto_content self, self\<lparr>proto_content := None\<rparr>)"

definition devio_proto_set_content_move :: "devio_proto \<Rightarrow> frame list option \<Rightarrow> devio_err \<times> devio_proto" where
  "devio_proto_set_content_move self m = (DEVIO_SUCCESS, self\<lparr>proto_content := m\<rparr>)"

section \<open>Serving (dev_io_core.c)\<close>

definition s_devio_check_msg_args :: "('w, msg_args) disp_op \<Rightarrow> msg_args \<Rightarrow> disp_table_err" where
  "s_devio_check_msg_args disp_op msg =
     (if msg_guess_type msg \<noteq> MSG_THSAFE_ZMQ then DISP_TABLE_ERR_BAD_MSG
      else if msg_check_gen_zmq_args disp_op (content msg) \<noteq> MSG_SUCCESS then DISP_TABLE_ERR_BAD_MSG
      else DISP_TABLE_SUCCESS)"

definition devio_disp_table_ops :: "('w, msg_args) disp_table_ops" where
  "devio_disp_table_ops = \<lparr>check_msg_args = Some s_devio_check_msg_args\<rparr>"

text \<open>The reply, if one was made, is the second component.\<close>

definition s_devio_do_smio_op ::
  "('s \<Rightarrow> u32 \<Rightarrow> 'w \<Rightarrow> msg_args \<Rightarrow> (int \<times> u8 list option \<times> 'w \<times> 's) option) \<Rightarrow> (nat \<Rightarrow> bool) \<Rightarrow>
     msg_args \<Rightarrow> 'w \<Rightarrow> 's \<Rightarrow> (devio_err \<times> frame list option \<times> 'w \<times> 's) option" where
  "s_devio_do_smio_op check_call ze msg w s = do {
     (merr, r, w', s') \<leftarrow> msg_handle_sock_request check_call ze msg w s;
     Some (if merr = MSG_SUCCESS then DEVIO_SUCCESS else DEVIO_ERR_SMIO_DO_OP, r, w', s') }"

text \<open>One request: received from the router socket, served, and its reply sent back with the
  protocol object that received it.\<close>

definition devio_serve_one ::
  "('s \<Rightarrow> u32 \<Rightarrow> 'w \<Rightarrow> msg_args \<Rightarrow> (int \<times> u8 list option \<times> 'w \<times> 's) option) \<Rightarrow> (nat \<Rightarrow> bool) \<Rightarrow>
     devio_proto \<Rightarrow> 'w \<Rightarrow> 's \<Rightarrow> (devio_proto \<times> frame list list \<times> 'w \<times> 's) option" where
  "devio_serve_one check_call ze proto w s = do {
     c \<leftarrow> devio_proto_get_content proto;
     (_, r, w', s') \<leftarrow> s_devio_do_smio_op check_call ze \<lparr>tag = ZMQ_SERVER_ARGS_TAG, content = c\<rparr> w s;
     Some (case r of
         None \<Rightarrow> (proto, [], w', s')
       | Some reply \<Rightarrow>
           let proto' = snd (devio_proto_set_content_move proto (Some reply))
           in (proto', [snd (devio_proto_send True True proto')], w', s')) }"

fun s_devio_handle_protocol ::
  "('s \<Rightarrow> u32 \<Rightarrow> 'w \<Rightarrow> msg_args \<Rightarrow> (int \<times> u8 list option \<times> 'w \<times> 's) option) \<Rightarrow> (nat \<Rightarrow> bool) \<Rightarrow>
     frame list option list \<Rightarrow> devio_proto \<Rightarrow> 'w \<Rightarrow> 's \<Rightarrow>
     (int \<times> frame list list \<times> devio_proto \<times> 'w \<times> 's) option" where
  "s_devio_handle_protocol check_call ze [] proto w s = Some (0, [], proto, w, s)"
| "s_devio_handle_protocol check_call ze (wire # wires) proto w s =
     (let (err, proto1) = devio_proto_recv True False wire proto
      in if err \<noteq> DEVIO_SUCCESS then Some (-1, [], proto1, w, s)
         else do {
           (proto2, out, w', s') \<leftarrow> devio_serve_one check_call ze proto1 w s;
           (ret, outs, rest) \<leftarrow> s_devio_handle_protocol check_call ze wires proto2 w' s';
           Some (ret, out @ outs, rest) })"

text \<open>What \<open>devio_new\<close> sets up: a new table with all operations registered.\<close>

definition devio_new_table ::
  "'h zhashx \<Rightarrow> nat list \<Rightarrow> ('w, msg_args) dheap \<Rightarrow> (('h, 'w, msg_args) dstate option \<times> ('w, msg_args) dheap) option"
where
  "devio_new_table Z descs h = do {
     (T, h1) \<leftarrow> disp_table_new Z devio_disp_table_ops h;
     case T of
       None \<Rightarrow> Some (None, h1)
     | Some T0 \<Rightarrow> do {
         (err, T1, h2) \<leftarrow> disp_table_insert_all Z T0 descs h1;
         Some (if err = DISP_TABLE_SUCCESS then Some (Z, T1, h2) else None, h2) } }"

section \<open>Facts\<close>

subsection \<open>The registered operations\<close>

text \<open>The llio layer keeps the length of the buffers it fills.\<close>

definition llio_lens_ok :: "'s llio_ops \<Rightarrow> bool" where
  "llio_lens_ok ops \<longleftrightarrow> (\<forall>f offs sz b s r b' s'.
     (op_read_block ops = Some f \<or> op_read_dma ops = Some f) \<and> f offs sz b s = Some (r, b', s') \<longrightarrow>
     length b' = length b)"

lemma put_ret_length: "put_ret n v (Some b) = Some (Some b') \<Longrightarrow> length b' = length b"
  by (auto simp: put_ret_def bind_eq_Some_conv wr_word_length)

lemma server_read_ok: "func_ok (server_read n f)"
  by (auto simp: func_ok_def server_read_def bind_eq_Some_conv put_ret_length)

lemma server_write_ok: "func_ok (server_write n f)"
  by (auto simp: func_ok_def server_write_def bind_eq_Some_conv put_ret_length)

lemma write_block_generic_ok: "func_ok (s_thsafe_zmq_server_write_block_generic f)"
  by (auto simp: func_ok_def s_thsafe_zmq_server_write_block_generic_def bind_eq_Some_conv put_ret_length Let_def)

lemma server_ops_cases:
  assumes "op \<in> set (smio_thsafe_zmq_server_ops cast_ep ops)"
  shows "op = thsafe_zmq_server_open_exp cast_ep ops \<or> op = thsafe_zmq_server_release_exp cast_ep ops \<or>
    op = thsafe_zmq_server_read_16_exp ops \<or> op = thsafe_zmq_server_read_32_exp ops \<or>
    op = thsafe_zmq_server_read_64_exp ops \<or> op = thsafe_zmq_server_write_16_exp ops \<or>
    op = thsafe_zmq_server_write_32_exp ops \<or> op = thsafe_zmq_server_write_64_exp ops \<or>
    op = thsafe_zmq_server_read_block_exp ops \<or> op = thsafe_zmq_server_write_block_exp ops \<or>
    op = thsafe_zmq_server_read_dma_exp ops \<or> op = thsafe_zmq_server_write_dma_exp ops"
  using assms by (simp add: smio_thsafe_zmq_server_ops_def)

lemma read_block_ok: "llio_lens_ok ops \<Longrightarrow> func_ok (s_thsafe_zmq_server_read_block ops)"
  by (auto simp: func_ok_def s_thsafe_zmq_server_read_block_def s_thsafe_zmq_server_read_block_generic_def
      bind_eq_Some_conv llio_read_block_def llio_lens_ok_def split: option.splits) blast

lemma read_dma_ok: "llio_lens_ok ops \<Longrightarrow> func_ok (s_thsafe_zmq_server_read_dma ops)"
  by (auto simp: func_ok_def s_thsafe_zmq_server_read_dma_def s_thsafe_zmq_server_read_block_generic_def
      bind_eq_Some_conv llio_read_dma_def llio_lens_ok_def split: option.splits) blast

lemma open_ok: "func_ok (s_thsafe_zmq_server_open cast_ep ops)" "func_ok (s_thsafe_zmq_server_release cast_ep ops)"
  by (auto simp: func_ok_def s_thsafe_zmq_server_open_def s_thsafe_zmq_server_release_def
      bind_eq_Some_conv put_ret_length Let_def)

lemma server_func_ok:
  assumes "op \<in> set (smio_thsafe_zmq_server_ops cast_ep ops)" and "llio_lens_ok ops" and "func_fp op = Some f"
  shows "func_ok f"
  using server_ops_cases [OF assms(1)] assms(2,3)
  by (elim disjE) (auto simp: server_exps open_ok read_block_ok read_dma_ok
      s_thsafe_zmq_server_read_16_def s_thsafe_zmq_server_read_32_def s_thsafe_zmq_server_read_64_def
      s_thsafe_zmq_server_write_16_def s_thsafe_zmq_server_write_32_def s_thsafe_zmq_server_write_64_def
      s_thsafe_zmq_server_write_block_def s_thsafe_zmq_server_write_dma_def
      server_read_ok server_write_ok write_block_generic_ok)

definition SRV_CODES :: "u32 list" where "SRV_CODES = [0, 1, 2, 3, 4, 5, 6, 7, 8, 9, 10, 11]"

lemma server_codes: "map opcode (smio_thsafe_zmq_server_ops cast_ep ops) = SRV_CODES"
  by (simp add: smio_thsafe_zmq_server_ops_def server_exps opcodes SRV_CODES_def)

lemma server_codes_distinct: "distinct SRV_CODES"
  by (simp add: SRV_CODES_def)

lemmas srv_args = INT32_ARG_def UINT16_ARG_def UINT32_ARG_def UINT64_ARG_def SIZE_ARG_def STRUCT_0_ARG_def
  block_arg_def DISP_ARG_ENCODE_RAW_def DISP_GET_ASIZE_def DISP_GET_ATYPE_def atype_defs
  ZMQ_SERVER_DATA_BLOCK_DATA_SIZE_def ZMQ_SERVER_BLOCK_SIZE_def DISP_ARG_END_0

lemma server_needs_ret:
  assumes "op \<in> set (smio_thsafe_zmq_server_ops cast_ep ops)"
  shows "needs_ret op" and "retval op \<noteq> DISP_ARG_END"
  using server_ops_cases [OF assms]
  by (auto simp: server_exps needs_ret_def srv_args)

subsection \<open>A table ready to serve\<close>

definition thsafe_ready :: "(frame \<Rightarrow> llio_endpoint) \<Rightarrow> 'w llio_ops \<Rightarrow> ('h, 'w, msg_args) dstate \<Rightarrow> bool" where
  "thsafe_ready cast_ep ops s \<longleftrightarrow> dt_good s \<and> dt_table_ops s = devio_disp_table_ops \<and>
     (\<forall>op \<in> set (smio_thsafe_zmq_server_ops cast_ep ops). \<exists>b. dt_view s (opcode op) = Some (op, Some b) \<and>
        length b = unat (DISP_GET_ASIZE (retval op)))"

lemma new_table_ready:
  assumes Z: "zhashx_ok Z" "zh_new Z \<noteq> None" and h: "heap_wf h" "\<forall>n. hp_ok h n"
    and ps: "length ps = 12"
      "\<forall>(p, op) \<in> set (zip ps (smio_thsafe_zmq_server_ops cast_ep ops)). hp_mem h p = Some (BObj (OOp op))"
    and l: "llio_lens_ok ops"
  shows "\<exists>s h'. devio_new_table Z ps h = Some (Some s, h') \<and> thsafe_ready cast_ep ops s"
proof -
  let ?d = "smio_thsafe_zmq_server_ops cast_ep ops"
  have "length ps = length ?d" using ps(1) by (simp add: smio_thsafe_zmq_server_ops_def)
  moreover have "distinct (map opcode ?d)" unfolding server_codes by (rule server_codes_distinct)
  moreover have "\<forall>op \<in> set ?d. \<forall>f. func_fp op = Some f \<longrightarrow> func_ok f" using server_func_ok l by blast
  ultimately obtain T0 h0 T h' where t:
    "disp_table_new Z devio_disp_table_ops h = Some (Some T0, h0)"
    "disp_table_insert_all Z T0 ps h0 = Some (DISP_TABLE_SUCCESS, T, h')" "dt_good (Z, T, h')"
    "dt_table_ops (Z, T, h') = devio_disp_table_ops"
    "\<forall>op \<in> set ?d. \<exists>buf. dt_view (Z, T, h') (opcode op) = Some (op, buf) \<and>
      (if needs_ret op then \<exists>b. buf = Some b \<and> length b = unat (DISP_GET_ASIZE (retval op)) else buf = None)"
    using new_table_insert_all [OF Z h, of ps ?d devio_disp_table_ops] ps(2) by blast
  have "devio_new_table Z ps h = Some (Some (Z, T, h'), h')"
    using t(1,2) by (simp add: devio_new_table_def)
  moreover have "\<exists>b. dt_view (Z, T, h') (opcode op) = Some (op, Some b) \<and> length b = unat (DISP_GET_ASIZE (retval op))"
    if "op \<in> set ?d" for op
    using bspec [OF t(5) that] server_needs_ret(1) [OF that] by auto
  then have "thsafe_ready cast_ep ops (Z, T, h')"
    unfolding thsafe_ready_def using t(3,4) by blast
  ultimately show ?thesis by blast
qed

lemma thsafe_table: "thsafe_ready cast_ep ops s = table_ready devio_disp_table_ops (smio_thsafe_zmq_server_ops cast_ep ops) s"
  unfolding thsafe_ready_def table_ready_def op_buf_def using server_needs_ret(1) by fastforce

lemma ready_call:
  assumes "thsafe_ready cast_ep ops s" and "dt_call s k w a = Some (e, d, w', s')"
  shows "thsafe_ready cast_ep ops s'"
  using table_ready_call [OF assms(1) [unfolded thsafe_table] assms(2)] unfolding thsafe_table .

subsection \<open>One request\<close>

definition request :: "u32 \<Rightarrow> frame list \<Rightarrow> frame list" where
  "request opc fs = le_bytes 4 opc # fs"

lemma devio_checks: "table_checks devio_disp_table_ops ZMQ_SERVER_ARGS_TAG"
  by (auto simp: table_checks_def devio_disp_table_ops_def s_devio_check_msg_args_def ex_tags
      msg_check_gen_zmq_args_def check_args_iff)

lemma dt_call_accept:
  assumes r: "thsafe_ready cast_ep ops s" and op: "op \<in> set (smio_thsafe_zmq_server_ops cast_ep ops)"
    and fits: "list_all2 arg_fits (args op) fs" and f: "func_fp op = Some f"
    and run: "\<And>b. length b = unat (DISP_GET_ASIZE (retval op)) \<Longrightarrow>
      \<exists>w' nb. f w \<lparr>tag = ZMQ_SERVER_ARGS_TAG, content = fs\<rparr> (Some b) = Some (e, w', Some nb) \<and> P w' nb"
  shows "\<exists>w' nb s'. dt_call s (opcode op) w \<lparr>tag = ZMQ_SERVER_ARGS_TAG, content = fs\<rparr> = Some (e, Some nb, w', s') \<and>
    P w' nb \<and> thsafe_ready cast_ep ops s'"
  unfolding thsafe_table
  by (rule table_accept [OF r [unfolded thsafe_table] devio_checks op fits f server_needs_ret [OF op] run])

lemma dt_call_refuse:
  assumes r: "thsafe_ready cast_ep ops s" and op: "op \<in> set (smio_thsafe_zmq_server_ops cast_ep ops)"
    and fits: "\<not> list_all2 arg_fits (args op) fs"
  shows "\<exists>s'. dt_call s (opcode op) w \<lparr>tag = ZMQ_SERVER_ARGS_TAG, content = fs\<rparr> = Some (-1, None, w, s') \<and>
    thsafe_ready cast_ep ops s'"
  unfolding thsafe_table
  by (rule table_refuse [OF r [unfolded thsafe_table] devio_checks op fits])

text \<open>The request as the handler sees it, given what the table does with the rest.\<close>

lemma sock_request_call:
  assumes "dt_call s opc w \<lparr>tag = ZMQ_SERVER_ARGS_TAG, content = fs\<rparr> = Some (e, d, w', s')"
    and "- (2 ^ 31) < e" and "e < 2 ^ 31" and "reply_of e d = Some reply"
  shows "msg_handle_sock_request dt_call (\<lambda>_. True) \<lparr>tag = ZMQ_SERVER_ARGS_TAG, content = request opc fs\<rparr> w s =
    Some (MSG_SUCCESS, Some reply, w', s')"
  using assms(1) respond [OF assms(2,3), of d w' s'] assms(4)
  by (simp add: msg_handle_sock_request_def validate_ok ex_tags s_msg_thsafe_zmq_get_opcode_def
      gen_get_opcode request_def s_msg_send_client_response_sock_def del: dt_call.simps)

subsection \<open>Register requests\<close>

lemma fits_simps:
  "arg_fits UINT64_ARG f = (length f = 8)" "arg_fits UINT32_ARG f = (length f = 4)"
  "arg_fits STRUCT_0_ARG f = (length f = 4)"
  "unat (DISP_GET_ASIZE UINT32_ARG) = 4" "unat (DISP_GET_ASIZE INT32_ARG) = 4"
  by (simp_all add: arg_fits_def srv_args)

lemma put_ret_4: "length b = 4 \<Longrightarrow> put_ret 4 (v :: u32) (Some b) = Some (Some (le_bytes 4 v))"
  by (simp add: put_ret_def wr_word_def)

lemma rd_word_exact: "length b = n \<Longrightarrow> rd_word n b = Some (le_word b)"
  by (simp add: rd_word_def)

lemma frame_args:
  "THSAFE_MSG_ZMQ_FIRST_ARG \<lparr>tag = t, content = f # fs\<rparr> = Some f"
  "THSAFE_MSG_ZMQ_NEXT_ARG \<lparr>tag = t, content = f # g # fs\<rparr> = Some g"
  by (simp_all add: THSAFE_MSG_ZMQ_FIRST_ARG_def THSAFE_MSG_ZMQ_NEXT_ARG_def)

abbreviation llio_bus ::
  "'s llio_ops \<Rightarrow> ('s \<Rightarrow> u64 \<Rightarrow> u32) \<Rightarrow> ('s \<Rightarrow> bool) \<Rightarrow> (u64 \<Rightarrow> bool) \<Rightarrow> bool" where
  "llio_bus ops \<equiv> reg_bus (\<lambda>s a d. llio_read_32 ops a d s) (\<lambda>s a v. llio_write_32 ops a v s)"

text \<open>A register access of a client with routing id \<open>rid\<close>, its message on the wire, and what a
  plain memory answers.\<close>

datatype reg_req = Read_Req frame u64 | Write_Req frame u64 u32

fun req_wire :: "reg_req \<Rightarrow> frame list" where
  "req_wire (Read_Req rid a) = rid # request THSAFE_OPCODE_READ_32 [le_bytes 8 a]"
| "req_wire (Write_Req rid a v) = rid # request THSAFE_OPCODE_WRITE_32 [le_bytes 8 a, le_bytes 4 v]"

fun req_addr :: "reg_req \<Rightarrow> u64" where
  "req_addr (Read_Req rid a) = a"
| "req_addr (Write_Req rid a v) = a"

definition ok_reply :: "u32 \<Rightarrow> frame list" where
  "ok_reply v = [le_bytes 4 (0 :: u32), le_bytes 4 (4 :: u32), le_bytes 4 v]"

fun mem_step :: "reg_req \<Rightarrow> (u64 \<Rightarrow> u32) \<Rightarrow> frame list \<times> (u64 \<Rightarrow> u32)" where
  "mem_step (Read_Req rid a) m = (rid # ok_reply (m a), m)"
| "mem_step (Write_Req rid a v) m = (rid # ok_reply 4, m(a := v))"

fun mem_run :: "reg_req list \<Rightarrow> (u64 \<Rightarrow> u32) \<Rightarrow> frame list list \<times> (u64 \<Rightarrow> u32)" where
  "mem_run [] m = ([], m)"
| "mem_run (q # qs) m = (let (r, m1) = mem_step q m; (rs, m2) = mem_run qs m1 in (r # rs, m2))"

lemma mem_step_cong:
  assumes "mapped (req_addr q)" and "\<forall>b. mapped b \<longrightarrow> m' b = m b"
  shows "fst (mem_step q m') = fst (mem_step q m)"
    and "mapped b \<Longrightarrow> snd (mem_step q m') b = snd (mem_step q m) b"
  using assms by (cases q; simp)+

lemma mem_run_cong:
  assumes "\<forall>q \<in> set qs. mapped (req_addr q)" and "\<forall>b. mapped b \<longrightarrow> m' b = m b"
  shows "fst (mem_run qs m') = fst (mem_run qs m) \<and> (\<forall>b. mapped b \<longrightarrow> snd (mem_run qs m') b = snd (mem_run qs m) b)"
  using assms
proof (induction qs arbitrary: m m')
  case (Cons q qs)
  have q: "mapped (req_addr q)" using Cons.prems(1) by simp
  note e = mem_step_cong [where mapped = mapped, OF q Cons.prems(2)]
  from Cons.IH [of "snd (mem_step q m')" "snd (mem_step q m)"] Cons.prems(1) e show ?case
    by (simp add: Let_def split_beta)
qed simp

lemma reply_of_4: "reply_of 4 (Some (le_bytes 4 v)) = Some (ok_reply v)"
  by (simp add: reply_of_def ok_reply_def PARAM_OK_def)

lemma read_32_run:
  assumes bus: "llio_bus ops view good mapped" and g: "good w" and a: "mapped a" and b: "length b = 4"
  shows "\<exists>w' nb. s_thsafe_zmq_server_read_32 ops w \<lparr>tag = t, content = [le_bytes 8 a]\<rparr> (Some b) = Some (4, w', Some nb) \<and>
    good w' \<and> (\<forall>c. mapped c \<longrightarrow> view w' c = view w c) \<and> nb = le_bytes 4 (view w a)"
proof -
  from reg_bus.rd_view [OF bus g a, of "le_word b"] obtain w' where
    "llio_read_32 ops a (le_word b) w = Some (4, view w a, w')" "good w'" "\<forall>c. mapped c \<longrightarrow> view w' c = view w c"
    by blast
  with b show ?thesis
    by (simp add: s_thsafe_zmq_server_read_32_def server_read_def frame_args rd_word_exact put_ret_4 to_int32_id)
qed

lemma write_32_run:
  assumes bus: "llio_bus ops view good mapped" and g: "good w" and a: "mapped a" and b: "length b = 4"
  shows "\<exists>w' nb. s_thsafe_zmq_server_write_32 ops w \<lparr>tag = t, content = [le_bytes 8 a, le_bytes 4 v]\<rparr> (Some b) =
      Some (4, w', Some nb) \<and>
    good w' \<and> (\<forall>c. mapped c \<longrightarrow> view w' c = (if c = a then v else view w c)) \<and> nb = le_bytes 4 (4 :: u32)"
proof -
  from reg_bus.wr_view [OF bus g a, of v] obtain w' where
    "llio_write_32 ops a v w = Some (4, w')" "good w'" "\<forall>c. mapped c \<longrightarrow> view w' c = (if c = a then v else view w c)"
    by blast
  with b show ?thesis
    by (simp add: s_thsafe_zmq_server_write_32_def server_write_def frame_args rd_word_exact put_ret_4 to_int32_id)
qed

lemma server_ops_mem:
  "thsafe_zmq_server_read_32_exp ops \<in> set (smio_thsafe_zmq_server_ops cast_ep ops)"
  "thsafe_zmq_server_write_32_exp ops \<in> set (smio_thsafe_zmq_server_ops cast_ep ops)"
  "thsafe_zmq_server_open_exp cast_ep ops \<in> set (smio_thsafe_zmq_server_ops cast_ep ops)"
  "thsafe_zmq_server_release_exp cast_ep ops \<in> set (smio_thsafe_zmq_server_ops cast_ep ops)"
  by (simp_all add: smio_thsafe_zmq_server_ops_def)

lemma serve_reg_req:
  assumes r: "thsafe_ready cast_ep ops s" and bus: "llio_bus ops view good mapped" and g: "good w"
    and a: "mapped (req_addr q)"
  shows "\<exists>w' s'. msg_handle_sock_request dt_call (\<lambda>_. True)
      \<lparr>tag = ZMQ_SERVER_ARGS_TAG, content = tl (req_wire q)\<rparr> w s =
      Some (MSG_SUCCESS, Some (tl (fst (mem_step q (view w)))), w', s') \<and>
    thsafe_ready cast_ep ops s' \<and> good w' \<and> (\<forall>b. mapped b \<longrightarrow> view w' b = snd (mem_step q (view w)) b)"
proof (cases q)
  case (Read_Req rid a)
  have fits: "list_all2 arg_fits (args (thsafe_zmq_server_read_32_exp ops)) [le_bytes 8 a]"
    by (simp add: server_exps fits_simps)
  have f: "func_fp (thsafe_zmq_server_read_32_exp ops) = Some (s_thsafe_zmq_server_read_32 ops)"
    and sz: "unat (DISP_GET_ASIZE (retval (thsafe_zmq_server_read_32_exp ops))) = 4"
    and oc: "opcode (thsafe_zmq_server_read_32_exp ops) = THSAFE_OPCODE_READ_32"
    by (simp_all add: server_exps fits_simps)
  have "\<exists>w' nb s'. dt_call s (opcode (thsafe_zmq_server_read_32_exp ops)) w
        \<lparr>tag = ZMQ_SERVER_ARGS_TAG, content = [le_bytes 8 a]\<rparr> = Some (4, Some nb, w', s') \<and>
      (good w' \<and> (\<forall>c. mapped c \<longrightarrow> view w' c = view w c) \<and> nb = le_bytes 4 (view w a)) \<and>
      thsafe_ready cast_ep ops s'"
    by (rule dt_call_accept [OF r server_ops_mem(1) fits f, where
          P = "\<lambda>w' nb. good w' \<and> (\<forall>c. mapped c \<longrightarrow> view w' c = view w c) \<and> nb = le_bytes 4 (view w a)"])
      (rule read_32_run [OF bus g], use assms(4) Read_Req sz in simp_all)
  then obtain w' s' where c: "dt_call s THSAFE_OPCODE_READ_32 w
      \<lparr>tag = ZMQ_SERVER_ARGS_TAG, content = [le_bytes 8 a]\<rparr> = Some (4, Some (le_bytes 4 (view w a)), w', s')"
    "good w'" "\<forall>c. mapped c \<longrightarrow> view w' c = view w c" "thsafe_ready cast_ep ops s'" unfolding oc by blast
  from sock_request_call [OF c(1) _ _ reply_of_4] c(2-) show ?thesis by (simp add: Read_Req)
next
  case (Write_Req rid a v)
  have fits: "list_all2 arg_fits (args (thsafe_zmq_server_write_32_exp ops)) [le_bytes 8 a, le_bytes 4 v]"
    by (simp add: server_exps fits_simps)
  have f: "func_fp (thsafe_zmq_server_write_32_exp ops) = Some (s_thsafe_zmq_server_write_32 ops)"
    and sz: "unat (DISP_GET_ASIZE (retval (thsafe_zmq_server_write_32_exp ops))) = 4"
    and oc: "opcode (thsafe_zmq_server_write_32_exp ops) = THSAFE_OPCODE_WRITE_32"
    by (simp_all add: server_exps fits_simps)
  have "\<exists>w' nb s'. dt_call s (opcode (thsafe_zmq_server_write_32_exp ops)) w
        \<lparr>tag = ZMQ_SERVER_ARGS_TAG, content = [le_bytes 8 a, le_bytes 4 v]\<rparr> = Some (4, Some nb, w', s') \<and>
      (good w' \<and> (\<forall>c. mapped c \<longrightarrow> view w' c = (if c = a then v else view w c)) \<and> nb = le_bytes 4 (4 :: u32)) \<and>
      thsafe_ready cast_ep ops s'"
    by (rule dt_call_accept [OF r server_ops_mem(2) fits f, where P = "\<lambda>w' nb. good w' \<and>
          (\<forall>c. mapped c \<longrightarrow> view w' c = (if c = a then v else view w c)) \<and> nb = le_bytes 4 (4 :: u32)"])
      (rule write_32_run [OF bus g], use assms(4) Write_Req sz in simp_all)
  then obtain w' s' where c: "dt_call s THSAFE_OPCODE_WRITE_32 w
      \<lparr>tag = ZMQ_SERVER_ARGS_TAG, content = [le_bytes 8 a, le_bytes 4 v]\<rparr> = Some (4, Some (le_bytes 4 (4 :: u32)), w', s')"
    "good w'" "\<forall>c. mapped c \<longrightarrow> view w' c = (if c = a then v else view w c)" "thsafe_ready cast_ep ops s'"
    unfolding oc by blast
  from sock_request_call [OF c(1) _ _ reply_of_4] c(2-) show ?thesis by (simp add: Write_Req)
qed

text \<open>The whole queue: atomically, in order, every reply to the client that asked.\<close>

lemma handle_protocol_run:
  assumes bus: "llio_bus ops view good mapped"
  shows "thsafe_ready cast_ep ops s \<Longrightarrow> good w \<Longrightarrow> \<forall>q \<in> set qs. mapped (req_addr q) \<Longrightarrow>
    \<exists>proto' w' s'. s_devio_handle_protocol dt_call (\<lambda>_. True) (map (\<lambda>q. Some (req_wire q)) qs) proto w s =
        Some (0, fst (mem_run qs (view w)), proto', w', s') \<and>
      thsafe_ready cast_ep ops s' \<and> good w' \<and> (\<forall>b. mapped b \<longrightarrow> view w' b = snd (mem_run qs (view w)) b)"
proof (induction qs arbitrary: proto w s)
  case (Cons q qs)
  obtain rid fs where q: "req_wire q = rid # fs" "fs \<noteq> []" "fst (mem_step q (view w)) = rid # tl (fst (mem_step q (view w)))"
    by (cases q) (auto simp: request_def)
  have m: "mapped (req_addr q)" "\<forall>q \<in> set qs. mapped (req_addr q)" using Cons.prems(3) by simp_all
  from serve_reg_req [OF Cons.prems(1) bus Cons.prems(2) m(1)] q(1) obtain w1 s1 where
    h: "msg_handle_sock_request dt_call (\<lambda>_. True) \<lparr>tag = ZMQ_SERVER_ARGS_TAG, content = fs\<rparr> w s =
      Some (MSG_SUCCESS, Some (tl (fst (mem_step q (view w)))), w1, s1)"
    "thsafe_ready cast_ep ops s1" "good w1" "\<forall>b. mapped b \<longrightarrow> view w1 b = snd (mem_step q (view w)) b" by auto
  define p1 where "p1 = proto\<lparr>routing_id := Some rid, proto_content := Some fs\<rparr>"
  define p2 where "p2 = p1\<lparr>proto_content := Some (tl (fst (mem_step q (view w))))\<rparr>"
  have recv: "devio_proto_recv True False (Some (req_wire q)) proto = (DEVIO_SUCCESS, p1)"
    using q by (simp add: devio_proto_recv_def p1_def)
  have one: "devio_serve_one dt_call (\<lambda>_. True) p1 w s = Some (p2, [fst (mem_step q (view w))], w1, s1)"
    using h(1) q(3) by (simp add: devio_serve_one_def devio_proto_get_content_def s_devio_do_smio_op_def
        devio_proto_set_content_move_def devio_proto_send_def p1_def p2_def)
  from Cons.IH [OF h(2,3) m(2), of p2] obtain proto' w' s' where
    i: "s_devio_handle_protocol dt_call (\<lambda>_. True) (map (\<lambda>q. Some (req_wire q)) qs) p2 w1 s1 =
      Some (0, fst (mem_run qs (view w1)), proto', w', s')"
    "thsafe_ready cast_ep ops s'" "good w'" "\<forall>b. mapped b \<longrightarrow> view w' b = snd (mem_run qs (view w1)) b" by blast
  have "fst (mem_run qs (view w1)) = fst (mem_run qs (snd (mem_step q (view w)))) \<and>
      (\<forall>b. mapped b \<longrightarrow> snd (mem_run qs (view w1)) b = snd (mem_run qs (snd (mem_step q (view w)))) b)"
    by (rule mem_run_cong [OF m(2)]) (use h(4) in blast)
  with recv one i show ?case by (simp add: Let_def split_beta)
qed simp

end
