(* ===== verification/Thsafe_Client.thy ===== *)
theory Thsafe_Client
  imports Thsafe_Server
begin

text \<open>
  src/msg/smio_thsafe_ops/smio_thsafe_zmq_client.c: how a module instance reaches the device: each
  llio operation becomes a request to the device server over a socket and its reply is decoded.
  The wrappers of src/sm_io/sm_io.c add the base address of the instance.

  The socket is a record of what the code does with it, over a state \<open>'p\<close> of whatever is behind:
  sending gives a status, receiving a message or null (interrupted, or the receive timeout of the
  socket has passed). \<open>ze 0\<close> is the outcome of \<open>zmsg_new\<close>, \<open>ze n\<close> that of the \<open>n\<close>-th
  \<open>zmsg_addmem\<close>. Data pointers are buffers of bytes; a read gives the buffer afterwards.
\<close>

section \<open>The socket\<close>

record 'p sock =
  sock_send :: "frame list \<Rightarrow> 'p \<Rightarrow> (int \<times> 'p) option"
  sock_recv :: "'p \<Rightarrow> frame list option \<times> 'p"

definition THSAFE_REPLY_SIZE :: nat where "THSAFE_REPLY_SIZE = 4"
definition THSAFE_RETURN_SIZE :: nat where "THSAFE_RETURN_SIZE = 4"
definition THSAFE_OK :: u32 where "THSAFE_OK = 0"
definition THSAFE_READ_16_DSIZE :: u32 where "THSAFE_READ_16_DSIZE = 2"
definition THSAFE_READ_32_DSIZE :: u32 where "THSAFE_READ_32_DSIZE = 4"
definition THSAFE_READ_64_DSIZE :: u32 where "THSAFE_READ_64_DSIZE = 8"

lemmas dsizes = THSAFE_READ_16_DSIZE_def THSAFE_READ_32_DSIZE_def THSAFE_READ_64_DSIZE_def

section \<open>Requests and replies\<close>

text \<open>The data frame of a write, the third of its message: \<open>sz\<close> bytes read through a pointer, if the
  two frames before it could be added.\<close>

definition addmem :: "(nat \<Rightarrow> bool) \<Rightarrow> nat \<Rightarrow> u8 list \<Rightarrow> frame option" where
  "addmem ze sz data =
     (if \<not> ze 0 \<or> \<not> ze 1 \<or> \<not> ze 2 then Some []
      else if length data < sz then None else Some (take sz data))"

text \<open>Building a message of the given frames, up to the first that fails.\<close>

definition build_msg :: "(nat \<Rightarrow> bool) \<Rightarrow> frame list \<Rightarrow> frame list option" where
  "build_msg ze frames = (if ze 0 \<and> (\<forall>i < length frames. ze (i + 1)) then Some frames else None)"

text \<open>The confirmation: the message if its first frame holds \<open>THSAFE_OK\<close>, else null.\<close>

definition s_thsafe_zmq_client_recv_confirmation :: "'p sock \<Rightarrow> 'p \<Rightarrow> frame list option \<times> 'p" where
  "s_thsafe_zmq_client_recv_confirmation S p =
     (let (recv_msg, p') = sock_recv S p
      in (case recv_msg of
            Some (reply_frame # rest) \<Rightarrow>
              if length reply_frame \<noteq> THSAFE_REPLY_SIZE then None
              else if (le_word reply_frame :: u32) \<noteq> THSAFE_OK then None
              else Some (reply_frame # rest)
          | _ \<Rightarrow> None, p'))"

text \<open>The rest of a reply: return code and data. \<open>memcpy\<close> into a short buffer is undefined.\<close>

definition s_thsafe_zmq_client_recv_rw ::
  "'p sock \<Rightarrow> u8 list \<Rightarrow> u32 \<Rightarrow> bool \<Rightarrow> 'p \<Rightarrow> (int \<times> u8 list \<times> 'p) option" where
  "s_thsafe_zmq_client_recv_rw S data sz accept_empty_data p =
     (let (recv_msg, p') = s_thsafe_zmq_client_recv_confirmation S p
      in case recv_msg of
           None \<Rightarrow> Some (-1, data, p')
         | Some frames \<Rightarrow>
             (case drop 1 frames of
                [] \<Rightarrow> Some (if accept_empty_data then 0 else -1, data, p')
              | return_frame # rest \<Rightarrow>
                  if length return_frame \<noteq> THSAFE_RETURN_SIZE then Some (-1, data, p')
                  else (case rest of
                     [] \<Rightarrow> Some (-1, data, p')
                   | data_frame # _ \<Rightarrow>
                       let ret_frame_size = sint (le_word return_frame :: u32)
                       in if \<not> (0 \<le> ret_frame_size \<and> nat ret_frame_size = length data_frame)
                          then Some (-1, data, p')
                          else if length data_frame < unat sz then Some (-1, data, p')
                          else if length data < unat sz then None
                          else Some (uint sz, take (unat sz) data_frame @ drop (unat sz) data, p'))))"

text \<open>Sending a request; \<open>None\<close> in the first component when the message could not be sent.\<close>

definition send_request :: "'p sock \<Rightarrow> (nat \<Rightarrow> bool) \<Rightarrow> frame list \<Rightarrow> 'p \<Rightarrow> (bool \<times> 'p) option" where
  "send_request S ze frames p =
     (case build_msg ze frames of
        None \<Rightarrow> Some (False, p)
      | Some m \<Rightarrow> do { (zerr, p') \<leftarrow> sock_send S m p; Some (zerr = 0, p') })"

section \<open>The operations\<close>

text \<open>The result is the reply code itself, which the confirmation has found to be \<open>THSAFE_OK\<close>; the
  return code of the operation is not looked at.\<close>

definition s_thsafe_zmq_client_open_release ::
  "'p sock \<Rightarrow> (nat \<Rightarrow> bool) \<Rightarrow> u32 \<Rightarrow> 'p \<Rightarrow> (int \<times> 'p) option" where
  "s_thsafe_zmq_client_open_release S ze opc p = do {
     (sent, p1) \<leftarrow> send_request S ze [le_bytes 4 opc, []] p;
     if \<not> sent then Some (-1, p1)
     else let (recv_msg, p2) = s_thsafe_zmq_client_recv_confirmation S p1
       in case recv_msg of
            Some (ret_code_frame # _) \<Rightarrow>
              Some (if length ret_code_frame = THSAFE_REPLY_SIZE
                    then sint (le_word ret_code_frame :: u32) else -1, p2)
          | _ \<Rightarrow> Some (-1, p2) }"

definition thsafe_zmq_client_open ::
  "'p sock \<Rightarrow> (nat \<Rightarrow> bool) \<Rightarrow> llio_endpoint option \<Rightarrow> 'p \<Rightarrow> (int \<times> 'p) option" where
  "thsafe_zmq_client_open S ze ep p = s_thsafe_zmq_client_open_release S ze THSAFE_OPCODE_OPEN p"

definition thsafe_zmq_client_release ::
  "'p sock \<Rightarrow> (nat \<Rightarrow> bool) \<Rightarrow> llio_endpoint option \<Rightarrow> 'p \<Rightarrow> (int \<times> 'p) option" where
  "thsafe_zmq_client_release S ze ep p = s_thsafe_zmq_client_open_release S ze THSAFE_OPCODE_RELEASE p"

definition s_thsafe_zmq_client_read_generic ::
  "'p sock \<Rightarrow> (nat \<Rightarrow> bool) \<Rightarrow> u64 \<Rightarrow> u8 list \<Rightarrow> u32 \<Rightarrow> 'p \<Rightarrow> (int \<times> u8 list \<times> 'p) option" where
  "s_thsafe_zmq_client_read_generic S ze offs data sz p = do {
     let opc = (if sz = THSAFE_READ_16_DSIZE then THSAFE_OPCODE_READ_16
       else if sz = THSAFE_READ_32_DSIZE then THSAFE_OPCODE_READ_32
       else if sz = THSAFE_READ_64_DSIZE then THSAFE_OPCODE_READ_64
       else THSAFE_OPCODE_READ_32);
     (sent, p1) \<leftarrow> send_request S ze [le_bytes 4 opc, le_bytes 8 offs] p;
     if \<not> sent then Some (-1, data, p1)
     else s_thsafe_zmq_client_recv_rw S data sz True p1 }"

text \<open>The value received is an \<open>uint32_t\<close> and is returned as \<open>ssize_t\<close>.\<close>

definition write_result :: "'p sock \<Rightarrow> 'p \<Rightarrow> (int \<times> 'p) option" where
  "write_result S p = do {
     (ret_size, ret_data, p') \<leftarrow> s_thsafe_zmq_client_recv_rw S (le_bytes 4 (0 :: u32)) 4 False p;
     Some (if ret_size = 4 then ssize_of_u32 (le_word ret_data) else -1, p') }"

definition s_thsafe_zmq_client_write_generic ::
  "'p sock \<Rightarrow> (nat \<Rightarrow> bool) \<Rightarrow> u64 \<Rightarrow> u8 list \<Rightarrow> u32 \<Rightarrow> 'p \<Rightarrow> (int \<times> 'p) option" where
  "s_thsafe_zmq_client_write_generic S ze offs data sz p = do {
     let opc = (if sz = THSAFE_READ_16_DSIZE then THSAFE_OPCODE_WRITE_16
       else if sz = THSAFE_READ_32_DSIZE then THSAFE_OPCODE_WRITE_32
       else if sz = THSAFE_READ_64_DSIZE then THSAFE_OPCODE_WRITE_64
       else THSAFE_OPCODE_WRITE_32);
     d \<leftarrow> addmem ze (unat sz) data;
     (sent, p1) \<leftarrow> send_request S ze [le_bytes 4 opc, le_bytes 8 offs, d] p;
     if \<not> sent then Some (-1, p1) else write_result S p1 }"

definition thsafe_zmq_client_read_16 ::
  "'p sock \<Rightarrow> (nat \<Rightarrow> bool) \<Rightarrow> u64 \<Rightarrow> u8 list \<Rightarrow> 'p \<Rightarrow> (int \<times> u8 list \<times> 'p) option" where
  "thsafe_zmq_client_read_16 S ze offs data p =
     s_thsafe_zmq_client_read_generic S ze offs data THSAFE_READ_16_DSIZE p"

definition thsafe_zmq_client_read_32 ::
  "'p sock \<Rightarrow> (nat \<Rightarrow> bool) \<Rightarrow> u64 \<Rightarrow> u8 list \<Rightarrow> 'p \<Rightarrow> (int \<times> u8 list \<times> 'p) option" where
  "thsafe_zmq_client_read_32 S ze offs data p =
     s_thsafe_zmq_client_read_generic S ze offs data THSAFE_READ_32_DSIZE p"

definition thsafe_zmq_client_read_64 ::
  "'p sock \<Rightarrow> (nat \<Rightarrow> bool) \<Rightarrow> u64 \<Rightarrow> u8 list \<Rightarrow> 'p \<Rightarrow> (int \<times> u8 list \<times> 'p) option" where
  "thsafe_zmq_client_read_64 S ze offs data p =
     s_thsafe_zmq_client_read_generic S ze offs data THSAFE_READ_64_DSIZE p"

definition thsafe_zmq_client_write_16 ::
  "'p sock \<Rightarrow> (nat \<Rightarrow> bool) \<Rightarrow> u64 \<Rightarrow> u8 list \<Rightarrow> 'p \<Rightarrow> (int \<times> 'p) option" where
  "thsafe_zmq_client_write_16 S ze offs data p =
     s_thsafe_zmq_client_write_generic S ze offs data THSAFE_READ_16_DSIZE p"

definition thsafe_zmq_client_write_32 ::
  "'p sock \<Rightarrow> (nat \<Rightarrow> bool) \<Rightarrow> u64 \<Rightarrow> u8 list \<Rightarrow> 'p \<Rightarrow> (int \<times> 'p) option" where
  "thsafe_zmq_client_write_32 S ze offs data p =
     s_thsafe_zmq_client_write_generic S ze offs data THSAFE_READ_32_DSIZE p"

definition thsafe_zmq_client_write_64 ::
  "'p sock \<Rightarrow> (nat \<Rightarrow> bool) \<Rightarrow> u64 \<Rightarrow> u8 list \<Rightarrow> 'p \<Rightarrow> (int \<times> 'p) option" where
  "thsafe_zmq_client_write_64 S ze offs data p =
     s_thsafe_zmq_client_write_generic S ze offs data THSAFE_READ_64_DSIZE p"

text \<open>The size is cut to 32 bits when the reply is received.\<close>

definition s_thsafe_zmq_client_read_block_generic ::
  "'p sock \<Rightarrow> (nat \<Rightarrow> bool) \<Rightarrow> u32 \<Rightarrow> u64 \<Rightarrow> u64 \<Rightarrow> u8 list \<Rightarrow> 'p \<Rightarrow> (int \<times> u8 list \<times> 'p) option" where
  "s_thsafe_zmq_client_read_block_generic S ze opc offs sz data p = do {
     (sent, p1) \<leftarrow> send_request S ze [le_bytes 4 opc, le_bytes 8 offs, le_bytes 8 sz] p;
     if \<not> sent then Some (-1, data, p1)
     else s_thsafe_zmq_client_recv_rw S data (ucast sz) True p1 }"

definition s_thsafe_zmq_client_write_block_generic ::
  "'p sock \<Rightarrow> (nat \<Rightarrow> bool) \<Rightarrow> u32 \<Rightarrow> u64 \<Rightarrow> u64 \<Rightarrow> u8 list \<Rightarrow> 'p \<Rightarrow> (int \<times> 'p) option" where
  "s_thsafe_zmq_client_write_block_generic S ze opc offs sz data p = do {
     d \<leftarrow> addmem ze (unat sz) data;
     (sent, p1) \<leftarrow> send_request S ze [le_bytes 4 opc, le_bytes 8 offs, d] p;
     if \<not> sent then Some (-1, p1) else write_result S p1 }"

definition thsafe_zmq_client_read_block ::
  "'p sock \<Rightarrow> (nat \<Rightarrow> bool) \<Rightarrow> u64 \<Rightarrow> u64 \<Rightarrow> u8 list \<Rightarrow> 'p \<Rightarrow> (int \<times> u8 list \<times> 'p) option" where
  "thsafe_zmq_client_read_block S ze offs sz data p =
     s_thsafe_zmq_client_read_block_generic S ze THSAFE_OPCODE_READ_BLOCK offs sz data p"

definition thsafe_zmq_client_write_block ::
  "'p sock \<Rightarrow> (nat \<Rightarrow> bool) \<Rightarrow> u64 \<Rightarrow> u64 \<Rightarrow> u8 list \<Rightarrow> 'p \<Rightarrow> (int \<times> 'p) option" where
  "thsafe_zmq_client_write_block S ze offs sz data p =
     s_thsafe_zmq_client_write_block_generic S ze THSAFE_OPCODE_WRITE_BLOCK offs sz data p"

definition thsafe_zmq_client_read_dma ::
  "'p sock \<Rightarrow> (nat \<Rightarrow> bool) \<Rightarrow> u64 \<Rightarrow> u64 \<Rightarrow> u8 list \<Rightarrow> 'p \<Rightarrow> (int \<times> u8 list \<times> 'p) option" where
  "thsafe_zmq_client_read_dma S ze offs sz data p =
     s_thsafe_zmq_client_read_block_generic S ze THSAFE_OPCODE_READ_DMA offs sz data p"

definition thsafe_zmq_client_write_dma ::
  "'p sock \<Rightarrow> (nat \<Rightarrow> bool) \<Rightarrow> u64 \<Rightarrow> u64 \<Rightarrow> u8 list \<Rightarrow> 'p \<Rightarrow> (int \<times> 'p) option" where
  "thsafe_zmq_client_write_dma S ze offs sz data p =
     s_thsafe_zmq_client_write_block_generic S ze THSAFE_OPCODE_WRITE_DMA offs sz data p"

section \<open>Facts\<close>

text \<open>The device server behind a socket with routing id \<open>rid\<close>: the router adds the id to what is
  sent and takes it off the replies, which wait in a queue. An empty queue is a timeout.\<close>

type_synonym ('h, 'w) devio_peer = "'w \<times> ('h, 'w, msg_args) dstate \<times> devio_proto \<times> frame list list"

fun devio_deliver :: "frame \<Rightarrow> frame list \<Rightarrow> ('h, 'w) devio_peer \<Rightarrow> (int \<times> ('h, 'w) devio_peer) option" where
  "devio_deliver rid m (w, s, proto, q) =
     map_option (\<lambda>(ret, outs, proto', w', s'). (0, (w', s', proto', q @ map tl outs)))
       (s_devio_handle_protocol dt_call (\<lambda>_. True) [Some (rid # m)] proto w s)"

fun devio_reply :: "('h, 'w) devio_peer \<Rightarrow> frame list option \<times> ('h, 'w) devio_peer" where
  "devio_reply (w, s, proto, []) = (None, (w, s, proto, []))"
| "devio_reply (w, s, proto, m # q) = (Some m, (w, s, proto, q))"

definition devio_sock :: "frame \<Rightarrow> ('h, 'w) devio_peer sock" where
  "devio_sock rid = \<lparr>sock_send = devio_deliver rid, sock_recv = devio_reply\<rparr>"

subsection \<open>Decoding replies\<close>

lemma le_word_4 [simp]: "le_word (le_bytes 4 (v :: u32)) = v"
  by simp

text \<open>What the client makes of the reply to a call that returned \<open>e\<close> with the bytes \<open>d\<close>.\<close>

lemma recv_rw_reply:
  assumes r: "reply_of e d = Some m" and e: "- (2 ^ 31) < e" "e < 2 ^ 31"
    and s: "sock_recv S p = (Some m, p')" and len: "unat sz \<le> length data"
  shows "s_thsafe_zmq_client_recv_rw S data sz acc p =
    Some (if e < 0 then (-1, data, p')
          else if e = 0 then (if acc then 0 else -1, data, p')
          else if e < uint sz then (-1, data, p')
          else (uint sz, take (unat sz) (the d) @ drop (unat sz) data, p'))"
proof -
  consider (neg) "e < 0" | (zero) "e = 0" | (pos) "0 < e" by linarith
  then show ?thesis
  proof cases
    case neg
    obtain k where k: "\<bar>e\<bar> = k" "0 < k" "k < 2 ^ 31" using neg e by auto
    then have "uint (word_of_int k :: u32) = k" by (simp add: unsigned_of_int take_bit_int_eq_self)
    then have "(word_of_int k :: u32) \<noteq> 0" using k(2) by auto
    moreover have "m = [le_bytes 4 (word_of_int k :: u32)]"
      using r neg k(1) by (simp add: reply_of_def)
    ultimately show ?thesis
      using neg s by (simp add: s_thsafe_zmq_client_recv_rw_def s_thsafe_zmq_client_recv_confirmation_def
          THSAFE_REPLY_SIZE_def THSAFE_OK_def)
  next
    case zero
    with r s show ?thesis
      by (auto simp: reply_of_def s_thsafe_zmq_client_recv_rw_def s_thsafe_zmq_client_recv_confirmation_def
          THSAFE_REPLY_SIZE_def THSAFE_OK_def)
  next
    case pos
    then obtain b where b: "d = Some b" "e \<le> int (length b)"
      "m = [le_bytes 4 PARAM_OK, le_bytes 4 (word_of_int e :: u32), take (nat e) b]"
      using r by (auto simp: reply_of_def bind_eq_Some_conv split: if_splits)
    have sint: "sint (word_of_int e :: u32) = e"
      using pos e by (simp add: sint_sbintrunc' signed_take_bit_int_eq_self)
    have le: "length (take (nat e) b) = nat e" using b(2) by simp
    have "(nat e < unat sz) = (e < uint sz)" using pos by (metis nat_less_iff uint_nat less_imp_le zless_nat_conj nat_int zless_nat_eq_int_zless)
    moreover have "take (unat sz) (take (nat e) b) = take (unat sz) b" if "unat sz \<le> nat e"
      using that by simp
    ultimately show ?thesis
      using pos b s sint le len
      by (auto simp: s_thsafe_zmq_client_recv_rw_def s_thsafe_zmq_client_recv_confirmation_def Let_def
          THSAFE_REPLY_SIZE_def THSAFE_RETURN_SIZE_def THSAFE_OK_def PARAM_OK_def)
  qed
qed

lemma send_ok: "send_request (devio_sock rid) (\<lambda>_. True) fs p = map_option (\<lambda>(z, p'). (z = 0, p')) (devio_deliver rid fs p)"
  by (cases "devio_deliver rid fs p") (auto simp: send_request_def build_msg_def devio_sock_def)

lemma dsizes_unat [simp]:
  "unat THSAFE_READ_16_DSIZE = 2" "unat THSAFE_READ_32_DSIZE = 4" "unat THSAFE_READ_64_DSIZE = 8"
  by (simp_all add: dsizes)

subsection \<open>Register accesses\<close>

lemma recv_ok_reply:
  assumes "sock_recv S p = (Some (ok_reply v), p')" and "4 \<le> length data"
  shows "s_thsafe_zmq_client_recv_rw S data 4 acc p = Some (4, le_bytes 4 v @ drop 4 data, p')"
  using recv_rw_reply [OF reply_of_4 _ _ assms(1), of 4 data acc] assms(2) by simp

lemma client_read_32:
  assumes r: "thsafe_ready cast_ep ops s" and bus: "llio_bus ops view good mapped" and g: "good w"
    and a: "mapped a" and len: "4 \<le> length data"
  shows "\<exists>w' s' proto'. thsafe_zmq_client_read_32 (devio_sock rid) (\<lambda>_. True) a data (w, s, proto, []) =
      Some (4, le_bytes 4 (view w a) @ drop 4 data, (w', s', proto', [])) \<and>
    thsafe_ready cast_ep ops s' \<and> good w' \<and> (\<forall>b. mapped b \<longrightarrow> view w' b = view w b)"
proof -
  have q: "\<forall>q \<in> set [Read_Req rid a]. mapped (req_addr q)" using a by simp
  from handle_protocol_run [OF bus r g q, of proto] obtain proto' w' s' where
    h: "s_devio_handle_protocol dt_call (\<lambda>_. True) [Some (rid # request THSAFE_OPCODE_READ_32 [le_bytes 8 a])] proto w s =
      Some (0, [rid # ok_reply (view w a)], proto', w', s')"
    "thsafe_ready cast_ep ops s'" "good w'" "\<forall>b. mapped b \<longrightarrow> view w' b = view w b" by auto
  have d: "devio_deliver rid [le_bytes 4 THSAFE_OPCODE_READ_32, le_bytes 8 a] (w, s, proto, []) =
      Some (0, (w', s', proto', [ok_reply (view w a)]))" using h(1) by (simp add: request_def)
  have c: "s_thsafe_zmq_client_recv_rw (devio_sock rid) data THSAFE_READ_32_DSIZE True (w', s', proto', [ok_reply (view w a)]) =
      Some (4, le_bytes 4 (view w a) @ drop 4 data, (w', s', proto', []))"
    using recv_ok_reply [of "devio_sock rid" "(w', s', proto', [ok_reply (view w a)])"] len
    by (simp add: devio_sock_def dsizes)
  have "thsafe_zmq_client_read_32 (devio_sock rid) (\<lambda>_. True) a data (w, s, proto, []) =
      Some (4, le_bytes 4 (view w a) @ drop 4 data, (w', s', proto', []))"
    unfolding thsafe_zmq_client_read_32_def s_thsafe_zmq_client_read_generic_def send_ok
    using d c by (simp add: dsizes del: devio_deliver.simps)
  with h(2-) show ?thesis by blast
qed

lemma client_write_32:
  assumes r: "thsafe_ready cast_ep ops s" and bus: "llio_bus ops view good mapped" and g: "good w"
    and a: "mapped a"
  shows "\<exists>w' s' proto'. thsafe_zmq_client_write_32 (devio_sock rid) (\<lambda>_. True) a (le_bytes 4 v) (w, s, proto, []) =
      Some (4, (w', s', proto', [])) \<and>
    thsafe_ready cast_ep ops s' \<and> good w' \<and> (\<forall>b. mapped b \<longrightarrow> view w' b = (if b = a then v else view w b))"
proof -
  have q: "\<forall>q \<in> set [Write_Req rid a v]. mapped (req_addr q)" using a by simp
  from handle_protocol_run [OF bus r g q, of proto] obtain proto' w' s' where
    h: "s_devio_handle_protocol dt_call (\<lambda>_. True)
        [Some (rid # request THSAFE_OPCODE_WRITE_32 [le_bytes 8 a, le_bytes 4 v])] proto w s =
      Some (0, [rid # ok_reply 4], proto', w', s')"
    "thsafe_ready cast_ep ops s'" "good w'" "\<forall>b. mapped b \<longrightarrow> view w' b = (if b = a then v else view w b)" by auto
  have d: "devio_deliver rid [le_bytes 4 THSAFE_OPCODE_WRITE_32, le_bytes 8 a, le_bytes 4 v] (w, s, proto, []) =
      Some (0, (w', s', proto', [ok_reply 4]))" using h(1) by (simp add: request_def)
  have c: "write_result (devio_sock rid) (w', s', proto', [ok_reply 4]) = Some (4, (w', s', proto', []))"
    using recv_ok_reply [of "devio_sock rid" "(w', s', proto', [ok_reply 4])" 4 _ "le_bytes 4 (0 :: u32)" False]
    by (simp add: write_result_def devio_sock_def ssize_of_u32_def)
  have "thsafe_zmq_client_write_32 (devio_sock rid) (\<lambda>_. True) a (le_bytes 4 v) (w, s, proto, []) =
      Some (4, (w', s', proto', []))"
    unfolding thsafe_zmq_client_write_32_def s_thsafe_zmq_client_write_generic_def send_ok addmem_def
    using d c by (simp add: dsizes del: devio_deliver.simps)
  with h(2-) show ?thesis by blast
qed

text \<open>So the client is a register bus again.\<close>

definition client_rd :: "frame \<Rightarrow> ('h, 'w) devio_peer \<Rightarrow> u64 \<Rightarrow> u32 \<Rightarrow> (int \<times> u32 \<times> ('h, 'w) devio_peer) option" where
  "client_rd rid p a d = map_option (\<lambda>(r, b, p'). (r, le_word b, p'))
     (thsafe_zmq_client_read_32 (devio_sock rid) (\<lambda>_. True) a (le_bytes 4 d) p)"

definition client_wr :: "frame \<Rightarrow> ('h, 'w) devio_peer \<Rightarrow> u64 \<Rightarrow> u32 \<Rightarrow> (int \<times> ('h, 'w) devio_peer) option" where
  "client_wr rid p a v = thsafe_zmq_client_write_32 (devio_sock rid) (\<lambda>_. True) a (le_bytes 4 v) p"

fun client_view :: "('w \<Rightarrow> u64 \<Rightarrow> u32) \<Rightarrow> ('h, 'w) devio_peer \<Rightarrow> u64 \<Rightarrow> u32" where
  "client_view view (w, s, proto, q) = view w"

fun client_good :: "(frame \<Rightarrow> llio_endpoint) \<Rightarrow> 'w llio_ops \<Rightarrow> ('w \<Rightarrow> bool) \<Rightarrow> ('h, 'w) devio_peer \<Rightarrow> bool" where
  "client_good cast_ep ops good (w, s, proto, q) \<longleftrightarrow> good w \<and> thsafe_ready cast_ep ops s \<and> q = []"

lemma client_bus:
  assumes bus: "llio_bus ops view good mapped"
  shows "reg_bus (client_rd rid) (client_wr rid) (client_view view) (client_good cast_ep ops good) mapped"
proof
  fix p a and d :: u32
  assume "client_good cast_ep ops good p" and a: "mapped a"
  then obtain w s proto where p: "p = (w, s, proto, [])" "good w" "thsafe_ready cast_ep ops s"
    by (cases p) auto
  from client_read_32 [OF p(3) bus p(2) a, of "le_bytes 4 d" rid proto] obtain w' s' proto' where
    "thsafe_zmq_client_read_32 (devio_sock rid) (\<lambda>_. True) a (le_bytes 4 d) (w, s, proto, []) =
      Some (4, le_bytes 4 (view w a), (w', s', proto', []))"
    "thsafe_ready cast_ep ops s'" "good w'" "\<forall>b. mapped b \<longrightarrow> view w' b = view w b" by auto
  then show "\<exists>p'. client_rd rid p a d = Some (4, client_view view p a, p') \<and> client_good cast_ep ops good p' \<and>
      (\<forall>b. mapped b \<longrightarrow> client_view view p' b = client_view view p b)"
    by (intro exI [of _ "(w', s', proto', [])"]) (simp add: client_rd_def p(1))
next
  fix p a and v :: u32
  assume "client_good cast_ep ops good p" and a: "mapped a"
  then obtain w s proto where p: "p = (w, s, proto, [])" "good w" "thsafe_ready cast_ep ops s"
    by (cases p) auto
  from client_write_32 [OF p(3) bus p(2) a, of rid v proto] obtain w' s' proto' where
    "thsafe_zmq_client_write_32 (devio_sock rid) (\<lambda>_. True) a (le_bytes 4 v) (w, s, proto, []) =
      Some (4, (w', s', proto', []))"
    "thsafe_ready cast_ep ops s'" "good w'" "\<forall>b. mapped b \<longrightarrow> view w' b = (if b = a then v else view w b)" by auto
  then show "\<exists>p'. client_wr rid p a v = Some (4, p') \<and> client_good cast_ep ops good p' \<and>
      (\<forall>b. mapped b \<longrightarrow> client_view view p' b = (if b = a then v else client_view view p b))"
    by (intro exI [of _ "(w', s', proto', [])"]) (simp add: client_wr_def p(1))
qed

subsection \<open>Other replies\<close>

declare devio_deliver.simps [simp del] dt_call.simps [simp del]

lemma deliver_call:
  assumes "dt_call s opc w \<lparr>tag = ZMQ_SERVER_ARGS_TAG, content = fs\<rparr> = Some (e, d, w', s')"
    and "- (2 ^ 31) < e" and "e < 2 ^ 31" and "reply_of e d = Some m"
  shows "\<exists>proto'. devio_deliver rid (request opc fs) (w, s, proto, q) = Some (0, (w', s', proto', q @ [m]))"
proof -
  note h = sock_request_call [OF assms]
  have "devio_proto_recv True False (Some (rid # request opc fs)) proto =
      (DEVIO_SUCCESS, proto\<lparr>routing_id := Some rid, proto_content := Some (request opc fs)\<rparr>)"
    by (simp add: devio_proto_recv_def request_def)
  with h show ?thesis
    by (simp add: devio_serve_one_def devio_proto_get_content_def s_devio_do_smio_op_def
        devio_proto_set_content_move_def devio_proto_send_def devio_deliver.simps)
qed

text \<open>A refused request is answered with one frame holding \<open>PARAM_ERR\<close>.\<close>

lemma deliver_refused:
  assumes r: "thsafe_ready cast_ep ops s" and op: "op \<in> set (smio_thsafe_zmq_server_ops cast_ep ops)"
    and fits: "\<not> list_all2 arg_fits (args op) fs"
  shows "\<exists>s' proto'. devio_deliver rid (request (opcode op) fs) (w, s, proto, q) =
      Some (0, (w, s', proto', q @ [[le_bytes 4 PARAM_ERR]])) \<and> thsafe_ready cast_ep ops s'"
proof -
  obtain s' where s': "dt_call s (opcode op) w \<lparr>tag = ZMQ_SERVER_ARGS_TAG, content = fs\<rparr> = Some (-1, None, w, s')"
    "thsafe_ready cast_ep ops s'" using dt_call_refuse [OF r op fits] by blast
  have "reply_of (-1) None = Some [le_bytes 4 PARAM_ERR]" by (simp add: reply_of_def PARAM_ERR_def)
  moreover have "- (2 ^ 31) < (-1 :: int)" "(-1 :: int) < 2 ^ 31" by simp_all
  ultimately show ?thesis using deliver_call [OF s'(1), of _ rid proto q] s'(2) by blast
qed

lemma confirm_error:
  "c \<noteq> 0 \<Longrightarrow> s_thsafe_zmq_client_recv_confirmation (devio_sock rid) (w, s, proto, [[le_bytes 4 (c :: u32)]]) =
     (None, (w, s, proto, []))"
  by (simp add: s_thsafe_zmq_client_recv_confirmation_def devio_sock_def THSAFE_REPLY_SIZE_def THSAFE_OK_def)

lemma open_release_refused:
  assumes r: "thsafe_ready cast_ep ops s" and o: "opc = THSAFE_OPCODE_OPEN \<or> opc = THSAFE_OPCODE_RELEASE"
  shows "\<exists>s' proto'. s_thsafe_zmq_client_open_release (devio_sock rid) (\<lambda>_. True) opc (w, s, proto, []) =
      Some (-1, (w, s', proto', [])) \<and> thsafe_ready cast_ep ops s'"
proof -
  have "\<exists>op \<in> set (smio_thsafe_zmq_server_ops cast_ep ops). opcode op = opc \<and> \<not> list_all2 arg_fits (args op) [[]]"
    using o
    by (elim disjE) (rule bexI [OF _ server_ops_mem(3)], simp add: server_exps fits_simps,
        rule bexI [OF _ server_ops_mem(4)], simp add: server_exps fits_simps)
  then obtain s' proto' where d: "devio_deliver rid [le_bytes 4 opc, []] (w, s, proto, []) =
      Some (0, (w, s', proto', [[le_bytes 4 PARAM_ERR]]))" "thsafe_ready cast_ep ops s'"
    using deliver_refused [OF r, of _ "[[]]" rid w proto "[]"] unfolding request_def append_Nil by blast
  have "PARAM_ERR \<noteq> 0" by (simp add: PARAM_ERR_def)
  then have "s_thsafe_zmq_client_open_release (devio_sock rid) (\<lambda>_. True) opc (w, s, proto, []) =
      Some (-1, (w, s', proto', []))"
    using d(1) by (simp add: confirm_error s_thsafe_zmq_client_open_release_def send_ok)
  with d(2) show ?thesis by blast
qed

text \<open>What the server answers when the llio layer fails: the read reports the failure as the reply
  code, the write reports success with the status as its value.\<close>

lemma deliver_failed_read:
  assumes r: "thsafe_ready cast_ep ops s" and e: "- (2 ^ 31) < e" "e < 0"
    and f: "\<And>x. llio_read_32 ops a x w = Some (e, v x, w')"
  shows "\<exists>s' proto'. devio_deliver rid (request THSAFE_OPCODE_READ_32 [le_bytes 8 a]) (w, s, proto, q) =
      Some (0, (w', s', proto', q @ [[le_bytes 4 (word_of_int (- e) :: u32)]])) \<and> thsafe_ready cast_ep ops s'"
proof -
  let ?op = "thsafe_zmq_server_read_32_exp ops"
  have fits: "list_all2 arg_fits (args ?op) [le_bytes 8 a]" and fp: "func_fp ?op = Some (s_thsafe_zmq_server_read_32 ops)"
    and sz: "unat (DISP_GET_ASIZE (retval ?op)) = 4" and oc: "opcode ?op = THSAFE_OPCODE_READ_32"
    by (simp_all add: server_exps fits_simps)
  have "\<exists>w'' nb s'. dt_call s (opcode ?op) w \<lparr>tag = ZMQ_SERVER_ARGS_TAG, content = [le_bytes 8 a]\<rparr> =
      Some (e, Some nb, w'', s') \<and> w'' = w' \<and> thsafe_ready cast_ep ops s'"
    by (rule dt_call_accept [OF r server_ops_mem(1) fits fp, where P = "\<lambda>w'' nb. w'' = w'"])
      (use e sz in \<open>simp add: s_thsafe_zmq_server_read_32_def server_read_def frame_args rd_word_exact put_ret_4 f to_int32_id\<close>)
  then obtain nb s' where c: "dt_call s THSAFE_OPCODE_READ_32 w \<lparr>tag = ZMQ_SERVER_ARGS_TAG, content = [le_bytes 8 a]\<rparr> =
      Some (e, Some nb, w', s')" "thsafe_ready cast_ep ops s'" unfolding oc by blast
  have "reply_of e (Some nb) = Some [le_bytes 4 (word_of_int (- e) :: u32)]" using e by (simp add: reply_of_def)
  moreover have "e < 2 ^ 31" using e by simp
  ultimately show ?thesis using deliver_call [OF c(1) e(1), of _ rid proto q] c(2) by blast
qed

lemma deliver_failed_write:
  assumes r: "thsafe_ready cast_ep ops s" and e: "- (2 ^ 31) \<le> e" "e < 0"
    and f: "llio_write_32 ops a x w = Some (e, w')"
  shows "\<exists>s' proto'. devio_deliver rid (request THSAFE_OPCODE_WRITE_32 [le_bytes 8 a, le_bytes 4 x]) (w, s, proto, q) =
      Some (0, (w', s', proto', q @ [ok_reply (word_of_int e)])) \<and> thsafe_ready cast_ep ops s'"
proof -
  let ?op = "thsafe_zmq_server_write_32_exp ops"
  have fits: "list_all2 arg_fits (args ?op) [le_bytes 8 a, le_bytes 4 x]"
    and fp: "func_fp ?op = Some (s_thsafe_zmq_server_write_32 ops)"
    and sz: "unat (DISP_GET_ASIZE (retval ?op)) = 4" and oc: "opcode ?op = THSAFE_OPCODE_WRITE_32"
    by (simp_all add: server_exps fits_simps)
  have "\<exists>w'' nb s'. dt_call s (opcode ?op) w \<lparr>tag = ZMQ_SERVER_ARGS_TAG, content = [le_bytes 8 a, le_bytes 4 x]\<rparr> =
      Some (4, Some nb, w'', s') \<and> (w'' = w' \<and> nb = le_bytes 4 (word_of_int e :: u32)) \<and> thsafe_ready cast_ep ops s'"
    by (rule dt_call_accept [OF r server_ops_mem(2) fits fp, where P = "\<lambda>w'' nb. w'' = w' \<and> nb = le_bytes 4 (word_of_int e :: u32)"])
      (use e sz in \<open>simp add: s_thsafe_zmq_server_write_32_def server_write_def frame_args rd_word_exact put_ret_4 f to_int32_id\<close>)
  then obtain s' where c: "dt_call s THSAFE_OPCODE_WRITE_32 w \<lparr>tag = ZMQ_SERVER_ARGS_TAG, content = [le_bytes 8 a, le_bytes 4 x]\<rparr> =
      Some (4, Some (le_bytes 4 (word_of_int e :: u32)), w', s')" "thsafe_ready cast_ep ops s'" unfolding oc by blast
  moreover have "- (2 ^ 31) < (4 :: int)" "(4 :: int) < 2 ^ 31" by simp_all
  ultimately show ?thesis using deliver_call [OF c(1) _ _ reply_of_4, of rid proto q] c(2) by blast
qed

lemma failed_read_32:
  assumes r: "thsafe_ready cast_ep ops s" and e: "- (2 ^ 31) < e" "e < 0"
    and f: "\<And>x. llio_read_32 ops a x w = Some (e, v x, w')" and len: "4 \<le> length data"
  shows "\<exists>s' proto'. thsafe_zmq_client_read_32 (devio_sock rid) (\<lambda>_. True) a data (w, s, proto, []) =
      Some (-1, data, (w', s', proto', [])) \<and> thsafe_ready cast_ep ops s'"
proof -
  obtain s' proto' where d: "devio_deliver rid [le_bytes 4 THSAFE_OPCODE_READ_32, le_bytes 8 a] (w, s, proto, []) =
      Some (0, (w', s', proto', [[le_bytes 4 (word_of_int (- e) :: u32)]]))" "thsafe_ready cast_ep ops s'"
    using deliver_failed_read [OF r e f, of rid proto "[]"] by (auto simp: request_def)
  have "reply_of e None = Some [le_bytes 4 (word_of_int (- e) :: u32)]" using e by (simp add: reply_of_def)
  from recv_rw_reply [OF this e(1), where S = "devio_sock rid" and p = "(w', s', proto', [[le_bytes 4 (word_of_int (- e) :: u32)]])"
      and p' = "(w', s', proto', [])" and sz = 4 and data = data and acc = True] e len
  have "s_thsafe_zmq_client_recv_rw (devio_sock rid) data 4 True (w', s', proto', [[le_bytes 4 (word_of_int (- e) :: u32)]]) =
      Some (-1, data, (w', s', proto', []))" by (simp add: devio_sock_def)
  with d show ?thesis
    by (simp add: thsafe_zmq_client_read_32_def s_thsafe_zmq_client_read_generic_def send_ok dsizes)
qed

lemma failed_write_32:
  assumes r: "thsafe_ready cast_ep ops s" and e: "- (2 ^ 31) \<le> e" "e < 0"
    and f: "llio_write_32 ops a x w = Some (e, w')"
  shows "\<exists>s' proto'. thsafe_zmq_client_write_32 (devio_sock rid) (\<lambda>_. True) a (le_bytes 4 x) (w, s, proto, []) =
      Some (2 ^ 32 + e, (w', s', proto', [])) \<and> thsafe_ready cast_ep ops s'"
proof -
  obtain s' proto' where d: "devio_deliver rid [le_bytes 4 THSAFE_OPCODE_WRITE_32, le_bytes 8 a, le_bytes 4 x] (w, s, proto, []) =
      Some (0, (w', s', proto', [ok_reply (word_of_int e)]))" "thsafe_ready cast_ep ops s'"
    using deliver_failed_write [OF r e f, of rid proto "[]"] by (auto simp: request_def)
  have u: "uint (word_of_int e :: u32) = 2 ^ 32 + e"
  proof -
    have "e mod 2 ^ 32 = (e + 2 ^ 32) mod 2 ^ 32" by (rule mod_add_self2 [symmetric])
    also have "\<dots> = e + 2 ^ 32" using e by (intro mod_pos_pos_trivial) simp_all
    finally show ?thesis by (simp add: unsigned_of_int take_bit_eq_mod)
  qed
  have c: "write_result (devio_sock rid) (w', s', proto', [ok_reply (word_of_int e)]) =
      Some (2 ^ 32 + e, (w', s', proto', []))"
    using recv_ok_reply [of "devio_sock rid" "(w', s', proto', [ok_reply (word_of_int e)])" _ _ "le_bytes 4 (0 :: u32)" False] u
    by (simp add: write_result_def devio_sock_def ssize_of_u32_def)
  with d show ?thesis
    unfolding thsafe_zmq_client_write_32_def s_thsafe_zmq_client_write_generic_def send_ok addmem_def
    by (simp add: dsizes)
qed

text \<open>A reply that came after its request had timed out is taken for the reply to the next one.\<close>

lemma stale_reply:
  assumes r: "thsafe_ready cast_ep ops s" and bus: "llio_bus ops view good mapped" and g: "good w"
    and a: "mapped a" and len: "4 \<le> length data"
  shows "\<exists>w' s' proto'. thsafe_zmq_client_read_32 (devio_sock rid) (\<lambda>_. True) a data (w, s, proto, [ok_reply old]) =
      Some (4, le_bytes 4 old @ drop 4 data, (w', s', proto', [ok_reply (view w a)])) \<and>
    thsafe_ready cast_ep ops s' \<and> good w' \<and> (\<forall>b. mapped b \<longrightarrow> view w' b = view w b)"
proof -
  have q: "\<forall>q \<in> set [Read_Req rid a]. mapped (req_addr q)" using a by simp
  from handle_protocol_run [OF bus r g q, of proto] obtain proto' w' s' where
    h: "s_devio_handle_protocol dt_call (\<lambda>_. True) [Some (rid # request THSAFE_OPCODE_READ_32 [le_bytes 8 a])] proto w s =
      Some (0, [rid # ok_reply (view w a)], proto', w', s')"
    "thsafe_ready cast_ep ops s'" "good w'" "\<forall>b. mapped b \<longrightarrow> view w' b = view w b" by auto
  have d: "devio_deliver rid [le_bytes 4 THSAFE_OPCODE_READ_32, le_bytes 8 a] (w, s, proto, [ok_reply old]) =
      Some (0, (w', s', proto', [ok_reply old, ok_reply (view w a)]))"
    using h(1) by (simp add: request_def devio_deliver.simps)
  have c: "s_thsafe_zmq_client_recv_rw (devio_sock rid) data THSAFE_READ_32_DSIZE True
      (w', s', proto', [ok_reply old, ok_reply (view w a)]) =
      Some (4, le_bytes 4 old @ drop 4 data, (w', s', proto', [ok_reply (view w a)]))"
    using recv_ok_reply [of "devio_sock rid" "(w', s', proto', [ok_reply old, ok_reply (view w a)])"] len
    by (simp add: devio_sock_def dsizes)
  have "thsafe_zmq_client_read_32 (devio_sock rid) (\<lambda>_. True) a data (w, s, proto, [ok_reply old]) =
      Some (4, le_bytes 4 old @ drop 4 data, (w', s', proto', [ok_reply (view w a)]))"
    unfolding thsafe_zmq_client_read_32_def s_thsafe_zmq_client_read_generic_def send_ok
    using d c by (simp add: dsizes)
  with h(2-) show ?thesis by blast
qed

section \<open>Properties\<close>

text \<open>C33: what the client makes of the server's reply, for every status \<open>e\<close> of the operation and
  every room \<open>sz\<close> of the caller's buffer: a negative status gives -1; 0 gives 0 to a reader and -1
  to a writer; a positive status that covers the room fills it with the first bytes the operation
  returned and gives its size, and one that does not gives -1 and leaves the buffer alone.\<close>

theorem thsafe_reply_roundtrip:
  assumes "- (2 ^ 31) < e" and "e < 2 ^ 31"
    and "s_msg_format_client_response e = Some (err, reply_code, with_data_frame)"
    and "s_msg_send_client_response_sock (\<lambda>_. True) reply_code (word_of_int e) d with_data_frame = Some (Some m)"
    and "sock_recv S p = (Some m, p')" and "unat sz \<le> length data"
  shows "s_thsafe_zmq_client_recv_rw S data sz acc p =
    Some (if e < 0 then (-1, data, p')
          else if e = 0 then (if acc then 0 else -1, data, p')
          else if e < uint sz then (-1, data, p')
          else (uint sz, take (unat sz) (the d) @ drop (unat sz) data, p'))"
proof -
  have "map_option (\<lambda>r. (MSG_SUCCESS, Some r, (), ())) (reply_of e d) = Some (err, Some m, (), ())"
    using respond [OF assms(1,2), of d "()" "()"] assms(3,4) by (simp add: s_msg_send_client_response_sock_def)
  then have "reply_of e d = Some m" by auto
  from recv_rw_reply [OF this assms(1,2,5,6)] show ?thesis .
qed

theorem thsafe_reply_roundtrip_witness:
  "s_thsafe_zmq_client_recv_rw \<lparr>sock_send = \<lambda>m p. Some (0, p), sock_recv = \<lambda>p. (p, None)\<rparr> [1, 1, 1, 1, 1] 4 True
     (Some [[0, 0, 0, 0], [6, 0, 0, 0], [2, 3, 4, 5, 6, 7]]) = Some (4, [2, 3, 4, 5, 1], None) \<and>
   s_thsafe_zmq_client_recv_rw \<lparr>sock_send = \<lambda>m p. Some (0, p), sock_recv = \<lambda>p. (p, None)\<rparr> [1, 1, 1, 1, 1] 4 True
     (Some [[3, 0, 0, 0]]) = Some (-1, [1, 1, 1, 1, 1], None)"
proof -
  let ?S = "\<lparr>sock_send = \<lambda>m p. Some (0, p), sock_recv = \<lambda>p. (p, None)\<rparr> :: frame list option sock"
  have f: "s_msg_format_client_response 6 = Some (MSG_SUCCESS, 0, True)"
    "s_msg_format_client_response (-3) = Some (MSG_SUCCESS, 3, False)"
    by (simp_all add: s_msg_format_client_response_def s_msg_format_reply_code_def PARAM_OK_def)
  have s: "s_msg_send_client_response_sock (\<lambda>_. True) 0 (word_of_int 6) (Some [2, 3, 4, 5, 6, 7, 8]) True =
      Some (Some [[0, 0, 0, 0], [6, 0, 0, 0], [2, 3, 4, 5, 6, 7]])"
    "s_msg_send_client_response_sock (\<lambda>_. True) 3 (word_of_int (-3)) None False = Some (Some [[3, 0, 0, 0]])"
    by (simp_all add: s_msg_send_client_response_sock_def s_msg_create_client_response_def le_bytes_4)
  show ?thesis
    using thsafe_reply_roundtrip [OF _ _ f(1) s(1), of ?S _ None 4 "[1, 1, 1, 1, 1]" True]
      thsafe_reply_roundtrip [OF _ _ f(2) s(2), of ?S _ None 4 "[1, 1, 1, 1, 1]" True]
    by simp
qed

end
