(* ===== verification/Device.thy ===== *)
theory Device
  imports Pcie Thsafe_Client
begin

text \<open>
  The device server on a PCI Express board: the PCIe class provides the register bus and the buffer
  discipline that the server and its clients rely on, and a concrete server, set up the way
  \<open>devio_new\<close> does, shows that the pieces fit.
\<close>

section \<open>The PCIe class behind the llio layer\<close>

lemma pcie_llio_bus:
  assumes b: "board_ok H V"
  shows "llio_bus (llio_ops_pcie H al) (pcie_view32 V) (pcie_good H V) data_addr"
proof
  fix self a and d :: u32
  assume g: "pcie_good H V self" and a: "data_addr a"
  obtain t where t: "bus_rd (H, V, self) a d = Some (4, pcie_view32 V self a, t)" "bus_good t"
    "\<forall>b. data_addr b \<longrightarrow> bus_view t b = pcie_view32 V self b"
    using pbus.rd_view [of "(H, V, self)" a d] g a by auto
  then show "\<exists>s'. llio_read_32 (llio_ops_pcie H al) a d self = Some (4, pcie_view32 V self a, s') \<and>
      pcie_good H V s' \<and> (\<forall>b. data_addr b \<longrightarrow> pcie_view32 V s' b = pcie_view32 V self b)"
    by (auto simp: llio_read_32_def llio_ops_pcie_def)
next
  fix self a and v :: u32
  assume g: "pcie_good H V self" and a: "data_addr a"
  obtain t where t: "bus_wr (H, V, self) a v = Some (4, t)" "bus_good t"
    "\<forall>b. data_addr b \<longrightarrow> bus_view t b = (if b = a then v else pcie_view32 V self b)"
    using pbus.wr_view [of "(H, V, self)" a v] g a by auto
  then show "\<exists>s'. llio_write_32 (llio_ops_pcie H al) a v self = Some (4, s') \<and>
      pcie_good H V s' \<and> (\<forall>b. data_addr b \<longrightarrow> pcie_view32 V s' b = (if b = a then v else pcie_view32 V self b))"
    by (auto simp: llio_write_32_def llio_ops_pcie_def)
qed

text \<open>Reading blocks keeps the length of the buffer. The kernel buffer gives as many bytes as asked.\<close>

definition kmem_ok :: "'d pcie_hw \<Rightarrow> bool" where
  "kmem_ok H \<longleftrightarrow> (\<forall>n d m. kmem_get H n d = Some m \<longrightarrow> length m = n)"

lemma rw_elem_len: "rw_elem f a i rw bd = Some bd' \<Longrightarrow> length (fst bd') = length (fst bd)"
  by (cases bd) (auto simp: rw_elem_def bind_eq_Some_conv buf_set_def split: if_splits)

lemma rw_elems_len: "rw_elems f n j a dp rw bd = Some bd' \<Longrightarrow> length (fst bd') = length (fst bd)"
  by (induction n arbitrary: j bd) (auto simp: bind_eq_Some_conv dest!: rw_elem_len)

lemma block2_len: "BAR2_RW_BLOCK H a n dp rw bd = Some bd' \<Longrightarrow> length (fst bd') = length (fst bd)"
  by (auto simp: BAR2_RW_BLOCK_def dest!: rw_elems_len)

lemma block4_len: "BAR4_RW_BLOCK H a n dp rw bd = Some bd' \<Longrightarrow> length (fst bd') = length (fst bd)"
  by (auto simp: BAR4_RW_BLOCK_def bind_eq_Some_conv dest!: rw_elems_len rw_elem_len split: if_splits)

lemma bar2_pages_len:
  assumes "bar2_pages H bs e rw pg offs rem done dp bd = Some y"
  shows "length (fst (snd y)) = length (fst bd)"
  by (rule bar2_pages.raw_induct [where P = "\<lambda>H bs e rw pg offs rem done dp bd y.
        length (fst (snd y)) = length (fst bd)", OF _ assms])
    (auto simp: bind_eq_Some_conv Let_def dest!: block2_len split: if_splits)

lemma bar4_pages_len:
  assumes "bar4_pages H bs e rw ps pg offs rem done bd = Some y"
  shows "length (fst (snd y)) = length (fst bd)"
  by (rule bar4_pages.raw_induct [where P = "\<lambda>H bs e rw ps pg offs rem done bd y.
        length (fst (snd y)) = length (fst bd)", OF _ assms])
    (auto simp: bind_eq_Some_conv Let_def dest!: block4_len split: if_splits)

lemma bar2_raw_len:
  "s_pcie_rw_bar2_block_raw H ps po data sz rw self = Some (r, data', s') \<Longrightarrow> length data' = length data"
  by (auto simp: s_pcie_rw_bar2_block_raw_def bind_eq_Some_conv Let_def split: option.splits if_splits
      dest!: bar2_pages_len)

lemma bar4_raw_len:
  "s_pcie_rw_bar4_block_raw H ps po data sz rw self = Some (r, data', s') \<Longrightarrow> length data' = length data"
  by (auto simp: s_pcie_rw_bar4_block_raw_def bind_eq_Some_conv Let_def split: option.splits if_splits
      dest!: bar4_pages_len)

lemma td_loop_len:
  assumes raw: "\<And>data self r data' s'. raw data self = Some (r, data', s') \<Longrightarrow> length data' = length data"
  shows "td_loop H raw n data self = Some (r, data', s') \<Longrightarrow> length data' = length data"
proof (induction n arbitrary: data self)
  case (Suc n)
  then obtain r1 d1 s1 t where 1: "raw data self = Some (r1, d1, s1)" "looks_timed_out r1 d1 = Some t"
    by (auto simp: bind_eq_Some_conv)
  with Suc raw [OF 1(1)] show ?case by (cases t) (auto simp: bind_eq_Some_conv)
qed simp

lemma read_block_len:
  "pcie_read_block H offs sz data self = Some (r, data', s') \<Longrightarrow> length data' = length data"
  by (auto simp: pcie_read_block_def s_pcie_rw_block_def s_pcie_rw_bar2_block_td_def s_pcie_rw_bar4_block_td_def
      bind_eq_Some_conv Let_def split: option.splits if_splits dest!: td_loop_len [rotated] bar2_raw_len bar4_raw_len)

lemma read_dma_len:
  "kmem_ok H \<Longrightarrow> pcie_read_dma H offs sz data self = Some (r, data', s') \<Longrightarrow> length data' = length data"
  by (auto simp: pcie_read_dma_def bind_eq_Some_conv Let_def kmem_ok_def split: option.splits if_splits)

lemma pcie_lens_ok:
  assumes "kmem_ok H"
  shows "llio_lens_ok (llio_ops_pcie H al)"
  using read_block_len [of H] read_dma_len [OF assms]
  by (auto simp: llio_lens_ok_def llio_ops_pcie_def)

section \<open>A concrete server\<close>

text \<open>The descriptors are the blocks 0 to 11 of a heap; \<open>devio_new\<close> makes its table of them.\<close>

definition cast0 :: "frame \<Rightarrow> llio_endpoint" where
  "cast0 f = \<lparr>ep_open = False, ep_name = None\<rparr>"

definition srv_llio :: "board pcie llio_ops" where
  "srv_llio = llio_ops_pcie board_hw (\<lambda>_. True)"

definition srv_heap :: "(board pcie, msg_args) dheap" where
  "srv_heap = \<lparr>hp_next = 12,
     hp_mem = (\<lambda>a. if a < 12 then Some (BObj (OOp (smio_thsafe_zmq_server_ops cast0 srv_llio ! a))) else None),
     hp_ok = (\<lambda>_. True)\<rparr>"

lemma srv_heap_wf: "heap_wf srv_heap" "\<forall>n. hp_ok srv_heap n"
  by (simp_all add: heap_wf_def srv_heap_def)

lemma srv_heap_descs:
  "\<forall>(p, op) \<in> set (zip [0..<12] (smio_thsafe_zmq_server_ops cast0 srv_llio)).
     hp_mem srv_heap p = Some (BObj (OOp op))"
  by (auto simp: set_zip srv_heap_def)

lemma srv_kmem: "kmem_ok board_hw"
  by (simp add: kmem_ok_def board_hw_def)

lemma zh_alist_new: "zh_new zh_alist \<noteq> None"
  by (simp add: zh_alist_def)

type_synonym srv_table = "((string \<times> nat) list, board pcie, msg_args) dstate"

lemma srv_ready: "\<exists>s :: srv_table. thsafe_ready cast0 srv_llio s"
proof -
  have "llio_lens_ok srv_llio" unfolding srv_llio_def by (rule pcie_lens_ok [OF srv_kmem])
  from new_table_ready [OF zhashx_ok_alist zh_alist_new srv_heap_wf _ srv_heap_descs this]
  show ?thesis by auto
qed

lemma srv_bus: "llio_bus srv_llio (pcie_view32 board_view) (pcie_good board_hw board_view) data_addr"
  unfolding srv_llio_def by (rule pcie_llio_bus [OF board_hw_ok])

lemma board_addr: "data_addr 0x2000000000100010" "data_addr 0x4000000000000008"
  by (simp_all add: data_addr_def sdram_addr_def wb_addr_def word_addr_def regs PCIE_ADDR_BAR_def PCIE_ADDR_GEN_def)

lemma board_view0: "pcie_view32 board_view board_open a = 0"
  by (simp add: pcie_view32_def board_view_def board_open_def board0_def mem_view_def mem32_def)

definition proto0 :: devio_proto where
  "proto0 = \<lparr>routing_id = None, proto_content = None\<rparr>"

lemma closed_access:
  "llio_read_32 srv_llio a x board_closed = Some (-1, x, board_closed)"
  "llio_write_32 srv_llio a x board_closed = Some (-1, board_closed)"
  by (simp_all add: srv_llio_def llio_read_32_def llio_write_32_def llio_ops_pcie_def pcie_read_32_def
      pcie_write_32_def s_pcie_rw_32_def board_closed_def pc_defs)

end
