(* ===== verification/Smio.thy ===== *)
theory Smio
  imports Thsafe_Client
begin

text \<open>
  The sensor modules' common part, src/sm_io/sm_io.c: the object every module hangs on, with its
  accessors, the export of the module's operations through its own dispatch table, the handling of
  a request from the broker, and the wrappers by which a module reaches the registers of its core:
  they call the thread-safe client with the base address of the module OR-ed to the offset, or,
  in the raw versions, with the offset alone.

  The object has the type of the module's handler (\<open>'h\<close>), of its operations (\<open>'o\<close>) and of the
  peer behind its sockets (\<open>'p\<close>) as parameters. Sockets other than the two to the device server,
  the reactor and the worker are not part of the state: they are the transport.
\<close>

section \<open>The object\<close>

datatype smio_err =
  SMIO_SUCCESS | SMIO_ERR_ALLOC | SMIO_ERR_FUNC_NOT_IMPL | SMIO_ERR_OPCODE_NOT_SUPP | SMIO_ERR_WRONG_PARAM
| SMIO_ERR_LLIO | SMIO_ERR_EXPORT_OP | SMIO_ERR_CONFIG_DFLT | SMIO_ERR_MSG_NOT_SUPP | SMIO_ERR_BAD_MSG
| SMIO_ERR_INTERRUPTED_POLLER | SMIO_ERR_INV_SOCKET | SMIO_ERR_REGISTER_SM

text \<open>The client operations, \<open>smio_thsafe_client_ops_t\<close>. Data goes through byte buffers.\<close>

record 'p smio_thsafe_client_ops =
  thsafe_client_open :: "('p sock \<Rightarrow> llio_endpoint option \<Rightarrow> 'p \<Rightarrow> (int \<times> 'p) option) option"
  thsafe_client_release :: "('p sock \<Rightarrow> llio_endpoint option \<Rightarrow> 'p \<Rightarrow> (int \<times> 'p) option) option"
  thsafe_client_read_16 :: "('p sock \<Rightarrow> u64 \<Rightarrow> u8 list \<Rightarrow> 'p \<Rightarrow> (int \<times> u8 list \<times> 'p) option) option"
  thsafe_client_read_32 :: "('p sock \<Rightarrow> u64 \<Rightarrow> u8 list \<Rightarrow> 'p \<Rightarrow> (int \<times> u8 list \<times> 'p) option) option"
  thsafe_client_read_64 :: "('p sock \<Rightarrow> u64 \<Rightarrow> u8 list \<Rightarrow> 'p \<Rightarrow> (int \<times> u8 list \<times> 'p) option) option"
  thsafe_client_write_16 :: "('p sock \<Rightarrow> u64 \<Rightarrow> u8 list \<Rightarrow> 'p \<Rightarrow> (int \<times> 'p) option) option"
  thsafe_client_write_32 :: "('p sock \<Rightarrow> u64 \<Rightarrow> u8 list \<Rightarrow> 'p \<Rightarrow> (int \<times> 'p) option) option"
  thsafe_client_write_64 :: "('p sock \<Rightarrow> u64 \<Rightarrow> u8 list \<Rightarrow> 'p \<Rightarrow> (int \<times> 'p) option) option"
  thsafe_client_read_block :: "('p sock \<Rightarrow> u64 \<Rightarrow> u64 \<Rightarrow> u8 list \<Rightarrow> 'p \<Rightarrow> (int \<times> u8 list \<times> 'p) option) option"
  thsafe_client_write_block :: "('p sock \<Rightarrow> u64 \<Rightarrow> u64 \<Rightarrow> u8 list \<Rightarrow> 'p \<Rightarrow> (int \<times> 'p) option) option"
  thsafe_client_read_dma :: "('p sock \<Rightarrow> u64 \<Rightarrow> u64 \<Rightarrow> u8 list \<Rightarrow> 'p \<Rightarrow> (int \<times> u8 list \<times> 'p) option) option"
  thsafe_client_write_dma :: "('p sock \<Rightarrow> u64 \<Rightarrow> u64 \<Rightarrow> u8 list \<Rightarrow> 'p \<Rightarrow> (int \<times> 'p) option) option"

definition smio_thsafe_client_zmq_ops :: "(nat \<Rightarrow> bool) \<Rightarrow> 'p smio_thsafe_client_ops" where
  "smio_thsafe_client_zmq_ops ze = \<lparr>
     thsafe_client_open = Some (\<lambda>S. thsafe_zmq_client_open S ze),
     thsafe_client_release = Some (\<lambda>S. thsafe_zmq_client_release S ze),
     thsafe_client_read_16 = Some (\<lambda>S. thsafe_zmq_client_read_16 S ze),
     thsafe_client_read_32 = Some (\<lambda>S. thsafe_zmq_client_read_32 S ze),
     thsafe_client_read_64 = Some (\<lambda>S. thsafe_zmq_client_read_64 S ze),
     thsafe_client_write_16 = Some (\<lambda>S. thsafe_zmq_client_write_16 S ze),
     thsafe_client_write_32 = Some (\<lambda>S. thsafe_zmq_client_write_32 S ze),
     thsafe_client_write_64 = Some (\<lambda>S. thsafe_zmq_client_write_64 S ze),
     thsafe_client_read_block = Some (\<lambda>S. thsafe_zmq_client_read_block S ze),
     thsafe_client_write_block = Some (\<lambda>S. thsafe_zmq_client_write_block S ze),
     thsafe_client_read_dma = Some (\<lambda>S. thsafe_zmq_client_read_dma S ze),
     thsafe_client_write_dma = Some (\<lambda>S. thsafe_zmq_client_write_dma S ze)\<rparr>"

record ('o, 'h, 'p) smio =
  sm_id :: u32
  sm_inst_id :: u32
  sm_base :: u64
  sm_name :: "string option"
  sm_service :: string
  sm_endpoint :: string
  sm_handler :: "'h option"
  sm_dealer :: "'p sock"
  sm_dealer2 :: "'p sock"
  sm_exp_ops :: "nat list option"
  sm_ops :: "'o option"
  sm_thsafe :: "'p smio_thsafe_client_ops option"

section \<open>Accessors\<close>

definition smio_set_base :: "('o, 'h, 'p) smio \<Rightarrow> u64 \<Rightarrow> smio_err \<times> ('o, 'h, 'p) smio" where
  "smio_set_base self v = (SMIO_SUCCESS, self\<lparr>sm_base := v\<rparr>)"

definition smio_get_base :: "('o, 'h, 'p) smio \<Rightarrow> u64" where "smio_get_base = sm_base"

definition smio_set_id :: "('o, 'h, 'p) smio \<Rightarrow> u32 \<Rightarrow> smio_err \<times> ('o, 'h, 'p) smio" where
  "smio_set_id self v = (SMIO_SUCCESS, self\<lparr>sm_id := v\<rparr>)"

definition smio_get_id :: "('o, 'h, 'p) smio \<Rightarrow> u32" where "smio_get_id = sm_id"

definition smio_set_inst_id :: "('o, 'h, 'p) smio \<Rightarrow> u32 \<Rightarrow> smio_err \<times> ('o, 'h, 'p) smio" where
  "smio_set_inst_id self v = (SMIO_SUCCESS, self\<lparr>sm_inst_id := v\<rparr>)"

definition smio_get_inst_id :: "('o, 'h, 'p) smio \<Rightarrow> u32" where "smio_get_inst_id = sm_inst_id"

definition smio_set_exp_ops :: "('o, 'h, 'p) smio \<Rightarrow> nat list option \<Rightarrow> smio_err \<times> ('o, 'h, 'p) smio" where
  "smio_set_exp_ops self v = (SMIO_SUCCESS, self\<lparr>sm_exp_ops := v\<rparr>)"

definition smio_get_exp_ops :: "('o, 'h, 'p) smio \<Rightarrow> nat list option" where "smio_get_exp_ops = sm_exp_ops"

definition smio_set_ops :: "('o, 'h, 'p) smio \<Rightarrow> 'o option \<Rightarrow> smio_err \<times> ('o, 'h, 'p) smio" where
  "smio_set_ops self v = (SMIO_SUCCESS, self\<lparr>sm_ops := v\<rparr>)"

definition smio_get_ops :: "('o, 'h, 'p) smio \<Rightarrow> 'o option" where "smio_get_ops = sm_ops"

definition smio_set_thsafe_client_ops :: "('o, 'h, 'p) smio \<Rightarrow> 'p smio_thsafe_client_ops option \<Rightarrow> smio_err \<times> ('o, 'h, 'p) smio" where
  "smio_set_thsafe_client_ops self v = (SMIO_SUCCESS, self\<lparr>sm_thsafe := v\<rparr>)"

definition smio_get_thsafe_client_ops :: "('o, 'h, 'p) smio \<Rightarrow> 'p smio_thsafe_client_ops option" where "smio_get_thsafe_client_ops = sm_thsafe"

definition smio_set_handler :: "('o, 'h, 'p) smio \<Rightarrow> 'h option \<Rightarrow> smio_err \<times> ('o, 'h, 'p) smio" where
  "smio_set_handler self v = (SMIO_SUCCESS, self\<lparr>sm_handler := v\<rparr>)"

definition smio_get_handler :: "('o, 'h, 'p) smio \<Rightarrow> 'h option" where "smio_get_handler = sm_handler"

definition smio_get_dealer :: "('o, 'h, 'p) smio \<Rightarrow> 'p sock" where "smio_get_dealer = sm_dealer"

definition smio_get_dealer2 :: "('o, 'h, 'p) smio \<Rightarrow> 'p sock" where "smio_get_dealer2 = sm_dealer2"

text \<open>Names are copied; \<open>ok\<close> is the outcome of \<open>strdup\<close>. A failed copy leaves a null name behind.\<close>

definition s_smio_set_name :: "bool \<Rightarrow> ('o, 'h, 'p) smio \<Rightarrow> string option \<Rightarrow> smio_err \<times> ('o, 'h, 'p) smio" where
  "s_smio_set_name ok self nm =
     (case nm of
        None \<Rightarrow> (SMIO_SUCCESS, self)
      | Some s \<Rightarrow> if ok then (SMIO_SUCCESS, self\<lparr>sm_name := Some s\<rparr>)
          else (SMIO_ERR_ALLOC, self\<lparr>sm_name := None\<rparr>))"

definition smio_set_name :: "bool \<Rightarrow> ('o, 'h, 'p) smio \<Rightarrow> string option \<Rightarrow> smio_err \<times> ('o, 'h, 'p) smio" where
  "smio_set_name ok self nm = s_smio_set_name ok self nm"

definition s_smio_get_name :: "('o, 'h, 'p) smio \<Rightarrow> string option" where "s_smio_get_name = sm_name"
definition smio_get_name :: "('o, 'h, 'p) smio \<Rightarrow> string option" where "smio_get_name = s_smio_get_name"

text \<open>\<open>strdup\<close> of a null name is undefined.\<close>

definition s_smio_clone_name :: "bool \<Rightarrow> ('o, 'h, 'p) smio \<Rightarrow> string option option" where
  "s_smio_clone_name ok self = map_option (\<lambda>s. if ok then Some s else None) (sm_name self)"

definition smio_clone_name :: "bool \<Rightarrow> ('o, 'h, 'p) smio \<Rightarrow> string option option" where
  "smio_clone_name ok self = s_smio_clone_name ok self"

definition s_smio_get_endpoint :: "('o, 'h, 'p) smio \<Rightarrow> string" where "s_smio_get_endpoint = sm_endpoint"
definition smio_get_endpoint :: "('o, 'h, 'p) smio \<Rightarrow> string" where "smio_get_endpoint = s_smio_get_endpoint"

definition s_smio_clone_endpoint :: "bool \<Rightarrow> ('o, 'h, 'p) smio \<Rightarrow> string option" where
  "s_smio_clone_endpoint ok self = (if ok then Some (sm_endpoint self) else None)"

definition smio_clone_endpoint :: "bool \<Rightarrow> ('o, 'h, 'p) smio \<Rightarrow> string option" where
  "smio_clone_endpoint ok self = s_smio_clone_endpoint ok self"

definition s_smio_get_service :: "('o, 'h, 'p) smio \<Rightarrow> string" where "s_smio_get_service = sm_service"
definition smio_get_service :: "('o, 'h, 'p) smio \<Rightarrow> string" where "smio_get_service = s_smio_get_service"

definition s_smio_clone_service :: "bool \<Rightarrow> ('o, 'h, 'p) smio \<Rightarrow> string option" where
  "s_smio_clone_service ok self = (if ok then Some (sm_service self) else None)"

definition smio_clone_service :: "bool \<Rightarrow> ('o, 'h, 'p) smio \<Rightarrow> string option" where
  "smio_clone_service ok self = s_smio_clone_service ok self"

section \<open>The wrappers of the register accesses\<close>

definition smio_not_impl :: int where "smio_not_impl = -2"

text \<open>\<open>SMIO_FUNC_WRAPPER\<close>: missing client operations are an assertion, a missing function gives
  \<open>-SMIO_ERR_FUNC_NOT_IMPL\<close>.\<close>

definition SMIO_FUNC_WRAPPER ::
  "('o, 'h, 'p) smio \<Rightarrow> ('p smio_thsafe_client_ops \<Rightarrow> 'f option) \<Rightarrow> 'r \<Rightarrow> ('f \<Rightarrow> 'r option) \<Rightarrow> 'r option" where
  "SMIO_FUNC_WRAPPER self func_name dflt call = do {
     ops \<leftarrow> sm_thsafe self;
     case func_name ops of None \<Rightarrow> Some dflt | Some f \<Rightarrow> call f }"

definition smio_thsafe_client_open :: "('o, 'h, 'p) smio \<Rightarrow> llio_endpoint option \<Rightarrow> 'p \<Rightarrow> (int \<times> 'p) option" where
  "smio_thsafe_client_open self ep p =
     SMIO_FUNC_WRAPPER self thsafe_client_open (smio_not_impl, p) (\<lambda>f. f (sm_dealer self) ep p)"

definition smio_thsafe_client_open_gen ::
  "('o, 'h, 'p) smio \<Rightarrow> 'p sock \<Rightarrow> llio_endpoint option \<Rightarrow> 'p \<Rightarrow> (int \<times> 'p) option" where
  "smio_thsafe_client_open_gen self sock ep p =
     SMIO_FUNC_WRAPPER self thsafe_client_open (smio_not_impl, p) (\<lambda>f. f sock ep p)"

definition smio_thsafe_client_release :: "('o, 'h, 'p) smio \<Rightarrow> llio_endpoint option \<Rightarrow> 'p \<Rightarrow> (int \<times> 'p) option" where
  "smio_thsafe_client_release self ep p =
     SMIO_FUNC_WRAPPER self thsafe_client_release (smio_not_impl, p) (\<lambda>f. f (sm_dealer self) ep p)"

definition smio_thsafe_client_release_gen ::
  "('o, 'h, 'p) smio \<Rightarrow> 'p sock \<Rightarrow> llio_endpoint option \<Rightarrow> 'p \<Rightarrow> (int \<times> 'p) option" where
  "smio_thsafe_client_release_gen self sock ep p =
     SMIO_FUNC_WRAPPER self thsafe_client_release (smio_not_impl, p) (\<lambda>f. f sock ep p)"

definition smio_thsafe_client_read_16 ::
  "('o, 'h, 'p) smio \<Rightarrow> u64 \<Rightarrow> u8 list \<Rightarrow> 'p \<Rightarrow> (int \<times> u8 list \<times> 'p) option" where
  "smio_thsafe_client_read_16 self offs data p =
     SMIO_FUNC_WRAPPER self thsafe_client_read_16 (smio_not_impl, data, p)
       (\<lambda>f. f (sm_dealer self) (sm_base self OR offs) data p)"

definition smio_thsafe_client_read_16_gen ::
  "('o, 'h, 'p) smio \<Rightarrow> 'p sock \<Rightarrow> u64 \<Rightarrow> u8 list \<Rightarrow> 'p \<Rightarrow> (int \<times> u8 list \<times> 'p) option" where
  "smio_thsafe_client_read_16_gen self sock offs data p =
     SMIO_FUNC_WRAPPER self thsafe_client_read_16 (smio_not_impl, data, p)
       (\<lambda>f. f sock (sm_base self OR offs) data p)"

definition smio_thsafe_raw_client_read_16 ::
  "('o, 'h, 'p) smio \<Rightarrow> u64 \<Rightarrow> u8 list \<Rightarrow> 'p \<Rightarrow> (int \<times> u8 list \<times> 'p) option" where
  "smio_thsafe_raw_client_read_16 self offs data p =
     SMIO_FUNC_WRAPPER self thsafe_client_read_16 (smio_not_impl, data, p)
       (\<lambda>f. f (sm_dealer self) offs data p)"

definition smio_thsafe_raw_client_read_16_gen ::
  "('o, 'h, 'p) smio \<Rightarrow> 'p sock \<Rightarrow> u64 \<Rightarrow> u8 list \<Rightarrow> 'p \<Rightarrow> (int \<times> u8 list \<times> 'p) option" where
  "smio_thsafe_raw_client_read_16_gen self sock offs data p =
     SMIO_FUNC_WRAPPER self thsafe_client_read_16 (smio_not_impl, data, p)
       (\<lambda>f. f sock offs data p)"

definition smio_thsafe_client_read_32 ::
  "('o, 'h, 'p) smio \<Rightarrow> u64 \<Rightarrow> u8 list \<Rightarrow> 'p \<Rightarrow> (int \<times> u8 list \<times> 'p) option" where
  "smio_thsafe_client_read_32 self offs data p =
     SMIO_FUNC_WRAPPER self thsafe_client_read_32 (smio_not_impl, data, p)
       (\<lambda>f. f (sm_dealer self) (sm_base self OR offs) data p)"

definition smio_thsafe_client_read_32_gen ::
  "('o, 'h, 'p) smio \<Rightarrow> 'p sock \<Rightarrow> u64 \<Rightarrow> u8 list \<Rightarrow> 'p \<Rightarrow> (int \<times> u8 list \<times> 'p) option" where
  "smio_thsafe_client_read_32_gen self sock offs data p =
     SMIO_FUNC_WRAPPER self thsafe_client_read_32 (smio_not_impl, data, p)
       (\<lambda>f. f sock (sm_base self OR offs) data p)"

definition smio_thsafe_raw_client_read_32 ::
  "('o, 'h, 'p) smio \<Rightarrow> u64 \<Rightarrow> u8 list \<Rightarrow> 'p \<Rightarrow> (int \<times> u8 list \<times> 'p) option" where
  "smio_thsafe_raw_client_read_32 self offs data p =
     SMIO_FUNC_WRAPPER self thsafe_client_read_32 (smio_not_impl, data, p)
       (\<lambda>f. f (sm_dealer self) offs data p)"

definition smio_thsafe_raw_client_read_32_gen ::
  "('o, 'h, 'p) smio \<Rightarrow> 'p sock \<Rightarrow> u64 \<Rightarrow> u8 list \<Rightarrow> 'p \<Rightarrow> (int \<times> u8 list \<times> 'p) option" where
  "smio_thsafe_raw_client_read_32_gen self sock offs data p =
     SMIO_FUNC_WRAPPER self thsafe_client_read_32 (smio_not_impl, data, p)
       (\<lambda>f. f sock offs data p)"

definition smio_thsafe_client_read_64 ::
  "('o, 'h, 'p) smio \<Rightarrow> u64 \<Rightarrow> u8 list \<Rightarrow> 'p \<Rightarrow> (int \<times> u8 list \<times> 'p) option" where
  "smio_thsafe_client_read_64 self offs data p =
     SMIO_FUNC_WRAPPER self thsafe_client_read_64 (smio_not_impl, data, p)
       (\<lambda>f. f (sm_dealer self) (sm_base self OR offs) data p)"

definition smio_thsafe_client_read_64_gen ::
  "('o, 'h, 'p) smio \<Rightarrow> 'p sock \<Rightarrow> u64 \<Rightarrow> u8 list \<Rightarrow> 'p \<Rightarrow> (int \<times> u8 list \<times> 'p) option" where
  "smio_thsafe_client_read_64_gen self sock offs data p =
     SMIO_FUNC_WRAPPER self thsafe_client_read_64 (smio_not_impl, data, p)
       (\<lambda>f. f sock (sm_base self OR offs) data p)"

definition smio_thsafe_raw_client_read_64 ::
  "('o, 'h, 'p) smio \<Rightarrow> u64 \<Rightarrow> u8 list \<Rightarrow> 'p \<Rightarrow> (int \<times> u8 list \<times> 'p) option" where
  "smio_thsafe_raw_client_read_64 self offs data p =
     SMIO_FUNC_WRAPPER self thsafe_client_read_64 (smio_not_impl, data, p)
       (\<lambda>f. f (sm_dealer self) offs data p)"

definition smio_thsafe_raw_client_read_64_gen ::
  "('o, 'h, 'p) smio \<Rightarrow> 'p sock \<Rightarrow> u64 \<Rightarrow> u8 list \<Rightarrow> 'p \<Rightarrow> (int \<times> u8 list \<times> 'p) option" where
  "smio_thsafe_raw_client_read_64_gen self sock offs data p =
     SMIO_FUNC_WRAPPER self thsafe_client_read_64 (smio_not_impl, data, p)
       (\<lambda>f. f sock offs data p)"

definition smio_thsafe_client_write_16 ::
  "('o, 'h, 'p) smio \<Rightarrow> u64 \<Rightarrow> u8 list \<Rightarrow> 'p \<Rightarrow> (int \<times> 'p) option" where
  "smio_thsafe_client_write_16 self offs data p =
     SMIO_FUNC_WRAPPER self thsafe_client_write_16 (smio_not_impl, p)
       (\<lambda>f. f (sm_dealer self) (sm_base self OR offs) data p)"

definition smio_thsafe_client_write_16_gen ::
  "('o, 'h, 'p) smio \<Rightarrow> 'p sock \<Rightarrow> u64 \<Rightarrow> u8 list \<Rightarrow> 'p \<Rightarrow> (int \<times> 'p) option" where
  "smio_thsafe_client_write_16_gen self sock offs data p =
     SMIO_FUNC_WRAPPER self thsafe_client_write_16 (smio_not_impl, p)
       (\<lambda>f. f sock (sm_base self OR offs) data p)"

definition smio_thsafe_raw_client_write_16 ::
  "('o, 'h, 'p) smio \<Rightarrow> u64 \<Rightarrow> u8 list \<Rightarrow> 'p \<Rightarrow> (int \<times> 'p) option" where
  "smio_thsafe_raw_client_write_16 self offs data p =
     SMIO_FUNC_WRAPPER self thsafe_client_write_16 (smio_not_impl, p)
       (\<lambda>f. f (sm_dealer self) offs data p)"

definition smio_thsafe_raw_client_write_16_gen ::
  "('o, 'h, 'p) smio \<Rightarrow> 'p sock \<Rightarrow> u64 \<Rightarrow> u8 list \<Rightarrow> 'p \<Rightarrow> (int \<times> 'p) option" where
  "smio_thsafe_raw_client_write_16_gen self sock offs data p =
     SMIO_FUNC_WRAPPER self thsafe_client_write_16 (smio_not_impl, p)
       (\<lambda>f. f sock offs data p)"

definition smio_thsafe_client_write_32 ::
  "('o, 'h, 'p) smio \<Rightarrow> u64 \<Rightarrow> u8 list \<Rightarrow> 'p \<Rightarrow> (int \<times> 'p) option" where
  "smio_thsafe_client_write_32 self offs data p =
     SMIO_FUNC_WRAPPER self thsafe_client_write_32 (smio_not_impl, p)
       (\<lambda>f. f (sm_dealer self) (sm_base self OR offs) data p)"

definition smio_thsafe_client_write_32_gen ::
  "('o, 'h, 'p) smio \<Rightarrow> 'p sock \<Rightarrow> u64 \<Rightarrow> u8 list \<Rightarrow> 'p \<Rightarrow> (int \<times> 'p) option" where
  "smio_thsafe_client_write_32_gen self sock offs data p =
     SMIO_FUNC_WRAPPER self thsafe_client_write_32 (smio_not_impl, p)
       (\<lambda>f. f sock (sm_base self OR offs) data p)"

definition smio_thsafe_raw_client_write_32 ::
  "('o, 'h, 'p) smio \<Rightarrow> u64 \<Rightarrow> u8 list \<Rightarrow> 'p \<Rightarrow> (int \<times> 'p) option" where
  "smio_thsafe_raw_client_write_32 self offs data p =
     SMIO_FUNC_WRAPPER self thsafe_client_write_32 (smio_not_impl, p)
       (\<lambda>f. f (sm_dealer self) offs data p)"

definition smio_thsafe_raw_client_write_32_gen ::
  "('o, 'h, 'p) smio \<Rightarrow> 'p sock \<Rightarrow> u64 \<Rightarrow> u8 list \<Rightarrow> 'p \<Rightarrow> (int \<times> 'p) option" where
  "smio_thsafe_raw_client_write_32_gen self sock offs data p =
     SMIO_FUNC_WRAPPER self thsafe_client_write_32 (smio_not_impl, p)
       (\<lambda>f. f sock offs data p)"

definition smio_thsafe_client_write_64 ::
  "('o, 'h, 'p) smio \<Rightarrow> u64 \<Rightarrow> u8 list \<Rightarrow> 'p \<Rightarrow> (int \<times> 'p) option" where
  "smio_thsafe_client_write_64 self offs data p =
     SMIO_FUNC_WRAPPER self thsafe_client_write_64 (smio_not_impl, p)
       (\<lambda>f. f (sm_dealer self) (sm_base self OR offs) data p)"

definition smio_thsafe_client_write_64_gen ::
  "('o, 'h, 'p) smio \<Rightarrow> 'p sock \<Rightarrow> u64 \<Rightarrow> u8 list \<Rightarrow> 'p \<Rightarrow> (int \<times> 'p) option" where
  "smio_thsafe_client_write_64_gen self sock offs data p =
     SMIO_FUNC_WRAPPER self thsafe_client_write_64 (smio_not_impl, p)
       (\<lambda>f. f sock (sm_base self OR offs) data p)"

definition smio_thsafe_raw_client_write_64 ::
  "('o, 'h, 'p) smio \<Rightarrow> u64 \<Rightarrow> u8 list \<Rightarrow> 'p \<Rightarrow> (int \<times> 'p) option" where
  "smio_thsafe_raw_client_write_64 self offs data p =
     SMIO_FUNC_WRAPPER self thsafe_client_write_64 (smio_not_impl, p)
       (\<lambda>f. f (sm_dealer self) offs data p)"

definition smio_thsafe_raw_client_write_64_gen ::
  "('o, 'h, 'p) smio \<Rightarrow> 'p sock \<Rightarrow> u64 \<Rightarrow> u8 list \<Rightarrow> 'p \<Rightarrow> (int \<times> 'p) option" where
  "smio_thsafe_raw_client_write_64_gen self sock offs data p =
     SMIO_FUNC_WRAPPER self thsafe_client_write_64 (smio_not_impl, p)
       (\<lambda>f. f sock offs data p)"

definition smio_thsafe_client_read_block ::
  "('o, 'h, 'p) smio \<Rightarrow> u64 \<Rightarrow> u64 \<Rightarrow> u8 list \<Rightarrow> 'p \<Rightarrow> (int \<times> u8 list \<times> 'p) option" where
  "smio_thsafe_client_read_block self offs sz data p =
     SMIO_FUNC_WRAPPER self thsafe_client_read_block (smio_not_impl, data, p)
       (\<lambda>f. f (sm_dealer self) (sm_base self OR offs) sz data p)"

definition smio_thsafe_client_read_block_gen ::
  "('o, 'h, 'p) smio \<Rightarrow> 'p sock \<Rightarrow> u64 \<Rightarrow> u64 \<Rightarrow> u8 list \<Rightarrow> 'p \<Rightarrow> (int \<times> u8 list \<times> 'p) option" where
  "smio_thsafe_client_read_block_gen self sock offs sz data p =
     SMIO_FUNC_WRAPPER self thsafe_client_read_block (smio_not_impl, data, p)
       (\<lambda>f. f sock (sm_base self OR offs) sz data p)"

definition smio_thsafe_raw_client_read_block ::
  "('o, 'h, 'p) smio \<Rightarrow> u64 \<Rightarrow> u64 \<Rightarrow> u8 list \<Rightarrow> 'p \<Rightarrow> (int \<times> u8 list \<times> 'p) option" where
  "smio_thsafe_raw_client_read_block self offs sz data p =
     SMIO_FUNC_WRAPPER self thsafe_client_read_block (smio_not_impl, data, p)
       (\<lambda>f. f (sm_dealer self) offs sz data p)"

definition smio_thsafe_raw_client_read_block_gen ::
  "('o, 'h, 'p) smio \<Rightarrow> 'p sock \<Rightarrow> u64 \<Rightarrow> u64 \<Rightarrow> u8 list \<Rightarrow> 'p \<Rightarrow> (int \<times> u8 list \<times> 'p) option" where
  "smio_thsafe_raw_client_read_block_gen self sock offs sz data p =
     SMIO_FUNC_WRAPPER self thsafe_client_read_block (smio_not_impl, data, p)
       (\<lambda>f. f sock offs sz data p)"

definition smio_thsafe_client_write_block ::
  "('o, 'h, 'p) smio \<Rightarrow> u64 \<Rightarrow> u64 \<Rightarrow> u8 list \<Rightarrow> 'p \<Rightarrow> (int \<times> 'p) option" where
  "smio_thsafe_client_write_block self offs sz data p =
     SMIO_FUNC_WRAPPER self thsafe_client_write_block (smio_not_impl, p)
       (\<lambda>f. f (sm_dealer self) (sm_base self OR offs) sz data p)"

definition smio_thsafe_client_write_block_gen ::
  "('o, 'h, 'p) smio \<Rightarrow> 'p sock \<Rightarrow> u64 \<Rightarrow> u64 \<Rightarrow> u8 list \<Rightarrow> 'p \<Rightarrow> (int \<times> 'p) option" where
  "smio_thsafe_client_write_block_gen self sock offs sz data p =
     SMIO_FUNC_WRAPPER self thsafe_client_write_block (smio_not_impl, p)
       (\<lambda>f. f sock (sm_base self OR offs) sz data p)"

definition smio_thsafe_raw_client_write_block ::
  "('o, 'h, 'p) smio \<Rightarrow> u64 \<Rightarrow> u64 \<Rightarrow> u8 list \<Rightarrow> 'p \<Rightarrow> (int \<times> 'p) option" where
  "smio_thsafe_raw_client_write_block self offs sz data p =
     SMIO_FUNC_WRAPPER self thsafe_client_write_block (smio_not_impl, p)
       (\<lambda>f. f (sm_dealer self) offs sz data p)"

definition smio_thsafe_raw_client_write_block_gen ::
  "('o, 'h, 'p) smio \<Rightarrow> 'p sock \<Rightarrow> u64 \<Rightarrow> u64 \<Rightarrow> u8 list \<Rightarrow> 'p \<Rightarrow> (int \<times> 'p) option" where
  "smio_thsafe_raw_client_write_block_gen self sock offs sz data p =
     SMIO_FUNC_WRAPPER self thsafe_client_write_block (smio_not_impl, p)
       (\<lambda>f. f sock offs sz data p)"

definition smio_thsafe_client_read_dma ::
  "('o, 'h, 'p) smio \<Rightarrow> u64 \<Rightarrow> u64 \<Rightarrow> u8 list \<Rightarrow> 'p \<Rightarrow> (int \<times> u8 list \<times> 'p) option" where
  "smio_thsafe_client_read_dma self offs sz data p =
     SMIO_FUNC_WRAPPER self thsafe_client_read_dma (smio_not_impl, data, p)
       (\<lambda>f. f (sm_dealer self) (sm_base self OR offs) sz data p)"

definition smio_thsafe_client_read_dma_gen ::
  "('o, 'h, 'p) smio \<Rightarrow> 'p sock \<Rightarrow> u64 \<Rightarrow> u64 \<Rightarrow> u8 list \<Rightarrow> 'p \<Rightarrow> (int \<times> u8 list \<times> 'p) option" where
  "smio_thsafe_client_read_dma_gen self sock offs sz data p =
     SMIO_FUNC_WRAPPER self thsafe_client_read_dma (smio_not_impl, data, p)
       (\<lambda>f. f sock (sm_base self OR offs) sz data p)"

definition smio_thsafe_raw_client_read_dma ::
  "('o, 'h, 'p) smio \<Rightarrow> u64 \<Rightarrow> u64 \<Rightarrow> u8 list \<Rightarrow> 'p \<Rightarrow> (int \<times> u8 list \<times> 'p) option" where
  "smio_thsafe_raw_client_read_dma self offs sz data p =
     SMIO_FUNC_WRAPPER self thsafe_client_read_dma (smio_not_impl, data, p)
       (\<lambda>f. f (sm_dealer self) offs sz data p)"

definition smio_thsafe_raw_client_read_dma_gen ::
  "('o, 'h, 'p) smio \<Rightarrow> 'p sock \<Rightarrow> u64 \<Rightarrow> u64 \<Rightarrow> u8 list \<Rightarrow> 'p \<Rightarrow> (int \<times> u8 list \<times> 'p) option" where
  "smio_thsafe_raw_client_read_dma_gen self sock offs sz data p =
     SMIO_FUNC_WRAPPER self thsafe_client_read_dma (smio_not_impl, data, p)
       (\<lambda>f. f sock offs sz data p)"

definition smio_thsafe_client_write_dma ::
  "('o, 'h, 'p) smio \<Rightarrow> u64 \<Rightarrow> u64 \<Rightarrow> u8 list \<Rightarrow> 'p \<Rightarrow> (int \<times> 'p) option" where
  "smio_thsafe_client_write_dma self offs sz data p =
     SMIO_FUNC_WRAPPER self thsafe_client_write_dma (smio_not_impl, p)
       (\<lambda>f. f (sm_dealer self) (sm_base self OR offs) sz data p)"

definition smio_thsafe_client_write_dma_gen ::
  "('o, 'h, 'p) smio \<Rightarrow> 'p sock \<Rightarrow> u64 \<Rightarrow> u64 \<Rightarrow> u8 list \<Rightarrow> 'p \<Rightarrow> (int \<times> 'p) option" where
  "smio_thsafe_client_write_dma_gen self sock offs sz data p =
     SMIO_FUNC_WRAPPER self thsafe_client_write_dma (smio_not_impl, p)
       (\<lambda>f. f sock (sm_base self OR offs) sz data p)"

definition smio_thsafe_raw_client_write_dma ::
  "('o, 'h, 'p) smio \<Rightarrow> u64 \<Rightarrow> u64 \<Rightarrow> u8 list \<Rightarrow> 'p \<Rightarrow> (int \<times> 'p) option" where
  "smio_thsafe_raw_client_write_dma self offs sz data p =
     SMIO_FUNC_WRAPPER self thsafe_client_write_dma (smio_not_impl, p)
       (\<lambda>f. f (sm_dealer self) offs sz data p)"

definition smio_thsafe_raw_client_write_dma_gen ::
  "('o, 'h, 'p) smio \<Rightarrow> 'p sock \<Rightarrow> u64 \<Rightarrow> u64 \<Rightarrow> u8 list \<Rightarrow> 'p \<Rightarrow> (int \<times> 'p) option" where
  "smio_thsafe_raw_client_write_dma_gen self sock offs sz data p =
     SMIO_FUNC_WRAPPER self thsafe_client_write_dma (smio_not_impl, p)
       (\<lambda>f. f sock offs sz data p)"

section \<open>The module's operations\<close>

text \<open>\<open>smio_ops_t\<close>: functions on the owner \<open>'w\<close> (the object and what is behind it).\<close>

record 'w smio_ops =
  so_attach :: "('w \<Rightarrow> smio_err \<times> 'w) option"
  so_deattach :: "('w \<Rightarrow> smio_err \<times> 'w) option"
  so_export_ops :: "(nat list \<Rightarrow> 'w \<Rightarrow> smio_err \<times> 'w) option"
  so_unexport_ops :: "('w \<Rightarrow> smio_err \<times> 'w) option"
  so_do_op :: "(msg_args \<Rightarrow> 'w \<Rightarrow> smio_err \<times> 'w) option"
  so_do_mgmt_op :: "(msg_args \<Rightarrow> 'w \<Rightarrow> (smio_err \<times> 'w) option) option"

text \<open>A module without operations, or without this one, or whose operation says that it is not
  implemented, counts as successful.\<close>

definition SMIO_FUNC_OPS_NOFAIL_WRAPPER ::
  "'w smio_ops option \<Rightarrow> ('w smio_ops \<Rightarrow> 'f option) \<Rightarrow> ('f \<Rightarrow> smio_err \<times> 'w) \<Rightarrow> 'w \<Rightarrow> smio_err \<times> 'w" where
  "SMIO_FUNC_OPS_NOFAIL_WRAPPER ops func_name call w =
     (let (local_err, w') =
        (case ops of
           None \<Rightarrow> (SMIO_ERR_FUNC_NOT_IMPL, w)
         | Some so \<Rightarrow> (case func_name so of None \<Rightarrow> (SMIO_ERR_FUNC_NOT_IMPL, w) | Some f \<Rightarrow> call f))
      in (if local_err \<noteq> SMIO_ERR_FUNC_NOT_IMPL then local_err else SMIO_SUCCESS, w'))"

definition smio_attach :: "'w smio_ops option \<Rightarrow> 'w \<Rightarrow> smio_err \<times> 'w" where
  "smio_attach ops w = SMIO_FUNC_OPS_NOFAIL_WRAPPER ops so_attach (\<lambda>f. f w) w"

definition smio_deattach :: "'w smio_ops option \<Rightarrow> 'w \<Rightarrow> smio_err \<times> 'w" where
  "smio_deattach ops w = SMIO_FUNC_OPS_NOFAIL_WRAPPER ops so_deattach (\<lambda>f. f w) w"

text \<open>Exporting: the descriptors go into the module's dispatch table, then the module is told.\<close>

definition smio_export_ops ::
  "'z zhashx \<Rightarrow> ('z, 'w, msg_args) disp_table \<Rightarrow> 'w smio_ops option \<Rightarrow> nat list \<Rightarrow> 'w \<Rightarrow> ('w, msg_args) dheap \<Rightarrow>
     (smio_err \<times> 'w \<times> ('z, 'w, msg_args) disp_table \<times> ('w, msg_args) dheap) option" where
  "smio_export_ops Z T ops smio_exp_ops w h = do {
     (derr, T', h') \<leftarrow> disp_table_insert_all Z T smio_exp_ops h;
     if derr \<noteq> DISP_TABLE_SUCCESS then Some (SMIO_ERR_EXPORT_OP, w, T', h')
     else let (err, w') = SMIO_FUNC_OPS_NOFAIL_WRAPPER ops so_export_ops (\<lambda>f. f smio_exp_ops w) w
       in Some (err, w', T', h') }"

definition smio_unexport_ops ::
  "'z zhashx \<Rightarrow> ('z, 'w, msg_args) disp_table \<Rightarrow> 'w smio_ops option \<Rightarrow> 'w \<Rightarrow> ('w, msg_args) dheap \<Rightarrow>
     (smio_err \<times> 'w \<times> ('z, 'w, msg_args) disp_table \<times> ('w, msg_args) dheap) option" where
  "smio_unexport_ops Z T ops w h = do {
     (derr, T', h') \<leftarrow> disp_table_remove_all Z T h;
     if derr \<noteq> DISP_TABLE_SUCCESS then Some (SMIO_ERR_EXPORT_OP, w, T', h')
     else let (err, w') = SMIO_FUNC_OPS_NOFAIL_WRAPPER ops so_unexport_ops (\<lambda>f. f w) w
       in Some (err, w', T', h') }"

definition smio_init_exp_ops ::
  "nat list \<Rightarrow> ('w, msg_args) disp_table_func list \<Rightarrow> ('w, msg_args) dheap \<Rightarrow>
     (smio_err \<times> ('w, msg_args) dheap) option" where
  "smio_init_exp_ops smio_exp_ops func_fps h = do {
     (derr, h') \<leftarrow> disp_table_fill_desc smio_exp_ops func_fps h;
     Some (if derr = DISP_TABLE_SUCCESS then SMIO_SUCCESS else SMIO_ERR_EXPORT_OP, h') }"

section \<open>Requests\<close>

definition s_smio_check_msg_args :: "('w, msg_args) disp_op \<Rightarrow> msg_args \<Rightarrow> disp_table_err" where
  "s_smio_check_msg_args disp_op msg =
     (if msg_guess_type msg \<noteq> MSG_EXP_ZMQ then DISP_TABLE_ERR_BAD_MSG
      else if msg_check_gen_zmq_args disp_op (content msg) \<noteq> MSG_SUCCESS then DISP_TABLE_ERR_BAD_MSG
      else DISP_TABLE_SUCCESS)"

definition smio_disp_table_ops :: "('w, msg_args) disp_table_ops" where
  "smio_disp_table_ops = \<lparr>check_msg_args = Some s_smio_check_msg_args\<rparr>"

text \<open>The result of the module's own \<open>do_op\<close> is dropped: the macro's value is not assigned, and
  the test after it looks at the initial value.\<close>

definition s_smio_do_op ::
  "'w smio_ops option \<Rightarrow> ('s \<Rightarrow> u32 \<Rightarrow> 'w \<Rightarrow> msg_args \<Rightarrow> (int \<times> u8 list option \<times> 'w \<times> 's) option) \<Rightarrow> (nat \<Rightarrow> bool) \<Rightarrow>
     bool \<Rightarrow> msg_args \<Rightarrow> 'w \<Rightarrow> 's \<Rightarrow> (smio_err \<times> frame list option \<times> 'w \<times> 's) option" where
  "s_smio_do_op ops check_call ze worker msg w s =
     (let w1 = snd (SMIO_FUNC_OPS_NOFAIL_WRAPPER ops so_do_op (\<lambda>f. f msg w) w)
      in do {
        (merr, r, w', s') \<leftarrow> msg_handle_mlm_request check_call ze worker msg w1 s;
        Some (if merr = MSG_SUCCESS then SMIO_SUCCESS else SMIO_ERR_MSG_NOT_SUPP, r, w', s') })"

definition smio_do_op ::
  "'w smio_ops option \<Rightarrow> ('s \<Rightarrow> u32 \<Rightarrow> 'w \<Rightarrow> msg_args \<Rightarrow> (int \<times> u8 list option \<times> 'w \<times> 's) option) \<Rightarrow> (nat \<Rightarrow> bool) \<Rightarrow>
     bool \<Rightarrow> msg_args \<Rightarrow> 'w \<Rightarrow> 's \<Rightarrow> (smio_err \<times> frame list option \<times> 'w \<times> 's) option" where
  "smio_do_op ops check_call ze worker msg w s = s_smio_do_op ops check_call ze worker msg w s"

text \<open>The result of the operation is dropped: the macro stands as a statement of its own.\<close>

definition s_smio_do_mgmt_msg :: "'w smio_ops option \<Rightarrow> msg_args \<Rightarrow> 'w \<Rightarrow> (smio_err \<times> 'w) option" where
  "s_smio_do_mgmt_msg ops msg w =
     (case ops of
        None \<Rightarrow> Some (SMIO_SUCCESS, w)
      | Some so \<Rightarrow> (case so_do_mgmt_op so of
          None \<Rightarrow> Some (SMIO_SUCCESS, w)
        | Some f \<Rightarrow> map_option (\<lambda>(_, w'). (SMIO_SUCCESS, w')) (f msg w)))"

section \<open>Facts\<close>

text \<open>32-bit accesses on words.\<close>

definition smio_rd :: "('o, 'h, 'p) smio \<Rightarrow> 'p \<Rightarrow> u64 \<Rightarrow> u32 \<Rightarrow> (int \<times> u32 \<times> 'p) option" where
  "smio_rd self p a d = map_option (\<lambda>(r, b, p'). (r, le_word b, p'))
     (smio_thsafe_client_read_32 self a (le_bytes 4 d) p)"

definition smio_wr :: "('o, 'h, 'p) smio \<Rightarrow> 'p \<Rightarrow> u64 \<Rightarrow> u32 \<Rightarrow> (int \<times> 'p) option" where
  "smio_wr self p a v = smio_thsafe_client_write_32 self a (le_bytes 4 v) p"

lemma or_disjoint_inj:
  fixes x :: "'a::len word"
  assumes "x AND a = 0" and "x AND b = 0" and "x OR a = x OR b"
  shows "a = b"
proof (rule bit_word_eqI)
  fix n assume "n < LENGTH('a)"
  have "bit (x AND a) n = bit (0 :: 'a word) n" "bit (x AND b) n = bit (0 :: 'a word) n"
    "bit (x OR a) n = bit (x OR b) n" using assms by simp_all
  then show "bit a n = bit b n" by (auto simp: bit_simps)
qed

text \<open>The object of a module, connected to the device server by its dealer socket, is a register
  bus over the offsets that do not overlap its base address.\<close>

definition smio_ready :: "('o, 'h, ('z, 'w) devio_peer) smio \<Rightarrow> frame \<Rightarrow> bool" where
  "smio_ready self rid \<longleftrightarrow> sm_thsafe self = Some (smio_thsafe_client_zmq_ops (\<lambda>_. True)) \<and>
     sm_dealer self = devio_sock rid"

abbreviation smio_view :: "('o, 'h, 'p) smio \<Rightarrow> ('p \<Rightarrow> u64 \<Rightarrow> u32) \<Rightarrow> 'p \<Rightarrow> u64 \<Rightarrow> u32" where
  "smio_view self view p a \<equiv> view p (sm_base self OR a)"

definition smio_addr :: "('o, 'h, 'p) smio \<Rightarrow> (u64 \<Rightarrow> bool) \<Rightarrow> u64 \<Rightarrow> bool" where
  "smio_addr self mapped a \<longleftrightarrow> sm_base self AND a = 0 \<and> mapped (sm_base self OR a)"

lemma smio_rd_client: "smio_ready self rid \<Longrightarrow> smio_rd self p a d = client_rd rid p (sm_base self OR a) d"
  by (simp add: smio_rd_def client_rd_def smio_thsafe_client_read_32_def SMIO_FUNC_WRAPPER_def smio_ready_def
      smio_thsafe_client_zmq_ops_def)

lemma smio_wr_client: "smio_ready self rid \<Longrightarrow> smio_wr self p a v = client_wr rid p (sm_base self OR a) v"
  by (simp add: smio_wr_def client_wr_def smio_thsafe_client_write_32_def SMIO_FUNC_WRAPPER_def smio_ready_def
      smio_thsafe_client_zmq_ops_def)

lemma smio_bus:
  assumes r: "smio_ready self rid" and bus: "reg_bus (client_rd rid) (client_wr rid) view good mapped"
  shows "reg_bus (smio_rd self) (smio_wr self) (smio_view self view) good (smio_addr self mapped)"
proof
  fix p a and d :: u32
  assume "good p" and "smio_addr self mapped a"
  then show "\<exists>p'. smio_rd self p a d = Some (4, smio_view self view p a, p') \<and> good p' \<and>
      (\<forall>b. smio_addr self mapped b \<longrightarrow> smio_view self view p' b = smio_view self view p b)"
    using reg_bus.rd_view [OF bus, of p "sm_base self OR a" d] by (auto simp: smio_rd_client [OF r] smio_addr_def)
next
  fix p a and v :: u32
  assume g: "good p" and a: "smio_addr self mapped a"
  obtain p' where p': "client_wr rid p (sm_base self OR a) v = Some (4, p')" "good p'"
    "\<forall>b. mapped b \<longrightarrow> view p' b = (if b = sm_base self OR a then v else view p b)"
    using reg_bus.wr_view [OF bus g, of "sm_base self OR a" v] a by (auto simp: smio_addr_def)
  have "smio_view self view p' b = (if b = a then v else smio_view self view p b)"
    if "smio_addr self mapped b" for b
    using p'(3) that a or_disjoint_inj [of "sm_base self" a b] by (auto simp: smio_addr_def)
  with p' show "\<exists>p'. smio_wr self p a v = Some (4, p') \<and> good p' \<and>
      (\<forall>b. smio_addr self mapped b \<longrightarrow> smio_view self view p' b = (if b = a then v else smio_view self view p b))"
    by (auto simp: smio_wr_client [OF r])
qed

end
