(* ===== verification/Rw_Param.thy ===== *)
theory Rw_Param
  imports Smio
begin

text \<open>
  Parameters of the modules: include/rw_param.h and src/sm_io/rw_param/rw_param.c. The macros read
  or set a field of a register through 32-bit accesses given as function pointers, and generate
  the exported functions by which clients read and set parameters.

  The accesses are the parameters \<open>rd\<close> and \<open>wr\<close> of the definitions. The variable the macros read
  into is not initialised: \<open>junk\<close> is its content. The option \<open>CLR_FIELD\<close> is used by no module, and
  its single-bit form is no C expression; it is left out.
\<close>

section \<open>Fields\<close>

definition WBGEN2_GEN_MASK :: "nat \<Rightarrow> nat \<Rightarrow> u32" where
  "WBGEN2_GEN_MASK offset bits = push_bit offset (mask bits)"

definition WBGEN2_GEN_WRITE :: "u32 \<Rightarrow> nat \<Rightarrow> nat \<Rightarrow> u32" where
  "WBGEN2_GEN_WRITE v offset bits = push_bit offset (v AND mask bits)"

definition WBGEN2_GEN_READ :: "u32 \<Rightarrow> nat \<Rightarrow> nat \<Rightarrow> u32" where
  "WBGEN2_GEN_READ reg offset bits = drop_bit offset reg AND mask bits"

text \<open>A field is a single bit, given by its mask, or has the functions \<open>_R\<close> and \<open>_W\<close> and a mask.\<close>

datatype param_field =
  Single_Bit u32
| Mult_Bit "u32 \<Rightarrow> u32" "u32 \<Rightarrow> u32" u32

definition gen_field :: "nat \<Rightarrow> nat \<Rightarrow> param_field" where
  "gen_field offset bits = Mult_Bit (\<lambda>reg. WBGEN2_GEN_READ reg offset bits)
     (\<lambda>v. WBGEN2_GEN_WRITE v offset bits) (WBGEN2_GEN_MASK offset bits)"

text \<open>A register without fields: the value is the whole of it.\<close>

definition whole_reg :: param_field where
  "whole_reg = Mult_Bit (\<lambda>reg. reg) (\<lambda>v. v) (- 1)"

definition BIT_SET :: u32 where "BIT_SET = 1"
definition BIT_CLR :: u32 where "BIT_CLR = 0"

fun field_get :: "param_field \<Rightarrow> u32 \<Rightarrow> u32" where
  "field_get (Single_Bit b) v = (if v AND b \<noteq> 0 then BIT_SET else BIT_CLR)"
| "field_get (Mult_Bit r w m) v = r v"

fun field_set :: "param_field \<Rightarrow> u32 \<Rightarrow> u32 \<Rightarrow> u32" where
  "field_set (Single_Bit b) old v = (if v \<noteq> 0 then old OR b else old AND NOT b)"
| "field_set (Mult_Bit r w m) old v = (old AND NOT m) OR w v"

section \<open>The macros\<close>

definition check_param_limits :: "u32 \<Rightarrow> u32 \<Rightarrow> u32 \<Rightarrow> u32" where
  "check_param_limits v lo hi = (if v < lo \<or> hi < v then PARAM_ERR else PARAM_OK)"

type_synonym 'p reg_rd = "'p \<Rightarrow> u64 \<Rightarrow> u32 \<Rightarrow> (int \<times> u32 \<times> 'p) option"
type_synonym 'p reg_wr = "'p \<Rightarrow> u64 \<Rightarrow> u32 \<Rightarrow> (int \<times> 'p) option"

text \<open>The value is formatted and delivered whether the access succeeded or not.\<close>

definition GET_PARAM_GEN ::
  "'p reg_rd \<Rightarrow> u64 \<Rightarrow> u64 \<Rightarrow> param_field \<Rightarrow> (u32 \<Rightarrow> u32) option \<Rightarrow> u32 \<Rightarrow> 'p \<Rightarrow> (nat \<times> u32 \<times> 'p) option" where
  "GET_PARAM_GEN rd base_addr reg field fmt_funcp junk p = do {
     (ret, v, p') \<leftarrow> rd p (base_addr + reg) junk;
     let err = (if ret \<noteq> 4 then RW_READ_EAGAIN else RW_OK);
     let x = field_get field v;
     Some (err, case fmt_funcp of None \<Rightarrow> x | Some fmt \<Rightarrow> fmt x, p') }"

definition param_allowed :: "(u32 \<times> u32) option \<Rightarrow> (u32 \<Rightarrow> int) option \<Rightarrow> u32 \<Rightarrow> bool" where
  "param_allowed lims chk_funcp v \<longleftrightarrow>
     (case lims of None \<Rightarrow> True | Some (lo, hi) \<Rightarrow> check_param_limits v lo hi = PARAM_OK) \<and>
     (case chk_funcp of None \<Rightarrow> True | Some chk \<Rightarrow> chk v = 0)"

text \<open>The register is written also when it could not be read.\<close>

definition SET_PARAM_GEN ::
  "'p reg_rd \<Rightarrow> 'p reg_wr \<Rightarrow> u64 \<Rightarrow> u64 \<Rightarrow> param_field \<Rightarrow> u32 \<Rightarrow> (u32 \<times> u32) option \<Rightarrow> (u32 \<Rightarrow> int) option \<Rightarrow> u32 \<Rightarrow>
     'p \<Rightarrow> (nat \<times> 'p) option" where
  "SET_PARAM_GEN rd wr base_addr reg field v lims chk_funcp junk p =
     (if param_allowed lims chk_funcp v then do {
        (ret1, old, p1) \<leftarrow> rd p (base_addr + reg) junk;
        let err = (if ret1 \<noteq> 4 then RW_WRITE_EAGAIN else RW_OK);
        (ret2, p2) \<leftarrow> wr p1 (base_addr + reg) (field_set field old v);
        Some (if ret2 \<noteq> 4 then RW_WRITE_EAGAIN else err, p2) }
      else Some (RW_USR_ERR, p))"

section \<open>Exported functions\<close>

text \<open>The \<open>n\<close>-th argument of a request, read as an \<open>uint32_t\<close>.\<close>

definition EXP_MSG_ZMQ_ARG :: "nat \<Rightarrow> msg_args \<Rightarrow> u32 option" where
  "EXP_MSG_ZMQ_ARG n msg = (if n < length (content msg) then rd_word 4 (content msg ! n) else None)"

text \<open>What both macros do with the checked request: \<open>rw\<close>, the register and the value.\<close>

definition set_get_param ::
  "'p reg_rd \<Rightarrow> 'p reg_wr \<Rightarrow> u64 \<Rightarrow> u64 \<Rightarrow> param_field \<Rightarrow> (u32 \<times> u32) option \<Rightarrow> (u32 \<Rightarrow> int) option \<Rightarrow>
     (u32 \<Rightarrow> u32) option \<Rightarrow> u32 \<Rightarrow> u32 \<Rightarrow> u32 \<Rightarrow> 'p \<Rightarrow> u8 list option \<Rightarrow> (int \<times> 'p \<times> u8 list option) option" where
  "set_get_param rd wr base_addr reg field lims chk_funcp fmt_funcp junk rw v p ret =
     (if rw \<noteq> 0 then do {
        (err, x, p') \<leftarrow> GET_PARAM_GEN rd base_addr reg field fmt_funcp junk p;
        if err \<noteq> RW_OK then Some (- int err, p', ret)
        else do { ret' \<leftarrow> put_ret 4 x ret; Some (4, p', ret') } }
      else do {
        (err, p') \<leftarrow> SET_PARAM_GEN rd wr base_addr reg field v lims chk_funcp junk p;
        Some (- int err, p', ret) })"

definition SET_GET_PARAM_GEN ::
  "'p reg_rd \<Rightarrow> 'p reg_wr \<Rightarrow> u64 \<Rightarrow> u64 \<Rightarrow> param_field \<Rightarrow> (u32 \<times> u32) option \<Rightarrow> (u32 \<Rightarrow> int) option \<Rightarrow>
     (u32 \<Rightarrow> u32) option \<Rightarrow> u32 \<Rightarrow> 'p \<Rightarrow> msg_args \<Rightarrow> u8 list option \<Rightarrow> (int \<times> 'p \<times> u8 list option) option" where
  "SET_GET_PARAM_GEN rd wr base_addr reg field lims chk_funcp fmt_funcp junk p msg ret = do {
     rw \<leftarrow> EXP_MSG_ZMQ_ARG 0 msg;
     v \<leftarrow> EXP_MSG_ZMQ_ARG 1 msg;
     set_get_param rd wr base_addr reg field lims chk_funcp fmt_funcp junk rw v p ret }"

definition SET_GET_PARAM_CHANNEL_GEN ::
  "'p reg_rd \<Rightarrow> 'p reg_wr \<Rightarrow> u64 \<Rightarrow> u64 \<Rightarrow> param_field \<Rightarrow> u32 \<Rightarrow> u32 \<Rightarrow> (u32 \<times> u32) option \<Rightarrow> (u32 \<Rightarrow> int) option \<Rightarrow>
     (u32 \<Rightarrow> u32) option \<Rightarrow> u32 \<Rightarrow> 'p \<Rightarrow> msg_args \<Rightarrow> u8 list option \<Rightarrow> (int \<times> 'p \<times> u8 list option) option" where
  "SET_GET_PARAM_CHANNEL_GEN rd wr base_addr reg field chan_offset chan_num lims chk_funcp fmt_funcp junk p msg ret = do {
     rw \<leftarrow> EXP_MSG_ZMQ_ARG 0 msg;
     chan \<leftarrow> EXP_MSG_ZMQ_ARG 1 msg;
     v \<leftarrow> EXP_MSG_ZMQ_ARG 2 msg;
     if chan_num - 1 < chan then Some (- int RW_INV, p, ret)
     else set_get_param rd wr (base_addr + ucast (chan * chan_offset)) reg field lims chk_funcp fmt_funcp junk rw v p ret }"

text \<open>The usual instances: the accesses go through the thread-safe client, to the dealer socket.\<close>

definition rd_gen :: "('o, 'h, 'p) smio \<Rightarrow> 'p sock \<Rightarrow> 'p reg_rd" where
  "rd_gen self sock p a d = map_option (\<lambda>(r, b, p'). (r, le_word b, p'))
     (smio_thsafe_client_read_32_gen self sock a (le_bytes 4 d) p)"

definition wr_gen :: "('o, 'h, 'p) smio \<Rightarrow> 'p sock \<Rightarrow> 'p reg_wr" where
  "wr_gen self sock p a v = smio_thsafe_client_write_32_gen self sock a (le_bytes 4 v) p"

definition GET_PARAM ::
  "('o, 'h, 'p) smio \<Rightarrow> u64 \<Rightarrow> u64 \<Rightarrow> param_field \<Rightarrow> (u32 \<Rightarrow> u32) option \<Rightarrow> u32 \<Rightarrow> 'p \<Rightarrow> (nat \<times> u32 \<times> 'p) option" where
  "GET_PARAM self = GET_PARAM_GEN (rd_gen self (smio_get_dealer self))"

definition SET_PARAM ::
  "('o, 'h, 'p) smio \<Rightarrow> u64 \<Rightarrow> u64 \<Rightarrow> param_field \<Rightarrow> u32 \<Rightarrow> (u32 \<times> u32) option \<Rightarrow> (u32 \<Rightarrow> int) option \<Rightarrow> u32 \<Rightarrow>
     'p \<Rightarrow> (nat \<times> 'p) option" where
  "SET_PARAM self = SET_PARAM_GEN (rd_gen self (smio_get_dealer self)) (wr_gen self (smio_get_dealer self))"

definition GET_PARAM_CHANNEL ::
  "('o, 'h, 'p) smio \<Rightarrow> u64 \<Rightarrow> u64 \<Rightarrow> param_field \<Rightarrow> u32 \<Rightarrow> u32 \<Rightarrow> (u32 \<Rightarrow> u32) option \<Rightarrow> u32 \<Rightarrow> 'p \<Rightarrow>
     (nat \<times> u32 \<times> 'p) option" where
  "GET_PARAM_CHANNEL self base_addr reg field chan_offset chan =
     GET_PARAM self (base_addr + ucast (chan * chan_offset)) reg field"

definition SET_PARAM_CHANNEL ::
  "('o, 'h, 'p) smio \<Rightarrow> u64 \<Rightarrow> u64 \<Rightarrow> param_field \<Rightarrow> u32 \<Rightarrow> u32 \<Rightarrow> u32 \<Rightarrow> (u32 \<times> u32) option \<Rightarrow> (u32 \<Rightarrow> int) option \<Rightarrow> u32 \<Rightarrow>
     'p \<Rightarrow> (nat \<times> 'p) option" where
  "SET_PARAM_CHANNEL self base_addr reg field chan_offset chan =
     SET_PARAM self (base_addr + ucast (chan * chan_offset)) reg field"

text \<open>The exported functions work on the module's object and its peer.\<close>

type_synonym ('o, 'h, 'p) smio_world = "('o, 'h, 'p) smio \<times> 'p"
type_synonym ('o, 'h, 'p) exp_func = "(('o, 'h, 'p) smio_world, msg_args) disp_table_func"

definition SET_GET_PARAM ::
  "u64 \<Rightarrow> u64 \<Rightarrow> param_field \<Rightarrow> (u32 \<times> u32) option \<Rightarrow> (u32 \<Rightarrow> int) option \<Rightarrow> (u32 \<Rightarrow> u32) option \<Rightarrow> u32 \<Rightarrow>
     ('o, 'h, 'p) exp_func" where
  "SET_GET_PARAM base_addr reg field lims chk_funcp fmt_funcp junk w msg ret =
     map_option (\<lambda>(e, p', r). (e, (fst w, p'), r))
       (SET_GET_PARAM_GEN (rd_gen (fst w) (smio_get_dealer (fst w))) (wr_gen (fst w) (smio_get_dealer (fst w)))
         base_addr reg field lims chk_funcp fmt_funcp junk (snd w) msg ret)"

definition SET_GET_PARAM_CHANNEL ::
  "u64 \<Rightarrow> u64 \<Rightarrow> param_field \<Rightarrow> u32 \<Rightarrow> u32 \<Rightarrow> (u32 \<times> u32) option \<Rightarrow> (u32 \<Rightarrow> int) option \<Rightarrow> (u32 \<Rightarrow> u32) option \<Rightarrow> u32 \<Rightarrow>
     ('o, 'h, 'p) exp_func" where
  "SET_GET_PARAM_CHANNEL base_addr reg field chan_offset chan_num lims chk_funcp fmt_funcp junk w msg ret =
     map_option (\<lambda>(e, p', r). (e, (fst w, p'), r))
       (SET_GET_PARAM_CHANNEL_GEN (rd_gen (fst w) (smio_get_dealer (fst w))) (wr_gen (fst w) (smio_get_dealer (fst w)))
         base_addr reg field chan_offset chan_num lims chk_funcp fmt_funcp junk (snd w) msg ret)"

section \<open>Facts\<close>

lemma rd_gen_dealer [simp]: "rd_gen self (smio_get_dealer self) = smio_rd self"
  by (intro ext) (simp add: rd_gen_def smio_rd_def smio_get_dealer_def smio_thsafe_client_read_32_gen_def
      smio_thsafe_client_read_32_def)

lemma wr_gen_dealer [simp]: "wr_gen self (smio_get_dealer self) = smio_wr self"
  by (intro ext) (simp add: wr_gen_def smio_wr_def smio_get_dealer_def smio_thsafe_client_write_32_gen_def
      smio_thsafe_client_write_32_def)

subsection \<open>Fields\<close>

text \<open>The bits a field may change, and what it reads back.\<close>

fun field_mask :: "param_field \<Rightarrow> u32" where
  "field_mask (Single_Bit b) = b"
| "field_mask (Mult_Bit r w m) = m"

lemma gen_get_set:
  "field_get (gen_field offset bits) (field_set (gen_field offset bits) old v) = take_bit bits (take_bit (32 - offset) v)"
  by (rule bit_word_eqI)
    (auto simp: gen_field_def WBGEN2_GEN_READ_def WBGEN2_GEN_WRITE_def WBGEN2_GEN_MASK_def bit_simps)

lemma gen_get_set_val:
  assumes "offset + bits \<le> 32" and "v < 2 ^ bits"
  shows "field_get (gen_field offset bits) (field_set (gen_field offset bits) old v) = v"
proof -
  have "bits \<le> 32 - offset" using assms(1) by simp
  then have "take_bit bits (take_bit (32 - offset) v) = take_bit bits v" by (simp add: min_def)
  moreover have "take_bit bits v = v" using assms(2) by (simp add: less_mask_eq take_bit_eq_mask)
  ultimately show ?thesis by (simp add: gen_get_set)
qed

text \<open>A field is well-formed when reading looks at its bits only and writing changes no others.\<close>

fun field_wf :: "param_field \<Rightarrow> bool" where
  "field_wf (Single_Bit b) \<longleftrightarrow> b \<noteq> 0"
| "field_wf (Mult_Bit r w m) \<longleftrightarrow> (\<forall>x. r x = r (x AND m)) \<and> (\<forall>v. w v AND NOT m = 0)"

lemma gen_field_wf: "field_wf (gen_field offset bits)"
  unfolding gen_field_def field_wf.simps
  by (intro conjI allI; rule bit_word_eqI)
    (auto simp: WBGEN2_GEN_READ_def WBGEN2_GEN_WRITE_def WBGEN2_GEN_MASK_def bit_simps dest: bit_imp_le_length)

lemma whole_reg_wf: "field_wf whole_reg"
  by (simp add: whole_reg_def)

lemma and_not_zero_bit: "(x :: 'a::len word) AND NOT m = 0 \<Longrightarrow> bit x n \<Longrightarrow> bit m n"
proof -
  assume z: "x AND NOT m = 0" and b: "bit x n"
  have "bit (x AND NOT m) n \<longleftrightarrow> bit x n \<and> \<not> bit m n" using bit_imp_le_length [OF b] by (simp add: bit_simps)
  then show ?thesis using b by (simp add: z)
qed

lemma and_zero_bit: "(m :: 'a::len word) AND m' = 0 \<Longrightarrow> bit m n \<Longrightarrow> \<not> bit m' n"
proof -
  assume z: "m AND m' = 0" and b: "bit m n"
  have "bit (m AND m') n \<longleftrightarrow> bit m n \<and> bit m' n" by (simp add: bit_simps)
  then show ?thesis using b by (simp add: z)
qed

text \<open>Setting a field leaves the bits of every field apart from it alone.\<close>

lemma field_set_other:
  assumes "field_wf f" and "field_mask f AND m = 0"
  shows "field_set f old v AND m = old AND m"
proof (cases f)
  case (Single_Bit b)
  then have d: "bit m n \<Longrightarrow> \<not> bit b n" for n
    using assms(2) and_zero_bit [of b m n] by auto
  show ?thesis using Single_Bit by (intro bit_word_eqI) (auto simp: bit_simps dest: d)
next
  case (Mult_Bit r w k)
  then have d: "bit m n \<Longrightarrow> \<not> bit k n" "bit (w v) n \<Longrightarrow> bit k n" for n
    using assms and_zero_bit [of k m n] and_not_zero_bit [of "w v" k n] by auto
  show ?thesis using Mult_Bit by (intro bit_word_eqI) (auto simp: bit_simps dest: d)
qed

lemma field_get_mask: "field_wf g \<Longrightarrow> field_get g x = field_get g (x AND field_mask g)"
  by (cases g) (auto simp: and.assoc)

lemma field_get_set_other:
  assumes "field_wf f" and "field_wf g" and "field_mask f AND field_mask g = 0"
  shows "field_get g (field_set f old v) = field_get g old"
  using field_get_mask [OF assms(2)] field_set_other [OF assms(1,3)] by metis

lemma single_get_set:
  assumes "b \<noteq> 0"
  shows "field_get (Single_Bit b) (field_set (Single_Bit b) old v) = (if v \<noteq> 0 then 1 else 0)"
proof -
  have "(old OR b) AND b = b" "(old AND NOT b) AND b = 0" by (rule bit_word_eqI; auto simp: bit_simps)+
  then show ?thesis using assms by (simp add: BIT_SET_def BIT_CLR_def)
qed

lemma whole_get_set [simp]:
  "field_get whole_reg x = x" "field_set whole_reg old v = v"
  by (simp_all add: whole_reg_def)

text \<open>The values a field can hold.\<close>

definition field_holds :: "param_field \<Rightarrow> u32 \<Rightarrow> bool" where
  "field_holds f v \<longleftrightarrow> (\<forall>old. field_get f (field_set f old v) = v)"

lemma gen_field_holds: "offset + bits \<le> 32 \<Longrightarrow> v < 2 ^ bits \<Longrightarrow> field_holds (gen_field offset bits) v"
  by (simp add: field_holds_def gen_get_set_val)

lemma single_holds: "b \<noteq> 0 \<Longrightarrow> v \<le> 1 \<Longrightarrow> field_holds (Single_Bit b) v"
proof -
  assume b: "b \<noteq> 0" and v: "v \<le> 1"
  have "unat v = 0 \<or> unat v = 1" using v by (auto simp: word_le_nat_alt)
  then have "v = 0 \<or> v = 1" by (metis unat_0 unat_1 word_unat_eq_iff)
  with b show ?thesis by (auto simp: field_holds_def single_get_set simp del: field_get.simps field_set.simps)
qed

lemma whole_holds: "field_holds whole_reg v"
  by (simp add: field_holds_def)

subsection \<open>Parameters on a register bus\<close>

definition fmt_val :: "(u32 \<Rightarrow> u32) option \<Rightarrow> u32 \<Rightarrow> u32" where
  "fmt_val fmt_funcp x = (case fmt_funcp of None \<Rightarrow> x | Some fmt \<Rightarrow> fmt x)"

context reg_bus
begin

lemma get_param:
  assumes "good s" and "mapped (base_addr + reg)"
  shows "\<exists>s'. GET_PARAM_GEN rd base_addr reg f fmt junk s =
      Some (RW_OK, fmt_val fmt (field_get f (view s (base_addr + reg))), s') \<and> good s' \<and>
    (\<forall>b. mapped b \<longrightarrow> view s' b = view s b)"
  using rd_view [OF assms, of junk] by (auto simp: GET_PARAM_GEN_def fmt_val_def Let_def)

lemma set_param:
  assumes "good s" and "mapped (base_addr + reg)"
  shows "\<exists>s'. SET_PARAM_GEN rd wr base_addr reg f v lims chk junk s =
      Some (if param_allowed lims chk v then RW_OK else RW_USR_ERR, s') \<and> good s' \<and>
    (\<forall>b. mapped b \<longrightarrow> view s' b =
      (if b = base_addr + reg \<and> param_allowed lims chk v then field_set f (view s b) v else view s b))"
proof (cases "param_allowed lims chk v")
  case False
  with assms show ?thesis by (auto simp: SET_PARAM_GEN_def)
next
  case True
  let ?a = "base_addr + reg"
  obtain s1 where s1: "rd s ?a junk = Some (4, view s ?a, s1)" "good s1" "\<forall>b. mapped b \<longrightarrow> view s1 b = view s b"
    using rd_view [OF assms] by blast
  obtain s2 where s2: "wr s1 ?a (field_set f (view s ?a) v) = Some (4, s2)" "good s2"
    "\<forall>b. mapped b \<longrightarrow> view s2 b = (if b = ?a then field_set f (view s ?a) v else view s1 b)"
    using wr_view [OF s1(2) assms(2)] by blast
  have "SET_PARAM_GEN rd wr base_addr reg f v lims chk junk s = Some (RW_OK, s2)"
    using True s1(1) s2(1) by (simp add: SET_PARAM_GEN_def Let_def)
  with True s1(3) s2(2,3) show ?thesis by auto
qed

text \<open>Setting a parameter and reading one back.\<close>

lemma set_get_param_back:
  assumes "good s" and m: "mapped (base_addr + reg)" "mapped (base_addr' + reg')"
    and "field_wf f" and "field_wf g" and v: "param_allowed lims chk v" "field_holds f v"
    and apart: "base_addr' + reg' = base_addr + reg \<Longrightarrow> g = f \<or> field_mask f AND field_mask g = 0"
  shows "\<exists>s1 s2. SET_PARAM_GEN rd wr base_addr reg f v lims chk junk s = Some (RW_OK, s1) \<and>
    GET_PARAM_GEN rd base_addr' reg' g None junk' s1 = Some (RW_OK,
      if base_addr' + reg' = base_addr + reg \<and> g = f then v else field_get g (view s (base_addr' + reg')), s2) \<and>
    good s2"
proof -
  obtain s1 where s1: "SET_PARAM_GEN rd wr base_addr reg f v lims chk junk s = Some (RW_OK, s1)" "good s1"
    "\<forall>b. mapped b \<longrightarrow> view s1 b = (if b = base_addr + reg then field_set f (view s b) v else view s b)"
    using set_param [OF assms(1) m(1), of f v lims chk junk] v(1) by auto
  obtain s2 where s2: "GET_PARAM_GEN rd base_addr' reg' g None junk' s1 =
      Some (RW_OK, field_get g (view s1 (base_addr' + reg')), s2)" "good s2"
    using get_param [OF s1(2) m(2), of g None junk'] by (auto simp: fmt_val_def)
  have "field_get g (view s1 (base_addr' + reg')) =
      (if base_addr' + reg' = base_addr + reg \<and> g = f then v else field_get g (view s (base_addr' + reg')))"
    using s1(3) m(2) apart v(2) field_get_set_other [OF assms(4,5)] by (auto simp: field_holds_def)
  with s1(1) s2 show ?thesis by auto
qed

end

end
