(* ===== verification/Module.thy ===== *)
theory Module
  imports Rw_Param
begin

text \<open>
  What the files of src/sm_io/modules and src/sm_io_table/modules have in common: the form of the
  descriptors of exported functions, the operations that no module implements, and the start and
  the end of a module, which every module repeats with its own names.
\<close>

section \<open>Descriptors\<close>

text \<open>The descriptors are static objects without a function: \<open>smio_init_exp_ops\<close> fills it in.\<close>

definition smio_exp :: "string \<Rightarrow> u32 \<Rightarrow> u32 \<Rightarrow> u32 list \<Rightarrow> ('w, msg_args) disp_op" where
  "smio_exp name opc ret_arg arg_list = \<lparr>dop_name = name, opcode = opc, func_fp = None, retval = ret_arg,
     retval_owner = DISP_OWNER_OTHER, args = arg_list\<rparr>"

text \<open>The descriptors of parameters: read or write and the value; with a channel between them.\<close>

definition param_exp :: "string \<Rightarrow> u32 \<Rightarrow> ('w, msg_args) disp_op" where
  "param_exp name opc = smio_exp name opc UINT32_ARG [UINT32_ARG, UINT32_ARG]"

definition chan_exp :: "string \<Rightarrow> u32 \<Rightarrow> ('w, msg_args) disp_op" where
  "chan_exp name opc = smio_exp name opc UINT32_ARG [UINT32_ARG, UINT32_ARG, UINT32_ARG]"

section \<open>Operations of a module\<close>

definition not_impl_ops :: "'w smio_ops" where
  "not_impl_ops = \<lparr>
     so_attach = Some (\<lambda>w. (SMIO_ERR_FUNC_NOT_IMPL, w)),
     so_deattach = Some (\<lambda>w. (SMIO_ERR_FUNC_NOT_IMPL, w)),
     so_export_ops = Some (\<lambda>_ w. (SMIO_ERR_FUNC_NOT_IMPL, w)),
     so_unexport_ops = Some (\<lambda>w. (SMIO_ERR_FUNC_NOT_IMPL, w)),
     so_do_op = Some (\<lambda>_ w. (SMIO_ERR_FUNC_NOT_IMPL, w)),
     so_do_mgmt_op = None\<rparr>"

section \<open>Start and end\<close>

text \<open>The body of every module's \<open>init\<close>. The parameters: the outcome of copying the name, the id and
  the name, the operations, the addresses of the descriptors and their functions, and the creation
  of the handler. What was set before a failure is taken back, apart from the id and the name.\<close>

definition mod_init ::
  "bool \<Rightarrow> (nat \<Rightarrow> bool) \<Rightarrow> u32 \<Rightarrow> string \<Rightarrow> 'o \<Rightarrow> nat list \<Rightarrow> ('w, msg_args) disp_table_func list \<Rightarrow>
     (('o, 'h, 'p) smio \<Rightarrow> 'p \<Rightarrow> ('h option \<times> 'p) option) \<Rightarrow> ('o, 'h, 'p) smio \<Rightarrow> 'p \<Rightarrow> ('w, msg_args) dheap \<Rightarrow>
     (smio_err \<times> ('o, 'h, 'p) smio \<times> 'p \<times> ('w, msg_args) dheap) option" where
  "mod_init ok ze devid name ops exp_ops exp_fp handler_new self0 p h =
     (let (_, self1) = smio_set_id self0 devid;
          (err, self2) = smio_set_name ok self1 (Some name)
      in if err \<noteq> SMIO_SUCCESS then Some (err, self2, p, h)
         else
           let (_, self3) = smio_set_ops self2 (Some ops);
               (_, self4) = smio_set_thsafe_client_ops self3 (Some (smio_thsafe_client_zmq_ops ze));
               undo = (\<lambda>s. snd (smio_set_ops (snd (smio_set_thsafe_client_ops s None)) None))
           in do {
             (err', h') \<leftarrow> smio_init_exp_ops exp_ops exp_fp h;
             if err' \<noteq> SMIO_SUCCESS then Some (err', undo self4, p, h')
             else do {
               let self5 = snd (smio_set_exp_ops self4 (Some exp_ops));
               (handler, p') \<leftarrow> handler_new self5 p;
               case handler of
                 None \<Rightarrow> Some (SMIO_ERR_ALLOC, undo (snd (smio_set_exp_ops self5 None)), p', h')
               | Some x \<Rightarrow> let (err'', self6) = smio_set_handler self5 (Some x) in Some (err'', self6, p', h') } })"

text \<open>The body of every module's \<open>shutdown\<close>. The handler is freed, the pointer to it stays in the object.\<close>

definition mod_shutdown :: "('o, 'h, 'p) smio \<Rightarrow> smio_err \<times> ('o, 'h, 'p) smio" where
  "mod_shutdown self =
     (case smio_get_handler self of
        None \<Rightarrow> (SMIO_ERR_ALLOC, self)
      | Some _ \<Rightarrow> (SMIO_SUCCESS, snd (smio_set_ops (snd (smio_set_thsafe_client_ops
          (snd (smio_set_exp_ops self None)) None)) None)))"

text \<open>A handler without state of its own: \<open>ok\<close> is the outcome of its allocation.\<close>

definition plain_new :: "bool \<Rightarrow> ('o, unit, 'p) smio \<Rightarrow> 'p \<Rightarrow> (unit option \<times> 'p) option" where
  "plain_new ok self p = Some (if ok then Some () else None, p)"

text \<open>Destroying it frees the structure and clears the pointer.\<close>

definition plain_destroy :: "'h option \<Rightarrow> smio_err \<times> 'h option" where
  "plain_destroy self_p = (SMIO_SUCCESS, None)"

lemma exp_simps:
  "dop_name (smio_exp nm c r as) = nm" "opcode (smio_exp nm c r as) = c" "retval (smio_exp nm c r as) = r"
  "retval_owner (smio_exp nm c r as) = DISP_OWNER_OTHER" "args (smio_exp nm c r as) = as" "func_fp (smio_exp nm c r as) = None"
  "param_exp nm c = smio_exp nm c UINT32_ARG [UINT32_ARG, UINT32_ARG]"
  "chan_exp nm c = smio_exp nm c UINT32_ARG [UINT32_ARG, UINT32_ARG, UINT32_ARG]"
  by (simp_all add: smio_exp_def param_exp_def chan_exp_def)

end
