(* ===== verification/Param_Store.thy ===== *)
theory Param_Store
  imports Module
begin

text \<open>
  The contract of the parameters of a module. A parameter is a field of a register, or of one
  register per channel; the exported function made by the macros of include/rw_param.h reads and
  sets it. When no two parameters share a bit, the module is a store with one value per parameter
  and channel: every request changes or returns the value of the one it names, whatever the fields
  that lie in the same register.

  The specifications \<open>param_spec\<close> here are not code: each module's list of functions is proved to be
  made from one such list, in the theory of the module.
\<close>

section \<open>Specifications of parameters\<close>

datatype shape = Bit nat | Bits nat nat | Whole

fun shape_field :: "shape \<Rightarrow> param_field" where
  "shape_field (Bit l) = Single_Bit (WBGEN2_GEN_MASK l 1)"
| "shape_field (Bits l n) = gen_field l n"
| "shape_field Whole = whole_reg"

fun shape_lo :: "shape \<Rightarrow> nat" where
  "shape_lo (Bit l) = l"
| "shape_lo (Bits l n) = l"
| "shape_lo Whole = 0"

fun shape_len :: "shape \<Rightarrow> nat" where
  "shape_len (Bit l) = 1"
| "shape_len (Bits l n) = n"
| "shape_len Whole = 32"

text \<open>What the field holds after a value has been written to it.\<close>

fun shape_trunc :: "shape \<Rightarrow> u32 \<Rightarrow> u32" where
  "shape_trunc (Bit l) v = (if v \<noteq> 0 then 1 else 0)"
| "shape_trunc (Bits l n) v = take_bit n v"
| "shape_trunc Whole v = v"

text \<open>A parameter without channels has \<open>ps_num = None\<close>.\<close>

record param_spec =
  ps_reg :: nat
  ps_shape :: shape
  ps_lims :: "(u32 \<times> u32) option"
  ps_chan :: "(nat \<times> nat) option"

definition plain :: "nat \<Rightarrow> shape \<Rightarrow> (u32 \<times> u32) option \<Rightarrow> param_spec" where
  "plain reg sh lims = \<lparr>ps_reg = reg, ps_shape = sh, ps_lims = lims, ps_chan = None\<rparr>"

definition chans :: "nat \<Rightarrow> nat \<Rightarrow> nat \<Rightarrow> shape \<Rightarrow> (u32 \<times> u32) option \<Rightarrow> param_spec" where
  "chans offset num reg sh lims = \<lparr>ps_reg = reg, ps_shape = sh, ps_lims = lims, ps_chan = Some (offset, num)\<rparr>"

definition ps_offset :: "param_spec \<Rightarrow> nat" where
  "ps_offset d = (case ps_chan d of None \<Rightarrow> 0 | Some (offset, num) \<Rightarrow> offset)"

definition ps_count :: "param_spec \<Rightarrow> nat" where
  "ps_count d = (case ps_chan d of None \<Rightarrow> 1 | Some (offset, num) \<Rightarrow> num)"

lemma spec_simps [simp]:
  "ps_reg (plain r sh lims) = r" "ps_shape (plain r sh lims) = sh" "ps_lims (plain r sh lims) = lims"
  "ps_chan (plain r sh lims) = None" "ps_offset (plain r sh lims) = 0" "ps_count (plain r sh lims) = 1"
  "ps_reg (chans o' n r sh lims) = r" "ps_shape (chans o' n r sh lims) = sh" "ps_lims (chans o' n r sh lims) = lims"
  "ps_chan (chans o' n r sh lims) = Some (o', n)" "ps_offset (chans o' n r sh lims) = o'" "ps_count (chans o' n r sh lims) = n"
  by (simp_all add: plain_def chans_def ps_offset_def ps_count_def)

text \<open>The exported function of a parameter.\<close>

definition param_func :: "u32 \<Rightarrow> param_spec \<Rightarrow> ('o, 'h, 'p) exp_func" where
  "param_func junk d =
     (case ps_chan d of
        None \<Rightarrow> SET_GET_PARAM 0 (of_nat (ps_reg d)) (shape_field (ps_shape d)) (ps_lims d) None None junk
      | Some (offset, num) \<Rightarrow> SET_GET_PARAM_CHANNEL 0 (of_nat (ps_reg d)) (shape_field (ps_shape d))
          (of_nat offset) (of_nat num) (ps_lims d) None None junk)"

lemma param_func_simps:
  "param_func junk (plain r sh lims) = SET_GET_PARAM 0 (of_nat r) (shape_field sh) lims None None junk"
  "param_func junk (chans o' n r sh lims) =
     SET_GET_PARAM_CHANNEL 0 (of_nat r) (shape_field sh) (of_nat o') (of_nat n) lims None None junk"
  by (simp_all add: param_func_def)

section \<open>The store\<close>

definition slot_addr :: "param_spec \<Rightarrow> nat \<Rightarrow> u64" where
  "slot_addr d c = of_nat (ps_reg d + c * ps_offset d)"

definition slot_val :: "(u64 \<Rightarrow> u32) \<Rightarrow> param_spec \<Rightarrow> nat \<Rightarrow> u32" where
  "slot_val regs d c = field_get (shape_field (ps_shape d)) (regs (slot_addr d c))"

text \<open>A request for the \<open>i\<close>-th parameter: whether to read, the channel and the value.\<close>

record param_req =
  rq_param :: nat
  rq_read :: bool
  rq_chan :: u32
  rq_value :: u32

definition param_step ::
  "param_spec list \<Rightarrow> param_req \<Rightarrow> (nat \<times> nat \<Rightarrow> u32) \<Rightarrow> int \<times> u32 option \<times> (nat \<times> nat \<Rightarrow> u32)" where
  "param_step ds q m =
     (let d = ds ! rq_param q; slot = (rq_param q, unat (rq_chan q))
      in if ps_count d \<le> unat (rq_chan q) then (- int RW_INV, None, m)
         else if rq_read q then (4, Some (m slot), m)
         else if param_allowed (ps_lims d) None (rq_value q)
         then (0, None, m(slot := shape_trunc (ps_shape d) (rq_value q)))
         else (- int RW_USR_ERR, None, m))"

text \<open>The frames of a request after its opcode.\<close>

definition req_frames :: "param_spec list \<Rightarrow> param_req \<Rightarrow> frame list" where
  "req_frames ds q = [le_bytes 4 (if rq_read q then 1 else 0 :: u32)] @
     (if ps_chan (ds ! rq_param q) = None then [] else [le_bytes 4 (rq_chan q)]) @ [le_bytes 4 (rq_value q)]"

definition req_wf :: "param_spec list \<Rightarrow> param_req \<Rightarrow> bool" where
  "req_wf ds q \<longleftrightarrow> rq_param q < length ds \<and> (ps_chan (ds ! rq_param q) = None \<longrightarrow> rq_chan q = 0)"

text \<open>The values of the parameters in the registers.\<close>

definition store :: "param_spec list \<Rightarrow> (u64 \<Rightarrow> u32) \<Rightarrow> nat \<times> nat \<Rightarrow> u32" where
  "store ds regs = (\<lambda>(i, c). slot_val regs (ds ! i) c)"

definition slots :: "param_spec list \<Rightarrow> (nat \<times> nat) set" where
  "slots ds = {(i, c). i < length ds \<and> c < ps_count (ds ! i)}"

text \<open>Parameters that share no bit: their registers are in disjoint ranges, or interleave, or are
  the same with different bits.\<close>

definition spec_ok :: "param_spec \<Rightarrow> bool" where
  "spec_ok d \<longleftrightarrow> 0 < shape_len (ps_shape d) \<and> shape_lo (ps_shape d) + shape_len (ps_shape d) \<le> 32 \<and>
     ps_reg d + ps_count d * ps_offset d < 2 ^ 32 \<and> 0 < ps_count d \<and> (ps_chan d = None \<or> 0 < ps_offset d) \<and>
     ps_count d < 2 ^ 32"

definition last_reg :: "param_spec \<Rightarrow> nat" where
  "last_reg d = ps_reg d + (ps_count d - 1) * ps_offset d"

definition spec_apart :: "param_spec \<Rightarrow> param_spec \<Rightarrow> bool" where
  "spec_apart d e \<longleftrightarrow> last_reg d < ps_reg e \<or> last_reg e < ps_reg d \<or>
     ps_offset d = ps_offset e \<and> ps_reg d mod ps_offset d \<noteq> ps_reg e mod ps_offset d \<or>
     shape_lo (ps_shape d) + shape_len (ps_shape d) \<le> shape_lo (ps_shape e) \<or>
     shape_lo (ps_shape e) + shape_len (ps_shape e) \<le> shape_lo (ps_shape d)"

fun specs_apart :: "param_spec list \<Rightarrow> bool" where
  "specs_apart [] \<longleftrightarrow> True"
| "specs_apart (d # ds) \<longleftrightarrow> list_all (spec_apart d) ds \<and> specs_apart ds"

text \<open>Some parameters of a module are no storage, though they are exported as the others are: the
  hardware reports through them, or a write of them is a pulse. Given those, as positions in the list,
  a request that does not write one, and a request that writes one and is not refused.\<close>

definition no_volatile_write :: "nat list \<Rightarrow> param_req \<Rightarrow> bool" where
  "no_volatile_write rep q \<longleftrightarrow> rq_read q \<or> rq_param q \<notin> set rep"

definition volatile_write :: "param_spec list \<Rightarrow> nat list \<Rightarrow> param_req \<Rightarrow> bool" where
  "volatile_write ds rep q \<longleftrightarrow> rq_param q \<in> set rep \<and> \<not> rq_read q \<and>
     unat (rq_chan q) < ps_count (ds ! rq_param q) \<and> param_allowed (ps_lims (ds ! rq_param q)) None (rq_value q)"

section \<open>Facts\<close>

subsection \<open>Fields\<close>

lemma shape_wf: "0 < shape_len sh \<Longrightarrow> shape_lo sh + shape_len sh \<le> 32 \<Longrightarrow> field_wf (shape_field sh)"
proof (cases sh)
  case (Bit l)
  assume "shape_lo sh + shape_len sh \<le> 32"
  with Bit have "bit (WBGEN2_GEN_MASK l 1) l" by (simp add: WBGEN2_GEN_MASK_def bit_simps)
  then have "WBGEN2_GEN_MASK l 1 \<noteq> 0" by auto
  with Bit show ?thesis by simp
qed (simp_all add: gen_field_wf whole_reg_wf)

lemma shape_mask: "field_mask (shape_field sh) = push_bit (shape_lo sh) (mask (shape_len sh))"
proof (cases sh)
  case Whole
  have "(- 1 :: u32) = mask 32" by (rule bit_word_eqI) (simp add: bit_simps)
  with Whole show ?thesis by (simp add: whole_reg_def)
qed (simp_all add: gen_field_def WBGEN2_GEN_MASK_def)

lemma shape_get_set:
  assumes "shape_lo sh + shape_len sh \<le> 32"
  shows "field_get (shape_field sh) (field_set (shape_field sh) old v) = shape_trunc sh v"
proof (cases sh)
  case (Bit l)
  have "WBGEN2_GEN_MASK l 1 \<noteq> 0" using shape_wf [of sh] assms Bit by simp
  with Bit show ?thesis by (simp add: single_get_set del: field_get.simps field_set.simps)
next
  case (Bits l n)
  with assms have "n \<le> 32 - l" by simp
  then have "take_bit n (take_bit (32 - l) v) = take_bit n v" by (simp add: min_def)
  with Bits show ?thesis by (simp add: gen_get_set)
qed simp

lemma masks_apart: "l + n \<le> l' \<Longrightarrow> push_bit l (mask n) AND push_bit l' (mask n') = (0 :: u32)"
  by (rule bit_word_eqI) (auto simp: bit_simps)

subsection \<open>Slots\<close>

lemma slot_addr_eq:
  assumes d: "spec_ok d" "c < ps_count d" and e: "spec_ok e" "c' < ps_count e"
  shows "slot_addr d c = slot_addr e c' \<longleftrightarrow> ps_reg d + c * ps_offset d = ps_reg e + c' * ps_offset e"
proof -
  have lt: "ps_reg x + k * ps_offset x < 2 ^ 64" if "spec_ok x" "k < ps_count x" for x k
  proof -
    have "k * ps_offset x \<le> ps_count x * ps_offset x" using that(2) by (intro mult_le_mono1) simp
    moreover have "ps_reg x + ps_count x * ps_offset x < 2 ^ 32" using that(1) by (simp add: spec_ok_def)
    moreover have "(2 :: nat) ^ 32 \<le> 2 ^ 64" by simp
    ultimately show ?thesis by linarith
  qed
  have "unat (of_nat x :: u64) = x" if "x < 2 ^ 64" for x
    using that by (simp add: unsigned_of_nat take_bit_nat_eq_self)
  from this [OF lt [OF d]] this [OF lt [OF e]] show ?thesis unfolding slot_addr_def by metis
qed

lemma last_reg_le: "c < ps_count d \<Longrightarrow> ps_reg d + c * ps_offset d \<le> last_reg d"
  unfolding last_reg_def by (intro add_left_mono mult_le_mono1) simp

lemma slots_apart:
  assumes d: "spec_ok d" "c < ps_count d" and e: "spec_ok e" "c' < ps_count e" and a: "spec_apart d e"
    and eq: "slot_addr d c = slot_addr e c'"
  shows "field_mask (shape_field (ps_shape d)) AND field_mask (shape_field (ps_shape e)) = 0"
proof -
  have n: "ps_reg d + c * ps_offset d = ps_reg e + c' * ps_offset e" using eq slot_addr_eq [OF d e] by simp
  have "\<not> last_reg d < ps_reg e" "\<not> last_reg e < ps_reg d"
    using n last_reg_le [OF d(2)] last_reg_le [OF e(2)] by linarith+
  moreover have "ps_reg d mod ps_offset d = ps_reg e mod ps_offset d" if "ps_offset d = ps_offset e"
    using arg_cong [OF n, of "\<lambda>x. x mod ps_offset d"] that by simp
  ultimately have "shape_lo (ps_shape d) + shape_len (ps_shape d) \<le> shape_lo (ps_shape e) \<or>
      shape_lo (ps_shape e) + shape_len (ps_shape e) \<le> shape_lo (ps_shape d)"
    using a unfolding spec_apart_def by blast
  then show ?thesis unfolding shape_mask using masks_apart by (metis and.commute)
qed

lemma same_slots:
  assumes "spec_ok d" and "c < ps_count d" and "c' < ps_count d"
  shows "slot_addr d c = slot_addr d c' \<longleftrightarrow> c = c'"
proof -
  have "c = c'" if "ps_chan d = None" using assms that by (simp add: ps_count_def)
  then show ?thesis using assms slot_addr_eq [OF assms(1,2,1,3)] by (auto simp: spec_ok_def)
qed

text \<open>Writing one slot changes that slot only.\<close>

lemma slot_update:
  assumes ok: "list_all spec_ok ds" and ap: "specs_apart ds"
    and i: "i < length ds" "c < ps_count (ds ! i)" and j: "j < length ds" "c' < ps_count (ds ! j)"
    and regs: "regs' (slot_addr (ds ! j) c') = (if slot_addr (ds ! j) c' = slot_addr (ds ! i) c
      then field_set (shape_field (ps_shape (ds ! i))) (regs (slot_addr (ds ! i) c)) v else regs (slot_addr (ds ! j) c'))"
  shows "slot_val regs' (ds ! j) c' =
    (if (j, c') = (i, c) then shape_trunc (ps_shape (ds ! i)) v else slot_val regs (ds ! j) c')"
proof -
  have o: "spec_ok (ds ! i)" "spec_ok (ds ! j)" using ok i(1) j(1) by (simp_all add: list_all_length)
  have wf: "field_wf (shape_field (ps_shape (ds ! i)))" "field_wf (shape_field (ps_shape (ds ! j)))"
    using o by (auto intro: shape_wf simp: spec_ok_def)
  have apart: "spec_apart (ds ! i) (ds ! j) \<or> spec_apart (ds ! j) (ds ! i)" if "i \<noteq> j"
    using ap i(1) j(1) that
  proof (induction ds arbitrary: i j)
    case (Cons d ds)
    then show ?case by (cases i; cases j) (auto simp: list_all_length)
  qed simp
  show ?thesis
  proof (cases "slot_addr (ds ! j) c' = slot_addr (ds ! i) c")
    case False
    then have "\<not> (j = i \<and> c' = c)" by auto
    with False regs show ?thesis by (auto simp: slot_val_def)
  next
    case True
    show ?thesis
    proof (cases "i = j")
      case eq: True
      with True same_slots [OF o(1)] i(2) j(2) have "c' = c" by simp
      with eq True regs o(1) show ?thesis by (simp add: slot_val_def shape_get_set spec_ok_def)
    next
      case False
      have "field_mask (shape_field (ps_shape (ds ! i))) AND field_mask (shape_field (ps_shape (ds ! j))) = 0"
        using apart [OF False] slots_apart [OF o(1) i(2) o(2) j(2) _ True [symmetric]]
          slots_apart [OF o(2) j(2) o(1) i(2) _ True] by (metis and.commute)
      from field_get_set_other [OF wf this] True False regs show ?thesis by (simp add: slot_val_def)
    qed
  qed
qed

subsection \<open>The exported functions\<close>

lemma ret_value: "length b = 4 \<Longrightarrow> put_ret 4 (x :: u32) (Some b) = Some (Some (le_bytes 4 x))"
  by (rule put_ret_4)

context reg_bus
begin

lemma set_get_param_step:
  assumes "good s" and "mapped (base_addr + reg)" and b: "length b = 4"
  shows "\<exists>s'. set_get_param rd wr base_addr reg f lims None None junk rw v s (Some b) =
      Some (if rw \<noteq> 0 then 4 else if param_allowed lims None v then 0 else - int RW_USR_ERR, s',
        Some (if rw \<noteq> 0 then le_bytes 4 (field_get f (view s (base_addr + reg))) else b)) \<and> good s' \<and>
    (\<forall>a. mapped a \<longrightarrow> view s' a =
      (if a = base_addr + reg \<and> rw = 0 \<and> param_allowed lims None v then field_set f (view s a) v else view s a))"
proof (cases "rw = 0")
  case True
  with set_param [OF assms(1,2), of f v lims None junk] show ?thesis
    by (auto simp: set_get_param_def RW_OK_def)
next
  case False
  with get_param [OF assms(1,2), of f None junk] b show ?thesis
    by (auto simp: set_get_param_def RW_OK_def fmt_val_def ret_value)
qed

end

lemma exp_args [simp]:
  "EXP_MSG_ZMQ_ARG 0 \<lparr>tag = tg, content = f # fs\<rparr> = rd_word 4 f"
  "EXP_MSG_ZMQ_ARG (Suc 0) \<lparr>tag = tg, content = f # g # fs\<rparr> = rd_word 4 g"
  "EXP_MSG_ZMQ_ARG 2 \<lparr>tag = tg, content = f # g # h # fs\<rparr> = rd_word 4 h"
  by (simp_all add: EXP_MSG_ZMQ_ARG_def)

lemma rd_u32 [simp]: "rd_word 4 (le_bytes 4 (v :: u32)) = Some v"
  by (simp add: rd_word_exact)

lemma chan_in_range:
  assumes "spec_ok d" and "ps_chan d = Some (offset, num)"
  shows "(of_nat num :: u32) - 1 < chan \<longleftrightarrow> ps_count d \<le> unat chan"
proof -
  have n: "0 < num" "num < 2 ^ 32" and c: "ps_count d = num" using assms by (auto simp: spec_ok_def ps_count_def)
  have u: "unat (of_nat num :: u32) = num" using n(2) by (simp add: unsigned_of_nat take_bit_nat_eq_self)
  have "(of_nat num :: u32) \<noteq> 0" using n(1) u by auto
  then have "unat ((of_nat num :: u32) - 1) = num - 1" using u by (simp add: unat_minus_one)
  with n(1) c show ?thesis by (auto simp: word_less_nat_alt)
qed

lemma chan_addr:
  assumes "spec_ok d" and "ps_chan d = Some (offset, num)" and "unat chan < ps_count d"
  shows "0 + ucast (chan * of_nat offset :: u32) + of_nat (ps_reg d) = slot_addr d (unat chan)"
proof -
  have o: "ps_offset d = offset" "ps_count d = num" using assms(2) by (simp_all add: ps_offset_def ps_count_def)
  have "unat chan * offset \<le> num * offset" using assms(3) o by (intro mult_le_mono1) simp
  moreover have "ps_reg d + num * offset < 2 ^ 32" using assms(1) o by (simp add: spec_ok_def)
  ultimately have lt: "unat chan * offset < 2 ^ 32" by linarith
  define k where "k = unat chan * offset"
  have "chan * of_nat offset = (of_nat k :: u32)" by (simp add: k_def)
  moreover have "unat (of_nat k :: u32) = k"
    using lt unfolding k_def [symmetric] by (simp add: unsigned_of_nat take_bit_nat_eq_self)
  ultimately have "(ucast (chan * of_nat offset :: u32) :: u64) = of_nat k" by (metis of_nat_unat)
  then show ?thesis by (simp add: slot_addr_def o k_def [symmetric] add.commute)
qed

lemma param_func_step:
  assumes bus: "reg_bus (smio_rd self) (smio_wr self) view good mapped" and g: "good p"
    and ds: "list_all spec_ok ds" "specs_apart ds" and mp: "\<forall>(i, c) \<in> slots ds. mapped (slot_addr (ds ! i) c)"
    and q: "req_wf ds q" and b: "length b = 4"
  defines "st \<equiv> param_step ds q (store ds (view p))"
  shows "\<exists>p'. param_func junk (ds ! rq_param q) (self, p) \<lparr>tag = tg, content = req_frames ds q\<rparr> (Some b) =
      Some (fst st, (self, p'), Some (case fst (snd st) of Some x \<Rightarrow> le_bytes 4 x | None \<Rightarrow> b)) \<and> good p' \<and>
    (\<forall>s \<in> slots ds. store ds (view p') s = snd (snd st) s)"
proof -
  define i where "i = rq_param q"
  define c where "c = unat (rq_chan q)"
  have i: "i < length ds" "spec_ok (ds ! i)" using q ds(1) by (simp_all add: req_wf_def i_def list_all_length)
  let ?rw = "if rq_read q then 1 else 0 :: u32"
  show ?thesis
  proof (cases "ps_count (ds ! i) \<le> c")
    case True
    then obtain offset num where ch: "ps_chan (ds ! i) = Some (offset, num)"
      using q by (cases "ps_chan (ds ! i)") (auto simp: req_wf_def i_def c_def ps_count_def)
    from True chan_in_range [OF i(2) ch, of "rq_chan q"] g show ?thesis
      by (simp add: st_def param_step_def i_def [symmetric] c_def [symmetric] param_func_def ch req_frames_def
          SET_GET_PARAM_CHANNEL_def SET_GET_PARAM_CHANNEL_GEN_def)
  next
    case False
    then have s: "(i, c) \<in> slots ds" using i(1) by (simp add: slots_def)
    let ?a = "slot_addr (ds ! i) c"
    let ?f = "shape_field (ps_shape (ds ! i))"
    have m: "mapped ?a" using mp s by blast
    obtain base reg where a: "base + reg = ?a"
      "param_func junk (ds ! i) (self, p) \<lparr>tag = tg, content = req_frames ds q\<rparr> (Some b) =
        map_option (\<lambda>(e, p', r). (e, (self, p'), r))
          (set_get_param (smio_rd self) (smio_wr self) base reg ?f (ps_lims (ds ! i)) None None junk ?rw (rq_value q) p (Some b))"
    proof (cases "ps_chan (ds ! i)")
      case None
      then have "0 + of_nat (ps_reg (ds ! i)) = ?a" by (simp add: slot_addr_def ps_offset_def)
      from that [OF this] None show ?thesis
        by (simp add: param_func_def req_frames_def i_def [symmetric] SET_GET_PARAM_def SET_GET_PARAM_GEN_def)
    next
      case (Some on)
      then obtain offset num where ch: "ps_chan (ds ! i) = Some (offset, num)" by (cases on) auto
      have "\<not> (of_nat num :: u32) - 1 < rq_chan q"
        using chan_in_range [OF i(2) ch, of "rq_chan q"] False c_def by simp
      with ch that [OF chan_addr [OF i(2) ch, of "rq_chan q", folded c_def]] False show ?thesis
        by (simp add: param_func_def req_frames_def i_def [symmetric] SET_GET_PARAM_CHANNEL_def
            SET_GET_PARAM_CHANNEL_GEN_def c_def)
    qed
    obtain p' where p': "set_get_param (smio_rd self) (smio_wr self) base reg ?f (ps_lims (ds ! i)) None None junk ?rw
        (rq_value q) p (Some b) = Some (if ?rw \<noteq> 0 then 4 else if param_allowed (ps_lims (ds ! i)) None (rq_value q) then 0
          else - int RW_USR_ERR, p', Some (if ?rw \<noteq> 0 then le_bytes 4 (field_get ?f (view p ?a)) else b))" "good p'"
      "\<forall>x. mapped x \<longrightarrow> view p' x = (if x = ?a \<and> ?rw = 0 \<and> param_allowed (ps_lims (ds ! i)) None (rq_value q)
        then field_set ?f (view p x) (rq_value q) else view p x)"
      using reg_bus.set_get_param_step [OF bus g, of base reg b] m b unfolding a(1) by blast
    have st: "st = (if rq_read q then (4, Some (store ds (view p) (i, c)), store ds (view p))
        else if param_allowed (ps_lims (ds ! i)) None (rq_value q)
        then (0, None, (store ds (view p))((i, c) := shape_trunc (ps_shape (ds ! i)) (rq_value q)))
        else (- int RW_USR_ERR, None, store ds (view p)))"
      using False by (simp add: st_def param_step_def i_def [symmetric] c_def [symmetric] Let_def)
    have "store ds (view p') (j, c') = snd (snd st) (j, c')" if j: "(j, c') \<in> slots ds" for j c'
    proof -
      have mj: "mapped (slot_addr (ds ! j) c')" using mp j by blast
      show ?thesis
      proof (cases "\<not> rq_read q \<and> param_allowed (ps_lims (ds ! i)) None (rq_value q)")
        case True
        then have "view p' (slot_addr (ds ! j) c') = (if slot_addr (ds ! j) c' = ?a
            then field_set ?f (view p ?a) (rq_value q) else view p (slot_addr (ds ! j) c'))"
          using p'(3) mj by auto
        from slot_update [OF ds, where i = i and j = j and c = c and c' = c' and regs = "view p" and regs' = "view p'"
            and v = "rq_value q", OF _ _ _ _ this] s j True show ?thesis
          by (auto simp: st store_def slots_def)
      next
        case False
        then have "view p' (slot_addr (ds ! j) c') = view p (slot_addr (ds ! j) c')" using p'(3) mj by auto
        with False show ?thesis by (auto simp: st store_def slot_val_def)
      qed
    qed
    then have "\<forall>s \<in> slots ds. store ds (view p') s = snd (snd st) s" by auto
    moreover have "param_func junk (ds ! i) (self, p) \<lparr>tag = tg, content = req_frames ds q\<rparr> (Some b) =
        Some (fst st, (self, p'), Some (case fst (snd st) of Some x \<Rightarrow> le_bytes 4 x | None \<Rightarrow> b))"
      unfolding a(2) p'(1) st by (auto simp: store_def slot_val_def)
    ultimately show ?thesis using p'(2) unfolding i_def by blast
  qed
qed

subsection \<open>A module behind the broker\<close>

text \<open>The descriptors of a module whose functions are those of parameters, as the module's start fills
  them in; a request as it comes from the broker; and its reply.\<close>

definition filled :: "('w, msg_args) disp_op list \<Rightarrow> ('w, msg_args) disp_table_func list \<Rightarrow> ('w, msg_args) disp_op list" where
  "filled ops fps = map2 (\<lambda>op f. op\<lparr>func_fp := Some f\<rparr>) ops fps"

definition u32_sized :: "u32 \<Rightarrow> bool" where
  "u32_sized a \<longleftrightarrow> DISP_GET_ASIZE a = 4 \<and> DISP_GET_ATYPE a \<noteq> DISP_ATYPE_VAR"

definition param_op :: "param_spec \<Rightarrow> ('w, msg_args) disp_op \<Rightarrow> bool" where
  "param_op d op \<longleftrightarrow> retval_owner op = DISP_OWNER_OTHER \<and> list_all u32_sized (retval op # args op) \<and>
     length (args op) = (if ps_chan d = None then 2 else 3)"

definition param_module :: "param_spec list \<Rightarrow> ('w, msg_args) disp_op list \<Rightarrow> bool" where
  "param_module ds ops \<longleftrightarrow> list_all spec_ok ds \<and> specs_apart ds \<and> list_all2 param_op ds ops"

text \<open>A function that does what the parameter's function does, for the object and the peers given.\<close>

definition acts_as :: "('o, 'h, 'p) smio \<Rightarrow> ('p \<Rightarrow> bool) \<Rightarrow> u32 \<Rightarrow> param_spec \<Rightarrow> ('o, 'h, 'p) exp_func \<Rightarrow> bool" where
  "acts_as self good junk d f \<longleftrightarrow>
     (\<forall>p msg b. good p \<longrightarrow> f (self, p) msg (Some b) = param_func junk d (self, p) msg (Some b))"

lemma acts_as_refl: "list_all2 (acts_as self good junk) ds (map (param_func junk) ds)"
  by (simp add: acts_as_def list_all2_conv_all_nth)

definition req_msg :: "('w, msg_args) disp_op list \<Rightarrow> param_spec list \<Rightarrow> param_req \<Rightarrow> msg_args" where
  "req_msg ops ds q =
     \<lparr>tag = EXP_MSG_ZMQ_TAG, content = request (opcode (ops ! rq_param q)) (req_frames ds q)\<rparr>"

definition param_reply :: "int \<Rightarrow> u32 option \<Rightarrow> frame list" where
  "param_reply e x = (case x of Some v \<Rightarrow> ok_reply v | None \<Rightarrow> [le_bytes 4 (word_of_int \<bar>e\<bar> :: u32)])"

fun param_run :: "param_spec list \<Rightarrow> param_req list \<Rightarrow> (nat \<times> nat \<Rightarrow> u32) \<Rightarrow> frame list list \<times> (nat \<times> nat \<Rightarrow> u32)" where
  "param_run ds [] m = ([], m)"
| "param_run ds (q # qs) m =
     (let (e, x, m1) = param_step ds q m; (rs, m2) = param_run ds qs m1 in (param_reply e x # rs, m2))"

lemma volatile_write_reply: "volatile_write ds rep q \<Longrightarrow> fst (param_run ds [q] m) = [[le_bytes 4 (0 :: u32)]]"
  by (simp add: volatile_write_def param_step_def Let_def param_reply_def)

text \<open>The module's requests one after the other, each with its reply.\<close>

fun mod_run ::
  "'w smio_ops option \<Rightarrow> msg_args list \<Rightarrow> 'w \<Rightarrow> ('h, 'w, msg_args) dstate \<Rightarrow>
     (frame list option list \<times> 'w \<times> ('h, 'w, msg_args) dstate) option" where
  "mod_run ops [] w s = Some ([], w, s)"
| "mod_run ops (m # ms) w s = do {
     (_, r, w1, s1) \<leftarrow> smio_do_op ops dt_call (\<lambda>_. True) True m w s;
     (rs, w2, s2) \<leftarrow> mod_run ops ms w1 s1;
     Some (r # rs, w2, s2) }"

lemma smio_checks: "table_checks smio_disp_table_ops EXP_MSG_ZMQ_TAG"
  by (auto simp: table_checks_def smio_disp_table_ops_def s_smio_check_msg_args_def ex_tags
      msg_check_gen_zmq_args_def check_args_iff)

lemma mlm_request_call:
  assumes "dt_call s opc w \<lparr>tag = EXP_MSG_ZMQ_TAG, content = fs\<rparr> = Some (e, d, w', s')"
    and "- (2 ^ 31) < e" and "e < 2 ^ 31" and "reply_of e d = Some reply"
  shows "smio_do_op (Some not_impl_ops) dt_call (\<lambda>_. True) True \<lparr>tag = EXP_MSG_ZMQ_TAG, content = request opc fs\<rparr> w s =
    Some (SMIO_SUCCESS, Some reply, w', s')"
  using assms(1) respond [OF assms(2,3), of d w' s'] assms(4)
  by (simp add: smio_do_op_def s_smio_do_op_def SMIO_FUNC_OPS_NOFAIL_WRAPPER_def not_impl_ops_def
      msg_handle_mlm_request_def validate_ok ex_tags s_msg_exp_zmq_get_opcode_def
      gen_get_opcode request_def s_msg_send_client_response_mlm_def del: dt_call.simps)

lemma u32_args: "u32_sized INT32_ARG" "u32_sized UINT32_ARG"
  by (simp_all add: u32_sized_def srv_args)

lemma param_op_ret:
  assumes "param_op d op"
  shows "needs_ret op" and "retval op \<noteq> DISP_ARG_END" and "unat (DISP_GET_ASIZE (retval op)) = 4"
  using assms by (auto simp: param_op_def u32_sized_def needs_ret_def DISP_ARG_END_0 DISP_GET_ASIZE_def)

lemma req_fits:
  assumes "param_op (ds ! rq_param q) op"
  shows "list_all2 arg_fits (args op) (req_frames ds q)"
proof -
  have "arg_fits a f" if "u32_sized a" "length f = 4" for a f
    using that by (simp add: u32_sized_def arg_fits_def)
  with assms show ?thesis
    by (auto simp: param_op_def req_frames_def length_Suc_conv numeral_2_eq_2 numeral_3_eq_3 split: if_splits)
qed

text \<open>The status of a step and its reply.\<close>

lemma param_step_reply:
  assumes "length b = 4"
  defines "nb st \<equiv> (case fst (snd st) of Some x \<Rightarrow> le_bytes 4 x | None \<Rightarrow> b)"
  shows "reply_of (fst (param_step ds q m)) (Some (nb (param_step ds q m))) =
      Some (param_reply (fst (param_step ds q m)) (fst (snd (param_step ds q m))))"
    and "- (2 ^ 31) < fst (param_step ds q m)" and "fst (param_step ds q m) < 2 ^ 31"
  using reply_of_4 by (auto simp: param_step_def Let_def nb_def param_reply_def reply_of_def RW_INV_def RW_USR_ERR_def)

lemma mod_request:
  assumes bus: "reg_bus (smio_rd self) (smio_wr self) view good mapped" and g: "good p"
    and pm: "param_module ds ops" and mp: "\<forall>(i, c) \<in> slots ds. mapped (slot_addr (ds ! i) c)"
    and as: "list_all2 (acts_as self good junk) ds fps"
    and r: "table_ready smio_disp_table_ops (filled ops fps) s" and q: "req_wf ds q"
  defines "st \<equiv> param_step ds q (store ds (view p))"
  shows "\<exists>p' s'. smio_do_op (Some not_impl_ops) dt_call (\<lambda>_. True) True (req_msg ops ds q) (self, p) s =
      Some (SMIO_SUCCESS, Some (param_reply (fst st) (fst (snd st))), (self, p'), s') \<and>
    table_ready smio_disp_table_ops (filled ops fps) s' \<and> good p' \<and>
    (\<forall>x \<in> slots ds. store ds (view p') x = snd (snd st) x)"
proof -
  define i where "i = rq_param q"
  define op where "op = (ops ! i)\<lparr>func_fp := Some (fps ! i)\<rparr>"
  have l: "i < length ds" "length ops = length ds" "length fps = length ds" using q pm as
    by (auto simp: req_wf_def i_def param_module_def dest: list_all2_lengthD)
  have o: "param_op (ds ! i) (ops ! i)" and f: "acts_as self good junk (ds ! i) (fps ! i)"
    using pm as l by (simp_all add: param_module_def list_all2_conv_all_nth)
  have ds: "list_all spec_ok ds" "specs_apart ds" using pm by (simp_all add: param_module_def)
  have "filled ops fps ! i = op" and "i < length (filled ops fps)" using l by (simp_all add: filled_def op_def)
  then have mem: "op \<in> set (filled ops fps)" by (metis nth_mem)
  have op: "param_op (ds ! i) op" "opcode op = opcode (ops ! i)" "func_fp op = Some (fps ! i)"
    using o by (simp_all add: op_def param_op_def)
  have fits: "list_all2 arg_fits (args op) (req_frames ds q)" using op(1) unfolding i_def by (rule req_fits)
  let ?nb = "\<lambda>b. case fst (snd st) of Some x \<Rightarrow> le_bytes 4 x | None \<Rightarrow> b"
  let ?P = "\<lambda>w' nb. (\<exists>p' b. w' = (self, p') \<and> good p' \<and> (\<forall>x \<in> slots ds. store ds (view p') x = snd (snd st) x) \<and>
    length b = 4 \<and> nb = ?nb b)"
  have "\<exists>w' nb. (fps ! i) (self, p) \<lparr>tag = EXP_MSG_ZMQ_TAG, content = req_frames ds q\<rparr> (Some b) =
      Some (fst st, w', Some nb) \<and> ?P w' nb" if "length b = unat (DISP_GET_ASIZE (retval op))" for b
  proof -
    have b: "length b = 4" using that param_op_ret(3) [OF op(1)] by simp
    have "(fps ! i) (self, p) msg (Some b) = param_func junk (ds ! i) (self, p) msg (Some b)" for msg
      using f g by (simp add: acts_as_def)
    with param_func_step [OF bus g ds mp q b, where junk = junk and tg = EXP_MSG_ZMQ_TAG] b show ?thesis
      unfolding st_def [symmetric] i_def by auto
  qed
  from table_accept [OF r smio_checks mem fits op(3) param_op_ret(1,2) [OF op(1)], where P = ?P, OF this]
  obtain p' b s' where c: "dt_call s (opcode op) (self, p) \<lparr>tag = EXP_MSG_ZMQ_TAG, content = req_frames ds q\<rparr> =
      Some (fst st, Some (?nb b), (self, p'), s')" "good p'" "\<forall>x \<in> slots ds. store ds (view p') x = snd (snd st) x"
    "length b = 4" "table_ready smio_disp_table_ops (filled ops fps) s'" by blast
  have "smio_do_op (Some not_impl_ops) dt_call (\<lambda>_. True) True (req_msg ops ds q) (self, p) s =
      Some (SMIO_SUCCESS, Some (param_reply (fst st) (fst (snd st))), (self, p'), s')"
    unfolding req_msg_def i_def [symmetric] op(2) [symmetric]
    by (rule mlm_request_call [OF c(1)]) (use param_step_reply [OF c(4), of ds q "store ds (view p)"] in \<open>simp_all add: st_def\<close>)
  with c(2,3,5) show ?thesis by blast
qed

text \<open>The store matters at its slots only.\<close>

lemma param_step_cong:
  assumes "\<forall>x \<in> slots ds. m x = m' x" and "req_wf ds q"
  shows "fst (param_step ds q m) = fst (param_step ds q m')"
    and "fst (snd (param_step ds q m)) = fst (snd (param_step ds q m'))"
    and "\<forall>x \<in> slots ds. snd (snd (param_step ds q m)) x = snd (snd (param_step ds q m')) x"
  using assms by (auto simp: param_step_def Let_def slots_def req_wf_def)

lemma param_run_cong:
  assumes "\<forall>q \<in> set qs. req_wf ds q"
  shows "\<forall>x \<in> slots ds. m x = m' x \<Longrightarrow> fst (param_run ds qs m) = fst (param_run ds qs m') \<and>
    (\<forall>x \<in> slots ds. snd (param_run ds qs m) x = snd (param_run ds qs m') x)"
  using assms
proof (induction qs arbitrary: m m')
  case (Cons q qs)
  have q: "req_wf ds q" and qs: "\<forall>q \<in> set qs. req_wf ds q" using Cons.prems(2) by simp_all
  note c = param_step_cong [OF Cons.prems(1) q]
  from Cons.IH [OF c(3) qs] c(1,2) show ?case by (simp add: split_beta)
qed simp

lemma mod_run_store:
  assumes bus: "reg_bus (smio_rd self) (smio_wr self) view good mapped"
    and pm: "param_module ds ops" and as: "list_all2 (acts_as self good junk) ds fps" and mp: "\<forall>(i, c) \<in> slots ds. mapped (slot_addr (ds ! i) c)"
  shows "good p \<Longrightarrow> table_ready smio_disp_table_ops (filled ops fps) s \<Longrightarrow>
    \<forall>q \<in> set qs. req_wf ds q \<Longrightarrow>
    \<exists>p' s'. mod_run (Some not_impl_ops) (map (req_msg ops ds) qs) (self, p) s =
        Some (map Some (fst (param_run ds qs (store ds (view p)))), (self, p'), s') \<and>
      table_ready smio_disp_table_ops (filled ops fps) s' \<and> good p' \<and>
      (\<forall>x \<in> slots ds. store ds (view p') x = snd (param_run ds qs (store ds (view p))) x)"
proof (induction qs arbitrary: p s)
  case (Cons q qs)
  have q: "req_wf ds q" and qs: "\<forall>q \<in> set qs. req_wf ds q" using Cons.prems(3) by simp_all
  let ?st = "param_step ds q (store ds (view p))"
  obtain p1 s1 where c: "smio_do_op (Some not_impl_ops) dt_call (\<lambda>_. True) True (req_msg ops ds q) (self, p) s =
      Some (SMIO_SUCCESS, Some (param_reply (fst ?st) (fst (snd ?st))), (self, p1), s1)"
    "table_ready smio_disp_table_ops (filled ops fps) s1" "good p1"
    "\<forall>x \<in> slots ds. store ds (view p1) x = snd (snd ?st) x"
    using mod_request [OF bus Cons.prems(1) pm mp as Cons.prems(2) q] by blast
  from Cons.IH [OF c(3,2) qs] obtain p' s' where i:
    "mod_run (Some not_impl_ops) (map (req_msg ops ds) qs) (self, p1) s1 =
        Some (map Some (fst (param_run ds qs (store ds (view p1)))), (self, p'), s')"
    "table_ready smio_disp_table_ops (filled ops fps) s'" "good p'"
    "\<forall>x \<in> slots ds. store ds (view p') x = snd (param_run ds qs (store ds (view p1))) x" by blast
  have "fst (param_run ds qs (store ds (view p1))) = fst (param_run ds qs (snd (snd ?st)))"
    "\<forall>x \<in> slots ds. snd (param_run ds qs (store ds (view p1))) x = snd (param_run ds qs (snd (snd ?st))) x"
    using param_run_cong [OF qs c(4)] by blast+
  with c(1) i show ?case by (simp add: split_beta)
qed simp

subsection \<open>The start of a module\<close>

lemma put_ret_Some: "put_ret n v ret = Some ret' \<Longrightarrow> map_option length ret' = map_option length ret"
  by (cases ret) (auto simp: put_ret_def bind_eq_Some_conv wr_word_length)

lemma set_get_param_len:
  "set_get_param rd wr base_addr reg f lims chk fmt junk rw v p ret = Some (e, p', ret') \<Longrightarrow>
     map_option length ret' = map_option length ret"
  by (auto simp: set_get_param_def bind_eq_Some_conv Let_def split: if_splits dest: put_ret_Some)

lemma param_func_ok: "func_ok (param_func junk d)"
  by (auto simp: func_ok_def param_func_def SET_GET_PARAM_def SET_GET_PARAM_GEN_def SET_GET_PARAM_CHANNEL_def
      SET_GET_PARAM_CHANNEL_GEN_def bind_eq_Some_conv split: option.splits if_splits dest!: set_get_param_len)

lemma mod_init_success:
  assumes fill: "disp_table_fill_desc ps fps h = Some (DISP_TABLE_SUCCESS, h')"
    and new: "\<And>s. handler_new s p = Some (Some x, p')"
  shows "mod_init True ze devid name ops ps fps handler_new self p h =
    Some (SMIO_SUCCESS, self\<lparr>sm_id := devid, sm_name := Some name, sm_ops := Some ops,
      sm_thsafe := Some (smio_thsafe_client_zmq_ops ze), sm_exp_ops := Some ps, sm_handler := Some x\<rparr>, p', h')"
  using fill new
  by (simp add: mod_init_def smio_set_id_def smio_set_name_def s_smio_set_name_def smio_set_ops_def
      smio_set_thsafe_client_ops_def smio_init_exp_ops_def smio_set_exp_ops_def smio_set_handler_def)

text \<open>A module started in a fresh table: its descriptors are filled in, registered and ready.\<close>

lemma mod_boot:
  fixes h :: "('w, msg_args) dheap" and Z :: "'z zhashx"
  assumes Z: "zhashx_ok Z" "zh_new Z \<noteq> None" and h: "heap_wf h" "\<forall>n. hp_ok h n"
    and ps: "distinct ps" "length ps = length descs" "\<forall>(p, op) \<in> set (zip ps descs). hp_mem h p = Some (BObj (OOp op))"
    and d: "distinct (map opcode descs)" and f: "length fps = length descs" "\<forall>g \<in> set fps. func_ok g"
    and new: "\<And>s. handler_new s p = Some (Some x, p')"
  shows "\<exists>T0 h0 h1 T h2. disp_table_new Z smio_disp_table_ops h = Some (Some T0, h0) \<and>
    mod_init True ze devid name ops ps fps handler_new self p h0 =
      Some (SMIO_SUCCESS, self\<lparr>sm_id := devid, sm_name := Some name, sm_ops := Some ops,
        sm_thsafe := Some (smio_thsafe_client_zmq_ops ze), sm_exp_ops := Some ps, sm_handler := Some x\<rparr>, p', h1) \<and>
    smio_export_ops Z T0 (Some not_impl_ops) ps w h1 = Some (SMIO_SUCCESS, w, T, h2) \<and>
    table_ready smio_disp_table_ops (filled descs fps) (Z, T, h2)"
proof -
  obtain t where t: "zh_new Z = Some t" using Z(2) by blast
  define T0 :: "('z, 'w, msg_args) disp_table" where
    "T0 = \<lparr>dt_self = hp_next h, table_h = t, dt_ops = smio_disp_table_ops\<rparr>"
  define h0 where "h0 = h\<lparr>hp_next := Suc (hp_next h), hp_mem := (hp_mem h)(hp_next h \<mapsto> BObj OTable)\<rparr>"
  have n: "disp_table_new Z smio_disp_table_ops h = Some (Some T0, h0)"
    using h(2) t by (simp add: disp_table_new_def halloc_def Let_def T0_def h0_def)
  have e: "zh_lookup Z (table_h T0) = Map.empty" using zhashx_okD(1) [OF Z(1) t] by (simp add: T0_def)
  have w0: "heap_wf h0" "\<forall>n. hp_ok h0 n" using h by (simp_all add: heap_wf_def h0_def)
  have at: "hp_mem h0 (ps ! i) = Some (BObj (OOp (descs ! i)))" if "i < length descs" for i
  proof -
    have "(ps ! i, descs ! i) \<in> set (zip ps descs)" using that ps(2) by (auto simp: set_zip)
    then have m: "hp_mem h (ps ! i) = Some (BObj (OOp (descs ! i)))" using ps(3) by blast
    then have "ps ! i \<noteq> hp_next h" using heap_wf_fresh [OF h(1)] by auto
    with m show ?thesis by (simp add: h0_def)
  qed
  have "\<forall>p \<in> set ps. as_op (hp_mem h0 p) \<noteq> None" using at ps(2) by (auto simp: in_set_conv_nth)
  from fill_desc_char [OF ps(1) this w0(1), of fps] f(1) ps(2) obtain h1 where h1:
    "disp_table_fill_desc ps fps h0 = Some (DISP_TABLE_SUCCESS, h1)" "heap_wf h1" "hp_ok h1 = hp_ok h0"
    "hp_mem h1 = (\<lambda>x. case map_of (zip ps fps) x of None \<Rightarrow> hp_mem h0 x
       | Some f \<Rightarrow> map_option (\<lambda>op. BObj (OOp (op\<lparr>func_fp := Some f\<rparr>))) (as_op (hp_mem h0 x)))" by auto
  have l: "length (filled descs fps) = length descs" using f(1) by (simp add: filled_def)
  have at1: "hp_mem h1 (ps ! i) = Some (BObj (OOp (filled descs fps ! i)))" if "i < length descs" for i
  proof -
    have "map_of (zip ps fps) (ps ! i) = Some (fps ! i)"
      by (rule map_of_zip_nth) (use that ps(1,2) f(1) in auto)
    with at [OF that] that f(1) show ?thesis by (simp add: h1(4) filled_def)
  qed
  have at2: "\<forall>(p, op) \<in> set (zip ps (filled descs fps)). hp_mem h1 p = Some (BObj (OOp op))"
    using at1 l by (auto simp: set_zip)
  have codes: "map opcode (filled descs fps) = map opcode descs"
    by (rule nth_equalityI) (use f(1) in \<open>auto simp: filled_def\<close>)
  have fok: "\<forall>op \<in> set (filled descs fps). \<forall>g. func_fp op = Some g \<longrightarrow> func_ok g"
    using f(2) by (auto simp: filled_def set_zip)
  have ok: "dt_ok Z T0 (hp_mem h1)"
  proof -
    have "hp_next h \<notin> set ps"
    proof
      assume "hp_next h \<in> set ps"
      then obtain i where "i < length descs" "ps ! i = hp_next h" using ps(2) by (metis in_set_conv_nth)
      with at [of i] show False by (simp add: h0_def)
    qed
    then have "map_of (zip ps fps) (hp_next h) = None" by (auto simp: map_of_eq_None_iff dest: set_zip_leftD)
    then have "hp_mem h1 (dt_self T0) = Some (BObj OTable)" by (simp add: T0_def h1(4) h0_def)
    then show ?thesis using e by (simp add: dt_ok_def)
  qed
  have okh: "\<forall>n. hp_ok h1 n" and lf: "length ps = length (filled descs fps)" using w0(2) h1(3) l ps(2) by simp_all
  from insert_all_ready [OF Z(1) e ok h1(2) okh lf at2 d [folded codes] fok] obtain T h2 where
    i: "disp_table_insert_all Z T0 ps h1 = Some (DISP_TABLE_SUCCESS, T, h2)" "dt_good (Z, T, h2)"
      "dt_table_ops (Z, T, h2) = dt_ops T0"
      "\<forall>op \<in> set (filled descs fps). \<exists>buf. dt_view (Z, T, h2) (opcode op) = Some (op, buf) \<and> op_buf op buf"
    unfolding op_buf_def by blast
  have "table_ready smio_disp_table_ops (filled descs fps) (Z, T, h2)"
    unfolding table_ready_def using i(2,3,4) by (simp add: T0_def del: dt_good.simps)
  moreover have "smio_export_ops Z T0 (Some not_impl_ops) ps w h1 = Some (SMIO_SUCCESS, w, T, h2)"
    using i(1) by (simp add: smio_export_ops_def SMIO_FUNC_OPS_NOFAIL_WRAPPER_def not_impl_ops_def)
  ultimately show ?thesis using n mod_init_success [where handler_new = handler_new, OF h1(1) new] by blast
qed

section \<open>Parameters whose status is ignored\<close>

text \<open>Some modules read and write a whole register in a function of their own, which the source
  repeats: it needs the handler, and it drops the status of the macros. A value that could not be
  read is returned as if it had been.\<close>

definition set_get_unchecked :: "u64 \<Rightarrow> int \<Rightarrow> u32 \<Rightarrow> ('o, 'h, 'p) exp_func" where
  "set_get_unchecked reg err_code junk w msg ret =
     (case sm_handler (fst w) of
        None \<Rightarrow> Some (- err_code, w, ret)
      | Some _ \<Rightarrow> do {
          rw \<leftarrow> EXP_MSG_ZMQ_ARG 0 msg;
          v \<leftarrow> EXP_MSG_ZMQ_ARG 1 msg;
          if rw \<noteq> 0 then do {
            (_, x, p') \<leftarrow> GET_PARAM (fst w) 0 reg whole_reg None junk (snd w);
            ret' \<leftarrow> put_ret 4 x ret;
            Some (4, (fst w, p'), ret') }
          else do {
            (_, p') \<leftarrow> SET_PARAM (fst w) 0 reg whole_reg v None None junk (snd w);
            Some (0, (fst w, p'), ret) } })"

lemma set_get_unchecked_ok: "func_ok (set_get_unchecked reg e junk)"
  by (auto simp: func_ok_def set_get_unchecked_def bind_eq_Some_conv put_ret_length split: option.splits if_splits)

lemma unchecked_acts_as:
  assumes bus: "reg_bus (smio_rd self) (smio_wr self) view good mapped" and h: "sm_handler self \<noteq> None"
    and m: "mapped (of_nat r)"
  shows "acts_as self good junk (plain r Whole None) (set_get_unchecked (of_nat r) e junk)"
  unfolding acts_as_def
proof (intro allI impI)
  fix p msg b assume g: "good p"
  have m': "mapped (0 + of_nat r)" using m by simp
  obtain p1 where get: "GET_PARAM self 0 (of_nat r) whole_reg None junk p = Some (RW_OK, view p (of_nat r), p1)"
    using reg_bus.get_param [OF bus g m', of whole_reg None junk] by (auto simp: GET_PARAM_def fmt_val_def)
  have set: "\<exists>p1. SET_PARAM self 0 (of_nat r) whole_reg v None None junk p = Some (RW_OK, p1)" for v
    using reg_bus.set_param [OF bus g m', of whole_reg v None None junk] by (auto simp: SET_PARAM_def param_allowed_def)
  show "set_get_unchecked (of_nat r) e junk (self, p) msg (Some b) = param_func junk (plain r Whole None) (self, p) msg (Some b)"
  proof (cases "EXP_MSG_ZMQ_ARG 0 msg"; cases "EXP_MSG_ZMQ_ARG 1 msg")
    fix rw v assume a: "EXP_MSG_ZMQ_ARG 0 msg = Some rw" "EXP_MSG_ZMQ_ARG 1 msg = Some v"
    obtain p2 where p2: "SET_PARAM self 0 (of_nat r) whole_reg v None None junk p = Some (RW_OK, p2)" using set by blast
    from a h get p2 show ?thesis
      by (auto simp: set_get_unchecked_def param_func_simps SET_GET_PARAM_def SET_GET_PARAM_GEN_def set_get_param_def
          GET_PARAM_def SET_PARAM_def RW_OK_def map_option_bind_case split: option.splits)
  qed (use h in \<open>auto simp: set_get_unchecked_def param_func_simps SET_GET_PARAM_def SET_GET_PARAM_GEN_def split: option.splits\<close>)
qed

text \<open>A list of functions of both kinds.\<close>

definition mixed_fp :: "int \<Rightarrow> u32 \<Rightarrow> (param_spec \<times> bool) list \<Rightarrow> ('o, 'h, 'p) exp_func list" where
  "mixed_fp e junk dus = map (\<lambda>(d, unchecked). if unchecked then set_get_unchecked (of_nat (ps_reg d)) e junk
     else param_func junk d) dus"

lemma mixed_acts:
  assumes bus: "reg_bus (smio_rd self) (smio_wr self) view good mapped" and h: "sm_handler self \<noteq> None"
    and mp: "\<forall>(i, c) \<in> slots (map fst dus). mapped (slot_addr (map fst dus ! i) c)"
    and u: "list_all (\<lambda>(d, unchecked). unchecked \<longrightarrow> d = plain (ps_reg d) Whole None) dus"
  shows "list_all2 (acts_as self good junk) (map fst dus) (mixed_fp e junk dus)"
proof (rule list_all2_all_nthI)
  fix i assume i: "i < length (map fst dus)"
  obtain d b where d: "dus ! i = (d, b)" by (cases "dus ! i")
  show "acts_as self good junk (map fst dus ! i) (mixed_fp e junk dus ! i)"
  proof (cases b)
    case True
    then have p: "d = plain (ps_reg d) Whole None" using u i d by (auto simp: list_all_length dest!: spec [of _ i])
    then have "(i, 0) \<in> slots (map fst dus)" and a: "slot_addr d 0 = of_nat (ps_reg d)"
      using i d by (auto simp: slots_def slot_addr_def ps_count_def plain_def dest: arg_cong [of _ _ ps_chan])
    then have "mapped (of_nat (ps_reg d))" using mp i d by fastforce
    from unchecked_acts_as [OF bus h this, of junk e] p i d True show ?thesis by (simp add: mixed_fp_def)
  next
    case False
    with i d show ?thesis by (simp add: mixed_fp_def acts_as_def)
  qed
qed (simp add: mixed_fp_def)

lemma mixed_ok: "f \<in> set (mixed_fp e junk dus) \<Longrightarrow> func_ok f"
  by (auto simp: mixed_fp_def set_get_unchecked_ok param_func_ok split: if_splits)

lemma table_ready_mono: "table_ready tops ops s \<Longrightarrow> set ops' \<subseteq> set ops \<Longrightarrow> table_ready tops ops' s"
  by (auto simp: table_ready_def)

end
