(* ===== verification/Mod_Trigger.thy ===== *)
theory Mod_Trigger
  imports Param_Store
begin

text \<open>
  The trigger modules, src/sm_io/modules/trigger_iface and trigger_mux: parameters of the trigger lines,
  one set of registers per channel.
  Registers and fields are those of include/hw. The functions have no state of their own: the
  handler is an empty structure. The list \<open>_params\<close> says which fields the functions set and get.
\<close>

section \<open>The module trigger_iface\<close>

named_theorems trigger_iface_defs

definition TRIGGER_IFACE_SDB_DEVID :: u32 where "TRIGGER_IFACE_SDB_DEVID = 0xbcbb78d2"
definition TRIGGER_IFACE_SDB_NAME :: string where "TRIGGER_IFACE_SDB_NAME = ''TRIGGER_IFACE''"

text \<open>Registers and fields.\<close>

definition WB_TRIG_IFACE_REG_CH0_CTL :: u64 where [trigger_iface_defs]: "WB_TRIG_IFACE_REG_CH0_CTL = 0x0"
definition WB_TRIG_IFACE_CH0_CTL_DIR :: u32 where [trigger_iface_defs]: "WB_TRIG_IFACE_CH0_CTL_DIR = WBGEN2_GEN_MASK 0 1"
definition TRIGGER_IFACE_CHAN_OFFSET :: u32 where [trigger_iface_defs]: "TRIGGER_IFACE_CHAN_OFFSET = 12"
definition TRIGGER_IFACE_NUM_CHAN :: u32 where [trigger_iface_defs]: "TRIGGER_IFACE_NUM_CHAN = 24"
definition WB_TRIG_IFACE_CH0_CTL_DIR_POL :: u32 where [trigger_iface_defs]: "WB_TRIG_IFACE_CH0_CTL_DIR_POL = WBGEN2_GEN_MASK 1 1"
definition WB_TRIG_IFACE_CH0_CTL_RCV_COUNT_RST :: u32 where [trigger_iface_defs]: "WB_TRIG_IFACE_CH0_CTL_RCV_COUNT_RST = WBGEN2_GEN_MASK 2 1"
definition WB_TRIG_IFACE_CH0_CTL_TRANSM_COUNT_RST :: u32 where [trigger_iface_defs]: "WB_TRIG_IFACE_CH0_CTL_TRANSM_COUNT_RST = WBGEN2_GEN_MASK 3 1"
definition WB_TRIG_IFACE_REG_CH0_CFG :: u64 where [trigger_iface_defs]: "WB_TRIG_IFACE_REG_CH0_CFG = 0x4"
definition WB_TRIG_IFACE_CH0_CFG_RCV_LEN :: param_field where [trigger_iface_defs]: "WB_TRIG_IFACE_CH0_CFG_RCV_LEN = gen_field 0 8"
definition WB_TRIG_IFACE_CH0_CFG_TRANSM_LEN :: param_field where [trigger_iface_defs]: "WB_TRIG_IFACE_CH0_CFG_TRANSM_LEN = gen_field 8 8"
definition WB_TRIG_IFACE_REG_CH0_COUNT :: u64 where [trigger_iface_defs]: "WB_TRIG_IFACE_REG_CH0_COUNT = 0x8"
definition WB_TRIG_IFACE_CH0_COUNT_RCV :: param_field where [trigger_iface_defs]: "WB_TRIG_IFACE_CH0_COUNT_RCV = gen_field 0 16"
definition WB_TRIG_IFACE_CH0_COUNT_TRANSM :: param_field where [trigger_iface_defs]: "WB_TRIG_IFACE_CH0_COUNT_TRANSM = gen_field 16 16"

text \<open>Exported functions.\<close>

definition s_trigger_iface_set_get_dir :: "u32 \<Rightarrow> ('o, 'h, 'p) exp_func" where [trigger_iface_defs]:
  "s_trigger_iface_set_get_dir junk = SET_GET_PARAM_CHANNEL 0 WB_TRIG_IFACE_REG_CH0_CTL (Single_Bit WB_TRIG_IFACE_CH0_CTL_DIR)
     TRIGGER_IFACE_CHAN_OFFSET TRIGGER_IFACE_NUM_CHAN (Some (0, 1)) None None junk"

definition s_trigger_iface_set_get_dir_pol :: "u32 \<Rightarrow> ('o, 'h, 'p) exp_func" where [trigger_iface_defs]:
  "s_trigger_iface_set_get_dir_pol junk = SET_GET_PARAM_CHANNEL 0 WB_TRIG_IFACE_REG_CH0_CTL (Single_Bit WB_TRIG_IFACE_CH0_CTL_DIR_POL)
     TRIGGER_IFACE_CHAN_OFFSET TRIGGER_IFACE_NUM_CHAN (Some (0, 1)) None None junk"

definition s_trigger_iface_set_get_rcv_count_rst :: "u32 \<Rightarrow> ('o, 'h, 'p) exp_func" where [trigger_iface_defs]:
  "s_trigger_iface_set_get_rcv_count_rst junk = SET_GET_PARAM_CHANNEL 0 WB_TRIG_IFACE_REG_CH0_CTL (Single_Bit WB_TRIG_IFACE_CH0_CTL_RCV_COUNT_RST)
     TRIGGER_IFACE_CHAN_OFFSET TRIGGER_IFACE_NUM_CHAN (Some (0, 1)) None None junk"

definition s_trigger_iface_set_get_transm_count_rst :: "u32 \<Rightarrow> ('o, 'h, 'p) exp_func" where [trigger_iface_defs]:
  "s_trigger_iface_set_get_transm_count_rst junk = SET_GET_PARAM_CHANNEL 0 WB_TRIG_IFACE_REG_CH0_CTL (Single_Bit WB_TRIG_IFACE_CH0_CTL_TRANSM_COUNT_RST)
     TRIGGER_IFACE_CHAN_OFFSET TRIGGER_IFACE_NUM_CHAN (Some (0, 1)) None None junk"

definition s_trigger_iface_set_get_rcv_len :: "u32 \<Rightarrow> ('o, 'h, 'p) exp_func" where [trigger_iface_defs]:
  "s_trigger_iface_set_get_rcv_len junk = SET_GET_PARAM_CHANNEL 0 WB_TRIG_IFACE_REG_CH0_CFG WB_TRIG_IFACE_CH0_CFG_RCV_LEN
     TRIGGER_IFACE_CHAN_OFFSET TRIGGER_IFACE_NUM_CHAN (Some (0, 255)) None None junk"

definition s_trigger_iface_set_get_transm_len :: "u32 \<Rightarrow> ('o, 'h, 'p) exp_func" where [trigger_iface_defs]:
  "s_trigger_iface_set_get_transm_len junk = SET_GET_PARAM_CHANNEL 0 WB_TRIG_IFACE_REG_CH0_CFG WB_TRIG_IFACE_CH0_CFG_TRANSM_LEN
     TRIGGER_IFACE_CHAN_OFFSET TRIGGER_IFACE_NUM_CHAN None None None junk"

definition s_trigger_iface_set_get_count_rcv :: "u32 \<Rightarrow> ('o, 'h, 'p) exp_func" where [trigger_iface_defs]:
  "s_trigger_iface_set_get_count_rcv junk = SET_GET_PARAM_CHANNEL 0 WB_TRIG_IFACE_REG_CH0_COUNT WB_TRIG_IFACE_CH0_COUNT_RCV
     TRIGGER_IFACE_CHAN_OFFSET TRIGGER_IFACE_NUM_CHAN None None None junk"

definition s_trigger_iface_set_get_count_transm :: "u32 \<Rightarrow> ('o, 'h, 'p) exp_func" where [trigger_iface_defs]:
  "s_trigger_iface_set_get_count_transm junk = SET_GET_PARAM_CHANNEL 0 WB_TRIG_IFACE_REG_CH0_COUNT WB_TRIG_IFACE_CH0_COUNT_TRANSM
     TRIGGER_IFACE_CHAN_OFFSET TRIGGER_IFACE_NUM_CHAN None None None junk"

definition trigger_iface_exp_fp :: "u32 \<Rightarrow> ('o, 'h, 'p) exp_func list" where
  "trigger_iface_exp_fp junk =
     [s_trigger_iface_set_get_dir junk, s_trigger_iface_set_get_dir_pol junk,
      s_trigger_iface_set_get_rcv_count_rst junk, s_trigger_iface_set_get_transm_count_rst junk,
      s_trigger_iface_set_get_rcv_len junk, s_trigger_iface_set_get_transm_len junk,
      s_trigger_iface_set_get_count_rcv junk, s_trigger_iface_set_get_count_transm junk]"

text \<open>Opcodes and descriptors.\<close>

definition trigger_iface_codes :: "(string \<times> u32) list" where
  "trigger_iface_codes =
     [(''trigger_iface_dir'', 0), (''trigger_iface_dir_pol'', 1), (''trigger_iface_rcv_count_rst'', 2),
      (''trigger_iface_transm_count_rst'', 3), (''trigger_iface_rcv_len'', 4),
      (''trigger_iface_transm_len'', 5), (''trigger_iface_count_rcv'', 6), (''trigger_iface_count_transm'', 7)]"

definition trigger_iface_dir_exp :: "('w, msg_args) disp_op" where [trigger_iface_defs]: "trigger_iface_dir_exp = chan_exp ''trigger_iface_dir'' 0"
definition trigger_iface_dir_pol_exp :: "('w, msg_args) disp_op" where [trigger_iface_defs]: "trigger_iface_dir_pol_exp = chan_exp ''trigger_iface_dir_pol'' 1"
definition trigger_iface_rcv_count_rst_exp :: "('w, msg_args) disp_op" where [trigger_iface_defs]: "trigger_iface_rcv_count_rst_exp = chan_exp ''trigger_iface_rcv_count_rst'' 2"
definition trigger_iface_transm_count_rst_exp :: "('w, msg_args) disp_op" where [trigger_iface_defs]: "trigger_iface_transm_count_rst_exp = chan_exp ''trigger_iface_transm_count_rst'' 3"
definition trigger_iface_rcv_len_exp :: "('w, msg_args) disp_op" where [trigger_iface_defs]: "trigger_iface_rcv_len_exp = chan_exp ''trigger_iface_rcv_len'' 4"
definition trigger_iface_transm_len_exp :: "('w, msg_args) disp_op" where [trigger_iface_defs]: "trigger_iface_transm_len_exp = chan_exp ''trigger_iface_transm_len'' 5"
definition trigger_iface_count_rcv_exp :: "('w, msg_args) disp_op" where [trigger_iface_defs]: "trigger_iface_count_rcv_exp = chan_exp ''trigger_iface_count_rcv'' 6"
definition trigger_iface_count_transm_exp :: "('w, msg_args) disp_op" where [trigger_iface_defs]: "trigger_iface_count_transm_exp = chan_exp ''trigger_iface_count_transm'' 7"

definition trigger_iface_exp_ops :: "('w, msg_args) disp_op list" where
  "trigger_iface_exp_ops =
     [trigger_iface_dir_exp, trigger_iface_dir_pol_exp, trigger_iface_rcv_count_rst_exp,
      trigger_iface_transm_count_rst_exp, trigger_iface_rcv_len_exp, trigger_iface_transm_len_exp,
      trigger_iface_count_rcv_exp, trigger_iface_count_transm_exp]"

text \<open>Life cycle.\<close>

definition trigger_iface_ops :: "'w smio_ops" where "trigger_iface_ops = not_impl_ops"

definition smio_trigger_iface_new :: "bool \<Rightarrow> ('o, unit, 'p) smio \<Rightarrow> 'p \<Rightarrow> (unit option \<times> 'p) option" where
  "smio_trigger_iface_new ok self p = plain_new ok self p"

definition smio_trigger_iface_destroy :: "unit option \<Rightarrow> smio_err \<times> unit option" where
  "smio_trigger_iface_destroy self_p = plain_destroy self_p"

definition trigger_iface_init ::
  "bool \<Rightarrow> (nat \<Rightarrow> bool) \<Rightarrow> bool \<Rightarrow> u32 \<Rightarrow> nat list \<Rightarrow> ('v smio_ops, unit, 'p) smio \<Rightarrow> 'p \<Rightarrow>
     (('v smio_ops, unit, 'p) smio_world, msg_args) dheap \<Rightarrow>
     (smio_err \<times> ('v smio_ops, unit, 'p) smio \<times> 'p \<times> (('v smio_ops, unit, 'p) smio_world, msg_args) dheap) option" where
  "trigger_iface_init ok ze al junk exp_ops self p h =
     mod_init ok ze TRIGGER_IFACE_SDB_DEVID TRIGGER_IFACE_SDB_NAME trigger_iface_ops exp_ops (trigger_iface_exp_fp junk) (smio_trigger_iface_new al) self p h"

definition trigger_iface_shutdown :: "('v smio_ops, unit, 'p) smio \<Rightarrow> smio_err \<times> ('v smio_ops, unit, 'p) smio" where
  "trigger_iface_shutdown self = mod_shutdown self"

text \<open>The parameters as a store.\<close>

definition trigger_iface_params :: "param_spec list" where
  "trigger_iface_params =
     [chans 12 24 0 (Bit 0) (Some (0, 1)), chans 12 24 0 (Bit 1) (Some (0, 1)),
      chans 12 24 0 (Bit 2) (Some (0, 1)), chans 12 24 0 (Bit 3) (Some (0, 1)),
      chans 12 24 4 (Bits 0 8) (Some (0, 255)), chans 12 24 4 (Bits 8 8) None, chans 12 24 8 (Bits 0 16) None,
      chans 12 24 8 (Bits 16 16) None]"

lemma trigger_iface_fp: "trigger_iface_exp_fp junk = map (param_func junk) trigger_iface_params"
  by (simp add: trigger_iface_exp_fp_def trigger_iface_params_def trigger_iface_defs param_func_simps WBGEN2_GEN_MASK_def)

lemma trigger_iface_spec: "list_all spec_ok trigger_iface_params"
  by (simp add: trigger_iface_params_def spec_ok_def)

lemma trigger_iface_apart: "specs_apart trigger_iface_params"
  by (simp add: trigger_iface_params_def spec_apart_def last_reg_def)

lemma trigger_iface_args: "list_all2 param_op trigger_iface_params trigger_iface_exp_ops"
  by (simp add: trigger_iface_params_def trigger_iface_exp_ops_def trigger_iface_defs exp_simps param_op_def u32_args)

lemma trigger_iface_module: "param_module trigger_iface_params trigger_iface_exp_ops"
  using trigger_iface_spec trigger_iface_apart trigger_iface_args by (simp add: param_module_def)

lemma trigger_iface_opcodes: "map (\<lambda>op. (dop_name op, opcode op)) trigger_iface_exp_ops = trigger_iface_codes"
  by (simp add: trigger_iface_exp_ops_def trigger_iface_codes_def trigger_iface_defs exp_simps)

lemma trigger_iface_distinct: "distinct (map opcode trigger_iface_exp_ops)"
  by (simp add: trigger_iface_exp_ops_def trigger_iface_defs exp_simps)

section \<open>The module trigger_mux\<close>

named_theorems trigger_mux_defs

definition TRIGGER_MUX_SDB_DEVID :: u32 where "TRIGGER_MUX_SDB_DEVID = 0x84b6a5ac"
definition TRIGGER_MUX_SDB_NAME :: string where "TRIGGER_MUX_SDB_NAME = ''TRIGGER_MUX''"

text \<open>Registers and fields.\<close>

definition WB_TRIG_MUX_REG_CH0_CTL :: u64 where [trigger_mux_defs]: "WB_TRIG_MUX_REG_CH0_CTL = 0x0"
definition WB_TRIG_MUX_CH0_CTL_RCV_SRC :: u32 where [trigger_mux_defs]: "WB_TRIG_MUX_CH0_CTL_RCV_SRC = WBGEN2_GEN_MASK 0 1"
definition TRIGGER_MUX_CHAN_OFFSET :: u32 where [trigger_mux_defs]: "TRIGGER_MUX_CHAN_OFFSET = 8"
definition TRIGGER_MUX_NUM_CHAN :: u32 where [trigger_mux_defs]: "TRIGGER_MUX_NUM_CHAN = 24"
definition WB_TRIG_MUX_CH0_CTL_RCV_IN_SEL :: param_field where [trigger_mux_defs]: "WB_TRIG_MUX_CH0_CTL_RCV_IN_SEL = gen_field 8 8"
definition WB_TRIG_MUX_CH0_CTL_TRANSM_SRC :: u32 where [trigger_mux_defs]: "WB_TRIG_MUX_CH0_CTL_TRANSM_SRC = WBGEN2_GEN_MASK 16 1"
definition WB_TRIG_MUX_CH0_CTL_TRANSM_OUT_SEL :: param_field where [trigger_mux_defs]: "WB_TRIG_MUX_CH0_CTL_TRANSM_OUT_SEL = gen_field 24 8"

text \<open>Exported functions.\<close>

definition s_trigger_mux_set_get_rcv_src :: "u32 \<Rightarrow> ('o, 'h, 'p) exp_func" where [trigger_mux_defs]:
  "s_trigger_mux_set_get_rcv_src junk = SET_GET_PARAM_CHANNEL 0 WB_TRIG_MUX_REG_CH0_CTL (Single_Bit WB_TRIG_MUX_CH0_CTL_RCV_SRC)
     TRIGGER_MUX_CHAN_OFFSET TRIGGER_MUX_NUM_CHAN (Some (0, 1)) None None junk"

definition s_trigger_mux_set_get_rcv_in_sel :: "u32 \<Rightarrow> ('o, 'h, 'p) exp_func" where [trigger_mux_defs]:
  "s_trigger_mux_set_get_rcv_in_sel junk = SET_GET_PARAM_CHANNEL 0 WB_TRIG_MUX_REG_CH0_CTL WB_TRIG_MUX_CH0_CTL_RCV_IN_SEL
     TRIGGER_MUX_CHAN_OFFSET TRIGGER_MUX_NUM_CHAN (Some (0, 255)) None None junk"

definition s_trigger_mux_set_get_transm_src :: "u32 \<Rightarrow> ('o, 'h, 'p) exp_func" where [trigger_mux_defs]:
  "s_trigger_mux_set_get_transm_src junk = SET_GET_PARAM_CHANNEL 0 WB_TRIG_MUX_REG_CH0_CTL (Single_Bit WB_TRIG_MUX_CH0_CTL_TRANSM_SRC)
     TRIGGER_MUX_CHAN_OFFSET TRIGGER_MUX_NUM_CHAN (Some (0, 1)) None None junk"

definition s_trigger_mux_set_get_transm_out_sel :: "u32 \<Rightarrow> ('o, 'h, 'p) exp_func" where [trigger_mux_defs]:
  "s_trigger_mux_set_get_transm_out_sel junk = SET_GET_PARAM_CHANNEL 0 WB_TRIG_MUX_REG_CH0_CTL WB_TRIG_MUX_CH0_CTL_TRANSM_OUT_SEL
     TRIGGER_MUX_CHAN_OFFSET TRIGGER_MUX_NUM_CHAN (Some (0, 255)) None None junk"

definition trigger_mux_exp_fp :: "u32 \<Rightarrow> ('o, 'h, 'p) exp_func list" where
  "trigger_mux_exp_fp junk =
     [s_trigger_mux_set_get_rcv_src junk, s_trigger_mux_set_get_rcv_in_sel junk,
      s_trigger_mux_set_get_transm_src junk, s_trigger_mux_set_get_transm_out_sel junk]"

text \<open>Opcodes and descriptors.\<close>

definition trigger_mux_codes :: "(string \<times> u32) list" where
  "trigger_mux_codes =
     [(''trigger_mux_rcv_src'', 0), (''trigger_mux_rcv_in_sel'', 1), (''trigger_mux_transm_src'', 2),
      (''trigger_mux_transm_out_sel'', 3)]"

definition trigger_mux_rcv_src_exp :: "('w, msg_args) disp_op" where [trigger_mux_defs]: "trigger_mux_rcv_src_exp = chan_exp ''trigger_mux_rcv_src'' 0"
definition trigger_mux_rcv_in_sel_exp :: "('w, msg_args) disp_op" where [trigger_mux_defs]: "trigger_mux_rcv_in_sel_exp = chan_exp ''trigger_mux_rcv_in_sel'' 1"
definition trigger_mux_transm_src_exp :: "('w, msg_args) disp_op" where [trigger_mux_defs]: "trigger_mux_transm_src_exp = chan_exp ''trigger_mux_transm_src'' 2"
definition trigger_mux_transm_out_sel_exp :: "('w, msg_args) disp_op" where [trigger_mux_defs]: "trigger_mux_transm_out_sel_exp = chan_exp ''trigger_mux_transm_out_sel'' 3"

definition trigger_mux_exp_ops :: "('w, msg_args) disp_op list" where
  "trigger_mux_exp_ops =
     [trigger_mux_rcv_src_exp, trigger_mux_rcv_in_sel_exp, trigger_mux_transm_src_exp,
      trigger_mux_transm_out_sel_exp]"

text \<open>Life cycle.\<close>

definition trigger_mux_ops :: "'w smio_ops" where "trigger_mux_ops = not_impl_ops"

definition smio_trigger_mux_new :: "bool \<Rightarrow> ('o, unit, 'p) smio \<Rightarrow> 'p \<Rightarrow> (unit option \<times> 'p) option" where
  "smio_trigger_mux_new ok self p = plain_new ok self p"

definition smio_trigger_mux_destroy :: "unit option \<Rightarrow> smio_err \<times> unit option" where
  "smio_trigger_mux_destroy self_p = plain_destroy self_p"

definition trigger_mux_init ::
  "bool \<Rightarrow> (nat \<Rightarrow> bool) \<Rightarrow> bool \<Rightarrow> u32 \<Rightarrow> nat list \<Rightarrow> ('v smio_ops, unit, 'p) smio \<Rightarrow> 'p \<Rightarrow>
     (('v smio_ops, unit, 'p) smio_world, msg_args) dheap \<Rightarrow>
     (smio_err \<times> ('v smio_ops, unit, 'p) smio \<times> 'p \<times> (('v smio_ops, unit, 'p) smio_world, msg_args) dheap) option" where
  "trigger_mux_init ok ze al junk exp_ops self p h =
     mod_init ok ze TRIGGER_MUX_SDB_DEVID TRIGGER_MUX_SDB_NAME trigger_mux_ops exp_ops (trigger_mux_exp_fp junk) (smio_trigger_mux_new al) self p h"

definition trigger_mux_shutdown :: "('v smio_ops, unit, 'p) smio \<Rightarrow> smio_err \<times> ('v smio_ops, unit, 'p) smio" where
  "trigger_mux_shutdown self = mod_shutdown self"

text \<open>The parameters as a store.\<close>

definition trigger_mux_params :: "param_spec list" where
  "trigger_mux_params =
     [chans 8 24 0 (Bit 0) (Some (0, 1)), chans 8 24 0 (Bits 8 8) (Some (0, 255)),
      chans 8 24 0 (Bit 16) (Some (0, 1)), chans 8 24 0 (Bits 24 8) (Some (0, 255))]"

lemma trigger_mux_fp: "trigger_mux_exp_fp junk = map (param_func junk) trigger_mux_params"
  by (simp add: trigger_mux_exp_fp_def trigger_mux_params_def trigger_mux_defs param_func_simps WBGEN2_GEN_MASK_def)

lemma trigger_mux_spec: "list_all spec_ok trigger_mux_params"
  by (simp add: trigger_mux_params_def spec_ok_def)

lemma trigger_mux_apart: "specs_apart trigger_mux_params"
  by (simp add: trigger_mux_params_def spec_apart_def last_reg_def)

lemma trigger_mux_args: "list_all2 param_op trigger_mux_params trigger_mux_exp_ops"
  by (simp add: trigger_mux_params_def trigger_mux_exp_ops_def trigger_mux_defs exp_simps param_op_def u32_args)

lemma trigger_mux_module: "param_module trigger_mux_params trigger_mux_exp_ops"
  using trigger_mux_spec trigger_mux_apart trigger_mux_args by (simp add: param_module_def)

lemma trigger_mux_opcodes: "map (\<lambda>op. (dop_name op, opcode op)) trigger_mux_exp_ops = trigger_mux_codes"
  by (simp add: trigger_mux_exp_ops_def trigger_mux_codes_def trigger_mux_defs exp_simps)

lemma trigger_mux_distinct: "distinct (map opcode trigger_mux_exp_ops)"
  by (simp add: trigger_mux_exp_ops_def trigger_mux_defs exp_simps)

end
