(* ===== verification/Mod_Timing.thy ===== *)
theory Mod_Timing
  imports Param_Store
begin

text \<open>
  The timing modules, src/sm_io/modules/afc_timing and tim_rcv: the event receiver, its trigger outputs,
  one group of registers per output, the clock loops, and the measured frequencies.
  Registers and fields are those of include/hw. The functions have no state of their own: the
  handler is an empty structure. The list \<open>_params\<close> says which fields the functions set and get.
\<close>

section \<open>The module afc_timing\<close>

named_theorems afc_timing_defs

definition AFC_TIMING_SDB_DEVID :: u32 where "AFC_TIMING_SDB_DEVID = 0xbe10be10"
definition AFC_TIMING_SDB_NAME :: string where "AFC_TIMING_SDB_NAME = ''LNLS_AFC_TIMING''"

text \<open>Registers and fields.\<close>

definition TIMING_REG_STAT :: u64 where [afc_timing_defs]: "TIMING_REG_STAT = 0x0"
definition TIMING_STAT_LINK :: u32 where [afc_timing_defs]: "TIMING_STAT_LINK = WBGEN2_GEN_MASK 0 1"
definition TIMING_STAT_RXEN :: u32 where [afc_timing_defs]: "TIMING_STAT_RXEN = WBGEN2_GEN_MASK 1 1"
definition TIMING_STAT_REFCLKLOCK :: u32 where [afc_timing_defs]: "TIMING_STAT_REFCLKLOCK = WBGEN2_GEN_MASK 2 1"
definition TIMING_STAT_EVREN :: u32 where [afc_timing_defs]: "TIMING_STAT_EVREN = WBGEN2_GEN_MASK 3 1"
definition TIMING_REG_ALIVE :: u64 where [afc_timing_defs]: "TIMING_REG_ALIVE = 0x4"
definition TIMING_REG_AMC0 :: u64 where [afc_timing_defs]: "TIMING_REG_AMC0 = 0x38"
definition TIMING_AMC0_EN :: u32 where [afc_timing_defs]: "TIMING_AMC0_EN = WBGEN2_GEN_MASK 0 1"
definition TIMING_AMC_CHAN_OFFSET :: u32 where [afc_timing_defs]: "TIMING_AMC_CHAN_OFFSET = 24"
definition TIMING_AMC_NUM_CHAN :: u32 where [afc_timing_defs]: "TIMING_AMC_NUM_CHAN = 8"
definition TIMING_AMC0_POL :: u32 where [afc_timing_defs]: "TIMING_AMC0_POL = WBGEN2_GEN_MASK 1 1"
definition TIMING_AMC0_LOG :: u32 where [afc_timing_defs]: "TIMING_AMC0_LOG = WBGEN2_GEN_MASK 2 1"
definition TIMING_AMC0_ITL :: u32 where [afc_timing_defs]: "TIMING_AMC0_ITL = WBGEN2_GEN_MASK 3 1"
definition TIMING_AMC0_SRC :: param_field where [afc_timing_defs]: "TIMING_AMC0_SRC = gen_field 4 4"
definition TIMING_AMC0_DIR :: u32 where [afc_timing_defs]: "TIMING_AMC0_DIR = WBGEN2_GEN_MASK 8 1"
definition TIMING_AMC0_COUNT_RST :: u32 where [afc_timing_defs]: "TIMING_AMC0_COUNT_RST = WBGEN2_GEN_MASK 9 1"
definition TIMING_REG_AMC0_PULSES :: u64 where [afc_timing_defs]: "TIMING_REG_AMC0_PULSES = 0x3c"
definition TIMING_REG_AMC0_COUNT :: u64 where [afc_timing_defs]: "TIMING_REG_AMC0_COUNT = 0x40"
definition TIMING_REG_AMC0_EVT :: u64 where [afc_timing_defs]: "TIMING_REG_AMC0_EVT = 0x44"
definition TIMING_REG_AMC0_DLY :: u64 where [afc_timing_defs]: "TIMING_REG_AMC0_DLY = 0x48"
definition TIMING_REG_AMC0_WDT :: u64 where [afc_timing_defs]: "TIMING_REG_AMC0_WDT = 0x4c"
definition TIMING_REG_FMC1CH0 :: u64 where [afc_timing_defs]: "TIMING_REG_FMC1CH0 = 0xf8"
definition TIMING_FMC1CH0_EN :: u32 where [afc_timing_defs]: "TIMING_FMC1CH0_EN = WBGEN2_GEN_MASK 0 1"
definition TIMING_FMC1_CHAN_OFFSET :: u32 where [afc_timing_defs]: "TIMING_FMC1_CHAN_OFFSET = 24"
definition TIMING_FMC1_NUM_CHAN :: u32 where [afc_timing_defs]: "TIMING_FMC1_NUM_CHAN = 5"
definition TIMING_FMC1CH0_POL :: u32 where [afc_timing_defs]: "TIMING_FMC1CH0_POL = WBGEN2_GEN_MASK 1 1"
definition TIMING_FMC1CH0_LOG :: u32 where [afc_timing_defs]: "TIMING_FMC1CH0_LOG = WBGEN2_GEN_MASK 2 1"
definition TIMING_FMC1CH0_ITL :: u32 where [afc_timing_defs]: "TIMING_FMC1CH0_ITL = WBGEN2_GEN_MASK 3 1"
definition TIMING_FMC1CH0_SRC :: param_field where [afc_timing_defs]: "TIMING_FMC1CH0_SRC = gen_field 4 4"
definition TIMING_FMC1CH0_DIR :: u32 where [afc_timing_defs]: "TIMING_FMC1CH0_DIR = WBGEN2_GEN_MASK 8 1"
definition TIMING_FMC1CH0_COUNT_RST :: u32 where [afc_timing_defs]: "TIMING_FMC1CH0_COUNT_RST = WBGEN2_GEN_MASK 9 1"
definition TIMING_REG_FMC1CH0_PULSES :: u64 where [afc_timing_defs]: "TIMING_REG_FMC1CH0_PULSES = 0xfc"
definition TIMING_REG_FMC1CH0_COUNT :: u64 where [afc_timing_defs]: "TIMING_REG_FMC1CH0_COUNT = 0x100"
definition TIMING_REG_FMC1CH0_EVT :: u64 where [afc_timing_defs]: "TIMING_REG_FMC1CH0_EVT = 0x104"
definition TIMING_REG_FMC1CH0_DLY :: u64 where [afc_timing_defs]: "TIMING_REG_FMC1CH0_DLY = 0x108"
definition TIMING_REG_FMC1CH0_WDT :: u64 where [afc_timing_defs]: "TIMING_REG_FMC1CH0_WDT = 0x10c"
definition TIMING_REG_FMC2CH0 :: u64 where [afc_timing_defs]: "TIMING_REG_FMC2CH0 = 0x170"
definition TIMING_FMC2CH0_EN :: u32 where [afc_timing_defs]: "TIMING_FMC2CH0_EN = WBGEN2_GEN_MASK 0 1"
definition TIMING_FMC2_CHAN_OFFSET :: u32 where [afc_timing_defs]: "TIMING_FMC2_CHAN_OFFSET = 24"
definition TIMING_FMC2_NUM_CHAN :: u32 where [afc_timing_defs]: "TIMING_FMC2_NUM_CHAN = 5"
definition TIMING_FMC2CH0_POL :: u32 where [afc_timing_defs]: "TIMING_FMC2CH0_POL = WBGEN2_GEN_MASK 1 1"
definition TIMING_FMC2CH0_LOG :: u32 where [afc_timing_defs]: "TIMING_FMC2CH0_LOG = WBGEN2_GEN_MASK 2 1"
definition TIMING_FMC2CH0_ITL :: u32 where [afc_timing_defs]: "TIMING_FMC2CH0_ITL = WBGEN2_GEN_MASK 3 1"
definition TIMING_FMC2CH0_SRC :: param_field where [afc_timing_defs]: "TIMING_FMC2CH0_SRC = gen_field 4 4"
definition TIMING_FMC2CH0_DIR :: u32 where [afc_timing_defs]: "TIMING_FMC2CH0_DIR = WBGEN2_GEN_MASK 8 1"
definition TIMING_FMC2CH0_COUNT_RST :: u32 where [afc_timing_defs]: "TIMING_FMC2CH0_COUNT_RST = WBGEN2_GEN_MASK 9 1"
definition TIMING_REG_FMC2CH0_PULSES :: u64 where [afc_timing_defs]: "TIMING_REG_FMC2CH0_PULSES = 0x174"
definition TIMING_REG_FMC2CH0_COUNT :: u64 where [afc_timing_defs]: "TIMING_REG_FMC2CH0_COUNT = 0x178"
definition TIMING_REG_FMC2CH0_EVT :: u64 where [afc_timing_defs]: "TIMING_REG_FMC2CH0_EVT = 0x17c"
definition TIMING_REG_FMC2CH0_DLY :: u64 where [afc_timing_defs]: "TIMING_REG_FMC2CH0_DLY = 0x180"
definition TIMING_REG_FMC2CH0_WDT :: u64 where [afc_timing_defs]: "TIMING_REG_FMC2CH0_WDT = 0x184"
definition TIMING_REG_RTM_FREQ :: u64 where [afc_timing_defs]: "TIMING_REG_RTM_FREQ = 0x14"
definition TIMING_RTM_FREQ_KP :: param_field where [afc_timing_defs]: "TIMING_RTM_FREQ_KP = gen_field 0 16"
definition TIMING_RTM_FREQ_KI :: param_field where [afc_timing_defs]: "TIMING_RTM_FREQ_KI = gen_field 16 16"
definition TIMING_REG_RTM_PHASE :: u64 where [afc_timing_defs]: "TIMING_REG_RTM_PHASE = 0x18"
definition TIMING_RTM_PHASE_KP :: param_field where [afc_timing_defs]: "TIMING_RTM_PHASE_KP = gen_field 0 16"
definition TIMING_RTM_PHASE_KI :: param_field where [afc_timing_defs]: "TIMING_RTM_PHASE_KI = gen_field 16 16"
definition TIMING_REG_RTM_MAF :: u64 where [afc_timing_defs]: "TIMING_REG_RTM_MAF = 0x1c"
definition TIMING_RTM_MAF_NAVG :: param_field where [afc_timing_defs]: "TIMING_RTM_MAF_NAVG = gen_field 0 12"
definition TIMING_RTM_MAF_DIV_EXP :: param_field where [afc_timing_defs]: "TIMING_RTM_MAF_DIV_EXP = gen_field 12 5"
definition TIMING_REG_RTM_RFREQ_HI :: u64 where [afc_timing_defs]: "TIMING_REG_RTM_RFREQ_HI = 0x8"
definition TIMING_REG_RTM_RFREQ_LO :: u64 where [afc_timing_defs]: "TIMING_REG_RTM_RFREQ_LO = 0xc"
definition TIMING_REG_RTM :: u64 where [afc_timing_defs]: "TIMING_REG_RTM = 0x10"
definition TIMING_RTM_N1 :: param_field where [afc_timing_defs]: "TIMING_RTM_N1 = gen_field 0 7"
definition TIMING_RTM_HS_DIV :: param_field where [afc_timing_defs]: "TIMING_RTM_HS_DIV = gen_field 7 3"
definition TIMING_REG_AFC_FREQ :: u64 where [afc_timing_defs]: "TIMING_REG_AFC_FREQ = 0x2c"
definition TIMING_AFC_FREQ_KP :: param_field where [afc_timing_defs]: "TIMING_AFC_FREQ_KP = gen_field 0 16"
definition TIMING_AFC_FREQ_KI :: param_field where [afc_timing_defs]: "TIMING_AFC_FREQ_KI = gen_field 16 16"
definition TIMING_REG_AFC_PHASE :: u64 where [afc_timing_defs]: "TIMING_REG_AFC_PHASE = 0x30"
definition TIMING_AFC_PHASE_KP :: param_field where [afc_timing_defs]: "TIMING_AFC_PHASE_KP = gen_field 0 16"
definition TIMING_AFC_PHASE_KI :: param_field where [afc_timing_defs]: "TIMING_AFC_PHASE_KI = gen_field 16 16"
definition TIMING_REG_AFC_MAF :: u64 where [afc_timing_defs]: "TIMING_REG_AFC_MAF = 0x34"
definition TIMING_AFC_MAF_NAVG :: param_field where [afc_timing_defs]: "TIMING_AFC_MAF_NAVG = gen_field 0 12"
definition TIMING_AFC_MAF_DIV_EXP :: param_field where [afc_timing_defs]: "TIMING_AFC_MAF_DIV_EXP = gen_field 12 5"
definition TIMING_REG_AFC_RFREQ_HI :: u64 where [afc_timing_defs]: "TIMING_REG_AFC_RFREQ_HI = 0x20"
definition TIMING_REG_AFC_RFREQ_LO :: u64 where [afc_timing_defs]: "TIMING_REG_AFC_RFREQ_LO = 0x24"
definition TIMING_REG_AFC :: u64 where [afc_timing_defs]: "TIMING_REG_AFC = 0x28"
definition TIMING_AFC_N1 :: param_field where [afc_timing_defs]: "TIMING_AFC_N1 = gen_field 0 7"
definition TIMING_AFC_HS_DIV :: param_field where [afc_timing_defs]: "TIMING_AFC_HS_DIV = gen_field 7 3"

text \<open>Exported functions.\<close>

definition s_afc_timing_set_get_link_status :: "u32 \<Rightarrow> ('o, 'h, 'p) exp_func" where [afc_timing_defs]:
  "s_afc_timing_set_get_link_status junk = SET_GET_PARAM 0 TIMING_REG_STAT (Single_Bit TIMING_STAT_LINK) None None None junk"

definition s_afc_timing_set_get_rxen_status :: "u32 \<Rightarrow> ('o, 'h, 'p) exp_func" where [afc_timing_defs]:
  "s_afc_timing_set_get_rxen_status junk = SET_GET_PARAM 0 TIMING_REG_STAT (Single_Bit TIMING_STAT_RXEN) None None None junk"

definition s_afc_timing_set_get_ref_clk_locked :: "u32 \<Rightarrow> ('o, 'h, 'p) exp_func" where [afc_timing_defs]:
  "s_afc_timing_set_get_ref_clk_locked junk = SET_GET_PARAM 0 TIMING_REG_STAT (Single_Bit TIMING_STAT_REFCLKLOCK) None None None junk"

definition s_afc_timing_set_get_evren :: "u32 \<Rightarrow> ('o, 'h, 'p) exp_func" where [afc_timing_defs]:
  "s_afc_timing_set_get_evren junk = SET_GET_PARAM 0 TIMING_REG_STAT (Single_Bit TIMING_STAT_EVREN) None None None junk"

definition s_afc_timing_set_get_alive :: "u32 \<Rightarrow> ('o, 'h, 'p) exp_func" where [afc_timing_defs]:
  "s_afc_timing_set_get_alive junk = SET_GET_PARAM 0 TIMING_REG_ALIVE whole_reg None None None junk"

definition s_afc_timing_set_get_amc_en :: "u32 \<Rightarrow> ('o, 'h, 'p) exp_func" where [afc_timing_defs]:
  "s_afc_timing_set_get_amc_en junk = SET_GET_PARAM_CHANNEL 0 TIMING_REG_AMC0 (Single_Bit TIMING_AMC0_EN)
     TIMING_AMC_CHAN_OFFSET TIMING_AMC_NUM_CHAN None None None junk"

definition s_afc_timing_set_get_amc_pol :: "u32 \<Rightarrow> ('o, 'h, 'p) exp_func" where [afc_timing_defs]:
  "s_afc_timing_set_get_amc_pol junk = SET_GET_PARAM_CHANNEL 0 TIMING_REG_AMC0 (Single_Bit TIMING_AMC0_POL)
     TIMING_AMC_CHAN_OFFSET TIMING_AMC_NUM_CHAN None None None junk"

definition s_afc_timing_set_get_amc_log :: "u32 \<Rightarrow> ('o, 'h, 'p) exp_func" where [afc_timing_defs]:
  "s_afc_timing_set_get_amc_log junk = SET_GET_PARAM_CHANNEL 0 TIMING_REG_AMC0 (Single_Bit TIMING_AMC0_LOG)
     TIMING_AMC_CHAN_OFFSET TIMING_AMC_NUM_CHAN None None None junk"

definition s_afc_timing_set_get_amc_itl :: "u32 \<Rightarrow> ('o, 'h, 'p) exp_func" where [afc_timing_defs]:
  "s_afc_timing_set_get_amc_itl junk = SET_GET_PARAM_CHANNEL 0 TIMING_REG_AMC0 (Single_Bit TIMING_AMC0_ITL)
     TIMING_AMC_CHAN_OFFSET TIMING_AMC_NUM_CHAN None None None junk"

definition s_afc_timing_set_get_amc_src :: "u32 \<Rightarrow> ('o, 'h, 'p) exp_func" where [afc_timing_defs]:
  "s_afc_timing_set_get_amc_src junk = SET_GET_PARAM_CHANNEL 0 TIMING_REG_AMC0 TIMING_AMC0_SRC
     TIMING_AMC_CHAN_OFFSET TIMING_AMC_NUM_CHAN None None None junk"

definition s_afc_timing_set_get_amc_dir :: "u32 \<Rightarrow> ('o, 'h, 'p) exp_func" where [afc_timing_defs]:
  "s_afc_timing_set_get_amc_dir junk = SET_GET_PARAM_CHANNEL 0 TIMING_REG_AMC0 (Single_Bit TIMING_AMC0_DIR)
     TIMING_AMC_CHAN_OFFSET TIMING_AMC_NUM_CHAN None None None junk"

definition s_afc_timing_set_get_amc_count_rst :: "u32 \<Rightarrow> ('o, 'h, 'p) exp_func" where [afc_timing_defs]:
  "s_afc_timing_set_get_amc_count_rst junk = SET_GET_PARAM_CHANNEL 0 TIMING_REG_AMC0 (Single_Bit TIMING_AMC0_COUNT_RST)
     TIMING_AMC_CHAN_OFFSET TIMING_AMC_NUM_CHAN None None None junk"

definition s_afc_timing_set_get_amc_pulses :: "u32 \<Rightarrow> ('o, 'h, 'p) exp_func" where [afc_timing_defs]:
  "s_afc_timing_set_get_amc_pulses junk = SET_GET_PARAM_CHANNEL 0 TIMING_REG_AMC0_PULSES whole_reg
     TIMING_AMC_CHAN_OFFSET TIMING_AMC_NUM_CHAN None None None junk"

definition s_afc_timing_set_get_amc_count :: "u32 \<Rightarrow> ('o, 'h, 'p) exp_func" where [afc_timing_defs]:
  "s_afc_timing_set_get_amc_count junk = SET_GET_PARAM_CHANNEL 0 TIMING_REG_AMC0_COUNT whole_reg
     TIMING_AMC_CHAN_OFFSET TIMING_AMC_NUM_CHAN None None None junk"

definition s_afc_timing_set_get_amc_evt :: "u32 \<Rightarrow> ('o, 'h, 'p) exp_func" where [afc_timing_defs]:
  "s_afc_timing_set_get_amc_evt junk = SET_GET_PARAM_CHANNEL 0 TIMING_REG_AMC0_EVT whole_reg
     TIMING_AMC_CHAN_OFFSET TIMING_AMC_NUM_CHAN None None None junk"

definition s_afc_timing_set_get_amc_dly :: "u32 \<Rightarrow> ('o, 'h, 'p) exp_func" where [afc_timing_defs]:
  "s_afc_timing_set_get_amc_dly junk = SET_GET_PARAM_CHANNEL 0 TIMING_REG_AMC0_DLY whole_reg
     TIMING_AMC_CHAN_OFFSET TIMING_AMC_NUM_CHAN None None None junk"

definition s_afc_timing_set_get_amc_wdt :: "u32 \<Rightarrow> ('o, 'h, 'p) exp_func" where [afc_timing_defs]:
  "s_afc_timing_set_get_amc_wdt junk = SET_GET_PARAM_CHANNEL 0 TIMING_REG_AMC0_WDT whole_reg
     TIMING_AMC_CHAN_OFFSET TIMING_AMC_NUM_CHAN None None None junk"

definition s_afc_timing_set_get_fmc1_en :: "u32 \<Rightarrow> ('o, 'h, 'p) exp_func" where [afc_timing_defs]:
  "s_afc_timing_set_get_fmc1_en junk = SET_GET_PARAM_CHANNEL 0 TIMING_REG_FMC1CH0 (Single_Bit TIMING_FMC1CH0_EN)
     TIMING_FMC1_CHAN_OFFSET TIMING_FMC1_NUM_CHAN None None None junk"

definition s_afc_timing_set_get_fmc1_pol :: "u32 \<Rightarrow> ('o, 'h, 'p) exp_func" where [afc_timing_defs]:
  "s_afc_timing_set_get_fmc1_pol junk = SET_GET_PARAM_CHANNEL 0 TIMING_REG_FMC1CH0 (Single_Bit TIMING_FMC1CH0_POL)
     TIMING_FMC1_CHAN_OFFSET TIMING_FMC1_NUM_CHAN None None None junk"

definition s_afc_timing_set_get_fmc1_log :: "u32 \<Rightarrow> ('o, 'h, 'p) exp_func" where [afc_timing_defs]:
  "s_afc_timing_set_get_fmc1_log junk = SET_GET_PARAM_CHANNEL 0 TIMING_REG_FMC1CH0 (Single_Bit TIMING_FMC1CH0_LOG)
     TIMING_FMC1_CHAN_OFFSET TIMING_FMC1_NUM_CHAN None None None junk"

definition s_afc_timing_set_get_fmc1_itl :: "u32 \<Rightarrow> ('o, 'h, 'p) exp_func" where [afc_timing_defs]:
  "s_afc_timing_set_get_fmc1_itl junk = SET_GET_PARAM_CHANNEL 0 TIMING_REG_FMC1CH0 (Single_Bit TIMING_FMC1CH0_ITL)
     TIMING_FMC1_CHAN_OFFSET TIMING_FMC1_NUM_CHAN None None None junk"

definition s_afc_timing_set_get_fmc1_src :: "u32 \<Rightarrow> ('o, 'h, 'p) exp_func" where [afc_timing_defs]:
  "s_afc_timing_set_get_fmc1_src junk = SET_GET_PARAM_CHANNEL 0 TIMING_REG_FMC1CH0 TIMING_FMC1CH0_SRC
     TIMING_FMC1_CHAN_OFFSET TIMING_FMC1_NUM_CHAN None None None junk"

definition s_afc_timing_set_get_fmc1_dir :: "u32 \<Rightarrow> ('o, 'h, 'p) exp_func" where [afc_timing_defs]:
  "s_afc_timing_set_get_fmc1_dir junk = SET_GET_PARAM_CHANNEL 0 TIMING_REG_FMC1CH0 (Single_Bit TIMING_FMC1CH0_DIR)
     TIMING_FMC1_CHAN_OFFSET TIMING_FMC1_NUM_CHAN None None None junk"

definition s_afc_timing_set_get_fmc1_count_rst :: "u32 \<Rightarrow> ('o, 'h, 'p) exp_func" where [afc_timing_defs]:
  "s_afc_timing_set_get_fmc1_count_rst junk = SET_GET_PARAM_CHANNEL 0 TIMING_REG_FMC1CH0 (Single_Bit TIMING_FMC1CH0_COUNT_RST)
     TIMING_FMC1_CHAN_OFFSET TIMING_FMC1_NUM_CHAN None None None junk"

definition s_afc_timing_set_get_fmc1_pulses :: "u32 \<Rightarrow> ('o, 'h, 'p) exp_func" where [afc_timing_defs]:
  "s_afc_timing_set_get_fmc1_pulses junk = SET_GET_PARAM_CHANNEL 0 TIMING_REG_FMC1CH0_PULSES whole_reg
     TIMING_FMC1_CHAN_OFFSET TIMING_FMC1_NUM_CHAN None None None junk"

definition s_afc_timing_set_get_fmc1_count :: "u32 \<Rightarrow> ('o, 'h, 'p) exp_func" where [afc_timing_defs]:
  "s_afc_timing_set_get_fmc1_count junk = SET_GET_PARAM_CHANNEL 0 TIMING_REG_FMC1CH0_COUNT whole_reg
     TIMING_FMC1_CHAN_OFFSET TIMING_FMC1_NUM_CHAN None None None junk"

definition s_afc_timing_set_get_fmc1_evt :: "u32 \<Rightarrow> ('o, 'h, 'p) exp_func" where [afc_timing_defs]:
  "s_afc_timing_set_get_fmc1_evt junk = SET_GET_PARAM_CHANNEL 0 TIMING_REG_FMC1CH0_EVT whole_reg
     TIMING_FMC1_CHAN_OFFSET TIMING_FMC1_NUM_CHAN None None None junk"

definition s_afc_timing_set_get_fmc1_dly :: "u32 \<Rightarrow> ('o, 'h, 'p) exp_func" where [afc_timing_defs]:
  "s_afc_timing_set_get_fmc1_dly junk = SET_GET_PARAM_CHANNEL 0 TIMING_REG_FMC1CH0_DLY whole_reg
     TIMING_FMC1_CHAN_OFFSET TIMING_FMC1_NUM_CHAN None None None junk"

definition s_afc_timing_set_get_fmc1_wdt :: "u32 \<Rightarrow> ('o, 'h, 'p) exp_func" where [afc_timing_defs]:
  "s_afc_timing_set_get_fmc1_wdt junk = SET_GET_PARAM_CHANNEL 0 TIMING_REG_FMC1CH0_WDT whole_reg
     TIMING_FMC1_CHAN_OFFSET TIMING_FMC1_NUM_CHAN None None None junk"

definition s_afc_timing_set_get_fmc2_en :: "u32 \<Rightarrow> ('o, 'h, 'p) exp_func" where [afc_timing_defs]:
  "s_afc_timing_set_get_fmc2_en junk = SET_GET_PARAM_CHANNEL 0 TIMING_REG_FMC2CH0 (Single_Bit TIMING_FMC2CH0_EN)
     TIMING_FMC2_CHAN_OFFSET TIMING_FMC2_NUM_CHAN None None None junk"

definition s_afc_timing_set_get_fmc2_pol :: "u32 \<Rightarrow> ('o, 'h, 'p) exp_func" where [afc_timing_defs]:
  "s_afc_timing_set_get_fmc2_pol junk = SET_GET_PARAM_CHANNEL 0 TIMING_REG_FMC2CH0 (Single_Bit TIMING_FMC2CH0_POL)
     TIMING_FMC2_CHAN_OFFSET TIMING_FMC2_NUM_CHAN None None None junk"

definition s_afc_timing_set_get_fmc2_log :: "u32 \<Rightarrow> ('o, 'h, 'p) exp_func" where [afc_timing_defs]:
  "s_afc_timing_set_get_fmc2_log junk = SET_GET_PARAM_CHANNEL 0 TIMING_REG_FMC2CH0 (Single_Bit TIMING_FMC2CH0_LOG)
     TIMING_FMC2_CHAN_OFFSET TIMING_FMC2_NUM_CHAN None None None junk"

definition s_afc_timing_set_get_fmc2_itl :: "u32 \<Rightarrow> ('o, 'h, 'p) exp_func" where [afc_timing_defs]:
  "s_afc_timing_set_get_fmc2_itl junk = SET_GET_PARAM_CHANNEL 0 TIMING_REG_FMC2CH0 (Single_Bit TIMING_FMC2CH0_ITL)
     TIMING_FMC2_CHAN_OFFSET TIMING_FMC2_NUM_CHAN None None None junk"

definition s_afc_timing_set_get_fmc2_src :: "u32 \<Rightarrow> ('o, 'h, 'p) exp_func" where [afc_timing_defs]:
  "s_afc_timing_set_get_fmc2_src junk = SET_GET_PARAM_CHANNEL 0 TIMING_REG_FMC2CH0 TIMING_FMC2CH0_SRC
     TIMING_FMC2_CHAN_OFFSET TIMING_FMC2_NUM_CHAN None None None junk"

definition s_afc_timing_set_get_fmc2_dir :: "u32 \<Rightarrow> ('o, 'h, 'p) exp_func" where [afc_timing_defs]:
  "s_afc_timing_set_get_fmc2_dir junk = SET_GET_PARAM_CHANNEL 0 TIMING_REG_FMC2CH0 (Single_Bit TIMING_FMC2CH0_DIR)
     TIMING_FMC2_CHAN_OFFSET TIMING_FMC2_NUM_CHAN None None None junk"

definition s_afc_timing_set_get_fmc2_count_rst :: "u32 \<Rightarrow> ('o, 'h, 'p) exp_func" where [afc_timing_defs]:
  "s_afc_timing_set_get_fmc2_count_rst junk = SET_GET_PARAM_CHANNEL 0 TIMING_REG_FMC2CH0 (Single_Bit TIMING_FMC2CH0_COUNT_RST)
     TIMING_FMC2_CHAN_OFFSET TIMING_FMC2_NUM_CHAN None None None junk"

definition s_afc_timing_set_get_fmc2_pulses :: "u32 \<Rightarrow> ('o, 'h, 'p) exp_func" where [afc_timing_defs]:
  "s_afc_timing_set_get_fmc2_pulses junk = SET_GET_PARAM_CHANNEL 0 TIMING_REG_FMC2CH0_PULSES whole_reg
     TIMING_FMC2_CHAN_OFFSET TIMING_FMC2_NUM_CHAN None None None junk"

definition s_afc_timing_set_get_fmc2_count :: "u32 \<Rightarrow> ('o, 'h, 'p) exp_func" where [afc_timing_defs]:
  "s_afc_timing_set_get_fmc2_count junk = SET_GET_PARAM_CHANNEL 0 TIMING_REG_FMC2CH0_COUNT whole_reg
     TIMING_FMC2_CHAN_OFFSET TIMING_FMC2_NUM_CHAN None None None junk"

definition s_afc_timing_set_get_fmc2_evt :: "u32 \<Rightarrow> ('o, 'h, 'p) exp_func" where [afc_timing_defs]:
  "s_afc_timing_set_get_fmc2_evt junk = SET_GET_PARAM_CHANNEL 0 TIMING_REG_FMC2CH0_EVT whole_reg
     TIMING_FMC2_CHAN_OFFSET TIMING_FMC2_NUM_CHAN None None None junk"

definition s_afc_timing_set_get_fmc2_dly :: "u32 \<Rightarrow> ('o, 'h, 'p) exp_func" where [afc_timing_defs]:
  "s_afc_timing_set_get_fmc2_dly junk = SET_GET_PARAM_CHANNEL 0 TIMING_REG_FMC2CH0_DLY whole_reg
     TIMING_FMC2_CHAN_OFFSET TIMING_FMC2_NUM_CHAN None None None junk"

definition s_afc_timing_set_get_fmc2_wdt :: "u32 \<Rightarrow> ('o, 'h, 'p) exp_func" where [afc_timing_defs]:
  "s_afc_timing_set_get_fmc2_wdt junk = SET_GET_PARAM_CHANNEL 0 TIMING_REG_FMC2CH0_WDT whole_reg
     TIMING_FMC2_CHAN_OFFSET TIMING_FMC2_NUM_CHAN None None None junk"

definition s_afc_timing_set_get_rtm_freq_kp :: "u32 \<Rightarrow> ('o, 'h, 'p) exp_func" where [afc_timing_defs]:
  "s_afc_timing_set_get_rtm_freq_kp junk = SET_GET_PARAM 0 TIMING_REG_RTM_FREQ TIMING_RTM_FREQ_KP (Some (0, 0xffff)) None None junk"

definition s_afc_timing_set_get_rtm_freq_ki :: "u32 \<Rightarrow> ('o, 'h, 'p) exp_func" where [afc_timing_defs]:
  "s_afc_timing_set_get_rtm_freq_ki junk = SET_GET_PARAM 0 TIMING_REG_RTM_FREQ TIMING_RTM_FREQ_KI (Some (0, 0xffff)) None None junk"

definition s_afc_timing_set_get_rtm_phase_kp :: "u32 \<Rightarrow> ('o, 'h, 'p) exp_func" where [afc_timing_defs]:
  "s_afc_timing_set_get_rtm_phase_kp junk = SET_GET_PARAM 0 TIMING_REG_RTM_PHASE TIMING_RTM_PHASE_KP (Some (0, 0xffff)) None None junk"

definition s_afc_timing_set_get_rtm_phase_ki :: "u32 \<Rightarrow> ('o, 'h, 'p) exp_func" where [afc_timing_defs]:
  "s_afc_timing_set_get_rtm_phase_ki junk = SET_GET_PARAM 0 TIMING_REG_RTM_PHASE TIMING_RTM_PHASE_KI (Some (0, 0xffff)) None None junk"

definition s_afc_timing_set_get_rtm_phase_navg :: "u32 \<Rightarrow> ('o, 'h, 'p) exp_func" where [afc_timing_defs]:
  "s_afc_timing_set_get_rtm_phase_navg junk = SET_GET_PARAM 0 TIMING_REG_RTM_MAF TIMING_RTM_MAF_NAVG (Some (0, 0xfff)) None None junk"

definition s_afc_timing_set_get_rtm_phase_div_exp :: "u32 \<Rightarrow> ('o, 'h, 'p) exp_func" where [afc_timing_defs]:
  "s_afc_timing_set_get_rtm_phase_div_exp junk = SET_GET_PARAM 0 TIMING_REG_RTM_MAF TIMING_RTM_MAF_DIV_EXP (Some (0, 31)) None None junk"

definition s_afc_timing_set_get_rtm_rfreq_hi :: "u32 \<Rightarrow> ('o, 'h, 'p) exp_func" where [afc_timing_defs]:
  "s_afc_timing_set_get_rtm_rfreq_hi junk = SET_GET_PARAM 0 TIMING_REG_RTM_RFREQ_HI whole_reg None None None junk"

definition s_afc_timing_set_get_rtm_rfreq_lo :: "u32 \<Rightarrow> ('o, 'h, 'p) exp_func" where [afc_timing_defs]:
  "s_afc_timing_set_get_rtm_rfreq_lo junk = SET_GET_PARAM 0 TIMING_REG_RTM_RFREQ_LO whole_reg None None None junk"

definition s_afc_timing_set_get_rtm_n1 :: "u32 \<Rightarrow> ('o, 'h, 'p) exp_func" where [afc_timing_defs]:
  "s_afc_timing_set_get_rtm_n1 junk = SET_GET_PARAM 0 TIMING_REG_RTM TIMING_RTM_N1 None None None junk"

definition s_afc_timing_set_get_rtm_hs_div :: "u32 \<Rightarrow> ('o, 'h, 'p) exp_func" where [afc_timing_defs]:
  "s_afc_timing_set_get_rtm_hs_div junk = SET_GET_PARAM 0 TIMING_REG_RTM TIMING_RTM_HS_DIV None None None junk"

definition s_afc_timing_set_get_afc_freq_kp :: "u32 \<Rightarrow> ('o, 'h, 'p) exp_func" where [afc_timing_defs]:
  "s_afc_timing_set_get_afc_freq_kp junk = SET_GET_PARAM 0 TIMING_REG_AFC_FREQ TIMING_AFC_FREQ_KP (Some (0, 0xffff)) None None junk"

definition s_afc_timing_set_get_afc_freq_ki :: "u32 \<Rightarrow> ('o, 'h, 'p) exp_func" where [afc_timing_defs]:
  "s_afc_timing_set_get_afc_freq_ki junk = SET_GET_PARAM 0 TIMING_REG_AFC_FREQ TIMING_AFC_FREQ_KI (Some (0, 0xffff)) None None junk"

definition s_afc_timing_set_get_afc_phase_kp :: "u32 \<Rightarrow> ('o, 'h, 'p) exp_func" where [afc_timing_defs]:
  "s_afc_timing_set_get_afc_phase_kp junk = SET_GET_PARAM 0 TIMING_REG_AFC_PHASE TIMING_AFC_PHASE_KP (Some (0, 0xffff)) None None junk"

definition s_afc_timing_set_get_afc_phase_ki :: "u32 \<Rightarrow> ('o, 'h, 'p) exp_func" where [afc_timing_defs]:
  "s_afc_timing_set_get_afc_phase_ki junk = SET_GET_PARAM 0 TIMING_REG_AFC_PHASE TIMING_AFC_PHASE_KI (Some (0, 0xffff)) None None junk"

definition s_afc_timing_set_get_afc_phase_navg :: "u32 \<Rightarrow> ('o, 'h, 'p) exp_func" where [afc_timing_defs]:
  "s_afc_timing_set_get_afc_phase_navg junk = SET_GET_PARAM 0 TIMING_REG_AFC_MAF TIMING_AFC_MAF_NAVG (Some (0, 0xfff)) None None junk"

definition s_afc_timing_set_get_afc_phase_div_exp :: "u32 \<Rightarrow> ('o, 'h, 'p) exp_func" where [afc_timing_defs]:
  "s_afc_timing_set_get_afc_phase_div_exp junk = SET_GET_PARAM 0 TIMING_REG_AFC_MAF TIMING_AFC_MAF_DIV_EXP (Some (0, 31)) None None junk"

definition s_afc_timing_set_get_afc_rfreq_hi :: "u32 \<Rightarrow> ('o, 'h, 'p) exp_func" where [afc_timing_defs]:
  "s_afc_timing_set_get_afc_rfreq_hi junk = SET_GET_PARAM 0 TIMING_REG_AFC_RFREQ_HI whole_reg None None None junk"

definition s_afc_timing_set_get_afc_rfreq_lo :: "u32 \<Rightarrow> ('o, 'h, 'p) exp_func" where [afc_timing_defs]:
  "s_afc_timing_set_get_afc_rfreq_lo junk = SET_GET_PARAM 0 TIMING_REG_AFC_RFREQ_LO whole_reg None None None junk"

definition s_afc_timing_set_get_afc_n1 :: "u32 \<Rightarrow> ('o, 'h, 'p) exp_func" where [afc_timing_defs]:
  "s_afc_timing_set_get_afc_n1 junk = SET_GET_PARAM 0 TIMING_REG_AFC TIMING_AFC_N1 None None None junk"

definition s_afc_timing_set_get_afc_hs_div :: "u32 \<Rightarrow> ('o, 'h, 'p) exp_func" where [afc_timing_defs]:
  "s_afc_timing_set_get_afc_hs_div junk = SET_GET_PARAM 0 TIMING_REG_AFC TIMING_AFC_HS_DIV None None None junk"

definition afc_timing_exp_fp :: "u32 \<Rightarrow> ('o, 'h, 'p) exp_func list" where
  "afc_timing_exp_fp junk =
     [s_afc_timing_set_get_link_status junk, s_afc_timing_set_get_rxen_status junk,
      s_afc_timing_set_get_ref_clk_locked junk, s_afc_timing_set_get_evren junk,
      s_afc_timing_set_get_alive junk, s_afc_timing_set_get_amc_en junk, s_afc_timing_set_get_amc_pol junk,
      s_afc_timing_set_get_amc_log junk, s_afc_timing_set_get_amc_itl junk, s_afc_timing_set_get_amc_src junk,
      s_afc_timing_set_get_amc_dir junk, s_afc_timing_set_get_amc_count_rst junk,
      s_afc_timing_set_get_amc_pulses junk, s_afc_timing_set_get_amc_count junk,
      s_afc_timing_set_get_amc_evt junk, s_afc_timing_set_get_amc_dly junk, s_afc_timing_set_get_amc_wdt junk,
      s_afc_timing_set_get_fmc1_en junk, s_afc_timing_set_get_fmc1_pol junk,
      s_afc_timing_set_get_fmc1_log junk, s_afc_timing_set_get_fmc1_itl junk,
      s_afc_timing_set_get_fmc1_src junk, s_afc_timing_set_get_fmc1_dir junk,
      s_afc_timing_set_get_fmc1_count_rst junk, s_afc_timing_set_get_fmc1_pulses junk,
      s_afc_timing_set_get_fmc1_count junk, s_afc_timing_set_get_fmc1_evt junk,
      s_afc_timing_set_get_fmc1_dly junk, s_afc_timing_set_get_fmc1_wdt junk,
      s_afc_timing_set_get_fmc2_en junk, s_afc_timing_set_get_fmc2_pol junk,
      s_afc_timing_set_get_fmc2_log junk, s_afc_timing_set_get_fmc2_itl junk,
      s_afc_timing_set_get_fmc2_src junk, s_afc_timing_set_get_fmc2_dir junk,
      s_afc_timing_set_get_fmc2_count_rst junk, s_afc_timing_set_get_fmc2_pulses junk,
      s_afc_timing_set_get_fmc2_count junk, s_afc_timing_set_get_fmc2_evt junk,
      s_afc_timing_set_get_fmc2_dly junk, s_afc_timing_set_get_fmc2_wdt junk,
      s_afc_timing_set_get_rtm_freq_kp junk, s_afc_timing_set_get_rtm_freq_ki junk,
      s_afc_timing_set_get_rtm_phase_kp junk, s_afc_timing_set_get_rtm_phase_ki junk,
      s_afc_timing_set_get_rtm_phase_navg junk, s_afc_timing_set_get_rtm_phase_div_exp junk,
      s_afc_timing_set_get_rtm_rfreq_hi junk, s_afc_timing_set_get_rtm_rfreq_lo junk,
      s_afc_timing_set_get_rtm_n1 junk, s_afc_timing_set_get_rtm_hs_div junk,
      s_afc_timing_set_get_afc_freq_kp junk, s_afc_timing_set_get_afc_freq_ki junk,
      s_afc_timing_set_get_afc_phase_kp junk, s_afc_timing_set_get_afc_phase_ki junk,
      s_afc_timing_set_get_afc_phase_navg junk, s_afc_timing_set_get_afc_phase_div_exp junk,
      s_afc_timing_set_get_afc_rfreq_hi junk, s_afc_timing_set_get_afc_rfreq_lo junk,
      s_afc_timing_set_get_afc_n1 junk, s_afc_timing_set_get_afc_hs_div junk]"

text \<open>Opcodes and descriptors.\<close>

definition afc_timing_codes :: "(string \<times> u32) list" where
  "afc_timing_codes =
     [(''afc_timing_set_get_link_status'', 0), (''afc_timing_set_get_rxen_status'', 1),
      (''afc_timing_set_get_ref_clk_locked'', 2), (''afc_timing_set_get_evren'', 3),
      (''afc_timing_set_get_alive'', 4), (''afc_timing_set_get_amc_en'', 5),
      (''afc_timing_set_get_amc_pol'', 6), (''afc_timing_set_get_amc_log'', 7),
      (''afc_timing_set_get_amc_itl'', 8), (''afc_timing_set_get_amc_src'', 9),
      (''afc_timing_set_get_amc_dir'', 10), (''afc_timing_set_get_amc_pulses'', 11),
      (''afc_timing_set_get_amc_evt'', 12), (''afc_timing_set_get_amc_dly'', 13),
      (''afc_timing_set_get_amc_wdt'', 14), (''afc_timing_set_get_fmc1_en'', 15),
      (''afc_timing_set_get_fmc1_pol'', 16), (''afc_timing_set_get_fmc1_log'', 17),
      (''afc_timing_set_get_fmc1_itl'', 18), (''afc_timing_set_get_fmc1_src'', 19),
      (''afc_timing_set_get_fmc1_dir'', 20), (''afc_timing_set_get_fmc1_pulses'', 21),
      (''afc_timing_set_get_fmc1_evt'', 22), (''afc_timing_set_get_fmc1_dly'', 23),
      (''afc_timing_set_get_fmc1_wdt'', 24), (''afc_timing_set_get_fmc2_en'', 25),
      (''afc_timing_set_get_fmc2_pol'', 26), (''afc_timing_set_get_fmc2_log'', 27),
      (''afc_timing_set_get_fmc2_itl'', 28), (''afc_timing_set_get_fmc2_src'', 29),
      (''afc_timing_set_get_fmc2_dir'', 30), (''afc_timing_set_get_fmc2_pulses'', 31),
      (''afc_timing_set_get_fmc2_evt'', 32), (''afc_timing_set_get_fmc2_dly'', 33),
      (''afc_timing_set_get_fmc2_wdt'', 34), (''afc_timing_set_get_rtm_freq_kp'', 35),
      (''afc_timing_set_get_rtm_freq_ki'', 36), (''afc_timing_set_get_rtm_phase_kp'', 37),
      (''afc_timing_set_get_rtm_phase_ki'', 38), (''afc_timing_set_get_rtm_phase_navg'', 40),
      (''afc_timing_set_get_rtm_phase_div_exp'', 41), (''afc_timing_set_get_rtm_rfreq_hi'', 42),
      (''afc_timing_set_get_rtm_rfreq_lo'', 43), (''afc_timing_set_get_rtm_n1'', 44),
      (''afc_timing_set_get_rtm_hs_div'', 45), (''afc_timing_set_get_afc_freq_kp'', 46),
      (''afc_timing_set_get_afc_freq_ki'', 47), (''afc_timing_set_get_afc_phase_kp'', 48),
      (''afc_timing_set_get_afc_phase_ki'', 49), (''afc_timing_set_get_afc_phase_navg'', 51),
      (''afc_timing_set_get_afc_phase_div_exp'', 52), (''afc_timing_set_get_afc_rfreq_hi'', 53),
      (''afc_timing_set_get_afc_rfreq_lo'', 54), (''afc_timing_set_get_afc_n1'', 55),
      (''afc_timing_set_get_afc_hs_div'', 56), (''afc_timing_set_get_amc_count_rst'', 58),
      (''afc_timing_set_get_amc_count'', 59), (''afc_timing_set_get_fmc1_count_rst'', 60),
      (''afc_timing_set_get_fmc1_count'', 61), (''afc_timing_set_get_fmc2_count_rst'', 62),
      (''afc_timing_set_get_fmc2_count'', 63)]"

definition afc_timing_set_get_link_status_exp :: "('w, msg_args) disp_op" where [afc_timing_defs]: "afc_timing_set_get_link_status_exp = param_exp ''afc_timing_set_get_link_status'' 0"
definition afc_timing_set_get_rxen_status_exp :: "('w, msg_args) disp_op" where [afc_timing_defs]: "afc_timing_set_get_rxen_status_exp = param_exp ''afc_timing_set_get_rxen_status'' 1"
definition afc_timing_set_get_ref_clk_locked_exp :: "('w, msg_args) disp_op" where [afc_timing_defs]: "afc_timing_set_get_ref_clk_locked_exp = param_exp ''afc_timing_set_get_ref_clk_locked'' 2"
definition afc_timing_set_get_evren_exp :: "('w, msg_args) disp_op" where [afc_timing_defs]: "afc_timing_set_get_evren_exp = param_exp ''afc_timing_set_get_evren'' 3"
definition afc_timing_set_get_alive_exp :: "('w, msg_args) disp_op" where [afc_timing_defs]: "afc_timing_set_get_alive_exp = param_exp ''afc_timing_set_get_alive'' 4"
definition afc_timing_set_get_amc_en_exp :: "('w, msg_args) disp_op" where [afc_timing_defs]: "afc_timing_set_get_amc_en_exp = chan_exp ''afc_timing_set_get_amc_en'' 5"
definition afc_timing_set_get_amc_pol_exp :: "('w, msg_args) disp_op" where [afc_timing_defs]: "afc_timing_set_get_amc_pol_exp = chan_exp ''afc_timing_set_get_amc_pol'' 6"
definition afc_timing_set_get_amc_log_exp :: "('w, msg_args) disp_op" where [afc_timing_defs]: "afc_timing_set_get_amc_log_exp = chan_exp ''afc_timing_set_get_amc_log'' 7"
definition afc_timing_set_get_amc_itl_exp :: "('w, msg_args) disp_op" where [afc_timing_defs]: "afc_timing_set_get_amc_itl_exp = chan_exp ''afc_timing_set_get_amc_itl'' 8"
definition afc_timing_set_get_amc_src_exp :: "('w, msg_args) disp_op" where [afc_timing_defs]: "afc_timing_set_get_amc_src_exp = chan_exp ''afc_timing_set_get_amc_src'' 9"
definition afc_timing_set_get_amc_dir_exp :: "('w, msg_args) disp_op" where [afc_timing_defs]: "afc_timing_set_get_amc_dir_exp = chan_exp ''afc_timing_set_get_amc_dir'' 10"
definition afc_timing_set_get_amc_count_rst_exp :: "('w, msg_args) disp_op" where [afc_timing_defs]: "afc_timing_set_get_amc_count_rst_exp = chan_exp ''afc_timing_set_get_amc_count_rst'' 58"
definition afc_timing_set_get_amc_pulses_exp :: "('w, msg_args) disp_op" where [afc_timing_defs]: "afc_timing_set_get_amc_pulses_exp = chan_exp ''afc_timing_set_get_amc_pulses'' 11"
definition afc_timing_set_get_amc_count_exp :: "('w, msg_args) disp_op" where [afc_timing_defs]: "afc_timing_set_get_amc_count_exp = chan_exp ''afc_timing_set_get_amc_count'' 59"
definition afc_timing_set_get_amc_evt_exp :: "('w, msg_args) disp_op" where [afc_timing_defs]: "afc_timing_set_get_amc_evt_exp = chan_exp ''afc_timing_set_get_amc_evt'' 12"
definition afc_timing_set_get_amc_dly_exp :: "('w, msg_args) disp_op" where [afc_timing_defs]: "afc_timing_set_get_amc_dly_exp = chan_exp ''afc_timing_set_get_amc_dly'' 13"
definition afc_timing_set_get_amc_wdt_exp :: "('w, msg_args) disp_op" where [afc_timing_defs]: "afc_timing_set_get_amc_wdt_exp = chan_exp ''afc_timing_set_get_amc_wdt'' 14"
definition afc_timing_set_get_fmc1_en_exp :: "('w, msg_args) disp_op" where [afc_timing_defs]: "afc_timing_set_get_fmc1_en_exp = chan_exp ''afc_timing_set_get_fmc1_en'' 15"
definition afc_timing_set_get_fmc1_pol_exp :: "('w, msg_args) disp_op" where [afc_timing_defs]: "afc_timing_set_get_fmc1_pol_exp = chan_exp ''afc_timing_set_get_fmc1_pol'' 16"
definition afc_timing_set_get_fmc1_log_exp :: "('w, msg_args) disp_op" where [afc_timing_defs]: "afc_timing_set_get_fmc1_log_exp = chan_exp ''afc_timing_set_get_fmc1_log'' 17"
definition afc_timing_set_get_fmc1_itl_exp :: "('w, msg_args) disp_op" where [afc_timing_defs]: "afc_timing_set_get_fmc1_itl_exp = chan_exp ''afc_timing_set_get_fmc1_itl'' 18"
definition afc_timing_set_get_fmc1_src_exp :: "('w, msg_args) disp_op" where [afc_timing_defs]: "afc_timing_set_get_fmc1_src_exp = chan_exp ''afc_timing_set_get_fmc1_src'' 19"
definition afc_timing_set_get_fmc1_dir_exp :: "('w, msg_args) disp_op" where [afc_timing_defs]: "afc_timing_set_get_fmc1_dir_exp = chan_exp ''afc_timing_set_get_fmc1_dir'' 20"
definition afc_timing_set_get_fmc1_count_rst_exp :: "('w, msg_args) disp_op" where [afc_timing_defs]: "afc_timing_set_get_fmc1_count_rst_exp = chan_exp ''afc_timing_set_get_fmc1_count_rst'' 60"
definition afc_timing_set_get_fmc1_pulses_exp :: "('w, msg_args) disp_op" where [afc_timing_defs]: "afc_timing_set_get_fmc1_pulses_exp = chan_exp ''afc_timing_set_get_fmc1_pulses'' 21"
definition afc_timing_set_get_fmc1_count_exp :: "('w, msg_args) disp_op" where [afc_timing_defs]: "afc_timing_set_get_fmc1_count_exp = chan_exp ''afc_timing_set_get_fmc1_count'' 61"
definition afc_timing_set_get_fmc1_evt_exp :: "('w, msg_args) disp_op" where [afc_timing_defs]: "afc_timing_set_get_fmc1_evt_exp = chan_exp ''afc_timing_set_get_fmc1_evt'' 22"
definition afc_timing_set_get_fmc1_dly_exp :: "('w, msg_args) disp_op" where [afc_timing_defs]: "afc_timing_set_get_fmc1_dly_exp = chan_exp ''afc_timing_set_get_fmc1_dly'' 23"
definition afc_timing_set_get_fmc1_wdt_exp :: "('w, msg_args) disp_op" where [afc_timing_defs]: "afc_timing_set_get_fmc1_wdt_exp = chan_exp ''afc_timing_set_get_fmc1_wdt'' 24"
definition afc_timing_set_get_fmc2_en_exp :: "('w, msg_args) disp_op" where [afc_timing_defs]: "afc_timing_set_get_fmc2_en_exp = chan_exp ''afc_timing_set_get_fmc2_en'' 25"
definition afc_timing_set_get_fmc2_pol_exp :: "('w, msg_args) disp_op" where [afc_timing_defs]: "afc_timing_set_get_fmc2_pol_exp = chan_exp ''afc_timing_set_get_fmc2_pol'' 26"
definition afc_timing_set_get_fmc2_log_exp :: "('w, msg_args) disp_op" where [afc_timing_defs]: "afc_timing_set_get_fmc2_log_exp = chan_exp ''afc_timing_set_get_fmc2_log'' 27"
definition afc_timing_set_get_fmc2_itl_exp :: "('w, msg_args) disp_op" where [afc_timing_defs]: "afc_timing_set_get_fmc2_itl_exp = chan_exp ''afc_timing_set_get_fmc2_itl'' 28"
definition afc_timing_set_get_fmc2_src_exp :: "('w, msg_args) disp_op" where [afc_timing_defs]: "afc_timing_set_get_fmc2_src_exp = chan_exp ''afc_timing_set_get_fmc2_src'' 29"
definition afc_timing_set_get_fmc2_dir_exp :: "('w, msg_args) disp_op" where [afc_timing_defs]: "afc_timing_set_get_fmc2_dir_exp = chan_exp ''afc_timing_set_get_fmc2_dir'' 30"
definition afc_timing_set_get_fmc2_count_rst_exp :: "('w, msg_args) disp_op" where [afc_timing_defs]: "afc_timing_set_get_fmc2_count_rst_exp = chan_exp ''afc_timing_set_get_fmc2_count_rst'' 62"
definition afc_timing_set_get_fmc2_pulses_exp :: "('w, msg_args) disp_op" where [afc_timing_defs]: "afc_timing_set_get_fmc2_pulses_exp = chan_exp ''afc_timing_set_get_fmc2_pulses'' 31"
definition afc_timing_set_get_fmc2_count_exp :: "('w, msg_args) disp_op" where [afc_timing_defs]: "afc_timing_set_get_fmc2_count_exp = chan_exp ''afc_timing_set_get_fmc2_count'' 63"
definition afc_timing_set_get_fmc2_evt_exp :: "('w, msg_args) disp_op" where [afc_timing_defs]: "afc_timing_set_get_fmc2_evt_exp = chan_exp ''afc_timing_set_get_fmc2_evt'' 32"
definition afc_timing_set_get_fmc2_dly_exp :: "('w, msg_args) disp_op" where [afc_timing_defs]: "afc_timing_set_get_fmc2_dly_exp = chan_exp ''afc_timing_set_get_fmc2_dly'' 33"
definition afc_timing_set_get_fmc2_wdt_exp :: "('w, msg_args) disp_op" where [afc_timing_defs]: "afc_timing_set_get_fmc2_wdt_exp = chan_exp ''afc_timing_set_get_fmc2_wdt'' 34"
definition afc_timing_set_get_rtm_freq_kp_exp :: "('w, msg_args) disp_op" where [afc_timing_defs]: "afc_timing_set_get_rtm_freq_kp_exp = param_exp ''afc_timing_set_get_rtm_freq_kp'' 35"
definition afc_timing_set_get_rtm_freq_ki_exp :: "('w, msg_args) disp_op" where [afc_timing_defs]: "afc_timing_set_get_rtm_freq_ki_exp = param_exp ''afc_timing_set_get_rtm_freq_ki'' 36"
definition afc_timing_set_get_rtm_phase_kp_exp :: "('w, msg_args) disp_op" where [afc_timing_defs]: "afc_timing_set_get_rtm_phase_kp_exp = param_exp ''afc_timing_set_get_rtm_phase_kp'' 37"
definition afc_timing_set_get_rtm_phase_ki_exp :: "('w, msg_args) disp_op" where [afc_timing_defs]: "afc_timing_set_get_rtm_phase_ki_exp = param_exp ''afc_timing_set_get_rtm_phase_ki'' 38"
definition afc_timing_set_get_rtm_phase_navg_exp :: "('w, msg_args) disp_op" where [afc_timing_defs]: "afc_timing_set_get_rtm_phase_navg_exp = param_exp ''afc_timing_set_get_rtm_phase_navg'' 40"
definition afc_timing_set_get_rtm_phase_div_exp_exp :: "('w, msg_args) disp_op" where [afc_timing_defs]: "afc_timing_set_get_rtm_phase_div_exp_exp = param_exp ''afc_timing_set_get_rtm_phase_div_exp'' 41"
definition afc_timing_set_get_rtm_rfreq_hi_exp :: "('w, msg_args) disp_op" where [afc_timing_defs]: "afc_timing_set_get_rtm_rfreq_hi_exp = param_exp ''afc_timing_set_get_rtm_rfreq_hi'' 42"
definition afc_timing_set_get_rtm_rfreq_lo_exp :: "('w, msg_args) disp_op" where [afc_timing_defs]: "afc_timing_set_get_rtm_rfreq_lo_exp = param_exp ''afc_timing_set_get_rtm_rfreq_lo'' 43"
definition afc_timing_set_get_rtm_n1_exp :: "('w, msg_args) disp_op" where [afc_timing_defs]: "afc_timing_set_get_rtm_n1_exp = param_exp ''afc_timing_set_get_rtm_n1'' 44"
definition afc_timing_set_get_rtm_hs_div_exp :: "('w, msg_args) disp_op" where [afc_timing_defs]: "afc_timing_set_get_rtm_hs_div_exp = param_exp ''afc_timing_set_get_rtm_hs_div'' 45"
definition afc_timing_set_get_afc_freq_kp_exp :: "('w, msg_args) disp_op" where [afc_timing_defs]: "afc_timing_set_get_afc_freq_kp_exp = param_exp ''afc_timing_set_get_afc_freq_kp'' 46"
definition afc_timing_set_get_afc_freq_ki_exp :: "('w, msg_args) disp_op" where [afc_timing_defs]: "afc_timing_set_get_afc_freq_ki_exp = param_exp ''afc_timing_set_get_afc_freq_ki'' 47"
definition afc_timing_set_get_afc_phase_kp_exp :: "('w, msg_args) disp_op" where [afc_timing_defs]: "afc_timing_set_get_afc_phase_kp_exp = param_exp ''afc_timing_set_get_afc_phase_kp'' 48"
definition afc_timing_set_get_afc_phase_ki_exp :: "('w, msg_args) disp_op" where [afc_timing_defs]: "afc_timing_set_get_afc_phase_ki_exp = param_exp ''afc_timing_set_get_afc_phase_ki'' 49"
definition afc_timing_set_get_afc_phase_navg_exp :: "('w, msg_args) disp_op" where [afc_timing_defs]: "afc_timing_set_get_afc_phase_navg_exp = param_exp ''afc_timing_set_get_afc_phase_navg'' 51"
definition afc_timing_set_get_afc_phase_div_exp_exp :: "('w, msg_args) disp_op" where [afc_timing_defs]: "afc_timing_set_get_afc_phase_div_exp_exp = param_exp ''afc_timing_set_get_afc_phase_div_exp'' 52"
definition afc_timing_set_get_afc_rfreq_hi_exp :: "('w, msg_args) disp_op" where [afc_timing_defs]: "afc_timing_set_get_afc_rfreq_hi_exp = param_exp ''afc_timing_set_get_afc_rfreq_hi'' 53"
definition afc_timing_set_get_afc_rfreq_lo_exp :: "('w, msg_args) disp_op" where [afc_timing_defs]: "afc_timing_set_get_afc_rfreq_lo_exp = param_exp ''afc_timing_set_get_afc_rfreq_lo'' 54"
definition afc_timing_set_get_afc_n1_exp :: "('w, msg_args) disp_op" where [afc_timing_defs]: "afc_timing_set_get_afc_n1_exp = param_exp ''afc_timing_set_get_afc_n1'' 55"
definition afc_timing_set_get_afc_hs_div_exp :: "('w, msg_args) disp_op" where [afc_timing_defs]: "afc_timing_set_get_afc_hs_div_exp = param_exp ''afc_timing_set_get_afc_hs_div'' 56"

definition afc_timing_exp_ops :: "('w, msg_args) disp_op list" where
  "afc_timing_exp_ops =
     [afc_timing_set_get_link_status_exp, afc_timing_set_get_rxen_status_exp,
      afc_timing_set_get_ref_clk_locked_exp, afc_timing_set_get_evren_exp, afc_timing_set_get_alive_exp,
      afc_timing_set_get_amc_en_exp, afc_timing_set_get_amc_pol_exp, afc_timing_set_get_amc_log_exp,
      afc_timing_set_get_amc_itl_exp, afc_timing_set_get_amc_src_exp, afc_timing_set_get_amc_dir_exp,
      afc_timing_set_get_amc_count_rst_exp, afc_timing_set_get_amc_pulses_exp,
      afc_timing_set_get_amc_count_exp, afc_timing_set_get_amc_evt_exp, afc_timing_set_get_amc_dly_exp,
      afc_timing_set_get_amc_wdt_exp, afc_timing_set_get_fmc1_en_exp, afc_timing_set_get_fmc1_pol_exp,
      afc_timing_set_get_fmc1_log_exp, afc_timing_set_get_fmc1_itl_exp, afc_timing_set_get_fmc1_src_exp,
      afc_timing_set_get_fmc1_dir_exp, afc_timing_set_get_fmc1_count_rst_exp,
      afc_timing_set_get_fmc1_pulses_exp, afc_timing_set_get_fmc1_count_exp, afc_timing_set_get_fmc1_evt_exp,
      afc_timing_set_get_fmc1_dly_exp, afc_timing_set_get_fmc1_wdt_exp, afc_timing_set_get_fmc2_en_exp,
      afc_timing_set_get_fmc2_pol_exp, afc_timing_set_get_fmc2_log_exp, afc_timing_set_get_fmc2_itl_exp,
      afc_timing_set_get_fmc2_src_exp, afc_timing_set_get_fmc2_dir_exp, afc_timing_set_get_fmc2_count_rst_exp,
      afc_timing_set_get_fmc2_pulses_exp, afc_timing_set_get_fmc2_count_exp, afc_timing_set_get_fmc2_evt_exp,
      afc_timing_set_get_fmc2_dly_exp, afc_timing_set_get_fmc2_wdt_exp, afc_timing_set_get_rtm_freq_kp_exp,
      afc_timing_set_get_rtm_freq_ki_exp, afc_timing_set_get_rtm_phase_kp_exp,
      afc_timing_set_get_rtm_phase_ki_exp, afc_timing_set_get_rtm_phase_navg_exp,
      afc_timing_set_get_rtm_phase_div_exp_exp, afc_timing_set_get_rtm_rfreq_hi_exp,
      afc_timing_set_get_rtm_rfreq_lo_exp, afc_timing_set_get_rtm_n1_exp, afc_timing_set_get_rtm_hs_div_exp,
      afc_timing_set_get_afc_freq_kp_exp, afc_timing_set_get_afc_freq_ki_exp,
      afc_timing_set_get_afc_phase_kp_exp, afc_timing_set_get_afc_phase_ki_exp,
      afc_timing_set_get_afc_phase_navg_exp, afc_timing_set_get_afc_phase_div_exp_exp,
      afc_timing_set_get_afc_rfreq_hi_exp, afc_timing_set_get_afc_rfreq_lo_exp, afc_timing_set_get_afc_n1_exp,
      afc_timing_set_get_afc_hs_div_exp]"

text \<open>Life cycle.\<close>

definition afc_timing_ops :: "'w smio_ops" where "afc_timing_ops = not_impl_ops"

definition smio_afc_timing_new :: "bool \<Rightarrow> ('o, unit, 'p) smio \<Rightarrow> 'p \<Rightarrow> (unit option \<times> 'p) option" where
  "smio_afc_timing_new ok self p = plain_new ok self p"

definition smio_afc_timing_destroy :: "unit option \<Rightarrow> smio_err \<times> unit option" where
  "smio_afc_timing_destroy self_p = plain_destroy self_p"

definition afc_timing_init ::
  "bool \<Rightarrow> (nat \<Rightarrow> bool) \<Rightarrow> bool \<Rightarrow> u32 \<Rightarrow> nat list \<Rightarrow> ('v smio_ops, unit, 'p) smio \<Rightarrow> 'p \<Rightarrow>
     (('v smio_ops, unit, 'p) smio_world, msg_args) dheap \<Rightarrow>
     (smio_err \<times> ('v smio_ops, unit, 'p) smio \<times> 'p \<times> (('v smio_ops, unit, 'p) smio_world, msg_args) dheap) option" where
  "afc_timing_init ok ze al junk exp_ops self p h =
     mod_init ok ze AFC_TIMING_SDB_DEVID AFC_TIMING_SDB_NAME afc_timing_ops exp_ops (afc_timing_exp_fp junk) (smio_afc_timing_new al) self p h"

definition afc_timing_shutdown :: "('v smio_ops, unit, 'p) smio \<Rightarrow> smio_err \<times> ('v smio_ops, unit, 'p) smio" where
  "afc_timing_shutdown self = mod_shutdown self"

text \<open>The parameters as a store.\<close>

definition afc_timing_params :: "param_spec list" where
  "afc_timing_params =
     [plain 0 (Bit 0) None, plain 0 (Bit 1) None, plain 0 (Bit 2) None, plain 0 (Bit 3) None,
      plain 4 Whole None, chans 24 8 56 (Bit 0) None, chans 24 8 56 (Bit 1) None, chans 24 8 56 (Bit 2) None,
      chans 24 8 56 (Bit 3) None, chans 24 8 56 (Bits 4 4) None, chans 24 8 56 (Bit 8) None,
      chans 24 8 56 (Bit 9) None, chans 24 8 60 Whole None, chans 24 8 64 Whole None, chans 24 8 68 Whole None,
      chans 24 8 72 Whole None, chans 24 8 76 Whole None, chans 24 5 248 (Bit 0) None,
      chans 24 5 248 (Bit 1) None, chans 24 5 248 (Bit 2) None, chans 24 5 248 (Bit 3) None,
      chans 24 5 248 (Bits 4 4) None, chans 24 5 248 (Bit 8) None, chans 24 5 248 (Bit 9) None,
      chans 24 5 252 Whole None, chans 24 5 256 Whole None, chans 24 5 260 Whole None,
      chans 24 5 264 Whole None, chans 24 5 268 Whole None, chans 24 5 368 (Bit 0) None,
      chans 24 5 368 (Bit 1) None, chans 24 5 368 (Bit 2) None, chans 24 5 368 (Bit 3) None,
      chans 24 5 368 (Bits 4 4) None, chans 24 5 368 (Bit 8) None, chans 24 5 368 (Bit 9) None,
      chans 24 5 372 Whole None, chans 24 5 376 Whole None, chans 24 5 380 Whole None,
      chans 24 5 384 Whole None, chans 24 5 388 Whole None, plain 20 (Bits 0 16) (Some (0, 0xffff)),
      plain 20 (Bits 16 16) (Some (0, 0xffff)), plain 24 (Bits 0 16) (Some (0, 0xffff)),
      plain 24 (Bits 16 16) (Some (0, 0xffff)), plain 28 (Bits 0 12) (Some (0, 0xfff)),
      plain 28 (Bits 12 5) (Some (0, 31)), plain 8 Whole None, plain 12 Whole None, plain 16 (Bits 0 7) None,
      plain 16 (Bits 7 3) None, plain 44 (Bits 0 16) (Some (0, 0xffff)),
      plain 44 (Bits 16 16) (Some (0, 0xffff)), plain 48 (Bits 0 16) (Some (0, 0xffff)),
      plain 48 (Bits 16 16) (Some (0, 0xffff)), plain 52 (Bits 0 12) (Some (0, 0xfff)),
      plain 52 (Bits 12 5) (Some (0, 31)), plain 32 Whole None, plain 36 Whole None, plain 40 (Bits 0 7) None,
      plain 40 (Bits 7 3) None]"

lemma afc_timing_fp: "afc_timing_exp_fp junk = map (param_func junk) afc_timing_params"
  by (simp add: afc_timing_exp_fp_def afc_timing_params_def afc_timing_defs param_func_simps WBGEN2_GEN_MASK_def)

lemma afc_timing_spec: "list_all spec_ok afc_timing_params"
  by (simp add: afc_timing_params_def spec_ok_def)

lemma afc_timing_apart: "specs_apart afc_timing_params"
  by (simp add: afc_timing_params_def spec_apart_def last_reg_def)

lemma afc_timing_args: "list_all2 param_op afc_timing_params afc_timing_exp_ops"
  by (simp add: afc_timing_params_def afc_timing_exp_ops_def afc_timing_defs exp_simps param_op_def u32_args)

lemma afc_timing_module: "param_module afc_timing_params afc_timing_exp_ops"
  using afc_timing_spec afc_timing_apart afc_timing_args by (simp add: param_module_def)

lemma afc_timing_opcodes: "map (\<lambda>op. (dop_name op, opcode op)) afc_timing_exp_ops = map (nth afc_timing_codes) [0, 1, 2, 3, 4, 5, 6, 7, 8, 9, 10, 55, 11, 56, 12, 13, 14, 15, 16, 17, 18, 19, 20, 57, 21, 58, 22, 23, 24, 25, 26, 27, 28, 29, 30, 59, 31, 60, 32, 33, 34, 35, 36, 37, 38, 39, 40, 41, 42, 43, 44, 45, 46, 47, 48, 49, 50, 51, 52, 53, 54]"
  by (simp add: afc_timing_exp_ops_def afc_timing_codes_def afc_timing_defs exp_simps)

lemma afc_timing_distinct: "distinct (map opcode afc_timing_exp_ops)"
  by (simp add: afc_timing_exp_ops_def afc_timing_defs exp_simps)

section \<open>The module tim_rcv\<close>

named_theorems tim_rcv_defs

definition TIM_RCV_SDB_DEVID :: u32 where "TIM_RCV_SDB_DEVID = 0x3fc68642"
definition TIM_RCV_SDB_NAME :: string where "TIM_RCV_SDB_NAME = ''TIM_RCV''"

text \<open>Registers and fields.\<close>

definition TIM_RCV_CORE_REG_PHASE_MEAS_NAVG :: u64 where [tim_rcv_defs]: "TIM_RCV_CORE_REG_PHASE_MEAS_NAVG = 0x0"
definition TIM_RCV_CORE_REG_DMTD_A_CTL :: u64 where [tim_rcv_defs]: "TIM_RCV_CORE_REG_DMTD_A_CTL = 0x4"
definition TIM_RCV_CORE_DMTD_A_CTL_DEGLITCHER_THRES :: param_field where [tim_rcv_defs]: "TIM_RCV_CORE_DMTD_A_CTL_DEGLITCHER_THRES = gen_field 0 16"
definition TIM_RCV_CORE_REG_DMTD_B_CTL :: u64 where [tim_rcv_defs]: "TIM_RCV_CORE_REG_DMTD_B_CTL = 0x8"
definition TIM_RCV_CORE_DMTD_B_CTL_DEGLITCHER_THRES :: param_field where [tim_rcv_defs]: "TIM_RCV_CORE_DMTD_B_CTL_DEGLITCHER_THRES = gen_field 0 16"
definition TIM_RCV_CORE_REG_PHASE_MEAS :: u64 where [tim_rcv_defs]: "TIM_RCV_CORE_REG_PHASE_MEAS = 0xc"
definition TIM_RCV_CORE_REG_F_DMTD_A :: u64 where [tim_rcv_defs]: "TIM_RCV_CORE_REG_F_DMTD_A = 0x10"
definition TIM_RCV_CORE_F_DMTD_A_FREQ :: param_field where [tim_rcv_defs]: "TIM_RCV_CORE_F_DMTD_A_FREQ = gen_field 0 28"
definition TIM_RCV_CORE_F_DMTD_A_VALID :: u32 where [tim_rcv_defs]: "TIM_RCV_CORE_F_DMTD_A_VALID = WBGEN2_GEN_MASK 28 1"
definition TIM_RCV_CORE_REG_F_DMTD_B :: u64 where [tim_rcv_defs]: "TIM_RCV_CORE_REG_F_DMTD_B = 0x14"
definition TIM_RCV_CORE_F_DMTD_B_FREQ :: param_field where [tim_rcv_defs]: "TIM_RCV_CORE_F_DMTD_B_FREQ = gen_field 0 28"
definition TIM_RCV_CORE_F_DMTD_B_VALID :: u32 where [tim_rcv_defs]: "TIM_RCV_CORE_F_DMTD_B_VALID = WBGEN2_GEN_MASK 28 1"

text \<open>Exported functions.\<close>

definition s_tim_rcv_set_get_phase_meas_navg :: "u32 \<Rightarrow> ('o, 'h, 'p) exp_func" where [tim_rcv_defs]:
  "s_tim_rcv_set_get_phase_meas_navg junk = SET_GET_PARAM 0 TIM_RCV_CORE_REG_PHASE_MEAS_NAVG whole_reg (Some (0, 0xffffffff)) None None junk"

definition s_tim_rcv_set_get_dmtd_a_deglitcher_thres :: "u32 \<Rightarrow> ('o, 'h, 'p) exp_func" where [tim_rcv_defs]:
  "s_tim_rcv_set_get_dmtd_a_deglitcher_thres junk = SET_GET_PARAM 0 TIM_RCV_CORE_REG_DMTD_A_CTL TIM_RCV_CORE_DMTD_A_CTL_DEGLITCHER_THRES (Some (0, 0xffff)) None None junk"

definition s_tim_rcv_set_get_dmtd_b_deglitcher_thres :: "u32 \<Rightarrow> ('o, 'h, 'p) exp_func" where [tim_rcv_defs]:
  "s_tim_rcv_set_get_dmtd_b_deglitcher_thres junk = SET_GET_PARAM 0 TIM_RCV_CORE_REG_DMTD_B_CTL TIM_RCV_CORE_DMTD_B_CTL_DEGLITCHER_THRES (Some (0, 0xffff)) None None junk"

definition s_tim_rcv_set_get_phase_meas :: "u32 \<Rightarrow> ('o, 'h, 'p) exp_func" where [tim_rcv_defs]:
  "s_tim_rcv_set_get_phase_meas junk = SET_GET_PARAM 0 TIM_RCV_CORE_REG_PHASE_MEAS whole_reg (Some (0, 0xffffffff)) None None junk"

definition s_tim_rcv_set_get_dmtd_a_freq :: "u32 \<Rightarrow> ('o, 'h, 'p) exp_func" where [tim_rcv_defs]:
  "s_tim_rcv_set_get_dmtd_a_freq junk = SET_GET_PARAM 0 TIM_RCV_CORE_REG_F_DMTD_A TIM_RCV_CORE_F_DMTD_A_FREQ (Some (0, 0xfffffff)) None None junk"

definition s_tim_rcv_set_get_dmtd_a_valid :: "u32 \<Rightarrow> ('o, 'h, 'p) exp_func" where [tim_rcv_defs]:
  "s_tim_rcv_set_get_dmtd_a_valid junk = SET_GET_PARAM 0 TIM_RCV_CORE_REG_F_DMTD_A (Single_Bit TIM_RCV_CORE_F_DMTD_A_VALID) (Some (0, 1)) None None junk"

definition s_tim_rcv_set_get_dmtd_b_freq :: "u32 \<Rightarrow> ('o, 'h, 'p) exp_func" where [tim_rcv_defs]:
  "s_tim_rcv_set_get_dmtd_b_freq junk = SET_GET_PARAM 0 TIM_RCV_CORE_REG_F_DMTD_B TIM_RCV_CORE_F_DMTD_B_FREQ (Some (0, 0xfffffff)) None None junk"

definition s_tim_rcv_set_get_dmtd_b_valid :: "u32 \<Rightarrow> ('o, 'h, 'p) exp_func" where [tim_rcv_defs]:
  "s_tim_rcv_set_get_dmtd_b_valid junk = SET_GET_PARAM 0 TIM_RCV_CORE_REG_F_DMTD_B (Single_Bit TIM_RCV_CORE_F_DMTD_B_VALID) (Some (0, 1)) None None junk"

definition tim_rcv_exp_fp :: "u32 \<Rightarrow> ('o, 'h, 'p) exp_func list" where
  "tim_rcv_exp_fp junk =
     [s_tim_rcv_set_get_phase_meas_navg junk, s_tim_rcv_set_get_dmtd_a_deglitcher_thres junk,
      s_tim_rcv_set_get_dmtd_b_deglitcher_thres junk, s_tim_rcv_set_get_phase_meas junk,
      s_tim_rcv_set_get_dmtd_a_freq junk, s_tim_rcv_set_get_dmtd_a_valid junk,
      s_tim_rcv_set_get_dmtd_b_freq junk, s_tim_rcv_set_get_dmtd_b_valid junk]"

text \<open>Opcodes and descriptors.\<close>

definition tim_rcv_codes :: "(string \<times> u32) list" where
  "tim_rcv_codes =
     [(''tim_rcv_phase_meas_navg'', 0), (''tim_rcv_dmtd_a_deglitcher_thres'', 1),
      (''tim_rcv_dmtd_b_deglitcher_thres'', 2), (''tim_rcv_phase_meas'', 3), (''tim_rcv_dmtd_a_freq'', 4),
      (''tim_rcv_dmtd_a_valid'', 5), (''tim_rcv_dmtd_b_freq'', 6), (''tim_rcv_dmtd_b_valid'', 7)]"

definition tim_rcv_phase_meas_navg_exp :: "('w, msg_args) disp_op" where [tim_rcv_defs]: "tim_rcv_phase_meas_navg_exp = param_exp ''tim_rcv_phase_meas_navg'' 0"
definition tim_rcv_dmtd_a_deglitcher_thres_exp :: "('w, msg_args) disp_op" where [tim_rcv_defs]: "tim_rcv_dmtd_a_deglitcher_thres_exp = param_exp ''tim_rcv_dmtd_a_deglitcher_thres'' 1"
definition tim_rcv_dmtd_b_deglitcher_thres_exp :: "('w, msg_args) disp_op" where [tim_rcv_defs]: "tim_rcv_dmtd_b_deglitcher_thres_exp = param_exp ''tim_rcv_dmtd_b_deglitcher_thres'' 2"
definition tim_rcv_phase_meas_exp :: "('w, msg_args) disp_op" where [tim_rcv_defs]: "tim_rcv_phase_meas_exp = param_exp ''tim_rcv_phase_meas'' 3"
definition tim_rcv_dmtd_a_freq_exp :: "('w, msg_args) disp_op" where [tim_rcv_defs]: "tim_rcv_dmtd_a_freq_exp = param_exp ''tim_rcv_dmtd_a_freq'' 4"
definition tim_rcv_dmtd_a_valid_exp :: "('w, msg_args) disp_op" where [tim_rcv_defs]: "tim_rcv_dmtd_a_valid_exp = param_exp ''tim_rcv_dmtd_a_valid'' 5"
definition tim_rcv_dmtd_b_freq_exp :: "('w, msg_args) disp_op" where [tim_rcv_defs]: "tim_rcv_dmtd_b_freq_exp = param_exp ''tim_rcv_dmtd_b_freq'' 6"
definition tim_rcv_dmtd_b_valid_exp :: "('w, msg_args) disp_op" where [tim_rcv_defs]: "tim_rcv_dmtd_b_valid_exp = param_exp ''tim_rcv_dmtd_b_valid'' 7"

definition tim_rcv_exp_ops :: "('w, msg_args) disp_op list" where
  "tim_rcv_exp_ops =
     [tim_rcv_phase_meas_navg_exp, tim_rcv_dmtd_a_deglitcher_thres_exp, tim_rcv_dmtd_b_deglitcher_thres_exp,
      tim_rcv_phase_meas_exp, tim_rcv_dmtd_a_freq_exp, tim_rcv_dmtd_a_valid_exp, tim_rcv_dmtd_b_freq_exp,
      tim_rcv_dmtd_b_valid_exp]"

text \<open>Life cycle.\<close>

definition tim_rcv_ops :: "'w smio_ops" where "tim_rcv_ops = not_impl_ops"

definition smio_tim_rcv_new :: "bool \<Rightarrow> ('o, unit, 'p) smio \<Rightarrow> 'p \<Rightarrow> (unit option \<times> 'p) option" where
  "smio_tim_rcv_new ok self p = plain_new ok self p"

definition smio_tim_rcv_destroy :: "unit option \<Rightarrow> smio_err \<times> unit option" where
  "smio_tim_rcv_destroy self_p = plain_destroy self_p"

definition tim_rcv_init ::
  "bool \<Rightarrow> (nat \<Rightarrow> bool) \<Rightarrow> bool \<Rightarrow> u32 \<Rightarrow> nat list \<Rightarrow> ('v smio_ops, unit, 'p) smio \<Rightarrow> 'p \<Rightarrow>
     (('v smio_ops, unit, 'p) smio_world, msg_args) dheap \<Rightarrow>
     (smio_err \<times> ('v smio_ops, unit, 'p) smio \<times> 'p \<times> (('v smio_ops, unit, 'p) smio_world, msg_args) dheap) option" where
  "tim_rcv_init ok ze al junk exp_ops self p h =
     mod_init ok ze TIM_RCV_SDB_DEVID TIM_RCV_SDB_NAME tim_rcv_ops exp_ops (tim_rcv_exp_fp junk) (smio_tim_rcv_new al) self p h"

definition tim_rcv_shutdown :: "('v smio_ops, unit, 'p) smio \<Rightarrow> smio_err \<times> ('v smio_ops, unit, 'p) smio" where
  "tim_rcv_shutdown self = mod_shutdown self"

text \<open>The parameters as a store.\<close>

definition tim_rcv_params :: "param_spec list" where
  "tim_rcv_params =
     [plain 0 Whole (Some (0, 0xffffffff)), plain 4 (Bits 0 16) (Some (0, 0xffff)),
      plain 8 (Bits 0 16) (Some (0, 0xffff)), plain 12 Whole (Some (0, 0xffffffff)),
      plain 16 (Bits 0 28) (Some (0, 0xfffffff)), plain 16 (Bit 28) (Some (0, 1)),
      plain 20 (Bits 0 28) (Some (0, 0xfffffff)), plain 20 (Bit 28) (Some (0, 1))]"

lemma tim_rcv_fp: "tim_rcv_exp_fp junk = map (param_func junk) tim_rcv_params"
  by (simp add: tim_rcv_exp_fp_def tim_rcv_params_def tim_rcv_defs param_func_simps WBGEN2_GEN_MASK_def)

lemma tim_rcv_spec: "list_all spec_ok tim_rcv_params"
  by (simp add: tim_rcv_params_def spec_ok_def)

lemma tim_rcv_apart: "specs_apart tim_rcv_params"
  by (simp add: tim_rcv_params_def spec_apart_def last_reg_def)

lemma tim_rcv_args: "list_all2 param_op tim_rcv_params tim_rcv_exp_ops"
  by (simp add: tim_rcv_params_def tim_rcv_exp_ops_def tim_rcv_defs exp_simps param_op_def u32_args)

lemma tim_rcv_module: "param_module tim_rcv_params tim_rcv_exp_ops"
  using tim_rcv_spec tim_rcv_apart tim_rcv_args by (simp add: param_module_def)

lemma tim_rcv_opcodes: "map (\<lambda>op. (dop_name op, opcode op)) tim_rcv_exp_ops = tim_rcv_codes"
  by (simp add: tim_rcv_exp_ops_def tim_rcv_codes_def tim_rcv_defs exp_simps)

lemma tim_rcv_distinct: "distinct (map opcode tim_rcv_exp_ops)"
  by (simp add: tim_rcv_exp_ops_def tim_rcv_defs exp_simps)

end
