(* ===== verification/Mod_Fofb.thy ===== *)
theory Mod_Fofb
  imports Param_Store
begin

text \<open>
  The fast orbit feedback controller, src/sm_io/modules/fofb_ctrl.
  Registers and fields are those of include/hw. The functions have no state of their own: the
  handler is an empty structure. The list \<open>_params\<close> says which fields the functions set and get.
\<close>

section \<open>The module fofb_ctrl\<close>

named_theorems fofb_ctrl_defs

definition FOFB_CTRL_SDB_DEVID :: u32 where "FOFB_CTRL_SDB_DEVID = 0x4a1df147"
definition FOFB_CTRL_SDB_NAME :: string where "FOFB_CTRL_SDB_NAME = ''FOFB_CTRL''"

text \<open>Registers and fields.\<close>

definition FOFB_CC_REG_CFG_VAL :: u64 where [fofb_ctrl_defs]: "FOFB_CC_REG_CFG_VAL = 0x0"
definition FOFB_CC_CFG_VAL_ACT_PART :: u32 where [fofb_ctrl_defs]: "FOFB_CC_CFG_VAL_ACT_PART = 0x1"
definition FOFB_CC_CFG_VAL_ERR_CLR :: u32 where [fofb_ctrl_defs]: "FOFB_CC_CFG_VAL_ERR_CLR = 0x4"
definition FOFB_CC_CFG_VAL_CC_ENABLE :: u32 where [fofb_ctrl_defs]: "FOFB_CC_CFG_VAL_CC_ENABLE = 0x8"
definition FOFB_CC_CFG_VAL_TFS_OVERRIDE :: u32 where [fofb_ctrl_defs]: "FOFB_CC_CFG_VAL_TFS_OVERRIDE = 0x10"
definition FOFB_CC_REG_BPM_ID :: u64 where [fofb_ctrl_defs]: "FOFB_CC_REG_BPM_ID = 0x2000"
definition FOFB_CC_REG_TIME_FRAME_LEN :: u64 where [fofb_ctrl_defs]: "FOFB_CC_REG_TIME_FRAME_LEN = 0x2004"
definition FOFB_CC_REG_MGT_POWERDOWN :: u64 where [fofb_ctrl_defs]: "FOFB_CC_REG_MGT_POWERDOWN = 0x2008"
definition FOFB_CC_REG_MGT_LOOPBACK :: u64 where [fofb_ctrl_defs]: "FOFB_CC_REG_MGT_LOOPBACK = 0x200c"
definition FOFB_CC_REG_TIME_FRAME_DLY :: u64 where [fofb_ctrl_defs]: "FOFB_CC_REG_TIME_FRAME_DLY = 0x2010"
definition FOFB_CC_REG_GOLDEN_ORB_X :: u64 where [fofb_ctrl_defs]: "FOFB_CC_REG_GOLDEN_ORB_X = 0x2014"
definition FOFB_CC_REG_GOLDEN_ORB_Y :: u64 where [fofb_ctrl_defs]: "FOFB_CC_REG_GOLDEN_ORB_Y = 0x2018"
definition FOFB_CC_REG_CUST_FEATURE :: u64 where [fofb_ctrl_defs]: "FOFB_CC_REG_CUST_FEATURE = 0x201c"
definition FOFB_CC_REG_RXPOLARITY :: u64 where [fofb_ctrl_defs]: "FOFB_CC_REG_RXPOLARITY = 0x2020"
definition FOFB_CC_REG_PAYLOADSEL :: u64 where [fofb_ctrl_defs]: "FOFB_CC_REG_PAYLOADSEL = 0x2024"
definition FOFB_CC_REG_FOFBDATASEL :: u64 where [fofb_ctrl_defs]: "FOFB_CC_REG_FOFBDATASEL = 0x2028"
definition FOFB_CC_REG_FIRMWARE_VER :: u64 where [fofb_ctrl_defs]: "FOFB_CC_REG_FIRMWARE_VER = 0x2ffc"
definition FOFB_CC_REG_SYS_STATUS :: u64 where [fofb_ctrl_defs]: "FOFB_CC_REG_SYS_STATUS = 0x2c00"
definition FOFB_CC_REG_LINK_PARTNER_1 :: u64 where [fofb_ctrl_defs]: "FOFB_CC_REG_LINK_PARTNER_1 = 0x2c04"
definition FOFB_CC_REG_LINK_PARTNER_2 :: u64 where [fofb_ctrl_defs]: "FOFB_CC_REG_LINK_PARTNER_2 = 0x2c08"
definition FOFB_CC_REG_LINK_PARTNER_3 :: u64 where [fofb_ctrl_defs]: "FOFB_CC_REG_LINK_PARTNER_3 = 0x2c0c"
definition FOFB_CC_REG_LINK_PARTNER_4 :: u64 where [fofb_ctrl_defs]: "FOFB_CC_REG_LINK_PARTNER_4 = 0x2c10"
definition FOFB_CC_REG_LINK_UP :: u64 where [fofb_ctrl_defs]: "FOFB_CC_REG_LINK_UP = 0x2c14"
definition FOFB_CC_REG_TIME_FRAME_COUNT :: u64 where [fofb_ctrl_defs]: "FOFB_CC_REG_TIME_FRAME_COUNT = 0x2c18"
definition FOFB_CC_REG_HARD_ERR_CNT_1 :: u64 where [fofb_ctrl_defs]: "FOFB_CC_REG_HARD_ERR_CNT_1 = 0x2c1c"
definition FOFB_CC_REG_HARD_ERR_CNT_2 :: u64 where [fofb_ctrl_defs]: "FOFB_CC_REG_HARD_ERR_CNT_2 = 0x2c20"
definition FOFB_CC_REG_HARD_ERR_CNT_3 :: u64 where [fofb_ctrl_defs]: "FOFB_CC_REG_HARD_ERR_CNT_3 = 0x2c24"
definition FOFB_CC_REG_HARD_ERR_CNT_4 :: u64 where [fofb_ctrl_defs]: "FOFB_CC_REG_HARD_ERR_CNT_4 = 0x2c28"
definition FOFB_CC_REG_SOFT_ERR_CNT_1 :: u64 where [fofb_ctrl_defs]: "FOFB_CC_REG_SOFT_ERR_CNT_1 = 0x2c2c"
definition FOFB_CC_REG_SOFT_ERR_CNT_2 :: u64 where [fofb_ctrl_defs]: "FOFB_CC_REG_SOFT_ERR_CNT_2 = 0x2c30"
definition FOFB_CC_REG_SOFT_ERR_CNT_3 :: u64 where [fofb_ctrl_defs]: "FOFB_CC_REG_SOFT_ERR_CNT_3 = 0x2c34"
definition FOFB_CC_REG_SOFT_ERR_CNT_4 :: u64 where [fofb_ctrl_defs]: "FOFB_CC_REG_SOFT_ERR_CNT_4 = 0x2c38"
definition FOFB_CC_REG_FRAME_ERR_CNT_1 :: u64 where [fofb_ctrl_defs]: "FOFB_CC_REG_FRAME_ERR_CNT_1 = 0x2c3c"
definition FOFB_CC_REG_FRAME_ERR_CNT_2 :: u64 where [fofb_ctrl_defs]: "FOFB_CC_REG_FRAME_ERR_CNT_2 = 0x2c40"
definition FOFB_CC_REG_FRAME_ERR_CNT_3 :: u64 where [fofb_ctrl_defs]: "FOFB_CC_REG_FRAME_ERR_CNT_3 = 0x2c44"
definition FOFB_CC_REG_FRAME_ERR_CNT_4 :: u64 where [fofb_ctrl_defs]: "FOFB_CC_REG_FRAME_ERR_CNT_4 = 0x2c48"
definition FOFB_CC_REG_RX_PCK_CNT_1 :: u64 where [fofb_ctrl_defs]: "FOFB_CC_REG_RX_PCK_CNT_1 = 0x2c4c"
definition FOFB_CC_REG_RX_PCK_CNT_2 :: u64 where [fofb_ctrl_defs]: "FOFB_CC_REG_RX_PCK_CNT_2 = 0x2c50"
definition FOFB_CC_REG_RX_PCK_CNT_3 :: u64 where [fofb_ctrl_defs]: "FOFB_CC_REG_RX_PCK_CNT_3 = 0x2c54"
definition FOFB_CC_REG_RX_PCK_CNT_4 :: u64 where [fofb_ctrl_defs]: "FOFB_CC_REG_RX_PCK_CNT_4 = 0x2c58"
definition FOFB_CC_REG_TX_PCK_CNT_1 :: u64 where [fofb_ctrl_defs]: "FOFB_CC_REG_TX_PCK_CNT_1 = 0x2c5c"
definition FOFB_CC_REG_TX_PCK_CNT_2 :: u64 where [fofb_ctrl_defs]: "FOFB_CC_REG_TX_PCK_CNT_2 = 0x2c60"
definition FOFB_CC_REG_TX_PCK_CNT_3 :: u64 where [fofb_ctrl_defs]: "FOFB_CC_REG_TX_PCK_CNT_3 = 0x2c64"
definition FOFB_CC_REG_TX_PCK_CNT_4 :: u64 where [fofb_ctrl_defs]: "FOFB_CC_REG_TX_PCK_CNT_4 = 0x2c68"
definition FOFB_CC_REG_FOD_PROCESS_TIME :: u64 where [fofb_ctrl_defs]: "FOFB_CC_REG_FOD_PROCESS_TIME = 0x2c6c"
definition FOFB_CC_REG_BPM_COUNT :: u64 where [fofb_ctrl_defs]: "FOFB_CC_REG_BPM_COUNT = 0x2c70"
definition FOFB_CC_REG_BPM_ID_RDBACK :: u64 where [fofb_ctrl_defs]: "FOFB_CC_REG_BPM_ID_RDBACK = 0x2c74"
definition FOFB_CC_REG_TF_LENGTH_RDBACK :: u64 where [fofb_ctrl_defs]: "FOFB_CC_REG_TF_LENGTH_RDBACK = 0x2c78"
definition FOFB_CC_REG_POWERDOWN_RDBACK :: u64 where [fofb_ctrl_defs]: "FOFB_CC_REG_POWERDOWN_RDBACK = 0x2c7c"
definition FOFB_CC_REG_LOOPBACK_RDBACK :: u64 where [fofb_ctrl_defs]: "FOFB_CC_REG_LOOPBACK_RDBACK = 0x2c80"
definition FOFB_CC_REG_FAIVAL_RDBACK :: u64 where [fofb_ctrl_defs]: "FOFB_CC_REG_FAIVAL_RDBACK = 0x2c84"

text \<open>Exported functions.\<close>

definition s_fofb_ctrl_set_get_act_part :: "u32 \<Rightarrow> ('o, 'h, 'p) exp_func" where [fofb_ctrl_defs]:
  "s_fofb_ctrl_set_get_act_part junk = SET_GET_PARAM 0 FOFB_CC_REG_CFG_VAL (Single_Bit FOFB_CC_CFG_VAL_ACT_PART) (Some (0, 1)) None None junk"

definition s_fofb_ctrl_set_get_err_clr :: "u32 \<Rightarrow> ('o, 'h, 'p) exp_func" where [fofb_ctrl_defs]:
  "s_fofb_ctrl_set_get_err_clr junk = SET_GET_PARAM 0 FOFB_CC_REG_CFG_VAL (Single_Bit FOFB_CC_CFG_VAL_ERR_CLR) (Some (0, 1)) None None junk"

definition s_fofb_ctrl_set_get_cc_enable :: "u32 \<Rightarrow> ('o, 'h, 'p) exp_func" where [fofb_ctrl_defs]:
  "s_fofb_ctrl_set_get_cc_enable junk = SET_GET_PARAM 0 FOFB_CC_REG_CFG_VAL (Single_Bit FOFB_CC_CFG_VAL_CC_ENABLE) (Some (0, 1)) None None junk"

definition s_fofb_ctrl_set_get_tfs_override :: "u32 \<Rightarrow> ('o, 'h, 'p) exp_func" where [fofb_ctrl_defs]:
  "s_fofb_ctrl_set_get_tfs_override junk = SET_GET_PARAM 0 FOFB_CC_REG_CFG_VAL (Single_Bit FOFB_CC_CFG_VAL_TFS_OVERRIDE) (Some (0, 1)) None None junk"

definition s_fofb_ctrl_set_get_bpm_id :: "u32 \<Rightarrow> ('o, 'h, 'p) exp_func" where [fofb_ctrl_defs]:
  "s_fofb_ctrl_set_get_bpm_id junk = SET_GET_PARAM 0 FOFB_CC_REG_BPM_ID whole_reg None None None junk"

definition s_fofb_ctrl_set_get_time_frame_len :: "u32 \<Rightarrow> ('o, 'h, 'p) exp_func" where [fofb_ctrl_defs]:
  "s_fofb_ctrl_set_get_time_frame_len junk = SET_GET_PARAM 0 FOFB_CC_REG_TIME_FRAME_LEN whole_reg None None None junk"

definition s_fofb_ctrl_set_get_mgt_powerdown :: "u32 \<Rightarrow> ('o, 'h, 'p) exp_func" where [fofb_ctrl_defs]:
  "s_fofb_ctrl_set_get_mgt_powerdown junk = SET_GET_PARAM 0 FOFB_CC_REG_MGT_POWERDOWN whole_reg None None None junk"

definition s_fofb_ctrl_set_get_mgt_loopback :: "u32 \<Rightarrow> ('o, 'h, 'p) exp_func" where [fofb_ctrl_defs]:
  "s_fofb_ctrl_set_get_mgt_loopback junk = SET_GET_PARAM 0 FOFB_CC_REG_MGT_LOOPBACK whole_reg None None None junk"

definition s_fofb_ctrl_set_get_time_frame_dly :: "u32 \<Rightarrow> ('o, 'h, 'p) exp_func" where [fofb_ctrl_defs]:
  "s_fofb_ctrl_set_get_time_frame_dly junk = SET_GET_PARAM 0 FOFB_CC_REG_TIME_FRAME_DLY whole_reg None None None junk"

definition s_fofb_ctrl_set_get_golden_orb_x :: "u32 \<Rightarrow> ('o, 'h, 'p) exp_func" where [fofb_ctrl_defs]:
  "s_fofb_ctrl_set_get_golden_orb_x junk = SET_GET_PARAM 0 FOFB_CC_REG_GOLDEN_ORB_X whole_reg None None None junk"

definition s_fofb_ctrl_set_get_golden_orb_y :: "u32 \<Rightarrow> ('o, 'h, 'p) exp_func" where [fofb_ctrl_defs]:
  "s_fofb_ctrl_set_get_golden_orb_y junk = SET_GET_PARAM 0 FOFB_CC_REG_GOLDEN_ORB_Y whole_reg None None None junk"

definition s_fofb_ctrl_set_get_cust_feature :: "u32 \<Rightarrow> ('o, 'h, 'p) exp_func" where [fofb_ctrl_defs]:
  "s_fofb_ctrl_set_get_cust_feature junk = SET_GET_PARAM 0 FOFB_CC_REG_CUST_FEATURE whole_reg None None None junk"

definition s_fofb_ctrl_set_get_rx_polarity :: "u32 \<Rightarrow> ('o, 'h, 'p) exp_func" where [fofb_ctrl_defs]:
  "s_fofb_ctrl_set_get_rx_polarity junk = SET_GET_PARAM 0 FOFB_CC_REG_RXPOLARITY whole_reg None None None junk"

definition s_fofb_ctrl_set_get_payloadsel :: "u32 \<Rightarrow> ('o, 'h, 'p) exp_func" where [fofb_ctrl_defs]:
  "s_fofb_ctrl_set_get_payloadsel junk = SET_GET_PARAM 0 FOFB_CC_REG_PAYLOADSEL whole_reg None None None junk"

definition s_fofb_ctrl_set_get_fofbdatasel :: "u32 \<Rightarrow> ('o, 'h, 'p) exp_func" where [fofb_ctrl_defs]:
  "s_fofb_ctrl_set_get_fofbdatasel junk = SET_GET_PARAM 0 FOFB_CC_REG_FOFBDATASEL whole_reg None None None junk"

definition s_fofb_ctrl_set_get_firmware_ver :: "u32 \<Rightarrow> ('o, 'h, 'p) exp_func" where [fofb_ctrl_defs]:
  "s_fofb_ctrl_set_get_firmware_ver junk = SET_GET_PARAM 0 FOFB_CC_REG_FIRMWARE_VER whole_reg None None None junk"

definition s_fofb_ctrl_set_get_sys_status :: "u32 \<Rightarrow> ('o, 'h, 'p) exp_func" where [fofb_ctrl_defs]:
  "s_fofb_ctrl_set_get_sys_status junk = SET_GET_PARAM 0 FOFB_CC_REG_SYS_STATUS whole_reg None None None junk"

definition s_fofb_ctrl_set_get_link_partner_1 :: "u32 \<Rightarrow> ('o, 'h, 'p) exp_func" where [fofb_ctrl_defs]:
  "s_fofb_ctrl_set_get_link_partner_1 junk = SET_GET_PARAM 0 FOFB_CC_REG_LINK_PARTNER_1 whole_reg None None None junk"

definition s_fofb_ctrl_set_get_link_partner_2 :: "u32 \<Rightarrow> ('o, 'h, 'p) exp_func" where [fofb_ctrl_defs]:
  "s_fofb_ctrl_set_get_link_partner_2 junk = SET_GET_PARAM 0 FOFB_CC_REG_LINK_PARTNER_2 whole_reg None None None junk"

definition s_fofb_ctrl_set_get_link_partner_3 :: "u32 \<Rightarrow> ('o, 'h, 'p) exp_func" where [fofb_ctrl_defs]:
  "s_fofb_ctrl_set_get_link_partner_3 junk = SET_GET_PARAM 0 FOFB_CC_REG_LINK_PARTNER_3 whole_reg None None None junk"

definition s_fofb_ctrl_set_get_link_partner_4 :: "u32 \<Rightarrow> ('o, 'h, 'p) exp_func" where [fofb_ctrl_defs]:
  "s_fofb_ctrl_set_get_link_partner_4 junk = SET_GET_PARAM 0 FOFB_CC_REG_LINK_PARTNER_4 whole_reg None None None junk"

definition s_fofb_ctrl_set_get_link_up :: "u32 \<Rightarrow> ('o, 'h, 'p) exp_func" where [fofb_ctrl_defs]:
  "s_fofb_ctrl_set_get_link_up junk = SET_GET_PARAM 0 FOFB_CC_REG_LINK_UP whole_reg None None None junk"

definition s_fofb_ctrl_set_get_time_frame_count :: "u32 \<Rightarrow> ('o, 'h, 'p) exp_func" where [fofb_ctrl_defs]:
  "s_fofb_ctrl_set_get_time_frame_count junk = SET_GET_PARAM 0 FOFB_CC_REG_TIME_FRAME_COUNT whole_reg None None None junk"

definition s_fofb_ctrl_set_get_hard_err_cnt_1 :: "u32 \<Rightarrow> ('o, 'h, 'p) exp_func" where [fofb_ctrl_defs]:
  "s_fofb_ctrl_set_get_hard_err_cnt_1 junk = SET_GET_PARAM 0 FOFB_CC_REG_HARD_ERR_CNT_1 whole_reg None None None junk"

definition s_fofb_ctrl_set_get_hard_err_cnt_2 :: "u32 \<Rightarrow> ('o, 'h, 'p) exp_func" where [fofb_ctrl_defs]:
  "s_fofb_ctrl_set_get_hard_err_cnt_2 junk = SET_GET_PARAM 0 FOFB_CC_REG_HARD_ERR_CNT_2 whole_reg None None None junk"

definition s_fofb_ctrl_set_get_hard_err_cnt_3 :: "u32 \<Rightarrow> ('o, 'h, 'p) exp_func" where [fofb_ctrl_defs]:
  "s_fofb_ctrl_set_get_hard_err_cnt_3 junk = SET_GET_PARAM 0 FOFB_CC_REG_HARD_ERR_CNT_3 whole_reg None None None junk"

definition s_fofb_ctrl_set_get_hard_err_cnt_4 :: "u32 \<Rightarrow> ('o, 'h, 'p) exp_func" where [fofb_ctrl_defs]:
  "s_fofb_ctrl_set_get_hard_err_cnt_4 junk = SET_GET_PARAM 0 FOFB_CC_REG_HARD_ERR_CNT_4 whole_reg None None None junk"

definition s_fofb_ctrl_set_get_soft_err_cnt_1 :: "u32 \<Rightarrow> ('o, 'h, 'p) exp_func" where [fofb_ctrl_defs]:
  "s_fofb_ctrl_set_get_soft_err_cnt_1 junk = SET_GET_PARAM 0 FOFB_CC_REG_SOFT_ERR_CNT_1 whole_reg None None None junk"

definition s_fofb_ctrl_set_get_soft_err_cnt_2 :: "u32 \<Rightarrow> ('o, 'h, 'p) exp_func" where [fofb_ctrl_defs]:
  "s_fofb_ctrl_set_get_soft_err_cnt_2 junk = SET_GET_PARAM 0 FOFB_CC_REG_SOFT_ERR_CNT_2 whole_reg None None None junk"

definition s_fofb_ctrl_set_get_soft_err_cnt_3 :: "u32 \<Rightarrow> ('o, 'h, 'p) exp_func" where [fofb_ctrl_defs]:
  "s_fofb_ctrl_set_get_soft_err_cnt_3 junk = SET_GET_PARAM 0 FOFB_CC_REG_SOFT_ERR_CNT_3 whole_reg None None None junk"

definition s_fofb_ctrl_set_get_soft_err_cnt_4 :: "u32 \<Rightarrow> ('o, 'h, 'p) exp_func" where [fofb_ctrl_defs]:
  "s_fofb_ctrl_set_get_soft_err_cnt_4 junk = SET_GET_PARAM 0 FOFB_CC_REG_SOFT_ERR_CNT_4 whole_reg None None None junk"

definition s_fofb_ctrl_set_get_frame_err_cnt_1 :: "u32 \<Rightarrow> ('o, 'h, 'p) exp_func" where [fofb_ctrl_defs]:
  "s_fofb_ctrl_set_get_frame_err_cnt_1 junk = SET_GET_PARAM 0 FOFB_CC_REG_FRAME_ERR_CNT_1 whole_reg None None None junk"

definition s_fofb_ctrl_set_get_frame_err_cnt_2 :: "u32 \<Rightarrow> ('o, 'h, 'p) exp_func" where [fofb_ctrl_defs]:
  "s_fofb_ctrl_set_get_frame_err_cnt_2 junk = SET_GET_PARAM 0 FOFB_CC_REG_FRAME_ERR_CNT_2 whole_reg None None None junk"

definition s_fofb_ctrl_set_get_frame_err_cnt_3 :: "u32 \<Rightarrow> ('o, 'h, 'p) exp_func" where [fofb_ctrl_defs]:
  "s_fofb_ctrl_set_get_frame_err_cnt_3 junk = SET_GET_PARAM 0 FOFB_CC_REG_FRAME_ERR_CNT_3 whole_reg None None None junk"

definition s_fofb_ctrl_set_get_frame_err_cnt_4 :: "u32 \<Rightarrow> ('o, 'h, 'p) exp_func" where [fofb_ctrl_defs]:
  "s_fofb_ctrl_set_get_frame_err_cnt_4 junk = SET_GET_PARAM 0 FOFB_CC_REG_FRAME_ERR_CNT_4 whole_reg None None None junk"

definition s_fofb_ctrl_set_get_rx_pck_cnt_1 :: "u32 \<Rightarrow> ('o, 'h, 'p) exp_func" where [fofb_ctrl_defs]:
  "s_fofb_ctrl_set_get_rx_pck_cnt_1 junk = SET_GET_PARAM 0 FOFB_CC_REG_RX_PCK_CNT_1 whole_reg None None None junk"

definition s_fofb_ctrl_set_get_rx_pck_cnt_2 :: "u32 \<Rightarrow> ('o, 'h, 'p) exp_func" where [fofb_ctrl_defs]:
  "s_fofb_ctrl_set_get_rx_pck_cnt_2 junk = SET_GET_PARAM 0 FOFB_CC_REG_RX_PCK_CNT_2 whole_reg None None None junk"

definition s_fofb_ctrl_set_get_rx_pck_cnt_3 :: "u32 \<Rightarrow> ('o, 'h, 'p) exp_func" where [fofb_ctrl_defs]:
  "s_fofb_ctrl_set_get_rx_pck_cnt_3 junk = SET_GET_PARAM 0 FOFB_CC_REG_RX_PCK_CNT_3 whole_reg None None None junk"

definition s_fofb_ctrl_set_get_rx_pck_cnt_4 :: "u32 \<Rightarrow> ('o, 'h, 'p) exp_func" where [fofb_ctrl_defs]:
  "s_fofb_ctrl_set_get_rx_pck_cnt_4 junk = SET_GET_PARAM 0 FOFB_CC_REG_RX_PCK_CNT_4 whole_reg None None None junk"

definition s_fofb_ctrl_set_get_tx_pck_cnt_1 :: "u32 \<Rightarrow> ('o, 'h, 'p) exp_func" where [fofb_ctrl_defs]:
  "s_fofb_ctrl_set_get_tx_pck_cnt_1 junk = SET_GET_PARAM 0 FOFB_CC_REG_TX_PCK_CNT_1 whole_reg None None None junk"

definition s_fofb_ctrl_set_get_tx_pck_cnt_2 :: "u32 \<Rightarrow> ('o, 'h, 'p) exp_func" where [fofb_ctrl_defs]:
  "s_fofb_ctrl_set_get_tx_pck_cnt_2 junk = SET_GET_PARAM 0 FOFB_CC_REG_TX_PCK_CNT_2 whole_reg None None None junk"

definition s_fofb_ctrl_set_get_tx_pck_cnt_3 :: "u32 \<Rightarrow> ('o, 'h, 'p) exp_func" where [fofb_ctrl_defs]:
  "s_fofb_ctrl_set_get_tx_pck_cnt_3 junk = SET_GET_PARAM 0 FOFB_CC_REG_TX_PCK_CNT_3 whole_reg None None None junk"

definition s_fofb_ctrl_set_get_tx_pck_cnt_4 :: "u32 \<Rightarrow> ('o, 'h, 'p) exp_func" where [fofb_ctrl_defs]:
  "s_fofb_ctrl_set_get_tx_pck_cnt_4 junk = SET_GET_PARAM 0 FOFB_CC_REG_TX_PCK_CNT_4 whole_reg None None None junk"

definition s_fofb_ctrl_set_get_fod_process_time :: "u32 \<Rightarrow> ('o, 'h, 'p) exp_func" where [fofb_ctrl_defs]:
  "s_fofb_ctrl_set_get_fod_process_time junk = SET_GET_PARAM 0 FOFB_CC_REG_FOD_PROCESS_TIME whole_reg None None None junk"

definition s_fofb_ctrl_set_get_bpm_count :: "u32 \<Rightarrow> ('o, 'h, 'p) exp_func" where [fofb_ctrl_defs]:
  "s_fofb_ctrl_set_get_bpm_count junk = SET_GET_PARAM 0 FOFB_CC_REG_BPM_COUNT whole_reg None None None junk"

definition s_fofb_ctrl_set_get_bpm_id_rdback :: "u32 \<Rightarrow> ('o, 'h, 'p) exp_func" where [fofb_ctrl_defs]:
  "s_fofb_ctrl_set_get_bpm_id_rdback junk = SET_GET_PARAM 0 FOFB_CC_REG_BPM_ID_RDBACK whole_reg None None None junk"

definition s_fofb_ctrl_set_get_tf_length_rdback :: "u32 \<Rightarrow> ('o, 'h, 'p) exp_func" where [fofb_ctrl_defs]:
  "s_fofb_ctrl_set_get_tf_length_rdback junk = SET_GET_PARAM 0 FOFB_CC_REG_TF_LENGTH_RDBACK whole_reg None None None junk"

definition s_fofb_ctrl_set_get_powerdown_rdback :: "u32 \<Rightarrow> ('o, 'h, 'p) exp_func" where [fofb_ctrl_defs]:
  "s_fofb_ctrl_set_get_powerdown_rdback junk = SET_GET_PARAM 0 FOFB_CC_REG_POWERDOWN_RDBACK whole_reg None None None junk"

definition s_fofb_ctrl_set_get_loopback_rdback :: "u32 \<Rightarrow> ('o, 'h, 'p) exp_func" where [fofb_ctrl_defs]:
  "s_fofb_ctrl_set_get_loopback_rdback junk = SET_GET_PARAM 0 FOFB_CC_REG_LOOPBACK_RDBACK whole_reg None None None junk"

definition s_fofb_ctrl_set_get_faival_rdback :: "u32 \<Rightarrow> ('o, 'h, 'p) exp_func" where [fofb_ctrl_defs]:
  "s_fofb_ctrl_set_get_faival_rdback junk = SET_GET_PARAM 0 FOFB_CC_REG_FAIVAL_RDBACK whole_reg None None None junk"

definition fofb_ctrl_exp_fp :: "u32 \<Rightarrow> ('o, 'h, 'p) exp_func list" where
  "fofb_ctrl_exp_fp junk =
     [s_fofb_ctrl_set_get_act_part junk, s_fofb_ctrl_set_get_err_clr junk, s_fofb_ctrl_set_get_cc_enable junk,
      s_fofb_ctrl_set_get_tfs_override junk, s_fofb_ctrl_set_get_bpm_id junk,
      s_fofb_ctrl_set_get_time_frame_len junk, s_fofb_ctrl_set_get_mgt_powerdown junk,
      s_fofb_ctrl_set_get_mgt_loopback junk, s_fofb_ctrl_set_get_time_frame_dly junk,
      s_fofb_ctrl_set_get_golden_orb_x junk, s_fofb_ctrl_set_get_golden_orb_y junk,
      s_fofb_ctrl_set_get_cust_feature junk, s_fofb_ctrl_set_get_rx_polarity junk,
      s_fofb_ctrl_set_get_payloadsel junk, s_fofb_ctrl_set_get_fofbdatasel junk,
      s_fofb_ctrl_set_get_firmware_ver junk, s_fofb_ctrl_set_get_sys_status junk,
      s_fofb_ctrl_set_get_link_partner_1 junk, s_fofb_ctrl_set_get_link_partner_2 junk,
      s_fofb_ctrl_set_get_link_partner_3 junk, s_fofb_ctrl_set_get_link_partner_4 junk,
      s_fofb_ctrl_set_get_link_up junk, s_fofb_ctrl_set_get_time_frame_count junk,
      s_fofb_ctrl_set_get_hard_err_cnt_1 junk, s_fofb_ctrl_set_get_hard_err_cnt_2 junk,
      s_fofb_ctrl_set_get_hard_err_cnt_3 junk, s_fofb_ctrl_set_get_hard_err_cnt_4 junk,
      s_fofb_ctrl_set_get_soft_err_cnt_1 junk, s_fofb_ctrl_set_get_soft_err_cnt_2 junk,
      s_fofb_ctrl_set_get_soft_err_cnt_3 junk, s_fofb_ctrl_set_get_soft_err_cnt_4 junk,
      s_fofb_ctrl_set_get_frame_err_cnt_1 junk, s_fofb_ctrl_set_get_frame_err_cnt_2 junk,
      s_fofb_ctrl_set_get_frame_err_cnt_3 junk, s_fofb_ctrl_set_get_frame_err_cnt_4 junk,
      s_fofb_ctrl_set_get_rx_pck_cnt_1 junk, s_fofb_ctrl_set_get_rx_pck_cnt_2 junk,
      s_fofb_ctrl_set_get_rx_pck_cnt_3 junk, s_fofb_ctrl_set_get_rx_pck_cnt_4 junk,
      s_fofb_ctrl_set_get_tx_pck_cnt_1 junk, s_fofb_ctrl_set_get_tx_pck_cnt_2 junk,
      s_fofb_ctrl_set_get_tx_pck_cnt_3 junk, s_fofb_ctrl_set_get_tx_pck_cnt_4 junk,
      s_fofb_ctrl_set_get_fod_process_time junk, s_fofb_ctrl_set_get_bpm_count junk,
      s_fofb_ctrl_set_get_bpm_id_rdback junk, s_fofb_ctrl_set_get_tf_length_rdback junk,
      s_fofb_ctrl_set_get_powerdown_rdback junk, s_fofb_ctrl_set_get_loopback_rdback junk,
      s_fofb_ctrl_set_get_faival_rdback junk]"

text \<open>Opcodes and descriptors.\<close>

definition fofb_ctrl_codes :: "(string \<times> u32) list" where
  "fofb_ctrl_codes =
     [(''fofb_ctrl_set_get_act_part'', 0), (''fofb_ctrl_set_get_err_clr'', 1),
      (''fofb_ctrl_set_get_cc_enable'', 2), (''fofb_ctrl_set_get_tfs_override'', 3),
      (''fofb_ctrl_set_get_bpm_id'', 200), (''fofb_ctrl_set_get_time_frame_len'', 201),
      (''fofb_ctrl_set_get_mgt_powerdown'', 202), (''fofb_ctrl_set_get_mgt_loopback'', 203),
      (''fofb_ctrl_set_get_time_frame_dly'', 204), (''fofb_ctrl_set_get_golden_orb_x'', 205),
      (''fofb_ctrl_set_get_golden_orb_y'', 206), (''fofb_ctrl_set_get_cust_feature'', 207),
      (''fofb_ctrl_set_get_rx_polarity'', 208), (''fofb_ctrl_set_get_payloadsel'', 209),
      (''fofb_ctrl_set_get_fofbdatasel'', 210), (''fofb_ctrl_set_get_firmware_ver'', 211),
      (''fofb_ctrl_set_get_sys_status'', 212), (''fofb_ctrl_set_get_link_partner_1'', 213),
      (''fofb_ctrl_set_get_link_partner_2'', 214), (''fofb_ctrl_set_get_link_partner_3'', 215),
      (''fofb_ctrl_set_get_link_partner_4'', 216), (''fofb_ctrl_set_get_link_up'', 217),
      (''fofb_ctrl_set_get_time_frame_count'', 218), (''fofb_ctrl_set_get_hard_err_cnt_1'', 219),
      (''fofb_ctrl_set_get_hard_err_cnt_2'', 220), (''fofb_ctrl_set_get_hard_err_cnt_3'', 221),
      (''fofb_ctrl_set_get_hard_err_cnt_4'', 222), (''fofb_ctrl_set_get_soft_err_cnt_1'', 223),
      (''fofb_ctrl_set_get_soft_err_cnt_2'', 224), (''fofb_ctrl_set_get_soft_err_cnt_3'', 225),
      (''fofb_ctrl_set_get_soft_err_cnt_4'', 226), (''fofb_ctrl_set_get_frame_err_cnt_1'', 227),
      (''fofb_ctrl_set_get_frame_err_cnt_2'', 228), (''fofb_ctrl_set_get_frame_err_cnt_3'', 229),
      (''fofb_ctrl_set_get_frame_err_cnt_4'', 230), (''fofb_ctrl_set_get_rx_pck_cnt_1'', 235),
      (''fofb_ctrl_set_get_rx_pck_cnt_2'', 236), (''fofb_ctrl_set_get_rx_pck_cnt_3'', 237),
      (''fofb_ctrl_set_get_rx_pck_cnt_4'', 238), (''fofb_ctrl_set_get_tx_pck_cnt_1'', 239),
      (''fofb_ctrl_set_get_tx_pck_cnt_2'', 240), (''fofb_ctrl_set_get_tx_pck_cnt_3'', 241),
      (''fofb_ctrl_set_get_tx_pck_cnt_4'', 242), (''fofb_ctrl_set_get_fod_process_time'', 243),
      (''fofb_ctrl_set_get_bpm_count'', 244), (''fofb_ctrl_set_get_bpm_id_rdback'', 245),
      (''fofb_ctrl_set_get_tf_length_rdback'', 246), (''fofb_ctrl_set_get_powerdown_rdback'', 247),
      (''fofb_ctrl_set_get_loopback_rdback'', 248), (''fofb_ctrl_set_get_faival_rdback'', 249)]"

definition fofb_ctrl_set_get_act_part_exp :: "('w, msg_args) disp_op" where [fofb_ctrl_defs]: "fofb_ctrl_set_get_act_part_exp = param_exp ''fofb_ctrl_set_get_act_part'' 0"
definition fofb_ctrl_set_get_err_clr_exp :: "('w, msg_args) disp_op" where [fofb_ctrl_defs]: "fofb_ctrl_set_get_err_clr_exp = param_exp ''fofb_ctrl_set_get_err_clr'' 1"
definition fofb_ctrl_set_get_cc_enable_exp :: "('w, msg_args) disp_op" where [fofb_ctrl_defs]: "fofb_ctrl_set_get_cc_enable_exp = param_exp ''fofb_ctrl_set_get_cc_enable'' 2"
definition fofb_ctrl_set_get_tfs_override_exp :: "('w, msg_args) disp_op" where [fofb_ctrl_defs]: "fofb_ctrl_set_get_tfs_override_exp = param_exp ''fofb_ctrl_set_get_tfs_override'' 3"
definition fofb_ctrl_set_get_bpm_id_exp :: "('w, msg_args) disp_op" where [fofb_ctrl_defs]: "fofb_ctrl_set_get_bpm_id_exp = param_exp ''fofb_ctrl_set_get_bpm_id'' 200"
definition fofb_ctrl_set_get_time_frame_len_exp :: "('w, msg_args) disp_op" where [fofb_ctrl_defs]: "fofb_ctrl_set_get_time_frame_len_exp = param_exp ''fofb_ctrl_set_get_time_frame_len'' 201"
definition fofb_ctrl_set_get_mgt_powerdown_exp :: "('w, msg_args) disp_op" where [fofb_ctrl_defs]: "fofb_ctrl_set_get_mgt_powerdown_exp = param_exp ''fofb_ctrl_set_get_mgt_powerdown'' 202"
definition fofb_ctrl_set_get_mgt_loopback_exp :: "('w, msg_args) disp_op" where [fofb_ctrl_defs]: "fofb_ctrl_set_get_mgt_loopback_exp = param_exp ''fofb_ctrl_set_get_mgt_loopback'' 203"
definition fofb_ctrl_set_get_time_frame_dly_exp :: "('w, msg_args) disp_op" where [fofb_ctrl_defs]: "fofb_ctrl_set_get_time_frame_dly_exp = param_exp ''fofb_ctrl_set_get_time_frame_dly'' 204"
definition fofb_ctrl_set_get_golden_orb_x_exp :: "('w, msg_args) disp_op" where [fofb_ctrl_defs]: "fofb_ctrl_set_get_golden_orb_x_exp = param_exp ''fofb_ctrl_set_get_golden_orb_x'' 205"
definition fofb_ctrl_set_get_golden_orb_y_exp :: "('w, msg_args) disp_op" where [fofb_ctrl_defs]: "fofb_ctrl_set_get_golden_orb_y_exp = param_exp ''fofb_ctrl_set_get_golden_orb_y'' 206"
definition fofb_ctrl_set_get_cust_feature_exp :: "('w, msg_args) disp_op" where [fofb_ctrl_defs]: "fofb_ctrl_set_get_cust_feature_exp = param_exp ''fofb_ctrl_set_get_cust_feature'' 207"
definition fofb_ctrl_set_get_rx_polarity_exp :: "('w, msg_args) disp_op" where [fofb_ctrl_defs]: "fofb_ctrl_set_get_rx_polarity_exp = param_exp ''fofb_ctrl_set_get_rx_polarity'' 208"
definition fofb_ctrl_set_get_payloadsel_exp :: "('w, msg_args) disp_op" where [fofb_ctrl_defs]: "fofb_ctrl_set_get_payloadsel_exp = param_exp ''fofb_ctrl_set_get_payloadsel'' 209"
definition fofb_ctrl_set_get_fofbdatasel_exp :: "('w, msg_args) disp_op" where [fofb_ctrl_defs]: "fofb_ctrl_set_get_fofbdatasel_exp = param_exp ''fofb_ctrl_set_get_fofbdatasel'' 210"
definition fofb_ctrl_set_get_firmware_ver_exp :: "('w, msg_args) disp_op" where [fofb_ctrl_defs]: "fofb_ctrl_set_get_firmware_ver_exp = param_exp ''fofb_ctrl_set_get_firmware_ver'' 211"
definition fofb_ctrl_set_get_sys_status_exp :: "('w, msg_args) disp_op" where [fofb_ctrl_defs]: "fofb_ctrl_set_get_sys_status_exp = param_exp ''fofb_ctrl_set_get_sys_status'' 212"
definition fofb_ctrl_set_get_link_partner_1_exp :: "('w, msg_args) disp_op" where [fofb_ctrl_defs]: "fofb_ctrl_set_get_link_partner_1_exp = param_exp ''fofb_ctrl_set_get_link_partner_1'' 213"
definition fofb_ctrl_set_get_link_partner_2_exp :: "('w, msg_args) disp_op" where [fofb_ctrl_defs]: "fofb_ctrl_set_get_link_partner_2_exp = param_exp ''fofb_ctrl_set_get_link_partner_2'' 214"
definition fofb_ctrl_set_get_link_partner_3_exp :: "('w, msg_args) disp_op" where [fofb_ctrl_defs]: "fofb_ctrl_set_get_link_partner_3_exp = param_exp ''fofb_ctrl_set_get_link_partner_3'' 215"
definition fofb_ctrl_set_get_link_partner_4_exp :: "('w, msg_args) disp_op" where [fofb_ctrl_defs]: "fofb_ctrl_set_get_link_partner_4_exp = param_exp ''fofb_ctrl_set_get_link_partner_4'' 216"
definition fofb_ctrl_set_get_link_up_exp :: "('w, msg_args) disp_op" where [fofb_ctrl_defs]: "fofb_ctrl_set_get_link_up_exp = param_exp ''fofb_ctrl_set_get_link_up'' 217"
definition fofb_ctrl_set_get_time_frame_count_exp :: "('w, msg_args) disp_op" where [fofb_ctrl_defs]: "fofb_ctrl_set_get_time_frame_count_exp = param_exp ''fofb_ctrl_set_get_time_frame_count'' 218"
definition fofb_ctrl_set_get_hard_err_cnt_1_exp :: "('w, msg_args) disp_op" where [fofb_ctrl_defs]: "fofb_ctrl_set_get_hard_err_cnt_1_exp = param_exp ''fofb_ctrl_set_get_hard_err_cnt_1'' 219"
definition fofb_ctrl_set_get_hard_err_cnt_2_exp :: "('w, msg_args) disp_op" where [fofb_ctrl_defs]: "fofb_ctrl_set_get_hard_err_cnt_2_exp = param_exp ''fofb_ctrl_set_get_hard_err_cnt_2'' 220"
definition fofb_ctrl_set_get_hard_err_cnt_3_exp :: "('w, msg_args) disp_op" where [fofb_ctrl_defs]: "fofb_ctrl_set_get_hard_err_cnt_3_exp = param_exp ''fofb_ctrl_set_get_hard_err_cnt_3'' 221"
definition fofb_ctrl_set_get_hard_err_cnt_4_exp :: "('w, msg_args) disp_op" where [fofb_ctrl_defs]: "fofb_ctrl_set_get_hard_err_cnt_4_exp = param_exp ''fofb_ctrl_set_get_hard_err_cnt_4'' 222"
definition fofb_ctrl_set_get_soft_err_cnt_1_exp :: "('w, msg_args) disp_op" where [fofb_ctrl_defs]: "fofb_ctrl_set_get_soft_err_cnt_1_exp = param_exp ''fofb_ctrl_set_get_soft_err_cnt_1'' 223"
definition fofb_ctrl_set_get_soft_err_cnt_2_exp :: "('w, msg_args) disp_op" where [fofb_ctrl_defs]: "fofb_ctrl_set_get_soft_err_cnt_2_exp = param_exp ''fofb_ctrl_set_get_soft_err_cnt_2'' 224"
definition fofb_ctrl_set_get_soft_err_cnt_3_exp :: "('w, msg_args) disp_op" where [fofb_ctrl_defs]: "fofb_ctrl_set_get_soft_err_cnt_3_exp = param_exp ''fofb_ctrl_set_get_soft_err_cnt_3'' 225"
definition fofb_ctrl_set_get_soft_err_cnt_4_exp :: "('w, msg_args) disp_op" where [fofb_ctrl_defs]: "fofb_ctrl_set_get_soft_err_cnt_4_exp = param_exp ''fofb_ctrl_set_get_soft_err_cnt_4'' 226"
definition fofb_ctrl_set_get_frame_err_cnt_1_exp :: "('w, msg_args) disp_op" where [fofb_ctrl_defs]: "fofb_ctrl_set_get_frame_err_cnt_1_exp = param_exp ''fofb_ctrl_set_get_frame_err_cnt_1'' 227"
definition fofb_ctrl_set_get_frame_err_cnt_2_exp :: "('w, msg_args) disp_op" where [fofb_ctrl_defs]: "fofb_ctrl_set_get_frame_err_cnt_2_exp = param_exp ''fofb_ctrl_set_get_frame_err_cnt_2'' 228"
definition fofb_ctrl_set_get_frame_err_cnt_3_exp :: "('w, msg_args) disp_op" where [fofb_ctrl_defs]: "fofb_ctrl_set_get_frame_err_cnt_3_exp = param_exp ''fofb_ctrl_set_get_frame_err_cnt_3'' 229"
definition fofb_ctrl_set_get_frame_err_cnt_4_exp :: "('w, msg_args) disp_op" where [fofb_ctrl_defs]: "fofb_ctrl_set_get_frame_err_cnt_4_exp = param_exp ''fofb_ctrl_set_get_frame_err_cnt_4'' 230"
definition fofb_ctrl_set_get_rx_pck_cnt_1_exp :: "('w, msg_args) disp_op" where [fofb_ctrl_defs]: "fofb_ctrl_set_get_rx_pck_cnt_1_exp = param_exp ''fofb_ctrl_set_get_rx_pck_cnt_1'' 235"
definition fofb_ctrl_set_get_rx_pck_cnt_2_exp :: "('w, msg_args) disp_op" where [fofb_ctrl_defs]: "fofb_ctrl_set_get_rx_pck_cnt_2_exp = param_exp ''fofb_ctrl_set_get_rx_pck_cnt_2'' 236"
definition fofb_ctrl_set_get_rx_pck_cnt_3_exp :: "('w, msg_args) disp_op" where [fofb_ctrl_defs]: "fofb_ctrl_set_get_rx_pck_cnt_3_exp = param_exp ''fofb_ctrl_set_get_rx_pck_cnt_3'' 237"
definition fofb_ctrl_set_get_rx_pck_cnt_4_exp :: "('w, msg_args) disp_op" where [fofb_ctrl_defs]: "fofb_ctrl_set_get_rx_pck_cnt_4_exp = param_exp ''fofb_ctrl_set_get_rx_pck_cnt_4'' 238"
definition fofb_ctrl_set_get_tx_pck_cnt_1_exp :: "('w, msg_args) disp_op" where [fofb_ctrl_defs]: "fofb_ctrl_set_get_tx_pck_cnt_1_exp = param_exp ''fofb_ctrl_set_get_tx_pck_cnt_1'' 239"
definition fofb_ctrl_set_get_tx_pck_cnt_2_exp :: "('w, msg_args) disp_op" where [fofb_ctrl_defs]: "fofb_ctrl_set_get_tx_pck_cnt_2_exp = param_exp ''fofb_ctrl_set_get_tx_pck_cnt_2'' 240"
definition fofb_ctrl_set_get_tx_pck_cnt_3_exp :: "('w, msg_args) disp_op" where [fofb_ctrl_defs]: "fofb_ctrl_set_get_tx_pck_cnt_3_exp = param_exp ''fofb_ctrl_set_get_tx_pck_cnt_3'' 241"
definition fofb_ctrl_set_get_tx_pck_cnt_4_exp :: "('w, msg_args) disp_op" where [fofb_ctrl_defs]: "fofb_ctrl_set_get_tx_pck_cnt_4_exp = param_exp ''fofb_ctrl_set_get_tx_pck_cnt_4'' 242"
definition fofb_ctrl_set_get_fod_process_time_exp :: "('w, msg_args) disp_op" where [fofb_ctrl_defs]: "fofb_ctrl_set_get_fod_process_time_exp = param_exp ''fofb_ctrl_set_get_fod_process_time'' 243"
definition fofb_ctrl_set_get_bpm_count_exp :: "('w, msg_args) disp_op" where [fofb_ctrl_defs]: "fofb_ctrl_set_get_bpm_count_exp = param_exp ''fofb_ctrl_set_get_bpm_count'' 244"
definition fofb_ctrl_set_get_bpm_id_rdback_exp :: "('w, msg_args) disp_op" where [fofb_ctrl_defs]: "fofb_ctrl_set_get_bpm_id_rdback_exp = param_exp ''fofb_ctrl_set_get_bpm_id_rdback'' 245"
definition fofb_ctrl_set_get_tf_length_rdback_exp :: "('w, msg_args) disp_op" where [fofb_ctrl_defs]: "fofb_ctrl_set_get_tf_length_rdback_exp = param_exp ''fofb_ctrl_set_get_tf_length_rdback'' 246"
definition fofb_ctrl_set_get_powerdown_rdback_exp :: "('w, msg_args) disp_op" where [fofb_ctrl_defs]: "fofb_ctrl_set_get_powerdown_rdback_exp = param_exp ''fofb_ctrl_set_get_powerdown_rdback'' 247"
definition fofb_ctrl_set_get_loopback_rdback_exp :: "('w, msg_args) disp_op" where [fofb_ctrl_defs]: "fofb_ctrl_set_get_loopback_rdback_exp = param_exp ''fofb_ctrl_set_get_loopback_rdback'' 248"
definition fofb_ctrl_set_get_faival_rdback_exp :: "('w, msg_args) disp_op" where [fofb_ctrl_defs]: "fofb_ctrl_set_get_faival_rdback_exp = param_exp ''fofb_ctrl_set_get_faival_rdback'' 249"

definition fofb_ctrl_exp_ops :: "('w, msg_args) disp_op list" where
  "fofb_ctrl_exp_ops =
     [fofb_ctrl_set_get_act_part_exp, fofb_ctrl_set_get_err_clr_exp, fofb_ctrl_set_get_cc_enable_exp,
      fofb_ctrl_set_get_tfs_override_exp, fofb_ctrl_set_get_bpm_id_exp, fofb_ctrl_set_get_time_frame_len_exp,
      fofb_ctrl_set_get_mgt_powerdown_exp, fofb_ctrl_set_get_mgt_loopback_exp,
      fofb_ctrl_set_get_time_frame_dly_exp, fofb_ctrl_set_get_golden_orb_x_exp,
      fofb_ctrl_set_get_golden_orb_y_exp, fofb_ctrl_set_get_cust_feature_exp,
      fofb_ctrl_set_get_rx_polarity_exp, fofb_ctrl_set_get_payloadsel_exp, fofb_ctrl_set_get_fofbdatasel_exp,
      fofb_ctrl_set_get_firmware_ver_exp, fofb_ctrl_set_get_sys_status_exp,
      fofb_ctrl_set_get_link_partner_1_exp, fofb_ctrl_set_get_link_partner_2_exp,
      fofb_ctrl_set_get_link_partner_3_exp, fofb_ctrl_set_get_link_partner_4_exp,
      fofb_ctrl_set_get_link_up_exp, fofb_ctrl_set_get_time_frame_count_exp,
      fofb_ctrl_set_get_hard_err_cnt_1_exp, fofb_ctrl_set_get_hard_err_cnt_2_exp,
      fofb_ctrl_set_get_hard_err_cnt_3_exp, fofb_ctrl_set_get_hard_err_cnt_4_exp,
      fofb_ctrl_set_get_soft_err_cnt_1_exp, fofb_ctrl_set_get_soft_err_cnt_2_exp,
      fofb_ctrl_set_get_soft_err_cnt_3_exp, fofb_ctrl_set_get_soft_err_cnt_4_exp,
      fofb_ctrl_set_get_frame_err_cnt_1_exp, fofb_ctrl_set_get_frame_err_cnt_2_exp,
      fofb_ctrl_set_get_frame_err_cnt_3_exp, fofb_ctrl_set_get_frame_err_cnt_4_exp,
      fofb_ctrl_set_get_rx_pck_cnt_1_exp, fofb_ctrl_set_get_rx_pck_cnt_2_exp,
      fofb_ctrl_set_get_rx_pck_cnt_3_exp, fofb_ctrl_set_get_rx_pck_cnt_4_exp,
      fofb_ctrl_set_get_tx_pck_cnt_1_exp, fofb_ctrl_set_get_tx_pck_cnt_2_exp,
      fofb_ctrl_set_get_tx_pck_cnt_3_exp, fofb_ctrl_set_get_tx_pck_cnt_4_exp,
      fofb_ctrl_set_get_fod_process_time_exp, fofb_ctrl_set_get_bpm_count_exp,
      fofb_ctrl_set_get_bpm_id_rdback_exp, fofb_ctrl_set_get_tf_length_rdback_exp,
      fofb_ctrl_set_get_powerdown_rdback_exp, fofb_ctrl_set_get_loopback_rdback_exp,
      fofb_ctrl_set_get_faival_rdback_exp]"

text \<open>Life cycle.\<close>

definition fofb_ctrl_ops :: "'w smio_ops" where "fofb_ctrl_ops = not_impl_ops"

definition smio_fofb_ctrl_new :: "bool \<Rightarrow> ('o, unit, 'p) smio \<Rightarrow> 'p \<Rightarrow> (unit option \<times> 'p) option" where
  "smio_fofb_ctrl_new ok self p = plain_new ok self p"

definition smio_fofb_ctrl_destroy :: "unit option \<Rightarrow> smio_err \<times> unit option" where
  "smio_fofb_ctrl_destroy self_p = plain_destroy self_p"

definition fofb_ctrl_init ::
  "bool \<Rightarrow> (nat \<Rightarrow> bool) \<Rightarrow> bool \<Rightarrow> u32 \<Rightarrow> nat list \<Rightarrow> ('v smio_ops, unit, 'p) smio \<Rightarrow> 'p \<Rightarrow>
     (('v smio_ops, unit, 'p) smio_world, msg_args) dheap \<Rightarrow>
     (smio_err \<times> ('v smio_ops, unit, 'p) smio \<times> 'p \<times> (('v smio_ops, unit, 'p) smio_world, msg_args) dheap) option" where
  "fofb_ctrl_init ok ze al junk exp_ops self p h =
     mod_init ok ze FOFB_CTRL_SDB_DEVID FOFB_CTRL_SDB_NAME fofb_ctrl_ops exp_ops (fofb_ctrl_exp_fp junk) (smio_fofb_ctrl_new al) self p h"

definition fofb_ctrl_shutdown :: "('v smio_ops, unit, 'p) smio \<Rightarrow> smio_err \<times> ('v smio_ops, unit, 'p) smio" where
  "fofb_ctrl_shutdown self = mod_shutdown self"

text \<open>The parameters as a store.\<close>

definition fofb_ctrl_params :: "param_spec list" where
  "fofb_ctrl_params =
     [plain 0 (Bit 0) (Some (0, 1)), plain 0 (Bit 2) (Some (0, 1)), plain 0 (Bit 3) (Some (0, 1)),
      plain 0 (Bit 4) (Some (0, 1)), plain 8192 Whole None, plain 8196 Whole None, plain 8200 Whole None,
      plain 8204 Whole None, plain 8208 Whole None, plain 8212 Whole None, plain 8216 Whole None,
      plain 8220 Whole None, plain 8224 Whole None, plain 8228 Whole None, plain 8232 Whole None,
      plain 12284 Whole None, plain 11264 Whole None, plain 11268 Whole None, plain 11272 Whole None,
      plain 11276 Whole None, plain 11280 Whole None, plain 11284 Whole None, plain 11288 Whole None,
      plain 11292 Whole None, plain 11296 Whole None, plain 11300 Whole None, plain 11304 Whole None,
      plain 11308 Whole None, plain 11312 Whole None, plain 11316 Whole None, plain 11320 Whole None,
      plain 11324 Whole None, plain 11328 Whole None, plain 11332 Whole None, plain 11336 Whole None,
      plain 11340 Whole None, plain 11344 Whole None, plain 11348 Whole None, plain 11352 Whole None,
      plain 11356 Whole None, plain 11360 Whole None, plain 11364 Whole None, plain 11368 Whole None,
      plain 11372 Whole None, plain 11376 Whole None, plain 11380 Whole None, plain 11384 Whole None,
      plain 11388 Whole None, plain 11392 Whole None, plain 11396 Whole None]"

lemma fofb_ctrl_fp: "fofb_ctrl_exp_fp junk = map (param_func junk) fofb_ctrl_params"
  by (simp add: fofb_ctrl_exp_fp_def fofb_ctrl_params_def fofb_ctrl_defs param_func_simps WBGEN2_GEN_MASK_def)

lemma fofb_ctrl_spec: "list_all spec_ok fofb_ctrl_params"
  by (simp add: fofb_ctrl_params_def spec_ok_def)

lemma fofb_ctrl_apart: "specs_apart fofb_ctrl_params"
  by (simp add: fofb_ctrl_params_def spec_apart_def last_reg_def)

lemma fofb_ctrl_args: "list_all2 param_op fofb_ctrl_params fofb_ctrl_exp_ops"
  by (simp add: fofb_ctrl_params_def fofb_ctrl_exp_ops_def fofb_ctrl_defs exp_simps param_op_def u32_args)

lemma fofb_ctrl_module: "param_module fofb_ctrl_params fofb_ctrl_exp_ops"
  using fofb_ctrl_spec fofb_ctrl_apart fofb_ctrl_args by (simp add: param_module_def)

lemma fofb_ctrl_opcodes: "map (\<lambda>op. (dop_name op, opcode op)) fofb_ctrl_exp_ops = fofb_ctrl_codes"
  by (simp add: fofb_ctrl_exp_ops_def fofb_ctrl_codes_def fofb_ctrl_defs exp_simps)

lemma fofb_ctrl_distinct: "distinct (map opcode fofb_ctrl_exp_ops)"
  by (simp add: fofb_ctrl_exp_ops_def fofb_ctrl_defs exp_simps)

end
