(* ===== verification/Mod_Orbit.thy ===== *)
theory Mod_Orbit
  imports Param_Store
begin

text \<open>
  The orbit interlock, src/sm_io/modules/orbit_intlk. Its thresholds are signed and have functions of their
  own; the flags are parameters. The macro argument \<open>SINLE_BIT_PARAM\<close> of the flags is not defined anywhere, and
  counts as true in the preprocessor conditionals of include/rw_param.h, like \<open>SINGLE_BIT_PARAM\<close>.
  Registers and fields are those of include/hw. The functions have no state of their own: the
  handler is an empty structure. The list \<open>_params\<close> says which fields the functions set and get.
\<close>

section \<open>The module orbit_intlk\<close>

named_theorems orbit_intlk_defs

definition ORBIT_INTLK_SDB_DEVID :: u32 where "ORBIT_INTLK_SDB_DEVID = 0x87efeda8"
definition ORBIT_INTLK_SDB_NAME :: string where "ORBIT_INTLK_SDB_NAME = ''ORBIT_INTLK''"

text \<open>Registers and fields.\<close>

definition ORBIT_INTLK_REG_CTRL :: u64 where [orbit_intlk_defs]: "ORBIT_INTLK_REG_CTRL = 0x0"
definition ORBIT_INTLK_CTRL_EN :: u32 where [orbit_intlk_defs]: "ORBIT_INTLK_CTRL_EN = WBGEN2_GEN_MASK 0 1"
definition ORBIT_INTLK_CTRL_CLR :: u32 where [orbit_intlk_defs]: "ORBIT_INTLK_CTRL_CLR = WBGEN2_GEN_MASK 1 1"
definition ORBIT_INTLK_CTRL_MIN_SUM_EN :: u32 where [orbit_intlk_defs]: "ORBIT_INTLK_CTRL_MIN_SUM_EN = WBGEN2_GEN_MASK 2 1"
definition ORBIT_INTLK_CTRL_TRANS_EN :: u32 where [orbit_intlk_defs]: "ORBIT_INTLK_CTRL_TRANS_EN = WBGEN2_GEN_MASK 3 1"
definition ORBIT_INTLK_CTRL_TRANS_CLR :: u32 where [orbit_intlk_defs]: "ORBIT_INTLK_CTRL_TRANS_CLR = WBGEN2_GEN_MASK 4 1"
definition ORBIT_INTLK_CTRL_ANG_EN :: u32 where [orbit_intlk_defs]: "ORBIT_INTLK_CTRL_ANG_EN = WBGEN2_GEN_MASK 5 1"
definition ORBIT_INTLK_CTRL_ANG_CLR :: u32 where [orbit_intlk_defs]: "ORBIT_INTLK_CTRL_ANG_CLR = WBGEN2_GEN_MASK 6 1"
definition ORBIT_INTLK_REG_STS :: u64 where [orbit_intlk_defs]: "ORBIT_INTLK_REG_STS = 0x4"
definition ORBIT_INTLK_STS_TRANS_BIGGER_X :: u32 where [orbit_intlk_defs]: "ORBIT_INTLK_STS_TRANS_BIGGER_X = WBGEN2_GEN_MASK 0 1"
definition ORBIT_INTLK_STS_TRANS_BIGGER_Y :: u32 where [orbit_intlk_defs]: "ORBIT_INTLK_STS_TRANS_BIGGER_Y = WBGEN2_GEN_MASK 1 1"
definition ORBIT_INTLK_STS_TRANS_BIGGER_LTC_X :: u32 where [orbit_intlk_defs]: "ORBIT_INTLK_STS_TRANS_BIGGER_LTC_X = WBGEN2_GEN_MASK 2 1"
definition ORBIT_INTLK_STS_TRANS_BIGGER_LTC_Y :: u32 where [orbit_intlk_defs]: "ORBIT_INTLK_STS_TRANS_BIGGER_LTC_Y = WBGEN2_GEN_MASK 3 1"
definition ORBIT_INTLK_STS_TRANS_BIGGER_ANY :: u32 where [orbit_intlk_defs]: "ORBIT_INTLK_STS_TRANS_BIGGER_ANY = WBGEN2_GEN_MASK 4 1"
definition ORBIT_INTLK_STS_TRANS_BIGGER :: u32 where [orbit_intlk_defs]: "ORBIT_INTLK_STS_TRANS_BIGGER = WBGEN2_GEN_MASK 5 1"
definition ORBIT_INTLK_STS_TRANS_BIGGER_LTC :: u32 where [orbit_intlk_defs]: "ORBIT_INTLK_STS_TRANS_BIGGER_LTC = WBGEN2_GEN_MASK 6 1"
definition ORBIT_INTLK_STS_ANG_BIGGER_X :: u32 where [orbit_intlk_defs]: "ORBIT_INTLK_STS_ANG_BIGGER_X = WBGEN2_GEN_MASK 7 1"
definition ORBIT_INTLK_STS_ANG_BIGGER_Y :: u32 where [orbit_intlk_defs]: "ORBIT_INTLK_STS_ANG_BIGGER_Y = WBGEN2_GEN_MASK 8 1"
definition ORBIT_INTLK_STS_ANG_BIGGER_LTC_X :: u32 where [orbit_intlk_defs]: "ORBIT_INTLK_STS_ANG_BIGGER_LTC_X = WBGEN2_GEN_MASK 9 1"
definition ORBIT_INTLK_STS_ANG_BIGGER_LTC_Y :: u32 where [orbit_intlk_defs]: "ORBIT_INTLK_STS_ANG_BIGGER_LTC_Y = WBGEN2_GEN_MASK 10 1"
definition ORBIT_INTLK_STS_ANG_BIGGER_ANY :: u32 where [orbit_intlk_defs]: "ORBIT_INTLK_STS_ANG_BIGGER_ANY = WBGEN2_GEN_MASK 11 1"
definition ORBIT_INTLK_STS_ANG_BIGGER :: u32 where [orbit_intlk_defs]: "ORBIT_INTLK_STS_ANG_BIGGER = WBGEN2_GEN_MASK 12 1"
definition ORBIT_INTLK_STS_ANG_BIGGER_LTC :: u32 where [orbit_intlk_defs]: "ORBIT_INTLK_STS_ANG_BIGGER_LTC = WBGEN2_GEN_MASK 13 1"
definition ORBIT_INTLK_STS_INTLK :: u32 where [orbit_intlk_defs]: "ORBIT_INTLK_STS_INTLK = WBGEN2_GEN_MASK 14 1"
definition ORBIT_INTLK_STS_INTLK_LTC :: u32 where [orbit_intlk_defs]: "ORBIT_INTLK_STS_INTLK_LTC = WBGEN2_GEN_MASK 15 1"
definition ORBIT_INTLK_REG_MIN_SUM :: u64 where [orbit_intlk_defs]: "ORBIT_INTLK_REG_MIN_SUM = 0x8"
definition ORBIT_INTLK_STS_TRANS_SMALLER_X :: u32 where [orbit_intlk_defs]: "ORBIT_INTLK_STS_TRANS_SMALLER_X = WBGEN2_GEN_MASK 16 1"
definition ORBIT_INTLK_STS_TRANS_SMALLER_Y :: u32 where [orbit_intlk_defs]: "ORBIT_INTLK_STS_TRANS_SMALLER_Y = WBGEN2_GEN_MASK 17 1"
definition ORBIT_INTLK_STS_TRANS_SMALLER_LTC_X :: u32 where [orbit_intlk_defs]: "ORBIT_INTLK_STS_TRANS_SMALLER_LTC_X = WBGEN2_GEN_MASK 18 1"
definition ORBIT_INTLK_STS_TRANS_SMALLER_LTC_Y :: u32 where [orbit_intlk_defs]: "ORBIT_INTLK_STS_TRANS_SMALLER_LTC_Y = WBGEN2_GEN_MASK 19 1"
definition ORBIT_INTLK_STS_TRANS_SMALLER_ANY :: u32 where [orbit_intlk_defs]: "ORBIT_INTLK_STS_TRANS_SMALLER_ANY = WBGEN2_GEN_MASK 20 1"
definition ORBIT_INTLK_STS_TRANS_SMALLER :: u32 where [orbit_intlk_defs]: "ORBIT_INTLK_STS_TRANS_SMALLER = WBGEN2_GEN_MASK 21 1"
definition ORBIT_INTLK_STS_TRANS_SMALLER_LTC :: u32 where [orbit_intlk_defs]: "ORBIT_INTLK_STS_TRANS_SMALLER_LTC = WBGEN2_GEN_MASK 22 1"
definition ORBIT_INTLK_STS_ANG_SMALLER_X :: u32 where [orbit_intlk_defs]: "ORBIT_INTLK_STS_ANG_SMALLER_X = WBGEN2_GEN_MASK 23 1"
definition ORBIT_INTLK_STS_ANG_SMALLER_Y :: u32 where [orbit_intlk_defs]: "ORBIT_INTLK_STS_ANG_SMALLER_Y = WBGEN2_GEN_MASK 24 1"
definition ORBIT_INTLK_STS_ANG_SMALLER_LTC_X :: u32 where [orbit_intlk_defs]: "ORBIT_INTLK_STS_ANG_SMALLER_LTC_X = WBGEN2_GEN_MASK 25 1"
definition ORBIT_INTLK_STS_ANG_SMALLER_LTC_Y :: u32 where [orbit_intlk_defs]: "ORBIT_INTLK_STS_ANG_SMALLER_LTC_Y = WBGEN2_GEN_MASK 26 1"
definition ORBIT_INTLK_STS_ANG_SMALLER_ANY :: u32 where [orbit_intlk_defs]: "ORBIT_INTLK_STS_ANG_SMALLER_ANY = WBGEN2_GEN_MASK 27 1"
definition ORBIT_INTLK_STS_ANG_SMALLER :: u32 where [orbit_intlk_defs]: "ORBIT_INTLK_STS_ANG_SMALLER = WBGEN2_GEN_MASK 28 1"
definition ORBIT_INTLK_STS_ANG_SMALLER_LTC :: u32 where [orbit_intlk_defs]: "ORBIT_INTLK_STS_ANG_SMALLER_LTC = WBGEN2_GEN_MASK 29 1"

text \<open>Exported functions.\<close>

definition s_orbit_intlk_set_get_en :: "u32 \<Rightarrow> ('o, 'h, 'p) exp_func" where [orbit_intlk_defs]:
  "s_orbit_intlk_set_get_en junk = SET_GET_PARAM 0 ORBIT_INTLK_REG_CTRL (Single_Bit ORBIT_INTLK_CTRL_EN) (Some (0, 1)) None None junk"

definition s_orbit_intlk_set_get_clr :: "u32 \<Rightarrow> ('o, 'h, 'p) exp_func" where [orbit_intlk_defs]:
  "s_orbit_intlk_set_get_clr junk = SET_GET_PARAM 0 ORBIT_INTLK_REG_CTRL (Single_Bit ORBIT_INTLK_CTRL_CLR) (Some (0, 1)) None None junk"

definition s_orbit_intlk_set_get_min_sum_en :: "u32 \<Rightarrow> ('o, 'h, 'p) exp_func" where [orbit_intlk_defs]:
  "s_orbit_intlk_set_get_min_sum_en junk = SET_GET_PARAM 0 ORBIT_INTLK_REG_CTRL (Single_Bit ORBIT_INTLK_CTRL_MIN_SUM_EN) (Some (0, 1)) None None junk"

definition s_orbit_intlk_set_get_trans_en :: "u32 \<Rightarrow> ('o, 'h, 'p) exp_func" where [orbit_intlk_defs]:
  "s_orbit_intlk_set_get_trans_en junk = SET_GET_PARAM 0 ORBIT_INTLK_REG_CTRL (Single_Bit ORBIT_INTLK_CTRL_TRANS_EN) (Some (0, 1)) None None junk"

definition s_orbit_intlk_set_get_trans_clr :: "u32 \<Rightarrow> ('o, 'h, 'p) exp_func" where [orbit_intlk_defs]:
  "s_orbit_intlk_set_get_trans_clr junk = SET_GET_PARAM 0 ORBIT_INTLK_REG_CTRL (Single_Bit ORBIT_INTLK_CTRL_TRANS_CLR) (Some (0, 1)) None None junk"

definition s_orbit_intlk_set_get_ang_en :: "u32 \<Rightarrow> ('o, 'h, 'p) exp_func" where [orbit_intlk_defs]:
  "s_orbit_intlk_set_get_ang_en junk = SET_GET_PARAM 0 ORBIT_INTLK_REG_CTRL (Single_Bit ORBIT_INTLK_CTRL_ANG_EN) (Some (0, 1)) None None junk"

definition s_orbit_intlk_set_get_ang_clr :: "u32 \<Rightarrow> ('o, 'h, 'p) exp_func" where [orbit_intlk_defs]:
  "s_orbit_intlk_set_get_ang_clr junk = SET_GET_PARAM 0 ORBIT_INTLK_REG_CTRL (Single_Bit ORBIT_INTLK_CTRL_ANG_CLR) (Some (0, 1)) None None junk"

definition s_orbit_intlk_set_get_trans_bigger_x :: "u32 \<Rightarrow> ('o, 'h, 'p) exp_func" where [orbit_intlk_defs]:
  "s_orbit_intlk_set_get_trans_bigger_x junk = SET_GET_PARAM 0 ORBIT_INTLK_REG_STS (Single_Bit ORBIT_INTLK_STS_TRANS_BIGGER_X) None None None junk"

definition s_orbit_intlk_set_get_trans_bigger_y :: "u32 \<Rightarrow> ('o, 'h, 'p) exp_func" where [orbit_intlk_defs]:
  "s_orbit_intlk_set_get_trans_bigger_y junk = SET_GET_PARAM 0 ORBIT_INTLK_REG_STS (Single_Bit ORBIT_INTLK_STS_TRANS_BIGGER_Y) None None None junk"

definition s_orbit_intlk_set_get_trans_bigger_ltc_x :: "u32 \<Rightarrow> ('o, 'h, 'p) exp_func" where [orbit_intlk_defs]:
  "s_orbit_intlk_set_get_trans_bigger_ltc_x junk = SET_GET_PARAM 0 ORBIT_INTLK_REG_STS (Single_Bit ORBIT_INTLK_STS_TRANS_BIGGER_LTC_X) None None None junk"

definition s_orbit_intlk_set_get_trans_bigger_ltc_y :: "u32 \<Rightarrow> ('o, 'h, 'p) exp_func" where [orbit_intlk_defs]:
  "s_orbit_intlk_set_get_trans_bigger_ltc_y junk = SET_GET_PARAM 0 ORBIT_INTLK_REG_STS (Single_Bit ORBIT_INTLK_STS_TRANS_BIGGER_LTC_Y) None None None junk"

definition s_orbit_intlk_set_get_trans_bigger_any :: "u32 \<Rightarrow> ('o, 'h, 'p) exp_func" where [orbit_intlk_defs]:
  "s_orbit_intlk_set_get_trans_bigger_any junk = SET_GET_PARAM 0 ORBIT_INTLK_REG_STS (Single_Bit ORBIT_INTLK_STS_TRANS_BIGGER_ANY) None None None junk"

definition s_orbit_intlk_set_get_trans_bigger :: "u32 \<Rightarrow> ('o, 'h, 'p) exp_func" where [orbit_intlk_defs]:
  "s_orbit_intlk_set_get_trans_bigger junk = SET_GET_PARAM 0 ORBIT_INTLK_REG_STS (Single_Bit ORBIT_INTLK_STS_TRANS_BIGGER) None None None junk"

definition s_orbit_intlk_set_get_trans_bigger_ltc :: "u32 \<Rightarrow> ('o, 'h, 'p) exp_func" where [orbit_intlk_defs]:
  "s_orbit_intlk_set_get_trans_bigger_ltc junk = SET_GET_PARAM 0 ORBIT_INTLK_REG_STS (Single_Bit ORBIT_INTLK_STS_TRANS_BIGGER_LTC) None None None junk"

definition s_orbit_intlk_set_get_ang_bigger_x :: "u32 \<Rightarrow> ('o, 'h, 'p) exp_func" where [orbit_intlk_defs]:
  "s_orbit_intlk_set_get_ang_bigger_x junk = SET_GET_PARAM 0 ORBIT_INTLK_REG_STS (Single_Bit ORBIT_INTLK_STS_ANG_BIGGER_X) None None None junk"

definition s_orbit_intlk_set_get_ang_bigger_y :: "u32 \<Rightarrow> ('o, 'h, 'p) exp_func" where [orbit_intlk_defs]:
  "s_orbit_intlk_set_get_ang_bigger_y junk = SET_GET_PARAM 0 ORBIT_INTLK_REG_STS (Single_Bit ORBIT_INTLK_STS_ANG_BIGGER_Y) None None None junk"

definition s_orbit_intlk_set_get_ang_bigger_ltc_x :: "u32 \<Rightarrow> ('o, 'h, 'p) exp_func" where [orbit_intlk_defs]:
  "s_orbit_intlk_set_get_ang_bigger_ltc_x junk = SET_GET_PARAM 0 ORBIT_INTLK_REG_STS (Single_Bit ORBIT_INTLK_STS_ANG_BIGGER_LTC_X) None None None junk"

definition s_orbit_intlk_set_get_ang_bigger_ltc_y :: "u32 \<Rightarrow> ('o, 'h, 'p) exp_func" where [orbit_intlk_defs]:
  "s_orbit_intlk_set_get_ang_bigger_ltc_y junk = SET_GET_PARAM 0 ORBIT_INTLK_REG_STS (Single_Bit ORBIT_INTLK_STS_ANG_BIGGER_LTC_Y) None None None junk"

definition s_orbit_intlk_set_get_ang_bigger_any :: "u32 \<Rightarrow> ('o, 'h, 'p) exp_func" where [orbit_intlk_defs]:
  "s_orbit_intlk_set_get_ang_bigger_any junk = SET_GET_PARAM 0 ORBIT_INTLK_REG_STS (Single_Bit ORBIT_INTLK_STS_ANG_BIGGER_ANY) None None None junk"

definition s_orbit_intlk_set_get_ang_bigger :: "u32 \<Rightarrow> ('o, 'h, 'p) exp_func" where [orbit_intlk_defs]:
  "s_orbit_intlk_set_get_ang_bigger junk = SET_GET_PARAM 0 ORBIT_INTLK_REG_STS (Single_Bit ORBIT_INTLK_STS_ANG_BIGGER) None None None junk"

definition s_orbit_intlk_set_get_ang_bigger_ltc :: "u32 \<Rightarrow> ('o, 'h, 'p) exp_func" where [orbit_intlk_defs]:
  "s_orbit_intlk_set_get_ang_bigger_ltc junk = SET_GET_PARAM 0 ORBIT_INTLK_REG_STS (Single_Bit ORBIT_INTLK_STS_ANG_BIGGER_LTC) None None None junk"

definition s_orbit_intlk_set_get_intlk :: "u32 \<Rightarrow> ('o, 'h, 'p) exp_func" where [orbit_intlk_defs]:
  "s_orbit_intlk_set_get_intlk junk = SET_GET_PARAM 0 ORBIT_INTLK_REG_STS (Single_Bit ORBIT_INTLK_STS_INTLK) None None None junk"

definition s_orbit_intlk_set_get_intlk_ltc :: "u32 \<Rightarrow> ('o, 'h, 'p) exp_func" where [orbit_intlk_defs]:
  "s_orbit_intlk_set_get_intlk_ltc junk = SET_GET_PARAM 0 ORBIT_INTLK_REG_STS (Single_Bit ORBIT_INTLK_STS_INTLK_LTC) None None None junk"

definition s_orbit_intlk_set_get_intlk_min_sum :: "u32 \<Rightarrow> ('o, 'h, 'p) exp_func" where [orbit_intlk_defs]:
  "s_orbit_intlk_set_get_intlk_min_sum junk = SET_GET_PARAM 0 ORBIT_INTLK_REG_MIN_SUM whole_reg None None None junk"

definition s_orbit_intlk_set_get_trans_smaller_x :: "u32 \<Rightarrow> ('o, 'h, 'p) exp_func" where [orbit_intlk_defs]:
  "s_orbit_intlk_set_get_trans_smaller_x junk = SET_GET_PARAM 0 ORBIT_INTLK_REG_STS (Single_Bit ORBIT_INTLK_STS_TRANS_SMALLER_X) None None None junk"

definition s_orbit_intlk_set_get_trans_smaller_y :: "u32 \<Rightarrow> ('o, 'h, 'p) exp_func" where [orbit_intlk_defs]:
  "s_orbit_intlk_set_get_trans_smaller_y junk = SET_GET_PARAM 0 ORBIT_INTLK_REG_STS (Single_Bit ORBIT_INTLK_STS_TRANS_SMALLER_Y) None None None junk"

definition s_orbit_intlk_set_get_trans_smaller_ltc_x :: "u32 \<Rightarrow> ('o, 'h, 'p) exp_func" where [orbit_intlk_defs]:
  "s_orbit_intlk_set_get_trans_smaller_ltc_x junk = SET_GET_PARAM 0 ORBIT_INTLK_REG_STS (Single_Bit ORBIT_INTLK_STS_TRANS_SMALLER_LTC_X) None None None junk"

definition s_orbit_intlk_set_get_trans_smaller_ltc_y :: "u32 \<Rightarrow> ('o, 'h, 'p) exp_func" where [orbit_intlk_defs]:
  "s_orbit_intlk_set_get_trans_smaller_ltc_y junk = SET_GET_PARAM 0 ORBIT_INTLK_REG_STS (Single_Bit ORBIT_INTLK_STS_TRANS_SMALLER_LTC_Y) None None None junk"

definition s_orbit_intlk_set_get_trans_smaller_any :: "u32 \<Rightarrow> ('o, 'h, 'p) exp_func" where [orbit_intlk_defs]:
  "s_orbit_intlk_set_get_trans_smaller_any junk = SET_GET_PARAM 0 ORBIT_INTLK_REG_STS (Single_Bit ORBIT_INTLK_STS_TRANS_SMALLER_ANY) None None None junk"

definition s_orbit_intlk_set_get_trans_smaller :: "u32 \<Rightarrow> ('o, 'h, 'p) exp_func" where [orbit_intlk_defs]:
  "s_orbit_intlk_set_get_trans_smaller junk = SET_GET_PARAM 0 ORBIT_INTLK_REG_STS (Single_Bit ORBIT_INTLK_STS_TRANS_SMALLER) None None None junk"

definition s_orbit_intlk_set_get_trans_smaller_ltc :: "u32 \<Rightarrow> ('o, 'h, 'p) exp_func" where [orbit_intlk_defs]:
  "s_orbit_intlk_set_get_trans_smaller_ltc junk = SET_GET_PARAM 0 ORBIT_INTLK_REG_STS (Single_Bit ORBIT_INTLK_STS_TRANS_SMALLER_LTC) None None None junk"

definition s_orbit_intlk_set_get_ang_smaller_x :: "u32 \<Rightarrow> ('o, 'h, 'p) exp_func" where [orbit_intlk_defs]:
  "s_orbit_intlk_set_get_ang_smaller_x junk = SET_GET_PARAM 0 ORBIT_INTLK_REG_STS (Single_Bit ORBIT_INTLK_STS_ANG_SMALLER_X) None None None junk"

definition s_orbit_intlk_set_get_ang_smaller_y :: "u32 \<Rightarrow> ('o, 'h, 'p) exp_func" where [orbit_intlk_defs]:
  "s_orbit_intlk_set_get_ang_smaller_y junk = SET_GET_PARAM 0 ORBIT_INTLK_REG_STS (Single_Bit ORBIT_INTLK_STS_ANG_SMALLER_Y) None None None junk"

definition s_orbit_intlk_set_get_ang_smaller_ltc_x :: "u32 \<Rightarrow> ('o, 'h, 'p) exp_func" where [orbit_intlk_defs]:
  "s_orbit_intlk_set_get_ang_smaller_ltc_x junk = SET_GET_PARAM 0 ORBIT_INTLK_REG_STS (Single_Bit ORBIT_INTLK_STS_ANG_SMALLER_LTC_X) None None None junk"

definition s_orbit_intlk_set_get_ang_smaller_ltc_y :: "u32 \<Rightarrow> ('o, 'h, 'p) exp_func" where [orbit_intlk_defs]:
  "s_orbit_intlk_set_get_ang_smaller_ltc_y junk = SET_GET_PARAM 0 ORBIT_INTLK_REG_STS (Single_Bit ORBIT_INTLK_STS_ANG_SMALLER_LTC_Y) None None None junk"

definition s_orbit_intlk_set_get_ang_smaller_any :: "u32 \<Rightarrow> ('o, 'h, 'p) exp_func" where [orbit_intlk_defs]:
  "s_orbit_intlk_set_get_ang_smaller_any junk = SET_GET_PARAM 0 ORBIT_INTLK_REG_STS (Single_Bit ORBIT_INTLK_STS_ANG_SMALLER_ANY) None None None junk"

definition s_orbit_intlk_set_get_ang_smaller :: "u32 \<Rightarrow> ('o, 'h, 'p) exp_func" where [orbit_intlk_defs]:
  "s_orbit_intlk_set_get_ang_smaller junk = SET_GET_PARAM 0 ORBIT_INTLK_REG_STS (Single_Bit ORBIT_INTLK_STS_ANG_SMALLER) None None None junk"

definition s_orbit_intlk_set_get_ang_smaller_ltc :: "u32 \<Rightarrow> ('o, 'h, 'p) exp_func" where [orbit_intlk_defs]:
  "s_orbit_intlk_set_get_ang_smaller_ltc junk = SET_GET_PARAM 0 ORBIT_INTLK_REG_STS (Single_Bit ORBIT_INTLK_STS_ANG_SMALLER_LTC) None None None junk"

definition DSP_ERR :: int where "DSP_ERR = 1"

definition ORBIT_INTLK_REG_TRANS_MAX_X :: u64 where [orbit_intlk_defs]: "ORBIT_INTLK_REG_TRANS_MAX_X = 0xc"
definition s_orbit_intlk_trans_max_x :: "u32 \<Rightarrow> ('o, 'h, 'p) exp_func" where [orbit_intlk_defs]:
  "s_orbit_intlk_trans_max_x junk = set_get_unchecked ORBIT_INTLK_REG_TRANS_MAX_X DSP_ERR junk"

definition ORBIT_INTLK_REG_TRANS_MAX_Y :: u64 where [orbit_intlk_defs]: "ORBIT_INTLK_REG_TRANS_MAX_Y = 0x10"
definition s_orbit_intlk_trans_max_y :: "u32 \<Rightarrow> ('o, 'h, 'p) exp_func" where [orbit_intlk_defs]:
  "s_orbit_intlk_trans_max_y junk = set_get_unchecked ORBIT_INTLK_REG_TRANS_MAX_Y DSP_ERR junk"

definition ORBIT_INTLK_REG_ANG_MAX_X :: u64 where [orbit_intlk_defs]: "ORBIT_INTLK_REG_ANG_MAX_X = 0x14"
definition s_orbit_intlk_ang_max_x :: "u32 \<Rightarrow> ('o, 'h, 'p) exp_func" where [orbit_intlk_defs]:
  "s_orbit_intlk_ang_max_x junk = set_get_unchecked ORBIT_INTLK_REG_ANG_MAX_X DSP_ERR junk"

definition ORBIT_INTLK_REG_ANG_MAX_Y :: u64 where [orbit_intlk_defs]: "ORBIT_INTLK_REG_ANG_MAX_Y = 0x18"
definition s_orbit_intlk_ang_max_y :: "u32 \<Rightarrow> ('o, 'h, 'p) exp_func" where [orbit_intlk_defs]:
  "s_orbit_intlk_ang_max_y junk = set_get_unchecked ORBIT_INTLK_REG_ANG_MAX_Y DSP_ERR junk"

definition ORBIT_INTLK_REG_TRANS_MIN_X :: u64 where [orbit_intlk_defs]: "ORBIT_INTLK_REG_TRANS_MIN_X = 0x1c"
definition s_orbit_intlk_trans_min_x :: "u32 \<Rightarrow> ('o, 'h, 'p) exp_func" where [orbit_intlk_defs]:
  "s_orbit_intlk_trans_min_x junk = set_get_unchecked ORBIT_INTLK_REG_TRANS_MIN_X DSP_ERR junk"

definition ORBIT_INTLK_REG_TRANS_MIN_Y :: u64 where [orbit_intlk_defs]: "ORBIT_INTLK_REG_TRANS_MIN_Y = 0x20"
definition s_orbit_intlk_trans_min_y :: "u32 \<Rightarrow> ('o, 'h, 'p) exp_func" where [orbit_intlk_defs]:
  "s_orbit_intlk_trans_min_y junk = set_get_unchecked ORBIT_INTLK_REG_TRANS_MIN_Y DSP_ERR junk"

definition ORBIT_INTLK_REG_ANG_MIN_X :: u64 where [orbit_intlk_defs]: "ORBIT_INTLK_REG_ANG_MIN_X = 0x24"
definition s_orbit_intlk_ang_min_x :: "u32 \<Rightarrow> ('o, 'h, 'p) exp_func" where [orbit_intlk_defs]:
  "s_orbit_intlk_ang_min_x junk = set_get_unchecked ORBIT_INTLK_REG_ANG_MIN_X DSP_ERR junk"

definition ORBIT_INTLK_REG_ANG_MIN_Y :: u64 where [orbit_intlk_defs]: "ORBIT_INTLK_REG_ANG_MIN_Y = 0x28"
definition s_orbit_intlk_ang_min_y :: "u32 \<Rightarrow> ('o, 'h, 'p) exp_func" where [orbit_intlk_defs]:
  "s_orbit_intlk_ang_min_y junk = set_get_unchecked ORBIT_INTLK_REG_ANG_MIN_Y DSP_ERR junk"

definition orbit_intlk_exp_fp :: "u32 \<Rightarrow> ('o, 'h, 'p) exp_func list" where
  "orbit_intlk_exp_fp junk =
     [s_orbit_intlk_set_get_en junk, s_orbit_intlk_set_get_clr junk, s_orbit_intlk_set_get_min_sum_en junk,
      s_orbit_intlk_set_get_trans_en junk, s_orbit_intlk_set_get_trans_clr junk,
      s_orbit_intlk_set_get_ang_en junk, s_orbit_intlk_set_get_ang_clr junk,
      s_orbit_intlk_set_get_trans_bigger_x junk, s_orbit_intlk_set_get_trans_bigger_y junk,
      s_orbit_intlk_set_get_trans_bigger_ltc_x junk, s_orbit_intlk_set_get_trans_bigger_ltc_y junk,
      s_orbit_intlk_set_get_trans_bigger_any junk, s_orbit_intlk_set_get_trans_bigger junk,
      s_orbit_intlk_set_get_trans_bigger_ltc junk, s_orbit_intlk_set_get_ang_bigger_x junk,
      s_orbit_intlk_set_get_ang_bigger_y junk, s_orbit_intlk_set_get_ang_bigger_ltc_x junk,
      s_orbit_intlk_set_get_ang_bigger_ltc_y junk, s_orbit_intlk_set_get_ang_bigger_any junk,
      s_orbit_intlk_set_get_ang_bigger junk, s_orbit_intlk_set_get_ang_bigger_ltc junk,
      s_orbit_intlk_set_get_intlk junk, s_orbit_intlk_set_get_intlk_ltc junk,
      s_orbit_intlk_set_get_intlk_min_sum junk, s_orbit_intlk_trans_max_x junk, s_orbit_intlk_trans_max_y junk,
      s_orbit_intlk_ang_max_x junk, s_orbit_intlk_ang_max_y junk, s_orbit_intlk_set_get_trans_smaller_x junk,
      s_orbit_intlk_set_get_trans_smaller_y junk, s_orbit_intlk_set_get_trans_smaller_ltc_x junk,
      s_orbit_intlk_set_get_trans_smaller_ltc_y junk, s_orbit_intlk_set_get_trans_smaller_any junk,
      s_orbit_intlk_set_get_trans_smaller junk, s_orbit_intlk_set_get_trans_smaller_ltc junk,
      s_orbit_intlk_set_get_ang_smaller_x junk, s_orbit_intlk_set_get_ang_smaller_y junk,
      s_orbit_intlk_set_get_ang_smaller_ltc_x junk, s_orbit_intlk_set_get_ang_smaller_ltc_y junk,
      s_orbit_intlk_set_get_ang_smaller_any junk, s_orbit_intlk_set_get_ang_smaller junk,
      s_orbit_intlk_set_get_ang_smaller_ltc junk, s_orbit_intlk_trans_min_x junk,
      s_orbit_intlk_trans_min_y junk, s_orbit_intlk_ang_min_x junk, s_orbit_intlk_ang_min_y junk]"

text \<open>Opcodes and descriptors.\<close>

definition orbit_intlk_codes :: "(string \<times> u32) list" where
  "orbit_intlk_codes =
     [(''orbit_intlk_set_get_en'', 0), (''orbit_intlk_set_get_clr'', 1),
      (''orbit_intlk_set_get_min_sum_en'', 2), (''orbit_intlk_set_get_trans_en'', 3),
      (''orbit_intlk_set_get_trans_clr'', 4), (''orbit_intlk_set_get_ang_en'', 5),
      (''orbit_intlk_set_get_ang_clr'', 6), (''orbit_intlk_set_get_trans_bigger_x'', 7),
      (''orbit_intlk_set_get_trans_bigger_y'', 8), (''orbit_intlk_set_get_trans_bigger_ltc_x'', 9),
      (''orbit_intlk_set_get_trans_bigger_ltc_y'', 10), (''orbit_intlk_set_get_trans_bigger_any'', 11),
      (''orbit_intlk_set_get_trans_bigger'', 12), (''orbit_intlk_set_get_trans_bigger_ltc'', 13),
      (''orbit_intlk_set_get_ang_bigger_x'', 14), (''orbit_intlk_set_get_ang_bigger_y'', 15),
      (''orbit_intlk_set_get_ang_bigger_ltc_x'', 16), (''orbit_intlk_set_get_ang_bigger_ltc_y'', 17),
      (''orbit_intlk_set_get_ang_bigger_any'', 18), (''orbit_intlk_set_get_ang_bigger'', 19),
      (''orbit_intlk_set_get_ang_bigger_ltc'', 20), (''orbit_intlk_set_get_intlk'', 21),
      (''orbit_intlk_set_get_intlk_ltc'', 22), (''orbit_intlk_set_get_min_sum'', 23),
      (''orbit_intlk_set_get_trans_max_x'', 24), (''orbit_intlk_set_get_trans_max_y'', 25),
      (''orbit_intlk_set_get_ang_max_x'', 26), (''orbit_intlk_set_get_ang_max_y'', 27),
      (''orbit_intlk_set_get_trans_smaller_x'', 28), (''orbit_intlk_set_get_trans_smaller_y'', 29),
      (''orbit_intlk_set_get_trans_smaller_ltc_x'', 30), (''orbit_intlk_set_get_trans_smaller_ltc_y'', 31),
      (''orbit_intlk_set_get_trans_smaller_any'', 32), (''orbit_intlk_set_get_trans_smaller'', 33),
      (''orbit_intlk_set_get_trans_smaller_ltc'', 34), (''orbit_intlk_set_get_ang_smaller_x'', 35),
      (''orbit_intlk_set_get_ang_smaller_y'', 36), (''orbit_intlk_set_get_ang_smaller_ltc_x'', 37),
      (''orbit_intlk_set_get_ang_smaller_ltc_y'', 38), (''orbit_intlk_set_get_ang_smaller_any'', 39),
      (''orbit_intlk_set_get_ang_smaller'', 40), (''orbit_intlk_set_get_ang_smaller_ltc'', 41),
      (''orbit_intlk_set_get_trans_min_x'', 42), (''orbit_intlk_set_get_trans_min_y'', 43),
      (''orbit_intlk_set_get_ang_min_x'', 44), (''orbit_intlk_set_get_ang_min_y'', 45),
      (''ORBIT_INTLK_NAME_SET_GET_INTLK'', 21), (''ORBIT_INTLK_NAME_SET_GET_INTLK_LTC'', 22)]"

definition orbit_intlk_set_get_en_exp :: "('w, msg_args) disp_op" where [orbit_intlk_defs]: "orbit_intlk_set_get_en_exp = param_exp ''orbit_intlk_set_get_en'' 0"
definition orbit_intlk_set_get_clr_exp :: "('w, msg_args) disp_op" where [orbit_intlk_defs]: "orbit_intlk_set_get_clr_exp = param_exp ''orbit_intlk_set_get_clr'' 1"
definition orbit_intlk_set_get_min_sum_en_exp :: "('w, msg_args) disp_op" where [orbit_intlk_defs]: "orbit_intlk_set_get_min_sum_en_exp = param_exp ''orbit_intlk_set_get_min_sum_en'' 2"
definition orbit_intlk_set_get_trans_en_exp :: "('w, msg_args) disp_op" where [orbit_intlk_defs]: "orbit_intlk_set_get_trans_en_exp = param_exp ''orbit_intlk_set_get_trans_en'' 3"
definition orbit_intlk_set_get_trans_clr_exp :: "('w, msg_args) disp_op" where [orbit_intlk_defs]: "orbit_intlk_set_get_trans_clr_exp = param_exp ''orbit_intlk_set_get_trans_clr'' 4"
definition orbit_intlk_set_get_ang_en_exp :: "('w, msg_args) disp_op" where [orbit_intlk_defs]: "orbit_intlk_set_get_ang_en_exp = param_exp ''orbit_intlk_set_get_ang_en'' 5"
definition orbit_intlk_set_get_ang_clr_exp :: "('w, msg_args) disp_op" where [orbit_intlk_defs]: "orbit_intlk_set_get_ang_clr_exp = param_exp ''orbit_intlk_set_get_ang_clr'' 6"
definition orbit_intlk_set_get_trans_bigger_x_exp :: "('w, msg_args) disp_op" where [orbit_intlk_defs]: "orbit_intlk_set_get_trans_bigger_x_exp = param_exp ''orbit_intlk_set_get_trans_bigger_x'' 7"
definition orbit_intlk_set_get_trans_bigger_y_exp :: "('w, msg_args) disp_op" where [orbit_intlk_defs]: "orbit_intlk_set_get_trans_bigger_y_exp = param_exp ''orbit_intlk_set_get_trans_bigger_y'' 8"
definition orbit_intlk_set_get_trans_bigger_ltc_x_exp :: "('w, msg_args) disp_op" where [orbit_intlk_defs]: "orbit_intlk_set_get_trans_bigger_ltc_x_exp = param_exp ''orbit_intlk_set_get_trans_bigger_ltc_x'' 9"
definition orbit_intlk_set_get_trans_bigger_ltc_y_exp :: "('w, msg_args) disp_op" where [orbit_intlk_defs]: "orbit_intlk_set_get_trans_bigger_ltc_y_exp = param_exp ''orbit_intlk_set_get_trans_bigger_ltc_y'' 10"
definition orbit_intlk_set_get_trans_bigger_any_exp :: "('w, msg_args) disp_op" where [orbit_intlk_defs]: "orbit_intlk_set_get_trans_bigger_any_exp = param_exp ''orbit_intlk_set_get_trans_bigger_any'' 11"
definition orbit_intlk_set_get_trans_bigger_exp :: "('w, msg_args) disp_op" where [orbit_intlk_defs]: "orbit_intlk_set_get_trans_bigger_exp = param_exp ''orbit_intlk_set_get_trans_bigger'' 12"
definition orbit_intlk_set_get_trans_bigger_ltc_exp :: "('w, msg_args) disp_op" where [orbit_intlk_defs]: "orbit_intlk_set_get_trans_bigger_ltc_exp = param_exp ''orbit_intlk_set_get_trans_bigger_ltc'' 13"
definition orbit_intlk_set_get_ang_bigger_x_exp :: "('w, msg_args) disp_op" where [orbit_intlk_defs]: "orbit_intlk_set_get_ang_bigger_x_exp = param_exp ''orbit_intlk_set_get_ang_bigger_x'' 14"
definition orbit_intlk_set_get_ang_bigger_y_exp :: "('w, msg_args) disp_op" where [orbit_intlk_defs]: "orbit_intlk_set_get_ang_bigger_y_exp = param_exp ''orbit_intlk_set_get_ang_bigger_y'' 15"
definition orbit_intlk_set_get_ang_bigger_ltc_x_exp :: "('w, msg_args) disp_op" where [orbit_intlk_defs]: "orbit_intlk_set_get_ang_bigger_ltc_x_exp = param_exp ''orbit_intlk_set_get_ang_bigger_ltc_x'' 16"
definition orbit_intlk_set_get_ang_bigger_ltc_y_exp :: "('w, msg_args) disp_op" where [orbit_intlk_defs]: "orbit_intlk_set_get_ang_bigger_ltc_y_exp = param_exp ''orbit_intlk_set_get_ang_bigger_ltc_y'' 17"
definition orbit_intlk_set_get_ang_bigger_any_exp :: "('w, msg_args) disp_op" where [orbit_intlk_defs]: "orbit_intlk_set_get_ang_bigger_any_exp = param_exp ''orbit_intlk_set_get_ang_bigger_any'' 18"
definition orbit_intlk_set_get_ang_bigger_exp :: "('w, msg_args) disp_op" where [orbit_intlk_defs]: "orbit_intlk_set_get_ang_bigger_exp = param_exp ''orbit_intlk_set_get_ang_bigger'' 19"
definition orbit_intlk_set_get_ang_bigger_ltc_exp :: "('w, msg_args) disp_op" where [orbit_intlk_defs]: "orbit_intlk_set_get_ang_bigger_ltc_exp = param_exp ''orbit_intlk_set_get_ang_bigger_ltc'' 20"
definition orbit_intlk_set_get_intlk_exp :: "('w, msg_args) disp_op" where [orbit_intlk_defs]: "orbit_intlk_set_get_intlk_exp = param_exp ''orbit_intlk_set_get_intlk'' 21"
definition orbit_intlk_set_get_intlk_ltc_exp :: "('w, msg_args) disp_op" where [orbit_intlk_defs]: "orbit_intlk_set_get_intlk_ltc_exp = param_exp ''orbit_intlk_set_get_intlk_ltc'' 22"
definition orbit_intlk_set_get_min_sum_exp :: "('w, msg_args) disp_op" where [orbit_intlk_defs]: "orbit_intlk_set_get_min_sum_exp = param_exp ''orbit_intlk_set_get_min_sum'' 23"
definition orbit_intlk_set_get_trans_max_x_exp :: "('w, msg_args) disp_op" where [orbit_intlk_defs]: "orbit_intlk_set_get_trans_max_x_exp = smio_exp ''orbit_intlk_set_get_trans_max_x'' 24 INT32_ARG [UINT32_ARG, INT32_ARG]"
definition orbit_intlk_set_get_trans_max_y_exp :: "('w, msg_args) disp_op" where [orbit_intlk_defs]: "orbit_intlk_set_get_trans_max_y_exp = smio_exp ''orbit_intlk_set_get_trans_max_y'' 25 INT32_ARG [UINT32_ARG, INT32_ARG]"
definition orbit_intlk_set_get_ang_max_x_exp :: "('w, msg_args) disp_op" where [orbit_intlk_defs]: "orbit_intlk_set_get_ang_max_x_exp = smio_exp ''orbit_intlk_set_get_ang_max_x'' 26 INT32_ARG [UINT32_ARG, INT32_ARG]"
definition orbit_intlk_set_get_ang_max_y_exp :: "('w, msg_args) disp_op" where [orbit_intlk_defs]: "orbit_intlk_set_get_ang_max_y_exp = smio_exp ''orbit_intlk_set_get_ang_max_y'' 27 INT32_ARG [UINT32_ARG, INT32_ARG]"
definition orbit_intlk_set_get_trans_smaller_x_exp :: "('w, msg_args) disp_op" where [orbit_intlk_defs]: "orbit_intlk_set_get_trans_smaller_x_exp = param_exp ''orbit_intlk_set_get_trans_smaller_x'' 28"
definition orbit_intlk_set_get_trans_smaller_y_exp :: "('w, msg_args) disp_op" where [orbit_intlk_defs]: "orbit_intlk_set_get_trans_smaller_y_exp = param_exp ''orbit_intlk_set_get_trans_smaller_y'' 29"
definition orbit_intlk_set_get_trans_smaller_ltc_x_exp :: "('w, msg_args) disp_op" where [orbit_intlk_defs]: "orbit_intlk_set_get_trans_smaller_ltc_x_exp = param_exp ''orbit_intlk_set_get_trans_smaller_ltc_x'' 30"
definition orbit_intlk_set_get_trans_smaller_ltc_y_exp :: "('w, msg_args) disp_op" where [orbit_intlk_defs]: "orbit_intlk_set_get_trans_smaller_ltc_y_exp = param_exp ''orbit_intlk_set_get_trans_smaller_ltc_y'' 31"
definition orbit_intlk_set_get_trans_smaller_any_exp :: "('w, msg_args) disp_op" where [orbit_intlk_defs]: "orbit_intlk_set_get_trans_smaller_any_exp = param_exp ''orbit_intlk_set_get_trans_smaller_any'' 32"
definition orbit_intlk_set_get_trans_smaller_exp :: "('w, msg_args) disp_op" where [orbit_intlk_defs]: "orbit_intlk_set_get_trans_smaller_exp = param_exp ''orbit_intlk_set_get_trans_smaller'' 33"
definition orbit_intlk_set_get_trans_smaller_ltc_exp :: "('w, msg_args) disp_op" where [orbit_intlk_defs]: "orbit_intlk_set_get_trans_smaller_ltc_exp = param_exp ''orbit_intlk_set_get_trans_smaller_ltc'' 34"
definition orbit_intlk_set_get_ang_smaller_x_exp :: "('w, msg_args) disp_op" where [orbit_intlk_defs]: "orbit_intlk_set_get_ang_smaller_x_exp = param_exp ''orbit_intlk_set_get_ang_smaller_x'' 35"
definition orbit_intlk_set_get_ang_smaller_y_exp :: "('w, msg_args) disp_op" where [orbit_intlk_defs]: "orbit_intlk_set_get_ang_smaller_y_exp = param_exp ''orbit_intlk_set_get_ang_smaller_y'' 36"
definition orbit_intlk_set_get_ang_smaller_ltc_x_exp :: "('w, msg_args) disp_op" where [orbit_intlk_defs]: "orbit_intlk_set_get_ang_smaller_ltc_x_exp = param_exp ''orbit_intlk_set_get_ang_smaller_ltc_x'' 37"
definition orbit_intlk_set_get_ang_smaller_ltc_y_exp :: "('w, msg_args) disp_op" where [orbit_intlk_defs]: "orbit_intlk_set_get_ang_smaller_ltc_y_exp = param_exp ''orbit_intlk_set_get_ang_smaller_ltc_y'' 38"
definition orbit_intlk_set_get_ang_smaller_any_exp :: "('w, msg_args) disp_op" where [orbit_intlk_defs]: "orbit_intlk_set_get_ang_smaller_any_exp = param_exp ''orbit_intlk_set_get_ang_smaller_any'' 39"
definition orbit_intlk_set_get_ang_smaller_exp :: "('w, msg_args) disp_op" where [orbit_intlk_defs]: "orbit_intlk_set_get_ang_smaller_exp = param_exp ''orbit_intlk_set_get_ang_smaller'' 40"
definition orbit_intlk_set_get_ang_smaller_ltc_exp :: "('w, msg_args) disp_op" where [orbit_intlk_defs]: "orbit_intlk_set_get_ang_smaller_ltc_exp = param_exp ''orbit_intlk_set_get_ang_smaller_ltc'' 41"
definition orbit_intlk_set_get_trans_min_x_exp :: "('w, msg_args) disp_op" where [orbit_intlk_defs]: "orbit_intlk_set_get_trans_min_x_exp = smio_exp ''orbit_intlk_set_get_trans_min_x'' 42 INT32_ARG [UINT32_ARG, INT32_ARG]"
definition orbit_intlk_set_get_trans_min_y_exp :: "('w, msg_args) disp_op" where [orbit_intlk_defs]: "orbit_intlk_set_get_trans_min_y_exp = smio_exp ''orbit_intlk_set_get_trans_min_y'' 43 INT32_ARG [UINT32_ARG, INT32_ARG]"
definition orbit_intlk_set_get_ang_min_x_exp :: "('w, msg_args) disp_op" where [orbit_intlk_defs]: "orbit_intlk_set_get_ang_min_x_exp = smio_exp ''orbit_intlk_set_get_ang_min_x'' 44 INT32_ARG [UINT32_ARG, INT32_ARG]"
definition orbit_intlk_set_get_ang_min_y_exp :: "('w, msg_args) disp_op" where [orbit_intlk_defs]: "orbit_intlk_set_get_ang_min_y_exp = smio_exp ''orbit_intlk_set_get_ang_min_y'' 45 INT32_ARG [UINT32_ARG, INT32_ARG]"

definition orbit_intlk_exp_ops :: "('w, msg_args) disp_op list" where
  "orbit_intlk_exp_ops =
     [orbit_intlk_set_get_en_exp, orbit_intlk_set_get_clr_exp, orbit_intlk_set_get_min_sum_en_exp,
      orbit_intlk_set_get_trans_en_exp, orbit_intlk_set_get_trans_clr_exp, orbit_intlk_set_get_ang_en_exp,
      orbit_intlk_set_get_ang_clr_exp, orbit_intlk_set_get_trans_bigger_x_exp,
      orbit_intlk_set_get_trans_bigger_y_exp, orbit_intlk_set_get_trans_bigger_ltc_x_exp,
      orbit_intlk_set_get_trans_bigger_ltc_y_exp, orbit_intlk_set_get_trans_bigger_any_exp,
      orbit_intlk_set_get_trans_bigger_exp, orbit_intlk_set_get_trans_bigger_ltc_exp,
      orbit_intlk_set_get_ang_bigger_x_exp, orbit_intlk_set_get_ang_bigger_y_exp,
      orbit_intlk_set_get_ang_bigger_ltc_x_exp, orbit_intlk_set_get_ang_bigger_ltc_y_exp,
      orbit_intlk_set_get_ang_bigger_any_exp, orbit_intlk_set_get_ang_bigger_exp,
      orbit_intlk_set_get_ang_bigger_ltc_exp, orbit_intlk_set_get_intlk_exp, orbit_intlk_set_get_intlk_ltc_exp,
      orbit_intlk_set_get_min_sum_exp, orbit_intlk_set_get_trans_max_x_exp,
      orbit_intlk_set_get_trans_max_y_exp, orbit_intlk_set_get_ang_max_x_exp,
      orbit_intlk_set_get_ang_max_y_exp, orbit_intlk_set_get_trans_smaller_x_exp,
      orbit_intlk_set_get_trans_smaller_y_exp, orbit_intlk_set_get_trans_smaller_ltc_x_exp,
      orbit_intlk_set_get_trans_smaller_ltc_y_exp, orbit_intlk_set_get_trans_smaller_any_exp,
      orbit_intlk_set_get_trans_smaller_exp, orbit_intlk_set_get_trans_smaller_ltc_exp,
      orbit_intlk_set_get_ang_smaller_x_exp, orbit_intlk_set_get_ang_smaller_y_exp,
      orbit_intlk_set_get_ang_smaller_ltc_x_exp, orbit_intlk_set_get_ang_smaller_ltc_y_exp,
      orbit_intlk_set_get_ang_smaller_any_exp, orbit_intlk_set_get_ang_smaller_exp,
      orbit_intlk_set_get_ang_smaller_ltc_exp, orbit_intlk_set_get_trans_min_x_exp,
      orbit_intlk_set_get_trans_min_y_exp, orbit_intlk_set_get_ang_min_x_exp, orbit_intlk_set_get_ang_min_y_exp]"

text \<open>Life cycle.\<close>

definition orbit_intlk_ops :: "'w smio_ops" where "orbit_intlk_ops = not_impl_ops"

definition smio_orbit_intlk_new :: "bool \<Rightarrow> ('o, unit, 'p) smio \<Rightarrow> 'p \<Rightarrow> (unit option \<times> 'p) option" where
  "smio_orbit_intlk_new ok self p = plain_new ok self p"

definition smio_orbit_intlk_destroy :: "unit option \<Rightarrow> smio_err \<times> unit option" where
  "smio_orbit_intlk_destroy self_p = plain_destroy self_p"

definition orbit_intlk_init ::
  "bool \<Rightarrow> (nat \<Rightarrow> bool) \<Rightarrow> bool \<Rightarrow> u32 \<Rightarrow> nat list \<Rightarrow> ('v smio_ops, unit, 'p) smio \<Rightarrow> 'p \<Rightarrow>
     (('v smio_ops, unit, 'p) smio_world, msg_args) dheap \<Rightarrow>
     (smio_err \<times> ('v smio_ops, unit, 'p) smio \<times> 'p \<times> (('v smio_ops, unit, 'p) smio_world, msg_args) dheap) option" where
  "orbit_intlk_init ok ze al junk exp_ops self p h =
     mod_init ok ze ORBIT_INTLK_SDB_DEVID ORBIT_INTLK_SDB_NAME orbit_intlk_ops exp_ops (orbit_intlk_exp_fp junk) (smio_orbit_intlk_new al) self p h"

definition orbit_intlk_shutdown :: "('v smio_ops, unit, 'p) smio \<Rightarrow> smio_err \<times> ('v smio_ops, unit, 'p) smio" where
  "orbit_intlk_shutdown self = mod_shutdown self"

text \<open>The parameters as a store.\<close>

definition orbit_intlk_params :: "param_spec list" where
  "orbit_intlk_params =
     [plain 0 (Bit 0) (Some (0, 1)), plain 0 (Bit 1) (Some (0, 1)), plain 0 (Bit 2) (Some (0, 1)),
      plain 0 (Bit 3) (Some (0, 1)), plain 0 (Bit 4) (Some (0, 1)), plain 0 (Bit 5) (Some (0, 1)),
      plain 0 (Bit 6) (Some (0, 1)), plain 4 (Bit 0) None, plain 4 (Bit 1) None, plain 4 (Bit 2) None,
      plain 4 (Bit 3) None, plain 4 (Bit 4) None, plain 4 (Bit 5) None, plain 4 (Bit 6) None,
      plain 4 (Bit 7) None, plain 4 (Bit 8) None, plain 4 (Bit 9) None, plain 4 (Bit 10) None,
      plain 4 (Bit 11) None, plain 4 (Bit 12) None, plain 4 (Bit 13) None, plain 4 (Bit 14) None,
      plain 4 (Bit 15) None, plain 8 Whole None, plain 12 Whole None, plain 16 Whole None, plain 20 Whole None,
      plain 24 Whole None, plain 4 (Bit 16) None, plain 4 (Bit 17) None, plain 4 (Bit 18) None,
      plain 4 (Bit 19) None, plain 4 (Bit 20) None, plain 4 (Bit 21) None, plain 4 (Bit 22) None,
      plain 4 (Bit 23) None, plain 4 (Bit 24) None, plain 4 (Bit 25) None, plain 4 (Bit 26) None,
      plain 4 (Bit 27) None, plain 4 (Bit 28) None, plain 4 (Bit 29) None, plain 28 Whole None,
      plain 32 Whole None, plain 36 Whole None, plain 40 Whole None]"

definition orbit_intlk_kinds :: "(param_spec \<times> bool) list" where
  "orbit_intlk_kinds = zip orbit_intlk_params [False, False, False, False, False, False, False, False, False, False, False, False, False, False, False,
      False, False, False, False, False, False, False, False, False, True, True, True, True, False, False,
      False, False, False, False, False, False, False, False, False, False, False, False, True, True, True, True]"
lemma orbit_intlk_fp: "orbit_intlk_exp_fp junk = mixed_fp DSP_ERR junk orbit_intlk_kinds"
  by (simp add: orbit_intlk_exp_fp_def orbit_intlk_kinds_def orbit_intlk_params_def orbit_intlk_defs mixed_fp_def param_func_simps WBGEN2_GEN_MASK_def)

lemma orbit_intlk_kinds_params: "map fst orbit_intlk_kinds = orbit_intlk_params"
  by (simp add: orbit_intlk_kinds_def orbit_intlk_params_def)

lemma orbit_intlk_kinds_ok: "list_all (\<lambda>(d, unchecked). unchecked \<longrightarrow> d = plain (ps_reg d) Whole None) orbit_intlk_kinds"
  by (simp add: orbit_intlk_kinds_def orbit_intlk_params_def)

lemma orbit_intlk_spec: "list_all spec_ok orbit_intlk_params"
  by (simp add: orbit_intlk_params_def spec_ok_def)

lemma orbit_intlk_apart: "specs_apart orbit_intlk_params"
  by (simp add: orbit_intlk_params_def spec_apart_def last_reg_def)

lemma orbit_intlk_args: "list_all2 param_op orbit_intlk_params orbit_intlk_exp_ops"
  by (simp add: orbit_intlk_params_def orbit_intlk_exp_ops_def orbit_intlk_defs exp_simps param_op_def u32_args)

lemma orbit_intlk_module: "param_module orbit_intlk_params orbit_intlk_exp_ops"
  using orbit_intlk_spec orbit_intlk_apart orbit_intlk_args by (simp add: param_module_def)

lemma orbit_intlk_opcodes: "map (\<lambda>op. (dop_name op, opcode op)) orbit_intlk_exp_ops = map (nth orbit_intlk_codes) [0, 1, 2, 3, 4, 5, 6, 7, 8, 9, 10, 11, 12, 13, 14, 15, 16, 17, 18, 19, 20, 21, 22, 23, 24, 25, 26, 27, 28, 29, 30, 31, 32, 33, 34, 35, 36, 37, 38, 39, 40, 41, 42, 43, 44, 45]"
  by (simp add: orbit_intlk_exp_ops_def orbit_intlk_codes_def orbit_intlk_defs exp_simps)

lemma orbit_intlk_distinct: "distinct (map opcode orbit_intlk_exp_ops)"
  by (simp add: orbit_intlk_exp_ops_def orbit_intlk_defs exp_simps)

end
