(* ===== verification/Mod_Adc.thy ===== *)
theory Mod_Adc
  imports Param_Store
begin

text \<open>
  Small modules whose operations are all parameters: src/sm_io/modules/fmc_adc_common, fmcpico1m_4ch,
  rtmlamp_ohwr and swap.
  Registers and fields are those of include/hw. The functions have no state of their own: the
  handler is an empty structure. The list \<open>_params\<close> says which fields the functions set and get.
\<close>

section \<open>The module fmc_adc_common\<close>

named_theorems fmc_adc_common_defs

definition FMC_ADC_COMMON_SDB_DEVID :: u32 where "FMC_ADC_COMMON_SDB_DEVID = 0x2403f569"
definition FMC_ADC_COMMON_SDB_NAME :: string where "FMC_ADC_COMMON_SDB_NAME = ''FMC_ADC_COMMON''"

text \<open>Registers and fields.\<close>

definition WB_FMC_ADC_COMMON_CSR_REG_MONITOR :: u64 where [fmc_adc_common_defs]: "WB_FMC_ADC_COMMON_CSR_REG_MONITOR = 0x8"
definition WB_FMC_ADC_COMMON_CSR_MONITOR_GLOBAL :: param_field where [fmc_adc_common_defs]: "WB_FMC_ADC_COMMON_CSR_MONITOR_GLOBAL = gen_field 1 3"
definition WB_FMC_ADC_COMMON_CSR_MONITOR_MMCM_RST :: u32 where [fmc_adc_common_defs]: "WB_FMC_ADC_COMMON_CSR_MONITOR_MMCM_RST = WBGEN2_GEN_MASK 4 1"
definition WB_FMC_ADC_COMMON_CSR_MONITOR_TEST_DATA_EN :: u32 where [fmc_adc_common_defs]: "WB_FMC_ADC_COMMON_CSR_MONITOR_TEST_DATA_EN = WBGEN2_GEN_MASK 0 1"
definition WB_FMC_ADC_COMMON_CSR_REG_TRIGGER :: u64 where [fmc_adc_common_defs]: "WB_FMC_ADC_COMMON_CSR_REG_TRIGGER = 0x4"
definition WB_FMC_ADC_COMMON_CSR_TRIGGER_DIR :: u32 where [fmc_adc_common_defs]: "WB_FMC_ADC_COMMON_CSR_TRIGGER_DIR = WBGEN2_GEN_MASK 0 1"
definition WB_FMC_ADC_COMMON_CSR_TRIGGER_TERM :: u32 where [fmc_adc_common_defs]: "WB_FMC_ADC_COMMON_CSR_TRIGGER_TERM = WBGEN2_GEN_MASK 1 1"
definition WB_FMC_ADC_COMMON_CSR_TRIGGER_TRIG_VAL :: u32 where [fmc_adc_common_defs]: "WB_FMC_ADC_COMMON_CSR_TRIGGER_TRIG_VAL = WBGEN2_GEN_MASK 2 1"

text \<open>Exported functions.\<close>

definition s_fmc_adc_common_set_get_leds :: "u32 \<Rightarrow> ('o, 'h, 'p) exp_func" where [fmc_adc_common_defs]:
  "s_fmc_adc_common_set_get_leds junk = SET_GET_PARAM 0 WB_FMC_ADC_COMMON_CSR_REG_MONITOR WB_FMC_ADC_COMMON_CSR_MONITOR_GLOBAL (Some (0, 7)) None None junk"

definition s_fmc_adc_common_set_get_mmcm_rst :: "u32 \<Rightarrow> ('o, 'h, 'p) exp_func" where [fmc_adc_common_defs]:
  "s_fmc_adc_common_set_get_mmcm_rst junk = SET_GET_PARAM 0 WB_FMC_ADC_COMMON_CSR_REG_MONITOR (Single_Bit WB_FMC_ADC_COMMON_CSR_MONITOR_MMCM_RST) (Some (0, 1)) None None junk"

definition s_fmc_adc_common_set_get_test_data_en :: "u32 \<Rightarrow> ('o, 'h, 'p) exp_func" where [fmc_adc_common_defs]:
  "s_fmc_adc_common_set_get_test_data_en junk = SET_GET_PARAM 0 WB_FMC_ADC_COMMON_CSR_REG_MONITOR (Single_Bit WB_FMC_ADC_COMMON_CSR_MONITOR_TEST_DATA_EN) (Some (0, 1)) None None junk"

definition s_fmc_adc_common_set_get_trig_dir :: "u32 \<Rightarrow> ('o, 'h, 'p) exp_func" where [fmc_adc_common_defs]:
  "s_fmc_adc_common_set_get_trig_dir junk = SET_GET_PARAM 0 WB_FMC_ADC_COMMON_CSR_REG_TRIGGER (Single_Bit WB_FMC_ADC_COMMON_CSR_TRIGGER_DIR) (Some (0, 1)) None None junk"

definition s_fmc_adc_common_set_get_trig_term :: "u32 \<Rightarrow> ('o, 'h, 'p) exp_func" where [fmc_adc_common_defs]:
  "s_fmc_adc_common_set_get_trig_term junk = SET_GET_PARAM 0 WB_FMC_ADC_COMMON_CSR_REG_TRIGGER (Single_Bit WB_FMC_ADC_COMMON_CSR_TRIGGER_TERM) (Some (0, 1)) None None junk"

definition s_fmc_adc_common_set_get_trig_val :: "u32 \<Rightarrow> ('o, 'h, 'p) exp_func" where [fmc_adc_common_defs]:
  "s_fmc_adc_common_set_get_trig_val junk = SET_GET_PARAM 0 WB_FMC_ADC_COMMON_CSR_REG_TRIGGER (Single_Bit WB_FMC_ADC_COMMON_CSR_TRIGGER_TRIG_VAL) (Some (0, 1)) None None junk"

definition fmc_adc_common_exp_fp :: "u32 \<Rightarrow> ('o, 'h, 'p) exp_func list" where
  "fmc_adc_common_exp_fp junk =
     [s_fmc_adc_common_set_get_leds junk, s_fmc_adc_common_set_get_mmcm_rst junk,
      s_fmc_adc_common_set_get_test_data_en junk, s_fmc_adc_common_set_get_trig_dir junk,
      s_fmc_adc_common_set_get_trig_term junk, s_fmc_adc_common_set_get_trig_val junk]"

text \<open>Opcodes and descriptors.\<close>

definition fmc_adc_common_codes :: "(string \<times> u32) list" where
  "fmc_adc_common_codes =
     [(''fmc_adc_common_leds'', 0), (''fmc_adc_common_mmcm_rst'', 1), (''fmc_adc_common_adc_test_data_en'', 2),
      (''fmc_adc_common_trig_dir'', 3), (''fmc_adc_common_trig_term'', 4), (''fmc_adc_common_trig_val'', 5)]"

definition fmc_adc_common_leds_exp :: "('w, msg_args) disp_op" where [fmc_adc_common_defs]: "fmc_adc_common_leds_exp = param_exp ''fmc_adc_common_leds'' 0"
definition fmc_adc_common_mmcm_rst_exp :: "('w, msg_args) disp_op" where [fmc_adc_common_defs]: "fmc_adc_common_mmcm_rst_exp = param_exp ''fmc_adc_common_mmcm_rst'' 1"
definition fmc_adc_common_test_data_en_exp :: "('w, msg_args) disp_op" where [fmc_adc_common_defs]: "fmc_adc_common_test_data_en_exp = param_exp ''fmc_adc_common_adc_test_data_en'' 2"
definition fmc_adc_common_trig_dir_exp :: "('w, msg_args) disp_op" where [fmc_adc_common_defs]: "fmc_adc_common_trig_dir_exp = param_exp ''fmc_adc_common_trig_dir'' 3"
definition fmc_adc_common_trig_term_exp :: "('w, msg_args) disp_op" where [fmc_adc_common_defs]: "fmc_adc_common_trig_term_exp = param_exp ''fmc_adc_common_trig_term'' 4"
definition fmc_adc_common_trig_val_exp :: "('w, msg_args) disp_op" where [fmc_adc_common_defs]: "fmc_adc_common_trig_val_exp = param_exp ''fmc_adc_common_trig_val'' 5"

definition fmc_adc_common_exp_ops :: "('w, msg_args) disp_op list" where
  "fmc_adc_common_exp_ops =
     [fmc_adc_common_leds_exp, fmc_adc_common_mmcm_rst_exp, fmc_adc_common_test_data_en_exp,
      fmc_adc_common_trig_dir_exp, fmc_adc_common_trig_term_exp, fmc_adc_common_trig_val_exp]"

text \<open>Life cycle.\<close>

definition fmc_adc_common_ops :: "'w smio_ops" where "fmc_adc_common_ops = not_impl_ops"

definition smio_fmc_adc_common_new :: "bool \<Rightarrow> ('o, unit, 'p) smio \<Rightarrow> 'p \<Rightarrow> (unit option \<times> 'p) option" where
  "smio_fmc_adc_common_new ok self p = plain_new ok self p"

definition smio_fmc_adc_common_destroy :: "unit option \<Rightarrow> smio_err \<times> unit option" where
  "smio_fmc_adc_common_destroy self_p = plain_destroy self_p"

definition fmc_adc_common_init ::
  "bool \<Rightarrow> (nat \<Rightarrow> bool) \<Rightarrow> bool \<Rightarrow> u32 \<Rightarrow> nat list \<Rightarrow> ('v smio_ops, unit, 'p) smio \<Rightarrow> 'p \<Rightarrow>
     (('v smio_ops, unit, 'p) smio_world, msg_args) dheap \<Rightarrow>
     (smio_err \<times> ('v smio_ops, unit, 'p) smio \<times> 'p \<times> (('v smio_ops, unit, 'p) smio_world, msg_args) dheap) option" where
  "fmc_adc_common_init ok ze al junk exp_ops self p h =
     mod_init ok ze FMC_ADC_COMMON_SDB_DEVID FMC_ADC_COMMON_SDB_NAME fmc_adc_common_ops exp_ops (fmc_adc_common_exp_fp junk) (smio_fmc_adc_common_new al) self p h"

definition fmc_adc_common_shutdown :: "('v smio_ops, unit, 'p) smio \<Rightarrow> smio_err \<times> ('v smio_ops, unit, 'p) smio" where
  "fmc_adc_common_shutdown self = mod_shutdown self"

text \<open>The parameters as a store.\<close>

definition fmc_adc_common_params :: "param_spec list" where
  "fmc_adc_common_params =
     [plain 8 (Bits 1 3) (Some (0, 7)), plain 8 (Bit 4) (Some (0, 1)), plain 8 (Bit 0) (Some (0, 1)),
      plain 4 (Bit 0) (Some (0, 1)), plain 4 (Bit 1) (Some (0, 1)), plain 4 (Bit 2) (Some (0, 1))]"

lemma fmc_adc_common_fp: "fmc_adc_common_exp_fp junk = map (param_func junk) fmc_adc_common_params"
  by (simp add: fmc_adc_common_exp_fp_def fmc_adc_common_params_def fmc_adc_common_defs param_func_simps WBGEN2_GEN_MASK_def)

lemma fmc_adc_common_spec: "list_all spec_ok fmc_adc_common_params"
  by (simp add: fmc_adc_common_params_def spec_ok_def)

lemma fmc_adc_common_apart: "specs_apart fmc_adc_common_params"
  by (simp add: fmc_adc_common_params_def spec_apart_def last_reg_def)

lemma fmc_adc_common_args: "list_all2 param_op fmc_adc_common_params fmc_adc_common_exp_ops"
  by (simp add: fmc_adc_common_params_def fmc_adc_common_exp_ops_def fmc_adc_common_defs exp_simps param_op_def u32_args)

lemma fmc_adc_common_module: "param_module fmc_adc_common_params fmc_adc_common_exp_ops"
  using fmc_adc_common_spec fmc_adc_common_apart fmc_adc_common_args by (simp add: param_module_def)

lemma fmc_adc_common_opcodes: "map (\<lambda>op. (dop_name op, opcode op)) fmc_adc_common_exp_ops = fmc_adc_common_codes"
  by (simp add: fmc_adc_common_exp_ops_def fmc_adc_common_codes_def fmc_adc_common_defs exp_simps)

lemma fmc_adc_common_distinct: "distinct (map opcode fmc_adc_common_exp_ops)"
  by (simp add: fmc_adc_common_exp_ops_def fmc_adc_common_defs exp_simps)

section \<open>The module fmcpico1m_4ch\<close>

named_theorems fmcpico1m_4ch_defs

definition FMCPICO1M_4CH_SDB_DEVID :: u32 where "FMCPICO1M_4CH_SDB_DEVID = 0x669f7e38"
definition FMCPICO1M_4CH_SDB_NAME :: string where "FMCPICO1M_4CH_SDB_NAME = ''FMCPICO1M_4CH''"

text \<open>Registers and fields.\<close>

definition WB_FMCPICO1M_4CH_CSR_REG_FMC_CTL :: u64 where [fmcpico1m_4ch_defs]: "WB_FMCPICO1M_4CH_CSR_REG_FMC_CTL = 0x4"
definition WB_FMCPICO1M_4CH_CSR_FMC_CTL_LED1 :: u32 where [fmcpico1m_4ch_defs]: "WB_FMCPICO1M_4CH_CSR_FMC_CTL_LED1 = WBGEN2_GEN_MASK 0 1"
definition WB_FMCPICO1M_4CH_CSR_FMC_CTL_LED2 :: u32 where [fmcpico1m_4ch_defs]: "WB_FMCPICO1M_4CH_CSR_FMC_CTL_LED2 = WBGEN2_GEN_MASK 1 1"
definition WB_FMCPICO1M_4CH_CSR_REG_RNG_CTL :: u64 where [fmcpico1m_4ch_defs]: "WB_FMCPICO1M_4CH_CSR_REG_RNG_CTL = 0x8"
definition WB_FMCPICO1M_4CH_CSR_RNG_CTL_R0 :: u32 where [fmcpico1m_4ch_defs]: "WB_FMCPICO1M_4CH_CSR_RNG_CTL_R0 = WBGEN2_GEN_MASK 0 1"
definition WB_FMCPICO1M_4CH_CSR_RNG_CTL_R1 :: u32 where [fmcpico1m_4ch_defs]: "WB_FMCPICO1M_4CH_CSR_RNG_CTL_R1 = WBGEN2_GEN_MASK 8 1"
definition WB_FMCPICO1M_4CH_CSR_RNG_CTL_R2 :: u32 where [fmcpico1m_4ch_defs]: "WB_FMCPICO1M_4CH_CSR_RNG_CTL_R2 = WBGEN2_GEN_MASK 16 1"
definition WB_FMCPICO1M_4CH_CSR_RNG_CTL_R3 :: u32 where [fmcpico1m_4ch_defs]: "WB_FMCPICO1M_4CH_CSR_RNG_CTL_R3 = WBGEN2_GEN_MASK 24 1"
definition WB_FMCPICO1M_4CH_CSR_REG_DATA0 :: u64 where [fmcpico1m_4ch_defs]: "WB_FMCPICO1M_4CH_CSR_REG_DATA0 = 0xc"
definition WB_FMCPICO1M_4CH_CSR_REG_DATA1 :: u64 where [fmcpico1m_4ch_defs]: "WB_FMCPICO1M_4CH_CSR_REG_DATA1 = 0x10"
definition WB_FMCPICO1M_4CH_CSR_REG_DATA2 :: u64 where [fmcpico1m_4ch_defs]: "WB_FMCPICO1M_4CH_CSR_REG_DATA2 = 0x14"
definition WB_FMCPICO1M_4CH_CSR_REG_DATA3 :: u64 where [fmcpico1m_4ch_defs]: "WB_FMCPICO1M_4CH_CSR_REG_DATA3 = 0x18"

text \<open>Exported functions.\<close>

definition s_fmcpico1m_4ch_set_get_ctl_led1 :: "u32 \<Rightarrow> ('o, 'h, 'p) exp_func" where [fmcpico1m_4ch_defs]:
  "s_fmcpico1m_4ch_set_get_ctl_led1 junk = SET_GET_PARAM 0 WB_FMCPICO1M_4CH_CSR_REG_FMC_CTL (Single_Bit WB_FMCPICO1M_4CH_CSR_FMC_CTL_LED1) (Some (0, 1)) None None junk"

definition s_fmcpico1m_4ch_set_get_ctl_led2 :: "u32 \<Rightarrow> ('o, 'h, 'p) exp_func" where [fmcpico1m_4ch_defs]:
  "s_fmcpico1m_4ch_set_get_ctl_led2 junk = SET_GET_PARAM 0 WB_FMCPICO1M_4CH_CSR_REG_FMC_CTL (Single_Bit WB_FMCPICO1M_4CH_CSR_FMC_CTL_LED2) (Some (0, 1)) None None junk"

definition s_fmcpico1m_4ch_set_get_rng_r0 :: "u32 \<Rightarrow> ('o, 'h, 'p) exp_func" where [fmcpico1m_4ch_defs]:
  "s_fmcpico1m_4ch_set_get_rng_r0 junk = SET_GET_PARAM 0 WB_FMCPICO1M_4CH_CSR_REG_RNG_CTL (Single_Bit WB_FMCPICO1M_4CH_CSR_RNG_CTL_R0) (Some (0, 1)) None None junk"

definition s_fmcpico1m_4ch_set_get_rng_r1 :: "u32 \<Rightarrow> ('o, 'h, 'p) exp_func" where [fmcpico1m_4ch_defs]:
  "s_fmcpico1m_4ch_set_get_rng_r1 junk = SET_GET_PARAM 0 WB_FMCPICO1M_4CH_CSR_REG_RNG_CTL (Single_Bit WB_FMCPICO1M_4CH_CSR_RNG_CTL_R1) (Some (0, 1)) None None junk"

definition s_fmcpico1m_4ch_set_get_rng_r2 :: "u32 \<Rightarrow> ('o, 'h, 'p) exp_func" where [fmcpico1m_4ch_defs]:
  "s_fmcpico1m_4ch_set_get_rng_r2 junk = SET_GET_PARAM 0 WB_FMCPICO1M_4CH_CSR_REG_RNG_CTL (Single_Bit WB_FMCPICO1M_4CH_CSR_RNG_CTL_R2) (Some (0, 1)) None None junk"

definition s_fmcpico1m_4ch_set_get_rng_r3 :: "u32 \<Rightarrow> ('o, 'h, 'p) exp_func" where [fmcpico1m_4ch_defs]:
  "s_fmcpico1m_4ch_set_get_rng_r3 junk = SET_GET_PARAM 0 WB_FMCPICO1M_4CH_CSR_REG_RNG_CTL (Single_Bit WB_FMCPICO1M_4CH_CSR_RNG_CTL_R3) (Some (0, 1)) None None junk"

definition s_fmcpico1m_4ch_set_get_adc_data0 :: "u32 \<Rightarrow> ('o, 'h, 'p) exp_func" where [fmcpico1m_4ch_defs]:
  "s_fmcpico1m_4ch_set_get_adc_data0 junk = SET_GET_PARAM 0 WB_FMCPICO1M_4CH_CSR_REG_DATA0 whole_reg None None None junk"

definition s_fmcpico1m_4ch_set_get_adc_data1 :: "u32 \<Rightarrow> ('o, 'h, 'p) exp_func" where [fmcpico1m_4ch_defs]:
  "s_fmcpico1m_4ch_set_get_adc_data1 junk = SET_GET_PARAM 0 WB_FMCPICO1M_4CH_CSR_REG_DATA1 whole_reg None None None junk"

definition s_fmcpico1m_4ch_set_get_adc_data2 :: "u32 \<Rightarrow> ('o, 'h, 'p) exp_func" where [fmcpico1m_4ch_defs]:
  "s_fmcpico1m_4ch_set_get_adc_data2 junk = SET_GET_PARAM 0 WB_FMCPICO1M_4CH_CSR_REG_DATA2 whole_reg None None None junk"

definition s_fmcpico1m_4ch_set_get_adc_data3 :: "u32 \<Rightarrow> ('o, 'h, 'p) exp_func" where [fmcpico1m_4ch_defs]:
  "s_fmcpico1m_4ch_set_get_adc_data3 junk = SET_GET_PARAM 0 WB_FMCPICO1M_4CH_CSR_REG_DATA3 whole_reg None None None junk"

definition fmcpico1m_4ch_exp_fp :: "u32 \<Rightarrow> ('o, 'h, 'p) exp_func list" where
  "fmcpico1m_4ch_exp_fp junk =
     [s_fmcpico1m_4ch_set_get_ctl_led1 junk, s_fmcpico1m_4ch_set_get_ctl_led2 junk,
      s_fmcpico1m_4ch_set_get_rng_r0 junk, s_fmcpico1m_4ch_set_get_rng_r1 junk,
      s_fmcpico1m_4ch_set_get_rng_r2 junk, s_fmcpico1m_4ch_set_get_rng_r3 junk,
      s_fmcpico1m_4ch_set_get_adc_data0 junk, s_fmcpico1m_4ch_set_get_adc_data1 junk,
      s_fmcpico1m_4ch_set_get_adc_data2 junk, s_fmcpico1m_4ch_set_get_adc_data3 junk]"

text \<open>Opcodes and descriptors.\<close>

definition fmcpico1m_4ch_codes :: "(string \<times> u32) list" where
  "fmcpico1m_4ch_codes =
     [(''fmcpico1m_4ch_set_get_led1'', 0), (''fmcpico1m_4ch_set_get_led2'', 1),
      (''fmcpico1m_4ch_set_get_rng_r0'', 2), (''fmcpico1m_4ch_set_get_rng_r1'', 3),
      (''fmcpico1m_4ch_set_get_rng_r2'', 4), (''fmcpico1m_4ch_set_get_rng_r3'', 5),
      (''fmcpico1m_4ch_set_get_adc_data0'', 6), (''fmcpico1m_4ch_set_get_adc_data1'', 7),
      (''fmcpico1m_4ch_set_get_adc_data2'', 8), (''fmcpico1m_4ch_set_get_adc_data3'', 9)]"

definition fmcpico1m_4ch_set_get_led1_exp :: "('w, msg_args) disp_op" where [fmcpico1m_4ch_defs]: "fmcpico1m_4ch_set_get_led1_exp = param_exp ''fmcpico1m_4ch_set_get_led1'' 0"
definition fmcpico1m_4ch_set_get_led2_exp :: "('w, msg_args) disp_op" where [fmcpico1m_4ch_defs]: "fmcpico1m_4ch_set_get_led2_exp = param_exp ''fmcpico1m_4ch_set_get_led2'' 1"
definition fmcpico1m_4ch_set_get_rng_r0_exp :: "('w, msg_args) disp_op" where [fmcpico1m_4ch_defs]: "fmcpico1m_4ch_set_get_rng_r0_exp = param_exp ''fmcpico1m_4ch_set_get_rng_r0'' 2"
definition fmcpico1m_4ch_set_get_rng_r1_exp :: "('w, msg_args) disp_op" where [fmcpico1m_4ch_defs]: "fmcpico1m_4ch_set_get_rng_r1_exp = param_exp ''fmcpico1m_4ch_set_get_rng_r1'' 3"
definition fmcpico1m_4ch_set_get_rng_r2_exp :: "('w, msg_args) disp_op" where [fmcpico1m_4ch_defs]: "fmcpico1m_4ch_set_get_rng_r2_exp = param_exp ''fmcpico1m_4ch_set_get_rng_r2'' 4"
definition fmcpico1m_4ch_set_get_rng_r3_exp :: "('w, msg_args) disp_op" where [fmcpico1m_4ch_defs]: "fmcpico1m_4ch_set_get_rng_r3_exp = param_exp ''fmcpico1m_4ch_set_get_rng_r3'' 5"
definition fmcpico1m_4ch_set_get_adc_data0_exp :: "('w, msg_args) disp_op" where [fmcpico1m_4ch_defs]: "fmcpico1m_4ch_set_get_adc_data0_exp = param_exp ''fmcpico1m_4ch_set_get_adc_data0'' 6"
definition fmcpico1m_4ch_set_get_adc_data1_exp :: "('w, msg_args) disp_op" where [fmcpico1m_4ch_defs]: "fmcpico1m_4ch_set_get_adc_data1_exp = param_exp ''fmcpico1m_4ch_set_get_adc_data1'' 7"
definition fmcpico1m_4ch_set_get_adc_data2_exp :: "('w, msg_args) disp_op" where [fmcpico1m_4ch_defs]: "fmcpico1m_4ch_set_get_adc_data2_exp = param_exp ''fmcpico1m_4ch_set_get_adc_data2'' 8"
definition fmcpico1m_4ch_set_get_adc_data3_exp :: "('w, msg_args) disp_op" where [fmcpico1m_4ch_defs]: "fmcpico1m_4ch_set_get_adc_data3_exp = param_exp ''fmcpico1m_4ch_set_get_adc_data3'' 9"

definition fmcpico1m_4ch_exp_ops :: "('w, msg_args) disp_op list" where
  "fmcpico1m_4ch_exp_ops =
     [fmcpico1m_4ch_set_get_led1_exp, fmcpico1m_4ch_set_get_led2_exp, fmcpico1m_4ch_set_get_rng_r0_exp,
      fmcpico1m_4ch_set_get_rng_r1_exp, fmcpico1m_4ch_set_get_rng_r2_exp, fmcpico1m_4ch_set_get_rng_r3_exp,
      fmcpico1m_4ch_set_get_adc_data0_exp, fmcpico1m_4ch_set_get_adc_data1_exp,
      fmcpico1m_4ch_set_get_adc_data2_exp, fmcpico1m_4ch_set_get_adc_data3_exp]"

text \<open>Life cycle.\<close>

definition fmcpico1m_4ch_ops :: "'w smio_ops" where "fmcpico1m_4ch_ops = not_impl_ops"

definition smio_fmcpico1m_4ch_new :: "bool \<Rightarrow> ('o, unit, 'p) smio \<Rightarrow> 'p \<Rightarrow> (unit option \<times> 'p) option" where
  "smio_fmcpico1m_4ch_new ok self p = plain_new ok self p"

definition smio_fmcpico1m_4ch_destroy :: "unit option \<Rightarrow> smio_err \<times> unit option" where
  "smio_fmcpico1m_4ch_destroy self_p = plain_destroy self_p"

definition fmcpico1m_4ch_init ::
  "bool \<Rightarrow> (nat \<Rightarrow> bool) \<Rightarrow> bool \<Rightarrow> u32 \<Rightarrow> nat list \<Rightarrow> ('v smio_ops, unit, 'p) smio \<Rightarrow> 'p \<Rightarrow>
     (('v smio_ops, unit, 'p) smio_world, msg_args) dheap \<Rightarrow>
     (smio_err \<times> ('v smio_ops, unit, 'p) smio \<times> 'p \<times> (('v smio_ops, unit, 'p) smio_world, msg_args) dheap) option" where
  "fmcpico1m_4ch_init ok ze al junk exp_ops self p h =
     mod_init ok ze FMCPICO1M_4CH_SDB_DEVID FMCPICO1M_4CH_SDB_NAME fmcpico1m_4ch_ops exp_ops (fmcpico1m_4ch_exp_fp junk) (smio_fmcpico1m_4ch_new al) self p h"

definition fmcpico1m_4ch_shutdown :: "('v smio_ops, unit, 'p) smio \<Rightarrow> smio_err \<times> ('v smio_ops, unit, 'p) smio" where
  "fmcpico1m_4ch_shutdown self = mod_shutdown self"

text \<open>The parameters as a store.\<close>

definition fmcpico1m_4ch_params :: "param_spec list" where
  "fmcpico1m_4ch_params =
     [plain 4 (Bit 0) (Some (0, 1)), plain 4 (Bit 1) (Some (0, 1)), plain 8 (Bit 0) (Some (0, 1)),
      plain 8 (Bit 8) (Some (0, 1)), plain 8 (Bit 16) (Some (0, 1)), plain 8 (Bit 24) (Some (0, 1)),
      plain 12 Whole None, plain 16 Whole None, plain 20 Whole None, plain 24 Whole None]"

lemma fmcpico1m_4ch_fp: "fmcpico1m_4ch_exp_fp junk = map (param_func junk) fmcpico1m_4ch_params"
  by (simp add: fmcpico1m_4ch_exp_fp_def fmcpico1m_4ch_params_def fmcpico1m_4ch_defs param_func_simps WBGEN2_GEN_MASK_def)

lemma fmcpico1m_4ch_spec: "list_all spec_ok fmcpico1m_4ch_params"
  by (simp add: fmcpico1m_4ch_params_def spec_ok_def)

lemma fmcpico1m_4ch_apart: "specs_apart fmcpico1m_4ch_params"
  by (simp add: fmcpico1m_4ch_params_def spec_apart_def last_reg_def)

lemma fmcpico1m_4ch_args: "list_all2 param_op fmcpico1m_4ch_params fmcpico1m_4ch_exp_ops"
  by (simp add: fmcpico1m_4ch_params_def fmcpico1m_4ch_exp_ops_def fmcpico1m_4ch_defs exp_simps param_op_def u32_args)

lemma fmcpico1m_4ch_module: "param_module fmcpico1m_4ch_params fmcpico1m_4ch_exp_ops"
  using fmcpico1m_4ch_spec fmcpico1m_4ch_apart fmcpico1m_4ch_args by (simp add: param_module_def)

lemma fmcpico1m_4ch_opcodes: "map (\<lambda>op. (dop_name op, opcode op)) fmcpico1m_4ch_exp_ops = fmcpico1m_4ch_codes"
  by (simp add: fmcpico1m_4ch_exp_ops_def fmcpico1m_4ch_codes_def fmcpico1m_4ch_defs exp_simps)

lemma fmcpico1m_4ch_distinct: "distinct (map opcode fmcpico1m_4ch_exp_ops)"
  by (simp add: fmcpico1m_4ch_exp_ops_def fmcpico1m_4ch_defs exp_simps)

section \<open>The module rtmlamp_ohwr\<close>

named_theorems rtmlamp_ohwr_defs

definition RTMLAMP_OHWR_SDB_DEVID :: u32 where "RTMLAMP_OHWR_SDB_DEVID = 0xa1248bec"
definition RTMLAMP_OHWR_SDB_NAME :: string where "RTMLAMP_OHWR_SDB_NAME = ''RTMLAMP_OHWR''"

text \<open>Registers and fields.\<close>

definition RTMLAMP_OHWR_REG_STA :: u64 where [rtmlamp_ohwr_defs]: "RTMLAMP_OHWR_REG_STA = 0x0"
definition RTMLAMP_OHWR_REG_CTL :: u64 where [rtmlamp_ohwr_defs]: "RTMLAMP_OHWR_REG_CTL = 0x4"
definition RTMLAMP_OHWR_CTL_DAC_DATA_FROM_WB :: u32 where [rtmlamp_ohwr_defs]: "RTMLAMP_OHWR_CTL_DAC_DATA_FROM_WB = 0x1"
definition RTMLAMP_OHWR_REG_CH_0_STA :: u64 where [rtmlamp_ohwr_defs]: "RTMLAMP_OHWR_REG_CH_0_STA = 0x100"
definition RTMLAMP_OHWR_CH_0_STA_AMP_IFLAG_L :: u32 where [rtmlamp_ohwr_defs]: "RTMLAMP_OHWR_CH_0_STA_AMP_IFLAG_L = 0x1"
definition RTMLAMP_OHWR_CHAN_OFFSET :: u32 where [rtmlamp_ohwr_defs]: "RTMLAMP_OHWR_CHAN_OFFSET = 12"
definition RTMLAMP_OHWR_NUM_CHAN :: u32 where [rtmlamp_ohwr_defs]: "RTMLAMP_OHWR_NUM_CHAN = 12"
definition RTMLAMP_OHWR_CH_0_STA_AMP_TFLAG_L :: u32 where [rtmlamp_ohwr_defs]: "RTMLAMP_OHWR_CH_0_STA_AMP_TFLAG_L = 0x2"
definition RTMLAMP_OHWR_CH_0_STA_AMP_IFLAG_R :: u32 where [rtmlamp_ohwr_defs]: "RTMLAMP_OHWR_CH_0_STA_AMP_IFLAG_R = 0x4"
definition RTMLAMP_OHWR_CH_0_STA_AMP_TFLAG_R :: u32 where [rtmlamp_ohwr_defs]: "RTMLAMP_OHWR_CH_0_STA_AMP_TFLAG_R = 0x8"
definition RTMLAMP_OHWR_REG_CH_0_CTL :: u64 where [rtmlamp_ohwr_defs]: "RTMLAMP_OHWR_REG_CH_0_CTL = 0x104"
definition RTMLAMP_OHWR_CH_0_CTL_AMP_EN :: u32 where [rtmlamp_ohwr_defs]: "RTMLAMP_OHWR_CH_0_CTL_AMP_EN = 0x1"
definition RTMLAMP_OHWR_REG_CH_0_DAC :: u64 where [rtmlamp_ohwr_defs]: "RTMLAMP_OHWR_REG_CH_0_DAC = 0x108"
definition RTMLAMP_OHWR_CH_0_DAC_DATA :: param_field where
  "RTMLAMP_OHWR_CH_0_DAC_DATA = Mult_Bit (\<lambda>v. drop_bit 0 (v AND 0xffff)) (\<lambda>v. push_bit 0 (v AND 0xffff)) 0xffff"
definition RTMLAMP_OHWR_CH_0_DAC_WR :: u32 where [rtmlamp_ohwr_defs]: "RTMLAMP_OHWR_CH_0_DAC_WR = 0x10000"

text \<open>Exported functions.\<close>

definition s_rtmlamp_ohwr_set_get_sta :: "u32 \<Rightarrow> ('o, 'h, 'p) exp_func" where [rtmlamp_ohwr_defs]:
  "s_rtmlamp_ohwr_set_get_sta junk = SET_GET_PARAM 0 RTMLAMP_OHWR_REG_STA whole_reg None None None junk"

definition s_rtmlamp_ohwr_set_get_dac_data_from_wb :: "u32 \<Rightarrow> ('o, 'h, 'p) exp_func" where [rtmlamp_ohwr_defs]:
  "s_rtmlamp_ohwr_set_get_dac_data_from_wb junk = SET_GET_PARAM 0 RTMLAMP_OHWR_REG_CTL (Single_Bit RTMLAMP_OHWR_CTL_DAC_DATA_FROM_WB) (Some (0, 1)) None None junk"

definition s_rtmlamp_ohwr_set_get_amp_iflag_l :: "u32 \<Rightarrow> ('o, 'h, 'p) exp_func" where [rtmlamp_ohwr_defs]:
  "s_rtmlamp_ohwr_set_get_amp_iflag_l junk = SET_GET_PARAM_CHANNEL 0 RTMLAMP_OHWR_REG_CH_0_STA (Single_Bit RTMLAMP_OHWR_CH_0_STA_AMP_IFLAG_L)
     RTMLAMP_OHWR_CHAN_OFFSET RTMLAMP_OHWR_NUM_CHAN (Some (0, 1)) None None junk"

definition s_rtmlamp_ohwr_set_get_amp_tflag_l :: "u32 \<Rightarrow> ('o, 'h, 'p) exp_func" where [rtmlamp_ohwr_defs]:
  "s_rtmlamp_ohwr_set_get_amp_tflag_l junk = SET_GET_PARAM_CHANNEL 0 RTMLAMP_OHWR_REG_CH_0_STA (Single_Bit RTMLAMP_OHWR_CH_0_STA_AMP_TFLAG_L)
     RTMLAMP_OHWR_CHAN_OFFSET RTMLAMP_OHWR_NUM_CHAN (Some (0, 1)) None None junk"

definition s_rtmlamp_ohwr_set_get_amp_iflag_r :: "u32 \<Rightarrow> ('o, 'h, 'p) exp_func" where [rtmlamp_ohwr_defs]:
  "s_rtmlamp_ohwr_set_get_amp_iflag_r junk = SET_GET_PARAM_CHANNEL 0 RTMLAMP_OHWR_REG_CH_0_STA (Single_Bit RTMLAMP_OHWR_CH_0_STA_AMP_IFLAG_R)
     RTMLAMP_OHWR_CHAN_OFFSET RTMLAMP_OHWR_NUM_CHAN (Some (0, 1)) None None junk"

definition s_rtmlamp_ohwr_set_get_amp_tflag_r :: "u32 \<Rightarrow> ('o, 'h, 'p) exp_func" where [rtmlamp_ohwr_defs]:
  "s_rtmlamp_ohwr_set_get_amp_tflag_r junk = SET_GET_PARAM_CHANNEL 0 RTMLAMP_OHWR_REG_CH_0_STA (Single_Bit RTMLAMP_OHWR_CH_0_STA_AMP_TFLAG_R)
     RTMLAMP_OHWR_CHAN_OFFSET RTMLAMP_OHWR_NUM_CHAN (Some (0, 1)) None None junk"

definition s_rtmlamp_ohwr_set_get_amp_en :: "u32 \<Rightarrow> ('o, 'h, 'p) exp_func" where [rtmlamp_ohwr_defs]:
  "s_rtmlamp_ohwr_set_get_amp_en junk = SET_GET_PARAM_CHANNEL 0 RTMLAMP_OHWR_REG_CH_0_CTL (Single_Bit RTMLAMP_OHWR_CH_0_CTL_AMP_EN)
     RTMLAMP_OHWR_CHAN_OFFSET RTMLAMP_OHWR_NUM_CHAN (Some (0, 1)) None None junk"

definition s_rtmlamp_ohwr_set_get_dac_data :: "u32 \<Rightarrow> ('o, 'h, 'p) exp_func" where [rtmlamp_ohwr_defs]:
  "s_rtmlamp_ohwr_set_get_dac_data junk = SET_GET_PARAM_CHANNEL 0 RTMLAMP_OHWR_REG_CH_0_DAC RTMLAMP_OHWR_CH_0_DAC_DATA
     RTMLAMP_OHWR_CHAN_OFFSET RTMLAMP_OHWR_NUM_CHAN (Some (0, 0xffff)) None None junk"

definition s_rtmlamp_ohwr_set_get_dac_wr :: "u32 \<Rightarrow> ('o, 'h, 'p) exp_func" where [rtmlamp_ohwr_defs]:
  "s_rtmlamp_ohwr_set_get_dac_wr junk = SET_GET_PARAM_CHANNEL 0 RTMLAMP_OHWR_REG_CH_0_DAC (Single_Bit RTMLAMP_OHWR_CH_0_DAC_WR)
     RTMLAMP_OHWR_CHAN_OFFSET RTMLAMP_OHWR_NUM_CHAN (Some (0, 1)) None None junk"

definition rtmlamp_ohwr_exp_fp :: "u32 \<Rightarrow> ('o, 'h, 'p) exp_func list" where
  "rtmlamp_ohwr_exp_fp junk =
     [s_rtmlamp_ohwr_set_get_sta junk, s_rtmlamp_ohwr_set_get_dac_data_from_wb junk,
      s_rtmlamp_ohwr_set_get_amp_iflag_l junk, s_rtmlamp_ohwr_set_get_amp_tflag_l junk,
      s_rtmlamp_ohwr_set_get_amp_iflag_r junk, s_rtmlamp_ohwr_set_get_amp_tflag_r junk,
      s_rtmlamp_ohwr_set_get_amp_en junk, s_rtmlamp_ohwr_set_get_dac_data junk,
      s_rtmlamp_ohwr_set_get_dac_wr junk]"

text \<open>Opcodes and descriptors.\<close>

definition rtmlamp_ohwr_codes :: "(string \<times> u32) list" where
  "rtmlamp_ohwr_codes =
     [(''rtmlamp_ohwr_sta'', 0), (''rtmlamp_ohwr_dac_data_from_wb'', 1), (''rtmlamp_ohwr_amp_iflag_l'', 100),
      (''rtmlamp_ohwr_amp_tflag_l'', 101), (''rtmlamp_ohwr_amp_iflag_r'', 102),
      (''rtmlamp_ohwr_amp_tflag_r'', 103), (''rtmlamp_ohwr_amp_en'', 104), (''rtmlamp_ohwr_dac_data'', 105),
      (''rtmlamp_ohwr_dac_wr'', 106)]"

definition rtmlamp_ohwr_sta_exp :: "('w, msg_args) disp_op" where [rtmlamp_ohwr_defs]: "rtmlamp_ohwr_sta_exp = param_exp ''rtmlamp_ohwr_sta'' 0"
definition rtmlamp_ohwr_dac_data_from_wb_exp :: "('w, msg_args) disp_op" where [rtmlamp_ohwr_defs]: "rtmlamp_ohwr_dac_data_from_wb_exp = param_exp ''rtmlamp_ohwr_dac_data_from_wb'' 1"
definition rtmlamp_ohwr_amp_iflag_l_exp :: "('w, msg_args) disp_op" where [rtmlamp_ohwr_defs]: "rtmlamp_ohwr_amp_iflag_l_exp = chan_exp ''rtmlamp_ohwr_amp_iflag_l'' 100"
definition rtmlamp_ohwr_amp_tflag_l_exp :: "('w, msg_args) disp_op" where [rtmlamp_ohwr_defs]: "rtmlamp_ohwr_amp_tflag_l_exp = chan_exp ''rtmlamp_ohwr_amp_tflag_l'' 101"
definition rtmlamp_ohwr_amp_iflag_r_exp :: "('w, msg_args) disp_op" where [rtmlamp_ohwr_defs]: "rtmlamp_ohwr_amp_iflag_r_exp = chan_exp ''rtmlamp_ohwr_amp_iflag_r'' 102"
definition rtmlamp_ohwr_amp_tflag_r_exp :: "('w, msg_args) disp_op" where [rtmlamp_ohwr_defs]: "rtmlamp_ohwr_amp_tflag_r_exp = chan_exp ''rtmlamp_ohwr_amp_tflag_r'' 103"
definition rtmlamp_ohwr_amp_en_exp :: "('w, msg_args) disp_op" where [rtmlamp_ohwr_defs]: "rtmlamp_ohwr_amp_en_exp = chan_exp ''rtmlamp_ohwr_amp_en'' 104"
definition rtmlamp_ohwr_dac_data_exp :: "('w, msg_args) disp_op" where [rtmlamp_ohwr_defs]: "rtmlamp_ohwr_dac_data_exp = chan_exp ''rtmlamp_ohwr_dac_data'' 105"
definition rtmlamp_ohwr_dac_wr_exp :: "('w, msg_args) disp_op" where [rtmlamp_ohwr_defs]: "rtmlamp_ohwr_dac_wr_exp = chan_exp ''rtmlamp_ohwr_dac_wr'' 106"

definition rtmlamp_ohwr_exp_ops :: "('w, msg_args) disp_op list" where
  "rtmlamp_ohwr_exp_ops =
     [rtmlamp_ohwr_sta_exp, rtmlamp_ohwr_dac_data_from_wb_exp, rtmlamp_ohwr_amp_iflag_l_exp,
      rtmlamp_ohwr_amp_tflag_l_exp, rtmlamp_ohwr_amp_iflag_r_exp, rtmlamp_ohwr_amp_tflag_r_exp,
      rtmlamp_ohwr_amp_en_exp, rtmlamp_ohwr_dac_data_exp, rtmlamp_ohwr_dac_wr_exp]"

text \<open>Life cycle.\<close>

definition rtmlamp_ohwr_ops :: "'w smio_ops" where "rtmlamp_ohwr_ops = not_impl_ops"

definition smio_rtmlamp_ohwr_new :: "bool \<Rightarrow> ('o, unit, 'p) smio \<Rightarrow> 'p \<Rightarrow> (unit option \<times> 'p) option" where
  "smio_rtmlamp_ohwr_new ok self p = plain_new ok self p"

definition smio_rtmlamp_ohwr_destroy :: "unit option \<Rightarrow> smio_err \<times> unit option" where
  "smio_rtmlamp_ohwr_destroy self_p = plain_destroy self_p"

definition rtmlamp_ohwr_init ::
  "bool \<Rightarrow> (nat \<Rightarrow> bool) \<Rightarrow> bool \<Rightarrow> u32 \<Rightarrow> nat list \<Rightarrow> ('v smio_ops, unit, 'p) smio \<Rightarrow> 'p \<Rightarrow>
     (('v smio_ops, unit, 'p) smio_world, msg_args) dheap \<Rightarrow>
     (smio_err \<times> ('v smio_ops, unit, 'p) smio \<times> 'p \<times> (('v smio_ops, unit, 'p) smio_world, msg_args) dheap) option" where
  "rtmlamp_ohwr_init ok ze al junk exp_ops self p h =
     mod_init ok ze RTMLAMP_OHWR_SDB_DEVID RTMLAMP_OHWR_SDB_NAME rtmlamp_ohwr_ops exp_ops (rtmlamp_ohwr_exp_fp junk) (smio_rtmlamp_ohwr_new al) self p h"

definition rtmlamp_ohwr_shutdown :: "('v smio_ops, unit, 'p) smio \<Rightarrow> smio_err \<times> ('v smio_ops, unit, 'p) smio" where
  "rtmlamp_ohwr_shutdown self = mod_shutdown self"

text \<open>The parameters as a store.\<close>

lemma rtmlamp_dac: "RTMLAMP_OHWR_CH_0_DAC_DATA = gen_field 0 16"
  unfolding RTMLAMP_OHWR_CH_0_DAC_DATA_def gen_field_def
  by (simp add: WBGEN2_GEN_READ_def WBGEN2_GEN_WRITE_def WBGEN2_GEN_MASK_def mask_eq_exp_minus_1)

definition rtmlamp_ohwr_params :: "param_spec list" where
  "rtmlamp_ohwr_params =
     [plain 0 Whole None, plain 4 (Bit 0) (Some (0, 1)), chans 12 12 256 (Bit 0) (Some (0, 1)),
      chans 12 12 256 (Bit 1) (Some (0, 1)), chans 12 12 256 (Bit 2) (Some (0, 1)),
      chans 12 12 256 (Bit 3) (Some (0, 1)), chans 12 12 260 (Bit 0) (Some (0, 1)),
      chans 12 12 264 (Bits 0 16) (Some (0, 0xffff)), chans 12 12 264 (Bit 16) (Some (0, 1))]"

lemma rtmlamp_ohwr_fp: "rtmlamp_ohwr_exp_fp junk = map (param_func junk) rtmlamp_ohwr_params"
  by (simp add: rtmlamp_ohwr_exp_fp_def rtmlamp_ohwr_params_def rtmlamp_ohwr_defs param_func_simps WBGEN2_GEN_MASK_def rtmlamp_dac)

lemma rtmlamp_ohwr_spec: "list_all spec_ok rtmlamp_ohwr_params"
  by (simp add: rtmlamp_ohwr_params_def spec_ok_def)

lemma rtmlamp_ohwr_apart: "specs_apart rtmlamp_ohwr_params"
  by (simp add: rtmlamp_ohwr_params_def spec_apart_def last_reg_def)

lemma rtmlamp_ohwr_args: "list_all2 param_op rtmlamp_ohwr_params rtmlamp_ohwr_exp_ops"
  by (simp add: rtmlamp_ohwr_params_def rtmlamp_ohwr_exp_ops_def rtmlamp_ohwr_defs exp_simps param_op_def u32_args)

lemma rtmlamp_ohwr_module: "param_module rtmlamp_ohwr_params rtmlamp_ohwr_exp_ops"
  using rtmlamp_ohwr_spec rtmlamp_ohwr_apart rtmlamp_ohwr_args by (simp add: param_module_def)

lemma rtmlamp_ohwr_opcodes: "map (\<lambda>op. (dop_name op, opcode op)) rtmlamp_ohwr_exp_ops = rtmlamp_ohwr_codes"
  by (simp add: rtmlamp_ohwr_exp_ops_def rtmlamp_ohwr_codes_def rtmlamp_ohwr_defs exp_simps)

lemma rtmlamp_ohwr_distinct: "distinct (map opcode rtmlamp_ohwr_exp_ops)"
  by (simp add: rtmlamp_ohwr_exp_ops_def rtmlamp_ohwr_defs exp_simps)

section \<open>The module swap\<close>

named_theorems swap_defs

definition SWAP_SDB_DEVID :: u32 where "SWAP_SDB_DEVID = 0x12897592"
definition SWAP_SDB_NAME :: string where "SWAP_SDB_NAME = ''SWAP''"

text \<open>Registers and fields.\<close>

definition BPM_SWAP_REG_CTRL :: u64 where [swap_defs]: "BPM_SWAP_REG_CTRL = 0x0"
definition BPM_SWAP_CTRL_MODE :: param_field where [swap_defs]: "BPM_SWAP_CTRL_MODE = gen_field 1 2"
definition BPM_SWAP_CTRL_SWAP_DIV_F :: param_field where [swap_defs]: "BPM_SWAP_CTRL_SWAP_DIV_F = gen_field 8 16"
definition BPM_SWAP_REG_DLY :: u64 where [swap_defs]: "BPM_SWAP_REG_DLY = 0x4"
definition BPM_SWAP_DLY_DESWAP :: param_field where [swap_defs]: "BPM_SWAP_DLY_DESWAP = gen_field 0 16"

text \<open>Exported functions.\<close>

definition s_swap_set_get_sw :: "u32 \<Rightarrow> ('o, 'h, 'p) exp_func" where [swap_defs]:
  "s_swap_set_get_sw junk = SET_GET_PARAM 0 BPM_SWAP_REG_CTRL BPM_SWAP_CTRL_MODE (Some (0, 3)) None None junk"

definition s_swap_set_get_div_clk :: "u32 \<Rightarrow> ('o, 'h, 'p) exp_func" where [swap_defs]:
  "s_swap_set_get_div_clk junk = SET_GET_PARAM 0 BPM_SWAP_REG_CTRL BPM_SWAP_CTRL_SWAP_DIV_F (Some (1, 0xffff)) None None junk"

definition s_swap_set_get_sw_dly :: "u32 \<Rightarrow> ('o, 'h, 'p) exp_func" where [swap_defs]:
  "s_swap_set_get_sw_dly junk = SET_GET_PARAM 0 BPM_SWAP_REG_DLY BPM_SWAP_DLY_DESWAP (Some (0, 0xffff)) None None junk"

definition swap_exp_fp :: "u32 \<Rightarrow> ('o, 'h, 'p) exp_func list" where
  "swap_exp_fp junk =
     [s_swap_set_get_sw junk, s_swap_set_get_div_clk junk, s_swap_set_get_sw_dly junk]"

text \<open>Opcodes and descriptors.\<close>

definition swap_codes :: "(string \<times> u32) list" where
  "swap_codes =
     [(''swap_set_get_sw'', 0), (''swap_set_get_div_clk'', 1), (''swap_set_get_sw_dly'', 2)]"

definition swap_set_get_sw_exp :: "('w, msg_args) disp_op" where [swap_defs]: "swap_set_get_sw_exp = param_exp ''swap_set_get_sw'' 0"
definition swap_set_get_div_clk_exp :: "('w, msg_args) disp_op" where [swap_defs]: "swap_set_get_div_clk_exp = param_exp ''swap_set_get_div_clk'' 1"
definition swap_set_get_sw_dly_exp :: "('w, msg_args) disp_op" where [swap_defs]: "swap_set_get_sw_dly_exp = param_exp ''swap_set_get_sw_dly'' 2"

definition swap_exp_ops :: "('w, msg_args) disp_op list" where
  "swap_exp_ops =
     [swap_set_get_sw_exp, swap_set_get_div_clk_exp, swap_set_get_sw_dly_exp]"

text \<open>Life cycle.\<close>

definition swap_ops :: "'w smio_ops" where "swap_ops = not_impl_ops"

definition smio_swap_new :: "bool \<Rightarrow> ('o, unit, 'p) smio \<Rightarrow> 'p \<Rightarrow> (unit option \<times> 'p) option" where
  "smio_swap_new ok self p = plain_new ok self p"

definition smio_swap_destroy :: "unit option \<Rightarrow> smio_err \<times> unit option" where
  "smio_swap_destroy self_p = plain_destroy self_p"

definition swap_init ::
  "bool \<Rightarrow> (nat \<Rightarrow> bool) \<Rightarrow> bool \<Rightarrow> u32 \<Rightarrow> nat list \<Rightarrow> ('v smio_ops, unit, 'p) smio \<Rightarrow> 'p \<Rightarrow>
     (('v smio_ops, unit, 'p) smio_world, msg_args) dheap \<Rightarrow>
     (smio_err \<times> ('v smio_ops, unit, 'p) smio \<times> 'p \<times> (('v smio_ops, unit, 'p) smio_world, msg_args) dheap) option" where
  "swap_init ok ze al junk exp_ops self p h =
     mod_init ok ze SWAP_SDB_DEVID SWAP_SDB_NAME swap_ops exp_ops (swap_exp_fp junk) (smio_swap_new al) self p h"

definition swap_shutdown :: "('v smio_ops, unit, 'p) smio \<Rightarrow> smio_err \<times> ('v smio_ops, unit, 'p) smio" where
  "swap_shutdown self = mod_shutdown self"

text \<open>The parameters as a store.\<close>

definition swap_params :: "param_spec list" where
  "swap_params =
     [plain 0 (Bits 1 2) (Some (0, 3)), plain 0 (Bits 8 16) (Some (1, 0xffff)),
      plain 4 (Bits 0 16) (Some (0, 0xffff))]"

lemma swap_fp: "swap_exp_fp junk = map (param_func junk) swap_params"
  by (simp add: swap_exp_fp_def swap_params_def swap_defs param_func_simps WBGEN2_GEN_MASK_def)

lemma swap_spec: "list_all spec_ok swap_params"
  by (simp add: swap_params_def spec_ok_def)

lemma swap_apart: "specs_apart swap_params"
  by (simp add: swap_params_def spec_apart_def last_reg_def)

lemma swap_args: "list_all2 param_op swap_params swap_exp_ops"
  by (simp add: swap_params_def swap_exp_ops_def swap_defs exp_simps param_op_def u32_args)

lemma swap_module: "param_module swap_params swap_exp_ops"
  using swap_spec swap_apart swap_args by (simp add: param_module_def)

lemma swap_opcodes: "map (\<lambda>op. (dop_name op, opcode op)) swap_exp_ops = swap_codes"
  by (simp add: swap_exp_ops_def swap_codes_def swap_defs exp_simps)

lemma swap_distinct: "distinct (map opcode swap_exp_ops)"
  by (simp add: swap_exp_ops_def swap_defs exp_simps)

end
