(* ===== verification/Sensor_Modules.thy ===== *)
theory Sensor_Modules
  imports Device Mod_Trigger Mod_Timing Mod_Fofb Mod_Orbit Mod_Adc
begin

text \<open>
  The modules whose operations are all parameters, together: what they start into, and how they sit
  between the broker and the device server of a PCI Express board.
\<close>

section \<open>The modules\<close>

text \<open>Each with the specification of its parameters, its descriptors, its functions and its start.\<close>

type_synonym ('v, 'p) mod_world = "('v smio_ops, unit, 'p) smio_world"
type_synonym ('v, 'p) mod_start =
  "bool \<Rightarrow> (nat \<Rightarrow> bool) \<Rightarrow> bool \<Rightarrow> u32 \<Rightarrow> nat list \<Rightarrow> ('v smio_ops, unit, 'p) smio \<Rightarrow> 'p \<Rightarrow>
     (('v, 'p) mod_world, msg_args) dheap \<Rightarrow>
     (smio_err \<times> ('v smio_ops, unit, 'p) smio \<times> 'p \<times> (('v, 'p) mod_world, msg_args) dheap) option"

definition param_modules ::
  "(param_spec list \<times> (('v, 'p) mod_world, msg_args) disp_op list \<times>
     (u32 \<Rightarrow> ('v smio_ops, unit, 'p) exp_func list) \<times> ('v, 'p) mod_start) list" where
  "param_modules =
     [(trigger_iface_params, trigger_iface_exp_ops, trigger_iface_exp_fp, trigger_iface_init),
      (trigger_mux_params, trigger_mux_exp_ops, trigger_mux_exp_fp, trigger_mux_init),
      (afc_timing_params, afc_timing_exp_ops, afc_timing_exp_fp, afc_timing_init),
      (tim_rcv_params, tim_rcv_exp_ops, tim_rcv_exp_fp, tim_rcv_init),
      (fofb_ctrl_params, fofb_ctrl_exp_ops, fofb_ctrl_exp_fp, fofb_ctrl_init),
      (orbit_intlk_params, orbit_intlk_exp_ops, orbit_intlk_exp_fp, orbit_intlk_init),
      (fmc_adc_common_params, fmc_adc_common_exp_ops, fmc_adc_common_exp_fp, fmc_adc_common_init),
      (fmcpico1m_4ch_params, fmcpico1m_4ch_exp_ops, fmcpico1m_4ch_exp_fp, fmcpico1m_4ch_init),
      (rtmlamp_ohwr_params, rtmlamp_ohwr_exp_ops, rtmlamp_ohwr_exp_fp, rtmlamp_ohwr_init),
      (swap_params, swap_exp_ops, swap_exp_fp, swap_init)]"

text \<open>The parameters among them, by position, that are no storage. Some only report: those that the
  repository marks as read-only (the link flags of afc_timing, everything after \<open>Read-Only registers\<close> in
  fofb_ctrl, the status registers of rtmlamp_ohwr, \<open>(ro)\<close> in its header), the flags of orbit_intlk, which
  the client library can only read, and what is by its name a measurement or a counter (the trigger and
  event counters, the alive word, the phase and frequencies of tim_rcv, the ADC data of fmcpico1m_4ch).
  Others are commands, whose bit the hardware takes back: the resets of counters (\<open>Pulse Reset\<close> in the
  trigger defaults) and of the clock manager, the clear bits of orbit_intlk and fofb_ctrl, the activation
  of a new configuration there, and the write strobe of the converters of rtmlamp_ohwr.\<close>

definition volatile_params :: "nat list list" where
  "volatile_params =
     [[2, 3, 6, 7], [], [0, 1, 2, 4, 11, 13, 23, 25, 35, 37], [3..<8], [0, 1] @ [15..<50],
      [1, 4, 6] @ [7..<23] @ [28..<42], [1], [6..<10], [0, 2, 3, 4, 5, 8], []]"

text \<open>What they have in common: parameters that share no bit, in registers below \<open>2 ^ 16\<close>, at
  addresses that are multiples of 4; functions of the two kinds; and the common start, with a handler
  that has no content.\<close>

definition low_regs :: "param_spec list \<Rightarrow> bool" where
  "low_regs ds \<longleftrightarrow> list_all (\<lambda>d. last_reg d < 2 ^ 16 \<and> ps_reg d mod 4 = 0 \<and> ps_offset d mod 4 = 0) ds"

definition common_module ::
  "param_spec list \<times> (('v, 'p) mod_world, msg_args) disp_op list \<times>
     (u32 \<Rightarrow> ('v smio_ops, unit, 'p) exp_func list) \<times> ('v, 'p) mod_start \<Rightarrow> bool" where
  "common_module = (\<lambda>(ds, ops, fp, start).
     param_module ds ops \<and> distinct (map opcode ops) \<and> low_regs ds \<and>
     (\<exists>dus. map fst dus = ds \<and> list_all (\<lambda>(d, unchecked). unchecked \<longrightarrow> d = plain (ps_reg d) Whole None) dus \<and>
        (\<forall>junk. fp junk = mixed_fp DSP_ERR junk dus)) \<and>
     (\<exists>devid name. \<forall>ok ze al junk ps self p h. start ok ze al junk ps self p h =
        mod_init ok ze devid name not_impl_ops ps (fp junk) (plain_new al) self p h))"

lemma common_plain:
  assumes "param_module ds ops" and "distinct (map opcode ops)" and "low_regs ds"
    and "\<And>junk. fp junk = map (param_func junk) ds"
    and "\<And>ok ze al junk ps self p h. start ok ze al junk ps self p h =
        mod_init ok ze devid name not_impl_ops ps (fp junk) (plain_new al) self p h"
  shows "common_module (ds, ops, fp, start)"
proof -
  let ?dus = "map (\<lambda>d. (d, False)) ds"
  have 1: "map fst ?dus = ds" by (simp add: comp_def)
  have 2: "list_all (\<lambda>(d, unchecked). unchecked \<longrightarrow> d = plain (ps_reg d) Whole None) ?dus" by (simp add: list_all_iff)
  have 3: "fp junk = mixed_fp DSP_ERR junk ?dus" for junk by (simp add: assms(4) mixed_fp_def comp_def)
  show ?thesis unfolding common_module_def using assms(1-3,5) 1 2 3 by blast
qed

lemma low_regs_all:
  "low_regs trigger_iface_params" "low_regs trigger_mux_params" "low_regs afc_timing_params" "low_regs tim_rcv_params"
  "low_regs fofb_ctrl_params" "low_regs orbit_intlk_params" "low_regs fmc_adc_common_params"
  "low_regs fmcpico1m_4ch_params" "low_regs rtmlamp_ohwr_params" "low_regs swap_params"
  by (simp_all add: low_regs_def last_reg_def trigger_iface_params_def trigger_mux_params_def afc_timing_params_def
      tim_rcv_params_def fofb_ctrl_params_def orbit_intlk_params_def fmc_adc_common_params_def
      fmcpico1m_4ch_params_def rtmlamp_ohwr_params_def swap_params_def)

lemmas start_defs = mod_init_def smio_trigger_iface_new_def trigger_iface_ops_def

lemma common_orbit: "common_module (orbit_intlk_params, orbit_intlk_exp_ops, orbit_intlk_exp_fp, orbit_intlk_init)"
proof -
  have "orbit_intlk_init ok ze al junk ps self p h = mod_init ok ze ORBIT_INTLK_SDB_DEVID ORBIT_INTLK_SDB_NAME
      not_impl_ops ps (orbit_intlk_exp_fp junk) (plain_new al) self p h" for ok ze al junk ps self p h
    by (simp add: orbit_intlk_init_def orbit_intlk_ops_def smio_orbit_intlk_new_def [abs_def])
  then show ?thesis unfolding common_module_def
    using orbit_intlk_module orbit_intlk_distinct low_regs_all(6) orbit_intlk_kinds_params orbit_intlk_kinds_ok
      orbit_intlk_fp by blast
qed

lemma param_modules_common: "list_all common_module param_modules"
  unfolding param_modules_def list.pred_inject
  apply (intro conjI TrueI common_orbit)
  subgoal by (rule common_plain [OF trigger_iface_module trigger_iface_distinct low_regs_all(1) trigger_iface_fp])
      (simp add: trigger_iface_init_def trigger_iface_ops_def smio_trigger_iface_new_def [abs_def])
  subgoal by (rule common_plain [OF trigger_mux_module trigger_mux_distinct low_regs_all(2) trigger_mux_fp])
      (simp add: trigger_mux_init_def trigger_mux_ops_def smio_trigger_mux_new_def [abs_def])
  subgoal by (rule common_plain [OF afc_timing_module afc_timing_distinct low_regs_all(3) afc_timing_fp])
      (simp add: afc_timing_init_def afc_timing_ops_def smio_afc_timing_new_def [abs_def])
  subgoal by (rule common_plain [OF tim_rcv_module tim_rcv_distinct low_regs_all(4) tim_rcv_fp])
      (simp add: tim_rcv_init_def tim_rcv_ops_def smio_tim_rcv_new_def [abs_def])
  subgoal by (rule common_plain [OF fofb_ctrl_module fofb_ctrl_distinct low_regs_all(5) fofb_ctrl_fp])
      (simp add: fofb_ctrl_init_def fofb_ctrl_ops_def smio_fofb_ctrl_new_def [abs_def])
  subgoal by (rule common_plain [OF fmc_adc_common_module fmc_adc_common_distinct low_regs_all(7) fmc_adc_common_fp])
      (simp add: fmc_adc_common_init_def fmc_adc_common_ops_def smio_fmc_adc_common_new_def [abs_def])
  subgoal by (rule common_plain [OF fmcpico1m_4ch_module fmcpico1m_4ch_distinct low_regs_all(8) fmcpico1m_4ch_fp])
      (simp add: fmcpico1m_4ch_init_def fmcpico1m_4ch_ops_def smio_fmcpico1m_4ch_new_def [abs_def])
  subgoal by (rule common_plain [OF rtmlamp_ohwr_module rtmlamp_ohwr_distinct low_regs_all(9) rtmlamp_ohwr_fp])
      (simp add: rtmlamp_ohwr_init_def rtmlamp_ohwr_ops_def smio_rtmlamp_ohwr_new_def [abs_def])
  subgoal by (rule common_plain [OF swap_module swap_distinct low_regs_all(10) swap_fp])
      (simp add: swap_init_def swap_ops_def smio_swap_new_def [abs_def])
  subgoal by simp
  done

section \<open>Addresses\<close>

text \<open>The base address of a module in the Wishbone window, aligned to the range of its registers.\<close>

definition mod_base :: "u64 \<Rightarrow> bool" where
  "mod_base b \<longleftrightarrow> wb_addr b \<and> take_bit 16 b = 0"

lemma low_part:
  fixes b r :: u64
  assumes b: "take_bit 16 b = 0" and r: "take_bit 16 r = r"
  shows "b AND r = 0" and "drop_bit 16 (b OR r) = drop_bit 16 b"
proof -
  have lo: "\<not> bit b n" if "n < 16" for n using arg_cong [OF b, of "\<lambda>x. bit x n"] that by (simp add: bit_simps)
  have hi: "\<not> bit r n" if "16 \<le> n" for n using arg_cong [OF r, of "\<lambda>x. bit x n"] that by (auto simp: bit_simps)
  have "\<not> (bit b n \<and> bit r n)" for n using lo [of n] hi [of n] by (cases "n < 16") auto
  then show "b AND r = 0" by (intro bit_word_eqI) (simp add: bit_simps)
  show "drop_bit 16 (b OR r) = drop_bit 16 b" by (rule bit_word_eqI) (use hi in \<open>auto simp: bit_simps\<close>)
qed

lemma base_or_addr:
  assumes b: "mod_base (sm_base self)" and t: "take_bit 16 x = x" and w: "word_addr x"
  shows "smio_addr self data_addr x"
proof -
  let ?b = "sm_base self"
  note lp = low_part [OF conjunct2 [OF b [unfolded mod_base_def]] t]
  have hi: "bit (?b OR x) n = bit ?b n" if "16 \<le> n" for n
    using arg_cong [OF lp(2), of "\<lambda>x. bit x (n - 16)"] that by (simp add: bit_simps)
  have lo: "bit x n \<Longrightarrow> n < 16" for n
    using arg_cong [OF t, of "\<lambda>x. bit x n"] by (auto simp: bit_simps)
  have "PCIE_ADDR_BAR (?b OR x) = PCIE_ADDR_BAR ?b"
    by (rule bit_word_eqI) (auto simp: PCIE_ADDR_BAR_def PCIE_ADDR_BAR_SHIFT_def bit_simps dest: lo)
  moreover have "take_bit 48 (PCIE_ADDR_GEN (?b OR x)) = PCIE_ADDR_GEN (?b OR x)"
  proof -
    have g: "take_bit 48 (take_bit 60 ?b) = take_bit 60 ?b" using b by (simp add: mod_base_def wb_addr_def gen_mask)
    have "bit ?b n \<Longrightarrow> n < 60 \<Longrightarrow> n < 48" for n
      using arg_cong [OF g, of "\<lambda>x. bit x n"] by (auto simp: bit_simps)
    then show ?thesis unfolding gen_mask
      by (intro bit_word_eqI) (auto simp: bit_simps dest: lo)
  qed
  moreover have "word_addr (?b OR x)" using w b by (simp add: word_addr_def mod_base_def wb_addr_def)
  ultimately show ?thesis using b lp(1) by (simp add: smio_addr_def data_addr_def wb_addr_def mod_base_def)
qed

lemma mod_slots_mapped:
  assumes b: "mod_base (sm_base self)" and l: "low_regs ds"
  shows "\<forall>(i, c) \<in> slots ds. smio_addr self data_addr (slot_addr (ds ! i) c)"
proof (clarify)
  fix i c assume "(i, c) \<in> slots ds"
  then have i: "i < length ds" "c < ps_count (ds ! i)" by (simp_all add: slots_def)
  with l last_reg_le [OF i(2)] have "ps_reg (ds ! i) + c * ps_offset (ds ! i) < 2 ^ 16"
    by (force simp: low_regs_def list_all_length)
  then have "take_bit 16 (slot_addr (ds ! i) c) = slot_addr (ds ! i) c"
    unfolding slot_addr_def take_bit_of_nat by (simp only: take_bit_nat_eq_self)
  moreover have "ps_reg (ds ! i) mod 4 = 0" "ps_offset (ds ! i) mod 4 = 0"
    using l i(1) by (simp_all add: low_regs_def list_all_length)
  then have "4 dvd ps_reg (ds ! i)" "4 dvd ps_offset (ds ! i)" by (simp_all add: mod_eq_0_iff_dvd)
  then have "word_addr (slot_addr (ds ! i) c)" unfolding slot_addr_def by (intro word_addr_nat) simp
  ultimately show "smio_addr self data_addr (slot_addr (ds ! i) c)" by (rule base_or_addr [OF b])
qed

section \<open>Requests\<close>

text \<open>A started module's functions act as those of its parameters, on any peer behind the bus.\<close>

lemma common_acts:
  assumes m: "common_module (ds, ops, fp, start)"
    and bus: "reg_bus (smio_rd self) (smio_wr self) view good (smio_addr self data_addr)"
    and b: "mod_base (sm_base self)" and h: "sm_handler self = Some ()"
  shows "list_all2 (acts_as self good junk) ds (fp junk)"
proof -
  obtain dus where d: "map fst dus = ds" "list_all (\<lambda>(d, unchecked). unchecked \<longrightarrow> d = plain (ps_reg d) Whole None) dus"
    "fp junk = mixed_fp DSP_ERR junk dus" and l: "low_regs ds" using m unfolding common_module_def by blast
  have "sm_handler self \<noteq> None" using h by simp
  from mixed_acts [OF bus this _ d(2), of junk DSP_ERR] mod_slots_mapped [OF b l] show ?thesis
    unfolding d(1) d(3) .
qed

lemma common_fp_ok:
  assumes "common_module (ds, ops, fp, start)"
  shows "length (fp junk) = length ops" and "\<forall>g \<in> set (fp junk). func_ok g"
proof -
  obtain dus where d: "map fst dus = ds" "fp junk = mixed_fp DSP_ERR junk dus" and p: "param_module ds ops"
    using assms unfolding common_module_def by blast
  show "length (fp junk) = length ops"
    using p d(2) by (auto simp: param_module_def d(1) [symmetric] mixed_fp_def dest: list_all2_lengthD)
  show "\<forall>g \<in> set (fp junk). func_ok g" unfolding d(2) using mixed_ok by blast
qed

subsection \<open>Any request that passes the argument check\<close>

lemma set_get_param_bool:
  "set_get_param rd wr base_addr reg f lims chk fmt junk rw v p ret =
     set_get_param rd wr base_addr reg f lims chk fmt junk (if rw \<noteq> 0 then 1 else 0) v p ret"
  by (simp add: set_get_param_def)

lemma rd_word_4: "length f = 4 \<Longrightarrow> rd_word 4 f = Some (le_word f :: u32)"
  by (simp add: rd_word_def)

lemma fitting_frames:
  assumes "param_op d op" and "list_all2 arg_fits (args op) fs"
  shows "(\<exists>f g. fs = [f, g] \<and> length f = 4 \<and> length g = 4) \<and> ps_chan d = None \<or>
    (\<exists>f g h. fs = [f, g, h] \<and> length f = 4 \<and> length g = 4 \<and> length h = 4) \<and> ps_chan d \<noteq> None"
proof -
  have l: "u32_sized a \<Longrightarrow> arg_fits a f \<Longrightarrow> length f = 4" for a f
    by (simp add: u32_sized_def arg_fits_def)
  show ?thesis
  proof (cases "ps_chan d")
    case None
    then obtain a a' where "args op = [a, a']" "u32_sized a" "u32_sized a'" using assms(1)
      by (auto simp: param_op_def length_Suc_conv numeral_2_eq_2)
    with assms(2) None show ?thesis using l by (auto simp: list_all2_Cons1)
  next
    case (Some x)
    then obtain a a' a'' where "args op = [a, a', a'']" "u32_sized a" "u32_sized a'" "u32_sized a''" using assms(1)
      by (auto simp: param_op_def length_Suc_conv numeral_3_eq_3)
    with assms(2) Some show ?thesis using l [of a] l [of a'] l [of a''] by (auto simp: list_all2_Cons1)
  qed
qed

lemma param_func_frames:
  assumes o: "param_op d op" and f: "list_all2 arg_fits (args op) fs" and i: "i < length ds" "ds ! i = d"
  shows "\<exists>q. rq_param q = i \<and> req_wf ds q \<and>
    (\<forall>(w :: ('o, 'h, 'p) smio_world) ret. param_func junk d w \<lparr>tag = tg, content = fs\<rparr> ret = param_func junk d w \<lparr>tag = tg, content = req_frames ds q\<rparr> ret)"
  using fitting_frames [OF o f]
proof (elim disjE exE conjE)
  fix f g assume c: "ps_chan d = None" and fs: "fs = [f, g]" "length f = 4" "length g = 4"
  let ?q = "\<lparr>rq_param = i, rq_read = (le_word f :: u32) \<noteq> 0, rq_chan = 0, rq_value = le_word g\<rparr>"
  have "param_func junk d w \<lparr>tag = tg, content = fs\<rparr> ret = param_func junk d w \<lparr>tag = tg, content = req_frames ds ?q\<rparr> ret"
    for w :: "('o, 'h, 'p) smio_world" and ret
    using c i fs by (simp add: param_func_def SET_GET_PARAM_def SET_GET_PARAM_GEN_def req_frames_def rd_word_4
        set_get_param_bool [of _ _ _ _ _ _ _ _ _ "le_word f"])
  then show ?thesis using c i by (intro exI [of _ ?q]) (simp add: req_wf_def)
next
  fix f g h assume c: "ps_chan d \<noteq> None" and fs: "fs = [f, g, h]" "length f = 4" "length g = 4" "length h = 4"
  let ?q = "\<lparr>rq_param = i, rq_read = (le_word f :: u32) \<noteq> 0, rq_chan = le_word g, rq_value = le_word h\<rparr>"
  have "param_func junk d w \<lparr>tag = tg, content = fs\<rparr> ret = param_func junk d w \<lparr>tag = tg, content = req_frames ds ?q\<rparr> ret"
    for w :: "('o, 'h, 'p) smio_world" and ret
    using c i fs by (auto simp: param_func_def SET_GET_PARAM_CHANNEL_def SET_GET_PARAM_CHANNEL_GEN_def req_frames_def rd_word_4
        set_get_param_bool [of _ _ _ _ _ _ _ _ _ "le_word f"] split: option.splits)
  then show ?thesis using c i by (intro exI [of _ ?q]) (simp add: req_wf_def del: not_None_eq)
qed

text \<open>So every function of a module, on every request that passes the check, is defined.\<close>

lemma common_typed:
  fixes self :: "('v smio_ops, unit, 'p) smio"
  assumes m: "common_module (ds, ops, fp, start)" and i: "i < length ops" and f: "list_all2 arg_fits (args (ops ! i)) fs"
    and bus: "reg_bus (smio_rd self) (smio_wr self) view good (smio_addr self data_addr)" and g: "good p"
    and b: "mod_base (sm_base self)" and h: "sm_handler self = Some ()" and len: "length b = 4"
  shows "\<exists>e p' b'. (fp junk ! i) (self, p) \<lparr>tag = tg, content = fs\<rparr> (Some b) = Some (e, (self, p'), Some b') \<and>
    e \<in> {4, 0, - int RW_USR_ERR, - int RW_INV} \<and> length b' = 4 \<and> good p'"
proof -
  have pm: "param_module ds ops" and l: "low_regs ds" using m by (simp_all add: common_module_def)
  then have n: "length ds = length ops" and ds: "list_all spec_ok ds" "specs_apart ds"
    by (auto simp: param_module_def dest: list_all2_lengthD)
  have o: "param_op (ds ! i) (ops ! i)" using pm i n by (simp add: param_module_def list_all2_conv_all_nth)
  obtain q where q: "rq_param q = i" "req_wf ds q"
    "\<forall>(w :: ('v smio_ops, unit, 'p) smio_world) ret. param_func junk (ds ! i) w \<lparr>tag = tg, content = fs\<rparr> ret = param_func junk (ds ! i) w \<lparr>tag = tg, content = req_frames ds q\<rparr> ret"
    using param_func_frames [OF o f _ refl] i n by metis
  have "acts_as self good junk (ds ! i) (fp junk ! i)"
    using common_acts [OF m bus b h, of junk] i n by (simp add: list_all2_conv_all_nth)
  then have a: "(fp junk ! i) (self, p) \<lparr>tag = tg, content = fs\<rparr> (Some b) =
      param_func junk (ds ! i) (self, p) \<lparr>tag = tg, content = req_frames ds q\<rparr> (Some b)"
    using g q(3) by (simp add: acts_as_def)
  let ?st = "param_step ds q (store ds (view p))"
  obtain p' where p': "param_func junk (ds ! i) (self, p) \<lparr>tag = tg, content = req_frames ds q\<rparr> (Some b) =
      Some (fst ?st, (self, p'), Some (case fst (snd ?st) of Some x \<Rightarrow> le_bytes 4 x | None \<Rightarrow> b))" "good p'"
    using param_func_step [OF bus g ds mod_slots_mapped [OF b l] q(2) len, of junk tg] unfolding q(1) by blast
  moreover have "fst ?st \<in> {4, 0, - int RW_USR_ERR, - int RW_INV}" by (auto simp: param_step_def Let_def)
  moreover have "length (case fst (snd ?st) of Some x \<Rightarrow> le_bytes 4 x | None \<Rightarrow> b) = 4" using len by (simp split: option.splits)
  ultimately show ?thesis unfolding a by blast
qed

section \<open>A concrete module\<close>

text \<open>The descriptors of the swap module in a heap, and an object with an address on the Wishbone bus.\<close>

definition swap_heap :: "((unit, 'p) mod_world, msg_args) dheap" where
  "swap_heap = \<lparr>hp_next = 3, hp_mem = (\<lambda>a. if a < 3 then Some (BObj (OOp (swap_exp_ops ! a))) else None), hp_ok = (\<lambda>_. True)\<rparr>"

type_synonym srv_peer = "((string \<times> nat) list, board pcie) devio_peer"

definition swap_smio :: "'p sock \<Rightarrow> (unit smio_ops, unit, 'p) smio" where
  "swap_smio S = \<lparr>sm_id = 0, sm_inst_id = 0, sm_base = 0x4000000000310000, sm_name = None, sm_service = [], sm_endpoint = [],
     sm_handler = None, sm_dealer = S, sm_dealer2 = S, sm_exp_ops = None, sm_ops = None, sm_thsafe = None\<rparr>"

definition dead_sock :: "unit sock" where
  "dead_sock = \<lparr>sock_send = \<lambda>m p. Some (-1, p), sock_recv = \<lambda>p. (None, p)\<rparr>"

lemma swap_len: "length swap_exp_ops = 3"
  by (simp add: swap_exp_ops_def)

lemma swap_in: "(swap_params, swap_exp_ops, swap_exp_fp, swap_init) \<in> set param_modules"
  by (simp add: param_modules_def)

lemma swap_rep: "((swap_params, swap_exp_ops, swap_exp_fp, swap_init), []) \<in> set (zip param_modules volatile_params)"
  by (simp add: param_modules_def volatile_params_def)

lemma swap_heap_ok:
  "heap_wf swap_heap" "\<forall>n. hp_ok swap_heap n" "distinct [0..<3]" "length [0..<3] = length swap_exp_ops"
  "\<forall>(a, op) \<in> set (zip [0..<3] swap_exp_ops). hp_mem swap_heap a = Some (BObj (OOp op))"
  by (auto simp: heap_wf_def swap_heap_def swap_len set_zip)

lemma swap_table:
  "\<exists>s :: ((string \<times> nat) list, (unit, 'p) mod_world, msg_args) dstate.
     table_ready smio_disp_table_ops (filled swap_exp_ops (swap_exp_fp 0)) s"
proof -
  have m: "common_module (swap_params, swap_exp_ops, swap_exp_fp, swap_init)"
    by (rule bspec [OF param_modules_common [unfolded list_all_iff] swap_in])
  have n: "plain_new True s p = Some (Some (), p)" for s :: "(unit smio_ops, unit, unit) smio" and p by (simp add: plain_new_def)
  show ?thesis
    using mod_boot [where handler_new = "plain_new True" and fps = "swap_exp_fp 0" and descs = swap_exp_ops,
        OF zhashx_ok_alist zh_alist_new swap_heap_ok swap_distinct common_fp_ok [OF m] n] by blast
qed

lemma swap_base: "mod_base 0x4000000000310000"
  by (simp add: mod_base_def wb_addr_def word_addr_def regs PCIE_ADDR_BAR_def PCIE_ADDR_GEN_def)

section \<open>Properties\<close>

text \<open>C7: the start of every module whose operations are parameters. From a heap holding its
  descriptors, with an allocator and a hash table that deliver, the module's \<open>init\<close> fills in the
  functions, sets the object's id, name, operations, client and handler and leaves its address and
  its socket alone, and exporting its operations gives a table in which every opcode has its
  descriptor, its function and a return buffer of its size.\<close>

theorem modules_boot:
  fixes h :: "(('v, 'p) mod_world, msg_args) dheap" and Z :: "'z zhashx"
  assumes "zhashx_ok Z" and "zh_new Z \<noteq> None" and "heap_wf h" and "\<forall>n. hp_ok h n"
    and "(ds, ops, fp, start) \<in> set param_modules" and "distinct ps" and "length ps = length ops"
    and "\<forall>(a, op) \<in> set (zip ps ops). hp_mem h a = Some (BObj (OOp op))"
  shows "\<exists>T0 h0 devid name h1 T h2. disp_table_new Z smio_disp_table_ops h = Some (Some T0, h0) \<and>
    start True ze True junk ps self p h0 =
      Some (SMIO_SUCCESS, self\<lparr>sm_id := devid, sm_name := Some name, sm_ops := Some not_impl_ops,
        sm_thsafe := Some (smio_thsafe_client_zmq_ops ze), sm_exp_ops := Some ps, sm_handler := Some ()\<rparr>, p, h1) \<and>
    smio_export_ops Z T0 (Some not_impl_ops) ps w h1 = Some (SMIO_SUCCESS, w, T, h2) \<and>
    table_ready smio_disp_table_ops (filled ops (fp junk)) (Z, T, h2)"
proof -
  have m: "common_module (ds, ops, fp, start)" by (rule bspec [OF param_modules_common [unfolded list_all_iff] assms(5)])
  then obtain devid name where s: "\<And>self p h. start True ze True junk ps self p h =
      mod_init True ze devid name not_impl_ops ps (fp junk) (plain_new True) self p h" and d: "distinct (map opcode ops)"
    unfolding common_module_def by blast
  have n: "plain_new True s p = Some (Some (), p)" for s :: "('v smio_ops, unit, 'p) smio" by (simp add: plain_new_def)
  show ?thesis
    unfolding s using mod_boot [where handler_new = "plain_new True" and fps = "fp junk" and ze = ze and devid = devid
      and name = name and ops = not_impl_ops and self = self and w = w, OF assms(1-4,6-8) d common_fp_ok [OF m] n] by blast
qed

theorem modules_boot_witness:
  "\<exists>T0 h0 self1 h1 T h2. disp_table_new zh_alist smio_disp_table_ops swap_heap = Some (Some T0, h0) \<and>
    swap_init True (\<lambda>_. True) True 0 [0..<3] (swap_smio dead_sock) () h0 = Some (SMIO_SUCCESS, self1, (), h1) \<and>
    sm_handler self1 = Some () \<and> sm_base self1 = 0x4000000000310000 \<and>
    smio_export_ops zh_alist T0 (Some not_impl_ops) [0..<3] (swap_smio dead_sock, ()) h1 = Some (SMIO_SUCCESS, (swap_smio dead_sock, ()), T, h2)"
proof -
  have "\<exists>T0 h0 devid name h1 T h2. disp_table_new zh_alist smio_disp_table_ops swap_heap = Some (Some T0, h0) \<and>
      swap_init True (\<lambda>_. True) True 0 [0..<3] (swap_smio dead_sock) () h0 =
        Some (SMIO_SUCCESS, (swap_smio dead_sock)\<lparr>sm_id := devid, sm_name := Some name, sm_ops := Some not_impl_ops,
          sm_thsafe := Some (smio_thsafe_client_zmq_ops (\<lambda>_. True)), sm_exp_ops := Some [0..<3], sm_handler := Some ()\<rparr>, (), h1) \<and>
      smio_export_ops zh_alist T0 (Some not_impl_ops) [0..<3] w h1 = Some (SMIO_SUCCESS, w, T, h2)" for w
    using modules_boot [OF zhashx_ok_alist zh_alist_new swap_heap_ok(1,2) swap_in swap_heap_ok(3-5),
        of "\<lambda>_. True" 0 "swap_smio dead_sock" "()" w] by blast
  from this [of "(swap_smio dead_sock, ())"] show ?thesis by (auto simp: swap_smio_def)
qed

lemma module_run:
  assumes "board_ok H V" and "pcie_good H V board" and "thsafe_ready cast_ep (llio_ops_pcie H al) srv"
    and "(ds, ops, fp, start) \<in> set param_modules"
    and "smio_ready self rid" and "sm_handler self = Some ()" and "mod_base (sm_base self)"
    and "table_ready smio_disp_table_ops (filled ops (fp junk)) s" and "\<forall>q \<in> set qs. req_wf ds q"
  shows "\<exists>board' srv' proto' s'.
    mod_run (Some not_impl_ops) (map (req_msg ops ds) qs) (self, (board, srv, proto, [])) s =
      Some (map Some (fst (param_run ds qs (store ds (\<lambda>a. pcie_view32 V board (sm_base self OR a))))),
        (self, (board', srv', proto', [])), s') \<and>
    pcie_good H V board' \<and> thsafe_ready cast_ep (llio_ops_pcie H al) srv' \<and>
    table_ready smio_disp_table_ops (filled ops (fp junk)) s' \<and>
    (\<forall>x \<in> slots ds. store ds (\<lambda>a. pcie_view32 V board' (sm_base self OR a)) x =
      snd (param_run ds qs (store ds (\<lambda>a. pcie_view32 V board (sm_base self OR a)))) x)"
proof -
  have m: "common_module (ds, ops, fp, start)" by (rule bspec [OF param_modules_common [unfolded list_all_iff] assms(4)])
  then have pm: "param_module ds ops" and l: "low_regs ds" by (simp_all add: common_module_def)
  note bus = smio_bus [OF assms(5) client_bus [OF pcie_llio_bus [OF assms(1)]], of cast_ep al]
  have g: "client_good cast_ep (llio_ops_pcie H al) (pcie_good H V) (board, srv, proto, [])" using assms(2,3) by simp
  obtain p' s' where r:
    "mod_run (Some not_impl_ops) (map (req_msg ops ds) qs) (self, (board, srv, proto, [])) s =
      Some (map Some (fst (param_run ds qs (store ds (\<lambda>a. pcie_view32 V board (sm_base self OR a))))), (self, p'), s')"
    "table_ready smio_disp_table_ops (filled ops (fp junk)) s'"
    "client_good cast_ep (llio_ops_pcie H al) (pcie_good H V) p'"
    "\<forall>x \<in> slots ds. store ds (smio_view self (client_view (pcie_view32 V)) p') x =
      snd (param_run ds qs (store ds (\<lambda>a. pcie_view32 V board (sm_base self OR a)))) x"
    using mod_run_store [OF bus pm common_acts [OF m bus assms(7,6)] mod_slots_mapped [OF assms(7) l] g assms(8,9)]
    by auto
  obtain board' srv' proto' where "p' = (board', srv', proto', [])" using r(3) by (cases p') auto
  with r show ?thesis by auto
qed

text \<open>C1: a started module is a store of its parameters. Requests that arrive from the broker (a read of
  any exported parameter, a write of any that is storage, any channel, any value)
  pass the module's dispatch table and argument check, go as register accesses over the client, the
  device server and the pages of the PCI Express board, and are answered in order with the replies of a
  plain store: a read gives the field of the register, a write within the limits sets it, cut to the
  width of its field, and no other parameter of the module; a value outside the limits and a channel
  that does not exist are refused. The registers end with the contents of that store. A write of a
  parameter that is no storage (registers marked read-only, status, counters, reset pulses) is not refused
  by the module: it is answered with success; what such a register then holds is not claimed. Between
  the accesses the registers are taken to keep their contents (\<open>board_ok\<close>).\<close>

theorem modules_serve_params:
  assumes "board_ok H V" and "pcie_good H V board" and "thsafe_ready cast_ep (llio_ops_pcie H al) srv"
    and "((ds, ops, fp, start), rep) \<in> set (zip param_modules volatile_params)"
    and "smio_ready self rid" and "sm_handler self = Some ()" and "mod_base (sm_base self)"
    and "table_ready smio_disp_table_ops (filled ops (fp junk)) s"
    and "\<forall>q \<in> set qs. req_wf ds q \<and> no_volatile_write rep q"
  shows "(\<exists>board' srv' proto' s'.
    mod_run (Some not_impl_ops) (map (req_msg ops ds) qs) (self, (board, srv, proto, [])) s =
      Some (map Some (fst (param_run ds qs (store ds (\<lambda>a. pcie_view32 V board (sm_base self OR a))))),
        (self, (board', srv', proto', [])), s') \<and>
    pcie_good H V board' \<and> thsafe_ready cast_ep (llio_ops_pcie H al) srv' \<and>
    table_ready smio_disp_table_ops (filled ops (fp junk)) s' \<and>
    (\<forall>x \<in> slots ds. store ds (\<lambda>a. pcie_view32 V board' (sm_base self OR a)) x =
      snd (param_run ds qs (store ds (\<lambda>a. pcie_view32 V board (sm_base self OR a)))) x)) \<and>
    (\<forall>q. req_wf ds q \<and> volatile_write ds rep q \<longrightarrow> (\<exists>w' s'.
      mod_run (Some not_impl_ops) [req_msg ops ds q] (self, (board, srv, proto, [])) s =
        Some ([Some [le_bytes 4 (0 :: u32)]], w', s')))"
proof (rule conjI)
  have m: "(ds, ops, fp, start) \<in> set param_modules" using assms(4) by (rule set_zip_leftD)
  have "\<forall>q \<in> set qs. req_wf ds q" using assms(9) by blast
  from module_run [OF assms(1-3) m assms(5-8) this] show "\<exists>board' srv' proto' s'.
    mod_run (Some not_impl_ops) (map (req_msg ops ds) qs) (self, (board, srv, proto, [])) s =
      Some (map Some (fst (param_run ds qs (store ds (\<lambda>a. pcie_view32 V board (sm_base self OR a))))),
        (self, (board', srv', proto', [])), s') \<and>
    pcie_good H V board' \<and> thsafe_ready cast_ep (llio_ops_pcie H al) srv' \<and>
    table_ready smio_disp_table_ops (filled ops (fp junk)) s' \<and>
    (\<forall>x \<in> slots ds. store ds (\<lambda>a. pcie_view32 V board' (sm_base self OR a)) x =
      snd (param_run ds qs (store ds (\<lambda>a. pcie_view32 V board (sm_base self OR a)))) x)" .
  show "\<forall>q. req_wf ds q \<and> volatile_write ds rep q \<longrightarrow> (\<exists>w' s'.
      mod_run (Some not_impl_ops) [req_msg ops ds q] (self, (board, srv, proto, [])) s =
        Some ([Some [le_bytes 4 (0 :: u32)]], w', s'))"
  proof (intro allI impI, elim conjE)
    fix q assume q: "req_wf ds q" "volatile_write ds rep q"
    have "\<forall>q' \<in> set [q]. req_wf ds q'" using q(1) by simp
    from module_run [OF assms(1-3) m assms(5-8) this, of proto] show "\<exists>w' s'.
      mod_run (Some not_impl_ops) [req_msg ops ds q] (self, (board, srv, proto, [])) s =
        Some ([Some [le_bytes 4 (0 :: u32)]], w', s')"
      unfolding list.map volatile_write_reply [OF q(2)] by blast
  qed
qed

theorem modules_serve_params_witness:
  "\<exists>(srv :: srv_table) (s :: ((string \<times> nat) list, (unit, srv_peer) mod_world, msg_args) dstate) self1 r. sm_base self1 = 0x4000000000310000 \<and>
    mod_run (Some not_impl_ops)
      [\<lparr>tag = EXP_MSG_ZMQ_TAG, content = request 0 [le_bytes 4 (0 :: u32), le_bytes 4 (2 :: u32)]\<rparr>,
       \<lparr>tag = EXP_MSG_ZMQ_TAG, content = request 0 [le_bytes 4 (1 :: u32), le_bytes 4 (0 :: u32)]\<rparr>]
      (self1, (board_open, srv, proto0, [])) s =
    Some ([Some [[0, 0, 0, 0]], Some (ok_reply 2)], r)"
proof -
  obtain srv :: srv_table where srv: "thsafe_ready cast0 (llio_ops_pcie board_hw (\<lambda>_. True)) srv"
    using srv_ready unfolding srv_llio_def by blast
  obtain s :: "((string \<times> nat) list, (unit, srv_peer) mod_world, msg_args) dstate" where
    s: "table_ready smio_disp_table_ops (filled swap_exp_ops (swap_exp_fp 0)) s" using swap_table by blast
  let ?self = "(swap_smio (devio_sock [1] :: srv_peer sock))\<lparr>sm_thsafe := Some (smio_thsafe_client_zmq_ops (\<lambda>_. True)), sm_handler := Some ()\<rparr>"
  have self: "smio_ready ?self [1]" "sm_handler ?self = Some ()" "mod_base (sm_base ?self)"
    by (simp_all add: smio_ready_def swap_smio_def swap_base)
  let ?qs = "[\<lparr>rq_param = 0, rq_read = False, rq_chan = 0, rq_value = 2\<rparr>, \<lparr>rq_param = 0, rq_read = True, rq_chan = 0, rq_value = 0\<rparr>]"
  have q: "\<forall>q \<in> set ?qs. req_wf swap_params q \<and> no_volatile_write [] q"
    by (simp add: req_wf_def swap_params_def no_volatile_write_def)
  have z: "le_bytes 4 (0 :: u32) = [0, 0, 0, 0]" by (simp add: le_bytes_4)
  have run: "fst (param_run swap_params ?qs m) = [[[0, 0, 0, 0]], ok_reply 2]" for m
    by (simp add: param_step_def Let_def swap_params_def param_reply_def z param_allowed_def check_param_limits_def
        PARAM_OK_def take_bit_eq_mask mask_eq_exp_minus_1)
  have msgs: "map (req_msg swap_exp_ops swap_params) ?qs =
      [\<lparr>tag = EXP_MSG_ZMQ_TAG, content = request 0 [le_bytes 4 (0 :: u32), le_bytes 4 (2 :: u32)]\<rparr>,
       \<lparr>tag = EXP_MSG_ZMQ_TAG, content = request 0 [le_bytes 4 (1 :: u32), le_bytes 4 (0 :: u32)]\<rparr>]"
    by (simp add: req_msg_def req_frames_def swap_params_def swap_exp_ops_def swap_defs exp_simps)
  have b: "sm_base ?self = 0x4000000000310000" by (simp add: swap_smio_def)
  from modules_serve_params [OF board_hw_ok board_open_good srv swap_rep self s q, of proto0, THEN conjunct1,
      unfolded msgs run, unfolded list.map]
  show ?thesis by (elim exE conjE) (rule exI [of _ srv], rule exI [of _ s], rule exI [of _ ?self], rule exI, rule conjI [OF b], assumption)
qed

text \<open>C8: the functions of the modules are typed. Every exported function of every module whose operations
  are parameters, on every request whose frames have the sizes its descriptor asks for (whatever they
  contain) and a return buffer of 4 bytes, has a defined result over the PCI Express board: it keeps
  the module's object and the size of the buffer, leaves the board and the device server ready, and its
  status is 4 with a value, 0, or one of the two refusals.\<close>

theorem modules_functions_typed:
  assumes "board_ok H V" and "pcie_good H V board" and "thsafe_ready cast_ep (llio_ops_pcie H al) srv"
    and "(ds, ops, fp, start) \<in> set param_modules"
    and "smio_ready self rid" and "sm_handler self = Some ()" and "mod_base (sm_base self)"
    and "i < length ops" and "list_all2 arg_fits (args (ops ! i)) fs" and "length b = 4"
  shows "\<exists>e board' srv' proto' b'.
    (fp junk ! i) (self, (board, srv, proto, [])) \<lparr>tag = EXP_MSG_ZMQ_TAG, content = fs\<rparr> (Some b) =
      Some (e, (self, (board', srv', proto', [])), Some b') \<and>
    e \<in> {4, 0, - int RW_USR_ERR, - int RW_INV} \<and> length b' = 4 \<and>
    pcie_good H V board' \<and> thsafe_ready cast_ep (llio_ops_pcie H al) srv'"
proof -
  have m: "common_module (ds, ops, fp, start)" by (rule bspec [OF param_modules_common [unfolded list_all_iff] assms(4)])
  note bus = smio_bus [OF assms(5) client_bus [OF pcie_llio_bus [OF assms(1)]], of cast_ep al]
  have g: "client_good cast_ep (llio_ops_pcie H al) (pcie_good H V) (board, srv, proto, [])" using assms(2,3) by simp
  obtain e p' b' where r: "(fp junk ! i) (self, (board, srv, proto, [])) \<lparr>tag = EXP_MSG_ZMQ_TAG, content = fs\<rparr> (Some b) =
      Some (e, (self, p'), Some b')" "e \<in> {4, 0, - int RW_USR_ERR, - int RW_INV}" "length b' = 4"
    "client_good cast_ep (llio_ops_pcie H al) (pcie_good H V) p'"
    using common_typed [OF m assms(8,9) bus g assms(7,6,10), of junk EXP_MSG_ZMQ_TAG] by blast
  obtain board' srv' proto' where "p' = (board', srv', proto', [])" using r(4) by (cases p') auto
  with r show ?thesis by auto
qed

theorem modules_functions_typed_witness:
  "\<exists>(srv :: srv_table) (self1 :: (unit smio_ops, unit, srv_peer) smio) e r b'.
    s_swap_set_get_sw 0 (self1, (board_open, srv, proto0, [])) \<lparr>tag = EXP_MSG_ZMQ_TAG,
      content = [[7, 7, 7, 7], [9, 9, 9, 9]]\<rparr> (Some [1, 2, 3, 4]) = Some (e, (self1, r), Some b') \<and> length b' = 4"
proof -
  obtain srv :: srv_table where srv: "thsafe_ready cast0 (llio_ops_pcie board_hw (\<lambda>_. True)) srv"
    using srv_ready unfolding srv_llio_def by blast
  let ?self = "(swap_smio (devio_sock [1] :: srv_peer sock))\<lparr>sm_thsafe := Some (smio_thsafe_client_zmq_ops (\<lambda>_. True)), sm_handler := Some ()\<rparr>"
  have self: "smio_ready ?self [1]" "sm_handler ?self = Some ()" "mod_base (sm_base ?self)"
    by (simp_all add: smio_ready_def swap_smio_def swap_base)
  have i: "0 < length swap_exp_ops" by (simp add: swap_len)
  have f: "list_all2 arg_fits (args (swap_exp_ops ! 0)) [[7, 7, 7, 7], [9, 9, 9, 9]]"
    by (simp add: swap_exp_ops_def swap_defs exp_simps fits_simps)
  have fp: "swap_exp_fp 0 ! 0 = s_swap_set_get_sw 0" by (simp add: swap_exp_fp_def)
  have b: "length [1, 2, 3, 4 :: u8] = 4" by simp
  from modules_functions_typed [OF board_hw_ok board_open_good srv swap_in self i f b, of 0 proto0, unfolded fp]
  show ?thesis by blast
qed

end
