(* ===== verification/Acq.thy ===== *)
theory Acq
  imports Module Pcie
begin

text \<open>
  The acquisition module, src/sm_io/modules/acq: clients start an acquisition of samples before and
  after a trigger, in one or several shots, poll for its end, and then read the samples in blocks
  out of the SDRAM, where the gateware has written them into the circular region of the channel.

  The registers are those of hw/wb_acq_core_regs.h for the AFC boards (no address shift). The
  table of memory regions per instance and channel is a constant of the board the program is built
  for: it is the parameter \<open>tab\<close>, as is the number of channels \<open>end_chan\<close> for a core that does not
  tell its own.
\<close>

section \<open>Registers and constants\<close>

definition ACQ_CORE_REG_CTL :: u64 where [regs]: "ACQ_CORE_REG_CTL = 0x0"
definition ACQ_CORE_REG_STA :: u64 where [regs]: "ACQ_CORE_REG_STA = 0x4"
definition ACQ_CORE_REG_TRIG_CFG :: u64 where [regs]: "ACQ_CORE_REG_TRIG_CFG = 0x8"
definition ACQ_CORE_REG_TRIG_DATA_CFG :: u64 where [regs]: "ACQ_CORE_REG_TRIG_DATA_CFG = 0xc"
definition ACQ_CORE_REG_TRIG_DATA_THRES :: u64 where [regs]: "ACQ_CORE_REG_TRIG_DATA_THRES = 0x10"
definition ACQ_CORE_REG_TRIG_DLY :: u64 where [regs]: "ACQ_CORE_REG_TRIG_DLY = 0x14"
definition ACQ_CORE_REG_SW_TRIG :: u64 where [regs]: "ACQ_CORE_REG_SW_TRIG = 0x18"
definition ACQ_CORE_REG_SHOTS :: u64 where [regs]: "ACQ_CORE_REG_SHOTS = 0x1c"
definition ACQ_CORE_REG_TRIG_POS :: u64 where [regs]: "ACQ_CORE_REG_TRIG_POS = 0x20"
definition ACQ_CORE_REG_PRE_SAMPLES :: u64 where [regs]: "ACQ_CORE_REG_PRE_SAMPLES = 0x24"
definition ACQ_CORE_REG_POST_SAMPLES :: u64 where [regs]: "ACQ_CORE_REG_POST_SAMPLES = 0x28"
definition ACQ_CORE_REG_DDR3_START_ADDR :: u64 where [regs]: "ACQ_CORE_REG_DDR3_START_ADDR = 0x30"
definition ACQ_CORE_REG_DDR3_END_ADDR :: u64 where [regs]: "ACQ_CORE_REG_DDR3_END_ADDR = 0x34"
definition ACQ_CORE_REG_ACQ_CHAN_CTL :: u64 where [regs]: "ACQ_CORE_REG_ACQ_CHAN_CTL = 0x38"
definition ACQ_CORE_REG_CH0_DESC :: u64 where [regs]: "ACQ_CORE_REG_CH0_DESC = 0x3c"
definition ACQ_CORE_REG_CH0_ATOM_DESC :: u64 where [regs]: "ACQ_CORE_REG_CH0_ATOM_DESC = 0x40"

definition ACQ_CORE_CTL_FSM_START_ACQ :: u32 where "ACQ_CORE_CTL_FSM_START_ACQ = WBGEN2_GEN_MASK 0 1"
definition ACQ_CORE_CTL_FSM_STOP_ACQ :: u32 where "ACQ_CORE_CTL_FSM_STOP_ACQ = WBGEN2_GEN_MASK 1 1"
definition ACQ_CORE_CTL_FSM_ACQ_NOW :: u32 where "ACQ_CORE_CTL_FSM_ACQ_NOW = WBGEN2_GEN_MASK 16 1"
definition ACQ_CORE_STA_FSM_STATE_MASK :: u32 where "ACQ_CORE_STA_FSM_STATE_MASK = WBGEN2_GEN_MASK 0 3"
definition ACQ_CORE_STA_FSM_ACQ_DONE :: u32 where "ACQ_CORE_STA_FSM_ACQ_DONE = WBGEN2_GEN_MASK 3 1"
definition ACQ_CORE_STA_FC_TRANS_DONE :: u32 where "ACQ_CORE_STA_FC_TRANS_DONE = WBGEN2_GEN_MASK 8 1"
definition ACQ_CORE_STA_FC_FULL :: u32 where "ACQ_CORE_STA_FC_FULL = WBGEN2_GEN_MASK 9 1"
definition ACQ_CORE_STA_DDR3_TRANS_DONE :: u32 where "ACQ_CORE_STA_DDR3_TRANS_DONE = WBGEN2_GEN_MASK 16 1"
definition ACQ_CORE_STA_RESERVED3_MASK :: u32 where "ACQ_CORE_STA_RESERVED3_MASK = WBGEN2_GEN_MASK 17 15"
definition ACQ_CORE_TRIG_CFG_HW_TRIG_SEL :: u32 where "ACQ_CORE_TRIG_CFG_HW_TRIG_SEL = WBGEN2_GEN_MASK 0 1"
definition ACQ_CORE_TRIG_CFG_HW_TRIG_POL :: u32 where "ACQ_CORE_TRIG_CFG_HW_TRIG_POL = WBGEN2_GEN_MASK 1 1"
definition ACQ_CORE_TRIG_CFG_HW_TRIG_EN :: u32 where "ACQ_CORE_TRIG_CFG_HW_TRIG_EN = WBGEN2_GEN_MASK 2 1"
definition ACQ_CORE_TRIG_CFG_SW_TRIG_EN :: u32 where "ACQ_CORE_TRIG_CFG_SW_TRIG_EN = WBGEN2_GEN_MASK 3 1"
definition ACQ_CORE_SHOTS_MULTISHOT_RAM_SIZE_IMPL :: u32 where "ACQ_CORE_SHOTS_MULTISHOT_RAM_SIZE_IMPL = WBGEN2_GEN_MASK 16 1"
definition ACQ_CORE_ACQ_CHAN_CTL_WHICH_MASK :: u32 where "ACQ_CORE_ACQ_CHAN_CTL_WHICH_MASK = WBGEN2_GEN_MASK 0 5"

definition ACQ_CORE_STA_FSM_STATE_W :: "u32 \<Rightarrow> u32" where "ACQ_CORE_STA_FSM_STATE_W v = WBGEN2_GEN_WRITE v 0 3"
definition ACQ_CORE_STA_RESERVED2_W :: "u32 \<Rightarrow> u32" where "ACQ_CORE_STA_RESERVED2_W v = WBGEN2_GEN_WRITE v 10 6"
definition ACQ_CORE_SHOTS_NB_W :: "u32 \<Rightarrow> u32" where "ACQ_CORE_SHOTS_NB_W v = WBGEN2_GEN_WRITE v 0 16"
definition ACQ_CORE_ACQ_CHAN_CTL_WHICH_W :: "u32 \<Rightarrow> u32" where "ACQ_CORE_ACQ_CHAN_CTL_WHICH_W v = WBGEN2_GEN_WRITE v 0 5"

text \<open>Fields that are parameters.\<close>

definition ACQ_CORE_TRIG_CFG_INT_TRIG_SEL :: param_field where "ACQ_CORE_TRIG_CFG_INT_TRIG_SEL = gen_field 4 5"
definition ACQ_CORE_TRIG_DATA_CFG_THRES_FILT :: param_field where "ACQ_CORE_TRIG_DATA_CFG_THRES_FILT = gen_field 0 8"
definition ACQ_CORE_SHOTS_MULTISHOT_RAM_SIZE :: param_field where "ACQ_CORE_SHOTS_MULTISHOT_RAM_SIZE = gen_field 17 15"
definition ACQ_CORE_ACQ_CHAN_CTL_DTRIG_WHICH :: param_field where "ACQ_CORE_ACQ_CHAN_CTL_DTRIG_WHICH = gen_field 8 5"
definition ACQ_CORE_ACQ_CHAN_CTL_NUM_CHAN :: param_field where "ACQ_CORE_ACQ_CHAN_CTL_NUM_CHAN = gen_field 16 5"
definition ACQ_CORE_CH0_DESC_INT_WIDTH :: param_field where "ACQ_CORE_CH0_DESC_INT_WIDTH = gen_field 0 16"
definition ACQ_CORE_CH0_DESC_NUM_COALESCE :: param_field where "ACQ_CORE_CH0_DESC_NUM_COALESCE = gen_field 16 16"
definition ACQ_CORE_CH0_ATOM_DESC_NUM_ATOMS :: param_field where "ACQ_CORE_CH0_ATOM_DESC_NUM_ATOMS = gen_field 0 16"
definition ACQ_CORE_CH0_ATOM_DESC_ATOM_WIDTH :: param_field where "ACQ_CORE_CH0_ATOM_DESC_ATOM_WIDTH = gen_field 16 16"

definition ACQ_CORE_IDLE_MASK :: u32 where
  "ACQ_CORE_IDLE_MASK = ACQ_CORE_STA_FSM_STATE_MASK OR ACQ_CORE_STA_FC_FULL OR
     ACQ_CORE_STA_RESERVED2_W 8 OR ACQ_CORE_STA_RESERVED3_MASK"
definition ACQ_CORE_IDLE_VALUE :: u32 where "ACQ_CORE_IDLE_VALUE = ACQ_CORE_STA_FSM_STATE_W 1"
definition ACQ_CORE_FC_FULL_MASK :: u32 where "ACQ_CORE_FC_FULL_MASK = ACQ_CORE_STA_FC_FULL"
definition ACQ_CORE_FC_FULL_VALUE :: u32 where "ACQ_CORE_FC_FULL_VALUE = ACQ_CORE_STA_FC_FULL"
definition ACQ_CORE_COMPLETE_MASK :: u32 where
  "ACQ_CORE_COMPLETE_MASK = ACQ_CORE_STA_FSM_STATE_MASK OR ACQ_CORE_STA_FSM_ACQ_DONE OR
     ACQ_CORE_STA_FC_TRANS_DONE OR ACQ_CORE_STA_DDR3_TRANS_DONE"
definition ACQ_CORE_COMPLETE_VALUE :: u32 where
  "ACQ_CORE_COMPLETE_VALUE = ACQ_CORE_STA_FSM_STATE_W 1 OR ACQ_CORE_STA_FSM_ACQ_DONE OR
     ACQ_CORE_STA_FC_TRANS_DONE OR ACQ_CORE_STA_DDR3_TRANS_DONE"

lemmas acq_masks = ACQ_CORE_IDLE_MASK_def ACQ_CORE_IDLE_VALUE_def ACQ_CORE_FC_FULL_MASK_def ACQ_CORE_FC_FULL_VALUE_def
  ACQ_CORE_COMPLETE_MASK_def ACQ_CORE_COMPLETE_VALUE_def ACQ_CORE_STA_FSM_STATE_MASK_def ACQ_CORE_STA_FC_FULL_def
  ACQ_CORE_STA_RESERVED2_W_def ACQ_CORE_STA_RESERVED3_MASK_def ACQ_CORE_STA_FSM_STATE_W_def ACQ_CORE_STA_FSM_ACQ_DONE_def
  ACQ_CORE_STA_FC_TRANS_DONE_def ACQ_CORE_STA_DDR3_TRANS_DONE_def ACQ_CORE_CTL_FSM_START_ACQ_def ACQ_CORE_CTL_FSM_STOP_ACQ_def
  ACQ_CORE_CTL_FSM_ACQ_NOW_def ACQ_CORE_TRIG_CFG_HW_TRIG_SEL_def ACQ_CORE_TRIG_CFG_HW_TRIG_POL_def
  ACQ_CORE_TRIG_CFG_HW_TRIG_EN_def ACQ_CORE_TRIG_CFG_SW_TRIG_EN_def ACQ_CORE_SHOTS_NB_W_def
  ACQ_CORE_ACQ_CHAN_CTL_WHICH_MASK_def ACQ_CORE_ACQ_CHAN_CTL_WHICH_W_def WBGEN2_GEN_MASK_def WBGEN2_GEN_WRITE_def

text \<open>Status codes and sizes.\<close>

definition ACQ_OK :: int where "ACQ_OK = 0"
definition ACQ_ERR :: int where "ACQ_ERR = 1"
definition ACQ_NUM_SAMPLES_OOR :: int where "ACQ_NUM_SAMPLES_OOR = 2"
definition ACQ_NOT_COMPLETED :: int where "ACQ_NOT_COMPLETED = 3"
definition ACQ_BLOCK_OOR :: int where "ACQ_BLOCK_OOR = 4"
definition ACQ_NUM_CHAN_OOR :: int where "ACQ_NUM_CHAN_OOR = 5"
definition ACQ_COULD_NOT_READ :: int where "ACQ_COULD_NOT_READ = 6"
definition ACQ_TRIG_TYPE :: int where "ACQ_TRIG_TYPE = 7"
definition ACQ_FC_FULL :: int where "ACQ_FC_FULL = 8"

lemmas acq_codes = ACQ_OK_def ACQ_ERR_def ACQ_NUM_SAMPLES_OOR_def ACQ_NOT_COMPLETED_def ACQ_BLOCK_OOR_def
  ACQ_NUM_CHAN_OOR_def ACQ_COULD_NOT_READ_def ACQ_TRIG_TYPE_def ACQ_FC_FULL_def

definition TYPE_ACQ_CORE_SKIP :: u32 where "TYPE_ACQ_CORE_SKIP = 0"
definition TYPE_ACQ_CORE_HW_PULSE :: u32 where "TYPE_ACQ_CORE_HW_PULSE = 1"
definition TYPE_ACQ_CORE_HW_DATA_DRIVEN :: u32 where "TYPE_ACQ_CORE_HW_DATA_DRIVEN = 2"
definition TYPE_ACQ_CORE_SW :: u32 where "TYPE_ACQ_CORE_SW = 3"
definition ACQ_CORE_NUM_TRIGGERS :: u32 where "ACQ_CORE_NUM_TRIGGERS = 4"

lemmas trig_types = TYPE_ACQ_CORE_SKIP_def TYPE_ACQ_CORE_HW_PULSE_def TYPE_ACQ_CORE_HW_DATA_DRIVEN_def
  TYPE_ACQ_CORE_SW_def ACQ_CORE_NUM_TRIGGERS_def

definition ACQ_CORE_MIN_NUM_SHOTS :: u32 where "ACQ_CORE_MIN_NUM_SHOTS = 1"
definition ACQ_CORE_MULTISHOT_MEM_SIZE :: u32 where "ACQ_CORE_MULTISHOT_MEM_SIZE = 2048"
definition ACQ_CORE_NUM_CHAN_DESC :: u32 where "ACQ_CORE_NUM_CHAN_DESC = 24"
definition ACQ_CORE_CHAN_DESC_OFFSET :: u32 where "ACQ_CORE_CHAN_DESC_OFFSET = 8"
definition BLOCK_SIZE :: u32 where "BLOCK_SIZE = 2 ^ 20"
definition MEM_TOTAL_SIZE :: u64 where "MEM_TOTAL_SIZE = 2 ^ 31"
definition MEM_REGION_SIZE :: u64 where "MEM_REGION_SIZE = MEM_TOTAL_SIZE div 16"
definition DDR3_PAYLOAD_SIZE :: u32 where "DDR3_PAYLOAD_SIZE = 32"
definition DDR3_DATA_WIDTH :: u64 where "DDR3_DATA_WIDTH = 32"
definition DDR3_BYTE_2_BIT :: u32 where "DDR3_BYTE_2_BIT = 8"
definition LARGE_MEM_ADDR :: u64 where "LARGE_MEM_ADDR = BAR2_ADDR OR 0"
definition ACQ_SDB_DEVID :: u32 where "ACQ_SDB_DEVID = 0x4519a0ad"
definition ACQ_SDB_NAME :: string where "ACQ_SDB_NAME = ''ACQ''"

lemmas acq_sizes = ACQ_CORE_MIN_NUM_SHOTS_def ACQ_CORE_MULTISHOT_MEM_SIZE_def ACQ_CORE_NUM_CHAN_DESC_def
  ACQ_CORE_CHAN_DESC_OFFSET_def BLOCK_SIZE_def MEM_TOTAL_SIZE_def MEM_REGION_SIZE_def DDR3_PAYLOAD_SIZE_def
  DDR3_DATA_WIDTH_def DDR3_BYTE_2_BIT_def

section \<open>The state of the module\<close>

record acq_params =
  ap_pre :: u32
  ap_post :: u32
  ap_pre_aligned :: u32
  ap_post_aligned :: u32
  ap_shots :: u32
  ap_trig_addr :: u32

record acq_buf =
  ab_id :: u32
  ab_start_addr :: u32
  ab_end_addr :: u32
  ab_max_samples :: u32
  ab_sample_size :: u32

record smio_acq =
  aq_params :: "acq_params list"
  aq_curr_chan :: u32
  aq_num_chan :: u32
  aq_multishot_ram_size :: u32
  aq_buf :: "acq_buf list"

text \<open>Indexing an array, undefined outside it.\<close>

definition nth_opt :: "'a list \<Rightarrow> u32 \<Rightarrow> 'a option" where
  "nth_opt xs i = (if unat i < length xs then Some (xs ! unat i) else None)"

definition upd_opt :: "'a list \<Rightarrow> u32 \<Rightarrow> ('a \<Rightarrow> 'a) \<Rightarrow> 'a list option" where
  "upd_opt xs i f = (if unat i < length xs then Some (xs[unat i := f (xs ! unat i)]) else None)"

type_synonym ('o, 'p) acq_smio = "('o, smio_acq, 'p) smio"
type_synonym ('o, 'p) acq_func = "('o, smio_acq, 'p) exp_func"

section \<open>Status and trigger\<close>

definition s_acq_check_status ::
  "('o, 'p) acq_smio \<Rightarrow> u32 \<Rightarrow> u32 \<Rightarrow> u32 \<Rightarrow> u32 \<Rightarrow> 'p \<Rightarrow> (int \<times> 'p) option" where
  "s_acq_check_status self status_mask status_value status_oflow_mask status_oflow_value p = do {
     (_, status_done, p') \<leftarrow> smio_rd self p ACQ_CORE_REG_STA 0;
     Some (if status_done AND status_oflow_mask = status_oflow_value then - ACQ_FC_FULL
       else if status_done AND status_mask \<noteq> status_value then - ACQ_NOT_COMPLETED
       else - ACQ_OK, p') }"

text \<open>Reading both control registers, each into a variable that is 0 before.\<close>

definition trig_regs :: "('o, 'p) acq_smio \<Rightarrow> 'p \<Rightarrow> (u32 \<times> u32 \<times> 'p) option" where
  "trig_regs self p = do {
     (_, ctl, p1) \<leftarrow> smio_rd self p ACQ_CORE_REG_CTL 0;
     (_, cfg, p2) \<leftarrow> smio_rd self p1 ACQ_CORE_REG_TRIG_CFG 0;
     Some (ctl, cfg, p2) }"

definition s_acq_set_trigger_type :: "('o, 'p) acq_smio \<Rightarrow> u32 \<Rightarrow> 'p \<Rightarrow> (int \<times> 'p) option" where
  "s_acq_set_trigger_type self trigger_type p = do {
     (ctl, cfg, p1) \<leftarrow> trig_regs self p;
     let new =
       (if trigger_type = TYPE_ACQ_CORE_SKIP then
          Some (ctl OR ACQ_CORE_CTL_FSM_ACQ_NOW,
            cfg AND NOT ACQ_CORE_TRIG_CFG_HW_TRIG_EN AND NOT ACQ_CORE_TRIG_CFG_SW_TRIG_EN)
        else if trigger_type = TYPE_ACQ_CORE_HW_PULSE then
          Some (ctl AND NOT ACQ_CORE_CTL_FSM_ACQ_NOW,
            ((cfg OR ACQ_CORE_TRIG_CFG_HW_TRIG_EN) AND NOT ACQ_CORE_TRIG_CFG_SW_TRIG_EN) OR ACQ_CORE_TRIG_CFG_HW_TRIG_SEL)
        else if trigger_type = TYPE_ACQ_CORE_HW_DATA_DRIVEN then
          Some (ctl AND NOT ACQ_CORE_CTL_FSM_ACQ_NOW,
            ((cfg OR ACQ_CORE_TRIG_CFG_HW_TRIG_EN) AND NOT ACQ_CORE_TRIG_CFG_SW_TRIG_EN) AND NOT ACQ_CORE_TRIG_CFG_HW_TRIG_SEL)
        else if trigger_type = TYPE_ACQ_CORE_SW then
          Some (ctl AND NOT ACQ_CORE_CTL_FSM_ACQ_NOW,
            (cfg AND NOT ACQ_CORE_TRIG_CFG_HW_TRIG_EN) OR ACQ_CORE_TRIG_CFG_SW_TRIG_EN)
        else None);
     case new of
       None \<Rightarrow> Some (- ACQ_ERR, p1)
     | Some (ctl', cfg') \<Rightarrow> do {
         (_, p2) \<leftarrow> smio_wr self p1 ACQ_CORE_REG_CTL ctl';
         (_, p3) \<leftarrow> smio_wr self p2 ACQ_CORE_REG_TRIG_CFG cfg';
         Some (- ACQ_OK, p3) } }"

text \<open>\<open>tt\<close> is what the caller's variable holds before; it stays when no trigger is enabled.\<close>

definition s_acq_get_trigger_type :: "('o, 'p) acq_smio \<Rightarrow> u32 \<Rightarrow> 'p \<Rightarrow> (int \<times> u32 \<times> 'p) option" where
  "s_acq_get_trigger_type self tt p = do {
     (ctl, cfg, p1) \<leftarrow> trig_regs self p;
     Some (if ctl AND ACQ_CORE_CTL_FSM_ACQ_NOW \<noteq> 0 then
         (if cfg AND (ACQ_CORE_TRIG_CFG_HW_TRIG_EN OR ACQ_CORE_TRIG_CFG_SW_TRIG_EN) \<noteq> 0 then - ACQ_ERR else - ACQ_OK,
          TYPE_ACQ_CORE_SKIP, p1)
       else if cfg AND ACQ_CORE_TRIG_CFG_HW_TRIG_EN \<noteq> 0 then
         (- ACQ_OK, if cfg AND ACQ_CORE_TRIG_CFG_HW_TRIG_SEL \<noteq> 0 then TYPE_ACQ_CORE_HW_PULSE
           else TYPE_ACQ_CORE_HW_DATA_DRIVEN, p1)
       else if cfg AND ACQ_CORE_TRIG_CFG_SW_TRIG_EN \<noteq> 0 then (- ACQ_OK, TYPE_ACQ_CORE_SW, p1)
       else (- ACQ_OK, tt, p1)) }"

definition s_acq_cfg_trigger :: "('o, 'p) acq_func" where
  "s_acq_cfg_trigger w msg ret =
     (case sm_handler (fst w) of
        None \<Rightarrow> Some (- ACQ_ERR, w, ret)
      | Some acq \<Rightarrow> do {
          rw \<leftarrow> EXP_MSG_ZMQ_ARG 0 msg;
          trigger_type \<leftarrow> EXP_MSG_ZMQ_ARG 1 msg;
          if \<not> trigger_type < ACQ_CORE_NUM_TRIGGERS then Some (- ACQ_NUM_CHAN_OOR, w, ret)
          else if rw \<noteq> 0 then do {
            (err, tt, p1) \<leftarrow> s_acq_get_trigger_type (fst w) 0 (snd w);
            if err \<noteq> - ACQ_OK then Some (err, (fst w, p1), ret)
            else do { ret' \<leftarrow> put_ret 4 tt ret; Some (4, (fst w, p1), ret') } }
          else do {
            (err, p1) \<leftarrow> s_acq_check_status (fst w) ACQ_CORE_IDLE_MASK ACQ_CORE_IDLE_VALUE
              ACQ_CORE_FC_FULL_MASK ACQ_CORE_FC_FULL_VALUE (snd w);
            if err \<noteq> - ACQ_OK then Some (err, (fst w, p1), ret)
            else do {
              (err', p2) \<leftarrow> s_acq_set_trigger_type (fst w) trigger_type p1;
              Some (err', (fst w, p2), ret) } } })"

section \<open>Starting an acquisition\<close>

text \<open>The checks of a request, in the order of the code; \<open>None\<close> in the result is "go on". The sums
  of sample numbers wrap at 32 bits.\<close>

definition acquire_refused :: "smio_acq \<Rightarrow> u32 \<Rightarrow> u32 \<Rightarrow> u32 \<Rightarrow> u32 \<Rightarrow> int option option" where
  "acquire_refused acq pre post shots chan =
     (if aq_num_chan acq - 1 < chan then Some (Some (- ACQ_NUM_CHAN_OOR))
      else if shots < ACQ_CORE_MIN_NUM_SHOTS then Some (Some (- ACQ_NUM_CHAN_OOR))
      else do {
        too_many \<leftarrow> (if shots = ACQ_CORE_MIN_NUM_SHOTS
          then do { b \<leftarrow> nth_opt (aq_buf acq) chan; Some (ab_max_samples b < pre + post) }
          else Some (aq_multishot_ram_size acq < pre + post));
        Some (if too_many then Some (- ACQ_NUM_SAMPLES_OOR) else None) })"

definition aligned_samples :: "u32 \<Rightarrow> bool \<Rightarrow> u32 \<Rightarrow> u32 option" where
  "aligned_samples num one_at_least samples_alignment =
     (if num = 0 \<and> one_at_least then Some samples_alignment else hutils_align_value num samples_alignment)"

text \<open>Programming the core for a channel and starting it.\<close>

definition acquire_start ::
  "('o, 'p) acq_smio \<Rightarrow> u32 \<Rightarrow> u32 \<Rightarrow> u32 \<Rightarrow> u32 \<Rightarrow> u32 \<Rightarrow> 'p \<Rightarrow> 'p option" where
  "acquire_start self pre_aligned post_aligned start_addr end_addr chan p = do {
     (_, p1) \<leftarrow> smio_wr self p ACQ_CORE_REG_PRE_SAMPLES pre_aligned;
     (_, p2) \<leftarrow> smio_wr self p1 ACQ_CORE_REG_POST_SAMPLES post_aligned;
     (_, p3) \<leftarrow> smio_wr self p2 ACQ_CORE_REG_DDR3_START_ADDR start_addr;
     (_, p4) \<leftarrow> smio_wr self p3 ACQ_CORE_REG_DDR3_END_ADDR end_addr;
     (_, cc, p5) \<leftarrow> smio_rd self p4 ACQ_CORE_REG_ACQ_CHAN_CTL 0;
     (_, p6) \<leftarrow> smio_wr self p5 ACQ_CORE_REG_ACQ_CHAN_CTL
       ((cc AND NOT ACQ_CORE_ACQ_CHAN_CTL_WHICH_MASK) OR ACQ_CORE_ACQ_CHAN_CTL_WHICH_W chan);
     (_, ctl, p7) \<leftarrow> smio_rd self p6 ACQ_CORE_REG_CTL 0;
     (_, p8) \<leftarrow> smio_wr self p7 ACQ_CORE_REG_CTL (ctl OR ACQ_CORE_CTL_FSM_START_ACQ);
     Some p8 }"

definition s_acq_data_acquire :: "('o, 'p) acq_func" where
  "s_acq_data_acquire w msg ret =
     (case sm_handler (fst w) of
        None \<Rightarrow> Some (- ACQ_ERR, w, ret)
      | Some acq \<Rightarrow> do {
          let self = fst w;
          (err, p1) \<leftarrow> s_acq_check_status self ACQ_CORE_IDLE_MASK ACQ_CORE_IDLE_VALUE
            ACQ_CORE_FC_FULL_MASK ACQ_CORE_FC_FULL_VALUE (snd w);
          if err \<noteq> - ACQ_OK then Some (err, (self, p1), ret)
          else do {
            pre \<leftarrow> EXP_MSG_ZMQ_ARG 0 msg;
            post \<leftarrow> EXP_MSG_ZMQ_ARG 1 msg;
            shots \<leftarrow> EXP_MSG_ZMQ_ARG 2 msg;
            chan \<leftarrow> EXP_MSG_ZMQ_ARG 3 msg;
            refused \<leftarrow> acquire_refused acq pre post shots chan;
            case refused of
              Some e \<Rightarrow> Some (e, (self, p1), ret)
            | None \<Rightarrow> do {
                (err', tt, p2) \<leftarrow> s_acq_get_trigger_type self 0 p1;
                if err' \<noteq> - ACQ_OK then Some (err', (self, p2), ret)
                else if tt = TYPE_ACQ_CORE_SKIP \<and> 0 < post then Some (- ACQ_TRIG_TYPE, (self, p2), ret)
                else do {
                  (_, p3) \<leftarrow> smio_wr self p2 ACQ_CORE_REG_SHOTS (ACQ_CORE_SHOTS_NB_W shots);
                  buf \<leftarrow> nth_opt (aq_buf acq) chan;
                  if ab_sample_size buf = 0 then None
                  else do {
                    let samples_alignment = DDR3_PAYLOAD_SIZE div ab_sample_size buf;
                    pre_al \<leftarrow> aligned_samples pre True samples_alignment;
                    post_al \<leftarrow> aligned_samples post (tt \<noteq> TYPE_ACQ_CORE_SKIP) samples_alignment;
                    params \<leftarrow> upd_opt (aq_params acq) chan (\<lambda>ap. ap\<lparr>ap_pre := pre, ap_post := post,
                      ap_pre_aligned := pre_al, ap_post_aligned := post_al, ap_shots := shots\<rparr>);
                    p4 \<leftarrow> acquire_start self pre_al post_al (ab_start_addr buf) (ab_end_addr buf) chan p3;
                    Some (- ACQ_OK, (self\<lparr>sm_handler := Some (acq\<lparr>aq_params := params, aq_curr_chan := chan\<rparr>)\<rparr>, p4), ret) } } } } })"

text \<open>\<open>junk\<close> is in the variable the trigger position is read into.\<close>

definition s_acq_check_data_acquire :: "u32 \<Rightarrow> ('o, 'p) acq_func" where
  "s_acq_check_data_acquire junk w msg ret =
     (case sm_handler (fst w) of
        None \<Rightarrow> Some (- ACQ_ERR, w, ret)
      | Some acq \<Rightarrow> do {
          (err, p1) \<leftarrow> s_acq_check_status (fst w) ACQ_CORE_COMPLETE_MASK ACQ_CORE_COMPLETE_VALUE
            ACQ_CORE_FC_FULL_MASK ACQ_CORE_FC_FULL_VALUE (snd w);
          if err \<noteq> - ACQ_OK then Some (err, (fst w, p1), ret)
          else do {
            (_, trig, p2) \<leftarrow> smio_rd (fst w) p1 ACQ_CORE_REG_TRIG_POS junk;
            params \<leftarrow> upd_opt (aq_params acq) (aq_curr_chan acq) (\<lambda>ap. ap\<lparr>ap_trig_addr := trig\<rparr>);
            Some (err, ((fst w)\<lparr>sm_handler := Some (acq\<lparr>aq_params := params\<rparr>)\<rparr>, p2), ret) } })"

section \<open>Reading the samples\<close>

definition s_acq_get_start_address :: "u64 \<Rightarrow> u64 \<Rightarrow> u64 \<Rightarrow> u64 \<Rightarrow> u64" where
  "s_acq_get_start_address trig_addr acq_size_bytes start_mem end_mem =
     (let rel = trig_addr - start_mem
      in if acq_size_bytes \<le> rel then trig_addr - acq_size_bytes
         else end_mem - (acq_size_bytes - rel))"

definition s_acq_get_read_block_addr_start :: "u64 \<Rightarrow> u64 \<Rightarrow> u64 \<Rightarrow> u64 \<Rightarrow> u64" where
  "s_acq_get_read_block_addr_start start_addr offset chan_start end_mem =
     (let rel = end_mem - start_addr
      in if offset \<le> rel then start_addr + offset else chan_start + (offset - rel))"

text \<open>One transfer into the reply: by DMA, and in a block access when that fails. The reply is the
  structure \<open>smio_acq_data_block_t\<close>, whose data begins after the four bytes of \<open>valid_bytes\<close>. The
  transfers are given a pointer into it: they do not change its size.\<close>

definition read_chunk ::
  "('o, 'p) acq_smio \<Rightarrow> u64 \<Rightarrow> u32 \<Rightarrow> u32 \<Rightarrow> u8 list \<Rightarrow> 'p \<Rightarrow> (int \<times> u8 list \<times> 'p) option" where
  "read_chunk self addr bytes_to_read num_bytes_read b p = do {
     let at = 4 + unat num_bytes_read;
     (n, d, p1) \<leftarrow> smio_thsafe_raw_client_read_dma self (LARGE_MEM_ADDR OR addr) (ucast bytes_to_read) (drop at b) p;
     (n', d', p2) \<leftarrow> (if n < 0
       then smio_thsafe_raw_client_read_block self (LARGE_MEM_ADDR OR addr) (ucast bytes_to_read) d p1
       else Some (n, d, p1));
     if length d' \<noteq> length (drop at b) then None else Some (n', take at b @ d', p2) }"

text \<open>What the loop does not change.\<close>

record read_plan =
  rp_single :: bool
  rp_shot_samples :: u32
  rp_pad_samples :: u32
  rp_sample_size :: u32
  rp_start :: u32
  rp_end :: u32
  rp_reply :: u32

definition bytes_to_read :: "read_plan \<Rightarrow> u32 \<Rightarrow> u64 \<Rightarrow> u32 \<Rightarrow> u32" where
  "bytes_to_read pl num_bytes_read rem_mem_space shot_sample_off =
     (if rp_single pl then
        (if rem_mem_space < ucast (rp_reply pl - num_bytes_read) then ucast rem_mem_space
         else rp_reply pl - num_bytes_read)
      else (rp_shot_samples pl - shot_sample_off) * rp_sample_size pl)"

definition bytes_to_jump :: "read_plan \<Rightarrow> u32" where
  "bytes_to_jump pl = (if rp_single pl then 0 else rp_pad_samples pl * rp_sample_size pl)"

text \<open>The next address; past the end it is taken back by the difference in the wrong direction.\<close>

definition next_addr :: "read_plan \<Rightarrow> u64 \<Rightarrow> u32 \<Rightarrow> u64" where
  "next_addr pl addr valid_bytes =
     (let a = addr + (ucast valid_bytes + ucast (bytes_to_jump pl))
      in if ucast (rp_end pl) \<le> a then ucast (rp_start pl) + (ucast (rp_end pl) - a) else a)"

text \<open>The loop; the result is false when a transfer was incomplete.\<close>

partial_function (option) acq_read_loop ::
  "('o, 'p) acq_smio \<Rightarrow> read_plan \<Rightarrow> u32 \<Rightarrow> u64 \<Rightarrow> u64 \<Rightarrow> u32 \<Rightarrow> u8 list \<Rightarrow> 'p \<Rightarrow> (bool \<times> u32 \<times> u8 list \<times> 'p) option"
where
  "acq_read_loop self pl num_bytes_read addr rem_mem_space shot_sample_off b p =
     (if \<not> num_bytes_read < rp_reply pl then Some (True, num_bytes_read, b, p)
      else do {
        let todo = bytes_to_read pl num_bytes_read rem_mem_space shot_sample_off;
        (valid_bytes, b', p') \<leftarrow> read_chunk self addr todo num_bytes_read b p;
        if valid_bytes \<noteq> uint todo then Some (False, num_bytes_read, b', p')
        else do {
          let addr' = next_addr pl addr todo;
          acq_read_loop self pl (num_bytes_read + todo) addr' (ucast (rp_end pl) - addr')
            (if rp_single pl then shot_sample_off else 0) b' p' } })"
text \<open>Where a block lies: the status when it is out of range, else the number of bytes of the reply,
  the plan of the loop, the address it starts at and the sample offset in its first shot.\<close>

definition block_layout ::
  "acq_buf \<Rightarrow> acq_params \<Rightarrow> u32 \<Rightarrow> (int + read_plan \<times> u64 \<times> u32) option" where
  "block_layout buf ap block_n =
     (let ss = ab_sample_size buf;
          num_samples_shot = ap_pre ap + ap_post ap;
          num_samples_multishot = num_samples_shot * ap_shots ap;
          num_samples_shot_aligned = ap_pre_aligned ap + ap_post_aligned ap;
          n_max_samples = BLOCK_SIZE div ss;
          over_samples = num_samples_multishot mod n_max_samples;
          valid0 = num_samples_multishot div n_max_samples;
          block_n_valid = (if valid0 \<noteq> 0 \<and> over_samples = 0 then valid0 - 1 else valid0);
          reply_size_full = (if block_n = block_n_valid \<and> 0 < over_samples then over_samples * ss else BLOCK_SIZE);
          trig_addr = ap_trig_addr ap +
            (if ap_shots ap = 1 then 0 else num_samples_shot_aligned * (ap_shots ap - 1) * ss);
          acq_size_bytes = (num_samples_shot_aligned * (ap_shots ap - 1) + ap_pre_aligned ap) * ss;
          end_mem = ab_end_addr buf + ss;
          start_addr = s_acq_get_start_address (ucast trig_addr) (ucast acq_size_bytes)
            (ucast (ab_start_addr buf)) (ucast end_mem);
          pre_pad = ap_pre_aligned ap - ap_pre ap;
          post_pad = ap_post_aligned ap - ap_post ap;
          or_block_sample = block_n * (BLOCK_SIZE div ss);
          or_shot = or_block_sample div num_samples_shot;
          or_sample_off = or_block_sample - or_shot * num_samples_shot;
          con_block_sample = or_shot * num_samples_shot_aligned + (pre_pad + or_sample_off);
          addr_i = s_acq_get_read_block_addr_start start_addr (ucast (con_block_sample * ss))
            (ucast (ab_start_addr buf)) (ucast end_mem);
          pl = \<lparr>rp_single = (ap_shots ap = 1), rp_shot_samples = num_samples_shot, rp_pad_samples = post_pad + pre_pad,
            rp_sample_size = ss, rp_start = ab_start_addr buf, rp_end = end_mem, rp_reply = reply_size_full\<rparr>
      in if (ab_max_samples buf * ss) div BLOCK_SIZE < block_n then Some (Inl (- ACQ_BLOCK_OOR))
         else if ss = 0 \<or> n_max_samples = 0 then None
         else if block_n_valid < block_n then Some (Inl (- ACQ_BLOCK_OOR))
         else if num_samples_shot = 0 then None
         else Some (Inr (pl, addr_i, or_sample_off)))"

text \<open>The number of valid bytes is written into the reply, 0 when a transfer failed.\<close>

definition s_acq_get_data_block :: "('o, 'p) acq_func" where
  "s_acq_get_data_block w msg ret =
     (case sm_handler (fst w) of
        None \<Rightarrow> Some (- ACQ_ERR, w, ret)
      | Some acq \<Rightarrow> do {
          chan \<leftarrow> EXP_MSG_ZMQ_ARG 0 msg;
          block_n \<leftarrow> EXP_MSG_ZMQ_ARG 1 msg;
          if aq_num_chan acq - 1 < chan then Some (- ACQ_NUM_CHAN_OOR, w, ret)
          else do {
            buf \<leftarrow> nth_opt (aq_buf acq) chan;
            ap \<leftarrow> nth_opt (aq_params acq) chan;
            layout \<leftarrow> block_layout buf ap block_n;
            case layout of
              Inl e \<Rightarrow> Some (e, w, ret)
            | Inr (pl, addr_i, or_sample_off) \<Rightarrow> do {
                b \<leftarrow> ret;
                (ok, num_bytes_read, b', p') \<leftarrow> acq_read_loop (fst w) pl 0 addr_i (ucast (rp_end pl) - addr_i)
                  or_sample_off b (snd w);
                if ok then do {
                  ret' \<leftarrow> put_ret 4 num_bytes_read (Some b');
                  Some (to_int32 (uint num_bytes_read + 4), (fst w, p'), ret') }
                else do {
                  ret' \<leftarrow> put_ret 4 (0 :: u32) (Some b');
                  Some (- ACQ_COULD_NOT_READ, (fst w, p'), ret') } } } })"

section \<open>Parameters of the core\<close>

definition s_acq_set_get_hw_data_trig_pol :: "u32 \<Rightarrow> ('o, 'p) acq_func" where
  "s_acq_set_get_hw_data_trig_pol = SET_GET_PARAM 0 ACQ_CORE_REG_TRIG_CFG (Single_Bit ACQ_CORE_TRIG_CFG_HW_TRIG_POL)
     (Some (0, 1)) None None"

definition s_acq_set_get_hw_data_trig_sel :: "u32 \<Rightarrow> ('o, 'p) acq_func" where
  "s_acq_set_get_hw_data_trig_sel = SET_GET_PARAM 0 ACQ_CORE_REG_TRIG_CFG ACQ_CORE_TRIG_CFG_INT_TRIG_SEL
     (Some (0, 31)) None None"

definition s_acq_set_get_hw_data_trig_filt :: "u32 \<Rightarrow> ('o, 'p) acq_func" where
  "s_acq_set_get_hw_data_trig_filt = SET_GET_PARAM 0 ACQ_CORE_REG_TRIG_DATA_CFG ACQ_CORE_TRIG_DATA_CFG_THRES_FILT
     (Some (0, 255)) None None"

definition s_acq_set_get_hw_data_trig_thres :: "u32 \<Rightarrow> ('o, 'p) acq_func" where
  "s_acq_set_get_hw_data_trig_thres = SET_GET_PARAM 0 ACQ_CORE_REG_TRIG_DATA_THRES whole_reg None None None"

definition s_acq_set_get_hw_trig_dly :: "u32 \<Rightarrow> ('o, 'p) acq_func" where
  "s_acq_set_get_hw_trig_dly = SET_GET_PARAM 0 ACQ_CORE_REG_TRIG_DLY whole_reg None None None"

definition s_acq_set_get_sw_trig :: "u32 \<Rightarrow> ('o, 'p) acq_func" where
  "s_acq_set_get_sw_trig = SET_GET_PARAM 0 ACQ_CORE_REG_SW_TRIG whole_reg (Some (0, 1)) None None"

definition s_acq_set_get_fsm_stop :: "u32 \<Rightarrow> ('o, 'p) acq_func" where
  "s_acq_set_get_fsm_stop = SET_GET_PARAM 0 ACQ_CORE_REG_CTL (Single_Bit ACQ_CORE_CTL_FSM_STOP_ACQ)
     (Some (0, 1)) None None"

definition s_acq_set_get_hw_data_trig_chan :: "u32 \<Rightarrow> ('o, 'p) acq_func" where
  "s_acq_set_get_hw_data_trig_chan = SET_GET_PARAM 0 ACQ_CORE_REG_ACQ_CHAN_CTL ACQ_CORE_ACQ_CHAN_CTL_DTRIG_WHICH
     (Some (0, 31)) None None"

definition s_acq_set_get_int_width :: "u32 \<Rightarrow> ('o, 'p) acq_func" where
  "s_acq_set_get_int_width = SET_GET_PARAM_CHANNEL 0 ACQ_CORE_REG_CH0_DESC ACQ_CORE_CH0_DESC_INT_WIDTH
     ACQ_CORE_CHAN_DESC_OFFSET ACQ_CORE_NUM_CHAN_DESC (Some (0, 65535)) None None"

definition s_acq_set_get_num_coalesce :: "u32 \<Rightarrow> ('o, 'p) acq_func" where
  "s_acq_set_get_num_coalesce = SET_GET_PARAM_CHANNEL 0 ACQ_CORE_REG_CH0_DESC ACQ_CORE_CH0_DESC_NUM_COALESCE
     ACQ_CORE_CHAN_DESC_OFFSET ACQ_CORE_NUM_CHAN_DESC (Some (0, 65535)) None None"

definition s_acq_set_get_num_atoms :: "u32 \<Rightarrow> ('o, 'p) acq_func" where
  "s_acq_set_get_num_atoms = SET_GET_PARAM_CHANNEL 0 ACQ_CORE_REG_CH0_ATOM_DESC ACQ_CORE_CH0_ATOM_DESC_NUM_ATOMS
     ACQ_CORE_CHAN_DESC_OFFSET ACQ_CORE_NUM_CHAN_DESC (Some (0, 65535)) None None"

definition s_acq_set_get_atom_width :: "u32 \<Rightarrow> ('o, 'p) acq_func" where
  "s_acq_set_get_atom_width = SET_GET_PARAM_CHANNEL 0 ACQ_CORE_REG_CH0_ATOM_DESC ACQ_CORE_CH0_ATOM_DESC_ATOM_WIDTH
     ACQ_CORE_CHAN_DESC_OFFSET ACQ_CORE_NUM_CHAN_DESC (Some (0, 65535)) None None"

text \<open>A read that fails leaves the variable at what the uninitialised one of the macro held.\<close>

definition chan_desc :: "('o, 'p) acq_smio \<Rightarrow> u64 \<Rightarrow> param_field \<Rightarrow> u32 \<Rightarrow> u32 \<Rightarrow> 'p \<Rightarrow> (u32 \<times> 'p) option" where
  "chan_desc self reg field chan junk p =
     map_option (\<lambda>(_, v, p'). (v, p')) (GET_PARAM_CHANNEL self 0 reg field ACQ_CORE_CHAN_DESC_OFFSET chan None junk p)"

definition s_acq_sample_size :: "u32 \<Rightarrow> ('o, 'p) acq_func" where
  "s_acq_sample_size junk w msg ret =
     (case sm_handler (fst w) of
        None \<Rightarrow> Some (- ACQ_ERR, w, ret)
      | Some acq \<Rightarrow> do {
          rw \<leftarrow> EXP_MSG_ZMQ_ARG 0 msg;
          chan \<leftarrow> EXP_MSG_ZMQ_ARG 1 msg;
          _ \<leftarrow> EXP_MSG_ZMQ_ARG 2 msg;
          if \<not> chan < ACQ_CORE_NUM_CHAN_DESC then Some (- ACQ_NUM_CHAN_OOR, w, ret)
          else if rw \<noteq> 0 then do {
            (width, p1) \<leftarrow> chan_desc (fst w) ACQ_CORE_REG_CH0_DESC ACQ_CORE_CH0_DESC_INT_WIDTH chan junk (snd w);
            (coalesce, p2) \<leftarrow> chan_desc (fst w) ACQ_CORE_REG_CH0_DESC ACQ_CORE_CH0_DESC_NUM_COALESCE chan junk p1;
            ret' \<leftarrow> put_ret 4 (width div DDR3_BYTE_2_BIT * coalesce) ret;
            Some (4, (fst w, p2), ret') }
          else Some (- ACQ_OK, w, ret) })"

text \<open>\<open>acq_exp_fp\<close>, in the order of the descriptors.\<close>

definition acq_exp_fp :: "u32 \<Rightarrow> ('o, 'p) acq_func list" where
  "acq_exp_fp junk =
     [s_acq_data_acquire, s_acq_check_data_acquire junk, s_acq_get_data_block, s_acq_cfg_trigger,
      s_acq_set_get_hw_data_trig_pol junk, s_acq_set_get_hw_data_trig_sel junk, s_acq_set_get_hw_data_trig_filt junk,
      s_acq_set_get_hw_data_trig_thres junk, s_acq_set_get_hw_trig_dly junk, s_acq_set_get_sw_trig junk,
      s_acq_set_get_fsm_stop junk, s_acq_set_get_hw_data_trig_chan junk, s_acq_set_get_int_width junk,
      s_acq_set_get_num_coalesce junk, s_acq_set_get_num_atoms junk, s_acq_set_get_atom_width junk,
      s_acq_sample_size junk]"

section \<open>Opcodes and descriptors\<close>

definition acq_codes :: "(string \<times> u32) list" where
  "acq_codes =
     [(''acq_data_acquire'', 0),
      (''acq_get_data_block'', 1),
      (''acq_check_data_acquire'', 2),
      (''acq_cfg_trig'', 3),
      (''acq_hw_data_trig_pol'', 4),
      (''acq_hw_data_trig_sel'', 5),
      (''acq_hw_data_filt'', 6),
      (''acq_hw_data_thres'', 7),
      (''acq_hw_trig_dly'', 8),
      (''acq_sw_trig'', 9),
      (''acq_fsm_stop'', 10),
      (''acq_hw_data_trig_chan'', 11),
      (''acq_ch_int_width'', 12),
      (''acq_ch_num_coalesce'', 13),
      (''acq_ch_num_atoms'', 14),
      (''acq_ch_atom_width'', 15),
      (''acq_ch_sample_size'', 16)]"

definition BLOCK_ARG :: u32 where "BLOCK_ARG = DISP_ARG_ENCODE_RAW DISP_ATYPE_STRUCT (4 + BLOCK_SIZE)"

definition acq_data_acquire_exp :: "('w, msg_args) disp_op" where "acq_data_acquire_exp = smio_exp ''acq_data_acquire'' 0 DISP_ARG_END [UINT32_ARG, UINT32_ARG, UINT32_ARG, UINT32_ARG]"
definition acq_check_data_acquire_exp :: "('w, msg_args) disp_op" where "acq_check_data_acquire_exp = smio_exp ''acq_check_data_acquire'' 2 DISP_ARG_END []"
definition acq_get_data_block_exp :: "('w, msg_args) disp_op" where "acq_get_data_block_exp = smio_exp ''acq_get_data_block'' 1 BLOCK_ARG [UINT32_ARG, UINT32_ARG]"
definition acq_cfg_trig_exp :: "('w, msg_args) disp_op" where "acq_cfg_trig_exp = param_exp ''acq_cfg_trig'' 3"
definition acq_hw_data_trig_pol_exp :: "('w, msg_args) disp_op" where "acq_hw_data_trig_pol_exp = param_exp ''acq_hw_data_trig_pol'' 4"
definition acq_hw_data_trig_sel_exp :: "('w, msg_args) disp_op" where "acq_hw_data_trig_sel_exp = param_exp ''acq_hw_data_trig_sel'' 5"
definition acq_hw_data_trig_filt_exp :: "('w, msg_args) disp_op" where "acq_hw_data_trig_filt_exp = param_exp ''acq_hw_data_filt'' 6"
definition acq_hw_data_trig_thres_exp :: "('w, msg_args) disp_op" where "acq_hw_data_trig_thres_exp = param_exp ''acq_hw_data_thres'' 7"
definition acq_hw_trig_dly_exp :: "('w, msg_args) disp_op" where "acq_hw_trig_dly_exp = param_exp ''acq_hw_trig_dly'' 8"
definition acq_sw_trig_exp :: "('w, msg_args) disp_op" where "acq_sw_trig_exp = param_exp ''acq_sw_trig'' 9"
definition acq_fsm_stop_exp :: "('w, msg_args) disp_op" where "acq_fsm_stop_exp = param_exp ''acq_fsm_stop'' 10"
definition acq_hw_data_trig_chan_exp :: "('w, msg_args) disp_op" where "acq_hw_data_trig_chan_exp = param_exp ''acq_hw_data_trig_chan'' 11"
definition acq_ch_int_width_exp :: "('w, msg_args) disp_op" where "acq_ch_int_width_exp = chan_exp ''acq_ch_int_width'' 12"
definition acq_ch_num_coalesce_exp :: "('w, msg_args) disp_op" where "acq_ch_num_coalesce_exp = chan_exp ''acq_ch_num_coalesce'' 13"
definition acq_ch_num_atoms_exp :: "('w, msg_args) disp_op" where "acq_ch_num_atoms_exp = chan_exp ''acq_ch_num_atoms'' 14"
definition acq_ch_atom_width_exp :: "('w, msg_args) disp_op" where "acq_ch_atom_width_exp = chan_exp ''acq_ch_atom_width'' 15"
definition acq_ch_sample_size_exp :: "('w, msg_args) disp_op" where "acq_ch_sample_size_exp = chan_exp ''acq_ch_sample_size'' 16"

definition acq_exp_ops :: "('w, msg_args) disp_op list" where
  "acq_exp_ops =
     [acq_data_acquire_exp, acq_check_data_acquire_exp, acq_get_data_block_exp, acq_cfg_trig_exp,
      acq_hw_data_trig_pol_exp, acq_hw_data_trig_sel_exp, acq_hw_data_trig_filt_exp, acq_hw_data_trig_thres_exp,
      acq_hw_trig_dly_exp, acq_sw_trig_exp, acq_fsm_stop_exp, acq_hw_data_trig_chan_exp,
      acq_ch_int_width_exp, acq_ch_num_coalesce_exp, acq_ch_num_atoms_exp, acq_ch_atom_width_exp,
      acq_ch_sample_size_exp]"

lemmas acq_exp_defs = acq_exp_ops_def acq_data_acquire_exp_def acq_check_data_acquire_exp_def acq_get_data_block_exp_def acq_cfg_trig_exp_def acq_hw_data_trig_pol_exp_def acq_hw_data_trig_sel_exp_def acq_hw_data_trig_filt_exp_def acq_hw_data_trig_thres_exp_def acq_hw_trig_dly_exp_def acq_sw_trig_exp_def acq_fsm_stop_exp_def acq_hw_data_trig_chan_exp_def acq_ch_int_width_exp_def acq_ch_num_coalesce_exp_def acq_ch_num_atoms_exp_def acq_ch_atom_width_exp_def acq_ch_sample_size_exp_def

lemma acq_opcodes: "map (\<lambda>op. (dop_name op, opcode op)) acq_exp_ops = map (nth acq_codes) ([0, 2, 1] @ [3..<17])"
  by (simp add: acq_exp_defs acq_codes_def exp_simps upt_rec)

lemma acq_distinct: "distinct (map opcode acq_exp_ops)"
  by (simp add: acq_exp_defs exp_simps)

section \<open>Life cycle\<close>

text \<open>The region of a channel: from the table of the board, and the last part of the memory for an
  instance or a channel that is not in it.\<close>

definition chan_region :: "(u32 \<times> u32 \<times> u32) list list \<Rightarrow> u32 \<Rightarrow> u32 \<Rightarrow> u32 \<times> u32 \<times> u32" where
  "chan_region tab inst_id i =
     (if length tab - 1 < unat inst_id \<or> length (tab ! 0) - 1 < unat i
      then (i, ucast (MEM_TOTAL_SIZE - MEM_REGION_SIZE), ucast (MEM_TOTAL_SIZE - DDR3_DATA_WIDTH))
      else tab ! unat inst_id ! unat i)"

text \<open>The properties of one channel; no result where one of them reads as 0. The division by the
  sample size has no value where that is 0.\<close>

definition acq_new_buf ::
  "(u32 \<times> u32 \<times> u32) list list \<Rightarrow> u32 \<Rightarrow> ('o, 'p) acq_smio \<Rightarrow> u32 \<Rightarrow> 'p \<Rightarrow> (acq_buf option \<times> 'p) option" where
  "acq_new_buf tab junk self i p = do {
     let (bid, first_addr, chan_end) = chan_region tab (smio_get_inst_id self) i;
     (width, p1) \<leftarrow> chan_desc self ACQ_CORE_REG_CH0_DESC ACQ_CORE_CH0_DESC_INT_WIDTH i junk p;
     (coalesce, p2) \<leftarrow> chan_desc self ACQ_CORE_REG_CH0_DESC ACQ_CORE_CH0_DESC_NUM_COALESCE i junk p1;
     (atoms, p3) \<leftarrow> chan_desc self ACQ_CORE_REG_CH0_ATOM_DESC ACQ_CORE_CH0_ATOM_DESC_NUM_ATOMS i junk p2;
     (atom_width, p4) \<leftarrow> chan_desc self ACQ_CORE_REG_CH0_ATOM_DESC ACQ_CORE_CH0_ATOM_DESC_ATOM_WIDTH i junk p3;
     if \<not> 0 < width \<or> \<not> 0 < coalesce \<or> \<not> 0 < atoms \<or> \<not> 0 < atom_width then Some (None, p4)
     else do {
       let ss = width div DDR3_BYTE_2_BIT * coalesce;
       let last_addr = (if first_addr < chan_end - ss then chan_end - ss else first_addr);
       if ss = 0 then None
       else Some (Some \<lparr>ab_id = bid, ab_start_addr = first_addr, ab_end_addr = last_addr,
         ab_max_samples = (last_addr - first_addr) div ss, ab_sample_size = ss\<rparr>, p4) } }"

fun acq_new_bufs ::
  "(u32 \<times> u32 \<times> u32) list list \<Rightarrow> u32 \<Rightarrow> ('o, 'p) acq_smio \<Rightarrow> nat list \<Rightarrow> 'p \<Rightarrow> (acq_buf list option \<times> 'p) option" where
  "acq_new_bufs tab junk self [] p = Some (Some [], p)"
| "acq_new_bufs tab junk self (i # is) p = do {
     (b, p1) \<leftarrow> acq_new_buf tab junk self (of_nat i) p;
     case b of
       None \<Rightarrow> Some (None, p1)
     | Some buf \<Rightarrow> do {
         (bs, p2) \<leftarrow> acq_new_bufs tab junk self is p1;
         Some (map_option ((#) buf) bs, p2) } }"

text \<open>\<open>al\<close> is the outcome of the three allocations. The status of the reads is ignored.\<close>

definition smio_acq_new ::
  "(nat \<Rightarrow> bool) \<Rightarrow> (u32 \<times> u32 \<times> u32) list list \<Rightarrow> u32 \<Rightarrow> u32 \<Rightarrow> u32 \<Rightarrow> u32 \<Rightarrow> u32 \<Rightarrow> ('o, 'p) acq_smio \<Rightarrow> 'p \<Rightarrow>
     (smio_acq option \<times> 'p) option" where
  "smio_acq_new al tab end_chan junk num_samples_pre num_samples_post num_shots parent p =
     (if \<not> al 0 then Some (None, p)
      else do {
        (_, chans_read, p1) \<leftarrow> GET_PARAM parent 0 ACQ_CORE_REG_ACQ_CHAN_CTL ACQ_CORE_ACQ_CHAN_CTL_NUM_CHAN None junk p;
        let num_chan = (if chans_read = 0 then end_chan else chans_read);
        (_, impl, p2) \<leftarrow> GET_PARAM parent 0 ACQ_CORE_REG_SHOTS (Single_Bit ACQ_CORE_SHOTS_MULTISHOT_RAM_SIZE_IMPL) None junk p1;
        (_, ram_size, p3) \<leftarrow> GET_PARAM parent 0 ACQ_CORE_REG_SHOTS ACQ_CORE_SHOTS_MULTISHOT_RAM_SIZE None junk p2;
        if \<not> al 1 then Some (None, p3)
        else do {
          (bufs, p4) \<leftarrow> acq_new_bufs tab junk parent [0..<unat num_chan] p3;
          case bufs of
            None \<Rightarrow> Some (None, p4)
          | Some bs \<Rightarrow>
              if \<not> al 2 then Some (None, p4)
              else Some (Some \<lparr>aq_params = map (\<lambda>b. \<lparr>ap_pre = num_samples_pre, ap_post = num_samples_post,
                    ap_pre_aligned = 0, ap_post_aligned = 0, ap_shots = num_shots, ap_trig_addr = ab_start_addr b\<rparr>) bs,
                  aq_curr_chan = 0, aq_num_chan = num_chan,
                  aq_multishot_ram_size = (if impl = 0 then ACQ_CORE_MULTISHOT_MEM_SIZE else ram_size),
                  aq_buf = bs\<rparr>, p4) } })"

definition smio_acq_destroy :: "smio_acq option \<Rightarrow> smio_err \<times> smio_acq option" where
  "smio_acq_destroy self_p = plain_destroy self_p"

definition acq_ops :: "'w smio_ops" where "acq_ops = not_impl_ops"

definition acq_init ::
  "bool \<Rightarrow> (nat \<Rightarrow> bool) \<Rightarrow> (nat \<Rightarrow> bool) \<Rightarrow> (u32 \<times> u32 \<times> u32) list list \<Rightarrow> u32 \<Rightarrow> u32 \<Rightarrow> nat list \<Rightarrow>
     ('v smio_ops, 'p) acq_smio \<Rightarrow> 'p \<Rightarrow> (('v smio_ops, smio_acq, 'p) smio_world, msg_args) dheap \<Rightarrow>
     (smio_err \<times> ('v smio_ops, 'p) acq_smio \<times> 'p \<times> (('v smio_ops, smio_acq, 'p) smio_world, msg_args) dheap) option" where
  "acq_init ok ze al tab end_chan junk exp_ops self p h =
     mod_init ok ze ACQ_SDB_DEVID ACQ_SDB_NAME acq_ops exp_ops (acq_exp_fp junk)
       (smio_acq_new al tab end_chan junk 0 0 1) self p h"

definition acq_shutdown :: "('v smio_ops, 'p) acq_smio \<Rightarrow> smio_err \<times> ('v smio_ops, 'p) acq_smio" where
  "acq_shutdown self = mod_shutdown self"

end
