(* ===== verification/Acq_Facts.thy ===== *)
theory Acq_Facts
  imports Acq Sensor_Modules
begin

text \<open>
  Facts on the acquisition module: the addresses of samples in the circular region of a channel, the
  trigger configuration, the invariant of the module's state, and what starting an acquisition writes
  into the core.
\<close>

section \<open>Addresses\<close>

text \<open>The reference: a region of \<open>L\<close> bytes from \<open>start\<close> on, used as a ring.\<close>

definition ring_addr :: "nat \<Rightarrow> nat \<Rightarrow> nat \<Rightarrow> nat" where
  "ring_addr start L k = start + k mod L"

lemma ring_addr_small: "k < L \<Longrightarrow> ring_addr start L k = start + k"
  by (simp add: ring_addr_def)

lemma ring_addr_wrap:
  assumes "L \<le> k" and "k < 2 * L"
  shows "ring_addr start L k = start + (k - L)"
proof -
  have "k - L < L" using assms by simp
  then show ?thesis using assms(1) by (simp add: ring_addr_def le_mod_geq)
qed

lemma unat_sub_le: "b \<le> a \<Longrightarrow> unat (a - b) = unat a - unat (b :: u64)"
  by (simp add: unat_sub)

lemma unat_add_lt: "unat a + unat b < 2 ^ 64 \<Longrightarrow> unat (a + b :: u64) = unat a + unat b"
  by (simp add: unat_add_lem [symmetric])

lemma start_address_ring:
  assumes r: "start \<le> trig" "trig < end_mem" and z: "unat sz \<le> unat end_mem - unat start"
  shows "unat (s_acq_get_start_address trig sz start end_mem) =
    ring_addr (unat start) (unat end_mem - unat start) (unat trig - unat start + (unat end_mem - unat start - unat sz))"
proof -
  have n: "unat start \<le> unat trig" "unat trig < unat end_mem"
    using r by (simp_all add: word_le_nat_alt word_less_nat_alt)
  have rel: "unat (trig - start) = unat trig - unat start" using r(1) by (rule unat_sub_le)
  show ?thesis
  proof (cases "sz \<le> trig - start")
    case True
    then have t: "unat sz \<le> unat trig - unat start" using rel by (simp add: word_le_nat_alt)
    then have "sz \<le> trig" by (simp add: word_le_nat_alt)
    then have "unat (s_acq_get_start_address trig sz start end_mem) = unat trig - unat sz"
      using True by (simp add: s_acq_get_start_address_def unat_sub_le)
    with t z n show ?thesis by (subst ring_addr_wrap) linarith+
  next
    case False
    then have t: "unat trig - unat start < unat sz" using rel by (simp add: word_le_nat_alt)
    have w: "unat (sz - (trig - start)) = unat sz - (unat trig - unat start)"
      using False rel by (simp add: unat_sub_le)
    then have "sz - (trig - start) \<le> end_mem" using z n by (simp add: word_le_nat_alt)
    then have "unat (s_acq_get_start_address trig sz start end_mem) = unat end_mem - (unat sz - (unat trig - unat start))"
      using False w by (simp add: s_acq_get_start_address_def unat_sub_le)
    with t z n show ?thesis by (subst ring_addr_small) linarith+
  qed
qed

lemma read_block_addr_ring:
  assumes r: "start \<le> a" "a < end_mem" and z: "unat off \<le> unat end_mem - unat start"
  shows "unat (s_acq_get_read_block_addr_start a off start end_mem) =
    (if unat a + unat off = unat end_mem then unat end_mem
     else ring_addr (unat start) (unat end_mem - unat start) (unat a - unat start + unat off))"
proof -
  have n: "unat start \<le> unat a" "unat a < unat end_mem" using r by (simp_all add: word_le_nat_alt word_less_nat_alt)
  have e: "unat end_mem < 2 ^ 64" using unsigned_less [of end_mem] by simp
  have rel: "unat (end_mem - a) = unat end_mem - unat a" using r(2) by (simp add: unat_sub_le)
  show ?thesis
  proof (cases "off \<le> end_mem - a")
    case True
    then have t: "unat off \<le> unat end_mem - unat a" using rel by (simp add: word_le_nat_alt)
    then have v: "unat (s_acq_get_read_block_addr_start a off start end_mem) = unat a + unat off"
      using True n e by (simp add: s_acq_get_read_block_addr_start_def unat_add_lt)
    show ?thesis
    proof (cases "unat a + unat off = unat end_mem")
      case False
      with t n v show ?thesis by (subst ring_addr_small) simp_all
    qed (use v in simp)
  next
    case False
    then have t: "unat end_mem - unat a < unat off" using rel by (simp add: word_le_nat_alt)
    have w: "unat (off - (end_mem - a)) = unat off - (unat end_mem - unat a)" using False rel by (simp add: unat_sub_le)
    then have v: "unat (s_acq_get_read_block_addr_start a off start end_mem) = unat start + (unat off - (unat end_mem - unat a))"
      using False z n e by (simp add: s_acq_get_read_block_addr_start_def unat_add_lt)
    have "\<not> unat a + unat off = unat end_mem" using t by simp
    moreover have "ring_addr (unat start) (unat end_mem - unat start) (unat a - unat start + unat off) =
        unat start + (unat a - unat start + unat off - (unat end_mem - unat start))"
      by (rule ring_addr_wrap) (use t z n in linarith)+
    ultimately show ?thesis using t n v by simp
  qed
qed

section \<open>The trigger type\<close>

lemma and_bit_mask: "n < 32 \<Longrightarrow> (x :: u32) AND push_bit n (mask 1) = 0 \<longleftrightarrow> \<not> bit x n"
proof
  assume n: "n < 32" and "x AND push_bit n (mask 1) = 0"
  then have "\<not> bit (x AND push_bit n (mask 1)) n" by simp
  with n show "\<not> bit x n" by (simp add: bit_simps)
next
  assume "n < 32" and "\<not> bit x n"
  then show "x AND push_bit n (mask 1) = 0" by (intro bit_word_eqI) (auto simp: bit_simps le_less_Suc_eq)
qed

text \<open>The pure part: the two words a type is encoded into, and the type they are decoded to.\<close>

definition trig_encode :: "u32 \<Rightarrow> u32 \<Rightarrow> u32 \<Rightarrow> u32 \<times> u32" where
  "trig_encode t ctl cfg =
     (if t = 0 then ctl OR push_bit 16 (mask 1) else ctl AND NOT (push_bit 16 (mask 1)),
      if t = 0 then cfg AND NOT (push_bit 2 (mask 1)) AND NOT (push_bit 3 (mask 1))
      else if t = 1 then ((cfg OR push_bit 2 (mask 1)) AND NOT (push_bit 3 (mask 1))) OR push_bit 0 (mask 1)
      else if t = 2 then ((cfg OR push_bit 2 (mask 1)) AND NOT (push_bit 3 (mask 1))) AND NOT (push_bit 0 (mask 1))
      else (cfg AND NOT (push_bit 2 (mask 1))) OR push_bit 3 (mask 1))"

definition trig_decode :: "u32 \<Rightarrow> u32 \<times> u32 \<Rightarrow> int \<times> u32" where
  "trig_decode tt = (\<lambda>(ctl, cfg).
     if bit ctl 16 then (if bit cfg 2 \<or> bit cfg 3 then -1 else 0, 0)
     else if bit cfg 2 then (0, if bit cfg 0 then 1 else 2)
     else if bit cfg 3 then (0, 3) else (0, tt))"

lemma lt_4: "(t :: u32) < 4 \<Longrightarrow> t = 0 \<or> t = 1 \<or> t = 2 \<or> t = 3"
  unfolding word_unat_eq_iff word_less_nat_alt by simp linarith

lemma trig_decode_encode: "t < 4 \<Longrightarrow> trig_decode tt (trig_encode t ctl cfg) = (0, t)"
proof -
  assume "t < 4"
  from lt_4 [OF this] show ?thesis by (elim disjE) (simp_all add: trig_decode_def trig_encode_def bit_simps)
qed

lemma trig_consts:
  "ACQ_CORE_CTL_FSM_ACQ_NOW = push_bit 16 (mask 1)" "ACQ_CORE_TRIG_CFG_HW_TRIG_SEL = push_bit 0 (mask 1)"
  "ACQ_CORE_TRIG_CFG_HW_TRIG_EN = push_bit 2 (mask 1)" "ACQ_CORE_TRIG_CFG_SW_TRIG_EN = push_bit 3 (mask 1)"
  by (simp_all only: ACQ_CORE_CTL_FSM_ACQ_NOW_def ACQ_CORE_TRIG_CFG_HW_TRIG_SEL_def ACQ_CORE_TRIG_CFG_HW_TRIG_EN_def
      ACQ_CORE_TRIG_CFG_SW_TRIG_EN_def WBGEN2_GEN_MASK_def)

lemma and_or_zero: "(x :: u32) AND (a OR b) = 0 \<longleftrightarrow> x AND a = 0 \<and> x AND b = 0"
  by (auto simp: bit_eq_iff bit_simps)

lemma trig_bits:
  "x AND ACQ_CORE_CTL_FSM_ACQ_NOW = 0 \<longleftrightarrow> \<not> bit x 16" "x AND ACQ_CORE_TRIG_CFG_HW_TRIG_SEL = 0 \<longleftrightarrow> \<not> bit x 0"
  "x AND ACQ_CORE_TRIG_CFG_HW_TRIG_EN = 0 \<longleftrightarrow> \<not> bit x 2" "x AND ACQ_CORE_TRIG_CFG_SW_TRIG_EN = 0 \<longleftrightarrow> \<not> bit x 3"
  unfolding trig_consts by (rule and_bit_mask, simp)+

lemma trig_regs_read:
  assumes bus: "reg_bus (smio_rd self) (smio_wr self) view good mapped" and g: "good p"
    and m: "mapped ACQ_CORE_REG_CTL" "mapped ACQ_CORE_REG_TRIG_CFG"
  shows "\<exists>p1. trig_regs self p = Some (view p ACQ_CORE_REG_CTL, view p ACQ_CORE_REG_TRIG_CFG, p1) \<and> good p1 \<and>
    (\<forall>a. mapped a \<longrightarrow> view p1 a = view p a)"
proof -
  obtain p1 where p1: "smio_rd self p ACQ_CORE_REG_CTL 0 = Some (4, view p ACQ_CORE_REG_CTL, p1)" "good p1"
    "\<forall>a. mapped a \<longrightarrow> view p1 a = view p a" using reg_bus.rd_view [OF bus g m(1)] by blast
  obtain p2 where "smio_rd self p1 ACQ_CORE_REG_TRIG_CFG 0 = Some (4, view p1 ACQ_CORE_REG_TRIG_CFG, p2)" "good p2"
    "\<forall>a. mapped a \<longrightarrow> view p2 a = view p1 a" using reg_bus.rd_view [OF bus p1(2) m(2)] by blast
  with p1 m(2) show ?thesis by (simp add: trig_regs_def)
qed

lemma get_trigger_bus:
  assumes bus: "reg_bus (smio_rd self) (smio_wr self) view good mapped" and g: "good p"
    and m: "mapped ACQ_CORE_REG_CTL" "mapped ACQ_CORE_REG_TRIG_CFG"
  shows "\<exists>p1. s_acq_get_trigger_type self tt p =
      Some (fst (trig_decode tt (view p ACQ_CORE_REG_CTL, view p ACQ_CORE_REG_TRIG_CFG)),
        snd (trig_decode tt (view p ACQ_CORE_REG_CTL, view p ACQ_CORE_REG_TRIG_CFG)), p1) \<and> good p1 \<and>
    (\<forall>a. mapped a \<longrightarrow> view p1 a = view p a)"
  using trig_regs_read [OF assms]
  by (auto simp: s_acq_get_trigger_type_def trig_bits and_or_zero trig_decode_def acq_codes trig_types)

lemma set_trigger_bus:
  assumes bus: "reg_bus (smio_rd self) (smio_wr self) view good mapped" and g: "good p"
    and m: "mapped ACQ_CORE_REG_CTL" "mapped ACQ_CORE_REG_TRIG_CFG" and t: "t < 4"
  shows "\<exists>p1. s_acq_set_trigger_type self t p = Some (0, p1) \<and> good p1 \<and>
    (view p1 ACQ_CORE_REG_CTL, view p1 ACQ_CORE_REG_TRIG_CFG) =
      trig_encode t (view p ACQ_CORE_REG_CTL) (view p ACQ_CORE_REG_TRIG_CFG) \<and>
    (\<forall>a. mapped a \<longrightarrow> a \<noteq> ACQ_CORE_REG_CTL \<longrightarrow> a \<noteq> ACQ_CORE_REG_TRIG_CFG \<longrightarrow> view p1 a = view p a)"
proof -
  obtain p1 where p1: "trig_regs self p = Some (view p ACQ_CORE_REG_CTL, view p ACQ_CORE_REG_TRIG_CFG, p1)" "good p1"
    "\<forall>a. mapped a \<longrightarrow> view p1 a = view p a" using trig_regs_read [OF bus g m] by blast
  let ?e = "trig_encode t (view p ACQ_CORE_REG_CTL) (view p ACQ_CORE_REG_TRIG_CFG)"
  obtain p2 where p2: "smio_wr self p1 ACQ_CORE_REG_CTL (fst ?e) = Some (4, p2)" "good p2"
    "\<forall>a. mapped a \<longrightarrow> view p2 a = (if a = ACQ_CORE_REG_CTL then fst ?e else view p1 a)"
    using reg_bus.wr_view [OF bus p1(2) m(1)] by blast
  obtain p3 where p3: "smio_wr self p2 ACQ_CORE_REG_TRIG_CFG (snd ?e) = Some (4, p3)" "good p3"
    "\<forall>a. mapped a \<longrightarrow> view p3 a = (if a = ACQ_CORE_REG_TRIG_CFG then snd ?e else view p2 a)"
    using reg_bus.wr_view [OF bus p2(2) m(2)] by blast
  from lt_4 [OF t] have "s_acq_set_trigger_type self t p = Some (0, p3)" using p1(1) p2(1) p3(1)
    by (elim disjE) (simp_all add: s_acq_set_trigger_type_def Let_def trig_consts trig_types acq_codes trig_encode_def)
  moreover have "ACQ_CORE_REG_CTL \<noteq> ACQ_CORE_REG_TRIG_CFG" by (simp add: regs)
  ultimately show ?thesis using p1 p2 p3 m by (cases ?e) auto
qed

section \<open>The status\<close>

definition core_idle :: "u32 \<Rightarrow> bool" where
  "core_idle st \<longleftrightarrow> st AND ACQ_CORE_IDLE_MASK = ACQ_CORE_IDLE_VALUE"

lemma idle_not_full: "core_idle st \<Longrightarrow> st AND ACQ_CORE_FC_FULL_MASK \<noteq> ACQ_CORE_FC_FULL_VALUE"
proof
  assume i: "core_idle st" and f: "st AND ACQ_CORE_FC_FULL_MASK = ACQ_CORE_FC_FULL_VALUE"
  have "bit ACQ_CORE_FC_FULL_VALUE 9" "bit ACQ_CORE_IDLE_MASK 9" "\<not> bit ACQ_CORE_IDLE_VALUE 9"
    by (simp_all add: acq_masks bit_simps)
  with i arg_cong [OF f, of "\<lambda>x. bit x 9"] show False
    unfolding core_idle_def by (metis bit_and_iff)
qed

lemma check_status_bus:
  assumes bus: "reg_bus (smio_rd self) (smio_wr self) view good mapped" and g: "good p" and m: "mapped ACQ_CORE_REG_STA"
  shows "\<exists>p1. s_acq_check_status self sm sv om ov p =
      Some (if view p ACQ_CORE_REG_STA AND om = ov then -8 else if view p ACQ_CORE_REG_STA AND sm \<noteq> sv then -3 else 0, p1) \<and>
    good p1 \<and> (\<forall>a. mapped a \<longrightarrow> view p1 a = view p a)"
  using reg_bus.rd_view [OF bus g m, of 0] by (auto simp: s_acq_check_status_def acq_codes)

lemma check_idle_bus:
  assumes bus: "reg_bus (smio_rd self) (smio_wr self) view good mapped" and g: "good p" and m: "mapped ACQ_CORE_REG_STA"
    and i: "core_idle (view p ACQ_CORE_REG_STA)"
  shows "\<exists>p1. s_acq_check_status self ACQ_CORE_IDLE_MASK ACQ_CORE_IDLE_VALUE ACQ_CORE_FC_FULL_MASK ACQ_CORE_FC_FULL_VALUE p =
      Some (0, p1) \<and> good p1 \<and> (\<forall>a. mapped a \<longrightarrow> view p1 a = view p a)"
proof -
  obtain p1 where "s_acq_check_status self ACQ_CORE_IDLE_MASK ACQ_CORE_IDLE_VALUE ACQ_CORE_FC_FULL_MASK ACQ_CORE_FC_FULL_VALUE p =
      Some (if view p ACQ_CORE_REG_STA AND ACQ_CORE_FC_FULL_MASK = ACQ_CORE_FC_FULL_VALUE then -8
        else if view p ACQ_CORE_REG_STA AND ACQ_CORE_IDLE_MASK \<noteq> ACQ_CORE_IDLE_VALUE then -3 else 0, p1)"
    "good p1" "\<forall>a. mapped a \<longrightarrow> view p1 a = view p a" using check_status_bus [OF bus g m] by blast
  with idle_not_full [OF i] i show ?thesis by (auto simp: core_idle_def)
qed

lemma cfg_trigger_bus:
  assumes bus: "reg_bus (smio_rd self) (smio_wr self) view good mapped" and g: "good p"
    and m: "mapped ACQ_CORE_REG_CTL" "mapped ACQ_CORE_REG_TRIG_CFG" "mapped ACQ_CORE_REG_STA"
    and h: "sm_handler self = Some acq" and i: "core_idle (view p ACQ_CORE_REG_STA)" and t: "(t :: u32) < 4" "(v :: u32) < 4" and b: "length b = 4"
  shows "\<exists>p1 p2. s_acq_cfg_trigger (self, p) \<lparr>tag = tg, content = [le_bytes 4 (0 :: u32), le_bytes 4 t]\<rparr> (Some b) =
      Some (0, (self, p1), Some b) \<and> good p1 \<and>
    s_acq_cfg_trigger (self, p1) \<lparr>tag = tg, content = [le_bytes 4 (1 :: u32), le_bytes 4 v]\<rparr> (Some b) =
      Some (4, (self, p2), Some (le_bytes 4 t)) \<and> good p2"
proof -
  obtain p1 where p1: "s_acq_check_status self ACQ_CORE_IDLE_MASK ACQ_CORE_IDLE_VALUE ACQ_CORE_FC_FULL_MASK ACQ_CORE_FC_FULL_VALUE p = Some (0, p1)"
    "good p1" using check_idle_bus [OF bus g m(3) i] by blast
  obtain p2 where p2: "s_acq_set_trigger_type self t p1 = Some (0, p2)" "good p2"
    "(view p2 ACQ_CORE_REG_CTL, view p2 ACQ_CORE_REG_TRIG_CFG) =
      trig_encode t (view p1 ACQ_CORE_REG_CTL) (view p1 ACQ_CORE_REG_TRIG_CFG)" using set_trigger_bus [OF bus p1(2) m(1,2) t(1)] by blast
  obtain p3 where p3: "s_acq_get_trigger_type self 0 p2 = Some (0, t, p3)" "good p3"
    using get_trigger_bus [OF bus p2(2) m(1,2), of 0] unfolding p2(3) trig_decode_encode [OF t(1)] by auto
  from h t p1(1) p2(1) have
    "s_acq_cfg_trigger (self, p) \<lparr>tag = tg, content = [le_bytes 4 (0 :: u32), le_bytes 4 t]\<rparr> (Some b) = Some (0, (self, p2), Some b)"
    by (simp add: s_acq_cfg_trigger_def trig_types acq_codes)
  moreover from h t p3(1) b have
    "s_acq_cfg_trigger (self, p2) \<lparr>tag = tg, content = [le_bytes 4 (1 :: u32), le_bytes 4 v]\<rparr> (Some b) =
      Some (4, (self, p3), Some (le_bytes 4 t))"
    by (simp add: s_acq_cfg_trigger_def trig_types acq_codes ret_value)
  ultimately show ?thesis using p2(2) p3(2) by blast
qed

section \<open>The state of the module\<close>

text \<open>Every channel has its parameters and its properties; its samples are not empty and its region is in
  order and holds the samples it is said to hold.\<close>

definition buf_ok :: "acq_buf \<Rightarrow> bool" where
  "buf_ok b \<longleftrightarrow> ab_sample_size b \<noteq> 0 \<and> ab_start_addr b \<le> ab_end_addr b \<and>
     unat (ab_max_samples b) * unat (ab_sample_size b) \<le> unat (ab_end_addr b) - unat (ab_start_addr b)"

definition acq_inv :: "smio_acq \<Rightarrow> bool" where
  "acq_inv acq \<longleftrightarrow> length (aq_params acq) = unat (aq_num_chan acq) \<and> length (aq_buf acq) = unat (aq_num_chan acq) \<and>
     list_all buf_ok (aq_buf acq)"

lemma samples_fit: "(a :: u32) \<le> l \<Longrightarrow> unat ((l - a) div s) * unat s \<le> unat l - unat a"
  by (simp add: unat_div unat_sub)

lemma acq_new_buf_ok: "acq_new_buf tab junk self i p = Some (Some b, p') \<Longrightarrow> buf_ok b"
  by (cases "chan_region tab (smio_get_inst_id self) i")
    (auto simp: acq_new_buf_def bind_eq_Some_conv Let_def buf_ok_def samples_fit split: if_splits)

lemma acq_new_bufs_ok:
  "acq_new_bufs tab junk self is p = Some (Some bs, p') \<Longrightarrow> length bs = length is \<and> list_all buf_ok bs"
proof (induction "is" arbitrary: p bs p')
  case (Cons i "is")
  then obtain buf p1 bs' where b: "acq_new_buf tab junk self (of_nat i) p = Some (Some buf, p1)"
    "acq_new_bufs tab junk self is p1 = Some (Some bs', p')" "bs = buf # bs'"
    by (auto simp: bind_eq_Some_conv split: option.splits)
  from acq_new_buf_ok [OF b(1)] Cons.IH [OF b(2)] b(3) show ?case by simp
qed simp

lemma bind_SomeE: "Option.bind x f = Some y \<Longrightarrow> (\<And>z. x = Some z \<Longrightarrow> f z = Some y \<Longrightarrow> P) \<Longrightarrow> P"
  by (cases x) auto

lemma smio_acq_new_inv:
  "smio_acq_new al tab end_chan junk pre post shots self p = Some (Some acq, p') \<Longrightarrow> acq_inv acq"
proof -
  assume "smio_acq_new al tab end_chan junk pre post shots self p = Some (Some acq, p')"
  then obtain bs p3 p4 where b: "acq_new_bufs tab junk self [0..<unat (aq_num_chan acq)] p3 = Some (Some bs, p4)"
    "aq_buf acq = bs" "length (aq_params acq) = length bs"
    unfolding smio_acq_new_def Let_def
    by (auto elim!: bind_SomeE split: option.split_asm if_split_asm prod.split_asm)
  from acq_new_bufs_ok [OF b(1)] b(2,3) show ?thesis by (simp add: acq_inv_def)
qed

lemma upd_opt_len: "upd_opt xs i f = Some ys \<Longrightarrow> length ys = length xs"
  by (auto simp: upd_opt_def split: if_splits)

definition keeps_inv :: "('o, 'p) acq_func \<Rightarrow> bool" where
  "keeps_inv f \<longleftrightarrow> (\<forall>self p msg ret e self' p' ret' acq. f (self, p) msg ret = Some (e, (self', p'), ret') \<longrightarrow>
     sm_handler self = Some acq \<longrightarrow> acq_inv acq \<longrightarrow>
     (\<exists>acq'. self' = self\<lparr>sm_handler := Some acq'\<rparr> \<and> acq_inv acq' \<and> aq_buf acq' = aq_buf acq \<and> aq_num_chan acq' = aq_num_chan acq))"

lemma handler_same: "sm_handler self = Some a \<Longrightarrow> self\<lparr>sm_handler := Some a\<rparr> = self"
  by (cases self) simp

lemma keeps_same:
  assumes "\<And>self p msg ret e self' p' ret'. f (self, p) msg ret = Some (e, (self', p'), ret') \<Longrightarrow> self' = self"
  shows "keeps_inv f"
  unfolding keeps_inv_def
proof (intro allI impI)
  fix self p msg ret e self' p' ret' acq
  assume a: "f (self, p) msg ret = Some (e, (self', p'), ret')" "sm_handler self = Some acq" "acq_inv acq"
  from assms [OF a(1)] handler_same [OF a(2)] a(3)
  show "\<exists>acq'. self' = self\<lparr>sm_handler := Some acq'\<rparr> \<and> acq_inv acq' \<and> aq_buf acq' = aq_buf acq \<and> aq_num_chan acq' = aq_num_chan acq"
    by (intro exI [of _ acq]) simp
qed

lemma keeps_trig: "keeps_inv s_acq_cfg_trigger"
  by (rule keeps_same) (auto simp: s_acq_cfg_trigger_def bind_eq_Some_conv Let_def split: option.splits if_splits)

lemma keeps_block: "keeps_inv s_acq_get_data_block"
  by (rule keeps_same)
    (auto simp: s_acq_get_data_block_def bind_eq_Some_conv split: option.splits if_splits,
      auto simp: bind_eq_Some_conv split: sum.splits if_splits)

lemma keeps_size: "keeps_inv (s_acq_sample_size junk)"
  by (rule keeps_same) (auto simp: s_acq_sample_size_def bind_eq_Some_conv split: option.splits if_splits)

lemma keeps_param: "keeps_inv (SET_GET_PARAM b r f l c g junk)" "keeps_inv (SET_GET_PARAM_CHANNEL b r f co n l c g junk)"
  by (rule keeps_same, auto simp: SET_GET_PARAM_def SET_GET_PARAM_CHANNEL_def bind_eq_Some_conv split: option.splits)+

lemma keeps_updated:
  assumes "\<And>self p msg ret e self' p' ret' acq. f (self, p) msg ret = Some (e, (self', p'), ret') \<Longrightarrow> sm_handler self = Some acq \<Longrightarrow>
    self' = self \<or> (\<exists>ps c. self' = self\<lparr>sm_handler := Some (acq\<lparr>aq_params := ps, aq_curr_chan := c\<rparr>)\<rparr> \<and>
      length ps = length (aq_params acq))"
  shows "keeps_inv f"
  unfolding keeps_inv_def
proof (intro allI impI)
  fix self p msg ret e self' p' ret' acq
  assume a: "f (self, p) msg ret = Some (e, (self', p'), ret')" "sm_handler self = Some acq" "acq_inv acq"
  from assms [OF a(1,2)]
  show "\<exists>acq'. self' = self\<lparr>sm_handler := Some acq'\<rparr> \<and> acq_inv acq' \<and> aq_buf acq' = aq_buf acq \<and> aq_num_chan acq' = aq_num_chan acq"
  proof (elim disjE exE conjE)
    assume "self' = self"
    with a handler_same [OF a(2)] show ?thesis by (intro exI [of _ acq]) simp
  next
    fix ps c assume "self' = self\<lparr>sm_handler := Some (acq\<lparr>aq_params := ps, aq_curr_chan := c\<rparr>)\<rparr>" "length ps = length (aq_params acq)"
    with a(3) show ?thesis
      by (intro exI [of _ "acq\<lparr>aq_params := ps, aq_curr_chan := c\<rparr>"]) (simp add: acq_inv_def)
  qed
qed

lemma curr_same: "acq\<lparr>aq_params := ps\<rparr> = acq\<lparr>aq_params := ps, aq_curr_chan := aq_curr_chan acq\<rparr>"
  by simp

lemma keeps_check: "keeps_inv (s_acq_check_data_acquire junk)"
proof (rule keeps_updated)
  fix self p msg ret e self' p' ret' acq
  assume a: "s_acq_check_data_acquire junk (self, p) msg ret = Some (e, (self', p'), ret')" and h: "sm_handler self = Some acq"
  then have "self' = self \<or> (\<exists>ps. self' = self\<lparr>sm_handler := Some (acq\<lparr>aq_params := ps\<rparr>)\<rparr> \<and> length ps = length (aq_params acq))"
    by (auto simp: s_acq_check_data_acquire_def bind_eq_Some_conv split: if_splits dest: upd_opt_len)
  then show "self' = self \<or> (\<exists>ps c. self' = self\<lparr>sm_handler := Some (acq\<lparr>aq_params := ps, aq_curr_chan := c\<rparr>)\<rparr> \<and>
      length ps = length (aq_params acq))" using curr_same by metis
qed

lemma keeps_acquire: "keeps_inv s_acq_data_acquire"
  by (rule keeps_updated)
    (auto simp: s_acq_data_acquire_def bind_eq_Some_conv Let_def split: if_splits option.splits dest: upd_opt_len)

lemma acq_keeps_inv: "f \<in> set (acq_exp_fp junk) \<Longrightarrow> keeps_inv f"
  unfolding acq_exp_fp_def
  by (auto simp: keeps_trig keeps_block keeps_size keeps_check keeps_acquire keeps_param
      s_acq_set_get_hw_data_trig_pol_def s_acq_set_get_hw_data_trig_sel_def s_acq_set_get_hw_data_trig_filt_def
      s_acq_set_get_hw_data_trig_thres_def s_acq_set_get_hw_trig_dly_def s_acq_set_get_sw_trig_def
      s_acq_set_get_fsm_stop_def s_acq_set_get_hw_data_trig_chan_def s_acq_set_get_int_width_def
      s_acq_set_get_num_coalesce_def s_acq_set_get_num_atoms_def s_acq_set_get_atom_width_def)

text \<open>The functions keep the size of the buffer of the reply.\<close>

lemma read_chunk_length: "read_chunk self a n k b p = Some (e, b', p') \<Longrightarrow> length b' = length b"
  by (auto simp: read_chunk_def Let_def bind_eq_Some_conv split: if_splits prod.splits)

lemma acq_read_loop_buffer: "acq_read_loop self pl n addr rem off b p = Some r \<Longrightarrow> length (fst (snd (snd r))) = length b"
proof (induction rule: acq_read_loop.raw_induct [rotated 1, consumes 1])
  case (1 loop self pl n addr rem off b p r)
  show ?case using 1(2)
    by (auto simp: Let_def bind_eq_Some_conv split: if_splits dest!: read_chunk_length 1(1))
qed

lemma acq_read_loop_length: "acq_read_loop self pl n addr rem off b p = Some (ok, n', b', p') \<Longrightarrow> length b' = length b"
  using acq_read_loop_buffer [of self pl n addr rem off b p] by fastforce

lemma acq_block_ok: "func_ok s_acq_get_data_block"
  unfolding func_ok_def s_acq_get_data_block_def
  by (auto elim!: bind_SomeE split: option.split_asm sum.split_asm if_split_asm prod.split_asm
    dest!: acq_read_loop_length put_ret_length)

lemma acq_func_ok: "f \<in> set (acq_exp_fp junk) \<Longrightarrow> func_ok f"
proof -
  have p: "func_ok (SET_GET_PARAM b r f l c g junk :: ('o, 'p) acq_func)"
    "func_ok (SET_GET_PARAM_CHANNEL b r f co n l c g junk :: ('o, 'p) acq_func)" for b r f l c g co n
    by (auto simp: func_ok_def SET_GET_PARAM_def SET_GET_PARAM_GEN_def SET_GET_PARAM_CHANNEL_def
      SET_GET_PARAM_CHANNEL_GEN_def bind_eq_Some_conv split: option.splits if_splits dest!: set_get_param_len)
  have t: "func_ok s_acq_cfg_trigger" "func_ok (s_acq_sample_size junk)" "func_ok (s_acq_check_data_acquire junk)"
    by (auto simp: func_ok_def s_acq_cfg_trigger_def s_acq_sample_size_def s_acq_check_data_acquire_def bind_eq_Some_conv put_ret_length
      split: option.splits if_splits)
  have a: "func_ok s_acq_data_acquire"
    by (auto simp: func_ok_def s_acq_data_acquire_def bind_eq_Some_conv Let_def split: if_splits option.splits)
  assume "f \<in> set (acq_exp_fp junk)"
  then show ?thesis
    by (auto simp: acq_exp_fp_def p t a acq_block_ok
      s_acq_set_get_hw_data_trig_pol_def s_acq_set_get_hw_data_trig_sel_def s_acq_set_get_hw_data_trig_filt_def
      s_acq_set_get_hw_data_trig_thres_def s_acq_set_get_hw_trig_dly_def s_acq_set_get_sw_trig_def
      s_acq_set_get_fsm_stop_def s_acq_set_get_hw_data_trig_chan_def s_acq_set_get_int_width_def
      s_acq_set_get_num_coalesce_def s_acq_set_get_num_atoms_def s_acq_set_get_atom_width_def)
qed

lemma nth_opt_Some: "nth_opt xs i = Some x \<longleftrightarrow> unat i < length xs \<and> x = xs ! unat i"
  by (auto simp: nth_opt_def)

lemma zero_div: "(0 :: u32) div x = 0" "(0 :: u32) mod x = 0"
  by simp_all

text \<open>A module that has not acquired anything divides by zero when a block is asked for.\<close>

lemma fresh_params:
  assumes "smio_acq_new al tab end_chan junk pre post shots self p = Some (Some acq, p')" and "chan < aq_num_chan acq"
  shows "\<exists>ap. nth_opt (aq_params acq) chan = Some ap \<and> ap_pre ap = pre \<and> ap_post ap = post \<and> ap_shots ap = shots"
proof -
  have a: "\<forall>ap \<in> set (aq_params acq). ap_pre ap = pre \<and> ap_post ap = post \<and> ap_shots ap = shots"
    using assms(1) unfolding smio_acq_new_def Let_def
    by (auto elim!: bind_SomeE split: option.split_asm if_split_asm prod.split_asm)
  have "unat chan < length (aq_params acq)"
    using smio_acq_new_inv [OF assms(1)] assms(2) by (simp add: acq_inv_def word_less_nat_alt)
  with a show ?thesis by (simp add: nth_opt_Some)
qed

lemma no_samples_no_layout:
  assumes "ap_pre ap + ap_post ap = 0"
  shows "block_layout buf ap 0 = None"
proof -
  have "\<not> (x :: u32) < 0" for x by simp
  then show ?thesis using assms by (simp add: block_layout_def Let_def)
qed

section \<open>Starting an acquisition\<close>

lemma acq_regs_low:
  "take_bit 16 ACQ_CORE_REG_CTL = ACQ_CORE_REG_CTL" "take_bit 16 ACQ_CORE_REG_STA = ACQ_CORE_REG_STA"
  "take_bit 16 ACQ_CORE_REG_TRIG_CFG = ACQ_CORE_REG_TRIG_CFG" "take_bit 16 ACQ_CORE_REG_SHOTS = ACQ_CORE_REG_SHOTS"
  "take_bit 16 ACQ_CORE_REG_PRE_SAMPLES = ACQ_CORE_REG_PRE_SAMPLES"
  "take_bit 16 ACQ_CORE_REG_POST_SAMPLES = ACQ_CORE_REG_POST_SAMPLES"
  "take_bit 16 ACQ_CORE_REG_DDR3_START_ADDR = ACQ_CORE_REG_DDR3_START_ADDR"
  "take_bit 16 ACQ_CORE_REG_DDR3_END_ADDR = ACQ_CORE_REG_DDR3_END_ADDR"
  "take_bit 16 ACQ_CORE_REG_ACQ_CHAN_CTL = ACQ_CORE_REG_ACQ_CHAN_CTL"
  by (simp_all add: regs)

text \<open>The contents of the core's registers once it is programmed for an acquisition.\<close>

definition acq_programmed ::
  "acq_buf \<Rightarrow> u32 \<Rightarrow> u32 \<Rightarrow> u32 \<Rightarrow> u32 \<Rightarrow> (u64 \<Rightarrow> u32) \<Rightarrow> u64 \<Rightarrow> u32" where
  "acq_programmed buf pre_al post_al shots chan r =
     r(ACQ_CORE_REG_SHOTS := shots AND mask 16,
       ACQ_CORE_REG_PRE_SAMPLES := pre_al,
       ACQ_CORE_REG_POST_SAMPLES := post_al,
       ACQ_CORE_REG_DDR3_START_ADDR := ab_start_addr buf,
       ACQ_CORE_REG_DDR3_END_ADDR := ab_end_addr buf,
       ACQ_CORE_REG_ACQ_CHAN_CTL := (r ACQ_CORE_REG_ACQ_CHAN_CTL AND NOT (mask 5)) OR (chan AND mask 5),
       ACQ_CORE_REG_CTL := r ACQ_CORE_REG_CTL OR 1)"

lemma acquire_start_bus:
  assumes bus: "reg_bus (smio_rd self) (smio_wr self) view good mapped" and g: "good p"
    and m: "mapped ACQ_CORE_REG_PRE_SAMPLES" "mapped ACQ_CORE_REG_POST_SAMPLES" "mapped ACQ_CORE_REG_DDR3_START_ADDR"
      "mapped ACQ_CORE_REG_DDR3_END_ADDR" "mapped ACQ_CORE_REG_ACQ_CHAN_CTL" "mapped ACQ_CORE_REG_CTL"
  shows "\<exists>p'. acquire_start self pre_al post_al st en chan p = Some p' \<and> good p' \<and>
    (\<forall>a. mapped a \<longrightarrow> view p' a = ((view p)
      (ACQ_CORE_REG_PRE_SAMPLES := pre_al, ACQ_CORE_REG_POST_SAMPLES := post_al, ACQ_CORE_REG_DDR3_START_ADDR := st,
       ACQ_CORE_REG_DDR3_END_ADDR := en,
       ACQ_CORE_REG_ACQ_CHAN_CTL := (view p ACQ_CORE_REG_ACQ_CHAN_CTL AND NOT (mask 5)) OR (chan AND mask 5),
       ACQ_CORE_REG_CTL := view p ACQ_CORE_REG_CTL OR 1)) a)"
proof -
  note wr = reg_bus.wr_view [OF bus] and rd = reg_bus.rd_view [OF bus, of _ _ 0]
  have d: "ACQ_CORE_REG_ACQ_CHAN_CTL \<notin> {ACQ_CORE_REG_PRE_SAMPLES, ACQ_CORE_REG_POST_SAMPLES, ACQ_CORE_REG_DDR3_START_ADDR, ACQ_CORE_REG_DDR3_END_ADDR}"
    "ACQ_CORE_REG_CTL \<notin> {ACQ_CORE_REG_PRE_SAMPLES, ACQ_CORE_REG_POST_SAMPLES, ACQ_CORE_REG_DDR3_START_ADDR,
      ACQ_CORE_REG_DDR3_END_ADDR, ACQ_CORE_REG_ACQ_CHAN_CTL}" by (simp_all add: regs)
  have k: "ACQ_CORE_ACQ_CHAN_CTL_WHICH_MASK = mask 5" "ACQ_CORE_ACQ_CHAN_CTL_WHICH_W chan = chan AND mask 5" "ACQ_CORE_CTL_FSM_START_ACQ = 1"
    by (simp_all add: acq_masks mask_eq_exp_minus_1)
  obtain p1 where p1: "smio_wr self p ACQ_CORE_REG_PRE_SAMPLES pre_al = Some (4, p1)" "good p1"
    "\<forall>a. mapped a \<longrightarrow> view p1 a = (if a = ACQ_CORE_REG_PRE_SAMPLES then pre_al else view p a)" using wr [OF g m(1)] by blast
  obtain p2 where p2: "smio_wr self p1 ACQ_CORE_REG_POST_SAMPLES post_al = Some (4, p2)" "good p2"
    "\<forall>a. mapped a \<longrightarrow> view p2 a = (if a = ACQ_CORE_REG_POST_SAMPLES then post_al else view p1 a)" using wr [OF p1(2) m(2)] by blast
  obtain p3 where p3: "smio_wr self p2 ACQ_CORE_REG_DDR3_START_ADDR st = Some (4, p3)" "good p3"
    "\<forall>a. mapped a \<longrightarrow> view p3 a = (if a = ACQ_CORE_REG_DDR3_START_ADDR then st else view p2 a)" using wr [OF p2(2) m(3)] by blast
  obtain p4 where p4: "smio_wr self p3 ACQ_CORE_REG_DDR3_END_ADDR en = Some (4, p4)" "good p4"
    "\<forall>a. mapped a \<longrightarrow> view p4 a = (if a = ACQ_CORE_REG_DDR3_END_ADDR then en else view p3 a)" using wr [OF p3(2) m(4)] by blast
  obtain p5 where p5: "smio_rd self p4 ACQ_CORE_REG_ACQ_CHAN_CTL 0 = Some (4, view p4 ACQ_CORE_REG_ACQ_CHAN_CTL, p5)" "good p5"
    "\<forall>a. mapped a \<longrightarrow> view p5 a = view p4 a" using rd [OF p4(2) m(5)] by blast
  let ?cc = "(view p ACQ_CORE_REG_ACQ_CHAN_CTL AND NOT (mask 5)) OR (chan AND mask 5)"
  have v4: "view p4 ACQ_CORE_REG_ACQ_CHAN_CTL = view p ACQ_CORE_REG_ACQ_CHAN_CTL"
    using p1(3) p2(3) p3(3) p4(3) d(1) m(5) by simp
  obtain p6 where p6: "smio_wr self p5 ACQ_CORE_REG_ACQ_CHAN_CTL ?cc = Some (4, p6)" "good p6"
    "\<forall>a. mapped a \<longrightarrow> view p6 a = (if a = ACQ_CORE_REG_ACQ_CHAN_CTL then ?cc else view p5 a)" using wr [OF p5(2) m(5)] by blast
  obtain p7 where p7: "smio_rd self p6 ACQ_CORE_REG_CTL 0 = Some (4, view p6 ACQ_CORE_REG_CTL, p7)" "good p7"
    "\<forall>a. mapped a \<longrightarrow> view p7 a = view p6 a" using rd [OF p6(2) m(6)] by blast
  have v6: "view p6 ACQ_CORE_REG_CTL = view p ACQ_CORE_REG_CTL"
    using p1(3) p2(3) p3(3) p4(3) p5(3) p6(3) d(2) m(6) by simp
  obtain p8 where p8: "smio_wr self p7 ACQ_CORE_REG_CTL (view p ACQ_CORE_REG_CTL OR 1) = Some (4, p8)" "good p8"
    "\<forall>a. mapped a \<longrightarrow> view p8 a = (if a = ACQ_CORE_REG_CTL then view p ACQ_CORE_REG_CTL OR 1 else view p7 a)"
    using wr [OF p7(2) m(6)] by blast
  have "acquire_start self pre_al post_al st en chan p = Some p8"
    using p1(1) p2(1) p3(1) p4(1) p5(1) p6(1) p7(1) p8(1) by (simp add: acquire_start_def k v4 v6)
  moreover have "\<forall>a. mapped a \<longrightarrow> view p8 a = ((view p)
      (ACQ_CORE_REG_PRE_SAMPLES := pre_al, ACQ_CORE_REG_POST_SAMPLES := post_al, ACQ_CORE_REG_DDR3_START_ADDR := st,
       ACQ_CORE_REG_DDR3_END_ADDR := en, ACQ_CORE_REG_ACQ_CHAN_CTL := ?cc, ACQ_CORE_REG_CTL := view p ACQ_CORE_REG_CTL OR 1)) a"
    using p1(3) p2(3) p3(3) p4(3) p5(3) p6(3) p7(3) p8(3) by (simp add: fun_upd_def)
  ultimately show ?thesis using p8(2) by blast
qed

lemma arg_3: "EXP_MSG_ZMQ_ARG 3 \<lparr>tag = tg, content = f # g # h # k # fs\<rparr> = rd_word 4 k"
  by (simp add: EXP_MSG_ZMQ_ARG_def)

lemma acquire_bus:
  assumes bus: "reg_bus (smio_rd self) (smio_wr self) view good mapped" and g: "good p"
    and m: "list_all mapped [ACQ_CORE_REG_CTL, ACQ_CORE_REG_STA, ACQ_CORE_REG_TRIG_CFG, ACQ_CORE_REG_SHOTS,
      ACQ_CORE_REG_PRE_SAMPLES, ACQ_CORE_REG_POST_SAMPLES, ACQ_CORE_REG_DDR3_START_ADDR, ACQ_CORE_REG_DDR3_END_ADDR,
      ACQ_CORE_REG_ACQ_CHAN_CTL]"
    and h: "sm_handler self = Some acq" and inv: "acq_inv acq" and c: "chan < aq_num_chan acq"
    and i: "core_idle (view p ACQ_CORE_REG_STA)"
    and d: "trig_decode 0 (view p ACQ_CORE_REG_CTL, view p ACQ_CORE_REG_TRIG_CFG) = (0, tt)" and np: "\<not> (tt = 0 \<and> 0 < post)"
    and r: "acquire_refused acq pre post shots chan = Some None"
    and al: "aligned_samples pre True (32 div ab_sample_size (aq_buf acq ! unat chan)) = Some pre_al"
      "aligned_samples post (tt \<noteq> 0) (32 div ab_sample_size (aq_buf acq ! unat chan)) = Some post_al"
  shows "\<exists>p'. s_acq_data_acquire (self, p)
      \<lparr>tag = tg, content = [le_bytes 4 pre, le_bytes 4 post, le_bytes 4 shots, le_bytes 4 chan]\<rparr> ret =
      Some (0, (self\<lparr>sm_handler := Some (acq\<lparr>
        aq_params := (aq_params acq)[unat chan := (aq_params acq ! unat chan)\<lparr>ap_pre := pre, ap_post := post,
          ap_pre_aligned := pre_al, ap_post_aligned := post_al, ap_shots := shots\<rparr>], aq_curr_chan := chan\<rparr>)\<rparr>, p'), ret) \<and>
    good p' \<and> (\<forall>a. mapped a \<longrightarrow> view p' a = acq_programmed (aq_buf acq ! unat chan) pre_al post_al shots chan (view p) a)"
proof -
  have ms: "mapped ACQ_CORE_REG_CTL" "mapped ACQ_CORE_REG_STA" "mapped ACQ_CORE_REG_TRIG_CFG" "mapped ACQ_CORE_REG_SHOTS"
    "mapped ACQ_CORE_REG_PRE_SAMPLES" "mapped ACQ_CORE_REG_POST_SAMPLES" "mapped ACQ_CORE_REG_DDR3_START_ADDR"
    "mapped ACQ_CORE_REG_DDR3_END_ADDR" "mapped ACQ_CORE_REG_ACQ_CHAN_CTL" using m by simp_all
  let ?b = "aq_buf acq ! unat chan"
  have n: "unat chan < length (aq_buf acq)" "unat chan < length (aq_params acq)"
    using inv c by (simp_all add: acq_inv_def word_less_nat_alt)
  then have ss: "ab_sample_size ?b \<noteq> 0" using inv by (simp add: acq_inv_def list_all_length buf_ok_def)
  obtain p1 where p1: "s_acq_check_status self ACQ_CORE_IDLE_MASK ACQ_CORE_IDLE_VALUE ACQ_CORE_FC_FULL_MASK ACQ_CORE_FC_FULL_VALUE p = Some (0, p1)"
    "good p1" "\<forall>a. mapped a \<longrightarrow> view p1 a = view p a" using check_idle_bus [OF bus g ms(2) i] by blast
  obtain p2 where p2: "s_acq_get_trigger_type self 0 p1 = Some (0, tt, p2)" "good p2" "\<forall>a. mapped a \<longrightarrow> view p2 a = view p1 a"
    using get_trigger_bus [OF bus p1(2) ms(1,3), of 0] p1(3) ms(1,3) d by auto
  have w: "ACQ_CORE_SHOTS_NB_W shots = shots AND mask 16" by (simp add: ACQ_CORE_SHOTS_NB_W_def WBGEN2_GEN_WRITE_def)
  obtain p3 where p3: "smio_wr self p2 ACQ_CORE_REG_SHOTS (shots AND mask 16) = Some (4, p3)" "good p3"
    "\<forall>a. mapped a \<longrightarrow> view p3 a = (if a = ACQ_CORE_REG_SHOTS then shots AND mask 16 else view p2 a)"
    using reg_bus.wr_view [OF bus p2(2) ms(4)] by blast
  obtain p4 where p4: "acquire_start self pre_al post_al (ab_start_addr ?b) (ab_end_addr ?b) chan p3 = Some p4" "good p4"
    "\<forall>a. mapped a \<longrightarrow> view p4 a = ((view p3)
      (ACQ_CORE_REG_PRE_SAMPLES := pre_al, ACQ_CORE_REG_POST_SAMPLES := post_al,
       ACQ_CORE_REG_DDR3_START_ADDR := ab_start_addr ?b, ACQ_CORE_REG_DDR3_END_ADDR := ab_end_addr ?b,
       ACQ_CORE_REG_ACQ_CHAN_CTL := (view p3 ACQ_CORE_REG_ACQ_CHAN_CTL AND NOT (mask 5)) OR (chan AND mask 5),
       ACQ_CORE_REG_CTL := view p3 ACQ_CORE_REG_CTL OR 1)) a"
    using acquire_start_bus [OF bus p3(2) ms(5-9,1)] by blast
  have "s_acq_data_acquire (self, p)
      \<lparr>tag = tg, content = [le_bytes 4 pre, le_bytes 4 post, le_bytes 4 shots, le_bytes 4 chan]\<rparr> ret =
      Some (0, (self\<lparr>sm_handler := Some (acq\<lparr>
        aq_params := (aq_params acq)[unat chan := (aq_params acq ! unat chan)\<lparr>ap_pre := pre, ap_post := post,
          ap_pre_aligned := pre_al, ap_post_aligned := post_al, ap_shots := shots\<rparr>], aq_curr_chan := chan\<rparr>)\<rparr>, p4), ret)"
    using h p1(1) p2(1) p3(1) p4(1) r al n ss np
    by (simp add: s_acq_data_acquire_def Let_def arg_3 acq_codes TYPE_ACQ_CORE_SKIP_def DDR3_PAYLOAD_SIZE_def w nth_opt_def upd_opt_def)
  moreover have "ACQ_CORE_REG_SHOTS \<noteq> ACQ_CORE_REG_ACQ_CHAN_CTL" "ACQ_CORE_REG_SHOTS \<noteq> ACQ_CORE_REG_CTL" by (simp_all add: regs)
  then have "\<forall>a. mapped a \<longrightarrow> view p4 a = acq_programmed ?b pre_al post_al shots chan (view p) a"
    using p1(3) p2(3) p3(3) p4(3) ms(1,9) unfolding acq_programmed_def by (auto simp: fun_upd_def)
  ultimately show ?thesis using p4(2) by blast
qed

end
