(* ===== verification/Acq_Block.thy ===== *)
theory Acq_Block
  imports Acq_Facts
begin

text \<open>
  Reading the samples of an acquisition of one shot out of the ring of its channel, and the properties of
  the acquisition module.
\<close>

section \<open>The bytes of a ring\<close>

definition ring_bytes :: "(nat \<Rightarrow> u8) \<Rightarrow> nat \<Rightarrow> nat \<Rightarrow> nat \<Rightarrow> nat \<Rightarrow> u8 list" where
  "ring_bytes mem start L k n = map (\<lambda>i. mem (ring_addr start L (k + i))) [0..<n]"

lemma ring_bytes_0 [simp]: "ring_bytes mem start L k 0 = []"
  by (simp add: ring_bytes_def)

lemma length_ring_bytes [simp]: "length (ring_bytes mem start L k n) = n"
  by (simp add: ring_bytes_def)

lemma ring_bytes_add: "ring_bytes mem start L k (m + n) = ring_bytes mem start L k m @ ring_bytes mem start L (k + m) n"
proof -
  have "[0..<m + n] = [0..<m] @ map (\<lambda>i. i + m) [0..<n]"
    unfolding map_add_upt upt_add_eq_append [OF le0] add.commute [of n m] ..
  then show ?thesis by (simp add: ring_bytes_def comp_def ac_simps)
qed

lemma ring_bytes_mod: "ring_bytes mem start L (L + k) n = ring_bytes mem start L k n"
  by (simp add: ring_bytes_def ring_addr_def add.assoc)

lemma ring_bytes_cong: "k mod L = k' mod L \<Longrightarrow> ring_bytes mem start L k n = ring_bytes mem start L k' n"
  unfolding ring_bytes_def ring_addr_def by (metis mod_add_left_eq)

lemma ring_bytes_straight: "k + n \<le> L \<Longrightarrow> ring_bytes mem start L k n = map mem [start + k..<start + k + n]"
  by (auto simp: ring_bytes_def ring_addr_def list_eq_iff_nth_eq add.assoc)

lemma u32_less: "unat (x :: u32) < 4294967296"
proof -
  have "unat x < 2 ^ 32" by (rule order_less_le_trans [OF unsigned_less]) simp
  then show ?thesis by simp
qed

lemma unat_ucast_down: "unat (w :: u64) < 2 ^ 32 \<Longrightarrow> unat (ucast w :: u32) = unat w"
  by (simp add: unsigned_ucast_eq take_bit_nat_eq_self)

text \<open>The memory behind an object: transfers inside \<open>S\<close> to \<open>E\<close> give the bytes of \<open>mem\<close>.\<close>

definition reads_memory :: "('o, 'p) acq_smio \<Rightarrow> ('p \<Rightarrow> bool) \<Rightarrow> (nat \<Rightarrow> u8) \<Rightarrow> nat \<Rightarrow> nat \<Rightarrow> bool" where
  "reads_memory self good mem S E \<longleftrightarrow> (\<forall>a n b p. good p \<longrightarrow> S \<le> a \<longrightarrow> a + n \<le> E \<longrightarrow> n \<le> 2 ^ 20 \<longrightarrow> n \<le> length b \<longrightarrow>
     (\<exists>p'. smio_thsafe_raw_client_read_dma self (LARGE_MEM_ADDR OR of_nat a) (of_nat n) b p =
       Some (int n, map mem [a..<a + n] @ drop n b, p') \<and> good p'))"

lemma read_chunk_memory:
  assumes m: "reads_memory self good mem S E" and g: "good p"
    and a: "S \<le> unat addr" "unat addr + unat todo \<le> E" "unat todo \<le> 2 ^ 20" and l: "4 + unat n + unat todo \<le> length b"
  shows "\<exists>p'. read_chunk self addr todo n b p =
    Some (uint todo, take (4 + unat n) b @ map mem [unat addr..<unat addr + unat todo] @ drop (4 + unat n + unat todo) b, p') \<and> good p'"
proof -
  let ?d = "drop (4 + unat n) b"
  have "unat todo \<le> length ?d" using l by simp
  then obtain p' where "smio_thsafe_raw_client_read_dma self (LARGE_MEM_ADDR OR of_nat (unat addr)) (of_nat (unat todo)) ?d p =
       Some (int (unat todo), map mem [unat addr..<unat addr + unat todo] @ drop (unat todo) ?d, p')" "good p'"
    using m g a unfolding reads_memory_def by blast
  moreover have "(of_nat (unat todo) :: u64) = ucast todo" "(of_nat (unat addr) :: u64) = addr" by simp_all
  moreover have "drop (unat todo) ?d = drop (4 + unat n + unat todo) b" by (simp add: ac_simps)
  moreover have "int (unat todo) = uint todo" by simp
  ultimately show ?thesis using l unfolding read_chunk_def Let_def by auto
qed

text \<open>For one shot the loop copies the ring: it needs no fuel, since each round but one at the very end of
  the region makes progress.\<close>

lemma single_shot_loop:
  assumes m: "reads_memory self good mem (unat (rp_start pl)) (unat (rp_end pl))" and s: "rp_single pl"
    and r: "rp_start pl < rp_end pl" "unat (rp_reply pl) \<le> 2 ^ 20"
  shows "good p \<Longrightarrow> unat n \<le> unat (rp_reply pl) \<Longrightarrow> unat (rp_start pl) \<le> unat addr \<Longrightarrow> unat addr \<le> unat (rp_end pl) \<Longrightarrow>
    4 + unat (rp_reply pl) \<le> length b \<Longrightarrow>
    \<exists>p'. acq_read_loop self pl n addr (ucast (rp_end pl) - addr) off b p =
      Some (True, rp_reply pl, take (4 + unat n) b @ ring_bytes mem (unat (rp_start pl)) (unat (rp_end pl) - unat (rp_start pl))
          (unat addr - unat (rp_start pl)) (unat (rp_reply pl) - unat n) @ drop (4 + unat (rp_reply pl)) b, p') \<and> good p'"
proof (induction "2 * (unat (rp_reply pl) - unat n) + (if unat addr = unat (rp_end pl) then 1 else 0)" arbitrary: n addr b p rule: less_induct)
  case less
  let ?R = "unat (rp_reply pl)" and ?S = "unat (rp_start pl)" and ?E = "unat (rp_end pl)"
  let ?todo = "bytes_to_read pl n (ucast (rp_end pl) - addr) off"
  have se: "?S < ?E" using r(1) by (simp add: word_less_nat_alt)
  show ?case
  proof (cases "n < rp_reply pl")
    case False
    then have "n = rp_reply pl" using less.prems(2) by (simp add: word_less_nat_alt word_unat_eq_iff)
    with less.prems show ?thesis by (subst acq_read_loop.simps) simp
  next
    case True
    then have nR: "unat n < ?R" by (simp add: word_less_nat_alt)
    have e64: "unat (ucast (rp_end pl) :: u64) = ?E" "unat (ucast (rp_start pl) :: u64) = ?S" by (simp_all add: unat_ucast_up)
    have ae: "addr \<le> ucast (rp_end pl)" using less.prems(4) e64 by (simp add: word_le_nat_alt)
    have rem: "unat (ucast (rp_end pl) - addr) = ?E - unat addr" using unat_sub_le [OF ae] e64 by simp
    have rn: "unat (rp_reply pl - n) = ?R - unat n" using True by (simp add: unat_sub)
    have e32: "?E - unat addr < 2 ^ 32" using u32_less [of "rp_end pl"] by simp
    have "unat (ucast (ucast (rp_end pl) - addr :: u64) :: u32) = ?E - unat addr"
      using rem e32 by (simp add: unat_ucast_down)
    then have todo: "unat ?todo = min (?E - unat addr) (?R - unat n)"
      using s rem rn by (simp add: bytes_to_read_def word_less_nat_alt unat_ucast_up)
    have c: "unat addr + unat ?todo \<le> ?E" "unat ?todo \<le> 2 ^ 20" "4 + unat n + unat ?todo \<le> length b" "unat n + unat ?todo \<le> ?R"
      using todo less.prems r(2) nR by linarith+
    obtain p1 where p1: "read_chunk self addr ?todo n b p = Some (uint ?todo,
        take (4 + unat n) b @ map mem [unat addr..<unat addr + unat ?todo] @ drop (4 + unat n + unat ?todo) b, p1)" "good p1"
      using read_chunk_memory [OF m less.prems(1,3) c(1-3)] by blast
    let ?t = "unat ?todo" and ?n' = "n + ?todo" and ?addr' = "next_addr pl addr ?todo"
    let ?b' = "take (4 + unat n) b @ map mem [unat addr..<unat addr + ?t] @ drop (4 + unat n + ?t) b"
    have n': "unat ?n' = unat n + ?t" using c(4) u32_less [of "rp_reply pl"] by (simp add: unat_add_lem [symmetric])
    have u: "unat (addr + (ucast ?todo + ucast (bytes_to_jump pl))) = unat addr + ?t"
      using c(1) s u32_less [of "rp_end pl"] by (simp add: bytes_to_jump_def unat_ucast_up unat_add_lt)
    have addr': "unat ?addr' = (if unat addr + ?t = ?E then ?S else unat addr + ?t)"
    proof (cases "unat addr + ?t = ?E")
      case True
      then have "addr + (ucast ?todo + ucast (bytes_to_jump pl)) = ucast (rp_end pl)" using u e64 by (simp add: word_unat_eq_iff)
      with True show ?thesis using e64 by (simp add: next_addr_def Let_def)
    next
      case False
      then have "\<not> ucast (rp_end pl) \<le> addr + (ucast ?todo + ucast (bytes_to_jump pl))"
        using c(1) u e64 by (simp add: word_le_nat_alt)
      with False u show ?thesis by (simp add: next_addr_def Let_def)
    qed
    let ?L = "?E - ?S" and ?k = "unat addr - ?S"
    have dec: "2 * (?R - unat ?n') + (if unat ?addr' = ?E then 1 else 0) < 2 * (?R - unat n) + (if unat addr = ?E then 1 else 0)"
      using todo nR se n' addr' less.prems(4) by (auto simp: min_def)
    have pre: "unat ?n' \<le> ?R" "?S \<le> unat ?addr'" "unat ?addr' \<le> ?E" "4 + ?R \<le> length ?b'"
      using n' addr' c less.prems se by auto
    obtain p' where p': "acq_read_loop self pl ?n' ?addr' (ucast (rp_end pl) - ?addr') off ?b' p1 =
        Some (True, rp_reply pl, take (4 + unat ?n') ?b' @ ring_bytes mem ?S ?L (unat ?addr' - ?S) (?R - unat ?n') @
          drop (4 + ?R) ?b', p')" "good p'"
      using less.hyps [OF dec p1(2) pre] by blast
    have s1: "ring_bytes mem ?S ?L ?k (?R - unat n) = map mem [unat addr..<unat addr + ?t] @
        ring_bytes mem ?S ?L (unat ?addr' - ?S) (?R - unat ?n')"
    proof -
      have r: "?R - unat n = ?t + (?R - unat ?n')" using n' c(4) by simp
      have "ring_bytes mem ?S ?L ?k ?t = map mem [unat addr..<unat addr + ?t]"
        using ring_bytes_straight [of ?k ?t ?L mem ?S] c(1) less.prems(3) by simp
      moreover have "ring_bytes mem ?S ?L (?k + ?t) m = ring_bytes mem ?S ?L (unat ?addr' - ?S) m" for m
      proof (cases "unat addr + ?t = ?E")
        case True
        then have "?k + ?t = ?L + 0" "unat ?addr' - ?S = 0" using addr' less.prems(3) by simp_all
        then show ?thesis using ring_bytes_mod by metis
      qed (use addr' less.prems(3) in simp)
      ultimately show ?thesis unfolding r ring_bytes_add by simp
    qed
    have s2: "take (4 + unat ?n') ?b' = take (4 + unat n) b @ map mem [unat addr..<unat addr + ?t]"
      "drop (4 + ?R) ?b' = drop (4 + ?R) b"
      using n' c less.prems(5) by (simp_all add: min_def)
    show ?thesis
      using True p1(1) p'(1) s s1 s2 p'(2) by (subst acq_read_loop.simps) (simp add: Let_def)
  qed
qed

lemma ring_addr_lt: "0 < L \<Longrightarrow> ring_addr S L k < S + L"
  by (simp add: ring_addr_def)

lemma ring_addr_ge: "start \<le> ring_addr start L k"
  by (simp add: ring_addr_def)

text \<open>Where a block of a single shot lies, in natural numbers.\<close>

lemma add32: "unat a + unat b < 2 ^ 32 \<Longrightarrow> unat (a + b :: u32) = unat a + unat b"
  by (simp add: unat_add_lem [symmetric])

lemma mult32: "unat a * unat b < 2 ^ 32 \<Longrightarrow> unat (a * b :: u32) = unat a * unat b"
  by (simp add: unat_mult_lem [symmetric])

definition last_block :: "nat \<Rightarrow> nat \<Rightarrow> nat" where
  "last_block N M = (if N div M \<noteq> 0 \<and> N mod M = 0 then N div M - 1 else N div M)"

lemma block_extent:
  assumes "0 < M" and "blk * M < (N :: nat)"
  shows "blk \<le> last_block N M"
    and "(if blk = last_block N M \<and> 0 < N mod M then N mod M else M) = min M (N - blk * M)"
proof -
  have d: "N = N div M * M + N mod M" by simp
  have m: "N mod M < M" using assms(1) by simp
  have b: "blk \<le> N div M" using assms less_eq_div_iff_mult_less_eq [of M blk N] by simp
  show "blk \<le> last_block N M"
  proof (cases "N mod M = 0")
    case True
    then have "blk \<noteq> N div M" using assms(2) d by auto
    with b True show ?thesis by (simp add: last_block_def)
  qed (simp add: last_block_def b)
  show "(if blk = last_block N M \<and> 0 < N mod M then N mod M else M) = min M (N - blk * M)"
  proof (cases "blk = N div M")
    case True
    have "N mod M \<noteq> 0"
    proof
      assume "N mod M = 0"
      then have "N div M * M = N" by (simp add: mod_0_imp_dvd)
      with True assms(2) show False by simp
    qed
    moreover have "N - blk * M = N mod M" using True minus_div_mult_eq_mod by simp
    ultimately show ?thesis using True m by (simp add: last_block_def min_def)
  next
    case False
    then have "Suc blk \<le> N div M" using b by simp
    then have "Suc blk * M \<le> N" using assms(1) less_eq_div_iff_mult_less_eq by blast
    then have "M \<le> N - blk * M" by simp
    moreover have "\<not> (blk = last_block N M \<and> 0 < N mod M)" using False by (auto simp: last_block_def)
    ultimately show ?thesis by (simp only: if_False simp_thms min.absorb1)
  qed
qed

definition shot_fits :: "acq_buf \<Rightarrow> acq_params \<Rightarrow> bool" where
  "shot_fits buf ap \<longleftrightarrow> ap_shots ap = 1 \<and> 0 < unat (ap_pre ap) + unat (ap_post ap) \<and>
     unat (ap_pre ap) + unat (ap_post ap) \<le> unat (ab_max_samples buf) \<and>
     ap_pre ap \<le> ap_pre_aligned ap \<and> ap_post ap \<le> ap_post_aligned ap \<and>
     unat (ab_sample_size buf) dvd 2 ^ 20 \<and> unat (ab_end_addr buf) + unat (ab_sample_size buf) < 2 ^ 32 \<and>
     (unat (ap_pre_aligned ap) + unat (ap_post_aligned ap)) * unat (ab_sample_size buf) \<le>
       unat (ab_end_addr buf) + unat (ab_sample_size buf) - unat (ab_start_addr buf) \<and>
     ab_start_addr buf \<le> ap_trig_addr ap \<and>
     unat (ap_trig_addr ap) < unat (ab_end_addr buf) + unat (ab_sample_size buf)"

definition shot_bytes :: "acq_buf \<Rightarrow> acq_params \<Rightarrow> nat" where
  "shot_bytes buf ap = (unat (ap_pre ap) + unat (ap_post ap)) * unat (ab_sample_size buf)"

definition region_size :: "acq_buf \<Rightarrow> nat" where
  "region_size buf = unat (ab_end_addr buf) + unat (ab_sample_size buf) - unat (ab_start_addr buf)"

text \<open>The place in the region of the first sample before the trigger.\<close>

definition shot_start :: "acq_buf \<Rightarrow> acq_params \<Rightarrow> nat" where
  "shot_start buf ap = unat (ap_trig_addr ap) - unat (ab_start_addr buf) +
     (region_size buf - unat (ap_pre ap) * unat (ab_sample_size buf))"

lemma block_layout_single:
  assumes ok: "buf_ok buf" and f: "shot_fits buf ap" and blk: "unat block_n * 2 ^ 20 < shot_bytes buf ap"
  shows "\<exists>pl addr off. block_layout buf ap block_n = Some (Inr (pl, addr, off)) \<and> rp_single pl \<and>
    rp_start pl = ab_start_addr buf \<and> unat (rp_end pl) = unat (ab_end_addr buf) + unat (ab_sample_size buf) \<and>
    unat (rp_reply pl) = min (2 ^ 20) (shot_bytes buf ap - unat block_n * 2 ^ 20) \<and>
    unat (ab_start_addr buf) \<le> unat addr \<and> unat addr \<le> unat (rp_end pl) \<and>
    (unat addr - unat (ab_start_addr buf)) mod region_size buf = (shot_start buf ap + unat block_n * 2 ^ 20) mod region_size buf"
proof -
  define s where "s = unat (ab_sample_size buf)"
  define S where "S = unat (ab_start_addr buf)"
  define E where "E = unat (ab_end_addr buf) + s"
  define pre where "pre = unat (ap_pre ap)"
  define pal where "pal = unat (ap_pre_aligned ap)"
  define N where "N = unat (ap_pre ap) + unat (ap_post ap)"
  define M where "M = (2 ^ 20 :: nat) div s"
  define bn where "bn = unat block_n"
  define trig where "trig = unat (ap_trig_addr ap)"
  have s0: "0 < s" using ok by (simp add: buf_ok_def s_def unat_gt_0)
  have sd: "s dvd 2 ^ 20" using f by (simp add: shot_fits_def s_def)
  then have Ms: "M * s = 2 ^ 20" "0 < M" "s \<le> 2 ^ 20"
    using s0 by (simp_all add: M_def dvd_imp_le div_greater_zero_iff)
  have E32: "E < 2 ^ 32" and SE: "S < E" and sh: "ap_shots ap = 1" and N0: "0 < N" and Nm: "N \<le> unat (ab_max_samples buf)"
    using f ok s0 unfolding shot_fits_def buf_ok_def N_def E_def S_def s_def by (simp_all add: word_le_nat_alt)
  have N32: "N < 2 ^ 32" using Nm u32_less [of "ab_max_samples buf"] by simp
  have L: "region_size buf = E - S" by (simp add: region_size_def E_def S_def s_def)
  have al: "pre \<le> pal" "(pal + unat (ap_post_aligned ap)) * s \<le> E - S" "unat (ap_post ap) \<le> unat (ap_post_aligned ap)"
    using f by (simp_all add: shot_fits_def pre_def pal_def s_def E_def S_def word_le_nat_alt)
  have tr: "S \<le> trig" "trig < E" using f by (simp_all add: shot_fits_def trig_def S_def E_def s_def word_le_nat_alt)
  have bM: "bn * M < N"
  proof -
    have "bn * M * s < N * s" using blk Ms(1) by (simp add: bn_def shot_bytes_def N_def s_def mult.assoc)
    then show ?thesis by simp
  qed
  let ?ss = "ab_sample_size buf"
  have w_shot: "unat (ap_pre ap + ap_post ap) = N" using N32 by (simp add: N_def add32)
  have w_max: "unat (BLOCK_SIZE div ?ss) = M" by (simp add: BLOCK_SIZE_def unat_div M_def s_def)
  have w_size: "unat ((BLOCK_SIZE div ?ss) * ?ss) = 2 ^ 20" using Ms(1) w_max by (subst mult32) (simp_all add: s_def)
  have w_over: "unat ((ap_pre ap + ap_post ap) mod (BLOCK_SIZE div ?ss)) = N mod M"
    and w_valid: "unat ((ap_pre ap + ap_post ap) div (BLOCK_SIZE div ?ss)) = N div M"
    using unat_mod [of "ap_pre ap + ap_post ap" "BLOCK_SIZE div ?ss"] unat_div [of "ap_pre ap + ap_post ap" "BLOCK_SIZE div ?ss"]
    unfolding w_shot w_max by simp_all
  have w_end: "unat (ab_end_addr buf + ?ss) = E" using E32 by (simp add: E_def s_def add32)
  have le: "pal * s \<le> E - S" using al(2) by (meson le_trans mult_le_mono1 le_add1)
  have w_acq: "unat (ap_pre_aligned ap * ?ss) = pal * s" using le E32 by (simp add: pal_def s_def mult32)
  have w_or: "unat (block_n * (BLOCK_SIZE div ?ss)) = bn * M" using bM N32 w_max by (simp add: bn_def mult32)
  have or0: "block_n * (BLOCK_SIZE div ?ss) div (ap_pre ap + ap_post ap) = 0"
    using bM by (simp add: word_unat_eq_iff unat_div w_or w_shot)
  have "ap_pre ap \<le> ap_pre_aligned ap" using f by (simp add: shot_fits_def)
  then have w_pad: "unat (ap_pre_aligned ap - ap_pre ap) = pal - pre" by (simp add: unat_sub pal_def pre_def)
  have pn: "pal - pre + bn * M \<le> pal + unat (ap_post_aligned ap)" using bM al(1,3) by (simp add: N_def pre_def)
  then have off: "(pal - pre + bn * M) * s \<le> E - S" using al(2) by (meson le_trans mult_le_mono1)
  have "pal - pre + bn * M \<le> (pal - pre + bn * M) * s" using s0 by simp
  then have c32: "pal - pre + bn * M < 2 ^ 32" using off E32 by linarith
  have w_con: "unat (ap_pre_aligned ap - ap_pre ap + block_n * (BLOCK_SIZE div ?ss)) = pal - pre + bn * M"
    using c32 w_pad w_or by (simp add: add32)
  have w_off: "unat ((ap_pre_aligned ap - ap_pre ap + block_n * (BLOCK_SIZE div ?ss)) * ?ss) = (pal - pre + bn * M) * s"
    using off E32 w_con by (simp add: s_def mult32)
  let ?sa = "s_acq_get_start_address (ucast (ap_trig_addr ap)) (ucast (ap_pre_aligned ap * ?ss))
    (ucast (ab_start_addr buf)) (ucast (ab_end_addr buf + ?ss))"
  let ?ai = "s_acq_get_read_block_addr_start ?sa (ucast ((ap_pre_aligned ap - ap_pre ap + block_n * (BLOCK_SIZE div ?ss)) * ?ss))
    (ucast (ab_start_addr buf)) (ucast (ab_end_addr buf + ?ss))"
  have sa: "unat ?sa = ring_addr S (E - S) (trig - S + (E - S - pal * s))"
    using start_address_ring [of "ucast (ab_start_addr buf)" "ucast (ap_trig_addr ap)" "ucast (ab_end_addr buf + ?ss)" "ucast (ap_pre_aligned ap * ?ss)"]
      tr le by (simp add: word_le_nat_alt word_less_nat_alt unat_ucast_up w_end w_acq S_def [symmetric] trig_def [symmetric])
  have sar: "S \<le> unat ?sa" "unat ?sa < E" using SE ring_addr_lt [of "E - S" S] by (simp_all add: sa ring_addr_def)
  have ai: "unat ?ai = (if unat ?sa + (pal - pre + bn * M) * s = E then E
      else ring_addr S (E - S) (unat ?sa - S + (pal - pre + bn * M) * s))"
    using read_block_addr_ring [of "ucast (ab_start_addr buf)" ?sa "ucast (ab_end_addr buf + ?ss)"
      "ucast ((ap_pre_aligned ap - ap_pre ap + block_n * (BLOCK_SIZE div ?ss)) * ?ss)"]
      sar off by (simp add: word_le_nat_alt word_less_nat_alt unat_ucast_up w_end w_off S_def [symmetric])
  let ?V = "if (ap_pre ap + ap_post ap) div (BLOCK_SIZE div ?ss) \<noteq> 0 \<and> (ap_pre ap + ap_post ap) mod (BLOCK_SIZE div ?ss) = 0
    then (ap_pre ap + ap_post ap) div (BLOCK_SIZE div ?ss) - 1 else (ap_pre ap + ap_post ap) div (BLOCK_SIZE div ?ss)"
  have z: "(ap_pre ap + ap_post ap) div (BLOCK_SIZE div ?ss) = 0 \<longleftrightarrow> N div M = 0"
    "(ap_pre ap + ap_post ap) mod (BLOCK_SIZE div ?ss) = 0 \<longleftrightarrow> N mod M = 0"
    by (simp_all only: word_unat_eq_iff w_valid w_over unsigned_0)
  have V: "unat ?V = last_block N M"
  proof (cases "N div M \<noteq> 0 \<and> N mod M = 0")
    case True
    then have "1 \<le> (ap_pre ap + ap_post ap) div (BLOCK_SIZE div ?ss)" using w_valid by (simp add: word_le_nat_alt)
    from unat_sub [OF this] have "unat ((ap_pre ap + ap_post ap) div (BLOCK_SIZE div ?ss) - 1) = N div M - 1"
      unfolding w_valid by simp
    with True z show ?thesis by (simp only: last_block_def) auto
  next
    case False
    then show ?thesis using z w_valid by (simp only: last_block_def) auto
  qed
  let ?pl = "\<lparr>rp_single = True, rp_shot_samples = ap_pre ap + ap_post ap,
    rp_pad_samples = (ap_post_aligned ap - ap_post ap) + (ap_pre_aligned ap - ap_pre ap),
    rp_sample_size = ?ss, rp_start = ab_start_addr buf, rp_end = ab_end_addr buf + ?ss,
    rp_reply = (if block_n = ?V \<and> 0 < (ap_pre ap + ap_post ap) mod (BLOCK_SIZE div ?ss)
      then (ap_pre ap + ap_post ap) mod (BLOCK_SIZE div ?ss) * ?ss else BLOCK_SIZE)\<rparr>"
  note ext = block_extent [OF Ms(2) bM]
  have mx: "unat (ab_max_samples buf) * s \<le> E - S" using ok by (simp add: buf_ok_def s_def E_def S_def) linarith
  have bmx: "bn * 2 ^ 20 \<le> unat (ab_max_samples buf) * s"
  proof -
    have "bn * M \<le> unat (ab_max_samples buf)" using bM Nm by simp
    then have "bn * M * s \<le> unat (ab_max_samples buf) * s" by simp
    then show ?thesis using Ms(1) by (simp add: mult.assoc)
  qed
  have c1: "\<not> (ab_max_samples buf * ?ss) div BLOCK_SIZE < block_n"
  proof -
    have "unat (ab_max_samples buf * ?ss) = unat (ab_max_samples buf) * s" using mx E32 by (simp add: s_def mult32)
    then have "unat ((ab_max_samples buf * ?ss) div BLOCK_SIZE) = unat (ab_max_samples buf) * s div 2 ^ 20"
      by (simp add: unat_div BLOCK_SIZE_def)
    moreover have "bn \<le> unat (ab_max_samples buf) * s div 2 ^ 20" using bmx less_eq_div_iff_mult_less_eq by simp
    ultimately show ?thesis by (simp add: word_less_nat_alt bn_def)
  qed
  have c2: "?ss \<noteq> 0" "BLOCK_SIZE div ?ss \<noteq> 0" using s0 Ms(2) w_max by (auto simp: s_def)
  have c3: "\<not> ?V < block_n" using ext(1) V by (simp only: word_less_nat_alt bn_def)
  have c4: "ap_pre ap + ap_post ap \<noteq> 0" using N0 w_shot by auto
  have lay: "block_layout buf ap block_n = Some (Inr (?pl, ?ai, block_n * (BLOCK_SIZE div ?ss)))"
    using c1 c2 c3 c4 sh or0 unfolding block_layout_def Let_def by (simp split del: if_split cong del: if_weak_cong)
  have rep: "unat (rp_reply ?pl) = min (2 ^ 20) (shot_bytes buf ap - bn * 2 ^ 20)"
  proof -
    have e: "block_n = ?V \<and> 0 < (ap_pre ap + ap_post ap) mod (BLOCK_SIZE div ?ss) \<longleftrightarrow> bn = last_block N M \<and> 0 < N mod M"
      using V w_over by (simp only: word_unat_eq_iff word_less_nat_alt bn_def unsigned_0)
    have o: "unat ((ap_pre ap + ap_post ap) mod (BLOCK_SIZE div ?ss) * ?ss) = N mod M * s"
    proof -
      have "N mod M * s \<le> M * s" using Ms(2) by (simp add: less_imp_le)
      with Ms(1) w_over show ?thesis by (simp add: s_def mult32)
    qed
    have "unat (rp_reply ?pl) = (if bn = last_block N M \<and> 0 < N mod M then N mod M else M) * s"
      unfolding read_plan.simps using e o Ms(1) by (simp add: BLOCK_SIZE_def)
    also have "\<dots> = min (M * s) (N * s - bn * (M * s))"
      unfolding ext(2) by (simp only: nat_mult_min_left diff_mult_distrib mult.assoc)
    finally show ?thesis using Ms(1) by (simp add: shot_bytes_def N_def s_def)
  qed
  have modeq: "(unat ?ai - S) mod (E - S) = (shot_start buf ap + bn * 2 ^ 20) mod (E - S)"
  proof -
    let ?o = "(pal - pre + bn * M) * s" and ?t = "trig - S + (E - S - pal * s)"
    have d: "unat ?sa - S = ?t mod (E - S)" by (simp add: sa ring_addr_def)
    have "(unat ?ai - S) mod (E - S) = (unat ?sa - S + ?o) mod (E - S)"
    proof (cases "unat ?sa + ?o = E")
      case True
      then have "unat ?sa - S + ?o = E - S" using sar by simp
      with True ai show ?thesis by simp
    qed (simp add: ai ring_addr_def)
    also have "\<dots> = (?t + ?o) mod (E - S)" unfolding d by (simp add: mod_add_left_eq)
    also have "?t + ?o = shot_start buf ap + bn * 2 ^ 20"
    proof -
      have "(pal - pre + bn * M) * s = pal * s - pre * s + bn * 2 ^ 20"
        using Ms(1) by (simp add: add_mult_distrib diff_mult_distrib mult.assoc)
      moreover have "pre * s \<le> pal * s" using al(1) by simp
      moreover have "shot_start buf ap = trig - S + (E - S - pre * s)"
        by (simp only: shot_start_def L trig_def S_def pre_def s_def)
      ultimately show ?thesis using le by linarith
    qed
    finally show ?thesis .
  qed
  have "S \<le> unat ?ai" "unat ?ai \<le> E" using SE ring_addr_lt [of "E - S" S "unat ?sa - S + (pal - pre + bn * M) * s"] ring_addr_ge [of S]
    unfolding ai by (simp_all split: if_split)
  with lay rep modeq w_end show ?thesis
    unfolding L by (intro exI [of _ ?pl] exI [of _ ?ai]) (simp add: S_def E_def s_def bn_def)
qed

lemma chan_exists: "chan < (num :: u32) \<Longrightarrow> \<not> num - 1 < chan"
  unfolding not_less word_le_nat_alt by (subst unat_sub) (simp_all add: word_less_nat_alt word_le_nat_alt)

text \<open>A block of a single shot: the bytes of the samples it stands for.\<close>

lemma get_block_single:
  assumes h: "sm_handler self = Some acq" and inv: "acq_inv acq" and c: "chan < aq_num_chan acq"
    and buf: "buf = aq_buf acq ! unat chan" and ap: "ap = aq_params acq ! unat chan"
    and f: "shot_fits buf ap" and blk: "unat (block_n :: u32) * 2 ^ 20 < shot_bytes buf ap"
    and m: "reads_memory self good mem (unat (ab_start_addr buf)) (unat (ab_start_addr buf) + region_size buf)"
    and g: "good p" and len: "4 + 2 ^ 20 \<le> length b"
    and n: "n = min (2 ^ 20) (shot_bytes buf ap - unat block_n * 2 ^ 20)"
  shows "\<exists>p'. s_acq_get_data_block (self, p) \<lparr>tag = tg, content = [le_bytes 4 chan, le_bytes 4 block_n]\<rparr> (Some b) =
    Some (int n + 4, (self, p'), Some (le_bytes 4 (of_nat n :: u32) @
      ring_bytes mem (unat (ab_start_addr buf)) (region_size buf) (shot_start buf ap + unat block_n * 2 ^ 20) n @ drop (4 + n) b)) \<and> good p'"
proof -
  have l: "unat chan < length (aq_buf acq)" "unat chan < length (aq_params acq)"
    using inv c by (simp_all add: acq_inv_def word_less_nat_alt)
  then have ok: "buf_ok buf" using inv buf by (simp add: acq_inv_def list_all_length)
  obtain pl addr off where lay: "block_layout buf ap block_n = Some (Inr (pl, addr, off))" "rp_single pl"
    "rp_start pl = ab_start_addr buf" "unat (rp_end pl) = unat (ab_end_addr buf) + unat (ab_sample_size buf)"
    "unat (rp_reply pl) = n" "unat (ab_start_addr buf) \<le> unat addr" "unat addr \<le> unat (rp_end pl)"
    "(unat addr - unat (ab_start_addr buf)) mod region_size buf = (shot_start buf ap + unat block_n * 2 ^ 20) mod region_size buf"
    using block_layout_single [OF ok f blk] unfolding n by blast
  have "0 < unat (ab_sample_size buf)" using ok by (simp add: buf_ok_def unat_gt_0)
  then have se: "rp_start pl < rp_end pl" using ok lay(3,4)
    by (simp add: buf_ok_def word_less_nat_alt word_le_nat_alt)
  have "unat (ab_start_addr buf) \<le> unat (ab_end_addr buf)" using ok by (simp add: buf_ok_def word_le_nat_alt)
  then have L: "unat (rp_end pl) - unat (rp_start pl) = region_size buf"
    "unat (rp_end pl) = unat (ab_start_addr buf) + region_size buf"
    unfolding region_size_def lay(3,4) by linarith+
  have n20: "n \<le> 2 ^ 20" by (simp add: n)
  have n32: "of_nat n = rp_reply pl" unfolding lay(5) [symmetric] by simp
  have rl: "unat (rp_reply pl) \<le> 2 ^ 20" "4 + unat (rp_reply pl) \<le> length b" using n20 len lay(5) by simp_all
  obtain p' where p': "acq_read_loop self pl 0 addr (ucast (rp_end pl) - addr) off b p =
      Some (True, rp_reply pl, take (4 + unat (0 :: u32)) b @ ring_bytes mem (unat (rp_start pl)) (unat (rp_end pl) - unat (rp_start pl))
          (unat addr - unat (rp_start pl)) (unat (rp_reply pl) - unat (0 :: u32)) @ drop (4 + unat (rp_reply pl)) b, p')" "good p'"
    using single_shot_loop [OF m [folded lay(3) L(2)] lay(2) se rl(1) g _ lay(6) [folded lay(3)] lay(7) rl(2), of 0 off] by auto
  have rb: "ring_bytes mem (unat (rp_start pl)) (region_size buf) (unat addr - unat (rp_start pl)) n =
      ring_bytes mem (unat (ab_start_addr buf)) (region_size buf) (shot_start buf ap + unat block_n * 2 ^ 20) n"
    unfolding lay(3) by (rule ring_bytes_cong [OF lay(8)])
  have t: "to_int32 (uint (rp_reply pl) + 4) = int n + 4"
    using n20 lay(5) [THEN arg_cong, of int] by (simp add: to_int32_id)
  have put: "put_ret 4 (rp_reply pl) (Some (take 4 b @ xs)) = Some (Some (le_bytes 4 (rp_reply pl) @ xs))" for xs
    using len by (simp add: put_ret_def wr_word_def)
  show ?thesis
    using h chan_exists [OF c] l lay(1) p' buf ap t put n32 lay(5) rb L(1)
    by (simp add: s_acq_get_data_block_def nth_opt_def)
qed

section \<open>A concrete module\<close>

text \<open>Its registers all read as 0x10040 (one channel, samples of 8 bytes), and the memory has at every address
  the low byte of the address.\<close>

definition demo_thsafe :: "unit smio_thsafe_client_ops" where
  "demo_thsafe = \<lparr>thsafe_client_open = None, thsafe_client_release = None, thsafe_client_read_16 = None,
     thsafe_client_read_32 = Some (\<lambda>S a d p. Some (4, le_bytes 4 (0x10040 :: u32), p)), thsafe_client_read_64 = None,
     thsafe_client_write_16 = None, thsafe_client_write_32 = None, thsafe_client_write_64 = None,
     thsafe_client_read_block = None, thsafe_client_write_block = None,
     thsafe_client_read_dma = Some (\<lambda>S a n d p. Some (uint n, map (\<lambda>i. ucast a + of_nat i) [0..<unat n] @ drop (unat n) d, p)),
     thsafe_client_write_dma = None\<rparr>"

definition demo_smio :: "smio_acq option \<Rightarrow> (unit smio_ops, unit) acq_smio" where
  "demo_smio h = \<lparr>sm_id = 0, sm_inst_id = 0, sm_base = 0x4000000000310000, sm_name = None, sm_service = [], sm_endpoint = [],
     sm_handler = h, sm_dealer = dead_sock, sm_dealer2 = dead_sock, sm_exp_ops = None, sm_ops = None,
     sm_thsafe = Some demo_thsafe\<rparr>"

definition demo_buf :: acq_buf where
  "demo_buf = \<lparr>ab_id = 0, ab_start_addr = 0x1000, ab_end_addr = 0x1038, ab_max_samples = 7, ab_sample_size = 8\<rparr>"

definition demo_acq :: smio_acq where
  "demo_acq = \<lparr>aq_params = [\<lparr>ap_pre = 3, ap_post = 2, ap_pre_aligned = 4, ap_post_aligned = 4, ap_shots = 1, ap_trig_addr = 0x1008\<rparr>],
     aq_curr_chan = 0, aq_num_chan = 1, aq_multishot_ram_size = 0, aq_buf = [demo_buf]\<rparr>"

lemma demo_ok: "acq_inv demo_acq" "shot_fits demo_buf (hd (aq_params demo_acq))"
  by (simp_all add: acq_inv_def demo_acq_def demo_buf_def buf_ok_def shot_fits_def)

lemma large_mem_low: "(ucast (LARGE_MEM_ADDR OR a) :: u8) = ucast a"
proof -
  have "(ucast LARGE_MEM_ADDR :: u8) = 0" by (simp add: LARGE_MEM_ADDR_def BAR2_ADDR_def PCIE_ADDR_BAR_SHIFT_def BAR2NO_def)
  then show ?thesis by (simp add: unsigned_or_eq)
qed

lemma demo_reads: "reads_memory (demo_smio h) (\<lambda>_. True) of_nat S E"
proof (unfold reads_memory_def, intro allI impI)
  fix a n :: nat and b :: "u8 list" and p :: unit
  assume "n \<le> 2 ^ 20"
  then have n: "unat (of_nat n :: u64) = n" by (simp add: unat_of_nat take_bit_nat_eq_self)
  then have ui: "uint (of_nat n :: u64) = int n" by (metis int_eq_iff uint_nat)
  have u: "(ucast (of_nat a :: u64) :: u8) = of_nat a" by (rule bit_word_eqI) (simp add: bit_simps)
  have "map (\<lambda>i. ucast (LARGE_MEM_ADDR OR of_nat a) + of_nat i) [0..<n] = map (of_nat :: nat \<Rightarrow> u8) [a..<a + n]"
    unfolding large_mem_low u by (simp add: map_add_upt [of a n, symmetric, unfolded add.commute [of n a]] comp_def add.commute)
  then show "\<exists>p'. smio_thsafe_raw_client_read_dma (demo_smio h) (LARGE_MEM_ADDR OR of_nat a) (of_nat n) b p =
      Some (int n, map of_nat [a..<a + n] @ drop n b, p') \<and> True"
    using n ui by (simp add: smio_thsafe_raw_client_read_dma_def SMIO_FUNC_WRAPPER_def demo_smio_def demo_thsafe_def)
qed

text \<open>Calls of exported functions one after the other: the number of the function, the request, the return
  buffer.\<close>

fun acq_calls :: "('o, 'p) acq_func list \<Rightarrow> (nat \<times> msg_args \<times> u8 list option) list \<Rightarrow> ('o, smio_acq, 'p) smio_world \<Rightarrow>
    (int list \<times> ('o, smio_acq, 'p) smio_world) option" where
  "acq_calls fs [] w = Some ([], w)"
| "acq_calls fs ((i, msg, ret) # cs) w =
     (if i < length fs then do {
        (e, w1, _) \<leftarrow> (fs ! i) w msg ret;
        (es, w2) \<leftarrow> acq_calls fs cs w1;
        Some (e # es, w2) }
      else None)"

lemma acq_calls_inv:
  "acq_calls (acq_exp_fp junk) cs (self, p) = Some (es, (self', p')) \<Longrightarrow> sm_handler self = Some acq \<Longrightarrow> acq_inv acq \<Longrightarrow>
    \<exists>acq'. self' = self\<lparr>sm_handler := Some acq'\<rparr> \<and> acq_inv acq' \<and> aq_buf acq' = aq_buf acq \<and> aq_num_chan acq' = aq_num_chan acq"
proof (induction cs arbitrary: self p es acq)
  case Nil
  then show ?case using handler_same [of self acq] by (auto intro: exI [of _ acq])
next
  case (Cons c cs)
  obtain i msg ret where c: "c = (i, msg, ret)" by (cases c) auto
  from Cons.prems(1) obtain e self1 p1 r es' where f: "i < length (acq_exp_fp junk :: ('a, 'b) acq_func list)"
    "(acq_exp_fp junk ! i) (self, p) msg ret = Some (e, (self1, p1), r)"
    "acq_calls (acq_exp_fp junk) cs (self1, p1) = Some (es', (self', p'))"
    by (auto simp: c bind_eq_Some_conv split: if_splits)
  have "keeps_inv (acq_exp_fp junk ! i :: ('a, 'b) acq_func)" by (rule acq_keeps_inv [OF nth_mem [OF f(1)]])
  with f(2) Cons.prems(2,3) obtain acq1 where a: "self1 = self\<lparr>sm_handler := Some acq1\<rparr>" "acq_inv acq1"
    "aq_buf acq1 = aq_buf acq" "aq_num_chan acq1 = aq_num_chan acq" unfolding keeps_inv_def by blast
  from Cons.IH [OF f(3) _ a(2)] a show ?case by auto
qed

lemma demo_new:
  "\<exists>acq. smio_acq_new (\<lambda>_. True) [[(0, 0x1000, 0x1040)]] 24 0 0 0 1 (demo_smio None) () = Some (Some acq, ()) \<and> aq_num_chan acq = 1"
proof -
  have v: "smio_rd (demo_smio None) () a d = Some (4, 0x10040, ())" for a d
    by (simp add: smio_rd_def smio_thsafe_client_read_32_def SMIO_FUNC_WRAPPER_def demo_smio_def demo_thsafe_def)
  have f: "field_get ACQ_CORE_ACQ_CHAN_CTL_NUM_CHAN 0x10040 = 1" "field_get (Single_Bit ACQ_CORE_SHOTS_MULTISHOT_RAM_SIZE_IMPL) 0x10040 = 1"
    "field_get ACQ_CORE_SHOTS_MULTISHOT_RAM_SIZE 0x10040 = 0" "field_get ACQ_CORE_CH0_DESC_INT_WIDTH 0x10040 = 64"
    "field_get ACQ_CORE_CH0_DESC_NUM_COALESCE 0x10040 = 1" "field_get ACQ_CORE_CH0_ATOM_DESC_NUM_ATOMS 0x10040 = 64"
    "field_get ACQ_CORE_CH0_ATOM_DESC_ATOM_WIDTH 0x10040 = 1"
    by (simp_all add: ACQ_CORE_ACQ_CHAN_CTL_NUM_CHAN_def ACQ_CORE_SHOTS_MULTISHOT_RAM_SIZE_def ACQ_CORE_CH0_DESC_INT_WIDTH_def
      ACQ_CORE_CH0_DESC_NUM_COALESCE_def ACQ_CORE_CH0_ATOM_DESC_NUM_ATOMS_def ACQ_CORE_CH0_ATOM_DESC_ATOM_WIDTH_def
      ACQ_CORE_SHOTS_MULTISHOT_RAM_SIZE_IMPL_def gen_field_def WBGEN2_GEN_READ_def WBGEN2_GEN_MASK_def BIT_SET_def mask_eq_exp_minus_1)
  have g: "GET_PARAM (demo_smio None) b r fl None junk () = Some (RW_OK, field_get fl 0x10040, ())" for b r fl junk
    by (simp add: GET_PARAM_def GET_PARAM_GEN_def v)
  have d: "chan_desc (demo_smio None) r fl i 0 () = Some (field_get fl 0x10040, ())" for r fl i
    by (simp add: chan_desc_def GET_PARAM_CHANNEL_def g)
  have c: "chan_region [[(0, 0x1000, 0x1040)]] (smio_get_inst_id (demo_smio None)) 0 = (0, 0x1000, 0x1040)"
    by (simp add: chan_region_def smio_get_inst_id_def demo_smio_def)
  show ?thesis
    by (simp add: smio_acq_new_def g f acq_new_buf_def d Let_def c upt_rec DDR3_BYTE_2_BIT_def)
qed








section \<open>Properties\<close>

text \<open>C4: reading an acquisition of one shot back. The samples wanted lie in the circular region of their
  channel, from the trigger back over the samples before it; block \<open>n\<close> of them is their bytes from
  \<open>n * 2^20\<close> on, at most \<open>2^20\<close> of them. Every block of an acquisition whose aligned samples fit
  in the region is returned, in a loop that ends, with its exact number of bytes in front, whatever the
  place of the trigger and however the samples wrap around the end of the region.\<close>

theorem acq_block_single_shot:
  assumes "sm_handler self = Some acq" and "acq_inv acq" and "chan < aq_num_chan acq"
    and "buf = aq_buf acq ! unat chan" and "ap = aq_params acq ! unat chan" and "shot_fits buf ap"
    and "unat (block_n :: u32) * 2 ^ 20 < shot_bytes buf ap"
    and "reads_memory self good mem (unat (ab_start_addr buf)) (unat (ab_start_addr buf) + region_size buf)"
    and "good p" and "4 + 2 ^ 20 \<le> length b" and "n = min (2 ^ 20) (shot_bytes buf ap - unat block_n * 2 ^ 20)"
  shows "\<exists>p'. s_acq_get_data_block (self, p) \<lparr>tag = EXP_MSG_ZMQ_TAG, content = [le_bytes 4 chan, le_bytes 4 block_n]\<rparr> (Some b) =
    Some (int n + 4, (self, p'), Some (le_bytes 4 (of_nat n :: u32) @
      ring_bytes mem (unat (ab_start_addr buf)) (region_size buf) (shot_start buf ap + unat block_n * 2 ^ 20) n @ drop (4 + n) b)) \<and> good p'"
  by (rule get_block_single [OF assms])

theorem acq_block_single_shot_witness:
  "s_acq_get_data_block (demo_smio (Some demo_acq), ()) \<lparr>tag = EXP_MSG_ZMQ_TAG, content = [le_bytes 4 (0 :: u32), le_bytes 4 (0 :: u32)]\<rparr>
      (Some (replicate (4 + 2 ^ 20) 0)) =
    Some (44, (demo_smio (Some demo_acq), ()), Some (le_bytes 4 (40 :: u32) @
      map (of_nat :: nat \<Rightarrow> u8) ([0x1030..<0x1040] @ [0x1000..<0x1018]) @ drop 44 (replicate (4 + 2 ^ 20) 0)))"
proof -
  have h: "sm_handler (demo_smio (Some demo_acq)) = Some demo_acq" by (simp add: demo_smio_def)
  have c: "0 < aq_num_chan demo_acq" by (simp add: demo_acq_def)
  have b: "demo_buf = aq_buf demo_acq ! unat (0 :: u32)" by (simp add: demo_acq_def)
  let ?ap = "hd (aq_params demo_acq)"
  have a: "?ap = aq_params demo_acq ! unat (0 :: u32)" by (simp add: demo_acq_def)
  have sz: "shot_bytes demo_buf ?ap = 40" "region_size demo_buf = 64" "shot_start demo_buf ?ap = 48" "unat (ab_start_addr demo_buf) = 4096"
    by (simp_all add: shot_bytes_def region_size_def shot_start_def demo_buf_def demo_acq_def)
  have n: "40 = min (2 ^ 20) (shot_bytes demo_buf ?ap - unat (0 :: u32) * 2 ^ 20)" by (simp add: sz)
  have k: "unat (0 :: u32) * 2 ^ 20 < shot_bytes demo_buf ?ap" by (simp add: sz)
  have l: "4 + 2 ^ 20 \<le> length (replicate (4 + 2 ^ 20) (0 :: u8))" by (simp only: length_replicate)
  have r: "ring_bytes of_nat 4096 64 48 40 = map (of_nat :: nat \<Rightarrow> u8) ([0x1030..<0x1040] @ [0x1000..<0x1018])"
  proof -
    have "ring_bytes of_nat 4096 64 (48 + 16) 24 = (ring_bytes of_nat 4096 64 0 24 :: u8 list)" by (rule ring_bytes_cong) simp
    then show ?thesis
      using ring_bytes_add [of "of_nat :: nat \<Rightarrow> u8" 4096 64 48 16 24] ring_bytes_straight [of 48 16 64 "of_nat :: nat \<Rightarrow> u8" 4096]
        ring_bytes_straight [of 0 24 64 "of_nat :: nat \<Rightarrow> u8" 4096] by simp
  qed
  have e: "int 40 + 4 = 44" "of_nat 40 = (40 :: u32)" "4 + 40 = (44 :: nat)" by simp_all
  from acq_block_single_shot [OF h demo_ok(1) c b a demo_ok(2) k demo_reads TrueI l n]
  show ?thesis unfolding sz unsigned_0 mult_zero_left add_0_right r e by (metis (full_types) old.unit.exhaust)
qed

text \<open>C9: the addresses of samples are those of a ring. The address the samples wanted begin at, the
  trigger's taken back by their size, and the address of a place in them, taken forward, are computed
  with a comparison and two subtractions each; they are the addresses modulo the size of the region,
  except that a place exactly at the end of the region is given the address after the region and not
  the first one.\<close>

theorem acq_address_ring:
  assumes "start \<le> trig" and "trig < end_mem" and "unat sz \<le> unat end_mem - unat start"
    and "start \<le> a" and "a < end_mem" and "unat off \<le> unat end_mem - unat start"
  shows "unat (s_acq_get_start_address trig sz start end_mem) =
      ring_addr (unat start) (unat end_mem - unat start) (unat trig - unat start + (unat end_mem - unat start - unat sz)) \<and>
    unat (s_acq_get_read_block_addr_start a off start end_mem) =
      (if unat a + unat off = unat end_mem then unat end_mem
       else ring_addr (unat start) (unat end_mem - unat start) (unat a - unat start + unat off))"
  using start_address_ring [OF assms(1-3)] read_block_addr_ring [OF assms(4-6)] by blast

theorem acq_address_ring_witness:
  "unat (s_acq_get_start_address 0x1008 0x20 0x1000 0x1040) = ring_addr 0x1000 0x40 (0x8 + 0x20) \<and>
   unat (s_acq_get_read_block_addr_start 0x1028 0x18 0x1000 0x1040) = 0x1040"
  using acq_address_ring [where start = "0x1000" and trig = "0x1008" and end_mem = "0x1040" and sz = "0x20"
    and a = "0x1028" and off = "0x18"]
  by simp

text \<open>C6: the state of the module. What \<open>smio_acq_new\<close> makes out of the core's registers has for every
  channel its parameters and a region in order whose sample size is not zero and that is large enough for
  the samples it is said to hold; and every sequence of calls of the module's exported functions, on any
  requests and over any client, keeps it so and never changes the regions, the number of channels or
  anything else of the object.\<close>

theorem acq_state_invariant:
  assumes "smio_acq_new al tab end_chan junk0 pre post shots self0 p0 = Some (Some acq, p1)"
    and "sm_handler self = Some acq" and "acq_calls (acq_exp_fp junk) cs (self, p) = Some (es, (self', p'))"
  shows "acq_inv acq \<and> (\<exists>acq'. self' = self\<lparr>sm_handler := Some acq'\<rparr> \<and> acq_inv acq' \<and>
    aq_buf acq' = aq_buf acq \<and> aq_num_chan acq' = aq_num_chan acq)"
  using smio_acq_new_inv [OF assms(1)] acq_calls_inv [OF assms(3,2)] by blast

theorem acq_state_invariant_witness:
  "\<exists>acq self'. smio_acq_new (\<lambda>_. True) [[(0, 0x1000, 0x1040)]] 24 0 0 0 1 (demo_smio None) () = Some (Some acq, ()) \<and> acq_inv acq \<and>
    acq_calls (acq_exp_fp 0) [(3, \<lparr>tag = EXP_MSG_ZMQ_TAG, content = [le_bytes 4 (0 :: u32), le_bytes 4 (9 :: u32)]\<rparr>, None)]
      (demo_smio (Some acq), ()) = Some ([-5], (self', ()))"
proof -
  obtain acq where n: "smio_acq_new (\<lambda>_. True) [[(0, 0x1000, 0x1040)]] 24 0 0 0 1 (demo_smio None) () = Some (Some acq, ())"
    using demo_new by blast
  have h: "sm_handler (demo_smio (Some acq)) = Some acq" by (simp add: demo_smio_def)
  have r: "acq_calls (acq_exp_fp 0) [(3, \<lparr>tag = EXP_MSG_ZMQ_TAG, content = [le_bytes 4 (0 :: u32), le_bytes 4 (9 :: u32)]\<rparr>, None)]
      (demo_smio (Some acq), ()) = Some ([-5], (demo_smio (Some acq), ()))"
    by (simp add: acq_exp_fp_def s_acq_cfg_trigger_def h trig_types acq_codes)
  from acq_state_invariant [OF n h r] n r show ?thesis by blast
qed

text \<open>C11: a block asked of a module that has acquired nothing. After the start of the module, whose
  parameters hold no samples before and no samples after the trigger, asking for the first block of any
  channel that exists has no result: the code divides by the number of samples of a shot.\<close>

theorem acq_block_before_acquire:
  assumes "smio_acq_new al tab end_chan junk 0 0 1 self0 p0 = Some (Some acq, p1)"
    and "sm_handler self = Some acq" and "chan < aq_num_chan acq"
  shows "s_acq_get_data_block (self, p) \<lparr>tag = EXP_MSG_ZMQ_TAG, content = [le_bytes 4 chan, le_bytes 4 (0 :: u32)]\<rparr> ret = None"
proof -
  obtain ap where a: "nth_opt (aq_params acq) chan = Some ap" "ap_pre ap = 0" "ap_post ap = 0"
    using fresh_params [OF assms(1,3)] by blast
  then have "block_layout b ap 0 = None" for b by (simp add: no_samples_no_layout)
  then show ?thesis using assms(2) chan_exists [OF assms(3)] a(1)
    by (simp add: s_acq_get_data_block_def bind_eq_None_conv split: option.split) 
qed

theorem acq_block_before_acquire_witness:
  "\<exists>acq. smio_acq_new (\<lambda>_. True) [[(0, 0x1000, 0x1040)]] 24 0 0 0 1 (demo_smio None) () = Some (Some acq, ()) \<and>
    s_acq_get_data_block (demo_smio (Some acq), ()) \<lparr>tag = EXP_MSG_ZMQ_TAG, content = [le_bytes 4 (0 :: u32), le_bytes 4 (0 :: u32)]\<rparr>
      (Some []) = None"
proof -
  obtain acq where n: "smio_acq_new (\<lambda>_. True) [[(0, 0x1000, 0x1040)]] 24 0 0 0 1 (demo_smio None) () = Some (Some acq, ())"
    "aq_num_chan acq = 1" using demo_new by blast
  have h: "sm_handler (demo_smio (Some acq)) = Some acq" by (simp add: demo_smio_def)
  have c: "0 < aq_num_chan acq" using n(2) by simp
  from acq_block_before_acquire [OF n(1) h c] n(1) show ?thesis by blast
qed





end
