(* ===== verification/Client.thy ===== *)
theory Client
  imports Module
begin

text \<open>
  The client library, src/client: a caller names a service (an instance of a module) and a parameter;
  the library sends a request over the Malamute client and waits for the reply of that service.

  The Malamute client and the poller are the record \<open>mlm_client\<close> of functions on a peer state: the
  outcome of making a message, sending, waiting (which socket, expired, terminated), whether a message
  is pending, and the message received with its sender. A double is its 64 bits, which the library
  only copies.
\<close>

section \<open>Error codes\<close>

definition HALCS_CLIENT_SUCCESS :: int where "HALCS_CLIENT_SUCCESS = 0"
definition HALCS_CLIENT_ERR_ALLOC :: int where "HALCS_CLIENT_ERR_ALLOC = 1"
definition HALCS_CLIENT_ERR_SERVER :: int where "HALCS_CLIENT_ERR_SERVER = 2"
definition HALCS_CLIENT_ERR_AGAIN :: int where "HALCS_CLIENT_ERR_AGAIN = 3"
definition HALCS_CLIENT_ERR_TIMEOUT :: int where "HALCS_CLIENT_ERR_TIMEOUT = 4"
definition HALCS_CLIENT_ERR_MSG :: int where "HALCS_CLIENT_ERR_MSG = 5"
definition HALCS_CLIENT_INT :: int where "HALCS_CLIENT_INT = 6"
definition HALCS_CLIENT_ERR_INV_PARAM :: int where "HALCS_CLIENT_ERR_INV_PARAM = 7"
definition HALCS_CLIENT_ERR_INV_FUNCTION :: int where "HALCS_CLIENT_ERR_INV_FUNCTION = 8"
definition HALCS_CLIENT_ERR_INV_RETCODE :: int where "HALCS_CLIENT_ERR_INV_RETCODE = 9"
definition HALCS_CLIENT_ERR_GEN_END :: int where "HALCS_CLIENT_ERR_GEN_END = 10"
definition HALCS_CLIENT_ERR_MODULE :: int where "HALCS_CLIENT_ERR_MODULE = 153202234"
definition HALCS_CLIENT_ERR_END :: int where "HALCS_CLIENT_ERR_END = HALCS_CLIENT_ERR_MODULE + 20 + 1"

lemmas client_errs = HALCS_CLIENT_SUCCESS_def HALCS_CLIENT_ERR_ALLOC_def HALCS_CLIENT_ERR_SERVER_def
  HALCS_CLIENT_ERR_AGAIN_def HALCS_CLIENT_ERR_TIMEOUT_def HALCS_CLIENT_ERR_MSG_def HALCS_CLIENT_INT_def
  HALCS_CLIENT_ERR_INV_PARAM_def HALCS_CLIENT_ERR_INV_FUNCTION_def HALCS_CLIENT_ERR_INV_RETCODE_def
  HALCS_CLIENT_ERR_GEN_END_def HALCS_CLIENT_ERR_MODULE_def HALCS_CLIENT_ERR_END_def

definition halcs_client_err_str :: "int \<Rightarrow> string option" where
  "halcs_client_err_str err =
     (if err < HALCS_CLIENT_ERR_GEN_END
      then Some ([''Success'', ''Could not allocate memory'', ''Server could not complete request'',
        ''Operation did not fully complete, try again'', ''Timeout occurred'', ''Unexpected message'',
        ''Interrupt occured'', ''Invalid function parameters'', ''Invalid function'', ''Invalid return code''] ! nat err)
      else None)"

definition READ_MODE :: u32 where "READ_MODE = 1"
definition WRITE_MODE :: u32 where "WRITE_MODE = 0"
definition MSG_FULL_SIZE :: nat where "MSG_FULL_SIZE = 3"
definition MSG_ERR_CODE_SIZE :: nat where "MSG_ERR_CODE_SIZE = 1"
definition RW_REPLY_SIZE :: nat where "RW_REPLY_SIZE = 4"

lemmas client_consts = READ_MODE_def WRITE_MODE_def MSG_FULL_SIZE_def MSG_ERR_CODE_SIZE_def RW_REPLY_SIZE_def

section \<open>The client object\<close>

record 'p mlm_client =
  mc_new_msg :: "'p \<Rightarrow> bool \<times> 'p"
  mc_sendto :: "string \<Rightarrow> u32 \<Rightarrow> frame list \<Rightarrow> 'p \<Rightarrow> (int \<times> 'p) option"
  mc_pipe :: bool
  mc_wait :: "u32 \<Rightarrow> 'p \<Rightarrow> bool option \<times> bool \<times> bool \<times> 'p"
  mc_pending :: "'p \<Rightarrow> bool \<times> 'p"
  mc_recv :: "'p \<Rightarrow> string \<times> frame list option \<times> 'p"
  mc_subject :: "'p \<Rightarrow> string"
  mc_set_consumer :: "string \<Rightarrow> string \<Rightarrow> 'p \<Rightarrow> int \<times> 'p"
  mc_remove_consumer :: "string \<Rightarrow> 'p \<Rightarrow> int \<times> 'p"

record 'p halcs_client =
  hc_mlm :: "'p mlm_client option"
  hc_timeout :: int

datatype client_res = Res_Self | Res_Uuid | Res_Mlm | Res_Poller

text \<open>The steps of the constructor, each with its outcome, and what the clean-up labels release: the
  client, or none, with what is still held.\<close>

definition s_halcs_client_new ::
  "(nat \<Rightarrow> bool) \<Rightarrow> 'p mlm_client \<Rightarrow> int \<Rightarrow> int \<Rightarrow> 'p halcs_client option \<times> client_res list" where
  "s_halcs_client_new ok mlm rc timeout =
     (if \<not> ok 0 then (None, [])
      else if \<not> ok 1 then (None, removeAll Res_Self [Res_Self])
      else if \<not> ok 2 then (None, removeAll Res_Self (removeAll Res_Uuid [Res_Self, Res_Uuid]))
      else if \<not> 0 \<le> rc \<or> \<not> mc_pipe mlm \<or> \<not> ok 3
      then (None, removeAll Res_Self (removeAll Res_Uuid (removeAll Res_Mlm [Res_Self, Res_Uuid, Res_Mlm])))
      else (Some \<lparr>hc_mlm = Some mlm, hc_timeout = timeout\<rparr>, [Res_Self, Res_Uuid, Res_Mlm, Res_Poller]))"

definition HALCSCLIENT_DFLT_TIMEOUT :: int where "HALCSCLIENT_DFLT_TIMEOUT = 5000"

definition halcs_client_new :: "(nat \<Rightarrow> bool) \<Rightarrow> 'p mlm_client \<Rightarrow> int \<Rightarrow> 'p halcs_client option \<times> client_res list" where
  "halcs_client_new ok mlm rc = s_halcs_client_new ok mlm rc HALCSCLIENT_DFLT_TIMEOUT"

definition halcs_client_new_log_mode :: "(nat \<Rightarrow> bool) \<Rightarrow> 'p mlm_client \<Rightarrow> int \<Rightarrow> 'p halcs_client option \<times> client_res list" where
  "halcs_client_new_log_mode ok mlm rc = s_halcs_client_new ok mlm rc HALCSCLIENT_DFLT_TIMEOUT"

definition halcs_client_new_log_mode_time ::
  "(nat \<Rightarrow> bool) \<Rightarrow> 'p mlm_client \<Rightarrow> int \<Rightarrow> int \<Rightarrow> 'p halcs_client option \<times> client_res list" where
  "halcs_client_new_log_mode_time ok mlm rc timeout = s_halcs_client_new ok mlm rc timeout"

definition halcs_client_new_time ::
  "(nat \<Rightarrow> bool) \<Rightarrow> 'p mlm_client \<Rightarrow> int \<Rightarrow> int \<Rightarrow> 'p halcs_client option \<times> client_res list" where
  "halcs_client_new_time ok mlm rc timeout = s_halcs_client_new ok mlm rc timeout"

definition halcs_client_destroy :: "'p halcs_client option \<times> client_res list \<Rightarrow> 'p halcs_client option \<times> client_res list" where
  "halcs_client_destroy = (\<lambda>(self, res).
     case self of
       None \<Rightarrow> (None, res)
     | Some _ \<Rightarrow> (None, fold removeAll [Res_Poller, Res_Mlm, Res_Uuid, Res_Self] res))"

definition halcs_client_set_timeout :: "'p halcs_client \<Rightarrow> int \<Rightarrow> int \<times> 'p halcs_client" where
  "halcs_client_set_timeout self timeout = (HALCS_CLIENT_SUCCESS, self\<lparr>hc_timeout := timeout\<rparr>)"

definition halcs_client_get_timeout :: "'p halcs_client \<Rightarrow> u32" where
  "halcs_client_get_timeout self = word_of_int (hc_timeout self)"

definition halcs_get_mlm_client :: "'p halcs_client \<Rightarrow> 'p mlm_client option" where
  "halcs_get_mlm_client self = hc_mlm self"

section \<open>Requests and replies\<close>

text \<open>The arguments after \<open>rw\<close> are the bytes their pointers lead to, or none.\<close>

definition param_client_send_gen_rw ::
  "'p halcs_client \<Rightarrow> string \<Rightarrow> u32 \<Rightarrow> u32 \<Rightarrow> frame option \<Rightarrow> frame option \<Rightarrow> frame option \<Rightarrow> 'p \<Rightarrow> (int \<times> 'p) option" where
  "param_client_send_gen_rw self service operation rw param1 param2 param3 p =
     (case param1 of
        None \<Rightarrow> Some (HALCS_CLIENT_ERR_INV_PARAM, p)
      | Some f1 \<Rightarrow>
          (case halcs_get_mlm_client self of
             None \<Rightarrow> Some (HALCS_CLIENT_ERR_SERVER, p)
           | Some client \<Rightarrow>
               let (ok, p1) = mc_new_msg client p
               in if \<not> ok then Some (HALCS_CLIENT_ERR_ALLOC, p1)
                  else do {
                    let request = [le_bytes 4 operation, le_bytes 4 rw, f1] @
                      (case param2 of None \<Rightarrow> [] | Some f2 \<Rightarrow> [f2]) @ (case param3 of None \<Rightarrow> [] | Some f3 \<Rightarrow> [f3]);
                    (rc, p2) \<leftarrow> mc_sendto client service (halcs_client_get_timeout self) request p1;
                    Some (if 0 \<le> rc then HALCS_CLIENT_SUCCESS else HALCS_CLIENT_ERR_SERVER, p2) }))"

text \<open>Messages of other services are thrown away; the last of them leaves none.\<close>

partial_function (option) recv_of_service ::
  "'p mlm_client \<Rightarrow> string \<Rightarrow> frame list option \<Rightarrow> 'p \<Rightarrow> (frame list option \<times> 'p) option" where
  "recv_of_service client service msg p =
     (let (pending, p1) = mc_pending client p
      in if \<not> pending then Some (msg, p1)
         else let (sender, m, p2) = mc_recv client p1
              in if sender \<noteq> service then recv_of_service client service None p2 else Some (m, p2))"

definition param_client_recv_timeout :: "'p halcs_client \<Rightarrow> string \<Rightarrow> 'p \<Rightarrow> (frame list option \<times> 'p) option" where
  "param_client_recv_timeout self service p = do {
     client \<leftarrow> halcs_get_mlm_client self;
     if \<not> mc_pipe client then Some (None, p)
     else
       let (which, expired, terminated, p1) = mc_wait client (halcs_client_get_timeout self) p
       in if expired then Some (None, p1)
          else if terminated then Some (None, p1)
          else (case which of
              None \<Rightarrow> Some (None, p1)
            | Some True \<Rightarrow> recv_of_service client service None p1
            | Some False \<Rightarrow> Some (None, p1)) }"

definition param_client_recv_rw :: "'p halcs_client \<Rightarrow> string \<Rightarrow> 'p \<Rightarrow> (int \<times> frame list option \<times> 'p) option" where
  "param_client_recv_rw self service p =
     (case halcs_get_mlm_client self of
        None \<Rightarrow> Some (HALCS_CLIENT_ERR_SERVER, None, p)
      | Some _ \<Rightarrow> do {
          (report, p1) \<leftarrow> param_client_recv_timeout self service p;
          Some (if report = None then HALCS_CLIENT_ERR_SERVER else HALCS_CLIENT_SUCCESS, report, p1) })"

text \<open>A reply with a wrong number of frames is dropped and the status stays \<open>HALCS_CLIENT_SUCCESS\<close>.\<close>

definition param_client_write_gen ::
  "'p halcs_client \<Rightarrow> string \<Rightarrow> u32 \<Rightarrow> u32 \<Rightarrow> frame option \<Rightarrow> frame option \<Rightarrow> frame option \<Rightarrow> 'p \<Rightarrow> (int \<times> 'p) option" where
  "param_client_write_gen self service operation rw param1 param2 param3 p = do {
     (err, p1) \<leftarrow> param_client_send_gen_rw self service operation rw param1 param2 param3 p;
     if err \<noteq> HALCS_CLIENT_SUCCESS then Some (err, p1)
     else do {
       (err', report, p2) \<leftarrow> param_client_recv_rw self service p1;
       if err' \<noteq> HALCS_CLIENT_SUCCESS then Some (err', p2)
       else do {
         msg \<leftarrow> report;
         if length msg \<noteq> MSG_ERR_CODE_SIZE then Some (HALCS_CLIENT_SUCCESS, p2)
         else do {
           code \<leftarrow> (rd_word 4 (hd msg) :: u32 option);
           Some (if code = of_nat RW_OK then HALCS_CLIENT_SUCCESS else HALCS_CLIENT_ERR_AGAIN, p2) } } } }"

text \<open>\<open>out\<close> is what \<open>param_out\<close> points to, \<open>size_out\<close> bytes. All of them are copied out of the
  payload, so a payload that is shorter is read past its end: undefined.\<close>

definition param_client_read_gen ::
  "'p halcs_client \<Rightarrow> string \<Rightarrow> u32 \<Rightarrow> u32 \<Rightarrow> frame option \<Rightarrow> frame option \<Rightarrow> frame option \<Rightarrow> u8 list \<Rightarrow> 'p \<Rightarrow>
     (int \<times> u8 list \<times> 'p) option" where
  "param_client_read_gen self service operation rw param1 param2 param3 out p = do {
     (err, p1) \<leftarrow> param_client_send_gen_rw self service operation rw param1 param2 param3 p;
     if err \<noteq> HALCS_CLIENT_SUCCESS then Some (err, out, p1)
     else do {
       (err', report, p2) \<leftarrow> param_client_recv_rw self service p1;
       if err' \<noteq> HALCS_CLIENT_SUCCESS then Some (err', out, p2)
       else do {
         msg \<leftarrow> report;
         if length msg \<noteq> MSG_ERR_CODE_SIZE \<and> length msg \<noteq> MSG_FULL_SIZE then Some (HALCS_CLIENT_SUCCESS, out, p2)
         else do {
           code \<leftarrow> (rd_word 4 (hd msg) :: u32 option);
           if code \<noteq> of_nat RW_OK then Some (HALCS_CLIENT_ERR_AGAIN, out, p2)
           else if length msg \<noteq> MSG_FULL_SIZE then Some (HALCS_CLIENT_SUCCESS, out, p2)
           else
             let bytes_read = msg ! 1; data_out = msg ! 2
             in if length bytes_read \<noteq> RW_REPLY_SIZE then Some (HALCS_CLIENT_SUCCESS, out, p2)
                else if unat (le_word bytes_read :: u32) \<noteq> length data_out then Some (HALCS_CLIENT_SUCCESS, out, p2)
                else if \<not> length data_out \<le> length out then Some (HALCS_CLIENT_SUCCESS, out, p2)
                else if length data_out < length out then None
                else Some (HALCS_CLIENT_SUCCESS, data_out, p2) } } } }"

section \<open>Writing and reading parameters\<close>

type_synonym 'p client_set = "'p halcs_client \<Rightarrow> string \<Rightarrow> u32 \<Rightarrow> 'p \<Rightarrow> (int \<times> 'p) option"
type_synonym 'p client_set2 = "'p halcs_client \<Rightarrow> string \<Rightarrow> u32 \<Rightarrow> u32 \<Rightarrow> 'p \<Rightarrow> (int \<times> 'p) option"
type_synonym 'p client_set3 = "'p halcs_client \<Rightarrow> string \<Rightarrow> u32 \<Rightarrow> u32 \<Rightarrow> u32 \<Rightarrow> 'p \<Rightarrow> (int \<times> 'p) option"
type_synonym 'p client_set_byte = "'p halcs_client \<Rightarrow> string \<Rightarrow> u8 \<Rightarrow> 'p \<Rightarrow> (int \<times> 'p) option"
type_synonym 'p client_set_double = "'p halcs_client \<Rightarrow> string \<Rightarrow> u64 \<Rightarrow> 'p \<Rightarrow> (int \<times> 'p) option"
type_synonym 'p client_get = "'p halcs_client \<Rightarrow> string \<Rightarrow> u32 \<Rightarrow> 'p \<Rightarrow> (int \<times> u32 \<times> 'p) option"
type_synonym 'p client_get1 = "'p halcs_client \<Rightarrow> string \<Rightarrow> u32 \<Rightarrow> u32 \<Rightarrow> 'p \<Rightarrow> (int \<times> u32 \<times> 'p) option"
type_synonym 'p client_get2 = "'p halcs_client \<Rightarrow> string \<Rightarrow> u32 \<Rightarrow> u32 \<Rightarrow> u32 \<Rightarrow> 'p \<Rightarrow> (int \<times> u32 \<times> 'p) option"
type_synonym 'p client_get_byte = "'p halcs_client \<Rightarrow> string \<Rightarrow> u8 \<Rightarrow> 'p \<Rightarrow> (int \<times> u8 \<times> 'p) option"
type_synonym 'p client_get_double = "'p halcs_client \<Rightarrow> string \<Rightarrow> u64 \<Rightarrow> 'p \<Rightarrow> (int \<times> u64 \<times> 'p) option"

text \<open>The bytes of a variable.\<close>

definition b8 :: "u8 \<Rightarrow> frame option" where "b8 v = Some [v]"
definition b32 :: "u32 \<Rightarrow> frame option" where "b32 v = Some (le_bytes 4 v)"
definition b64 :: "u64 \<Rightarrow> frame option" where "b64 v = Some (le_bytes 8 v)"

definition param_client_write_raw :: "'p halcs_client \<Rightarrow> string \<Rightarrow> u32 \<Rightarrow> u32 \<Rightarrow> u32 \<Rightarrow> 'p \<Rightarrow> (int \<times> 'p) option" where
  "param_client_write_raw self service operation param1 param2 =
     param_client_write_gen self service operation param1 (b32 param2) None None"

definition param_client_write :: "'p halcs_client \<Rightarrow> string \<Rightarrow> u32 \<Rightarrow> u32 \<Rightarrow> 'p \<Rightarrow> (int \<times> 'p) option" where
  "param_client_write self service operation param =
     param_client_write_gen self service operation WRITE_MODE (b32 param) None None"

definition param_client_write_byte :: "'p halcs_client \<Rightarrow> string \<Rightarrow> u32 \<Rightarrow> u8 \<Rightarrow> 'p \<Rightarrow> (int \<times> 'p) option" where
  "param_client_write_byte self service operation param =
     param_client_write_gen self service operation WRITE_MODE (b8 param) None None"

definition param_client_write_signed :: "'p halcs_client \<Rightarrow> string \<Rightarrow> u32 \<Rightarrow> u32 \<Rightarrow> 'p \<Rightarrow> (int \<times> 'p) option" where
  "param_client_write_signed self service operation param =
     param_client_write_gen self service operation WRITE_MODE (b32 param) None None"

definition param_client_write_double :: "'p halcs_client \<Rightarrow> string \<Rightarrow> u32 \<Rightarrow> u64 \<Rightarrow> 'p \<Rightarrow> (int \<times> 'p) option" where
  "param_client_write_double self service operation param =
     param_client_write_gen self service operation WRITE_MODE (b64 param) None None"

definition param_client_write2 :: "'p halcs_client \<Rightarrow> string \<Rightarrow> u32 \<Rightarrow> u32 \<Rightarrow> u32 \<Rightarrow> 'p \<Rightarrow> (int \<times> 'p) option" where
  "param_client_write2 self service operation param1 param2 =
     param_client_write_gen self service operation WRITE_MODE (b32 param1) (b32 param2) None"

definition param_client_write3 :: "'p halcs_client \<Rightarrow> string \<Rightarrow> u32 \<Rightarrow> u32 \<Rightarrow> u32 \<Rightarrow> u32 \<Rightarrow> 'p \<Rightarrow> (int \<times> 'p) option" where
  "param_client_write3 self service operation param1 param2 param3 =
     param_client_write_gen self service operation WRITE_MODE (b32 param1) (b32 param2) (b32 param3)"

definition param_client_write_double2 :: "'p halcs_client \<Rightarrow> string \<Rightarrow> u32 \<Rightarrow> u64 \<Rightarrow> u64 \<Rightarrow> 'p \<Rightarrow> (int \<times> 'p) option" where
  "param_client_write_double2 self service operation param1 param2 =
     param_client_write_gen self service operation WRITE_MODE (b64 param1) (b64 param2) None"

text \<open>The caller's variable before and after; what it holds before is sent as the unused argument.\<close>

definition out_word :: "(int \<times> u8 list \<times> 'p) option \<Rightarrow> (int \<times> 'v::len word \<times> 'p) option" where
  "out_word = map_option (\<lambda>(err, b, p). (err, le_word b, p))"

definition param_client_read :: "'p halcs_client \<Rightarrow> string \<Rightarrow> u32 \<Rightarrow> u32 \<Rightarrow> 'p \<Rightarrow> (int \<times> u32 \<times> 'p) option" where
  "param_client_read self service operation param_out p =
     out_word (param_client_read_gen self service operation READ_MODE (b32 param_out) None None (le_bytes 4 param_out) p)"

definition param_client_read_byte :: "'p halcs_client \<Rightarrow> string \<Rightarrow> u32 \<Rightarrow> u8 \<Rightarrow> 'p \<Rightarrow> (int \<times> u8 \<times> 'p) option" where
  "param_client_read_byte self service operation param_out p =
     out_word (param_client_read_gen self service operation READ_MODE (b8 param_out) None None [param_out] p)"

definition param_client_read_signed :: "'p halcs_client \<Rightarrow> string \<Rightarrow> u32 \<Rightarrow> u32 \<Rightarrow> 'p \<Rightarrow> (int \<times> u32 \<times> 'p) option" where
  "param_client_read_signed self service operation param_out p =
     out_word (param_client_read_gen self service operation READ_MODE (b32 param_out) None None (le_bytes 4 param_out) p)"

definition param_client_read_double :: "'p halcs_client \<Rightarrow> string \<Rightarrow> u32 \<Rightarrow> u64 \<Rightarrow> 'p \<Rightarrow> (int \<times> u64 \<times> 'p) option" where
  "param_client_read_double self service operation param_out p =
     out_word (param_client_read_gen self service operation READ_MODE (b64 param_out) None None (le_bytes 8 param_out) p)"

definition param_client_write_read :: "'p halcs_client \<Rightarrow> string \<Rightarrow> u32 \<Rightarrow> u32 \<Rightarrow> u32 \<Rightarrow> 'p \<Rightarrow> (int \<times> u32 \<times> 'p) option" where
  "param_client_write_read self service operation param1 param_out p =
     out_word (param_client_read_gen self service operation READ_MODE (b32 param1) (b32 param1) None (le_bytes 4 param_out) p)"

definition param_client_write2_read ::
  "'p halcs_client \<Rightarrow> string \<Rightarrow> u32 \<Rightarrow> u32 \<Rightarrow> u32 \<Rightarrow> u32 \<Rightarrow> 'p \<Rightarrow> (int \<times> u32 \<times> 'p) option" where
  "param_client_write2_read self service operation param1 param2 param_out p =
     out_word (param_client_read_gen self service operation READ_MODE (b32 param1) (b32 param2) (b32 param2) (le_bytes 4 param_out) p)"

definition param_client_write_read_double :: "'p halcs_client \<Rightarrow> string \<Rightarrow> u32 \<Rightarrow> u64 \<Rightarrow> u64 \<Rightarrow> 'p \<Rightarrow> (int \<times> u64 \<times> 'p) option" where
  "param_client_write_read_double self service operation param1 param_out p =
     out_word (param_client_read_gen self service operation READ_MODE (b64 param1) (b64 param1) None (le_bytes 8 param_out) p)"

lemmas client_calls = param_client_write_raw_def param_client_write_def param_client_write_byte_def
  param_client_write_signed_def param_client_write_double_def param_client_write2_def param_client_write3_def
  param_client_write_double2_def param_client_read_def param_client_read_byte_def param_client_read_signed_def
  param_client_read_double_def param_client_write_read_def param_client_write2_read_def
  param_client_write_read_double_def

section \<open>Calls by descriptor\<close>

text \<open>The input is one block of memory that the arguments are taken from one after the other.\<close>

fun split_input :: "u32 list \<Rightarrow> u8 list \<Rightarrow> frame list option" where
  "split_input [] b = Some []"
| "split_input (a # as) b =
     (let n = unat (DISP_GET_ASIZE a)
      in if n \<le> length b then map_option ((#) (take n b)) (split_input as (drop n b)) else None)"

text \<open>A reply that does not come, and one of a wrong form, leaves the status at \<open>HALCS_CLIENT_SUCCESS\<close>.\<close>

definition halcs_func_exec_size ::
  "'p halcs_client option \<Rightarrow> ('w, 'a) disp_op option \<Rightarrow> string \<Rightarrow> u8 list option \<Rightarrow> u8 list option \<Rightarrow> u32 \<Rightarrow> 'p \<Rightarrow>
     (int \<times> u8 list option \<times> 'p) option" where
  "halcs_func_exec_size self_p func_p service input out output_size p =
     (case self_p of None \<Rightarrow> Some (HALCS_CLIENT_ERR_INV_FUNCTION, out, p)
      | Some self \<Rightarrow>
     (case func_p of None \<Rightarrow> Some (HALCS_CLIENT_ERR_INV_FUNCTION, out, p)
      | Some func \<Rightarrow>
        if args func \<noteq> [] \<and> input = None then Some (HALCS_CLIENT_ERR_INV_PARAM, out, p)
        else if retval func \<noteq> DISP_ARG_END \<and> out = None then Some (HALCS_CLIENT_ERR_INV_PARAM, out, p)
        else do {
          client \<leftarrow> hc_mlm self;
          let (ok, p1) = mc_new_msg client p;
          if \<not> ok then Some (HALCS_CLIENT_ERR_ALLOC, out, p1)
          else do {
            fs \<leftarrow> split_input (args func) (case input of None \<Rightarrow> [] | Some b \<Rightarrow> b);
            (_, p2) \<leftarrow> mc_sendto client service 0 (le_bytes 4 (opcode func) # fs) p1;
            (report, p3) \<leftarrow> param_client_recv_timeout self service p2;
            case report of
              None \<Rightarrow> Some (HALCS_CLIENT_SUCCESS, out, p3)
            | Some msg \<Rightarrow>
                if length msg \<noteq> MSG_ERR_CODE_SIZE \<and> length msg \<noteq> MSG_FULL_SIZE then Some (HALCS_CLIENT_SUCCESS, out, p3)
                else do {
                  module_err \<leftarrow> (rd_word 4 (hd msg) :: u32 option);
                  if \<not> uint module_err < HALCS_CLIENT_ERR_END - HALCS_CLIENT_ERR_MODULE - 1
                  then Some (HALCS_CLIENT_ERR_INV_RETCODE, out, p3)
                  else
                    let err = (if 0 < module_err then HALCS_CLIENT_ERR_MODULE + uint module_err else HALCS_CLIENT_SUCCESS)
                    in if length msg \<noteq> MSG_FULL_SIZE then Some (err, out, p3)
                       else if length (msg ! 1) \<noteq> RW_REPLY_SIZE then Some (err, out, p3)
                       else if unat (le_word (msg ! 1) :: u32) \<noteq> length (msg ! 2) then Some (err, out, p3)
                       else
                         let n = min (unat output_size) (length (msg ! 2))
                         in (case out of
                               None \<Rightarrow> if n = 0 then Some (err, out, p3) else None
                             | Some b \<Rightarrow> if n \<le> length b then Some (err, Some (take n (msg ! 2) @ drop n b), p3) else None) } } }))"

text \<open>The descriptor is read before it is tested, so none has no result.\<close>

definition halcs_func_exec ::
  "'p halcs_client option \<Rightarrow> ('w, 'a) disp_op option \<Rightarrow> string \<Rightarrow> u8 list option \<Rightarrow> u8 list option \<Rightarrow> 'p \<Rightarrow>
     (int \<times> u8 list option \<times> 'p) option" where
  "halcs_func_exec self func service input out p = do {
     f \<leftarrow> func;
     halcs_func_exec_size self func service input out (DISP_GET_ASIZE (retval f)) p }"

text \<open>The first operation of that name in the tables of all modules, \<open>smio_exp_ops\<close>.\<close>

definition halcs_func_translate :: "('w, 'a) disp_op list list \<Rightarrow> string \<Rightarrow> ('w, 'a) disp_op option" where
  "halcs_func_translate smio_ops name = find (\<lambda>op. dop_name op = name) (concat smio_ops)"

definition halcs_func_trans_exec ::
  "('w, 'a) disp_op list list \<Rightarrow> 'p halcs_client option \<Rightarrow> string \<Rightarrow> string \<Rightarrow> u8 list option \<Rightarrow> u8 list option \<Rightarrow> 'p \<Rightarrow>
     (int \<times> u8 list option \<times> 'p) option" where
  "halcs_func_trans_exec smio_ops self name = halcs_func_exec self (halcs_func_translate smio_ops name)"

text \<open>Polling until a call succeeds; \<open>now\<close> is the clock in seconds and \<open>intr\<close> the interrupt flag.\<close>

partial_function (option) poll_loop ::
  "('p \<Rightarrow> int \<times> 'p) \<Rightarrow> ('p \<Rightarrow> bool \<times> 'p) \<Rightarrow> (u8 list option \<Rightarrow> 'p \<Rightarrow> (int \<times> u8 list option \<times> 'p) option) \<Rightarrow>
     int \<Rightarrow> int \<Rightarrow> u8 list option \<Rightarrow> 'p \<Rightarrow> (int \<times> u8 list option \<times> 'p) option" where
  "poll_loop now intr call start timeout out p =
     (let (t, p1) = now p
      in if \<not> (t - start) * 1000 < timeout then Some (HALCS_CLIENT_ERR_TIMEOUT, out, p1)
         else let (i, p2) = intr p1
              in if i then Some (HALCS_CLIENT_INT, out, p2)
                 else do {
                   (err, out', p3) \<leftarrow> call out p2;
                   if err = HALCS_CLIENT_SUCCESS then Some (err, out', p3)
                   else poll_loop now intr call start timeout out' p3 })"

definition s_func_polling ::
  "('p \<Rightarrow> int \<times> 'p) \<Rightarrow> ('p \<Rightarrow> bool \<times> 'p) \<Rightarrow> ('w, 'a) disp_op list list \<Rightarrow> 'p halcs_client option \<Rightarrow> string \<Rightarrow> string \<Rightarrow>
     u8 list option \<Rightarrow> u8 list option \<Rightarrow> int \<Rightarrow> 'p \<Rightarrow> (int \<times> u8 list option \<times> 'p) option" where
  "s_func_polling now intr smio_ops self name service input out timeout p =
     (let timeout' = (if timeout < 0 then 2 ^ 31 - 1 else timeout); (start, p1) = now p
      in poll_loop now intr
           (\<lambda>out p. halcs_func_exec self (halcs_func_translate smio_ops name) service input out p) start timeout' out p1)"

definition func_polling ::
  "('p \<Rightarrow> int \<times> 'p) \<Rightarrow> ('p \<Rightarrow> bool \<times> 'p) \<Rightarrow> ('w, 'a) disp_op list list \<Rightarrow> 'p halcs_client option \<Rightarrow> string \<Rightarrow> string \<Rightarrow>
     u8 list option \<Rightarrow> u8 list option \<Rightarrow> int \<Rightarrow> 'p \<Rightarrow> (int \<times> u8 list option \<times> 'p) option" where
  "func_polling = s_func_polling"

section \<open>Streams\<close>

definition halcs_set_monit_subscription :: "'p halcs_client \<Rightarrow> string \<Rightarrow> string \<Rightarrow> 'p \<Rightarrow> (int \<times> 'p) option" where
  "halcs_set_monit_subscription self stream pattern p = do {
     client \<leftarrow> hc_mlm self;
     let (rc, p1) = mc_set_consumer client stream pattern p;
     Some (if rc \<noteq> 0 then HALCS_CLIENT_ERR_TIMEOUT else HALCS_CLIENT_SUCCESS, p1) }"

definition halcs_remove_monit_subscription :: "'p halcs_client \<Rightarrow> string \<Rightarrow> 'p \<Rightarrow> (int \<times> 'p) option" where
  "halcs_remove_monit_subscription self stream p = do {
     client \<leftarrow> hc_mlm self;
     let (rc, p1) = mc_remove_consumer client stream p;
     Some (if rc \<noteq> 0 then HALCS_CLIENT_ERR_TIMEOUT else HALCS_CLIENT_SUCCESS, p1) }"

text \<open>\<open>monit\<close> is the caller's structure.\<close>

definition halcs_get_monit_stream :: "'p halcs_client \<Rightarrow> string \<Rightarrow> u8 list \<Rightarrow> 'p \<Rightarrow> (int \<times> u8 list \<times> 'p) option" where
  "halcs_get_monit_stream self subject monit p = do {
     client \<leftarrow> hc_mlm self;
     let (_, msg, p1) = mc_recv client p;
     case msg of
       None \<Rightarrow> Some (HALCS_CLIENT_ERR_MSG, monit, p1)
     | Some fs \<Rightarrow>
         if mc_subject client p1 \<noteq> subject then Some (HALCS_CLIENT_ERR_MSG, monit, p1)
         else (case fs of
             [] \<Rightarrow> Some (HALCS_CLIENT_ERR_ALLOC, monit, p1)
           | f # _ \<Rightarrow> Some (HALCS_CLIENT_SUCCESS, if length f = length monit then f else monit, p1)) }"

end
