(* ===== verification/Client_Table.thy ===== *)
theory Client_Table
  imports Client Param_Store
begin

text \<open>
  The functions of the client library as data: one constructor for each general function they call.
  \<open>fn_run\<close> calls one with a first argument, a value of 64 bits of which it takes what it needs, and a
  last argument, and gives the value of the caller's variable after the call.
\<close>

datatype 'p client_fn =
    Set_Fn "'p client_set" | Get_Fn "'p client_get" | Set_Chan "'p client_set2" | Get_Chan "'p client_get1"
  | Set_Double "'p client_set_double" | Get_Double "'p client_get_double" | Set_Byte "'p client_set_byte"
  | Get_Byte "'p client_get_byte" | Set_Raw "'p client_set2" | Set_Three "'p client_set3" | Get_Two "'p client_get2"

definition no_value :: "u64 \<Rightarrow> (int \<times> 'p) option \<Rightarrow> (int \<times> u64 \<times> 'p) option" where
  "no_value v = map_option (\<lambda>(err, p). (err, v, p))"

definition wide :: "(int \<times> 'v::len word \<times> 'p) option \<Rightarrow> (int \<times> u64 \<times> 'p) option" where
  "wide = map_option (\<lambda>(err, v, p). (err, ucast v, p))"

fun fn_run :: "'p client_fn \<Rightarrow> 'p halcs_client \<Rightarrow> string \<Rightarrow> u32 \<Rightarrow> u64 \<Rightarrow> u32 \<Rightarrow> 'p \<Rightarrow> (int \<times> u64 \<times> 'p) option" where
  "fn_run (Set_Fn f) self service c v w p = no_value v (f self service (ucast v) p)"
| "fn_run (Get_Fn f) self service c v w p = wide (f self service (ucast v) p)"
| "fn_run (Set_Chan f) self service c v w p = no_value v (f self service c (ucast v) p)"
| "fn_run (Get_Chan f) self service c v w p = wide (f self service c (ucast v) p)"
| "fn_run (Set_Double f) self service c v w p = no_value v (f self service v p)"
| "fn_run (Get_Double f) self service c v w p = wide (f self service v p)"
| "fn_run (Set_Byte f) self service c v w p = no_value v (f self service (ucast v) p)"
| "fn_run (Get_Byte f) self service c v w p = wide (f self service (ucast v) p)"
| "fn_run (Set_Raw f) self service c v w p = no_value v (f self service c (ucast v) p)"
| "fn_run (Set_Three f) self service c v w p = no_value v (f self service c (ucast v) w p)"
| "fn_run (Get_Two f) self service c v w p = wide (f self service c w (ucast v) p)"

text \<open>The general function behind one, with an operation code.\<close>

fun fn_calls :: "u32 \<Rightarrow> 'p client_fn \<Rightarrow> bool" where
  "fn_calls opc (Set_Fn f) \<longleftrightarrow> f = (\<lambda>self service. param_client_write self service opc)"
| "fn_calls opc (Get_Fn f) \<longleftrightarrow> f = (\<lambda>self service. param_client_read self service opc)"
| "fn_calls opc (Set_Chan f) \<longleftrightarrow> f = (\<lambda>self service. param_client_write2 self service opc)"
| "fn_calls opc (Get_Chan f) \<longleftrightarrow> f = (\<lambda>self service. param_client_write_read self service opc)"
| "fn_calls opc (Set_Double f) \<longleftrightarrow> f = (\<lambda>self service. param_client_write_double self service opc)"
| "fn_calls opc (Get_Double f) \<longleftrightarrow> f = (\<lambda>self service. param_client_read_double self service opc)"
| "fn_calls opc (Set_Byte f) \<longleftrightarrow> f = (\<lambda>self service. param_client_write_byte self service opc)"
| "fn_calls opc (Get_Byte f) \<longleftrightarrow> f = (\<lambda>self service. param_client_read_byte self service opc)"
| "fn_calls opc (Set_Raw f) \<longleftrightarrow> f = (\<lambda>self service. param_client_write_raw self service opc)"
| "fn_calls opc (Set_Three f) \<longleftrightarrow> f = (\<lambda>self service. param_client_write3 self service opc)"
| "fn_calls opc (Get_Two f) \<longleftrightarrow> f = (\<lambda>self service. param_client_write2_read self service opc)"

text \<open>The frames it sends after the operation code.\<close>

fun fn_frames :: "'p client_fn \<Rightarrow> u32 \<Rightarrow> u64 \<Rightarrow> u32 \<Rightarrow> frame list" where
  "fn_frames (Set_Fn f) c v w = [le_bytes 4 WRITE_MODE, le_bytes 4 (ucast v :: u32)]"
| "fn_frames (Get_Fn f) c v w = [le_bytes 4 READ_MODE, le_bytes 4 (ucast v :: u32)]"
| "fn_frames (Set_Chan f) c v w = [le_bytes 4 WRITE_MODE, le_bytes 4 c, le_bytes 4 (ucast v :: u32)]"
| "fn_frames (Get_Chan f) c v w = [le_bytes 4 READ_MODE, le_bytes 4 c, le_bytes 4 c]"
| "fn_frames (Set_Double f) c v w = [le_bytes 4 WRITE_MODE, le_bytes 8 v]"
| "fn_frames (Get_Double f) c v w = [le_bytes 4 READ_MODE, le_bytes 8 v]"
| "fn_frames (Set_Byte f) c v w = [le_bytes 4 WRITE_MODE, [ucast v]]"
| "fn_frames (Get_Byte f) c v w = [le_bytes 4 READ_MODE, [ucast v]]"
| "fn_frames (Set_Raw f) c v w = [le_bytes 4 c, le_bytes 4 (ucast v :: u32)]"
| "fn_frames (Set_Three f) c v w = [le_bytes 4 WRITE_MODE, le_bytes 4 c, le_bytes 4 (ucast v :: u32), le_bytes 4 w]"
| "fn_frames (Get_Two f) c v w = [le_bytes 4 READ_MODE, le_bytes 4 c, le_bytes 4 w, le_bytes 4 w]"

text \<open>Their sizes, to compare with the arguments of a descriptor.\<close>

fun fn_sizes :: "'p client_fn \<Rightarrow> nat list" where
  "fn_sizes (Set_Fn f) = [4, 4]"
| "fn_sizes (Get_Fn f) = [4, 4]"
| "fn_sizes (Set_Chan f) = [4, 4, 4]"
| "fn_sizes (Get_Chan f) = [4, 4, 4]"
| "fn_sizes (Set_Double f) = [4, 8]"
| "fn_sizes (Get_Double f) = [4, 8]"
| "fn_sizes (Set_Byte f) = [4, 1]"
| "fn_sizes (Get_Byte f) = [4, 1]"
| "fn_sizes (Set_Raw f) = [4, 4]"
| "fn_sizes (Set_Three f) = [4, 4, 4, 4]"
| "fn_sizes (Get_Two f) = [4, 4, 4, 4]"

lemma fn_frames_sizes: "map length (fn_frames f c v w) = fn_sizes f"
  by (cases f) simp_all

definition op_fits :: "('w, msg_args) disp_op \<Rightarrow> 'p client_fn list \<Rightarrow> bool" where
  "op_fits op fs \<longleftrightarrow> list_all (\<lambda>a. DISP_GET_ATYPE a \<noteq> DISP_ATYPE_VAR) (args op) \<and>
     list_all (\<lambda>f. fn_calls (opcode op) f \<and> fn_sizes f = map (\<lambda>a. unat (DISP_GET_ASIZE a)) (args op)) fs"

text \<open>The functions of parameters: those that set and get a plain one, and those of a channel.\<close>

fun fn_shape :: "param_spec \<Rightarrow> 'p client_fn \<Rightarrow> bool" where
  "fn_shape d (Set_Fn f) \<longleftrightarrow> ps_chan d = None"
| "fn_shape d (Get_Fn f) \<longleftrightarrow> ps_chan d = None"
| "fn_shape d (Set_Chan f) \<longleftrightarrow> ps_chan d \<noteq> None"
| "fn_shape d (Get_Chan f) \<longleftrightarrow> ps_chan d \<noteq> None"
| "fn_shape d _ \<longleftrightarrow> False"

text \<open>Signed values are sent as their bits.\<close>

lemma fn_calls_signed:
  "param_client_write_signed = param_client_write" "param_client_read_signed = param_client_read"
  by (simp_all add: fun_eq_iff client_calls)

end
