(* ===== verification/Client_Link.thy ===== *)
theory Client_Link
  imports Sensor_Modules Client_Table
begin

text \<open>
  The client library against a service: what its calls give when the messages get through, stated once
  for every link that delivers a request to the service and the service's reply back; and the link to a
  module of the server, the broker being a queue.
\<close>

section \<open>A link that delivers\<close>

text \<open>\<open>serve fs p r p'\<close>: the request \<open>fs\<close> in the state \<open>p\<close> has the reply \<open>r\<close> and leads to \<open>p'\<close>.\<close>

locale service_link =
  fixes M :: "'p mlm_client" and svc :: string
    and serve :: "frame list \<Rightarrow> 'p \<Rightarrow> frame list \<Rightarrow> 'p \<Rightarrow> bool"
  assumes pipe: "mc_pipe M"
    and delivers: "serve fs p r p' \<Longrightarrow> \<exists>p1 p2 p3 p4. mc_new_msg M p = (True, p1) \<and>
      mc_sendto M svc t' fs p1 = Some (0, p2) \<and> mc_wait M t p2 = (Some True, False, False, p3) \<and>
      mc_pending M p3 = (True, p4) \<and> mc_recv M p4 = (svc, Some r, p')"
begin

lemma exchange:
  assumes "hc_mlm self = Some M" and "serve ([le_bytes 4 opc, le_bytes 4 rw, f1] @
      (case f2 of None \<Rightarrow> [] | Some x \<Rightarrow> [x]) @ (case f3 of None \<Rightarrow> [] | Some x \<Rightarrow> [x])) p r p'"
  shows "\<exists>p1. param_client_send_gen_rw self svc opc rw (Some f1) f2 f3 p = Some (HALCS_CLIENT_SUCCESS, p1) \<and>
    param_client_recv_rw self svc p1 = Some (HALCS_CLIENT_SUCCESS, Some r, p')"
proof -
  obtain p1 p2 p3 p4 where d: "mc_new_msg M p = (True, p1)"
    "mc_sendto M svc (halcs_client_get_timeout self) ([le_bytes 4 opc, le_bytes 4 rw, f1] @
      (case f2 of None \<Rightarrow> [] | Some x \<Rightarrow> [x]) @ (case f3 of None \<Rightarrow> [] | Some x \<Rightarrow> [x])) p1 = Some (0, p2)"
    "mc_wait M (halcs_client_get_timeout self) p2 = (Some True, False, False, p3)"
    "mc_pending M p3 = (True, p4)" "mc_recv M p4 = (svc, Some r, p')" using delivers [OF assms(2)] by metis
  have "recv_of_service M svc None p3 = Some (Some r, p')"
    by (subst recv_of_service.simps) (simp add: d)
  with d assms(1) pipe show ?thesis
    by (simp add: param_client_send_gen_rw_def param_client_recv_rw_def param_client_recv_timeout_def
        halcs_get_mlm_client_def Let_def)
qed

text \<open>Writing: the reply code decides.\<close>

lemma write_code:
  assumes "hc_mlm self = Some M" and "serve ([le_bytes 4 opc, le_bytes 4 rw, f1] @
      (case f2 of None \<Rightarrow> [] | Some x \<Rightarrow> [x]) @ (case f3 of None \<Rightarrow> [] | Some x \<Rightarrow> [x])) p [le_bytes 4 (code :: u32)] p'"
  shows "param_client_write_gen self svc opc rw (Some f1) f2 f3 p =
    Some (if code = 0 then HALCS_CLIENT_SUCCESS else HALCS_CLIENT_ERR_AGAIN, p')"
proof -
  obtain p1 where "param_client_send_gen_rw self svc opc rw (Some f1) f2 f3 p = Some (HALCS_CLIENT_SUCCESS, p1)"
    "param_client_recv_rw self svc p1 = Some (HALCS_CLIENT_SUCCESS, Some [le_bytes 4 code], p')"
    using exchange [OF assms] by blast
  then show ?thesis by (simp add: param_client_write_gen_def MSG_ERR_CODE_SIZE_def RW_OK_def)
qed

text \<open>Reading: a code alone, or a value of the size asked for.\<close>

lemma read_code:
  assumes "hc_mlm self = Some M" and "serve ([le_bytes 4 opc, le_bytes 4 rw, f1] @
      (case f2 of None \<Rightarrow> [] | Some x \<Rightarrow> [x]) @ (case f3 of None \<Rightarrow> [] | Some x \<Rightarrow> [x])) p [le_bytes 4 (code :: u32)] p'"
  shows "param_client_read_gen self svc opc rw (Some f1) f2 f3 out p =
    Some (if code = 0 then HALCS_CLIENT_SUCCESS else HALCS_CLIENT_ERR_AGAIN, out, p')"
proof -
  obtain p1 where "param_client_send_gen_rw self svc opc rw (Some f1) f2 f3 p = Some (HALCS_CLIENT_SUCCESS, p1)"
    "param_client_recv_rw self svc p1 = Some (HALCS_CLIENT_SUCCESS, Some [le_bytes 4 code], p')"
    using exchange [OF assms] by blast
  then show ?thesis by (simp add: param_client_read_gen_def MSG_ERR_CODE_SIZE_def MSG_FULL_SIZE_def RW_OK_def)
qed

lemma read_value:
  assumes "hc_mlm self = Some M" and "serve ([le_bytes 4 opc, le_bytes 4 rw, f1] @
      (case f2 of None \<Rightarrow> [] | Some x \<Rightarrow> [x]) @ (case f3 of None \<Rightarrow> [] | Some x \<Rightarrow> [x])) p (ok_reply v) p'"
    and "length out = 4"
  shows "param_client_read_gen self svc opc rw (Some f1) f2 f3 out p = Some (HALCS_CLIENT_SUCCESS, le_bytes 4 v, p')"
proof -
  obtain p1 where "param_client_send_gen_rw self svc opc rw (Some f1) f2 f3 p = Some (HALCS_CLIENT_SUCCESS, p1)"
    "param_client_recv_rw self svc p1 = Some (HALCS_CLIENT_SUCCESS, Some (ok_reply v), p')"
    using exchange [OF assms(1,2)] by blast
  then show ?thesis using assms(3)
    by (simp add: param_client_read_gen_def ok_reply_def client_consts RW_OK_def)
qed

text \<open>The functions of parameters, on a reply code and on a value.\<close>

lemma fn_code:
  fixes code :: u32
  assumes "hc_mlm self = Some M" and "fn_calls opc f" and "fn_shape d f"
    and "serve (request opc (fn_frames f c (ucast v) w)) p [le_bytes 4 code] p'"
  shows "fn_run f self svc c (ucast (v :: u32)) w p =
    Some (if code = 0 then HALCS_CLIENT_SUCCESS else HALCS_CLIENT_ERR_AGAIN, ucast v, p')"
proof -
  note s = assms(2-4) and d = client_calls b32_def no_value_def wide_def out_word_def request_def
  show ?thesis
  proof (cases f)
    case (Set_Fn g)
    with s write_code [OF assms(1), of opc WRITE_MODE "le_bytes 4 v" None None p code p'] show ?thesis by (simp add: d)
  next
    case (Get_Fn g)
    with s read_code [OF assms(1), of opc READ_MODE "le_bytes 4 v" None None p code p'] show ?thesis by (simp add: d)
  next
    case (Set_Chan g)
    with s write_code [OF assms(1), of opc WRITE_MODE "le_bytes 4 c" "b32 v" None p code p'] show ?thesis by (simp add: d)
  next
    case (Get_Chan g)
    with s read_code [OF assms(1), of opc READ_MODE "le_bytes 4 c" "b32 c" None p code p'] show ?thesis by (simp add: d)
  qed (use s(2) in simp_all)
qed

lemma fn_value:
  assumes "hc_mlm self = Some M" and "fn_calls opc f" and "fn_shape d f" and "f = Get_Fn g \<or> f = Get_Chan h"
    and "serve (request opc (fn_frames f c (ucast v) w)) p (ok_reply x) p'"
  shows "fn_run f self svc c (ucast (v :: u32)) w p = Some (HALCS_CLIENT_SUCCESS, ucast x, p')"
proof -
  note s = assms(2-5) and d = client_calls b32_def no_value_def wide_def out_word_def request_def
  show ?thesis
  proof (cases f)
    case (Get_Fn g)
    with s read_value [OF assms(1), of opc READ_MODE "le_bytes 4 v" None None p x p'] show ?thesis by (auto simp: d)
  next
    case (Get_Chan g)
    with s read_value [OF assms(1), of opc READ_MODE "le_bytes 4 c" "b32 c" None p x p'] show ?thesis by (auto simp: d)
  qed (use s(3) in simp_all)
qed

text \<open>A reply of another form is dropped, and the call reports success.\<close>

lemma write_dropped:
  assumes "hc_mlm self = Some M" and "serve ([le_bytes 4 opc, le_bytes 4 rw, f1] @
      (case f2 of None \<Rightarrow> [] | Some x \<Rightarrow> [x]) @ (case f3 of None \<Rightarrow> [] | Some x \<Rightarrow> [x])) p r p'"
    and "length r \<noteq> MSG_ERR_CODE_SIZE"
  shows "param_client_write_gen self svc opc rw (Some f1) f2 f3 p = Some (HALCS_CLIENT_SUCCESS, p')"
proof -
  obtain p1 where "param_client_send_gen_rw self svc opc rw (Some f1) f2 f3 p = Some (HALCS_CLIENT_SUCCESS, p1)"
    "param_client_recv_rw self svc p1 = Some (HALCS_CLIENT_SUCCESS, Some r, p')"
    using exchange [OF assms(1,2)] by blast
  with assms(3) show ?thesis by (simp add: param_client_write_gen_def)
qed

text \<open>Calls by descriptor: a reply code alone, and a value.\<close>

lemma received:
  assumes "hc_mlm self = Some M" and "serve fs p r p'"
  shows "\<exists>p1 p2. mc_new_msg M p = (True, p1) \<and> mc_sendto M svc 0 fs p1 = Some (0, p2) \<and>
    param_client_recv_timeout self svc p2 = Some (Some r, p')"
proof -
  obtain p1 p2 p3 p4 where d: "mc_new_msg M p = (True, p1)" "mc_sendto M svc 0 fs p1 = Some (0, p2)"
    "mc_wait M (halcs_client_get_timeout self) p2 = (Some True, False, False, p3)"
    "mc_pending M p3 = (True, p4)" "mc_recv M p4 = (svc, Some r, p')" using delivers [OF assms(2)] by metis
  have "recv_of_service M svc None p3 = Some (Some r, p')"
    by (subst recv_of_service.simps) (simp add: d)
  with d assms(1) pipe show ?thesis by (auto simp: param_client_recv_timeout_def halcs_get_mlm_client_def)
qed

lemma exec_code:
  fixes code :: u32
  assumes "hc_mlm self = Some M" and "split_input (args op) (case input of None \<Rightarrow> [] | Some b \<Rightarrow> b) = Some fs"
    and "args op \<noteq> [] \<longrightarrow> input \<noteq> None" and "retval op \<noteq> DISP_ARG_END \<longrightarrow> out \<noteq> None"
    and "serve (request (opcode op) fs) p [le_bytes 4 code] p'" and "code < 20"
  shows "halcs_func_exec (Some self) (Some op) svc input out p =
    Some (if 0 < code then HALCS_CLIENT_ERR_MODULE + uint code else HALCS_CLIENT_SUCCESS, out, p')"
proof -
  obtain p1 p2 where "mc_new_msg M p = (True, p1)" "mc_sendto M svc 0 (request (opcode op) fs) p1 = Some (0, p2)"
    "param_client_recv_timeout self svc p2 = Some (Some [le_bytes 4 code], p')" using received [OF assms(1,5)] by blast
  moreover have "uint code < 20" using assms(6) by (simp add: word_less_def)
  ultimately show ?thesis using assms(1-4)
    by (auto simp: halcs_func_exec_def halcs_func_exec_size_def request_def client_consts HALCS_CLIENT_ERR_END_def)
qed

lemma exec_value:
  assumes "hc_mlm self = Some M" and "split_input (args op) input = Some fs"
    and "serve (request (opcode op) fs) p [le_bytes 4 (0 :: u32), le_bytes 4 (word_of_int (int (length d)) :: u32), d] p'"
    and "length d < 2 ^ 32" and "n = min (unat (DISP_GET_ASIZE (retval op))) (length d)" and "n \<le> length out"
  shows "halcs_func_exec (Some self) (Some op) svc (Some input) (Some out) p =
    Some (HALCS_CLIENT_SUCCESS, Some (take n d @ drop n out), p')"
proof -
  obtain p1 p2 where "mc_new_msg M p = (True, p1)" "mc_sendto M svc 0 (request (opcode op) fs) p1 = Some (0, p2)"
    "param_client_recv_timeout self svc p2 = Some (Some [le_bytes 4 (0 :: u32), le_bytes 4 (word_of_int (int (length d)) :: u32), d], p')"
    using received [OF assms(1,3)] by blast
  moreover have "unat (word_of_int (int (length d)) :: u32) = length d"
    using assms(4) by (simp add: unat_of_nat take_bit_nat_eq_self of_nat_inverse)
  ultimately show ?thesis using assms(1,2,5,6)
    by (auto simp: halcs_func_exec_def halcs_func_exec_size_def request_def client_consts client_errs Let_def)
qed

end

section \<open>The link to a module\<close>

text \<open>The state: the module's world, its dispatch table, and the replies on their way to the client.\<close>

type_synonym ('h, 'w) link = "'w \<times> ('h, 'w, msg_args) dstate \<times> frame list list"

definition module_broker :: "string \<Rightarrow> ('h, 'w) link mlm_client" where
  "module_broker svc = \<lparr>
     mc_new_msg = \<lambda>b. (True, b),
     mc_sendto = \<lambda>to t fs (w, s, q).
       if to \<noteq> svc then Some (0, (w, s, q))
       else do {
         (_, r, w', s') \<leftarrow> smio_do_op (Some not_impl_ops) dt_call (\<lambda>_. True) True
           \<lparr>tag = EXP_MSG_ZMQ_TAG, content = fs\<rparr> w s;
         Some (0, (w', s', q @ (case r of None \<Rightarrow> [] | Some m \<Rightarrow> [m]))) },
     mc_pipe = True,
     mc_wait = \<lambda>t (w, s, q). (if q = [] then None else Some True, q = [], False, (w, s, q)),
     mc_pending = \<lambda>(w, s, q). (q \<noteq> [], (w, s, q)),
     mc_recv = \<lambda>(w, s, q). (case q of [] \<Rightarrow> ([], None, (w, s, q)) | m # q' \<Rightarrow> (svc, Some m, (w, s, q'))),
     mc_subject = \<lambda>_. [],
     mc_set_consumer = \<lambda>_ _ b. (0, b),
     mc_remove_consumer = \<lambda>_ b. (0, b)\<rparr>"

definition module_serves :: "frame list \<Rightarrow> ('h, 'w) link \<Rightarrow> frame list \<Rightarrow> ('h, 'w) link \<Rightarrow> bool" where
  "module_serves fs b r b' \<longleftrightarrow> (\<exists>e w s w' s'. b = (w, s, []) \<and> b' = (w', s', []) \<and>
     smio_do_op (Some not_impl_ops) dt_call (\<lambda>_. True) True \<lparr>tag = EXP_MSG_ZMQ_TAG, content = fs\<rparr> w s =
       Some (e, Some r, w', s'))"

lemma module_delivers:
  assumes "module_serves fs b r b'"
  shows "\<exists>p1 p2 p3 p4. mc_new_msg (module_broker svc) b = (True, p1) \<and>
    mc_sendto (module_broker svc) svc t' fs p1 = Some (0, p2) \<and>
    mc_wait (module_broker svc) t p2 = (Some True, False, False, p3) \<and>
    mc_pending (module_broker svc) p3 = (True, p4) \<and> mc_recv (module_broker svc) p4 = (svc, Some r, b')"
proof -
  obtain e w s w' s' where b: "b = (w, s, [])" "b' = (w', s', [])" and d: "smio_do_op (Some not_impl_ops) dt_call (\<lambda>_. True) True
      \<lparr>tag = EXP_MSG_ZMQ_TAG, content = fs\<rparr> w s = Some (e, Some r, w', s')" using assms unfolding module_serves_def by blast
  show ?thesis
    by (rule exI [of _ "(w, s, [])"], (rule exI [of _ "(w', s', [r])"])+) (simp add: b d module_broker_def)
qed

interpretation ml: service_link "module_broker svc" svc module_serves for svc
  by unfold_locales (simp add: module_broker_def, rule module_delivers)

section \<open>One call\<close>

fun fn_reads :: "'p client_fn \<Rightarrow> bool" where
  "fn_reads (Get_Fn f) \<longleftrightarrow> True"
| "fn_reads (Get_Chan f) \<longleftrightarrow> True"
| "fn_reads f \<longleftrightarrow> False"

text \<open>The request that a call is to the store of the module's parameters.\<close>

fun fn_req :: "nat \<Rightarrow> 'p client_fn \<Rightarrow> u32 \<Rightarrow> u32 \<Rightarrow> param_req" where
  "fn_req i (Set_Chan f) c v = \<lparr>rq_param = i, rq_read = False, rq_chan = c, rq_value = v\<rparr>"
| "fn_req i (Get_Chan f) c v = \<lparr>rq_param = i, rq_read = True, rq_chan = c, rq_value = c\<rparr>"
| "fn_req i f c v = \<lparr>rq_param = i, rq_read = fn_reads f, rq_chan = 0, rq_value = v\<rparr>"

definition fn_status :: "int \<Rightarrow> int" where
  "fn_status e = (if e < 0 then HALCS_CLIENT_ERR_AGAIN else HALCS_CLIENT_SUCCESS)"

lemma fn_req_wf: "i < length ds \<Longrightarrow> fn_shape (ds ! i) f \<Longrightarrow> req_wf ds (fn_req i f c v)"
  by (cases f) (auto simp: req_wf_def)

lemma fn_req_frames:
  assumes "fn_shape (ds ! i) f"
  shows "req_frames ds (fn_req i f c v) = fn_frames f c (ucast v) w"
  using assms by (cases f) (simp_all add: req_frames_def READ_MODE_def WRITE_MODE_def)

lemma fn_req_simps:
  assumes "fn_shape d f"
  shows "rq_param (fn_req i f c v) = i"
    and "rq_read (fn_req i f c v) \<Longrightarrow> (\<exists>g. f = Get_Fn g) \<or> (\<exists>g. f = Get_Chan g)"
  using assms by (cases f; simp)+

text \<open>What a call makes of the reply to a step of the store.\<close>

lemma fn_call:
  fixes c v :: u32 and m :: "nat \<times> nat \<Rightarrow> u32"
  assumes "hc_mlm cl = Some (module_broker svc)" and "fn_calls opc f" and "fn_shape (ds ! i) f"
  defines "st \<equiv> param_step ds (fn_req i f c v) m"
  assumes "module_serves (request opc (req_frames ds (fn_req i f c v))) b (param_reply (fst st) (fst (snd st))) b'"
  shows "fn_run f cl svc c (ucast v) w b =
    Some (fn_status (fst st), ucast (case fst (snd st) of None \<Rightarrow> v | Some x \<Rightarrow> x), b')"
proof -
  have sv: "module_serves (request opc (fn_frames f c (ucast v) w)) b (param_reply (fst st) (fst (snd st))) b'"
    using assms(5) fn_req_frames [OF assms(3), of c v w] by simp
  show ?thesis
  proof (cases "fst (snd st)")
    case None
    then have "fst st = 0 \<or> fst st = - int RW_INV \<or> fst st = - int RW_USR_ERR"
      by (auto simp: st_def param_step_def Let_def split: if_splits)
    then have "(word_of_int \<bar>fst st\<bar> = (0 :: u32)) \<longleftrightarrow> \<not> fst st < 0" by (auto simp: RW_INV_def RW_USR_ERR_def)
    with ml.fn_code [OF assms(1-3)] sv None show ?thesis by (simp add: param_reply_def fn_status_def)
  next
    case (Some x)
    then have "fst st = 4" and "rq_read (fn_req i f c v)"
      by (auto simp: st_def param_step_def Let_def split: if_splits)
    from fn_req_simps(2) [OF assms(3) this(2)] obtain g h where f: "f = Get_Fn g \<or> f = Get_Chan h" by blast
    have "module_serves (request opc (fn_frames f c (ucast v) w)) b (ok_reply x) b'" using sv Some by (simp add: param_reply_def)
    from ml.fn_value [OF assms(1-3) f this] \<open>fst st = 4\<close> Some show ?thesis by (simp add: fn_status_def)
  qed
qed

end
