(* ===== verification/Client_Timing.thy ===== *)
theory Client_Timing
  imports Client_Table Mod_Timing
begin

text \<open>
  The client functions of the timing receivers, halcs_client_core.c: each is a call of one of the general functions with
  the operation code of its parameter.
\<close>

section \<open>afc_timing\<close>

named_theorems afc_timing_client_defs

definition AFC_TIMING_OPCODE_SET_GET_LINK_STATUS :: u32 where [afc_timing_client_defs]: "AFC_TIMING_OPCODE_SET_GET_LINK_STATUS = 0"
definition AFC_TIMING_OPCODE_SET_GET_RXEN_STATUS :: u32 where [afc_timing_client_defs]: "AFC_TIMING_OPCODE_SET_GET_RXEN_STATUS = 1"
definition AFC_TIMING_OPCODE_SET_GET_REF_CLK_LOCKED :: u32 where [afc_timing_client_defs]: "AFC_TIMING_OPCODE_SET_GET_REF_CLK_LOCKED = 2"
definition AFC_TIMING_OPCODE_SET_GET_EVREN :: u32 where [afc_timing_client_defs]: "AFC_TIMING_OPCODE_SET_GET_EVREN = 3"
definition AFC_TIMING_OPCODE_SET_GET_ALIVE :: u32 where [afc_timing_client_defs]: "AFC_TIMING_OPCODE_SET_GET_ALIVE = 4"
definition AFC_TIMING_OPCODE_SET_GET_AMC_EN :: u32 where [afc_timing_client_defs]: "AFC_TIMING_OPCODE_SET_GET_AMC_EN = 5"
definition AFC_TIMING_OPCODE_SET_GET_AMC_POL :: u32 where [afc_timing_client_defs]: "AFC_TIMING_OPCODE_SET_GET_AMC_POL = 6"
definition AFC_TIMING_OPCODE_SET_GET_AMC_LOG :: u32 where [afc_timing_client_defs]: "AFC_TIMING_OPCODE_SET_GET_AMC_LOG = 7"
definition AFC_TIMING_OPCODE_SET_GET_AMC_ITL :: u32 where [afc_timing_client_defs]: "AFC_TIMING_OPCODE_SET_GET_AMC_ITL = 8"
definition AFC_TIMING_OPCODE_SET_GET_AMC_SRC :: u32 where [afc_timing_client_defs]: "AFC_TIMING_OPCODE_SET_GET_AMC_SRC = 9"
definition AFC_TIMING_OPCODE_SET_GET_AMC_DIR :: u32 where [afc_timing_client_defs]: "AFC_TIMING_OPCODE_SET_GET_AMC_DIR = 10"
definition AFC_TIMING_OPCODE_SET_GET_AMC_COUNT_RST :: u32 where [afc_timing_client_defs]: "AFC_TIMING_OPCODE_SET_GET_AMC_COUNT_RST = 58"
definition AFC_TIMING_OPCODE_SET_GET_AMC_PULSES :: u32 where [afc_timing_client_defs]: "AFC_TIMING_OPCODE_SET_GET_AMC_PULSES = 11"
definition AFC_TIMING_OPCODE_SET_GET_AMC_COUNT :: u32 where [afc_timing_client_defs]: "AFC_TIMING_OPCODE_SET_GET_AMC_COUNT = 59"
definition AFC_TIMING_OPCODE_SET_GET_AMC_EVT :: u32 where [afc_timing_client_defs]: "AFC_TIMING_OPCODE_SET_GET_AMC_EVT = 12"
definition AFC_TIMING_OPCODE_SET_GET_AMC_DLY :: u32 where [afc_timing_client_defs]: "AFC_TIMING_OPCODE_SET_GET_AMC_DLY = 13"
definition AFC_TIMING_OPCODE_SET_GET_AMC_WDT :: u32 where [afc_timing_client_defs]: "AFC_TIMING_OPCODE_SET_GET_AMC_WDT = 14"
definition AFC_TIMING_OPCODE_SET_GET_FMC1_EN :: u32 where [afc_timing_client_defs]: "AFC_TIMING_OPCODE_SET_GET_FMC1_EN = 15"
definition AFC_TIMING_OPCODE_SET_GET_FMC1_POL :: u32 where [afc_timing_client_defs]: "AFC_TIMING_OPCODE_SET_GET_FMC1_POL = 16"
definition AFC_TIMING_OPCODE_SET_GET_FMC1_LOG :: u32 where [afc_timing_client_defs]: "AFC_TIMING_OPCODE_SET_GET_FMC1_LOG = 17"
definition AFC_TIMING_OPCODE_SET_GET_FMC1_ITL :: u32 where [afc_timing_client_defs]: "AFC_TIMING_OPCODE_SET_GET_FMC1_ITL = 18"
definition AFC_TIMING_OPCODE_SET_GET_FMC1_SRC :: u32 where [afc_timing_client_defs]: "AFC_TIMING_OPCODE_SET_GET_FMC1_SRC = 19"
definition AFC_TIMING_OPCODE_SET_GET_FMC1_DIR :: u32 where [afc_timing_client_defs]: "AFC_TIMING_OPCODE_SET_GET_FMC1_DIR = 20"
definition AFC_TIMING_OPCODE_SET_GET_FMC1_COUNT_RST :: u32 where [afc_timing_client_defs]: "AFC_TIMING_OPCODE_SET_GET_FMC1_COUNT_RST = 60"
definition AFC_TIMING_OPCODE_SET_GET_FMC1_PULSES :: u32 where [afc_timing_client_defs]: "AFC_TIMING_OPCODE_SET_GET_FMC1_PULSES = 21"
definition AFC_TIMING_OPCODE_SET_GET_FMC1_COUNT :: u32 where [afc_timing_client_defs]: "AFC_TIMING_OPCODE_SET_GET_FMC1_COUNT = 61"
definition AFC_TIMING_OPCODE_SET_GET_FMC1_EVT :: u32 where [afc_timing_client_defs]: "AFC_TIMING_OPCODE_SET_GET_FMC1_EVT = 22"
definition AFC_TIMING_OPCODE_SET_GET_FMC1_DLY :: u32 where [afc_timing_client_defs]: "AFC_TIMING_OPCODE_SET_GET_FMC1_DLY = 23"
definition AFC_TIMING_OPCODE_SET_GET_FMC1_WDT :: u32 where [afc_timing_client_defs]: "AFC_TIMING_OPCODE_SET_GET_FMC1_WDT = 24"
definition AFC_TIMING_OPCODE_SET_GET_FMC2_EN :: u32 where [afc_timing_client_defs]: "AFC_TIMING_OPCODE_SET_GET_FMC2_EN = 25"
definition AFC_TIMING_OPCODE_SET_GET_FMC2_POL :: u32 where [afc_timing_client_defs]: "AFC_TIMING_OPCODE_SET_GET_FMC2_POL = 26"
definition AFC_TIMING_OPCODE_SET_GET_FMC2_LOG :: u32 where [afc_timing_client_defs]: "AFC_TIMING_OPCODE_SET_GET_FMC2_LOG = 27"
definition AFC_TIMING_OPCODE_SET_GET_FMC2_ITL :: u32 where [afc_timing_client_defs]: "AFC_TIMING_OPCODE_SET_GET_FMC2_ITL = 28"
definition AFC_TIMING_OPCODE_SET_GET_FMC2_SRC :: u32 where [afc_timing_client_defs]: "AFC_TIMING_OPCODE_SET_GET_FMC2_SRC = 29"
definition AFC_TIMING_OPCODE_SET_GET_FMC2_DIR :: u32 where [afc_timing_client_defs]: "AFC_TIMING_OPCODE_SET_GET_FMC2_DIR = 30"
definition AFC_TIMING_OPCODE_SET_GET_FMC2_COUNT_RST :: u32 where [afc_timing_client_defs]: "AFC_TIMING_OPCODE_SET_GET_FMC2_COUNT_RST = 62"
definition AFC_TIMING_OPCODE_SET_GET_FMC2_PULSES :: u32 where [afc_timing_client_defs]: "AFC_TIMING_OPCODE_SET_GET_FMC2_PULSES = 31"
definition AFC_TIMING_OPCODE_SET_GET_FMC2_COUNT :: u32 where [afc_timing_client_defs]: "AFC_TIMING_OPCODE_SET_GET_FMC2_COUNT = 63"
definition AFC_TIMING_OPCODE_SET_GET_FMC2_EVT :: u32 where [afc_timing_client_defs]: "AFC_TIMING_OPCODE_SET_GET_FMC2_EVT = 32"
definition AFC_TIMING_OPCODE_SET_GET_FMC2_DLY :: u32 where [afc_timing_client_defs]: "AFC_TIMING_OPCODE_SET_GET_FMC2_DLY = 33"
definition AFC_TIMING_OPCODE_SET_GET_FMC2_WDT :: u32 where [afc_timing_client_defs]: "AFC_TIMING_OPCODE_SET_GET_FMC2_WDT = 34"
definition AFC_TIMING_OPCODE_SET_GET_RTM_FREQ_KP :: u32 where [afc_timing_client_defs]: "AFC_TIMING_OPCODE_SET_GET_RTM_FREQ_KP = 35"
definition AFC_TIMING_OPCODE_SET_GET_RTM_FREQ_KI :: u32 where [afc_timing_client_defs]: "AFC_TIMING_OPCODE_SET_GET_RTM_FREQ_KI = 36"
definition AFC_TIMING_OPCODE_SET_GET_RTM_PHASE_KP :: u32 where [afc_timing_client_defs]: "AFC_TIMING_OPCODE_SET_GET_RTM_PHASE_KP = 37"
definition AFC_TIMING_OPCODE_SET_GET_RTM_PHASE_KI :: u32 where [afc_timing_client_defs]: "AFC_TIMING_OPCODE_SET_GET_RTM_PHASE_KI = 38"
definition AFC_TIMING_OPCODE_SET_GET_RTM_PHASE_NAVG :: u32 where [afc_timing_client_defs]: "AFC_TIMING_OPCODE_SET_GET_RTM_PHASE_NAVG = 40"
definition AFC_TIMING_OPCODE_SET_GET_RTM_PHASE_DIV_EXP :: u32 where [afc_timing_client_defs]: "AFC_TIMING_OPCODE_SET_GET_RTM_PHASE_DIV_EXP = 41"
definition AFC_TIMING_OPCODE_SET_GET_RTM_RFREQ_HI :: u32 where [afc_timing_client_defs]: "AFC_TIMING_OPCODE_SET_GET_RTM_RFREQ_HI = 42"
definition AFC_TIMING_OPCODE_SET_GET_RTM_RFREQ_LO :: u32 where [afc_timing_client_defs]: "AFC_TIMING_OPCODE_SET_GET_RTM_RFREQ_LO = 43"
definition AFC_TIMING_OPCODE_SET_GET_RTM_N1 :: u32 where [afc_timing_client_defs]: "AFC_TIMING_OPCODE_SET_GET_RTM_N1 = 44"
definition AFC_TIMING_OPCODE_SET_GET_RTM_HS_DIV :: u32 where [afc_timing_client_defs]: "AFC_TIMING_OPCODE_SET_GET_RTM_HS_DIV = 45"
definition AFC_TIMING_OPCODE_SET_GET_AFC_FREQ_KP :: u32 where [afc_timing_client_defs]: "AFC_TIMING_OPCODE_SET_GET_AFC_FREQ_KP = 46"
definition AFC_TIMING_OPCODE_SET_GET_AFC_FREQ_KI :: u32 where [afc_timing_client_defs]: "AFC_TIMING_OPCODE_SET_GET_AFC_FREQ_KI = 47"
definition AFC_TIMING_OPCODE_SET_GET_AFC_PHASE_KP :: u32 where [afc_timing_client_defs]: "AFC_TIMING_OPCODE_SET_GET_AFC_PHASE_KP = 48"
definition AFC_TIMING_OPCODE_SET_GET_AFC_PHASE_KI :: u32 where [afc_timing_client_defs]: "AFC_TIMING_OPCODE_SET_GET_AFC_PHASE_KI = 49"
definition AFC_TIMING_OPCODE_SET_GET_AFC_PHASE_NAVG :: u32 where [afc_timing_client_defs]: "AFC_TIMING_OPCODE_SET_GET_AFC_PHASE_NAVG = 51"
definition AFC_TIMING_OPCODE_SET_GET_AFC_PHASE_DIV_EXP :: u32 where [afc_timing_client_defs]: "AFC_TIMING_OPCODE_SET_GET_AFC_PHASE_DIV_EXP = 52"
definition AFC_TIMING_OPCODE_SET_GET_AFC_RFREQ_HI :: u32 where [afc_timing_client_defs]: "AFC_TIMING_OPCODE_SET_GET_AFC_RFREQ_HI = 53"
definition AFC_TIMING_OPCODE_SET_GET_AFC_RFREQ_LO :: u32 where [afc_timing_client_defs]: "AFC_TIMING_OPCODE_SET_GET_AFC_RFREQ_LO = 54"
definition AFC_TIMING_OPCODE_SET_GET_AFC_N1 :: u32 where [afc_timing_client_defs]: "AFC_TIMING_OPCODE_SET_GET_AFC_N1 = 55"
definition AFC_TIMING_OPCODE_SET_GET_AFC_HS_DIV :: u32 where [afc_timing_client_defs]: "AFC_TIMING_OPCODE_SET_GET_AFC_HS_DIV = 56"

definition afc_timing_set_link_status :: "'p client_set" where [afc_timing_client_defs]: 
  "afc_timing_set_link_status self service = param_client_write self service AFC_TIMING_OPCODE_SET_GET_LINK_STATUS"
definition afc_timing_get_link_status :: "'p client_get" where [afc_timing_client_defs]: 
  "afc_timing_get_link_status self service = param_client_read self service AFC_TIMING_OPCODE_SET_GET_LINK_STATUS"
definition afc_timing_set_rxen_status :: "'p client_set" where [afc_timing_client_defs]: 
  "afc_timing_set_rxen_status self service = param_client_write self service AFC_TIMING_OPCODE_SET_GET_RXEN_STATUS"
definition afc_timing_get_rxen_status :: "'p client_get" where [afc_timing_client_defs]: 
  "afc_timing_get_rxen_status self service = param_client_read self service AFC_TIMING_OPCODE_SET_GET_RXEN_STATUS"
definition afc_timing_set_ref_clk_locked :: "'p client_set" where [afc_timing_client_defs]: 
  "afc_timing_set_ref_clk_locked self service = param_client_write self service AFC_TIMING_OPCODE_SET_GET_REF_CLK_LOCKED"
definition afc_timing_get_ref_clk_locked :: "'p client_get" where [afc_timing_client_defs]: 
  "afc_timing_get_ref_clk_locked self service = param_client_read self service AFC_TIMING_OPCODE_SET_GET_REF_CLK_LOCKED"
definition afc_timing_set_evren :: "'p client_set" where [afc_timing_client_defs]: 
  "afc_timing_set_evren self service = param_client_write self service AFC_TIMING_OPCODE_SET_GET_EVREN"
definition afc_timing_get_evren :: "'p client_get" where [afc_timing_client_defs]: 
  "afc_timing_get_evren self service = param_client_read self service AFC_TIMING_OPCODE_SET_GET_EVREN"
definition afc_timing_set_alive :: "'p client_set" where [afc_timing_client_defs]: 
  "afc_timing_set_alive self service = param_client_write self service AFC_TIMING_OPCODE_SET_GET_ALIVE"
definition afc_timing_get_alive :: "'p client_get" where [afc_timing_client_defs]: 
  "afc_timing_get_alive self service = param_client_read self service AFC_TIMING_OPCODE_SET_GET_ALIVE"
definition halcs_set_afc_timing_amc_en :: "'p client_set2" where [afc_timing_client_defs]: 
  "halcs_set_afc_timing_amc_en self service = param_client_write2 self service AFC_TIMING_OPCODE_SET_GET_AMC_EN"
definition halcs_get_afc_timing_amc_en :: "'p client_get1" where [afc_timing_client_defs]: 
  "halcs_get_afc_timing_amc_en self service = param_client_write_read self service AFC_TIMING_OPCODE_SET_GET_AMC_EN"
definition halcs_set_afc_timing_amc_pol :: "'p client_set2" where [afc_timing_client_defs]: 
  "halcs_set_afc_timing_amc_pol self service = param_client_write2 self service AFC_TIMING_OPCODE_SET_GET_AMC_POL"
definition halcs_get_afc_timing_amc_pol :: "'p client_get1" where [afc_timing_client_defs]: 
  "halcs_get_afc_timing_amc_pol self service = param_client_write_read self service AFC_TIMING_OPCODE_SET_GET_AMC_POL"
definition halcs_set_afc_timing_amc_log :: "'p client_set2" where [afc_timing_client_defs]: 
  "halcs_set_afc_timing_amc_log self service = param_client_write2 self service AFC_TIMING_OPCODE_SET_GET_AMC_LOG"
definition halcs_get_afc_timing_amc_log :: "'p client_get1" where [afc_timing_client_defs]: 
  "halcs_get_afc_timing_amc_log self service = param_client_write_read self service AFC_TIMING_OPCODE_SET_GET_AMC_LOG"
definition halcs_set_afc_timing_amc_itl :: "'p client_set2" where [afc_timing_client_defs]: 
  "halcs_set_afc_timing_amc_itl self service = param_client_write2 self service AFC_TIMING_OPCODE_SET_GET_AMC_ITL"
definition halcs_get_afc_timing_amc_itl :: "'p client_get1" where [afc_timing_client_defs]: 
  "halcs_get_afc_timing_amc_itl self service = param_client_write_read self service AFC_TIMING_OPCODE_SET_GET_AMC_ITL"
definition halcs_set_afc_timing_amc_src :: "'p client_set2" where [afc_timing_client_defs]: 
  "halcs_set_afc_timing_amc_src self service = param_client_write2 self service AFC_TIMING_OPCODE_SET_GET_AMC_SRC"
definition halcs_get_afc_timing_amc_src :: "'p client_get1" where [afc_timing_client_defs]: 
  "halcs_get_afc_timing_amc_src self service = param_client_write_read self service AFC_TIMING_OPCODE_SET_GET_AMC_SRC"
definition halcs_set_afc_timing_amc_dir :: "'p client_set2" where [afc_timing_client_defs]: 
  "halcs_set_afc_timing_amc_dir self service = param_client_write2 self service AFC_TIMING_OPCODE_SET_GET_AMC_DIR"
definition halcs_get_afc_timing_amc_dir :: "'p client_get1" where [afc_timing_client_defs]: 
  "halcs_get_afc_timing_amc_dir self service = param_client_write_read self service AFC_TIMING_OPCODE_SET_GET_AMC_DIR"
definition halcs_set_afc_timing_amc_count_rst :: "'p client_set2" where [afc_timing_client_defs]: 
  "halcs_set_afc_timing_amc_count_rst self service = param_client_write2 self service AFC_TIMING_OPCODE_SET_GET_AMC_COUNT_RST"
definition halcs_get_afc_timing_amc_count_rst :: "'p client_get1" where [afc_timing_client_defs]: 
  "halcs_get_afc_timing_amc_count_rst self service = param_client_write_read self service AFC_TIMING_OPCODE_SET_GET_AMC_COUNT_RST"
definition halcs_set_afc_timing_amc_pulses :: "'p client_set2" where [afc_timing_client_defs]: 
  "halcs_set_afc_timing_amc_pulses self service = param_client_write2 self service AFC_TIMING_OPCODE_SET_GET_AMC_PULSES"
definition halcs_get_afc_timing_amc_pulses :: "'p client_get1" where [afc_timing_client_defs]: 
  "halcs_get_afc_timing_amc_pulses self service = param_client_write_read self service AFC_TIMING_OPCODE_SET_GET_AMC_PULSES"
definition halcs_set_afc_timing_amc_count :: "'p client_set2" where [afc_timing_client_defs]: 
  "halcs_set_afc_timing_amc_count self service = param_client_write2 self service AFC_TIMING_OPCODE_SET_GET_AMC_COUNT"
definition halcs_get_afc_timing_amc_count :: "'p client_get1" where [afc_timing_client_defs]: 
  "halcs_get_afc_timing_amc_count self service = param_client_write_read self service AFC_TIMING_OPCODE_SET_GET_AMC_COUNT"
definition halcs_set_afc_timing_amc_evt :: "'p client_set2" where [afc_timing_client_defs]: 
  "halcs_set_afc_timing_amc_evt self service = param_client_write2 self service AFC_TIMING_OPCODE_SET_GET_AMC_EVT"
definition halcs_get_afc_timing_amc_evt :: "'p client_get1" where [afc_timing_client_defs]: 
  "halcs_get_afc_timing_amc_evt self service = param_client_write_read self service AFC_TIMING_OPCODE_SET_GET_AMC_EVT"
definition halcs_set_afc_timing_amc_dly :: "'p client_set2" where [afc_timing_client_defs]: 
  "halcs_set_afc_timing_amc_dly self service = param_client_write2 self service AFC_TIMING_OPCODE_SET_GET_AMC_DLY"
definition halcs_get_afc_timing_amc_dly :: "'p client_get1" where [afc_timing_client_defs]: 
  "halcs_get_afc_timing_amc_dly self service = param_client_write_read self service AFC_TIMING_OPCODE_SET_GET_AMC_DLY"
definition halcs_set_afc_timing_amc_wdt :: "'p client_set2" where [afc_timing_client_defs]: 
  "halcs_set_afc_timing_amc_wdt self service = param_client_write2 self service AFC_TIMING_OPCODE_SET_GET_AMC_WDT"
definition halcs_get_afc_timing_amc_wdt :: "'p client_get1" where [afc_timing_client_defs]: 
  "halcs_get_afc_timing_amc_wdt self service = param_client_write_read self service AFC_TIMING_OPCODE_SET_GET_AMC_WDT"
definition halcs_set_afc_timing_fmc1_en :: "'p client_set2" where [afc_timing_client_defs]: 
  "halcs_set_afc_timing_fmc1_en self service = param_client_write2 self service AFC_TIMING_OPCODE_SET_GET_FMC1_EN"
definition halcs_get_afc_timing_fmc1_en :: "'p client_get1" where [afc_timing_client_defs]: 
  "halcs_get_afc_timing_fmc1_en self service = param_client_write_read self service AFC_TIMING_OPCODE_SET_GET_FMC1_EN"
definition halcs_set_afc_timing_fmc1_pol :: "'p client_set2" where [afc_timing_client_defs]: 
  "halcs_set_afc_timing_fmc1_pol self service = param_client_write2 self service AFC_TIMING_OPCODE_SET_GET_FMC1_POL"
definition halcs_get_afc_timing_fmc1_pol :: "'p client_get1" where [afc_timing_client_defs]: 
  "halcs_get_afc_timing_fmc1_pol self service = param_client_write_read self service AFC_TIMING_OPCODE_SET_GET_FMC1_POL"
definition halcs_set_afc_timing_fmc1_log :: "'p client_set2" where [afc_timing_client_defs]: 
  "halcs_set_afc_timing_fmc1_log self service = param_client_write2 self service AFC_TIMING_OPCODE_SET_GET_FMC1_LOG"
definition halcs_get_afc_timing_fmc1_log :: "'p client_get1" where [afc_timing_client_defs]: 
  "halcs_get_afc_timing_fmc1_log self service = param_client_write_read self service AFC_TIMING_OPCODE_SET_GET_FMC1_LOG"
definition halcs_set_afc_timing_fmc1_itl :: "'p client_set2" where [afc_timing_client_defs]: 
  "halcs_set_afc_timing_fmc1_itl self service = param_client_write2 self service AFC_TIMING_OPCODE_SET_GET_FMC1_ITL"
definition halcs_get_afc_timing_fmc1_itl :: "'p client_get1" where [afc_timing_client_defs]: 
  "halcs_get_afc_timing_fmc1_itl self service = param_client_write_read self service AFC_TIMING_OPCODE_SET_GET_FMC1_ITL"
definition halcs_set_afc_timing_fmc1_src :: "'p client_set2" where [afc_timing_client_defs]: 
  "halcs_set_afc_timing_fmc1_src self service = param_client_write2 self service AFC_TIMING_OPCODE_SET_GET_FMC1_SRC"
definition halcs_get_afc_timing_fmc1_src :: "'p client_get1" where [afc_timing_client_defs]: 
  "halcs_get_afc_timing_fmc1_src self service = param_client_write_read self service AFC_TIMING_OPCODE_SET_GET_FMC1_SRC"
definition halcs_set_afc_timing_fmc1_dir :: "'p client_set2" where [afc_timing_client_defs]: 
  "halcs_set_afc_timing_fmc1_dir self service = param_client_write2 self service AFC_TIMING_OPCODE_SET_GET_FMC1_DIR"
definition halcs_get_afc_timing_fmc1_dir :: "'p client_get1" where [afc_timing_client_defs]: 
  "halcs_get_afc_timing_fmc1_dir self service = param_client_write_read self service AFC_TIMING_OPCODE_SET_GET_FMC1_DIR"
definition halcs_set_afc_timing_fmc1_count_rst :: "'p client_set2" where [afc_timing_client_defs]: 
  "halcs_set_afc_timing_fmc1_count_rst self service = param_client_write2 self service AFC_TIMING_OPCODE_SET_GET_FMC1_COUNT_RST"
definition halcs_get_afc_timing_fmc1_count_rst :: "'p client_get1" where [afc_timing_client_defs]: 
  "halcs_get_afc_timing_fmc1_count_rst self service = param_client_write_read self service AFC_TIMING_OPCODE_SET_GET_FMC1_COUNT_RST"
definition halcs_set_afc_timing_fmc1_pulses :: "'p client_set2" where [afc_timing_client_defs]: 
  "halcs_set_afc_timing_fmc1_pulses self service = param_client_write2 self service AFC_TIMING_OPCODE_SET_GET_FMC1_PULSES"
definition halcs_get_afc_timing_fmc1_pulses :: "'p client_get1" where [afc_timing_client_defs]: 
  "halcs_get_afc_timing_fmc1_pulses self service = param_client_write_read self service AFC_TIMING_OPCODE_SET_GET_FMC1_PULSES"
definition halcs_set_afc_timing_fmc1_count :: "'p client_set2" where [afc_timing_client_defs]: 
  "halcs_set_afc_timing_fmc1_count self service = param_client_write2 self service AFC_TIMING_OPCODE_SET_GET_FMC1_COUNT"
definition halcs_get_afc_timing_fmc1_count :: "'p client_get1" where [afc_timing_client_defs]: 
  "halcs_get_afc_timing_fmc1_count self service = param_client_write_read self service AFC_TIMING_OPCODE_SET_GET_FMC1_COUNT"
definition halcs_set_afc_timing_fmc1_evt :: "'p client_set2" where [afc_timing_client_defs]: 
  "halcs_set_afc_timing_fmc1_evt self service = param_client_write2 self service AFC_TIMING_OPCODE_SET_GET_FMC1_EVT"
definition halcs_get_afc_timing_fmc1_evt :: "'p client_get1" where [afc_timing_client_defs]: 
  "halcs_get_afc_timing_fmc1_evt self service = param_client_write_read self service AFC_TIMING_OPCODE_SET_GET_FMC1_EVT"
definition halcs_set_afc_timing_fmc1_dly :: "'p client_set2" where [afc_timing_client_defs]: 
  "halcs_set_afc_timing_fmc1_dly self service = param_client_write2 self service AFC_TIMING_OPCODE_SET_GET_FMC1_DLY"
definition halcs_get_afc_timing_fmc1_dly :: "'p client_get1" where [afc_timing_client_defs]: 
  "halcs_get_afc_timing_fmc1_dly self service = param_client_write_read self service AFC_TIMING_OPCODE_SET_GET_FMC1_DLY"
definition halcs_set_afc_timing_fmc1_wdt :: "'p client_set2" where [afc_timing_client_defs]: 
  "halcs_set_afc_timing_fmc1_wdt self service = param_client_write2 self service AFC_TIMING_OPCODE_SET_GET_FMC1_WDT"
definition halcs_get_afc_timing_fmc1_wdt :: "'p client_get1" where [afc_timing_client_defs]: 
  "halcs_get_afc_timing_fmc1_wdt self service = param_client_write_read self service AFC_TIMING_OPCODE_SET_GET_FMC1_WDT"
definition halcs_set_afc_timing_fmc2_en :: "'p client_set2" where [afc_timing_client_defs]: 
  "halcs_set_afc_timing_fmc2_en self service = param_client_write2 self service AFC_TIMING_OPCODE_SET_GET_FMC2_EN"
definition halcs_get_afc_timing_fmc2_en :: "'p client_get1" where [afc_timing_client_defs]: 
  "halcs_get_afc_timing_fmc2_en self service = param_client_write_read self service AFC_TIMING_OPCODE_SET_GET_FMC2_EN"
definition halcs_set_afc_timing_fmc2_pol :: "'p client_set2" where [afc_timing_client_defs]: 
  "halcs_set_afc_timing_fmc2_pol self service = param_client_write2 self service AFC_TIMING_OPCODE_SET_GET_FMC2_POL"
definition halcs_get_afc_timing_fmc2_pol :: "'p client_get1" where [afc_timing_client_defs]: 
  "halcs_get_afc_timing_fmc2_pol self service = param_client_write_read self service AFC_TIMING_OPCODE_SET_GET_FMC2_POL"
definition halcs_set_afc_timing_fmc2_log :: "'p client_set2" where [afc_timing_client_defs]: 
  "halcs_set_afc_timing_fmc2_log self service = param_client_write2 self service AFC_TIMING_OPCODE_SET_GET_FMC2_LOG"
definition halcs_get_afc_timing_fmc2_log :: "'p client_get1" where [afc_timing_client_defs]: 
  "halcs_get_afc_timing_fmc2_log self service = param_client_write_read self service AFC_TIMING_OPCODE_SET_GET_FMC2_LOG"
definition halcs_set_afc_timing_fmc2_itl :: "'p client_set2" where [afc_timing_client_defs]: 
  "halcs_set_afc_timing_fmc2_itl self service = param_client_write2 self service AFC_TIMING_OPCODE_SET_GET_FMC2_ITL"
definition halcs_get_afc_timing_fmc2_itl :: "'p client_get1" where [afc_timing_client_defs]: 
  "halcs_get_afc_timing_fmc2_itl self service = param_client_write_read self service AFC_TIMING_OPCODE_SET_GET_FMC2_ITL"
definition halcs_set_afc_timing_fmc2_src :: "'p client_set2" where [afc_timing_client_defs]: 
  "halcs_set_afc_timing_fmc2_src self service = param_client_write2 self service AFC_TIMING_OPCODE_SET_GET_FMC2_SRC"
definition halcs_get_afc_timing_fmc2_src :: "'p client_get1" where [afc_timing_client_defs]: 
  "halcs_get_afc_timing_fmc2_src self service = param_client_write_read self service AFC_TIMING_OPCODE_SET_GET_FMC2_SRC"
definition halcs_set_afc_timing_fmc2_dir :: "'p client_set2" where [afc_timing_client_defs]: 
  "halcs_set_afc_timing_fmc2_dir self service = param_client_write2 self service AFC_TIMING_OPCODE_SET_GET_FMC2_DIR"
definition halcs_get_afc_timing_fmc2_dir :: "'p client_get1" where [afc_timing_client_defs]: 
  "halcs_get_afc_timing_fmc2_dir self service = param_client_write_read self service AFC_TIMING_OPCODE_SET_GET_FMC2_DIR"
definition halcs_set_afc_timing_fmc2_count_rst :: "'p client_set2" where [afc_timing_client_defs]: 
  "halcs_set_afc_timing_fmc2_count_rst self service = param_client_write2 self service AFC_TIMING_OPCODE_SET_GET_FMC2_COUNT_RST"
definition halcs_get_afc_timing_fmc2_count_rst :: "'p client_get1" where [afc_timing_client_defs]: 
  "halcs_get_afc_timing_fmc2_count_rst self service = param_client_write_read self service AFC_TIMING_OPCODE_SET_GET_FMC2_COUNT_RST"
definition halcs_set_afc_timing_fmc2_pulses :: "'p client_set2" where [afc_timing_client_defs]: 
  "halcs_set_afc_timing_fmc2_pulses self service = param_client_write2 self service AFC_TIMING_OPCODE_SET_GET_FMC2_PULSES"
definition halcs_get_afc_timing_fmc2_pulses :: "'p client_get1" where [afc_timing_client_defs]: 
  "halcs_get_afc_timing_fmc2_pulses self service = param_client_write_read self service AFC_TIMING_OPCODE_SET_GET_FMC2_PULSES"
definition halcs_set_afc_timing_fmc2_count :: "'p client_set2" where [afc_timing_client_defs]: 
  "halcs_set_afc_timing_fmc2_count self service = param_client_write2 self service AFC_TIMING_OPCODE_SET_GET_FMC2_COUNT"
definition halcs_get_afc_timing_fmc2_count :: "'p client_get1" where [afc_timing_client_defs]: 
  "halcs_get_afc_timing_fmc2_count self service = param_client_write_read self service AFC_TIMING_OPCODE_SET_GET_FMC2_COUNT"
definition halcs_set_afc_timing_fmc2_evt :: "'p client_set2" where [afc_timing_client_defs]: 
  "halcs_set_afc_timing_fmc2_evt self service = param_client_write2 self service AFC_TIMING_OPCODE_SET_GET_FMC2_EVT"
definition halcs_get_afc_timing_fmc2_evt :: "'p client_get1" where [afc_timing_client_defs]: 
  "halcs_get_afc_timing_fmc2_evt self service = param_client_write_read self service AFC_TIMING_OPCODE_SET_GET_FMC2_EVT"
definition halcs_set_afc_timing_fmc2_dly :: "'p client_set2" where [afc_timing_client_defs]: 
  "halcs_set_afc_timing_fmc2_dly self service = param_client_write2 self service AFC_TIMING_OPCODE_SET_GET_FMC2_DLY"
definition halcs_get_afc_timing_fmc2_dly :: "'p client_get1" where [afc_timing_client_defs]: 
  "halcs_get_afc_timing_fmc2_dly self service = param_client_write_read self service AFC_TIMING_OPCODE_SET_GET_FMC2_DLY"
definition halcs_set_afc_timing_fmc2_wdt :: "'p client_set2" where [afc_timing_client_defs]: 
  "halcs_set_afc_timing_fmc2_wdt self service = param_client_write2 self service AFC_TIMING_OPCODE_SET_GET_FMC2_WDT"
definition halcs_get_afc_timing_fmc2_wdt :: "'p client_get1" where [afc_timing_client_defs]: 
  "halcs_get_afc_timing_fmc2_wdt self service = param_client_write_read self service AFC_TIMING_OPCODE_SET_GET_FMC2_WDT"
definition afc_timing_set_rtm_freq_kp :: "'p client_set" where [afc_timing_client_defs]: 
  "afc_timing_set_rtm_freq_kp self service = param_client_write self service AFC_TIMING_OPCODE_SET_GET_RTM_FREQ_KP"
definition afc_timing_get_rtm_freq_kp :: "'p client_get" where [afc_timing_client_defs]: 
  "afc_timing_get_rtm_freq_kp self service = param_client_read self service AFC_TIMING_OPCODE_SET_GET_RTM_FREQ_KP"
definition afc_timing_set_rtm_freq_ki :: "'p client_set" where [afc_timing_client_defs]: 
  "afc_timing_set_rtm_freq_ki self service = param_client_write self service AFC_TIMING_OPCODE_SET_GET_RTM_FREQ_KI"
definition afc_timing_get_rtm_freq_ki :: "'p client_get" where [afc_timing_client_defs]: 
  "afc_timing_get_rtm_freq_ki self service = param_client_read self service AFC_TIMING_OPCODE_SET_GET_RTM_FREQ_KI"
definition afc_timing_set_rtm_phase_kp :: "'p client_set" where [afc_timing_client_defs]: 
  "afc_timing_set_rtm_phase_kp self service = param_client_write self service AFC_TIMING_OPCODE_SET_GET_RTM_PHASE_KP"
definition afc_timing_get_rtm_phase_kp :: "'p client_get" where [afc_timing_client_defs]: 
  "afc_timing_get_rtm_phase_kp self service = param_client_read self service AFC_TIMING_OPCODE_SET_GET_RTM_PHASE_KP"
definition afc_timing_set_rtm_phase_ki :: "'p client_set" where [afc_timing_client_defs]: 
  "afc_timing_set_rtm_phase_ki self service = param_client_write self service AFC_TIMING_OPCODE_SET_GET_RTM_PHASE_KI"
definition afc_timing_get_rtm_phase_ki :: "'p client_get" where [afc_timing_client_defs]: 
  "afc_timing_get_rtm_phase_ki self service = param_client_read self service AFC_TIMING_OPCODE_SET_GET_RTM_PHASE_KI"
definition afc_timing_set_rtm_phase_navg :: "'p client_set" where [afc_timing_client_defs]: 
  "afc_timing_set_rtm_phase_navg self service = param_client_write self service AFC_TIMING_OPCODE_SET_GET_RTM_PHASE_NAVG"
definition afc_timing_get_rtm_phase_navg :: "'p client_get" where [afc_timing_client_defs]: 
  "afc_timing_get_rtm_phase_navg self service = param_client_read self service AFC_TIMING_OPCODE_SET_GET_RTM_PHASE_NAVG"
definition afc_timing_set_rtm_phase_div_exp :: "'p client_set" where [afc_timing_client_defs]: 
  "afc_timing_set_rtm_phase_div_exp self service = param_client_write self service AFC_TIMING_OPCODE_SET_GET_RTM_PHASE_DIV_EXP"
definition afc_timing_get_rtm_phase_div_exp :: "'p client_get" where [afc_timing_client_defs]: 
  "afc_timing_get_rtm_phase_div_exp self service = param_client_read self service AFC_TIMING_OPCODE_SET_GET_RTM_PHASE_DIV_EXP"
definition afc_timing_set_rtm_rfreq_hi :: "'p client_set" where [afc_timing_client_defs]: 
  "afc_timing_set_rtm_rfreq_hi self service = param_client_write self service AFC_TIMING_OPCODE_SET_GET_RTM_RFREQ_HI"
definition afc_timing_get_rtm_rfreq_hi :: "'p client_get" where [afc_timing_client_defs]: 
  "afc_timing_get_rtm_rfreq_hi self service = param_client_read self service AFC_TIMING_OPCODE_SET_GET_RTM_RFREQ_HI"
definition afc_timing_set_rtm_rfreq_lo :: "'p client_set" where [afc_timing_client_defs]: 
  "afc_timing_set_rtm_rfreq_lo self service = param_client_write self service AFC_TIMING_OPCODE_SET_GET_RTM_RFREQ_LO"
definition afc_timing_get_rtm_rfreq_lo :: "'p client_get" where [afc_timing_client_defs]: 
  "afc_timing_get_rtm_rfreq_lo self service = param_client_read self service AFC_TIMING_OPCODE_SET_GET_RTM_RFREQ_LO"
definition afc_timing_set_rtm_n1 :: "'p client_set" where [afc_timing_client_defs]: 
  "afc_timing_set_rtm_n1 self service = param_client_write self service AFC_TIMING_OPCODE_SET_GET_RTM_N1"
definition afc_timing_get_rtm_n1 :: "'p client_get" where [afc_timing_client_defs]: 
  "afc_timing_get_rtm_n1 self service = param_client_read self service AFC_TIMING_OPCODE_SET_GET_RTM_N1"
definition afc_timing_set_rtm_hs_div :: "'p client_set" where [afc_timing_client_defs]: 
  "afc_timing_set_rtm_hs_div self service = param_client_write self service AFC_TIMING_OPCODE_SET_GET_RTM_HS_DIV"
definition afc_timing_get_rtm_hs_div :: "'p client_get" where [afc_timing_client_defs]: 
  "afc_timing_get_rtm_hs_div self service = param_client_read self service AFC_TIMING_OPCODE_SET_GET_RTM_HS_DIV"
definition afc_timing_set_afc_freq_kp :: "'p client_set" where [afc_timing_client_defs]: 
  "afc_timing_set_afc_freq_kp self service = param_client_write self service AFC_TIMING_OPCODE_SET_GET_AFC_FREQ_KP"
definition afc_timing_get_afc_freq_kp :: "'p client_get" where [afc_timing_client_defs]: 
  "afc_timing_get_afc_freq_kp self service = param_client_read self service AFC_TIMING_OPCODE_SET_GET_AFC_FREQ_KP"
definition afc_timing_set_afc_freq_ki :: "'p client_set" where [afc_timing_client_defs]: 
  "afc_timing_set_afc_freq_ki self service = param_client_write self service AFC_TIMING_OPCODE_SET_GET_AFC_FREQ_KI"
definition afc_timing_get_afc_freq_ki :: "'p client_get" where [afc_timing_client_defs]: 
  "afc_timing_get_afc_freq_ki self service = param_client_read self service AFC_TIMING_OPCODE_SET_GET_AFC_FREQ_KI"
definition afc_timing_set_afc_phase_kp :: "'p client_set" where [afc_timing_client_defs]: 
  "afc_timing_set_afc_phase_kp self service = param_client_write self service AFC_TIMING_OPCODE_SET_GET_AFC_PHASE_KP"
definition afc_timing_get_afc_phase_kp :: "'p client_get" where [afc_timing_client_defs]: 
  "afc_timing_get_afc_phase_kp self service = param_client_read self service AFC_TIMING_OPCODE_SET_GET_AFC_PHASE_KP"
definition afc_timing_set_afc_phase_ki :: "'p client_set" where [afc_timing_client_defs]: 
  "afc_timing_set_afc_phase_ki self service = param_client_write self service AFC_TIMING_OPCODE_SET_GET_AFC_PHASE_KI"
definition afc_timing_get_afc_phase_ki :: "'p client_get" where [afc_timing_client_defs]: 
  "afc_timing_get_afc_phase_ki self service = param_client_read self service AFC_TIMING_OPCODE_SET_GET_AFC_PHASE_KI"
definition afc_timing_set_afc_phase_navg :: "'p client_set" where [afc_timing_client_defs]: 
  "afc_timing_set_afc_phase_navg self service = param_client_write self service AFC_TIMING_OPCODE_SET_GET_AFC_PHASE_NAVG"
definition afc_timing_get_afc_phase_navg :: "'p client_get" where [afc_timing_client_defs]: 
  "afc_timing_get_afc_phase_navg self service = param_client_read self service AFC_TIMING_OPCODE_SET_GET_AFC_PHASE_NAVG"
definition afc_timing_set_afc_phase_div_exp :: "'p client_set" where [afc_timing_client_defs]: 
  "afc_timing_set_afc_phase_div_exp self service = param_client_write self service AFC_TIMING_OPCODE_SET_GET_AFC_PHASE_DIV_EXP"
definition afc_timing_get_afc_phase_div_exp :: "'p client_get" where [afc_timing_client_defs]: 
  "afc_timing_get_afc_phase_div_exp self service = param_client_read self service AFC_TIMING_OPCODE_SET_GET_AFC_PHASE_DIV_EXP"
definition afc_timing_set_afc_rfreq_hi :: "'p client_set" where [afc_timing_client_defs]: 
  "afc_timing_set_afc_rfreq_hi self service = param_client_write self service AFC_TIMING_OPCODE_SET_GET_AFC_RFREQ_HI"
definition afc_timing_get_afc_rfreq_hi :: "'p client_get" where [afc_timing_client_defs]: 
  "afc_timing_get_afc_rfreq_hi self service = param_client_read self service AFC_TIMING_OPCODE_SET_GET_AFC_RFREQ_HI"
definition afc_timing_set_afc_rfreq_lo :: "'p client_set" where [afc_timing_client_defs]: 
  "afc_timing_set_afc_rfreq_lo self service = param_client_write self service AFC_TIMING_OPCODE_SET_GET_AFC_RFREQ_LO"
definition afc_timing_get_afc_rfreq_lo :: "'p client_get" where [afc_timing_client_defs]: 
  "afc_timing_get_afc_rfreq_lo self service = param_client_read self service AFC_TIMING_OPCODE_SET_GET_AFC_RFREQ_LO"
definition afc_timing_set_afc_n1 :: "'p client_set" where [afc_timing_client_defs]: 
  "afc_timing_set_afc_n1 self service = param_client_write self service AFC_TIMING_OPCODE_SET_GET_AFC_N1"
definition afc_timing_get_afc_n1 :: "'p client_get" where [afc_timing_client_defs]: 
  "afc_timing_get_afc_n1 self service = param_client_read self service AFC_TIMING_OPCODE_SET_GET_AFC_N1"
definition afc_timing_set_afc_hs_div :: "'p client_set" where [afc_timing_client_defs]: 
  "afc_timing_set_afc_hs_div self service = param_client_write self service AFC_TIMING_OPCODE_SET_GET_AFC_HS_DIV"
definition afc_timing_get_afc_hs_div :: "'p client_get" where [afc_timing_client_defs]: 
  "afc_timing_get_afc_hs_div self service = param_client_read self service AFC_TIMING_OPCODE_SET_GET_AFC_HS_DIV"

text \<open>The functions of each exported operation, in the order of the descriptors.\<close>

definition afc_timing_client :: "'p client_fn list list" where
  "afc_timing_client =
     [[Set_Fn afc_timing_set_link_status, Get_Fn afc_timing_get_link_status],
      [Set_Fn afc_timing_set_rxen_status, Get_Fn afc_timing_get_rxen_status],
      [Set_Fn afc_timing_set_ref_clk_locked, Get_Fn afc_timing_get_ref_clk_locked],
      [Set_Fn afc_timing_set_evren, Get_Fn afc_timing_get_evren],
      [Set_Fn afc_timing_set_alive, Get_Fn afc_timing_get_alive],
      [Set_Chan halcs_set_afc_timing_amc_en, Get_Chan halcs_get_afc_timing_amc_en],
      [Set_Chan halcs_set_afc_timing_amc_pol, Get_Chan halcs_get_afc_timing_amc_pol],
      [Set_Chan halcs_set_afc_timing_amc_log, Get_Chan halcs_get_afc_timing_amc_log],
      [Set_Chan halcs_set_afc_timing_amc_itl, Get_Chan halcs_get_afc_timing_amc_itl],
      [Set_Chan halcs_set_afc_timing_amc_src, Get_Chan halcs_get_afc_timing_amc_src],
      [Set_Chan halcs_set_afc_timing_amc_dir, Get_Chan halcs_get_afc_timing_amc_dir],
      [Set_Chan halcs_set_afc_timing_amc_count_rst, Get_Chan halcs_get_afc_timing_amc_count_rst],
      [Set_Chan halcs_set_afc_timing_amc_pulses, Get_Chan halcs_get_afc_timing_amc_pulses],
      [Set_Chan halcs_set_afc_timing_amc_count, Get_Chan halcs_get_afc_timing_amc_count],
      [Set_Chan halcs_set_afc_timing_amc_evt, Get_Chan halcs_get_afc_timing_amc_evt],
      [Set_Chan halcs_set_afc_timing_amc_dly, Get_Chan halcs_get_afc_timing_amc_dly],
      [Set_Chan halcs_set_afc_timing_amc_wdt, Get_Chan halcs_get_afc_timing_amc_wdt],
      [Set_Chan halcs_set_afc_timing_fmc1_en, Get_Chan halcs_get_afc_timing_fmc1_en],
      [Set_Chan halcs_set_afc_timing_fmc1_pol, Get_Chan halcs_get_afc_timing_fmc1_pol],
      [Set_Chan halcs_set_afc_timing_fmc1_log, Get_Chan halcs_get_afc_timing_fmc1_log],
      [Set_Chan halcs_set_afc_timing_fmc1_itl, Get_Chan halcs_get_afc_timing_fmc1_itl],
      [Set_Chan halcs_set_afc_timing_fmc1_src, Get_Chan halcs_get_afc_timing_fmc1_src],
      [Set_Chan halcs_set_afc_timing_fmc1_dir, Get_Chan halcs_get_afc_timing_fmc1_dir],
      [Set_Chan halcs_set_afc_timing_fmc1_count_rst, Get_Chan halcs_get_afc_timing_fmc1_count_rst],
      [Set_Chan halcs_set_afc_timing_fmc1_pulses, Get_Chan halcs_get_afc_timing_fmc1_pulses],
      [Set_Chan halcs_set_afc_timing_fmc1_count, Get_Chan halcs_get_afc_timing_fmc1_count],
      [Set_Chan halcs_set_afc_timing_fmc1_evt, Get_Chan halcs_get_afc_timing_fmc1_evt],
      [Set_Chan halcs_set_afc_timing_fmc1_dly, Get_Chan halcs_get_afc_timing_fmc1_dly],
      [Set_Chan halcs_set_afc_timing_fmc1_wdt, Get_Chan halcs_get_afc_timing_fmc1_wdt],
      [Set_Chan halcs_set_afc_timing_fmc2_en, Get_Chan halcs_get_afc_timing_fmc2_en],
      [Set_Chan halcs_set_afc_timing_fmc2_pol, Get_Chan halcs_get_afc_timing_fmc2_pol],
      [Set_Chan halcs_set_afc_timing_fmc2_log, Get_Chan halcs_get_afc_timing_fmc2_log],
      [Set_Chan halcs_set_afc_timing_fmc2_itl, Get_Chan halcs_get_afc_timing_fmc2_itl],
      [Set_Chan halcs_set_afc_timing_fmc2_src, Get_Chan halcs_get_afc_timing_fmc2_src],
      [Set_Chan halcs_set_afc_timing_fmc2_dir, Get_Chan halcs_get_afc_timing_fmc2_dir],
      [Set_Chan halcs_set_afc_timing_fmc2_count_rst, Get_Chan halcs_get_afc_timing_fmc2_count_rst],
      [Set_Chan halcs_set_afc_timing_fmc2_pulses, Get_Chan halcs_get_afc_timing_fmc2_pulses],
      [Set_Chan halcs_set_afc_timing_fmc2_count, Get_Chan halcs_get_afc_timing_fmc2_count],
      [Set_Chan halcs_set_afc_timing_fmc2_evt, Get_Chan halcs_get_afc_timing_fmc2_evt],
      [Set_Chan halcs_set_afc_timing_fmc2_dly, Get_Chan halcs_get_afc_timing_fmc2_dly],
      [Set_Chan halcs_set_afc_timing_fmc2_wdt, Get_Chan halcs_get_afc_timing_fmc2_wdt],
      [Set_Fn afc_timing_set_rtm_freq_kp, Get_Fn afc_timing_get_rtm_freq_kp],
      [Set_Fn afc_timing_set_rtm_freq_ki, Get_Fn afc_timing_get_rtm_freq_ki],
      [Set_Fn afc_timing_set_rtm_phase_kp, Get_Fn afc_timing_get_rtm_phase_kp],
      [Set_Fn afc_timing_set_rtm_phase_ki, Get_Fn afc_timing_get_rtm_phase_ki],
      [Set_Fn afc_timing_set_rtm_phase_navg, Get_Fn afc_timing_get_rtm_phase_navg],
      [Set_Fn afc_timing_set_rtm_phase_div_exp, Get_Fn afc_timing_get_rtm_phase_div_exp],
      [Set_Fn afc_timing_set_rtm_rfreq_hi, Get_Fn afc_timing_get_rtm_rfreq_hi],
      [Set_Fn afc_timing_set_rtm_rfreq_lo, Get_Fn afc_timing_get_rtm_rfreq_lo],
      [Set_Fn afc_timing_set_rtm_n1, Get_Fn afc_timing_get_rtm_n1],
      [Set_Fn afc_timing_set_rtm_hs_div, Get_Fn afc_timing_get_rtm_hs_div],
      [Set_Fn afc_timing_set_afc_freq_kp, Get_Fn afc_timing_get_afc_freq_kp],
      [Set_Fn afc_timing_set_afc_freq_ki, Get_Fn afc_timing_get_afc_freq_ki],
      [Set_Fn afc_timing_set_afc_phase_kp, Get_Fn afc_timing_get_afc_phase_kp],
      [Set_Fn afc_timing_set_afc_phase_ki, Get_Fn afc_timing_get_afc_phase_ki],
      [Set_Fn afc_timing_set_afc_phase_navg, Get_Fn afc_timing_get_afc_phase_navg],
      [Set_Fn afc_timing_set_afc_phase_div_exp, Get_Fn afc_timing_get_afc_phase_div_exp],
      [Set_Fn afc_timing_set_afc_rfreq_hi, Get_Fn afc_timing_get_afc_rfreq_hi],
      [Set_Fn afc_timing_set_afc_rfreq_lo, Get_Fn afc_timing_get_afc_rfreq_lo],
      [Set_Fn afc_timing_set_afc_n1, Get_Fn afc_timing_get_afc_n1],
      [Set_Fn afc_timing_set_afc_hs_div, Get_Fn afc_timing_get_afc_hs_div]]"

lemma afc_timing_client_fits: "list_all2 op_fits afc_timing_exp_ops afc_timing_client"
  by (simp add: afc_timing_client_def afc_timing_exp_ops_def afc_timing_defs afc_timing_client_defs exp_simps op_fits_def srv_args fn_calls_signed fun_eq_iff)

lemma afc_timing_client_shape: "list_all2 (\<lambda>d. list_all (fn_shape d)) afc_timing_params afc_timing_client"
  by (simp add: afc_timing_client_def afc_timing_params_def spec_simps)

section \<open>tim_rcv\<close>

named_theorems tim_rcv_client_defs

definition TIM_RCV_OPCODE_PHASE_MEAS_NAVG :: u32 where [tim_rcv_client_defs]: "TIM_RCV_OPCODE_PHASE_MEAS_NAVG = 0"
definition TIM_RCV_OPCODE_DMTD_A_DEGLITCHER_THRES :: u32 where [tim_rcv_client_defs]: "TIM_RCV_OPCODE_DMTD_A_DEGLITCHER_THRES = 1"
definition TIM_RCV_OPCODE_DMTD_B_DEGLITCHER_THRES :: u32 where [tim_rcv_client_defs]: "TIM_RCV_OPCODE_DMTD_B_DEGLITCHER_THRES = 2"
definition TIM_RCV_OPCODE_PHASE_MEAS :: u32 where [tim_rcv_client_defs]: "TIM_RCV_OPCODE_PHASE_MEAS = 3"
definition TIM_RCV_OPCODE_DMTD_A_FREQ :: u32 where [tim_rcv_client_defs]: "TIM_RCV_OPCODE_DMTD_A_FREQ = 4"
definition TIM_RCV_OPCODE_DMTD_A_VALID :: u32 where [tim_rcv_client_defs]: "TIM_RCV_OPCODE_DMTD_A_VALID = 5"
definition TIM_RCV_OPCODE_DMTD_B_FREQ :: u32 where [tim_rcv_client_defs]: "TIM_RCV_OPCODE_DMTD_B_FREQ = 6"
definition TIM_RCV_OPCODE_DMTD_B_VALID :: u32 where [tim_rcv_client_defs]: "TIM_RCV_OPCODE_DMTD_B_VALID = 7"

definition halcs_set_phase_meas_navg :: "'p client_set" where [tim_rcv_client_defs]: 
  "halcs_set_phase_meas_navg self service = param_client_write self service TIM_RCV_OPCODE_PHASE_MEAS_NAVG"
definition halcs_get_phase_meas_navg :: "'p client_get" where [tim_rcv_client_defs]: 
  "halcs_get_phase_meas_navg self service = param_client_read self service TIM_RCV_OPCODE_PHASE_MEAS_NAVG"
definition halcs_set_dmtd_a_deglitcher_thres :: "'p client_set" where [tim_rcv_client_defs]: 
  "halcs_set_dmtd_a_deglitcher_thres self service = param_client_write self service TIM_RCV_OPCODE_DMTD_A_DEGLITCHER_THRES"
definition halcs_get_dmtd_a_deglitcher_thres :: "'p client_get" where [tim_rcv_client_defs]: 
  "halcs_get_dmtd_a_deglitcher_thres self service = param_client_read self service TIM_RCV_OPCODE_DMTD_A_DEGLITCHER_THRES"
definition halcs_set_dmtd_b_deglitcher_thres :: "'p client_set" where [tim_rcv_client_defs]: 
  "halcs_set_dmtd_b_deglitcher_thres self service = param_client_write self service TIM_RCV_OPCODE_DMTD_B_DEGLITCHER_THRES"
definition halcs_get_dmtd_b_deglitcher_thres :: "'p client_get" where [tim_rcv_client_defs]: 
  "halcs_get_dmtd_b_deglitcher_thres self service = param_client_read self service TIM_RCV_OPCODE_DMTD_B_DEGLITCHER_THRES"
definition halcs_set_phase_meas :: "'p client_set" where [tim_rcv_client_defs]: 
  "halcs_set_phase_meas self service = param_client_write self service TIM_RCV_OPCODE_PHASE_MEAS"
definition halcs_get_phase_meas :: "'p client_get" where [tim_rcv_client_defs]: 
  "halcs_get_phase_meas self service = param_client_read self service TIM_RCV_OPCODE_PHASE_MEAS"
definition halcs_set_dmtd_a_freq :: "'p client_set" where [tim_rcv_client_defs]: 
  "halcs_set_dmtd_a_freq self service = param_client_write self service TIM_RCV_OPCODE_DMTD_A_FREQ"
definition halcs_get_dmtd_a_freq :: "'p client_get" where [tim_rcv_client_defs]: 
  "halcs_get_dmtd_a_freq self service = param_client_read self service TIM_RCV_OPCODE_DMTD_A_FREQ"
definition halcs_set_dmtd_a_valid :: "'p client_set" where [tim_rcv_client_defs]: 
  "halcs_set_dmtd_a_valid self service = param_client_write self service TIM_RCV_OPCODE_DMTD_A_VALID"
definition halcs_get_dmtd_a_valid :: "'p client_get" where [tim_rcv_client_defs]: 
  "halcs_get_dmtd_a_valid self service = param_client_read self service TIM_RCV_OPCODE_DMTD_A_VALID"
definition halcs_set_dmtd_b_freq :: "'p client_set" where [tim_rcv_client_defs]: 
  "halcs_set_dmtd_b_freq self service = param_client_write self service TIM_RCV_OPCODE_DMTD_B_FREQ"
definition halcs_get_dmtd_b_freq :: "'p client_get" where [tim_rcv_client_defs]: 
  "halcs_get_dmtd_b_freq self service = param_client_read self service TIM_RCV_OPCODE_DMTD_B_FREQ"
definition halcs_set_dmtd_b_valid :: "'p client_set" where [tim_rcv_client_defs]: 
  "halcs_set_dmtd_b_valid self service = param_client_write self service TIM_RCV_OPCODE_DMTD_B_VALID"
definition halcs_get_dmtd_b_valid :: "'p client_get" where [tim_rcv_client_defs]: 
  "halcs_get_dmtd_b_valid self service = param_client_read self service TIM_RCV_OPCODE_DMTD_B_VALID"

text \<open>The functions of each exported operation, in the order of the descriptors.\<close>

definition tim_rcv_client :: "'p client_fn list list" where
  "tim_rcv_client =
     [[Set_Fn halcs_set_phase_meas_navg, Get_Fn halcs_get_phase_meas_navg],
      [Set_Fn halcs_set_dmtd_a_deglitcher_thres, Get_Fn halcs_get_dmtd_a_deglitcher_thres],
      [Set_Fn halcs_set_dmtd_b_deglitcher_thres, Get_Fn halcs_get_dmtd_b_deglitcher_thres],
      [Set_Fn halcs_set_phase_meas, Get_Fn halcs_get_phase_meas],
      [Set_Fn halcs_set_dmtd_a_freq, Get_Fn halcs_get_dmtd_a_freq],
      [Set_Fn halcs_set_dmtd_a_valid, Get_Fn halcs_get_dmtd_a_valid],
      [Set_Fn halcs_set_dmtd_b_freq, Get_Fn halcs_get_dmtd_b_freq],
      [Set_Fn halcs_set_dmtd_b_valid, Get_Fn halcs_get_dmtd_b_valid]]"

lemma tim_rcv_client_fits: "list_all2 op_fits tim_rcv_exp_ops tim_rcv_client"
  by (simp add: tim_rcv_client_def tim_rcv_exp_ops_def tim_rcv_defs tim_rcv_client_defs exp_simps op_fits_def srv_args fn_calls_signed fun_eq_iff)

lemma tim_rcv_client_shape: "list_all2 (\<lambda>d. list_all (fn_shape d)) tim_rcv_params tim_rcv_client"
  by (simp add: tim_rcv_client_def tim_rcv_params_def spec_simps)

end
