(* ===== verification/Client_Orbit.thy ===== *)
theory Client_Orbit
  imports Client_Table Mod_Fofb Mod_Orbit
begin

text \<open>
  The client functions of the orbit feedback and the orbit interlock, halcs_client_core.c: each is a call of one of the general functions with
  the operation code of its parameter.
\<close>

section \<open>fofb_ctrl\<close>

named_theorems fofb_ctrl_client_defs

definition FOFB_CTRL_OPCODE_SET_GET_ACT_PART :: u32 where [fofb_ctrl_client_defs]: "FOFB_CTRL_OPCODE_SET_GET_ACT_PART = 0"
definition FOFB_CTRL_OPCODE_SET_GET_ERR_CLR :: u32 where [fofb_ctrl_client_defs]: "FOFB_CTRL_OPCODE_SET_GET_ERR_CLR = 1"
definition FOFB_CTRL_OPCODE_SET_GET_CC_ENABLE :: u32 where [fofb_ctrl_client_defs]: "FOFB_CTRL_OPCODE_SET_GET_CC_ENABLE = 2"
definition FOFB_CTRL_OPCODE_SET_GET_TFS_OVERRIDE :: u32 where [fofb_ctrl_client_defs]: "FOFB_CTRL_OPCODE_SET_GET_TFS_OVERRIDE = 3"
definition FOFB_CTRL_OPCODE_SET_GET_BPM_ID :: u32 where [fofb_ctrl_client_defs]: "FOFB_CTRL_OPCODE_SET_GET_BPM_ID = 200"
definition FOFB_CTRL_OPCODE_SET_GET_TIME_FRAME_LEN :: u32 where [fofb_ctrl_client_defs]: "FOFB_CTRL_OPCODE_SET_GET_TIME_FRAME_LEN = 201"
definition FOFB_CTRL_OPCODE_SET_GET_MGT_POWERDOWN :: u32 where [fofb_ctrl_client_defs]: "FOFB_CTRL_OPCODE_SET_GET_MGT_POWERDOWN = 202"
definition FOFB_CTRL_OPCODE_SET_GET_MGT_LOOPBACK :: u32 where [fofb_ctrl_client_defs]: "FOFB_CTRL_OPCODE_SET_GET_MGT_LOOPBACK = 203"
definition FOFB_CTRL_OPCODE_SET_GET_TIME_FRAME_DLY :: u32 where [fofb_ctrl_client_defs]: "FOFB_CTRL_OPCODE_SET_GET_TIME_FRAME_DLY = 204"
definition FOFB_CTRL_OPCODE_SET_GET_GOLDEN_ORB_X :: u32 where [fofb_ctrl_client_defs]: "FOFB_CTRL_OPCODE_SET_GET_GOLDEN_ORB_X = 205"
definition FOFB_CTRL_OPCODE_SET_GET_GOLDEN_ORB_Y :: u32 where [fofb_ctrl_client_defs]: "FOFB_CTRL_OPCODE_SET_GET_GOLDEN_ORB_Y = 206"
definition FOFB_CTRL_OPCODE_SET_GET_CUST_FEATURE :: u32 where [fofb_ctrl_client_defs]: "FOFB_CTRL_OPCODE_SET_GET_CUST_FEATURE = 207"
definition FOFB_CTRL_OPCODE_SET_GET_RX_POLARITY :: u32 where [fofb_ctrl_client_defs]: "FOFB_CTRL_OPCODE_SET_GET_RX_POLARITY = 208"
definition FOFB_CTRL_OPCODE_SET_GET_PAYLOADSEL :: u32 where [fofb_ctrl_client_defs]: "FOFB_CTRL_OPCODE_SET_GET_PAYLOADSEL = 209"
definition FOFB_CTRL_OPCODE_SET_GET_FOFBDATASEL :: u32 where [fofb_ctrl_client_defs]: "FOFB_CTRL_OPCODE_SET_GET_FOFBDATASEL = 210"
definition FOFB_CTRL_OPCODE_SET_GET_FIRMWARE_VER :: u32 where [fofb_ctrl_client_defs]: "FOFB_CTRL_OPCODE_SET_GET_FIRMWARE_VER = 211"
definition FOFB_CTRL_OPCODE_SET_GET_SYS_STATUS :: u32 where [fofb_ctrl_client_defs]: "FOFB_CTRL_OPCODE_SET_GET_SYS_STATUS = 212"
definition FOFB_CTRL_OPCODE_SET_GET_LINK_PARTNER_1 :: u32 where [fofb_ctrl_client_defs]: "FOFB_CTRL_OPCODE_SET_GET_LINK_PARTNER_1 = 213"
definition FOFB_CTRL_OPCODE_SET_GET_LINK_PARTNER_2 :: u32 where [fofb_ctrl_client_defs]: "FOFB_CTRL_OPCODE_SET_GET_LINK_PARTNER_2 = 214"
definition FOFB_CTRL_OPCODE_SET_GET_LINK_PARTNER_3 :: u32 where [fofb_ctrl_client_defs]: "FOFB_CTRL_OPCODE_SET_GET_LINK_PARTNER_3 = 215"
definition FOFB_CTRL_OPCODE_SET_GET_LINK_PARTNER_4 :: u32 where [fofb_ctrl_client_defs]: "FOFB_CTRL_OPCODE_SET_GET_LINK_PARTNER_4 = 216"
definition FOFB_CTRL_OPCODE_SET_GET_LINK_UP :: u32 where [fofb_ctrl_client_defs]: "FOFB_CTRL_OPCODE_SET_GET_LINK_UP = 217"
definition FOFB_CTRL_OPCODE_SET_GET_TIME_FRAME_COUNT :: u32 where [fofb_ctrl_client_defs]: "FOFB_CTRL_OPCODE_SET_GET_TIME_FRAME_COUNT = 218"
definition FOFB_CTRL_OPCODE_SET_GET_HARD_ERR_CNT_1 :: u32 where [fofb_ctrl_client_defs]: "FOFB_CTRL_OPCODE_SET_GET_HARD_ERR_CNT_1 = 219"
definition FOFB_CTRL_OPCODE_SET_GET_HARD_ERR_CNT_2 :: u32 where [fofb_ctrl_client_defs]: "FOFB_CTRL_OPCODE_SET_GET_HARD_ERR_CNT_2 = 220"
definition FOFB_CTRL_OPCODE_SET_GET_HARD_ERR_CNT_3 :: u32 where [fofb_ctrl_client_defs]: "FOFB_CTRL_OPCODE_SET_GET_HARD_ERR_CNT_3 = 221"
definition FOFB_CTRL_OPCODE_SET_GET_HARD_ERR_CNT_4 :: u32 where [fofb_ctrl_client_defs]: "FOFB_CTRL_OPCODE_SET_GET_HARD_ERR_CNT_4 = 222"
definition FOFB_CTRL_OPCODE_SET_GET_SOFT_ERR_CNT_1 :: u32 where [fofb_ctrl_client_defs]: "FOFB_CTRL_OPCODE_SET_GET_SOFT_ERR_CNT_1 = 223"
definition FOFB_CTRL_OPCODE_SET_GET_SOFT_ERR_CNT_2 :: u32 where [fofb_ctrl_client_defs]: "FOFB_CTRL_OPCODE_SET_GET_SOFT_ERR_CNT_2 = 224"
definition FOFB_CTRL_OPCODE_SET_GET_SOFT_ERR_CNT_3 :: u32 where [fofb_ctrl_client_defs]: "FOFB_CTRL_OPCODE_SET_GET_SOFT_ERR_CNT_3 = 225"
definition FOFB_CTRL_OPCODE_SET_GET_SOFT_ERR_CNT_4 :: u32 where [fofb_ctrl_client_defs]: "FOFB_CTRL_OPCODE_SET_GET_SOFT_ERR_CNT_4 = 226"
definition FOFB_CTRL_OPCODE_SET_GET_FRAME_ERR_CNT_1 :: u32 where [fofb_ctrl_client_defs]: "FOFB_CTRL_OPCODE_SET_GET_FRAME_ERR_CNT_1 = 227"
definition FOFB_CTRL_OPCODE_SET_GET_FRAME_ERR_CNT_2 :: u32 where [fofb_ctrl_client_defs]: "FOFB_CTRL_OPCODE_SET_GET_FRAME_ERR_CNT_2 = 228"
definition FOFB_CTRL_OPCODE_SET_GET_FRAME_ERR_CNT_3 :: u32 where [fofb_ctrl_client_defs]: "FOFB_CTRL_OPCODE_SET_GET_FRAME_ERR_CNT_3 = 229"
definition FOFB_CTRL_OPCODE_SET_GET_FRAME_ERR_CNT_4 :: u32 where [fofb_ctrl_client_defs]: "FOFB_CTRL_OPCODE_SET_GET_FRAME_ERR_CNT_4 = 230"
definition FOFB_CTRL_OPCODE_SET_GET_RX_PCK_CNT_1 :: u32 where [fofb_ctrl_client_defs]: "FOFB_CTRL_OPCODE_SET_GET_RX_PCK_CNT_1 = 235"
definition FOFB_CTRL_OPCODE_SET_GET_RX_PCK_CNT_2 :: u32 where [fofb_ctrl_client_defs]: "FOFB_CTRL_OPCODE_SET_GET_RX_PCK_CNT_2 = 236"
definition FOFB_CTRL_OPCODE_SET_GET_RX_PCK_CNT_3 :: u32 where [fofb_ctrl_client_defs]: "FOFB_CTRL_OPCODE_SET_GET_RX_PCK_CNT_3 = 237"
definition FOFB_CTRL_OPCODE_SET_GET_RX_PCK_CNT_4 :: u32 where [fofb_ctrl_client_defs]: "FOFB_CTRL_OPCODE_SET_GET_RX_PCK_CNT_4 = 238"
definition FOFB_CTRL_OPCODE_SET_GET_TX_PCK_CNT_1 :: u32 where [fofb_ctrl_client_defs]: "FOFB_CTRL_OPCODE_SET_GET_TX_PCK_CNT_1 = 239"
definition FOFB_CTRL_OPCODE_SET_GET_TX_PCK_CNT_2 :: u32 where [fofb_ctrl_client_defs]: "FOFB_CTRL_OPCODE_SET_GET_TX_PCK_CNT_2 = 240"
definition FOFB_CTRL_OPCODE_SET_GET_TX_PCK_CNT_3 :: u32 where [fofb_ctrl_client_defs]: "FOFB_CTRL_OPCODE_SET_GET_TX_PCK_CNT_3 = 241"
definition FOFB_CTRL_OPCODE_SET_GET_TX_PCK_CNT_4 :: u32 where [fofb_ctrl_client_defs]: "FOFB_CTRL_OPCODE_SET_GET_TX_PCK_CNT_4 = 242"
definition FOFB_CTRL_OPCODE_SET_GET_FOD_PROCESS_TIME :: u32 where [fofb_ctrl_client_defs]: "FOFB_CTRL_OPCODE_SET_GET_FOD_PROCESS_TIME = 243"
definition FOFB_CTRL_OPCODE_SET_GET_BPM_COUNT :: u32 where [fofb_ctrl_client_defs]: "FOFB_CTRL_OPCODE_SET_GET_BPM_COUNT = 244"
definition FOFB_CTRL_OPCODE_SET_GET_BPM_ID_RDBACK :: u32 where [fofb_ctrl_client_defs]: "FOFB_CTRL_OPCODE_SET_GET_BPM_ID_RDBACK = 245"
definition FOFB_CTRL_OPCODE_SET_GET_TF_LENGTH_RDBACK :: u32 where [fofb_ctrl_client_defs]: "FOFB_CTRL_OPCODE_SET_GET_TF_LENGTH_RDBACK = 246"
definition FOFB_CTRL_OPCODE_SET_GET_POWERDOWN_RDBACK :: u32 where [fofb_ctrl_client_defs]: "FOFB_CTRL_OPCODE_SET_GET_POWERDOWN_RDBACK = 247"
definition FOFB_CTRL_OPCODE_SET_GET_LOOPBACK_RDBACK :: u32 where [fofb_ctrl_client_defs]: "FOFB_CTRL_OPCODE_SET_GET_LOOPBACK_RDBACK = 248"
definition FOFB_CTRL_OPCODE_SET_GET_FAIVAL_RDBACK :: u32 where [fofb_ctrl_client_defs]: "FOFB_CTRL_OPCODE_SET_GET_FAIVAL_RDBACK = 249"

definition halcs_set_fofb_ctrl_act_part :: "'p client_set" where [fofb_ctrl_client_defs]: 
  "halcs_set_fofb_ctrl_act_part self service = param_client_write self service FOFB_CTRL_OPCODE_SET_GET_ACT_PART"
definition halcs_get_fofb_ctrl_act_part :: "'p client_get" where [fofb_ctrl_client_defs]: 
  "halcs_get_fofb_ctrl_act_part self service = param_client_read self service FOFB_CTRL_OPCODE_SET_GET_ACT_PART"
definition halcs_set_fofb_ctrl_err_clr :: "'p client_set" where [fofb_ctrl_client_defs]: 
  "halcs_set_fofb_ctrl_err_clr self service = param_client_write self service FOFB_CTRL_OPCODE_SET_GET_ERR_CLR"
definition halcs_get_fofb_ctrl_err_clr :: "'p client_get" where [fofb_ctrl_client_defs]: 
  "halcs_get_fofb_ctrl_err_clr self service = param_client_read self service FOFB_CTRL_OPCODE_SET_GET_ERR_CLR"
definition halcs_set_fofb_ctrl_cc_enable :: "'p client_set" where [fofb_ctrl_client_defs]: 
  "halcs_set_fofb_ctrl_cc_enable self service = param_client_write self service FOFB_CTRL_OPCODE_SET_GET_CC_ENABLE"
definition halcs_get_fofb_ctrl_cc_enable :: "'p client_get" where [fofb_ctrl_client_defs]: 
  "halcs_get_fofb_ctrl_cc_enable self service = param_client_read self service FOFB_CTRL_OPCODE_SET_GET_CC_ENABLE"
definition halcs_set_fofb_ctrl_tfs_override :: "'p client_set" where [fofb_ctrl_client_defs]: 
  "halcs_set_fofb_ctrl_tfs_override self service = param_client_write self service FOFB_CTRL_OPCODE_SET_GET_TFS_OVERRIDE"
definition halcs_get_fofb_ctrl_tfs_override :: "'p client_get" where [fofb_ctrl_client_defs]: 
  "halcs_get_fofb_ctrl_tfs_override self service = param_client_read self service FOFB_CTRL_OPCODE_SET_GET_TFS_OVERRIDE"
definition halcs_set_fofb_ctrl_bpm_id :: "'p client_set" where [fofb_ctrl_client_defs]: 
  "halcs_set_fofb_ctrl_bpm_id self service = param_client_write self service FOFB_CTRL_OPCODE_SET_GET_BPM_ID"
definition halcs_get_fofb_ctrl_bpm_id :: "'p client_get" where [fofb_ctrl_client_defs]: 
  "halcs_get_fofb_ctrl_bpm_id self service = param_client_read self service FOFB_CTRL_OPCODE_SET_GET_BPM_ID"
definition halcs_set_fofb_ctrl_time_frame_len :: "'p client_set" where [fofb_ctrl_client_defs]: 
  "halcs_set_fofb_ctrl_time_frame_len self service = param_client_write self service FOFB_CTRL_OPCODE_SET_GET_TIME_FRAME_LEN"
definition halcs_get_fofb_ctrl_time_frame_len :: "'p client_get" where [fofb_ctrl_client_defs]: 
  "halcs_get_fofb_ctrl_time_frame_len self service = param_client_read self service FOFB_CTRL_OPCODE_SET_GET_TIME_FRAME_LEN"
definition halcs_set_fofb_ctrl_mgt_powerdown :: "'p client_set" where [fofb_ctrl_client_defs]: 
  "halcs_set_fofb_ctrl_mgt_powerdown self service = param_client_write self service FOFB_CTRL_OPCODE_SET_GET_MGT_POWERDOWN"
definition halcs_get_fofb_ctrl_mgt_powerdown :: "'p client_get" where [fofb_ctrl_client_defs]: 
  "halcs_get_fofb_ctrl_mgt_powerdown self service = param_client_read self service FOFB_CTRL_OPCODE_SET_GET_MGT_POWERDOWN"
definition halcs_set_fofb_ctrl_mgt_loopback :: "'p client_set" where [fofb_ctrl_client_defs]: 
  "halcs_set_fofb_ctrl_mgt_loopback self service = param_client_write self service FOFB_CTRL_OPCODE_SET_GET_MGT_LOOPBACK"
definition halcs_get_fofb_ctrl_mgt_loopback :: "'p client_get" where [fofb_ctrl_client_defs]: 
  "halcs_get_fofb_ctrl_mgt_loopback self service = param_client_read self service FOFB_CTRL_OPCODE_SET_GET_MGT_LOOPBACK"
definition halcs_set_fofb_ctrl_time_frame_dly :: "'p client_set" where [fofb_ctrl_client_defs]: 
  "halcs_set_fofb_ctrl_time_frame_dly self service = param_client_write self service FOFB_CTRL_OPCODE_SET_GET_TIME_FRAME_DLY"
definition halcs_get_fofb_ctrl_time_frame_dly :: "'p client_get" where [fofb_ctrl_client_defs]: 
  "halcs_get_fofb_ctrl_time_frame_dly self service = param_client_read self service FOFB_CTRL_OPCODE_SET_GET_TIME_FRAME_DLY"
definition halcs_set_fofb_ctrl_golden_orb_x :: "'p client_set" where [fofb_ctrl_client_defs]: 
  "halcs_set_fofb_ctrl_golden_orb_x self service = param_client_write self service FOFB_CTRL_OPCODE_SET_GET_GOLDEN_ORB_X"
definition halcs_get_fofb_ctrl_golden_orb_x :: "'p client_get" where [fofb_ctrl_client_defs]: 
  "halcs_get_fofb_ctrl_golden_orb_x self service = param_client_read self service FOFB_CTRL_OPCODE_SET_GET_GOLDEN_ORB_X"
definition halcs_set_fofb_ctrl_golden_orb_y :: "'p client_set" where [fofb_ctrl_client_defs]: 
  "halcs_set_fofb_ctrl_golden_orb_y self service = param_client_write self service FOFB_CTRL_OPCODE_SET_GET_GOLDEN_ORB_Y"
definition halcs_get_fofb_ctrl_golden_orb_y :: "'p client_get" where [fofb_ctrl_client_defs]: 
  "halcs_get_fofb_ctrl_golden_orb_y self service = param_client_read self service FOFB_CTRL_OPCODE_SET_GET_GOLDEN_ORB_Y"
definition halcs_set_fofb_ctrl_cust_feature :: "'p client_set" where [fofb_ctrl_client_defs]: 
  "halcs_set_fofb_ctrl_cust_feature self service = param_client_write self service FOFB_CTRL_OPCODE_SET_GET_CUST_FEATURE"
definition halcs_get_fofb_ctrl_cust_feature :: "'p client_get" where [fofb_ctrl_client_defs]: 
  "halcs_get_fofb_ctrl_cust_feature self service = param_client_read self service FOFB_CTRL_OPCODE_SET_GET_CUST_FEATURE"
definition halcs_set_fofb_ctrl_rx_polarity :: "'p client_set" where [fofb_ctrl_client_defs]: 
  "halcs_set_fofb_ctrl_rx_polarity self service = param_client_write self service FOFB_CTRL_OPCODE_SET_GET_RX_POLARITY"
definition halcs_get_fofb_ctrl_rx_polarity :: "'p client_get" where [fofb_ctrl_client_defs]: 
  "halcs_get_fofb_ctrl_rx_polarity self service = param_client_read self service FOFB_CTRL_OPCODE_SET_GET_RX_POLARITY"
definition halcs_set_fofb_ctrl_payloadsel :: "'p client_set" where [fofb_ctrl_client_defs]: 
  "halcs_set_fofb_ctrl_payloadsel self service = param_client_write self service FOFB_CTRL_OPCODE_SET_GET_PAYLOADSEL"
definition halcs_get_fofb_ctrl_payloadsel :: "'p client_get" where [fofb_ctrl_client_defs]: 
  "halcs_get_fofb_ctrl_payloadsel self service = param_client_read self service FOFB_CTRL_OPCODE_SET_GET_PAYLOADSEL"
definition halcs_set_fofb_ctrl_fofbdatasel :: "'p client_set" where [fofb_ctrl_client_defs]: 
  "halcs_set_fofb_ctrl_fofbdatasel self service = param_client_write self service FOFB_CTRL_OPCODE_SET_GET_FOFBDATASEL"
definition halcs_get_fofb_ctrl_fofbdatasel :: "'p client_get" where [fofb_ctrl_client_defs]: 
  "halcs_get_fofb_ctrl_fofbdatasel self service = param_client_read self service FOFB_CTRL_OPCODE_SET_GET_FOFBDATASEL"
definition halcs_get_fofb_ctrl_firmware_ver :: "'p client_get" where [fofb_ctrl_client_defs]: 
  "halcs_get_fofb_ctrl_firmware_ver self service = param_client_read self service FOFB_CTRL_OPCODE_SET_GET_FIRMWARE_VER"
definition halcs_get_fofb_ctrl_sys_status :: "'p client_get" where [fofb_ctrl_client_defs]: 
  "halcs_get_fofb_ctrl_sys_status self service = param_client_read self service FOFB_CTRL_OPCODE_SET_GET_SYS_STATUS"
definition halcs_get_fofb_ctrl_link_partner_1 :: "'p client_get" where [fofb_ctrl_client_defs]: 
  "halcs_get_fofb_ctrl_link_partner_1 self service = param_client_read self service FOFB_CTRL_OPCODE_SET_GET_LINK_PARTNER_1"
definition halcs_get_fofb_ctrl_link_partner_2 :: "'p client_get" where [fofb_ctrl_client_defs]: 
  "halcs_get_fofb_ctrl_link_partner_2 self service = param_client_read self service FOFB_CTRL_OPCODE_SET_GET_LINK_PARTNER_2"
definition halcs_get_fofb_ctrl_link_partner_3 :: "'p client_get" where [fofb_ctrl_client_defs]: 
  "halcs_get_fofb_ctrl_link_partner_3 self service = param_client_read self service FOFB_CTRL_OPCODE_SET_GET_LINK_PARTNER_3"
definition halcs_get_fofb_ctrl_link_partner_4 :: "'p client_get" where [fofb_ctrl_client_defs]: 
  "halcs_get_fofb_ctrl_link_partner_4 self service = param_client_read self service FOFB_CTRL_OPCODE_SET_GET_LINK_PARTNER_4"
definition halcs_get_fofb_ctrl_link_up :: "'p client_get" where [fofb_ctrl_client_defs]: 
  "halcs_get_fofb_ctrl_link_up self service = param_client_read self service FOFB_CTRL_OPCODE_SET_GET_LINK_UP"
definition halcs_get_fofb_ctrl_time_frame_count :: "'p client_get" where [fofb_ctrl_client_defs]: 
  "halcs_get_fofb_ctrl_time_frame_count self service = param_client_read self service FOFB_CTRL_OPCODE_SET_GET_TIME_FRAME_COUNT"
definition halcs_get_fofb_ctrl_hard_err_cnt_1 :: "'p client_get" where [fofb_ctrl_client_defs]: 
  "halcs_get_fofb_ctrl_hard_err_cnt_1 self service = param_client_read self service FOFB_CTRL_OPCODE_SET_GET_HARD_ERR_CNT_1"
definition halcs_get_fofb_ctrl_hard_err_cnt_2 :: "'p client_get" where [fofb_ctrl_client_defs]: 
  "halcs_get_fofb_ctrl_hard_err_cnt_2 self service = param_client_read self service FOFB_CTRL_OPCODE_SET_GET_HARD_ERR_CNT_2"
definition halcs_get_fofb_ctrl_hard_err_cnt_3 :: "'p client_get" where [fofb_ctrl_client_defs]: 
  "halcs_get_fofb_ctrl_hard_err_cnt_3 self service = param_client_read self service FOFB_CTRL_OPCODE_SET_GET_HARD_ERR_CNT_3"
definition halcs_get_fofb_ctrl_hard_err_cnt_4 :: "'p client_get" where [fofb_ctrl_client_defs]: 
  "halcs_get_fofb_ctrl_hard_err_cnt_4 self service = param_client_read self service FOFB_CTRL_OPCODE_SET_GET_HARD_ERR_CNT_4"
definition halcs_get_fofb_ctrl_soft_err_cnt_1 :: "'p client_get" where [fofb_ctrl_client_defs]: 
  "halcs_get_fofb_ctrl_soft_err_cnt_1 self service = param_client_read self service FOFB_CTRL_OPCODE_SET_GET_SOFT_ERR_CNT_1"
definition halcs_get_fofb_ctrl_soft_err_cnt_2 :: "'p client_get" where [fofb_ctrl_client_defs]: 
  "halcs_get_fofb_ctrl_soft_err_cnt_2 self service = param_client_read self service FOFB_CTRL_OPCODE_SET_GET_SOFT_ERR_CNT_2"
definition halcs_get_fofb_ctrl_soft_err_cnt_3 :: "'p client_get" where [fofb_ctrl_client_defs]: 
  "halcs_get_fofb_ctrl_soft_err_cnt_3 self service = param_client_read self service FOFB_CTRL_OPCODE_SET_GET_SOFT_ERR_CNT_3"
definition halcs_get_fofb_ctrl_soft_err_cnt_4 :: "'p client_get" where [fofb_ctrl_client_defs]: 
  "halcs_get_fofb_ctrl_soft_err_cnt_4 self service = param_client_read self service FOFB_CTRL_OPCODE_SET_GET_SOFT_ERR_CNT_4"
definition halcs_get_fofb_ctrl_frame_err_cnt_1 :: "'p client_get" where [fofb_ctrl_client_defs]: 
  "halcs_get_fofb_ctrl_frame_err_cnt_1 self service = param_client_read self service FOFB_CTRL_OPCODE_SET_GET_FRAME_ERR_CNT_1"
definition halcs_get_fofb_ctrl_frame_err_cnt_2 :: "'p client_get" where [fofb_ctrl_client_defs]: 
  "halcs_get_fofb_ctrl_frame_err_cnt_2 self service = param_client_read self service FOFB_CTRL_OPCODE_SET_GET_FRAME_ERR_CNT_2"
definition halcs_get_fofb_ctrl_frame_err_cnt_3 :: "'p client_get" where [fofb_ctrl_client_defs]: 
  "halcs_get_fofb_ctrl_frame_err_cnt_3 self service = param_client_read self service FOFB_CTRL_OPCODE_SET_GET_FRAME_ERR_CNT_3"
definition halcs_get_fofb_ctrl_frame_err_cnt_4 :: "'p client_get" where [fofb_ctrl_client_defs]: 
  "halcs_get_fofb_ctrl_frame_err_cnt_4 self service = param_client_read self service FOFB_CTRL_OPCODE_SET_GET_FRAME_ERR_CNT_4"
definition halcs_get_fofb_ctrl_rx_pck_cnt_1 :: "'p client_get" where [fofb_ctrl_client_defs]: 
  "halcs_get_fofb_ctrl_rx_pck_cnt_1 self service = param_client_read self service FOFB_CTRL_OPCODE_SET_GET_RX_PCK_CNT_1"
definition halcs_get_fofb_ctrl_rx_pck_cnt_2 :: "'p client_get" where [fofb_ctrl_client_defs]: 
  "halcs_get_fofb_ctrl_rx_pck_cnt_2 self service = param_client_read self service FOFB_CTRL_OPCODE_SET_GET_RX_PCK_CNT_2"
definition halcs_get_fofb_ctrl_rx_pck_cnt_3 :: "'p client_get" where [fofb_ctrl_client_defs]: 
  "halcs_get_fofb_ctrl_rx_pck_cnt_3 self service = param_client_read self service FOFB_CTRL_OPCODE_SET_GET_RX_PCK_CNT_3"
definition halcs_get_fofb_ctrl_rx_pck_cnt_4 :: "'p client_get" where [fofb_ctrl_client_defs]: 
  "halcs_get_fofb_ctrl_rx_pck_cnt_4 self service = param_client_read self service FOFB_CTRL_OPCODE_SET_GET_RX_PCK_CNT_4"
definition halcs_get_fofb_ctrl_tx_pck_cnt_1 :: "'p client_get" where [fofb_ctrl_client_defs]: 
  "halcs_get_fofb_ctrl_tx_pck_cnt_1 self service = param_client_read self service FOFB_CTRL_OPCODE_SET_GET_TX_PCK_CNT_1"
definition halcs_get_fofb_ctrl_tx_pck_cnt_2 :: "'p client_get" where [fofb_ctrl_client_defs]: 
  "halcs_get_fofb_ctrl_tx_pck_cnt_2 self service = param_client_read self service FOFB_CTRL_OPCODE_SET_GET_TX_PCK_CNT_2"
definition halcs_get_fofb_ctrl_tx_pck_cnt_3 :: "'p client_get" where [fofb_ctrl_client_defs]: 
  "halcs_get_fofb_ctrl_tx_pck_cnt_3 self service = param_client_read self service FOFB_CTRL_OPCODE_SET_GET_TX_PCK_CNT_3"
definition halcs_get_fofb_ctrl_tx_pck_cnt_4 :: "'p client_get" where [fofb_ctrl_client_defs]: 
  "halcs_get_fofb_ctrl_tx_pck_cnt_4 self service = param_client_read self service FOFB_CTRL_OPCODE_SET_GET_TX_PCK_CNT_4"
definition halcs_get_fofb_ctrl_fod_process_time :: "'p client_get" where [fofb_ctrl_client_defs]: 
  "halcs_get_fofb_ctrl_fod_process_time self service = param_client_read self service FOFB_CTRL_OPCODE_SET_GET_FOD_PROCESS_TIME"
definition halcs_get_fofb_ctrl_bpm_count :: "'p client_get" where [fofb_ctrl_client_defs]: 
  "halcs_get_fofb_ctrl_bpm_count self service = param_client_read self service FOFB_CTRL_OPCODE_SET_GET_BPM_COUNT"
definition halcs_get_fofb_ctrl_bpm_id_rdback :: "'p client_get" where [fofb_ctrl_client_defs]: 
  "halcs_get_fofb_ctrl_bpm_id_rdback self service = param_client_read self service FOFB_CTRL_OPCODE_SET_GET_BPM_ID_RDBACK"
definition halcs_get_fofb_ctrl_tf_length_rdback :: "'p client_get" where [fofb_ctrl_client_defs]: 
  "halcs_get_fofb_ctrl_tf_length_rdback self service = param_client_read self service FOFB_CTRL_OPCODE_SET_GET_TF_LENGTH_RDBACK"
definition halcs_get_fofb_ctrl_powerdown_rdback :: "'p client_get" where [fofb_ctrl_client_defs]: 
  "halcs_get_fofb_ctrl_powerdown_rdback self service = param_client_read self service FOFB_CTRL_OPCODE_SET_GET_POWERDOWN_RDBACK"
definition halcs_get_fofb_ctrl_loopback_rdback :: "'p client_get" where [fofb_ctrl_client_defs]: 
  "halcs_get_fofb_ctrl_loopback_rdback self service = param_client_read self service FOFB_CTRL_OPCODE_SET_GET_LOOPBACK_RDBACK"
definition halcs_get_fofb_ctrl_faival_rdback :: "'p client_get" where [fofb_ctrl_client_defs]: 
  "halcs_get_fofb_ctrl_faival_rdback self service = param_client_read self service FOFB_CTRL_OPCODE_SET_GET_FAIVAL_RDBACK"

text \<open>The functions of each exported operation, in the order of the descriptors.\<close>

definition fofb_ctrl_client :: "'p client_fn list list" where
  "fofb_ctrl_client =
     [[Set_Fn halcs_set_fofb_ctrl_act_part, Get_Fn halcs_get_fofb_ctrl_act_part],
      [Set_Fn halcs_set_fofb_ctrl_err_clr, Get_Fn halcs_get_fofb_ctrl_err_clr],
      [Set_Fn halcs_set_fofb_ctrl_cc_enable, Get_Fn halcs_get_fofb_ctrl_cc_enable],
      [Set_Fn halcs_set_fofb_ctrl_tfs_override, Get_Fn halcs_get_fofb_ctrl_tfs_override],
      [Set_Fn halcs_set_fofb_ctrl_bpm_id, Get_Fn halcs_get_fofb_ctrl_bpm_id],
      [Set_Fn halcs_set_fofb_ctrl_time_frame_len, Get_Fn halcs_get_fofb_ctrl_time_frame_len],
      [Set_Fn halcs_set_fofb_ctrl_mgt_powerdown, Get_Fn halcs_get_fofb_ctrl_mgt_powerdown],
      [Set_Fn halcs_set_fofb_ctrl_mgt_loopback, Get_Fn halcs_get_fofb_ctrl_mgt_loopback],
      [Set_Fn halcs_set_fofb_ctrl_time_frame_dly, Get_Fn halcs_get_fofb_ctrl_time_frame_dly],
      [Set_Fn halcs_set_fofb_ctrl_golden_orb_x, Get_Fn halcs_get_fofb_ctrl_golden_orb_x],
      [Set_Fn halcs_set_fofb_ctrl_golden_orb_y, Get_Fn halcs_get_fofb_ctrl_golden_orb_y],
      [Set_Fn halcs_set_fofb_ctrl_cust_feature, Get_Fn halcs_get_fofb_ctrl_cust_feature],
      [Set_Fn halcs_set_fofb_ctrl_rx_polarity, Get_Fn halcs_get_fofb_ctrl_rx_polarity],
      [Set_Fn halcs_set_fofb_ctrl_payloadsel, Get_Fn halcs_get_fofb_ctrl_payloadsel],
      [Set_Fn halcs_set_fofb_ctrl_fofbdatasel, Get_Fn halcs_get_fofb_ctrl_fofbdatasel],
      [Get_Fn halcs_get_fofb_ctrl_firmware_ver],
      [Get_Fn halcs_get_fofb_ctrl_sys_status],
      [Get_Fn halcs_get_fofb_ctrl_link_partner_1],
      [Get_Fn halcs_get_fofb_ctrl_link_partner_2],
      [Get_Fn halcs_get_fofb_ctrl_link_partner_3],
      [Get_Fn halcs_get_fofb_ctrl_link_partner_4],
      [Get_Fn halcs_get_fofb_ctrl_link_up],
      [Get_Fn halcs_get_fofb_ctrl_time_frame_count],
      [Get_Fn halcs_get_fofb_ctrl_hard_err_cnt_1],
      [Get_Fn halcs_get_fofb_ctrl_hard_err_cnt_2],
      [Get_Fn halcs_get_fofb_ctrl_hard_err_cnt_3],
      [Get_Fn halcs_get_fofb_ctrl_hard_err_cnt_4],
      [Get_Fn halcs_get_fofb_ctrl_soft_err_cnt_1],
      [Get_Fn halcs_get_fofb_ctrl_soft_err_cnt_2],
      [Get_Fn halcs_get_fofb_ctrl_soft_err_cnt_3],
      [Get_Fn halcs_get_fofb_ctrl_soft_err_cnt_4],
      [Get_Fn halcs_get_fofb_ctrl_frame_err_cnt_1],
      [Get_Fn halcs_get_fofb_ctrl_frame_err_cnt_2],
      [Get_Fn halcs_get_fofb_ctrl_frame_err_cnt_3],
      [Get_Fn halcs_get_fofb_ctrl_frame_err_cnt_4],
      [Get_Fn halcs_get_fofb_ctrl_rx_pck_cnt_1],
      [Get_Fn halcs_get_fofb_ctrl_rx_pck_cnt_2],
      [Get_Fn halcs_get_fofb_ctrl_rx_pck_cnt_3],
      [Get_Fn halcs_get_fofb_ctrl_rx_pck_cnt_4],
      [Get_Fn halcs_get_fofb_ctrl_tx_pck_cnt_1],
      [Get_Fn halcs_get_fofb_ctrl_tx_pck_cnt_2],
      [Get_Fn halcs_get_fofb_ctrl_tx_pck_cnt_3],
      [Get_Fn halcs_get_fofb_ctrl_tx_pck_cnt_4],
      [Get_Fn halcs_get_fofb_ctrl_fod_process_time],
      [Get_Fn halcs_get_fofb_ctrl_bpm_count],
      [Get_Fn halcs_get_fofb_ctrl_bpm_id_rdback],
      [Get_Fn halcs_get_fofb_ctrl_tf_length_rdback],
      [Get_Fn halcs_get_fofb_ctrl_powerdown_rdback],
      [Get_Fn halcs_get_fofb_ctrl_loopback_rdback],
      [Get_Fn halcs_get_fofb_ctrl_faival_rdback]]"

lemma fofb_ctrl_client_fits: "list_all2 op_fits fofb_ctrl_exp_ops fofb_ctrl_client"
  by (simp add: fofb_ctrl_client_def fofb_ctrl_exp_ops_def fofb_ctrl_defs fofb_ctrl_client_defs exp_simps op_fits_def srv_args fn_calls_signed fun_eq_iff)

lemma fofb_ctrl_client_shape: "list_all2 (\<lambda>d. list_all (fn_shape d)) fofb_ctrl_params fofb_ctrl_client"
  by (simp add: fofb_ctrl_client_def fofb_ctrl_params_def spec_simps)

section \<open>orbit_intlk\<close>

named_theorems orbit_intlk_client_defs

definition ORBIT_INTLK_OPCODE_SET_GET_EN :: u32 where [orbit_intlk_client_defs]: "ORBIT_INTLK_OPCODE_SET_GET_EN = 0"
definition ORBIT_INTLK_OPCODE_SET_GET_CLR :: u32 where [orbit_intlk_client_defs]: "ORBIT_INTLK_OPCODE_SET_GET_CLR = 1"
definition ORBIT_INTLK_OPCODE_SET_GET_MIN_SUM_EN :: u32 where [orbit_intlk_client_defs]: "ORBIT_INTLK_OPCODE_SET_GET_MIN_SUM_EN = 2"
definition ORBIT_INTLK_OPCODE_SET_GET_TRANS_EN :: u32 where [orbit_intlk_client_defs]: "ORBIT_INTLK_OPCODE_SET_GET_TRANS_EN = 3"
definition ORBIT_INTLK_OPCODE_SET_GET_TRANS_CLR :: u32 where [orbit_intlk_client_defs]: "ORBIT_INTLK_OPCODE_SET_GET_TRANS_CLR = 4"
definition ORBIT_INTLK_OPCODE_SET_GET_ANG_EN :: u32 where [orbit_intlk_client_defs]: "ORBIT_INTLK_OPCODE_SET_GET_ANG_EN = 5"
definition ORBIT_INTLK_OPCODE_SET_GET_ANG_CLR :: u32 where [orbit_intlk_client_defs]: "ORBIT_INTLK_OPCODE_SET_GET_ANG_CLR = 6"
definition ORBIT_INTLK_OPCODE_SET_GET_TRANS_BIGGER_X :: u32 where [orbit_intlk_client_defs]: "ORBIT_INTLK_OPCODE_SET_GET_TRANS_BIGGER_X = 7"
definition ORBIT_INTLK_OPCODE_SET_GET_TRANS_BIGGER_Y :: u32 where [orbit_intlk_client_defs]: "ORBIT_INTLK_OPCODE_SET_GET_TRANS_BIGGER_Y = 8"
definition ORBIT_INTLK_OPCODE_SET_GET_TRANS_BIGGER_LTC_X :: u32 where [orbit_intlk_client_defs]: "ORBIT_INTLK_OPCODE_SET_GET_TRANS_BIGGER_LTC_X = 9"
definition ORBIT_INTLK_OPCODE_SET_GET_TRANS_BIGGER_LTC_Y :: u32 where [orbit_intlk_client_defs]: "ORBIT_INTLK_OPCODE_SET_GET_TRANS_BIGGER_LTC_Y = 10"
definition ORBIT_INTLK_OPCODE_SET_GET_TRANS_BIGGER_ANY :: u32 where [orbit_intlk_client_defs]: "ORBIT_INTLK_OPCODE_SET_GET_TRANS_BIGGER_ANY = 11"
definition ORBIT_INTLK_OPCODE_SET_GET_TRANS_BIGGER :: u32 where [orbit_intlk_client_defs]: "ORBIT_INTLK_OPCODE_SET_GET_TRANS_BIGGER = 12"
definition ORBIT_INTLK_OPCODE_SET_GET_TRANS_BIGGER_LTC :: u32 where [orbit_intlk_client_defs]: "ORBIT_INTLK_OPCODE_SET_GET_TRANS_BIGGER_LTC = 13"
definition ORBIT_INTLK_OPCODE_SET_GET_ANG_BIGGER_X :: u32 where [orbit_intlk_client_defs]: "ORBIT_INTLK_OPCODE_SET_GET_ANG_BIGGER_X = 14"
definition ORBIT_INTLK_OPCODE_SET_GET_ANG_BIGGER_Y :: u32 where [orbit_intlk_client_defs]: "ORBIT_INTLK_OPCODE_SET_GET_ANG_BIGGER_Y = 15"
definition ORBIT_INTLK_OPCODE_SET_GET_ANG_BIGGER_LTC_X :: u32 where [orbit_intlk_client_defs]: "ORBIT_INTLK_OPCODE_SET_GET_ANG_BIGGER_LTC_X = 16"
definition ORBIT_INTLK_OPCODE_SET_GET_ANG_BIGGER_LTC_Y :: u32 where [orbit_intlk_client_defs]: "ORBIT_INTLK_OPCODE_SET_GET_ANG_BIGGER_LTC_Y = 17"
definition ORBIT_INTLK_OPCODE_SET_GET_ANG_BIGGER_ANY :: u32 where [orbit_intlk_client_defs]: "ORBIT_INTLK_OPCODE_SET_GET_ANG_BIGGER_ANY = 18"
definition ORBIT_INTLK_OPCODE_SET_GET_ANG_BIGGER :: u32 where [orbit_intlk_client_defs]: "ORBIT_INTLK_OPCODE_SET_GET_ANG_BIGGER = 19"
definition ORBIT_INTLK_OPCODE_SET_GET_ANG_BIGGER_LTC :: u32 where [orbit_intlk_client_defs]: "ORBIT_INTLK_OPCODE_SET_GET_ANG_BIGGER_LTC = 20"
definition ORBIT_INTLK_OPCODE_SET_GET_INTLK :: u32 where [orbit_intlk_client_defs]: "ORBIT_INTLK_OPCODE_SET_GET_INTLK = 21"
definition ORBIT_INTLK_OPCODE_SET_GET_INTLK_LTC :: u32 where [orbit_intlk_client_defs]: "ORBIT_INTLK_OPCODE_SET_GET_INTLK_LTC = 22"
definition ORBIT_INTLK_OPCODE_SET_GET_MIN_SUM :: u32 where [orbit_intlk_client_defs]: "ORBIT_INTLK_OPCODE_SET_GET_MIN_SUM = 23"
definition ORBIT_INTLK_OPCODE_SET_GET_TRANS_MAX_X :: u32 where [orbit_intlk_client_defs]: "ORBIT_INTLK_OPCODE_SET_GET_TRANS_MAX_X = 24"
definition ORBIT_INTLK_OPCODE_SET_GET_TRANS_MAX_Y :: u32 where [orbit_intlk_client_defs]: "ORBIT_INTLK_OPCODE_SET_GET_TRANS_MAX_Y = 25"
definition ORBIT_INTLK_OPCODE_SET_GET_ANG_MAX_X :: u32 where [orbit_intlk_client_defs]: "ORBIT_INTLK_OPCODE_SET_GET_ANG_MAX_X = 26"
definition ORBIT_INTLK_OPCODE_SET_GET_ANG_MAX_Y :: u32 where [orbit_intlk_client_defs]: "ORBIT_INTLK_OPCODE_SET_GET_ANG_MAX_Y = 27"
definition ORBIT_INTLK_OPCODE_SET_GET_TRANS_SMALLER_X :: u32 where [orbit_intlk_client_defs]: "ORBIT_INTLK_OPCODE_SET_GET_TRANS_SMALLER_X = 28"
definition ORBIT_INTLK_OPCODE_SET_GET_TRANS_SMALLER_Y :: u32 where [orbit_intlk_client_defs]: "ORBIT_INTLK_OPCODE_SET_GET_TRANS_SMALLER_Y = 29"
definition ORBIT_INTLK_OPCODE_SET_GET_TRANS_SMALLER_LTC_X :: u32 where [orbit_intlk_client_defs]: "ORBIT_INTLK_OPCODE_SET_GET_TRANS_SMALLER_LTC_X = 30"
definition ORBIT_INTLK_OPCODE_SET_GET_TRANS_SMALLER_LTC_Y :: u32 where [orbit_intlk_client_defs]: "ORBIT_INTLK_OPCODE_SET_GET_TRANS_SMALLER_LTC_Y = 31"
definition ORBIT_INTLK_OPCODE_SET_GET_TRANS_SMALLER_ANY :: u32 where [orbit_intlk_client_defs]: "ORBIT_INTLK_OPCODE_SET_GET_TRANS_SMALLER_ANY = 32"
definition ORBIT_INTLK_OPCODE_SET_GET_TRANS_SMALLER :: u32 where [orbit_intlk_client_defs]: "ORBIT_INTLK_OPCODE_SET_GET_TRANS_SMALLER = 33"
definition ORBIT_INTLK_OPCODE_SET_GET_TRANS_SMALLER_LTC :: u32 where [orbit_intlk_client_defs]: "ORBIT_INTLK_OPCODE_SET_GET_TRANS_SMALLER_LTC = 34"
definition ORBIT_INTLK_OPCODE_SET_GET_ANG_SMALLER_X :: u32 where [orbit_intlk_client_defs]: "ORBIT_INTLK_OPCODE_SET_GET_ANG_SMALLER_X = 35"
definition ORBIT_INTLK_OPCODE_SET_GET_ANG_SMALLER_Y :: u32 where [orbit_intlk_client_defs]: "ORBIT_INTLK_OPCODE_SET_GET_ANG_SMALLER_Y = 36"
definition ORBIT_INTLK_OPCODE_SET_GET_ANG_SMALLER_LTC_X :: u32 where [orbit_intlk_client_defs]: "ORBIT_INTLK_OPCODE_SET_GET_ANG_SMALLER_LTC_X = 37"
definition ORBIT_INTLK_OPCODE_SET_GET_ANG_SMALLER_LTC_Y :: u32 where [orbit_intlk_client_defs]: "ORBIT_INTLK_OPCODE_SET_GET_ANG_SMALLER_LTC_Y = 38"
definition ORBIT_INTLK_OPCODE_SET_GET_ANG_SMALLER_ANY :: u32 where [orbit_intlk_client_defs]: "ORBIT_INTLK_OPCODE_SET_GET_ANG_SMALLER_ANY = 39"
definition ORBIT_INTLK_OPCODE_SET_GET_ANG_SMALLER :: u32 where [orbit_intlk_client_defs]: "ORBIT_INTLK_OPCODE_SET_GET_ANG_SMALLER = 40"
definition ORBIT_INTLK_OPCODE_SET_GET_ANG_SMALLER_LTC :: u32 where [orbit_intlk_client_defs]: "ORBIT_INTLK_OPCODE_SET_GET_ANG_SMALLER_LTC = 41"
definition ORBIT_INTLK_OPCODE_SET_GET_TRANS_MIN_X :: u32 where [orbit_intlk_client_defs]: "ORBIT_INTLK_OPCODE_SET_GET_TRANS_MIN_X = 42"
definition ORBIT_INTLK_OPCODE_SET_GET_TRANS_MIN_Y :: u32 where [orbit_intlk_client_defs]: "ORBIT_INTLK_OPCODE_SET_GET_TRANS_MIN_Y = 43"
definition ORBIT_INTLK_OPCODE_SET_GET_ANG_MIN_X :: u32 where [orbit_intlk_client_defs]: "ORBIT_INTLK_OPCODE_SET_GET_ANG_MIN_X = 44"
definition ORBIT_INTLK_OPCODE_SET_GET_ANG_MIN_Y :: u32 where [orbit_intlk_client_defs]: "ORBIT_INTLK_OPCODE_SET_GET_ANG_MIN_Y = 45"

definition halcs_set_orbit_intlk_en :: "'p client_set" where [orbit_intlk_client_defs]: 
  "halcs_set_orbit_intlk_en self service = param_client_write self service ORBIT_INTLK_OPCODE_SET_GET_EN"
definition halcs_get_orbit_intlk_en :: "'p client_get" where [orbit_intlk_client_defs]: 
  "halcs_get_orbit_intlk_en self service = param_client_read self service ORBIT_INTLK_OPCODE_SET_GET_EN"
definition halcs_set_orbit_intlk_clr :: "'p client_set" where [orbit_intlk_client_defs]: 
  "halcs_set_orbit_intlk_clr self service = param_client_write self service ORBIT_INTLK_OPCODE_SET_GET_CLR"
definition halcs_get_orbit_intlk_clr :: "'p client_get" where [orbit_intlk_client_defs]: 
  "halcs_get_orbit_intlk_clr self service = param_client_read self service ORBIT_INTLK_OPCODE_SET_GET_CLR"
definition halcs_set_orbit_intlk_min_sum_en :: "'p client_set" where [orbit_intlk_client_defs]: 
  "halcs_set_orbit_intlk_min_sum_en self service = param_client_write self service ORBIT_INTLK_OPCODE_SET_GET_MIN_SUM_EN"
definition halcs_get_orbit_intlk_min_sum_en :: "'p client_get" where [orbit_intlk_client_defs]: 
  "halcs_get_orbit_intlk_min_sum_en self service = param_client_read self service ORBIT_INTLK_OPCODE_SET_GET_MIN_SUM_EN"
definition halcs_set_orbit_intlk_trans_en :: "'p client_set" where [orbit_intlk_client_defs]: 
  "halcs_set_orbit_intlk_trans_en self service = param_client_write self service ORBIT_INTLK_OPCODE_SET_GET_TRANS_EN"
definition halcs_get_orbit_intlk_trans_en :: "'p client_get" where [orbit_intlk_client_defs]: 
  "halcs_get_orbit_intlk_trans_en self service = param_client_read self service ORBIT_INTLK_OPCODE_SET_GET_TRANS_EN"
definition halcs_set_orbit_intlk_trans_clr :: "'p client_set" where [orbit_intlk_client_defs]: 
  "halcs_set_orbit_intlk_trans_clr self service = param_client_write self service ORBIT_INTLK_OPCODE_SET_GET_TRANS_CLR"
definition halcs_get_orbit_intlk_trans_clr :: "'p client_get" where [orbit_intlk_client_defs]: 
  "halcs_get_orbit_intlk_trans_clr self service = param_client_read self service ORBIT_INTLK_OPCODE_SET_GET_TRANS_CLR"
definition halcs_set_orbit_intlk_ang_en :: "'p client_set" where [orbit_intlk_client_defs]: 
  "halcs_set_orbit_intlk_ang_en self service = param_client_write self service ORBIT_INTLK_OPCODE_SET_GET_ANG_EN"
definition halcs_get_orbit_intlk_ang_en :: "'p client_get" where [orbit_intlk_client_defs]: 
  "halcs_get_orbit_intlk_ang_en self service = param_client_read self service ORBIT_INTLK_OPCODE_SET_GET_ANG_EN"
definition halcs_set_orbit_intlk_ang_clr :: "'p client_set" where [orbit_intlk_client_defs]: 
  "halcs_set_orbit_intlk_ang_clr self service = param_client_write self service ORBIT_INTLK_OPCODE_SET_GET_ANG_CLR"
definition halcs_get_orbit_intlk_ang_clr :: "'p client_get" where [orbit_intlk_client_defs]: 
  "halcs_get_orbit_intlk_ang_clr self service = param_client_read self service ORBIT_INTLK_OPCODE_SET_GET_ANG_CLR"
definition halcs_get_orbit_intlk_trans_bigger_x :: "'p client_get" where [orbit_intlk_client_defs]: 
  "halcs_get_orbit_intlk_trans_bigger_x self service = param_client_read self service ORBIT_INTLK_OPCODE_SET_GET_TRANS_BIGGER_X"
definition halcs_get_orbit_intlk_trans_bigger_y :: "'p client_get" where [orbit_intlk_client_defs]: 
  "halcs_get_orbit_intlk_trans_bigger_y self service = param_client_read self service ORBIT_INTLK_OPCODE_SET_GET_TRANS_BIGGER_Y"
definition halcs_get_orbit_intlk_trans_bigger_ltc_x :: "'p client_get" where [orbit_intlk_client_defs]: 
  "halcs_get_orbit_intlk_trans_bigger_ltc_x self service = param_client_read self service ORBIT_INTLK_OPCODE_SET_GET_TRANS_BIGGER_LTC_X"
definition halcs_get_orbit_intlk_trans_bigger_ltc_y :: "'p client_get" where [orbit_intlk_client_defs]: 
  "halcs_get_orbit_intlk_trans_bigger_ltc_y self service = param_client_read self service ORBIT_INTLK_OPCODE_SET_GET_TRANS_BIGGER_LTC_Y"
definition halcs_get_orbit_intlk_trans_bigger_any :: "'p client_get" where [orbit_intlk_client_defs]: 
  "halcs_get_orbit_intlk_trans_bigger_any self service = param_client_read self service ORBIT_INTLK_OPCODE_SET_GET_TRANS_BIGGER_ANY"
definition halcs_get_orbit_intlk_trans_bigger :: "'p client_get" where [orbit_intlk_client_defs]: 
  "halcs_get_orbit_intlk_trans_bigger self service = param_client_read self service ORBIT_INTLK_OPCODE_SET_GET_TRANS_BIGGER"
definition halcs_get_orbit_intlk_trans_bigger_ltc :: "'p client_get" where [orbit_intlk_client_defs]: 
  "halcs_get_orbit_intlk_trans_bigger_ltc self service = param_client_read self service ORBIT_INTLK_OPCODE_SET_GET_TRANS_BIGGER_LTC"
definition halcs_get_orbit_intlk_ang_bigger_x :: "'p client_get" where [orbit_intlk_client_defs]: 
  "halcs_get_orbit_intlk_ang_bigger_x self service = param_client_read self service ORBIT_INTLK_OPCODE_SET_GET_ANG_BIGGER_X"
definition halcs_get_orbit_intlk_ang_bigger_y :: "'p client_get" where [orbit_intlk_client_defs]: 
  "halcs_get_orbit_intlk_ang_bigger_y self service = param_client_read self service ORBIT_INTLK_OPCODE_SET_GET_ANG_BIGGER_Y"
definition halcs_get_orbit_intlk_ang_bigger_ltc_x :: "'p client_get" where [orbit_intlk_client_defs]: 
  "halcs_get_orbit_intlk_ang_bigger_ltc_x self service = param_client_read self service ORBIT_INTLK_OPCODE_SET_GET_ANG_BIGGER_LTC_X"
definition halcs_get_orbit_intlk_ang_bigger_ltc_y :: "'p client_get" where [orbit_intlk_client_defs]: 
  "halcs_get_orbit_intlk_ang_bigger_ltc_y self service = param_client_read self service ORBIT_INTLK_OPCODE_SET_GET_ANG_BIGGER_LTC_Y"
definition halcs_get_orbit_intlk_ang_bigger_any :: "'p client_get" where [orbit_intlk_client_defs]: 
  "halcs_get_orbit_intlk_ang_bigger_any self service = param_client_read self service ORBIT_INTLK_OPCODE_SET_GET_ANG_BIGGER_ANY"
definition halcs_get_orbit_intlk_ang_bigger :: "'p client_get" where [orbit_intlk_client_defs]: 
  "halcs_get_orbit_intlk_ang_bigger self service = param_client_read self service ORBIT_INTLK_OPCODE_SET_GET_ANG_BIGGER"
definition halcs_get_orbit_intlk_ang_bigger_ltc :: "'p client_get" where [orbit_intlk_client_defs]: 
  "halcs_get_orbit_intlk_ang_bigger_ltc self service = param_client_read self service ORBIT_INTLK_OPCODE_SET_GET_ANG_BIGGER_LTC"
definition halcs_get_orbit_intlk :: "'p client_get" where [orbit_intlk_client_defs]: 
  "halcs_get_orbit_intlk self service = param_client_read self service ORBIT_INTLK_OPCODE_SET_GET_INTLK"
definition halcs_get_orbit_intlk_ltc :: "'p client_get" where [orbit_intlk_client_defs]: 
  "halcs_get_orbit_intlk_ltc self service = param_client_read self service ORBIT_INTLK_OPCODE_SET_GET_INTLK_LTC"
definition halcs_set_orbit_intlk_min_sum :: "'p client_set" where [orbit_intlk_client_defs]: 
  "halcs_set_orbit_intlk_min_sum self service = param_client_write self service ORBIT_INTLK_OPCODE_SET_GET_MIN_SUM"
definition halcs_get_orbit_intlk_min_sum :: "'p client_get" where [orbit_intlk_client_defs]: 
  "halcs_get_orbit_intlk_min_sum self service = param_client_read self service ORBIT_INTLK_OPCODE_SET_GET_MIN_SUM"
definition halcs_set_orbit_intlk_trans_max_x :: "'p client_set" where [orbit_intlk_client_defs]: 
  "halcs_set_orbit_intlk_trans_max_x self service = param_client_write_signed self service ORBIT_INTLK_OPCODE_SET_GET_TRANS_MAX_X"
definition halcs_get_orbit_intlk_trans_max_x :: "'p client_get" where [orbit_intlk_client_defs]: 
  "halcs_get_orbit_intlk_trans_max_x self service = param_client_read_signed self service ORBIT_INTLK_OPCODE_SET_GET_TRANS_MAX_X"
definition halcs_set_orbit_intlk_trans_max_y :: "'p client_set" where [orbit_intlk_client_defs]: 
  "halcs_set_orbit_intlk_trans_max_y self service = param_client_write_signed self service ORBIT_INTLK_OPCODE_SET_GET_TRANS_MAX_Y"
definition halcs_get_orbit_intlk_trans_max_y :: "'p client_get" where [orbit_intlk_client_defs]: 
  "halcs_get_orbit_intlk_trans_max_y self service = param_client_read_signed self service ORBIT_INTLK_OPCODE_SET_GET_TRANS_MAX_Y"
definition halcs_set_orbit_intlk_ang_max_x :: "'p client_set" where [orbit_intlk_client_defs]: 
  "halcs_set_orbit_intlk_ang_max_x self service = param_client_write_signed self service ORBIT_INTLK_OPCODE_SET_GET_ANG_MAX_X"
definition halcs_get_orbit_intlk_ang_max_x :: "'p client_get" where [orbit_intlk_client_defs]: 
  "halcs_get_orbit_intlk_ang_max_x self service = param_client_read_signed self service ORBIT_INTLK_OPCODE_SET_GET_ANG_MAX_X"
definition halcs_set_orbit_intlk_ang_max_y :: "'p client_set" where [orbit_intlk_client_defs]: 
  "halcs_set_orbit_intlk_ang_max_y self service = param_client_write_signed self service ORBIT_INTLK_OPCODE_SET_GET_ANG_MAX_Y"
definition halcs_get_orbit_intlk_ang_max_y :: "'p client_get" where [orbit_intlk_client_defs]: 
  "halcs_get_orbit_intlk_ang_max_y self service = param_client_read_signed self service ORBIT_INTLK_OPCODE_SET_GET_ANG_MAX_Y"
definition halcs_get_orbit_intlk_trans_smaller_x :: "'p client_get" where [orbit_intlk_client_defs]: 
  "halcs_get_orbit_intlk_trans_smaller_x self service = param_client_read self service ORBIT_INTLK_OPCODE_SET_GET_TRANS_SMALLER_X"
definition halcs_get_orbit_intlk_trans_smaller_y :: "'p client_get" where [orbit_intlk_client_defs]: 
  "halcs_get_orbit_intlk_trans_smaller_y self service = param_client_read self service ORBIT_INTLK_OPCODE_SET_GET_TRANS_SMALLER_Y"
definition halcs_get_orbit_intlk_trans_smaller_ltc_x :: "'p client_get" where [orbit_intlk_client_defs]: 
  "halcs_get_orbit_intlk_trans_smaller_ltc_x self service = param_client_read self service ORBIT_INTLK_OPCODE_SET_GET_TRANS_SMALLER_LTC_X"
definition halcs_get_orbit_intlk_trans_smaller_ltc_y :: "'p client_get" where [orbit_intlk_client_defs]: 
  "halcs_get_orbit_intlk_trans_smaller_ltc_y self service = param_client_read self service ORBIT_INTLK_OPCODE_SET_GET_TRANS_SMALLER_LTC_Y"
definition halcs_get_orbit_intlk_trans_smaller_any :: "'p client_get" where [orbit_intlk_client_defs]: 
  "halcs_get_orbit_intlk_trans_smaller_any self service = param_client_read self service ORBIT_INTLK_OPCODE_SET_GET_TRANS_SMALLER_ANY"
definition halcs_get_orbit_intlk_trans_smaller :: "'p client_get" where [orbit_intlk_client_defs]: 
  "halcs_get_orbit_intlk_trans_smaller self service = param_client_read self service ORBIT_INTLK_OPCODE_SET_GET_TRANS_SMALLER"
definition halcs_get_orbit_intlk_trans_smaller_ltc :: "'p client_get" where [orbit_intlk_client_defs]: 
  "halcs_get_orbit_intlk_trans_smaller_ltc self service = param_client_read self service ORBIT_INTLK_OPCODE_SET_GET_TRANS_SMALLER_LTC"
definition halcs_get_orbit_intlk_ang_smaller_x :: "'p client_get" where [orbit_intlk_client_defs]: 
  "halcs_get_orbit_intlk_ang_smaller_x self service = param_client_read self service ORBIT_INTLK_OPCODE_SET_GET_ANG_SMALLER_X"
definition halcs_get_orbit_intlk_ang_smaller_y :: "'p client_get" where [orbit_intlk_client_defs]: 
  "halcs_get_orbit_intlk_ang_smaller_y self service = param_client_read self service ORBIT_INTLK_OPCODE_SET_GET_ANG_SMALLER_Y"
definition halcs_get_orbit_intlk_ang_smaller_ltc_x :: "'p client_get" where [orbit_intlk_client_defs]: 
  "halcs_get_orbit_intlk_ang_smaller_ltc_x self service = param_client_read self service ORBIT_INTLK_OPCODE_SET_GET_ANG_SMALLER_LTC_X"
definition halcs_get_orbit_intlk_ang_smaller_ltc_y :: "'p client_get" where [orbit_intlk_client_defs]: 
  "halcs_get_orbit_intlk_ang_smaller_ltc_y self service = param_client_read self service ORBIT_INTLK_OPCODE_SET_GET_ANG_SMALLER_LTC_Y"
definition halcs_get_orbit_intlk_ang_smaller_any :: "'p client_get" where [orbit_intlk_client_defs]: 
  "halcs_get_orbit_intlk_ang_smaller_any self service = param_client_read self service ORBIT_INTLK_OPCODE_SET_GET_ANG_SMALLER_ANY"
definition halcs_get_orbit_intlk_ang_smaller :: "'p client_get" where [orbit_intlk_client_defs]: 
  "halcs_get_orbit_intlk_ang_smaller self service = param_client_read self service ORBIT_INTLK_OPCODE_SET_GET_ANG_SMALLER"
definition halcs_get_orbit_intlk_ang_smaller_ltc :: "'p client_get" where [orbit_intlk_client_defs]: 
  "halcs_get_orbit_intlk_ang_smaller_ltc self service = param_client_read self service ORBIT_INTLK_OPCODE_SET_GET_ANG_SMALLER_LTC"
definition halcs_set_orbit_intlk_trans_min_x :: "'p client_set" where [orbit_intlk_client_defs]: 
  "halcs_set_orbit_intlk_trans_min_x self service = param_client_write_signed self service ORBIT_INTLK_OPCODE_SET_GET_TRANS_MIN_X"
definition halcs_get_orbit_intlk_trans_min_x :: "'p client_get" where [orbit_intlk_client_defs]: 
  "halcs_get_orbit_intlk_trans_min_x self service = param_client_read_signed self service ORBIT_INTLK_OPCODE_SET_GET_TRANS_MIN_X"
definition halcs_set_orbit_intlk_trans_min_y :: "'p client_set" where [orbit_intlk_client_defs]: 
  "halcs_set_orbit_intlk_trans_min_y self service = param_client_write_signed self service ORBIT_INTLK_OPCODE_SET_GET_TRANS_MIN_Y"
definition halcs_get_orbit_intlk_trans_min_y :: "'p client_get" where [orbit_intlk_client_defs]: 
  "halcs_get_orbit_intlk_trans_min_y self service = param_client_read_signed self service ORBIT_INTLK_OPCODE_SET_GET_TRANS_MIN_Y"
definition halcs_set_orbit_intlk_ang_min_x :: "'p client_set" where [orbit_intlk_client_defs]: 
  "halcs_set_orbit_intlk_ang_min_x self service = param_client_write_signed self service ORBIT_INTLK_OPCODE_SET_GET_ANG_MIN_X"
definition halcs_get_orbit_intlk_ang_min_x :: "'p client_get" where [orbit_intlk_client_defs]: 
  "halcs_get_orbit_intlk_ang_min_x self service = param_client_read_signed self service ORBIT_INTLK_OPCODE_SET_GET_ANG_MIN_X"
definition halcs_set_orbit_intlk_ang_min_y :: "'p client_set" where [orbit_intlk_client_defs]: 
  "halcs_set_orbit_intlk_ang_min_y self service = param_client_write_signed self service ORBIT_INTLK_OPCODE_SET_GET_ANG_MIN_Y"
definition halcs_get_orbit_intlk_ang_min_y :: "'p client_get" where [orbit_intlk_client_defs]: 
  "halcs_get_orbit_intlk_ang_min_y self service = param_client_read_signed self service ORBIT_INTLK_OPCODE_SET_GET_ANG_MIN_Y"

text \<open>The functions of each exported operation, in the order of the descriptors.\<close>

definition orbit_intlk_client :: "'p client_fn list list" where
  "orbit_intlk_client =
     [[Set_Fn halcs_set_orbit_intlk_en, Get_Fn halcs_get_orbit_intlk_en],
      [Set_Fn halcs_set_orbit_intlk_clr, Get_Fn halcs_get_orbit_intlk_clr],
      [Set_Fn halcs_set_orbit_intlk_min_sum_en, Get_Fn halcs_get_orbit_intlk_min_sum_en],
      [Set_Fn halcs_set_orbit_intlk_trans_en, Get_Fn halcs_get_orbit_intlk_trans_en],
      [Set_Fn halcs_set_orbit_intlk_trans_clr, Get_Fn halcs_get_orbit_intlk_trans_clr],
      [Set_Fn halcs_set_orbit_intlk_ang_en, Get_Fn halcs_get_orbit_intlk_ang_en],
      [Set_Fn halcs_set_orbit_intlk_ang_clr, Get_Fn halcs_get_orbit_intlk_ang_clr],
      [Get_Fn halcs_get_orbit_intlk_trans_bigger_x],
      [Get_Fn halcs_get_orbit_intlk_trans_bigger_y],
      [Get_Fn halcs_get_orbit_intlk_trans_bigger_ltc_x],
      [Get_Fn halcs_get_orbit_intlk_trans_bigger_ltc_y],
      [Get_Fn halcs_get_orbit_intlk_trans_bigger_any],
      [Get_Fn halcs_get_orbit_intlk_trans_bigger],
      [Get_Fn halcs_get_orbit_intlk_trans_bigger_ltc],
      [Get_Fn halcs_get_orbit_intlk_ang_bigger_x],
      [Get_Fn halcs_get_orbit_intlk_ang_bigger_y],
      [Get_Fn halcs_get_orbit_intlk_ang_bigger_ltc_x],
      [Get_Fn halcs_get_orbit_intlk_ang_bigger_ltc_y],
      [Get_Fn halcs_get_orbit_intlk_ang_bigger_any],
      [Get_Fn halcs_get_orbit_intlk_ang_bigger],
      [Get_Fn halcs_get_orbit_intlk_ang_bigger_ltc],
      [Get_Fn halcs_get_orbit_intlk],
      [Get_Fn halcs_get_orbit_intlk_ltc],
      [Set_Fn halcs_set_orbit_intlk_min_sum, Get_Fn halcs_get_orbit_intlk_min_sum],
      [Set_Fn halcs_set_orbit_intlk_trans_max_x, Get_Fn halcs_get_orbit_intlk_trans_max_x],
      [Set_Fn halcs_set_orbit_intlk_trans_max_y, Get_Fn halcs_get_orbit_intlk_trans_max_y],
      [Set_Fn halcs_set_orbit_intlk_ang_max_x, Get_Fn halcs_get_orbit_intlk_ang_max_x],
      [Set_Fn halcs_set_orbit_intlk_ang_max_y, Get_Fn halcs_get_orbit_intlk_ang_max_y],
      [Get_Fn halcs_get_orbit_intlk_trans_smaller_x],
      [Get_Fn halcs_get_orbit_intlk_trans_smaller_y],
      [Get_Fn halcs_get_orbit_intlk_trans_smaller_ltc_x],
      [Get_Fn halcs_get_orbit_intlk_trans_smaller_ltc_y],
      [Get_Fn halcs_get_orbit_intlk_trans_smaller_any],
      [Get_Fn halcs_get_orbit_intlk_trans_smaller],
      [Get_Fn halcs_get_orbit_intlk_trans_smaller_ltc],
      [Get_Fn halcs_get_orbit_intlk_ang_smaller_x],
      [Get_Fn halcs_get_orbit_intlk_ang_smaller_y],
      [Get_Fn halcs_get_orbit_intlk_ang_smaller_ltc_x],
      [Get_Fn halcs_get_orbit_intlk_ang_smaller_ltc_y],
      [Get_Fn halcs_get_orbit_intlk_ang_smaller_any],
      [Get_Fn halcs_get_orbit_intlk_ang_smaller],
      [Get_Fn halcs_get_orbit_intlk_ang_smaller_ltc],
      [Set_Fn halcs_set_orbit_intlk_trans_min_x, Get_Fn halcs_get_orbit_intlk_trans_min_x],
      [Set_Fn halcs_set_orbit_intlk_trans_min_y, Get_Fn halcs_get_orbit_intlk_trans_min_y],
      [Set_Fn halcs_set_orbit_intlk_ang_min_x, Get_Fn halcs_get_orbit_intlk_ang_min_x],
      [Set_Fn halcs_set_orbit_intlk_ang_min_y, Get_Fn halcs_get_orbit_intlk_ang_min_y]]"

lemma orbit_intlk_client_fits: "list_all2 op_fits orbit_intlk_exp_ops orbit_intlk_client"
  by (simp add: orbit_intlk_client_def orbit_intlk_exp_ops_def orbit_intlk_defs orbit_intlk_client_defs exp_simps op_fits_def srv_args fn_calls_signed fun_eq_iff)

lemma orbit_intlk_client_shape: "list_all2 (\<lambda>d. list_all (fn_shape d)) orbit_intlk_params orbit_intlk_client"
  by (simp add: orbit_intlk_client_def orbit_intlk_params_def spec_simps)

end
