(* ===== verification/Client_Fmc.thy ===== *)
theory Client_Fmc
  imports Client_Table Mod_Adc Mod_Trigger
begin

text \<open>
  The client functions of the converter boards, the amplifiers, the switching and the triggers, halcs_client_core.c: each is a call of one of the general functions with
  the operation code of its parameter.
\<close>

section \<open>fmc_adc_common\<close>

named_theorems fmc_adc_common_client_defs

definition FMC_ADC_COMMON_OPCODE_LEDS :: u32 where [fmc_adc_common_client_defs]: "FMC_ADC_COMMON_OPCODE_LEDS = 0"
definition FMC_ADC_COMMON_OPCODE_MMCM_RST :: u32 where [fmc_adc_common_client_defs]: "FMC_ADC_COMMON_OPCODE_MMCM_RST = 1"
definition FMC_ADC_COMMON_OPCODE_TEST_DATA_EN :: u32 where [fmc_adc_common_client_defs]: "FMC_ADC_COMMON_OPCODE_TEST_DATA_EN = 2"
definition FMC_ADC_COMMON_OPCODE_TRIG_DIR :: u32 where [fmc_adc_common_client_defs]: "FMC_ADC_COMMON_OPCODE_TRIG_DIR = 3"
definition FMC_ADC_COMMON_OPCODE_TRIG_TERM :: u32 where [fmc_adc_common_client_defs]: "FMC_ADC_COMMON_OPCODE_TRIG_TERM = 4"
definition FMC_ADC_COMMON_OPCODE_TRIG_VAL :: u32 where [fmc_adc_common_client_defs]: "FMC_ADC_COMMON_OPCODE_TRIG_VAL = 5"

definition halcs_set_fmc_leds :: "'p client_set" where [fmc_adc_common_client_defs]: 
  "halcs_set_fmc_leds self service = param_client_write self service FMC_ADC_COMMON_OPCODE_LEDS"
definition halcs_get_fmc_leds :: "'p client_get" where [fmc_adc_common_client_defs]: 
  "halcs_get_fmc_leds self service = param_client_read self service FMC_ADC_COMMON_OPCODE_LEDS"
definition halcs_set_adc_mmcm_rst :: "'p client_set" where [fmc_adc_common_client_defs]: 
  "halcs_set_adc_mmcm_rst self service = param_client_write self service FMC_ADC_COMMON_OPCODE_MMCM_RST"
definition halcs_get_adc_mmcm_rst :: "'p client_get" where [fmc_adc_common_client_defs]: 
  "halcs_get_adc_mmcm_rst self service = param_client_read self service FMC_ADC_COMMON_OPCODE_MMCM_RST"
definition halcs_set_adc_test_data_en :: "'p client_set" where [fmc_adc_common_client_defs]: 
  "halcs_set_adc_test_data_en self service = param_client_write self service FMC_ADC_COMMON_OPCODE_TEST_DATA_EN"
definition halcs_get_adc_test_data_en :: "'p client_get" where [fmc_adc_common_client_defs]: 
  "halcs_get_adc_test_data_en self service = param_client_read self service FMC_ADC_COMMON_OPCODE_TEST_DATA_EN"
definition halcs_set_trig_dir :: "'p client_set" where [fmc_adc_common_client_defs]: 
  "halcs_set_trig_dir self service = param_client_write self service FMC_ADC_COMMON_OPCODE_TRIG_DIR"
definition halcs_get_trig_dir :: "'p client_get" where [fmc_adc_common_client_defs]: 
  "halcs_get_trig_dir self service = param_client_read self service FMC_ADC_COMMON_OPCODE_TRIG_DIR"
definition halcs_set_trig_term :: "'p client_set" where [fmc_adc_common_client_defs]: 
  "halcs_set_trig_term self service = param_client_write self service FMC_ADC_COMMON_OPCODE_TRIG_TERM"
definition halcs_get_trig_term :: "'p client_get" where [fmc_adc_common_client_defs]: 
  "halcs_get_trig_term self service = param_client_read self service FMC_ADC_COMMON_OPCODE_TRIG_TERM"
definition halcs_set_trig_val :: "'p client_set" where [fmc_adc_common_client_defs]: 
  "halcs_set_trig_val self service = param_client_write self service FMC_ADC_COMMON_OPCODE_TRIG_VAL"
definition halcs_get_trig_val :: "'p client_get" where [fmc_adc_common_client_defs]: 
  "halcs_get_trig_val self service = param_client_read self service FMC_ADC_COMMON_OPCODE_TRIG_VAL"

text \<open>The functions of each exported operation, in the order of the descriptors.\<close>

definition fmc_adc_common_client :: "'p client_fn list list" where
  "fmc_adc_common_client =
     [[Set_Fn halcs_set_fmc_leds, Get_Fn halcs_get_fmc_leds],
      [Set_Fn halcs_set_adc_mmcm_rst, Get_Fn halcs_get_adc_mmcm_rst],
      [Set_Fn halcs_set_adc_test_data_en, Get_Fn halcs_get_adc_test_data_en],
      [Set_Fn halcs_set_trig_dir, Get_Fn halcs_get_trig_dir],
      [Set_Fn halcs_set_trig_term, Get_Fn halcs_get_trig_term],
      [Set_Fn halcs_set_trig_val, Get_Fn halcs_get_trig_val]]"

lemma fmc_adc_common_client_fits: "list_all2 op_fits fmc_adc_common_exp_ops fmc_adc_common_client"
  by (simp add: fmc_adc_common_client_def fmc_adc_common_exp_ops_def fmc_adc_common_defs fmc_adc_common_client_defs exp_simps op_fits_def srv_args fn_calls_signed fun_eq_iff)

lemma fmc_adc_common_client_shape: "list_all2 (\<lambda>d. list_all (fn_shape d)) fmc_adc_common_params fmc_adc_common_client"
  by (simp add: fmc_adc_common_client_def fmc_adc_common_params_def spec_simps)

section \<open>fmcpico1m_4ch\<close>

named_theorems fmcpico1m_4ch_client_defs

definition FMCPICO1M_4CH_OPCODE_SET_GET_LED1 :: u32 where [fmcpico1m_4ch_client_defs]: "FMCPICO1M_4CH_OPCODE_SET_GET_LED1 = 0"
definition FMCPICO1M_4CH_OPCODE_SET_GET_LED2 :: u32 where [fmcpico1m_4ch_client_defs]: "FMCPICO1M_4CH_OPCODE_SET_GET_LED2 = 1"
definition FMCPICO1M_4CH_OPCODE_SET_GET_RNG_R0 :: u32 where [fmcpico1m_4ch_client_defs]: "FMCPICO1M_4CH_OPCODE_SET_GET_RNG_R0 = 2"
definition FMCPICO1M_4CH_OPCODE_SET_GET_RNG_R1 :: u32 where [fmcpico1m_4ch_client_defs]: "FMCPICO1M_4CH_OPCODE_SET_GET_RNG_R1 = 3"
definition FMCPICO1M_4CH_OPCODE_SET_GET_RNG_R2 :: u32 where [fmcpico1m_4ch_client_defs]: "FMCPICO1M_4CH_OPCODE_SET_GET_RNG_R2 = 4"
definition FMCPICO1M_4CH_OPCODE_SET_GET_RNG_R3 :: u32 where [fmcpico1m_4ch_client_defs]: "FMCPICO1M_4CH_OPCODE_SET_GET_RNG_R3 = 5"
definition FMCPICO1M_4CH_OPCODE_SET_GET_ADC_DATA0 :: u32 where [fmcpico1m_4ch_client_defs]: "FMCPICO1M_4CH_OPCODE_SET_GET_ADC_DATA0 = 6"
definition FMCPICO1M_4CH_OPCODE_SET_GET_ADC_DATA1 :: u32 where [fmcpico1m_4ch_client_defs]: "FMCPICO1M_4CH_OPCODE_SET_GET_ADC_DATA1 = 7"
definition FMCPICO1M_4CH_OPCODE_SET_GET_ADC_DATA2 :: u32 where [fmcpico1m_4ch_client_defs]: "FMCPICO1M_4CH_OPCODE_SET_GET_ADC_DATA2 = 8"
definition FMCPICO1M_4CH_OPCODE_SET_GET_ADC_DATA3 :: u32 where [fmcpico1m_4ch_client_defs]: "FMCPICO1M_4CH_OPCODE_SET_GET_ADC_DATA3 = 9"

definition halcs_set_fmcpico_led1 :: "'p client_set" where [fmcpico1m_4ch_client_defs]: 
  "halcs_set_fmcpico_led1 self service = param_client_write self service FMCPICO1M_4CH_OPCODE_SET_GET_LED1"
definition halcs_get_fmcpico_led1 :: "'p client_get" where [fmcpico1m_4ch_client_defs]: 
  "halcs_get_fmcpico_led1 self service = param_client_read self service FMCPICO1M_4CH_OPCODE_SET_GET_LED1"
definition halcs_set_fmcpico_led2 :: "'p client_set" where [fmcpico1m_4ch_client_defs]: 
  "halcs_set_fmcpico_led2 self service = param_client_write self service FMCPICO1M_4CH_OPCODE_SET_GET_LED2"
definition halcs_get_fmcpico_led2 :: "'p client_get" where [fmcpico1m_4ch_client_defs]: 
  "halcs_get_fmcpico_led2 self service = param_client_read self service FMCPICO1M_4CH_OPCODE_SET_GET_LED2"
definition halcs_set_fmcpico_rng_r0 :: "'p client_set" where [fmcpico1m_4ch_client_defs]: 
  "halcs_set_fmcpico_rng_r0 self service = param_client_write self service FMCPICO1M_4CH_OPCODE_SET_GET_RNG_R0"
definition halcs_get_fmcpico_rng_r0 :: "'p client_get" where [fmcpico1m_4ch_client_defs]: 
  "halcs_get_fmcpico_rng_r0 self service = param_client_read self service FMCPICO1M_4CH_OPCODE_SET_GET_RNG_R0"
definition halcs_set_fmcpico_rng_r1 :: "'p client_set" where [fmcpico1m_4ch_client_defs]: 
  "halcs_set_fmcpico_rng_r1 self service = param_client_write self service FMCPICO1M_4CH_OPCODE_SET_GET_RNG_R1"
definition halcs_get_fmcpico_rng_r1 :: "'p client_get" where [fmcpico1m_4ch_client_defs]: 
  "halcs_get_fmcpico_rng_r1 self service = param_client_read self service FMCPICO1M_4CH_OPCODE_SET_GET_RNG_R1"
definition halcs_set_fmcpico_rng_r2 :: "'p client_set" where [fmcpico1m_4ch_client_defs]: 
  "halcs_set_fmcpico_rng_r2 self service = param_client_write self service FMCPICO1M_4CH_OPCODE_SET_GET_RNG_R2"
definition halcs_get_fmcpico_rng_r2 :: "'p client_get" where [fmcpico1m_4ch_client_defs]: 
  "halcs_get_fmcpico_rng_r2 self service = param_client_read self service FMCPICO1M_4CH_OPCODE_SET_GET_RNG_R2"
definition halcs_set_fmcpico_rng_r3 :: "'p client_set" where [fmcpico1m_4ch_client_defs]: 
  "halcs_set_fmcpico_rng_r3 self service = param_client_write self service FMCPICO1M_4CH_OPCODE_SET_GET_RNG_R3"
definition halcs_get_fmcpico_rng_r3 :: "'p client_get" where [fmcpico1m_4ch_client_defs]: 
  "halcs_get_fmcpico_rng_r3 self service = param_client_read self service FMCPICO1M_4CH_OPCODE_SET_GET_RNG_R3"
definition halcs_set_fmcpico_adc_data0 :: "'p client_set" where [fmcpico1m_4ch_client_defs]: 
  "halcs_set_fmcpico_adc_data0 self service = param_client_write self service FMCPICO1M_4CH_OPCODE_SET_GET_ADC_DATA0"
definition halcs_get_fmcpico_adc_data0 :: "'p client_get" where [fmcpico1m_4ch_client_defs]: 
  "halcs_get_fmcpico_adc_data0 self service = param_client_read self service FMCPICO1M_4CH_OPCODE_SET_GET_ADC_DATA0"
definition halcs_set_fmcpico_adc_data1 :: "'p client_set" where [fmcpico1m_4ch_client_defs]: 
  "halcs_set_fmcpico_adc_data1 self service = param_client_write self service FMCPICO1M_4CH_OPCODE_SET_GET_ADC_DATA1"
definition halcs_get_fmcpico_adc_data1 :: "'p client_get" where [fmcpico1m_4ch_client_defs]: 
  "halcs_get_fmcpico_adc_data1 self service = param_client_read self service FMCPICO1M_4CH_OPCODE_SET_GET_ADC_DATA1"
definition halcs_set_fmcpico_adc_data2 :: "'p client_set" where [fmcpico1m_4ch_client_defs]: 
  "halcs_set_fmcpico_adc_data2 self service = param_client_write self service FMCPICO1M_4CH_OPCODE_SET_GET_ADC_DATA2"
definition halcs_get_fmcpico_adc_data2 :: "'p client_get" where [fmcpico1m_4ch_client_defs]: 
  "halcs_get_fmcpico_adc_data2 self service = param_client_read self service FMCPICO1M_4CH_OPCODE_SET_GET_ADC_DATA2"
definition halcs_set_fmcpico_adc_data3 :: "'p client_set" where [fmcpico1m_4ch_client_defs]: 
  "halcs_set_fmcpico_adc_data3 self service = param_client_write self service FMCPICO1M_4CH_OPCODE_SET_GET_ADC_DATA3"
definition halcs_get_fmcpico_adc_data3 :: "'p client_get" where [fmcpico1m_4ch_client_defs]: 
  "halcs_get_fmcpico_adc_data3 self service = param_client_read self service FMCPICO1M_4CH_OPCODE_SET_GET_ADC_DATA3"

text \<open>The functions of each exported operation, in the order of the descriptors.\<close>

definition fmcpico1m_4ch_client :: "'p client_fn list list" where
  "fmcpico1m_4ch_client =
     [[Set_Fn halcs_set_fmcpico_led1, Get_Fn halcs_get_fmcpico_led1],
      [Set_Fn halcs_set_fmcpico_led2, Get_Fn halcs_get_fmcpico_led2],
      [Set_Fn halcs_set_fmcpico_rng_r0, Get_Fn halcs_get_fmcpico_rng_r0],
      [Set_Fn halcs_set_fmcpico_rng_r1, Get_Fn halcs_get_fmcpico_rng_r1],
      [Set_Fn halcs_set_fmcpico_rng_r2, Get_Fn halcs_get_fmcpico_rng_r2],
      [Set_Fn halcs_set_fmcpico_rng_r3, Get_Fn halcs_get_fmcpico_rng_r3],
      [Set_Fn halcs_set_fmcpico_adc_data0, Get_Fn halcs_get_fmcpico_adc_data0],
      [Set_Fn halcs_set_fmcpico_adc_data1, Get_Fn halcs_get_fmcpico_adc_data1],
      [Set_Fn halcs_set_fmcpico_adc_data2, Get_Fn halcs_get_fmcpico_adc_data2],
      [Set_Fn halcs_set_fmcpico_adc_data3, Get_Fn halcs_get_fmcpico_adc_data3]]"

lemma fmcpico1m_4ch_client_fits: "list_all2 op_fits fmcpico1m_4ch_exp_ops fmcpico1m_4ch_client"
  by (simp add: fmcpico1m_4ch_client_def fmcpico1m_4ch_exp_ops_def fmcpico1m_4ch_defs fmcpico1m_4ch_client_defs exp_simps op_fits_def srv_args fn_calls_signed fun_eq_iff)

lemma fmcpico1m_4ch_client_shape: "list_all2 (\<lambda>d. list_all (fn_shape d)) fmcpico1m_4ch_params fmcpico1m_4ch_client"
  by (simp add: fmcpico1m_4ch_client_def fmcpico1m_4ch_params_def spec_simps)

section \<open>rtmlamp_ohwr\<close>

named_theorems rtmlamp_ohwr_client_defs

definition RTMLAMP_OHWR_OPCODE_STA :: u32 where [rtmlamp_ohwr_client_defs]: "RTMLAMP_OHWR_OPCODE_STA = 0"
definition RTMLAMP_OHWR_OPCODE_DAC_DATA_FROM_WB :: u32 where [rtmlamp_ohwr_client_defs]: "RTMLAMP_OHWR_OPCODE_DAC_DATA_FROM_WB = 1"
definition RTMLAMP_OHWR_OPCODE_AMP_IFLAG_L :: u32 where [rtmlamp_ohwr_client_defs]: "RTMLAMP_OHWR_OPCODE_AMP_IFLAG_L = 100"
definition RTMLAMP_OHWR_OPCODE_AMP_TFLAG_L :: u32 where [rtmlamp_ohwr_client_defs]: "RTMLAMP_OHWR_OPCODE_AMP_TFLAG_L = 101"
definition RTMLAMP_OHWR_OPCODE_AMP_IFLAG_R :: u32 where [rtmlamp_ohwr_client_defs]: "RTMLAMP_OHWR_OPCODE_AMP_IFLAG_R = 102"
definition RTMLAMP_OHWR_OPCODE_AMP_TFLAG_R :: u32 where [rtmlamp_ohwr_client_defs]: "RTMLAMP_OHWR_OPCODE_AMP_TFLAG_R = 103"
definition RTMLAMP_OHWR_OPCODE_AMP_EN :: u32 where [rtmlamp_ohwr_client_defs]: "RTMLAMP_OHWR_OPCODE_AMP_EN = 104"
definition RTMLAMP_OHWR_OPCODE_DAC_DATA :: u32 where [rtmlamp_ohwr_client_defs]: "RTMLAMP_OHWR_OPCODE_DAC_DATA = 105"
definition RTMLAMP_OHWR_OPCODE_DAC_WR :: u32 where [rtmlamp_ohwr_client_defs]: "RTMLAMP_OHWR_OPCODE_DAC_WR = 106"

definition halcs_set_rtmlamp_ohwr_sta :: "'p client_set" where [rtmlamp_ohwr_client_defs]: 
  "halcs_set_rtmlamp_ohwr_sta self service = param_client_write self service RTMLAMP_OHWR_OPCODE_STA"
definition halcs_get_rtmlamp_ohwr_sta :: "'p client_get" where [rtmlamp_ohwr_client_defs]: 
  "halcs_get_rtmlamp_ohwr_sta self service = param_client_read self service RTMLAMP_OHWR_OPCODE_STA"
definition halcs_set_rtmlamp_ohwr_dac_data_from_wb :: "'p client_set" where [rtmlamp_ohwr_client_defs]: 
  "halcs_set_rtmlamp_ohwr_dac_data_from_wb self service = param_client_write self service RTMLAMP_OHWR_OPCODE_DAC_DATA_FROM_WB"
definition halcs_get_rtmlamp_ohwr_dac_data_from_wb :: "'p client_get" where [rtmlamp_ohwr_client_defs]: 
  "halcs_get_rtmlamp_ohwr_dac_data_from_wb self service = param_client_read self service RTMLAMP_OHWR_OPCODE_DAC_DATA_FROM_WB"
definition halcs_set_rtmlamp_ohwr_amp_iflag_l :: "'p client_set2" where [rtmlamp_ohwr_client_defs]: 
  "halcs_set_rtmlamp_ohwr_amp_iflag_l self service = param_client_write2 self service RTMLAMP_OHWR_OPCODE_AMP_IFLAG_L"
definition halcs_get_rtmlamp_ohwr_amp_iflag_l :: "'p client_get1" where [rtmlamp_ohwr_client_defs]: 
  "halcs_get_rtmlamp_ohwr_amp_iflag_l self service = param_client_write_read self service RTMLAMP_OHWR_OPCODE_AMP_IFLAG_L"
definition halcs_set_rtmlamp_ohwr_amp_tflag_l :: "'p client_set2" where [rtmlamp_ohwr_client_defs]: 
  "halcs_set_rtmlamp_ohwr_amp_tflag_l self service = param_client_write2 self service RTMLAMP_OHWR_OPCODE_AMP_TFLAG_L"
definition halcs_get_rtmlamp_ohwr_amp_tflag_l :: "'p client_get1" where [rtmlamp_ohwr_client_defs]: 
  "halcs_get_rtmlamp_ohwr_amp_tflag_l self service = param_client_write_read self service RTMLAMP_OHWR_OPCODE_AMP_TFLAG_L"
definition halcs_set_rtmlamp_ohwr_amp_iflag_r :: "'p client_set2" where [rtmlamp_ohwr_client_defs]: 
  "halcs_set_rtmlamp_ohwr_amp_iflag_r self service = param_client_write2 self service RTMLAMP_OHWR_OPCODE_AMP_IFLAG_R"
definition halcs_get_rtmlamp_ohwr_amp_iflag_r :: "'p client_get1" where [rtmlamp_ohwr_client_defs]: 
  "halcs_get_rtmlamp_ohwr_amp_iflag_r self service = param_client_write_read self service RTMLAMP_OHWR_OPCODE_AMP_IFLAG_R"
definition halcs_set_rtmlamp_ohwr_amp_tflag_r :: "'p client_set2" where [rtmlamp_ohwr_client_defs]: 
  "halcs_set_rtmlamp_ohwr_amp_tflag_r self service = param_client_write2 self service RTMLAMP_OHWR_OPCODE_AMP_TFLAG_R"
definition halcs_get_rtmlamp_ohwr_amp_tflag_r :: "'p client_get1" where [rtmlamp_ohwr_client_defs]: 
  "halcs_get_rtmlamp_ohwr_amp_tflag_r self service = param_client_write_read self service RTMLAMP_OHWR_OPCODE_AMP_TFLAG_R"
definition halcs_set_rtmlamp_ohwr_amp_en :: "'p client_set2" where [rtmlamp_ohwr_client_defs]: 
  "halcs_set_rtmlamp_ohwr_amp_en self service = param_client_write2 self service RTMLAMP_OHWR_OPCODE_AMP_EN"
definition halcs_get_rtmlamp_ohwr_amp_en :: "'p client_get1" where [rtmlamp_ohwr_client_defs]: 
  "halcs_get_rtmlamp_ohwr_amp_en self service = param_client_write_read self service RTMLAMP_OHWR_OPCODE_AMP_EN"
definition halcs_set_rtmlamp_ohwr_dac_data :: "'p client_set2" where [rtmlamp_ohwr_client_defs]: 
  "halcs_set_rtmlamp_ohwr_dac_data self service = param_client_write2 self service RTMLAMP_OHWR_OPCODE_DAC_DATA"
definition halcs_get_rtmlamp_ohwr_dac_data :: "'p client_get1" where [rtmlamp_ohwr_client_defs]: 
  "halcs_get_rtmlamp_ohwr_dac_data self service = param_client_write_read self service RTMLAMP_OHWR_OPCODE_DAC_DATA"
definition halcs_set_rtmlamp_ohwr_dac_wr :: "'p client_set2" where [rtmlamp_ohwr_client_defs]: 
  "halcs_set_rtmlamp_ohwr_dac_wr self service = param_client_write2 self service RTMLAMP_OHWR_OPCODE_DAC_WR"
definition halcs_get_rtmlamp_ohwr_dac_wr :: "'p client_get1" where [rtmlamp_ohwr_client_defs]: 
  "halcs_get_rtmlamp_ohwr_dac_wr self service = param_client_write_read self service RTMLAMP_OHWR_OPCODE_DAC_WR"

text \<open>The functions of each exported operation, in the order of the descriptors.\<close>

definition rtmlamp_ohwr_client :: "'p client_fn list list" where
  "rtmlamp_ohwr_client =
     [[Set_Fn halcs_set_rtmlamp_ohwr_sta, Get_Fn halcs_get_rtmlamp_ohwr_sta],
      [Set_Fn halcs_set_rtmlamp_ohwr_dac_data_from_wb, Get_Fn halcs_get_rtmlamp_ohwr_dac_data_from_wb],
      [Set_Chan halcs_set_rtmlamp_ohwr_amp_iflag_l, Get_Chan halcs_get_rtmlamp_ohwr_amp_iflag_l],
      [Set_Chan halcs_set_rtmlamp_ohwr_amp_tflag_l, Get_Chan halcs_get_rtmlamp_ohwr_amp_tflag_l],
      [Set_Chan halcs_set_rtmlamp_ohwr_amp_iflag_r, Get_Chan halcs_get_rtmlamp_ohwr_amp_iflag_r],
      [Set_Chan halcs_set_rtmlamp_ohwr_amp_tflag_r, Get_Chan halcs_get_rtmlamp_ohwr_amp_tflag_r],
      [Set_Chan halcs_set_rtmlamp_ohwr_amp_en, Get_Chan halcs_get_rtmlamp_ohwr_amp_en],
      [Set_Chan halcs_set_rtmlamp_ohwr_dac_data, Get_Chan halcs_get_rtmlamp_ohwr_dac_data],
      [Set_Chan halcs_set_rtmlamp_ohwr_dac_wr, Get_Chan halcs_get_rtmlamp_ohwr_dac_wr]]"

lemma rtmlamp_ohwr_client_fits: "list_all2 op_fits rtmlamp_ohwr_exp_ops rtmlamp_ohwr_client"
  by (simp add: rtmlamp_ohwr_client_def rtmlamp_ohwr_exp_ops_def rtmlamp_ohwr_defs rtmlamp_ohwr_client_defs exp_simps op_fits_def srv_args fn_calls_signed fun_eq_iff)

lemma rtmlamp_ohwr_client_shape: "list_all2 (\<lambda>d. list_all (fn_shape d)) rtmlamp_ohwr_params rtmlamp_ohwr_client"
  by (simp add: rtmlamp_ohwr_client_def rtmlamp_ohwr_params_def spec_simps)

section \<open>swap\<close>

named_theorems swap_client_defs

definition SWAP_OPCODE_SET_GET_SW :: u32 where [swap_client_defs]: "SWAP_OPCODE_SET_GET_SW = 0"
definition SWAP_OPCODE_SET_GET_DIV_CLK :: u32 where [swap_client_defs]: "SWAP_OPCODE_SET_GET_DIV_CLK = 1"
definition SWAP_OPCODE_SET_GET_SW_DLY :: u32 where [swap_client_defs]: "SWAP_OPCODE_SET_GET_SW_DLY = 2"

definition halcs_set_sw :: "'p client_set" where [swap_client_defs]: 
  "halcs_set_sw self service = param_client_write self service SWAP_OPCODE_SET_GET_SW"
definition halcs_get_sw :: "'p client_get" where [swap_client_defs]: 
  "halcs_get_sw self service = param_client_read self service SWAP_OPCODE_SET_GET_SW"
definition halcs_set_div_clk :: "'p client_set" where [swap_client_defs]: 
  "halcs_set_div_clk self service = param_client_write self service SWAP_OPCODE_SET_GET_DIV_CLK"
definition halcs_get_div_clk :: "'p client_get" where [swap_client_defs]: 
  "halcs_get_div_clk self service = param_client_read self service SWAP_OPCODE_SET_GET_DIV_CLK"
definition halcs_set_sw_dly :: "'p client_set" where [swap_client_defs]: 
  "halcs_set_sw_dly self service = param_client_write self service SWAP_OPCODE_SET_GET_SW_DLY"
definition halcs_get_sw_dly :: "'p client_get" where [swap_client_defs]: 
  "halcs_get_sw_dly self service = param_client_read self service SWAP_OPCODE_SET_GET_SW_DLY"

text \<open>The functions of each exported operation, in the order of the descriptors.\<close>

definition swap_client :: "'p client_fn list list" where
  "swap_client =
     [[Set_Fn halcs_set_sw, Get_Fn halcs_get_sw],
      [Set_Fn halcs_set_div_clk, Get_Fn halcs_get_div_clk],
      [Set_Fn halcs_set_sw_dly, Get_Fn halcs_get_sw_dly]]"

lemma swap_client_fits: "list_all2 op_fits swap_exp_ops swap_client"
  by (simp add: swap_client_def swap_exp_ops_def swap_defs swap_client_defs exp_simps op_fits_def srv_args fn_calls_signed fun_eq_iff)

lemma swap_client_shape: "list_all2 (\<lambda>d. list_all (fn_shape d)) swap_params swap_client"
  by (simp add: swap_client_def swap_params_def spec_simps)

section \<open>trigger_iface\<close>

named_theorems trigger_iface_client_defs

definition TRIGGER_IFACE_OPCODE_DIR :: u32 where [trigger_iface_client_defs]: "TRIGGER_IFACE_OPCODE_DIR = 0"
definition TRIGGER_IFACE_OPCODE_DIR_POL :: u32 where [trigger_iface_client_defs]: "TRIGGER_IFACE_OPCODE_DIR_POL = 1"
definition TRIGGER_IFACE_OPCODE_RCV_COUNT_RST :: u32 where [trigger_iface_client_defs]: "TRIGGER_IFACE_OPCODE_RCV_COUNT_RST = 2"
definition TRIGGER_IFACE_OPCODE_TRANSM_COUNT_RST :: u32 where [trigger_iface_client_defs]: "TRIGGER_IFACE_OPCODE_TRANSM_COUNT_RST = 3"
definition TRIGGER_IFACE_OPCODE_RCV_LEN :: u32 where [trigger_iface_client_defs]: "TRIGGER_IFACE_OPCODE_RCV_LEN = 4"
definition TRIGGER_IFACE_OPCODE_TRANSM_LEN :: u32 where [trigger_iface_client_defs]: "TRIGGER_IFACE_OPCODE_TRANSM_LEN = 5"
definition TRIGGER_IFACE_OPCODE_COUNT_RCV :: u32 where [trigger_iface_client_defs]: "TRIGGER_IFACE_OPCODE_COUNT_RCV = 6"
definition TRIGGER_IFACE_OPCODE_COUNT_TRANSM :: u32 where [trigger_iface_client_defs]: "TRIGGER_IFACE_OPCODE_COUNT_TRANSM = 7"

definition halcs_set_trigger_dir :: "'p client_set2" where [trigger_iface_client_defs]: 
  "halcs_set_trigger_dir self service = param_client_write2 self service TRIGGER_IFACE_OPCODE_DIR"
definition halcs_get_trigger_dir :: "'p client_get1" where [trigger_iface_client_defs]: 
  "halcs_get_trigger_dir self service = param_client_write_read self service TRIGGER_IFACE_OPCODE_DIR"
definition halcs_set_trigger_dir_pol :: "'p client_set2" where [trigger_iface_client_defs]: 
  "halcs_set_trigger_dir_pol self service = param_client_write2 self service TRIGGER_IFACE_OPCODE_DIR_POL"
definition halcs_get_trigger_dir_pol :: "'p client_get1" where [trigger_iface_client_defs]: 
  "halcs_get_trigger_dir_pol self service = param_client_write_read self service TRIGGER_IFACE_OPCODE_DIR_POL"
definition halcs_set_trigger_rcv_count_rst :: "'p client_set2" where [trigger_iface_client_defs]: 
  "halcs_set_trigger_rcv_count_rst self service = param_client_write2 self service TRIGGER_IFACE_OPCODE_RCV_COUNT_RST"
definition halcs_get_trigger_rcv_count_rst :: "'p client_get1" where [trigger_iface_client_defs]: 
  "halcs_get_trigger_rcv_count_rst self service = param_client_write_read self service TRIGGER_IFACE_OPCODE_RCV_COUNT_RST"
definition halcs_set_trigger_transm_count_rst :: "'p client_set2" where [trigger_iface_client_defs]: 
  "halcs_set_trigger_transm_count_rst self service = param_client_write2 self service TRIGGER_IFACE_OPCODE_TRANSM_COUNT_RST"
definition halcs_get_trigger_transm_count_rst :: "'p client_get1" where [trigger_iface_client_defs]: 
  "halcs_get_trigger_transm_count_rst self service = param_client_write_read self service TRIGGER_IFACE_OPCODE_TRANSM_COUNT_RST"
definition halcs_set_trigger_rcv_len :: "'p client_set2" where [trigger_iface_client_defs]: 
  "halcs_set_trigger_rcv_len self service = param_client_write2 self service TRIGGER_IFACE_OPCODE_RCV_LEN"
definition halcs_get_trigger_rcv_len :: "'p client_get1" where [trigger_iface_client_defs]: 
  "halcs_get_trigger_rcv_len self service = param_client_write_read self service TRIGGER_IFACE_OPCODE_RCV_LEN"
definition halcs_set_trigger_transm_len :: "'p client_set2" where [trigger_iface_client_defs]: 
  "halcs_set_trigger_transm_len self service = param_client_write2 self service TRIGGER_IFACE_OPCODE_TRANSM_LEN"
definition halcs_get_trigger_transm_len :: "'p client_get1" where [trigger_iface_client_defs]: 
  "halcs_get_trigger_transm_len self service = param_client_write_read self service TRIGGER_IFACE_OPCODE_TRANSM_LEN"
definition halcs_set_trigger_count_rcv :: "'p client_set2" where [trigger_iface_client_defs]: 
  "halcs_set_trigger_count_rcv self service = param_client_write2 self service TRIGGER_IFACE_OPCODE_COUNT_RCV"
definition halcs_get_trigger_count_rcv :: "'p client_get1" where [trigger_iface_client_defs]: 
  "halcs_get_trigger_count_rcv self service = param_client_write_read self service TRIGGER_IFACE_OPCODE_COUNT_RCV"
definition halcs_set_trigger_count_transm :: "'p client_set2" where [trigger_iface_client_defs]: 
  "halcs_set_trigger_count_transm self service = param_client_write2 self service TRIGGER_IFACE_OPCODE_COUNT_TRANSM"
definition halcs_get_trigger_count_transm :: "'p client_get1" where [trigger_iface_client_defs]: 
  "halcs_get_trigger_count_transm self service = param_client_write_read self service TRIGGER_IFACE_OPCODE_COUNT_TRANSM"

text \<open>The functions of each exported operation, in the order of the descriptors.\<close>

definition trigger_iface_client :: "'p client_fn list list" where
  "trigger_iface_client =
     [[Set_Chan halcs_set_trigger_dir, Get_Chan halcs_get_trigger_dir],
      [Set_Chan halcs_set_trigger_dir_pol, Get_Chan halcs_get_trigger_dir_pol],
      [Set_Chan halcs_set_trigger_rcv_count_rst, Get_Chan halcs_get_trigger_rcv_count_rst],
      [Set_Chan halcs_set_trigger_transm_count_rst, Get_Chan halcs_get_trigger_transm_count_rst],
      [Set_Chan halcs_set_trigger_rcv_len, Get_Chan halcs_get_trigger_rcv_len],
      [Set_Chan halcs_set_trigger_transm_len, Get_Chan halcs_get_trigger_transm_len],
      [Set_Chan halcs_set_trigger_count_rcv, Get_Chan halcs_get_trigger_count_rcv],
      [Set_Chan halcs_set_trigger_count_transm, Get_Chan halcs_get_trigger_count_transm]]"

lemma trigger_iface_client_fits: "list_all2 op_fits trigger_iface_exp_ops trigger_iface_client"
  by (simp add: trigger_iface_client_def trigger_iface_exp_ops_def trigger_iface_defs trigger_iface_client_defs exp_simps op_fits_def srv_args fn_calls_signed fun_eq_iff)

lemma trigger_iface_client_shape: "list_all2 (\<lambda>d. list_all (fn_shape d)) trigger_iface_params trigger_iface_client"
  by (simp add: trigger_iface_client_def trigger_iface_params_def spec_simps)

section \<open>trigger_mux\<close>

named_theorems trigger_mux_client_defs

definition TRIGGER_MUX_OPCODE_RCV_SRC :: u32 where [trigger_mux_client_defs]: "TRIGGER_MUX_OPCODE_RCV_SRC = 0"
definition TRIGGER_MUX_OPCODE_RCV_IN_SEL :: u32 where [trigger_mux_client_defs]: "TRIGGER_MUX_OPCODE_RCV_IN_SEL = 1"
definition TRIGGER_MUX_OPCODE_TRANSM_SRC :: u32 where [trigger_mux_client_defs]: "TRIGGER_MUX_OPCODE_TRANSM_SRC = 2"
definition TRIGGER_MUX_OPCODE_TRANSM_OUT_SEL :: u32 where [trigger_mux_client_defs]: "TRIGGER_MUX_OPCODE_TRANSM_OUT_SEL = 3"

definition halcs_set_trigger_rcv_src :: "'p client_set2" where [trigger_mux_client_defs]: 
  "halcs_set_trigger_rcv_src self service = param_client_write2 self service TRIGGER_MUX_OPCODE_RCV_SRC"
definition halcs_get_trigger_rcv_src :: "'p client_get1" where [trigger_mux_client_defs]: 
  "halcs_get_trigger_rcv_src self service = param_client_write_read self service TRIGGER_MUX_OPCODE_RCV_SRC"
definition halcs_set_trigger_rcv_in_sel :: "'p client_set2" where [trigger_mux_client_defs]: 
  "halcs_set_trigger_rcv_in_sel self service = param_client_write2 self service TRIGGER_MUX_OPCODE_RCV_IN_SEL"
definition halcs_get_trigger_rcv_in_sel :: "'p client_get1" where [trigger_mux_client_defs]: 
  "halcs_get_trigger_rcv_in_sel self service = param_client_write_read self service TRIGGER_MUX_OPCODE_RCV_IN_SEL"
definition halcs_set_trigger_transm_src :: "'p client_set2" where [trigger_mux_client_defs]: 
  "halcs_set_trigger_transm_src self service = param_client_write2 self service TRIGGER_MUX_OPCODE_TRANSM_SRC"
definition halcs_get_trigger_transm_src :: "'p client_get1" where [trigger_mux_client_defs]: 
  "halcs_get_trigger_transm_src self service = param_client_write_read self service TRIGGER_MUX_OPCODE_TRANSM_SRC"
definition halcs_set_trigger_transm_out_sel :: "'p client_set2" where [trigger_mux_client_defs]: 
  "halcs_set_trigger_transm_out_sel self service = param_client_write2 self service TRIGGER_MUX_OPCODE_TRANSM_OUT_SEL"
definition halcs_get_trigger_transm_out_sel :: "'p client_get1" where [trigger_mux_client_defs]: 
  "halcs_get_trigger_transm_out_sel self service = param_client_write_read self service TRIGGER_MUX_OPCODE_TRANSM_OUT_SEL"

text \<open>The functions of each exported operation, in the order of the descriptors.\<close>

definition trigger_mux_client :: "'p client_fn list list" where
  "trigger_mux_client =
     [[Set_Chan halcs_set_trigger_rcv_src, Get_Chan halcs_get_trigger_rcv_src],
      [Set_Chan halcs_set_trigger_rcv_in_sel, Get_Chan halcs_get_trigger_rcv_in_sel],
      [Set_Chan halcs_set_trigger_transm_src, Get_Chan halcs_get_trigger_transm_src],
      [Set_Chan halcs_set_trigger_transm_out_sel, Get_Chan halcs_get_trigger_transm_out_sel]]"

lemma trigger_mux_client_fits: "list_all2 op_fits trigger_mux_exp_ops trigger_mux_client"
  by (simp add: trigger_mux_client_def trigger_mux_exp_ops_def trigger_mux_defs trigger_mux_client_defs exp_simps op_fits_def srv_args fn_calls_signed fun_eq_iff)

lemma trigger_mux_client_shape: "list_all2 (\<lambda>d. list_all (fn_shape d)) trigger_mux_params trigger_mux_client"
  by (simp add: trigger_mux_client_def trigger_mux_params_def spec_simps)

end
