(* ===== verification/Exports.thy ===== *)
theory Exports
  imports Module
begin

text \<open>
  The descriptors of the exported functions of the modules that use the chips of their boards
  (src/sm_io_table/modules), and of the position calculation: name, operation code, result and arguments.
\<close>

section \<open>Arguments\<close>

definition DISP_ATYPE_UINT8 :: u32 where "DISP_ATYPE_UINT8 = 2"
definition DOUBLE_ARG :: u32 where "DOUBLE_ARG = DISP_ARG_ENCODE_RAW DISP_ATYPE_DOUBLE 8"
definition DSP_DATA_ARG :: u32 where "DSP_DATA_ARG = DISP_ARG_ENCODE_RAW DISP_ATYPE_STRUCT 40"
definition REVISION_ARG :: u32 where "REVISION_ARG = DISP_ARG_ENCODE_RAW DISP_ATYPE_VAR 128"
definition RFFE_DATA_ARG :: u32 where "RFFE_DATA_ARG = DISP_ARG_ENCODE_RAW DISP_ATYPE_STRUCT 127"
definition RFFE_VERSION_ARG :: u32 where "RFFE_VERSION_ARG = DISP_ARG_ENCODE_RAW DISP_ATYPE_STRUCT 8"
definition UINT32_1_ARG :: u32 where "UINT32_1_ARG = DISP_ARG_ENCODE_RAW DISP_ATYPE_UINT32 1"
definition UINT8_ARG :: u32 where "UINT8_ARG = DISP_ARG_ENCODE_RAW DISP_ATYPE_UINT8 1"

lemmas board_args = DISP_ATYPE_UINT8_def DOUBLE_ARG_def DSP_DATA_ARG_def REVISION_ARG_def RFFE_DATA_ARG_def RFFE_VERSION_ARG_def UINT32_1_ARG_def UINT8_ARG_def srv_args

section \<open>dsp\<close>

named_theorems dsp_exp_defs

definition dsp_set_get_kx_exp :: "('w, msg_args) disp_op" where [dsp_exp_defs]: "dsp_set_get_kx_exp = param_exp ''dsp_set_get_kx'' 0"
definition dsp_set_get_ky_exp :: "('w, msg_args) disp_op" where [dsp_exp_defs]: "dsp_set_get_ky_exp = param_exp ''dsp_set_get_ky'' 1"
definition dsp_set_get_ksum_exp :: "('w, msg_args) disp_op" where [dsp_exp_defs]: "dsp_set_get_ksum_exp = param_exp ''dsp_set_get_ksum'' 2"
definition dsp_set_get_ds_tbt_thres_exp :: "('w, msg_args) disp_op" where [dsp_exp_defs]: "dsp_set_get_ds_tbt_thres_exp = param_exp ''dsp_set_get_tbt_thres'' 3"
definition dsp_set_get_ds_fofb_thres_exp :: "('w, msg_args) disp_op" where [dsp_exp_defs]: "dsp_set_get_ds_fofb_thres_exp = param_exp ''dsp_set_get_fofb_thres'' 4"
definition dsp_set_get_ds_monit_thres_exp :: "('w, msg_args) disp_op" where [dsp_exp_defs]: "dsp_set_get_ds_monit_thres_exp = param_exp ''dsp_set_get_monit_thres'' 5"
definition dsp_set_get_cfg_test_data_exp :: "('w, msg_args) disp_op" where [dsp_exp_defs]: "dsp_set_get_cfg_test_data_exp = param_exp ''dsp_set_get_cfg_test_data'' 6"
definition dsp_set_get_monit_amp_ch0_exp :: "('w, msg_args) disp_op" where [dsp_exp_defs]: "dsp_set_get_monit_amp_ch0_exp = param_exp ''dsp_set_get_monit_amp_ch0'' 7"
definition dsp_set_get_monit_amp_ch1_exp :: "('w, msg_args) disp_op" where [dsp_exp_defs]: "dsp_set_get_monit_amp_ch1_exp = param_exp ''dsp_set_get_monit_amp_ch1'' 8"
definition dsp_set_get_monit_amp_ch2_exp :: "('w, msg_args) disp_op" where [dsp_exp_defs]: "dsp_set_get_monit_amp_ch2_exp = param_exp ''dsp_set_get_monit_amp_ch2'' 9"
definition dsp_set_get_monit_amp_ch3_exp :: "('w, msg_args) disp_op" where [dsp_exp_defs]: "dsp_set_get_monit_amp_ch3_exp = param_exp ''dsp_set_get_monit_amp_ch3'' 10"
definition dsp_set_get_monit_pos_x_exp :: "('w, msg_args) disp_op" where [dsp_exp_defs]: "dsp_set_get_monit_pos_x_exp = param_exp ''dsp_set_get_monit_pos_x'' 11"
definition dsp_set_get_monit_pos_y_exp :: "('w, msg_args) disp_op" where [dsp_exp_defs]: "dsp_set_get_monit_pos_y_exp = param_exp ''dsp_set_get_monit_pos_y'' 12"
definition dsp_set_get_monit_pos_q_exp :: "('w, msg_args) disp_op" where [dsp_exp_defs]: "dsp_set_get_monit_pos_q_exp = param_exp ''dsp_set_get_monit_pos_q'' 13"
definition dsp_set_get_monit_pos_sum_exp :: "('w, msg_args) disp_op" where [dsp_exp_defs]: "dsp_set_get_monit_pos_sum_exp = param_exp ''dsp_set_get_monit_pos_sum'' 14"
definition dsp_set_get_monit_updt_exp :: "('w, msg_args) disp_op" where [dsp_exp_defs]: "dsp_set_get_monit_updt_exp = param_exp ''dsp_set_get_monit_updt'' 15"
definition dsp_set_get_monit_poll_time_exp :: "('w, msg_args) disp_op" where [dsp_exp_defs]: "dsp_set_get_monit_poll_time_exp = param_exp ''dsp_set_get_monit_poll_time'' 39"
definition dsp_set_get_monit1_amp_ch0_exp :: "('w, msg_args) disp_op" where [dsp_exp_defs]: "dsp_set_get_monit1_amp_ch0_exp = param_exp ''dsp_set_get_monit1_amp_ch0'' 17"
definition dsp_set_get_monit1_amp_ch1_exp :: "('w, msg_args) disp_op" where [dsp_exp_defs]: "dsp_set_get_monit1_amp_ch1_exp = param_exp ''dsp_set_get_monit1_amp_ch1'' 18"
definition dsp_set_get_monit1_amp_ch2_exp :: "('w, msg_args) disp_op" where [dsp_exp_defs]: "dsp_set_get_monit1_amp_ch2_exp = param_exp ''dsp_set_get_monit1_amp_ch2'' 19"
definition dsp_set_get_monit1_amp_ch3_exp :: "('w, msg_args) disp_op" where [dsp_exp_defs]: "dsp_set_get_monit1_amp_ch3_exp = param_exp ''dsp_set_get_monit1_amp_ch3'' 20"
definition dsp_set_get_monit1_pos_x_exp :: "('w, msg_args) disp_op" where [dsp_exp_defs]: "dsp_set_get_monit1_pos_x_exp = param_exp ''dsp_set_get_monit1_pos_x'' 21"
definition dsp_set_get_monit1_pos_y_exp :: "('w, msg_args) disp_op" where [dsp_exp_defs]: "dsp_set_get_monit1_pos_y_exp = param_exp ''dsp_set_get_monit1_pos_y'' 22"
definition dsp_set_get_monit1_pos_q_exp :: "('w, msg_args) disp_op" where [dsp_exp_defs]: "dsp_set_get_monit1_pos_q_exp = param_exp ''dsp_set_get_monit1_pos_q'' 23"
definition dsp_set_get_monit1_pos_sum_exp :: "('w, msg_args) disp_op" where [dsp_exp_defs]: "dsp_set_get_monit1_pos_sum_exp = param_exp ''dsp_set_get_monit1_pos_sum'' 24"
definition dsp_set_get_monit1_updt_exp :: "('w, msg_args) disp_op" where [dsp_exp_defs]: "dsp_set_get_monit1_updt_exp = param_exp ''dsp_set_get_monit1_updt'' 25"
definition dsp_set_get_monit1_amp_pos_exp :: "('w, msg_args) disp_op" where [dsp_exp_defs]: "dsp_set_get_monit1_amp_pos_exp = smio_exp ''dsp_set_get_monit1_amp_pos'' 26 DSP_DATA_ARG []"
definition dsp_set_get_sw_tag_en_exp :: "('w, msg_args) disp_op" where [dsp_exp_defs]: "dsp_set_get_sw_tag_en_exp = param_exp ''dsp_set_get_sw_tag_en'' 27"
definition dsp_set_get_sw_data_mask_en_exp :: "('w, msg_args) disp_op" where [dsp_exp_defs]: "dsp_set_get_sw_data_mask_en_exp = param_exp ''dsp_set_get_sw_data_mask_en'' 28"
definition dsp_set_get_sw_data_mask_samples_exp :: "('w, msg_args) disp_op" where [dsp_exp_defs]: "dsp_set_get_sw_data_mask_samples_exp = param_exp ''dsp_set_get_sw_data_mask_samples'' 29"
definition dsp_set_get_tbt_tag_en_exp :: "('w, msg_args) disp_op" where [dsp_exp_defs]: "dsp_set_get_tbt_tag_en_exp = param_exp ''dsp_set_get_tbt_tag_en'' 30"
definition dsp_set_get_tbt_tag_dly_exp :: "('w, msg_args) disp_op" where [dsp_exp_defs]: "dsp_set_get_tbt_tag_dly_exp = param_exp ''dsp_set_get_tbt_tag_dly'' 31"
definition dsp_set_get_tbt_data_mask_en_exp :: "('w, msg_args) disp_op" where [dsp_exp_defs]: "dsp_set_get_tbt_data_mask_en_exp = param_exp ''dsp_set_get_tbt_data_mask_en'' 32"
definition dsp_set_get_tbt_data_mask_samples_beg_exp :: "('w, msg_args) disp_op" where [dsp_exp_defs]: "dsp_set_get_tbt_data_mask_samples_beg_exp = param_exp ''dsp_set_get_tbt_data_mask_samples_beg'' 33"
definition dsp_set_get_tbt_data_mask_samples_end_exp :: "('w, msg_args) disp_op" where [dsp_exp_defs]: "dsp_set_get_tbt_data_mask_samples_end_exp = param_exp ''dsp_set_get_tbt_data_mask_samples_end'' 34"
definition dsp_set_get_sw_tag_desync_cnt_rst_exp :: "('w, msg_args) disp_op" where [dsp_exp_defs]: "dsp_set_get_sw_tag_desync_cnt_rst_exp = param_exp ''dsp_set_get_sw_tag_desync_cnt_rst'' 35"
definition dsp_set_get_sw_tag_desync_cnt_exp :: "('w, msg_args) disp_op" where [dsp_exp_defs]: "dsp_set_get_sw_tag_desync_cnt_exp = param_exp ''dsp_set_get_sw_tag_desync_cnt'' 36"
definition dsp_set_get_tbt_tag_desync_cnt_rst_exp :: "('w, msg_args) disp_op" where [dsp_exp_defs]: "dsp_set_get_tbt_tag_desync_cnt_rst_exp = param_exp ''dsp_set_get_tbt_tag_desync_cnt_rst'' 37"
definition dsp_set_get_tbt_tag_desync_cnt_exp :: "('w, msg_args) disp_op" where [dsp_exp_defs]: "dsp_set_get_tbt_tag_desync_cnt_exp = param_exp ''dsp_set_get_tbt_tag_desync_cnt'' 38"
definition dsp_set_get_monit1_tag_en_exp :: "('w, msg_args) disp_op" where [dsp_exp_defs]: "dsp_set_get_monit1_tag_en_exp = param_exp ''dsp_set_get_monit1_tag_en'' 40"
definition dsp_set_get_monit1_tag_dly_exp :: "('w, msg_args) disp_op" where [dsp_exp_defs]: "dsp_set_get_monit1_tag_dly_exp = param_exp ''dsp_set_get_monit1_tag_dly'' 41"
definition dsp_set_get_monit1_data_mask_en_exp :: "('w, msg_args) disp_op" where [dsp_exp_defs]: "dsp_set_get_monit1_data_mask_en_exp = param_exp ''dsp_set_get_monit1_data_mask_en'' 42"
definition dsp_set_get_monit1_data_mask_samples_beg_exp :: "('w, msg_args) disp_op" where [dsp_exp_defs]: "dsp_set_get_monit1_data_mask_samples_beg_exp = param_exp ''dsp_set_get_monit1_data_mask_samples_beg'' 43"
definition dsp_set_get_monit1_data_mask_samples_end_exp :: "('w, msg_args) disp_op" where [dsp_exp_defs]: "dsp_set_get_monit1_data_mask_samples_end_exp = param_exp ''dsp_set_get_monit1_data_mask_samples_end'' 44"
definition dsp_set_get_monit1_tag_desync_cnt_rst_exp :: "('w, msg_args) disp_op" where [dsp_exp_defs]: "dsp_set_get_monit1_tag_desync_cnt_rst_exp = param_exp ''dsp_set_get_monit1_tag_desync_cnt_rst'' 45"
definition dsp_set_get_monit1_tag_desync_cnt_exp :: "('w, msg_args) disp_op" where [dsp_exp_defs]: "dsp_set_get_monit1_tag_desync_cnt_exp = param_exp ''dsp_set_get_monit1_tag_desync_cnt'' 46"
definition dsp_set_get_monit_tag_en_exp :: "('w, msg_args) disp_op" where [dsp_exp_defs]: "dsp_set_get_monit_tag_en_exp = param_exp ''dsp_set_get_monit_tag_en'' 47"
definition dsp_set_get_monit_tag_dly_exp :: "('w, msg_args) disp_op" where [dsp_exp_defs]: "dsp_set_get_monit_tag_dly_exp = param_exp ''dsp_set_get_monit_tag_dly'' 48"
definition dsp_set_get_monit_data_mask_en_exp :: "('w, msg_args) disp_op" where [dsp_exp_defs]: "dsp_set_get_monit_data_mask_en_exp = param_exp ''dsp_set_get_monit_data_mask_en'' 49"
definition dsp_set_get_monit_data_mask_samples_beg_exp :: "('w, msg_args) disp_op" where [dsp_exp_defs]: "dsp_set_get_monit_data_mask_samples_beg_exp = param_exp ''dsp_set_get_monit_data_mask_samples_beg'' 50"
definition dsp_set_get_monit_data_mask_samples_end_exp :: "('w, msg_args) disp_op" where [dsp_exp_defs]: "dsp_set_get_monit_data_mask_samples_end_exp = param_exp ''dsp_set_get_monit_data_mask_samples_end'' 51"
definition dsp_set_get_monit_tag_desync_cnt_rst_exp :: "('w, msg_args) disp_op" where [dsp_exp_defs]: "dsp_set_get_monit_tag_desync_cnt_rst_exp = param_exp ''dsp_set_get_monit_tag_desync_cnt_rst'' 52"
definition dsp_set_get_monit_tag_desync_cnt_exp :: "('w, msg_args) disp_op" where [dsp_exp_defs]: "dsp_set_get_monit_tag_desync_cnt_exp = param_exp ''dsp_set_get_monit_tag_desync_cnt'' 53"
definition dsp_set_get_offset_x_exp :: "('w, msg_args) disp_op" where [dsp_exp_defs]: "dsp_set_get_offset_x_exp = smio_exp ''dsp_set_get_offset_x'' 54 INT32_ARG [UINT32_ARG, UINT32_ARG]"
definition dsp_set_get_offset_y_exp :: "('w, msg_args) disp_op" where [dsp_exp_defs]: "dsp_set_get_offset_y_exp = smio_exp ''dsp_set_get_offset_y'' 55 INT32_ARG [UINT32_ARG, UINT32_ARG]"

definition dsp_exp_ops :: "('w, msg_args) disp_op list" where
  "dsp_exp_ops =
     [dsp_set_get_kx_exp, dsp_set_get_ky_exp, dsp_set_get_ksum_exp, dsp_set_get_ds_tbt_thres_exp,
      dsp_set_get_ds_fofb_thres_exp, dsp_set_get_ds_monit_thres_exp, dsp_set_get_cfg_test_data_exp,
      dsp_set_get_monit_amp_ch0_exp, dsp_set_get_monit_amp_ch1_exp, dsp_set_get_monit_amp_ch2_exp,
      dsp_set_get_monit_amp_ch3_exp, dsp_set_get_monit_pos_x_exp, dsp_set_get_monit_pos_y_exp,
      dsp_set_get_monit_pos_q_exp, dsp_set_get_monit_pos_sum_exp, dsp_set_get_monit_updt_exp,
      dsp_set_get_monit_poll_time_exp, dsp_set_get_monit1_amp_ch0_exp, dsp_set_get_monit1_amp_ch1_exp,
      dsp_set_get_monit1_amp_ch2_exp, dsp_set_get_monit1_amp_ch3_exp, dsp_set_get_monit1_pos_x_exp,
      dsp_set_get_monit1_pos_y_exp, dsp_set_get_monit1_pos_q_exp, dsp_set_get_monit1_pos_sum_exp,
      dsp_set_get_monit1_updt_exp, dsp_set_get_monit1_amp_pos_exp, dsp_set_get_sw_tag_en_exp,
      dsp_set_get_sw_data_mask_en_exp, dsp_set_get_sw_data_mask_samples_exp, dsp_set_get_tbt_tag_en_exp,
      dsp_set_get_tbt_tag_dly_exp, dsp_set_get_tbt_data_mask_en_exp, dsp_set_get_tbt_data_mask_samples_beg_exp,
      dsp_set_get_tbt_data_mask_samples_end_exp, dsp_set_get_sw_tag_desync_cnt_rst_exp,
      dsp_set_get_sw_tag_desync_cnt_exp, dsp_set_get_tbt_tag_desync_cnt_rst_exp,
      dsp_set_get_tbt_tag_desync_cnt_exp, dsp_set_get_monit1_tag_en_exp, dsp_set_get_monit1_tag_dly_exp,
      dsp_set_get_monit1_data_mask_en_exp, dsp_set_get_monit1_data_mask_samples_beg_exp,
      dsp_set_get_monit1_data_mask_samples_end_exp, dsp_set_get_monit1_tag_desync_cnt_rst_exp,
      dsp_set_get_monit1_tag_desync_cnt_exp, dsp_set_get_monit_tag_en_exp, dsp_set_get_monit_tag_dly_exp,
      dsp_set_get_monit_data_mask_en_exp, dsp_set_get_monit_data_mask_samples_beg_exp,
      dsp_set_get_monit_data_mask_samples_end_exp, dsp_set_get_monit_tag_desync_cnt_rst_exp,
      dsp_set_get_monit_tag_desync_cnt_exp, dsp_set_get_offset_x_exp, dsp_set_get_offset_y_exp]"

section \<open>fmc130m_4ch\<close>

named_theorems fmc130m_4ch_exp_defs

definition fmc130m_4ch_adc_rand_exp :: "('w, msg_args) disp_op" where [fmc130m_4ch_exp_defs]: "fmc130m_4ch_adc_rand_exp = param_exp ''fmc130m_4ch_adc_rand'' 5"
definition fmc130m_4ch_adc_dith_exp :: "('w, msg_args) disp_op" where [fmc130m_4ch_exp_defs]: "fmc130m_4ch_adc_dith_exp = param_exp ''fmc130m_4ch_adc_dith'' 6"
definition fmc130m_4ch_adc_shdn_exp :: "('w, msg_args) disp_op" where [fmc130m_4ch_exp_defs]: "fmc130m_4ch_adc_shdn_exp = param_exp ''fmc130m_4ch_adc_shdn'' 7"
definition fmc130m_4ch_adc_pga_exp :: "('w, msg_args) disp_op" where [fmc130m_4ch_exp_defs]: "fmc130m_4ch_adc_pga_exp = param_exp ''fmc130m_4ch_adc_pga'' 8"
definition fmc130m_4ch_adc_data0_exp :: "('w, msg_args) disp_op" where [fmc130m_4ch_exp_defs]: "fmc130m_4ch_adc_data0_exp = param_exp ''fmc130m_4ch_adc_data0'' 9"
definition fmc130m_4ch_adc_data1_exp :: "('w, msg_args) disp_op" where [fmc130m_4ch_exp_defs]: "fmc130m_4ch_adc_data1_exp = param_exp ''fmc130m_4ch_adc_data1'' 10"
definition fmc130m_4ch_adc_data2_exp :: "('w, msg_args) disp_op" where [fmc130m_4ch_exp_defs]: "fmc130m_4ch_adc_data2_exp = param_exp ''fmc130m_4ch_adc_data2'' 11"
definition fmc130m_4ch_adc_data3_exp :: "('w, msg_args) disp_op" where [fmc130m_4ch_exp_defs]: "fmc130m_4ch_adc_data3_exp = param_exp ''fmc130m_4ch_adc_data3'' 12"
definition fmc130m_4ch_adc_dly_val0_exp :: "('w, msg_args) disp_op" where [fmc130m_4ch_exp_defs]: "fmc130m_4ch_adc_dly_val0_exp = param_exp ''fmc130m_4ch_adc_dly_val0'' 13"
definition fmc130m_4ch_adc_dly_val1_exp :: "('w, msg_args) disp_op" where [fmc130m_4ch_exp_defs]: "fmc130m_4ch_adc_dly_val1_exp = param_exp ''fmc130m_4ch_adc_dly_val1'' 14"
definition fmc130m_4ch_adc_dly_val2_exp :: "('w, msg_args) disp_op" where [fmc130m_4ch_exp_defs]: "fmc130m_4ch_adc_dly_val2_exp = param_exp ''fmc130m_4ch_adc_dly_val2'' 15"
definition fmc130m_4ch_adc_dly_val3_exp :: "('w, msg_args) disp_op" where [fmc130m_4ch_exp_defs]: "fmc130m_4ch_adc_dly_val3_exp = param_exp ''fmc130m_4ch_adc_dly_val3'' 16"
definition fmc130m_4ch_adc_dly_line0_exp :: "('w, msg_args) disp_op" where [fmc130m_4ch_exp_defs]: "fmc130m_4ch_adc_dly_line0_exp = param_exp ''fmc130m_4ch_adc_dly_line0'' 17"
definition fmc130m_4ch_adc_dly_line1_exp :: "('w, msg_args) disp_op" where [fmc130m_4ch_exp_defs]: "fmc130m_4ch_adc_dly_line1_exp = param_exp ''fmc130m_4ch_adc_dly_line1'' 18"
definition fmc130m_4ch_adc_dly_line2_exp :: "('w, msg_args) disp_op" where [fmc130m_4ch_exp_defs]: "fmc130m_4ch_adc_dly_line2_exp = param_exp ''fmc130m_4ch_adc_dly_line2'' 19"
definition fmc130m_4ch_adc_dly_line3_exp :: "('w, msg_args) disp_op" where [fmc130m_4ch_exp_defs]: "fmc130m_4ch_adc_dly_line3_exp = param_exp ''fmc130m_4ch_adc_dly_line3'' 20"
definition fmc130m_4ch_adc_dly_updt0_exp :: "('w, msg_args) disp_op" where [fmc130m_4ch_exp_defs]: "fmc130m_4ch_adc_dly_updt0_exp = param_exp ''fmc130m_4ch_adc_dly_updt0'' 21"
definition fmc130m_4ch_adc_dly_updt1_exp :: "('w, msg_args) disp_op" where [fmc130m_4ch_exp_defs]: "fmc130m_4ch_adc_dly_updt1_exp = param_exp ''fmc130m_4ch_adc_dly_updt1'' 22"
definition fmc130m_4ch_adc_dly_updt2_exp :: "('w, msg_args) disp_op" where [fmc130m_4ch_exp_defs]: "fmc130m_4ch_adc_dly_updt2_exp = param_exp ''fmc130m_4ch_adc_dly_updt2'' 23"
definition fmc130m_4ch_adc_dly_updt3_exp :: "('w, msg_args) disp_op" where [fmc130m_4ch_exp_defs]: "fmc130m_4ch_adc_dly_updt3_exp = param_exp ''fmc130m_4ch_adc_dly_updt3'' 24"
definition fmc130m_4ch_adc_dly0_exp :: "('w, msg_args) disp_op" where [fmc130m_4ch_exp_defs]: "fmc130m_4ch_adc_dly0_exp = smio_exp ''fmc130m_4ch_adc_dly0'' 25 DISP_ARG_END [UINT32_ARG, UINT32_ARG]"
definition fmc130m_4ch_adc_dly1_exp :: "('w, msg_args) disp_op" where [fmc130m_4ch_exp_defs]: "fmc130m_4ch_adc_dly1_exp = smio_exp ''fmc130m_4ch_adc_dly1'' 26 DISP_ARG_END [UINT32_ARG, UINT32_ARG]"
definition fmc130m_4ch_adc_dly2_exp :: "('w, msg_args) disp_op" where [fmc130m_4ch_exp_defs]: "fmc130m_4ch_adc_dly2_exp = smio_exp ''fmc130m_4ch_adc_dly2'' 27 DISP_ARG_END [UINT32_ARG, UINT32_ARG]"
definition fmc130m_4ch_adc_dly3_exp :: "('w, msg_args) disp_op" where [fmc130m_4ch_exp_defs]: "fmc130m_4ch_adc_dly3_exp = smio_exp ''fmc130m_4ch_adc_dly3'' 28 DISP_ARG_END [UINT32_ARG, UINT32_ARG]"
definition fmc130m_4ch_24aa64_data_exp :: "('w, msg_args) disp_op" where [fmc130m_4ch_exp_defs]: "fmc130m_4ch_24aa64_data_exp = chan_exp ''fmc130m_4ch_24aa64_data'' 29"

definition fmc130m_4ch_exp_ops :: "('w, msg_args) disp_op list" where
  "fmc130m_4ch_exp_ops =
     [fmc130m_4ch_adc_rand_exp, fmc130m_4ch_adc_dith_exp, fmc130m_4ch_adc_shdn_exp, fmc130m_4ch_adc_pga_exp,
      fmc130m_4ch_adc_data0_exp, fmc130m_4ch_adc_data1_exp, fmc130m_4ch_adc_data2_exp,
      fmc130m_4ch_adc_data3_exp, fmc130m_4ch_adc_dly_val0_exp, fmc130m_4ch_adc_dly_val1_exp,
      fmc130m_4ch_adc_dly_val2_exp, fmc130m_4ch_adc_dly_val3_exp, fmc130m_4ch_adc_dly_line0_exp,
      fmc130m_4ch_adc_dly_line1_exp, fmc130m_4ch_adc_dly_line2_exp, fmc130m_4ch_adc_dly_line3_exp,
      fmc130m_4ch_adc_dly_updt0_exp, fmc130m_4ch_adc_dly_updt1_exp, fmc130m_4ch_adc_dly_updt2_exp,
      fmc130m_4ch_adc_dly_updt3_exp, fmc130m_4ch_adc_dly0_exp, fmc130m_4ch_adc_dly1_exp,
      fmc130m_4ch_adc_dly2_exp, fmc130m_4ch_adc_dly3_exp, fmc130m_4ch_24aa64_data_exp]"

section \<open>fmc250m_4ch\<close>

named_theorems fmc250m_4ch_exp_defs

definition fmc250m_4ch_rst_adcs_exp :: "('w, msg_args) disp_op" where [fmc250m_4ch_exp_defs]: "fmc250m_4ch_rst_adcs_exp = param_exp ''fmc250m_4ch_rst_adcs'' 45"
definition fmc250m_4ch_rst_div_adcs_exp :: "('w, msg_args) disp_op" where [fmc250m_4ch_exp_defs]: "fmc250m_4ch_rst_div_adcs_exp = param_exp ''fmc250m_4ch_rst_div_adcs'' 46"
definition fmc250m_4ch_sleep_adcs_exp :: "('w, msg_args) disp_op" where [fmc250m_4ch_exp_defs]: "fmc250m_4ch_sleep_adcs_exp = param_exp ''fmc250m_4ch_sleep_adcs'' 47"
definition fmc250m_4ch_adc_data0_exp :: "('w, msg_args) disp_op" where [fmc250m_4ch_exp_defs]: "fmc250m_4ch_adc_data0_exp = param_exp ''fmc250m_4ch_adc_data0'' 9"
definition fmc250m_4ch_adc_data1_exp :: "('w, msg_args) disp_op" where [fmc250m_4ch_exp_defs]: "fmc250m_4ch_adc_data1_exp = param_exp ''fmc250m_4ch_adc_data1'' 10"
definition fmc250m_4ch_adc_data2_exp :: "('w, msg_args) disp_op" where [fmc250m_4ch_exp_defs]: "fmc250m_4ch_adc_data2_exp = param_exp ''fmc250m_4ch_adc_data2'' 11"
definition fmc250m_4ch_adc_data3_exp :: "('w, msg_args) disp_op" where [fmc250m_4ch_exp_defs]: "fmc250m_4ch_adc_data3_exp = param_exp ''fmc250m_4ch_adc_data3'' 12"
definition fmc250m_4ch_adc_data_dly0_exp :: "('w, msg_args) disp_op" where [fmc250m_4ch_exp_defs]: "fmc250m_4ch_adc_data_dly0_exp = param_exp ''fmc250m_4ch_adc_data_dly0'' 13"
definition fmc250m_4ch_adc_data_dly1_exp :: "('w, msg_args) disp_op" where [fmc250m_4ch_exp_defs]: "fmc250m_4ch_adc_data_dly1_exp = param_exp ''fmc250m_4ch_adc_data_dly1'' 14"
definition fmc250m_4ch_adc_data_dly2_exp :: "('w, msg_args) disp_op" where [fmc250m_4ch_exp_defs]: "fmc250m_4ch_adc_data_dly2_exp = param_exp ''fmc250m_4ch_adc_data_dly2'' 15"
definition fmc250m_4ch_adc_data_dly3_exp :: "('w, msg_args) disp_op" where [fmc250m_4ch_exp_defs]: "fmc250m_4ch_adc_data_dly3_exp = param_exp ''fmc250m_4ch_adc_data_dly3'' 16"
definition fmc250m_4ch_adc_clk_dly0_exp :: "('w, msg_args) disp_op" where [fmc250m_4ch_exp_defs]: "fmc250m_4ch_adc_clk_dly0_exp = param_exp ''fmc250m_4ch_adc_clk_dly0'' 17"
definition fmc250m_4ch_adc_clk_dly1_exp :: "('w, msg_args) disp_op" where [fmc250m_4ch_exp_defs]: "fmc250m_4ch_adc_clk_dly1_exp = param_exp ''fmc250m_4ch_adc_clk_dly1'' 18"
definition fmc250m_4ch_adc_clk_dly2_exp :: "('w, msg_args) disp_op" where [fmc250m_4ch_exp_defs]: "fmc250m_4ch_adc_clk_dly2_exp = param_exp ''fmc250m_4ch_adc_clk_dly2'' 19"
definition fmc250m_4ch_adc_clk_dly3_exp :: "('w, msg_args) disp_op" where [fmc250m_4ch_exp_defs]: "fmc250m_4ch_adc_clk_dly3_exp = param_exp ''fmc250m_4ch_adc_clk_dly3'' 20"
definition fmc250m_4ch_adc_dly_line0_exp :: "('w, msg_args) disp_op" where [fmc250m_4ch_exp_defs]: "fmc250m_4ch_adc_dly_line0_exp = param_exp ''fmc250m_4ch_adc_dly_line0'' 21"
definition fmc250m_4ch_adc_dly_line1_exp :: "('w, msg_args) disp_op" where [fmc250m_4ch_exp_defs]: "fmc250m_4ch_adc_dly_line1_exp = param_exp ''fmc250m_4ch_adc_dly_line1'' 22"
definition fmc250m_4ch_adc_dly_line2_exp :: "('w, msg_args) disp_op" where [fmc250m_4ch_exp_defs]: "fmc250m_4ch_adc_dly_line2_exp = param_exp ''fmc250m_4ch_adc_dly_line2'' 23"
definition fmc250m_4ch_adc_dly_line3_exp :: "('w, msg_args) disp_op" where [fmc250m_4ch_exp_defs]: "fmc250m_4ch_adc_dly_line3_exp = param_exp ''fmc250m_4ch_adc_dly_line3'' 24"
definition fmc250m_4ch_adc_dly_updt0_exp :: "('w, msg_args) disp_op" where [fmc250m_4ch_exp_defs]: "fmc250m_4ch_adc_dly_updt0_exp = param_exp ''fmc250m_4ch_adc_dly_updt0'' 25"
definition fmc250m_4ch_adc_dly_updt1_exp :: "('w, msg_args) disp_op" where [fmc250m_4ch_exp_defs]: "fmc250m_4ch_adc_dly_updt1_exp = param_exp ''fmc250m_4ch_adc_dly_updt1'' 26"
definition fmc250m_4ch_adc_dly_updt2_exp :: "('w, msg_args) disp_op" where [fmc250m_4ch_exp_defs]: "fmc250m_4ch_adc_dly_updt2_exp = param_exp ''fmc250m_4ch_adc_dly_updt2'' 27"
definition fmc250m_4ch_adc_dly_updt3_exp :: "('w, msg_args) disp_op" where [fmc250m_4ch_exp_defs]: "fmc250m_4ch_adc_dly_updt3_exp = param_exp ''fmc250m_4ch_adc_dly_updt3'' 28"
definition fmc250m_4ch_adc_dly0_exp :: "('w, msg_args) disp_op" where [fmc250m_4ch_exp_defs]: "fmc250m_4ch_adc_dly0_exp = smio_exp ''fmc250m_4ch_adc_dly0'' 29 DISP_ARG_END [UINT32_ARG, UINT32_ARG]"
definition fmc250m_4ch_adc_dly1_exp :: "('w, msg_args) disp_op" where [fmc250m_4ch_exp_defs]: "fmc250m_4ch_adc_dly1_exp = smio_exp ''fmc250m_4ch_adc_dly1'' 30 DISP_ARG_END [UINT32_ARG, UINT32_ARG]"
definition fmc250m_4ch_adc_dly2_exp :: "('w, msg_args) disp_op" where [fmc250m_4ch_exp_defs]: "fmc250m_4ch_adc_dly2_exp = smio_exp ''fmc250m_4ch_adc_dly2'' 31 DISP_ARG_END [UINT32_ARG, UINT32_ARG]"
definition fmc250m_4ch_adc_dly3_exp :: "('w, msg_args) disp_op" where [fmc250m_4ch_exp_defs]: "fmc250m_4ch_adc_dly3_exp = smio_exp ''fmc250m_4ch_adc_dly3'' 32 DISP_ARG_END [UINT32_ARG, UINT32_ARG]"
definition fmc250m_4ch_test_mode_exp :: "('w, msg_args) disp_op" where [fmc250m_4ch_exp_defs]: "fmc250m_4ch_test_mode_exp = smio_exp ''fmc250m_4ch_test_mode'' 48 DISP_ARG_END [UINT32_ARG, UINT32_ARG, UINT32_ARG]"
definition fmc250m_4ch_rst_exp :: "('w, msg_args) disp_op" where [fmc250m_4ch_exp_defs]: "fmc250m_4ch_rst_exp = smio_exp ''fmc250m_4ch_rst'' 49 DISP_ARG_END [UINT32_ARG, UINT32_ARG, UINT32_ARG]"
definition fmc250m_4ch_portconfig_exp :: "('w, msg_args) disp_op" where [fmc250m_4ch_exp_defs]: "fmc250m_4ch_portconfig_exp = smio_exp ''fmc250m_4ch_portconfig'' 50 DISP_ARG_END [UINT32_ARG, UINT32_ARG, UINT32_ARG]"
definition fmc250m_4ch_reg_exp :: "('w, msg_args) disp_op" where [fmc250m_4ch_exp_defs]: "fmc250m_4ch_reg_exp = smio_exp ''fmc250m_4ch_reg'' 51 UINT32_ARG [UINT32_ARG, UINT32_ARG, UINT32_ARG, UINT32_ARG]"
definition fmc250m_4ch_temp_exp :: "('w, msg_args) disp_op" where [fmc250m_4ch_exp_defs]: "fmc250m_4ch_temp_exp = chan_exp ''fmc250m_4ch_temp'' 52"
definition fmc250m_4ch_cal_status_exp :: "('w, msg_args) disp_op" where [fmc250m_4ch_exp_defs]: "fmc250m_4ch_cal_status_exp = chan_exp ''fmc250m_4ch_cal_status'' 53"

definition fmc250m_4ch_exp_ops :: "('w, msg_args) disp_op list" where
  "fmc250m_4ch_exp_ops =
     [fmc250m_4ch_adc_data0_exp, fmc250m_4ch_adc_data1_exp, fmc250m_4ch_adc_data2_exp,
      fmc250m_4ch_adc_data3_exp, fmc250m_4ch_adc_data_dly0_exp, fmc250m_4ch_adc_data_dly1_exp,
      fmc250m_4ch_adc_data_dly2_exp, fmc250m_4ch_adc_data_dly3_exp, fmc250m_4ch_adc_clk_dly0_exp,
      fmc250m_4ch_adc_clk_dly1_exp, fmc250m_4ch_adc_clk_dly2_exp, fmc250m_4ch_adc_clk_dly3_exp,
      fmc250m_4ch_adc_dly_line0_exp, fmc250m_4ch_adc_dly_line1_exp, fmc250m_4ch_adc_dly_line2_exp,
      fmc250m_4ch_adc_dly_line3_exp, fmc250m_4ch_adc_dly_updt0_exp, fmc250m_4ch_adc_dly_updt1_exp,
      fmc250m_4ch_adc_dly_updt2_exp, fmc250m_4ch_adc_dly_updt3_exp, fmc250m_4ch_adc_dly0_exp,
      fmc250m_4ch_adc_dly1_exp, fmc250m_4ch_adc_dly2_exp, fmc250m_4ch_adc_dly3_exp, fmc250m_4ch_rst_adcs_exp,
      fmc250m_4ch_rst_div_adcs_exp, fmc250m_4ch_sleep_adcs_exp, fmc250m_4ch_test_mode_exp, fmc250m_4ch_rst_exp,
      fmc250m_4ch_portconfig_exp, fmc250m_4ch_reg_exp, fmc250m_4ch_temp_exp, fmc250m_4ch_cal_status_exp]"

section \<open>fmc100m_4ch\<close>

named_theorems fmc100m_4ch_exp_defs

definition fmc100m_4ch_si571_oe_exp :: "('w, msg_args) disp_op" where [fmc100m_4ch_exp_defs]: "fmc100m_4ch_si571_oe_exp = param_exp ''fmc100m_4ch_si571_oe'' 0"
definition fmc100m_4ch_acq_led_exp :: "('w, msg_args) disp_op" where [fmc100m_4ch_exp_defs]: "fmc100m_4ch_acq_led_exp = param_exp ''fmc100m_4ch_acq_led'' 1"
definition fmc100m_4ch_status_exp :: "('w, msg_args) disp_op" where [fmc100m_4ch_exp_defs]: "fmc100m_4ch_status_exp = param_exp ''fmc100m_4ch_status'' 20"
definition fmc100m_4ch_adc_status_exp :: "('w, msg_args) disp_op" where [fmc100m_4ch_exp_defs]: "fmc100m_4ch_adc_status_exp = chan_exp ''fmc100m_4ch_status'' 21"
definition fmc100m_4ch_adc_calib_gain_exp :: "('w, msg_args) disp_op" where [fmc100m_4ch_exp_defs]: "fmc100m_4ch_adc_calib_gain_exp = chan_exp ''fmc100m_4ch_adc_calib_gain'' 22"
definition fmc100m_4ch_adc_calib_offset_exp :: "('w, msg_args) disp_op" where [fmc100m_4ch_exp_defs]: "fmc100m_4ch_adc_calib_offset_exp = chan_exp ''fmc100m_4ch_adc_calib_offset'' 23"
definition fmc100m_4ch_adc_sat_exp :: "('w, msg_args) disp_op" where [fmc100m_4ch_exp_defs]: "fmc100m_4ch_adc_sat_exp = chan_exp ''fmc100m_4ch_adc_sat'' 24"
definition fmc100m_4ch_adc_ssr_exp :: "('w, msg_args) disp_op" where [fmc100m_4ch_exp_defs]: "fmc100m_4ch_adc_ssr_exp = chan_exp ''fmc100m_4ch_adc_ssr'' 25"
definition fmc100m_4ch_fs_freq_exp :: "('w, msg_args) disp_op" where [fmc100m_4ch_exp_defs]: "fmc100m_4ch_fs_freq_exp = param_exp ''fmc100m_4ch_fs_freq'' 26"
definition fmc100m_4ch_si571_freq_exp :: "('w, msg_args) disp_op" where [fmc100m_4ch_exp_defs]: "fmc100m_4ch_si571_freq_exp = smio_exp ''fmc100m_4ch_si571_freq'' 14 DOUBLE_ARG [UINT32_ARG, DOUBLE_ARG]"
definition fmc100m_4ch_si571_get_defaults_exp :: "('w, msg_args) disp_op" where [fmc100m_4ch_exp_defs]: "fmc100m_4ch_si571_get_defaults_exp = smio_exp ''fmc100m_4ch_si571_get_defaults'' 15 DISP_ARG_END [UINT32_ARG, DOUBLE_ARG]"
definition fmc100m_4ch_si571_fstartup_exp :: "('w, msg_args) disp_op" where [fmc100m_4ch_exp_defs]: "fmc100m_4ch_si571_fstartup_exp = smio_exp ''fmc100m_4ch_si571_fstartup'' 19 DOUBLE_ARG [UINT32_ARG, DOUBLE_ARG]"
definition fmc100m_4ch_ltc2174_test_patt_exp :: "('w, msg_args) disp_op" where [fmc100m_4ch_exp_defs]: "fmc100m_4ch_ltc2174_test_patt_exp = param_exp ''fmc100m_4ch_test_patt'' 27"
definition fmc100m_4ch_ltc2174_test_patt_data_exp :: "('w, msg_args) disp_op" where [fmc100m_4ch_exp_defs]: "fmc100m_4ch_ltc2174_test_patt_data_exp = param_exp ''fmc100m_4ch_test_patt_data'' 28"
definition fmc100m_4ch_ltc2174_reset_exp :: "('w, msg_args) disp_op" where [fmc100m_4ch_exp_defs]: "fmc100m_4ch_ltc2174_reset_exp = param_exp ''fmc100m_4ch_reset'' 29"
definition fmc100m_4ch_ltc2174_twos_compl_exp :: "('w, msg_args) disp_op" where [fmc100m_4ch_exp_defs]: "fmc100m_4ch_ltc2174_twos_compl_exp = param_exp ''fmc100m_4ch_twos_compl'' 30"

definition fmc100m_4ch_exp_ops :: "('w, msg_args) disp_op list" where
  "fmc100m_4ch_exp_ops =
     [fmc100m_4ch_si571_oe_exp, fmc100m_4ch_acq_led_exp, fmc100m_4ch_status_exp, fmc100m_4ch_adc_status_exp,
      fmc100m_4ch_adc_calib_gain_exp, fmc100m_4ch_adc_calib_offset_exp, fmc100m_4ch_adc_sat_exp,
      fmc100m_4ch_adc_ssr_exp, fmc100m_4ch_fs_freq_exp, fmc100m_4ch_si571_freq_exp,
      fmc100m_4ch_si571_get_defaults_exp, fmc100m_4ch_si571_fstartup_exp, fmc100m_4ch_ltc2174_test_patt_exp,
      fmc100m_4ch_ltc2174_test_patt_data_exp, fmc100m_4ch_ltc2174_reset_exp, fmc100m_4ch_ltc2174_twos_compl_exp]"

section \<open>fmc_active_clk\<close>

named_theorems fmc_active_clk_exp_defs

definition fmc_active_clk_si571_oe_exp :: "('w, msg_args) disp_op" where [fmc_active_clk_exp_defs]: "fmc_active_clk_si571_oe_exp = param_exp ''fmc_active_clk_si571_oe'' 0"
definition fmc_active_clk_pll_func_exp :: "('w, msg_args) disp_op" where [fmc_active_clk_exp_defs]: "fmc_active_clk_pll_func_exp = param_exp ''fmc_active_clk_pll_function'' 1"
definition fmc_active_clk_pll_status_exp :: "('w, msg_args) disp_op" where [fmc_active_clk_exp_defs]: "fmc_active_clk_pll_status_exp = param_exp ''fmc_active_clk_pll_status'' 2"
definition fmc_active_clk_clk_sel_exp :: "('w, msg_args) disp_op" where [fmc_active_clk_exp_defs]: "fmc_active_clk_clk_sel_exp = param_exp ''fmc_active_clk_clk_sel'' 3"
definition fmc_active_clk_ad9510_cfg_defaults_exp :: "('w, msg_args) disp_op" where [fmc_active_clk_exp_defs]: "fmc_active_clk_ad9510_cfg_defaults_exp = param_exp ''fmc_active_clk_ad9510_cfg_defaults'' 4"
definition fmc_active_clk_ad9510_pll_a_div_exp :: "('w, msg_args) disp_op" where [fmc_active_clk_exp_defs]: "fmc_active_clk_ad9510_pll_a_div_exp = param_exp ''fmc_active_clk_ad9510_pll_a_div'' 5"
definition fmc_active_clk_ad9510_pll_b_div_exp :: "('w, msg_args) disp_op" where [fmc_active_clk_exp_defs]: "fmc_active_clk_ad9510_pll_b_div_exp = param_exp ''fmc_active_clk_ad9510_pll_b_div'' 6"
definition fmc_active_clk_ad9510_pll_prescaler_exp :: "('w, msg_args) disp_op" where [fmc_active_clk_exp_defs]: "fmc_active_clk_ad9510_pll_prescaler_exp = param_exp ''fmc_active_clk_ad9510_pll_prescaler'' 7"
definition fmc_active_clk_ad9510_r_div_exp :: "('w, msg_args) disp_op" where [fmc_active_clk_exp_defs]: "fmc_active_clk_ad9510_r_div_exp = param_exp ''fmc_active_clk_ad9510_r_div'' 8"
definition fmc_active_clk_ad9510_pll_pdown_exp :: "('w, msg_args) disp_op" where [fmc_active_clk_exp_defs]: "fmc_active_clk_ad9510_pll_pdown_exp = param_exp ''fmc_active_clk_ad9510_pll_pdown'' 9"
definition fmc_active_clk_ad9510_mux_status_exp :: "('w, msg_args) disp_op" where [fmc_active_clk_exp_defs]: "fmc_active_clk_ad9510_mux_status_exp = param_exp ''fmc_active_clk_ad9510_mux_status'' 10"
definition fmc_active_clk_ad9510_cp_current_exp :: "('w, msg_args) disp_op" where [fmc_active_clk_exp_defs]: "fmc_active_clk_ad9510_cp_current_exp = param_exp ''fmc_active_clk_ad9510_cp_current'' 11"
definition fmc_active_clk_ad9510_outputs_exp :: "('w, msg_args) disp_op" where [fmc_active_clk_exp_defs]: "fmc_active_clk_ad9510_outputs_exp = param_exp ''fmc_active_clk_ad9510_outputs'' 12"
definition fmc_active_clk_ad9510_pll_clk_sel_exp :: "('w, msg_args) disp_op" where [fmc_active_clk_exp_defs]: "fmc_active_clk_ad9510_pll_clk_sel_exp = param_exp ''fmc_active_clk_ad9510_pll_clk_sel'' 13"
definition fmc_active_clk_si571_freq_exp :: "('w, msg_args) disp_op" where [fmc_active_clk_exp_defs]: "fmc_active_clk_si571_freq_exp = smio_exp ''fmc_active_clk_si571_freq'' 14 DOUBLE_ARG [UINT32_ARG, DOUBLE_ARG]"
definition fmc_active_clk_si571_get_defaults_exp :: "('w, msg_args) disp_op" where [fmc_active_clk_exp_defs]: "fmc_active_clk_si571_get_defaults_exp = smio_exp ''fmc_active_clk_si571_get_defaults'' 15 DISP_ARG_END [UINT32_ARG, DOUBLE_ARG]"
definition fmc_active_clk_rst_isla216p_exp :: "('w, msg_args) disp_op" where [fmc_active_clk_exp_defs]: "fmc_active_clk_rst_isla216p_exp = param_exp ''fmc_active_clk_rst_isla216p'' 16"
definition fmc_active_clk_rst_swap_exp :: "('w, msg_args) disp_op" where [fmc_active_clk_exp_defs]: "fmc_active_clk_rst_swap_exp = param_exp ''fmc_active_clk_rst_swap'' 17"
definition fmc_active_clk_ad9510_data_exp :: "('w, msg_args) disp_op" where [fmc_active_clk_exp_defs]: "fmc_active_clk_ad9510_data_exp = chan_exp ''fmc_active_clk_ad9510_data'' 18"
definition fmc_active_clk_si571_fstartup_exp :: "('w, msg_args) disp_op" where [fmc_active_clk_exp_defs]: "fmc_active_clk_si571_fstartup_exp = smio_exp ''fmc_active_clk_si571_fstartup'' 19 DOUBLE_ARG [UINT32_ARG, DOUBLE_ARG]"

definition fmc_active_clk_exp_ops :: "('w, msg_args) disp_op list" where
  "fmc_active_clk_exp_ops =
     [fmc_active_clk_si571_oe_exp, fmc_active_clk_pll_func_exp, fmc_active_clk_pll_status_exp,
      fmc_active_clk_clk_sel_exp, fmc_active_clk_ad9510_cfg_defaults_exp, fmc_active_clk_ad9510_pll_a_div_exp,
      fmc_active_clk_ad9510_pll_b_div_exp, fmc_active_clk_ad9510_pll_prescaler_exp,
      fmc_active_clk_ad9510_r_div_exp, fmc_active_clk_ad9510_pll_pdown_exp,
      fmc_active_clk_ad9510_mux_status_exp, fmc_active_clk_ad9510_cp_current_exp,
      fmc_active_clk_ad9510_outputs_exp, fmc_active_clk_ad9510_pll_clk_sel_exp, fmc_active_clk_si571_freq_exp,
      fmc_active_clk_si571_get_defaults_exp, fmc_active_clk_rst_isla216p_exp, fmc_active_clk_rst_swap_exp,
      fmc_active_clk_ad9510_data_exp, fmc_active_clk_si571_fstartup_exp]"

section \<open>rffe\<close>

named_theorems rffe_exp_defs

definition rffe_set_get_att_exp :: "('w, msg_args) disp_op" where [rffe_exp_defs]: "rffe_set_get_att_exp = smio_exp ''rffe_att'' 0 DOUBLE_ARG [UINT32_ARG, DOUBLE_ARG]"
definition rffe_set_get_temp_ac_exp :: "('w, msg_args) disp_op" where [rffe_exp_defs]: "rffe_set_get_temp_ac_exp = smio_exp ''rffe_temp_ac'' 1 DOUBLE_ARG [UINT32_ARG, DOUBLE_ARG]"
definition rffe_set_get_temp_bd_exp :: "('w, msg_args) disp_op" where [rffe_exp_defs]: "rffe_set_get_temp_bd_exp = smio_exp ''rffe_temp_bd'' 2 DOUBLE_ARG [UINT32_ARG, DOUBLE_ARG]"
definition rffe_set_get_set_point_ac_exp :: "('w, msg_args) disp_op" where [rffe_exp_defs]: "rffe_set_get_set_point_ac_exp = smio_exp ''rffe_set_point_ac'' 3 DOUBLE_ARG [UINT32_ARG, DOUBLE_ARG]"
definition rffe_set_get_set_point_bd_exp :: "('w, msg_args) disp_op" where [rffe_exp_defs]: "rffe_set_get_set_point_bd_exp = smio_exp ''rffe_set_point_bd'' 4 DOUBLE_ARG [UINT32_ARG, DOUBLE_ARG]"
definition rffe_set_get_temp_control_exp :: "('w, msg_args) disp_op" where [rffe_exp_defs]: "rffe_set_get_temp_control_exp = smio_exp ''rffe_temp_control'' 5 UINT8_ARG [UINT32_ARG, UINT32_1_ARG]"
definition rffe_set_get_heater_ac_exp :: "('w, msg_args) disp_op" where [rffe_exp_defs]: "rffe_set_get_heater_ac_exp = smio_exp ''rffe_heater_ac'' 6 DOUBLE_ARG [UINT32_ARG, DOUBLE_ARG]"
definition rffe_set_get_heater_bd_exp :: "('w, msg_args) disp_op" where [rffe_exp_defs]: "rffe_set_get_heater_bd_exp = smio_exp ''rffe_heater_bd'' 7 DOUBLE_ARG [UINT32_ARG, DOUBLE_ARG]"
definition rffe_set_get_reset_exp :: "('w, msg_args) disp_op" where [rffe_exp_defs]: "rffe_set_get_reset_exp = smio_exp ''rffe_reset'' 8 UINT8_ARG [UINT32_ARG, UINT8_ARG]"
definition rffe_set_get_reprog_exp :: "('w, msg_args) disp_op" where [rffe_exp_defs]: "rffe_set_get_reprog_exp = smio_exp ''rffe_reprog'' 9 UINT8_ARG [UINT32_ARG, UINT8_ARG]"
definition rffe_set_get_data_exp :: "('w, msg_args) disp_op" where [rffe_exp_defs]: "rffe_set_get_data_exp = smio_exp ''rffe_data'' 10 RFFE_DATA_ARG [UINT32_ARG, RFFE_DATA_ARG]"
definition rffe_set_get_version_exp :: "('w, msg_args) disp_op" where [rffe_exp_defs]: "rffe_set_get_version_exp = smio_exp ''rffe_version'' 11 RFFE_VERSION_ARG [UINT32_ARG, RFFE_VERSION_ARG]"
definition rffe_set_get_pid_ac_kp_exp :: "('w, msg_args) disp_op" where [rffe_exp_defs]: "rffe_set_get_pid_ac_kp_exp = smio_exp ''rffe_pid_ac_kp'' 12 DOUBLE_ARG [UINT32_ARG, DOUBLE_ARG]"
definition rffe_set_get_pid_ac_ti_exp :: "('w, msg_args) disp_op" where [rffe_exp_defs]: "rffe_set_get_pid_ac_ti_exp = smio_exp ''rffe_pid_ac_ti'' 13 DOUBLE_ARG [UINT32_ARG, DOUBLE_ARG]"
definition rffe_set_get_pid_ac_td_exp :: "('w, msg_args) disp_op" where [rffe_exp_defs]: "rffe_set_get_pid_ac_td_exp = smio_exp ''rffe_pid_ac_td'' 14 DOUBLE_ARG [UINT32_ARG, DOUBLE_ARG]"
definition rffe_set_get_pid_bd_kp_exp :: "('w, msg_args) disp_op" where [rffe_exp_defs]: "rffe_set_get_pid_bd_kp_exp = smio_exp ''rffe_pid_bd_kp'' 15 DOUBLE_ARG [UINT32_ARG, DOUBLE_ARG]"
definition rffe_set_get_pid_bd_ti_exp :: "('w, msg_args) disp_op" where [rffe_exp_defs]: "rffe_set_get_pid_bd_ti_exp = smio_exp ''rffe_pid_bd_ti'' 16 DOUBLE_ARG [UINT32_ARG, DOUBLE_ARG]"
definition rffe_set_get_pid_bd_td_exp :: "('w, msg_args) disp_op" where [rffe_exp_defs]: "rffe_set_get_pid_bd_td_exp = smio_exp ''rffe_pid_bd_td'' 17 DOUBLE_ARG [UINT32_ARG, DOUBLE_ARG]"

definition rffe_exp_ops :: "('w, msg_args) disp_op list" where
  "rffe_exp_ops =
     [rffe_set_get_att_exp, rffe_set_get_temp_ac_exp, rffe_set_get_temp_bd_exp, rffe_set_get_set_point_ac_exp,
      rffe_set_get_set_point_bd_exp, rffe_set_get_temp_control_exp, rffe_set_get_heater_ac_exp,
      rffe_set_get_heater_bd_exp, rffe_set_get_reset_exp, rffe_set_get_reprog_exp, rffe_set_get_data_exp,
      rffe_set_get_version_exp, rffe_set_get_pid_ac_kp_exp, rffe_set_get_pid_ac_ti_exp,
      rffe_set_get_pid_ac_td_exp, rffe_set_get_pid_bd_kp_exp, rffe_set_get_pid_bd_ti_exp,
      rffe_set_get_pid_bd_td_exp]"

section \<open>rffe_scpi\<close>

named_theorems rffe_scpi_exp_defs

definition rffe_scpi_set_get_att_exp :: "('w, msg_args) disp_op" where [rffe_scpi_exp_defs]: "rffe_scpi_set_get_att_exp = smio_exp ''rffe_att'' 0 DOUBLE_ARG [UINT32_ARG, DOUBLE_ARG]"
definition rffe_scpi_set_get_temp_ac_exp :: "('w, msg_args) disp_op" where [rffe_scpi_exp_defs]: "rffe_scpi_set_get_temp_ac_exp = smio_exp ''rffe_temp_ac'' 1 DOUBLE_ARG [UINT32_ARG, DOUBLE_ARG]"
definition rffe_scpi_set_get_temp_bd_exp :: "('w, msg_args) disp_op" where [rffe_scpi_exp_defs]: "rffe_scpi_set_get_temp_bd_exp = smio_exp ''rffe_temp_bd'' 2 DOUBLE_ARG [UINT32_ARG, DOUBLE_ARG]"
definition rffe_scpi_set_get_set_point_ac_exp :: "('w, msg_args) disp_op" where [rffe_scpi_exp_defs]: "rffe_scpi_set_get_set_point_ac_exp = smio_exp ''rffe_set_point_ac'' 3 DOUBLE_ARG [UINT32_ARG, DOUBLE_ARG]"
definition rffe_scpi_set_get_set_point_bd_exp :: "('w, msg_args) disp_op" where [rffe_scpi_exp_defs]: "rffe_scpi_set_get_set_point_bd_exp = smio_exp ''rffe_set_point_bd'' 4 DOUBLE_ARG [UINT32_ARG, DOUBLE_ARG]"
definition rffe_scpi_set_get_temp_control_exp :: "('w, msg_args) disp_op" where [rffe_scpi_exp_defs]: "rffe_scpi_set_get_temp_control_exp = smio_exp ''rffe_temp_control'' 5 UINT8_ARG [UINT32_ARG, UINT32_1_ARG]"
definition rffe_scpi_set_get_heater_ac_exp :: "('w, msg_args) disp_op" where [rffe_scpi_exp_defs]: "rffe_scpi_set_get_heater_ac_exp = smio_exp ''rffe_heater_ac'' 6 DOUBLE_ARG [UINT32_ARG, DOUBLE_ARG]"
definition rffe_scpi_set_get_heater_bd_exp :: "('w, msg_args) disp_op" where [rffe_scpi_exp_defs]: "rffe_scpi_set_get_heater_bd_exp = smio_exp ''rffe_heater_bd'' 7 DOUBLE_ARG [UINT32_ARG, DOUBLE_ARG]"
definition rffe_scpi_set_get_reset_exp :: "('w, msg_args) disp_op" where [rffe_scpi_exp_defs]: "rffe_scpi_set_get_reset_exp = smio_exp ''rffe_reset'' 8 UINT8_ARG [UINT32_ARG, UINT8_ARG]"
definition rffe_scpi_set_get_reprog_exp :: "('w, msg_args) disp_op" where [rffe_scpi_exp_defs]: "rffe_scpi_set_get_reprog_exp = smio_exp ''rffe_reprog'' 9 UINT8_ARG [UINT32_ARG, UINT8_ARG]"
definition rffe_scpi_set_get_data_exp :: "('w, msg_args) disp_op" where [rffe_scpi_exp_defs]: "rffe_scpi_set_get_data_exp = smio_exp ''rffe_data'' 10 RFFE_DATA_ARG [UINT32_ARG, RFFE_DATA_ARG]"
definition rffe_scpi_set_get_version_exp :: "('w, msg_args) disp_op" where [rffe_scpi_exp_defs]: "rffe_scpi_set_get_version_exp = smio_exp ''rffe_version'' 11 RFFE_VERSION_ARG [UINT32_ARG, RFFE_VERSION_ARG]"
definition rffe_scpi_set_get_pid_ac_kp_exp :: "('w, msg_args) disp_op" where [rffe_scpi_exp_defs]: "rffe_scpi_set_get_pid_ac_kp_exp = smio_exp ''rffe_pid_ac_kp'' 12 DOUBLE_ARG [UINT32_ARG, DOUBLE_ARG]"
definition rffe_scpi_set_get_pid_ac_ti_exp :: "('w, msg_args) disp_op" where [rffe_scpi_exp_defs]: "rffe_scpi_set_get_pid_ac_ti_exp = smio_exp ''rffe_pid_ac_ti'' 13 DOUBLE_ARG [UINT32_ARG, DOUBLE_ARG]"
definition rffe_scpi_set_get_pid_ac_td_exp :: "('w, msg_args) disp_op" where [rffe_scpi_exp_defs]: "rffe_scpi_set_get_pid_ac_td_exp = smio_exp ''rffe_pid_ac_td'' 14 DOUBLE_ARG [UINT32_ARG, DOUBLE_ARG]"
definition rffe_scpi_set_get_pid_bd_kp_exp :: "('w, msg_args) disp_op" where [rffe_scpi_exp_defs]: "rffe_scpi_set_get_pid_bd_kp_exp = smio_exp ''rffe_pid_bd_kp'' 15 DOUBLE_ARG [UINT32_ARG, DOUBLE_ARG]"
definition rffe_scpi_set_get_pid_bd_ti_exp :: "('w, msg_args) disp_op" where [rffe_scpi_exp_defs]: "rffe_scpi_set_get_pid_bd_ti_exp = smio_exp ''rffe_pid_bd_ti'' 16 DOUBLE_ARG [UINT32_ARG, DOUBLE_ARG]"
definition rffe_scpi_set_get_pid_bd_td_exp :: "('w, msg_args) disp_op" where [rffe_scpi_exp_defs]: "rffe_scpi_set_get_pid_bd_td_exp = smio_exp ''rffe_pid_bd_td'' 17 DOUBLE_ARG [UINT32_ARG, DOUBLE_ARG]"

definition rffe_scpi_exp_ops :: "('w, msg_args) disp_op list" where
  "rffe_scpi_exp_ops =
     [rffe_scpi_set_get_att_exp, rffe_scpi_set_get_temp_ac_exp, rffe_scpi_set_get_temp_bd_exp,
      rffe_scpi_set_get_set_point_ac_exp, rffe_scpi_set_get_set_point_bd_exp,
      rffe_scpi_set_get_temp_control_exp, rffe_scpi_set_get_heater_ac_exp, rffe_scpi_set_get_heater_bd_exp,
      rffe_scpi_set_get_reset_exp, rffe_scpi_set_get_reprog_exp, rffe_scpi_set_get_data_exp,
      rffe_scpi_set_get_version_exp, rffe_scpi_set_get_pid_ac_kp_exp, rffe_scpi_set_get_pid_ac_ti_exp,
      rffe_scpi_set_get_pid_ac_td_exp, rffe_scpi_set_get_pid_bd_kp_exp, rffe_scpi_set_get_pid_bd_ti_exp,
      rffe_scpi_set_get_pid_bd_td_exp]"

section \<open>afc_diag\<close>

named_theorems afc_diag_exp_defs

definition afc_diag_set_get_card_slot_exp :: "('w, msg_args) disp_op" where [afc_diag_exp_defs]: "afc_diag_set_get_card_slot_exp = param_exp ''afc_diag_card_slot'' 0"
definition afc_diag_set_get_ipmi_addr_exp :: "('w, msg_args) disp_op" where [afc_diag_exp_defs]: "afc_diag_set_get_ipmi_addr_exp = param_exp ''afc_diag_ipmi_addr'' 1"
definition afc_diag_get_build_revision_exp :: "('w, msg_args) disp_op" where [afc_diag_exp_defs]: "afc_diag_get_build_revision_exp = smio_exp ''afc_diag_build_revision'' 2 REVISION_ARG [UINT32_ARG, UINT32_ARG]"
definition afc_diag_get_build_date_exp :: "('w, msg_args) disp_op" where [afc_diag_exp_defs]: "afc_diag_get_build_date_exp = smio_exp ''afc_diag_build_date'' 3 REVISION_ARG [UINT32_ARG, UINT32_ARG]"
definition afc_diag_get_build_user_name_exp :: "('w, msg_args) disp_op" where [afc_diag_exp_defs]: "afc_diag_get_build_user_name_exp = smio_exp ''afc_diag_build_user_name'' 4 REVISION_ARG [UINT32_ARG, UINT32_ARG]"
definition afc_diag_get_build_user_email_exp :: "('w, msg_args) disp_op" where [afc_diag_exp_defs]: "afc_diag_get_build_user_email_exp = smio_exp ''afc_diag_build_user_email'' 5 REVISION_ARG [UINT32_ARG, UINT32_ARG]"

definition afc_diag_exp_ops :: "('w, msg_args) disp_op list" where
  "afc_diag_exp_ops =
     [afc_diag_set_get_card_slot_exp, afc_diag_set_get_ipmi_addr_exp, afc_diag_get_build_revision_exp,
      afc_diag_get_build_date_exp, afc_diag_get_build_user_name_exp, afc_diag_get_build_user_email_exp]"

section \<open>init\<close>

named_theorems init_exp_defs

definition init_set_get_check_exp :: "('w, msg_args) disp_op" where [init_exp_defs]: "init_set_get_check_exp = param_exp ''check'' 0"

definition init_exp_ops :: "('w, msg_args) disp_op list" where
  "init_exp_ops =
     [init_set_get_check_exp]"

section \<open>acq_pm\<close>

named_theorems acq_pm_exp_defs


definition acq_pm_exp_ops :: "('w, msg_args) disp_op list" where
  "acq_pm_exp_ops =
     []"

section \<open>afc_mgmt\<close>

named_theorems afc_mgmt_exp_defs

definition afc_mgmt_si57x_oe_exp :: "('w, msg_args) disp_op" where [afc_mgmt_exp_defs]: "afc_mgmt_si57x_oe_exp = param_exp ''fmc_active_clk_si57x_oe'' 0"
definition afc_mgmt_si57x_freq_exp :: "('w, msg_args) disp_op" where [afc_mgmt_exp_defs]: "afc_mgmt_si57x_freq_exp = smio_exp ''fmc_active_clk_si57x_freq'' 14 DOUBLE_ARG [UINT32_ARG, DOUBLE_ARG]"
definition afc_mgmt_si57x_get_defaults_exp :: "('w, msg_args) disp_op" where [afc_mgmt_exp_defs]: "afc_mgmt_si57x_get_defaults_exp = smio_exp ''fmc_active_clk_si57x_get_defaults'' 15 DISP_ARG_END [UINT32_ARG, DOUBLE_ARG]"
definition afc_mgmt_si57x_fstartup_exp :: "('w, msg_args) disp_op" where [afc_mgmt_exp_defs]: "afc_mgmt_si57x_fstartup_exp = smio_exp ''fmc_active_clk_si57x_fstartup'' 19 DOUBLE_ARG [UINT32_ARG, DOUBLE_ARG]"

definition afc_mgmt_exp_ops :: "('w, msg_args) disp_op list" where
  "afc_mgmt_exp_ops =
     [afc_mgmt_si57x_oe_exp, afc_mgmt_si57x_freq_exp, afc_mgmt_si57x_get_defaults_exp,
      afc_mgmt_si57x_fstartup_exp]"

end
