(* ===== verification/Client_Board.thy ===== *)
theory Client_Board
  imports Client_Table Exports
begin

text \<open>
  The client functions of the position calculation and the modules with chips, halcs_client_core.c: each is a call of one of the general functions with
  the operation code of its parameter.
\<close>

section \<open>dsp\<close>

named_theorems dsp_client_defs

definition DSP_OPCODE_SET_GET_KX :: u32 where [dsp_client_defs]: "DSP_OPCODE_SET_GET_KX = 0"
definition DSP_OPCODE_SET_GET_KY :: u32 where [dsp_client_defs]: "DSP_OPCODE_SET_GET_KY = 1"
definition DSP_OPCODE_SET_GET_KSUM :: u32 where [dsp_client_defs]: "DSP_OPCODE_SET_GET_KSUM = 2"
definition DSP_OPCODE_SET_GET_DS_TBT_THRES :: u32 where [dsp_client_defs]: "DSP_OPCODE_SET_GET_DS_TBT_THRES = 3"
definition DSP_OPCODE_SET_GET_DS_FOFB_THRES :: u32 where [dsp_client_defs]: "DSP_OPCODE_SET_GET_DS_FOFB_THRES = 4"
definition DSP_OPCODE_SET_GET_DS_MONIT_THRES :: u32 where [dsp_client_defs]: "DSP_OPCODE_SET_GET_DS_MONIT_THRES = 5"
definition DSP_OPCODE_SET_GET_CFG_TEST_DATA :: u32 where [dsp_client_defs]: "DSP_OPCODE_SET_GET_CFG_TEST_DATA = 6"
definition DSP_OPCODE_SET_GET_MONIT_AMP_CH0 :: u32 where [dsp_client_defs]: "DSP_OPCODE_SET_GET_MONIT_AMP_CH0 = 7"
definition DSP_OPCODE_SET_GET_MONIT_AMP_CH1 :: u32 where [dsp_client_defs]: "DSP_OPCODE_SET_GET_MONIT_AMP_CH1 = 8"
definition DSP_OPCODE_SET_GET_MONIT_AMP_CH2 :: u32 where [dsp_client_defs]: "DSP_OPCODE_SET_GET_MONIT_AMP_CH2 = 9"
definition DSP_OPCODE_SET_GET_MONIT_AMP_CH3 :: u32 where [dsp_client_defs]: "DSP_OPCODE_SET_GET_MONIT_AMP_CH3 = 10"
definition DSP_OPCODE_SET_GET_MONIT_POS_X :: u32 where [dsp_client_defs]: "DSP_OPCODE_SET_GET_MONIT_POS_X = 11"
definition DSP_OPCODE_SET_GET_MONIT_POS_Y :: u32 where [dsp_client_defs]: "DSP_OPCODE_SET_GET_MONIT_POS_Y = 12"
definition DSP_OPCODE_SET_GET_MONIT_POS_Q :: u32 where [dsp_client_defs]: "DSP_OPCODE_SET_GET_MONIT_POS_Q = 13"
definition DSP_OPCODE_SET_GET_MONIT_POS_SUM :: u32 where [dsp_client_defs]: "DSP_OPCODE_SET_GET_MONIT_POS_SUM = 14"
definition DSP_OPCODE_SET_GET_MONIT_UPDT :: u32 where [dsp_client_defs]: "DSP_OPCODE_SET_GET_MONIT_UPDT = 15"
definition DSP_OPCODE_SET_GET_MONIT_POLL_TIME :: u32 where [dsp_client_defs]: "DSP_OPCODE_SET_GET_MONIT_POLL_TIME = 39"
definition DSP_OPCODE_SET_GET_MONIT1_AMP_CH0 :: u32 where [dsp_client_defs]: "DSP_OPCODE_SET_GET_MONIT1_AMP_CH0 = 17"
definition DSP_OPCODE_SET_GET_MONIT1_AMP_CH1 :: u32 where [dsp_client_defs]: "DSP_OPCODE_SET_GET_MONIT1_AMP_CH1 = 18"
definition DSP_OPCODE_SET_GET_MONIT1_AMP_CH2 :: u32 where [dsp_client_defs]: "DSP_OPCODE_SET_GET_MONIT1_AMP_CH2 = 19"
definition DSP_OPCODE_SET_GET_MONIT1_AMP_CH3 :: u32 where [dsp_client_defs]: "DSP_OPCODE_SET_GET_MONIT1_AMP_CH3 = 20"
definition DSP_OPCODE_SET_GET_MONIT1_POS_X :: u32 where [dsp_client_defs]: "DSP_OPCODE_SET_GET_MONIT1_POS_X = 21"
definition DSP_OPCODE_SET_GET_MONIT1_POS_Y :: u32 where [dsp_client_defs]: "DSP_OPCODE_SET_GET_MONIT1_POS_Y = 22"
definition DSP_OPCODE_SET_GET_MONIT1_POS_Q :: u32 where [dsp_client_defs]: "DSP_OPCODE_SET_GET_MONIT1_POS_Q = 23"
definition DSP_OPCODE_SET_GET_MONIT1_POS_SUM :: u32 where [dsp_client_defs]: "DSP_OPCODE_SET_GET_MONIT1_POS_SUM = 24"
definition DSP_OPCODE_SET_GET_MONIT1_UPDT :: u32 where [dsp_client_defs]: "DSP_OPCODE_SET_GET_MONIT1_UPDT = 25"
definition DSP_OPCODE_SET_GET_SW_TAG_EN :: u32 where [dsp_client_defs]: "DSP_OPCODE_SET_GET_SW_TAG_EN = 27"
definition DSP_OPCODE_SET_GET_SW_DATA_MASK_EN :: u32 where [dsp_client_defs]: "DSP_OPCODE_SET_GET_SW_DATA_MASK_EN = 28"
definition DSP_OPCODE_SET_GET_SW_DATA_MASK_SAMPLES :: u32 where [dsp_client_defs]: "DSP_OPCODE_SET_GET_SW_DATA_MASK_SAMPLES = 29"
definition DSP_OPCODE_SET_GET_TBT_TAG_EN :: u32 where [dsp_client_defs]: "DSP_OPCODE_SET_GET_TBT_TAG_EN = 30"
definition DSP_OPCODE_SET_GET_TBT_TAG_DLY :: u32 where [dsp_client_defs]: "DSP_OPCODE_SET_GET_TBT_TAG_DLY = 31"
definition DSP_OPCODE_SET_GET_TBT_DATA_MASK_EN :: u32 where [dsp_client_defs]: "DSP_OPCODE_SET_GET_TBT_DATA_MASK_EN = 32"
definition DSP_OPCODE_SET_GET_TBT_DATA_MASK_SAMPLES_BEG :: u32 where [dsp_client_defs]: "DSP_OPCODE_SET_GET_TBT_DATA_MASK_SAMPLES_BEG = 33"
definition DSP_OPCODE_SET_GET_TBT_DATA_MASK_SAMPLES_END :: u32 where [dsp_client_defs]: "DSP_OPCODE_SET_GET_TBT_DATA_MASK_SAMPLES_END = 34"
definition DSP_OPCODE_SET_GET_SW_TAG_DESYNC_CNT_RST :: u32 where [dsp_client_defs]: "DSP_OPCODE_SET_GET_SW_TAG_DESYNC_CNT_RST = 35"
definition DSP_OPCODE_SET_GET_SW_TAG_DESYNC_CNT :: u32 where [dsp_client_defs]: "DSP_OPCODE_SET_GET_SW_TAG_DESYNC_CNT = 36"
definition DSP_OPCODE_SET_GET_TBT_TAG_DESYNC_CNT_RST :: u32 where [dsp_client_defs]: "DSP_OPCODE_SET_GET_TBT_TAG_DESYNC_CNT_RST = 37"
definition DSP_OPCODE_SET_GET_TBT_TAG_DESYNC_CNT :: u32 where [dsp_client_defs]: "DSP_OPCODE_SET_GET_TBT_TAG_DESYNC_CNT = 38"
definition DSP_OPCODE_SET_GET_MONIT1_TAG_EN :: u32 where [dsp_client_defs]: "DSP_OPCODE_SET_GET_MONIT1_TAG_EN = 40"
definition DSP_OPCODE_SET_GET_MONIT1_TAG_DLY :: u32 where [dsp_client_defs]: "DSP_OPCODE_SET_GET_MONIT1_TAG_DLY = 41"
definition DSP_OPCODE_SET_GET_MONIT1_DATA_MASK_EN :: u32 where [dsp_client_defs]: "DSP_OPCODE_SET_GET_MONIT1_DATA_MASK_EN = 42"
definition DSP_OPCODE_SET_GET_MONIT1_DATA_MASK_SAMPLES_BEG :: u32 where [dsp_client_defs]: "DSP_OPCODE_SET_GET_MONIT1_DATA_MASK_SAMPLES_BEG = 43"
definition DSP_OPCODE_SET_GET_MONIT1_DATA_MASK_SAMPLES_END :: u32 where [dsp_client_defs]: "DSP_OPCODE_SET_GET_MONIT1_DATA_MASK_SAMPLES_END = 44"
definition DSP_OPCODE_SET_GET_MONIT1_TAG_DESYNC_CNT_RST :: u32 where [dsp_client_defs]: "DSP_OPCODE_SET_GET_MONIT1_TAG_DESYNC_CNT_RST = 45"
definition DSP_OPCODE_SET_GET_MONIT1_TAG_DESYNC_CNT :: u32 where [dsp_client_defs]: "DSP_OPCODE_SET_GET_MONIT1_TAG_DESYNC_CNT = 46"
definition DSP_OPCODE_SET_GET_MONIT_TAG_EN :: u32 where [dsp_client_defs]: "DSP_OPCODE_SET_GET_MONIT_TAG_EN = 47"
definition DSP_OPCODE_SET_GET_MONIT_TAG_DLY :: u32 where [dsp_client_defs]: "DSP_OPCODE_SET_GET_MONIT_TAG_DLY = 48"
definition DSP_OPCODE_SET_GET_MONIT_DATA_MASK_EN :: u32 where [dsp_client_defs]: "DSP_OPCODE_SET_GET_MONIT_DATA_MASK_EN = 49"
definition DSP_OPCODE_SET_GET_MONIT_DATA_MASK_SAMPLES_BEG :: u32 where [dsp_client_defs]: "DSP_OPCODE_SET_GET_MONIT_DATA_MASK_SAMPLES_BEG = 50"
definition DSP_OPCODE_SET_GET_MONIT_DATA_MASK_SAMPLES_END :: u32 where [dsp_client_defs]: "DSP_OPCODE_SET_GET_MONIT_DATA_MASK_SAMPLES_END = 51"
definition DSP_OPCODE_SET_GET_MONIT_TAG_DESYNC_CNT_RST :: u32 where [dsp_client_defs]: "DSP_OPCODE_SET_GET_MONIT_TAG_DESYNC_CNT_RST = 52"
definition DSP_OPCODE_SET_GET_MONIT_TAG_DESYNC_CNT :: u32 where [dsp_client_defs]: "DSP_OPCODE_SET_GET_MONIT_TAG_DESYNC_CNT = 53"
definition DSP_OPCODE_SET_GET_OFFSET_X :: u32 where [dsp_client_defs]: "DSP_OPCODE_SET_GET_OFFSET_X = 54"
definition DSP_OPCODE_SET_GET_OFFSET_Y :: u32 where [dsp_client_defs]: "DSP_OPCODE_SET_GET_OFFSET_Y = 55"

definition halcs_set_kx :: "'p client_set" where [dsp_client_defs]: 
  "halcs_set_kx self service = param_client_write self service DSP_OPCODE_SET_GET_KX"
definition halcs_get_kx :: "'p client_get" where [dsp_client_defs]: 
  "halcs_get_kx self service = param_client_read self service DSP_OPCODE_SET_GET_KX"
definition halcs_set_ky :: "'p client_set" where [dsp_client_defs]: 
  "halcs_set_ky self service = param_client_write self service DSP_OPCODE_SET_GET_KY"
definition halcs_get_ky :: "'p client_get" where [dsp_client_defs]: 
  "halcs_get_ky self service = param_client_read self service DSP_OPCODE_SET_GET_KY"
definition halcs_set_ksum :: "'p client_set" where [dsp_client_defs]: 
  "halcs_set_ksum self service = param_client_write self service DSP_OPCODE_SET_GET_KSUM"
definition halcs_get_ksum :: "'p client_get" where [dsp_client_defs]: 
  "halcs_get_ksum self service = param_client_read self service DSP_OPCODE_SET_GET_KSUM"
definition halcs_set_ds_tbt_thres :: "'p client_set" where [dsp_client_defs]: 
  "halcs_set_ds_tbt_thres self service = param_client_write self service DSP_OPCODE_SET_GET_DS_TBT_THRES"
definition halcs_get_ds_tbt_thres :: "'p client_get" where [dsp_client_defs]: 
  "halcs_get_ds_tbt_thres self service = param_client_read self service DSP_OPCODE_SET_GET_DS_TBT_THRES"
definition halcs_set_ds_fofb_thres :: "'p client_set" where [dsp_client_defs]: 
  "halcs_set_ds_fofb_thres self service = param_client_write self service DSP_OPCODE_SET_GET_DS_FOFB_THRES"
definition halcs_get_ds_fofb_thres :: "'p client_get" where [dsp_client_defs]: 
  "halcs_get_ds_fofb_thres self service = param_client_read self service DSP_OPCODE_SET_GET_DS_FOFB_THRES"
definition halcs_set_ds_monit_thres :: "'p client_set" where [dsp_client_defs]: 
  "halcs_set_ds_monit_thres self service = param_client_write self service DSP_OPCODE_SET_GET_DS_MONIT_THRES"
definition halcs_get_ds_monit_thres :: "'p client_get" where [dsp_client_defs]: 
  "halcs_get_ds_monit_thres self service = param_client_read self service DSP_OPCODE_SET_GET_DS_MONIT_THRES"
definition halcs_set_dsp_cfg_test_data :: "'p client_set" where [dsp_client_defs]: 
  "halcs_set_dsp_cfg_test_data self service = param_client_write self service DSP_OPCODE_SET_GET_CFG_TEST_DATA"
definition halcs_get_dsp_cfg_test_data :: "'p client_get" where [dsp_client_defs]: 
  "halcs_get_dsp_cfg_test_data self service = param_client_read self service DSP_OPCODE_SET_GET_CFG_TEST_DATA"
definition halcs_set_monit_amp_ch0 :: "'p client_set" where [dsp_client_defs]: 
  "halcs_set_monit_amp_ch0 self service = param_client_write self service DSP_OPCODE_SET_GET_MONIT_AMP_CH0"
definition halcs_get_monit_amp_ch0 :: "'p client_get" where [dsp_client_defs]: 
  "halcs_get_monit_amp_ch0 self service = param_client_read self service DSP_OPCODE_SET_GET_MONIT_AMP_CH0"
definition halcs_set_monit_amp_ch1 :: "'p client_set" where [dsp_client_defs]: 
  "halcs_set_monit_amp_ch1 self service = param_client_write self service DSP_OPCODE_SET_GET_MONIT_AMP_CH1"
definition halcs_get_monit_amp_ch1 :: "'p client_get" where [dsp_client_defs]: 
  "halcs_get_monit_amp_ch1 self service = param_client_read self service DSP_OPCODE_SET_GET_MONIT_AMP_CH1"
definition halcs_set_monit_amp_ch2 :: "'p client_set" where [dsp_client_defs]: 
  "halcs_set_monit_amp_ch2 self service = param_client_write self service DSP_OPCODE_SET_GET_MONIT_AMP_CH2"
definition halcs_get_monit_amp_ch2 :: "'p client_get" where [dsp_client_defs]: 
  "halcs_get_monit_amp_ch2 self service = param_client_read self service DSP_OPCODE_SET_GET_MONIT_AMP_CH2"
definition halcs_set_monit_amp_ch3 :: "'p client_set" where [dsp_client_defs]: 
  "halcs_set_monit_amp_ch3 self service = param_client_write self service DSP_OPCODE_SET_GET_MONIT_AMP_CH3"
definition halcs_get_monit_amp_ch3 :: "'p client_get" where [dsp_client_defs]: 
  "halcs_get_monit_amp_ch3 self service = param_client_read self service DSP_OPCODE_SET_GET_MONIT_AMP_CH3"
definition halcs_set_monit_pos_x :: "'p client_set" where [dsp_client_defs]: 
  "halcs_set_monit_pos_x self service = param_client_write self service DSP_OPCODE_SET_GET_MONIT_POS_X"
definition halcs_get_monit_pos_x :: "'p client_get" where [dsp_client_defs]: 
  "halcs_get_monit_pos_x self service = param_client_read self service DSP_OPCODE_SET_GET_MONIT_POS_X"
definition halcs_set_monit_pos_y :: "'p client_set" where [dsp_client_defs]: 
  "halcs_set_monit_pos_y self service = param_client_write self service DSP_OPCODE_SET_GET_MONIT_POS_Y"
definition halcs_get_monit_pos_y :: "'p client_get" where [dsp_client_defs]: 
  "halcs_get_monit_pos_y self service = param_client_read self service DSP_OPCODE_SET_GET_MONIT_POS_Y"
definition halcs_set_monit_pos_q :: "'p client_set" where [dsp_client_defs]: 
  "halcs_set_monit_pos_q self service = param_client_write self service DSP_OPCODE_SET_GET_MONIT_POS_Q"
definition halcs_get_monit_pos_q :: "'p client_get" where [dsp_client_defs]: 
  "halcs_get_monit_pos_q self service = param_client_read self service DSP_OPCODE_SET_GET_MONIT_POS_Q"
definition halcs_set_monit_pos_sum :: "'p client_set" where [dsp_client_defs]: 
  "halcs_set_monit_pos_sum self service = param_client_write self service DSP_OPCODE_SET_GET_MONIT_POS_SUM"
definition halcs_get_monit_pos_sum :: "'p client_get" where [dsp_client_defs]: 
  "halcs_get_monit_pos_sum self service = param_client_read self service DSP_OPCODE_SET_GET_MONIT_POS_SUM"
definition halcs_set_monit_updt :: "'p client_set" where [dsp_client_defs]: 
  "halcs_set_monit_updt self service = param_client_write self service DSP_OPCODE_SET_GET_MONIT_UPDT"
definition halcs_get_monit_updt :: "'p client_get" where [dsp_client_defs]: 
  "halcs_get_monit_updt self service = param_client_read self service DSP_OPCODE_SET_GET_MONIT_UPDT"
definition halcs_set_monit_poll_time :: "'p client_set" where [dsp_client_defs]: 
  "halcs_set_monit_poll_time self service = param_client_write self service DSP_OPCODE_SET_GET_MONIT_POLL_TIME"
definition halcs_get_monit_poll_time :: "'p client_get" where [dsp_client_defs]: 
  "halcs_get_monit_poll_time self service = param_client_read self service DSP_OPCODE_SET_GET_MONIT_POLL_TIME"
definition halcs_set_monit1_amp_ch0 :: "'p client_set" where [dsp_client_defs]: 
  "halcs_set_monit1_amp_ch0 self service = param_client_write self service DSP_OPCODE_SET_GET_MONIT1_AMP_CH0"
definition halcs_get_monit1_amp_ch0 :: "'p client_get" where [dsp_client_defs]: 
  "halcs_get_monit1_amp_ch0 self service = param_client_read self service DSP_OPCODE_SET_GET_MONIT1_AMP_CH0"
definition halcs_set_monit1_amp_ch1 :: "'p client_set" where [dsp_client_defs]: 
  "halcs_set_monit1_amp_ch1 self service = param_client_write self service DSP_OPCODE_SET_GET_MONIT1_AMP_CH1"
definition halcs_get_monit1_amp_ch1 :: "'p client_get" where [dsp_client_defs]: 
  "halcs_get_monit1_amp_ch1 self service = param_client_read self service DSP_OPCODE_SET_GET_MONIT1_AMP_CH1"
definition halcs_set_monit1_amp_ch2 :: "'p client_set" where [dsp_client_defs]: 
  "halcs_set_monit1_amp_ch2 self service = param_client_write self service DSP_OPCODE_SET_GET_MONIT1_AMP_CH2"
definition halcs_get_monit1_amp_ch2 :: "'p client_get" where [dsp_client_defs]: 
  "halcs_get_monit1_amp_ch2 self service = param_client_read self service DSP_OPCODE_SET_GET_MONIT1_AMP_CH2"
definition halcs_set_monit1_amp_ch3 :: "'p client_set" where [dsp_client_defs]: 
  "halcs_set_monit1_amp_ch3 self service = param_client_write self service DSP_OPCODE_SET_GET_MONIT1_AMP_CH3"
definition halcs_get_monit1_amp_ch3 :: "'p client_get" where [dsp_client_defs]: 
  "halcs_get_monit1_amp_ch3 self service = param_client_read self service DSP_OPCODE_SET_GET_MONIT1_AMP_CH3"
definition halcs_set_monit1_pos_x :: "'p client_set" where [dsp_client_defs]: 
  "halcs_set_monit1_pos_x self service = param_client_write self service DSP_OPCODE_SET_GET_MONIT1_POS_X"
definition halcs_get_monit1_pos_x :: "'p client_get" where [dsp_client_defs]: 
  "halcs_get_monit1_pos_x self service = param_client_read self service DSP_OPCODE_SET_GET_MONIT1_POS_X"
definition halcs_set_monit1_pos_y :: "'p client_set" where [dsp_client_defs]: 
  "halcs_set_monit1_pos_y self service = param_client_write self service DSP_OPCODE_SET_GET_MONIT1_POS_Y"
definition halcs_get_monit1_pos_y :: "'p client_get" where [dsp_client_defs]: 
  "halcs_get_monit1_pos_y self service = param_client_read self service DSP_OPCODE_SET_GET_MONIT1_POS_Y"
definition halcs_set_monit1_pos_q :: "'p client_set" where [dsp_client_defs]: 
  "halcs_set_monit1_pos_q self service = param_client_write self service DSP_OPCODE_SET_GET_MONIT1_POS_Q"
definition halcs_get_monit1_pos_q :: "'p client_get" where [dsp_client_defs]: 
  "halcs_get_monit1_pos_q self service = param_client_read self service DSP_OPCODE_SET_GET_MONIT1_POS_Q"
definition halcs_set_monit1_pos_sum :: "'p client_set" where [dsp_client_defs]: 
  "halcs_set_monit1_pos_sum self service = param_client_write self service DSP_OPCODE_SET_GET_MONIT1_POS_SUM"
definition halcs_get_monit1_pos_sum :: "'p client_get" where [dsp_client_defs]: 
  "halcs_get_monit1_pos_sum self service = param_client_read self service DSP_OPCODE_SET_GET_MONIT1_POS_SUM"
definition halcs_set_monit1_updt :: "'p client_set" where [dsp_client_defs]: 
  "halcs_set_monit1_updt self service = param_client_write self service DSP_OPCODE_SET_GET_MONIT1_UPDT"
definition halcs_get_monit1_updt :: "'p client_get" where [dsp_client_defs]: 
  "halcs_get_monit1_updt self service = param_client_read self service DSP_OPCODE_SET_GET_MONIT1_UPDT"
definition halcs_set_sw_tag_en :: "'p client_set" where [dsp_client_defs]: 
  "halcs_set_sw_tag_en self service = param_client_write self service DSP_OPCODE_SET_GET_SW_TAG_EN"
definition halcs_get_sw_tag_en :: "'p client_get" where [dsp_client_defs]: 
  "halcs_get_sw_tag_en self service = param_client_read self service DSP_OPCODE_SET_GET_SW_TAG_EN"
definition halcs_set_sw_data_mask_en :: "'p client_set" where [dsp_client_defs]: 
  "halcs_set_sw_data_mask_en self service = param_client_write self service DSP_OPCODE_SET_GET_SW_DATA_MASK_EN"
definition halcs_get_sw_data_mask_en :: "'p client_get" where [dsp_client_defs]: 
  "halcs_get_sw_data_mask_en self service = param_client_read self service DSP_OPCODE_SET_GET_SW_DATA_MASK_EN"
definition halcs_set_sw_data_mask_samples :: "'p client_set" where [dsp_client_defs]: 
  "halcs_set_sw_data_mask_samples self service = param_client_write self service DSP_OPCODE_SET_GET_SW_DATA_MASK_SAMPLES"
definition halcs_get_sw_data_mask_samples :: "'p client_get" where [dsp_client_defs]: 
  "halcs_get_sw_data_mask_samples self service = param_client_read self service DSP_OPCODE_SET_GET_SW_DATA_MASK_SAMPLES"
definition halcs_set_tbt_tag_en :: "'p client_set" where [dsp_client_defs]: 
  "halcs_set_tbt_tag_en self service = param_client_write self service DSP_OPCODE_SET_GET_TBT_TAG_EN"
definition halcs_get_tbt_tag_en :: "'p client_get" where [dsp_client_defs]: 
  "halcs_get_tbt_tag_en self service = param_client_read self service DSP_OPCODE_SET_GET_TBT_TAG_EN"
definition halcs_set_tbt_tag_dly :: "'p client_set" where [dsp_client_defs]: 
  "halcs_set_tbt_tag_dly self service = param_client_write self service DSP_OPCODE_SET_GET_TBT_TAG_DLY"
definition halcs_get_tbt_tag_dly :: "'p client_get" where [dsp_client_defs]: 
  "halcs_get_tbt_tag_dly self service = param_client_read self service DSP_OPCODE_SET_GET_TBT_TAG_DLY"
definition halcs_set_tbt_data_mask_en :: "'p client_set" where [dsp_client_defs]: 
  "halcs_set_tbt_data_mask_en self service = param_client_write self service DSP_OPCODE_SET_GET_TBT_DATA_MASK_EN"
definition halcs_get_tbt_data_mask_en :: "'p client_get" where [dsp_client_defs]: 
  "halcs_get_tbt_data_mask_en self service = param_client_read self service DSP_OPCODE_SET_GET_TBT_DATA_MASK_EN"
definition halcs_set_tbt_data_mask_samples_beg :: "'p client_set" where [dsp_client_defs]: 
  "halcs_set_tbt_data_mask_samples_beg self service = param_client_write self service DSP_OPCODE_SET_GET_TBT_DATA_MASK_SAMPLES_BEG"
definition halcs_get_tbt_data_mask_samples_beg :: "'p client_get" where [dsp_client_defs]: 
  "halcs_get_tbt_data_mask_samples_beg self service = param_client_read self service DSP_OPCODE_SET_GET_TBT_DATA_MASK_SAMPLES_BEG"
definition halcs_set_tbt_data_mask_samples_end :: "'p client_set" where [dsp_client_defs]: 
  "halcs_set_tbt_data_mask_samples_end self service = param_client_write self service DSP_OPCODE_SET_GET_TBT_DATA_MASK_SAMPLES_END"
definition halcs_get_tbt_data_mask_samples_end :: "'p client_get" where [dsp_client_defs]: 
  "halcs_get_tbt_data_mask_samples_end self service = param_client_read self service DSP_OPCODE_SET_GET_TBT_DATA_MASK_SAMPLES_END"
definition halcs_set_sw_tag_desync_cnt_rst :: "'p client_set" where [dsp_client_defs]: 
  "halcs_set_sw_tag_desync_cnt_rst self service = param_client_write self service DSP_OPCODE_SET_GET_SW_TAG_DESYNC_CNT_RST"
definition halcs_get_sw_tag_desync_cnt_rst :: "'p client_get" where [dsp_client_defs]: 
  "halcs_get_sw_tag_desync_cnt_rst self service = param_client_read self service DSP_OPCODE_SET_GET_SW_TAG_DESYNC_CNT_RST"
definition halcs_get_sw_tag_desync_cnt :: "'p client_get" where [dsp_client_defs]: 
  "halcs_get_sw_tag_desync_cnt self service = param_client_read self service DSP_OPCODE_SET_GET_SW_TAG_DESYNC_CNT"
definition halcs_set_tbt_tag_desync_cnt_rst :: "'p client_set" where [dsp_client_defs]: 
  "halcs_set_tbt_tag_desync_cnt_rst self service = param_client_write self service DSP_OPCODE_SET_GET_TBT_TAG_DESYNC_CNT_RST"
definition halcs_get_tbt_tag_desync_cnt_rst :: "'p client_get" where [dsp_client_defs]: 
  "halcs_get_tbt_tag_desync_cnt_rst self service = param_client_read self service DSP_OPCODE_SET_GET_TBT_TAG_DESYNC_CNT_RST"
definition halcs_get_tbt_tag_desync_cnt :: "'p client_get" where [dsp_client_defs]: 
  "halcs_get_tbt_tag_desync_cnt self service = param_client_read self service DSP_OPCODE_SET_GET_TBT_TAG_DESYNC_CNT"
definition halcs_set_monit1_tag_en :: "'p client_set" where [dsp_client_defs]: 
  "halcs_set_monit1_tag_en self service = param_client_write self service DSP_OPCODE_SET_GET_MONIT1_TAG_EN"
definition halcs_get_monit1_tag_en :: "'p client_get" where [dsp_client_defs]: 
  "halcs_get_monit1_tag_en self service = param_client_read self service DSP_OPCODE_SET_GET_MONIT1_TAG_EN"
definition halcs_set_monit1_tag_dly :: "'p client_set" where [dsp_client_defs]: 
  "halcs_set_monit1_tag_dly self service = param_client_write self service DSP_OPCODE_SET_GET_MONIT1_TAG_DLY"
definition halcs_get_monit1_tag_dly :: "'p client_get" where [dsp_client_defs]: 
  "halcs_get_monit1_tag_dly self service = param_client_read self service DSP_OPCODE_SET_GET_MONIT1_TAG_DLY"
definition halcs_set_monit1_data_mask_en :: "'p client_set" where [dsp_client_defs]: 
  "halcs_set_monit1_data_mask_en self service = param_client_write self service DSP_OPCODE_SET_GET_MONIT1_DATA_MASK_EN"
definition halcs_get_monit1_data_mask_en :: "'p client_get" where [dsp_client_defs]: 
  "halcs_get_monit1_data_mask_en self service = param_client_read self service DSP_OPCODE_SET_GET_MONIT1_DATA_MASK_EN"
definition halcs_set_monit1_data_mask_samples_beg :: "'p client_set" where [dsp_client_defs]: 
  "halcs_set_monit1_data_mask_samples_beg self service = param_client_write self service DSP_OPCODE_SET_GET_MONIT1_DATA_MASK_SAMPLES_BEG"
definition halcs_get_monit1_data_mask_samples_beg :: "'p client_get" where [dsp_client_defs]: 
  "halcs_get_monit1_data_mask_samples_beg self service = param_client_read self service DSP_OPCODE_SET_GET_MONIT1_DATA_MASK_SAMPLES_BEG"
definition halcs_set_monit1_data_mask_samples_end :: "'p client_set" where [dsp_client_defs]: 
  "halcs_set_monit1_data_mask_samples_end self service = param_client_write self service DSP_OPCODE_SET_GET_MONIT1_DATA_MASK_SAMPLES_END"
definition halcs_get_monit1_data_mask_samples_end :: "'p client_get" where [dsp_client_defs]: 
  "halcs_get_monit1_data_mask_samples_end self service = param_client_read self service DSP_OPCODE_SET_GET_MONIT1_DATA_MASK_SAMPLES_END"
definition halcs_set_monit1_tag_desync_cnt_rst :: "'p client_set" where [dsp_client_defs]: 
  "halcs_set_monit1_tag_desync_cnt_rst self service = param_client_write self service DSP_OPCODE_SET_GET_MONIT1_TAG_DESYNC_CNT_RST"
definition halcs_get_monit1_tag_desync_cnt_rst :: "'p client_get" where [dsp_client_defs]: 
  "halcs_get_monit1_tag_desync_cnt_rst self service = param_client_read self service DSP_OPCODE_SET_GET_MONIT1_TAG_DESYNC_CNT_RST"
definition halcs_get_monit1_tag_desync_cnt :: "'p client_get" where [dsp_client_defs]: 
  "halcs_get_monit1_tag_desync_cnt self service = param_client_read self service DSP_OPCODE_SET_GET_MONIT1_TAG_DESYNC_CNT"
definition halcs_set_monit_tag_en :: "'p client_set" where [dsp_client_defs]: 
  "halcs_set_monit_tag_en self service = param_client_write self service DSP_OPCODE_SET_GET_MONIT_TAG_EN"
definition halcs_get_monit_tag_en :: "'p client_get" where [dsp_client_defs]: 
  "halcs_get_monit_tag_en self service = param_client_read self service DSP_OPCODE_SET_GET_MONIT_TAG_EN"
definition halcs_set_monit_tag_dly :: "'p client_set" where [dsp_client_defs]: 
  "halcs_set_monit_tag_dly self service = param_client_write self service DSP_OPCODE_SET_GET_MONIT_TAG_DLY"
definition halcs_get_monit_tag_dly :: "'p client_get" where [dsp_client_defs]: 
  "halcs_get_monit_tag_dly self service = param_client_read self service DSP_OPCODE_SET_GET_MONIT_TAG_DLY"
definition halcs_set_monit_data_mask_en :: "'p client_set" where [dsp_client_defs]: 
  "halcs_set_monit_data_mask_en self service = param_client_write self service DSP_OPCODE_SET_GET_MONIT_DATA_MASK_EN"
definition halcs_get_monit_data_mask_en :: "'p client_get" where [dsp_client_defs]: 
  "halcs_get_monit_data_mask_en self service = param_client_read self service DSP_OPCODE_SET_GET_MONIT_DATA_MASK_EN"
definition halcs_set_monit_data_mask_samples_beg :: "'p client_set" where [dsp_client_defs]: 
  "halcs_set_monit_data_mask_samples_beg self service = param_client_write self service DSP_OPCODE_SET_GET_MONIT_DATA_MASK_SAMPLES_BEG"
definition halcs_get_monit_data_mask_samples_beg :: "'p client_get" where [dsp_client_defs]: 
  "halcs_get_monit_data_mask_samples_beg self service = param_client_read self service DSP_OPCODE_SET_GET_MONIT_DATA_MASK_SAMPLES_BEG"
definition halcs_set_monit_data_mask_samples_end :: "'p client_set" where [dsp_client_defs]: 
  "halcs_set_monit_data_mask_samples_end self service = param_client_write self service DSP_OPCODE_SET_GET_MONIT_DATA_MASK_SAMPLES_END"
definition halcs_get_monit_data_mask_samples_end :: "'p client_get" where [dsp_client_defs]: 
  "halcs_get_monit_data_mask_samples_end self service = param_client_read self service DSP_OPCODE_SET_GET_MONIT_DATA_MASK_SAMPLES_END"
definition halcs_set_monit_tag_desync_cnt_rst :: "'p client_set" where [dsp_client_defs]: 
  "halcs_set_monit_tag_desync_cnt_rst self service = param_client_write self service DSP_OPCODE_SET_GET_MONIT_TAG_DESYNC_CNT_RST"
definition halcs_get_monit_tag_desync_cnt_rst :: "'p client_get" where [dsp_client_defs]: 
  "halcs_get_monit_tag_desync_cnt_rst self service = param_client_read self service DSP_OPCODE_SET_GET_MONIT_TAG_DESYNC_CNT_RST"
definition halcs_get_monit_tag_desync_cnt :: "'p client_get" where [dsp_client_defs]: 
  "halcs_get_monit_tag_desync_cnt self service = param_client_read self service DSP_OPCODE_SET_GET_MONIT_TAG_DESYNC_CNT"
definition halcs_set_offset_x :: "'p client_set" where [dsp_client_defs]: 
  "halcs_set_offset_x self service = param_client_write_signed self service DSP_OPCODE_SET_GET_OFFSET_X"
definition halcs_get_offset_x :: "'p client_get" where [dsp_client_defs]: 
  "halcs_get_offset_x self service = param_client_read_signed self service DSP_OPCODE_SET_GET_OFFSET_X"
definition halcs_set_offset_y :: "'p client_set" where [dsp_client_defs]: 
  "halcs_set_offset_y self service = param_client_write_signed self service DSP_OPCODE_SET_GET_OFFSET_Y"
definition halcs_get_offset_y :: "'p client_get" where [dsp_client_defs]: 
  "halcs_get_offset_y self service = param_client_read_signed self service DSP_OPCODE_SET_GET_OFFSET_Y"

text \<open>The functions of each exported operation, in the order of the descriptors.\<close>

definition dsp_client :: "'p client_fn list list" where
  "dsp_client =
     [[Set_Fn halcs_set_kx, Get_Fn halcs_get_kx],
      [Set_Fn halcs_set_ky, Get_Fn halcs_get_ky],
      [Set_Fn halcs_set_ksum, Get_Fn halcs_get_ksum],
      [Set_Fn halcs_set_ds_tbt_thres, Get_Fn halcs_get_ds_tbt_thres],
      [Set_Fn halcs_set_ds_fofb_thres, Get_Fn halcs_get_ds_fofb_thres],
      [Set_Fn halcs_set_ds_monit_thres, Get_Fn halcs_get_ds_monit_thres],
      [Set_Fn halcs_set_dsp_cfg_test_data, Get_Fn halcs_get_dsp_cfg_test_data],
      [Set_Fn halcs_set_monit_amp_ch0, Get_Fn halcs_get_monit_amp_ch0],
      [Set_Fn halcs_set_monit_amp_ch1, Get_Fn halcs_get_monit_amp_ch1],
      [Set_Fn halcs_set_monit_amp_ch2, Get_Fn halcs_get_monit_amp_ch2],
      [Set_Fn halcs_set_monit_amp_ch3, Get_Fn halcs_get_monit_amp_ch3],
      [Set_Fn halcs_set_monit_pos_x, Get_Fn halcs_get_monit_pos_x],
      [Set_Fn halcs_set_monit_pos_y, Get_Fn halcs_get_monit_pos_y],
      [Set_Fn halcs_set_monit_pos_q, Get_Fn halcs_get_monit_pos_q],
      [Set_Fn halcs_set_monit_pos_sum, Get_Fn halcs_get_monit_pos_sum],
      [Set_Fn halcs_set_monit_updt, Get_Fn halcs_get_monit_updt],
      [Set_Fn halcs_set_monit_poll_time, Get_Fn halcs_get_monit_poll_time],
      [Set_Fn halcs_set_monit1_amp_ch0, Get_Fn halcs_get_monit1_amp_ch0],
      [Set_Fn halcs_set_monit1_amp_ch1, Get_Fn halcs_get_monit1_amp_ch1],
      [Set_Fn halcs_set_monit1_amp_ch2, Get_Fn halcs_get_monit1_amp_ch2],
      [Set_Fn halcs_set_monit1_amp_ch3, Get_Fn halcs_get_monit1_amp_ch3],
      [Set_Fn halcs_set_monit1_pos_x, Get_Fn halcs_get_monit1_pos_x],
      [Set_Fn halcs_set_monit1_pos_y, Get_Fn halcs_get_monit1_pos_y],
      [Set_Fn halcs_set_monit1_pos_q, Get_Fn halcs_get_monit1_pos_q],
      [Set_Fn halcs_set_monit1_pos_sum, Get_Fn halcs_get_monit1_pos_sum],
      [Set_Fn halcs_set_monit1_updt, Get_Fn halcs_get_monit1_updt],
      [],
      [Set_Fn halcs_set_sw_tag_en, Get_Fn halcs_get_sw_tag_en],
      [Set_Fn halcs_set_sw_data_mask_en, Get_Fn halcs_get_sw_data_mask_en],
      [Set_Fn halcs_set_sw_data_mask_samples, Get_Fn halcs_get_sw_data_mask_samples],
      [Set_Fn halcs_set_tbt_tag_en, Get_Fn halcs_get_tbt_tag_en],
      [Set_Fn halcs_set_tbt_tag_dly, Get_Fn halcs_get_tbt_tag_dly],
      [Set_Fn halcs_set_tbt_data_mask_en, Get_Fn halcs_get_tbt_data_mask_en],
      [Set_Fn halcs_set_tbt_data_mask_samples_beg, Get_Fn halcs_get_tbt_data_mask_samples_beg],
      [Set_Fn halcs_set_tbt_data_mask_samples_end, Get_Fn halcs_get_tbt_data_mask_samples_end],
      [Set_Fn halcs_set_sw_tag_desync_cnt_rst, Get_Fn halcs_get_sw_tag_desync_cnt_rst],
      [Get_Fn halcs_get_sw_tag_desync_cnt],
      [Set_Fn halcs_set_tbt_tag_desync_cnt_rst, Get_Fn halcs_get_tbt_tag_desync_cnt_rst],
      [Get_Fn halcs_get_tbt_tag_desync_cnt],
      [Set_Fn halcs_set_monit1_tag_en, Get_Fn halcs_get_monit1_tag_en],
      [Set_Fn halcs_set_monit1_tag_dly, Get_Fn halcs_get_monit1_tag_dly],
      [Set_Fn halcs_set_monit1_data_mask_en, Get_Fn halcs_get_monit1_data_mask_en],
      [Set_Fn halcs_set_monit1_data_mask_samples_beg, Get_Fn halcs_get_monit1_data_mask_samples_beg],
      [Set_Fn halcs_set_monit1_data_mask_samples_end, Get_Fn halcs_get_monit1_data_mask_samples_end],
      [Set_Fn halcs_set_monit1_tag_desync_cnt_rst, Get_Fn halcs_get_monit1_tag_desync_cnt_rst],
      [Get_Fn halcs_get_monit1_tag_desync_cnt],
      [Set_Fn halcs_set_monit_tag_en, Get_Fn halcs_get_monit_tag_en],
      [Set_Fn halcs_set_monit_tag_dly, Get_Fn halcs_get_monit_tag_dly],
      [Set_Fn halcs_set_monit_data_mask_en, Get_Fn halcs_get_monit_data_mask_en],
      [Set_Fn halcs_set_monit_data_mask_samples_beg, Get_Fn halcs_get_monit_data_mask_samples_beg],
      [Set_Fn halcs_set_monit_data_mask_samples_end, Get_Fn halcs_get_monit_data_mask_samples_end],
      [Set_Fn halcs_set_monit_tag_desync_cnt_rst, Get_Fn halcs_get_monit_tag_desync_cnt_rst],
      [Get_Fn halcs_get_monit_tag_desync_cnt],
      [Set_Fn halcs_set_offset_x, Get_Fn halcs_get_offset_x],
      [Set_Fn halcs_set_offset_y, Get_Fn halcs_get_offset_y]]"

lemma dsp_client_fits: "list_all2 op_fits dsp_exp_ops dsp_client"
  by (simp add: dsp_client_def dsp_exp_ops_def dsp_exp_defs dsp_client_defs exp_simps op_fits_def board_args fn_calls_signed fun_eq_iff)

section \<open>fmc250m_4ch\<close>

named_theorems fmc250m_4ch_client_defs

definition FMC250M_4CH_OPCODE_RST_ADCS :: u32 where [fmc250m_4ch_client_defs]: "FMC250M_4CH_OPCODE_RST_ADCS = 45"
definition FMC250M_4CH_OPCODE_RST_DIV_ADCS :: u32 where [fmc250m_4ch_client_defs]: "FMC250M_4CH_OPCODE_RST_DIV_ADCS = 46"
definition FMC250M_4CH_OPCODE_SLEEP_ADCS :: u32 where [fmc250m_4ch_client_defs]: "FMC250M_4CH_OPCODE_SLEEP_ADCS = 47"
definition FMC250M_4CH_OPCODE_TESTMODE :: u32 where [fmc250m_4ch_client_defs]: "FMC250M_4CH_OPCODE_TESTMODE = 48"
definition FMC250M_4CH_OPCODE_RST :: u32 where [fmc250m_4ch_client_defs]: "FMC250M_4CH_OPCODE_RST = 49"
definition FMC250M_4CH_OPCODE_PORTCONFIG :: u32 where [fmc250m_4ch_client_defs]: "FMC250M_4CH_OPCODE_PORTCONFIG = 50"
definition FMC250M_4CH_OPCODE_REG :: u32 where [fmc250m_4ch_client_defs]: "FMC250M_4CH_OPCODE_REG = 51"
definition FMC250M_4CH_OPCODE_TEMP :: u32 where [fmc250m_4ch_client_defs]: "FMC250M_4CH_OPCODE_TEMP = 52"
definition FMC250M_4CH_OPCODE_CAL_STATUS :: u32 where [fmc250m_4ch_client_defs]: "FMC250M_4CH_OPCODE_CAL_STATUS = 53"
definition FMC250M_4CH_OPCODE_ADC_DATA_DLY0 :: u32 where [fmc250m_4ch_client_defs]: "FMC250M_4CH_OPCODE_ADC_DATA_DLY0 = 13"
definition FMC250M_4CH_OPCODE_ADC_DATA_DLY1 :: u32 where [fmc250m_4ch_client_defs]: "FMC250M_4CH_OPCODE_ADC_DATA_DLY1 = 14"
definition FMC250M_4CH_OPCODE_ADC_DATA_DLY2 :: u32 where [fmc250m_4ch_client_defs]: "FMC250M_4CH_OPCODE_ADC_DATA_DLY2 = 15"
definition FMC250M_4CH_OPCODE_ADC_DATA_DLY3 :: u32 where [fmc250m_4ch_client_defs]: "FMC250M_4CH_OPCODE_ADC_DATA_DLY3 = 16"
definition FMC250M_4CH_OPCODE_ADC_CLK_DLY0 :: u32 where [fmc250m_4ch_client_defs]: "FMC250M_4CH_OPCODE_ADC_CLK_DLY0 = 17"
definition FMC250M_4CH_OPCODE_ADC_CLK_DLY1 :: u32 where [fmc250m_4ch_client_defs]: "FMC250M_4CH_OPCODE_ADC_CLK_DLY1 = 18"
definition FMC250M_4CH_OPCODE_ADC_CLK_DLY2 :: u32 where [fmc250m_4ch_client_defs]: "FMC250M_4CH_OPCODE_ADC_CLK_DLY2 = 19"
definition FMC250M_4CH_OPCODE_ADC_CLK_DLY3 :: u32 where [fmc250m_4ch_client_defs]: "FMC250M_4CH_OPCODE_ADC_CLK_DLY3 = 20"
definition FMC250M_4CH_OPCODE_ADC_DLY_LINE0 :: u32 where [fmc250m_4ch_client_defs]: "FMC250M_4CH_OPCODE_ADC_DLY_LINE0 = 21"
definition FMC250M_4CH_OPCODE_ADC_DLY_LINE1 :: u32 where [fmc250m_4ch_client_defs]: "FMC250M_4CH_OPCODE_ADC_DLY_LINE1 = 22"
definition FMC250M_4CH_OPCODE_ADC_DLY_LINE2 :: u32 where [fmc250m_4ch_client_defs]: "FMC250M_4CH_OPCODE_ADC_DLY_LINE2 = 23"
definition FMC250M_4CH_OPCODE_ADC_DLY_LINE3 :: u32 where [fmc250m_4ch_client_defs]: "FMC250M_4CH_OPCODE_ADC_DLY_LINE3 = 24"
definition FMC250M_4CH_OPCODE_ADC_DLY_UPDT0 :: u32 where [fmc250m_4ch_client_defs]: "FMC250M_4CH_OPCODE_ADC_DLY_UPDT0 = 25"
definition FMC250M_4CH_OPCODE_ADC_DLY_UPDT1 :: u32 where [fmc250m_4ch_client_defs]: "FMC250M_4CH_OPCODE_ADC_DLY_UPDT1 = 26"
definition FMC250M_4CH_OPCODE_ADC_DLY_UPDT2 :: u32 where [fmc250m_4ch_client_defs]: "FMC250M_4CH_OPCODE_ADC_DLY_UPDT2 = 27"
definition FMC250M_4CH_OPCODE_ADC_DLY_UPDT3 :: u32 where [fmc250m_4ch_client_defs]: "FMC250M_4CH_OPCODE_ADC_DLY_UPDT3 = 28"
definition FMC250M_4CH_OPCODE_ADC_DLY0 :: u32 where [fmc250m_4ch_client_defs]: "FMC250M_4CH_OPCODE_ADC_DLY0 = 29"
definition FMC250M_4CH_OPCODE_ADC_DLY1 :: u32 where [fmc250m_4ch_client_defs]: "FMC250M_4CH_OPCODE_ADC_DLY1 = 30"
definition FMC250M_4CH_OPCODE_ADC_DLY2 :: u32 where [fmc250m_4ch_client_defs]: "FMC250M_4CH_OPCODE_ADC_DLY2 = 31"
definition FMC250M_4CH_OPCODE_ADC_DLY3 :: u32 where [fmc250m_4ch_client_defs]: "FMC250M_4CH_OPCODE_ADC_DLY3 = 32"

definition halcs_set_rst_adcs :: "'p client_set" where [fmc250m_4ch_client_defs]: 
  "halcs_set_rst_adcs self service = param_client_write self service FMC250M_4CH_OPCODE_RST_ADCS"
definition halcs_get_rst_adcs :: "'p client_get" where [fmc250m_4ch_client_defs]: 
  "halcs_get_rst_adcs self service = param_client_read self service FMC250M_4CH_OPCODE_RST_ADCS"
definition halcs_set_rst_div_adcs :: "'p client_set" where [fmc250m_4ch_client_defs]: 
  "halcs_set_rst_div_adcs self service = param_client_write self service FMC250M_4CH_OPCODE_RST_DIV_ADCS"
definition halcs_get_rst_div_adcs :: "'p client_get" where [fmc250m_4ch_client_defs]: 
  "halcs_get_rst_div_adcs self service = param_client_read self service FMC250M_4CH_OPCODE_RST_DIV_ADCS"
definition halcs_set_sleep_adcs :: "'p client_set" where [fmc250m_4ch_client_defs]: 
  "halcs_set_sleep_adcs self service = param_client_write self service FMC250M_4CH_OPCODE_SLEEP_ADCS"
definition halcs_get_sleep_adcs :: "'p client_get" where [fmc250m_4ch_client_defs]: 
  "halcs_get_sleep_adcs self service = param_client_read self service FMC250M_4CH_OPCODE_SLEEP_ADCS"
definition halcs_set_test_mode_adc :: "'p client_set2" where [fmc250m_4ch_client_defs]: 
  "halcs_set_test_mode_adc self service = param_client_write2 self service FMC250M_4CH_OPCODE_TESTMODE"
definition halcs_set_rst_modes_adc :: "'p client_set2" where [fmc250m_4ch_client_defs]: 
  "halcs_set_rst_modes_adc self service = param_client_write2 self service FMC250M_4CH_OPCODE_RST"
definition halcs_set_portconfig_adc :: "'p client_set2" where [fmc250m_4ch_client_defs]: 
  "halcs_set_portconfig_adc self service = param_client_write2 self service FMC250M_4CH_OPCODE_PORTCONFIG"
definition halcs_set_reg_adc :: "'p client_set3" where [fmc250m_4ch_client_defs]: 
  "halcs_set_reg_adc self service = param_client_write3 self service FMC250M_4CH_OPCODE_REG"
definition halcs_get_reg_adc :: "'p client_get2" where [fmc250m_4ch_client_defs]: 
  "halcs_get_reg_adc self service = param_client_write2_read self service FMC250M_4CH_OPCODE_REG"
definition halcs_get_temp_adc :: "'p client_get1" where [fmc250m_4ch_client_defs]: 
  "halcs_get_temp_adc self service = param_client_write_read self service FMC250M_4CH_OPCODE_TEMP"
definition halcs_get_cal_status_adc :: "'p client_get1" where [fmc250m_4ch_client_defs]: 
  "halcs_get_cal_status_adc self service = param_client_write_read self service FMC250M_4CH_OPCODE_CAL_STATUS"
definition halcs_set_adc250_data_dly0 :: "'p client_set" where [fmc250m_4ch_client_defs]: 
  "halcs_set_adc250_data_dly0 self service = param_client_write self service FMC250M_4CH_OPCODE_ADC_DATA_DLY0"
definition halcs_get_adc250_data_dly0 :: "'p client_get" where [fmc250m_4ch_client_defs]: 
  "halcs_get_adc250_data_dly0 self service = param_client_read self service FMC250M_4CH_OPCODE_ADC_DATA_DLY0"
definition halcs_set_adc250_data_dly1 :: "'p client_set" where [fmc250m_4ch_client_defs]: 
  "halcs_set_adc250_data_dly1 self service = param_client_write self service FMC250M_4CH_OPCODE_ADC_DATA_DLY1"
definition halcs_get_adc250_data_dly1 :: "'p client_get" where [fmc250m_4ch_client_defs]: 
  "halcs_get_adc250_data_dly1 self service = param_client_read self service FMC250M_4CH_OPCODE_ADC_DATA_DLY1"
definition halcs_set_adc250_data_dly2 :: "'p client_set" where [fmc250m_4ch_client_defs]: 
  "halcs_set_adc250_data_dly2 self service = param_client_write self service FMC250M_4CH_OPCODE_ADC_DATA_DLY2"
definition halcs_get_adc250_data_dly2 :: "'p client_get" where [fmc250m_4ch_client_defs]: 
  "halcs_get_adc250_data_dly2 self service = param_client_read self service FMC250M_4CH_OPCODE_ADC_DATA_DLY2"
definition halcs_set_adc250_data_dly3 :: "'p client_set" where [fmc250m_4ch_client_defs]: 
  "halcs_set_adc250_data_dly3 self service = param_client_write self service FMC250M_4CH_OPCODE_ADC_DATA_DLY3"
definition halcs_get_adc250_data_dly3 :: "'p client_get" where [fmc250m_4ch_client_defs]: 
  "halcs_get_adc250_data_dly3 self service = param_client_read self service FMC250M_4CH_OPCODE_ADC_DATA_DLY3"
definition halcs_set_adc250_clk_dly0 :: "'p client_set" where [fmc250m_4ch_client_defs]: 
  "halcs_set_adc250_clk_dly0 self service = param_client_write self service FMC250M_4CH_OPCODE_ADC_CLK_DLY0"
definition halcs_get_adc250_clk_dly0 :: "'p client_get" where [fmc250m_4ch_client_defs]: 
  "halcs_get_adc250_clk_dly0 self service = param_client_read self service FMC250M_4CH_OPCODE_ADC_CLK_DLY0"
definition halcs_set_adc250_clk_dly1 :: "'p client_set" where [fmc250m_4ch_client_defs]: 
  "halcs_set_adc250_clk_dly1 self service = param_client_write self service FMC250M_4CH_OPCODE_ADC_CLK_DLY1"
definition halcs_get_adc250_clk_dly1 :: "'p client_get" where [fmc250m_4ch_client_defs]: 
  "halcs_get_adc250_clk_dly1 self service = param_client_read self service FMC250M_4CH_OPCODE_ADC_CLK_DLY1"
definition halcs_set_adc250_clk_dly2 :: "'p client_set" where [fmc250m_4ch_client_defs]: 
  "halcs_set_adc250_clk_dly2 self service = param_client_write self service FMC250M_4CH_OPCODE_ADC_CLK_DLY2"
definition halcs_get_adc250_clk_dly2 :: "'p client_get" where [fmc250m_4ch_client_defs]: 
  "halcs_get_adc250_clk_dly2 self service = param_client_read self service FMC250M_4CH_OPCODE_ADC_CLK_DLY2"
definition halcs_set_adc250_clk_dly3 :: "'p client_set" where [fmc250m_4ch_client_defs]: 
  "halcs_set_adc250_clk_dly3 self service = param_client_write self service FMC250M_4CH_OPCODE_ADC_CLK_DLY3"
definition halcs_get_adc250_clk_dly3 :: "'p client_get" where [fmc250m_4ch_client_defs]: 
  "halcs_get_adc250_clk_dly3 self service = param_client_read self service FMC250M_4CH_OPCODE_ADC_CLK_DLY3"
definition halcs_set_adc250_dly_line0 :: "'p client_set" where [fmc250m_4ch_client_defs]: 
  "halcs_set_adc250_dly_line0 self service = param_client_write self service FMC250M_4CH_OPCODE_ADC_DLY_LINE0"
definition halcs_get_adc250_dly_line0 :: "'p client_get" where [fmc250m_4ch_client_defs]: 
  "halcs_get_adc250_dly_line0 self service = param_client_read self service FMC250M_4CH_OPCODE_ADC_DLY_LINE0"
definition halcs_set_adc250_dly_line1 :: "'p client_set" where [fmc250m_4ch_client_defs]: 
  "halcs_set_adc250_dly_line1 self service = param_client_write self service FMC250M_4CH_OPCODE_ADC_DLY_LINE1"
definition halcs_get_adc250_dly_line1 :: "'p client_get" where [fmc250m_4ch_client_defs]: 
  "halcs_get_adc250_dly_line1 self service = param_client_read self service FMC250M_4CH_OPCODE_ADC_DLY_LINE1"
definition halcs_set_adc250_dly_line2 :: "'p client_set" where [fmc250m_4ch_client_defs]: 
  "halcs_set_adc250_dly_line2 self service = param_client_write self service FMC250M_4CH_OPCODE_ADC_DLY_LINE2"
definition halcs_get_adc250_dly_line2 :: "'p client_get" where [fmc250m_4ch_client_defs]: 
  "halcs_get_adc250_dly_line2 self service = param_client_read self service FMC250M_4CH_OPCODE_ADC_DLY_LINE2"
definition halcs_set_adc250_dly_line3 :: "'p client_set" where [fmc250m_4ch_client_defs]: 
  "halcs_set_adc250_dly_line3 self service = param_client_write self service FMC250M_4CH_OPCODE_ADC_DLY_LINE3"
definition halcs_get_adc250_dly_line3 :: "'p client_get" where [fmc250m_4ch_client_defs]: 
  "halcs_get_adc250_dly_line3 self service = param_client_read self service FMC250M_4CH_OPCODE_ADC_DLY_LINE3"
definition halcs_set_adc250_dly_updt0 :: "'p client_set" where [fmc250m_4ch_client_defs]: 
  "halcs_set_adc250_dly_updt0 self service = param_client_write self service FMC250M_4CH_OPCODE_ADC_DLY_UPDT0"
definition halcs_get_adc250_dly_updt0 :: "'p client_get" where [fmc250m_4ch_client_defs]: 
  "halcs_get_adc250_dly_updt0 self service = param_client_read self service FMC250M_4CH_OPCODE_ADC_DLY_UPDT0"
definition halcs_set_adc250_dly_updt1 :: "'p client_set" where [fmc250m_4ch_client_defs]: 
  "halcs_set_adc250_dly_updt1 self service = param_client_write self service FMC250M_4CH_OPCODE_ADC_DLY_UPDT1"
definition halcs_get_adc250_dly_updt1 :: "'p client_get" where [fmc250m_4ch_client_defs]: 
  "halcs_get_adc250_dly_updt1 self service = param_client_read self service FMC250M_4CH_OPCODE_ADC_DLY_UPDT1"
definition halcs_set_adc250_dly_updt2 :: "'p client_set" where [fmc250m_4ch_client_defs]: 
  "halcs_set_adc250_dly_updt2 self service = param_client_write self service FMC250M_4CH_OPCODE_ADC_DLY_UPDT2"
definition halcs_get_adc250_dly_updt2 :: "'p client_get" where [fmc250m_4ch_client_defs]: 
  "halcs_get_adc250_dly_updt2 self service = param_client_read self service FMC250M_4CH_OPCODE_ADC_DLY_UPDT2"
definition halcs_set_adc250_dly_updt3 :: "'p client_set" where [fmc250m_4ch_client_defs]: 
  "halcs_set_adc250_dly_updt3 self service = param_client_write self service FMC250M_4CH_OPCODE_ADC_DLY_UPDT3"
definition halcs_get_adc250_dly_updt3 :: "'p client_get" where [fmc250m_4ch_client_defs]: 
  "halcs_get_adc250_dly_updt3 self service = param_client_read self service FMC250M_4CH_OPCODE_ADC_DLY_UPDT3"
definition halcs_set_adc250_dly0 :: "'p client_set2" where [fmc250m_4ch_client_defs]: 
  "halcs_set_adc250_dly0 self service = param_client_write_raw self service FMC250M_4CH_OPCODE_ADC_DLY0"
definition halcs_set_adc250_dly1 :: "'p client_set2" where [fmc250m_4ch_client_defs]: 
  "halcs_set_adc250_dly1 self service = param_client_write_raw self service FMC250M_4CH_OPCODE_ADC_DLY1"
definition halcs_set_adc250_dly2 :: "'p client_set2" where [fmc250m_4ch_client_defs]: 
  "halcs_set_adc250_dly2 self service = param_client_write_raw self service FMC250M_4CH_OPCODE_ADC_DLY2"
definition halcs_set_adc250_dly3 :: "'p client_set2" where [fmc250m_4ch_client_defs]: 
  "halcs_set_adc250_dly3 self service = param_client_write_raw self service FMC250M_4CH_OPCODE_ADC_DLY3"

text \<open>The functions of each exported operation, in the order of the descriptors.\<close>

definition fmc250m_4ch_client :: "'p client_fn list list" where
  "fmc250m_4ch_client =
     [[],
      [],
      [],
      [],
      [Set_Fn halcs_set_adc250_data_dly0, Get_Fn halcs_get_adc250_data_dly0],
      [Set_Fn halcs_set_adc250_data_dly1, Get_Fn halcs_get_adc250_data_dly1],
      [Set_Fn halcs_set_adc250_data_dly2, Get_Fn halcs_get_adc250_data_dly2],
      [Set_Fn halcs_set_adc250_data_dly3, Get_Fn halcs_get_adc250_data_dly3],
      [Set_Fn halcs_set_adc250_clk_dly0, Get_Fn halcs_get_adc250_clk_dly0],
      [Set_Fn halcs_set_adc250_clk_dly1, Get_Fn halcs_get_adc250_clk_dly1],
      [Set_Fn halcs_set_adc250_clk_dly2, Get_Fn halcs_get_adc250_clk_dly2],
      [Set_Fn halcs_set_adc250_clk_dly3, Get_Fn halcs_get_adc250_clk_dly3],
      [Set_Fn halcs_set_adc250_dly_line0, Get_Fn halcs_get_adc250_dly_line0],
      [Set_Fn halcs_set_adc250_dly_line1, Get_Fn halcs_get_adc250_dly_line1],
      [Set_Fn halcs_set_adc250_dly_line2, Get_Fn halcs_get_adc250_dly_line2],
      [Set_Fn halcs_set_adc250_dly_line3, Get_Fn halcs_get_adc250_dly_line3],
      [Set_Fn halcs_set_adc250_dly_updt0, Get_Fn halcs_get_adc250_dly_updt0],
      [Set_Fn halcs_set_adc250_dly_updt1, Get_Fn halcs_get_adc250_dly_updt1],
      [Set_Fn halcs_set_adc250_dly_updt2, Get_Fn halcs_get_adc250_dly_updt2],
      [Set_Fn halcs_set_adc250_dly_updt3, Get_Fn halcs_get_adc250_dly_updt3],
      [Set_Raw halcs_set_adc250_dly0],
      [Set_Raw halcs_set_adc250_dly1],
      [Set_Raw halcs_set_adc250_dly2],
      [Set_Raw halcs_set_adc250_dly3],
      [Set_Fn halcs_set_rst_adcs, Get_Fn halcs_get_rst_adcs],
      [Set_Fn halcs_set_rst_div_adcs, Get_Fn halcs_get_rst_div_adcs],
      [Set_Fn halcs_set_sleep_adcs, Get_Fn halcs_get_sleep_adcs],
      [Set_Chan halcs_set_test_mode_adc],
      [Set_Chan halcs_set_rst_modes_adc],
      [Set_Chan halcs_set_portconfig_adc],
      [Set_Three halcs_set_reg_adc, Get_Two halcs_get_reg_adc],
      [Get_Chan halcs_get_temp_adc],
      [Get_Chan halcs_get_cal_status_adc]]"

lemma fmc250m_4ch_client_fits: "list_all2 op_fits fmc250m_4ch_exp_ops fmc250m_4ch_client"
  by (simp add: fmc250m_4ch_client_def fmc250m_4ch_exp_ops_def fmc250m_4ch_exp_defs fmc250m_4ch_client_defs exp_simps op_fits_def board_args fn_calls_signed fun_eq_iff)

section \<open>fmc130m_4ch\<close>

named_theorems fmc130m_4ch_client_defs

definition FMC130M_4CH_OPCODE_ADC_RAND :: u32 where [fmc130m_4ch_client_defs]: "FMC130M_4CH_OPCODE_ADC_RAND = 5"
definition FMC130M_4CH_OPCODE_ADC_DITH :: u32 where [fmc130m_4ch_client_defs]: "FMC130M_4CH_OPCODE_ADC_DITH = 6"
definition FMC130M_4CH_OPCODE_ADC_SHDN :: u32 where [fmc130m_4ch_client_defs]: "FMC130M_4CH_OPCODE_ADC_SHDN = 7"
definition FMC130M_4CH_OPCODE_ADC_PGA :: u32 where [fmc130m_4ch_client_defs]: "FMC130M_4CH_OPCODE_ADC_PGA = 8"
definition FMC130M_4CH_OPCODE_ADC_DATA0 :: u32 where [fmc130m_4ch_client_defs]: "FMC130M_4CH_OPCODE_ADC_DATA0 = 9"
definition FMC130M_4CH_OPCODE_ADC_DATA1 :: u32 where [fmc130m_4ch_client_defs]: "FMC130M_4CH_OPCODE_ADC_DATA1 = 10"
definition FMC130M_4CH_OPCODE_ADC_DATA2 :: u32 where [fmc130m_4ch_client_defs]: "FMC130M_4CH_OPCODE_ADC_DATA2 = 11"
definition FMC130M_4CH_OPCODE_ADC_DATA3 :: u32 where [fmc130m_4ch_client_defs]: "FMC130M_4CH_OPCODE_ADC_DATA3 = 12"
definition FMC130M_4CH_OPCODE_ADC_DLY_VAL0 :: u32 where [fmc130m_4ch_client_defs]: "FMC130M_4CH_OPCODE_ADC_DLY_VAL0 = 13"
definition FMC130M_4CH_OPCODE_ADC_DLY_VAL1 :: u32 where [fmc130m_4ch_client_defs]: "FMC130M_4CH_OPCODE_ADC_DLY_VAL1 = 14"
definition FMC130M_4CH_OPCODE_ADC_DLY_VAL2 :: u32 where [fmc130m_4ch_client_defs]: "FMC130M_4CH_OPCODE_ADC_DLY_VAL2 = 15"
definition FMC130M_4CH_OPCODE_ADC_DLY_VAL3 :: u32 where [fmc130m_4ch_client_defs]: "FMC130M_4CH_OPCODE_ADC_DLY_VAL3 = 16"
definition FMC130M_4CH_OPCODE_ADC_DLY_LINE0 :: u32 where [fmc130m_4ch_client_defs]: "FMC130M_4CH_OPCODE_ADC_DLY_LINE0 = 17"
definition FMC130M_4CH_OPCODE_ADC_DLY_LINE1 :: u32 where [fmc130m_4ch_client_defs]: "FMC130M_4CH_OPCODE_ADC_DLY_LINE1 = 18"
definition FMC130M_4CH_OPCODE_ADC_DLY_LINE2 :: u32 where [fmc130m_4ch_client_defs]: "FMC130M_4CH_OPCODE_ADC_DLY_LINE2 = 19"
definition FMC130M_4CH_OPCODE_ADC_DLY_LINE3 :: u32 where [fmc130m_4ch_client_defs]: "FMC130M_4CH_OPCODE_ADC_DLY_LINE3 = 20"
definition FMC130M_4CH_OPCODE_ADC_DLY_UPDT0 :: u32 where [fmc130m_4ch_client_defs]: "FMC130M_4CH_OPCODE_ADC_DLY_UPDT0 = 21"
definition FMC130M_4CH_OPCODE_ADC_DLY_UPDT1 :: u32 where [fmc130m_4ch_client_defs]: "FMC130M_4CH_OPCODE_ADC_DLY_UPDT1 = 22"
definition FMC130M_4CH_OPCODE_ADC_DLY_UPDT2 :: u32 where [fmc130m_4ch_client_defs]: "FMC130M_4CH_OPCODE_ADC_DLY_UPDT2 = 23"
definition FMC130M_4CH_OPCODE_ADC_DLY_UPDT3 :: u32 where [fmc130m_4ch_client_defs]: "FMC130M_4CH_OPCODE_ADC_DLY_UPDT3 = 24"
definition FMC130M_4CH_OPCODE_ADC_DLY0 :: u32 where [fmc130m_4ch_client_defs]: "FMC130M_4CH_OPCODE_ADC_DLY0 = 25"
definition FMC130M_4CH_OPCODE_ADC_DLY1 :: u32 where [fmc130m_4ch_client_defs]: "FMC130M_4CH_OPCODE_ADC_DLY1 = 26"
definition FMC130M_4CH_OPCODE_ADC_DLY2 :: u32 where [fmc130m_4ch_client_defs]: "FMC130M_4CH_OPCODE_ADC_DLY2 = 27"
definition FMC130M_4CH_OPCODE_ADC_DLY3 :: u32 where [fmc130m_4ch_client_defs]: "FMC130M_4CH_OPCODE_ADC_DLY3 = 28"
definition FMC130M_4CH_OPCODE_24AA64_DATA :: u32 where [fmc130m_4ch_client_defs]: "FMC130M_4CH_OPCODE_24AA64_DATA = 29"

definition halcs_set_adc_rand :: "'p client_set" where [fmc130m_4ch_client_defs]: 
  "halcs_set_adc_rand self service = param_client_write self service FMC130M_4CH_OPCODE_ADC_RAND"
definition halcs_get_adc_rand :: "'p client_get" where [fmc130m_4ch_client_defs]: 
  "halcs_get_adc_rand self service = param_client_read self service FMC130M_4CH_OPCODE_ADC_RAND"
definition halcs_set_adc_dith :: "'p client_set" where [fmc130m_4ch_client_defs]: 
  "halcs_set_adc_dith self service = param_client_write self service FMC130M_4CH_OPCODE_ADC_DITH"
definition halcs_get_adc_dith :: "'p client_get" where [fmc130m_4ch_client_defs]: 
  "halcs_get_adc_dith self service = param_client_read self service FMC130M_4CH_OPCODE_ADC_DITH"
definition halcs_set_adc_shdn :: "'p client_set" where [fmc130m_4ch_client_defs]: 
  "halcs_set_adc_shdn self service = param_client_write self service FMC130M_4CH_OPCODE_ADC_SHDN"
definition halcs_get_adc_shdn :: "'p client_get" where [fmc130m_4ch_client_defs]: 
  "halcs_get_adc_shdn self service = param_client_read self service FMC130M_4CH_OPCODE_ADC_SHDN"
definition halcs_set_adc_pga :: "'p client_set" where [fmc130m_4ch_client_defs]: 
  "halcs_set_adc_pga self service = param_client_write self service FMC130M_4CH_OPCODE_ADC_PGA"
definition halcs_get_adc_pga :: "'p client_get" where [fmc130m_4ch_client_defs]: 
  "halcs_get_adc_pga self service = param_client_read self service FMC130M_4CH_OPCODE_ADC_PGA"
definition halcs_set_adc_data0 :: "'p client_set" where [fmc130m_4ch_client_defs]: 
  "halcs_set_adc_data0 self service = param_client_write self service FMC130M_4CH_OPCODE_ADC_DATA0"
definition halcs_get_adc_data0 :: "'p client_get" where [fmc130m_4ch_client_defs]: 
  "halcs_get_adc_data0 self service = param_client_read self service FMC130M_4CH_OPCODE_ADC_DATA0"
definition halcs_set_adc_data1 :: "'p client_set" where [fmc130m_4ch_client_defs]: 
  "halcs_set_adc_data1 self service = param_client_write self service FMC130M_4CH_OPCODE_ADC_DATA1"
definition halcs_get_adc_data1 :: "'p client_get" where [fmc130m_4ch_client_defs]: 
  "halcs_get_adc_data1 self service = param_client_read self service FMC130M_4CH_OPCODE_ADC_DATA1"
definition halcs_set_adc_data2 :: "'p client_set" where [fmc130m_4ch_client_defs]: 
  "halcs_set_adc_data2 self service = param_client_write self service FMC130M_4CH_OPCODE_ADC_DATA2"
definition halcs_get_adc_data2 :: "'p client_get" where [fmc130m_4ch_client_defs]: 
  "halcs_get_adc_data2 self service = param_client_read self service FMC130M_4CH_OPCODE_ADC_DATA2"
definition halcs_set_adc_data3 :: "'p client_set" where [fmc130m_4ch_client_defs]: 
  "halcs_set_adc_data3 self service = param_client_write self service FMC130M_4CH_OPCODE_ADC_DATA3"
definition halcs_get_adc_data3 :: "'p client_get" where [fmc130m_4ch_client_defs]: 
  "halcs_get_adc_data3 self service = param_client_read self service FMC130M_4CH_OPCODE_ADC_DATA3"
definition halcs_set_adc_dly_val0 :: "'p client_set" where [fmc130m_4ch_client_defs]: 
  "halcs_set_adc_dly_val0 self service = param_client_write self service FMC130M_4CH_OPCODE_ADC_DLY_VAL0"
definition halcs_get_adc_dly_val0 :: "'p client_get" where [fmc130m_4ch_client_defs]: 
  "halcs_get_adc_dly_val0 self service = param_client_read self service FMC130M_4CH_OPCODE_ADC_DLY_VAL0"
definition halcs_set_adc_dly_val1 :: "'p client_set" where [fmc130m_4ch_client_defs]: 
  "halcs_set_adc_dly_val1 self service = param_client_write self service FMC130M_4CH_OPCODE_ADC_DLY_VAL1"
definition halcs_get_adc_dly_val1 :: "'p client_get" where [fmc130m_4ch_client_defs]: 
  "halcs_get_adc_dly_val1 self service = param_client_read self service FMC130M_4CH_OPCODE_ADC_DLY_VAL1"
definition halcs_set_adc_dly_val2 :: "'p client_set" where [fmc130m_4ch_client_defs]: 
  "halcs_set_adc_dly_val2 self service = param_client_write self service FMC130M_4CH_OPCODE_ADC_DLY_VAL2"
definition halcs_get_adc_dly_val2 :: "'p client_get" where [fmc130m_4ch_client_defs]: 
  "halcs_get_adc_dly_val2 self service = param_client_read self service FMC130M_4CH_OPCODE_ADC_DLY_VAL2"
definition halcs_set_adc_dly_val3 :: "'p client_set" where [fmc130m_4ch_client_defs]: 
  "halcs_set_adc_dly_val3 self service = param_client_write self service FMC130M_4CH_OPCODE_ADC_DLY_VAL3"
definition halcs_get_adc_dly_val3 :: "'p client_get" where [fmc130m_4ch_client_defs]: 
  "halcs_get_adc_dly_val3 self service = param_client_read self service FMC130M_4CH_OPCODE_ADC_DLY_VAL3"
definition halcs_set_adc_dly_line0 :: "'p client_set" where [fmc130m_4ch_client_defs]: 
  "halcs_set_adc_dly_line0 self service = param_client_write self service FMC130M_4CH_OPCODE_ADC_DLY_LINE0"
definition halcs_get_adc_dly_line0 :: "'p client_get" where [fmc130m_4ch_client_defs]: 
  "halcs_get_adc_dly_line0 self service = param_client_read self service FMC130M_4CH_OPCODE_ADC_DLY_LINE0"
definition halcs_set_adc_dly_line1 :: "'p client_set" where [fmc130m_4ch_client_defs]: 
  "halcs_set_adc_dly_line1 self service = param_client_write self service FMC130M_4CH_OPCODE_ADC_DLY_LINE1"
definition halcs_get_adc_dly_line1 :: "'p client_get" where [fmc130m_4ch_client_defs]: 
  "halcs_get_adc_dly_line1 self service = param_client_read self service FMC130M_4CH_OPCODE_ADC_DLY_LINE1"
definition halcs_set_adc_dly_line2 :: "'p client_set" where [fmc130m_4ch_client_defs]: 
  "halcs_set_adc_dly_line2 self service = param_client_write self service FMC130M_4CH_OPCODE_ADC_DLY_LINE2"
definition halcs_get_adc_dly_line2 :: "'p client_get" where [fmc130m_4ch_client_defs]: 
  "halcs_get_adc_dly_line2 self service = param_client_read self service FMC130M_4CH_OPCODE_ADC_DLY_LINE2"
definition halcs_set_adc_dly_line3 :: "'p client_set" where [fmc130m_4ch_client_defs]: 
  "halcs_set_adc_dly_line3 self service = param_client_write self service FMC130M_4CH_OPCODE_ADC_DLY_LINE3"
definition halcs_get_adc_dly_line3 :: "'p client_get" where [fmc130m_4ch_client_defs]: 
  "halcs_get_adc_dly_line3 self service = param_client_read self service FMC130M_4CH_OPCODE_ADC_DLY_LINE3"
definition halcs_set_adc_dly_updt0 :: "'p client_set" where [fmc130m_4ch_client_defs]: 
  "halcs_set_adc_dly_updt0 self service = param_client_write self service FMC130M_4CH_OPCODE_ADC_DLY_UPDT0"
definition halcs_get_adc_dly_updt0 :: "'p client_get" where [fmc130m_4ch_client_defs]: 
  "halcs_get_adc_dly_updt0 self service = param_client_read self service FMC130M_4CH_OPCODE_ADC_DLY_UPDT0"
definition halcs_set_adc_dly_updt1 :: "'p client_set" where [fmc130m_4ch_client_defs]: 
  "halcs_set_adc_dly_updt1 self service = param_client_write self service FMC130M_4CH_OPCODE_ADC_DLY_UPDT1"
definition halcs_get_adc_dly_updt1 :: "'p client_get" where [fmc130m_4ch_client_defs]: 
  "halcs_get_adc_dly_updt1 self service = param_client_read self service FMC130M_4CH_OPCODE_ADC_DLY_UPDT1"
definition halcs_set_adc_dly_updt2 :: "'p client_set" where [fmc130m_4ch_client_defs]: 
  "halcs_set_adc_dly_updt2 self service = param_client_write self service FMC130M_4CH_OPCODE_ADC_DLY_UPDT2"
definition halcs_get_adc_dly_updt2 :: "'p client_get" where [fmc130m_4ch_client_defs]: 
  "halcs_get_adc_dly_updt2 self service = param_client_read self service FMC130M_4CH_OPCODE_ADC_DLY_UPDT2"
definition halcs_set_adc_dly_updt3 :: "'p client_set" where [fmc130m_4ch_client_defs]: 
  "halcs_set_adc_dly_updt3 self service = param_client_write self service FMC130M_4CH_OPCODE_ADC_DLY_UPDT3"
definition halcs_get_adc_dly_updt3 :: "'p client_get" where [fmc130m_4ch_client_defs]: 
  "halcs_get_adc_dly_updt3 self service = param_client_read self service FMC130M_4CH_OPCODE_ADC_DLY_UPDT3"
definition halcs_set_adc_dly0 :: "'p client_set2" where [fmc130m_4ch_client_defs]: 
  "halcs_set_adc_dly0 self service = param_client_write_raw self service FMC130M_4CH_OPCODE_ADC_DLY0"
definition halcs_set_adc_dly1 :: "'p client_set2" where [fmc130m_4ch_client_defs]: 
  "halcs_set_adc_dly1 self service = param_client_write_raw self service FMC130M_4CH_OPCODE_ADC_DLY1"
definition halcs_set_adc_dly2 :: "'p client_set2" where [fmc130m_4ch_client_defs]: 
  "halcs_set_adc_dly2 self service = param_client_write_raw self service FMC130M_4CH_OPCODE_ADC_DLY2"
definition halcs_set_adc_dly3 :: "'p client_set2" where [fmc130m_4ch_client_defs]: 
  "halcs_set_adc_dly3 self service = param_client_write_raw self service FMC130M_4CH_OPCODE_ADC_DLY3"
definition halcs_set_24aa64_data :: "'p client_set2" where [fmc130m_4ch_client_defs]: 
  "halcs_set_24aa64_data self service = param_client_write2 self service FMC130M_4CH_OPCODE_24AA64_DATA"
definition halcs_get_24aa64_data :: "'p client_get1" where [fmc130m_4ch_client_defs]: 
  "halcs_get_24aa64_data self service = param_client_write_read self service FMC130M_4CH_OPCODE_24AA64_DATA"

text \<open>The functions of each exported operation, in the order of the descriptors.\<close>

definition fmc130m_4ch_client :: "'p client_fn list list" where
  "fmc130m_4ch_client =
     [[Set_Fn halcs_set_adc_rand, Get_Fn halcs_get_adc_rand],
      [Set_Fn halcs_set_adc_dith, Get_Fn halcs_get_adc_dith],
      [Set_Fn halcs_set_adc_shdn, Get_Fn halcs_get_adc_shdn],
      [Set_Fn halcs_set_adc_pga, Get_Fn halcs_get_adc_pga],
      [Set_Fn halcs_set_adc_data0, Get_Fn halcs_get_adc_data0],
      [Set_Fn halcs_set_adc_data1, Get_Fn halcs_get_adc_data1],
      [Set_Fn halcs_set_adc_data2, Get_Fn halcs_get_adc_data2],
      [Set_Fn halcs_set_adc_data3, Get_Fn halcs_get_adc_data3],
      [Set_Fn halcs_set_adc_dly_val0, Get_Fn halcs_get_adc_dly_val0],
      [Set_Fn halcs_set_adc_dly_val1, Get_Fn halcs_get_adc_dly_val1],
      [Set_Fn halcs_set_adc_dly_val2, Get_Fn halcs_get_adc_dly_val2],
      [Set_Fn halcs_set_adc_dly_val3, Get_Fn halcs_get_adc_dly_val3],
      [Set_Fn halcs_set_adc_dly_line0, Get_Fn halcs_get_adc_dly_line0],
      [Set_Fn halcs_set_adc_dly_line1, Get_Fn halcs_get_adc_dly_line1],
      [Set_Fn halcs_set_adc_dly_line2, Get_Fn halcs_get_adc_dly_line2],
      [Set_Fn halcs_set_adc_dly_line3, Get_Fn halcs_get_adc_dly_line3],
      [Set_Fn halcs_set_adc_dly_updt0, Get_Fn halcs_get_adc_dly_updt0],
      [Set_Fn halcs_set_adc_dly_updt1, Get_Fn halcs_get_adc_dly_updt1],
      [Set_Fn halcs_set_adc_dly_updt2, Get_Fn halcs_get_adc_dly_updt2],
      [Set_Fn halcs_set_adc_dly_updt3, Get_Fn halcs_get_adc_dly_updt3],
      [Set_Raw halcs_set_adc_dly0],
      [Set_Raw halcs_set_adc_dly1],
      [Set_Raw halcs_set_adc_dly2],
      [Set_Raw halcs_set_adc_dly3],
      [Set_Chan halcs_set_24aa64_data, Get_Chan halcs_get_24aa64_data]]"

lemma fmc130m_4ch_client_fits: "list_all2 op_fits fmc130m_4ch_exp_ops fmc130m_4ch_client"
  by (simp add: fmc130m_4ch_client_def fmc130m_4ch_exp_ops_def fmc130m_4ch_exp_defs fmc130m_4ch_client_defs exp_simps op_fits_def board_args fn_calls_signed fun_eq_iff)

section \<open>fmc_100m_4ch\<close>

named_theorems fmc100m_4ch_client_defs

definition FMC_100M_4CH_OPCODE_STATUS :: u32 where [fmc100m_4ch_client_defs]: "FMC_100M_4CH_OPCODE_STATUS = 20"
definition FMC_100M_4CH_OPCODE_ACQ_LED :: u32 where [fmc100m_4ch_client_defs]: "FMC_100M_4CH_OPCODE_ACQ_LED = 1"
definition FMC_100M_4CH_OPCODE_ADC_STATUS :: u32 where [fmc100m_4ch_client_defs]: "FMC_100M_4CH_OPCODE_ADC_STATUS = 21"
definition FMC_100M_4CH_OPCODE_ADC_CALIB_GAIN :: u32 where [fmc100m_4ch_client_defs]: "FMC_100M_4CH_OPCODE_ADC_CALIB_GAIN = 22"
definition FMC_100M_4CH_OPCODE_ADC_CALIB_OFFSET :: u32 where [fmc100m_4ch_client_defs]: "FMC_100M_4CH_OPCODE_ADC_CALIB_OFFSET = 23"
definition FMC_100M_4CH_OPCODE_ADC_SAT :: u32 where [fmc100m_4ch_client_defs]: "FMC_100M_4CH_OPCODE_ADC_SAT = 24"
definition FMC_100M_4CH_OPCODE_ADC_SSR :: u32 where [fmc100m_4ch_client_defs]: "FMC_100M_4CH_OPCODE_ADC_SSR = 25"
definition FMC_100M_4CH_OPCODE_FS_FREQ :: u32 where [fmc100m_4ch_client_defs]: "FMC_100M_4CH_OPCODE_FS_FREQ = 26"
definition FMC_100M_4CH_OPCODE_LTC2174_TEST_PATT :: u32 where [fmc100m_4ch_client_defs]: "FMC_100M_4CH_OPCODE_LTC2174_TEST_PATT = 27"
definition FMC_100M_4CH_OPCODE_LTC2174_TEST_PATT_DATA :: u32 where [fmc100m_4ch_client_defs]: "FMC_100M_4CH_OPCODE_LTC2174_TEST_PATT_DATA = 28"
definition FMC_100M_4CH_OPCODE_LTC2174_RESET :: u32 where [fmc100m_4ch_client_defs]: "FMC_100M_4CH_OPCODE_LTC2174_RESET = 29"
definition FMC_100M_4CH_OPCODE_LTC2174_TWOS_COMPL :: u32 where [fmc100m_4ch_client_defs]: "FMC_100M_4CH_OPCODE_LTC2174_TWOS_COMPL = 30"

definition halcs_get_adc100_status :: "'p client_get" where [fmc100m_4ch_client_defs]: 
  "halcs_get_adc100_status self service = param_client_read self service FMC_100M_4CH_OPCODE_STATUS"
definition halcs_set_adc100_acq_led :: "'p client_set" where [fmc100m_4ch_client_defs]: 
  "halcs_set_adc100_acq_led self service = param_client_write self service FMC_100M_4CH_OPCODE_ACQ_LED"
definition halcs_get_adc100_acq_led :: "'p client_get" where [fmc100m_4ch_client_defs]: 
  "halcs_get_adc100_acq_led self service = param_client_read self service FMC_100M_4CH_OPCODE_ACQ_LED"
definition halcs_get_adc100_adc_status :: "'p client_get1" where [fmc100m_4ch_client_defs]: 
  "halcs_get_adc100_adc_status self service = param_client_write_read self service FMC_100M_4CH_OPCODE_ADC_STATUS"
definition halcs_set_adc100_adc_calib_gain :: "'p client_set2" where [fmc100m_4ch_client_defs]: 
  "halcs_set_adc100_adc_calib_gain self service = param_client_write2 self service FMC_100M_4CH_OPCODE_ADC_CALIB_GAIN"
definition halcs_get_adc100_adc_calib_gain :: "'p client_get1" where [fmc100m_4ch_client_defs]: 
  "halcs_get_adc100_adc_calib_gain self service = param_client_write_read self service FMC_100M_4CH_OPCODE_ADC_CALIB_GAIN"
definition halcs_set_adc100_adc_calib_offset :: "'p client_set2" where [fmc100m_4ch_client_defs]: 
  "halcs_set_adc100_adc_calib_offset self service = param_client_write2 self service FMC_100M_4CH_OPCODE_ADC_CALIB_OFFSET"
definition halcs_get_adc100_adc_calib_offset :: "'p client_get1" where [fmc100m_4ch_client_defs]: 
  "halcs_get_adc100_adc_calib_offset self service = param_client_write_read self service FMC_100M_4CH_OPCODE_ADC_CALIB_OFFSET"
definition halcs_set_adc100_adc_sat :: "'p client_set2" where [fmc100m_4ch_client_defs]: 
  "halcs_set_adc100_adc_sat self service = param_client_write2 self service FMC_100M_4CH_OPCODE_ADC_SAT"
definition halcs_get_adc100_adc_sat :: "'p client_get1" where [fmc100m_4ch_client_defs]: 
  "halcs_get_adc100_adc_sat self service = param_client_write_read self service FMC_100M_4CH_OPCODE_ADC_SAT"
definition halcs_set_adc100_adc_ssr :: "'p client_set2" where [fmc100m_4ch_client_defs]: 
  "halcs_set_adc100_adc_ssr self service = param_client_write2 self service FMC_100M_4CH_OPCODE_ADC_SSR"
definition halcs_get_adc100_adc_ssr :: "'p client_get1" where [fmc100m_4ch_client_defs]: 
  "halcs_get_adc100_adc_ssr self service = param_client_write_read self service FMC_100M_4CH_OPCODE_ADC_SSR"
definition halcs_get_adc100_fs_freq :: "'p client_get" where [fmc100m_4ch_client_defs]: 
  "halcs_get_adc100_fs_freq self service = param_client_read self service FMC_100M_4CH_OPCODE_FS_FREQ"
definition halcs_set_adc100_ltc2174_test_patt :: "'p client_set" where [fmc100m_4ch_client_defs]: 
  "halcs_set_adc100_ltc2174_test_patt self service = param_client_write self service FMC_100M_4CH_OPCODE_LTC2174_TEST_PATT"
definition halcs_get_adc100_ltc2174_test_patt :: "'p client_get" where [fmc100m_4ch_client_defs]: 
  "halcs_get_adc100_ltc2174_test_patt self service = param_client_read self service FMC_100M_4CH_OPCODE_LTC2174_TEST_PATT"
definition halcs_set_adc100_ltc2174_test_patt_data :: "'p client_set" where [fmc100m_4ch_client_defs]: 
  "halcs_set_adc100_ltc2174_test_patt_data self service = param_client_write self service FMC_100M_4CH_OPCODE_LTC2174_TEST_PATT_DATA"
definition halcs_get_adc100_ltc2174_test_patt_data :: "'p client_get" where [fmc100m_4ch_client_defs]: 
  "halcs_get_adc100_ltc2174_test_patt_data self service = param_client_read self service FMC_100M_4CH_OPCODE_LTC2174_TEST_PATT_DATA"
definition halcs_set_adc100_ltc2174_reset :: "'p client_set" where [fmc100m_4ch_client_defs]: 
  "halcs_set_adc100_ltc2174_reset self service = param_client_write self service FMC_100M_4CH_OPCODE_LTC2174_RESET"
definition halcs_set_adc100_ltc2174_twos_compl :: "'p client_set" where [fmc100m_4ch_client_defs]: 
  "halcs_set_adc100_ltc2174_twos_compl self service = param_client_write self service FMC_100M_4CH_OPCODE_LTC2174_TWOS_COMPL"
definition halcs_get_adc100_ltc2174_twos_compl :: "'p client_get" where [fmc100m_4ch_client_defs]: 
  "halcs_get_adc100_ltc2174_twos_compl self service = param_client_read self service FMC_100M_4CH_OPCODE_LTC2174_TWOS_COMPL"

text \<open>The functions of each exported operation, in the order of the descriptors.\<close>

definition fmc100m_4ch_client :: "'p client_fn list list" where
  "fmc100m_4ch_client =
     [[],
      [Set_Fn halcs_set_adc100_acq_led, Get_Fn halcs_get_adc100_acq_led],
      [Get_Fn halcs_get_adc100_status],
      [Get_Chan halcs_get_adc100_adc_status],
      [Set_Chan halcs_set_adc100_adc_calib_gain, Get_Chan halcs_get_adc100_adc_calib_gain],
      [Set_Chan halcs_set_adc100_adc_calib_offset, Get_Chan halcs_get_adc100_adc_calib_offset],
      [Set_Chan halcs_set_adc100_adc_sat, Get_Chan halcs_get_adc100_adc_sat],
      [Set_Chan halcs_set_adc100_adc_ssr, Get_Chan halcs_get_adc100_adc_ssr],
      [Get_Fn halcs_get_adc100_fs_freq],
      [],
      [],
      [],
      [Set_Fn halcs_set_adc100_ltc2174_test_patt, Get_Fn halcs_get_adc100_ltc2174_test_patt],
      [Set_Fn halcs_set_adc100_ltc2174_test_patt_data, Get_Fn halcs_get_adc100_ltc2174_test_patt_data],
      [Set_Fn halcs_set_adc100_ltc2174_reset],
      [Set_Fn halcs_set_adc100_ltc2174_twos_compl, Get_Fn halcs_get_adc100_ltc2174_twos_compl]]"

lemma fmc100m_4ch_client_fits: "list_all2 op_fits fmc100m_4ch_exp_ops fmc100m_4ch_client"
  by (simp add: fmc100m_4ch_client_def fmc100m_4ch_exp_ops_def fmc100m_4ch_exp_defs fmc100m_4ch_client_defs exp_simps op_fits_def board_args fn_calls_signed fun_eq_iff)

section \<open>fmc_active_clk\<close>

named_theorems fmc_active_clk_client_defs

definition FMC_ACTIVE_CLK_OPCODE_PLL_FUNCTION :: u32 where [fmc_active_clk_client_defs]: "FMC_ACTIVE_CLK_OPCODE_PLL_FUNCTION = 1"
definition FMC_ACTIVE_CLK_OPCODE_PLL_STATUS :: u32 where [fmc_active_clk_client_defs]: "FMC_ACTIVE_CLK_OPCODE_PLL_STATUS = 2"
definition FMC_ACTIVE_CLK_OPCODE_CLK_SEL :: u32 where [fmc_active_clk_client_defs]: "FMC_ACTIVE_CLK_OPCODE_CLK_SEL = 3"
definition FMC_ACTIVE_CLK_OPCODE_RST_ISLA216P :: u32 where [fmc_active_clk_client_defs]: "FMC_ACTIVE_CLK_OPCODE_RST_ISLA216P = 16"
definition FMC_ACTIVE_CLK_OPCODE_RST_SWAP :: u32 where [fmc_active_clk_client_defs]: "FMC_ACTIVE_CLK_OPCODE_RST_SWAP = 17"
definition FMC_ACTIVE_CLK_OPCODE_SI571_OE :: u32 where [fmc_active_clk_client_defs]: "FMC_ACTIVE_CLK_OPCODE_SI571_OE = 0"
definition FMC_ACTIVE_CLK_OPCODE_AD9510_CFG_DEFAULTS :: u32 where [fmc_active_clk_client_defs]: "FMC_ACTIVE_CLK_OPCODE_AD9510_CFG_DEFAULTS = 4"
definition FMC_ACTIVE_CLK_OPCODE_AD9510_PLL_A_DIV :: u32 where [fmc_active_clk_client_defs]: "FMC_ACTIVE_CLK_OPCODE_AD9510_PLL_A_DIV = 5"
definition FMC_ACTIVE_CLK_OPCODE_AD9510_PLL_B_DIV :: u32 where [fmc_active_clk_client_defs]: "FMC_ACTIVE_CLK_OPCODE_AD9510_PLL_B_DIV = 6"
definition FMC_ACTIVE_CLK_OPCODE_AD9510_PLL_PRESCALER :: u32 where [fmc_active_clk_client_defs]: "FMC_ACTIVE_CLK_OPCODE_AD9510_PLL_PRESCALER = 7"
definition FMC_ACTIVE_CLK_OPCODE_AD9510_R_DIV :: u32 where [fmc_active_clk_client_defs]: "FMC_ACTIVE_CLK_OPCODE_AD9510_R_DIV = 8"
definition FMC_ACTIVE_CLK_OPCODE_AD9510_PLL_PDOWN :: u32 where [fmc_active_clk_client_defs]: "FMC_ACTIVE_CLK_OPCODE_AD9510_PLL_PDOWN = 9"
definition FMC_ACTIVE_CLK_OPCODE_AD9510_MUX_STATUS :: u32 where [fmc_active_clk_client_defs]: "FMC_ACTIVE_CLK_OPCODE_AD9510_MUX_STATUS = 10"
definition FMC_ACTIVE_CLK_OPCODE_AD9510_CP_CURRENT :: u32 where [fmc_active_clk_client_defs]: "FMC_ACTIVE_CLK_OPCODE_AD9510_CP_CURRENT = 11"
definition FMC_ACTIVE_CLK_OPCODE_AD9510_OUTPUTS :: u32 where [fmc_active_clk_client_defs]: "FMC_ACTIVE_CLK_OPCODE_AD9510_OUTPUTS = 12"
definition FMC_ACTIVE_CLK_OPCODE_AD9510_PLL_CLK_SEL :: u32 where [fmc_active_clk_client_defs]: "FMC_ACTIVE_CLK_OPCODE_AD9510_PLL_CLK_SEL = 13"
definition FMC_ACTIVE_CLK_OPCODE_SI571_FREQ :: u32 where [fmc_active_clk_client_defs]: "FMC_ACTIVE_CLK_OPCODE_SI571_FREQ = 14"
definition FMC_ACTIVE_CLK_OPCODE_SI571_GET_DEFAULTS :: u32 where [fmc_active_clk_client_defs]: "FMC_ACTIVE_CLK_OPCODE_SI571_GET_DEFAULTS = 15"
definition FMC_ACTIVE_CLK_OPCODE_SI571_FSTARTUP :: u32 where [fmc_active_clk_client_defs]: "FMC_ACTIVE_CLK_OPCODE_SI571_FSTARTUP = 19"
definition FMC_ACTIVE_CLK_OPCODE_AD9510_DATA :: u32 where [fmc_active_clk_client_defs]: "FMC_ACTIVE_CLK_OPCODE_AD9510_DATA = 18"

definition halcs_set_fmc_pll_function :: "'p client_set" where [fmc_active_clk_client_defs]: 
  "halcs_set_fmc_pll_function self service = param_client_write self service FMC_ACTIVE_CLK_OPCODE_PLL_FUNCTION"
definition halcs_get_fmc_pll_function :: "'p client_get" where [fmc_active_clk_client_defs]: 
  "halcs_get_fmc_pll_function self service = param_client_read self service FMC_ACTIVE_CLK_OPCODE_PLL_FUNCTION"
definition halcs_set_fmc_pll_status :: "'p client_set" where [fmc_active_clk_client_defs]: 
  "halcs_set_fmc_pll_status self service = param_client_write self service FMC_ACTIVE_CLK_OPCODE_PLL_STATUS"
definition halcs_get_fmc_pll_status :: "'p client_get" where [fmc_active_clk_client_defs]: 
  "halcs_get_fmc_pll_status self service = param_client_read self service FMC_ACTIVE_CLK_OPCODE_PLL_STATUS"
definition halcs_set_fmc_clk_sel :: "'p client_set" where [fmc_active_clk_client_defs]: 
  "halcs_set_fmc_clk_sel self service = param_client_write self service FMC_ACTIVE_CLK_OPCODE_CLK_SEL"
definition halcs_get_fmc_clk_sel :: "'p client_get" where [fmc_active_clk_client_defs]: 
  "halcs_get_fmc_clk_sel self service = param_client_read self service FMC_ACTIVE_CLK_OPCODE_CLK_SEL"
definition halcs_set_rst_isla216p :: "'p client_set" where [fmc_active_clk_client_defs]: 
  "halcs_set_rst_isla216p self service = param_client_write self service FMC_ACTIVE_CLK_OPCODE_RST_ISLA216P"
definition halcs_set_rst_swap :: "'p client_set" where [fmc_active_clk_client_defs]: 
  "halcs_set_rst_swap self service = param_client_write self service FMC_ACTIVE_CLK_OPCODE_RST_SWAP"
definition halcs_set_si571_oe :: "'p client_set" where [fmc_active_clk_client_defs]: 
  "halcs_set_si571_oe self service = param_client_write self service FMC_ACTIVE_CLK_OPCODE_SI571_OE"
definition halcs_get_si571_oe :: "'p client_get" where [fmc_active_clk_client_defs]: 
  "halcs_get_si571_oe self service = param_client_read self service FMC_ACTIVE_CLK_OPCODE_SI571_OE"
definition halcs_set_ad9510_defaults :: "'p client_set" where [fmc_active_clk_client_defs]: 
  "halcs_set_ad9510_defaults self service = param_client_write self service FMC_ACTIVE_CLK_OPCODE_AD9510_CFG_DEFAULTS"
definition halcs_get_ad9510_defaults :: "'p client_get" where [fmc_active_clk_client_defs]: 
  "halcs_get_ad9510_defaults self service = param_client_read self service FMC_ACTIVE_CLK_OPCODE_AD9510_CFG_DEFAULTS"
definition halcs_set_ad9510_pll_a_div :: "'p client_set" where [fmc_active_clk_client_defs]: 
  "halcs_set_ad9510_pll_a_div self service = param_client_write self service FMC_ACTIVE_CLK_OPCODE_AD9510_PLL_A_DIV"
definition halcs_get_ad9510_pll_a_div :: "'p client_get" where [fmc_active_clk_client_defs]: 
  "halcs_get_ad9510_pll_a_div self service = param_client_read self service FMC_ACTIVE_CLK_OPCODE_AD9510_PLL_A_DIV"
definition halcs_set_ad9510_pll_b_div :: "'p client_set" where [fmc_active_clk_client_defs]: 
  "halcs_set_ad9510_pll_b_div self service = param_client_write self service FMC_ACTIVE_CLK_OPCODE_AD9510_PLL_B_DIV"
definition halcs_get_ad9510_pll_b_div :: "'p client_get" where [fmc_active_clk_client_defs]: 
  "halcs_get_ad9510_pll_b_div self service = param_client_read self service FMC_ACTIVE_CLK_OPCODE_AD9510_PLL_B_DIV"
definition halcs_set_ad9510_pll_prescaler :: "'p client_set" where [fmc_active_clk_client_defs]: 
  "halcs_set_ad9510_pll_prescaler self service = param_client_write self service FMC_ACTIVE_CLK_OPCODE_AD9510_PLL_PRESCALER"
definition halcs_get_ad9510_pll_prescaler :: "'p client_get" where [fmc_active_clk_client_defs]: 
  "halcs_get_ad9510_pll_prescaler self service = param_client_read self service FMC_ACTIVE_CLK_OPCODE_AD9510_PLL_PRESCALER"
definition halcs_set_ad9510_r_div :: "'p client_set" where [fmc_active_clk_client_defs]: 
  "halcs_set_ad9510_r_div self service = param_client_write self service FMC_ACTIVE_CLK_OPCODE_AD9510_R_DIV"
definition halcs_get_ad9510_r_div :: "'p client_get" where [fmc_active_clk_client_defs]: 
  "halcs_get_ad9510_r_div self service = param_client_read self service FMC_ACTIVE_CLK_OPCODE_AD9510_R_DIV"
definition halcs_set_ad9510_pll_pdown :: "'p client_set" where [fmc_active_clk_client_defs]: 
  "halcs_set_ad9510_pll_pdown self service = param_client_write self service FMC_ACTIVE_CLK_OPCODE_AD9510_PLL_PDOWN"
definition halcs_get_ad9510_pll_pdown :: "'p client_get" where [fmc_active_clk_client_defs]: 
  "halcs_get_ad9510_pll_pdown self service = param_client_read self service FMC_ACTIVE_CLK_OPCODE_AD9510_PLL_PDOWN"
definition halcs_set_ad9510_mux_status :: "'p client_set" where [fmc_active_clk_client_defs]: 
  "halcs_set_ad9510_mux_status self service = param_client_write self service FMC_ACTIVE_CLK_OPCODE_AD9510_MUX_STATUS"
definition halcs_get_ad9510_mux_status :: "'p client_get" where [fmc_active_clk_client_defs]: 
  "halcs_get_ad9510_mux_status self service = param_client_read self service FMC_ACTIVE_CLK_OPCODE_AD9510_MUX_STATUS"
definition halcs_set_ad9510_cp_current :: "'p client_set" where [fmc_active_clk_client_defs]: 
  "halcs_set_ad9510_cp_current self service = param_client_write self service FMC_ACTIVE_CLK_OPCODE_AD9510_CP_CURRENT"
definition halcs_get_ad9510_cp_current :: "'p client_get" where [fmc_active_clk_client_defs]: 
  "halcs_get_ad9510_cp_current self service = param_client_read self service FMC_ACTIVE_CLK_OPCODE_AD9510_CP_CURRENT"
definition halcs_set_ad9510_outputs :: "'p client_set" where [fmc_active_clk_client_defs]: 
  "halcs_set_ad9510_outputs self service = param_client_write self service FMC_ACTIVE_CLK_OPCODE_AD9510_OUTPUTS"
definition halcs_get_ad9510_outputs :: "'p client_get" where [fmc_active_clk_client_defs]: 
  "halcs_get_ad9510_outputs self service = param_client_read self service FMC_ACTIVE_CLK_OPCODE_AD9510_OUTPUTS"
definition halcs_set_ad9510_pll_clk_sel :: "'p client_set" where [fmc_active_clk_client_defs]: 
  "halcs_set_ad9510_pll_clk_sel self service = param_client_write self service FMC_ACTIVE_CLK_OPCODE_AD9510_PLL_CLK_SEL"
definition halcs_get_ad9510_pll_clk_sel :: "'p client_get" where [fmc_active_clk_client_defs]: 
  "halcs_get_ad9510_pll_clk_sel self service = param_client_read self service FMC_ACTIVE_CLK_OPCODE_AD9510_PLL_CLK_SEL"
definition halcs_set_si571_freq :: "'p client_set_double" where [fmc_active_clk_client_defs]: 
  "halcs_set_si571_freq self service = param_client_write_double self service FMC_ACTIVE_CLK_OPCODE_SI571_FREQ"
definition halcs_get_si571_freq :: "'p client_get_double" where [fmc_active_clk_client_defs]: 
  "halcs_get_si571_freq self service = param_client_read_double self service FMC_ACTIVE_CLK_OPCODE_SI571_FREQ"
definition halcs_set_si571_defaults :: "'p client_set_double" where [fmc_active_clk_client_defs]: 
  "halcs_set_si571_defaults self service = param_client_write_double self service FMC_ACTIVE_CLK_OPCODE_SI571_GET_DEFAULTS"
definition halcs_set_si571_fstartup :: "'p client_set_double" where [fmc_active_clk_client_defs]: 
  "halcs_set_si571_fstartup self service = param_client_write_double self service FMC_ACTIVE_CLK_OPCODE_SI571_FSTARTUP"
definition halcs_get_si571_fstartup :: "'p client_get_double" where [fmc_active_clk_client_defs]: 
  "halcs_get_si571_fstartup self service = param_client_read_double self service FMC_ACTIVE_CLK_OPCODE_SI571_FSTARTUP"
definition halcs_set_ad9510_data :: "'p client_set2" where [fmc_active_clk_client_defs]: 
  "halcs_set_ad9510_data self service = param_client_write2 self service FMC_ACTIVE_CLK_OPCODE_AD9510_DATA"
definition halcs_get_ad9510_data :: "'p client_get1" where [fmc_active_clk_client_defs]: 
  "halcs_get_ad9510_data self service = param_client_write_read self service FMC_ACTIVE_CLK_OPCODE_AD9510_DATA"

text \<open>The functions of each exported operation, in the order of the descriptors.\<close>

definition fmc_active_clk_client :: "'p client_fn list list" where
  "fmc_active_clk_client =
     [[Set_Fn halcs_set_si571_oe, Get_Fn halcs_get_si571_oe],
      [Set_Fn halcs_set_fmc_pll_function, Get_Fn halcs_get_fmc_pll_function],
      [Set_Fn halcs_set_fmc_pll_status, Get_Fn halcs_get_fmc_pll_status],
      [Set_Fn halcs_set_fmc_clk_sel, Get_Fn halcs_get_fmc_clk_sel],
      [Set_Fn halcs_set_ad9510_defaults, Get_Fn halcs_get_ad9510_defaults],
      [Set_Fn halcs_set_ad9510_pll_a_div, Get_Fn halcs_get_ad9510_pll_a_div],
      [Set_Fn halcs_set_ad9510_pll_b_div, Get_Fn halcs_get_ad9510_pll_b_div],
      [Set_Fn halcs_set_ad9510_pll_prescaler, Get_Fn halcs_get_ad9510_pll_prescaler],
      [Set_Fn halcs_set_ad9510_r_div, Get_Fn halcs_get_ad9510_r_div],
      [Set_Fn halcs_set_ad9510_pll_pdown, Get_Fn halcs_get_ad9510_pll_pdown],
      [Set_Fn halcs_set_ad9510_mux_status, Get_Fn halcs_get_ad9510_mux_status],
      [Set_Fn halcs_set_ad9510_cp_current, Get_Fn halcs_get_ad9510_cp_current],
      [Set_Fn halcs_set_ad9510_outputs, Get_Fn halcs_get_ad9510_outputs],
      [Set_Fn halcs_set_ad9510_pll_clk_sel, Get_Fn halcs_get_ad9510_pll_clk_sel],
      [Set_Double halcs_set_si571_freq, Get_Double halcs_get_si571_freq],
      [Set_Double halcs_set_si571_defaults],
      [Set_Fn halcs_set_rst_isla216p],
      [Set_Fn halcs_set_rst_swap],
      [Set_Chan halcs_set_ad9510_data, Get_Chan halcs_get_ad9510_data],
      [Set_Double halcs_set_si571_fstartup, Get_Double halcs_get_si571_fstartup]]"

lemma fmc_active_clk_client_fits: "list_all2 op_fits fmc_active_clk_exp_ops fmc_active_clk_client"
  by (simp add: fmc_active_clk_client_def fmc_active_clk_exp_ops_def fmc_active_clk_exp_defs fmc_active_clk_client_defs exp_simps op_fits_def board_args fn_calls_signed fun_eq_iff)

section \<open>rffe\<close>

named_theorems rffe_client_defs

definition RFFE_OPCODE_SET_GET_ATT :: u32 where [rffe_client_defs]: "RFFE_OPCODE_SET_GET_ATT = 0"
definition RFFE_OPCODE_SET_GET_TEMP_AC :: u32 where [rffe_client_defs]: "RFFE_OPCODE_SET_GET_TEMP_AC = 1"
definition RFFE_OPCODE_SET_GET_TEMP_BD :: u32 where [rffe_client_defs]: "RFFE_OPCODE_SET_GET_TEMP_BD = 2"
definition RFFE_OPCODE_SET_GET_SET_POINT_AC :: u32 where [rffe_client_defs]: "RFFE_OPCODE_SET_GET_SET_POINT_AC = 3"
definition RFFE_OPCODE_SET_GET_SET_POINT_BD :: u32 where [rffe_client_defs]: "RFFE_OPCODE_SET_GET_SET_POINT_BD = 4"
definition RFFE_OPCODE_SET_GET_TEMP_CONTROL :: u32 where [rffe_client_defs]: "RFFE_OPCODE_SET_GET_TEMP_CONTROL = 5"
definition RFFE_OPCODE_SET_GET_HEATER_AC :: u32 where [rffe_client_defs]: "RFFE_OPCODE_SET_GET_HEATER_AC = 6"
definition RFFE_OPCODE_SET_GET_HEATER_BD :: u32 where [rffe_client_defs]: "RFFE_OPCODE_SET_GET_HEATER_BD = 7"
definition RFFE_OPCODE_SET_GET_RESET :: u32 where [rffe_client_defs]: "RFFE_OPCODE_SET_GET_RESET = 8"
definition RFFE_OPCODE_SET_GET_REPROG :: u32 where [rffe_client_defs]: "RFFE_OPCODE_SET_GET_REPROG = 9"
definition RFFE_OPCODE_SET_GET_PID_AC_KP :: u32 where [rffe_client_defs]: "RFFE_OPCODE_SET_GET_PID_AC_KP = 12"
definition RFFE_OPCODE_SET_GET_PID_AC_TI :: u32 where [rffe_client_defs]: "RFFE_OPCODE_SET_GET_PID_AC_TI = 13"
definition RFFE_OPCODE_SET_GET_PID_AC_TD :: u32 where [rffe_client_defs]: "RFFE_OPCODE_SET_GET_PID_AC_TD = 14"
definition RFFE_OPCODE_SET_GET_PID_BD_KP :: u32 where [rffe_client_defs]: "RFFE_OPCODE_SET_GET_PID_BD_KP = 15"
definition RFFE_OPCODE_SET_GET_PID_BD_TI :: u32 where [rffe_client_defs]: "RFFE_OPCODE_SET_GET_PID_BD_TI = 16"
definition RFFE_OPCODE_SET_GET_PID_BD_TD :: u32 where [rffe_client_defs]: "RFFE_OPCODE_SET_GET_PID_BD_TD = 17"

definition halcs_set_rffe_att :: "'p client_set_double" where [rffe_client_defs]: 
  "halcs_set_rffe_att self service = param_client_write_double self service RFFE_OPCODE_SET_GET_ATT"
definition halcs_get_rffe_att :: "'p client_get_double" where [rffe_client_defs]: 
  "halcs_get_rffe_att self service = param_client_read_double self service RFFE_OPCODE_SET_GET_ATT"
definition halcs_get_rffe_temp_ac :: "'p client_get_double" where [rffe_client_defs]: 
  "halcs_get_rffe_temp_ac self service = param_client_read_double self service RFFE_OPCODE_SET_GET_TEMP_AC"
definition halcs_get_rffe_temp_bd :: "'p client_get_double" where [rffe_client_defs]: 
  "halcs_get_rffe_temp_bd self service = param_client_read_double self service RFFE_OPCODE_SET_GET_TEMP_BD"
definition halcs_set_rffe_set_point_ac :: "'p client_set_double" where [rffe_client_defs]: 
  "halcs_set_rffe_set_point_ac self service = param_client_write_double self service RFFE_OPCODE_SET_GET_SET_POINT_AC"
definition halcs_get_rffe_set_point_ac :: "'p client_get_double" where [rffe_client_defs]: 
  "halcs_get_rffe_set_point_ac self service = param_client_read_double self service RFFE_OPCODE_SET_GET_SET_POINT_AC"
definition halcs_set_rffe_set_point_bd :: "'p client_set_double" where [rffe_client_defs]: 
  "halcs_set_rffe_set_point_bd self service = param_client_write_double self service RFFE_OPCODE_SET_GET_SET_POINT_BD"
definition halcs_get_rffe_set_point_bd :: "'p client_get_double" where [rffe_client_defs]: 
  "halcs_get_rffe_set_point_bd self service = param_client_read_double self service RFFE_OPCODE_SET_GET_SET_POINT_BD"
definition halcs_set_rffe_temp_control :: "'p client_set_byte" where [rffe_client_defs]: 
  "halcs_set_rffe_temp_control self service = param_client_write_byte self service RFFE_OPCODE_SET_GET_TEMP_CONTROL"
definition halcs_get_rffe_temp_control :: "'p client_get_byte" where [rffe_client_defs]: 
  "halcs_get_rffe_temp_control self service = param_client_read_byte self service RFFE_OPCODE_SET_GET_TEMP_CONTROL"
definition halcs_set_rffe_heater_ac :: "'p client_set_double" where [rffe_client_defs]: 
  "halcs_set_rffe_heater_ac self service = param_client_write_double self service RFFE_OPCODE_SET_GET_HEATER_AC"
definition halcs_get_rffe_heater_ac :: "'p client_get_double" where [rffe_client_defs]: 
  "halcs_get_rffe_heater_ac self service = param_client_read_double self service RFFE_OPCODE_SET_GET_HEATER_AC"
definition halcs_set_rffe_heater_bd :: "'p client_set_double" where [rffe_client_defs]: 
  "halcs_set_rffe_heater_bd self service = param_client_write_double self service RFFE_OPCODE_SET_GET_HEATER_BD"
definition halcs_get_rffe_heater_bd :: "'p client_get_double" where [rffe_client_defs]: 
  "halcs_get_rffe_heater_bd self service = param_client_read_double self service RFFE_OPCODE_SET_GET_HEATER_BD"
definition halcs_set_rffe_reset :: "'p client_set_byte" where [rffe_client_defs]: 
  "halcs_set_rffe_reset self service = param_client_write_byte self service RFFE_OPCODE_SET_GET_RESET"
definition halcs_get_rffe_reset :: "'p client_get_byte" where [rffe_client_defs]: 
  "halcs_get_rffe_reset self service = param_client_read_byte self service RFFE_OPCODE_SET_GET_RESET"
definition halcs_set_rffe_reprog :: "'p client_set_byte" where [rffe_client_defs]: 
  "halcs_set_rffe_reprog self service = param_client_write_byte self service RFFE_OPCODE_SET_GET_REPROG"
definition halcs_get_rffe_reprog :: "'p client_get_byte" where [rffe_client_defs]: 
  "halcs_get_rffe_reprog self service = param_client_read_byte self service RFFE_OPCODE_SET_GET_REPROG"
definition halcs_set_rffe_pid_ac_kp :: "'p client_set_double" where [rffe_client_defs]: 
  "halcs_set_rffe_pid_ac_kp self service = param_client_write_double self service RFFE_OPCODE_SET_GET_PID_AC_KP"
definition halcs_get_rffe_pid_ac_kp :: "'p client_get_double" where [rffe_client_defs]: 
  "halcs_get_rffe_pid_ac_kp self service = param_client_read_double self service RFFE_OPCODE_SET_GET_PID_AC_KP"
definition halcs_set_rffe_pid_ac_ti :: "'p client_set_double" where [rffe_client_defs]: 
  "halcs_set_rffe_pid_ac_ti self service = param_client_write_double self service RFFE_OPCODE_SET_GET_PID_AC_TI"
definition halcs_get_rffe_pid_ac_ti :: "'p client_get_double" where [rffe_client_defs]: 
  "halcs_get_rffe_pid_ac_ti self service = param_client_read_double self service RFFE_OPCODE_SET_GET_PID_AC_TI"
definition halcs_set_rffe_pid_ac_td :: "'p client_set_double" where [rffe_client_defs]: 
  "halcs_set_rffe_pid_ac_td self service = param_client_write_double self service RFFE_OPCODE_SET_GET_PID_AC_TD"
definition halcs_get_rffe_pid_ac_td :: "'p client_get_double" where [rffe_client_defs]: 
  "halcs_get_rffe_pid_ac_td self service = param_client_read_double self service RFFE_OPCODE_SET_GET_PID_AC_TD"
definition halcs_set_rffe_pid_bd_kp :: "'p client_set_double" where [rffe_client_defs]: 
  "halcs_set_rffe_pid_bd_kp self service = param_client_write_double self service RFFE_OPCODE_SET_GET_PID_BD_KP"
definition halcs_get_rffe_pid_bd_kp :: "'p client_get_double" where [rffe_client_defs]: 
  "halcs_get_rffe_pid_bd_kp self service = param_client_read_double self service RFFE_OPCODE_SET_GET_PID_BD_KP"
definition halcs_set_rffe_pid_bd_ti :: "'p client_set_double" where [rffe_client_defs]: 
  "halcs_set_rffe_pid_bd_ti self service = param_client_write_double self service RFFE_OPCODE_SET_GET_PID_BD_TI"
definition halcs_get_rffe_pid_bd_ti :: "'p client_get_double" where [rffe_client_defs]: 
  "halcs_get_rffe_pid_bd_ti self service = param_client_read_double self service RFFE_OPCODE_SET_GET_PID_BD_TI"
definition halcs_set_rffe_pid_bd_td :: "'p client_set_double" where [rffe_client_defs]: 
  "halcs_set_rffe_pid_bd_td self service = param_client_write_double self service RFFE_OPCODE_SET_GET_PID_BD_TD"
definition halcs_get_rffe_pid_bd_td :: "'p client_get_double" where [rffe_client_defs]: 
  "halcs_get_rffe_pid_bd_td self service = param_client_read_double self service RFFE_OPCODE_SET_GET_PID_BD_TD"

text \<open>The functions of each exported operation, in the order of the descriptors.\<close>

definition rffe_client :: "'p client_fn list list" where
  "rffe_client =
     [[Set_Double halcs_set_rffe_att, Get_Double halcs_get_rffe_att],
      [Get_Double halcs_get_rffe_temp_ac],
      [Get_Double halcs_get_rffe_temp_bd],
      [Set_Double halcs_set_rffe_set_point_ac, Get_Double halcs_get_rffe_set_point_ac],
      [Set_Double halcs_set_rffe_set_point_bd, Get_Double halcs_get_rffe_set_point_bd],
      [Set_Byte halcs_set_rffe_temp_control, Get_Byte halcs_get_rffe_temp_control],
      [Set_Double halcs_set_rffe_heater_ac, Get_Double halcs_get_rffe_heater_ac],
      [Set_Double halcs_set_rffe_heater_bd, Get_Double halcs_get_rffe_heater_bd],
      [Set_Byte halcs_set_rffe_reset, Get_Byte halcs_get_rffe_reset],
      [Set_Byte halcs_set_rffe_reprog, Get_Byte halcs_get_rffe_reprog],
      [],
      [],
      [Set_Double halcs_set_rffe_pid_ac_kp, Get_Double halcs_get_rffe_pid_ac_kp],
      [Set_Double halcs_set_rffe_pid_ac_ti, Get_Double halcs_get_rffe_pid_ac_ti],
      [Set_Double halcs_set_rffe_pid_ac_td, Get_Double halcs_get_rffe_pid_ac_td],
      [Set_Double halcs_set_rffe_pid_bd_kp, Get_Double halcs_get_rffe_pid_bd_kp],
      [Set_Double halcs_set_rffe_pid_bd_ti, Get_Double halcs_get_rffe_pid_bd_ti],
      [Set_Double halcs_set_rffe_pid_bd_td, Get_Double halcs_get_rffe_pid_bd_td]]"

lemma rffe_client_fits: "list_all2 op_fits rffe_exp_ops rffe_client"
  by (simp add: rffe_client_def rffe_exp_ops_def rffe_exp_defs rffe_client_defs exp_simps op_fits_def board_args fn_calls_signed fun_eq_iff)

section \<open>afc_diag\<close>

named_theorems afc_diag_client_defs

definition AFC_DIAG_OPCODE_SET_GET_CARD_SLOT :: u32 where [afc_diag_client_defs]: "AFC_DIAG_OPCODE_SET_GET_CARD_SLOT = 0"
definition AFC_DIAG_OPCODE_SET_GET_IPMI_ADDR :: u32 where [afc_diag_client_defs]: "AFC_DIAG_OPCODE_SET_GET_IPMI_ADDR = 1"

definition halcs_set_afc_diag_card_slot :: "'p client_set" where [afc_diag_client_defs]: 
  "halcs_set_afc_diag_card_slot self service = param_client_write self service AFC_DIAG_OPCODE_SET_GET_CARD_SLOT"
definition halcs_get_afc_diag_card_slot :: "'p client_get" where [afc_diag_client_defs]: 
  "halcs_get_afc_diag_card_slot self service = param_client_read self service AFC_DIAG_OPCODE_SET_GET_CARD_SLOT"
definition halcs_set_afc_diag_ipmi_addr :: "'p client_set" where [afc_diag_client_defs]: 
  "halcs_set_afc_diag_ipmi_addr self service = param_client_write self service AFC_DIAG_OPCODE_SET_GET_IPMI_ADDR"
definition halcs_get_afc_diag_ipmi_addr :: "'p client_get" where [afc_diag_client_defs]: 
  "halcs_get_afc_diag_ipmi_addr self service = param_client_read self service AFC_DIAG_OPCODE_SET_GET_IPMI_ADDR"

text \<open>The functions of each exported operation, in the order of the descriptors.\<close>

definition afc_diag_client :: "'p client_fn list list" where
  "afc_diag_client =
     [[Set_Fn halcs_set_afc_diag_card_slot, Get_Fn halcs_get_afc_diag_card_slot],
      [Set_Fn halcs_set_afc_diag_ipmi_addr, Get_Fn halcs_get_afc_diag_ipmi_addr],
      [],
      [],
      [],
      []]"

lemma afc_diag_client_fits: "list_all2 op_fits afc_diag_exp_ops afc_diag_client"
  by (simp add: afc_diag_client_def afc_diag_exp_ops_def afc_diag_exp_defs afc_diag_client_defs exp_simps op_fits_def board_args fn_calls_signed fun_eq_iff)

section \<open>init\<close>

named_theorems init_client_defs

definition INIT_OPCODE_SET_GET_CHECK :: u32 where [init_client_defs]: "INIT_OPCODE_SET_GET_CHECK = 0"

definition halcs_get_init_check :: "'p client_get" where [init_client_defs]: 
  "halcs_get_init_check self service = param_client_read self service INIT_OPCODE_SET_GET_CHECK"

text \<open>The functions of each exported operation, in the order of the descriptors.\<close>

definition init_client :: "'p client_fn list list" where
  "init_client =
     [[Get_Fn halcs_get_init_check]]"

lemma init_client_fits: "list_all2 op_fits init_exp_ops init_client"
  by (simp add: init_client_def init_exp_ops_def init_exp_defs init_client_defs exp_simps op_fits_def board_args fn_calls_signed fun_eq_iff)

section \<open>Structures\<close>

text \<open>A structure is its bytes. The caller's structure is also what is sent as the unused argument.\<close>

definition RFFE_BLOCK_SIZE :: nat where "RFFE_BLOCK_SIZE = 127"
definition RFFE_VERSION_SIZE :: nat where "RFFE_VERSION_SIZE = 8"
definition AFC_DIAG_REVISION_BLOCK_SIZE :: nat where "AFC_DIAG_REVISION_BLOCK_SIZE = 128"
definition RFFE_OPCODE_SET_GET_DATA :: u32 where "RFFE_OPCODE_SET_GET_DATA = 10"
definition RFFE_OPCODE_SET_GET_VERSION :: u32 where "RFFE_OPCODE_SET_GET_VERSION = 11"
definition AFC_DIAG_OPCODE_GET_BUILD_REVISION :: u32 where "AFC_DIAG_OPCODE_GET_BUILD_REVISION = 2"
definition AFC_DIAG_OPCODE_GET_BUILD_DATE :: u32 where "AFC_DIAG_OPCODE_GET_BUILD_DATE = 3"
definition AFC_DIAG_OPCODE_GET_BUILD_USER_NAME :: u32 where "AFC_DIAG_OPCODE_GET_BUILD_USER_NAME = 4"
definition AFC_DIAG_OPCODE_GET_BUILD_USER_EMAIL :: u32 where "AFC_DIAG_OPCODE_GET_BUILD_USER_EMAIL = 5"

definition halcs_set_rffe_data :: "'p halcs_client \<Rightarrow> string \<Rightarrow> u8 list \<Rightarrow> 'p \<Rightarrow> (int \<times> 'p) option" where
  "halcs_set_rffe_data self service rffe_data_block =
     param_client_write_gen self service RFFE_OPCODE_SET_GET_DATA WRITE_MODE (Some rffe_data_block) None None"

definition halcs_get_rffe_data :: "'p halcs_client \<Rightarrow> string \<Rightarrow> u8 list \<Rightarrow> 'p \<Rightarrow> (int \<times> u8 list \<times> 'p) option" where
  "halcs_get_rffe_data self service rffe_data_block =
     param_client_read_gen self service RFFE_OPCODE_SET_GET_DATA READ_MODE (Some rffe_data_block) None None rffe_data_block"

definition halcs_get_rffe_version :: "'p halcs_client \<Rightarrow> string \<Rightarrow> u8 list \<Rightarrow> 'p \<Rightarrow> (int \<times> u8 list \<times> 'p) option" where
  "halcs_get_rffe_version self service rffe_version =
     param_client_read_gen self service RFFE_OPCODE_SET_GET_VERSION READ_MODE (Some rffe_version) None None rffe_version"

definition halcs_get_afc_diag_build_revision :: "'p halcs_client \<Rightarrow> string \<Rightarrow> u8 list \<Rightarrow> 'p \<Rightarrow> (int \<times> u8 list \<times> 'p) option" where
  "halcs_get_afc_diag_build_revision self service revision_data =
     param_client_read_gen self service AFC_DIAG_OPCODE_GET_BUILD_REVISION READ_MODE (b32 0) None None revision_data"

definition halcs_get_afc_diag_build_date :: "'p halcs_client \<Rightarrow> string \<Rightarrow> u8 list \<Rightarrow> 'p \<Rightarrow> (int \<times> u8 list \<times> 'p) option" where
  "halcs_get_afc_diag_build_date self service revision_data =
     param_client_read_gen self service AFC_DIAG_OPCODE_GET_BUILD_DATE READ_MODE (b32 0) None None revision_data"

definition halcs_get_afc_diag_build_user_name :: "'p halcs_client \<Rightarrow> string \<Rightarrow> u8 list \<Rightarrow> 'p \<Rightarrow> (int \<times> u8 list \<times> 'p) option" where
  "halcs_get_afc_diag_build_user_name self service revision_data =
     param_client_read_gen self service AFC_DIAG_OPCODE_GET_BUILD_USER_NAME READ_MODE (b32 0) None None revision_data"

definition halcs_get_afc_diag_build_user_email :: "'p halcs_client \<Rightarrow> string \<Rightarrow> u8 list \<Rightarrow> 'p \<Rightarrow> (int \<times> u8 list \<times> 'p) option" where
  "halcs_get_afc_diag_build_user_email self service revision_data =
     param_client_read_gen self service AFC_DIAG_OPCODE_GET_BUILD_USER_EMAIL READ_MODE (b32 0) None None revision_data"

definition halcs_get_monit1_amp_pos :: "'p halcs_client \<Rightarrow> string \<Rightarrow> u8 list \<Rightarrow> 'p \<Rightarrow> (int \<times> u8 list option \<times> 'p) option" where
  "halcs_get_monit1_amp_pos self service dsp_data =
     halcs_func_exec (Some self) (Some (dsp_set_get_monit1_amp_pos_exp :: ('p, msg_args) disp_op)) service None (Some dsp_data)"

end
