(* ===== verification/Client_Facts.thy ===== *)
theory Client_Facts
  imports Client_Link Client_Timing Client_Orbit Client_Fmc Client_Board
begin

text \<open>
  The client library and the server together: every client function asks what the descriptor of its
  operation wants; and calls of the client functions of a module over the broker act on the module's
  parameters as on a store.
\<close>

section \<open>All client functions\<close>

definition param_clients ::
  "('c client_fn list list \<times> param_spec list \<times> (('v, 'p) mod_world, msg_args) disp_op list \<times>
     (u32 \<Rightarrow> ('v smio_ops, unit, 'p) exp_func list) \<times> ('v, 'p) mod_start) list" where
  "param_clients = zip
     [trigger_iface_client, trigger_mux_client, afc_timing_client, tim_rcv_client, fofb_ctrl_client,
      orbit_intlk_client, fmc_adc_common_client, fmcpico1m_4ch_client, rtmlamp_ohwr_client, swap_client] param_modules"

definition board_clients :: "('c client_fn list list \<times> ('w, msg_args) disp_op list) list" where
  "board_clients =
     [(dsp_client, dsp_exp_ops), (fmc250m_4ch_client, fmc250m_4ch_exp_ops), (fmc130m_4ch_client, fmc130m_4ch_exp_ops),
      (fmc100m_4ch_client, fmc100m_4ch_exp_ops), (fmc_active_clk_client, fmc_active_clk_exp_ops),
      (rffe_client, rffe_exp_ops), (afc_diag_client, afc_diag_exp_ops), (init_client, init_exp_ops)]"

lemma param_clients_fit:
  "list_all (\<lambda>(cl, ds, ops, _). list_all2 op_fits ops cl \<and> list_all2 (\<lambda>d. list_all (fn_shape d)) ds cl) param_clients"
  by (simp add: param_clients_def param_modules_def
      trigger_iface_client_fits trigger_mux_client_fits afc_timing_client_fits tim_rcv_client_fits fofb_ctrl_client_fits
      orbit_intlk_client_fits fmc_adc_common_client_fits fmcpico1m_4ch_client_fits rtmlamp_ohwr_client_fits swap_client_fits
      trigger_iface_client_shape trigger_mux_client_shape afc_timing_client_shape tim_rcv_client_shape fofb_ctrl_client_shape
      orbit_intlk_client_shape fmc_adc_common_client_shape fmcpico1m_4ch_client_shape rtmlamp_ohwr_client_shape swap_client_shape)

lemma board_clients_fit: "list_all (\<lambda>(cl, ops). list_all2 op_fits ops cl) board_clients"
  by (simp add: board_clients_def dsp_client_fits fmc250m_4ch_client_fits fmc130m_4ch_client_fits fmc100m_4ch_client_fits
      fmc_active_clk_client_fits rffe_client_fits afc_diag_client_fits init_client_fits)

lemma param_clients_in: "(cl, m) \<in> set param_clients \<Longrightarrow> m \<in> set param_modules"
  unfolding param_clients_def by (rule set_zip_rightD)

lemma swap_client_rep:
  "((swap_client, swap_params, swap_exp_ops, swap_exp_fp, swap_init), []) \<in> set (zip param_clients volatile_params)"
  by (simp add: param_clients_def param_modules_def volatile_params_def)

lemma swap_client_in: "(swap_client, swap_params, swap_exp_ops, swap_exp_fp, swap_init) \<in> set param_clients"
  by (simp add: param_clients_def param_modules_def)

text \<open>A client whose messages are kept and not sent.\<close>

definition probe :: "(string \<times> frame list) option mlm_client" where
  "probe = \<lparr>mc_new_msg = \<lambda>p. (True, p), mc_sendto = \<lambda>to t fs p. Some (-1, Some (to, fs)), mc_pipe = True,
     mc_wait = \<lambda>t p. (None, True, False, p), mc_pending = \<lambda>p. (False, p), mc_recv = \<lambda>p. ([], None, p),
     mc_subject = \<lambda>p. [], mc_set_consumer = \<lambda>_ _ p. (0, p), mc_remove_consumer = \<lambda>_ p. (0, p)\<rparr>"

lemma probe_write:
  assumes "hc_mlm self = Some probe"
  shows "param_client_write_gen self svc opc rw (Some f1) f2 f3 p =
    Some (HALCS_CLIENT_ERR_SERVER, Some (svc, [le_bytes 4 opc, le_bytes 4 rw, f1] @
      (case f2 of None \<Rightarrow> [] | Some x \<Rightarrow> [x]) @ (case f3 of None \<Rightarrow> [] | Some x \<Rightarrow> [x])))"
    and "param_client_read_gen self svc opc rw (Some f1) f2 f3 out p =
    Some (HALCS_CLIENT_ERR_SERVER, out, Some (svc, [le_bytes 4 opc, le_bytes 4 rw, f1] @
      (case f2 of None \<Rightarrow> [] | Some x \<Rightarrow> [x]) @ (case f3 of None \<Rightarrow> [] | Some x \<Rightarrow> [x])))"
  using assms by (simp_all add: param_client_write_gen_def param_client_read_gen_def param_client_send_gen_rw_def
      halcs_get_mlm_client_def probe_def HALCS_CLIENT_SUCCESS_def HALCS_CLIENT_ERR_SERVER_def)

lemma probe_call:
  assumes "hc_mlm self = Some probe" and "fn_calls opc f"
  shows "\<exists>v'. fn_run f self svc c v w p = Some (HALCS_CLIENT_ERR_SERVER, v', Some (svc, request opc (fn_frames f c v w)))"
  using assms(2) by (cases f) (auto simp: client_calls probe_write [OF assms(1)] b32_def b8_def b64_def request_def
      no_value_def wide_def out_word_def WRITE_MODE_def READ_MODE_def)

lemma op_fits_frames:
  assumes "op_fits op fs" and "f \<in> set fs"
  shows "list_all2 arg_fits (args op) (fn_frames f c v w)"
proof -
  have "map length (fn_frames f c v w) = map (\<lambda>a. unat (DISP_GET_ASIZE a)) (args op)"
    using assms unfolding fn_frames_sizes by (auto simp: op_fits_def list_all_iff)
  then show ?thesis by (auto simp: list_all2_conv_all_nth arg_fits_def list_eq_iff_nth_eq)
qed

section \<open>Runs of calls\<close>

text \<open>Calls one after the other, each with its status and the caller's variable after it.\<close>

fun client_run :: "'p halcs_client \<Rightarrow> string \<Rightarrow> ('p client_fn \<times> u32 \<times> u32) list \<Rightarrow> 'p \<Rightarrow> ((int \<times> u32) list \<times> 'p) option" where
  "client_run cl svc [] p = Some ([], p)"
| "client_run cl svc ((f, c, v) # cs) p = do {
     (err, x, p1) \<leftarrow> fn_run f cl svc c (ucast v) 0 p;
     (rs, p2) \<leftarrow> client_run cl svc cs p1;
     Some ((err, ucast x) # rs, p2) }"

fun store_run :: "param_spec list \<Rightarrow> (nat \<times> 'p client_fn \<times> u32 \<times> u32) list \<Rightarrow> (nat \<times> nat \<Rightarrow> u32) \<Rightarrow>
     (int \<times> u32) list \<times> (nat \<times> nat \<Rightarrow> u32)" where
  "store_run ds [] m = ([], m)"
| "store_run ds ((i, f, c, v) # cs) m =
     (let (e, x, m1) = param_step ds (fn_req i f c v) m; (rs, m2) = store_run ds cs m1
      in ((fn_status e, case x of None \<Rightarrow> v | Some y \<Rightarrow> y) # rs, m2))"

definition calls_ok :: "'p client_fn list list \<Rightarrow> (nat \<times> 'p client_fn \<times> u32 \<times> u32) list \<Rightarrow> bool" where
  "calls_ok cl cs \<longleftrightarrow> (\<forall>(i, f, c, v) \<in> set cs. i < length cl \<and> f \<in> set (cl ! i))"

lemma store_run_cong:
  assumes "\<forall>(i, f, c, v) \<in> set cs. i < length ds \<and> fn_shape (ds ! i) f"
  shows "\<forall>x \<in> slots ds. m x = m' x \<Longrightarrow> fst (store_run ds cs m) = fst (store_run ds cs m') \<and>
    (\<forall>x \<in> slots ds. snd (store_run ds cs m) x = snd (store_run ds cs m') x)"
  using assms
proof (induction cs arbitrary: m m')
  case (Cons a cs)
  obtain i f c v where a: "a = (i, f, c, v)" by (cases a)
  have "req_wf ds (fn_req i f c v)" using Cons.prems(2) a by (simp add: fn_req_wf)
  note k = param_step_cong [OF Cons.prems(1) this]
  have "\<forall>(i, f, c, v) \<in> set cs. i < length ds \<and> fn_shape (ds ! i) f" using Cons.prems(2) by simp
  from Cons.IH [OF k(3) this] k(1,2) show ?case by (simp add: a split_beta)
qed simp

lemma client_run_store:
  fixes cs :: "(nat \<times> ('h, ('o, 'k, 'p) smio_world) link client_fn \<times> u32 \<times> u32) list"
  assumes bus: "reg_bus (smio_rd self) (smio_wr self) view good mapped"
    and pm: "param_module ds ops" and mp: "\<forall>(i, c) \<in> slots ds. mapped (slot_addr (ds ! i) c)"
    and as: "list_all2 (acts_as self good junk) ds fps"
    and cl: "hc_mlm hc = Some (module_broker svc)"
    and fit: "list_all2 op_fits ops cf" and sh: "list_all2 (\<lambda>d. list_all (fn_shape d)) ds cf"
  shows "good p \<Longrightarrow> table_ready smio_disp_table_ops (filled ops fps) s \<Longrightarrow> calls_ok cf cs \<Longrightarrow>
    \<exists>p' s'. client_run hc svc (map snd cs) ((self, p), s, []) =
        Some (fst (store_run ds cs (store ds (view p))), ((self, p'), s', [])) \<and>
      table_ready smio_disp_table_ops (filled ops fps) s' \<and> good p' \<and>
      (\<forall>x \<in> slots ds. store ds (view p') x = snd (store_run ds cs (store ds (view p))) x)"
proof (induction cs arbitrary: p s)
  case (Cons a cs)
  obtain i f c v where a: "a = (i, f, c, v)" by (cases a)
  have i: "i < length cf" "f \<in> set (cf ! i)" and ok: "calls_ok cf cs" using Cons.prems(3) by (simp_all add: a calls_ok_def)
  have l: "length ds = length cf" "length ops = length cf" using fit sh by (auto dest: list_all2_lengthD)
  have f: "fn_calls (opcode (ops ! i)) f" and shf: "fn_shape (ds ! i) f"
    using list_all2_nthD2 [OF fit i(1)] list_all2_nthD2 [OF sh i(1)] i(2) by (auto simp: op_fits_def list_all_iff)
  let ?q = "fn_req i f c v"
  let ?st = "param_step ds ?q (store ds (view p))"
  have q: "req_wf ds ?q" using i(1) l shf by (simp add: fn_req_wf)
  obtain p1 s1 where d: "smio_do_op (Some not_impl_ops) dt_call (\<lambda>_. True) True (req_msg ops ds ?q) (self, p) s =
      Some (SMIO_SUCCESS, Some (param_reply (fst ?st) (fst (snd ?st))), (self, p1), s1)"
    "table_ready smio_disp_table_ops (filled ops fps) s1" "good p1"
    "\<forall>x \<in> slots ds. store ds (view p1) x = snd (snd ?st) x"
    using mod_request [OF bus Cons.prems(1) pm mp as Cons.prems(2) q] by blast
  have "module_serves (request (opcode (ops ! i)) (req_frames ds ?q)) ((self, p), s, [])
      (param_reply (fst ?st) (fst (snd ?st))) ((self, p1), s1, [])"
    using d(1) fn_req_simps(1) [OF shf] by (auto simp: module_serves_def req_msg_def)
  from fn_call [OF cl f shf this]
  have c: "fn_run f hc svc c (ucast v) 0 ((self, p), s, []) =
      Some (fn_status (fst ?st), ucast (case fst (snd ?st) of None \<Rightarrow> v | Some x \<Rightarrow> x), ((self, p1), s1, []))" .
  from Cons.IH [OF d(3,2) ok] obtain p' s' where r:
    "client_run hc svc (map snd cs) ((self, p1), s1, []) =
        Some (fst (store_run ds cs (store ds (view p1))), ((self, p'), s', []))"
    "table_ready smio_disp_table_ops (filled ops fps) s'" "good p'"
    "\<forall>x \<in> slots ds. store ds (view p') x = snd (store_run ds cs (store ds (view p1))) x" by blast
  have "\<forall>(i, f, c, v) \<in> set cs. i < length ds \<and> fn_shape (ds ! i) f"
    using ok l(1) list_all2_nthD2 [OF sh] by (fastforce simp: calls_ok_def list_all_iff)
  from store_run_cong [OF this d(4)] c r show ?case by (auto simp: a split_beta)
qed simp


lemma module_client_run:
  fixes cs :: "(nat \<times> ('h, ('v, ('hz, 'w pcie) devio_peer) mod_world) link client_fn \<times> u32 \<times> u32) list"
  assumes "board_ok H V" and "pcie_good H V board" and "thsafe_ready cast_ep (llio_ops_pcie H al) srv"
    and "(cl, ds, ops, fp, start) \<in> set param_clients" and "calls_ok cl cs"
    and "hc_mlm hc = Some (module_broker svc)"
    and "smio_ready self rid" and "sm_handler self = Some ()" and "mod_base (sm_base self)"
    and "table_ready smio_disp_table_ops (filled ops (fp junk)) s"
  defines "st \<equiv> store_run ds cs (store ds (\<lambda>a. pcie_view32 V board (sm_base self OR a)))"
  shows "\<exists>board' srv' proto' s'.
    client_run hc svc (map snd cs) ((self, (board, srv, proto, [])), s, []) =
      Some (fst st, ((self, (board', srv', proto', [])), s', [])) \<and>
    pcie_good H V board' \<and> thsafe_ready cast_ep (llio_ops_pcie H al) srv' \<and>
    table_ready smio_disp_table_ops (filled ops (fp junk)) s' \<and>
    (\<forall>x \<in> slots ds. store ds (\<lambda>a. pcie_view32 V board' (sm_base self OR a)) x = snd st x)"
proof -
  have m: "common_module (ds, ops, fp, start)"
    by (rule bspec [OF param_modules_common [unfolded list_all_iff] param_clients_in [OF assms(4)]])
  then have pm: "param_module ds ops" and l: "low_regs ds" by (simp_all add: common_module_def)
  have fit: "list_all2 op_fits ops cl" "list_all2 (\<lambda>d. list_all (fn_shape d)) ds cl"
    using param_clients_fit assms(4) by (auto simp: list_all_iff)
  note bus = smio_bus [OF assms(7) client_bus [OF pcie_llio_bus [OF assms(1)]], of cast_ep al]
  have g: "client_good cast_ep (llio_ops_pcie H al) (pcie_good H V) (board, srv, proto, [])" using assms(2,3) by simp
  obtain p' s' where r:
    "client_run hc svc (map snd cs) ((self, (board, srv, proto, [])), s, []) = Some (fst st, ((self, p'), s', []))"
    "table_ready smio_disp_table_ops (filled ops (fp junk)) s'"
    "client_good cast_ep (llio_ops_pcie H al) (pcie_good H V) p'"
    "\<forall>x \<in> slots ds. store ds (smio_view self (client_view (pcie_view32 V)) p') x = snd st x"
    using client_run_store [OF bus pm mod_slots_mapped [OF assms(9) l] common_acts [OF m bus assms(9,8)] assms(6) fit g assms(10,5)]
    unfolding st_def by auto
  obtain board' srv' proto' where "p' = (board', srv', proto', [])" using r(3) by (cases p') auto
  with r show ?thesis by auto
qed

lemma volatile_call:
  "volatile_write ds rep (fn_req i f c v) \<Longrightarrow> fst (store_run ds [(i, f, c, v)] m) = [(HALCS_CLIENT_SUCCESS, v)]"
  by (cases f) (simp_all add: volatile_write_def param_step_def Let_def fn_status_def)

section \<open>Properties\<close>

text \<open>C22: the client functions and the server's descriptors agree. Each of the 636 functions of the
  library that set or get a parameter, called on a client that keeps the message it is given, sends to
  the named service the operation code of the descriptor it is listed under, followed by frames that the
  server's argument check for that descriptor accepts, whatever the arguments.\<close>

theorem client_requests_fit:
  assumes "hc_mlm self = Some probe"
    and "(\<exists>ds m. (cl, ds, ops, m) \<in> set param_clients) \<or> (cl, ops) \<in> set board_clients"
    and "i < length ops" and "f \<in> set (cl ! i)"
  shows "\<exists>v' fs. fn_run f self svc c v w p = Some (HALCS_CLIENT_ERR_SERVER, v', Some (svc, request (opcode (ops ! i)) fs)) \<and>
    s_smio_check_msg_args (ops ! i) \<lparr>tag = EXP_MSG_ZMQ_TAG, content = fs\<rparr> = DISP_TABLE_SUCCESS"
proof -
  have "list_all2 op_fits ops cl" using assms(2) param_clients_fit board_clients_fit by (fastforce simp: list_all_iff)
  from list_all2_nthD [OF this assms(3)] have o: "op_fits (ops ! i) (cl ! i)" .
  then have "fn_calls (opcode (ops ! i)) f" using assms(4) by (simp add: op_fits_def list_all_iff)
  moreover have "s_smio_check_msg_args (ops ! i) \<lparr>tag = EXP_MSG_ZMQ_TAG, content = fn_frames f c v w\<rparr> = DISP_TABLE_SUCCESS"
    using op_fits_frames [OF o assms(4)]
    by (simp add: s_smio_check_msg_args_def ex_tags msg_check_gen_zmq_args_def check_args_iff)
  ultimately show ?thesis using probe_call [OF assms(1)] by blast
qed

theorem client_requests_fit_witness:
  "\<exists>v' fs. fn_run (Set_Fn halcs_set_sw) \<lparr>hc_mlm = Some probe, hc_timeout = 0\<rparr> ''SWAP'' 0 2 0 None =
      Some (HALCS_CLIENT_ERR_SERVER, v', Some (''SWAP'', request (opcode (swap_exp_ops ! 0 :: ((unit, unit) mod_world, msg_args) disp_op)) fs)) \<and>
    s_smio_check_msg_args (swap_exp_ops ! 0 :: ((unit, unit) mod_world, msg_args) disp_op)
      \<lparr>tag = EXP_MSG_ZMQ_TAG, content = fs\<rparr> = DISP_TABLE_SUCCESS"
proof -
  have h: "hc_mlm \<lparr>hc_mlm = Some probe, hc_timeout = 0\<rparr> = Some probe" by simp
  have "(swap_client, swap_params, swap_exp_ops, swap_exp_fp, swap_init) \<in>
      set (param_clients :: (_ \<times> _ \<times> ((unit, unit) mod_world, msg_args) disp_op list \<times> _) list)" by (rule swap_client_in)
  then have c: "(\<exists>ds m. (swap_client, ds, swap_exp_ops :: ((unit, unit) mod_world, msg_args) disp_op list, m) \<in> set param_clients) \<or>
      (swap_client, swap_exp_ops) \<in> set board_clients" by blast
  show ?thesis by (rule client_requests_fit [OF h c]) (simp_all add: swap_len swap_client_def)
qed

text \<open>C18: calls of a module's client functions act on a store. Any sequence of calls of the functions that
  the library has for a module of parameters (any get, a set of any parameter that is storage), on a
  client linked to that module over the broker: the requests go through the module's table, the client and the server of register accesses and the pages
  of the PCI Express board, and the calls return what a plain store of the module's parameters gives. A
  get returns the parameter's value; a set within the limits sets it, cut to the width of its field, and
  no other parameter; a value outside the limits or a channel that does not exist returns
  \<open>HALCS_CLIENT_ERR_AGAIN\<close> and changes nothing (the library's header documents
  \<open>HALCS_CLIENT_ERR_SERVER\<close> there). The registers end with the contents of the store. A call that sets a
  parameter that is no storage (the library has setters for registers marked read-only, too) returns
  \<open>HALCS_CLIENT_SUCCESS\<close>; what such a register then holds is not claimed. Between
  the accesses the registers are taken to keep their contents (\<open>board_ok\<close>).\<close>

theorem client_calls_store:
  fixes cs :: "(nat \<times> ('h, ('v, ('hz, 'w pcie) devio_peer) mod_world) link client_fn \<times> u32 \<times> u32) list"
  assumes "board_ok H V" and "pcie_good H V board" and "thsafe_ready cast_ep (llio_ops_pcie H al) srv"
    and "((cl, ds, ops, fp, start), rep) \<in> set (zip param_clients volatile_params)"
    and "calls_ok cl cs" and "\<forall>(i, f, c, v) \<in> set cs. no_volatile_write rep (fn_req i f c v)"
    and "hc_mlm hc = Some (module_broker svc)"
    and "smio_ready self rid" and "sm_handler self = Some ()" and "mod_base (sm_base self)"
    and "table_ready smio_disp_table_ops (filled ops (fp junk)) s"
  defines "st \<equiv> store_run ds cs (store ds (\<lambda>a. pcie_view32 V board (sm_base self OR a)))"
  shows "(\<exists>board' srv' proto' s'.
    client_run hc svc (map snd cs) ((self, (board, srv, proto, [])), s, []) =
      Some (fst st, ((self, (board', srv', proto', [])), s', [])) \<and>
    pcie_good H V board' \<and> thsafe_ready cast_ep (llio_ops_pcie H al) srv' \<and>
    table_ready smio_disp_table_ops (filled ops (fp junk)) s' \<and>
    (\<forall>x \<in> slots ds. store ds (\<lambda>a. pcie_view32 V board' (sm_base self OR a)) x = snd st x)) \<and>
    (\<forall>i f c v. calls_ok cl [(i, f, c, v)] \<and> volatile_write ds rep (fn_req i f c v) \<longrightarrow> (\<exists>w'.
      client_run hc svc [(f, c, v)] ((self, (board, srv, proto, [])), s, []) = Some ([(HALCS_CLIENT_SUCCESS, v)], w')))"
proof (rule conjI)
  have m: "(cl, ds, ops, fp, start) \<in> set param_clients" using assms(4) by (rule set_zip_leftD)
  note run = module_client_run [OF assms(1-3) m _ assms(7-11)]
  show "\<exists>board' srv' proto' s'.
    client_run hc svc (map snd cs) ((self, (board, srv, proto, [])), s, []) =
      Some (fst st, ((self, (board', srv', proto', [])), s', [])) \<and>
    pcie_good H V board' \<and> thsafe_ready cast_ep (llio_ops_pcie H al) srv' \<and>
    table_ready smio_disp_table_ops (filled ops (fp junk)) s' \<and>
    (\<forall>x \<in> slots ds. store ds (\<lambda>a. pcie_view32 V board' (sm_base self OR a)) x = snd st x)"
    using run [OF assms(5)] unfolding st_def .
  show "\<forall>i f c v. calls_ok cl [(i, f, c, v)] \<and> volatile_write ds rep (fn_req i f c v) \<longrightarrow> (\<exists>w'.
      client_run hc svc [(f, c, v)] ((self, (board, srv, proto, [])), s, []) = Some ([(HALCS_CLIENT_SUCCESS, v)], w'))"
  proof (intro allI impI, elim conjE)
    fix i f c v assume q: "calls_ok cl [(i, f, c, v)]" "volatile_write ds rep (fn_req i f c v)"
    show "\<exists>w'. client_run hc svc [(f, c, v)] ((self, (board, srv, proto, [])), s, []) = Some ([(HALCS_CLIENT_SUCCESS, v)], w')"
      using run [OF q(1), of proto] unfolding volatile_call [OF q(2)] list.map snd_conv by blast
  qed
qed

theorem client_calls_store_witness:
  "\<exists>(srv :: srv_table) (s :: ((string \<times> nat) list, (unit, srv_peer) mod_world, msg_args) dstate) self1 r. sm_base self1 = 0x4000000000310000 \<and>
    client_run \<lparr>hc_mlm = Some (module_broker ''SWAP''), hc_timeout = 0\<rparr> ''SWAP''
      [(Set_Fn halcs_set_sw, 0, 2), (Get_Fn halcs_get_sw, 0, 7)] ((self1, (board_open, srv, proto0, [])), s, []) =
    Some ([(HALCS_CLIENT_SUCCESS, 2), (HALCS_CLIENT_SUCCESS, 2)], r)"
proof -
  obtain srv :: srv_table where srv: "thsafe_ready cast0 (llio_ops_pcie board_hw (\<lambda>_. True)) srv"
    using srv_ready unfolding srv_llio_def by blast
  obtain s :: "((string \<times> nat) list, (unit, srv_peer) mod_world, msg_args) dstate" where
    s: "table_ready smio_disp_table_ops (filled swap_exp_ops (swap_exp_fp 0)) s" using swap_table by blast
  let ?self = "(swap_smio (devio_sock [1] :: srv_peer sock))\<lparr>sm_thsafe := Some (smio_thsafe_client_zmq_ops (\<lambda>_. True)), sm_handler := Some ()\<rparr>"
  have self: "smio_ready ?self [1]" "sm_handler ?self = Some ()" "mod_base (sm_base ?self)"
    by (simp_all add: smio_ready_def swap_smio_def swap_base)
  let ?cs = "[(0, Set_Fn halcs_set_sw, 0, 2), (0, Get_Fn halcs_get_sw, 0, 7)]"
  have ok: "calls_ok swap_client ?cs" by (simp add: calls_ok_def swap_client_def)
  have nv: "\<forall>(i, f, c, v) \<in> set ?cs. no_volatile_write [] (fn_req i f c v)" by (simp add: no_volatile_write_def)
  have h: "hc_mlm \<lparr>hc_mlm = Some (module_broker ''SWAP''), hc_timeout = 0\<rparr> = Some (module_broker ''SWAP'')" by simp
  have run: "fst (store_run swap_params ?cs m) = [(HALCS_CLIENT_SUCCESS, 2), (HALCS_CLIENT_SUCCESS, 2)]" for m
    by (simp add: param_step_def Let_def swap_params_def fn_status_def param_allowed_def check_param_limits_def
        PARAM_OK_def take_bit_eq_mask mask_eq_exp_minus_1)
  have b: "sm_base ?self = 0x4000000000310000" by (simp add: swap_smio_def)
  from client_calls_store [OF board_hw_ok board_open_good srv swap_client_rep ok nv h self s, of proto0, THEN conjunct1, unfolded run, unfolded list.map snd_conv]
  show ?thesis by (elim exE conjE) (rule exI [of _ srv], rule exI [of _ s], rule exI [of _ ?self], rule exI, rule conjI [OF b], assumption)
qed

text \<open>C23: no reply. On a link that takes every message and brings nothing before the timeout, the
  functions of parameters report \<open>HALCS_CLIENT_ERR_SERVER\<close> and leave the caller's variable as it was; the
  calls by descriptor report \<open>HALCS_CLIENT_SUCCESS\<close> and leave the caller's buffer as it was, so a caller
  cannot tell that from a call that was served.\<close>

theorem client_no_reply:
  assumes "hc_mlm self = Some M" and "mc_pipe M" and "\<And>p. mc_new_msg M p = (True, p)"
    and "\<And>to t fs p. mc_sendto M to t fs p = Some (0, p)" and "\<And>t p. mc_wait M t p = (None, True, False, p)"
    and "(cl, ds, ops, m) \<in> set param_clients" and "i < length cl" and "f \<in> set (cl ! i)"
    and "split_input (args op) input \<noteq> None"
  shows "fn_run f self svc c (ucast (v :: u32)) w p = Some (HALCS_CLIENT_ERR_SERVER, ucast v, p) \<and>
    halcs_func_exec (Some self) (Some op) svc (Some input) (Some out) p = Some (HALCS_CLIENT_SUCCESS, Some out, p)"
proof -
  have fit: "list_all2 op_fits ops cl" and sh: "list_all2 (\<lambda>d. list_all (fn_shape d)) ds cl"
    using param_clients_fit assms(6) by (auto simp: list_all_iff)
  have f: "fn_calls (opcode (ops ! i)) f" "fn_shape (ds ! i) f"
    using list_all2_nthD2 [OF fit assms(7)] list_all2_nthD2 [OF sh assms(7)] assms(8) by (auto simp: op_fits_def list_all_iff)
  have w: "param_client_write_gen self svc opc rw (Some f1) f2 f3 p = Some (HALCS_CLIENT_ERR_SERVER, p)"
    "param_client_read_gen self svc opc rw (Some f1) f2 f3 b p = Some (HALCS_CLIENT_ERR_SERVER, b, p)"
    "param_client_recv_timeout self svc p = Some (None, p)" for opc rw f1 f2 f3 b p
    using assms(1-5) by (simp_all add: param_client_write_gen_def param_client_read_gen_def param_client_send_gen_rw_def
        param_client_recv_rw_def param_client_recv_timeout_def halcs_get_mlm_client_def client_errs)
  have "fn_run f self svc c (ucast v) w p = Some (HALCS_CLIENT_ERR_SERVER, ucast v, p)"
    using f by (cases f) (auto simp: client_calls w no_value_def wide_def out_word_def b32_def)
  moreover have "halcs_func_exec (Some self) (Some op) svc (Some input) (Some out) p = Some (HALCS_CLIENT_SUCCESS, Some out, p)"
    using assms(1,3,4,9) w(3) by (auto simp: halcs_func_exec_def halcs_func_exec_size_def)
  ultimately show ?thesis ..
qed

definition silent :: "unit mlm_client" where
  "silent = \<lparr>mc_new_msg = \<lambda>p. (True, p), mc_sendto = \<lambda>to t fs p. Some (0, p), mc_pipe = True,
     mc_wait = \<lambda>t p. (None, True, False, p), mc_pending = \<lambda>p. (False, p), mc_recv = \<lambda>p. ([], None, p),
     mc_subject = \<lambda>p. [], mc_set_consumer = \<lambda>_ _ p. (0, p), mc_remove_consumer = \<lambda>_ p. (0, p)\<rparr>"

theorem client_no_reply_witness:
  "fn_run (Get_Fn halcs_get_sw) \<lparr>hc_mlm = Some silent, hc_timeout = 100\<rparr> ''SWAP'' 0 (ucast (7 :: u32)) 0 () =
      Some (HALCS_CLIENT_ERR_SERVER, ucast (7 :: u32), ()) \<and>
    halcs_func_exec (Some \<lparr>hc_mlm = Some silent, hc_timeout = 100\<rparr>)
      (Some (param_exp ''swap_set_get_sw'' 0 :: (unit, msg_args) disp_op)) ''SWAP''
      (Some [1, 0, 0, 0, 0, 0, 0, 0]) (Some [9, 9, 9, 9]) () = Some (HALCS_CLIENT_SUCCESS, Some [9, 9, 9, 9], ())"
proof -
  have a: "split_input (args (param_exp ''swap_set_get_sw'' 0 :: (unit, msg_args) disp_op)) [1, 0, 0, 0, 0, 0, 0, 0] \<noteq> None"
    by (simp add: exp_simps srv_args)
  show ?thesis
    by (rule client_no_reply [where M = silent and i = 0, OF _ _ _ _ _ swap_client_in _ _ a]) (simp_all add: silent_def swap_client_def)
qed

end
