(* ===== verification/Floats.thy ===== *)
theory Floats
  imports Complex_Main Prelude
begin

text \<open>
  The floating point arithmetic of the code: single and double precision values as rational numbers,
  every operation rounded to the nearest value of its format, ties to even. Overflow to infinity,
  denormal numbers and not-a-number do not occur for the values the code computes with; a division by
  zero is left to the users of this theory.
\<close>

fun nat_len :: "nat \<Rightarrow> nat" where
  "nat_len n = (if n = 0 then 0 else Suc (nat_len (n div 2)))"

declare nat_len.simps [simp del]

text \<open>The exponent of a positive number: \<open>2 powi ilog2 x \<le> x < 2 powi (ilog2 x + 1)\<close>.\<close>

definition ilog2 :: "rat \<Rightarrow> int" where
  "ilog2 x = (if 1 \<le> x then int (nat_len (nat \<lfloor>x\<rfloor>)) - 1 else - int (nat_len (nat (\<lceil>1 / x\<rceil> - 1))))"

definition round_even :: "rat \<Rightarrow> int" where
  "round_even y = (let r = \<lfloor>y\<rfloor>; d = y - of_int r
     in if d < 1 / 2 then r else if 1 / 2 < d then r + 1 else if even r then r else r + 1)"

text \<open>Rounding to \<open>p\<close> significant bits.\<close>

definition fl :: "nat \<Rightarrow> rat \<Rightarrow> rat" where
  "fl p x = (if x = 0 then 0
     else let e = ilog2 \<bar>x\<bar> - (int p - 1) in of_int (round_even (x / 2 powi e)) * 2 powi e)"

abbreviation to_float :: "rat \<Rightarrow> rat" where "to_float \<equiv> fl 24"
abbreviation to_double :: "rat \<Rightarrow> rat" where "to_double \<equiv> fl 53"

text \<open>Conversion to an integer cuts the fraction off.\<close>

definition cut_int :: "rat \<Rightarrow> int" where
  "cut_int x = (if 0 \<le> x then \<lfloor>x\<rfloor> else \<lceil>x\<rceil>)"

section \<open>Facts\<close>

lemma nat_len_bound: "n < 2 ^ nat_len n"
proof (induction n rule: nat_len.induct)
  case (1 n)
  show ?case
  proof (cases "n = 0")
    case False
    then have "n div 2 < 2 ^ nat_len (n div 2)" using 1 by simp
    then have "n < 2 * 2 ^ nat_len (n div 2)" by linarith
    with False show ?thesis by (subst nat_len.simps) simp
  qed simp
qed

lemma nat_len_pos: "0 < n \<Longrightarrow> 0 < nat_len n"
  by (subst nat_len.simps) simp

lemma nat_len_low: "0 < n \<Longrightarrow> 2 ^ (nat_len n - 1) \<le> n"
proof (induction n rule: nat_len.induct)
  case (1 n)
  show ?case
  proof (cases "n div 2 = 0")
    case True
    then have "n = 1" using 1(2) by simp
    then show ?thesis by (simp add: nat_len.simps)
  next
    case False
    then have ih: "2 ^ (nat_len (n div 2) - 1) \<le> n div 2" using 1 by simp
    have "nat_len n - 1 = nat_len (n div 2)" using 1(2) by (subst nat_len.simps) simp
    moreover have "nat_len (n div 2) = Suc (nat_len (n div 2) - 1)" using False nat_len_pos [of "n div 2"] by simp
    ultimately have "2 ^ (nat_len n - 1) = 2 * (2 :: nat) ^ (nat_len (n div 2) - 1)" by (metis power_Suc)
    also have "\<dots> \<le> 2 * (n div 2)" using ih by simp
    also have "\<dots> \<le> n" by simp
    finally show ?thesis .
  qed
qed

lemma ilog2_low:
  assumes "0 < x"
  shows "2 powi ilog2 x \<le> x"
proof (cases "1 \<le> x")
  case True
  let ?n = "nat \<lfloor>x\<rfloor>"
  have n: "0 < ?n" using True by simp
  then have "(of_nat (2 ^ (nat_len ?n - 1)) :: rat) \<le> of_nat ?n" using nat_len_low by (simp only: of_nat_le_iff)
  also have "\<dots> \<le> x" using True by simp
  finally have "2 ^ (nat_len ?n - 1) \<le> x" by simp
  moreover have e: "ilog2 x = int (nat_len ?n - 1)" using True nat_len_pos [OF n] by (simp add: ilog2_def)
  ultimately show ?thesis unfolding e power_int_of_nat by simp
next
  case False
  define y where "y = 1 / x"
  let ?n = "nat (\<lceil>y\<rceil> - 1)"
  have "1 < y" using False assms by (simp add: y_def)
  then have "1 < \<lceil>y\<rceil>" by (simp only: less_ceiling_iff of_int_1)
  then have c: "0 \<le> \<lceil>y\<rceil> - 1" by simp
  have "y \<le> of_int \<lceil>y\<rceil>" by (rule le_of_int_ceiling)
  also have "\<lceil>y\<rceil> = int (?n + 1)" using c by simp
  also have "(of_int (int (?n + 1)) :: rat) = of_nat (?n + 1)" by (rule of_int_of_nat_eq)
  also have "\<dots> \<le> of_nat (2 ^ nat_len ?n)" using nat_len_bound [of ?n] by (simp only: of_nat_le_iff)
  finally have "y \<le> 2 ^ nat_len ?n" by simp
  then have "inverse (2 ^ nat_len ?n) \<le> x" using assms by (simp add: y_def field_simps)
  then show ?thesis using False by (simp add: ilog2_def y_def power_int_minus)
qed

lemma ilog2_high:
  assumes "0 < x"
  shows "x < 2 powi (ilog2 x + 1)"
proof (cases "1 \<le> x")
  case True
  let ?n = "nat \<lfloor>x\<rfloor>"
  have "x < of_int (\<lfloor>x\<rfloor> + 1)" by (rule conjunct2 [OF floor_correct])
  also have "\<lfloor>x\<rfloor> + 1 = int (?n + 1)" using True by simp
  also have "(of_int (int (?n + 1)) :: rat) = of_nat (?n + 1)" by (rule of_int_of_nat_eq)
  also have "\<dots> \<le> of_nat (2 ^ nat_len ?n)" using nat_len_bound [of ?n] by (simp only: of_nat_le_iff)
  finally have "x < 2 ^ nat_len ?n" by simp
  moreover have e: "ilog2 x + 1 = int (nat_len ?n)" using True by (simp add: ilog2_def)
  ultimately show ?thesis unfolding e power_int_of_nat by simp
next
  case False
  define y where "y = 1 / x"
  let ?n = "nat (\<lceil>y\<rceil> - 1)"
  have "1 < y" using False assms by (simp add: y_def)
  then have "1 < \<lceil>y\<rceil>" by (simp only: less_ceiling_iff of_int_1)
  then have n: "0 < ?n" by simp
  then have "(of_nat (2 ^ (nat_len ?n - 1)) :: rat) \<le> of_nat ?n" using nat_len_low by (simp only: of_nat_le_iff)
  also have "(of_nat ?n :: rat) = of_int (int ?n)" by simp
  also have "int ?n = \<lceil>y\<rceil> - 1" using n by simp
  also have "of_int (\<lceil>y\<rceil> - 1) < y" by (subst less_ceiling_iff [symmetric]) simp
  finally have "2 ^ (nat_len ?n - 1) < y" by simp
  then have "x < inverse (2 ^ (nat_len ?n - 1))" using assms by (simp add: y_def field_simps)
  moreover have "ilog2 x + 1 = - int (nat_len ?n - 1)" using False nat_len_pos [OF n] by (simp add: ilog2_def y_def)
  ultimately show ?thesis by (simp add: power_int_minus)
qed

text \<open>A number that has a significand of \<open>p\<close> bits is not changed.\<close>

lemma round_even_int [simp]: "round_even (of_int m) = m"
  by (simp add: round_even_def)

lemma powi_less_imp: "(2 :: rat) powi a < 2 powi b \<Longrightarrow> a < b"
  by (metis leD leI one_le_numeral power_int_increasing)

lemma fl_exact:
  assumes "\<bar>m\<bar> < 2 ^ p" and "x = of_int m * 2 powi e"
  shows "fl p x = x"
proof (cases "x = 0")
  case False
  let ?e = "ilog2 \<bar>x\<bar> - (int p - 1)"
  have "2 powi ilog2 \<bar>x\<bar> \<le> \<bar>x\<bar>" using False by (simp add: ilog2_low)
  also have "\<bar>x\<bar> = of_int \<bar>m\<bar> * 2 powi e" unfolding assms(2) by (simp add: abs_mult)
  also have "\<dots> < 2 ^ p * 2 powi e" using assms(1) by (intro mult_strict_right_mono) (simp_all flip: of_int_less_iff [where 'a = rat])
  also have "\<dots> = 2 powi (int p + e)" by (simp add: power_int_add)
  finally have "ilog2 \<bar>x\<bar> < int p + e" by (rule powi_less_imp)
  then have le: "?e \<le> e" by simp
  have "x / 2 powi ?e = of_int m * 2 powi (e - ?e)" unfolding assms(2) by (simp add: power_int_diff)
  also have "\<dots> = of_int (m * 2 ^ nat (e - ?e))" using le by (simp add: power_int_def)
  finally have q: "x / 2 powi ?e = of_int (m * 2 ^ nat (e - ?e))" .
  have "fl p x = of_int (m * 2 ^ nat (e - ?e)) * 2 powi ?e"
    unfolding fl_def Let_def q round_even_int using False by simp
  also have "\<dots> = x" unfolding q [symmetric] by simp
  finally show ?thesis .
qed (simp add: fl_def)

lemma fl_int: "\<bar>m\<bar> < 2 ^ p \<Longrightarrow> fl p (of_int m) = of_int m"
  by (rule fl_exact [where e = 0]) simp_all

lemma fl_nat:
  assumes "n < 2 ^ p"
  shows "fl p (of_nat n) = of_nat n"
proof -
  have "int n < int (2 ^ p)" using assms by (simp only: of_nat_less_iff)
  then have "\<bar>int n\<bar> < 2 ^ p" by simp
  from fl_int [OF this] show ?thesis by (simp only: of_int_of_nat_eq)
qed

text \<open>Rounding is within half a unit of the last place, relative to the number.\<close>

lemma round_even_error: "\<bar>of_int (round_even y) - y\<bar> \<le> 1 / 2"
proof -
  have "of_int \<lfloor>y\<rfloor> \<le> y" "y < of_int \<lfloor>y\<rfloor> + 1" using floor_correct [of y] by simp_all
  then show ?thesis unfolding round_even_def Let_def by (auto simp: abs_le_iff)
qed

lemma fl_error:
  shows "\<bar>fl p x - x\<bar> \<le> \<bar>x\<bar> / 2 ^ p"
proof (cases "x = 0")
  case False
  let ?e = "ilog2 \<bar>x\<bar> - (int p - 1)"
  have "fl p x - x = (of_int (round_even (x / 2 powi ?e)) - x / 2 powi ?e) * 2 powi ?e"
    using False by (simp add: fl_def Let_def left_diff_distrib)
  then have "\<bar>fl p x - x\<bar> = \<bar>of_int (round_even (x / 2 powi ?e)) - x / 2 powi ?e\<bar> * 2 powi ?e" by (simp add: abs_mult)
  also have "\<dots> \<le> 1 / 2 * 2 powi ?e" using round_even_error by (intro mult_right_mono) simp_all
  also have "1 / 2 * 2 powi ?e = 2 powi ilog2 \<bar>x\<bar> / (2 ^ p :: rat)" by (simp add: power_int_diff)
  also have "\<dots> \<le> \<bar>x\<bar> / 2 ^ p" using False by (intro divide_right_mono ilog2_low) simp_all
  finally show ?thesis .
qed (simp add: fl_def)

end
