(* ===== verification/Smpr.thy ===== *)
theory Smpr
  imports Rw_Param Floats
begin

text \<open>
  src/sm_io/protocols/sm_pr.c: the object through which a chip outside the FPGA is reached. It has the
  parent module, whose registers contain the core that drives the wires, and the operations of a
  protocol (SPI, I2C). A protocol keeps its state (\<open>'b\<close>) in the handler, and the parameters of the one
  chip it talks to (\<open>'d\<close>) beside its operations: both are the record \<open>smpr_dev\<close>, which the
  operations take and return. \<open>'a\<close> are the arguments of opening. Buffers are byte lists; a pointer
  that may be null is an option.
\<close>

section \<open>The object\<close>

datatype smpr_err = SMPR_SUCCESS | SMPR_ERR_ALLOC | SMPR_ERR_INV_FUNC_PARAM | SMPR_ERR_FUNC_NOT_IMPL
  | SMPR_ERR_RW_SMIO | SMPR_ERR_DUP_HANDLER | SMPR_ERR_PROTO_INFO

fun smpr_err_code :: "smpr_err \<Rightarrow> int" where
  "smpr_err_code SMPR_SUCCESS = 0"
| "smpr_err_code SMPR_ERR_ALLOC = 1"
| "smpr_err_code SMPR_ERR_INV_FUNC_PARAM = 2"
| "smpr_err_code SMPR_ERR_FUNC_NOT_IMPL = 3"
| "smpr_err_code SMPR_ERR_RW_SMIO = 4"
| "smpr_err_code SMPR_ERR_DUP_HANDLER = 5"
| "smpr_err_code SMPR_ERR_PROTO_INFO = 6"

fun smpr_err_str :: "smpr_err \<Rightarrow> string" where
  "smpr_err_str SMPR_SUCCESS = ''Success''"
| "smpr_err_str SMPR_ERR_ALLOC = ''Could not allocate memory''"
| "smpr_err_str SMPR_ERR_INV_FUNC_PARAM = ''Invalid function parameter''"
| "smpr_err_str SMPR_ERR_RW_SMIO = ''Could not Read/Write to/from SMIO''"
| "smpr_err_str SMPR_ERR_FUNC_NOT_IMPL = ''Function not implemented''"
| "smpr_err_str SMPR_ERR_DUP_HANDLER = ''Protocol handler already set''"
| "smpr_err_str SMPR_ERR_PROTO_INFO = ''Could not retrieve protocol information''"

definition SMPR_BYTE_2_BIT :: nat where "SMPR_BYTE_2_BIT = 8"
definition SMPR_WB_REG_2_BYTE :: nat where "SMPR_WB_REG_2_BYTE = 4"
definition SMPR_WB_REG_2_BIT :: nat where "SMPR_WB_REG_2_BIT = SMPR_WB_REG_2_BYTE * SMPR_BYTE_2_BIT"

lemmas smpr_sizes = SMPR_BYTE_2_BIT_def SMPR_WB_REG_2_BYTE_def SMPR_WB_REG_2_BIT_def

record ('b, 'd) smpr_dev =
  pd_handler :: "'b option"
  pd_spec :: 'd

type_synonym ('b, 'd, 'o, 'h, 'p) smpr_rw =
  "('o, 'h, 'p) smio \<Rightarrow> ('b, 'd) smpr_dev \<Rightarrow> nat \<Rightarrow> u64 \<Rightarrow> u8 list option \<Rightarrow> 'p \<Rightarrow>
     (int \<times> u8 list option \<times> ('b, 'd) smpr_dev \<times> 'p) option"

type_synonym ('b, 'd, 'o, 'h, 'p) smpr_rw_block =
  "('o, 'h, 'p) smio \<Rightarrow> ('b, 'd) smpr_dev \<Rightarrow> nat \<Rightarrow> u64 \<Rightarrow> nat \<Rightarrow> u8 list option \<Rightarrow> 'p \<Rightarrow>
     (int \<times> u8 list option \<times> ('b, 'd) smpr_dev \<times> 'p) option"

record ('a, 'b, 'd, 'o, 'h, 'p) smpr_proto_ops =
  proto_name :: string
  proto_open :: "(('o, 'h, 'p) smio \<Rightarrow> ('b, 'd) smpr_dev \<Rightarrow> u64 \<Rightarrow> 'a option \<Rightarrow> 'p \<Rightarrow>
    (int \<times> ('b, 'd) smpr_dev \<times> 'p) option) option"
  proto_release :: "(('b, 'd) smpr_dev \<Rightarrow> (int \<times> ('b, 'd) smpr_dev) option) option"
  proto_read_16 :: "('b, 'd, 'o, 'h, 'p) smpr_rw option"
  proto_read_32 :: "('b, 'd, 'o, 'h, 'p) smpr_rw option"
  proto_read_64 :: "('b, 'd, 'o, 'h, 'p) smpr_rw option"
  proto_write_16 :: "('b, 'd, 'o, 'h, 'p) smpr_rw option"
  proto_write_32 :: "('b, 'd, 'o, 'h, 'p) smpr_rw option"
  proto_write_64 :: "('b, 'd, 'o, 'h, 'p) smpr_rw option"
  proto_read_block :: "('b, 'd, 'o, 'h, 'p) smpr_rw_block option"
  proto_write_block :: "('b, 'd, 'o, 'h, 'p) smpr_rw_block option"
  proto_read_dma :: "('b, 'd, 'o, 'h, 'p) smpr_rw_block option"
  proto_write_dma :: "('b, 'd, 'o, 'h, 'p) smpr_rw_block option"

record ('a, 'b, 'd, 'o, 'h, 'p) smpr =
  pr_name :: string
  pr_verbose :: int
  pr_parent :: "('o, 'h, 'p) smio"
  pr_dev :: "('b, 'd) smpr_dev"
  pr_ops :: "('a, 'b, 'd, 'o, 'h, 'p) smpr_proto_ops option"

definition s_smpr_register_proto_ops ::
  "('a, 'b, 'd, 'o, 'h, 'p) smpr_proto_ops option \<Rightarrow> ('a, 'b, 'd, 'o, 'h, 'p) smpr_proto_ops option \<Rightarrow>
     smpr_err \<times> ('a, 'b, 'd, 'o, 'h, 'p) smpr_proto_ops option" where
  "s_smpr_register_proto_ops ops reg_ops = (SMPR_SUCCESS, reg_ops)"

definition s_smpr_unregister_proto_ops ::
  "('a, 'b, 'd, 'o, 'h, 'p) smpr_proto_ops option \<Rightarrow> smpr_err \<times> ('a, 'b, 'd, 'o, 'h, 'p) smpr_proto_ops option" where
  "s_smpr_unregister_proto_ops ops = (SMPR_SUCCESS, None)"

text \<open>\<open>al 0\<close> and \<open>al 1\<close> are the allocations of the object and of its name. The chip's parameters come
  with the operations.\<close>

definition smpr_new ::
  "(nat \<Rightarrow> bool) \<Rightarrow> string \<Rightarrow> ('o, 'h, 'p) smio \<Rightarrow> ('a, 'b, 'd, 'o, 'h, 'p) smpr_proto_ops option \<Rightarrow> 'd \<Rightarrow> int \<Rightarrow>
     ('a, 'b, 'd, 'o, 'h, 'p) smpr option" where
  "smpr_new al name parent reg_ops d verb =
     (if \<not> al 0 \<or> \<not> al 1 then None
      else Some \<lparr>pr_name = name, pr_verbose = verb, pr_parent = parent, pr_dev = \<lparr>pd_handler = None, pd_spec = d\<rparr>,
        pr_ops = snd (s_smpr_register_proto_ops None reg_ops)\<rparr>)"

definition smpr_destroy :: "('a, 'b, 'd, 'o, 'h, 'p) smpr option \<Rightarrow> smpr_err \<times> ('a, 'b, 'd, 'o, 'h, 'p) smpr option" where
  "smpr_destroy self_p = (SMPR_SUCCESS, None)"

definition smpr_set_handler :: "('b, 'd) smpr_dev \<Rightarrow> 'b \<Rightarrow> smpr_err \<times> ('b, 'd) smpr_dev" where
  "smpr_set_handler dev x =
     (if pd_handler dev \<noteq> None then (SMPR_ERR_DUP_HANDLER, dev) else (SMPR_SUCCESS, dev\<lparr>pd_handler := Some x\<rparr>))"

definition smpr_get_handler :: "('b, 'd) smpr_dev \<Rightarrow> 'b option" where "smpr_get_handler = pd_handler"

definition smpr_unset_handler :: "('b, 'd) smpr_dev \<Rightarrow> 'b option \<times> ('b, 'd) smpr_dev" where
  "smpr_unset_handler dev = (pd_handler dev, dev\<lparr>pd_handler := None\<rparr>)"

definition smpr_get_parent :: "('a, 'b, 'd, 'o, 'h, 'p) smpr \<Rightarrow> ('o, 'h, 'p) smio" where "smpr_get_parent = pr_parent"

definition smpr_get_ops :: "('a, 'b, 'd, 'o, 'h, 'p) smpr \<Rightarrow> ('a, 'b, 'd, 'o, 'h, 'p) smpr_proto_ops option" where
  "smpr_get_ops = pr_ops"

definition smpr_get_ops_name :: "('a, 'b, 'd, 'o, 'h, 'p) smpr \<Rightarrow> string option" where
  "smpr_get_ops_name self = map_option proto_name (pr_ops self)"

section \<open>The wrappers\<close>

text \<open>An object without operations is excluded by an assertion; a missing operation is an error.\<close>

definition SMPR_FUNC_WRAPPER ::
  "('a, 'b, 'd, 'o, 'h, 'p) smpr \<Rightarrow> (('a, 'b, 'd, 'o, 'h, 'p) smpr_proto_ops \<Rightarrow> 'f option) \<Rightarrow> 'r \<Rightarrow> ('f \<Rightarrow> 'r option) \<Rightarrow> 'r option" where
  "SMPR_FUNC_WRAPPER self func_name missing call =
     (case pr_ops self of
        None \<Rightarrow> None
      | Some ops \<Rightarrow> (case func_name ops of None \<Rightarrow> Some missing | Some f \<Rightarrow> call f))"

definition smpr_not_impl :: int where "smpr_not_impl = - smpr_err_code SMPR_ERR_FUNC_NOT_IMPL"

type_synonym ('a, 'b, 'd, 'o, 'h, 'p) smpr_res = "(int \<times> u8 list option \<times> ('a, 'b, 'd, 'o, 'h, 'p) smpr \<times> 'p) option"

definition with_dev ::
  "('a, 'b, 'd, 'o, 'h, 'p) smpr \<Rightarrow> (int \<times> u8 list option \<times> ('b, 'd) smpr_dev \<times> 'p) option \<Rightarrow> ('a, 'b, 'd, 'o, 'h, 'p) smpr_res" where
  "with_dev self r = map_option (\<lambda>(n, b, dev, p). (n, b, self\<lparr>pr_dev := dev\<rparr>, p)) r"

definition smpr_open ::
  "('a, 'b, 'd, 'o, 'h, 'p) smpr \<Rightarrow> u64 \<Rightarrow> 'a option \<Rightarrow> 'p \<Rightarrow> (int \<times> ('a, 'b, 'd, 'o, 'h, 'p) smpr \<times> 'p) option" where
  "smpr_open self base as p = SMPR_FUNC_WRAPPER self proto_open (smpr_not_impl, self, p)
     (\<lambda>f. map_option (\<lambda>(n, dev, p'). (n, self\<lparr>pr_dev := dev\<rparr>, p')) (f (pr_parent self) (pr_dev self) base as p))"

definition smpr_release :: "('a, 'b, 'd, 'o, 'h, 'p) smpr \<Rightarrow> (int \<times> ('a, 'b, 'd, 'o, 'h, 'p) smpr) option" where
  "smpr_release self = SMPR_FUNC_WRAPPER self proto_release (smpr_not_impl, self)
     (\<lambda>f. map_option (\<lambda>(n, dev). (n, self\<lparr>pr_dev := dev\<rparr>)) (f (pr_dev self)))"

definition smpr_read_16 :: "('a, 'b, 'd, 'o, 'h, 'p) smpr \<Rightarrow> nat \<Rightarrow> u64 \<Rightarrow> u8 list option \<Rightarrow> 'p \<Rightarrow> ('a, 'b, 'd, 'o, 'h, 'p) smpr_res" where
  "smpr_read_16 self size_offs offs b p = SMPR_FUNC_WRAPPER self proto_read_16 (smpr_not_impl, b, self, p)
     (\<lambda>f. with_dev self (f (pr_parent self) (pr_dev self) size_offs offs b p))"

definition smpr_read_32 :: "('a, 'b, 'd, 'o, 'h, 'p) smpr \<Rightarrow> nat \<Rightarrow> u64 \<Rightarrow> u8 list option \<Rightarrow> 'p \<Rightarrow> ('a, 'b, 'd, 'o, 'h, 'p) smpr_res" where
  "smpr_read_32 self size_offs offs b p = SMPR_FUNC_WRAPPER self proto_read_32 (smpr_not_impl, b, self, p)
     (\<lambda>f. with_dev self (f (pr_parent self) (pr_dev self) size_offs offs b p))"

definition smpr_read_64 :: "('a, 'b, 'd, 'o, 'h, 'p) smpr \<Rightarrow> nat \<Rightarrow> u64 \<Rightarrow> u8 list option \<Rightarrow> 'p \<Rightarrow> ('a, 'b, 'd, 'o, 'h, 'p) smpr_res" where
  "smpr_read_64 self size_offs offs b p = SMPR_FUNC_WRAPPER self proto_read_64 (smpr_not_impl, b, self, p)
     (\<lambda>f. with_dev self (f (pr_parent self) (pr_dev self) size_offs offs b p))"

definition smpr_write_16 :: "('a, 'b, 'd, 'o, 'h, 'p) smpr \<Rightarrow> nat \<Rightarrow> u64 \<Rightarrow> u8 list option \<Rightarrow> 'p \<Rightarrow> ('a, 'b, 'd, 'o, 'h, 'p) smpr_res" where
  "smpr_write_16 self size_offs offs b p = SMPR_FUNC_WRAPPER self proto_write_16 (smpr_not_impl, b, self, p)
     (\<lambda>f. with_dev self (f (pr_parent self) (pr_dev self) size_offs offs b p))"

definition smpr_write_32 :: "('a, 'b, 'd, 'o, 'h, 'p) smpr \<Rightarrow> nat \<Rightarrow> u64 \<Rightarrow> u8 list option \<Rightarrow> 'p \<Rightarrow> ('a, 'b, 'd, 'o, 'h, 'p) smpr_res" where
  "smpr_write_32 self size_offs offs b p = SMPR_FUNC_WRAPPER self proto_write_32 (smpr_not_impl, b, self, p)
     (\<lambda>f. with_dev self (f (pr_parent self) (pr_dev self) size_offs offs b p))"

definition smpr_write_64 :: "('a, 'b, 'd, 'o, 'h, 'p) smpr \<Rightarrow> nat \<Rightarrow> u64 \<Rightarrow> u8 list option \<Rightarrow> 'p \<Rightarrow> ('a, 'b, 'd, 'o, 'h, 'p) smpr_res" where
  "smpr_write_64 self size_offs offs b p = SMPR_FUNC_WRAPPER self proto_write_64 (smpr_not_impl, b, self, p)
     (\<lambda>f. with_dev self (f (pr_parent self) (pr_dev self) size_offs offs b p))"

definition smpr_read_block :: "('a, 'b, 'd, 'o, 'h, 'p) smpr \<Rightarrow> nat \<Rightarrow> u64 \<Rightarrow> nat \<Rightarrow> u8 list option \<Rightarrow> 'p \<Rightarrow> ('a, 'b, 'd, 'o, 'h, 'p) smpr_res" where
  "smpr_read_block self size_offs offs sz b p = SMPR_FUNC_WRAPPER self proto_read_block (smpr_not_impl, b, self, p)
     (\<lambda>f. with_dev self (f (pr_parent self) (pr_dev self) size_offs offs sz b p))"

definition smpr_write_block :: "('a, 'b, 'd, 'o, 'h, 'p) smpr \<Rightarrow> nat \<Rightarrow> u64 \<Rightarrow> nat \<Rightarrow> u8 list option \<Rightarrow> 'p \<Rightarrow> ('a, 'b, 'd, 'o, 'h, 'p) smpr_res" where
  "smpr_write_block self size_offs offs sz b p = SMPR_FUNC_WRAPPER self proto_write_block (smpr_not_impl, b, self, p)
     (\<lambda>f. with_dev self (f (pr_parent self) (pr_dev self) size_offs offs sz b p))"

definition smpr_read_dma :: "('a, 'b, 'd, 'o, 'h, 'p) smpr \<Rightarrow> nat \<Rightarrow> u64 \<Rightarrow> nat \<Rightarrow> u8 list option \<Rightarrow> 'p \<Rightarrow> ('a, 'b, 'd, 'o, 'h, 'p) smpr_res" where
  "smpr_read_dma self size_offs offs sz b p = SMPR_FUNC_WRAPPER self proto_read_dma (smpr_not_impl, b, self, p)
     (\<lambda>f. with_dev self (f (pr_parent self) (pr_dev self) size_offs offs sz b p))"

definition smpr_write_dma :: "('a, 'b, 'd, 'o, 'h, 'p) smpr \<Rightarrow> nat \<Rightarrow> u64 \<Rightarrow> nat \<Rightarrow> u8 list option \<Rightarrow> 'p \<Rightarrow> ('a, 'b, 'd, 'o, 'h, 'p) smpr_res" where
  "smpr_write_dma self size_offs offs sz b p = SMPR_FUNC_WRAPPER self proto_write_dma (smpr_not_impl, b, self, p)
     (\<lambda>f. with_dev self (f (pr_parent self) (pr_dev self) size_offs offs sz b p))"

section \<open>What the protocols share\<close>

text \<open>The first \<open>n\<close> bytes of an address, copied from the variable that holds it.\<close>

definition addr_bytes :: "nat \<Rightarrow> u64 \<Rightarrow> u8 list option" where
  "addr_bytes n offs = (if 8 < n then None else Some (take n (le_bytes 8 offs)))"

text \<open>The clock divider: \<open>(float) sys / (k * (float) freq) - 1.0\<close>, the operations in double precision,
  the result stored in single precision and cut to \<open>uint16_t\<close>, undefined when it does not fit. The
  frequency 0 gives an infinity.\<close>

definition proto_divider :: "rat \<Rightarrow> u32 \<Rightarrow> u32 \<Rightarrow> u16 option" where
  "proto_divider k sys_freq freq =
     (if freq = 0 then None
      else let q = to_double (to_float (of_nat (unat sys_freq)) / to_double (k * to_float (of_nat (unat freq))));
               n = cut_int (to_float (to_double (q - 1)))
        in if 0 \<le> n \<and> n < 2 ^ 16 then Some (word_of_int n) else None)"

end
