(* ===== verification/Chip.thy ===== *)
theory Chip
  imports Smpr
begin

text \<open>
  What the drivers under src/sm_io/chips/ share: their status codes (sm_ch_err.c, include/sm_ch_err.h)
  and the two accesses they make, a block written or read through the protocol object. A driver whose
  only member is its protocol object is that object; it is carried along with the peer state.
\<close>

datatype smch_err = SMCH_SUCCESS | SMCH_ERR_ALLOC | SMCH_ERR_INV_FUNC_PARAM | SMCH_ERR_RW_SMPR | SMCH_ERR_TIMEOUT

fun smch_err_str :: "smch_err \<Rightarrow> string" where
  "smch_err_str SMCH_SUCCESS = ''Success''"
| "smch_err_str SMCH_ERR_ALLOC = ''Could not allocate memory''"
| "smch_err_str SMCH_ERR_INV_FUNC_PARAM = ''Invalid function parameter''"
| "smch_err_str SMCH_ERR_RW_SMPR = ''Could not Read/Write to/from specified SMPR protocol''"
| "smch_err_str SMCH_ERR_TIMEOUT = ''Timeout occured or maximum number of tries reached''"

type_synonym ('a, 'b, 'd, 'o, 'h, 'p) chip = "('a, 'b, 'd, 'o, 'h, 'p) smpr \<times> 'p"

definition chip_write ::
  "nat \<Rightarrow> u64 \<Rightarrow> u8 list \<Rightarrow> ('a, 'b, 'd, 'o, 'h, 'p) chip \<Rightarrow> (int \<times> ('a, 'b, 'd, 'o, 'h, 'p) chip) option" where
  "chip_write size_offs offs bs w =
     map_option (\<lambda>(n, _, s, p). (n, s, p)) (smpr_write_block (fst w) size_offs offs (length bs) (Some bs) (snd w))"

text \<open>\<open>bs\<close> is the content of the destination; a driver always gives one.\<close>

definition chip_read ::
  "nat \<Rightarrow> u64 \<Rightarrow> u8 list \<Rightarrow> ('a, 'b, 'd, 'o, 'h, 'p) chip \<Rightarrow> (int \<times> u8 list \<times> ('a, 'b, 'd, 'o, 'h, 'p) chip) option" where
  "chip_read size_offs offs bs w =
     map_option (\<lambda>(n, b, s, p). (n, case b of Some x \<Rightarrow> x | None \<Rightarrow> bs, s, p))
       (smpr_read_block (fst w) size_offs offs (length bs) (Some bs) (snd w))"

text \<open>Opening at creation: allocation, protocol object, opening, and the start of the chip \<open>ini\<close>; when
  the start fails, the protocol is released again.\<close>

definition chip_open ::
  "bool \<Rightarrow> (nat \<Rightarrow> bool) \<Rightarrow> string \<Rightarrow> ('o, 'h, 'p) smio \<Rightarrow> ('a, 'b, 'd, 'o, 'h, 'p) smpr_proto_ops option \<Rightarrow> 'd \<Rightarrow> int \<Rightarrow> u64 \<Rightarrow>
     'a option \<Rightarrow> 'p \<Rightarrow> (('a, 'b, 'd, 'o, 'h, 'p) smpr option \<times> 'p) option" where
  "chip_open ok al name parent reg_ops d verb base as p =
     (if \<not> ok then Some (None, p)
      else case smpr_new al name parent reg_ops d verb of
        None \<Rightarrow> Some (None, p)
      | Some s \<Rightarrow> do {
          (err, s', p1) \<leftarrow> smpr_open s base as p;
          Some (if err \<noteq> 0 then None else Some s', p1) })"

definition chip_start ::
  "(('a, 'b, 'd, 'o, 'h, 'p) chip \<Rightarrow> (smch_err \<times> ('a, 'b, 'd, 'o, 'h, 'p) chip) option) \<Rightarrow>
     ('a, 'b, 'd, 'o, 'h, 'p) smpr option \<times> 'p \<Rightarrow> (('a, 'b, 'd, 'o, 'h, 'p) smpr option \<times> 'p) option" where
  "chip_start ini r =
     (case r of
        (None, p) \<Rightarrow> Some (None, p)
      | (Some s, p) \<Rightarrow> do {
          (err, s1, p1) \<leftarrow> ini (s, p);
          if err \<noteq> SMCH_SUCCESS then do { _ \<leftarrow> smpr_release s1; Some (None, p1) } else Some (Some s1, p1) })"

text \<open>The end of a driver: the protocol is released, the object freed and the pointer cleared.\<close>

definition chip_destroy :: "('a, 'b, 'd, 'o, 'h, 'p) smpr option \<Rightarrow> (smch_err \<times> ('a, 'b, 'd, 'o, 'h, 'p) smpr option) option" where
  "chip_destroy self_p =
     (case self_p of
        None \<Rightarrow> Some (SMCH_SUCCESS, None)
      | Some self \<Rightarrow> do {
          (_, self') \<leftarrow> smpr_release self;
          Some (SMCH_SUCCESS, snd (smpr_destroy (Some self'))) })"

text \<open>A chip whose bytes at the addresses \<open>A\<close> are the function \<open>m\<close> of the state, behind a protocol that
  does not fail in the states \<open>I\<close>: a read gives the byte of its address, a write of \<open>d\<close> to \<open>a\<close> leaves
  \<open>f a d\<close> there.\<close>

definition byte_chip ::
  "('a, 'b, 'd, 'o, 'h, 'p) chip set \<Rightarrow> u8 set \<Rightarrow> nat \<Rightarrow> (u8 \<Rightarrow> u64) \<Rightarrow> (u8 \<Rightarrow> u64) \<Rightarrow>
     (('a, 'b, 'd, 'o, 'h, 'p) chip \<Rightarrow> u8 \<Rightarrow> u8) \<Rightarrow> (u8 \<Rightarrow> u8 \<Rightarrow> u8) \<Rightarrow> bool" where
  "byte_chip I A n wa ra m f \<longleftrightarrow>
     (\<forall>w \<in> I. \<forall>a \<in> A. \<forall>d. \<exists>w' \<in> I. chip_write n (wa a) [d] w = Some (1, w') \<and> m w' = (m w)(a := f a d)) \<and>
     (\<forall>w \<in> I. \<forall>a \<in> A. \<forall>d. \<exists>w' \<in> I. chip_read n (ra a) [d] w = Some (1, [m w a], w') \<and> m w' = m w)"

end
