(* ===== verification/Ch_Isla216p.thy ===== *)
theory Ch_Isla216p
  imports Chip
begin

text \<open>
  The converter ISLA216P on SPI: include/chips/isla216p_regs.h and src/sm_io/chips/sm_ch_isla216p.c. The reset
  that the source has between \<open>#if 0\<close> and \<open>#endif\<close> is not part of it.
\<close>

section \<open>The registers\<close>

definition ISLA216P_HDR_RW :: u32 where "ISLA216P_HDR_RW = WBGEN2_GEN_MASK 15 1"
definition ISLA216P_HDR_BT_MASK :: u32 where "ISLA216P_HDR_BT_MASK = WBGEN2_GEN_MASK 13 2"
definition ISLA216P_HDR_BT_W :: "u32 \<Rightarrow> u32" where "ISLA216P_HDR_BT_W v = WBGEN2_GEN_WRITE v 13 2"
definition ISLA216P_HDR_BT_R :: "u32 \<Rightarrow> u32" where "ISLA216P_HDR_BT_R v = WBGEN2_GEN_READ v 13 2"
definition ISLA216P_HDR_ADDR_MASK :: u32 where "ISLA216P_HDR_ADDR_MASK = WBGEN2_GEN_MASK 0 13"
definition ISLA216P_HDR_ADDR_W :: "u32 \<Rightarrow> u32" where "ISLA216P_HDR_ADDR_W v = WBGEN2_GEN_WRITE v 0 13"
definition ISLA216P_HDR_ADDR_R :: "u32 \<Rightarrow> u32" where "ISLA216P_HDR_ADDR_R v = WBGEN2_GEN_READ v 0 13"
definition ISLA216P_INSTADDR_SIZE :: nat where "ISLA216P_INSTADDR_SIZE = 16"
definition ISLA216P_DATA_MASK :: u32 where "ISLA216P_DATA_MASK = WBGEN2_GEN_MASK 0 8"
definition ISLA216P_DATA_W :: "u32 \<Rightarrow> u32" where "ISLA216P_DATA_W v = WBGEN2_GEN_WRITE v 0 8"
definition ISLA216P_DATA_R :: "u32 \<Rightarrow> u32" where "ISLA216P_DATA_R v = WBGEN2_GEN_READ v 0 8"
definition ISLA216P_TRANS_SIZE :: nat where "ISLA216P_TRANS_SIZE = 24"
definition ISLA216P_REG_PORTCONFIG :: u8 where "ISLA216P_REG_PORTCONFIG = 0x0"
definition ISLA216P_PORTCONFIG_SDO_ACTIVE_LSB :: u32 where "ISLA216P_PORTCONFIG_SDO_ACTIVE_LSB = WBGEN2_GEN_MASK 0 1"
definition ISLA216P_PORTCONFIG_LSB_FIRST_LSB :: u32 where "ISLA216P_PORTCONFIG_LSB_FIRST_LSB = WBGEN2_GEN_MASK 1 1"
definition ISLA216P_PORTCONFIG_SOFT_RESET_LSB :: u32 where "ISLA216P_PORTCONFIG_SOFT_RESET_LSB = WBGEN2_GEN_MASK 2 1"
definition ISLA216P_PORTCONFIG_SOFT_RESET_MSB :: u32 where "ISLA216P_PORTCONFIG_SOFT_RESET_MSB = WBGEN2_GEN_MASK 5 1"
definition ISLA216P_PORTCONFIG_MSB_FIRST_MSB :: u32 where "ISLA216P_PORTCONFIG_MSB_FIRST_MSB = WBGEN2_GEN_MASK 6 1"
definition ISLA216P_PORTCONFIG_SDO_ACTIVE_MSB :: u32 where "ISLA216P_PORTCONFIG_SDO_ACTIVE_MSB = WBGEN2_GEN_MASK 7 1"
definition ISLA216P_REG_SPI_BURSTEND :: u8 where "ISLA216P_REG_SPI_BURSTEND = 0x2"
definition ISLA216P_REG_CHIPID :: u8 where "ISLA216P_REG_CHIPID = 0x8"
definition ISLA216P_CHIPID_MASK :: u32 where "ISLA216P_CHIPID_MASK = WBGEN2_GEN_MASK 0 8"
definition ISLA216P_CHIPID_W :: "u32 \<Rightarrow> u32" where "ISLA216P_CHIPID_W v = WBGEN2_GEN_WRITE v 0 8"
definition ISLA216P_CHIPID_R :: "u32 \<Rightarrow> u32" where "ISLA216P_CHIPID_R v = WBGEN2_GEN_READ v 0 8"
definition ISLA216P_REG_CHIPVER :: u8 where "ISLA216P_REG_CHIPVER = 0x9"
definition ISLA216P_CHIPVER_MASK :: u32 where "ISLA216P_CHIPVER_MASK = WBGEN2_GEN_MASK 0 8"
definition ISLA216P_CHIPVER_W :: "u32 \<Rightarrow> u32" where "ISLA216P_CHIPVER_W v = WBGEN2_GEN_WRITE v 0 8"
definition ISLA216P_CHIPVER_R :: "u32 \<Rightarrow> u32" where "ISLA216P_CHIPVER_R v = WBGEN2_GEN_READ v 0 8"
definition ISLA216P_REG_MODESADC0 :: u8 where "ISLA216P_REG_MODESADC0 = 0x25"
definition ISLA216P_REG_MODESADC1 :: u8 where "ISLA216P_REG_MODESADC1 = 0x2b"
definition ISLA216P_REG_CLKDIV :: u8 where "ISLA216P_REG_CLKDIV = 0x72"
definition ISLA216P_REG_OUTMODEA :: u8 where "ISLA216P_REG_OUTMODEA = 0x73"
definition ISLA216P_OUTMODEA_FMT_MASK :: u32 where "ISLA216P_OUTMODEA_FMT_MASK = WBGEN2_GEN_MASK 0 3"
definition ISLA216P_OUTMODEA_FMT_W :: "u32 \<Rightarrow> u32" where "ISLA216P_OUTMODEA_FMT_W v = WBGEN2_GEN_WRITE v 0 3"
definition ISLA216P_OUTMODEA_FMT_R :: "u32 \<Rightarrow> u32" where "ISLA216P_OUTMODEA_FMT_R v = WBGEN2_GEN_READ v 0 3"
definition ISLA216P_OUTMODEA_FMT_2COMPL :: u32 where "ISLA216P_OUTMODEA_FMT_2COMPL = 0"
definition ISLA216P_OUTMODEA_FMT_GRAYCODE :: u32 where "ISLA216P_OUTMODEA_FMT_GRAYCODE = 2"
definition ISLA216P_OUTMODEA_FMT_OFSBIN :: u32 where "ISLA216P_OUTMODEA_FMT_OFSBIN = 4"
definition ISLA216P_OUTMODEA_MODE_MASK :: u32 where "ISLA216P_OUTMODEA_MODE_MASK = WBGEN2_GEN_MASK 5 3"
definition ISLA216P_OUTMODEA_MODE_W :: "u32 \<Rightarrow> u32" where "ISLA216P_OUTMODEA_MODE_W v = WBGEN2_GEN_WRITE v 5 3"
definition ISLA216P_OUTMODEA_MODE_R :: "u32 \<Rightarrow> u32" where "ISLA216P_OUTMODEA_MODE_R v = WBGEN2_GEN_READ v 5 3"
definition ISLA216P_OUTMODA_MODE_LVDS3 :: u32 where "ISLA216P_OUTMODA_MODE_LVDS3 = 0"
definition ISLA216P_OUTMODA_MODE_LVDS2 :: u32 where "ISLA216P_OUTMODA_MODE_LVDS2 = 1"
definition ISLA216P_OUTMODA_MODE_LVCMOS :: u32 where "ISLA216P_OUTMODA_MODE_LVCMOS = 4"
definition ISLA216P_OUTMODEB_REG :: u32 where "ISLA216P_OUTMODEB_REG = 116"
definition ISLA216P_REG_CALSTATUS :: u8 where "ISLA216P_REG_CALSTATUS = 0xb6"
definition ISLA216P_CALCSTATUS_CALCDONE :: u32 where "ISLA216P_CALCSTATUS_CALCDONE = WBGEN2_GEN_MASK 0 1"
definition ISLA216P_REG_TESTIO :: u8 where "ISLA216P_REG_TESTIO = 0xc0"
definition ISLA216P_TESTIO_USRMODE_MASK :: u32 where "ISLA216P_TESTIO_USRMODE_MASK = WBGEN2_GEN_MASK 0 3"
definition ISLA216P_TESTIO_USRMODE_W :: "u32 \<Rightarrow> u32" where "ISLA216P_TESTIO_USRMODE_W v = WBGEN2_GEN_WRITE v 0 3"
definition ISLA216P_TESTIO_USRMODE_R :: "u32 \<Rightarrow> u32" where "ISLA216P_TESTIO_USRMODE_R v = WBGEN2_GEN_READ v 0 3"
definition ISLA216P_TESTIO_USRMODE_USRPAT1 :: u32 where "ISLA216P_TESTIO_USRMODE_USRPAT1 = 0"
definition ISLA216P_TESTIO_USRMODE_CYCPAT13 :: u32 where "ISLA216P_TESTIO_USRMODE_CYCPAT13 = 1"
definition ISLA216P_TESTIO_USRMODE_CYCPAT135 :: u32 where "ISLA216P_TESTIO_USRMODE_CYCPAT135 = 2"
definition ISLA216P_TESTIO_USRMODE_CYCPAT1357 :: u32 where "ISLA216P_TESTIO_USRMODE_CYCPAT1357 = 3"
definition ISLA216P_TESTIO_OUTMODE_MASK :: u32 where "ISLA216P_TESTIO_OUTMODE_MASK = WBGEN2_GEN_MASK 4 4"
definition ISLA216P_TESTIO_OUTMODE_W :: "u32 \<Rightarrow> u32" where "ISLA216P_TESTIO_OUTMODE_W v = WBGEN2_GEN_WRITE v 4 4"
definition ISLA216P_TESTIO_OUTMODE_R :: "u32 \<Rightarrow> u32" where "ISLA216P_TESTIO_OUTMODE_R v = WBGEN2_GEN_READ v 4 4"
definition ISLA216P_TESTIO_OUTMODE_OFF :: u32 where "ISLA216P_TESTIO_OUTMODE_OFF = 0"
definition ISLA216P_TESTIO_OUTMODE_MIDSHORT :: u32 where "ISLA216P_TESTIO_OUTMODE_MIDSHORT = 1"
definition ISLA216P_TESTIO_OUTMODE_PLUS_FSSHORT :: u32 where "ISLA216P_TESTIO_OUTMODE_PLUS_FSSHORT = 2"
definition ISLA216P_TESTIO_OUTMODE_MINUS_FSSHORT :: u32 where "ISLA216P_TESTIO_OUTMODE_MINUS_FSSHORT = 3"
definition ISLA216P_TESTIO_OUTMODE_RES0 :: u32 where "ISLA216P_TESTIO_OUTMODE_RES0 = 4"
definition ISLA216P_TESTIO_OUTMODE_RES1 :: u32 where "ISLA216P_TESTIO_OUTMODE_RES1 = 5"
definition ISLA216P_TESTIO_OUTMODE_RES2 :: u32 where "ISLA216P_TESTIO_OUTMODE_RES2 = 6"
definition ISLA216P_TESTIO_OUTMODE_RES3 :: u32 where "ISLA216P_TESTIO_OUTMODE_RES3 = 7"
definition ISLA216P_TESTIO_OUTMODE_USRPAT :: u32 where "ISLA216P_TESTIO_OUTMODE_USRPAT = 8"
definition ISLA216P_TESTIO_OUTMODE_RES4 :: u32 where "ISLA216P_TESTIO_OUTMODE_RES4 = 9"
definition ISLA216P_TESTIO_OUTMODE_RAMP :: u32 where "ISLA216P_TESTIO_OUTMODE_RAMP = 10"
definition ISLA216P_TESTIO_OUTMODE_RES5 :: u32 where "ISLA216P_TESTIO_OUTMODE_RES5 = 11"
definition ISLA216P_TESTIO_OUTMODE_RES6 :: u32 where "ISLA216P_TESTIO_OUTMODE_RES6 = 12"
definition ISLA216P_TESTIO_OUTMODE_RES7 :: u32 where "ISLA216P_TESTIO_OUTMODE_RES7 = 13"
definition ISLA216P_TESTIO_OUTMODE_RES8 :: u32 where "ISLA216P_TESTIO_OUTMODE_RES8 = 14"
definition ISLA216P_TESTIO_OUTMODE_RES9 :: u32 where "ISLA216P_TESTIO_OUTMODE_RES9 = 15"
definition ISLA216P_REG_NAPSLP :: u8 where "ISLA216P_REG_NAPSLP = 0x25"
definition ISLA216P_NAPSLP_MASK :: u32 where "ISLA216P_NAPSLP_MASK = WBGEN2_GEN_MASK 0 3"
definition ISLA216P_NAPSLP_W :: "u32 \<Rightarrow> u32" where "ISLA216P_NAPSLP_W v = WBGEN2_GEN_WRITE v 0 3"
definition ISLA216P_NAPSLP_R :: "u32 \<Rightarrow> u32" where "ISLA216P_NAPSLP_R v = WBGEN2_GEN_READ v 0 3"
definition ISLA216P_NAPSLP_PIN_CONTROL :: u32 where "ISLA216P_NAPSLP_PIN_CONTROL = 0"
definition ISLA216P_NAPSLP_NORMAL_OPERATION :: u32 where "ISLA216P_NAPSLP_NORMAL_OPERATION = 1"
definition ISLA216P_NAPSLP_NAP_MODE :: u32 where "ISLA216P_NAPSLP_NAP_MODE = 2"
definition ISLA216P_NAPSLP_SLEEP_MODE :: u32 where "ISLA216P_NAPSLP_SLEEP_MODE = 4"
definition ISLA216P_REG_TEMP_COUNTER_HIGH :: u8 where "ISLA216P_REG_TEMP_COUNTER_HIGH = 0x4b"
definition ISLA216P_TEMP_COUNTER_HIGH_MASK :: u32 where "ISLA216P_TEMP_COUNTER_HIGH_MASK = WBGEN2_GEN_MASK 0 3"
definition ISLA216P_TEMP_COUNTER_HIGH_W :: "u32 \<Rightarrow> u32" where "ISLA216P_TEMP_COUNTER_HIGH_W v = WBGEN2_GEN_WRITE v 0 3"
definition ISLA216P_TEMP_COUNTER_HIGH_R :: "u32 \<Rightarrow> u32" where "ISLA216P_TEMP_COUNTER_HIGH_R v = WBGEN2_GEN_READ v 0 3"
definition ISLA216P_TEMP_CTL_VALID_READ :: u32 where "ISLA216P_TEMP_CTL_VALID_READ = WBGEN2_GEN_MASK 7 1"
definition ISLA216P_REG_TEMP_COUNTER_LOW :: u8 where "ISLA216P_REG_TEMP_COUNTER_LOW = 0x4c"
definition ISLA216P_TEMP_COUNTER_LOW_MASK :: u32 where "ISLA216P_TEMP_COUNTER_LOW_MASK = WBGEN2_GEN_MASK 0 8"
definition ISLA216P_TEMP_COUNTER_LOW_W :: "u32 \<Rightarrow> u32" where "ISLA216P_TEMP_COUNTER_LOW_W v = WBGEN2_GEN_WRITE v 0 8"
definition ISLA216P_TEMP_COUNTER_LOW_R :: "u32 \<Rightarrow> u32" where "ISLA216P_TEMP_COUNTER_LOW_R v = WBGEN2_GEN_READ v 0 8"
definition ISLA216P_TEMP_COUNTER_MASK :: u32 where "ISLA216P_TEMP_COUNTER_MASK = WBGEN2_GEN_MASK 0 11"
definition ISLA216P_REG_TEMP_CTL :: u8 where "ISLA216P_REG_TEMP_CTL = 0x4d"
definition ISLA216P_TEMP_CTL_SELECT :: u32 where "ISLA216P_TEMP_CTL_SELECT = WBGEN2_GEN_MASK 0 1"
definition ISLA216P_TEMP_CTL_DIVIDER_MASK :: u32 where "ISLA216P_TEMP_CTL_DIVIDER_MASK = WBGEN2_GEN_MASK 1 3"
definition ISLA216P_TEMP_CTL_DIVIDER_W :: "u32 \<Rightarrow> u32" where "ISLA216P_TEMP_CTL_DIVIDER_W v = WBGEN2_GEN_WRITE v 1 3"
definition ISLA216P_TEMP_CTL_DIVIDER_R :: "u32 \<Rightarrow> u32" where "ISLA216P_TEMP_CTL_DIVIDER_R v = WBGEN2_GEN_READ v 1 3"
definition ISLA216P_TEMP_CTL_DIVIDER_REC_VALUE :: u32 where "ISLA216P_TEMP_CTL_DIVIDER_REC_VALUE = 5"
definition ISLA216P_TEMP_CTL_RESET :: u32 where "ISLA216P_TEMP_CTL_RESET = WBGEN2_GEN_MASK 4 1"
definition ISLA216P_TEMP_CTL_PD :: u32 where "ISLA216P_TEMP_CTL_PD = WBGEN2_GEN_MASK 5 1"
definition ISLA216P_TEMP_CTL_ENABLE :: u32 where "ISLA216P_TEMP_CTL_ENABLE = WBGEN2_GEN_MASK 6 1"
definition ISLA216P_TEMP_CTL_PTAT_MODE_EN :: u32 where "ISLA216P_TEMP_CTL_PTAT_MODE_EN = WBGEN2_GEN_MASK 7 1"
definition ISLA216P_DATA_SIZE :: nat where "ISLA216P_DATA_SIZE = 8"
definition ISLA216P_TEMP_COUNTER_LOW_SIZE :: nat where "ISLA216P_TEMP_COUNTER_LOW_SIZE = 8"


definition ISLA216P_PORTCONFIG_SDO_ACTIVE :: u32 where
  "ISLA216P_PORTCONFIG_SDO_ACTIVE = ISLA216P_PORTCONFIG_SDO_ACTIVE_LSB OR ISLA216P_PORTCONFIG_SDO_ACTIVE_MSB"
definition ISLA216P_PORTCONFIG_LSB_FIRST :: u32 where
  "ISLA216P_PORTCONFIG_LSB_FIRST = ISLA216P_PORTCONFIG_LSB_FIRST_LSB OR ISLA216P_PORTCONFIG_MSB_FIRST_MSB"
definition ISLA216P_PORTCONFIG_SOFT_RESET :: u32 where
  "ISLA216P_PORTCONFIG_SOFT_RESET = ISLA216P_PORTCONFIG_SOFT_RESET_LSB OR ISLA216P_PORTCONFIG_SOFT_RESET_MSB"
definition ISLA216P_TEMP_COUNTER_R :: "u32 \<Rightarrow> u32 \<Rightarrow> u32" where
  "ISLA216P_TEMP_COUNTER_R high low =
     push_bit ISLA216P_TEMP_COUNTER_LOW_SIZE (ISLA216P_TEMP_COUNTER_HIGH_R high) OR ISLA216P_TEMP_COUNTER_LOW_R low"

definition SMCH_ISLA216P_NAME :: string where "SMCH_ISLA216P_NAME = ''ISLA216P''"

section \<open>Accesses\<close>

definition s_smch_isla216p_write_8 :: "u8 \<Rightarrow> u8 \<Rightarrow> ('a, 'b, 'd, 'o, 'h, 'p) chip \<Rightarrow> (int \<times> ('a, 'b, 'd, 'o, 'h, 'p) chip) option" where
  "s_smch_isla216p_write_8 addr data w = do {
     let a = NOT ISLA216P_HDR_RW AND (ISLA216P_HDR_BT_W 0 OR ISLA216P_HDR_ADDR_W (ucast addr));
     (smpr_err, w1) \<leftarrow> chip_write (ISLA216P_INSTADDR_SIZE div SMPR_BYTE_2_BIT) (ucast a)
       (take (ISLA216P_DATA_SIZE div SMPR_BYTE_2_BIT) (le_bytes 4 (ISLA216P_DATA_W (ucast data)))) w;
     Some (if 0 < smpr_err \<and> smpr_err = int (ISLA216P_DATA_SIZE div SMPR_BYTE_2_BIT) then 1 else -1, w1) }"

definition s_smch_isla216p_read_8 :: "u8 \<Rightarrow> u8 \<Rightarrow> ('a, 'b, 'd, 'o, 'h, 'p) chip \<Rightarrow> (int \<times> u8 \<times> ('a, 'b, 'd, 'o, 'h, 'p) chip) option" where
  "s_smch_isla216p_read_8 addr data w = do {
     let a = ISLA216P_HDR_RW OR (ISLA216P_HDR_BT_W 0 OR ISLA216P_HDR_ADDR_W (ucast addr));
     (smpr_err, b, w1) \<leftarrow> chip_read (ISLA216P_INSTADDR_SIZE div SMPR_BYTE_2_BIT) (ucast a) [data] w;
     Some (if 0 < smpr_err \<and> smpr_err = int (ISLA216P_DATA_SIZE div SMPR_BYTE_2_BIT) then 1 else -1, hd b, w1) }"

definition smch_isla216p_write_8 :: "u8 \<Rightarrow> u8 \<Rightarrow> ('a, 'b, 'd, 'o, 'h, 'p) chip \<Rightarrow> (smch_err \<times> ('a, 'b, 'd, 'o, 'h, 'p) chip) option" where
  "smch_isla216p_write_8 addr data w =
     map_option (\<lambda>(r, w1). (if r = 1 then SMCH_SUCCESS else SMCH_ERR_RW_SMPR, w1)) (s_smch_isla216p_write_8 addr data w)"

definition smch_isla216p_read_8 :: "u8 \<Rightarrow> u8 \<Rightarrow> ('a, 'b, 'd, 'o, 'h, 'p) chip \<Rightarrow> (smch_err \<times> u8 \<times> ('a, 'b, 'd, 'o, 'h, 'p) chip) option" where
  "smch_isla216p_read_8 addr data w =
     map_option (\<lambda>(r, b, w1). (if r = 1 then SMCH_SUCCESS else SMCH_ERR_RW_SMPR, b, w1)) (s_smch_isla216p_read_8 addr data w)"

section \<open>Settings\<close>

definition smch_isla216p_set_test_mode :: "u8 \<Rightarrow> ('a, 'b, 'd, 'o, 'h, 'p) chip \<Rightarrow> (smch_err \<times> ('a, 'b, 'd, 'o, 'h, 'p) chip) option" where
  "smch_isla216p_set_test_mode test_mode w = do {
     (rw_err, data, w1) \<leftarrow> s_smch_isla216p_read_8 ISLA216P_REG_TESTIO 0 w;
     if rw_err \<noteq> 1 then Some (SMCH_ERR_RW_SMPR, w1)
     else do {
       let data1 = (ucast data AND NOT ISLA216P_TESTIO_OUTMODE_MASK) OR ISLA216P_TESTIO_OUTMODE_W (ucast test_mode);
       smch_isla216p_write_8 ISLA216P_REG_TESTIO (ucast data1) w1 } }"

text \<open>Without success the variable of the caller keeps its value, unless it is the one read into.\<close>

definition smch_isla216p_get_chipid :: "u8 \<Rightarrow> ('a, 'b, 'd, 'o, 'h, 'p) chip \<Rightarrow> (smch_err \<times> u8 \<times> ('a, 'b, 'd, 'o, 'h, 'p) chip) option" where
  "smch_isla216p_get_chipid chipid w = smch_isla216p_read_8 ISLA216P_REG_CHIPID chipid w"

definition smch_isla216p_get_chipver :: "u8 \<Rightarrow> ('a, 'b, 'd, 'o, 'h, 'p) chip \<Rightarrow> (smch_err \<times> u8 \<times> ('a, 'b, 'd, 'o, 'h, 'p) chip) option" where
  "smch_isla216p_get_chipver chipver w = smch_isla216p_read_8 ISLA216P_REG_CHIPVER chipver w"

definition smch_isla216p_get_cal_status :: "u8 \<Rightarrow> ('a, 'b, 'd, 'o, 'h, 'p) chip \<Rightarrow> (smch_err \<times> u8 \<times> ('a, 'b, 'd, 'o, 'h, 'p) chip) option" where
  "smch_isla216p_get_cal_status cal_status w = do {
     (err, data, w1) \<leftarrow> smch_isla216p_read_8 ISLA216P_REG_CALSTATUS 0 w;
     Some (err, if err \<noteq> SMCH_SUCCESS then cal_status else ucast (ucast data AND ISLA216P_CALCSTATUS_CALCDONE), w1) }"

definition smch_isla216p_set_rst :: "u8 \<Rightarrow> ('a, 'b, 'd, 'o, 'h, 'p) chip \<Rightarrow> (smch_err \<times> ('a, 'b, 'd, 'o, 'h, 'p) chip) option" where
  "smch_isla216p_set_rst rst_operation w =
     (if \<not> ucast rst_operation \<le> ISLA216P_NAPSLP_SLEEP_MODE then Some (SMCH_ERR_INV_FUNC_PARAM, w)
      else smch_isla216p_write_8 ISLA216P_REG_NAPSLP (ucast (ISLA216P_NAPSLP_W (ucast rst_operation))) w)"

definition smch_isla216p_get_rst :: "u8 \<Rightarrow> ('a, 'b, 'd, 'o, 'h, 'p) chip \<Rightarrow> (smch_err \<times> u8 \<times> ('a, 'b, 'd, 'o, 'h, 'p) chip) option" where
  "smch_isla216p_get_rst rst_operation w = do {
     (err, data, w1) \<leftarrow> smch_isla216p_read_8 ISLA216P_REG_NAPSLP 0 w;
     Some (err, if err \<noteq> SMCH_SUCCESS then rst_operation else ucast (ISLA216P_NAPSLP_R (ucast data)), w1) }"

definition smch_isla216p_set_portconfig :: "u8 \<Rightarrow> ('a, 'b, 'd, 'o, 'h, 'p) chip \<Rightarrow> (smch_err \<times> ('a, 'b, 'd, 'o, 'h, 'p) chip) option" where
  "smch_isla216p_set_portconfig config w = smch_isla216p_write_8 ISLA216P_REG_PORTCONFIG config w"

text \<open>The temperature counter: reset, started, stopped, read; valid only with the bit of a valid
  reading, and switched off once more.\<close>

definition smch_isla216p_get_temp :: "u16 \<Rightarrow> ('a, 'b, 'd, 'o, 'h, 'p) chip \<Rightarrow> (smch_err \<times> u16 \<times> ('a, 'b, 'd, 'o, 'h, 'p) chip) option" where
  "smch_isla216p_get_temp temp w = do {
     (e1, w1) \<leftarrow> smch_isla216p_write_8 ISLA216P_REG_TEMP_CTL (ucast ISLA216P_TEMP_CTL_RESET) w;
     if e1 \<noteq> SMCH_SUCCESS then Some (SMCH_ERR_RW_SMPR, temp, w1)
     else do {
       (e2, w2) \<leftarrow> smch_isla216p_write_8 ISLA216P_REG_TEMP_CTL (ucast (ISLA216P_TEMP_CTL_PTAT_MODE_EN OR
         ISLA216P_TEMP_CTL_ENABLE OR ISLA216P_TEMP_CTL_DIVIDER_W ISLA216P_TEMP_CTL_DIVIDER_REC_VALUE)) w1;
       if e2 \<noteq> SMCH_SUCCESS then Some (SMCH_ERR_RW_SMPR, temp, w2)
       else do {
         (e3, w3) \<leftarrow> smch_isla216p_write_8 ISLA216P_REG_TEMP_CTL (ucast ISLA216P_TEMP_CTL_PD) w2;
         if e3 \<noteq> SMCH_SUCCESS then Some (SMCH_ERR_RW_SMPR, temp, w3)
         else do {
           (r1, high, w4) \<leftarrow> s_smch_isla216p_read_8 ISLA216P_REG_TEMP_COUNTER_HIGH 0 w3;
           (r2, low, w5) \<leftarrow> s_smch_isla216p_read_8 ISLA216P_REG_TEMP_COUNTER_LOW 0 w4;
           if r1 + r2 \<noteq> 2 then Some (SMCH_ERR_RW_SMPR, temp, w5)
           else if ucast high AND ISLA216P_TEMP_CTL_VALID_READ = 0 then Some (SMCH_ERR_RW_SMPR, temp, w5)
           else do {
             let code = ISLA216P_TEMP_COUNTER_R (ucast high) (ucast low);
             (e4, w6) \<leftarrow> smch_isla216p_write_8 ISLA216P_REG_TEMP_CTL (ucast ISLA216P_TEMP_CTL_PD) w5;
             Some (e4, ucast code, w6) } } } } }"

section \<open>Start and end\<close>

definition s_smch_isla216p_init :: "('a, 'b, 'd, 'o, 'h, 'p) chip \<Rightarrow> (smch_err \<times> ('a, 'b, 'd, 'o, 'h, 'p) chip) option" where
  "s_smch_isla216p_init w = do {
     (err, w1) \<leftarrow> smch_isla216p_set_portconfig (ucast ISLA216P_PORTCONFIG_SDO_ACTIVE) w;
     if err \<noteq> SMCH_SUCCESS then Some (err, w1)
     else smch_isla216p_set_rst (ucast ISLA216P_NAPSLP_NORMAL_OPERATION) w1 }"

definition smch_isla216p_new ::
  "bool \<Rightarrow> (nat \<Rightarrow> bool) \<Rightarrow> ('o, 'h, 'p) smio \<Rightarrow> u64 \<Rightarrow> ('a, 'b, 'd, 'o, 'h, 'p) smpr_proto_ops option \<Rightarrow> 'd \<Rightarrow> int \<Rightarrow>
     'p \<Rightarrow> (('a, 'b, 'd, 'o, 'h, 'p) smpr option \<times> 'p) option" where
  "smch_isla216p_new ok al parent base reg_ops d verb p = do {
     r \<leftarrow> chip_open ok al SMCH_ISLA216P_NAME parent reg_ops d verb base None p;
     chip_start s_smch_isla216p_init r }"

definition smch_isla216p_destroy ::
  "('a, 'b, 'd, 'o, 'h, 'p) smpr option \<Rightarrow> (smch_err \<times> ('a, 'b, 'd, 'o, 'h, 'p) smpr option) option" where
  "smch_isla216p_destroy self_p = chip_destroy self_p"

end
