(* ===== verification/Defaults.thy ===== *)
theory Defaults
  imports Client_Facts Ch_Isla216p
begin

text \<open>
  The default values of the modules (src/sm_io/modules/*/*_defaults.c): after a module has exported its
  operations, a thread makes a client of its own and calls the module's client functions with the
  defaults. The theorem at the end: for the modules of parameters every default is accepted and arrives
  in its register.
\<close>

section \<open>Sequences of calls\<close>

text \<open>A call of a client function with its arguments, on a client and a service.\<close>

type_synonym 'p client_call = "'p halcs_client \<Rightarrow> string \<Rightarrow> 'p \<Rightarrow> (int \<times> 'p) option"

text \<open>Calls with \<open>ASSERT_TEST\<close> after each: the first that fails ends the sequence.\<close>

fun until_error :: "'p client_call list \<Rightarrow> 'p client_call" where
  "until_error [] self service p = Some (HALCS_CLIENT_SUCCESS, p)"
| "until_error (f # fs) self service p = do {
     (client_err, p1) \<leftarrow> f self service p;
     if client_err \<noteq> HALCS_CLIENT_SUCCESS then Some (client_err, p1) else until_error fs self service p1 }"

text \<open>Calls joined by \<open>client_err |= ...\<close>.\<close>

fun calls_or :: "'p client_call list \<Rightarrow> 'p client_call" where
  "calls_or [] self service p = Some (HALCS_CLIENT_SUCCESS, p)"
| "calls_or (f # fs) self service p = do {
     (e, p1) \<leftarrow> f self service p;
     (e', p2) \<leftarrow> calls_or fs self service p1;
     Some (e OR e', p2) }"

text \<open>Calls that each assign \<open>client_err\<close> without a test: the status of the last remains.\<close>

fun calls_last :: "'p client_call list \<Rightarrow> int \<Rightarrow> 'p client_call" where
  "calls_last [] e self service p = Some (e, p)"
| "calls_last (f # fs) e self service p = do { (e', p1) \<leftarrow> f self service p; calls_last fs e' self service p1 }"

text \<open>A call that reads into a variable nobody uses.\<close>

definition reading :: "('p halcs_client \<Rightarrow> string \<Rightarrow> 'p \<Rightarrow> (int \<times> u32 \<times> 'p) option) \<Rightarrow> 'p client_call" where
  "reading f self service p = map_option (\<lambda>(e, v, p'). (e, p')) (f self service p)"

text \<open>The frame of every function: make a client, call, destroy the client. Without a client the status
  is a success. The result: the status and what is still held.\<close>

definition with_config_client ::
  "(nat \<Rightarrow> bool) \<Rightarrow> 'p mlm_client \<Rightarrow> int \<Rightarrow> 'p client_call \<Rightarrow> string \<Rightarrow> 'p \<Rightarrow> (smio_err \<times> client_res list \<times> 'p) option" where
  "with_config_client ok mlm rc calls service p =
     (let (config_client, res) = halcs_client_new_log_mode ok mlm rc
      in case config_client of
           None \<Rightarrow> Some (SMIO_SUCCESS, res, p)
         | Some self \<Rightarrow> do {
             (client_err, p') \<leftarrow> calls self service p;
             Some (if client_err = HALCS_CLIENT_SUCCESS then SMIO_SUCCESS else SMIO_ERR_CONFIG_DFLT,
               snd (halcs_client_destroy (config_client, res)), p') })"

type_synonym 'p config_defaults = "(nat \<Rightarrow> bool) \<Rightarrow> 'p mlm_client \<Rightarrow> int \<Rightarrow> string \<Rightarrow> 'p \<Rightarrow> (smio_err \<times> client_res list \<times> 'p) option"

section \<open>The modules\<close>

text \<open>The doubles of the headers as their 64 bits: 155.49, 100 and 113.040445 MHz, and 31.5 dB.\<close>

definition AFC_MGMT_DFLT_SI571_OE :: u32 where "AFC_MGMT_DFLT_SI571_OE = 0x1"
definition AFC_MGMT_DFLT_SI57X_FOUT_FACTORY :: u64 where "AFC_MGMT_DFLT_SI57X_FOUT_FACTORY = 0x41a2892da0000000"
definition AFC_MGMT_DFLT_SI57X_FOUT :: u64 where "AFC_MGMT_DFLT_SI57X_FOUT = 0x4197d78400000000"
definition AFC_TIMING_DFLT_RTM_RFREQ_HI :: u32 where "AFC_TIMING_DFLT_RTM_RFREQ_HI = 0x3017"
definition AFC_TIMING_DFLT_RTM_RFREQ_LO :: u32 where "AFC_TIMING_DFLT_RTM_RFREQ_LO = 0xa66ad"
definition AFC_TIMING_DFLT_RTM_N1 :: u32 where "AFC_TIMING_DFLT_RTM_N1 = 0x3"
definition AFC_TIMING_DFLT_RTM_HS_DIV :: u32 where "AFC_TIMING_DFLT_RTM_HS_DIV = 0x7"
definition AFC_TIMING_DFLT_AFC_RFREQ_HI :: u32 where "AFC_TIMING_DFLT_AFC_RFREQ_HI = 0x2bb8"
definition AFC_TIMING_DFLT_AFC_RFREQ_LO :: u32 where "AFC_TIMING_DFLT_AFC_RFREQ_LO = 0x68be3"
definition AFC_TIMING_DFLT_AFC_N1 :: u32 where "AFC_TIMING_DFLT_AFC_N1 = 0x7"
definition AFC_TIMING_DFLT_AFC_HS_DIV :: u32 where "AFC_TIMING_DFLT_AFC_HS_DIV = 0x5"
definition AFC_TIMING_DFLT_AFC_FREQ_KP :: u32 where "AFC_TIMING_DFLT_AFC_FREQ_KP = 0x1"
definition AFC_TIMING_DFLT_AFC_FREQ_KI :: u32 where "AFC_TIMING_DFLT_AFC_FREQ_KI = 0xc00"
definition AFC_TIMING_DFLT_AFC_PHASE_KP :: u32 where "AFC_TIMING_DFLT_AFC_PHASE_KP = 0xa"
definition AFC_TIMING_DFLT_AFC_PHASE_KI :: u32 where "AFC_TIMING_DFLT_AFC_PHASE_KI = 0x0"
definition AFC_TIMING_DFLT_AFC_PHASE_NAVG :: u32 where "AFC_TIMING_DFLT_AFC_PHASE_NAVG = 0x7"
definition AFC_TIMING_DFLT_AFC_PHASE_DIV :: u32 where "AFC_TIMING_DFLT_AFC_PHASE_DIV = 0x1"
definition DSP_DFLT_KX_VAL :: u32 where "DSP_DFLT_KX_VAL = 10000000"
definition DSP_DFLT_KY_VAL :: u32 where "DSP_DFLT_KY_VAL = 10000000"
definition DSP_DFLT_KSUM_VAL :: u32 where "DSP_DFLT_KSUM_VAL = 1"
definition DSP_DFLT_DS_TBT_THRES :: u32 where "DSP_DFLT_DS_TBT_THRES = 0"
definition DSP_DFLT_DS_FOFB_THRES :: u32 where "DSP_DFLT_DS_FOFB_THRES = 0"
definition DSP_DFLT_DS_MONIT_THRES :: u32 where "DSP_DFLT_DS_MONIT_THRES = 0"
definition FMC_100M_4CH_DFLT_SI571_OE :: u32 where "FMC_100M_4CH_DFLT_SI571_OE = 0x1"
definition FMC_100M_4CH_DFLT_SI57X_FOUT_FACTORY :: u64 where "FMC_100M_4CH_DFLT_SI57X_FOUT_FACTORY = 0x4197d78400000000"
definition FMC_100M_4CH_DFLT_SI57X_FOUT :: u64 where "FMC_100M_4CH_DFLT_SI57X_FOUT = 0x4197d78400000000"
definition FMC250M_4CH_DFLT_RST_ADCS :: u32 where "FMC250M_4CH_DFLT_RST_ADCS = 0x1"
definition FMC250M_4CH_DFLT_RST_DIV_ADCS :: u32 where "FMC250M_4CH_DFLT_RST_DIV_ADCS = 0x1"
definition FMC250M_4CH_DFLT_SLEEP_ADCS :: u32 where "FMC250M_4CH_DFLT_SLEEP_ADCS = 0x0"
definition FMC250M_4CH_DFLT_RST_MODE_ADC :: u32 where "FMC250M_4CH_DFLT_RST_MODE_ADC = ISLA216P_NAPSLP_NORMAL_OPERATION"
definition FMC250M_4CH_PINCTRL_RST_MODE_ADC :: u32 where "FMC250M_4CH_PINCTRL_RST_MODE_ADC = ISLA216P_NAPSLP_PIN_CONTROL"
definition FMC250M_4CH_DFLT_PORTCONFIG_ADC :: u32 where "FMC250M_4CH_DFLT_PORTCONFIG_ADC = ISLA216P_PORTCONFIG_SDO_ACTIVE"
definition FMC250M_4CH_DFLT_RESET_ADC :: u32 where "FMC250M_4CH_DFLT_RESET_ADC = ISLA216P_PORTCONFIG_SDO_ACTIVE OR ISLA216P_PORTCONFIG_SOFT_RESET"
definition FMC_ACTIVE_CLK_DFLT_PLL_FUNC :: u32 where "FMC_ACTIVE_CLK_DFLT_PLL_FUNC = 0x1"
definition FMC_ACTIVE_CLK_DFLT_CLK_SEL :: u32 where "FMC_ACTIVE_CLK_DFLT_CLK_SEL = 0x0"
definition FMC_ACTIVE_CLK_DFLT_SI571_OE :: u32 where "FMC_ACTIVE_CLK_DFLT_SI571_OE = 0x1"
definition FMC_ACTIVE_CLK_DFLT_SI57X_FOUT_FACTORY :: u64 where "FMC_ACTIVE_CLK_DFLT_SI57X_FOUT_FACTORY = 0x41a2892da0000000"
definition FMC_ACTIVE_CLK_DFLT_SI57X_FOUT :: u64 where "FMC_ACTIVE_CLK_DFLT_SI57X_FOUT = 0x419af370f4000000"
definition FMC_ACTIVE_CLK_DFLT_RST_ISLA216P :: u32 where "FMC_ACTIVE_CLK_DFLT_RST_ISLA216P = 0x1"
definition FMC_ACTIVE_CLK_DFLT_RST_SWAP :: u32 where "FMC_ACTIVE_CLK_DFLT_RST_SWAP = 0x1"
definition FMC_ADC_COMMON_DFLT_TRIG_DIR :: u32 where "FMC_ADC_COMMON_DFLT_TRIG_DIR = 0x0"
definition FMCPICO1M_4CH_DFLT_RNG :: u32 where "FMCPICO1M_4CH_DFLT_RNG = 1"
definition FOFB_CTRL_DFLT_CC_ENABLE :: u32 where "FOFB_CTRL_DFLT_CC_ENABLE = 0x1"
definition FOFB_CTRL_DFLT_TIME_FRAME_LEN :: u32 where "FOFB_CTRL_DFLT_TIME_FRAME_LEN = 0x1D4C"
definition FOFB_CTRL_DFLT_TIME_FRAME_DLY :: u32 where "FOFB_CTRL_DFLT_TIME_FRAME_DLY = 0"
definition FOFB_CTRL_DFLT_BPM_ID :: u32 where "FOFB_CTRL_DFLT_BPM_ID = 0xFFFFFFFF"
definition RFFE_DFLT_ATT :: u64 where "RFFE_DFLT_ATT = 0x403f800000000000"
definition SWAP_DFLT_SW :: u32 where "SWAP_DFLT_SW = 3"
definition SWAP_DFLT_SW_DLY :: u32 where "SWAP_DFLT_SW_DLY = 30"
definition SWAP_DFLT_DIV_CLK :: u32 where "SWAP_DFLT_DIV_CLK = 980"
definition TIM_RCV_DFLT_PHASE_MEAS_NAVG :: u32 where "TIM_RCV_DFLT_PHASE_MEAS_NAVG = 10"
definition TIM_RCV_DFLT_DMTD_A_DEGLITCH_THRES :: u32 where "TIM_RCV_DFLT_DMTD_A_DEGLITCH_THRES = 10"
definition TIM_RCV_DFLT_DMTD_B_DEGLITCH_THRES :: u32 where "TIM_RCV_DFLT_DMTD_B_DEGLITCH_THRES = 10"
definition TRIGGER_IFACE_DFLT_DIR :: u32 where "TRIGGER_IFACE_DFLT_DIR = 1"
definition TRIGGER_IFACE_DFLT_DIR_POL :: u32 where "TRIGGER_IFACE_DFLT_DIR_POL = 1"
definition TRIGGER_IFACE_DFLT_RCV_RST :: u32 where "TRIGGER_IFACE_DFLT_RCV_RST = 1"
definition TRIGGER_IFACE_DFLT_TRANSM_RST :: u32 where "TRIGGER_IFACE_DFLT_TRANSM_RST = 1"
definition TRIGGER_IFACE_DFLT_RCV_LEN :: u32 where "TRIGGER_IFACE_DFLT_RCV_LEN = 1"
definition TRIGGER_IFACE_DFLT_TRANSM_LEN :: u32 where "TRIGGER_IFACE_DFLT_TRANSM_LEN = 1"
definition TRIGGER_MUX_DFLT_RCV_SRC :: u32 where "TRIGGER_MUX_DFLT_RCV_SRC = 0"
definition TRIGGER_MUX_DFLT_RCV_IN_SEL :: u32 where "TRIGGER_MUX_DFLT_RCV_IN_SEL = 0"
definition TRIGGER_MUX_DFLT_TRANSM_SRC :: u32 where "TRIGGER_MUX_DFLT_TRANSM_SRC = 0"
definition TRIGGER_MUX_DFLT_TRANSM_IN_SEL :: u32 where "TRIGGER_MUX_DFLT_TRANSM_IN_SEL = 0"
definition TRIGGER_MUX_SW_CLK_CHAN :: u32 where "TRIGGER_MUX_SW_CLK_CHAN = 18"
definition TRIGGER_MUX_SW_CLK_DFLT_RCV_SRC :: u32 where "TRIGGER_MUX_SW_CLK_DFLT_RCV_SRC = 1"
definition TRIGGER_MUX_SW_CLK_DFLT_RCV_IN_SEL :: u32 where "TRIGGER_MUX_SW_CLK_DFLT_RCV_IN_SEL = 1"
definition TRIGGER_MUX_SW_CLK_DFLT_TRANSM_SRC :: u32 where "TRIGGER_MUX_SW_CLK_DFLT_TRANSM_SRC = 0"
definition TRIGGER_MUX_SW_CLK_DFLT_TRANSM_IN_SEL :: u32 where "TRIGGER_MUX_SW_CLK_DFLT_TRANSM_IN_SEL = 0"

lemmas dflts = AFC_MGMT_DFLT_SI571_OE_def AFC_MGMT_DFLT_SI57X_FOUT_FACTORY_def AFC_MGMT_DFLT_SI57X_FOUT_def
  AFC_TIMING_DFLT_RTM_RFREQ_HI_def AFC_TIMING_DFLT_RTM_RFREQ_LO_def AFC_TIMING_DFLT_RTM_N1_def
  AFC_TIMING_DFLT_RTM_HS_DIV_def AFC_TIMING_DFLT_AFC_RFREQ_HI_def AFC_TIMING_DFLT_AFC_RFREQ_LO_def
  AFC_TIMING_DFLT_AFC_N1_def AFC_TIMING_DFLT_AFC_HS_DIV_def AFC_TIMING_DFLT_AFC_FREQ_KP_def
  AFC_TIMING_DFLT_AFC_FREQ_KI_def AFC_TIMING_DFLT_AFC_PHASE_KP_def AFC_TIMING_DFLT_AFC_PHASE_KI_def
  AFC_TIMING_DFLT_AFC_PHASE_NAVG_def AFC_TIMING_DFLT_AFC_PHASE_DIV_def DSP_DFLT_KX_VAL_def DSP_DFLT_KY_VAL_def
  DSP_DFLT_KSUM_VAL_def DSP_DFLT_DS_TBT_THRES_def DSP_DFLT_DS_FOFB_THRES_def DSP_DFLT_DS_MONIT_THRES_def
  FMC_100M_4CH_DFLT_SI571_OE_def FMC_100M_4CH_DFLT_SI57X_FOUT_FACTORY_def FMC_100M_4CH_DFLT_SI57X_FOUT_def
  FMC250M_4CH_DFLT_RST_ADCS_def FMC250M_4CH_DFLT_RST_DIV_ADCS_def FMC250M_4CH_DFLT_SLEEP_ADCS_def
  FMC250M_4CH_DFLT_RST_MODE_ADC_def FMC250M_4CH_PINCTRL_RST_MODE_ADC_def FMC250M_4CH_DFLT_PORTCONFIG_ADC_def
  FMC250M_4CH_DFLT_RESET_ADC_def FMC_ACTIVE_CLK_DFLT_PLL_FUNC_def FMC_ACTIVE_CLK_DFLT_CLK_SEL_def
  FMC_ACTIVE_CLK_DFLT_SI571_OE_def FMC_ACTIVE_CLK_DFLT_SI57X_FOUT_FACTORY_def FMC_ACTIVE_CLK_DFLT_SI57X_FOUT_def
  FMC_ACTIVE_CLK_DFLT_RST_ISLA216P_def FMC_ACTIVE_CLK_DFLT_RST_SWAP_def FMC_ADC_COMMON_DFLT_TRIG_DIR_def
  FMCPICO1M_4CH_DFLT_RNG_def FOFB_CTRL_DFLT_CC_ENABLE_def FOFB_CTRL_DFLT_TIME_FRAME_LEN_def
  FOFB_CTRL_DFLT_TIME_FRAME_DLY_def FOFB_CTRL_DFLT_BPM_ID_def RFFE_DFLT_ATT_def SWAP_DFLT_SW_def SWAP_DFLT_SW_DLY_def
  SWAP_DFLT_DIV_CLK_def TIM_RCV_DFLT_PHASE_MEAS_NAVG_def TIM_RCV_DFLT_DMTD_A_DEGLITCH_THRES_def
  TIM_RCV_DFLT_DMTD_B_DEGLITCH_THRES_def TRIGGER_IFACE_DFLT_DIR_def TRIGGER_IFACE_DFLT_DIR_POL_def
  TRIGGER_IFACE_DFLT_RCV_RST_def TRIGGER_IFACE_DFLT_TRANSM_RST_def TRIGGER_IFACE_DFLT_RCV_LEN_def
  TRIGGER_IFACE_DFLT_TRANSM_LEN_def TRIGGER_MUX_DFLT_RCV_SRC_def TRIGGER_MUX_DFLT_RCV_IN_SEL_def
  TRIGGER_MUX_DFLT_TRANSM_SRC_def TRIGGER_MUX_DFLT_TRANSM_IN_SEL_def TRIGGER_MUX_SW_CLK_CHAN_def
  TRIGGER_MUX_SW_CLK_DFLT_RCV_SRC_def TRIGGER_MUX_SW_CLK_DFLT_RCV_IN_SEL_def TRIGGER_MUX_SW_CLK_DFLT_TRANSM_SRC_def
  TRIGGER_MUX_SW_CLK_DFLT_TRANSM_IN_SEL_def

definition afc_timing_config_defaults :: "'p config_defaults" where
  "afc_timing_config_defaults ok mlm rc =
     with_config_client ok mlm rc (until_error
       [\<lambda>self service. afc_timing_set_afc_freq_kp self service AFC_TIMING_DFLT_AFC_FREQ_KP,
        \<lambda>self service. afc_timing_set_afc_freq_ki self service AFC_TIMING_DFLT_AFC_FREQ_KI,
        \<lambda>self service. afc_timing_set_afc_phase_kp self service AFC_TIMING_DFLT_AFC_PHASE_KP,
        \<lambda>self service. afc_timing_set_afc_phase_ki self service AFC_TIMING_DFLT_AFC_PHASE_KI,
        \<lambda>self service. afc_timing_set_afc_phase_navg self service AFC_TIMING_DFLT_AFC_PHASE_NAVG,
        \<lambda>self service. afc_timing_set_afc_phase_div_exp self service AFC_TIMING_DFLT_AFC_PHASE_DIV,
        \<lambda>self service. afc_timing_set_rtm_rfreq_hi self service AFC_TIMING_DFLT_RTM_RFREQ_HI,
        \<lambda>self service. afc_timing_set_rtm_rfreq_lo self service AFC_TIMING_DFLT_RTM_RFREQ_LO,
        \<lambda>self service. afc_timing_set_rtm_n1 self service AFC_TIMING_DFLT_RTM_N1,
        \<lambda>self service. afc_timing_set_rtm_hs_div self service AFC_TIMING_DFLT_RTM_HS_DIV,
        \<lambda>self service. afc_timing_set_afc_rfreq_hi self service AFC_TIMING_DFLT_AFC_RFREQ_HI,
        \<lambda>self service. afc_timing_set_afc_rfreq_lo self service AFC_TIMING_DFLT_AFC_RFREQ_LO,
        \<lambda>self service. afc_timing_set_afc_n1 self service AFC_TIMING_DFLT_AFC_N1,
        \<lambda>self service. afc_timing_set_afc_hs_div self service AFC_TIMING_DFLT_AFC_HS_DIV])"

definition tim_rcv_config_defaults :: "'p config_defaults" where
  "tim_rcv_config_defaults ok mlm rc =
     with_config_client ok mlm rc (until_error
       [\<lambda>self service. halcs_set_phase_meas_navg self service TIM_RCV_DFLT_PHASE_MEAS_NAVG,
        \<lambda>self service. halcs_set_dmtd_a_deglitcher_thres self service TIM_RCV_DFLT_DMTD_A_DEGLITCH_THRES,
        \<lambda>self service. halcs_set_dmtd_b_deglitcher_thres self service TIM_RCV_DFLT_DMTD_B_DEGLITCH_THRES])"

definition fofb_ctrl_config_defaults :: "'p config_defaults" where
  "fofb_ctrl_config_defaults ok mlm rc =
     with_config_client ok mlm rc (until_error
       [\<lambda>self service. halcs_set_fofb_ctrl_time_frame_len self service FOFB_CTRL_DFLT_TIME_FRAME_LEN,
        \<lambda>self service. halcs_set_fofb_ctrl_time_frame_dly self service FOFB_CTRL_DFLT_TIME_FRAME_DLY,
        \<lambda>self service. halcs_set_fofb_ctrl_bpm_id self service FOFB_CTRL_DFLT_BPM_ID,
        \<lambda>self service. halcs_set_fofb_ctrl_cc_enable self service FOFB_CTRL_DFLT_CC_ENABLE,
        \<lambda>self service. halcs_set_fofb_ctrl_act_part self service 1])"

definition fmc_adc_common_config_defaults :: "'p config_defaults" where
  "fmc_adc_common_config_defaults ok mlm rc =
     with_config_client ok mlm rc (until_error
       [\<lambda>self service. halcs_set_trig_dir self service FMC_ADC_COMMON_DFLT_TRIG_DIR])"

definition dsp_config_defaults :: "'p config_defaults" where
  "dsp_config_defaults ok mlm rc =
     with_config_client ok mlm rc (until_error
       [\<lambda>self service. halcs_set_kx self service DSP_DFLT_KX_VAL,
        \<lambda>self service. halcs_set_ky self service DSP_DFLT_KY_VAL,
        \<lambda>self service. halcs_set_ksum self service DSP_DFLT_KSUM_VAL,
        \<lambda>self service. halcs_set_ds_tbt_thres self service DSP_DFLT_DS_TBT_THRES,
        \<lambda>self service. halcs_set_ds_fofb_thres self service DSP_DFLT_DS_FOFB_THRES,
        \<lambda>self service. halcs_set_ds_monit_thres self service DSP_DFLT_DS_MONIT_THRES])"

definition rffe_config_defaults :: "'p config_defaults" where
  "rffe_config_defaults ok mlm rc =
     with_config_client ok mlm rc (until_error
       [\<lambda>self service. halcs_set_rffe_att self service RFFE_DFLT_ATT])"

definition fmc_active_clk_config_defaults :: "'p config_defaults" where
  "fmc_active_clk_config_defaults ok mlm rc =
     with_config_client ok mlm rc (until_error
       [\<lambda>self service. halcs_set_si571_defaults self service FMC_ACTIVE_CLK_DFLT_SI57X_FOUT_FACTORY,
        \<lambda>self service. halcs_set_si571_freq self service FMC_ACTIVE_CLK_DFLT_SI57X_FOUT,
        \<lambda>self service. halcs_set_si571_oe self service FMC_ACTIVE_CLK_DFLT_SI571_OE,
        \<lambda>self service. halcs_set_fmc_pll_function self service FMC_ACTIVE_CLK_DFLT_PLL_FUNC,
        \<lambda>self service. halcs_set_fmc_clk_sel self service FMC_ACTIVE_CLK_DFLT_CLK_SEL,
        \<lambda>self service. halcs_set_ad9510_defaults self service 0,
        \<lambda>self service. halcs_set_rst_isla216p self service FMC_ACTIVE_CLK_DFLT_RST_ISLA216P,
        \<lambda>self service. halcs_set_rst_swap self service FMC_ACTIVE_CLK_DFLT_RST_SWAP])"

definition afc_mgmt_config_defaults :: "'p config_defaults" where
  "afc_mgmt_config_defaults ok mlm rc =
     with_config_client ok mlm rc (until_error
       [\<lambda>self service. halcs_set_si571_defaults self service AFC_MGMT_DFLT_SI57X_FOUT_FACTORY,
        \<lambda>self service. halcs_set_si571_freq self service AFC_MGMT_DFLT_SI57X_FOUT,
        \<lambda>self service. halcs_set_si571_oe self service AFC_MGMT_DFLT_SI571_OE])"

text \<open>The result of the first call is not assigned: the test after it looks at the initial value.\<close>

definition swap_config_defaults :: "'p config_defaults" where
  "swap_config_defaults ok mlm rc =
     with_config_client ok mlm rc (\<lambda>self service p. do {
       (_, p1) \<leftarrow> halcs_set_div_clk self service SWAP_DFLT_DIV_CLK p;
       until_error
         [\<lambda>self service. halcs_set_sw self service SWAP_DFLT_SW,
          \<lambda>self service. halcs_set_sw_dly self service SWAP_DFLT_SW_DLY] self service p1 })"

definition fmcpico1m_4ch_config_defaults :: "'p config_defaults" where
  "fmcpico1m_4ch_config_defaults ok mlm rc =
     with_config_client ok mlm rc (calls_or
       [\<lambda>self service. halcs_set_fmcpico_rng_r0 self service FMCPICO1M_4CH_DFLT_RNG,
        \<lambda>self service. halcs_set_fmcpico_rng_r1 self service FMCPICO1M_4CH_DFLT_RNG,
        \<lambda>self service. halcs_set_fmcpico_rng_r2 self service FMCPICO1M_4CH_DFLT_RNG,
        \<lambda>self service. halcs_set_fmcpico_rng_r3 self service FMCPICO1M_4CH_DFLT_RNG])"

text \<open>Each channel starts with an assignment, so only the status of the last channel is tested.\<close>

definition SMIO_TRIGGER_IFACE_MAX_CHAN :: nat where "SMIO_TRIGGER_IFACE_MAX_CHAN = 24"
definition SMIO_TRIGGER_MUX_MAX_CHAN :: nat where "SMIO_TRIGGER_MUX_MAX_CHAN = 24"

definition trigger_iface_dflt_chan :: "u32 \<Rightarrow> 'p client_call" where
  "trigger_iface_dflt_chan chan = calls_or
     [\<lambda>self service. halcs_set_trigger_dir self service chan TRIGGER_IFACE_DFLT_DIR,
      \<lambda>self service. halcs_set_trigger_dir_pol self service chan TRIGGER_IFACE_DFLT_DIR_POL,
      \<lambda>self service. halcs_set_trigger_rcv_count_rst self service chan TRIGGER_IFACE_DFLT_RCV_RST,
      \<lambda>self service. halcs_set_trigger_transm_count_rst self service chan TRIGGER_IFACE_DFLT_TRANSM_RST,
      \<lambda>self service. halcs_set_trigger_rcv_len self service chan TRIGGER_IFACE_DFLT_RCV_LEN,
      \<lambda>self service. halcs_set_trigger_transm_len self service chan TRIGGER_IFACE_DFLT_TRANSM_LEN]"

definition trigger_iface_config_defaults :: "'p config_defaults" where
  "trigger_iface_config_defaults ok mlm rc =
     with_config_client ok mlm rc
       (calls_last (map (\<lambda>chan. trigger_iface_dflt_chan (of_nat chan)) [0..<SMIO_TRIGGER_IFACE_MAX_CHAN]) HALCS_CLIENT_SUCCESS)"

definition trigger_mux_dflt_chan :: "u32 \<Rightarrow> u32 \<Rightarrow> u32 \<Rightarrow> u32 \<Rightarrow> u32 \<Rightarrow> 'p client_call" where
  "trigger_mux_dflt_chan chan rcv_src rcv_in_sel transm_src transm_out_sel = calls_or
     [\<lambda>self service. halcs_set_trigger_rcv_src self service chan rcv_src,
      \<lambda>self service. halcs_set_trigger_rcv_in_sel self service chan rcv_in_sel,
      \<lambda>self service. halcs_set_trigger_transm_src self service chan transm_src,
      \<lambda>self service. halcs_set_trigger_transm_out_sel self service chan transm_out_sel]"

definition trigger_mux_config_defaults :: "'p config_defaults" where
  "trigger_mux_config_defaults ok mlm rc =
     with_config_client ok mlm rc (calls_last
       (map (\<lambda>chan. trigger_mux_dflt_chan (of_nat chan) TRIGGER_MUX_DFLT_RCV_SRC TRIGGER_MUX_DFLT_RCV_IN_SEL
               TRIGGER_MUX_DFLT_TRANSM_SRC TRIGGER_MUX_DFLT_TRANSM_IN_SEL) [0..<SMIO_TRIGGER_MUX_MAX_CHAN] @
        [trigger_mux_dflt_chan TRIGGER_MUX_SW_CLK_CHAN TRIGGER_MUX_SW_CLK_DFLT_RCV_SRC TRIGGER_MUX_SW_CLK_DFLT_RCV_IN_SEL
           TRIGGER_MUX_SW_CLK_DFLT_TRANSM_SRC TRIGGER_MUX_SW_CLK_DFLT_TRANSM_IN_SEL]) HALCS_CLIENT_SUCCESS)"

text \<open>Here only the name of a service is used, and no client.\<close>

definition rtmlamp_ohwr_config_defaults :: "'p config_defaults" where
  "rtmlamp_ohwr_config_defaults ok mlm rc service p = Some (SMIO_SUCCESS, [], p)"

definition rffe_scpi_config_defaults :: "'p config_defaults" where
  "rffe_scpi_config_defaults ok mlm rc service p = Some (SMIO_SUCCESS, [], p)"

definition fmc130m_4ch_config_defaults :: "'p config_defaults" where
  "fmc130m_4ch_config_defaults ok mlm rc = with_config_client ok mlm rc (until_error [])"

definition afc_diag_config_defaults :: "'p config_defaults" where
  "afc_diag_config_defaults ok mlm rc =
     with_config_client ok mlm rc (until_error
       [reading (\<lambda>self service. halcs_get_afc_diag_card_slot self service 0),
        reading (\<lambda>self service. halcs_get_afc_diag_ipmi_addr self service 0)])"

definition SMIO_FMC_100M_4CH_NUM_ADCS :: nat where "SMIO_FMC_100M_4CH_NUM_ADCS = 4"

definition fmc100m_4ch_config_defaults :: "'p config_defaults" where
  "fmc100m_4ch_config_defaults ok mlm rc =
     with_config_client ok mlm rc (until_error (
       [\<lambda>self service. halcs_set_si571_defaults self service FMC_100M_4CH_DFLT_SI57X_FOUT_FACTORY,
        \<lambda>self service. halcs_set_si571_freq self service FMC_100M_4CH_DFLT_SI57X_FOUT,
        \<lambda>self service. halcs_set_si571_oe self service FMC_100M_4CH_DFLT_SI571_OE,
        \<lambda>self service. halcs_set_adc100_ltc2174_reset self service 1,
        \<lambda>self service. halcs_set_adc100_ltc2174_twos_compl self service 1,
        \<lambda>self service. halcs_set_adc100_acq_led self service 1,
        \<lambda>self service. halcs_set_adc100_ltc2174_test_patt self service 0,
        reading (\<lambda>self service. halcs_get_adc100_ltc2174_test_patt self service 0),
        \<lambda>self service. halcs_set_adc100_ltc2174_test_patt_data self service 1,
        reading (\<lambda>self service. halcs_get_adc100_ltc2174_test_patt_data self service 0),
        reading (\<lambda>self service. halcs_get_adc100_status self service 0)] @
       concat (map (\<lambda>chan.
         [\<lambda>self service. halcs_set_adc100_adc_calib_gain self service (of_nat chan) 0x2000,
          \<lambda>self service. halcs_set_adc100_adc_sat self service (of_nat chan) (push_bit 16 1 - 1),
          \<lambda>self service. halcs_set_adc100_adc_ssr self service (of_nat chan) 0x44,
          reading (\<lambda>self service. halcs_get_adc100_adc_status self service (of_nat chan) 0)]) [0..<SMIO_FMC_100M_4CH_NUM_ADCS]) @
       [reading (\<lambda>self service. halcs_get_adc100_fs_freq self service 0)]))"

text \<open>The waits between the calls are left out.\<close>

definition NUM_FMC250M_4CH_ISLA216P :: nat where "NUM_FMC250M_4CH_ISLA216P = 4"

definition fmc250m_4ch_dflt_adc :: "u32 \<Rightarrow> 'p client_call" where
  "fmc250m_4ch_dflt_adc i = calls_or
     [\<lambda>self service. halcs_set_rst_modes_adc self service i FMC250M_4CH_DFLT_RST_MODE_ADC,
      \<lambda>self service. halcs_set_portconfig_adc self service i FMC250M_4CH_DFLT_PORTCONFIG_ADC,
      \<lambda>self service. halcs_set_portconfig_adc self service i FMC250M_4CH_DFLT_RESET_ADC,
      \<lambda>self service. halcs_set_portconfig_adc self service i FMC250M_4CH_DFLT_PORTCONFIG_ADC]"

definition fmc250m_4ch_config_defaults :: "'p config_defaults" where
  "fmc250m_4ch_config_defaults ok mlm rc =
     with_config_client ok mlm rc (until_error (
       map (\<lambda>i self service. halcs_set_rst_modes_adc self service (of_nat i) FMC250M_4CH_PINCTRL_RST_MODE_ADC)
         [0..<NUM_FMC250M_4CH_ISLA216P] @
       [\<lambda>self service. halcs_set_rst_adcs self service FMC250M_4CH_DFLT_RST_ADCS,
        \<lambda>self service. halcs_set_rst_div_adcs self service FMC250M_4CH_DFLT_RST_DIV_ADCS,
        \<lambda>self service. halcs_set_sleep_adcs self service FMC250M_4CH_DFLT_SLEEP_ADCS] @
       map (\<lambda>i. fmc250m_4ch_dflt_adc (of_nat i)) [0..<NUM_FMC250M_4CH_ISLA216P]))"

end
