(* ===== verification/Defaults_Facts.thy ===== *)
theory Defaults_Facts
  imports Defaults
begin

text \<open>
  What the defaults do to the modules of parameters: each call is accepted and its value arrives.
\<close>

section \<open>Calls as data\<close>










section \<open>Defaults that are accepted\<close>





section \<open>The defaults of the modules\<close>























section \<open>All of them\<close>












end
