(* ===== verification/Devio_Core.thy ===== *)
theory Devio_Core
  imports Hutils Thsafe_Server
begin

text \<open>
  The life of the sensor modules in the device server, src/dev_io/dev_io_core.c: a module is found by its
  device id, gets a key (its name and an instance number), an actor that serves it and a second one
  that configures it; the actors are kept in two arrays and found by two hash tables from keys to
  places of the arrays. The commands that do this arrive over the pipes of the server.

  The outside is the record \<open>dev_env\<close> of functions on an environment state: allocation, new actors
  (numbered, as nothing looks into them), handlers of the reactor, messages to an actor and to the parent.
\<close>

section \<open>Modules\<close>

record smio_mod =
  sd_id :: u32
  sd_name :: string

text \<open>The entries that \<open>SMIO_MOD_DECLARE\<close> puts into the section between the linker's two symbols; their
  order is the linker's.\<close>

definition smio_mod_dispatch :: "smio_mod list" where
  "smio_mod_dispatch =
     [\<lparr>sd_id = 0x4519a0ad, sd_name = ''ACQ''\<rparr>, \<lparr>sd_id = 0x7f9e3377, sd_name = ''ACQ_PM''\<rparr>,
      \<lparr>sd_id = 0x51954750, sd_name = ''AFC_DIAG''\<rparr>, \<lparr>sd_id = 0xe7146ebe, sd_name = ''AFC_MGMT''\<rparr>,
      \<lparr>sd_id = 0xbe10be10, sd_name = ''LNLS_AFC_TIMING''\<rparr>, \<lparr>sd_id = 0x1bafbf1e, sd_name = ''DSP''\<rparr>,
      \<lparr>sd_id = 0x00000608, sd_name = ''FMC_100M_4CH''\<rparr>, \<lparr>sd_id = 0x7085ef15, sd_name = ''FMC130M_4CH''\<rparr>,
      \<lparr>sd_id = 0x68e3b1af, sd_name = ''FMC250M_4CH''\<rparr>, \<lparr>sd_id = 0x88c67d9c, sd_name = ''FMC_ACTIVE_CLK''\<rparr>,
      \<lparr>sd_id = 0x2403f569, sd_name = ''FMC_ADC_COMMON''\<rparr>, \<lparr>sd_id = 0x669f7e38, sd_name = ''FMCPICO1M_4CH''\<rparr>,
      \<lparr>sd_id = 0x4a1df147, sd_name = ''FOFB_CTRL''\<rparr>, \<lparr>sd_id = 0xdc64e778, sd_name = ''INIT''\<rparr>,
      \<lparr>sd_id = 0x87efeda8, sd_name = ''ORBIT_INTLK''\<rparr>, \<lparr>sd_id = 0x7af21909, sd_name = ''RFFE''\<rparr>,
      \<lparr>sd_id = 0x30625320, sd_name = ''RFFE''\<rparr>, \<lparr>sd_id = 0xa1248bec, sd_name = ''RTMLAMP_OHWR''\<rparr>,
      \<lparr>sd_id = 0x12897592, sd_name = ''SWAP''\<rparr>, \<lparr>sd_id = 0x3fc68642, sd_name = ''TIM_RCV''\<rparr>,
      \<lparr>sd_id = 0xbcbb78d2, sd_name = ''TRIGGER_IFACE''\<rparr>, \<lparr>sd_id = 0x84b6a5ac, sd_name = ''TRIGGER_MUX''\<rparr>]"

definition s_devio_search_sm_by_id :: "u32 \<Rightarrow> smio_mod option" where
  "s_devio_search_sm_by_id smio_id = find (\<lambda>smio_mod_handler. sd_id smio_mod_handler = smio_id) smio_mod_dispatch"

section \<open>The server\<close>

datatype actor_fn = Smio_Loop | Smio_Cfg_Loop

record actor_args =
  aa_fn :: actor_fn
  aa_handler :: smio_mod
  aa_broker :: string
  aa_service :: string
  aa_base :: u64
  aa_inst_id :: u32

datatype actor_msg =
  Mgmt_Msg_Smio u32 u64 u32 u32 u32 string
| Sdb_Device_Info u16 u8 u8 u32
| Reconfigure_Smio

datatype pipe_handler = Handle_Pipe_Mgmt | Handle_Pipe_Cfg

record 'e dev_env =
  en_alloc :: "'e \<Rightarrow> bool \<times> 'e"
  en_actor :: "actor_args \<Rightarrow> 'e \<Rightarrow> nat option \<times> 'e"
  en_reader :: "'e \<Rightarrow> bool \<times> 'e"
  en_send :: "nat \<Rightarrow> actor_msg \<Rightarrow> 'e \<Rightarrow> bool \<times> 'e"
  en_parent :: "string \<Rightarrow> 'e \<Rightarrow> bool \<times> 'e"
  en_destroy :: "nat \<Rightarrow> 'e \<Rightarrow> 'e"

definition NODES_MAX_LEN :: nat where "NODES_MAX_LEN = 100"

text \<open>\<open>dv_sm_io_h\<close> leads from keys to places of \<open>dv_pipes_mgmt\<close>, \<open>dv_sm_io_cfg_h\<close> to places of
  \<open>dv_pipes_config\<close>. \<open>dv_readers\<close> are the actors with a handler in the reactor.\<close>

record ('h, 'e) devio =
  dv_name :: string
  dv_endpoint_broker :: string
  dv_nnodes :: nat
  dv_pipes_mgmt :: "nat option list"
  dv_pipes_config :: "nat option list"
  dv_sm_io_h :: 'h
  dv_sm_io_cfg_h :: 'h
  dv_readers :: "(nat \<times> pipe_handler) list"
  dv_env :: 'e

section \<open>Keys\<close>

text \<open>\<open>hutils_stringify_dec_key\<close> gives the text \<open>fmt_u\<close> of the number (\<open>stringify_dec\<close> of \<open>Hutils\<close>); both
  allocations can fail.\<close>

definition s_devio_gen_smio_key ::
  "'e dev_env \<Rightarrow> smio_mod \<Rightarrow> u32 \<Rightarrow> 'e \<Rightarrow> string option \<times> 'e" where
  "s_devio_gen_smio_key E smio_mod_handler inst_id e =
     (let (ok1, e1) = en_alloc E e
      in if \<not> ok1 then (None, e1)
         else let (ok2, e2) = en_alloc E e1
              in (if ok2 then Some (sd_name smio_mod_handler @ fmt_u (unat inst_id)) else None, e2))"

text \<open>The search for a free number ends when there is one; \<open>None\<close> if it does not.\<close>

partial_function (option) gen_smio_key_loop ::
  "'e dev_env \<Rightarrow> 'h zhashx \<Rightarrow> 'h \<Rightarrow> smio_mod \<Rightarrow> u32 \<Rightarrow> string option \<Rightarrow> 'e \<Rightarrow> (string option \<times> u32 \<times> 'e) option" where
  "gen_smio_key_loop E Z h smio_mod_handler avail_inst_id key e =
     (case key of
        None \<Rightarrow> Some (None, avail_inst_id, e)
      | Some k \<Rightarrow>
          if zh_lookup Z h k = None then Some (Some k, avail_inst_id, e)
          else let (key', e') = s_devio_gen_smio_key E smio_mod_handler (avail_inst_id + 1) e
               in gen_smio_key_loop E Z h smio_mod_handler (avail_inst_id + 1) key' e')"

definition s_devio_gen_smio_key_auto ::
  "'e dev_env \<Rightarrow> 'h zhashx \<Rightarrow> 'h \<Rightarrow> smio_mod \<Rightarrow> u32 \<Rightarrow> bool \<Rightarrow> 'e \<Rightarrow> (string option \<times> u32 \<times> 'e) option" where
  "s_devio_gen_smio_key_auto E Z h smio_mod_handler inst_id auto_inst_id e =
     (let (key, e1) = s_devio_gen_smio_key E smio_mod_handler inst_id e
      in case key of
           None \<Rightarrow> Some (None, inst_id, e1)
         | Some k \<Rightarrow> if auto_inst_id then gen_smio_key_loop E Z h smio_mod_handler inst_id key e1
                     else Some (key, inst_id, e1))"

section \<open>Actors\<close>

definition s_devio_engine_handle_socket ::
  "'e dev_env \<Rightarrow> nat \<Rightarrow> pipe_handler option \<Rightarrow> ('h, 'e) devio \<Rightarrow> devio_err \<times> ('h, 'e) devio" where
  "s_devio_engine_handle_socket E sock handler self =
     (case handler of
        None \<Rightarrow> (DEVIO_SUCCESS, self\<lparr>dv_readers := filter (\<lambda>r. fst r \<noteq> sock) (dv_readers self)\<rparr>)
      | Some f \<Rightarrow>
          let (ok, e) = en_reader E (dv_env self); self1 = self\<lparr>dv_env := e\<rparr>
          in if ok then (DEVIO_SUCCESS, self1\<lparr>dv_readers := dv_readers self1 @ [(sock, f)]\<rparr>)
             else (DEVIO_ERR_ALLOC, self1))"

text \<open>\<open>zactor_destroy\<close> ends the actor and clears the place it was in.\<close>

definition s_devio_destroy_actor :: "'e dev_env \<Rightarrow> nat \<Rightarrow> ('h, 'e) devio \<Rightarrow> ('h, 'e) devio" where
  "s_devio_destroy_actor E actor self =
     (let self1 = snd (s_devio_engine_handle_socket E actor None self)
      in self1\<lparr>dv_env := en_destroy E actor (dv_env self1)\<rparr>)"

datatype smio_hash = Sm_Io_H | Sm_Io_Cfg_H

fun get_hash :: "smio_hash \<Rightarrow> ('h, 'e) devio \<Rightarrow> 'h" where
  "get_hash Sm_Io_H self = dv_sm_io_h self"
| "get_hash Sm_Io_Cfg_H self = dv_sm_io_cfg_h self"

fun get_pipes :: "smio_hash \<Rightarrow> ('h, 'e) devio \<Rightarrow> nat option list" where
  "get_pipes Sm_Io_H self = dv_pipes_mgmt self"
| "get_pipes Sm_Io_Cfg_H self = dv_pipes_config self"

fun set_hash :: "smio_hash \<Rightarrow> 'h \<Rightarrow> ('h, 'e) devio \<Rightarrow> ('h, 'e) devio" where
  "set_hash Sm_Io_H h self = self\<lparr>dv_sm_io_h := h\<rparr>"
| "set_hash Sm_Io_Cfg_H h self = self\<lparr>dv_sm_io_cfg_h := h\<rparr>"

fun set_pipes :: "smio_hash \<Rightarrow> nat option list \<Rightarrow> ('h, 'e) devio \<Rightarrow> ('h, 'e) devio" where
  "set_pipes Sm_Io_H ps self = self\<lparr>dv_pipes_mgmt := ps\<rparr>"
| "set_pipes Sm_Io_Cfg_H ps self = self\<lparr>dv_pipes_config := ps\<rparr>"

text \<open>A place without an actor would be an assertion.\<close>

definition s_devio_destroy_smio ::
  "'e dev_env \<Rightarrow> 'h zhashx \<Rightarrow> smio_hash \<Rightarrow> string \<Rightarrow> ('h, 'e) devio \<Rightarrow> (devio_err \<times> ('h, 'e) devio) option" where
  "s_devio_destroy_smio E Z smio_h smio_key self =
     (case zh_lookup Z (get_hash smio_h self) smio_key of
        None \<Rightarrow> Some (DEVIO_ERR_SMIO_DESTROY, self)
      | Some i \<Rightarrow> do {
          actor \<leftarrow> get_pipes smio_h self ! i;
          let self1 = s_devio_destroy_actor E actor self;
          let self2 = set_pipes smio_h ((get_pipes smio_h self1)[i := None]) self1;
          Some (DEVIO_SUCCESS, set_hash smio_h (zh_delete Z (get_hash smio_h self2) smio_key) self2) })"

fun destroy_keys ::
  "'e dev_env \<Rightarrow> 'h zhashx \<Rightarrow> smio_hash \<Rightarrow> string list \<Rightarrow> ('h, 'e) devio \<Rightarrow> (devio_err \<times> ('h, 'e) devio) option" where
  "destroy_keys E Z smio_h [] self = Some (DEVIO_SUCCESS, self)"
| "destroy_keys E Z smio_h (k # ks) self = do {
     (err, self1) \<leftarrow> s_devio_destroy_smio E Z smio_h k self;
     if err \<noteq> DEVIO_SUCCESS then Some (DEVIO_ERR_SMIO_DESTROY, self1) else destroy_keys E Z smio_h ks self1 }"

definition s_devio_destroy_smio_all ::
  "'e dev_env \<Rightarrow> 'h zhashx \<Rightarrow> smio_hash \<Rightarrow> ('h, 'e) devio \<Rightarrow> (devio_err \<times> ('h, 'e) devio) option" where
  "s_devio_destroy_smio_all E Z smio_h self =
     (let (ok, e) = en_alloc E (dv_env self); self1 = self\<lparr>dv_env := e\<rparr>
      in if \<not> ok then Some (DEVIO_ERR_ALLOC, self1)
         else destroy_keys E Z smio_h (zh_keys Z (get_hash smio_h self1)) self1)"

section \<open>Registration\<close>

text \<open>After an actor has been made, an error destroys it, which frees its arguments, and the code frees
  them a second time: undefined, as is the place after the end of the arrays.\<close>

definition register_config ::
  "'e dev_env \<Rightarrow> 'h zhashx \<Rightarrow> smio_mod \<Rightarrow> u32 \<Rightarrow> string \<Rightarrow> nat \<Rightarrow> ('h, 'e) devio \<Rightarrow> (devio_err \<times> ('h, 'e) devio) option" where
  "register_config E Z m used_inst_id k idx self = do {
     let (ok, e) = en_alloc E (dv_env self);
     if \<not> ok then None
     else do {
       let (actor, e1) = en_actor E \<lparr>aa_fn = Smio_Cfg_Loop, aa_handler = m, aa_broker = dv_endpoint_broker self,
         aa_service = dv_name self, aa_base = 0, aa_inst_id = used_inst_id\<rparr> e;
       c \<leftarrow> actor;
       let self1 = self\<lparr>dv_pipes_config := (dv_pipes_config self)[idx := Some c], dv_env := e1\<rparr>;
       h \<leftarrow> zh_insert Z (dv_sm_io_cfg_h self1) k idx;
       let (err, self2) = s_devio_engine_handle_socket E c (Some Handle_Pipe_Cfg) (self1\<lparr>dv_sm_io_cfg_h := h\<rparr>);
       if err \<noteq> DEVIO_SUCCESS then None else Some (DEVIO_SUCCESS, self2) } }"

definition register_actor ::
  "'e dev_env \<Rightarrow> 'h zhashx \<Rightarrow> smio_mod \<Rightarrow> u64 \<Rightarrow> u32 \<Rightarrow> string \<Rightarrow> ('h, 'e) devio \<Rightarrow> (devio_err \<times> ('h, 'e) devio) option" where
  "register_actor E Z m base used_inst_id k self =
     (let idx = dv_nnodes self; self1 = self\<lparr>dv_nnodes := idx + 1\<rparr>; (ok, e) = en_alloc E (dv_env self1)
      in if \<not> ok then Some (DEVIO_ERR_ALLOC, self1\<lparr>dv_env := e\<rparr>)
         else if \<not> idx < NODES_MAX_LEN then None
         else
           let (actor, e1) = en_actor E \<lparr>aa_fn = Smio_Loop, aa_handler = m, aa_broker = dv_endpoint_broker self1,
                 aa_service = dv_name self1, aa_base = base, aa_inst_id = used_inst_id\<rparr> e
           in case actor of
                None \<Rightarrow> Some (DEVIO_ERR_ALLOC, self1\<lparr>dv_pipes_mgmt := (dv_pipes_mgmt self1)[idx := None], dv_env := e1\<rparr>)
              | Some a \<Rightarrow> do {
                  let self2 = self1\<lparr>dv_pipes_mgmt := (dv_pipes_mgmt self1)[idx := Some a], dv_env := e1\<rparr>;
                  let (err, self3) = s_devio_engine_handle_socket E a (Some Handle_Pipe_Mgmt) self2;
                  if err \<noteq> DEVIO_SUCCESS then None
                  else do {
                    h \<leftarrow> zh_insert Z (dv_sm_io_h self3) k idx;
                    register_config E Z m used_inst_id k idx (self3\<lparr>dv_sm_io_h := h\<rparr>) } })"

definition s_devio_register_sm_raw ::
  "'e dev_env \<Rightarrow> 'h zhashx \<Rightarrow> u32 \<Rightarrow> u64 \<Rightarrow> u32 \<Rightarrow> bool \<Rightarrow> ('h, 'e) devio \<Rightarrow> (devio_err \<times> ('h, 'e) devio) option" where
  "s_devio_register_sm_raw E Z smio_id base inst_id auto_inst_id self =
     (if \<not> dv_nnodes self \<le> NODES_MAX_LEN then Some (DEVIO_ERR_MAX_SMIOS, self)
      else case s_devio_search_sm_by_id smio_id of
        None \<Rightarrow> Some (DEVIO_ERR_ALLOC, self)
      | Some m \<Rightarrow> do {
          (key, used_inst_id, e) \<leftarrow> s_devio_gen_smio_key_auto E Z (dv_sm_io_h self) m inst_id auto_inst_id (dv_env self);
          let self1 = self\<lparr>dv_env := e\<rparr>;
          case key of
            None \<Rightarrow> Some (DEVIO_ERR_ALLOC, self1)
          | Some k \<Rightarrow>
              if zh_lookup Z (dv_sm_io_h self1) k \<noteq> None then Some (DEVIO_ERR_ALLOC, self1)
              else register_actor E Z m base used_inst_id k self1 })"

definition s_devio_register_sm_by_id_raw ::
  "'e dev_env \<Rightarrow> 'h zhashx \<Rightarrow> (u32 \<Rightarrow> u64) \<Rightarrow> u32 \<Rightarrow> ('h, 'e) devio \<Rightarrow> (devio_err \<times> ('h, 'e) devio) option" where
  "s_devio_register_sm_by_id_raw E Z find_id smio_id self =
     s_devio_register_sm_raw E Z smio_id (find_id smio_id) 0 True self"

text \<open>The devices of the self-describing bus, each with its id and base; results are ignored.\<close>

fun register_devices ::
  "'e dev_env \<Rightarrow> 'h zhashx \<Rightarrow> u64 \<Rightarrow> (u32 \<times> u64) list \<Rightarrow> ('h, 'e) devio \<Rightarrow> ('h, 'e) devio option" where
  "register_devices E Z prefix [] self = Some self"
| "register_devices E Z prefix ((smio_id, base) # ds) self = do {
     (_, self1) \<leftarrow> s_devio_register_sm_raw E Z smio_id (prefix OR (prefix OR base)) 0 True self;
     register_devices E Z prefix ds self1 }"

definition s_devio_register_all_sm_raw ::
  "'e dev_env \<Rightarrow> 'h zhashx \<Rightarrow> string \<Rightarrow> u64 \<Rightarrow> (u32 \<times> u64) list \<Rightarrow> ('h, 'e) devio \<Rightarrow> (devio_err \<times> ('h, 'e) devio) option" where
  "s_devio_register_all_sm_raw E Z opsname prefix devices self =
     (if opsname \<noteq> ''PCIE'' then Some (DEVIO_ERR_FUNC_NOT_IMPL, self)
      else map_option (\<lambda>self'. (DEVIO_SUCCESS, self')) (register_devices E Z prefix devices self))"

definition s_devio_unregister_sm_raw ::
  "'e dev_env \<Rightarrow> 'h zhashx \<Rightarrow> string \<Rightarrow> ('h, 'e) devio \<Rightarrow> (devio_err \<times> ('h, 'e) devio) option" where
  "s_devio_unregister_sm_raw E Z smio_key self = do {
     (_, self1) \<leftarrow> s_devio_destroy_smio E Z Sm_Io_Cfg_H smio_key self;
     (err, self2) \<leftarrow> s_devio_destroy_smio E Z Sm_Io_H smio_key self1;
     Some (if err = DEVIO_SUCCESS then DEVIO_SUCCESS else DEVIO_ERR_SMIO_DESTROY, self2) }"

definition s_devio_unregister_all_sm_raw ::
  "'e dev_env \<Rightarrow> 'h zhashx \<Rightarrow> ('h, 'e) devio \<Rightarrow> (devio_err \<times> ('h, 'e) devio) option" where
  "s_devio_unregister_all_sm_raw E Z self = do {
     (err, self1) \<leftarrow> s_devio_destroy_smio_all E Z Sm_Io_Cfg_H self;
     if err \<noteq> DEVIO_SUCCESS then Some (DEVIO_ERR_SMIO_DESTROY, self1)
     else do {
       (err', self2) \<leftarrow> s_devio_destroy_smio_all E Z Sm_Io_H self1;
       Some (if err' = DEVIO_SUCCESS then DEVIO_SUCCESS else DEVIO_ERR_SMIO_DESTROY, self2) } }"

section \<open>Messages to actors\<close>

definition s_devio_reconfigure_actor :: "'e dev_env \<Rightarrow> nat \<Rightarrow> ('h, 'e) devio \<Rightarrow> devio_err \<times> ('h, 'e) devio" where
  "s_devio_reconfigure_actor E actor self =
     (DEVIO_SUCCESS, self\<lparr>dv_env := snd (en_send E actor Reconfigure_Smio (dv_env self))\<rparr>)"

definition s_devio_reconfigure_sm_raw ::
  "'e dev_env \<Rightarrow> 'h zhashx \<Rightarrow> string \<Rightarrow> ('h, 'e) devio \<Rightarrow> (devio_err \<times> ('h, 'e) devio) option" where
  "s_devio_reconfigure_sm_raw E Z smio_key self =
     (case zh_lookup Z (dv_sm_io_cfg_h self) smio_key of
        None \<Rightarrow> Some (DEVIO_ERR_SMIO_DESTROY, self)
      | Some i \<Rightarrow> map_option (\<lambda>actor. s_devio_reconfigure_actor E actor self) (dv_pipes_config self ! i))"

fun reconfigure_keys ::
  "'e dev_env \<Rightarrow> 'h zhashx \<Rightarrow> string list \<Rightarrow> ('h, 'e) devio \<Rightarrow> (devio_err \<times> ('h, 'e) devio) option" where
  "reconfigure_keys E Z [] self = Some (DEVIO_SUCCESS, self)"
| "reconfigure_keys E Z (k # ks) self = do {
     (err, self1) \<leftarrow> s_devio_reconfigure_sm_raw E Z k self;
     if err \<noteq> DEVIO_SUCCESS then Some (DEVIO_ERR_SMIO_DESTROY, self1) else reconfigure_keys E Z ks self1 }"

definition s_devio_reconfigure_all_sm_raw ::
  "'e dev_env \<Rightarrow> 'h zhashx \<Rightarrow> ('h, 'e) devio \<Rightarrow> (devio_err \<times> ('h, 'e) devio) option" where
  "s_devio_reconfigure_all_sm_raw E Z self =
     (let (ok, e) = en_alloc E (dv_env self); self1 = self\<lparr>dv_env := e\<rparr>
      in if \<not> ok then Some (DEVIO_ERR_ALLOC, self1)
         else reconfigure_keys E Z (zh_keys Z (dv_sm_io_cfg_h self1)) self1)"

definition s_devio_get_pipe_from_smio_id ::
  "'e dev_env \<Rightarrow> 'h zhashx \<Rightarrow> u32 \<Rightarrow> u32 \<Rightarrow> ('h, 'e) devio \<Rightarrow> nat option \<times> ('h, 'e) devio" where
  "s_devio_get_pipe_from_smio_id E Z smio_id inst_id self =
     (case s_devio_search_sm_by_id smio_id of
        None \<Rightarrow> (None, self)
      | Some m \<Rightarrow>
          let (key, e) = s_devio_gen_smio_key E m inst_id (dv_env self); self1 = self\<lparr>dv_env := e\<rparr>
          in (case key of
                None \<Rightarrow> (None, self1)
              | Some k \<Rightarrow> (case zh_lookup Z (dv_sm_io_h self1) k of
                    None \<Rightarrow> (None, self1)
                  | Some i \<Rightarrow> (dv_pipes_mgmt self1 ! i, self1))))"

definition s_devio_send_smio_mgmt_msg_raw ::
  "'e dev_env \<Rightarrow> 'h zhashx \<Rightarrow> u32 \<Rightarrow> u64 \<Rightarrow> u32 \<Rightarrow> u32 \<Rightarrow> u32 \<Rightarrow> string \<Rightarrow> ('h, 'e) devio \<Rightarrow> devio_err \<times> ('h, 'e) devio" where
  "s_devio_send_smio_mgmt_msg_raw E Z smio_id base inst_id dest_smio_id dest_inst_id msg self =
     (let (dest, self1) = s_devio_get_pipe_from_smio_id E Z dest_smio_id dest_inst_id self
      in case dest of
           None \<Rightarrow> (DEVIO_ERR_INV_SOCKET, self1)
         | Some actor \<Rightarrow>
             let (ok, e) = en_send E actor (Mgmt_Msg_Smio smio_id base inst_id dest_smio_id dest_inst_id msg) (dv_env self1)
             in (if ok then DEVIO_SUCCESS else DEVIO_ERR_INV_SOCKET, self1\<lparr>dv_env := e\<rparr>))"

text \<open>\<open>sdb\<close> is what the bus says of a device: class, version and bus data.\<close>

definition s_devio_send_sdb_info_raw ::
  "'e dev_env \<Rightarrow> 'h zhashx \<Rightarrow> (u64 \<Rightarrow> u32 \<Rightarrow> u32 \<Rightarrow> (u16 \<times> u8 \<times> u8 \<times> u32) option) \<Rightarrow> u32 \<Rightarrow> u32 \<Rightarrow> u64 \<Rightarrow> u32 \<Rightarrow>
     ('h, 'e) devio \<Rightarrow> devio_err \<times> ('h, 'e) devio" where
  "s_devio_send_sdb_info_raw E Z sdb smio_id inst_id vid did self =
     (let (dest, self1) = s_devio_get_pipe_from_smio_id E Z smio_id inst_id self
      in case dest of
           None \<Rightarrow> (DEVIO_ERR_INV_SOCKET, self1)
         | Some actor \<Rightarrow>
             (case sdb vid did inst_id of
                None \<Rightarrow> (DEVIO_ERR_INV_SOCKET, self1)
              | Some (abi_class, abi_ver_major, abi_ver_minor, bus_specific) \<Rightarrow>
                  let (ok, e) = en_send E actor (Sdb_Device_Info abi_class abi_ver_major abi_ver_minor bus_specific) (dv_env self1)
                  in (if ok then DEVIO_SUCCESS else DEVIO_ERR_INV_SOCKET, self1\<lparr>dv_env := e\<rparr>)))"

text \<open>The parent is told when no configuring actor is left; the status stays a success.\<close>

definition s_devio_check_send_cfg_done :: "'e dev_env \<Rightarrow> 'h zhashx \<Rightarrow> ('h, 'e) devio \<Rightarrow> devio_err \<times> ('h, 'e) devio" where
  "s_devio_check_send_cfg_done E Z self =
     (DEVIO_SUCCESS,
      if zh_keys Z (dv_sm_io_cfg_h self) = [] then self\<lparr>dv_env := snd (en_parent E ''$SMIO_CFG_DONE'' (dv_env self))\<rparr> else self)"

section \<open>Handlers of the pipes\<close>

text \<open>What a module's actor sends; \<open>None\<close> is a malformed message.\<close>

record mgmt_args =
  ma_command :: string
  ma_smio_id :: u32
  ma_base :: u64
  ma_inst_id :: u32
  ma_dest_smio_id :: u32
  ma_dest_inst_id :: u32
  ma_msg :: string
  ma_vid :: u64
  ma_did :: u32

definition s_devio_handle_pipe_mgmt ::
  "'e dev_env \<Rightarrow> 'h zhashx \<Rightarrow> (u64 \<Rightarrow> u32 \<Rightarrow> u32 \<Rightarrow> (u16 \<times> u8 \<times> u8 \<times> u32) option) \<Rightarrow> mgmt_args option \<Rightarrow> ('h, 'e) devio \<Rightarrow>
     (int \<times> ('h, 'e) devio) option" where
  "s_devio_handle_pipe_mgmt E Z sdb received devio =
     (case received of
        None \<Rightarrow> Some (0, devio)
      | Some a \<Rightarrow>
          if ma_command a = ''$REGISTER_SMIO''
          then map_option (\<lambda>(_, devio'). (0, devio'))
            (s_devio_register_sm_raw E Z (ma_smio_id a) (ma_base a) (ma_inst_id a) True devio)
          else if ma_command a = ''$MGMT_MSG_SMIO''
          then Some (0, snd (s_devio_send_smio_mgmt_msg_raw E Z (ma_smio_id a) (ma_base a) (ma_inst_id a)
            (ma_dest_smio_id a) (ma_dest_inst_id a) (ma_msg a) devio))
          else if ma_command a = ''$SDB_DEVICE_INFO''
          then Some (0, snd (s_devio_send_sdb_info_raw E Z sdb (ma_smio_id a) (ma_inst_id a) (ma_vid a) (ma_did a) devio))
          else Some (0, devio))"

text \<open>What a configuring actor sends: its key and a command. The result of the last check is the result.\<close>

definition s_devio_handle_pipe_cfg ::
  "'e dev_env \<Rightarrow> 'h zhashx \<Rightarrow> string list option \<Rightarrow> ('h, 'e) devio \<Rightarrow> (int \<times> ('h, 'e) devio) option" where
  "s_devio_handle_pipe_cfg E Z recv_msg devio =
     (case recv_msg of
        None \<Rightarrow> Some (-1, devio)
      | Some msg \<Rightarrow> do {
          devio1 \<leftarrow> (case msg of
              service_id # command # _ \<Rightarrow>
                if command = ''CONFIG DONE''
                then map_option snd (s_devio_destroy_smio E Z Sm_Io_Cfg_H service_id devio)
                else Some devio
            | _ \<Rightarrow> Some devio);
          Some (0, snd (s_devio_check_send_cfg_done E Z devio1)) })"

text \<open>What the parent sends. The functions of the board and of the bus are parameters.\<close>

record pipe_args =
  pa_command :: string
  pa_smio_id :: u32
  pa_base :: u64
  pa_inst_id :: u32
  pa_smio_key :: string

definition s_devio_handle_pipe ::
  "'e dev_env \<Rightarrow> 'h zhashx \<Rightarrow> (u32 \<Rightarrow> u64) \<Rightarrow> string \<Rightarrow> u64 \<Rightarrow> (u32 \<times> u64) list \<Rightarrow> ('e \<Rightarrow> 'e) \<Rightarrow> pipe_args option \<Rightarrow>
     ('h, 'e) devio \<Rightarrow> (int \<times> ('h, 'e) devio) option" where
  "s_devio_handle_pipe E Z find_id opsname prefix devices reset_llio received devio =
     (case received of
        None \<Rightarrow> Some (-1, devio)
      | Some a \<Rightarrow>
          let c = pa_command a; done = map_option (\<lambda>(_, devio'). (0, devio'))
          in if c = ''$TERM'' then Some (-1, devio)
             else if c = ''$REGISTER_SMIO_ALL'' then done (s_devio_register_all_sm_raw E Z opsname prefix devices devio)
             else if c = ''$REGISTER_SMIO_BY_ID'' then done (s_devio_register_sm_by_id_raw E Z find_id (pa_smio_id a) devio)
             else if c = ''$REGISTER_SMIO''
             then done (s_devio_register_sm_raw E Z (pa_smio_id a) (pa_base a) (pa_inst_id a) True devio)
             else if c = ''$UNREGISTER_SMIO_ALL'' then done (s_devio_unregister_all_sm_raw E Z devio)
             else if c = ''$UNREGISTER_SMIO'' then done (s_devio_unregister_sm_raw E Z (pa_smio_key a) devio)
             else if c = ''$RECONFIGURE_SMIO_ALL'' then done (s_devio_reconfigure_all_sm_raw E Z devio)
             else if c = ''$RECONFIGURE_SMIO'' then done (s_devio_reconfigure_sm_raw E Z (pa_smio_key a) devio)
             else if c = ''$RESET_LLIO'' then Some (0, devio\<lparr>dv_env := reset_llio (dv_env devio)\<rparr>)
             else Some (0, devio))"

text \<open>The functions for the parent, which send these commands over the pipe: the arguments of each.\<close>

definition pipe_cmd :: "string \<Rightarrow> pipe_args" where
  "pipe_cmd c = \<lparr>pa_command = c, pa_smio_id = 0, pa_base = 0, pa_inst_id = 0, pa_smio_key = []\<rparr>"

type_synonym 'p pipe_send = "pipe_args \<Rightarrow> 'p \<Rightarrow> bool \<times> 'p"

definition pipe_command :: "'p pipe_send \<Rightarrow> pipe_args \<Rightarrow> 'p \<Rightarrow> devio_err \<times> 'p" where
  "pipe_command send a p = (let (ok, p') = send a p in (if ok then DEVIO_SUCCESS else DEVIO_ERR_INV_SOCKET, p'))"

definition devio_register_sm_by_id :: "'p pipe_send \<Rightarrow> u32 \<Rightarrow> 'p \<Rightarrow> devio_err \<times> 'p" where
  "devio_register_sm_by_id send smio_id = pipe_command send ((pipe_cmd ''$REGISTER_SMIO_BY_ID'')\<lparr>pa_smio_id := smio_id\<rparr>)"

definition devio_register_sm :: "'p pipe_send \<Rightarrow> u32 \<Rightarrow> u64 \<Rightarrow> u32 \<Rightarrow> 'p \<Rightarrow> devio_err \<times> 'p" where
  "devio_register_sm send smio_id base inst_id =
     pipe_command send ((pipe_cmd ''$REGISTER_SMIO'')\<lparr>pa_smio_id := smio_id, pa_base := base, pa_inst_id := inst_id\<rparr>)"

definition devio_register_all_sm :: "'p pipe_send \<Rightarrow> 'p \<Rightarrow> devio_err \<times> 'p" where
  "devio_register_all_sm send = pipe_command send (pipe_cmd ''$REGISTER_SMIO_ALL'')"

definition devio_unregister_sm :: "'p pipe_send \<Rightarrow> string \<Rightarrow> 'p \<Rightarrow> devio_err \<times> 'p" where
  "devio_unregister_sm send smio_key = pipe_command send ((pipe_cmd ''$UNREGISTER_SMIO'')\<lparr>pa_smio_key := smio_key\<rparr>)"

definition devio_unregister_all_sm :: "'p pipe_send \<Rightarrow> 'p \<Rightarrow> devio_err \<times> 'p" where
  "devio_unregister_all_sm send = pipe_command send (pipe_cmd ''$UNREGISTER_SMIO_ALL'')"

definition devio_reconfigure_sm :: "'p pipe_send \<Rightarrow> string \<Rightarrow> 'p \<Rightarrow> devio_err \<times> 'p" where
  "devio_reconfigure_sm send smio_key = pipe_command send ((pipe_cmd ''$RECONFIGURE_SMIO'')\<lparr>pa_smio_key := smio_key\<rparr>)"

definition devio_reconfigure_all_sm :: "'p pipe_send \<Rightarrow> 'p \<Rightarrow> devio_err \<times> 'p" where
  "devio_reconfigure_all_sm send = pipe_command send (pipe_cmd ''$RECONFIGURE_SMIO_ALL'')"

definition devio_reset_llio :: "'p pipe_send \<Rightarrow> 'p \<Rightarrow> devio_err \<times> 'p" where
  "devio_reset_llio send = pipe_command send (pipe_cmd ''$RESET_LLIO'')"

definition devio_print_info :: "'p pipe_send \<Rightarrow> 'p \<Rightarrow> devio_err \<times> 'p" where
  "devio_print_info send = pipe_command send (pipe_cmd ''$PRINT_INFO'')"

definition devio_print_info_log :: "'p pipe_send \<Rightarrow> 'p \<Rightarrow> devio_err \<times> 'p" where
  "devio_print_info_log send = pipe_command send (pipe_cmd ''$PRINT_INFO_LOG'')"

end
