(* ===== verification/Devio_Core_Facts.thy ===== *)
theory Devio_Core_Facts
  imports Devio_Core
begin

text \<open>
  The registry of modules: its invariant under all commands, and what registering and unregistering do.
\<close>

section \<open>The invariant\<close>

text \<open>Keys lead to different places below the next free one, and an actor is in each.\<close>

definition places_ok :: "'h zhashx \<Rightarrow> 'h \<Rightarrow> nat option list \<Rightarrow> nat \<Rightarrow> bool" where
  "places_ok Z h ps n \<longleftrightarrow> length ps = NODES_MAX_LEN \<and> (\<forall>k k' i. zh_lookup Z h k = Some i \<longrightarrow> zh_lookup Z h k' = Some i \<longrightarrow> k = k') \<and>
     (\<forall>k i. zh_lookup Z h k = Some i \<longrightarrow> i < n \<and> i < NODES_MAX_LEN \<and> ps ! i \<noteq> None)"

definition registry_ok :: "'h zhashx \<Rightarrow> ('h, 'e) devio \<Rightarrow> bool" where
  "registry_ok Z d \<longleftrightarrow>
     places_ok Z (dv_sm_io_h d) (dv_pipes_mgmt d) (dv_nnodes d) \<and>
     places_ok Z (dv_sm_io_cfg_h d) (dv_pipes_config d) (dv_nnodes d) \<and>
     dom (zh_lookup Z (dv_sm_io_cfg_h d)) \<subseteq> dom (zh_lookup Z (dv_sm_io_h d)) \<and> dv_nnodes d \<le> NODES_MAX_LEN + 1"

lemma placesD:
  assumes "places_ok Z h ps n"
  shows "length ps = NODES_MAX_LEN" "zh_lookup Z h k = Some i \<Longrightarrow> zh_lookup Z h k' = Some i \<Longrightarrow> k = k'"
    "zh_lookup Z h k = Some i \<Longrightarrow> i < n" "zh_lookup Z h k = Some i \<Longrightarrow> i < NODES_MAX_LEN"
    "zh_lookup Z h k = Some i \<Longrightarrow> ps ! i \<noteq> None"
  using assms unfolding places_ok_def by blast+

lemma placesI:
  assumes "length ps = NODES_MAX_LEN" "\<And>k k' i. zh_lookup Z h k = Some i \<Longrightarrow> zh_lookup Z h k' = Some i \<Longrightarrow> k = k'"
    "\<And>k i. zh_lookup Z h k = Some i \<Longrightarrow> i < n \<and> i < NODES_MAX_LEN \<and> ps ! i \<noteq> None"
  shows "places_ok Z h ps n"
  using assms unfolding places_ok_def by blast

lemma places_more: "places_ok Z h ps n \<Longrightarrow> places_ok Z h ps (Suc n)"
  unfolding places_ok_def by (meson less_SucI)

lemma places_blank:
  assumes "places_ok Z h ps n"
  shows "places_ok Z h (ps[n := x]) (Suc n)"
proof (rule placesI)
  show "length (ps[n := x]) = NODES_MAX_LEN" using placesD(1) [OF assms] by simp
  show "k = k'" if "zh_lookup Z h k = Some i" "zh_lookup Z h k' = Some i" for k k' i using placesD(2) [OF assms that] .
  show "i < Suc n \<and> i < NODES_MAX_LEN \<and> (ps[n := x]) ! i \<noteq> None" if "zh_lookup Z h k = Some i" for k i
    using placesD(3-5) [OF assms that] by simp
qed

lemma places_insert:
  assumes "zhashx_ok Z" and "places_ok Z h ps n" and "n < NODES_MAX_LEN" and "zh_insert Z h k n = Some h'"
  shows "places_ok Z h' (ps[n := Some a]) (Suc n)"
proof -
  have l: "zh_lookup Z h' = (zh_lookup Z h)(k \<mapsto> n)" by (rule zhashx_okD(3) [OF assms(1,4)])
  have new: "zh_lookup Z h k = None" using zhashx_okD(2) [OF assms(1), of h k n] assms(4) by auto
  have old: "zh_lookup Z h x \<noteq> Some n" for x using placesD(3) [OF assms(2), of x n] by auto
  show ?thesis
  proof (rule placesI)
    show "length (ps[n := Some a]) = NODES_MAX_LEN" using placesD(1) [OF assms(2)] by simp
    show "x = x'" if "zh_lookup Z h' x = Some i" "zh_lookup Z h' x' = Some i" for x x' i
      using that placesD(2) [OF assms(2), of x i x'] old by (simp add: l split: if_splits)
    show "i < Suc n \<and> i < NODES_MAX_LEN \<and> (ps[n := Some a]) ! i \<noteq> None" if i: "zh_lookup Z h' x = Some i" for x i
    proof (cases "x = k")
      case True
      then show ?thesis using i assms(3) placesD(1) [OF assms(2)] by (simp add: l)
    next
      case False
      then show ?thesis using i placesD(3-5) [OF assms(2), of x i] by (simp add: l)
    qed
  qed
qed

lemma places_delete:
  assumes "zhashx_ok Z" and "places_ok Z h ps n" and "zh_lookup Z h k = Some i"
  shows "places_ok Z (zh_delete Z h k) (ps[i := None]) n"
proof (rule placesI)
  have l: "zh_lookup Z (zh_delete Z h k) = (zh_lookup Z h)(k := None)" by (rule zhashx_okD(4) [OF assms(1)])
  show "length (ps[i := None]) = NODES_MAX_LEN" using placesD(1) [OF assms(2)] by simp
  show "x = x'" if "zh_lookup Z (zh_delete Z h k) x = Some j" "zh_lookup Z (zh_delete Z h k) x' = Some j" for x x' j
    using that placesD(2) [OF assms(2), of x j x'] by (simp add: l split: if_splits)
  show "j < n \<and> j < NODES_MAX_LEN \<and> (ps[i := None]) ! j \<noteq> None" if j: "zh_lookup Z (zh_delete Z h k) x = Some j" for x j
  proof -
    have x: "x \<noteq> k" "zh_lookup Z h x = Some j" using j by (auto simp: l split: if_splits)
    then have "j \<noteq> i" using placesD(2) [OF assms(2), of x i k] assms(3) by auto
    then show ?thesis using placesD(3-5) [OF assms(2) x(2)] by simp
  qed
qed

lemma handle_socket_fields [simp]:
  "dv_nnodes (snd (s_devio_engine_handle_socket E a f d)) = dv_nnodes d"
  "dv_pipes_mgmt (snd (s_devio_engine_handle_socket E a f d)) = dv_pipes_mgmt d"
  "dv_pipes_config (snd (s_devio_engine_handle_socket E a f d)) = dv_pipes_config d"
  "dv_sm_io_h (snd (s_devio_engine_handle_socket E a f d)) = dv_sm_io_h d"
  "dv_sm_io_cfg_h (snd (s_devio_engine_handle_socket E a f d)) = dv_sm_io_cfg_h d"
  "dv_name (snd (s_devio_engine_handle_socket E a f d)) = dv_name d"
  "dv_endpoint_broker (snd (s_devio_engine_handle_socket E a f d)) = dv_endpoint_broker d"
  by (simp_all add: s_devio_engine_handle_socket_def Let_def split: option.splits prod.splits)

lemma destroy_actor_fields [simp]:
  "dv_nnodes (s_devio_destroy_actor E a d) = dv_nnodes d"
  "dv_pipes_mgmt (s_devio_destroy_actor E a d) = dv_pipes_mgmt d"
  "dv_pipes_config (s_devio_destroy_actor E a d) = dv_pipes_config d"
  "dv_sm_io_h (s_devio_destroy_actor E a d) = dv_sm_io_h d"
  "dv_sm_io_cfg_h (s_devio_destroy_actor E a d) = dv_sm_io_cfg_h d"
  by (simp_all add: s_devio_destroy_actor_def Let_def)

text \<open>Destroying a module or its configuring actor: always defined; the keys of the other table may only be
  reduced while this one has none that it lacks.\<close>

lemma destroy_smio:
  assumes Z: "zhashx_ok Z" and ok: "registry_ok Z d"
    and c: "smio_h = Sm_Io_H \<Longrightarrow> zh_lookup Z (dv_sm_io_cfg_h d) k = None"
  obtains err d' where "s_devio_destroy_smio E Z smio_h k d = Some (err, d')" "registry_ok Z d'" "dv_nnodes d' = dv_nnodes d"
    "err = (if zh_lookup Z (get_hash smio_h d) k = None then DEVIO_ERR_SMIO_DESTROY else DEVIO_SUCCESS)"
    "zh_lookup Z (get_hash smio_h d') = (zh_lookup Z (get_hash smio_h d))(k := None)"
    "zh_lookup Z (get_hash (if smio_h = Sm_Io_H then Sm_Io_Cfg_H else Sm_Io_H) d') =
      zh_lookup Z (get_hash (if smio_h = Sm_Io_H then Sm_Io_Cfg_H else Sm_Io_H) d)"
proof (cases "zh_lookup Z (get_hash smio_h d) k")
  case None
  then show ?thesis using ok by (intro that [of DEVIO_ERR_SMIO_DESTROY d]) (auto simp: s_devio_destroy_smio_def fun_upd_idem)
next
  case (Some i)
  have p: "places_ok Z (get_hash smio_h d) (get_pipes smio_h d) (dv_nnodes d)" using ok by (cases smio_h) (auto simp: registry_ok_def)
  then obtain a where a: "get_pipes smio_h d ! i = Some a" using placesD(5) [OF p Some] by auto
  note del = places_delete [OF Z p Some]
  note l = zhashx_okD(4) [OF Z]
  let ?d = "set_hash smio_h (zh_delete Z (get_hash smio_h d) k)
    (set_pipes smio_h ((get_pipes smio_h d)[i := None]) (s_devio_destroy_actor E a d))"
  have r: "s_devio_destroy_smio E Z smio_h k d = Some (DEVIO_SUCCESS, ?d)"
    using Some a by (cases smio_h) (simp_all add: s_devio_destroy_smio_def Let_def)
  have "registry_ok Z ?d"
    using ok del c by (cases smio_h) (auto simp: registry_ok_def l)
  with r Some show ?thesis by (intro that [of DEVIO_SUCCESS ?d]) (cases smio_h; simp add: l)+
qed

lemma registry_env [simp]: "registry_ok Z (d\<lparr>dv_env := e\<rparr>) = registry_ok Z d"
  by (simp add: registry_ok_def)

lemma destroy_keys_ok:
  assumes Z: "zhashx_ok Z"
  shows "registry_ok Z d \<Longrightarrow> (smio_h = Sm_Io_H \<Longrightarrow> zh_lookup Z (dv_sm_io_cfg_h d) = Map.empty) \<Longrightarrow>
    distinct ks \<Longrightarrow> set ks \<subseteq> dom (zh_lookup Z (get_hash smio_h d)) \<Longrightarrow>
    \<exists>d'. destroy_keys E Z smio_h ks d = Some (DEVIO_SUCCESS, d') \<and> registry_ok Z d' \<and> dv_nnodes d' = dv_nnodes d \<and>
      zh_lookup Z (get_hash smio_h d') = zh_lookup Z (get_hash smio_h d) |` (- set ks) \<and>
      zh_lookup Z (get_hash (if smio_h = Sm_Io_H then Sm_Io_Cfg_H else Sm_Io_H) d') =
        zh_lookup Z (get_hash (if smio_h = Sm_Io_H then Sm_Io_Cfg_H else Sm_Io_H) d)"
proof (induction ks arbitrary: d)
  case (Cons k ks)
  have c: "smio_h = Sm_Io_H \<Longrightarrow> zh_lookup Z (dv_sm_io_cfg_h d) k = None" using Cons.prems(2) by simp
  obtain err d1 where d: "s_devio_destroy_smio E Z smio_h k d = Some (err, d1)" "registry_ok Z d1" "dv_nnodes d1 = dv_nnodes d"
    "err = (if zh_lookup Z (get_hash smio_h d) k = None then DEVIO_ERR_SMIO_DESTROY else DEVIO_SUCCESS)"
    "zh_lookup Z (get_hash smio_h d1) = (zh_lookup Z (get_hash smio_h d))(k := None)"
    "zh_lookup Z (get_hash (if smio_h = Sm_Io_H then Sm_Io_Cfg_H else Sm_Io_H) d1) =
      zh_lookup Z (get_hash (if smio_h = Sm_Io_H then Sm_Io_Cfg_H else Sm_Io_H) d)"
    by (rule destroy_smio [OF Z Cons.prems(1) c])
  have e: "err = DEVIO_SUCCESS" using d(4) Cons.prems(4) by auto
  have c1: "smio_h = Sm_Io_H \<Longrightarrow> zh_lookup Z (dv_sm_io_cfg_h d1) = Map.empty" using d(6) Cons.prems(2) by simp
  have s1: "set ks \<subseteq> dom (zh_lookup Z (get_hash smio_h d1))" using Cons.prems(3,4) d(5) by auto
  have "distinct ks" using Cons.prems(3) by simp
  from Cons.IH [OF d(2) c1 this s1] obtain d' where
    "destroy_keys E Z smio_h ks d1 = Some (DEVIO_SUCCESS, d')" "registry_ok Z d'" "dv_nnodes d' = dv_nnodes d1"
    "zh_lookup Z (get_hash smio_h d') = zh_lookup Z (get_hash smio_h d1) |` (- set ks)"
    "zh_lookup Z (get_hash (if smio_h = Sm_Io_H then Sm_Io_Cfg_H else Sm_Io_H) d') =
      zh_lookup Z (get_hash (if smio_h = Sm_Io_H then Sm_Io_Cfg_H else Sm_Io_H) d1)" by blast
  moreover have "((zh_lookup Z (get_hash smio_h d))(k := None)) |` (- set ks) = zh_lookup Z (get_hash smio_h d) |` (- set (k # ks))"
    by (auto simp: restrict_map_def fun_eq_iff)
  ultimately show ?case using d e by (intro exI [of _ d']) simp
qed (auto simp: fun_eq_iff restrict_map_def)

lemma destroy_all_ok:
  assumes Z: "zhashx_ok Z" and "registry_ok Z d" and "smio_h = Sm_Io_H \<Longrightarrow> zh_lookup Z (dv_sm_io_cfg_h d) = Map.empty"
  shows "\<exists>err d'. s_devio_destroy_smio_all E Z smio_h d = Some (err, d') \<and> registry_ok Z d' \<and> dv_nnodes d' = dv_nnodes d \<and>
    err = (if fst (en_alloc E (dv_env d)) then DEVIO_SUCCESS else DEVIO_ERR_ALLOC) \<and>
    (err = DEVIO_SUCCESS \<longrightarrow> zh_lookup Z (get_hash smio_h d') = Map.empty)"
proof -
  obtain ok e where al: "en_alloc E (dv_env d) = (ok, e)" by (cases "en_alloc E (dv_env d)")
  let ?d = "d\<lparr>dv_env := e\<rparr>"
  show ?thesis
  proof (cases ok)
    case True
    have g: "get_hash smio_h ?d = get_hash smio_h d" by (cases smio_h) simp_all
    have k: "distinct (zh_keys Z (get_hash smio_h ?d))" "set (zh_keys Z (get_hash smio_h ?d)) \<subseteq> dom (zh_lookup Z (get_hash smio_h ?d))"
      using zhashx_okD(5,6) [OF Z] by auto
    have c: "smio_h = Sm_Io_H \<Longrightarrow> zh_lookup Z (dv_sm_io_cfg_h ?d) = Map.empty" using assms(3) by simp
    from destroy_keys_ok [OF Z _ c k] assms(2) obtain d' where
      "destroy_keys E Z smio_h (zh_keys Z (get_hash smio_h ?d)) ?d = Some (DEVIO_SUCCESS, d')" "registry_ok Z d'"
      "dv_nnodes d' = dv_nnodes d" "zh_lookup Z (get_hash smio_h d') = zh_lookup Z (get_hash smio_h ?d) |` (- set (zh_keys Z (get_hash smio_h ?d)))"
      by auto
    moreover have "zh_lookup Z (get_hash smio_h ?d) |` (- set (zh_keys Z (get_hash smio_h ?d))) = Map.empty"
      using zhashx_okD(6) [OF Z, of "get_hash smio_h ?d"] by (auto simp: restrict_map_def fun_eq_iff)
    ultimately show ?thesis using al True by (simp add: s_devio_destroy_smio_all_def)
  qed (use al assms(2) in \<open>simp add: s_devio_destroy_smio_all_def\<close>)
qed

lemma unregister_ok:
  assumes Z: "zhashx_ok Z" and ok: "registry_ok Z d"
  shows "\<exists>d'. s_devio_unregister_sm_raw E Z k d =
      Some (if zh_lookup Z (dv_sm_io_h d) k = None then DEVIO_ERR_SMIO_DESTROY else DEVIO_SUCCESS, d') \<and>
    registry_ok Z d' \<and> dv_nnodes d' = dv_nnodes d \<and> zh_lookup Z (dv_sm_io_h d') = (zh_lookup Z (dv_sm_io_h d))(k := None) \<and>
    zh_lookup Z (dv_sm_io_cfg_h d') = (zh_lookup Z (dv_sm_io_cfg_h d))(k := None)"
proof -
  have c0: "Sm_Io_Cfg_H = Sm_Io_H \<Longrightarrow> zh_lookup Z (dv_sm_io_cfg_h d) k = None" by simp
  obtain err1 d1 where d1: "s_devio_destroy_smio E Z Sm_Io_Cfg_H k d = Some (err1, d1)" "registry_ok Z d1" "dv_nnodes d1 = dv_nnodes d"
    "err1 = (if zh_lookup Z (get_hash Sm_Io_Cfg_H d) k = None then DEVIO_ERR_SMIO_DESTROY else DEVIO_SUCCESS)"
    "zh_lookup Z (get_hash Sm_Io_Cfg_H d1) = (zh_lookup Z (get_hash Sm_Io_Cfg_H d))(k := None)"
    "zh_lookup Z (get_hash (if Sm_Io_Cfg_H = Sm_Io_H then Sm_Io_Cfg_H else Sm_Io_H) d1) =
      zh_lookup Z (get_hash (if Sm_Io_Cfg_H = Sm_Io_H then Sm_Io_Cfg_H else Sm_Io_H) d)"
    by (rule destroy_smio [OF Z ok c0])
  then have 1: "zh_lookup Z (dv_sm_io_cfg_h d1) = (zh_lookup Z (dv_sm_io_cfg_h d))(k := None)"
    "zh_lookup Z (dv_sm_io_h d1) = zh_lookup Z (dv_sm_io_h d)" by simp_all
  have c: "Sm_Io_H = Sm_Io_H \<Longrightarrow> zh_lookup Z (dv_sm_io_cfg_h d1) k = None" using 1(1) by simp
  obtain err2 d2 where 2: "s_devio_destroy_smio E Z Sm_Io_H k d1 = Some (err2, d2)" "registry_ok Z d2" "dv_nnodes d2 = dv_nnodes d1"
    "err2 = (if zh_lookup Z (get_hash Sm_Io_H d1) k = None then DEVIO_ERR_SMIO_DESTROY else DEVIO_SUCCESS)"
    "zh_lookup Z (get_hash Sm_Io_H d2) = (zh_lookup Z (get_hash Sm_Io_H d1))(k := None)"
    "zh_lookup Z (get_hash (if Sm_Io_H = Sm_Io_H then Sm_Io_Cfg_H else Sm_Io_H) d2) =
      zh_lookup Z (get_hash (if Sm_Io_H = Sm_Io_H then Sm_Io_Cfg_H else Sm_Io_H) d1)"
    by (rule destroy_smio [OF Z d1(2) c])
  show ?thesis using d1(1,3) 1 2 by (simp add: s_devio_unregister_sm_raw_def)
qed

lemma unregister_all_ok:
  assumes Z: "zhashx_ok Z" and ok: "registry_ok Z d"
  shows "\<exists>err d'. s_devio_unregister_all_sm_raw E Z d = Some (err, d') \<and> registry_ok Z d'"
proof -
  have c: "Sm_Io_Cfg_H = Sm_Io_H \<Longrightarrow> zh_lookup Z (dv_sm_io_cfg_h d) = Map.empty" by simp
  obtain err d1 where 1: "s_devio_destroy_smio_all E Z Sm_Io_Cfg_H d = Some (err, d1)" "registry_ok Z d1"
    "err = DEVIO_SUCCESS \<longrightarrow> zh_lookup Z (get_hash Sm_Io_Cfg_H d1) = Map.empty"
    using destroy_all_ok [OF Z ok c] by blast
  show ?thesis
  proof (cases "err = DEVIO_SUCCESS")
    case True
    then have c: "Sm_Io_H = Sm_Io_H \<Longrightarrow> zh_lookup Z (dv_sm_io_cfg_h d1) = Map.empty" using 1(3) by simp
    obtain err' d2 where "s_devio_destroy_smio_all E Z Sm_Io_H d1 = Some (err', d2)" "registry_ok Z d2"
      using destroy_all_ok [OF Z 1(2) c] by blast
    with 1(1) True show ?thesis by (simp add: s_devio_unregister_all_sm_raw_def)
  qed (use 1 in \<open>simp add: s_devio_unregister_all_sm_raw_def\<close>)
qed

section \<open>Registering\<close>

lemma register_config_ok:
  assumes Z: "zhashx_ok Z" and r: "register_config E Z m inst k n d = Some (err, d')"
    and h: "places_ok Z (dv_sm_io_h d) (dv_pipes_mgmt d) (Suc n)" "zh_lookup Z (dv_sm_io_h d) k = Some n"
    and c: "places_ok Z (dv_sm_io_cfg_h d) (dv_pipes_config d) n"
    and s: "dom (zh_lookup Z (dv_sm_io_cfg_h d)) \<subseteq> dom (zh_lookup Z (dv_sm_io_h d))"
    and n: "dv_nnodes d = Suc n" "n < NODES_MAX_LEN"
  shows "registry_ok Z d' \<and> err = DEVIO_SUCCESS \<and> dv_nnodes d' = Suc n \<and> zh_lookup Z (dv_sm_io_h d') = zh_lookup Z (dv_sm_io_h d) \<and>
    dv_pipes_mgmt d' = dv_pipes_mgmt d \<and> zh_lookup Z (dv_sm_io_cfg_h d') = (zh_lookup Z (dv_sm_io_cfg_h d))(k \<mapsto> n)"
proof -
  obtain ok e where al: "en_alloc E (dv_env d) = (ok, e)" by (cases "en_alloc E (dv_env d)")
  obtain actor e1 where ac: "en_actor E \<lparr>aa_fn = Smio_Cfg_Loop, aa_handler = m, aa_broker = dv_endpoint_broker d,
      aa_service = dv_name d, aa_base = 0, aa_inst_id = inst\<rparr> e = (actor, e1)" by (rule prod.exhaust)
  obtain a where a: "actor = Some a" using r al ac by (cases actor) (auto simp: register_config_def split: if_splits)
  let ?d1 = "d\<lparr>dv_pipes_config := (dv_pipes_config d)[n := Some a], dv_env := e1\<rparr>"
  obtain t where t: "zh_insert Z (dv_sm_io_cfg_h d) k n = Some t"
    using r al ac a by (auto simp: register_config_def split: if_splits Option.bind_splits)
  obtain er d2 where d2: "s_devio_engine_handle_socket E a (Some Handle_Pipe_Cfg) (?d1\<lparr>dv_sm_io_cfg_h := t\<rparr>) = (er, d2)" by (rule prod.exhaust)
  have e: "err = DEVIO_SUCCESS" "d' = d2" using r al ac a t d2 by (auto simp: register_config_def split: if_splits)
  note f = handle_socket_fields [of E a "Some Handle_Pipe_Cfg" "?d1\<lparr>dv_sm_io_cfg_h := t\<rparr>", unfolded d2 snd_conv]
  have p: "places_ok Z t ((dv_pipes_config d)[n := Some a]) (Suc n)" by (rule places_insert [OF Z c n(2) t])
  have l: "zh_lookup Z t = (zh_lookup Z (dv_sm_io_cfg_h d))(k \<mapsto> n)" by (rule zhashx_okD(3) [OF Z t])
  show ?thesis using e f p h s n l by (auto simp: registry_ok_def)
qed

lemma register_actor_ok:
  assumes Z: "zhashx_ok Z" and ok: "registry_ok Z d" and n: "dv_nnodes d \<le> NODES_MAX_LEN" and k: "zh_lookup Z (dv_sm_io_h d) k = None"
    and r: "register_actor E Z m base inst k d = Some (err, d')"
  shows "registry_ok Z d' \<and> dv_nnodes d' = Suc (dv_nnodes d) \<and> (err = DEVIO_SUCCESS \<longrightarrow> dv_nnodes d < NODES_MAX_LEN \<and>
     zh_lookup Z (dv_sm_io_h d') = (zh_lookup Z (dv_sm_io_h d))(k \<mapsto> dv_nnodes d) \<and>
     zh_lookup Z (dv_sm_io_cfg_h d') = (zh_lookup Z (dv_sm_io_cfg_h d))(k \<mapsto> dv_nnodes d))"
proof -
  let ?n = "dv_nnodes d"
  have pl: "places_ok Z (dv_sm_io_h d) (dv_pipes_mgmt d) ?n" "places_ok Z (dv_sm_io_cfg_h d) (dv_pipes_config d) ?n"
    "dom (zh_lookup Z (dv_sm_io_cfg_h d)) \<subseteq> dom (zh_lookup Z (dv_sm_io_h d))" using ok by (simp_all add: registry_ok_def)
  have sub: "zh_lookup Z (dv_sm_io_cfg_h d) x = Some y \<Longrightarrow> \<exists>y. zh_lookup Z (dv_sm_io_h d) x = Some y" for x y
    using pl(3) by (auto dest: subsetD [OF _ domI])
  obtain al e where al: "en_alloc E (dv_env d) = (al, e)" by (cases "en_alloc E (dv_env d)")
  obtain actor e1 where ac: "en_actor E \<lparr>aa_fn = Smio_Loop, aa_handler = m, aa_broker = dv_endpoint_broker d,
      aa_service = dv_name d, aa_base = base, aa_inst_id = inst\<rparr> e = (actor, e1)" by (rule prod.exhaust)
  show ?thesis
  proof (cases "al \<and> actor \<noteq> None")
    case False
    then show ?thesis using r al ac pl n places_more [OF pl(1)] places_more [OF pl(2)] places_blank [OF pl(1), of None]
      by (auto dest: sub simp: register_actor_def Let_def registry_ok_def split: if_splits)
  next
    case True
    then obtain a where a: "actor = Some a" "al" by auto
    have n': "?n < NODES_MAX_LEN" using r al a by (auto simp: register_actor_def Let_def split: if_splits)
    let ?d2 = "d\<lparr>dv_nnodes := Suc ?n, dv_pipes_mgmt := (dv_pipes_mgmt d)[?n := Some a], dv_env := e1\<rparr>"
    obtain er d3 where d3: "s_devio_engine_handle_socket E a (Some Handle_Pipe_Mgmt) ?d2 = (er, d3)" by (rule prod.exhaust)
    note f = handle_socket_fields [of E a "Some Handle_Pipe_Mgmt" ?d2, unfolded d3 snd_conv]
    obtain t where t: "zh_insert Z (dv_sm_io_h d) k ?n = Some t"
      using r al ac a n' d3 f by (auto simp: register_actor_def Let_def split: if_splits Option.bind_splits)
    have rc: "register_config E Z m inst k ?n (d3\<lparr>dv_sm_io_h := t\<rparr>) = Some (err, d')"
      using r al ac a n' d3 f t by (auto simp: register_actor_def Let_def split: if_splits)
    have l: "zh_lookup Z t = (zh_lookup Z (dv_sm_io_h d))(k \<mapsto> ?n)" by (rule zhashx_okD(3) [OF Z t])
    have "registry_ok Z d' \<and> err = DEVIO_SUCCESS \<and> dv_nnodes d' = Suc ?n \<and> zh_lookup Z (dv_sm_io_h d') = zh_lookup Z t \<and>
        dv_pipes_mgmt d' = (dv_pipes_mgmt d)[?n := Some a] \<and> zh_lookup Z (dv_sm_io_cfg_h d') = (zh_lookup Z (dv_sm_io_cfg_h d))(k \<mapsto> ?n)"
      using register_config_ok [OF Z rc] places_insert [OF Z pl(1) n' t, of a] pl(2,3) n' f l by auto
    then show ?thesis using n' l by simp
  qed
qed

lemma register_ok:
  assumes Z: "zhashx_ok Z" and ok: "registry_ok Z d" and r: "s_devio_register_sm_raw E Z smio_id base inst auto d = Some (err, d')"
  shows "registry_ok Z d'"
proof (cases "dv_nnodes d \<le> NODES_MAX_LEN")
  case n: True
  show ?thesis
  proof (cases "s_devio_search_sm_by_id smio_id")
    case (Some m)
    obtain key used e where g: "s_devio_gen_smio_key_auto E Z (dv_sm_io_h d) m inst auto (dv_env d) = Some (key, used, e)"
      using r n Some by (auto simp: s_devio_register_sm_raw_def split: Option.bind_splits)
    show ?thesis
    proof (cases "\<exists>k. key = Some k \<and> zh_lookup Z (dv_sm_io_h d) k = None")
      case True
      then obtain k where k: "key = Some k" "zh_lookup Z (dv_sm_io_h (d\<lparr>dv_env := e\<rparr>)) k = None" by auto
      have "register_actor E Z m base used k (d\<lparr>dv_env := e\<rparr>) = Some (err, d')"
        using r n Some g k by (simp add: s_devio_register_sm_raw_def)
      from register_actor_ok [OF Z _ _ k(2) this] ok n show ?thesis by simp
    qed (use r n Some g ok in \<open>auto simp: s_devio_register_sm_raw_def Let_def split: option.splits if_splits\<close>)
  qed (use r n ok in \<open>simp add: s_devio_register_sm_raw_def\<close>)
qed (use r ok in \<open>simp add: s_devio_register_sm_raw_def\<close>)

lemma register_devices_ok:
  assumes Z: "zhashx_ok Z"
  shows "registry_ok Z d \<Longrightarrow> register_devices E Z prefix ds d = Some d' \<Longrightarrow> registry_ok Z d'"
proof (induction ds arbitrary: d)
  case (Cons a ds)
  obtain smio_id base where a: "a = (smio_id, base)" by (cases a)
  obtain err d1 where 1: "s_devio_register_sm_raw E Z smio_id (prefix OR (prefix OR base)) 0 True d = Some (err, d1)"
    "register_devices E Z prefix ds d1 = Some d'" using Cons.prems(2) a by (auto split: Option.bind_splits)
  show ?case by (rule Cons.IH [OF register_ok [OF Z Cons.prems(1) 1(1)] 1(2)])
qed simp

section \<open>The reactor\<close>

text \<open>The events of the server's pipes, handled one after the other until a handler ends the reactor; \<open>B\<close> is
  what the board and its bus say: the base of a device id, the name of the device class, the prefix of
  addresses, the devices, the effect of a reset, the description of a device.\<close>

datatype devio_event = Ev_Pipe "pipe_args option" | Ev_Mgmt "mgmt_args option" | Ev_Cfg "string list option"

record 'e devio_bus =
  bus_find_id :: "u32 \<Rightarrow> u64"
  bus_ops :: string
  bus_prefix :: u64
  bus_devices :: "(u32 \<times> u64) list"
  bus_reset :: "'e \<Rightarrow> 'e"
  bus_sdb :: "u64 \<Rightarrow> u32 \<Rightarrow> u32 \<Rightarrow> (u16 \<times> u8 \<times> u8 \<times> u32) option"

fun devio_step ::
  "'e dev_env \<Rightarrow> 'h zhashx \<Rightarrow> 'e devio_bus \<Rightarrow> devio_event \<Rightarrow> ('h, 'e) devio \<Rightarrow> (int \<times> ('h, 'e) devio) option" where
  "devio_step E Z B (Ev_Pipe a) d =
     s_devio_handle_pipe E Z (bus_find_id B) (bus_ops B) (bus_prefix B) (bus_devices B) (bus_reset B) a d"
| "devio_step E Z B (Ev_Mgmt a) d = s_devio_handle_pipe_mgmt E Z (bus_sdb B) a d"
| "devio_step E Z B (Ev_Cfg m) d = s_devio_handle_pipe_cfg E Z m d"

fun devio_run ::
  "'e dev_env \<Rightarrow> 'h zhashx \<Rightarrow> 'e devio_bus \<Rightarrow> devio_event list \<Rightarrow> ('h, 'e) devio \<Rightarrow> ('h, 'e) devio option" where
  "devio_run E Z B [] d = Some d"
| "devio_run E Z B (ev # evs) d = do {
     (r, d1) \<leftarrow> devio_step E Z B ev d;
     if r = -1 then Some d1 else devio_run E Z B evs d1 }"

text \<open>The registry as \<open>devio_new\<close> leaves it.\<close>

definition devio_start :: "string \<Rightarrow> string \<Rightarrow> 'h \<Rightarrow> 'e \<Rightarrow> ('h, 'e) devio" where
  "devio_start name broker h e = \<lparr>dv_name = name, dv_endpoint_broker = broker, dv_nnodes = 0,
     dv_pipes_mgmt = replicate NODES_MAX_LEN None, dv_pipes_config = replicate NODES_MAX_LEN None,
     dv_sm_io_h = h, dv_sm_io_cfg_h = h, dv_readers = [], dv_env = e\<rparr>"

lemma start_ok: "zhashx_ok Z \<Longrightarrow> zh_new Z = Some h \<Longrightarrow> registry_ok Z (devio_start name broker h e)"
  by (simp add: registry_ok_def places_ok_def devio_start_def zhashx_okD(1))

lemma reconfigure_keys_ok: "registry_ok Z d \<Longrightarrow> reconfigure_keys E Z ks d = Some (err, d') \<Longrightarrow> registry_ok Z d'"
proof (induction ks arbitrary: d)
  case (Cons k ks)
  obtain err1 d1 where 1: "s_devio_reconfigure_sm_raw E Z k d = Some (err1, d1)" using Cons.prems(2) by (auto split: Option.bind_splits)
  then have "registry_ok Z d1" using Cons.prems(1)
    by (auto simp: s_devio_reconfigure_sm_raw_def s_devio_reconfigure_actor_def split: option.splits)
  with Cons.IH [of d1] Cons.prems(2) 1 show ?case by (auto split: if_splits)
qed simp

lemma reconfigure_ok: "registry_ok Z d \<Longrightarrow> s_devio_reconfigure_sm_raw E Z k d = Some (err, d') \<Longrightarrow> registry_ok Z d'"
  by (auto simp: s_devio_reconfigure_sm_raw_def s_devio_reconfigure_actor_def split: option.splits)

lemma reconfigure_all_ok: "registry_ok Z d \<Longrightarrow> s_devio_reconfigure_all_sm_raw E Z d = Some (err, d') \<Longrightarrow> registry_ok Z d'"
  by (auto simp: s_devio_reconfigure_all_sm_raw_def Let_def split: prod.splits if_splits intro: reconfigure_keys_ok [rotated])

lemma get_pipe_ok: "registry_ok Z d \<Longrightarrow> registry_ok Z (snd (s_devio_get_pipe_from_smio_id E Z i j d))"
  by (auto simp: s_devio_get_pipe_from_smio_id_def Let_def split: option.splits prod.splits)

lemma send_mgmt_ok: "registry_ok Z d \<Longrightarrow> registry_ok Z (snd (s_devio_send_smio_mgmt_msg_raw E Z a b c i j msg d))"
  using get_pipe_ok [of Z d E i j] by (auto simp: s_devio_send_smio_mgmt_msg_raw_def Let_def split: option.splits prod.splits)

lemma send_sdb_ok: "registry_ok Z d \<Longrightarrow> registry_ok Z (snd (s_devio_send_sdb_info_raw E Z sdb i j v w d))"
  using get_pipe_ok [of Z d E i j] by (auto simp: s_devio_send_sdb_info_raw_def Let_def split: option.splits prod.splits)

lemma cfg_done_ok: "registry_ok Z d \<Longrightarrow> registry_ok Z (snd (s_devio_check_send_cfg_done E Z d))"
  by (simp add: s_devio_check_send_cfg_done_def)

lemma destroy_cfg_ok:
  assumes "zhashx_ok Z" and "registry_ok Z d"
  obtains err d' where "s_devio_destroy_smio E Z Sm_Io_Cfg_H k d = Some (err, d')" "registry_ok Z d'"
  by (rule destroy_smio [OF assms, of Sm_Io_Cfg_H k E]) auto

lemma handle_pipe_cfg_ok:
  assumes Z: "zhashx_ok Z" and "registry_ok Z d"
  shows "\<exists>r d'. s_devio_handle_pipe_cfg E Z m d = Some (r, d') \<and> registry_ok Z d'"
proof (cases "\<exists>k more. m = Some (k # ''CONFIG DONE'' # more)")
  case True
  then obtain k more where m: "m = Some (k # ''CONFIG DONE'' # more)" by blast
  obtain err d1 where "s_devio_destroy_smio E Z Sm_Io_Cfg_H k d = Some (err, d1)" "registry_ok Z d1" by (rule destroy_cfg_ok [OF assms])
  then show ?thesis using cfg_done_ok [of Z d1 E] m by (simp add: s_devio_handle_pipe_cfg_def)
next
  case False
  then show ?thesis using assms(2) cfg_done_ok [OF assms(2), of E]
    by (auto simp: s_devio_handle_pipe_cfg_def split: option.splits list.splits)
qed

lemma step_ok:
  assumes Z: "zhashx_ok Z" and ok: "registry_ok Z d" and s: "devio_step E Z B ev d = Some (r, d')"
  shows "registry_ok Z d'"
proof (cases ev)
  case (Ev_Cfg m)
  then show ?thesis using s handle_pipe_cfg_ok [OF Z ok, of E m] by auto
next
  case (Ev_Mgmt a)
  then show ?thesis using s ok send_mgmt_ok [OF ok] send_sdb_ok [OF ok]
    by (auto simp: s_devio_handle_pipe_mgmt_def split: option.splits if_splits dest: register_ok [OF Z ok])
next
  case (Ev_Pipe a)
  have un: "registry_ok Z x" if "s_devio_unregister_sm_raw E Z k d = Some (err, x)" for k err x
    using unregister_ok [OF Z ok, of E k] that by auto
  have ua: "registry_ok Z x" if "s_devio_unregister_all_sm_raw E Z d = Some (err, x)" for err x
    using unregister_all_ok [OF Z ok, of E] that by auto
  have ra: "registry_ok Z x" if "s_devio_register_all_sm_raw E Z o' pf ds d = Some (err, x)" for o' pf ds err x
    using that ok register_devices_ok [OF Z ok] by (auto simp: s_devio_register_all_sm_raw_def split: if_splits)
  have ri: "registry_ok Z x" if "s_devio_register_sm_by_id_raw E Z f i d = Some (err, x)" for f i err x
    using that register_ok [OF Z ok] by (auto simp: s_devio_register_sm_by_id_raw_def)
  note k = un ua ra ri register_ok [OF Z ok] reconfigure_ok [OF ok] reconfigure_all_ok [OF ok]
  show ?thesis using s Ev_Pipe ok
    by (auto simp: s_devio_handle_pipe_def Let_def split: option.splits if_splits dest: k)
qed

lemma run_ok:
  assumes "zhashx_ok Z"
  shows "registry_ok Z d \<Longrightarrow> devio_run E Z B evs d = Some d' \<Longrightarrow> registry_ok Z d'"
proof (induction evs arbitrary: d)
  case (Cons ev evs)
  obtain r d1 where 1: "devio_step E Z B ev d = Some (r, d1)" using Cons.prems(2) by (auto split: Option.bind_splits)
  have ok: "registry_ok Z d1" by (rule step_ok [OF assms Cons.prems(1) 1])
  with Cons.IH [OF ok] Cons.prems(2) 1 show ?case by (auto split: if_splits)
qed simp

section \<open>Registering and unregistering\<close>

text \<open>An environment in which allocation, new actors and handlers in the reactor succeed.\<close>

definition env_serves :: "'e dev_env \<Rightarrow> bool" where
  "env_serves E \<longleftrightarrow> (\<forall>e. fst (en_alloc E e) \<and> fst (en_reader E e) \<and> (\<forall>a. fst (en_actor E a e) \<noteq> None))"

lemma servesD:
  assumes "env_serves E"
  obtains (alloc) e' where "en_alloc E e = (True, e')"
  using assms by (cases "en_alloc E e") (auto simp: env_serves_def dest: spec [of _ e])

lemma serves_actor:
  assumes "env_serves E"
  obtains c e' where "en_actor E a e = (Some c, e')"
proof (cases "en_actor E a e")
  case (Pair c e')
  moreover have "fst (en_actor E a e) \<noteq> None" using assms unfolding env_serves_def by blast
  ultimately show ?thesis using that by auto
qed

lemma serves_socket:
  assumes "env_serves E"
  shows "fst (s_devio_engine_handle_socket E c (Some f) d) = DEVIO_SUCCESS"
proof (cases "en_reader E (dv_env d)")
  case (Pair ok e)
  moreover have "fst (en_reader E (dv_env d))" using assms unfolding env_serves_def by blast
  ultimately show ?thesis by (simp add: s_devio_engine_handle_socket_def)
qed

definition module_key :: "smio_mod \<Rightarrow> nat \<Rightarrow> string" where
  "module_key m n = sd_name m @ fmt_u n"

lemma unat_u32: "i < 2 ^ 32 \<Longrightarrow> unat (word_of_nat i :: u32) = i"
  by (simp add: unat_of_nat)

lemma fmt_u_inj:
  assumes "fmt_u i = fmt_u j" and "i < 2 ^ 32" "j < 2 ^ 32"
  shows "i = j"
proof -
  have i: "hutils_numerify_key (fmt_u i) 10 = word_of_nat i"
    using numerify_fmt_u [of "word_of_nat i"] unfolding unat_u32 [OF assms(2)] .
  have j: "hutils_numerify_key (fmt_u j) 10 = word_of_nat j"
    using numerify_fmt_u [of "word_of_nat j"] unfolding unat_u32 [OF assms(3)] .
  have "(word_of_nat i :: u32) = word_of_nat j" using i unfolding assms(1) j by (rule sym)
  then have "unat (word_of_nat i :: u32) = unat (word_of_nat j :: u32)" by (rule arg_cong)
  then show ?thesis unfolding unat_u32 [OF assms(2)] unat_u32 [OF assms(3)] .
qed

lemma module_key_inj: "module_key m i = module_key m j \<Longrightarrow> i < 2 ^ 32 \<Longrightarrow> j < 2 ^ 32 \<Longrightarrow> i = j"
  unfolding module_key_def using fmt_u_inj by blast

lemma gen_key:
  assumes "env_serves E"
  obtains e' where "s_devio_gen_smio_key E m i e = (Some (module_key m (unat i)), e')"
proof -
  obtain e1 where 1: "en_alloc E e = (True, e1)" by (rule servesD [OF assms])
  obtain e2 where "en_alloc E e1 = (True, e2)" by (rule servesD [OF assms])
  with 1 show ?thesis by (intro that [of e2]) (simp add: s_devio_gen_smio_key_def module_key_def)
qed

text \<open>Fewer keys than numbers: one is free.\<close>

lemma free_instance:
  assumes "places_ok Z h ps n"
  obtains i where "i \<le> NODES_MAX_LEN" "zh_lookup Z h (module_key m i) = None" "\<And>j. j < i \<Longrightarrow> zh_lookup Z h (module_key m j) \<noteq> None"
proof -
  let ?f = "\<lambda>i. the (zh_lookup Z h (module_key m i))"
  have "\<exists>i. i \<le> NODES_MAX_LEN \<and> zh_lookup Z h (module_key m i) = None"
  proof (rule ccontr)
    assume "\<not> ?thesis"
    then have t: "\<exists>v. zh_lookup Z h (module_key m i) = Some v" if "i \<le> NODES_MAX_LEN" for i using that by auto
    have "inj_on ?f {..NODES_MAX_LEN}"
    proof (rule inj_onI)
      fix i j assume ij: "i \<in> {..NODES_MAX_LEN}" "j \<in> {..NODES_MAX_LEN}" "?f i = ?f j"
      then obtain v where "zh_lookup Z h (module_key m i) = Some v" "zh_lookup Z h (module_key m j) = Some v"
        using t [of i] t [of j] by auto
      from module_key_inj [OF placesD(2) [OF assms this]] ij show "i = j" by (simp add: NODES_MAX_LEN_def)
    qed
    moreover have "?f ` {..NODES_MAX_LEN} \<subseteq> {..<NODES_MAX_LEN}"
    proof
      fix v assume "v \<in> ?f ` {..NODES_MAX_LEN}"
      then obtain i where i: "i \<le> NODES_MAX_LEN" "v = ?f i" by auto
      then obtain w where "zh_lookup Z h (module_key m i) = Some w" using t by blast
      with placesD(4) [OF assms this] i show "v \<in> {..<NODES_MAX_LEN}" by simp
    qed
    ultimately have "card {..NODES_MAX_LEN} \<le> card {..<NODES_MAX_LEN}" by (rule card_inj_on_le) simp
    then show False by simp
  qed
  then obtain i where i: "i \<le> NODES_MAX_LEN" "zh_lookup Z h (module_key m i) = None" by blast
  let ?i = "LEAST i. zh_lookup Z h (module_key m i) = None"
  show ?thesis
  proof (rule that [of ?i])
    show "?i \<le> NODES_MAX_LEN" using Least_le [of "\<lambda>i. zh_lookup Z h (module_key m i) = None", OF i(2)] i(1) by simp
    show "zh_lookup Z h (module_key m ?i) = None" by (rule LeastI) (rule i(2))
    show "zh_lookup Z h (module_key m j) \<noteq> None" if "j < ?i" for j using not_less_Least [OF that] .
  qed
qed

lemma key_loop:
  assumes E: "env_serves E" and n: "zh_lookup Z h (module_key m n) = None" "\<And>j. j < n \<Longrightarrow> zh_lookup Z h (module_key m j) \<noteq> None"
    and "n < 2 ^ 32"
  shows "i \<le> n \<Longrightarrow> \<exists>e'. gen_smio_key_loop E Z h m (word_of_nat i) (Some (module_key m i)) e = Some (Some (module_key m n), word_of_nat n, e')"
proof (induction "n - i" arbitrary: i e)
  case 0
  then show ?case using n(1) by (simp add: gen_smio_key_loop.simps)
next
  case (Suc l)
  have i: "i < n" "l = n - Suc i" using Suc by simp_all
  have s: "word_of_nat i + 1 = (word_of_nat (Suc i) :: u32)" by simp
  have u: "unat (word_of_nat (Suc i) :: u32) = Suc i" by (rule unat_u32) (use i(1) assms(4) in simp)
  obtain e1 where e1: "s_devio_gen_smio_key E m (word_of_nat (Suc i)) e = (Some (module_key m (Suc i)), e1)"
    using gen_key [OF E, of m "word_of_nat (Suc i)" e] unfolding u by blast
  obtain e' where "gen_smio_key_loop E Z h m (word_of_nat (Suc i)) (Some (module_key m (Suc i))) e1 = Some (Some (module_key m n), word_of_nat n, e')"
    using Suc.hyps(1) [OF i(2)] i(1) by (meson Suc_leI)
  then show ?case using n(2) [OF i(1)] e1 by (subst gen_smio_key_loop.simps) (simp only: s option.case if_False prod.case Let_def, auto)
qed

lemma gen_key_auto:
  assumes "env_serves E" and "zh_lookup Z h (module_key m n) = None" "\<And>j. j < n \<Longrightarrow> zh_lookup Z h (module_key m j) \<noteq> None"
    and "n < 2 ^ 32"
  obtains e' where "s_devio_gen_smio_key_auto E Z h m 0 True e = Some (Some (module_key m n), word_of_nat n, e')"
proof -
  obtain e1 where "s_devio_gen_smio_key E m 0 e = (Some (module_key m 0), e1)" using gen_key [OF assms(1), of m 0 e] by auto
  moreover obtain e' where "gen_smio_key_loop E Z h m (word_of_nat 0) (Some (module_key m 0)) e1 = Some (Some (module_key m n), word_of_nat n, e')"
    using key_loop [OF assms, of 0] by blast
  ultimately show ?thesis by (intro that [of e']) (simp add: s_devio_gen_smio_key_auto_def)
qed

lemma register_config_serves:
  assumes E: "env_serves E" and Z: "zhashx_ok Z" and "zh_lookup Z (dv_sm_io_cfg_h d) k = None"
  shows "\<exists>d'. register_config E Z m inst k n d = Some (DEVIO_SUCCESS, d')"
proof -
  obtain e where e: "en_alloc E (dv_env d) = (True, e)" by (rule servesD [OF E])
  obtain c e1 where c: "en_actor E \<lparr>aa_fn = Smio_Cfg_Loop, aa_handler = m, aa_broker = dv_endpoint_broker d,
      aa_service = dv_name d, aa_base = 0, aa_inst_id = inst\<rparr> e = (Some c, e1)" by (rule serves_actor [OF E])
  obtain t where t: "zh_insert Z (dv_sm_io_cfg_h d) k n = Some t" using zhashx_okD(2) [OF Z, of "dv_sm_io_cfg_h d" k n] assms(3) by auto
  let ?d = "d\<lparr>dv_pipes_config := (dv_pipes_config d)[n := Some c], dv_env := e1, dv_sm_io_cfg_h := t\<rparr>"
  obtain r d' where "s_devio_engine_handle_socket E c (Some Handle_Pipe_Cfg) ?d = (r, d')" "r = DEVIO_SUCCESS"
    using serves_socket [OF E, of c Handle_Pipe_Cfg ?d] by (metis prod.collapse)
  then show ?thesis using e c t by (simp add: register_config_def)
qed

lemma register_actor_serves:
  assumes E: "env_serves E" and Z: "zhashx_ok Z" and k: "zh_lookup Z (dv_sm_io_h d) k = None" "zh_lookup Z (dv_sm_io_cfg_h d) k = None"
    and n: "dv_nnodes d < NODES_MAX_LEN"
  shows "\<exists>d'. register_actor E Z m base inst k d = Some (DEVIO_SUCCESS, d')"
proof -
  let ?n = "dv_nnodes d"
  obtain e where e: "en_alloc E (dv_env d) = (True, e)" by (rule servesD [OF E])
  obtain a e1 where a: "en_actor E \<lparr>aa_fn = Smio_Loop, aa_handler = m, aa_broker = dv_endpoint_broker d,
      aa_service = dv_name d, aa_base = base, aa_inst_id = inst\<rparr> e = (Some a, e1)" by (rule serves_actor [OF E])
  let ?d = "d\<lparr>dv_nnodes := Suc ?n, dv_pipes_mgmt := (dv_pipes_mgmt d)[?n := Some a], dv_env := e1\<rparr>"
  obtain r d1 where d1: "s_devio_engine_handle_socket E a (Some Handle_Pipe_Mgmt) ?d = (r, d1)" "r = DEVIO_SUCCESS"
    using serves_socket [OF E, of a Handle_Pipe_Mgmt ?d] by (metis prod.collapse)
  note f = handle_socket_fields [of E a "Some Handle_Pipe_Mgmt" ?d, unfolded d1(1) snd_conv]
  obtain t where t: "zh_insert Z (dv_sm_io_h d) k ?n = Some t" using zhashx_okD(2) [OF Z, of "dv_sm_io_h d" k ?n] k(1) by auto
  have "zh_lookup Z (dv_sm_io_cfg_h (d1\<lparr>dv_sm_io_h := t\<rparr>)) k = None" using f k(2) by simp
  from register_config_serves [OF E Z this] obtain d' where
    "register_config E Z m inst k ?n (d1\<lparr>dv_sm_io_h := t\<rparr>) = Some (DEVIO_SUCCESS, d')" by blast
  then show ?thesis using e a d1 f t n by (simp add: register_actor_def)
qed

lemma get_pipe:
  assumes "env_serves E" and "s_devio_search_sm_by_id smio_id = Some m" and "zh_lookup Z (dv_sm_io_h d) (module_key m (unat n)) = Some i"
  shows "fst (s_devio_get_pipe_from_smio_id E Z smio_id n d) = dv_pipes_mgmt d ! i"
proof -
  obtain e where "s_devio_gen_smio_key E m n (dv_env d) = (Some (module_key m (unat n)), e)" by (rule gen_key [OF assms(1)])
  then show ?thesis using assms(2,3) by (simp add: s_devio_get_pipe_from_smio_id_def)
qed

section \<open>A concrete server\<close>

definition ex_env :: "nat dev_env" where
  "ex_env = \<lparr>en_alloc = (\<lambda>e. (True, e)), en_actor = (\<lambda>a e. (Some e, Suc e)), en_reader = (\<lambda>e. (True, e)),
     en_send = (\<lambda>a m e. (True, e)), en_parent = (\<lambda>s e. (True, e)), en_destroy = (\<lambda>a e. e)\<rparr>"

definition ex_bus :: "nat devio_bus" where
  "ex_bus = \<lparr>bus_find_id = (\<lambda>i. 0), bus_ops = ''PCIE'', bus_prefix = 0, bus_devices = [], bus_reset = (\<lambda>e. e), bus_sdb = (\<lambda>v i n. None)\<rparr>"

lemma ex_serves: "env_serves ex_env"
  by (simp add: env_serves_def ex_env_def)

lemma ex_start: "registry_ok zh_alist (devio_start name broker [] e)"
  by (rule start_ok [OF zhashx_ok_alist]) (simp add: zh_alist_def)

lemma ex_acq: "s_devio_search_sm_by_id 0x4519a0ad = Some \<lparr>sd_id = 0x4519a0ad, sd_name = ''ACQ''\<rparr>"
  by (simp add: s_devio_search_sm_by_id_def smio_mod_dispatch_def)

lemma ex_register:
  "\<exists>d. devio_run ex_env zh_alist ex_bus
      [Ev_Pipe (Some ((pipe_cmd ''$REGISTER_SMIO'')\<lparr>pa_smio_id := 0x4519a0ad, pa_base := 0x1000\<rparr>))] (devio_start ''B'' ''ipc'' [] 0) = Some d \<and>
    zh_lookup zh_alist (dv_sm_io_h d) ''ACQ0'' = Some 0"
  by (simp add: s_devio_handle_pipe_def pipe_cmd_def s_devio_register_sm_raw_def ex_acq s_devio_gen_smio_key_auto_def
      s_devio_gen_smio_key_def gen_smio_key_loop.simps ex_env_def zh_alist_def devio_start_def register_actor_def register_config_def
      s_devio_engine_handle_socket_def fmt_u.simps digit_char_def NODES_MAX_LEN_def)

section \<open>Properties\<close>

text \<open>C24: Whatever commands and messages arrive over the pipes of the server, and whatever allocations, actors
  and handlers fail on the way, after any number of them (all that end in defined behaviour) the registry is
  consistent: different keys lead to different places, below the number of places given out, with an actor in
  each, in both tables, and a module that is still being configured is also registered.\<close>

theorem devio_registry_invariant:
  fixes Z :: "'h zhashx" and E :: "'e dev_env"
  assumes "zhashx_ok Z" and "zh_new Z = Some h" and "devio_run E Z B evs (devio_start name broker h e) = Some d"
  shows "(zh_lookup Z (get_hash smio_h d) k = Some i \<longrightarrow> i < dv_nnodes d \<and> i < NODES_MAX_LEN \<and> get_pipes smio_h d ! i \<noteq> None) \<and>
    (zh_lookup Z (get_hash smio_h d) k = Some i \<and> zh_lookup Z (get_hash smio_h d) k' = Some i \<longrightarrow> k = k') \<and>
    (zh_lookup Z (dv_sm_io_cfg_h d) k \<noteq> None \<longrightarrow> zh_lookup Z (dv_sm_io_h d) k \<noteq> None)"
proof -
  have ok: "registry_ok Z d" by (rule run_ok [OF assms(1) start_ok [OF assms(1,2)] assms(3)])
  then have p: "places_ok Z (get_hash smio_h d) (get_pipes smio_h d) (dv_nnodes d)" by (cases smio_h) (auto simp: registry_ok_def)
  have s: "dom (zh_lookup Z (dv_sm_io_cfg_h d)) \<subseteq> dom (zh_lookup Z (dv_sm_io_h d))" using ok by (simp add: registry_ok_def)
  show ?thesis using placesD(2-5) [OF p] subsetD [OF s, of k] by (auto simp: domIff)
qed

theorem devio_registry_invariant_witness:
  "\<exists>d. devio_run ex_env zh_alist ex_bus
      [Ev_Pipe (Some ((pipe_cmd ''$REGISTER_SMIO'')\<lparr>pa_smio_id := 0x4519a0ad, pa_base := 0x1000\<rparr>))] (devio_start ''B'' ''ipc'' [] 0) = Some d \<and>
    zh_lookup zh_alist (dv_sm_io_h d) ''ACQ0'' = Some 0 \<and> dv_pipes_mgmt d ! 0 \<noteq> None"
proof -
  obtain d where d: "devio_run ex_env zh_alist ex_bus
      [Ev_Pipe (Some ((pipe_cmd ''$REGISTER_SMIO'')\<lparr>pa_smio_id := 0x4519a0ad, pa_base := 0x1000\<rparr>))] (devio_start ''B'' ''ipc'' [] 0) = Some d"
    "zh_lookup zh_alist (dv_sm_io_h d) ''ACQ0'' = Some 0" using ex_register by blast
  have n: "zh_new zh_alist = Some []" by (simp add: zh_alist_def)
  have "zh_lookup zh_alist (get_hash Sm_Io_H d) ''ACQ0'' = Some 0" using d(2) by (simp only: get_hash.simps)
  with devio_registry_invariant [OF zhashx_ok_alist n d(1), where smio_h = Sm_Io_H and k = "''ACQ0''" and i = 0]
  have "get_pipes Sm_Io_H d ! 0 \<noteq> None" by blast
  then have "dv_pipes_mgmt d ! 0 \<noteq> None" by simp
  with d show ?thesis by blast
qed

text \<open>C25: While places are left and the environment serves, a known module can be registered: it gets the
  least instance number that is free, its key leads to the next place in both tables, messages to that module
  and instance find its actor, and the invariant is kept. Unregistering that key then brings both tables back,
  but not the place: the number of places given out stays one higher.\<close>

theorem devio_register_unregister:
  fixes Z :: "'h zhashx" and E :: "'e dev_env" and d :: "('h, 'e) devio"
  assumes Z: "zhashx_ok Z" and E: "env_serves E" and ok: "registry_ok Z d" and n: "dv_nnodes d < NODES_MAX_LEN"
    and m: "s_devio_search_sm_by_id smio_id = Some m"
  shows "\<exists>i d1 d2. zh_lookup Z (dv_sm_io_h d) (module_key m i) = None \<and> (\<forall>j < i. zh_lookup Z (dv_sm_io_h d) (module_key m j) \<noteq> None) \<and>
    s_devio_register_sm_raw E Z smio_id base 0 True d = Some (DEVIO_SUCCESS, d1) \<and> registry_ok Z d1 \<and>
    zh_lookup Z (dv_sm_io_h d1) = (zh_lookup Z (dv_sm_io_h d))(module_key m i \<mapsto> dv_nnodes d) \<and>
    zh_lookup Z (dv_sm_io_cfg_h d1) = (zh_lookup Z (dv_sm_io_cfg_h d))(module_key m i \<mapsto> dv_nnodes d) \<and>
    fst (s_devio_get_pipe_from_smio_id E Z smio_id (word_of_nat i) d1) = dv_pipes_mgmt d1 ! dv_nnodes d \<and>
    dv_pipes_mgmt d1 ! dv_nnodes d \<noteq> None \<and>
    s_devio_unregister_sm_raw E Z (module_key m i) d1 = Some (DEVIO_SUCCESS, d2) \<and> registry_ok Z d2 \<and>
    zh_lookup Z (dv_sm_io_h d2) = zh_lookup Z (dv_sm_io_h d) \<and> zh_lookup Z (dv_sm_io_cfg_h d2) = zh_lookup Z (dv_sm_io_cfg_h d) \<and>
    dv_nnodes d1 = Suc (dv_nnodes d) \<and> dv_nnodes d2 = Suc (dv_nnodes d)"
proof -
  have pl: "places_ok Z (dv_sm_io_h d) (dv_pipes_mgmt d) (dv_nnodes d)" "dom (zh_lookup Z (dv_sm_io_cfg_h d)) \<subseteq> dom (zh_lookup Z (dv_sm_io_h d))"
    using ok by (simp_all add: registry_ok_def)
  obtain i where i: "i \<le> NODES_MAX_LEN" "zh_lookup Z (dv_sm_io_h d) (module_key m i) = None"
    "\<And>j. j < i \<Longrightarrow> zh_lookup Z (dv_sm_io_h d) (module_key m j) \<noteq> None" by (rule free_instance [OF pl(1), of m]) blast
  have i32: "i < 2 ^ 32" using i(1) by (simp add: NODES_MAX_LEN_def)
  have c: "zh_lookup Z (dv_sm_io_cfg_h d) (module_key m i) = None" using pl(2) i(2) by (meson domIff subsetD)
  obtain e where e: "s_devio_gen_smio_key_auto E Z (dv_sm_io_h d) m 0 True (dv_env d) = Some (Some (module_key m i), word_of_nat i, e)"
    by (rule gen_key_auto [OF E i(2,3) i32, of "dv_env d"])
  let ?d = "d\<lparr>dv_env := e\<rparr>"
  obtain d1 where d1: "register_actor E Z m base (word_of_nat i) (module_key m i) ?d = Some (DEVIO_SUCCESS, d1)"
    using register_actor_serves [OF E Z, of ?d] i(2) c n by fastforce
  have r: "s_devio_register_sm_raw E Z smio_id base 0 True d = Some (DEVIO_SUCCESS, d1)"
    using n m e i(2) d1 by (simp add: s_devio_register_sm_raw_def)
  have a: "registry_ok Z d1 \<and> dv_nnodes d1 = Suc (dv_nnodes d) \<and>
      zh_lookup Z (dv_sm_io_h d1) = (zh_lookup Z (dv_sm_io_h d))(module_key m i \<mapsto> dv_nnodes d) \<and>
      zh_lookup Z (dv_sm_io_cfg_h d1) = (zh_lookup Z (dv_sm_io_cfg_h d))(module_key m i \<mapsto> dv_nnodes d)"
    using register_actor_ok [OF Z _ _ _ d1] ok n i(2) by simp
  have p1: "places_ok Z (dv_sm_io_h d1) (dv_pipes_mgmt d1) (dv_nnodes d1)" using a unfolding registry_ok_def by blast
  have l: "zh_lookup Z (dv_sm_io_h d1) (module_key m i) = Some (dv_nnodes d)" using a by simp
  have u: "unat (word_of_nat i :: u32) = i" by (rule unat_u32 [OF i32])
  have g: "fst (s_devio_get_pipe_from_smio_id E Z smio_id (word_of_nat i) d1) = dv_pipes_mgmt d1 ! dv_nnodes d"
    by (rule get_pipe [OF E m]) (simp add: u l)
  obtain d2 where d2: "s_devio_unregister_sm_raw E Z (module_key m i) d1 = Some (DEVIO_SUCCESS, d2)" "registry_ok Z d2"
    "dv_nnodes d2 = dv_nnodes d1" "zh_lookup Z (dv_sm_io_h d2) = (zh_lookup Z (dv_sm_io_h d1))(module_key m i := None)"
    "zh_lookup Z (dv_sm_io_cfg_h d2) = (zh_lookup Z (dv_sm_io_cfg_h d1))(module_key m i := None)"
    using unregister_ok [OF Z, of d1 E "module_key m i"] a l by auto
  have "zh_lookup Z (dv_sm_io_h d2) = zh_lookup Z (dv_sm_io_h d)" "zh_lookup Z (dv_sm_io_cfg_h d2) = zh_lookup Z (dv_sm_io_cfg_h d)"
    using d2(4,5) a i(2) c by (simp_all add: fun_upd_idem)
  then show ?thesis
    by (intro exI [of _ i] exI [of _ d1] exI [of _ d2] conjI allI impI; use i(2,3) r a g placesD(5) [OF p1 l] d2(1-3) in simp)
qed

theorem devio_register_unregister_witness:
  "\<exists>i d1 d2. s_devio_register_sm_raw ex_env zh_alist 0x4519a0ad 0x1000 0 True (devio_start ''B'' ''ipc'' [] 0) = Some (DEVIO_SUCCESS, d1) \<and>
    fst (s_devio_get_pipe_from_smio_id ex_env zh_alist 0x4519a0ad (word_of_nat i) d1) \<noteq> None \<and>
    s_devio_unregister_sm_raw ex_env zh_alist (module_key \<lparr>sd_id = 0x4519a0ad, sd_name = ''ACQ''\<rparr> i) d1 = Some (DEVIO_SUCCESS, d2) \<and>
    dv_nnodes d2 = 1"
proof -
  have n: "dv_nnodes (devio_start ''B'' ''ipc'' [] (0 :: nat)) < NODES_MAX_LEN" "dv_nnodes (devio_start ''B'' ''ipc'' [] (0 :: nat)) = 0"
    by (simp_all add: devio_start_def NODES_MAX_LEN_def)
  from devio_register_unregister [where base = "0x1000", OF zhashx_ok_alist ex_serves ex_start n(1) ex_acq] obtain i d1 d2 where
    "s_devio_register_sm_raw ex_env zh_alist 0x4519a0ad 0x1000 0 True (devio_start ''B'' ''ipc'' [] 0) = Some (DEVIO_SUCCESS, d1)"
    "fst (s_devio_get_pipe_from_smio_id ex_env zh_alist 0x4519a0ad (word_of_nat i) d1) \<noteq> None"
    "s_devio_unregister_sm_raw ex_env zh_alist (module_key \<lparr>sd_id = 0x4519a0ad, sd_name = ''ACQ''\<rparr> i) d1 = Some (DEVIO_SUCCESS, d2)"
    "dv_nnodes d2 = 1" unfolding n(2) One_nat_def by metis
  then show ?thesis by blast
qed

text \<open>C26: Places are not given back: once as many modules have been registered as there are places, no matter how
  many of them were unregistered, a further registration of a known module passes the check on the number of
  modules and goes on to write behind the end of the arrays (\<open>None\<close>).\<close>

theorem devio_places_run_out:
  fixes Z :: "'h zhashx" and E :: "'e dev_env" and d :: "('h, 'e) devio"
  assumes "env_serves E" and ok: "registry_ok Z d" and n: "dv_nnodes d = NODES_MAX_LEN" and m: "s_devio_search_sm_by_id smio_id = Some m"
  shows "s_devio_register_sm_raw E Z smio_id base 0 True d = None"
proof -
  have pl: "places_ok Z (dv_sm_io_h d) (dv_pipes_mgmt d) (dv_nnodes d)" using ok by (simp add: registry_ok_def)
  obtain i where i: "i \<le> NODES_MAX_LEN" "zh_lookup Z (dv_sm_io_h d) (module_key m i) = None"
    "\<And>j. j < i \<Longrightarrow> zh_lookup Z (dv_sm_io_h d) (module_key m j) \<noteq> None" by (rule free_instance [OF pl, of m]) blast
  have i32: "i < 2 ^ 32" using i(1) by (simp add: NODES_MAX_LEN_def)
  obtain e where e: "s_devio_gen_smio_key_auto E Z (dv_sm_io_h d) m 0 True (dv_env d) = Some (Some (module_key m i), word_of_nat i, e)"
    by (rule gen_key_auto [OF assms(1) i(2,3) i32, of "dv_env d"])
  obtain e' where "en_alloc E e = (True, e')" by (rule servesD [OF assms(1)])
  then show ?thesis using n m e i(2) by (simp add: s_devio_register_sm_raw_def register_actor_def)
qed

theorem devio_places_run_out_witness:
  "s_devio_register_sm_raw ex_env zh_alist 0x4519a0ad 0x1000 0 True ((devio_start ''B'' ''ipc'' [] 0)\<lparr>dv_nnodes := 100\<rparr>) = None"
proof -
  have "registry_ok zh_alist ((devio_start ''B'' ''ipc'' [] (0 :: nat))\<lparr>dv_nnodes := 100\<rparr>)"
    by (simp add: registry_ok_def places_ok_def devio_start_def zh_alist_def NODES_MAX_LEN_def)
  from devio_places_run_out [OF ex_serves this _ ex_acq] show ?thesis by (simp add: NODES_MAX_LEN_def)
qed

end
