(* ===== verification/Op_Table.thy ===== *)
theory Op_Table
  imports Acq Mod_Trigger Mod_Timing Mod_Fofb Mod_Orbit Mod_Adc Exports Client "HOL-Library.Sublist"
begin

text \<open>
  The table of the exported functions of all modules, src/sm_io_table/sm_io_codes.c, in which the client
  library looks a function up by its name.
\<close>

section \<open>The table\<close>

definition smio_exp_ops :: "('w, msg_args) disp_op list list" where
  "smio_exp_ops =
     [acq_exp_ops, dsp_exp_ops, fmc130m_4ch_exp_ops, fmc250m_4ch_exp_ops, fmc100m_4ch_exp_ops, fmc_adc_common_exp_ops,
      fmc_active_clk_exp_ops, fmcpico1m_4ch_exp_ops, swap_exp_ops, rffe_exp_ops, afc_diag_exp_ops, trigger_iface_exp_ops,
      trigger_mux_exp_ops, afc_timing_exp_ops, init_exp_ops, acq_pm_exp_ops, afc_mgmt_exp_ops, tim_rcv_exp_ops,
      orbit_intlk_exp_ops, fofb_ctrl_exp_ops, rtmlamp_ohwr_exp_ops]"

section \<open>Names\<close>

text \<open>What the names of each list begin with: enough to tell the lists apart.\<close>

definition starts :: "string list list" where
  "starts =
     [[''acq_''], [''dsp_''], [''fmc130m_4ch_''], [''fmc250m_4ch_''], [''fmc100m_4ch_''], [''fmc_adc_common_''],
      [''fmc_active_clk_si571_'', ''fmc_active_clk_ad9510_'', ''fmc_active_clk_rst_'', ''fmc_active_clk_pll_'', ''fmc_active_clk_clk_''],
      [''fmcpico1m_4ch_''], [''swap_''], [''rffe_''], [''afc_diag_''], [''trigger_iface_''], [''trigger_mux_''],
      [''afc_timing_''], [''check''], [], [''fmc_active_clk_si57x_''], [''tim_rcv_''], [''orbit_intlk_''],
      [''fofb_ctrl_''], [''rtmlamp_ohwr_'']]"

definition begins :: "string list \<Rightarrow> string \<Rightarrow> bool" where
  "begins ps s \<longleftrightarrow> list_ex (\<lambda>p. prefix p s) ps"

definition incomparable :: "string list \<Rightarrow> string list \<Rightarrow> bool" where
  "incomparable ps qs \<longleftrightarrow> list_all (\<lambda>p. list_all (\<lambda>q. \<not> prefix p q \<and> \<not> prefix q p) qs) ps"

lemma incomparable_apart: "incomparable ps qs \<Longrightarrow> begins ps s \<Longrightarrow> \<not> begins qs s"
  by (auto simp: incomparable_def begins_def list_all_iff list_ex_iff dest: prefix_same_cases)

lemma starts_apart: "sorted_wrt incomparable starts"
  by (simp add: starts_def incomparable_def)

lemma names_begin: "list_all2 (\<lambda>ps row. list_all (begins ps) (map dop_name row)) starts smio_exp_ops"
  by (simp add: starts_def smio_exp_ops_def begins_def exp_simps
      acq_exp_ops_def acq_exp_defs
      dsp_exp_ops_def dsp_exp_defs fmc130m_4ch_exp_ops_def fmc130m_4ch_exp_defs fmc250m_4ch_exp_ops_def fmc250m_4ch_exp_defs
      fmc100m_4ch_exp_ops_def fmc100m_4ch_exp_defs fmc_adc_common_exp_ops_def fmc_adc_common_defs
      fmc_active_clk_exp_ops_def fmc_active_clk_exp_defs fmcpico1m_4ch_exp_ops_def fmcpico1m_4ch_defs
      swap_exp_ops_def swap_defs rffe_exp_ops_def rffe_exp_defs afc_diag_exp_ops_def afc_diag_exp_defs
      trigger_iface_exp_ops_def trigger_iface_defs trigger_mux_exp_ops_def trigger_mux_defs
      afc_timing_exp_ops_def afc_timing_defs init_exp_ops_def init_exp_defs acq_pm_exp_ops_def afc_mgmt_exp_ops_def afc_mgmt_exp_defs
      tim_rcv_exp_ops_def tim_rcv_defs orbit_intlk_exp_ops_def orbit_intlk_defs fofb_ctrl_exp_ops_def fofb_ctrl_defs
      rtmlamp_ohwr_exp_ops_def rtmlamp_ohwr_defs)

text \<open>Within a list the names are different, apart from one pair.\<close>

lemma distinct_drop: "distinct (map (drop k) xs) \<Longrightarrow> distinct xs"
  by (simp add: distinct_map)

lemma acq_names: "distinct (map dop_name acq_exp_ops)"
  by (simp add: acq_exp_defs exp_simps)

lemma dsp_names: "distinct (map dop_name dsp_exp_ops)"
  by (rule distinct_drop [of 12]) (simp add: dsp_exp_ops_def dsp_exp_defs exp_simps)

lemma fmc130m_4ch_names: "distinct (map dop_name fmc130m_4ch_exp_ops)"
  by (rule distinct_drop [of 12]) (simp add: fmc130m_4ch_exp_ops_def fmc130m_4ch_exp_defs exp_simps)

lemma fmc250m_4ch_names: "distinct (map dop_name fmc250m_4ch_exp_ops)"
  by (rule distinct_drop [of 12]) (simp add: fmc250m_4ch_exp_ops_def fmc250m_4ch_exp_defs exp_simps)

lemma fmc_adc_common_names: "distinct (map dop_name fmc_adc_common_exp_ops)"
  by (simp add: fmc_adc_common_exp_ops_def fmc_adc_common_defs exp_simps)

lemma fmc_active_clk_names: "distinct (map dop_name fmc_active_clk_exp_ops)"
  by (rule distinct_drop [of 15]) (simp add: fmc_active_clk_exp_ops_def fmc_active_clk_exp_defs exp_simps)

lemma fmcpico1m_4ch_names: "distinct (map dop_name fmcpico1m_4ch_exp_ops)"
  by (simp add: fmcpico1m_4ch_exp_ops_def fmcpico1m_4ch_defs exp_simps)

lemma swap_names: "distinct (map dop_name swap_exp_ops)"
  by (simp add: swap_exp_ops_def swap_defs exp_simps)

lemma rffe_names: "distinct (map dop_name rffe_exp_ops)"
  by (simp add: rffe_exp_ops_def rffe_exp_defs exp_simps)

lemma afc_diag_names: "distinct (map dop_name afc_diag_exp_ops)"
  by (simp add: afc_diag_exp_ops_def afc_diag_exp_defs exp_simps)

lemma trigger_iface_names: "distinct (map dop_name trigger_iface_exp_ops)"
  by (simp add: trigger_iface_exp_ops_def trigger_iface_defs exp_simps)

lemma trigger_mux_names: "distinct (map dop_name trigger_mux_exp_ops)"
  by (simp add: trigger_mux_exp_ops_def trigger_mux_defs exp_simps)

lemma afc_timing_names: "distinct (map dop_name afc_timing_exp_ops)"
  by (rule distinct_drop [of 19]) (simp add: afc_timing_exp_ops_def afc_timing_defs exp_simps)

lemma init_names: "distinct (map dop_name init_exp_ops)"
  by (simp add: init_exp_ops_def init_exp_defs exp_simps)

lemma acq_pm_names: "distinct (map dop_name acq_pm_exp_ops)"
  by (simp add: acq_pm_exp_ops_def exp_simps)

lemma afc_mgmt_names: "distinct (map dop_name afc_mgmt_exp_ops)"
  by (simp add: afc_mgmt_exp_ops_def afc_mgmt_exp_defs exp_simps)

lemma tim_rcv_names: "distinct (map dop_name tim_rcv_exp_ops)"
  by (simp add: tim_rcv_exp_ops_def tim_rcv_defs exp_simps)

lemma orbit_intlk_names: "distinct (map dop_name orbit_intlk_exp_ops)"
  by (rule distinct_drop [of 20]) (simp add: orbit_intlk_exp_ops_def orbit_intlk_defs exp_simps)

lemma fofb_ctrl_names: "distinct (map dop_name fofb_ctrl_exp_ops)"
  by (rule distinct_drop [of 10]) (simp add: fofb_ctrl_exp_ops_def fofb_ctrl_defs exp_simps)

lemma rtmlamp_ohwr_names: "distinct (map dop_name rtmlamp_ohwr_exp_ops)"
  by (simp add: rtmlamp_ohwr_exp_ops_def rtmlamp_ohwr_defs exp_simps)

lemmas names_distinct = acq_names dsp_names fmc130m_4ch_names fmc250m_4ch_names fmc_adc_common_names fmc_active_clk_names fmcpico1m_4ch_names swap_names rffe_names afc_diag_names trigger_iface_names trigger_mux_names afc_timing_names init_names acq_pm_names afc_mgmt_names tim_rcv_names orbit_intlk_names fofb_ctrl_names rtmlamp_ohwr_names

text \<open>The descriptor that a name leads to.\<close>

definition canon :: "('w, msg_args) disp_op \<Rightarrow> ('w, msg_args) disp_op" where
  "canon op = (if op = fmc100m_4ch_adc_status_exp then fmc100m_4ch_status_exp else op)"

definition leads :: "('w, msg_args) disp_op list \<Rightarrow> bool" where
  "leads row \<longleftrightarrow> list_all (\<lambda>op. find (\<lambda>o'. dop_name o' = dop_name op) row = Some (canon op)) row"

lemma find_append_case: "find P (xs @ ys) = (case find P xs of Some x \<Rightarrow> Some x | None \<Rightarrow> find P ys)"
  by (induction xs) simp_all

lemma find_distinct:
  "distinct (map dop_name row) \<Longrightarrow> op \<in> set row \<Longrightarrow> find (\<lambda>o'. dop_name o' = dop_name op) row = Some op"
  by (induction row) (auto simp: rev_image_eqI)

lemma leads_distinct:
  assumes "distinct (map dop_name row)" and "list_all (begins ps) (map dop_name row)" and "incomparable ps [''fmc100m_4ch_''] \<or> incomparable [''fmc100m_4ch_''] ps"
  shows "leads row"
proof -
  have "op \<noteq> fmc100m_4ch_adc_status_exp" if "op \<in> set row" for op
  proof
    assume "op = fmc100m_4ch_adc_status_exp"
    then have "begins [''fmc100m_4ch_''] (dop_name op)" by (simp add: begins_def fmc100m_4ch_exp_defs exp_simps)
    moreover have "begins ps (dop_name op)" using assms(2) that by (simp add: list_all_iff)
    ultimately show False using assms(3) incomparable_apart by blast
  qed
  then show ?thesis using find_distinct [OF assms(1)] by (simp add: leads_def list_all_iff canon_def)
qed

lemma find_twin:
  assumes "row = xs @ b # ys" and "a \<in> set xs" and "dop_name a = dop_name b"
    and "distinct (map dop_name xs)" and "distinct (map dop_name ys)" and "dop_name ` set xs \<inter> dop_name ` set ys = {}" and "op \<in> set row"
  shows "find (\<lambda>o'. dop_name o' = dop_name op) row = Some (if op = b then a else op)"
proof (cases "op = b \<or> op \<in> set xs")
  case True
  have "find (\<lambda>o'. dop_name o' = dop_name x) xs = Some x" if "x \<in> set xs" for x using find_distinct [OF assms(4) that] .
  moreover have "x = a" if "x \<in> set xs" "x = b" for x using that assms(2-4) by (auto simp: distinct_map dest: inj_onD)
  ultimately show ?thesis using True assms(1-3) by (auto simp: find_append_case) (metis option.simps(5))
next
  case False
  then have op: "op \<in> set ys" "op \<noteq> b" using assms(1,7) by auto
  then have n: "dop_name op \<notin> dop_name ` set xs" using assms(6) by blast
  then have "find (\<lambda>o'. dop_name o' = dop_name op) xs = None" unfolding find_None_iff by (metis image_eqI)
  moreover have "dop_name b \<noteq> dop_name op" using n assms(2,3) by (metis imageI)
  ultimately show ?thesis using op find_distinct [OF assms(5) op(1)] assms(1) by (simp add: find_append_case)
qed

lemma find_fmc100m:
  assumes "op \<in> set fmc100m_4ch_exp_ops"
  shows "find (\<lambda>o'. dop_name o' = dop_name op) fmc100m_4ch_exp_ops = Some (canon op)"
  unfolding canon_def
  by (rule find_twin [OF _ _ _ _ _ _ assms, where xs = "[fmc100m_4ch_si571_oe_exp, fmc100m_4ch_acq_led_exp, fmc100m_4ch_status_exp]"
       and ys = "[fmc100m_4ch_adc_calib_gain_exp, fmc100m_4ch_adc_calib_offset_exp, fmc100m_4ch_adc_sat_exp, fmc100m_4ch_adc_ssr_exp,
       fmc100m_4ch_fs_freq_exp, fmc100m_4ch_si571_freq_exp, fmc100m_4ch_si571_get_defaults_exp, fmc100m_4ch_si571_fstartup_exp,
       fmc100m_4ch_ltc2174_test_patt_exp, fmc100m_4ch_ltc2174_test_patt_data_exp, fmc100m_4ch_ltc2174_reset_exp, fmc100m_4ch_ltc2174_twos_compl_exp]"])
      (simp_all add: fmc100m_4ch_exp_ops_def fmc100m_4ch_exp_defs exp_simps)

lemma leads_fmc100m: "leads fmc100m_4ch_exp_ops"
  using find_fmc100m by (auto simp: leads_def list_all_iff)

lemma rows_distinct: "list_all (\<lambda>row. row = fmc100m_4ch_exp_ops \<or> distinct (map dop_name row)) smio_exp_ops"
  unfolding smio_exp_ops_def by (simp only: list.pred_inject names_distinct simp_thms)

lemma others_apart:
  "list_all2 (\<lambda>ps row. row = fmc100m_4ch_exp_ops \<or> incomparable ps [''fmc100m_4ch_''] \<or> incomparable [''fmc100m_4ch_''] ps)
     starts smio_exp_ops"
  by (simp add: starts_def smio_exp_ops_def incomparable_def)

lemma rows_lead: "list_all leads smio_exp_ops"
  unfolding list_all_length
proof (intro allI impI)
  fix n assume n: "n < length (smio_exp_ops :: ('w, msg_args) disp_op list list)"
  show "leads (smio_exp_ops ! n :: ('w, msg_args) disp_op list)"
    using n rows_distinct names_begin others_apart leads_distinct leads_fmc100m
    unfolding list_all_length list_all2_conv_all_nth by metis
qed

lemma find_concat:
  assumes "sorted_wrt incomparable pss" and "list_all2 (\<lambda>ps row. list_all (begins ps) (map dop_name row)) pss rows"
    and "row \<in> set rows" and "op \<in> set row" and "leads row"
  shows "find (\<lambda>o'. dop_name o' = dop_name op) (concat rows) = Some (canon op)"
  using assms
proof (induction pss rows rule: list_induct2')
  case (4 ps pss r rows)
  show ?case
  proof (cases "row = r")
    case True
    then have "find (\<lambda>o'. dop_name o' = dop_name op) r = Some (canon op)" using "4.prems"(4,5) by (simp add: leads_def list_all_iff)
    then show ?thesis by (auto simp: find_append_case)
  next
    case False
    then have row: "row \<in> set rows" using "4.prems"(3) by simp
    then obtain qs where qs: "qs \<in> set pss" "list_all (begins qs) (map dop_name row)"
      using "4.prems"(2) by (fastforce simp: list_all2_conv_all_nth in_set_conv_nth)
    have "\<not> begins ps (dop_name op)"
      using "4.prems"(1,4) qs incomparable_apart by (fastforce simp: list_all_iff)
    then have "find (\<lambda>o'. dop_name o' = dop_name op) r = None"
      using "4.prems"(2) by (fastforce simp: find_None_iff list_all_iff)
    then show ?thesis using "4.IH" "4.prems" row by (simp add: find_append_case)
  qed
qed simp_all

section \<open>Properties\<close>

text \<open>C20: looking a function up by its name. The name of every exported function of every module leads to
  that function's descriptor, the first of all tables that has it, with one exception:
  \<open>fmc100m_4ch_adc_status\<close> carries the name of another function of its module, which is found in its
  place, so it cannot be called by name. A name that no function has leads to none.\<close>

theorem func_translate_finds:
  fixes op :: "('w, msg_args) disp_op"
  shows "(op \<in> set (concat smio_exp_ops) \<longrightarrow> halcs_func_translate smio_exp_ops (dop_name op) =
      Some (if op = fmc100m_4ch_adc_status_exp then fmc100m_4ch_status_exp else op)) \<and>
   (name \<notin> dop_name ` set (concat (smio_exp_ops :: ('w, msg_args) disp_op list list)) \<longrightarrow>
      halcs_func_translate (smio_exp_ops :: ('w, msg_args) disp_op list list) name = None)"
proof -
  have "halcs_func_translate smio_exp_ops (dop_name op) = Some (canon op)" if k: "op \<in> set (concat smio_exp_ops)"
  proof -
    obtain row where row: "row \<in> set smio_exp_ops" "op \<in> set row" using k unfolding set_concat by blast
    have "leads row" by (rule bspec [OF rows_lead [unfolded list_all_iff] row(1)])
    from find_concat [OF starts_apart names_begin row this] show ?thesis unfolding halcs_func_translate_def .
  qed
  moreover have "halcs_func_translate (smio_exp_ops :: ('w, msg_args) disp_op list list) name = None"
    if "name \<notin> dop_name ` set (concat (smio_exp_ops :: ('w, msg_args) disp_op list list))"
    using that unfolding halcs_func_translate_def find_None_iff by (metis image_eqI)
  ultimately show ?thesis by (simp add: canon_def)
qed

theorem func_translate_finds_witness:
  "halcs_func_translate smio_exp_ops ''swap_set_get_sw_dly'' = Some (swap_set_get_sw_dly_exp :: (unit, msg_args) disp_op) \<and>
   halcs_func_translate smio_exp_ops ''fmc100m_4ch_status'' = Some (fmc100m_4ch_status_exp :: (unit, msg_args) disp_op)"
proof -
  let ?a = "swap_set_get_sw_dly_exp :: (unit, msg_args) disp_op"
  let ?b = "fmc100m_4ch_adc_status_exp :: (unit, msg_args) disp_op"
  have "?a \<in> set (concat smio_exp_ops)" and "?b \<in> set (concat smio_exp_ops)"
  proof -
    have "swap_exp_ops \<in> set smio_exp_ops" "fmc100m_4ch_exp_ops \<in> set smio_exp_ops" by (simp_all add: smio_exp_ops_def)
    moreover have "?a \<in> set swap_exp_ops" "?b \<in> set fmc100m_4ch_exp_ops"
      by (simp_all add: swap_exp_ops_def fmc100m_4ch_exp_ops_def)
    ultimately show "?a \<in> set (concat smio_exp_ops)" "?b \<in> set (concat smio_exp_ops)" unfolding set_concat by blast+
  qed
  then have "halcs_func_translate smio_exp_ops (dop_name ?a) = Some (if ?a = fmc100m_4ch_adc_status_exp then fmc100m_4ch_status_exp else ?a)"
    "halcs_func_translate smio_exp_ops (dop_name ?b) = Some (if ?b = fmc100m_4ch_adc_status_exp then fmc100m_4ch_status_exp else ?b)"
    using func_translate_finds by blast+
  moreover have n: "dop_name ?a = ''swap_set_get_sw_dly''" "dop_name ?b = ''fmc100m_4ch_status''"
    by (simp_all add: swap_defs fmc100m_4ch_exp_defs exp_simps)
  moreover have "?a \<noteq> fmc100m_4ch_adc_status_exp"
  proof
    assume "?a = fmc100m_4ch_adc_status_exp"
    then have "dop_name ?a = dop_name ?b" by simp
    then show False by (simp add: n)
  qed
  ultimately show ?thesis by simp
qed

end
