(* ===== verification/Acq_Client.thy ===== *)
theory Acq_Client
  imports Op_Table
begin

text \<open>
  The acquisition client, libs/acqclient/src/acq_client_core.c: requests, status, blocks and whole curves,
  over the client library.

  The caller's buffer is its bytes and the place of the data pointer in it. The clock and the interrupt
  flag, which the code reads from the system, are functions of the peer state.
\<close>

section \<open>Data\<close>

record acq_req =
  ar_pre :: u32
  ar_post :: u32
  ar_shots :: u32
  ar_chan :: u32

record acq_block =
  bk_idx :: u32
  bk_data :: "u8 list"
  bk_off :: nat
  bk_size :: u32
  bk_read :: u32

record acq_trans =
  tr_req :: acq_req
  tr_block :: acq_block

text \<open>The client: the one it is built on, and the buffer of the block last received, its number of valid
  bytes in front.\<close>

record 'p acq_client =
  ac_halcs :: "'p halcs_client"
  ac_block :: "u8 list"

type_synonym 'p acq_set = "'p acq_client \<Rightarrow> string \<Rightarrow> u32 \<Rightarrow> 'p \<Rightarrow> (int \<times> 'p) option"
type_synonym 'p acq_set2 = "'p acq_client \<Rightarrow> string \<Rightarrow> u32 \<Rightarrow> u32 \<Rightarrow> 'p \<Rightarrow> (int \<times> 'p) option"
type_synonym 'p acq_get = "'p acq_client \<Rightarrow> string \<Rightarrow> u32 \<Rightarrow> 'p \<Rightarrow> (int \<times> u32 \<times> 'p) option"
type_synonym 'p acq_get1 = "'p acq_client \<Rightarrow> string \<Rightarrow> u32 \<Rightarrow> u32 \<Rightarrow> 'p \<Rightarrow> (int \<times> u32 \<times> 'p) option"

section \<open>Start and end\<close>

text \<open>The outcome of the two allocations. When one fails the client it was given stays.\<close>

definition s_acq_client_new :: "bool \<Rightarrow> bool \<Rightarrow> 'p halcs_client \<Rightarrow> 'p acq_client option" where
  "s_acq_client_new ok0 ok1 hc =
     (if \<not> ok0 \<or> \<not> ok1 then None
      else Some \<lparr>ac_halcs = hc, ac_block = replicate (4 + unat BLOCK_SIZE) 0\<rparr>)"

definition acq_client_new ::
  "bool \<Rightarrow> bool \<Rightarrow> (nat \<Rightarrow> bool) \<Rightarrow> 'p mlm_client \<Rightarrow> int \<Rightarrow> 'p acq_client option \<times> client_res list" where
  "acq_client_new ok0 ok1 ok mlm rc =
     (let (hc, res) = halcs_client_new ok mlm rc in (Option.bind hc (s_acq_client_new ok0 ok1), res))"

definition acq_client_new_time ::
  "bool \<Rightarrow> bool \<Rightarrow> (nat \<Rightarrow> bool) \<Rightarrow> 'p mlm_client \<Rightarrow> int \<Rightarrow> int \<Rightarrow> 'p acq_client option \<times> client_res list" where
  "acq_client_new_time ok0 ok1 ok mlm rc timeout =
     (let (hc, res) = halcs_client_new_time ok mlm rc timeout in (Option.bind hc (s_acq_client_new ok0 ok1), res))"

definition acq_client_new_log_mode ::
  "bool \<Rightarrow> bool \<Rightarrow> (nat \<Rightarrow> bool) \<Rightarrow> 'p mlm_client \<Rightarrow> int \<Rightarrow> 'p acq_client option \<times> client_res list" where
  "acq_client_new_log_mode ok0 ok1 ok mlm rc =
     (let (hc, res) = halcs_client_new_log_mode ok mlm rc in (Option.bind hc (s_acq_client_new ok0 ok1), res))"

definition acq_client_new_log_mode_time ::
  "bool \<Rightarrow> bool \<Rightarrow> (nat \<Rightarrow> bool) \<Rightarrow> 'p mlm_client \<Rightarrow> int \<Rightarrow> int \<Rightarrow> 'p acq_client option \<times> client_res list" where
  "acq_client_new_log_mode_time ok0 ok1 ok mlm rc timeout =
     (let (hc, res) = halcs_client_new_log_mode_time ok mlm rc timeout in (Option.bind hc (s_acq_client_new ok0 ok1), res))"

definition acq_client_destroy :: "'p acq_client option \<times> client_res list \<Rightarrow> 'p acq_client option \<times> client_res list" where
  "acq_client_destroy = (\<lambda>(self, res).
     case self of
       None \<Rightarrow> (None, res)
     | Some c \<Rightarrow> (None, snd (halcs_client_destroy (Some (ac_halcs c), res))))"

section \<open>Names of the triggers\<close>

datatype acq_client_trig = ACQ_CLIENT_TRIG_SKIP | ACQ_CLIENT_TRIG_EXTERNAL | ACQ_CLIENT_TRIG_DATA_DRIVEN | ACQ_CLIENT_TRIG_SOFTWARE

fun acq_client_trig_lstr :: "acq_client_trig \<Rightarrow> string" where
  "acq_client_trig_lstr ACQ_CLIENT_TRIG_SKIP = ''No trigger configured''"
| "acq_client_trig_lstr ACQ_CLIENT_TRIG_EXTERNAL = ''External Trigger''"
| "acq_client_trig_lstr ACQ_CLIENT_TRIG_DATA_DRIVEN = ''Data-driven Trigger''"
| "acq_client_trig_lstr ACQ_CLIENT_TRIG_SOFTWARE = ''Software Trigger''"

fun acq_client_trig_sstr :: "acq_client_trig \<Rightarrow> string" where
  "acq_client_trig_sstr ACQ_CLIENT_TRIG_SKIP = ''Skip''"
| "acq_client_trig_sstr ACQ_CLIENT_TRIG_EXTERNAL = ''External Trig''"
| "acq_client_trig_sstr ACQ_CLIENT_TRIG_DATA_DRIVEN = ''Data Trig''"
| "acq_client_trig_sstr ACQ_CLIENT_TRIG_SOFTWARE = ''Software Trig''"

section \<open>Settings\<close>

definition ACQ_OPCODE_CFG_TRIG :: u32 where "ACQ_OPCODE_CFG_TRIG = 3"
definition ACQ_OPCODE_HW_DATA_TRIG_POL :: u32 where "ACQ_OPCODE_HW_DATA_TRIG_POL = 4"
definition ACQ_OPCODE_HW_DATA_TRIG_SEL :: u32 where "ACQ_OPCODE_HW_DATA_TRIG_SEL = 5"
definition ACQ_OPCODE_HW_DATA_TRIG_FILT :: u32 where "ACQ_OPCODE_HW_DATA_TRIG_FILT = 6"
definition ACQ_OPCODE_HW_DATA_TRIG_THRES :: u32 where "ACQ_OPCODE_HW_DATA_TRIG_THRES = 7"
definition ACQ_OPCODE_HW_TRIG_DLY :: u32 where "ACQ_OPCODE_HW_TRIG_DLY = 8"
definition ACQ_OPCODE_SW_TRIG :: u32 where "ACQ_OPCODE_SW_TRIG = 9"
definition ACQ_OPCODE_FSM_STOP :: u32 where "ACQ_OPCODE_FSM_STOP = 10"
definition ACQ_OPCODE_HW_DATA_TRIG_CHAN :: u32 where "ACQ_OPCODE_HW_DATA_TRIG_CHAN = 11"
definition ACQ_OPCODE_CH_INT_WIDTH :: u32 where "ACQ_OPCODE_CH_INT_WIDTH = 12"
definition ACQ_OPCODE_CH_NUM_COALESCE :: u32 where "ACQ_OPCODE_CH_NUM_COALESCE = 13"
definition ACQ_OPCODE_CH_NUM_ATOMS :: u32 where "ACQ_OPCODE_CH_NUM_ATOMS = 14"
definition ACQ_OPCODE_CH_ATOM_WIDTH :: u32 where "ACQ_OPCODE_CH_ATOM_WIDTH = 15"
definition ACQ_OPCODE_CH_SAMPLE_SIZE :: u32 where "ACQ_OPCODE_CH_SAMPLE_SIZE = 16"

definition acq_set_trig :: "'p acq_set" where
  "acq_set_trig self service = param_client_write (ac_halcs self) service ACQ_OPCODE_CFG_TRIG"
definition acq_get_trig :: "'p acq_get" where
  "acq_get_trig self service = param_client_read (ac_halcs self) service ACQ_OPCODE_CFG_TRIG"
definition acq_set_data_trig_pol :: "'p acq_set" where
  "acq_set_data_trig_pol self service = param_client_write (ac_halcs self) service ACQ_OPCODE_HW_DATA_TRIG_POL"
definition acq_get_data_trig_pol :: "'p acq_get" where
  "acq_get_data_trig_pol self service = param_client_read (ac_halcs self) service ACQ_OPCODE_HW_DATA_TRIG_POL"
definition acq_set_data_trig_sel :: "'p acq_set" where
  "acq_set_data_trig_sel self service = param_client_write (ac_halcs self) service ACQ_OPCODE_HW_DATA_TRIG_SEL"
definition acq_get_data_trig_sel :: "'p acq_get" where
  "acq_get_data_trig_sel self service = param_client_read (ac_halcs self) service ACQ_OPCODE_HW_DATA_TRIG_SEL"
definition acq_set_data_trig_filt :: "'p acq_set" where
  "acq_set_data_trig_filt self service = param_client_write (ac_halcs self) service ACQ_OPCODE_HW_DATA_TRIG_FILT"
definition acq_get_data_trig_filt :: "'p acq_get" where
  "acq_get_data_trig_filt self service = param_client_read (ac_halcs self) service ACQ_OPCODE_HW_DATA_TRIG_FILT"
definition acq_set_data_trig_thres :: "'p acq_set" where
  "acq_set_data_trig_thres self service = param_client_write (ac_halcs self) service ACQ_OPCODE_HW_DATA_TRIG_THRES"
definition acq_get_data_trig_thres :: "'p acq_get" where
  "acq_get_data_trig_thres self service = param_client_read (ac_halcs self) service ACQ_OPCODE_HW_DATA_TRIG_THRES"
definition acq_set_hw_trig_dly :: "'p acq_set" where
  "acq_set_hw_trig_dly self service = param_client_write (ac_halcs self) service ACQ_OPCODE_HW_TRIG_DLY"
definition acq_get_hw_trig_dly :: "'p acq_get" where
  "acq_get_hw_trig_dly self service = param_client_read (ac_halcs self) service ACQ_OPCODE_HW_TRIG_DLY"
definition acq_set_sw_trig :: "'p acq_set" where
  "acq_set_sw_trig self service = param_client_write (ac_halcs self) service ACQ_OPCODE_SW_TRIG"
definition acq_get_sw_trig :: "'p acq_get" where
  "acq_get_sw_trig self service = param_client_read (ac_halcs self) service ACQ_OPCODE_SW_TRIG"
definition acq_set_fsm_stop :: "'p acq_set" where
  "acq_set_fsm_stop self service = param_client_write (ac_halcs self) service ACQ_OPCODE_FSM_STOP"
definition acq_get_fsm_stop :: "'p acq_get" where
  "acq_get_fsm_stop self service = param_client_read (ac_halcs self) service ACQ_OPCODE_FSM_STOP"
definition acq_set_data_trig_chan :: "'p acq_set" where
  "acq_set_data_trig_chan self service = param_client_write (ac_halcs self) service ACQ_OPCODE_HW_DATA_TRIG_CHAN"
definition acq_get_data_trig_chan :: "'p acq_get" where
  "acq_get_data_trig_chan self service = param_client_read (ac_halcs self) service ACQ_OPCODE_HW_DATA_TRIG_CHAN"
definition halcs_set_acq_ch_int_width :: "'p acq_set2" where
  "halcs_set_acq_ch_int_width self service = param_client_write2 (ac_halcs self) service ACQ_OPCODE_CH_INT_WIDTH"
definition halcs_get_acq_ch_int_width :: "'p acq_get1" where
  "halcs_get_acq_ch_int_width self service = param_client_write_read (ac_halcs self) service ACQ_OPCODE_CH_INT_WIDTH"
definition halcs_set_acq_ch_num_coalesce :: "'p acq_set2" where
  "halcs_set_acq_ch_num_coalesce self service = param_client_write2 (ac_halcs self) service ACQ_OPCODE_CH_NUM_COALESCE"
definition halcs_get_acq_ch_num_coalesce :: "'p acq_get1" where
  "halcs_get_acq_ch_num_coalesce self service = param_client_write_read (ac_halcs self) service ACQ_OPCODE_CH_NUM_COALESCE"
definition halcs_set_acq_ch_num_atoms :: "'p acq_set2" where
  "halcs_set_acq_ch_num_atoms self service = param_client_write2 (ac_halcs self) service ACQ_OPCODE_CH_NUM_ATOMS"
definition halcs_get_acq_ch_num_atoms :: "'p acq_get1" where
  "halcs_get_acq_ch_num_atoms self service = param_client_write_read (ac_halcs self) service ACQ_OPCODE_CH_NUM_ATOMS"
definition halcs_set_acq_ch_atom_width :: "'p acq_set2" where
  "halcs_set_acq_ch_atom_width self service = param_client_write2 (ac_halcs self) service ACQ_OPCODE_CH_ATOM_WIDTH"
definition halcs_get_acq_ch_atom_width :: "'p acq_get1" where
  "halcs_get_acq_ch_atom_width self service = param_client_write_read (ac_halcs self) service ACQ_OPCODE_CH_ATOM_WIDTH"
definition halcs_set_acq_ch_sample_size :: "'p acq_set2" where
  "halcs_set_acq_ch_sample_size self service = param_client_write2 (ac_halcs self) service ACQ_OPCODE_CH_SAMPLE_SIZE"
definition halcs_get_acq_ch_sample_size :: "'p acq_get1" where
  "halcs_get_acq_ch_sample_size self service = param_client_write_read (ac_halcs self) service ACQ_OPCODE_CH_SAMPLE_SIZE"

section \<open>Acquisition\<close>

text \<open>The functions by name, in the table of all modules.\<close>

definition acq_op :: "string \<Rightarrow> (unit, msg_args) disp_op option" where
  "acq_op name = halcs_func_translate smio_exp_ops name"

definition s_acq_start :: "'p acq_client \<Rightarrow> string \<Rightarrow> acq_req \<Rightarrow> 'p \<Rightarrow> (int \<times> 'p) option" where
  "s_acq_start self service req p = do {
     (err, _, p1) \<leftarrow> halcs_func_exec (Some (ac_halcs self)) (acq_op ''acq_data_acquire'') service
       (Some (concat (map (le_bytes 4) [ar_pre req, ar_post req, ar_shots req, ar_chan req]))) None p;
     Some (if err = HALCS_CLIENT_SUCCESS then err else HALCS_CLIENT_ERR_AGAIN, p1) }"

definition s_acq_check :: "'p acq_client \<Rightarrow> string \<Rightarrow> 'p \<Rightarrow> (int \<times> 'p) option" where
  "s_acq_check self service p = do {
     (err, _, p1) \<leftarrow> halcs_func_exec (Some (ac_halcs self)) (acq_op ''acq_check_data_acquire'') service None None p;
     Some (err, p1) }"

definition s_acq_check_timed ::
  "('p \<Rightarrow> int \<times> 'p) \<Rightarrow> ('p \<Rightarrow> bool \<times> 'p) \<Rightarrow> 'p acq_client \<Rightarrow> string \<Rightarrow> int \<Rightarrow> 'p \<Rightarrow> (int \<times> 'p) option" where
  "s_acq_check_timed now intr self service timeout p = do {
     (err, _, p1) \<leftarrow> func_polling now intr (smio_exp_ops :: (unit, msg_args) disp_op list list) (Some (ac_halcs self))
       ''acq_check_data_acquire'' service None None timeout p;
     Some (err, p1) }"

text \<open>The block is received in the client's own buffer; what it says is valid goes to the place of the
  caller's pointer, as far as the caller's size allows.\<close>

definition copy_out :: "nat \<Rightarrow> u8 list \<Rightarrow> u8 list \<Rightarrow> u8 list option" where
  "copy_out off bs buf =
     (if off + length bs \<le> length buf then Some (take off buf @ bs @ drop (off + length bs) buf) else None)"

definition s_client_get_data_block ::
  "'p acq_client \<Rightarrow> string \<Rightarrow> acq_trans \<Rightarrow> 'p \<Rightarrow> (int \<times> 'p acq_client \<times> acq_trans \<times> 'p) option" where
  "s_client_get_data_block self service tr p = do {
     (err, out, p1) \<leftarrow> halcs_func_exec (Some (ac_halcs self)) (acq_op ''acq_get_data_block'') service
       (Some (concat (map (le_bytes 4) [ar_chan (tr_req tr), bk_idx (tr_block tr)]))) (Some (ac_block self)) p;
     blk \<leftarrow> out;
     let self' = self\<lparr>ac_block := blk\<rparr>;
     if err \<noteq> HALCS_CLIENT_SUCCESS then Some (HALCS_CLIENT_ERR_SERVER, self', tr, p1)
     else do {
       valid_bytes \<leftarrow> (rd_word 4 blk :: u32 option);
       let read_size = (if bk_size (tr_block tr) < valid_bytes then bk_size (tr_block tr) else valid_bytes);
       if length blk < 4 + unat read_size then None
       else do {
         data \<leftarrow> copy_out (bk_off (tr_block tr)) (take (unat read_size) (drop 4 blk)) (bk_data (tr_block tr));
         Some (HALCS_CLIENT_SUCCESS, self', tr\<lparr>tr_block := (tr_block tr)\<lparr>bk_data := data, bk_read := read_size\<rparr>\<rparr>, p1) } } }"

text \<open>One block after the other up to \<open>n_valid\<close>, which is read too; the data pointer and the size move on.\<close>

partial_function (option) acq_curve_loop ::
  "('p \<Rightarrow> bool \<times> 'p) \<Rightarrow> string \<Rightarrow> u32 \<Rightarrow> u32 \<Rightarrow> u32 \<Rightarrow> 'p acq_client \<Rightarrow> acq_trans \<Rightarrow> 'p \<Rightarrow>
     (int \<times> u32 \<times> 'p acq_client \<times> acq_trans \<times> 'p) option" where
  "acq_curve_loop intr service n_valid block_n bread self tr p =
     (if \<not> block_n \<le> n_valid then Some (HALCS_CLIENT_SUCCESS, bread, self, tr, p)
      else let (i, p1) = intr p
           in if i then Some (HALCS_CLIENT_INT, bread, self, tr, p1)
              else do {
                (err, self', tr', p2) \<leftarrow> s_client_get_data_block self service
                  (tr\<lparr>tr_block := (tr_block tr)\<lparr>bk_idx := block_n\<rparr>\<rparr>) p1;
                if err \<noteq> HALCS_CLIENT_SUCCESS then Some (err, bread, self', tr', p2)
                else
                  let b = tr_block tr'
                  in acq_curve_loop intr service n_valid (block_n + 1) (bread + bk_read b) self'
                       (tr'\<lparr>tr_block := b\<lparr>bk_off := bk_off b + unat (bk_read b), bk_size := bk_size b - bk_read b\<rparr>\<rparr>) p2 })"

text \<open>A sample size of 0, or beyond a block, divides by 0. On an error the data pointer and the size stay
  where they are.\<close>

definition s_acq_get_curve ::
  "('p \<Rightarrow> bool \<times> 'p) \<Rightarrow> 'p acq_client \<Rightarrow> string \<Rightarrow> acq_trans \<Rightarrow> 'p \<Rightarrow> (int \<times> 'p acq_client \<times> acq_trans \<times> 'p) option" where
  "s_acq_get_curve intr self service tr p = do {
     (err, ss, p1) \<leftarrow> halcs_get_acq_ch_sample_size self service (ar_chan (tr_req tr)) 0 p;
     if err \<noteq> HALCS_CLIENT_SUCCESS then Some (err, self, tr, p1)
     else
       let num_samples_shot = ar_pre (tr_req tr) + ar_post (tr_req tr);
           num_samples_multishot = num_samples_shot * ar_shots (tr_req tr)
       in if ss = 0 \<or> BLOCK_SIZE div ss = 0 then None
          else do {
            (err', bread, self', tr', p2) \<leftarrow>
              acq_curve_loop intr service (num_samples_multishot div (BLOCK_SIZE div ss)) 0 0 self tr p1;
            if err' \<noteq> HALCS_CLIENT_SUCCESS then Some (err', self', tr', p2)
            else Some (HALCS_CLIENT_SUCCESS, self', tr'\<lparr>tr_block := (tr_block tr')
              \<lparr>bk_read := bread, bk_size := bk_size (tr_block tr), bk_off := bk_off (tr_block tr)\<rparr>\<rparr>, p2) } }"

text \<open>The outcome of the request to start is not looked at.\<close>

definition s_acq_full ::
  "('p \<Rightarrow> int \<times> 'p) \<Rightarrow> ('p \<Rightarrow> bool \<times> 'p) \<Rightarrow> 'p acq_client \<Rightarrow> string \<Rightarrow> acq_trans \<Rightarrow> int \<Rightarrow> 'p \<Rightarrow>
     (int \<times> 'p acq_client \<times> acq_trans \<times> 'p) option" where
  "s_acq_full now intr self service tr timeout p = do {
     (_, p1) \<leftarrow> s_acq_start self service (tr_req tr) p;
     (err, p2) \<leftarrow> s_acq_check_timed now intr self service timeout p1;
     if err \<noteq> HALCS_CLIENT_SUCCESS then Some (HALCS_CLIENT_ERR_SERVER, self, tr, p2)
     else do {
       (err', self', tr', p3) \<leftarrow> s_acq_get_curve intr self service tr p2;
       Some (if err' = HALCS_CLIENT_SUCCESS then err' else HALCS_CLIENT_ERR_SERVER, self', tr', p3) } }"

definition s_acq_full_compat ::
  "('p \<Rightarrow> int \<times> 'p) \<Rightarrow> ('p \<Rightarrow> bool \<times> 'p) \<Rightarrow> 'p acq_client \<Rightarrow> string \<Rightarrow> acq_trans \<Rightarrow> int \<Rightarrow> bool \<Rightarrow> 'p \<Rightarrow>
     (int \<times> 'p acq_client \<times> acq_trans \<times> 'p) option" where
  "s_acq_full_compat now intr self service tr timeout new_acq p =
     (if new_acq then s_acq_full now intr self service tr timeout p else s_acq_get_curve intr self service tr p)"

text \<open>The exported names.\<close>

definition acq_start :: "'p acq_client \<Rightarrow> string \<Rightarrow> acq_req \<Rightarrow> 'p \<Rightarrow> (int \<times> 'p) option" where
  "acq_start = s_acq_start"

definition acq_check :: "'p acq_client \<Rightarrow> string \<Rightarrow> 'p \<Rightarrow> (int \<times> 'p) option" where
  "acq_check = s_acq_check"

definition acq_check_timed ::
  "('p \<Rightarrow> int \<times> 'p) \<Rightarrow> ('p \<Rightarrow> bool \<times> 'p) \<Rightarrow> 'p acq_client \<Rightarrow> string \<Rightarrow> int \<Rightarrow> 'p \<Rightarrow> (int \<times> 'p) option" where
  "acq_check_timed = s_acq_check_timed"

definition acq_get_data_block ::
  "'p acq_client \<Rightarrow> string \<Rightarrow> acq_trans \<Rightarrow> 'p \<Rightarrow> (int \<times> 'p acq_client \<times> acq_trans \<times> 'p) option" where
  "acq_get_data_block = s_client_get_data_block"

definition acq_get_curve ::
  "('p \<Rightarrow> bool \<times> 'p) \<Rightarrow> 'p acq_client \<Rightarrow> string \<Rightarrow> acq_trans \<Rightarrow> 'p \<Rightarrow> (int \<times> 'p acq_client \<times> acq_trans \<times> 'p) option" where
  "acq_get_curve = s_acq_get_curve"

definition acq_full ::
  "('p \<Rightarrow> int \<times> 'p) \<Rightarrow> ('p \<Rightarrow> bool \<times> 'p) \<Rightarrow> 'p acq_client \<Rightarrow> string \<Rightarrow> acq_trans \<Rightarrow> int \<Rightarrow> 'p \<Rightarrow>
     (int \<times> 'p acq_client \<times> acq_trans \<times> 'p) option" where
  "acq_full = s_acq_full"

definition acq_full_compat ::
  "('p \<Rightarrow> int \<times> 'p) \<Rightarrow> ('p \<Rightarrow> bool \<times> 'p) \<Rightarrow> 'p acq_client \<Rightarrow> string \<Rightarrow> acq_trans \<Rightarrow> int \<Rightarrow> bool \<Rightarrow> 'p \<Rightarrow>
     (int \<times> 'p acq_client \<times> acq_trans \<times> 'p) option" where
  "acq_full_compat = s_acq_full_compat"

section \<open>The functions by name\<close>

lemma acq_op_find:
  fixes op :: "(unit, msg_args) disp_op"
  assumes "op \<in> set acq_exp_ops"
  shows "acq_op (dop_name op) = Some op"
proof -
  have a: "(acq_exp_ops :: (unit, msg_args) disp_op list) \<in> set smio_exp_ops" by (simp add: smio_exp_ops_def)
  have l: "leads (acq_exp_ops :: (unit, msg_args) disp_op list)" by (rule bspec [OF rows_lead [unfolded list_all_iff] a])
  have "find (\<lambda>o'. dop_name o' = dop_name op) acq_exp_ops = Some (canon op)" using l assms by (simp add: leads_def list_all_iff)
  moreover have "find (\<lambda>o'. dop_name o' = dop_name op) acq_exp_ops = Some op" by (rule find_distinct [OF acq_names assms])
  ultimately show ?thesis
    using find_concat [OF starts_apart names_begin a assms l]
    by (simp add: acq_op_def halcs_func_translate_def)
qed

lemma acq_ops_by_name:
  "acq_op ''acq_get_data_block'' = Some acq_get_data_block_exp"
  "acq_op ''acq_data_acquire'' = Some acq_data_acquire_exp"
  "acq_op ''acq_check_data_acquire'' = Some acq_check_data_acquire_exp"
  using acq_op_find [of acq_get_data_block_exp] acq_op_find [of acq_data_acquire_exp] acq_op_find [of acq_check_data_acquire_exp]
  by (simp_all add: acq_exp_ops_def) (simp_all add: acq_get_data_block_exp_def acq_data_acquire_exp_def
      acq_check_data_acquire_exp_def smio_exp_def)

end
