(* ===== verification/Acq_Client_Facts.thy ===== *)
theory Acq_Client_Facts
  imports Acq_Client Acq_Block Client_Link
begin

text \<open>
  The acquisition client against the acquisition module: blocks and curves over the broker, from the
  memory behind the module to the caller's buffer.
\<close>

section \<open>What the module answers\<close>

type_synonym ('o, 'p) acq_link = "((string \<times> nat) list, ('o, smio_acq, 'p) smio_world) link"

definition acq_link_ok :: "('o, 'p) acq_smio \<Rightarrow> ('p \<Rightarrow> bool) \<Rightarrow> u32 \<Rightarrow> ('h, ('o, smio_acq, 'p) smio_world) link \<Rightarrow> bool" where
  "acq_link_ok self good junk b \<longleftrightarrow> (\<exists>p s. b = ((self, p), s, []) \<and> good p \<and>
     table_ready smio_disp_table_ops (filled acq_exp_ops (acq_exp_fp junk)) s)"

text \<open>The sample size that the core's registers give for a channel.\<close>

definition reads_sample_size :: "('o, 'p) acq_smio \<Rightarrow> ('p \<Rightarrow> bool) \<Rightarrow> u32 \<Rightarrow> u32 \<Rightarrow> u32 \<Rightarrow> bool" where
  "reads_sample_size self good junk chan ss \<longleftrightarrow> (\<forall>p b. good p \<longrightarrow> length b = 4 \<longrightarrow>
     (\<exists>p'. s_acq_sample_size junk (self, p) \<lparr>tag = EXP_MSG_ZMQ_TAG, content = [le_bytes 4 (1 :: u32), le_bytes 4 chan, le_bytes 4 chan]\<rparr>
        (Some b) = Some (4, (self, p'), Some (le_bytes 4 ss)) \<and> good p'))"

lemma block_arg: "unat (DISP_GET_ASIZE BLOCK_ARG) = 4 + 2 ^ 20" "BLOCK_ARG \<noteq> DISP_ARG_END" "BLOCK_ARG \<noteq> 0"
  by (simp_all add: BLOCK_ARG_def BLOCK_SIZE_def srv_args)

lemma acq_filled:
  "acq_get_data_block_exp\<lparr>func_fp := Some s_acq_get_data_block\<rparr> \<in> set (filled acq_exp_ops (acq_exp_fp junk))"
  "acq_ch_sample_size_exp\<lparr>func_fp := Some (s_acq_sample_size junk)\<rparr> \<in> set (filled acq_exp_ops (acq_exp_fp junk))"
  by (simp_all add: filled_def acq_exp_ops_def acq_exp_fp_def)

lemma acq_served:
  fixes self :: "('o, 'p) acq_smio"
  assumes ok: "acq_link_ok self good junk b" and op: "op\<lparr>func_fp := Some f\<rparr> \<in> set (filled acq_exp_ops (acq_exp_fp junk))"
    and fits: "list_all2 arg_fits (args op) fs" and ret: "needs_ret op" "retval op \<noteq> DISP_ARG_END"
    and run: "\<And>p bs. good p \<Longrightarrow> length bs = unat (DISP_GET_ASIZE (retval op)) \<Longrightarrow>
      \<exists>p' nb. f (self, p) \<lparr>tag = EXP_MSG_ZMQ_TAG, content = fs\<rparr> (Some bs) = Some (e, (self, p'), Some nb) \<and>
        reply_of e (Some nb) = Some r \<and> good p'"
    and e: "- (2 ^ 31) < e" "e < 2 ^ 31"
  shows "\<exists>b'. module_serves (request (opcode op) fs) b r b' \<and> acq_link_ok self good junk b'"
proof -
  obtain p s where b: "b = ((self, p), s, [])" "good p"
    and t: "table_ready smio_disp_table_ops (filled acq_exp_ops (acq_exp_fp junk)) s" using ok unfolding acq_link_ok_def by blast
  let ?op = "op\<lparr>func_fp := Some f\<rparr>"
  let ?P = "\<lambda>w nb. \<exists>p'. w = (self, p') \<and> reply_of e (Some nb) = Some r \<and> good p'"
  have run': "\<exists>w' nb. f (self, p) \<lparr>tag = EXP_MSG_ZMQ_TAG, content = fs\<rparr> (Some bs) = Some (e, w', Some nb) \<and> ?P w' nb"
    if "length bs = unat (DISP_GET_ASIZE (retval ?op))" for bs
    using run [OF b(2), of bs] that by fastforce
  have x: "list_all2 arg_fits (args ?op) fs" "func_fp ?op = Some f" "needs_ret ?op" "retval ?op \<noteq> DISP_ARG_END"
    using fits ret by (simp_all add: needs_ret_def)
  obtain p' nb s' where c: "dt_call s (opcode ?op) (self, p) \<lparr>tag = EXP_MSG_ZMQ_TAG, content = fs\<rparr> =
      Some (e, Some nb, (self, p'), s')" "reply_of e (Some nb) = Some r" "good p'"
    "table_ready smio_disp_table_ops (filled acq_exp_ops (acq_exp_fp junk)) s'"
    using table_accept [OF t smio_checks op x(1,2,3,4), where P = ?P, OF run'] by blast
  have "smio_do_op (Some not_impl_ops) dt_call (\<lambda>_. True) True \<lparr>tag = EXP_MSG_ZMQ_TAG, content = request (opcode ?op) fs\<rparr> (self, p) s =
      Some (SMIO_SUCCESS, Some r, (self, p'), s')" by (rule mlm_request_call [OF c(1) e c(2)])
  then have "module_serves (request (opcode op) fs) b r ((self, p'), s', [])" by (simp add: module_serves_def b)
  moreover have "acq_link_ok self good junk ((self, p'), s', [])" using c(3,4) by (auto simp: acq_link_ok_def)
  ultimately show ?thesis by blast
qed

lemma reply_of_data:
  "0 < length d \<Longrightarrow> reply_of (int (length d)) (Some (d @ rest)) =
    Some [le_bytes 4 (0 :: u32), le_bytes 4 (word_of_int (int (length d)) :: u32), d]"
  by (simp add: reply_of_def PARAM_OK_def)

lemma size_served:
  assumes "acq_link_ok self good junk b" and "reads_sample_size self good junk chan ss"
  shows "\<exists>b'. module_serves (request 16 [le_bytes 4 (1 :: u32), le_bytes 4 chan, le_bytes 4 chan]) b (ok_reply ss) b' \<and>
    acq_link_ok self good junk b'"
proof -
  have o: "opcode (acq_ch_sample_size_exp :: ('w, msg_args) disp_op) = 16" "args (acq_ch_sample_size_exp :: ('w, msg_args) disp_op) = [UINT32_ARG, UINT32_ARG, UINT32_ARG]"
    "needs_ret (acq_ch_sample_size_exp :: ('w, msg_args) disp_op)" "retval (acq_ch_sample_size_exp :: ('w, msg_args) disp_op) = UINT32_ARG"
    by (simp_all add: acq_ch_sample_size_exp_def exp_simps needs_ret_def) (simp add: srv_args)
  have run: "\<exists>p' nb. s_acq_sample_size junk (self, p) \<lparr>tag = EXP_MSG_ZMQ_TAG, content = [le_bytes 4 (1 :: u32), le_bytes 4 chan, le_bytes 4 chan]\<rparr> (Some bs) =
      Some (4, (self, p'), Some nb) \<and> reply_of 4 (Some nb) = Some (ok_reply ss) \<and> good p'"
    if "good p" "length bs = unat (DISP_GET_ASIZE (retval (acq_ch_sample_size_exp :: ('w, msg_args) disp_op)))" for p bs
    using assms(2) that unfolding reads_sample_size_def o by (force simp: srv_args reply_of_4)
  show ?thesis
    using acq_served [OF assms(1) acq_filled(2), where fs = "[le_bytes 4 (1 :: u32), le_bytes 4 chan, le_bytes 4 chan]" and e = 4 and r = "ok_reply ss",
        unfolded o, OF _ _ _ run [unfolded o]]
    by (simp add: arg_fits_def srv_args o)
qed

text \<open>The block transfer's descriptor.\<close>

lemma block_op:
  "opcode (acq_get_data_block_exp :: ('w, msg_args) disp_op) = 1"
  "args (acq_get_data_block_exp :: ('w, msg_args) disp_op) = [UINT32_ARG, UINT32_ARG]"
  "retval (acq_get_data_block_exp :: ('w, msg_args) disp_op) = BLOCK_ARG"
  "needs_ret (acq_get_data_block_exp :: ('w, msg_args) disp_op)"
proof -
  show o: "opcode (acq_get_data_block_exp :: ('w, msg_args) disp_op) = 1" "args (acq_get_data_block_exp :: ('w, msg_args) disp_op) = [UINT32_ARG, UINT32_ARG]"
    "retval (acq_get_data_block_exp :: ('w, msg_args) disp_op) = BLOCK_ARG"
    by (simp_all add: acq_get_data_block_exp_def exp_simps)
  show "needs_ret (acq_get_data_block_exp :: ('w, msg_args) disp_op)"
    using block_arg by (simp add: needs_ret_def o(3)) (simp add: acq_get_data_block_exp_def exp_simps unat_gt_0 flip: unat_gt_0)
qed

lemma block_fits: "list_all2 arg_fits (args (acq_get_data_block_exp :: ('w, msg_args) disp_op)) [le_bytes 4 (chan :: u32), le_bytes 4 (block_n :: u32)]"
  by (simp add: block_op arg_fits_def srv_args)

lemma block_served:
  assumes ok: "acq_link_ok self good junk l" and h: "sm_handler self = Some acq" and inv: "acq_inv acq" and c: "chan < aq_num_chan acq"
    and buf: "buf = aq_buf acq ! unat chan" and ap: "ap = aq_params acq ! unat chan"
    and f: "shot_fits buf ap" and blk: "unat (block_n :: u32) * 2 ^ 20 < shot_bytes buf ap"
    and m: "reads_memory self good mem (unat (ab_start_addr buf)) (unat (ab_start_addr buf) + region_size buf)"
    and n: "n = min (2 ^ 20) (shot_bytes buf ap - unat block_n * 2 ^ 20)"
    and d: "d = le_bytes 4 (of_nat n :: u32) @
      ring_bytes mem (unat (ab_start_addr buf)) (region_size buf) (shot_start buf ap + unat block_n * 2 ^ 20) n"
  shows "\<exists>l'. module_serves (request 1 [le_bytes 4 chan, le_bytes 4 block_n]) l
      [le_bytes 4 (0 :: u32), le_bytes 4 (word_of_int (int (length d)) :: u32), d] l' \<and> acq_link_ok self good junk l'"
proof -
  have ld: "length d = n + 4" "n \<le> 2 ^ 20" by (simp_all add: d n)
  let ?r = "[le_bytes 4 (0 :: u32), le_bytes 4 (word_of_int (int (length d)) :: u32), d]"
  have run: "\<exists>p' nb. s_acq_get_data_block (self, p) \<lparr>tag = EXP_MSG_ZMQ_TAG, content = [le_bytes 4 chan, le_bytes 4 block_n]\<rparr> (Some bs) =
      Some (int (length d), (self, p'), Some nb) \<and> reply_of (int (length d)) (Some nb) = Some ?r \<and> good p'"
    if "good p" "length bs = unat (DISP_GET_ASIZE (retval (acq_get_data_block_exp :: ('w, msg_args) disp_op)))" for p bs
  proof -
    have "4 + 2 ^ 20 \<le> length bs" using that(2) block_arg(1) by (simp add: block_op)
    from get_block_single [OF h inv c buf ap f blk m that(1) this n, of EXP_MSG_ZMQ_TAG] obtain p' where
      "s_acq_get_data_block (self, p) \<lparr>tag = EXP_MSG_ZMQ_TAG, content = [le_bytes 4 chan, le_bytes 4 block_n]\<rparr> (Some bs) =
        Some (int n + 4, (self, p'), Some (d @ drop (4 + n) bs))" "good p'" by (auto simp: d)
    moreover have "int (length d) = int n + 4" "0 < length d" using ld(1) by simp_all
    ultimately show ?thesis using reply_of_data [of d "drop (4 + n) bs"] by auto
  qed
  have "- (2 ^ 31) < int (length d)" "int (length d) < 2 ^ 31" using ld by simp_all
  from acq_served [OF ok acq_filled(1) block_fits block_op(4) _ run this] show ?thesis by (simp only: block_op) (simp add: block_arg(2))
qed

lemma block_refused:
  assumes ok: "acq_link_ok self good junk l" and h: "sm_handler self = Some acq" and inv: "acq_inv acq" and c: "chan < aq_num_chan acq"
    and over: "block_layout (aq_buf acq ! unat chan) (aq_params acq ! unat chan) block_n = Some (Inl (- ACQ_BLOCK_OOR))"
  shows "\<exists>l'. module_serves (request 1 [le_bytes 4 chan, le_bytes 4 block_n]) l [le_bytes 4 (4 :: u32)] l' \<and> acq_link_ok self good junk l'"
proof -
  have l: "unat chan < length (aq_buf acq)" "unat chan < length (aq_params acq)"
    using inv c by (simp_all add: acq_inv_def word_less_nat_alt)
  have run: "\<exists>p' nb. s_acq_get_data_block (self, p) \<lparr>tag = EXP_MSG_ZMQ_TAG, content = [le_bytes 4 chan, le_bytes 4 block_n]\<rparr> (Some bs) =
      Some (- 4, (self, p'), Some nb) \<and> reply_of (- 4) (Some nb) = Some [le_bytes 4 (4 :: u32)] \<and> good p'" if "good p" for p bs
    using that h chan_exists [OF c] l over by (simp add: s_acq_get_data_block_def nth_opt_def ACQ_BLOCK_OOR_def reply_of_def)
  have "- (2 ^ 31) < (- 4 :: int)" "(- 4 :: int) < 2 ^ 31" by simp_all
  from acq_served [OF ok acq_filled(1) block_fits block_op(4) _ run this] show ?thesis by (simp only: block_op) (simp add: block_arg(2))
qed

section \<open>What the client makes of it\<close>

lemma split_words: "split_input (replicate k UINT32_ARG) (concat (map (le_bytes 4) (ws :: u32 list))) = Some (map (le_bytes 4) ws)"
  if "length ws = k"
  using that
proof (induction ws arbitrary: k)
  case (Cons w ws)
  then show ?case by (cases k) (simp_all add: srv_args)
qed simp

lemma client_sample_size:
  assumes "hc_mlm (ac_halcs cl) = Some (module_broker svc)"
    and "module_serves (request 16 [le_bytes 4 (1 :: u32), le_bytes 4 chan, le_bytes 4 chan]) b (ok_reply ss) b'"
  shows "halcs_get_acq_ch_sample_size cl svc chan x b = Some (HALCS_CLIENT_SUCCESS, ss, b')"
proof -
  have "module_serves ([le_bytes 4 (16 :: u32), le_bytes 4 READ_MODE, le_bytes 4 chan] @ [le_bytes 4 chan]) b (ok_reply ss) b'"
    using assms(2) by (simp add: request_def READ_MODE_def)
  with ml.read_value [OF assms(1), of 16 READ_MODE "le_bytes 4 chan" "Some (le_bytes 4 chan)" None b ss b' "le_bytes 4 x"]
  show ?thesis by (simp add: halcs_get_acq_ch_sample_size_def ACQ_OPCODE_CH_SAMPLE_SIZE_def param_client_write_read_def b32_def out_word_def)
qed

lemma client_block:
  assumes cl: "hc_mlm (ac_halcs cl) = Some (module_broker svc)" "length (ac_block cl) = 4 + 2 ^ 20"
    and sv: "module_serves (request 1 [le_bytes 4 (ar_chan (tr_req tr)), le_bytes 4 (bk_idx (tr_block tr))]) b
      [le_bytes 4 (0 :: u32), le_bytes 4 (word_of_int (int (length d)) :: u32), d] b'"
    and d: "d = le_bytes 4 (of_nat (length xs) :: u32) @ xs" "length xs \<le> 2 ^ 20"
    and sz: "length xs \<le> unat (bk_size (tr_block tr))" "bk_off (tr_block tr) + length xs \<le> length (bk_data (tr_block tr))"
  shows "\<exists>blk. s_client_get_data_block cl svc tr b = Some (HALCS_CLIENT_SUCCESS, cl\<lparr>ac_block := blk\<rparr>,
      tr\<lparr>tr_block := (tr_block tr)\<lparr>bk_data := take (bk_off (tr_block tr)) (bk_data (tr_block tr)) @ xs @
        drop (bk_off (tr_block tr) + length xs) (bk_data (tr_block tr)), bk_read := of_nat (length xs)\<rparr>\<rparr>, b') \<and>
    length blk = 4 + 2 ^ 20"
proof -
  let ?op = "acq_get_data_block_exp :: (unit, msg_args) disp_op"
  have o: "opcode ?op = 1" "args ?op = replicate 2 UINT32_ARG" "retval ?op = BLOCK_ARG"
    by (simp_all add: acq_get_data_block_exp_def exp_simps numeral_2_eq_2)
  let ?in = "concat (map (le_bytes 4) [ar_chan (tr_req tr), bk_idx (tr_block tr)])"
  have s: "split_input (args ?op) ?in = Some (map (le_bytes 4) [ar_chan (tr_req tr), bk_idx (tr_block tr)])"
    unfolding o(2) by (rule split_words) simp
  have sv': "module_serves (request (opcode ?op) (map (le_bytes 4) [ar_chan (tr_req tr), bk_idx (tr_block tr)])) b
      [le_bytes 4 (0 :: u32), le_bytes 4 (word_of_int (int (length d)) :: u32), d] b'" using sv by (simp add: o(1))
  have ld: "length d = 4 + length xs" by (simp add: d(1))
  have n: "4 + length xs = min (unat (DISP_GET_ASIZE (retval ?op))) (length d)" using d(2) by (simp add: o(3) block_arg(1) ld)
  have e: "halcs_func_exec (Some (ac_halcs cl)) (Some ?op) svc (Some ?in) (Some (ac_block cl)) b =
      Some (HALCS_CLIENT_SUCCESS, Some (take (4 + length xs) d @ drop (4 + length xs) (ac_block cl)), b')"
    by (rule ml.exec_value [OF cl(1) s sv' _ n]) (use d(2) cl(2) in \<open>simp_all add: ld\<close>)
  have u: "unat (of_nat (length xs) :: u32) = length xs" using d(2) by (simp add: unat_of_nat take_bit_nat_eq_self)
  have rs: "(if bk_size (tr_block tr) < of_nat (length xs) then bk_size (tr_block tr) else of_nat (length xs)) = (of_nat (length xs) :: u32)"
    using sz(1) u by (simp add: word_less_nat_alt)
  have "rd_word 4 (take (4 + length xs) d @ drop (4 + length xs) (ac_block cl)) = Some (of_nat (length xs) :: u32)"
    by (simp add: d(1) rd_word_def)
  then show ?thesis
    using e sz(2) u rs d(2) cl(2)
    by (auto simp: s_client_get_data_block_def acq_ops_by_name copy_out_def d(1) Let_def)
qed

lemma client_refused:
  assumes cl: "hc_mlm (ac_halcs cl) = Some (module_broker svc)"
    and sv: "module_serves (request 1 [le_bytes 4 (ar_chan (tr_req tr)), le_bytes 4 (bk_idx (tr_block tr))]) b [le_bytes 4 (4 :: u32)] b'"
  shows "s_client_get_data_block cl svc tr b = Some (HALCS_CLIENT_ERR_SERVER, cl, tr, b')"
proof -
  let ?op = "acq_get_data_block_exp :: (unit, msg_args) disp_op"
  let ?ws = "[ar_chan (tr_req tr), bk_idx (tr_block tr)]"
  have s: "split_input (args ?op) (case Some (concat (map (le_bytes 4) ?ws)) of None \<Rightarrow> [] | Some x \<Rightarrow> x) = Some (map (le_bytes 4) ?ws)"
    using split_words [of ?ws 2] by (simp add: block_op numeral_2_eq_2)
  have sv': "module_serves (request (opcode ?op) (map (le_bytes 4) ?ws)) b [le_bytes 4 (4 :: u32)] b'" using sv by (simp add: block_op)
  have "halcs_func_exec (Some (ac_halcs cl)) (Some ?op) svc (Some (concat (map (le_bytes 4) ?ws))) (Some (ac_block cl)) b =
      Some (HALCS_CLIENT_ERR_MODULE + uint (4 :: u32), Some (ac_block cl), b')"
    using ml.exec_code [OF cl s _ _ sv', of "Some (ac_block cl)"] by simp
  then show ?thesis by (simp add: s_client_get_data_block_def acq_ops_by_name client_errs)
qed

section \<open>Curves\<close>

definition overlay :: "nat \<Rightarrow> u8 list \<Rightarrow> u8 list \<Rightarrow> u8 list" where
  "overlay off xs D = take off D @ xs @ drop (off + length xs) D"

lemma overlay_nil [simp]: "off \<le> length D \<Longrightarrow> overlay off [] D = D"
  by (simp add: overlay_def)

lemma length_overlay [simp]: "off + length xs \<le> length D \<Longrightarrow> length (overlay off xs D) = length D"
  by (simp add: overlay_def)

lemma overlay_overlay:
  assumes "off + length xs + length ys \<le> length D"
  shows "overlay (off + length xs) ys (overlay off xs D) = overlay off (xs @ ys) D"
  using assms by (simp add: overlay_def ac_simps)

text \<open>The blocks of a prefix, one after the other in the caller's buffer.\<close>

definition moved :: "u8 list \<Rightarrow> u32 \<Rightarrow> u32 \<Rightarrow> acq_trans \<Rightarrow> acq_trans" where
  "moved T i r tr = tr\<lparr>tr_block := \<lparr>bk_idx = i, bk_data = overlay (bk_off (tr_block tr)) T (bk_data (tr_block tr)),
     bk_off = bk_off (tr_block tr) + length T, bk_size = bk_size (tr_block tr) - of_nat (length T), bk_read = r\<rparr>\<rparr>"

lemma moved_nil: "bk_off (tr_block tr) \<le> length (bk_data (tr_block tr)) \<Longrightarrow> moved [] (bk_idx (tr_block tr)) (bk_read (tr_block tr)) tr = tr"
  by (cases tr; cases "tr_block tr") (simp add: moved_def)

lemma moved_record:
  "tr\<lparr>tr_block := (tr_block tr)\<lparr>bk_idx := i, bk_data := overlay (bk_off (tr_block tr)) T (bk_data (tr_block tr)), bk_read := r,
     bk_off := bk_off (tr_block tr) + length T, bk_size := bk_size (tr_block tr) - of_nat (length T)\<rparr>\<rparr> = moved T i r tr"
  by (cases tr; cases "tr_block tr") (simp add: moved_def)

definition block_reply :: "u8 list \<Rightarrow> frame list" where
  "block_reply xs = (let d = le_bytes 4 (of_nat (length xs) :: u32) @ xs
     in [le_bytes 4 (0 :: u32), le_bytes 4 (word_of_int (int (length d)) :: u32), d])"

lemma curve_prefix:
  fixes ok :: "('h, 'w) link \<Rightarrow> bool"
  assumes cl: "hc_mlm hc = Some (module_broker svc)"
    and sv: "\<And>k b. ok b \<Longrightarrow> k < K \<Longrightarrow> \<exists>b'. module_serves (request 1 [le_bytes 4 chan, le_bytes 4 (of_nat k :: u32)]) b (block_reply (xs k)) b' \<and> ok b'"
    and len: "\<And>k. k < K \<Longrightarrow> length (xs k) \<le> 2 ^ 20" and K: "K \<le> N + 1" "N + 1 < 2 ^ 32"
  shows "k \<le> K \<Longrightarrow> ok b \<Longrightarrow> ac_halcs cl = hc \<Longrightarrow> length (ac_block cl) = 4 + 2 ^ 20 \<Longrightarrow> ar_chan (tr_req tr) = chan \<Longrightarrow>
    length (concat (map xs [k..<K])) \<le> unat (bk_size (tr_block tr)) \<Longrightarrow>
    bk_off (tr_block tr) + length (concat (map xs [k..<K])) \<le> length (bk_data (tr_block tr)) \<Longrightarrow>
    \<exists>blk i r b'. acq_curve_loop (\<lambda>p. (False, p)) svc (of_nat N) (of_nat k) bread cl tr b =
        acq_curve_loop (\<lambda>p. (False, p)) svc (of_nat N) (of_nat K) (bread + of_nat (length (concat (map xs [k..<K]))))
          (cl\<lparr>ac_block := blk\<rparr>) (moved (concat (map xs [k..<K])) i r tr) b' \<and> length blk = 4 + 2 ^ 20 \<and> ok b'"
proof (induction "K - k" arbitrary: k bread cl tr b)
  case 0
  then have "k = K" by simp
  with 0 show ?case
    by - (rule exI [of _ "ac_block cl"], rule exI [of _ "bk_idx (tr_block tr)"], rule exI [of _ "bk_read (tr_block tr)"],
      rule exI [of _ b], simp add: moved_nil)
next
  case (Suc m)
  then have k: "k < K" "m = K - Suc k" "Suc k \<le> K" by simp_all
  let ?T = "concat (map xs [Suc k..<K])"
  have T: "concat (map xs [k..<K]) = xs k @ ?T" using k(1) by (simp add: upt_conv_Cons)
  have lx: "length (xs k) \<le> 2 ^ 20" using len k(1) by blast
  obtain b1 where b1: "module_serves (request 1 [le_bytes 4 chan, le_bytes 4 (of_nat k :: u32)]) b (block_reply (xs k)) b1" "ok b1"
    using sv [OF Suc.prems(2) k(1)] by blast
  let ?tr = "tr\<lparr>tr_block := (tr_block tr)\<lparr>bk_idx := of_nat k\<rparr>\<rparr>"
  have m1: "module_serves (request 1 [le_bytes 4 (ar_chan (tr_req ?tr)), le_bytes 4 (bk_idx (tr_block ?tr))]) b
      [le_bytes 4 (0 :: u32), le_bytes 4 (word_of_int (int (length (le_bytes 4 (of_nat (length (xs k)) :: u32) @ xs k))) :: u32),
       le_bytes 4 (of_nat (length (xs k)) :: u32) @ xs k] b1"
    using b1(1) Suc.prems(5) by (simp add: block_reply_def Let_def)
  have sz: "length (xs k) \<le> unat (bk_size (tr_block ?tr))" "bk_off (tr_block ?tr) + length (xs k) \<le> length (bk_data (tr_block ?tr))"
    using Suc.prems(6,7) unfolding T by simp_all
  obtain blk1 where c1: "s_client_get_data_block cl svc ?tr b = Some (HALCS_CLIENT_SUCCESS, cl\<lparr>ac_block := blk1\<rparr>,
      ?tr\<lparr>tr_block := (tr_block ?tr)\<lparr>bk_data := overlay (bk_off (tr_block tr)) (xs k) (bk_data (tr_block tr)), bk_read := of_nat (length (xs k))\<rparr>\<rparr>, b1)"
    "length blk1 = 4 + 2 ^ 20"
    using client_block [OF cl [folded Suc.prems(3)] Suc.prems(4) m1 refl lx sz] by (auto simp: overlay_def)
  have u: "unat (of_nat (length (xs k)) :: u32) = length (xs k)" using lx by (simp add: unat_of_nat take_bit_nat_eq_self)
  let ?tr1 = "moved (xs k) (of_nat k) (of_nat (length (xs k))) tr"
  have "of_nat k \<le> (of_nat N :: u32)" using k(1) K by (simp add: word_le_nat_alt unat_of_nat take_bit_nat_eq_self)
  then have step: "acq_curve_loop (\<lambda>p. (False, p)) svc (of_nat N) (of_nat k) bread cl tr b =
      acq_curve_loop (\<lambda>p. (False, p)) svc (of_nat N) (of_nat (Suc k)) (bread + of_nat (length (xs k))) (cl\<lparr>ac_block := blk1\<rparr>) ?tr1 b1"
    by (subst acq_curve_loop.simps) (simp add: c1 u Let_def add.commute flip: moved_record)
  have us: "unat (bk_size (tr_block tr) - of_nat (length (xs k))) = unat (bk_size (tr_block tr)) - length (xs k)"
    using sz(1) u by (simp add: unat_sub word_le_nat_alt)
  have l1: "length ?T \<le> unat (bk_size (tr_block ?tr1))" "bk_off (tr_block ?tr1) + length ?T \<le> length (bk_data (tr_block ?tr1))"
    using Suc.prems(6,7) sz unfolding T by (simp_all add: moved_def us)
  obtain blk i r b' where ih: "acq_curve_loop (\<lambda>p. (False, p)) svc (of_nat N) (of_nat (Suc k)) (bread + of_nat (length (xs k))) (cl\<lparr>ac_block := blk1\<rparr>) ?tr1 b1 =
        acq_curve_loop (\<lambda>p. (False, p)) svc (of_nat N) (of_nat K) (bread + of_nat (length (xs k)) + of_nat (length ?T))
          (cl\<lparr>ac_block := blk1\<rparr>\<lparr>ac_block := blk\<rparr>) (moved ?T i r ?tr1) b'" "length blk = 4 + 2 ^ 20" "ok b'"
    using Suc.hyps(1) [OF k(2,3) b1(2) _ _ _ l1, of "cl\<lparr>ac_block := blk1\<rparr>" "bread + of_nat (length (xs k))"] Suc.prems(3,5) c1(2)
    by (auto simp: moved_def)
  have "moved ?T i r ?tr1 = moved (xs k @ ?T) i r tr"
    using overlay_overlay [of "bk_off (tr_block tr)" "xs k" ?T "bk_data (tr_block tr)"] Suc.prems(7) unfolding T
    by (simp add: moved_def add.assoc diff_diff_eq)
  with ih step show ?case unfolding T 
    by - (rule exI [of _ blk], rule exI [of _ i], rule exI [of _ r], rule exI [of _ b'], simp add: add.assoc)
qed

text \<open>The blocks of an acquisition of one shot.\<close>

definition shot_block :: "(nat \<Rightarrow> u8) \<Rightarrow> acq_buf \<Rightarrow> acq_params \<Rightarrow> nat \<Rightarrow> u8 list" where
  "shot_block mem buf ap k = ring_bytes mem (unat (ab_start_addr buf)) (region_size buf)
     (shot_start buf ap + k * 2 ^ 20) (min (2 ^ 20) (shot_bytes buf ap - k * 2 ^ 20))"

lemma blocks_concat:
  "k * 2 ^ 20 \<le> shot_bytes buf ap \<Longrightarrow> concat (map (shot_block mem buf ap) [0..<k]) =
    ring_bytes mem (unat (ab_start_addr buf)) (region_size buf) (shot_start buf ap) (k * 2 ^ 20)"
proof (induction k)
  case (Suc k)
  have "2 ^ 20 \<le> shot_bytes buf ap - k * 2 ^ 20" using Suc.prems by simp
  then have b: "shot_block mem buf ap k = ring_bytes mem (unat (ab_start_addr buf)) (region_size buf) (shot_start buf ap + k * 2 ^ 20) (2 ^ 20)"
    unfolding shot_block_def by (simp only: min.absorb1)
  have "Suc k * 2 ^ 20 = k * 2 ^ 20 + (2 ^ 20 :: nat)" by simp
  then show ?case using Suc by (simp only: upt_Suc_append map_append concat_append ring_bytes_add) (simp add: b)
qed simp

lemma blocks_all:
  assumes "shot_bytes buf ap = q * 2 ^ 20 + r" and "r < 2 ^ 20"
  shows "concat (map (shot_block mem buf ap) [0..<q + 1]) =
    ring_bytes mem (unat (ab_start_addr buf)) (region_size buf) (shot_start buf ap) (shot_bytes buf ap)"
proof -
  have "min (2 ^ 20) (shot_bytes buf ap - q * 2 ^ 20) = r" using assms by simp
  then have b: "shot_block mem buf ap q = ring_bytes mem (unat (ab_start_addr buf)) (region_size buf) (shot_start buf ap + q * 2 ^ 20) r"
    unfolding shot_block_def by simp
  have "q * 2 ^ 20 \<le> shot_bytes buf ap" using assms(1) by simp
  from blocks_concat [OF this, of mem] show ?thesis unfolding assms(1) by (simp add: ring_bytes_add b)
qed

text \<open>The block after the last: the server refuses it when the last one was full.\<close>

lemma samples_blocks:
  assumes f: "shot_fits buf ap"
  shows "unat (ab_sample_size buf) \<noteq> 0" "unat (BLOCK_SIZE div ab_sample_size buf) \<noteq> 0"
    "unat ((ap_pre ap + ap_post ap) div (BLOCK_SIZE div ab_sample_size buf)) = shot_bytes buf ap div 2 ^ 20"
    "unat ((ap_pre ap + ap_post ap) mod (BLOCK_SIZE div ab_sample_size buf)) * unat (ab_sample_size buf) = shot_bytes buf ap mod 2 ^ 20"
proof -
  define s where "s = unat (ab_sample_size buf)"
  have "s dvd 2 ^ 20" using f by (simp only: shot_fits_def s_def)
  then obtain m where m: "2 ^ 20 = s * m" unfolding dvd_def by blast
  have "(0 :: nat) < s * m" by (simp flip: m)
  then have sm: "0 < s" "0 < m" by simp_all
  have b: "unat (BLOCK_SIZE div ab_sample_size buf) = m"
    using sm(1) arg_cong [OF m, of "\<lambda>x. x div s"] by (simp add: unat_div BLOCK_SIZE_def s_def)
  have "unat (ap_pre ap) + unat (ap_post ap) < 2 ^ 32"
    using f u32_less [of "ab_max_samples buf"] by (simp add: shot_fits_def)
  then have N: "unat (ap_pre ap + ap_post ap) = unat (ap_pre ap) + unat (ap_post ap)" by (rule add32)
  have t: "shot_bytes buf ap = unat (ap_pre ap + ap_post ap) * s" by (simp add: N shot_bytes_def s_def)
  show "unat (ab_sample_size buf) \<noteq> 0" "unat (BLOCK_SIZE div ab_sample_size buf) \<noteq> 0" using sm b by (simp_all add: s_def)
  show "unat ((ap_pre ap + ap_post ap) div (BLOCK_SIZE div ab_sample_size buf)) = shot_bytes buf ap div 2 ^ 20"
    unfolding unat_div [of "ap_pre ap + ap_post ap"] b t m using sm(1) by (simp add: mult.commute [of s])
  show "unat ((ap_pre ap + ap_post ap) mod (BLOCK_SIZE div ab_sample_size buf)) * unat (ab_sample_size buf) = shot_bytes buf ap mod 2 ^ 20"
    unfolding unat_mod [of "ap_pre ap + ap_post ap"] b t m by (simp add: mult.commute [of s] mult_mod_left [symmetric] flip: s_def)
qed

lemma shot_bytes_less: "shot_fits buf ap \<Longrightarrow> shot_bytes buf ap < 2 ^ 32"
proof -
  assume f: "shot_fits buf ap"
  then have "shot_bytes buf ap \<le> (unat (ap_pre_aligned ap) + unat (ap_post_aligned ap)) * unat (ab_sample_size buf)"
    unfolding shot_bytes_def shot_fits_def word_le_nat_alt by (intro mult_right_mono add_mono) simp_all
  with f show ?thesis unfolding shot_fits_def by linarith
qed

lemma block_over:
  assumes f: "shot_fits buf ap" and q: "shot_bytes buf ap = q * 2 ^ 20" "0 < q"
  shows "block_layout buf ap (of_nat q) = Some (Inl (- ACQ_BLOCK_OOR))"
proof -
  let ?n = "ap_pre ap + ap_post ap" and ?m = "BLOCK_SIZE div ab_sample_size buf"
  have "q * 2 ^ 20 < 2 ^ 32" using shot_bytes_less [OF f] q(1) by simp
  then have q32: "unat (of_nat q :: u32) = q" by (simp add: unat_of_nat take_bit_nat_eq_self)
  have d: "?n div ?m = of_nat q"
    using samples_blocks(3) [OF f] q by (simp add: q32 word_unat_eq_iff)
  have r: "?n mod ?m = 0"
    using samples_blocks(1,4) [OF f] q(1) by (simp flip: unat_eq_zero)
  have z: "ab_sample_size buf \<noteq> 0" "?m \<noteq> 0" using samples_blocks(1,2) [OF f] unat_0 by metis+
  have l: "(of_nat q :: u32) \<noteq> 0" "(of_nat q :: u32) - 1 < of_nat q"
    using q(2) q32 by (metis unat_0 less_numeral_extra(3), simp add: word_less_nat_alt unat_sub word_le_nat_alt)
  have s1: "?n * ap_shots ap = ?n" using f by (simp add: shot_fits_def)
  show ?thesis unfolding block_layout_def Let_def s1 d r using z l by simp
qed

text \<open>Every block of the shot is served, and its bytes are those of the block.\<close>

lemma shot_served:
  assumes ok: "acq_link_ok self good junk l" and h: "sm_handler self = Some acq" and inv: "acq_inv acq" and c: "chan < aq_num_chan acq"
    and buf: "buf = aq_buf acq ! unat chan" and ap: "ap = aq_params acq ! unat chan" and f: "shot_fits buf ap"
    and m: "reads_memory self good mem (unat (ab_start_addr buf)) (unat (ab_start_addr buf) + region_size buf)"
    and k: "k * 2 ^ 20 < shot_bytes buf ap"
  shows "\<exists>l'. module_serves (request 1 [le_bytes 4 chan, le_bytes 4 (of_nat k :: u32)]) l (block_reply (shot_block mem buf ap k)) l' \<and>
    acq_link_ok self good junk l'"
proof -
  have "k * 2 ^ 20 < 2 ^ 32" using shot_bytes_less [OF f] k by simp
  then have u: "unat (of_nat k :: u32) = k" by (simp add: unat_of_nat take_bit_nat_eq_self)
  from block_served [OF ok h inv c buf ap f _ m refl refl, of "of_nat k"] k u
  show ?thesis by (simp add: block_reply_def shot_block_def Let_def)
qed

text \<open>The whole blocks that the client asks for, and what comes after them.\<close>

lemma curve_blocks:
  assumes cl: "hc_mlm (ac_halcs cl) = Some (module_broker svc)" "length (ac_block cl) = 4 + 2 ^ 20"
    and ok: "acq_link_ok self good junk l" and h: "sm_handler self = Some acq" and inv: "acq_inv acq" and c: "chan < aq_num_chan acq"
    and buf: "buf = aq_buf acq ! unat chan" and ap: "ap = aq_params acq ! unat chan" and f: "shot_fits buf ap"
    and m: "reads_memory self good mem (unat (ab_start_addr buf)) (unat (ab_start_addr buf) + region_size buf)"
    and ss: "reads_sample_size self good junk chan (ab_sample_size buf)"
    and req: "tr_req tr = \<lparr>ar_pre = ap_pre ap, ar_post = ap_post ap, ar_shots = 1, ar_chan = chan\<rparr>"
    and K: "K \<le> shot_bytes buf ap div 2 ^ 20 + 1" "\<And>k. k < K \<Longrightarrow> k * 2 ^ 20 < shot_bytes buf ap"
    and T: "T = concat (map (shot_block mem buf ap) [0..<K])"
    and room: "length T \<le> unat (bk_size (tr_block tr))" "bk_off (tr_block tr) + length T \<le> length (bk_data (tr_block tr))"
  shows "\<exists>blk i r l'. s_acq_get_curve (\<lambda>p. (False, p)) cl svc tr l = do {
      (err', bread, self', tr', p2) \<leftarrow> acq_curve_loop (\<lambda>p. (False, p)) svc (of_nat (shot_bytes buf ap div 2 ^ 20)) (of_nat K)
        (of_nat (length T)) (cl\<lparr>ac_block := blk\<rparr>) (moved T i r tr) l';
      if err' \<noteq> HALCS_CLIENT_SUCCESS then Some (err', self', tr', p2)
      else Some (HALCS_CLIENT_SUCCESS, self', tr'\<lparr>tr_block := (tr_block tr')
        \<lparr>bk_read := bread, bk_size := bk_size (tr_block tr), bk_off := bk_off (tr_block tr)\<rparr>\<rparr>, p2) } \<and>
    length blk = 4 + 2 ^ 20 \<and> acq_link_ok self good junk l'"
proof -
  let ?q = "shot_bytes buf ap div 2 ^ 20"
  obtain l1 where l1: "module_serves (request 16 [le_bytes 4 (1 :: u32), le_bytes 4 chan, le_bytes 4 chan]) l (ok_reply (ab_sample_size buf)) l1"
    "acq_link_ok self good junk l1" using size_served [OF ok ss] by blast
  have g: "halcs_get_acq_ch_sample_size cl svc chan 0 l = Some (HALCS_CLIENT_SUCCESS, ab_sample_size buf, l1)"
    by (rule client_sample_size [OF cl(1) l1(1)])
  have "shot_bytes buf ap < 2 ^ 32" by (rule shot_bytes_less [OF f])
  then have q: "?q + 1 < 2 ^ 32" by simp
  have nv: "(ap_pre ap + ap_post ap) div (BLOCK_SIZE div ab_sample_size buf) = of_nat ?q"
    using arg_cong [OF samples_blocks(3) [OF f], of "of_nat :: nat \<Rightarrow> u32"] by simp
  have z: "ab_sample_size buf \<noteq> 0" "BLOCK_SIZE div ab_sample_size buf \<noteq> 0" using samples_blocks(1,2) [OF f] unat_0 by metis+
  obtain blk i r l2 where c: "acq_curve_loop (\<lambda>p. (False, p)) svc (of_nat ?q) (of_nat 0) 0 cl tr l1 =
      acq_curve_loop (\<lambda>p. (False, p)) svc (of_nat ?q) (of_nat K) (0 + of_nat (length T)) (cl\<lparr>ac_block := blk\<rparr>) (moved T i r tr) l2"
    "length blk = 4 + 2 ^ 20" "acq_link_ok self good junk l2"
    using curve_prefix [where xs = "shot_block mem buf ap" and k = 0 and bread = 0 and ok = "acq_link_ok self good junk",
        OF cl(1) shot_served [OF _ h inv c buf ap f m K(2)] _ K(1) q _ l1(2) refl cl(2) _ room [unfolded T], folded T] req
    by (force simp: shot_block_def)
  show ?thesis
    by (rule exI [of _ blk], rule exI [of _ i], rule exI [of _ r], rule exI [of _ l2])
      (use g req nv z c in \<open>simp add: s_acq_get_curve_def Let_def\<close>)
qed

lemma next_block: "q + 1 < 2 ^ 32 \<Longrightarrow> \<not> (of_nat (q + 1) :: u32) \<le> of_nat q"
  by (simp add: word_le_nat_alt unat_of_nat take_bit_nat_eq_self del: of_nat_add of_nat_Suc)

section \<open>A concrete module behind the broker\<close>

type_synonym demo_table = "((string \<times> nat) list, (unit smio_ops, smio_acq, unit) smio_world, msg_args) dstate"

definition acq_heap :: "((unit smio_ops, smio_acq, unit) smio_world, msg_args) dheap" where
  "acq_heap = \<lparr>hp_next = 17, hp_mem = (\<lambda>a. if a < 17 then Some (BObj (OOp (acq_exp_ops ! a))) else None), hp_ok = (\<lambda>_. True)\<rparr>"

lemma acq_heap_ok:
  "heap_wf acq_heap" "\<forall>n. hp_ok acq_heap n" "distinct [0..<17]" "length [0..<17] = length (acq_exp_ops :: ((unit smio_ops, smio_acq, unit) smio_world, msg_args) disp_op list)"
  "\<forall>(a, op) \<in> set (zip [0..<17] acq_exp_ops). hp_mem acq_heap a = Some (BObj (OOp op))"
proof -
  show l: "length [0..<17] = length (acq_exp_ops :: ((unit smio_ops, smio_acq, unit) smio_world, msg_args) disp_op list)" by (simp add: acq_exp_ops_def)
  show "heap_wf acq_heap" "\<forall>n. hp_ok acq_heap n" "distinct [0..<17]" by (auto simp: heap_wf_def acq_heap_def)
  show "\<forall>(a, op) \<in> set (zip [0..<17] acq_exp_ops). hp_mem acq_heap a = Some (BObj (OOp op))"
    using l by (auto simp: acq_heap_def set_zip)
qed

lemma acq_table: "\<exists>s :: demo_table. table_ready smio_disp_table_ops (filled acq_exp_ops (acq_exp_fp 0)) s"
proof -
  have l: "length (acq_exp_fp 0) = length acq_exp_ops" by (simp add: acq_exp_fp_def acq_exp_ops_def)
  have n: "plain_new True s p = Some (Some (), p)" for s :: "(unit smio_ops, unit, unit) smio" and p by (simp add: plain_new_def)
  show ?thesis
    using mod_boot [where handler_new = "plain_new True" and fps = "acq_exp_fp 0" and descs = acq_exp_ops and ps = "[0..<17]",
        OF zhashx_ok_alist zh_alist_new acq_heap_ok acq_distinct l _ n] acq_func_ok by blast
qed

lemma demo_link:
  obtains s :: demo_table where "acq_link_ok (demo_smio h) (\<lambda>_. True) 0 ((demo_smio h, ()), s, [])"
  using acq_table unfolding acq_link_ok_def by blast

lemma demo_sample_size: "reads_sample_size (demo_smio (Some acq)) (\<lambda>_. True) 0 0 8"
proof -
  have v: "smio_rd (demo_smio h) () a d = Some (4, 0x10040, ())" for h a d
    by (simp add: smio_rd_def smio_thsafe_client_read_32_def SMIO_FUNC_WRAPPER_def demo_smio_def demo_thsafe_def)
  have f: "field_get ACQ_CORE_CH0_DESC_INT_WIDTH 0x10040 = 64" "field_get ACQ_CORE_CH0_DESC_NUM_COALESCE 0x10040 = 1"
    by (simp_all add: ACQ_CORE_CH0_DESC_INT_WIDTH_def ACQ_CORE_CH0_DESC_NUM_COALESCE_def gen_field_def WBGEN2_GEN_READ_def
      WBGEN2_GEN_MASK_def BIT_SET_def mask_eq_exp_minus_1)
  have d: "chan_desc (demo_smio h) r fl i 0 () = Some (field_get fl 0x10040, ())" for h r fl i
    by (simp add: chan_desc_def GET_PARAM_CHANNEL_def GET_PARAM_def GET_PARAM_GEN_def v)
  have h: "sm_handler (demo_smio (Some acq)) = Some acq" by (simp add: demo_smio_def)
  show ?thesis
    unfolding reads_sample_size_def
    by (auto simp: s_acq_sample_size_def d f h DDR3_BYTE_2_BIT_def put_ret_def wr_word_def ACQ_CORE_NUM_CHAN_DESC_def)
qed

definition demo_client :: "string \<Rightarrow> ((string \<times> nat) list, (unit smio_ops, smio_acq, unit) smio_world) link acq_client" where
  "demo_client svc = \<lparr>ac_halcs = \<lparr>hc_mlm = Some (module_broker svc), hc_timeout = 0\<rparr>, ac_block = replicate (4 + 2 ^ 20) 0\<rparr>"

definition demo_trans :: "u32 \<Rightarrow> u32 \<Rightarrow> nat \<Rightarrow> acq_trans" where
  "demo_trans pre post n = \<lparr>tr_req = \<lparr>ar_pre = pre, ar_post = post, ar_shots = 1, ar_chan = 0\<rparr>,
     tr_block = \<lparr>bk_idx = 0, bk_data = replicate n 0, bk_off = 0, bk_size = of_nat n, bk_read = 0\<rparr>\<rparr>"

lemma demo_client_ok: "hc_mlm (ac_halcs (demo_client svc)) = Some (module_broker svc)" "length (ac_block (demo_client svc)) = 4 + 2 ^ 20"
  unfolding demo_client_def by (simp, simp only: acq_client.select_convs length_replicate)

text \<open>A channel whose shot fills one block.\<close>

definition full_buf :: acq_buf where
  "full_buf = \<lparr>ab_id = 0, ab_start_addr = 0x1000, ab_end_addr = 0x200FF8, ab_max_samples = 0x3FFFF, ab_sample_size = 8\<rparr>"

definition full_acq :: smio_acq where
  "full_acq = \<lparr>aq_params = [\<lparr>ap_pre = 0x20000, ap_post = 0, ap_pre_aligned = 0x20000, ap_post_aligned = 0, ap_shots = 1, ap_trig_addr = 0x1008\<rparr>],
     aq_curr_chan = 0, aq_num_chan = 1, aq_multishot_ram_size = 0, aq_buf = [full_buf]\<rparr>"

lemma full_ok: "acq_inv full_acq" "shot_fits full_buf (hd (aq_params full_acq))"
  by (simp_all add: acq_inv_def full_acq_def full_buf_def buf_ok_def shot_fits_def)

section \<open>Properties\<close>

text \<open>C19: a curve of one shot. Over a broker that delivers to an acquisition module holding its invariant,
  \<open>acq_get_curve\<close> for the shot the module was set to copies, at the caller's data pointer, the bytes of all
  samples of the shot in the order they were taken, wherever the ring of the channel's memory wraps and
  however many blocks of 1 MiB it takes; it counts them, leaves the pointer and the size where they were, and
  returns success, provided the last block is not a full one.\<close>

theorem acq_curve_single_shot:
  assumes "hc_mlm (ac_halcs cl) = Some (module_broker svc)" and "length (ac_block cl) = 4 + 2 ^ 20"
    and "acq_link_ok self good junk l" and "sm_handler self = Some acq" and "acq_inv acq" and "chan < aq_num_chan acq"
    and "buf = aq_buf acq ! unat chan" and "ap = aq_params acq ! unat chan" and "shot_fits buf ap"
    and "reads_memory self good mem (unat (ab_start_addr buf)) (unat (ab_start_addr buf) + region_size buf)"
    and "reads_sample_size self good junk chan (ab_sample_size buf)"
    and "tr_req tr = \<lparr>ar_pre = ap_pre ap, ar_post = ap_post ap, ar_shots = 1, ar_chan = chan\<rparr>"
    and "n = shot_bytes buf ap" and "\<not> 2 ^ 20 dvd n"
    and "n \<le> unat (bk_size (tr_block tr))" and "bk_off (tr_block tr) + n \<le> length (bk_data (tr_block tr))"
  shows "\<exists>blk i l'. acq_get_curve (\<lambda>p. (False, p)) cl svc tr l = Some (HALCS_CLIENT_SUCCESS, cl\<lparr>ac_block := blk\<rparr>,
      tr\<lparr>tr_block := (tr_block tr)\<lparr>bk_idx := i, bk_read := of_nat n, bk_data := take (bk_off (tr_block tr)) (bk_data (tr_block tr)) @
        ring_bytes mem (unat (ab_start_addr buf)) (region_size buf) (shot_start buf ap) n @
        drop (bk_off (tr_block tr) + n) (bk_data (tr_block tr))\<rparr>\<rparr>, l') \<and> acq_link_ok self good junk l'"
proof -
  let ?q = "shot_bytes buf ap div 2 ^ 20"
  define r where "r = shot_bytes buf ap mod 2 ^ 20"
  have r: "shot_bytes buf ap = ?q * 2 ^ 20 + r" "r < 2 ^ 20" "0 < r"
    using assms(13,14) by (simp_all add: r_def dvd_eq_mod_eq_0)
  have K: "k * 2 ^ 20 < shot_bytes buf ap" if "k < ?q + 1" for k
  proof -
    have "k * 2 ^ 20 \<le> ?q * 2 ^ 20" using that by simp
    with r(1,3) show ?thesis by linarith
  qed
  define T where "T = concat (map (shot_block mem buf ap) [0..<?q + 1])"
  have T: "T = ring_bytes mem (unat (ab_start_addr buf)) (region_size buf) (shot_start buf ap) n"
    unfolding T_def assms(13) by (rule blocks_all [OF r(1,2)])
  have lT: "length T = n" by (simp add: T)
  obtain blk i rd l' where e: "s_acq_get_curve (\<lambda>p. (False, p)) cl svc tr l = do {
      (err', bread, self', tr', p2) \<leftarrow> acq_curve_loop (\<lambda>p. (False, p)) svc (of_nat ?q) (of_nat (?q + 1))
        (of_nat n) (cl\<lparr>ac_block := blk\<rparr>) (moved T i rd tr) l';
      if err' \<noteq> HALCS_CLIENT_SUCCESS then Some (err', self', tr', p2)
      else Some (HALCS_CLIENT_SUCCESS, self', tr'\<lparr>tr_block := (tr_block tr')
        \<lparr>bk_read := bread, bk_size := bk_size (tr_block tr), bk_off := bk_off (tr_block tr)\<rparr>\<rparr>, p2) }"
    and l': "acq_link_ok self good junk l'"
    using curve_blocks [OF assms(1-12) order_refl K T_def] assms(15,16) unfolding lT by blast
  have "?q + 1 < 2 ^ 32" using shot_bytes_less [OF assms(9)] by simp
  then have "\<not> (of_nat (?q + 1) :: u32) \<le> of_nat ?q"
    by (rule next_block)
  then have d: "acq_curve_loop (\<lambda>p. (False, p)) svc (of_nat ?q) (of_nat (?q + 1)) (of_nat n) (cl\<lparr>ac_block := blk\<rparr>) (moved T i rd tr) l' =
      Some (HALCS_CLIENT_SUCCESS, of_nat n, cl\<lparr>ac_block := blk\<rparr>, moved T i rd tr, l')" by (subst acq_curve_loop.simps) simp
  show ?thesis
    by (rule exI [of _ blk], rule exI [of _ i], rule exI [of _ l'], cases tr, cases "tr_block tr")
      (use e [unfolded d] l' lT in \<open>simp add: acq_get_curve_def moved_def overlay_def T\<close>)
qed

theorem acq_curve_single_shot_witness:
  "\<exists>s :: demo_table. \<exists>blk i l'. acq_get_curve (\<lambda>p. (False, p)) (demo_client ''ACQ'') ''ACQ'' (demo_trans 3 2 50) ((demo_smio (Some demo_acq), ()), s, []) =
    Some (HALCS_CLIENT_SUCCESS, (demo_client ''ACQ'')\<lparr>ac_block := blk\<rparr>,
      (demo_trans 3 2 50)\<lparr>tr_block := (tr_block (demo_trans 3 2 50))\<lparr>bk_idx := i, bk_read := 40,
        bk_data := ring_bytes of_nat 4096 64 48 40 @ replicate 10 0\<rparr>\<rparr>, l')"
proof -
  obtain s :: demo_table where l: "acq_link_ok (demo_smio (Some demo_acq)) (\<lambda>_. True) 0 ((demo_smio (Some demo_acq), ()), s, [])" by (rule demo_link)
  let ?ap = "hd (aq_params demo_acq)"
  have h: "sm_handler (demo_smio (Some demo_acq)) = Some demo_acq" by (simp add: demo_smio_def)
  have c: "0 < aq_num_chan demo_acq" "demo_buf = aq_buf demo_acq ! unat (0 :: u32)" "?ap = aq_params demo_acq ! unat (0 :: u32)"
    by (simp_all add: demo_acq_def)
  have sz: "shot_bytes demo_buf ?ap = 40" "region_size demo_buf = 64" "shot_start demo_buf ?ap = 48" "unat (ab_start_addr demo_buf) = 4096"
    by (simp_all add: shot_bytes_def region_size_def shot_start_def demo_buf_def demo_acq_def)
  have ss: "reads_sample_size (demo_smio (Some demo_acq)) (\<lambda>_. True) 0 0 (ab_sample_size demo_buf)"
    using demo_sample_size by (simp add: demo_buf_def)
  have rq: "tr_req (demo_trans 3 2 50) = \<lparr>ar_pre = ap_pre ?ap, ar_post = ap_post ?ap, ar_shots = 1, ar_chan = 0\<rparr>"
    by (simp add: demo_trans_def demo_acq_def)
  have n: "40 = shot_bytes demo_buf ?ap" "\<not> 2 ^ 20 dvd (40 :: nat)" "40 \<le> unat (bk_size (tr_block (demo_trans 3 2 50)))"
    "bk_off (tr_block (demo_trans 3 2 50)) + 40 \<le> length (bk_data (tr_block (demo_trans 3 2 50)))"
    by (simp_all add: sz demo_trans_def)
  have b: "bk_off (tr_block (demo_trans 3 2 50)) = 0" "drop 40 (bk_data (tr_block (demo_trans 3 2 50))) = replicate 10 0"
    by (simp_all add: demo_trans_def)
  from acq_curve_single_shot [OF demo_client_ok [of "''ACQ''"] l h demo_ok(1) c demo_ok(2) demo_reads ss rq n, unfolded sz b]
  show ?thesis by (elim exE conjE) (rule exI [of _ s], rule exI, rule exI, rule exI, erule trans, simp add: b)
qed

text \<open>C21: the block too many. When the bytes of the shot fill whole blocks of 1 MiB the client asks for one
  block more than there is: the module refuses it, so \<open>acq_get_curve\<close> reports an error although all bytes
  of the shot have arrived, and leaves the caller's pointer and size moved past them.\<close>

theorem acq_curve_exact_blocks:
  assumes "hc_mlm (ac_halcs cl) = Some (module_broker svc)" and "length (ac_block cl) = 4 + 2 ^ 20"
    and "acq_link_ok self good junk l" and "sm_handler self = Some acq" and "acq_inv acq" and "chan < aq_num_chan acq"
    and "buf = aq_buf acq ! unat chan" and "ap = aq_params acq ! unat chan" and "shot_fits buf ap"
    and "reads_memory self good mem (unat (ab_start_addr buf)) (unat (ab_start_addr buf) + region_size buf)"
    and "reads_sample_size self good junk chan (ab_sample_size buf)"
    and "tr_req tr = \<lparr>ar_pre = ap_pre ap, ar_post = ap_post ap, ar_shots = 1, ar_chan = chan\<rparr>"
    and "n = shot_bytes buf ap" and "2 ^ 20 dvd n"
    and "n \<le> unat (bk_size (tr_block tr))" and "bk_off (tr_block tr) + n \<le> length (bk_data (tr_block tr))"
  shows "\<exists>blk i r l'. acq_get_curve (\<lambda>p. (False, p)) cl svc tr l = Some (HALCS_CLIENT_ERR_SERVER, cl\<lparr>ac_block := blk\<rparr>,
      tr\<lparr>tr_block := \<lparr>bk_idx = i, bk_data = take (bk_off (tr_block tr)) (bk_data (tr_block tr)) @
        ring_bytes mem (unat (ab_start_addr buf)) (region_size buf) (shot_start buf ap) n @
        drop (bk_off (tr_block tr) + n) (bk_data (tr_block tr)),
        bk_off = bk_off (tr_block tr) + n, bk_size = bk_size (tr_block tr) - of_nat n, bk_read = r\<rparr>\<rparr>, l')"
proof -
  let ?q = "shot_bytes buf ap div 2 ^ 20"
  have q: "shot_bytes buf ap = ?q * 2 ^ 20" using assms(13,14) by simp
  have "0 < shot_bytes buf ap" using assms(9) samples_blocks(1) [OF assms(9)] by (simp add: shot_bytes_def shot_fits_def)
  with q have q0: "0 < ?q" by (metis gr0I mult_zero_left less_irrefl)
  have K: "k * 2 ^ 20 < shot_bytes buf ap" if "k < ?q" for k
  proof -
    have "k * 2 ^ 20 < ?q * 2 ^ 20" using that by simp
    with q show ?thesis by simp
  qed
  define T where "T = concat (map (shot_block mem buf ap) [0..<?q])"
  have T: "T = ring_bytes mem (unat (ab_start_addr buf)) (region_size buf) (shot_start buf ap) n"
    unfolding T_def assms(13) using blocks_concat [of ?q buf ap mem] q by simp
  have lT: "length T = n" by (simp add: T)
  obtain blk i rd l' where e: "s_acq_get_curve (\<lambda>p. (False, p)) cl svc tr l = do {
      (err', bread, self', tr', p2) \<leftarrow> acq_curve_loop (\<lambda>p. (False, p)) svc (of_nat ?q) (of_nat ?q)
        (of_nat n) (cl\<lparr>ac_block := blk\<rparr>) (moved T i rd tr) l';
      if err' \<noteq> HALCS_CLIENT_SUCCESS then Some (err', self', tr', p2)
      else Some (HALCS_CLIENT_SUCCESS, self', tr'\<lparr>tr_block := (tr_block tr')
        \<lparr>bk_read := bread, bk_size := bk_size (tr_block tr), bk_off := bk_off (tr_block tr)\<rparr>\<rparr>, p2) }"
    and bl: "length blk = 4 + 2 ^ 20" and l': "acq_link_ok self good junk l'"
    using curve_blocks [OF assms(1-12) le_add1 K T_def] assms(15,16) unfolding lT by blast
  have "block_layout (aq_buf acq ! unat chan) (aq_params acq ! unat chan) (of_nat ?q) = Some (Inl (- ACQ_BLOCK_OOR))"
    using block_over [OF assms(9) q q0] unfolding assms(7,8) .
  then obtain l2 where l2: "module_serves (request 1 [le_bytes 4 chan, le_bytes 4 (of_nat ?q :: u32)]) l' [le_bytes 4 (4 :: u32)] l2"
    using block_refused [OF l' assms(4-6)] by blast
  let ?tr = "(moved T i rd tr)\<lparr>tr_block := (tr_block (moved T i rd tr))\<lparr>bk_idx := of_nat ?q\<rparr>\<rparr>"
  have "s_client_get_data_block (cl\<lparr>ac_block := blk\<rparr>) svc ?tr l' =
      Some (HALCS_CLIENT_ERR_SERVER, cl\<lparr>ac_block := blk\<rparr>, ?tr, l2)"
    using client_refused [of "cl\<lparr>ac_block := blk\<rparr>" svc ?tr l' l2] assms(1,12) l2 by (simp add: moved_def)
  then have d: "acq_curve_loop (\<lambda>p. (False, p)) svc (of_nat ?q) (of_nat ?q) (of_nat n) (cl\<lparr>ac_block := blk\<rparr>) (moved T i rd tr) l' =
      Some (HALCS_CLIENT_ERR_SERVER, of_nat n, cl\<lparr>ac_block := blk\<rparr>, ?tr, l2)"
    by (subst acq_curve_loop.simps) (simp add: client_errs)
  show ?thesis
    by (rule exI [of _ blk], rule exI [of _ "of_nat ?q"], rule exI [of _ rd], rule exI [of _ l2], cases tr, cases "tr_block tr")
      (use e [unfolded d] lT in \<open>simp add: acq_get_curve_def moved_def overlay_def T client_errs\<close>)
qed

theorem acq_curve_exact_blocks_witness:
  "\<exists>s :: demo_table. \<exists>self' tr' l'. acq_get_curve (\<lambda>p. (False, p)) (demo_client ''ACQ'') ''ACQ'' (demo_trans 0x20000 0 (2 ^ 20)) ((demo_smio (Some full_acq), ()), s, []) =
    Some (HALCS_CLIENT_ERR_SERVER, self', tr', l') \<and> bk_data (tr_block tr') = ring_bytes of_nat 4096 (2 ^ 21) (2 ^ 20 + 8) (2 ^ 20) \<and>
      bk_off (tr_block tr') = 2 ^ 20 \<and> bk_size (tr_block tr') = 0"
proof -
  obtain s :: demo_table where l: "acq_link_ok (demo_smio (Some full_acq)) (\<lambda>_. True) 0 ((demo_smio (Some full_acq), ()), s, [])" by (rule demo_link)
  let ?ap = "hd (aq_params full_acq)" and ?tr = "demo_trans 0x20000 0 (2 ^ 20)"
  have h: "sm_handler (demo_smio (Some full_acq)) = Some full_acq" by (simp add: demo_smio_def)
  have c: "0 < aq_num_chan full_acq" "full_buf = aq_buf full_acq ! unat (0 :: u32)" "?ap = aq_params full_acq ! unat (0 :: u32)"
    by (simp_all add: full_acq_def)
  have sz: "shot_bytes full_buf ?ap = 2 ^ 20" "region_size full_buf = 2 ^ 21" "shot_start full_buf ?ap = 2 ^ 20 + 8" "unat (ab_start_addr full_buf) = 4096"
    by (simp_all add: shot_bytes_def region_size_def shot_start_def full_buf_def full_acq_def)
  have ss: "reads_sample_size (demo_smio (Some full_acq)) (\<lambda>_. True) 0 0 (ab_sample_size full_buf)"
    using demo_sample_size by (simp add: full_buf_def)
  have rq: "tr_req ?tr = \<lparr>ar_pre = ap_pre ?ap, ar_post = ap_post ?ap, ar_shots = 1, ar_chan = 0\<rparr>"
    by (simp add: demo_trans_def full_acq_def)
  have b: "bk_off (tr_block ?tr) = 0" "bk_size (tr_block ?tr) = 2 ^ 20" "length (bk_data (tr_block ?tr)) = 2 ^ 20"
    unfolding demo_trans_def by (simp, simp, simp only: acq_trans.select_convs acq_block.select_convs length_replicate)
  have u: "2 ^ 20 \<le> unat (2 ^ 20 :: u32)" by simp
  have n: "2 ^ 20 \<le> unat (bk_size (tr_block ?tr))" "bk_off (tr_block ?tr) + 2 ^ 20 \<le> length (bk_data (tr_block ?tr))"
    unfolding b by (rule u, simp only: add_0 order_refl)
  have d: "drop (0 + 2 ^ 20) (bk_data (tr_block ?tr)) = []" by (rule drop_all) (simp only: b add_0 order_refl)
  from acq_curve_exact_blocks [OF demo_client_ok [of "''ACQ''"] l h full_ok(1) c full_ok(2) demo_reads ss rq sz(1) [symmetric] dvd_refl n, unfolded sz b d]
  show ?thesis by (elim exE) (rule exI [of _ s], rule exI, rule exI, rule exI, rule conjI, assumption, simp)
qed

end
