(* ===== verification/Mod_Parts.thy ===== *)
theory Mod_Parts
  imports Sensor_Modules Exports
begin

text \<open>
  The parameters of the modules that have other functions as well: the position calculation
  (src/sm_io/modules/dsp), the ADC boards (fmc130m_4ch, fmc250m_4ch, fmc100m_4ch), their clocks
  (fmc_active_clk) and the carrier (afc_mgmt, afc_diag). For each module the list \<open>_params\<close> says which
  fields its functions set and get, and \<open>_param_ops\<close>, \<open>_param_fp\<close> are their descriptors and functions.
\<close>

text \<open>The sign of a value of \<open>bits + 1\<close> bits.\<close>

definition WBGEN2_SIGN_EXTEND :: "u32 \<Rightarrow> nat \<Rightarrow> u32" where
  "WBGEN2_SIGN_EXTEND v bits = (if v AND push_bit bits 1 \<noteq> 0 then NOT (mask bits) else 0) OR v"

section \<open>dsp\<close>

named_theorems dsp_defs

definition POS_CALC_REG_KX :: u64 where [dsp_defs]: "POS_CALC_REG_KX = 0xc"
definition POS_CALC_KX_VAL :: param_field where [dsp_defs]: "POS_CALC_KX_VAL = gen_field 0 25"
definition POS_CALC_REG_KY :: u64 where [dsp_defs]: "POS_CALC_REG_KY = 0x10"
definition POS_CALC_KY_VAL :: param_field where [dsp_defs]: "POS_CALC_KY_VAL = gen_field 0 25"
definition POS_CALC_REG_KSUM :: u64 where [dsp_defs]: "POS_CALC_REG_KSUM = 0x14"
definition POS_CALC_KSUM_VAL :: param_field where [dsp_defs]: "POS_CALC_KSUM_VAL = gen_field 0 25"
definition POS_CALC_REG_DS_TBT_THRES :: u64 where [dsp_defs]: "POS_CALC_REG_DS_TBT_THRES = 0x0"
definition POS_CALC_DS_TBT_THRES_VAL :: param_field where [dsp_defs]: "POS_CALC_DS_TBT_THRES_VAL = gen_field 0 26"
definition POS_CALC_REG_DS_FOFB_THRES :: u64 where [dsp_defs]: "POS_CALC_REG_DS_FOFB_THRES = 0x4"
definition POS_CALC_DS_FOFB_THRES_VAL :: param_field where [dsp_defs]: "POS_CALC_DS_FOFB_THRES_VAL = gen_field 0 26"
definition POS_CALC_REG_DS_MONIT_THRES :: u64 where [dsp_defs]: "POS_CALC_REG_DS_MONIT_THRES = 0x8"
definition POS_CALC_DS_MONIT_THRES_VAL :: param_field where [dsp_defs]: "POS_CALC_DS_MONIT_THRES_VAL = gen_field 0 26"
definition POS_CALC_REG_DDS_CFG :: u64 where [dsp_defs]: "POS_CALC_REG_DDS_CFG = 0x2c"
definition POS_CALC_DDS_CFG_TEST_DATA :: u32 where [dsp_defs]: "POS_CALC_DDS_CFG_TEST_DATA = WBGEN2_GEN_MASK 1 1"
definition POS_CALC_REG_DSP_MONIT_AMP_CH0 :: u64 where [dsp_defs]: "POS_CALC_REG_DSP_MONIT_AMP_CH0 = 0x50"
definition POS_CALC_REG_DSP_MONIT_AMP_CH1 :: u64 where [dsp_defs]: "POS_CALC_REG_DSP_MONIT_AMP_CH1 = 0x54"
definition POS_CALC_REG_DSP_MONIT_AMP_CH2 :: u64 where [dsp_defs]: "POS_CALC_REG_DSP_MONIT_AMP_CH2 = 0x58"
definition POS_CALC_REG_DSP_MONIT_AMP_CH3 :: u64 where [dsp_defs]: "POS_CALC_REG_DSP_MONIT_AMP_CH3 = 0x5c"
definition POS_CALC_REG_DSP_MONIT_POS_X :: u64 where [dsp_defs]: "POS_CALC_REG_DSP_MONIT_POS_X = 0x60"
definition POS_CALC_REG_DSP_MONIT_POS_Y :: u64 where [dsp_defs]: "POS_CALC_REG_DSP_MONIT_POS_Y = 0x64"
definition POS_CALC_REG_DSP_MONIT_POS_Q :: u64 where [dsp_defs]: "POS_CALC_REG_DSP_MONIT_POS_Q = 0x68"
definition POS_CALC_REG_DSP_MONIT_POS_SUM :: u64 where [dsp_defs]: "POS_CALC_REG_DSP_MONIT_POS_SUM = 0x6c"
definition POS_CALC_REG_DSP_MONIT_UPDT :: u64 where [dsp_defs]: "POS_CALC_REG_DSP_MONIT_UPDT = 0x70"
definition POS_CALC_REG_DSP_MONIT1_AMP_CH0 :: u64 where [dsp_defs]: "POS_CALC_REG_DSP_MONIT1_AMP_CH0 = 0x74"
definition POS_CALC_REG_DSP_MONIT1_AMP_CH1 :: u64 where [dsp_defs]: "POS_CALC_REG_DSP_MONIT1_AMP_CH1 = 0x78"
definition POS_CALC_REG_DSP_MONIT1_AMP_CH2 :: u64 where [dsp_defs]: "POS_CALC_REG_DSP_MONIT1_AMP_CH2 = 0x7c"
definition POS_CALC_REG_DSP_MONIT1_AMP_CH3 :: u64 where [dsp_defs]: "POS_CALC_REG_DSP_MONIT1_AMP_CH3 = 0x80"
definition POS_CALC_REG_DSP_MONIT1_POS_X :: u64 where [dsp_defs]: "POS_CALC_REG_DSP_MONIT1_POS_X = 0x84"
definition POS_CALC_REG_DSP_MONIT1_POS_Y :: u64 where [dsp_defs]: "POS_CALC_REG_DSP_MONIT1_POS_Y = 0x88"
definition POS_CALC_REG_DSP_MONIT1_POS_Q :: u64 where [dsp_defs]: "POS_CALC_REG_DSP_MONIT1_POS_Q = 0x8c"
definition POS_CALC_REG_DSP_MONIT1_POS_SUM :: u64 where [dsp_defs]: "POS_CALC_REG_DSP_MONIT1_POS_SUM = 0x90"
definition POS_CALC_REG_DSP_MONIT1_UPDT :: u64 where [dsp_defs]: "POS_CALC_REG_DSP_MONIT1_UPDT = 0x94"
definition POS_CALC_REG_SW_TAG :: u64 where [dsp_defs]: "POS_CALC_REG_SW_TAG = 0xe8"
definition POS_CALC_SW_TAG_EN :: u32 where [dsp_defs]: "POS_CALC_SW_TAG_EN = WBGEN2_GEN_MASK 0 1"
definition POS_CALC_REG_SW_DATA_MASK :: u64 where [dsp_defs]: "POS_CALC_REG_SW_DATA_MASK = 0xec"
definition POS_CALC_SW_DATA_MASK_EN :: u32 where [dsp_defs]: "POS_CALC_SW_DATA_MASK_EN = WBGEN2_GEN_MASK 0 1"
definition POS_CALC_SW_DATA_MASK_SAMPLES :: param_field where [dsp_defs]: "POS_CALC_SW_DATA_MASK_SAMPLES = gen_field 1 16"
definition POS_CALC_REG_TBT_TAG :: u64 where [dsp_defs]: "POS_CALC_REG_TBT_TAG = 0xf0"
definition POS_CALC_TBT_TAG_EN :: u32 where [dsp_defs]: "POS_CALC_TBT_TAG_EN = WBGEN2_GEN_MASK 0 1"
definition POS_CALC_TBT_TAG_DLY :: param_field where [dsp_defs]: "POS_CALC_TBT_TAG_DLY = gen_field 1 16"
definition POS_CALC_REG_TBT_DATA_MASK_CTL :: u64 where [dsp_defs]: "POS_CALC_REG_TBT_DATA_MASK_CTL = 0xf4"
definition POS_CALC_TBT_DATA_MASK_CTL_EN :: u32 where [dsp_defs]: "POS_CALC_TBT_DATA_MASK_CTL_EN = WBGEN2_GEN_MASK 0 1"
definition POS_CALC_REG_TBT_DATA_MASK_SAMPLES :: u64 where [dsp_defs]: "POS_CALC_REG_TBT_DATA_MASK_SAMPLES = 0xf8"
definition POS_CALC_TBT_DATA_MASK_SAMPLES_BEG :: param_field where [dsp_defs]: "POS_CALC_TBT_DATA_MASK_SAMPLES_BEG = gen_field 0 16"
definition POS_CALC_TBT_DATA_MASK_SAMPLES_END :: param_field where [dsp_defs]: "POS_CALC_TBT_DATA_MASK_SAMPLES_END = gen_field 16 16"
definition POS_CALC_SW_TAG_DESYNC_CNT_RST :: u32 where [dsp_defs]: "POS_CALC_SW_TAG_DESYNC_CNT_RST = WBGEN2_GEN_MASK 8 1"
definition POS_CALC_SW_TAG_DESYNC_CNT :: param_field where [dsp_defs]: "POS_CALC_SW_TAG_DESYNC_CNT = gen_field 9 14"
definition POS_CALC_TBT_TAG_DESYNC_CNT_RST :: u32 where [dsp_defs]: "POS_CALC_TBT_TAG_DESYNC_CNT_RST = WBGEN2_GEN_MASK 17 1"
definition POS_CALC_TBT_TAG_DESYNC_CNT :: param_field where [dsp_defs]: "POS_CALC_TBT_TAG_DESYNC_CNT = gen_field 18 14"
definition POS_CALC_REG_MONIT1_TAG :: u64 where [dsp_defs]: "POS_CALC_REG_MONIT1_TAG = 0xfc"
definition POS_CALC_MONIT1_TAG_EN :: u32 where [dsp_defs]: "POS_CALC_MONIT1_TAG_EN = WBGEN2_GEN_MASK 0 1"
definition POS_CALC_MONIT1_TAG_DLY :: param_field where [dsp_defs]: "POS_CALC_MONIT1_TAG_DLY = gen_field 1 16"
definition POS_CALC_REG_MONIT1_DATA_MASK_CTL :: u64 where [dsp_defs]: "POS_CALC_REG_MONIT1_DATA_MASK_CTL = 0x100"
definition POS_CALC_MONIT1_DATA_MASK_CTL_EN :: u32 where [dsp_defs]: "POS_CALC_MONIT1_DATA_MASK_CTL_EN = WBGEN2_GEN_MASK 0 1"
definition POS_CALC_REG_MONIT1_DATA_MASK_SAMPLES :: u64 where [dsp_defs]: "POS_CALC_REG_MONIT1_DATA_MASK_SAMPLES = 0x104"
definition POS_CALC_MONIT1_DATA_MASK_SAMPLES_BEG :: param_field where [dsp_defs]: "POS_CALC_MONIT1_DATA_MASK_SAMPLES_BEG = gen_field 0 16"
definition POS_CALC_MONIT1_DATA_MASK_SAMPLES_END :: param_field where [dsp_defs]: "POS_CALC_MONIT1_DATA_MASK_SAMPLES_END = gen_field 16 16"
definition POS_CALC_MONIT1_TAG_DESYNC_CNT_RST :: u32 where [dsp_defs]: "POS_CALC_MONIT1_TAG_DESYNC_CNT_RST = WBGEN2_GEN_MASK 17 1"
definition POS_CALC_MONIT1_TAG_DESYNC_CNT :: param_field where [dsp_defs]: "POS_CALC_MONIT1_TAG_DESYNC_CNT = gen_field 18 14"
definition POS_CALC_REG_MONIT_TAG :: u64 where [dsp_defs]: "POS_CALC_REG_MONIT_TAG = 0x108"
definition POS_CALC_MONIT_TAG_EN :: u32 where [dsp_defs]: "POS_CALC_MONIT_TAG_EN = WBGEN2_GEN_MASK 0 1"
definition POS_CALC_MONIT_TAG_DLY :: param_field where [dsp_defs]: "POS_CALC_MONIT_TAG_DLY = gen_field 1 16"
definition POS_CALC_REG_MONIT_DATA_MASK_CTL :: u64 where [dsp_defs]: "POS_CALC_REG_MONIT_DATA_MASK_CTL = 0x10c"
definition POS_CALC_MONIT_DATA_MASK_CTL_EN :: u32 where [dsp_defs]: "POS_CALC_MONIT_DATA_MASK_CTL_EN = WBGEN2_GEN_MASK 0 1"
definition POS_CALC_REG_MONIT_DATA_MASK_SAMPLES :: u64 where [dsp_defs]: "POS_CALC_REG_MONIT_DATA_MASK_SAMPLES = 0x110"
definition POS_CALC_MONIT_DATA_MASK_SAMPLES_BEG :: param_field where [dsp_defs]: "POS_CALC_MONIT_DATA_MASK_SAMPLES_BEG = gen_field 0 16"
definition POS_CALC_MONIT_DATA_MASK_SAMPLES_END :: param_field where [dsp_defs]: "POS_CALC_MONIT_DATA_MASK_SAMPLES_END = gen_field 16 16"
definition POS_CALC_MONIT_TAG_DESYNC_CNT_RST :: u32 where [dsp_defs]: "POS_CALC_MONIT_TAG_DESYNC_CNT_RST = WBGEN2_GEN_MASK 17 1"
definition POS_CALC_MONIT_TAG_DESYNC_CNT :: param_field where [dsp_defs]: "POS_CALC_MONIT_TAG_DESYNC_CNT = gen_field 18 14"

definition s_dsp_set_get_kx :: "u32 \<Rightarrow> ('o, 'h, 'p) exp_func" where [dsp_defs]:
  "s_dsp_set_get_kx junk = SET_GET_PARAM 0 POS_CALC_REG_KX POS_CALC_KX_VAL (Some (1, 0x1ffffff)) None None junk"

definition s_dsp_set_get_ky :: "u32 \<Rightarrow> ('o, 'h, 'p) exp_func" where [dsp_defs]:
  "s_dsp_set_get_ky junk = SET_GET_PARAM 0 POS_CALC_REG_KY POS_CALC_KY_VAL (Some (1, 0x1ffffff)) None None junk"

definition s_dsp_set_get_ksum :: "u32 \<Rightarrow> ('o, 'h, 'p) exp_func" where [dsp_defs]:
  "s_dsp_set_get_ksum junk = SET_GET_PARAM 0 POS_CALC_REG_KSUM POS_CALC_KSUM_VAL (Some (1, 0x1ffffff)) None None junk"

definition s_dsp_set_get_ds_tbt_thres :: "u32 \<Rightarrow> ('o, 'h, 'p) exp_func" where [dsp_defs]:
  "s_dsp_set_get_ds_tbt_thres junk = SET_GET_PARAM 0 POS_CALC_REG_DS_TBT_THRES POS_CALC_DS_TBT_THRES_VAL (Some (0, 0x3ffffff)) None None junk"

definition s_dsp_set_get_ds_fofb_thres :: "u32 \<Rightarrow> ('o, 'h, 'p) exp_func" where [dsp_defs]:
  "s_dsp_set_get_ds_fofb_thres junk = SET_GET_PARAM 0 POS_CALC_REG_DS_FOFB_THRES POS_CALC_DS_FOFB_THRES_VAL (Some (0, 0x3ffffff)) None None junk"

definition s_dsp_set_get_ds_monit_thres :: "u32 \<Rightarrow> ('o, 'h, 'p) exp_func" where [dsp_defs]:
  "s_dsp_set_get_ds_monit_thres junk = SET_GET_PARAM 0 POS_CALC_REG_DS_MONIT_THRES POS_CALC_DS_MONIT_THRES_VAL (Some (0, 0x3ffffff)) None None junk"

definition s_dsp_set_get_pos_calc_cfg_test_data :: "u32 \<Rightarrow> ('o, 'h, 'p) exp_func" where [dsp_defs]:
  "s_dsp_set_get_pos_calc_cfg_test_data junk = SET_GET_PARAM 0 POS_CALC_REG_DDS_CFG (Single_Bit POS_CALC_DDS_CFG_TEST_DATA) (Some (0, 1)) None None junk"

definition s_dsp_set_get_monit_amp_ch0 :: "u32 \<Rightarrow> ('o, 'h, 'p) exp_func" where [dsp_defs]:
  "s_dsp_set_get_monit_amp_ch0 junk = SET_GET_PARAM 0 POS_CALC_REG_DSP_MONIT_AMP_CH0 whole_reg None None None junk"

definition s_dsp_set_get_monit_amp_ch1 :: "u32 \<Rightarrow> ('o, 'h, 'p) exp_func" where [dsp_defs]:
  "s_dsp_set_get_monit_amp_ch1 junk = SET_GET_PARAM 0 POS_CALC_REG_DSP_MONIT_AMP_CH1 whole_reg None None None junk"

definition s_dsp_set_get_monit_amp_ch2 :: "u32 \<Rightarrow> ('o, 'h, 'p) exp_func" where [dsp_defs]:
  "s_dsp_set_get_monit_amp_ch2 junk = SET_GET_PARAM 0 POS_CALC_REG_DSP_MONIT_AMP_CH2 whole_reg None None None junk"

definition s_dsp_set_get_monit_amp_ch3 :: "u32 \<Rightarrow> ('o, 'h, 'p) exp_func" where [dsp_defs]:
  "s_dsp_set_get_monit_amp_ch3 junk = SET_GET_PARAM 0 POS_CALC_REG_DSP_MONIT_AMP_CH3 whole_reg None None None junk"

definition s_dsp_set_get_monit_pos_x :: "u32 \<Rightarrow> ('o, 'h, 'p) exp_func" where [dsp_defs]:
  "s_dsp_set_get_monit_pos_x junk = SET_GET_PARAM 0 POS_CALC_REG_DSP_MONIT_POS_X whole_reg None None None junk"

definition s_dsp_set_get_monit_pos_y :: "u32 \<Rightarrow> ('o, 'h, 'p) exp_func" where [dsp_defs]:
  "s_dsp_set_get_monit_pos_y junk = SET_GET_PARAM 0 POS_CALC_REG_DSP_MONIT_POS_Y whole_reg None None None junk"

definition s_dsp_set_get_monit_pos_q :: "u32 \<Rightarrow> ('o, 'h, 'p) exp_func" where [dsp_defs]:
  "s_dsp_set_get_monit_pos_q junk = SET_GET_PARAM 0 POS_CALC_REG_DSP_MONIT_POS_Q whole_reg None None None junk"

definition s_dsp_set_get_monit_pos_sum :: "u32 \<Rightarrow> ('o, 'h, 'p) exp_func" where [dsp_defs]:
  "s_dsp_set_get_monit_pos_sum junk = SET_GET_PARAM 0 POS_CALC_REG_DSP_MONIT_POS_SUM whole_reg None None None junk"

definition s_dsp_set_get_monit_updt :: "u32 \<Rightarrow> ('o, 'h, 'p) exp_func" where [dsp_defs]:
  "s_dsp_set_get_monit_updt junk = SET_GET_PARAM 0 POS_CALC_REG_DSP_MONIT_UPDT whole_reg None None None junk"

definition s_dsp_set_get_monit1_amp_ch0 :: "u32 \<Rightarrow> ('o, 'h, 'p) exp_func" where [dsp_defs]:
  "s_dsp_set_get_monit1_amp_ch0 junk = SET_GET_PARAM 0 POS_CALC_REG_DSP_MONIT1_AMP_CH0 whole_reg None None None junk"

definition s_dsp_set_get_monit1_amp_ch1 :: "u32 \<Rightarrow> ('o, 'h, 'p) exp_func" where [dsp_defs]:
  "s_dsp_set_get_monit1_amp_ch1 junk = SET_GET_PARAM 0 POS_CALC_REG_DSP_MONIT1_AMP_CH1 whole_reg None None None junk"

definition s_dsp_set_get_monit1_amp_ch2 :: "u32 \<Rightarrow> ('o, 'h, 'p) exp_func" where [dsp_defs]:
  "s_dsp_set_get_monit1_amp_ch2 junk = SET_GET_PARAM 0 POS_CALC_REG_DSP_MONIT1_AMP_CH2 whole_reg None None None junk"

definition s_dsp_set_get_monit1_amp_ch3 :: "u32 \<Rightarrow> ('o, 'h, 'p) exp_func" where [dsp_defs]:
  "s_dsp_set_get_monit1_amp_ch3 junk = SET_GET_PARAM 0 POS_CALC_REG_DSP_MONIT1_AMP_CH3 whole_reg None None None junk"

definition s_dsp_set_get_monit1_pos_x :: "u32 \<Rightarrow> ('o, 'h, 'p) exp_func" where [dsp_defs]:
  "s_dsp_set_get_monit1_pos_x junk = SET_GET_PARAM 0 POS_CALC_REG_DSP_MONIT1_POS_X whole_reg None None None junk"

definition s_dsp_set_get_monit1_pos_y :: "u32 \<Rightarrow> ('o, 'h, 'p) exp_func" where [dsp_defs]:
  "s_dsp_set_get_monit1_pos_y junk = SET_GET_PARAM 0 POS_CALC_REG_DSP_MONIT1_POS_Y whole_reg None None None junk"

definition s_dsp_set_get_monit1_pos_q :: "u32 \<Rightarrow> ('o, 'h, 'p) exp_func" where [dsp_defs]:
  "s_dsp_set_get_monit1_pos_q junk = SET_GET_PARAM 0 POS_CALC_REG_DSP_MONIT1_POS_Q whole_reg None None None junk"

definition s_dsp_set_get_monit1_pos_sum :: "u32 \<Rightarrow> ('o, 'h, 'p) exp_func" where [dsp_defs]:
  "s_dsp_set_get_monit1_pos_sum junk = SET_GET_PARAM 0 POS_CALC_REG_DSP_MONIT1_POS_SUM whole_reg None None None junk"

definition s_dsp_set_get_monit1_updt :: "u32 \<Rightarrow> ('o, 'h, 'p) exp_func" where [dsp_defs]:
  "s_dsp_set_get_monit1_updt junk = SET_GET_PARAM 0 POS_CALC_REG_DSP_MONIT1_UPDT whole_reg None None None junk"

definition s_dsp_set_get_sw_tag_en :: "u32 \<Rightarrow> ('o, 'h, 'p) exp_func" where [dsp_defs]:
  "s_dsp_set_get_sw_tag_en junk = SET_GET_PARAM 0 POS_CALC_REG_SW_TAG (Single_Bit POS_CALC_SW_TAG_EN) (Some (0, 1)) None None junk"

definition s_dsp_set_get_sw_data_mask_en :: "u32 \<Rightarrow> ('o, 'h, 'p) exp_func" where [dsp_defs]:
  "s_dsp_set_get_sw_data_mask_en junk = SET_GET_PARAM 0 POS_CALC_REG_SW_DATA_MASK (Single_Bit POS_CALC_SW_DATA_MASK_EN) (Some (0, 1)) None None junk"

definition s_dsp_set_get_sw_data_mask_samples :: "u32 \<Rightarrow> ('o, 'h, 'p) exp_func" where [dsp_defs]:
  "s_dsp_set_get_sw_data_mask_samples junk = SET_GET_PARAM 0 POS_CALC_REG_SW_DATA_MASK POS_CALC_SW_DATA_MASK_SAMPLES (Some (0, 0xffff)) None None junk"

definition s_dsp_set_get_tbt_tag_en :: "u32 \<Rightarrow> ('o, 'h, 'p) exp_func" where [dsp_defs]:
  "s_dsp_set_get_tbt_tag_en junk = SET_GET_PARAM 0 POS_CALC_REG_TBT_TAG (Single_Bit POS_CALC_TBT_TAG_EN) (Some (0, 1)) None None junk"

definition s_dsp_set_get_tbt_tag_dly :: "u32 \<Rightarrow> ('o, 'h, 'p) exp_func" where [dsp_defs]:
  "s_dsp_set_get_tbt_tag_dly junk = SET_GET_PARAM 0 POS_CALC_REG_TBT_TAG POS_CALC_TBT_TAG_DLY (Some (0, 0x1ff)) None None junk"

definition s_dsp_set_get_tbt_data_mask_en :: "u32 \<Rightarrow> ('o, 'h, 'p) exp_func" where [dsp_defs]:
  "s_dsp_set_get_tbt_data_mask_en junk = SET_GET_PARAM 0 POS_CALC_REG_TBT_DATA_MASK_CTL (Single_Bit POS_CALC_TBT_DATA_MASK_CTL_EN) (Some (0, 1)) None None junk"

definition s_dsp_set_get_tbt_data_mask_samples_beg :: "u32 \<Rightarrow> ('o, 'h, 'p) exp_func" where [dsp_defs]:
  "s_dsp_set_get_tbt_data_mask_samples_beg junk = SET_GET_PARAM 0 POS_CALC_REG_TBT_DATA_MASK_SAMPLES POS_CALC_TBT_DATA_MASK_SAMPLES_BEG (Some (0, 0x3ff)) None None junk"

definition s_dsp_set_get_tbt_data_mask_samples_end :: "u32 \<Rightarrow> ('o, 'h, 'p) exp_func" where [dsp_defs]:
  "s_dsp_set_get_tbt_data_mask_samples_end junk = SET_GET_PARAM 0 POS_CALC_REG_TBT_DATA_MASK_SAMPLES POS_CALC_TBT_DATA_MASK_SAMPLES_END (Some (0, 0x3ff)) None None junk"

definition s_dsp_set_get_sw_tag_desync_cnt_rst :: "u32 \<Rightarrow> ('o, 'h, 'p) exp_func" where [dsp_defs]:
  "s_dsp_set_get_sw_tag_desync_cnt_rst junk = SET_GET_PARAM 0 POS_CALC_REG_SW_TAG (Single_Bit POS_CALC_SW_TAG_DESYNC_CNT_RST) (Some (0, 1)) None None junk"

definition s_dsp_set_get_sw_tag_desync_cnt :: "u32 \<Rightarrow> ('o, 'h, 'p) exp_func" where [dsp_defs]:
  "s_dsp_set_get_sw_tag_desync_cnt junk = SET_GET_PARAM 0 POS_CALC_REG_SW_TAG POS_CALC_SW_TAG_DESYNC_CNT (Some (0, 0x3fff)) None None junk"

definition s_dsp_set_get_tbt_tag_desync_cnt_rst :: "u32 \<Rightarrow> ('o, 'h, 'p) exp_func" where [dsp_defs]:
  "s_dsp_set_get_tbt_tag_desync_cnt_rst junk = SET_GET_PARAM 0 POS_CALC_REG_TBT_TAG (Single_Bit POS_CALC_TBT_TAG_DESYNC_CNT_RST) (Some (0, 1)) None None junk"

definition s_dsp_set_get_tbt_tag_desync_cnt :: "u32 \<Rightarrow> ('o, 'h, 'p) exp_func" where [dsp_defs]:
  "s_dsp_set_get_tbt_tag_desync_cnt junk = SET_GET_PARAM 0 POS_CALC_REG_TBT_TAG POS_CALC_TBT_TAG_DESYNC_CNT (Some (0, 0x3fff)) None None junk"

definition s_dsp_set_get_monit1_tag_en :: "u32 \<Rightarrow> ('o, 'h, 'p) exp_func" where [dsp_defs]:
  "s_dsp_set_get_monit1_tag_en junk = SET_GET_PARAM 0 POS_CALC_REG_MONIT1_TAG (Single_Bit POS_CALC_MONIT1_TAG_EN) (Some (0, 1)) None None junk"

definition s_dsp_set_get_monit1_tag_dly :: "u32 \<Rightarrow> ('o, 'h, 'p) exp_func" where [dsp_defs]:
  "s_dsp_set_get_monit1_tag_dly junk = SET_GET_PARAM 0 POS_CALC_REG_MONIT1_TAG POS_CALC_MONIT1_TAG_DLY (Some (0, 0x1ff)) None None junk"

definition s_dsp_set_get_monit1_data_mask_en :: "u32 \<Rightarrow> ('o, 'h, 'p) exp_func" where [dsp_defs]:
  "s_dsp_set_get_monit1_data_mask_en junk = SET_GET_PARAM 0 POS_CALC_REG_MONIT1_DATA_MASK_CTL (Single_Bit POS_CALC_MONIT1_DATA_MASK_CTL_EN) (Some (0, 1)) None None junk"

definition s_dsp_set_get_monit1_data_mask_samples_beg :: "u32 \<Rightarrow> ('o, 'h, 'p) exp_func" where [dsp_defs]:
  "s_dsp_set_get_monit1_data_mask_samples_beg junk = SET_GET_PARAM 0 POS_CALC_REG_MONIT1_DATA_MASK_SAMPLES POS_CALC_MONIT1_DATA_MASK_SAMPLES_BEG (Some (0, 0x3ff)) None None junk"

definition s_dsp_set_get_monit1_data_mask_samples_end :: "u32 \<Rightarrow> ('o, 'h, 'p) exp_func" where [dsp_defs]:
  "s_dsp_set_get_monit1_data_mask_samples_end junk = SET_GET_PARAM 0 POS_CALC_REG_MONIT1_DATA_MASK_SAMPLES POS_CALC_MONIT1_DATA_MASK_SAMPLES_END (Some (0, 0x3ff)) None None junk"

definition s_dsp_set_get_monit1_tag_desync_cnt_rst :: "u32 \<Rightarrow> ('o, 'h, 'p) exp_func" where [dsp_defs]:
  "s_dsp_set_get_monit1_tag_desync_cnt_rst junk = SET_GET_PARAM 0 POS_CALC_REG_MONIT1_TAG (Single_Bit POS_CALC_MONIT1_TAG_DESYNC_CNT_RST) (Some (0, 1)) None None junk"

definition s_dsp_set_get_monit1_tag_desync_cnt :: "u32 \<Rightarrow> ('o, 'h, 'p) exp_func" where [dsp_defs]:
  "s_dsp_set_get_monit1_tag_desync_cnt junk = SET_GET_PARAM 0 POS_CALC_REG_MONIT1_TAG POS_CALC_MONIT1_TAG_DESYNC_CNT (Some (0, 0x3fff)) None None junk"

definition s_dsp_set_get_monit_tag_en :: "u32 \<Rightarrow> ('o, 'h, 'p) exp_func" where [dsp_defs]:
  "s_dsp_set_get_monit_tag_en junk = SET_GET_PARAM 0 POS_CALC_REG_MONIT_TAG (Single_Bit POS_CALC_MONIT_TAG_EN) (Some (0, 1)) None None junk"

definition s_dsp_set_get_monit_tag_dly :: "u32 \<Rightarrow> ('o, 'h, 'p) exp_func" where [dsp_defs]:
  "s_dsp_set_get_monit_tag_dly junk = SET_GET_PARAM 0 POS_CALC_REG_MONIT_TAG POS_CALC_MONIT_TAG_DLY (Some (0, 0x1ff)) None None junk"

definition s_dsp_set_get_monit_data_mask_en :: "u32 \<Rightarrow> ('o, 'h, 'p) exp_func" where [dsp_defs]:
  "s_dsp_set_get_monit_data_mask_en junk = SET_GET_PARAM 0 POS_CALC_REG_MONIT_DATA_MASK_CTL (Single_Bit POS_CALC_MONIT_DATA_MASK_CTL_EN) (Some (0, 1)) None None junk"

definition s_dsp_set_get_monit_data_mask_samples_beg :: "u32 \<Rightarrow> ('o, 'h, 'p) exp_func" where [dsp_defs]:
  "s_dsp_set_get_monit_data_mask_samples_beg junk = SET_GET_PARAM 0 POS_CALC_REG_MONIT_DATA_MASK_SAMPLES POS_CALC_MONIT_DATA_MASK_SAMPLES_BEG (Some (0, 0x3ff)) None None junk"

definition s_dsp_set_get_monit_data_mask_samples_end :: "u32 \<Rightarrow> ('o, 'h, 'p) exp_func" where [dsp_defs]:
  "s_dsp_set_get_monit_data_mask_samples_end junk = SET_GET_PARAM 0 POS_CALC_REG_MONIT_DATA_MASK_SAMPLES POS_CALC_MONIT_DATA_MASK_SAMPLES_END (Some (0, 0x3ff)) None None junk"

definition s_dsp_set_get_monit_tag_desync_cnt_rst :: "u32 \<Rightarrow> ('o, 'h, 'p) exp_func" where [dsp_defs]:
  "s_dsp_set_get_monit_tag_desync_cnt_rst junk = SET_GET_PARAM 0 POS_CALC_REG_MONIT_TAG (Single_Bit POS_CALC_MONIT_TAG_DESYNC_CNT_RST) (Some (0, 1)) None None junk"

definition s_dsp_set_get_monit_tag_desync_cnt :: "u32 \<Rightarrow> ('o, 'h, 'p) exp_func" where [dsp_defs]:
  "s_dsp_set_get_monit_tag_desync_cnt junk = SET_GET_PARAM 0 POS_CALC_REG_MONIT_TAG POS_CALC_MONIT_TAG_DESYNC_CNT (Some (0, 0x3fff)) None None junk"

definition POS_CALC_REG_OFFSET_X :: u64 where [dsp_defs]: "POS_CALC_REG_OFFSET_X = 0x114"
definition s_dsp_offset_x :: "u32 \<Rightarrow> ('o, 'h, 'p) exp_func" where [dsp_defs]:
  "s_dsp_offset_x junk = set_get_unchecked POS_CALC_REG_OFFSET_X DSP_ERR junk"

definition POS_CALC_REG_OFFSET_Y :: u64 where [dsp_defs]: "POS_CALC_REG_OFFSET_Y = 0x118"
definition s_dsp_offset_y :: "u32 \<Rightarrow> ('o, 'h, 'p) exp_func" where [dsp_defs]:
  "s_dsp_offset_y junk = set_get_unchecked POS_CALC_REG_OFFSET_Y DSP_ERR junk"

definition dsp_params :: "param_spec list" where
  "dsp_params =
     [plain 12 (Bits 0 25) (Some (1, 0x1ffffff)), plain 16 (Bits 0 25) (Some (1, 0x1ffffff)),
      plain 20 (Bits 0 25) (Some (1, 0x1ffffff)), plain 0 (Bits 0 26) (Some (0, 0x3ffffff)),
      plain 4 (Bits 0 26) (Some (0, 0x3ffffff)), plain 8 (Bits 0 26) (Some (0, 0x3ffffff)),
      plain 44 (Bit 1) (Some (0, 1)), plain 80 Whole None, plain 84 Whole None, plain 88 Whole None,
      plain 92 Whole None, plain 96 Whole None, plain 100 Whole None, plain 104 Whole None,
      plain 108 Whole None, plain 112 Whole None, plain 116 Whole None, plain 120 Whole None,
      plain 124 Whole None, plain 128 Whole None, plain 132 Whole None, plain 136 Whole None,
      plain 140 Whole None, plain 144 Whole None, plain 148 Whole None, plain 232 (Bit 0) (Some (0, 1)),
      plain 236 (Bit 0) (Some (0, 1)), plain 236 (Bits 1 16) (Some (0, 0xffff)),
      plain 240 (Bit 0) (Some (0, 1)), plain 240 (Bits 1 16) (Some (0, 0x1ff)),
      plain 244 (Bit 0) (Some (0, 1)), plain 248 (Bits 0 16) (Some (0, 0x3ff)),
      plain 248 (Bits 16 16) (Some (0, 0x3ff)), plain 232 (Bit 8) (Some (0, 1)),
      plain 232 (Bits 9 14) (Some (0, 0x3fff)), plain 240 (Bit 17) (Some (0, 1)),
      plain 240 (Bits 18 14) (Some (0, 0x3fff)), plain 252 (Bit 0) (Some (0, 1)),
      plain 252 (Bits 1 16) (Some (0, 0x1ff)), plain 256 (Bit 0) (Some (0, 1)),
      plain 260 (Bits 0 16) (Some (0, 0x3ff)), plain 260 (Bits 16 16) (Some (0, 0x3ff)),
      plain 252 (Bit 17) (Some (0, 1)), plain 252 (Bits 18 14) (Some (0, 0x3fff)),
      plain 264 (Bit 0) (Some (0, 1)), plain 264 (Bits 1 16) (Some (0, 0x1ff)),
      plain 268 (Bit 0) (Some (0, 1)), plain 272 (Bits 0 16) (Some (0, 0x3ff)),
      plain 272 (Bits 16 16) (Some (0, 0x3ff)), plain 264 (Bit 17) (Some (0, 1)),
      plain 264 (Bits 18 14) (Some (0, 0x3fff)), plain 276 Whole None, plain 280 Whole None]"

definition dsp_param_ops :: "('w, msg_args) disp_op list" where
  "dsp_param_ops =
     [dsp_set_get_kx_exp, dsp_set_get_ky_exp, dsp_set_get_ksum_exp, dsp_set_get_ds_tbt_thres_exp,
      dsp_set_get_ds_fofb_thres_exp, dsp_set_get_ds_monit_thres_exp, dsp_set_get_cfg_test_data_exp,
      dsp_set_get_monit_amp_ch0_exp, dsp_set_get_monit_amp_ch1_exp, dsp_set_get_monit_amp_ch2_exp,
      dsp_set_get_monit_amp_ch3_exp, dsp_set_get_monit_pos_x_exp, dsp_set_get_monit_pos_y_exp,
      dsp_set_get_monit_pos_q_exp, dsp_set_get_monit_pos_sum_exp, dsp_set_get_monit_updt_exp,
      dsp_set_get_monit1_amp_ch0_exp, dsp_set_get_monit1_amp_ch1_exp, dsp_set_get_monit1_amp_ch2_exp,
      dsp_set_get_monit1_amp_ch3_exp, dsp_set_get_monit1_pos_x_exp, dsp_set_get_monit1_pos_y_exp,
      dsp_set_get_monit1_pos_q_exp, dsp_set_get_monit1_pos_sum_exp, dsp_set_get_monit1_updt_exp,
      dsp_set_get_sw_tag_en_exp, dsp_set_get_sw_data_mask_en_exp, dsp_set_get_sw_data_mask_samples_exp,
      dsp_set_get_tbt_tag_en_exp, dsp_set_get_tbt_tag_dly_exp, dsp_set_get_tbt_data_mask_en_exp,
      dsp_set_get_tbt_data_mask_samples_beg_exp, dsp_set_get_tbt_data_mask_samples_end_exp,
      dsp_set_get_sw_tag_desync_cnt_rst_exp, dsp_set_get_sw_tag_desync_cnt_exp,
      dsp_set_get_tbt_tag_desync_cnt_rst_exp, dsp_set_get_tbt_tag_desync_cnt_exp,
      dsp_set_get_monit1_tag_en_exp, dsp_set_get_monit1_tag_dly_exp, dsp_set_get_monit1_data_mask_en_exp,
      dsp_set_get_monit1_data_mask_samples_beg_exp, dsp_set_get_monit1_data_mask_samples_end_exp,
      dsp_set_get_monit1_tag_desync_cnt_rst_exp, dsp_set_get_monit1_tag_desync_cnt_exp,
      dsp_set_get_monit_tag_en_exp, dsp_set_get_monit_tag_dly_exp, dsp_set_get_monit_data_mask_en_exp,
      dsp_set_get_monit_data_mask_samples_beg_exp, dsp_set_get_monit_data_mask_samples_end_exp,
      dsp_set_get_monit_tag_desync_cnt_rst_exp, dsp_set_get_monit_tag_desync_cnt_exp, dsp_set_get_offset_x_exp,
      dsp_set_get_offset_y_exp]"

definition dsp_param_fp :: "u32 \<Rightarrow> ('o, 'h, 'p) exp_func list" where
  "dsp_param_fp junk =
     [s_dsp_set_get_kx junk, s_dsp_set_get_ky junk, s_dsp_set_get_ksum junk, s_dsp_set_get_ds_tbt_thres junk,
      s_dsp_set_get_ds_fofb_thres junk, s_dsp_set_get_ds_monit_thres junk,
      s_dsp_set_get_pos_calc_cfg_test_data junk, s_dsp_set_get_monit_amp_ch0 junk,
      s_dsp_set_get_monit_amp_ch1 junk, s_dsp_set_get_monit_amp_ch2 junk, s_dsp_set_get_monit_amp_ch3 junk,
      s_dsp_set_get_monit_pos_x junk, s_dsp_set_get_monit_pos_y junk, s_dsp_set_get_monit_pos_q junk,
      s_dsp_set_get_monit_pos_sum junk, s_dsp_set_get_monit_updt junk, s_dsp_set_get_monit1_amp_ch0 junk,
      s_dsp_set_get_monit1_amp_ch1 junk, s_dsp_set_get_monit1_amp_ch2 junk, s_dsp_set_get_monit1_amp_ch3 junk,
      s_dsp_set_get_monit1_pos_x junk, s_dsp_set_get_monit1_pos_y junk, s_dsp_set_get_monit1_pos_q junk,
      s_dsp_set_get_monit1_pos_sum junk, s_dsp_set_get_monit1_updt junk, s_dsp_set_get_sw_tag_en junk,
      s_dsp_set_get_sw_data_mask_en junk, s_dsp_set_get_sw_data_mask_samples junk,
      s_dsp_set_get_tbt_tag_en junk, s_dsp_set_get_tbt_tag_dly junk, s_dsp_set_get_tbt_data_mask_en junk,
      s_dsp_set_get_tbt_data_mask_samples_beg junk, s_dsp_set_get_tbt_data_mask_samples_end junk,
      s_dsp_set_get_sw_tag_desync_cnt_rst junk, s_dsp_set_get_sw_tag_desync_cnt junk,
      s_dsp_set_get_tbt_tag_desync_cnt_rst junk, s_dsp_set_get_tbt_tag_desync_cnt junk,
      s_dsp_set_get_monit1_tag_en junk, s_dsp_set_get_monit1_tag_dly junk,
      s_dsp_set_get_monit1_data_mask_en junk, s_dsp_set_get_monit1_data_mask_samples_beg junk,
      s_dsp_set_get_monit1_data_mask_samples_end junk, s_dsp_set_get_monit1_tag_desync_cnt_rst junk,
      s_dsp_set_get_monit1_tag_desync_cnt junk, s_dsp_set_get_monit_tag_en junk,
      s_dsp_set_get_monit_tag_dly junk, s_dsp_set_get_monit_data_mask_en junk,
      s_dsp_set_get_monit_data_mask_samples_beg junk, s_dsp_set_get_monit_data_mask_samples_end junk,
      s_dsp_set_get_monit_tag_desync_cnt_rst junk, s_dsp_set_get_monit_tag_desync_cnt junk,
      s_dsp_offset_x junk, s_dsp_offset_y junk]"

definition dsp_kinds :: "(param_spec \<times> bool) list" where
  "dsp_kinds = zip dsp_params [False, False, False, False, False, False, False, False, False, False, False, False, False, False, False,
      False, False, False, False, False, False, False, False, False, False, False, False, False, False, False,
      False, False, False, False, False, False, False, False, False, False, False, False, False, False, False,
      False, False, False, False, False, False, True, True]"

lemma dsp_fp: "dsp_param_fp junk = mixed_fp DSP_ERR junk dsp_kinds"
  by (simp add: dsp_param_fp_def dsp_kinds_def dsp_params_def dsp_defs mixed_fp_def param_func_simps WBGEN2_GEN_MASK_def)

lemma dsp_kinds_ok: "map fst dsp_kinds = dsp_params"
  "list_all (\<lambda>(d, unchecked). unchecked \<longrightarrow> d = plain (ps_reg d) Whole None) dsp_kinds"
  by (simp_all add: dsp_kinds_def dsp_params_def)

lemma dsp_spec: "list_all spec_ok dsp_params"
  by (simp add: dsp_params_def spec_ok_def)

lemma dsp_apart: "specs_apart dsp_params"
  by (simp add: dsp_params_def spec_apart_def last_reg_def)

lemma dsp_args: "list_all2 param_op dsp_params dsp_param_ops"
  by (simp add: dsp_params_def dsp_param_ops_def dsp_exp_defs exp_simps param_op_def u32_args)

lemma dsp_module: "param_module dsp_params dsp_param_ops"
  using dsp_spec dsp_apart dsp_args by (simp add: param_module_def)

lemma dsp_low: "low_regs dsp_params"
  by (simp add: low_regs_def last_reg_def dsp_params_def)

section \<open>fmc130m_4ch\<close>

named_theorems fmc130m_4ch_defs

definition WB_FMC_130M_4CH_CSR_REG_ADC :: u64 where [fmc130m_4ch_defs]: "WB_FMC_130M_4CH_CSR_REG_ADC = 0x0"
definition WB_FMC_130M_4CH_CSR_ADC_RAND :: u32 where [fmc130m_4ch_defs]: "WB_FMC_130M_4CH_CSR_ADC_RAND = WBGEN2_GEN_MASK 0 1"
definition WB_FMC_130M_4CH_CSR_ADC_DITH :: u32 where [fmc130m_4ch_defs]: "WB_FMC_130M_4CH_CSR_ADC_DITH = WBGEN2_GEN_MASK 1 1"
definition WB_FMC_130M_4CH_CSR_ADC_SHDN :: u32 where [fmc130m_4ch_defs]: "WB_FMC_130M_4CH_CSR_ADC_SHDN = WBGEN2_GEN_MASK 2 1"
definition WB_FMC_130M_4CH_CSR_ADC_PGA :: u32 where [fmc130m_4ch_defs]: "WB_FMC_130M_4CH_CSR_ADC_PGA = WBGEN2_GEN_MASK 3 1"
definition WB_FMC_130M_4CH_CSR_REG_DATA0 :: u64 where [fmc130m_4ch_defs]: "WB_FMC_130M_4CH_CSR_REG_DATA0 = 0x18"
definition WB_FMC_130M_4CH_CSR_REG_DATA1 :: u64 where [fmc130m_4ch_defs]: "WB_FMC_130M_4CH_CSR_REG_DATA1 = 0x1c"
definition WB_FMC_130M_4CH_CSR_REG_DATA2 :: u64 where [fmc130m_4ch_defs]: "WB_FMC_130M_4CH_CSR_REG_DATA2 = 0x20"
definition WB_FMC_130M_4CH_CSR_REG_DATA3 :: u64 where [fmc130m_4ch_defs]: "WB_FMC_130M_4CH_CSR_REG_DATA3 = 0x24"
definition WB_FMC_130M_4CH_CSR_REG_IDELAY0_CAL :: u64 where [fmc130m_4ch_defs]: "WB_FMC_130M_4CH_CSR_REG_IDELAY0_CAL = 0x8"
definition WB_FMC_130M_4CH_CSR_IDELAY0_CAL_VAL :: param_field where [fmc130m_4ch_defs]: "WB_FMC_130M_4CH_CSR_IDELAY0_CAL_VAL = gen_field 18 5"
definition WB_FMC_130M_4CH_CSR_REG_IDELAY1_CAL :: u64 where [fmc130m_4ch_defs]: "WB_FMC_130M_4CH_CSR_REG_IDELAY1_CAL = 0xc"
definition WB_FMC_130M_4CH_CSR_IDELAY1_CAL_VAL :: param_field where [fmc130m_4ch_defs]: "WB_FMC_130M_4CH_CSR_IDELAY1_CAL_VAL = gen_field 18 5"
definition WB_FMC_130M_4CH_CSR_REG_IDELAY2_CAL :: u64 where [fmc130m_4ch_defs]: "WB_FMC_130M_4CH_CSR_REG_IDELAY2_CAL = 0x10"
definition WB_FMC_130M_4CH_CSR_IDELAY2_CAL_VAL :: param_field where [fmc130m_4ch_defs]: "WB_FMC_130M_4CH_CSR_IDELAY2_CAL_VAL = gen_field 18 5"
definition WB_FMC_130M_4CH_CSR_REG_IDELAY3_CAL :: u64 where [fmc130m_4ch_defs]: "WB_FMC_130M_4CH_CSR_REG_IDELAY3_CAL = 0x14"
definition WB_FMC_130M_4CH_CSR_IDELAY3_CAL_VAL :: param_field where [fmc130m_4ch_defs]: "WB_FMC_130M_4CH_CSR_IDELAY3_CAL_VAL = gen_field 18 5"
definition WB_FMC_130M_4CH_CSR_IDELAY0_CAL_LINE :: param_field where [fmc130m_4ch_defs]: "WB_FMC_130M_4CH_CSR_IDELAY0_CAL_LINE = gen_field 1 17"
definition WB_FMC_130M_4CH_CSR_IDELAY1_CAL_LINE :: param_field where [fmc130m_4ch_defs]: "WB_FMC_130M_4CH_CSR_IDELAY1_CAL_LINE = gen_field 1 17"
definition WB_FMC_130M_4CH_CSR_IDELAY2_CAL_LINE :: param_field where [fmc130m_4ch_defs]: "WB_FMC_130M_4CH_CSR_IDELAY2_CAL_LINE = gen_field 1 17"
definition WB_FMC_130M_4CH_CSR_IDELAY3_CAL_LINE :: param_field where [fmc130m_4ch_defs]: "WB_FMC_130M_4CH_CSR_IDELAY3_CAL_LINE = gen_field 1 17"
definition WB_FMC_130M_4CH_CSR_IDELAY0_CAL_UPDATE :: u32 where [fmc130m_4ch_defs]: "WB_FMC_130M_4CH_CSR_IDELAY0_CAL_UPDATE = WBGEN2_GEN_MASK 0 1"
definition WB_FMC_130M_4CH_CSR_IDELAY1_CAL_UPDATE :: u32 where [fmc130m_4ch_defs]: "WB_FMC_130M_4CH_CSR_IDELAY1_CAL_UPDATE = WBGEN2_GEN_MASK 0 1"
definition WB_FMC_130M_4CH_CSR_IDELAY2_CAL_UPDATE :: u32 where [fmc130m_4ch_defs]: "WB_FMC_130M_4CH_CSR_IDELAY2_CAL_UPDATE = WBGEN2_GEN_MASK 0 1"
definition WB_FMC_130M_4CH_CSR_IDELAY3_CAL_UPDATE :: u32 where [fmc130m_4ch_defs]: "WB_FMC_130M_4CH_CSR_IDELAY3_CAL_UPDATE = WBGEN2_GEN_MASK 0 1"

text \<open>The upper half of the register reads as zero; the sign is extended into it.\<close>

definition s_rw_halcs_fmc130m_4ch_data_fmt :: "u32 \<Rightarrow> u32" where
  "s_rw_halcs_fmc130m_4ch_data_fmt v = WBGEN2_SIGN_EXTEND v 15"

definition s_fmc130m_4ch_set_get_adc_rand :: "u32 \<Rightarrow> ('o, 'h, 'p) exp_func" where [fmc130m_4ch_defs]:
  "s_fmc130m_4ch_set_get_adc_rand junk = SET_GET_PARAM 0 WB_FMC_130M_4CH_CSR_REG_ADC (Single_Bit WB_FMC_130M_4CH_CSR_ADC_RAND) (Some (0, 1)) None None junk"

definition s_fmc130m_4ch_set_get_adc_dith :: "u32 \<Rightarrow> ('o, 'h, 'p) exp_func" where [fmc130m_4ch_defs]:
  "s_fmc130m_4ch_set_get_adc_dith junk = SET_GET_PARAM 0 WB_FMC_130M_4CH_CSR_REG_ADC (Single_Bit WB_FMC_130M_4CH_CSR_ADC_DITH) (Some (0, 1)) None None junk"

definition s_fmc130m_4ch_set_get_adc_shdn :: "u32 \<Rightarrow> ('o, 'h, 'p) exp_func" where [fmc130m_4ch_defs]:
  "s_fmc130m_4ch_set_get_adc_shdn junk = SET_GET_PARAM 0 WB_FMC_130M_4CH_CSR_REG_ADC (Single_Bit WB_FMC_130M_4CH_CSR_ADC_SHDN) (Some (0, 1)) None None junk"

definition s_fmc130m_4ch_set_get_adc_pga :: "u32 \<Rightarrow> ('o, 'h, 'p) exp_func" where [fmc130m_4ch_defs]:
  "s_fmc130m_4ch_set_get_adc_pga junk = SET_GET_PARAM 0 WB_FMC_130M_4CH_CSR_REG_ADC (Single_Bit WB_FMC_130M_4CH_CSR_ADC_PGA) (Some (0, 1)) None None junk"

definition s_fmc130m_4ch_set_get_adc_data0 :: "u32 \<Rightarrow> ('o, 'h, 'p) exp_func" where [fmc130m_4ch_defs]:
  "s_fmc130m_4ch_set_get_adc_data0 junk = SET_GET_PARAM 0 WB_FMC_130M_4CH_CSR_REG_DATA0 whole_reg None None (Some s_rw_halcs_fmc130m_4ch_data_fmt) junk"

definition s_fmc130m_4ch_set_get_adc_data1 :: "u32 \<Rightarrow> ('o, 'h, 'p) exp_func" where [fmc130m_4ch_defs]:
  "s_fmc130m_4ch_set_get_adc_data1 junk = SET_GET_PARAM 0 WB_FMC_130M_4CH_CSR_REG_DATA1 whole_reg None None (Some s_rw_halcs_fmc130m_4ch_data_fmt) junk"

definition s_fmc130m_4ch_set_get_adc_data2 :: "u32 \<Rightarrow> ('o, 'h, 'p) exp_func" where [fmc130m_4ch_defs]:
  "s_fmc130m_4ch_set_get_adc_data2 junk = SET_GET_PARAM 0 WB_FMC_130M_4CH_CSR_REG_DATA2 whole_reg None None (Some s_rw_halcs_fmc130m_4ch_data_fmt) junk"

definition s_fmc130m_4ch_set_get_adc_data3 :: "u32 \<Rightarrow> ('o, 'h, 'p) exp_func" where [fmc130m_4ch_defs]:
  "s_fmc130m_4ch_set_get_adc_data3 junk = SET_GET_PARAM 0 WB_FMC_130M_4CH_CSR_REG_DATA3 whole_reg None None (Some s_rw_halcs_fmc130m_4ch_data_fmt) junk"

definition s_fmc130m_4ch_set_get_adc_dly_val0 :: "u32 \<Rightarrow> ('o, 'h, 'p) exp_func" where [fmc130m_4ch_defs]:
  "s_fmc130m_4ch_set_get_adc_dly_val0 junk = SET_GET_PARAM 0 WB_FMC_130M_4CH_CSR_REG_IDELAY0_CAL WB_FMC_130M_4CH_CSR_IDELAY0_CAL_VAL None None None junk"

definition s_fmc130m_4ch_set_get_adc_dly_val1 :: "u32 \<Rightarrow> ('o, 'h, 'p) exp_func" where [fmc130m_4ch_defs]:
  "s_fmc130m_4ch_set_get_adc_dly_val1 junk = SET_GET_PARAM 0 WB_FMC_130M_4CH_CSR_REG_IDELAY1_CAL WB_FMC_130M_4CH_CSR_IDELAY1_CAL_VAL None None None junk"

definition s_fmc130m_4ch_set_get_adc_dly_val2 :: "u32 \<Rightarrow> ('o, 'h, 'p) exp_func" where [fmc130m_4ch_defs]:
  "s_fmc130m_4ch_set_get_adc_dly_val2 junk = SET_GET_PARAM 0 WB_FMC_130M_4CH_CSR_REG_IDELAY2_CAL WB_FMC_130M_4CH_CSR_IDELAY2_CAL_VAL None None None junk"

definition s_fmc130m_4ch_set_get_adc_dly_val3 :: "u32 \<Rightarrow> ('o, 'h, 'p) exp_func" where [fmc130m_4ch_defs]:
  "s_fmc130m_4ch_set_get_adc_dly_val3 junk = SET_GET_PARAM 0 WB_FMC_130M_4CH_CSR_REG_IDELAY3_CAL WB_FMC_130M_4CH_CSR_IDELAY3_CAL_VAL None None None junk"

definition s_fmc130m_4ch_set_get_adc_dly_line0 :: "u32 \<Rightarrow> ('o, 'h, 'p) exp_func" where [fmc130m_4ch_defs]:
  "s_fmc130m_4ch_set_get_adc_dly_line0 junk = SET_GET_PARAM 0 WB_FMC_130M_4CH_CSR_REG_IDELAY0_CAL WB_FMC_130M_4CH_CSR_IDELAY0_CAL_LINE None None None junk"

definition s_fmc130m_4ch_set_get_adc_dly_line1 :: "u32 \<Rightarrow> ('o, 'h, 'p) exp_func" where [fmc130m_4ch_defs]:
  "s_fmc130m_4ch_set_get_adc_dly_line1 junk = SET_GET_PARAM 0 WB_FMC_130M_4CH_CSR_REG_IDELAY1_CAL WB_FMC_130M_4CH_CSR_IDELAY1_CAL_LINE None None None junk"

definition s_fmc130m_4ch_set_get_adc_dly_line2 :: "u32 \<Rightarrow> ('o, 'h, 'p) exp_func" where [fmc130m_4ch_defs]:
  "s_fmc130m_4ch_set_get_adc_dly_line2 junk = SET_GET_PARAM 0 WB_FMC_130M_4CH_CSR_REG_IDELAY2_CAL WB_FMC_130M_4CH_CSR_IDELAY2_CAL_LINE None None None junk"

definition s_fmc130m_4ch_set_get_adc_dly_line3 :: "u32 \<Rightarrow> ('o, 'h, 'p) exp_func" where [fmc130m_4ch_defs]:
  "s_fmc130m_4ch_set_get_adc_dly_line3 junk = SET_GET_PARAM 0 WB_FMC_130M_4CH_CSR_REG_IDELAY3_CAL WB_FMC_130M_4CH_CSR_IDELAY3_CAL_LINE None None None junk"

definition s_fmc130m_4ch_set_get_adc_dly_updt0 :: "u32 \<Rightarrow> ('o, 'h, 'p) exp_func" where [fmc130m_4ch_defs]:
  "s_fmc130m_4ch_set_get_adc_dly_updt0 junk = SET_GET_PARAM 0 WB_FMC_130M_4CH_CSR_REG_IDELAY0_CAL (Single_Bit WB_FMC_130M_4CH_CSR_IDELAY0_CAL_UPDATE) None None None junk"

definition s_fmc130m_4ch_set_get_adc_dly_updt1 :: "u32 \<Rightarrow> ('o, 'h, 'p) exp_func" where [fmc130m_4ch_defs]:
  "s_fmc130m_4ch_set_get_adc_dly_updt1 junk = SET_GET_PARAM 0 WB_FMC_130M_4CH_CSR_REG_IDELAY1_CAL (Single_Bit WB_FMC_130M_4CH_CSR_IDELAY1_CAL_UPDATE) None None None junk"

definition s_fmc130m_4ch_set_get_adc_dly_updt2 :: "u32 \<Rightarrow> ('o, 'h, 'p) exp_func" where [fmc130m_4ch_defs]:
  "s_fmc130m_4ch_set_get_adc_dly_updt2 junk = SET_GET_PARAM 0 WB_FMC_130M_4CH_CSR_REG_IDELAY2_CAL (Single_Bit WB_FMC_130M_4CH_CSR_IDELAY2_CAL_UPDATE) None None None junk"

definition s_fmc130m_4ch_set_get_adc_dly_updt3 :: "u32 \<Rightarrow> ('o, 'h, 'p) exp_func" where [fmc130m_4ch_defs]:
  "s_fmc130m_4ch_set_get_adc_dly_updt3 junk = SET_GET_PARAM 0 WB_FMC_130M_4CH_CSR_REG_IDELAY3_CAL (Single_Bit WB_FMC_130M_4CH_CSR_IDELAY3_CAL_UPDATE) None None None junk"

definition fmc130m_4ch_params :: "param_spec list" where
  "fmc130m_4ch_params =
     [plain 0 (Bit 0) (Some (0, 1)), plain 0 (Bit 1) (Some (0, 1)), plain 0 (Bit 2) (Some (0, 1)),
      plain 0 (Bit 3) (Some (0, 1)), plain 8 (Bits 18 5) None, plain 12 (Bits 18 5) None,
      plain 16 (Bits 18 5) None, plain 20 (Bits 18 5) None, plain 8 (Bits 1 17) None,
      plain 12 (Bits 1 17) None, plain 16 (Bits 1 17) None, plain 20 (Bits 1 17) None, plain 8 (Bit 0) None,
      plain 12 (Bit 0) None, plain 16 (Bit 0) None, plain 20 (Bit 0) None]"

definition fmc130m_4ch_param_ops :: "('w, msg_args) disp_op list" where
  "fmc130m_4ch_param_ops =
     [fmc130m_4ch_adc_rand_exp, fmc130m_4ch_adc_dith_exp, fmc130m_4ch_adc_shdn_exp, fmc130m_4ch_adc_pga_exp,
      fmc130m_4ch_adc_dly_val0_exp, fmc130m_4ch_adc_dly_val1_exp, fmc130m_4ch_adc_dly_val2_exp,
      fmc130m_4ch_adc_dly_val3_exp, fmc130m_4ch_adc_dly_line0_exp, fmc130m_4ch_adc_dly_line1_exp,
      fmc130m_4ch_adc_dly_line2_exp, fmc130m_4ch_adc_dly_line3_exp, fmc130m_4ch_adc_dly_updt0_exp,
      fmc130m_4ch_adc_dly_updt1_exp, fmc130m_4ch_adc_dly_updt2_exp, fmc130m_4ch_adc_dly_updt3_exp]"

definition fmc130m_4ch_param_fp :: "u32 \<Rightarrow> ('o, 'h, 'p) exp_func list" where
  "fmc130m_4ch_param_fp junk =
     [s_fmc130m_4ch_set_get_adc_rand junk, s_fmc130m_4ch_set_get_adc_dith junk,
      s_fmc130m_4ch_set_get_adc_shdn junk, s_fmc130m_4ch_set_get_adc_pga junk,
      s_fmc130m_4ch_set_get_adc_dly_val0 junk, s_fmc130m_4ch_set_get_adc_dly_val1 junk,
      s_fmc130m_4ch_set_get_adc_dly_val2 junk, s_fmc130m_4ch_set_get_adc_dly_val3 junk,
      s_fmc130m_4ch_set_get_adc_dly_line0 junk, s_fmc130m_4ch_set_get_adc_dly_line1 junk,
      s_fmc130m_4ch_set_get_adc_dly_line2 junk, s_fmc130m_4ch_set_get_adc_dly_line3 junk,
      s_fmc130m_4ch_set_get_adc_dly_updt0 junk, s_fmc130m_4ch_set_get_adc_dly_updt1 junk,
      s_fmc130m_4ch_set_get_adc_dly_updt2 junk, s_fmc130m_4ch_set_get_adc_dly_updt3 junk]"

definition fmc130m_4ch_kinds :: "(param_spec \<times> bool) list" where
  "fmc130m_4ch_kinds = zip fmc130m_4ch_params [False, False, False, False, False, False, False, False, False, False, False, False, False, False, False,
      False]"

lemma fmc130m_4ch_fp: "fmc130m_4ch_param_fp junk = mixed_fp DSP_ERR junk fmc130m_4ch_kinds"
  by (simp add: fmc130m_4ch_param_fp_def fmc130m_4ch_kinds_def fmc130m_4ch_params_def fmc130m_4ch_defs mixed_fp_def param_func_simps WBGEN2_GEN_MASK_def)

lemma fmc130m_4ch_kinds_ok: "map fst fmc130m_4ch_kinds = fmc130m_4ch_params"
  "list_all (\<lambda>(d, unchecked). unchecked \<longrightarrow> d = plain (ps_reg d) Whole None) fmc130m_4ch_kinds"
  by (simp_all add: fmc130m_4ch_kinds_def fmc130m_4ch_params_def)

lemma fmc130m_4ch_spec: "list_all spec_ok fmc130m_4ch_params"
  by (simp add: fmc130m_4ch_params_def spec_ok_def)

lemma fmc130m_4ch_apart: "specs_apart fmc130m_4ch_params"
  by (simp add: fmc130m_4ch_params_def spec_apart_def last_reg_def)

lemma fmc130m_4ch_args: "list_all2 param_op fmc130m_4ch_params fmc130m_4ch_param_ops"
  by (simp add: fmc130m_4ch_params_def fmc130m_4ch_param_ops_def fmc130m_4ch_exp_defs exp_simps param_op_def u32_args)

lemma fmc130m_4ch_module: "param_module fmc130m_4ch_params fmc130m_4ch_param_ops"
  using fmc130m_4ch_spec fmc130m_4ch_apart fmc130m_4ch_args by (simp add: param_module_def)

lemma fmc130m_4ch_low: "low_regs fmc130m_4ch_params"
  by (simp add: low_regs_def last_reg_def fmc130m_4ch_params_def)

section \<open>fmc250m_4ch\<close>

named_theorems fmc250m_4ch_defs

definition WB_FMC_250M_4CH_CSR_REG_CH0_STA :: u64 where [fmc250m_4ch_defs]: "WB_FMC_250M_4CH_CSR_REG_CH0_STA = 0x8"
definition WB_FMC_250M_4CH_CSR_CH0_STA_VAL :: param_field where [fmc250m_4ch_defs]: "WB_FMC_250M_4CH_CSR_CH0_STA_VAL = gen_field 0 16"
definition WB_FMC_250M_4CH_CSR_REG_CH1_STA :: u64 where [fmc250m_4ch_defs]: "WB_FMC_250M_4CH_CSR_REG_CH1_STA = 0x18"
definition WB_FMC_250M_4CH_CSR_CH1_STA_VAL :: param_field where [fmc250m_4ch_defs]: "WB_FMC_250M_4CH_CSR_CH1_STA_VAL = gen_field 0 16"
definition WB_FMC_250M_4CH_CSR_REG_CH2_STA :: u64 where [fmc250m_4ch_defs]: "WB_FMC_250M_4CH_CSR_REG_CH2_STA = 0x28"
definition WB_FMC_250M_4CH_CSR_CH2_STA_VAL :: param_field where [fmc250m_4ch_defs]: "WB_FMC_250M_4CH_CSR_CH2_STA_VAL = gen_field 0 16"
definition WB_FMC_250M_4CH_CSR_REG_CH3_STA :: u64 where [fmc250m_4ch_defs]: "WB_FMC_250M_4CH_CSR_REG_CH3_STA = 0x38"
definition WB_FMC_250M_4CH_CSR_CH3_STA_VAL :: param_field where [fmc250m_4ch_defs]: "WB_FMC_250M_4CH_CSR_CH3_STA_VAL = gen_field 0 16"
definition WB_FMC_250M_4CH_CSR_REG_CH0_FN_DLY :: u64 where [fmc250m_4ch_defs]: "WB_FMC_250M_4CH_CSR_REG_CH0_FN_DLY = 0xc"
definition WB_FMC_250M_4CH_CSR_CH0_FN_DLY_DATA_CHAIN_DLY :: param_field where [fmc250m_4ch_defs]: "WB_FMC_250M_4CH_CSR_CH0_FN_DLY_DATA_CHAIN_DLY = gen_field 8 5"
definition WB_FMC_250M_4CH_CSR_REG_CH1_FN_DLY :: u64 where [fmc250m_4ch_defs]: "WB_FMC_250M_4CH_CSR_REG_CH1_FN_DLY = 0x1c"
definition WB_FMC_250M_4CH_CSR_CH1_FN_DLY_DATA_CHAIN_DLY :: param_field where [fmc250m_4ch_defs]: "WB_FMC_250M_4CH_CSR_CH1_FN_DLY_DATA_CHAIN_DLY = gen_field 8 5"
definition WB_FMC_250M_4CH_CSR_REG_CH2_FN_DLY :: u64 where [fmc250m_4ch_defs]: "WB_FMC_250M_4CH_CSR_REG_CH2_FN_DLY = 0x2c"
definition WB_FMC_250M_4CH_CSR_CH2_FN_DLY_DATA_CHAIN_DLY :: param_field where [fmc250m_4ch_defs]: "WB_FMC_250M_4CH_CSR_CH2_FN_DLY_DATA_CHAIN_DLY = gen_field 8 5"
definition WB_FMC_250M_4CH_CSR_REG_CH3_FN_DLY :: u64 where [fmc250m_4ch_defs]: "WB_FMC_250M_4CH_CSR_REG_CH3_FN_DLY = 0x3c"
definition WB_FMC_250M_4CH_CSR_CH3_FN_DLY_DATA_CHAIN_DLY :: param_field where [fmc250m_4ch_defs]: "WB_FMC_250M_4CH_CSR_CH3_FN_DLY_DATA_CHAIN_DLY = gen_field 8 5"
definition WB_FMC_250M_4CH_CSR_CH0_FN_DLY_CLK_CHAIN_DLY :: param_field where [fmc250m_4ch_defs]: "WB_FMC_250M_4CH_CSR_CH0_FN_DLY_CLK_CHAIN_DLY = gen_field 0 5"
definition WB_FMC_250M_4CH_CSR_CH1_FN_DLY_CLK_CHAIN_DLY :: param_field where [fmc250m_4ch_defs]: "WB_FMC_250M_4CH_CSR_CH1_FN_DLY_CLK_CHAIN_DLY = gen_field 0 5"
definition WB_FMC_250M_4CH_CSR_CH2_FN_DLY_CLK_CHAIN_DLY :: param_field where [fmc250m_4ch_defs]: "WB_FMC_250M_4CH_CSR_CH2_FN_DLY_CLK_CHAIN_DLY = gen_field 0 5"
definition WB_FMC_250M_4CH_CSR_CH3_FN_DLY_CLK_CHAIN_DLY :: param_field where [fmc250m_4ch_defs]: "WB_FMC_250M_4CH_CSR_CH3_FN_DLY_CLK_CHAIN_DLY = gen_field 0 5"
definition WB_FMC_250M_4CH_CSR_REG_CH0_FN_SEL :: u64 where [fmc250m_4ch_defs]: "WB_FMC_250M_4CH_CSR_REG_CH0_FN_SEL = 0x10"
definition WB_FMC_250M_4CH_CSR_CH0_FN_SEL_LINE :: param_field where [fmc250m_4ch_defs]: "WB_FMC_250M_4CH_CSR_CH0_FN_SEL_LINE = gen_field 0 17"
definition WB_FMC_250M_4CH_CSR_REG_CH1_FN_SEL :: u64 where [fmc250m_4ch_defs]: "WB_FMC_250M_4CH_CSR_REG_CH1_FN_SEL = 0x20"
definition WB_FMC_250M_4CH_CSR_CH1_FN_SEL_LINE :: param_field where [fmc250m_4ch_defs]: "WB_FMC_250M_4CH_CSR_CH1_FN_SEL_LINE = gen_field 0 17"
definition WB_FMC_250M_4CH_CSR_REG_CH2_FN_SEL :: u64 where [fmc250m_4ch_defs]: "WB_FMC_250M_4CH_CSR_REG_CH2_FN_SEL = 0x30"
definition WB_FMC_250M_4CH_CSR_CH2_FN_SEL_LINE :: param_field where [fmc250m_4ch_defs]: "WB_FMC_250M_4CH_CSR_CH2_FN_SEL_LINE = gen_field 0 17"
definition WB_FMC_250M_4CH_CSR_REG_CH3_FN_SEL :: u64 where [fmc250m_4ch_defs]: "WB_FMC_250M_4CH_CSR_REG_CH3_FN_SEL = 0x40"
definition WB_FMC_250M_4CH_CSR_CH3_FN_SEL_LINE :: param_field where [fmc250m_4ch_defs]: "WB_FMC_250M_4CH_CSR_CH3_FN_SEL_LINE = gen_field 0 17"
definition WB_FMC_250M_4CH_CSR_REG_ADC_CTL :: u64 where [fmc250m_4ch_defs]: "WB_FMC_250M_4CH_CSR_REG_ADC_CTL = 0x4"
definition WB_FMC_250M_4CH_CSR_ADC_CTL_UPDATE_CLK_DLY :: u32 where [fmc250m_4ch_defs]: "WB_FMC_250M_4CH_CSR_ADC_CTL_UPDATE_CLK_DLY = WBGEN2_GEN_MASK 0 1"
definition WB_FMC_250M_4CH_CSR_ADC_CTL_RST_ADCS :: u32 where [fmc250m_4ch_defs]: "WB_FMC_250M_4CH_CSR_ADC_CTL_RST_ADCS = WBGEN2_GEN_MASK 2 1"
definition WB_FMC_250M_4CH_CSR_ADC_CTL_RST_DIV_ADCS :: u32 where [fmc250m_4ch_defs]: "WB_FMC_250M_4CH_CSR_ADC_CTL_RST_DIV_ADCS = WBGEN2_GEN_MASK 3 1"
definition WB_FMC_250M_4CH_CSR_ADC_CTL_SLEEP_ADCS :: u32 where [fmc250m_4ch_defs]: "WB_FMC_250M_4CH_CSR_ADC_CTL_SLEEP_ADCS = WBGEN2_GEN_MASK 4 1"

text \<open>The upper half of the register reads as zero; the sign is extended into it.\<close>

definition s_rw_halcs_fmc250m_4ch_data_fmt :: "u32 \<Rightarrow> u32" where
  "s_rw_halcs_fmc250m_4ch_data_fmt v = WBGEN2_SIGN_EXTEND v 15"

definition s_fmc250m_4ch_set_get_adc_data0 :: "u32 \<Rightarrow> ('o, 'h, 'p) exp_func" where [fmc250m_4ch_defs]:
  "s_fmc250m_4ch_set_get_adc_data0 junk = SET_GET_PARAM 0 WB_FMC_250M_4CH_CSR_REG_CH0_STA WB_FMC_250M_4CH_CSR_CH0_STA_VAL None None (Some s_rw_halcs_fmc250m_4ch_data_fmt) junk"

definition s_fmc250m_4ch_set_get_adc_data1 :: "u32 \<Rightarrow> ('o, 'h, 'p) exp_func" where [fmc250m_4ch_defs]:
  "s_fmc250m_4ch_set_get_adc_data1 junk = SET_GET_PARAM 0 WB_FMC_250M_4CH_CSR_REG_CH1_STA WB_FMC_250M_4CH_CSR_CH1_STA_VAL None None (Some s_rw_halcs_fmc250m_4ch_data_fmt) junk"

definition s_fmc250m_4ch_set_get_adc_data2 :: "u32 \<Rightarrow> ('o, 'h, 'p) exp_func" where [fmc250m_4ch_defs]:
  "s_fmc250m_4ch_set_get_adc_data2 junk = SET_GET_PARAM 0 WB_FMC_250M_4CH_CSR_REG_CH2_STA WB_FMC_250M_4CH_CSR_CH2_STA_VAL None None (Some s_rw_halcs_fmc250m_4ch_data_fmt) junk"

definition s_fmc250m_4ch_set_get_adc_data3 :: "u32 \<Rightarrow> ('o, 'h, 'p) exp_func" where [fmc250m_4ch_defs]:
  "s_fmc250m_4ch_set_get_adc_data3 junk = SET_GET_PARAM 0 WB_FMC_250M_4CH_CSR_REG_CH3_STA WB_FMC_250M_4CH_CSR_CH3_STA_VAL None None (Some s_rw_halcs_fmc250m_4ch_data_fmt) junk"

definition s_fmc250m_4ch_set_get_adc_data_dly0 :: "u32 \<Rightarrow> ('o, 'h, 'p) exp_func" where [fmc250m_4ch_defs]:
  "s_fmc250m_4ch_set_get_adc_data_dly0 junk = SET_GET_PARAM 0 WB_FMC_250M_4CH_CSR_REG_CH0_FN_DLY WB_FMC_250M_4CH_CSR_CH0_FN_DLY_DATA_CHAIN_DLY None None None junk"

definition s_fmc250m_4ch_set_get_adc_data_dly1 :: "u32 \<Rightarrow> ('o, 'h, 'p) exp_func" where [fmc250m_4ch_defs]:
  "s_fmc250m_4ch_set_get_adc_data_dly1 junk = SET_GET_PARAM 0 WB_FMC_250M_4CH_CSR_REG_CH1_FN_DLY WB_FMC_250M_4CH_CSR_CH1_FN_DLY_DATA_CHAIN_DLY None None None junk"

definition s_fmc250m_4ch_set_get_adc_data_dly2 :: "u32 \<Rightarrow> ('o, 'h, 'p) exp_func" where [fmc250m_4ch_defs]:
  "s_fmc250m_4ch_set_get_adc_data_dly2 junk = SET_GET_PARAM 0 WB_FMC_250M_4CH_CSR_REG_CH2_FN_DLY WB_FMC_250M_4CH_CSR_CH2_FN_DLY_DATA_CHAIN_DLY None None None junk"

definition s_fmc250m_4ch_set_get_adc_data_dly3 :: "u32 \<Rightarrow> ('o, 'h, 'p) exp_func" where [fmc250m_4ch_defs]:
  "s_fmc250m_4ch_set_get_adc_data_dly3 junk = SET_GET_PARAM 0 WB_FMC_250M_4CH_CSR_REG_CH3_FN_DLY WB_FMC_250M_4CH_CSR_CH3_FN_DLY_DATA_CHAIN_DLY None None None junk"

definition s_fmc250m_4ch_set_get_adc_clk_dly0 :: "u32 \<Rightarrow> ('o, 'h, 'p) exp_func" where [fmc250m_4ch_defs]:
  "s_fmc250m_4ch_set_get_adc_clk_dly0 junk = SET_GET_PARAM 0 WB_FMC_250M_4CH_CSR_REG_CH0_FN_DLY WB_FMC_250M_4CH_CSR_CH0_FN_DLY_CLK_CHAIN_DLY None None None junk"

definition s_fmc250m_4ch_set_get_adc_clk_dly1 :: "u32 \<Rightarrow> ('o, 'h, 'p) exp_func" where [fmc250m_4ch_defs]:
  "s_fmc250m_4ch_set_get_adc_clk_dly1 junk = SET_GET_PARAM 0 WB_FMC_250M_4CH_CSR_REG_CH1_FN_DLY WB_FMC_250M_4CH_CSR_CH1_FN_DLY_CLK_CHAIN_DLY None None None junk"

definition s_fmc250m_4ch_set_get_adc_clk_dly2 :: "u32 \<Rightarrow> ('o, 'h, 'p) exp_func" where [fmc250m_4ch_defs]:
  "s_fmc250m_4ch_set_get_adc_clk_dly2 junk = SET_GET_PARAM 0 WB_FMC_250M_4CH_CSR_REG_CH2_FN_DLY WB_FMC_250M_4CH_CSR_CH2_FN_DLY_CLK_CHAIN_DLY None None None junk"

definition s_fmc250m_4ch_set_get_adc_clk_dly3 :: "u32 \<Rightarrow> ('o, 'h, 'p) exp_func" where [fmc250m_4ch_defs]:
  "s_fmc250m_4ch_set_get_adc_clk_dly3 junk = SET_GET_PARAM 0 WB_FMC_250M_4CH_CSR_REG_CH3_FN_DLY WB_FMC_250M_4CH_CSR_CH3_FN_DLY_CLK_CHAIN_DLY None None None junk"

definition s_fmc250m_4ch_set_get_adc_dly_line0 :: "u32 \<Rightarrow> ('o, 'h, 'p) exp_func" where [fmc250m_4ch_defs]:
  "s_fmc250m_4ch_set_get_adc_dly_line0 junk = SET_GET_PARAM 0 WB_FMC_250M_4CH_CSR_REG_CH0_FN_SEL WB_FMC_250M_4CH_CSR_CH0_FN_SEL_LINE None None None junk"

definition s_fmc250m_4ch_set_get_adc_dly_line1 :: "u32 \<Rightarrow> ('o, 'h, 'p) exp_func" where [fmc250m_4ch_defs]:
  "s_fmc250m_4ch_set_get_adc_dly_line1 junk = SET_GET_PARAM 0 WB_FMC_250M_4CH_CSR_REG_CH1_FN_SEL WB_FMC_250M_4CH_CSR_CH1_FN_SEL_LINE None None None junk"

definition s_fmc250m_4ch_set_get_adc_dly_line2 :: "u32 \<Rightarrow> ('o, 'h, 'p) exp_func" where [fmc250m_4ch_defs]:
  "s_fmc250m_4ch_set_get_adc_dly_line2 junk = SET_GET_PARAM 0 WB_FMC_250M_4CH_CSR_REG_CH2_FN_SEL WB_FMC_250M_4CH_CSR_CH2_FN_SEL_LINE None None None junk"

definition s_fmc250m_4ch_set_get_adc_dly_line3 :: "u32 \<Rightarrow> ('o, 'h, 'p) exp_func" where [fmc250m_4ch_defs]:
  "s_fmc250m_4ch_set_get_adc_dly_line3 junk = SET_GET_PARAM 0 WB_FMC_250M_4CH_CSR_REG_CH3_FN_SEL WB_FMC_250M_4CH_CSR_CH3_FN_SEL_LINE None None None junk"

definition s_fmc250m_4ch_set_get_adc_dly_updt0 :: "u32 \<Rightarrow> ('o, 'h, 'p) exp_func" where [fmc250m_4ch_defs]:
  "s_fmc250m_4ch_set_get_adc_dly_updt0 junk = SET_GET_PARAM 0 WB_FMC_250M_4CH_CSR_REG_ADC_CTL (Single_Bit WB_FMC_250M_4CH_CSR_ADC_CTL_UPDATE_CLK_DLY) None None None junk"

definition s_fmc250m_4ch_set_get_adc_dly_updt1 :: "u32 \<Rightarrow> ('o, 'h, 'p) exp_func" where [fmc250m_4ch_defs]:
  "s_fmc250m_4ch_set_get_adc_dly_updt1 junk = SET_GET_PARAM 0 WB_FMC_250M_4CH_CSR_REG_ADC_CTL (Single_Bit WB_FMC_250M_4CH_CSR_ADC_CTL_UPDATE_CLK_DLY) None None None junk"

definition s_fmc250m_4ch_set_get_adc_dly_updt2 :: "u32 \<Rightarrow> ('o, 'h, 'p) exp_func" where [fmc250m_4ch_defs]:
  "s_fmc250m_4ch_set_get_adc_dly_updt2 junk = SET_GET_PARAM 0 WB_FMC_250M_4CH_CSR_REG_ADC_CTL (Single_Bit WB_FMC_250M_4CH_CSR_ADC_CTL_UPDATE_CLK_DLY) None None None junk"

definition s_fmc250m_4ch_set_get_adc_dly_updt3 :: "u32 \<Rightarrow> ('o, 'h, 'p) exp_func" where [fmc250m_4ch_defs]:
  "s_fmc250m_4ch_set_get_adc_dly_updt3 junk = SET_GET_PARAM 0 WB_FMC_250M_4CH_CSR_REG_ADC_CTL (Single_Bit WB_FMC_250M_4CH_CSR_ADC_CTL_UPDATE_CLK_DLY) None None None junk"

definition s_fmc250m_4ch_set_get_rst_adcs :: "u32 \<Rightarrow> ('o, 'h, 'p) exp_func" where [fmc250m_4ch_defs]:
  "s_fmc250m_4ch_set_get_rst_adcs junk = SET_GET_PARAM 0 WB_FMC_250M_4CH_CSR_REG_ADC_CTL (Single_Bit WB_FMC_250M_4CH_CSR_ADC_CTL_RST_ADCS) (Some (0, 1)) None None junk"

definition s_fmc250m_4ch_set_get_rst_div_adcs :: "u32 \<Rightarrow> ('o, 'h, 'p) exp_func" where [fmc250m_4ch_defs]:
  "s_fmc250m_4ch_set_get_rst_div_adcs junk = SET_GET_PARAM 0 WB_FMC_250M_4CH_CSR_REG_ADC_CTL (Single_Bit WB_FMC_250M_4CH_CSR_ADC_CTL_RST_DIV_ADCS) (Some (0, 1)) None None junk"

definition s_fmc250m_4ch_set_get_sleep_adcs :: "u32 \<Rightarrow> ('o, 'h, 'p) exp_func" where [fmc250m_4ch_defs]:
  "s_fmc250m_4ch_set_get_sleep_adcs junk = SET_GET_PARAM 0 WB_FMC_250M_4CH_CSR_REG_ADC_CTL (Single_Bit WB_FMC_250M_4CH_CSR_ADC_CTL_SLEEP_ADCS) (Some (0, 1)) None None junk"

definition fmc250m_4ch_params :: "param_spec list" where
  "fmc250m_4ch_params =
     [plain 12 (Bits 8 5) None, plain 28 (Bits 8 5) None, plain 44 (Bits 8 5) None, plain 60 (Bits 8 5) None,
      plain 12 (Bits 0 5) None, plain 28 (Bits 0 5) None, plain 44 (Bits 0 5) None, plain 60 (Bits 0 5) None,
      plain 16 (Bits 0 17) None, plain 32 (Bits 0 17) None, plain 48 (Bits 0 17) None,
      plain 64 (Bits 0 17) None, plain 4 (Bit 0) None, plain 4 (Bit 2) (Some (0, 1)),
      plain 4 (Bit 3) (Some (0, 1)), plain 4 (Bit 4) (Some (0, 1))]"

definition fmc250m_4ch_param_ops :: "('w, msg_args) disp_op list" where
  "fmc250m_4ch_param_ops =
     [fmc250m_4ch_adc_data_dly0_exp, fmc250m_4ch_adc_data_dly1_exp, fmc250m_4ch_adc_data_dly2_exp,
      fmc250m_4ch_adc_data_dly3_exp, fmc250m_4ch_adc_clk_dly0_exp, fmc250m_4ch_adc_clk_dly1_exp,
      fmc250m_4ch_adc_clk_dly2_exp, fmc250m_4ch_adc_clk_dly3_exp, fmc250m_4ch_adc_dly_line0_exp,
      fmc250m_4ch_adc_dly_line1_exp, fmc250m_4ch_adc_dly_line2_exp, fmc250m_4ch_adc_dly_line3_exp,
      fmc250m_4ch_adc_dly_updt0_exp, fmc250m_4ch_rst_adcs_exp, fmc250m_4ch_rst_div_adcs_exp,
      fmc250m_4ch_sleep_adcs_exp]"

definition fmc250m_4ch_param_fp :: "u32 \<Rightarrow> ('o, 'h, 'p) exp_func list" where
  "fmc250m_4ch_param_fp junk =
     [s_fmc250m_4ch_set_get_adc_data_dly0 junk, s_fmc250m_4ch_set_get_adc_data_dly1 junk,
      s_fmc250m_4ch_set_get_adc_data_dly2 junk, s_fmc250m_4ch_set_get_adc_data_dly3 junk,
      s_fmc250m_4ch_set_get_adc_clk_dly0 junk, s_fmc250m_4ch_set_get_adc_clk_dly1 junk,
      s_fmc250m_4ch_set_get_adc_clk_dly2 junk, s_fmc250m_4ch_set_get_adc_clk_dly3 junk,
      s_fmc250m_4ch_set_get_adc_dly_line0 junk, s_fmc250m_4ch_set_get_adc_dly_line1 junk,
      s_fmc250m_4ch_set_get_adc_dly_line2 junk, s_fmc250m_4ch_set_get_adc_dly_line3 junk,
      s_fmc250m_4ch_set_get_adc_dly_updt0 junk, s_fmc250m_4ch_set_get_rst_adcs junk,
      s_fmc250m_4ch_set_get_rst_div_adcs junk, s_fmc250m_4ch_set_get_sleep_adcs junk]"

definition fmc250m_4ch_kinds :: "(param_spec \<times> bool) list" where
  "fmc250m_4ch_kinds = zip fmc250m_4ch_params [False, False, False, False, False, False, False, False, False, False, False, False, False, False, False,
      False]"

lemma fmc250m_4ch_fp: "fmc250m_4ch_param_fp junk = mixed_fp DSP_ERR junk fmc250m_4ch_kinds"
  by (simp add: fmc250m_4ch_param_fp_def fmc250m_4ch_kinds_def fmc250m_4ch_params_def fmc250m_4ch_defs mixed_fp_def param_func_simps WBGEN2_GEN_MASK_def)

lemma fmc250m_4ch_kinds_ok: "map fst fmc250m_4ch_kinds = fmc250m_4ch_params"
  "list_all (\<lambda>(d, unchecked). unchecked \<longrightarrow> d = plain (ps_reg d) Whole None) fmc250m_4ch_kinds"
  by (simp_all add: fmc250m_4ch_kinds_def fmc250m_4ch_params_def)

lemma fmc250m_4ch_spec: "list_all spec_ok fmc250m_4ch_params"
  by (simp add: fmc250m_4ch_params_def spec_ok_def)

lemma fmc250m_4ch_apart: "specs_apart fmc250m_4ch_params"
  by (simp add: fmc250m_4ch_params_def spec_apart_def last_reg_def)

lemma fmc250m_4ch_args: "list_all2 param_op fmc250m_4ch_params fmc250m_4ch_param_ops"
  by (simp add: fmc250m_4ch_params_def fmc250m_4ch_param_ops_def fmc250m_4ch_exp_defs exp_simps param_op_def u32_args)

lemma fmc250m_4ch_module: "param_module fmc250m_4ch_params fmc250m_4ch_param_ops"
  using fmc250m_4ch_spec fmc250m_4ch_apart fmc250m_4ch_args by (simp add: param_module_def)

lemma fmc250m_4ch_low: "low_regs fmc250m_4ch_params"
  by (simp add: low_regs_def last_reg_def fmc250m_4ch_params_def)

section \<open>fmc100m_4ch\<close>

named_theorems fmc100m_4ch_defs

definition FMC_ADC_100MS_CSR_REG_CTL :: u64 where [fmc100m_4ch_defs]: "FMC_ADC_100MS_CSR_REG_CTL = 0x0"
definition FMC_ADC_100MS_CSR_CTL_FMC_CLK_OE :: u32 where [fmc100m_4ch_defs]: "FMC_ADC_100MS_CSR_CTL_FMC_CLK_OE = 0x4"
definition FMC_ADC_100MS_CSR_CTL_ACQ_LED :: u32 where [fmc100m_4ch_defs]: "FMC_ADC_100MS_CSR_CTL_ACQ_LED = 0x80"
definition FMC_ADC_100MS_CSR_REG_STA :: u64 where [fmc100m_4ch_defs]: "FMC_ADC_100MS_CSR_REG_STA = 0x4"
definition FMC_ADC_100MS_CSR_REG_CH1_STA :: u64 where [fmc100m_4ch_defs]: "FMC_ADC_100MS_CSR_REG_CH1_STA = 0x84"
definition FMC_ADC_100MS_CHAN_OFFSET :: u32 where [fmc100m_4ch_defs]: "FMC_ADC_100MS_CHAN_OFFSET = 64"
definition FMC_ADC_100MS_NUM_CHAN :: u32 where [fmc100m_4ch_defs]: "FMC_ADC_100MS_NUM_CHAN = 4"
definition FMC_ADC_100MS_CSR_REG_CH1_CALIB :: u64 where [fmc100m_4ch_defs]: "FMC_ADC_100MS_CSR_REG_CH1_CALIB = 0x88"
definition FMC_ADC_100MS_CSR_CH1_CALIB_GAIN :: param_field where [fmc100m_4ch_defs]: "FMC_ADC_100MS_CSR_CH1_CALIB_GAIN = gen_field 0 16"
definition FMC_ADC_100MS_CSR_CH1_CALIB_OFFSET :: param_field where [fmc100m_4ch_defs]: "FMC_ADC_100MS_CSR_CH1_CALIB_OFFSET = gen_field 16 16"
definition FMC_ADC_100MS_CSR_REG_CH1_SAT :: u64 where [fmc100m_4ch_defs]: "FMC_ADC_100MS_CSR_REG_CH1_SAT = 0x8c"
definition FMC_ADC_100MS_CSR_CH1_SAT_VAL :: param_field where [fmc100m_4ch_defs]: "FMC_ADC_100MS_CSR_CH1_SAT_VAL = Mult_Bit (\<lambda>reg. WBGEN2_GEN_READ reg 0 16) (\<lambda>v. WBGEN2_GEN_WRITE v 0 16) 0x7fff"
definition FMC_ADC_100MS_CSR_REG_CH1_CTL :: u64 where [fmc100m_4ch_defs]: "FMC_ADC_100MS_CSR_REG_CH1_CTL = 0x80"
definition FMC_ADC_100MS_CSR_CH1_CTL_SSR :: param_field where [fmc100m_4ch_defs]: "FMC_ADC_100MS_CSR_CH1_CTL_SSR = gen_field 0 7"
definition FMC_ADC_100MS_CSR_REG_FS_FREQ :: u64 where [fmc100m_4ch_defs]: "FMC_ADC_100MS_CSR_REG_FS_FREQ = 0x28"

definition s_fmc100m_4ch_set_get_si571_oe :: "u32 \<Rightarrow> ('o, 'h, 'p) exp_func" where [fmc100m_4ch_defs]:
  "s_fmc100m_4ch_set_get_si571_oe junk = SET_GET_PARAM 0 FMC_ADC_100MS_CSR_REG_CTL (Single_Bit FMC_ADC_100MS_CSR_CTL_FMC_CLK_OE) (Some (0, 1)) None None junk"

definition s_fmc100m_4ch_set_get_acq_led :: "u32 \<Rightarrow> ('o, 'h, 'p) exp_func" where [fmc100m_4ch_defs]:
  "s_fmc100m_4ch_set_get_acq_led junk = SET_GET_PARAM 0 FMC_ADC_100MS_CSR_REG_CTL (Single_Bit FMC_ADC_100MS_CSR_CTL_ACQ_LED) (Some (0, 1)) None None junk"

definition s_fmc100m_4ch_set_get_status :: "u32 \<Rightarrow> ('o, 'h, 'p) exp_func" where [fmc100m_4ch_defs]:
  "s_fmc100m_4ch_set_get_status junk = SET_GET_PARAM 0 FMC_ADC_100MS_CSR_REG_STA whole_reg None None None junk"

definition s_fmc100m_4ch_set_get_adc_status :: "u32 \<Rightarrow> ('o, 'h, 'p) exp_func" where [fmc100m_4ch_defs]:
  "s_fmc100m_4ch_set_get_adc_status junk = SET_GET_PARAM_CHANNEL 0 FMC_ADC_100MS_CSR_REG_CH1_STA whole_reg
     FMC_ADC_100MS_CHAN_OFFSET FMC_ADC_100MS_NUM_CHAN None None None junk"

definition s_fmc100m_4ch_set_get_adc_calib_gain :: "u32 \<Rightarrow> ('o, 'h, 'p) exp_func" where [fmc100m_4ch_defs]:
  "s_fmc100m_4ch_set_get_adc_calib_gain junk = SET_GET_PARAM_CHANNEL 0 FMC_ADC_100MS_CSR_REG_CH1_CALIB FMC_ADC_100MS_CSR_CH1_CALIB_GAIN
     FMC_ADC_100MS_CHAN_OFFSET FMC_ADC_100MS_NUM_CHAN None None None junk"

definition s_fmc100m_4ch_set_get_adc_calib_offset :: "u32 \<Rightarrow> ('o, 'h, 'p) exp_func" where [fmc100m_4ch_defs]:
  "s_fmc100m_4ch_set_get_adc_calib_offset junk = SET_GET_PARAM_CHANNEL 0 FMC_ADC_100MS_CSR_REG_CH1_CALIB FMC_ADC_100MS_CSR_CH1_CALIB_OFFSET
     FMC_ADC_100MS_CHAN_OFFSET FMC_ADC_100MS_NUM_CHAN None None None junk"

definition s_fmc100m_4ch_set_get_adc_sat :: "u32 \<Rightarrow> ('o, 'h, 'p) exp_func" where [fmc100m_4ch_defs]:
  "s_fmc100m_4ch_set_get_adc_sat junk = SET_GET_PARAM_CHANNEL 0 FMC_ADC_100MS_CSR_REG_CH1_SAT FMC_ADC_100MS_CSR_CH1_SAT_VAL
     FMC_ADC_100MS_CHAN_OFFSET FMC_ADC_100MS_NUM_CHAN None None None junk"

definition s_fmc100m_4ch_set_get_adc_ssr :: "u32 \<Rightarrow> ('o, 'h, 'p) exp_func" where [fmc100m_4ch_defs]:
  "s_fmc100m_4ch_set_get_adc_ssr junk = SET_GET_PARAM_CHANNEL 0 FMC_ADC_100MS_CSR_REG_CH1_CTL FMC_ADC_100MS_CSR_CH1_CTL_SSR
     FMC_ADC_100MS_CHAN_OFFSET FMC_ADC_100MS_NUM_CHAN None None None junk"

definition s_fmc100m_4ch_set_get_fs_freq :: "u32 \<Rightarrow> ('o, 'h, 'p) exp_func" where [fmc100m_4ch_defs]:
  "s_fmc100m_4ch_set_get_fs_freq junk = SET_GET_PARAM 0 FMC_ADC_100MS_CSR_REG_FS_FREQ whole_reg None None None junk"

definition fmc100m_4ch_params :: "param_spec list" where
  "fmc100m_4ch_params =
     [plain 0 (Bit 2) (Some (0, 1)), plain 0 (Bit 7) (Some (0, 1)), plain 4 Whole None,
      chans 64 4 132 Whole None, chans 64 4 136 (Bits 0 16) None, chans 64 4 136 (Bits 16 16) None,
      chans 64 4 128 (Bits 0 7) None, plain 40 Whole None]"

definition fmc100m_4ch_param_ops :: "('w, msg_args) disp_op list" where
  "fmc100m_4ch_param_ops =
     [fmc100m_4ch_si571_oe_exp, fmc100m_4ch_acq_led_exp, fmc100m_4ch_status_exp, fmc100m_4ch_adc_status_exp,
      fmc100m_4ch_adc_calib_gain_exp, fmc100m_4ch_adc_calib_offset_exp, fmc100m_4ch_adc_ssr_exp,
      fmc100m_4ch_fs_freq_exp]"

definition fmc100m_4ch_param_fp :: "u32 \<Rightarrow> ('o, 'h, 'p) exp_func list" where
  "fmc100m_4ch_param_fp junk =
     [s_fmc100m_4ch_set_get_si571_oe junk, s_fmc100m_4ch_set_get_acq_led junk,
      s_fmc100m_4ch_set_get_status junk, s_fmc100m_4ch_set_get_adc_status junk,
      s_fmc100m_4ch_set_get_adc_calib_gain junk, s_fmc100m_4ch_set_get_adc_calib_offset junk,
      s_fmc100m_4ch_set_get_adc_ssr junk, s_fmc100m_4ch_set_get_fs_freq junk]"

definition fmc100m_4ch_kinds :: "(param_spec \<times> bool) list" where
  "fmc100m_4ch_kinds = zip fmc100m_4ch_params [False, False, False, False, False, False, False, False]"

lemma fmc100m_4ch_fp: "fmc100m_4ch_param_fp junk = mixed_fp DSP_ERR junk fmc100m_4ch_kinds"
  by (simp add: fmc100m_4ch_param_fp_def fmc100m_4ch_kinds_def fmc100m_4ch_params_def fmc100m_4ch_defs mixed_fp_def param_func_simps WBGEN2_GEN_MASK_def)

lemma fmc100m_4ch_kinds_ok: "map fst fmc100m_4ch_kinds = fmc100m_4ch_params"
  "list_all (\<lambda>(d, unchecked). unchecked \<longrightarrow> d = plain (ps_reg d) Whole None) fmc100m_4ch_kinds"
  by (simp_all add: fmc100m_4ch_kinds_def fmc100m_4ch_params_def)

lemma fmc100m_4ch_spec: "list_all spec_ok fmc100m_4ch_params"
  by (simp add: fmc100m_4ch_params_def spec_ok_def)

lemma fmc100m_4ch_apart: "specs_apart fmc100m_4ch_params"
  by (simp add: fmc100m_4ch_params_def spec_apart_def last_reg_def)

lemma fmc100m_4ch_args: "list_all2 param_op fmc100m_4ch_params fmc100m_4ch_param_ops"
  by (simp add: fmc100m_4ch_params_def fmc100m_4ch_param_ops_def fmc100m_4ch_exp_defs exp_simps param_op_def u32_args)

lemma fmc100m_4ch_module: "param_module fmc100m_4ch_params fmc100m_4ch_param_ops"
  using fmc100m_4ch_spec fmc100m_4ch_apart fmc100m_4ch_args by (simp add: param_module_def)

lemma fmc100m_4ch_low: "low_regs fmc100m_4ch_params"
  by (simp add: low_regs_def last_reg_def fmc100m_4ch_params_def)

section \<open>fmc_active_clk\<close>

named_theorems fmc_active_clk_defs

definition WB_FMC_ACTIVE_CLK_CSR_REG_CLK_DISTRIB :: u64 where [fmc_active_clk_defs]: "WB_FMC_ACTIVE_CLK_CSR_REG_CLK_DISTRIB = 0x0"
definition WB_FMC_ACTIVE_CLK_CSR_CLK_DISTRIB_SI571_OE :: u32 where [fmc_active_clk_defs]: "WB_FMC_ACTIVE_CLK_CSR_CLK_DISTRIB_SI571_OE = WBGEN2_GEN_MASK 0 1"
definition WB_FMC_ACTIVE_CLK_CSR_CLK_DISTRIB_PLL_FUNCTION :: u32 where [fmc_active_clk_defs]: "WB_FMC_ACTIVE_CLK_CSR_CLK_DISTRIB_PLL_FUNCTION = WBGEN2_GEN_MASK 1 1"
definition WB_FMC_ACTIVE_CLK_CSR_CLK_DISTRIB_PLL_STATUS :: u32 where [fmc_active_clk_defs]: "WB_FMC_ACTIVE_CLK_CSR_CLK_DISTRIB_PLL_STATUS = WBGEN2_GEN_MASK 2 1"
definition WB_FMC_ACTIVE_CLK_CSR_CLK_DISTRIB_CLK_SEL :: u32 where [fmc_active_clk_defs]: "WB_FMC_ACTIVE_CLK_CSR_CLK_DISTRIB_CLK_SEL = WBGEN2_GEN_MASK 3 1"

definition s_fmc_active_clk_set_get_si571_oe :: "u32 \<Rightarrow> ('o, 'h, 'p) exp_func" where [fmc_active_clk_defs]:
  "s_fmc_active_clk_set_get_si571_oe junk = SET_GET_PARAM 0 WB_FMC_ACTIVE_CLK_CSR_REG_CLK_DISTRIB (Single_Bit WB_FMC_ACTIVE_CLK_CSR_CLK_DISTRIB_SI571_OE) (Some (0, 1)) None None junk"

definition s_fmc_active_clk_set_get_pll_func :: "u32 \<Rightarrow> ('o, 'h, 'p) exp_func" where [fmc_active_clk_defs]:
  "s_fmc_active_clk_set_get_pll_func junk = SET_GET_PARAM 0 WB_FMC_ACTIVE_CLK_CSR_REG_CLK_DISTRIB (Single_Bit WB_FMC_ACTIVE_CLK_CSR_CLK_DISTRIB_PLL_FUNCTION) (Some (0, 1)) None None junk"

definition s_fmc_active_clk_set_get_pll_status :: "u32 \<Rightarrow> ('o, 'h, 'p) exp_func" where [fmc_active_clk_defs]:
  "s_fmc_active_clk_set_get_pll_status junk = SET_GET_PARAM 0 WB_FMC_ACTIVE_CLK_CSR_REG_CLK_DISTRIB (Single_Bit WB_FMC_ACTIVE_CLK_CSR_CLK_DISTRIB_PLL_STATUS) (Some (0, 1)) None None junk"

definition s_fmc_active_clk_set_get_clk_sel :: "u32 \<Rightarrow> ('o, 'h, 'p) exp_func" where [fmc_active_clk_defs]:
  "s_fmc_active_clk_set_get_clk_sel junk = SET_GET_PARAM 0 WB_FMC_ACTIVE_CLK_CSR_REG_CLK_DISTRIB (Single_Bit WB_FMC_ACTIVE_CLK_CSR_CLK_DISTRIB_CLK_SEL) (Some (0, 1)) None None junk"

definition fmc_active_clk_params :: "param_spec list" where
  "fmc_active_clk_params =
     [plain 0 (Bit 0) (Some (0, 1)), plain 0 (Bit 1) (Some (0, 1)), plain 0 (Bit 2) (Some (0, 1)),
      plain 0 (Bit 3) (Some (0, 1))]"

definition fmc_active_clk_param_ops :: "('w, msg_args) disp_op list" where
  "fmc_active_clk_param_ops =
     [fmc_active_clk_si571_oe_exp, fmc_active_clk_pll_func_exp, fmc_active_clk_pll_status_exp,
      fmc_active_clk_clk_sel_exp]"

definition fmc_active_clk_param_fp :: "u32 \<Rightarrow> ('o, 'h, 'p) exp_func list" where
  "fmc_active_clk_param_fp junk =
     [s_fmc_active_clk_set_get_si571_oe junk, s_fmc_active_clk_set_get_pll_func junk,
      s_fmc_active_clk_set_get_pll_status junk, s_fmc_active_clk_set_get_clk_sel junk]"

definition fmc_active_clk_kinds :: "(param_spec \<times> bool) list" where
  "fmc_active_clk_kinds = zip fmc_active_clk_params [False, False, False, False]"

lemma fmc_active_clk_fp: "fmc_active_clk_param_fp junk = mixed_fp DSP_ERR junk fmc_active_clk_kinds"
  by (simp add: fmc_active_clk_param_fp_def fmc_active_clk_kinds_def fmc_active_clk_params_def fmc_active_clk_defs mixed_fp_def param_func_simps WBGEN2_GEN_MASK_def)

lemma fmc_active_clk_kinds_ok: "map fst fmc_active_clk_kinds = fmc_active_clk_params"
  "list_all (\<lambda>(d, unchecked). unchecked \<longrightarrow> d = plain (ps_reg d) Whole None) fmc_active_clk_kinds"
  by (simp_all add: fmc_active_clk_kinds_def fmc_active_clk_params_def)

lemma fmc_active_clk_spec: "list_all spec_ok fmc_active_clk_params"
  by (simp add: fmc_active_clk_params_def spec_ok_def)

lemma fmc_active_clk_apart: "specs_apart fmc_active_clk_params"
  by (simp add: fmc_active_clk_params_def spec_apart_def last_reg_def)

lemma fmc_active_clk_args: "list_all2 param_op fmc_active_clk_params fmc_active_clk_param_ops"
  by (simp add: fmc_active_clk_params_def fmc_active_clk_param_ops_def fmc_active_clk_exp_defs exp_simps param_op_def u32_args)

lemma fmc_active_clk_module: "param_module fmc_active_clk_params fmc_active_clk_param_ops"
  using fmc_active_clk_spec fmc_active_clk_apart fmc_active_clk_args by (simp add: param_module_def)

lemma fmc_active_clk_low: "low_regs fmc_active_clk_params"
  by (simp add: low_regs_def last_reg_def fmc_active_clk_params_def)

section \<open>afc_mgmt\<close>

named_theorems afc_mgmt_defs

definition AFC_MGMT_REG_CLK_DISTRIB :: u64 where [afc_mgmt_defs]: "AFC_MGMT_REG_CLK_DISTRIB = 0x0"
definition AFC_MGMT_CLK_DISTRIB_SI57X_OE :: u32 where [afc_mgmt_defs]: "AFC_MGMT_CLK_DISTRIB_SI57X_OE = WBGEN2_GEN_MASK 0 1"

definition s_afc_mgmt_set_get_si57x_oe :: "u32 \<Rightarrow> ('o, 'h, 'p) exp_func" where [afc_mgmt_defs]:
  "s_afc_mgmt_set_get_si57x_oe junk = SET_GET_PARAM 0 AFC_MGMT_REG_CLK_DISTRIB (Single_Bit AFC_MGMT_CLK_DISTRIB_SI57X_OE) (Some (0, 1)) None None junk"

definition afc_mgmt_params :: "param_spec list" where
  "afc_mgmt_params =
     [plain 0 (Bit 0) (Some (0, 1))]"

definition afc_mgmt_param_ops :: "('w, msg_args) disp_op list" where
  "afc_mgmt_param_ops =
     [afc_mgmt_si57x_oe_exp]"

definition afc_mgmt_param_fp :: "u32 \<Rightarrow> ('o, 'h, 'p) exp_func list" where
  "afc_mgmt_param_fp junk =
     [s_afc_mgmt_set_get_si57x_oe junk]"

definition afc_mgmt_kinds :: "(param_spec \<times> bool) list" where
  "afc_mgmt_kinds = zip afc_mgmt_params [False]"

lemma afc_mgmt_fp: "afc_mgmt_param_fp junk = mixed_fp DSP_ERR junk afc_mgmt_kinds"
  by (simp add: afc_mgmt_param_fp_def afc_mgmt_kinds_def afc_mgmt_params_def afc_mgmt_defs mixed_fp_def param_func_simps WBGEN2_GEN_MASK_def)

lemma afc_mgmt_kinds_ok: "map fst afc_mgmt_kinds = afc_mgmt_params"
  "list_all (\<lambda>(d, unchecked). unchecked \<longrightarrow> d = plain (ps_reg d) Whole None) afc_mgmt_kinds"
  by (simp_all add: afc_mgmt_kinds_def afc_mgmt_params_def)

lemma afc_mgmt_spec: "list_all spec_ok afc_mgmt_params"
  by (simp add: afc_mgmt_params_def spec_ok_def)

lemma afc_mgmt_apart: "specs_apart afc_mgmt_params"
  by (simp add: afc_mgmt_params_def spec_apart_def last_reg_def)

lemma afc_mgmt_args: "list_all2 param_op afc_mgmt_params afc_mgmt_param_ops"
  by (simp add: afc_mgmt_params_def afc_mgmt_param_ops_def afc_mgmt_exp_defs exp_simps param_op_def u32_args)

lemma afc_mgmt_module: "param_module afc_mgmt_params afc_mgmt_param_ops"
  using afc_mgmt_spec afc_mgmt_apart afc_mgmt_args by (simp add: param_module_def)

lemma afc_mgmt_low: "low_regs afc_mgmt_params"
  by (simp add: low_regs_def last_reg_def afc_mgmt_params_def)

section \<open>afc_diag\<close>

named_theorems afc_diag_defs

definition HALCS_AFC_DIAG_REG_GEO_ID :: u64 where [afc_diag_defs]: "HALCS_AFC_DIAG_REG_GEO_ID = 0x10"
definition HALCS_AFC_DIAG_GEO_ID_CARD_SLOT :: param_field where [afc_diag_defs]: "HALCS_AFC_DIAG_GEO_ID_CARD_SLOT = gen_field 0 16"
definition HALCS_AFC_DIAG_GEO_ID_IPMI_ADDR :: param_field where [afc_diag_defs]: "HALCS_AFC_DIAG_GEO_ID_IPMI_ADDR = gen_field 16 16"

definition s_afc_diag_set_get_card_slot :: "u32 \<Rightarrow> ('o, 'h, 'p) exp_func" where [afc_diag_defs]:
  "s_afc_diag_set_get_card_slot junk = SET_GET_PARAM 0 HALCS_AFC_DIAG_REG_GEO_ID HALCS_AFC_DIAG_GEO_ID_CARD_SLOT None None None junk"

definition s_afc_diag_set_get_ipmi_addr :: "u32 \<Rightarrow> ('o, 'h, 'p) exp_func" where [afc_diag_defs]:
  "s_afc_diag_set_get_ipmi_addr junk = SET_GET_PARAM 0 HALCS_AFC_DIAG_REG_GEO_ID HALCS_AFC_DIAG_GEO_ID_IPMI_ADDR None None None junk"

definition afc_diag_params :: "param_spec list" where
  "afc_diag_params =
     [plain 16 (Bits 0 16) None, plain 16 (Bits 16 16) None]"

definition afc_diag_param_ops :: "('w, msg_args) disp_op list" where
  "afc_diag_param_ops =
     [afc_diag_set_get_card_slot_exp, afc_diag_set_get_ipmi_addr_exp]"

definition afc_diag_param_fp :: "u32 \<Rightarrow> ('o, 'h, 'p) exp_func list" where
  "afc_diag_param_fp junk =
     [s_afc_diag_set_get_card_slot junk, s_afc_diag_set_get_ipmi_addr junk]"

definition afc_diag_kinds :: "(param_spec \<times> bool) list" where
  "afc_diag_kinds = zip afc_diag_params [False, False]"

lemma afc_diag_fp: "afc_diag_param_fp junk = mixed_fp DSP_ERR junk afc_diag_kinds"
  by (simp add: afc_diag_param_fp_def afc_diag_kinds_def afc_diag_params_def afc_diag_defs mixed_fp_def param_func_simps WBGEN2_GEN_MASK_def)

lemma afc_diag_kinds_ok: "map fst afc_diag_kinds = afc_diag_params"
  "list_all (\<lambda>(d, unchecked). unchecked \<longrightarrow> d = plain (ps_reg d) Whole None) afc_diag_kinds"
  by (simp_all add: afc_diag_kinds_def afc_diag_params_def)

lemma afc_diag_spec: "list_all spec_ok afc_diag_params"
  by (simp add: afc_diag_params_def spec_ok_def)

lemma afc_diag_apart: "specs_apart afc_diag_params"
  by (simp add: afc_diag_params_def spec_apart_def last_reg_def)

lemma afc_diag_args: "list_all2 param_op afc_diag_params afc_diag_param_ops"
  by (simp add: afc_diag_params_def afc_diag_param_ops_def afc_diag_exp_defs exp_simps param_op_def u32_args)

lemma afc_diag_module: "param_module afc_diag_params afc_diag_param_ops"
  using afc_diag_spec afc_diag_apart afc_diag_args by (simp add: param_module_def)

lemma afc_diag_low: "low_regs afc_diag_params"
  by (simp add: low_regs_def last_reg_def afc_diag_params_def)

end
