(* ===== verification/Mod_Dsp.thy ===== *)
theory Mod_Dsp
  imports Mod_Parts
begin

text \<open>
  The position calculation, src/sm_io/modules/dsp: beside the parameters of \<open>Mod_Parts\<close> it has the
  reading of the two monitoring FIFOs and an actor of its own that polls the amplitudes and
  publishes them. The actor and the module exchange messages over a pipe: the module queues a
  command for the actor, and to read the polling time it waits for the answer.

  The state of the module is the record \<open>smio_dsp\<close>: the commands queued, the answers queued, and the
  actor while it runs. The reactor and the Malamute client of the actor are the environment \<open>'l\<close>,
  with the operations \<open>monit_env\<close>. What the actor does while the module waits is a list of events.
\<close>

section \<open>Registers of the FIFOs\<close>

definition POS_CALC_REG_AMPFIFO_MONIT_CSR :: u64 where "POS_CALC_REG_AMPFIFO_MONIT_CSR = 0xa8"
definition POS_CALC_AMPFIFO_MONIT_CSR_EMPTY :: u32 where "POS_CALC_AMPFIFO_MONIT_CSR_EMPTY = WBGEN2_GEN_MASK 17 1"
definition POS_CALC_REG_AMPFIFO_MONIT_R0 :: u64 where "POS_CALC_REG_AMPFIFO_MONIT_R0 = 0x98"
definition POS_CALC_AMPFIFO_MONIT_R0_AMP_CH0 :: param_field where "POS_CALC_AMPFIFO_MONIT_R0_AMP_CH0 = gen_field 0 32"
definition POS_CALC_REG_AMPFIFO_MONIT_R1 :: u64 where "POS_CALC_REG_AMPFIFO_MONIT_R1 = 0x9c"
definition POS_CALC_AMPFIFO_MONIT_R1_AMP_CH1 :: param_field where "POS_CALC_AMPFIFO_MONIT_R1_AMP_CH1 = gen_field 0 32"
definition POS_CALC_REG_AMPFIFO_MONIT_R2 :: u64 where "POS_CALC_REG_AMPFIFO_MONIT_R2 = 0xa0"
definition POS_CALC_AMPFIFO_MONIT_R2_AMP_CH2 :: param_field where "POS_CALC_AMPFIFO_MONIT_R2_AMP_CH2 = gen_field 0 32"
definition POS_CALC_REG_AMPFIFO_MONIT_R3 :: u64 where "POS_CALC_REG_AMPFIFO_MONIT_R3 = 0xa4"
definition POS_CALC_AMPFIFO_MONIT_R3_AMP_CH3 :: param_field where "POS_CALC_AMPFIFO_MONIT_R3_AMP_CH3 = gen_field 0 32"
definition POS_CALC_REG_AMPFIFO_MONIT1_CSR :: u64 where "POS_CALC_REG_AMPFIFO_MONIT1_CSR = 0xd0"
definition POS_CALC_AMPFIFO_MONIT1_CSR_EMPTY :: u32 where "POS_CALC_AMPFIFO_MONIT1_CSR_EMPTY = WBGEN2_GEN_MASK 17 1"
definition POS_CALC_REG_AMPFIFO_MONIT1_R0 :: u64 where "POS_CALC_REG_AMPFIFO_MONIT1_R0 = 0xc0"
definition POS_CALC_AMPFIFO_MONIT1_R0_AMP_CH0 :: param_field where "POS_CALC_AMPFIFO_MONIT1_R0_AMP_CH0 = gen_field 0 32"
definition POS_CALC_REG_AMPFIFO_MONIT1_R1 :: u64 where "POS_CALC_REG_AMPFIFO_MONIT1_R1 = 0xc4"
definition POS_CALC_AMPFIFO_MONIT1_R1_AMP_CH1 :: param_field where "POS_CALC_AMPFIFO_MONIT1_R1_AMP_CH1 = gen_field 0 32"
definition POS_CALC_REG_AMPFIFO_MONIT1_R2 :: u64 where "POS_CALC_REG_AMPFIFO_MONIT1_R2 = 0xc8"
definition POS_CALC_AMPFIFO_MONIT1_R2_AMP_CH2 :: param_field where "POS_CALC_AMPFIFO_MONIT1_R2_AMP_CH2 = gen_field 0 32"
definition POS_CALC_REG_AMPFIFO_MONIT1_R3 :: u64 where "POS_CALC_REG_AMPFIFO_MONIT1_R3 = 0xcc"
definition POS_CALC_AMPFIFO_MONIT1_R3_AMP_CH3 :: param_field where "POS_CALC_AMPFIFO_MONIT1_R3_AMP_CH3 = gen_field 0 32"
definition POS_CALC_REG_POSFIFO_MONIT1_CSR :: u64 where "POS_CALC_REG_POSFIFO_MONIT1_CSR = 0xe4"
definition POS_CALC_POSFIFO_MONIT1_CSR_EMPTY :: u32 where "POS_CALC_POSFIFO_MONIT1_CSR_EMPTY = WBGEN2_GEN_MASK 17 1"
definition POS_CALC_REG_POSFIFO_MONIT1_R0 :: u64 where "POS_CALC_REG_POSFIFO_MONIT1_R0 = 0xd4"
definition POS_CALC_POSFIFO_MONIT1_R0_POS_X :: param_field where "POS_CALC_POSFIFO_MONIT1_R0_POS_X = gen_field 0 32"
definition POS_CALC_REG_POSFIFO_MONIT1_R1 :: u64 where "POS_CALC_REG_POSFIFO_MONIT1_R1 = 0xd8"
definition POS_CALC_POSFIFO_MONIT1_R1_POS_Y :: param_field where "POS_CALC_POSFIFO_MONIT1_R1_POS_Y = gen_field 0 32"
definition POS_CALC_REG_POSFIFO_MONIT1_R2 :: u64 where "POS_CALC_REG_POSFIFO_MONIT1_R2 = 0xdc"
definition POS_CALC_POSFIFO_MONIT1_R2_POS_Q :: param_field where "POS_CALC_POSFIFO_MONIT1_R2_POS_Q = gen_field 0 32"
definition POS_CALC_REG_POSFIFO_MONIT1_R3 :: u64 where "POS_CALC_REG_POSFIFO_MONIT1_R3 = 0xe0"
definition POS_CALC_POSFIFO_MONIT1_R3_POS_SUM :: param_field where "POS_CALC_POSFIFO_MONIT1_R3_POS_SUM = gen_field 0 32"

definition POS_CALC_AMPFIFO_MONIT_REGS :: "(u64 \<times> param_field) list" where
  "POS_CALC_AMPFIFO_MONIT_REGS = [(POS_CALC_REG_AMPFIFO_MONIT_R0, POS_CALC_AMPFIFO_MONIT_R0_AMP_CH0),
     (POS_CALC_REG_AMPFIFO_MONIT_R1, POS_CALC_AMPFIFO_MONIT_R1_AMP_CH1),
     (POS_CALC_REG_AMPFIFO_MONIT_R2, POS_CALC_AMPFIFO_MONIT_R2_AMP_CH2),
     (POS_CALC_REG_AMPFIFO_MONIT_R3, POS_CALC_AMPFIFO_MONIT_R3_AMP_CH3)]"

definition POS_CALC_AMPFIFO_MONIT1_REGS :: "(u64 \<times> param_field) list" where
  "POS_CALC_AMPFIFO_MONIT1_REGS = [(POS_CALC_REG_AMPFIFO_MONIT1_R0, POS_CALC_AMPFIFO_MONIT1_R0_AMP_CH0),
     (POS_CALC_REG_AMPFIFO_MONIT1_R1, POS_CALC_AMPFIFO_MONIT1_R1_AMP_CH1),
     (POS_CALC_REG_AMPFIFO_MONIT1_R2, POS_CALC_AMPFIFO_MONIT1_R2_AMP_CH2),
     (POS_CALC_REG_AMPFIFO_MONIT1_R3, POS_CALC_AMPFIFO_MONIT1_R3_AMP_CH3)]"

definition POS_CALC_POSFIFO_MONIT1_REGS :: "(u64 \<times> param_field) list" where
  "POS_CALC_POSFIFO_MONIT1_REGS = [(POS_CALC_REG_POSFIFO_MONIT1_R0, POS_CALC_POSFIFO_MONIT1_R0_POS_X),
     (POS_CALC_REG_POSFIFO_MONIT1_R1, POS_CALC_POSFIFO_MONIT1_R1_POS_Y),
     (POS_CALC_REG_POSFIFO_MONIT1_R2, POS_CALC_POSFIFO_MONIT1_R2_POS_Q),
     (POS_CALC_REG_POSFIFO_MONIT1_R3, POS_CALC_POSFIFO_MONIT1_R3_POS_SUM)]"

definition DSP_SDB_DEVID :: u32 where "DSP_SDB_DEVID = 0x1bafbf1e"
definition DSP_SDB_NAME :: string where "DSP_SDB_NAME = ''DSP''"
definition DSP_OK :: int where "DSP_OK = 0"
definition SMIO_DSP_POLLER_TIMEOUT :: u32 where "SMIO_DSP_POLLER_TIMEOUT = 4"

section \<open>The actor\<close>

text \<open>The reactor's timers and the sending of a message \<open>MONIT_AMP\<close>: \<open>me_msg\<close> tells whether the
  message could be made, \<open>me_send\<close> is the result of sending it.\<close>

record 'l monit_env =
  me_timer :: "u32 \<Rightarrow> 'l \<Rightarrow> int \<times> 'l"
  me_timer_end :: "int \<Rightarrow> 'l \<Rightarrow> 'l"
  me_msg :: bool
  me_send :: "u8 list \<Rightarrow> 'l \<Rightarrow> int \<times> 'l"

record 'l smio_dsp_monit =
  dm_timer_id :: int
  dm_poll_time :: u32
  dm_env :: 'l

record 'l smio_dsp =
  da_in :: "(string \<times> u32 list) list"
  da_out :: "u32 list"
  da_run :: "'l smio_dsp_monit option"

text \<open>\<open>ok 0\<close>, \<open>ok 1\<close>, \<open>ok 2\<close>: allocations of the structure, the loop and the producer; \<open>ok 3\<close>, \<open>ok 4\<close>:
  connecting it to the broker and naming its channel.\<close>

definition smio_dsp_monit_new ::
  "'l monit_env \<Rightarrow> (nat \<Rightarrow> bool) \<Rightarrow> 'l \<Rightarrow> 'l smio_dsp_monit option" where
  "smio_dsp_monit_new E ok l =
     (if \<not> ok 0 \<or> \<not> ok 1 then None
      else let (tid, l1) = me_timer E SMIO_DSP_POLLER_TIMEOUT l
        in if tid = -1 \<or> \<not> ok 2 \<or> \<not> ok 3 \<or> \<not> ok 4 then None
           else Some \<lparr>dm_timer_id = tid, dm_poll_time = SMIO_DSP_POLLER_TIMEOUT, dm_env = l1\<rparr>)"

text \<open>The registers of a FIFO in their order, up to the first that cannot be read.\<close>

fun get_regs :: "'p reg_rd \<Rightarrow> (u64 \<times> param_field) list \<Rightarrow> u32 \<Rightarrow> 'p \<Rightarrow> (u32 list option \<times> 'p) option" where
  "get_regs rd [] junk p = Some (Some [], p)"
| "get_regs rd ((reg, field) # rs) junk p = do {
     (err, v, p1) \<leftarrow> GET_PARAM_GEN rd 0 reg field None junk p;
     if err \<noteq> RW_OK then Some (None, p1)
     else do {
       (vs, p2) \<leftarrow> get_regs rd rs junk p1;
       Some (map_option ((#) v) vs, p2) } }"

text \<open>The timer's handler. The peer is read through the second socket of the module.\<close>

definition s_smio_dsp_monit_handle_timer ::
  "'l monit_env \<Rightarrow> u32 \<Rightarrow> ('o, 'l smio_dsp, 'p) smio \<Rightarrow> 'l smio_dsp_monit \<Rightarrow> 'p \<Rightarrow> (int \<times> 'l smio_dsp_monit \<times> 'p) option" where
  "s_smio_dsp_monit_handle_timer E junk parent m p = do {
     let rd = rd_gen parent (smio_get_dealer2 parent);
     (err, empty, p1) \<leftarrow> GET_PARAM_GEN rd 0 POS_CALC_REG_AMPFIFO_MONIT_CSR
       (Single_Bit POS_CALC_AMPFIFO_MONIT_CSR_EMPTY) None junk p;
     if err \<noteq> RW_OK then Some (-1, m, p1)
     else if empty \<noteq> 0 then Some (int RW_OK, m, p1)
     else do {
       (vs, p2) \<leftarrow> get_regs rd POS_CALC_AMPFIFO_MONIT_REGS junk p1;
       case vs of
         None \<Rightarrow> Some (-1, m, p2)
       | Some xs \<Rightarrow>
           if \<not> me_msg E then Some (int RW_OK, m, p2)
           else let (rc, l) = me_send E (concat (map (le_bytes 4) xs)) (dm_env m)
             in Some (int RW_OK, m\<lparr>dm_env := l\<rparr>, p2) } }"

text \<open>The pipe's handler, for the message received (\<open>None\<close>: interrupted): result, actor, what is
  sent back. A command without its argument would wait for the next message: undefined here.\<close>

definition s_smio_dsp_monit_handle_pipe_mgmt ::
  "'l monit_env \<Rightarrow> (string \<times> u32 list) option \<Rightarrow> 'l smio_dsp_monit \<Rightarrow> (int \<times> 'l smio_dsp_monit \<times> u32 list) option" where
  "s_smio_dsp_monit_handle_pipe_mgmt E msg m =
     (case msg of
        None \<Rightarrow> Some (-1, m, [])
      | Some (command, as) \<Rightarrow>
          if command = ''$TERM'' then Some (-1, m, [])
          else if command = ''MONIT_POLL_TIME_W'' then
            (case as of
               [] \<Rightarrow> None
             | v # _ \<Rightarrow> let (tid, l) = me_timer E v (me_timer_end E (dm_timer_id m) (dm_env m))
                 in Some (0, m\<lparr>dm_poll_time := v, dm_timer_id := tid, dm_env := l\<rparr>, []))
          else if command = ''MONIT_POLL_TIME_R'' then Some (0, m, [dm_poll_time m])
          else Some (0, m, []))"

text \<open>What happens to the actor: its timer fires, a queued message is received, or it is interrupted.
  A handler that returns -1 ends the reactor and with it the actor.\<close>

datatype monit_event = Monit_Timer | Monit_Pipe | Monit_Interrupt

definition after_pipe ::
  "'l smio_dsp \<Rightarrow> (int \<times> 'l smio_dsp_monit \<times> u32 list) option \<Rightarrow> 'l smio_dsp option" where
  "after_pipe d r = map_option (\<lambda>(rc, m, out). d\<lparr>da_run := (if rc = -1 then None else Some m), da_out := da_out d @ out\<rparr>) r"

fun monit_step ::
  "'l monit_env \<Rightarrow> u32 \<Rightarrow> ('o, 'l smio_dsp, 'p) smio \<Rightarrow> monit_event \<Rightarrow> 'l smio_dsp \<times> 'p \<Rightarrow> ('l smio_dsp \<times> 'p) option" where
  "monit_step E junk parent ev (d, p) =
     (case da_run d of
        None \<Rightarrow> Some (d, p)
      | Some m \<Rightarrow>
          (case ev of
             Monit_Timer \<Rightarrow> do {
               (rc, m', p') \<leftarrow> s_smio_dsp_monit_handle_timer E junk parent m p;
               Some (d\<lparr>da_run := (if rc = -1 then None else Some m')\<rparr>, p') }
           | Monit_Pipe \<Rightarrow>
               (case da_in d of
                  [] \<Rightarrow> Some (d, p)
                | msg # q \<Rightarrow> map_option (\<lambda>d'. (d', p))
                    (after_pipe (d\<lparr>da_in := q\<rparr>) (s_smio_dsp_monit_handle_pipe_mgmt E (Some msg) m)))
           | Monit_Interrupt \<Rightarrow> map_option (\<lambda>d'. (d', p)) (after_pipe d (s_smio_dsp_monit_handle_pipe_mgmt E None m))))"

fun monit_run ::
  "'l monit_env \<Rightarrow> u32 \<Rightarrow> ('o, 'l smio_dsp, 'p) smio \<Rightarrow> monit_event list \<Rightarrow> 'l smio_dsp \<times> 'p \<Rightarrow> ('l smio_dsp \<times> 'p) option" where
  "monit_run E junk parent [] s = Some s"
| "monit_run E junk parent (ev # evs) s = do { s' \<leftarrow> monit_step E junk parent ev s; monit_run E junk parent evs s' }"

section \<open>The module\<close>

text \<open>Creating the handler; \<open>ok 0\<close>, \<open>ok 1\<close>, \<open>ok 2\<close> are the allocations of the structure, the thread's
  arguments and the actor, \<open>ok 3\<close> that of the service name, the rest those of the actor's object.
  An actor whose start fails is there all the same, but does not run.\<close>

definition smio_dsp_new ::
  "'l monit_env \<Rightarrow> (nat \<Rightarrow> bool) \<Rightarrow> 'l \<Rightarrow> ('o, 'l smio_dsp, 'p) smio \<Rightarrow> 'p \<Rightarrow> ('l smio_dsp option \<times> 'p) option" where
  "smio_dsp_new E ok l parent p =
     Some (if \<not> ok 0 \<or> \<not> ok 1 \<or> \<not> ok 2 then None
       else Some \<lparr>da_in = [], da_out = [],
         da_run = (if \<not> ok 3 then None else smio_dsp_monit_new E (\<lambda>i. ok (i + 4)) l)\<rparr>, p)"

definition smio_dsp_destroy :: "'l smio_dsp option \<Rightarrow> smio_err \<times> 'l smio_dsp option" where
  "smio_dsp_destroy self_p = plain_destroy self_p"

text \<open>Sending a command to the actor: without the other end the socket blocks. Receiving takes the
  first answer, and blocks when there is none.\<close>

definition smio_send_dsp_monit_mgmt_msg :: "string \<times> u32 list \<Rightarrow> 'l smio_dsp \<Rightarrow> 'l smio_dsp option" where
  "smio_send_dsp_monit_mgmt_msg msg d = (if da_run d = None then None else Some (d\<lparr>da_in := da_in d @ [msg]\<rparr>))"

definition smio_recv_dsp_monit_mgmt_msg :: "'l smio_dsp \<Rightarrow> (u32 \<times> 'l smio_dsp) option" where
  "smio_recv_dsp_monit_mgmt_msg d = (case da_out d of [] \<Rightarrow> None | v # q \<Rightarrow> Some (v, d\<lparr>da_out := q\<rparr>))"

type_synonym ('o, 'l, 'p) dsp_func = "('o, 'l smio_dsp, 'p) exp_func"

text \<open>The polling time; \<open>evs\<close> is what the actor does between the question and the answer.\<close>

definition s_dsp_monit_poll_time :: "'l monit_env \<Rightarrow> u32 \<Rightarrow> monit_event list \<Rightarrow> ('o, 'l, 'p) dsp_func" where
  "s_dsp_monit_poll_time E junk evs w msg ret =
     (case smio_get_handler (fst w) of
        None \<Rightarrow> Some (- DSP_ERR, w, ret)
      | Some dsp \<Rightarrow> do {
          rw \<leftarrow> EXP_MSG_ZMQ_ARG 0 msg;
          v \<leftarrow> EXP_MSG_ZMQ_ARG 1 msg;
          if rw \<noteq> 0 then do {
            d1 \<leftarrow> smio_send_dsp_monit_mgmt_msg (''MONIT_POLL_TIME_R'', []) dsp;
            (d2, p) \<leftarrow> monit_run E junk (fst w) evs (d1, snd w);
            (x, d3) \<leftarrow> smio_recv_dsp_monit_mgmt_msg d2;
            ret' \<leftarrow> put_ret 4 x ret;
            Some (4, ((fst w)\<lparr>sm_handler := Some d3\<rparr>, p), ret') }
          else do {
            d1 \<leftarrow> smio_send_dsp_monit_mgmt_msg (''MONIT_POLL_TIME_W'', [v]) dsp;
            Some (- DSP_OK, ((fst w)\<lparr>sm_handler := Some d1\<rparr>, snd w), ret) } })"

text \<open>The structure \<open>smio_dsp_data_t\<close> of the reply: four amplitudes and a flag, four positions and a
  flag, of 40 bytes. A register of a FIFO goes into its place, read or not.\<close>

definition put_at :: "nat \<Rightarrow> u8 list \<Rightarrow> u8 list \<Rightarrow> u8 list option" where
  "put_at off xs b = (if length b < off + length xs then None else Some (take off b @ xs @ drop (off + length xs) b))"

fun get_fifo ::
  "('o, 'h, 'p) smio \<Rightarrow> (u64 \<times> param_field) list \<Rightarrow> nat \<Rightarrow> u32 \<Rightarrow> u8 list \<Rightarrow> 'p \<Rightarrow> (u8 list \<times> 'p) option" where
  "get_fifo self [] off junk b p = Some (b, p)"
| "get_fifo self ((reg, field) # rs) off junk b p = do {
     (_, v, p1) \<leftarrow> GET_PARAM self 0 reg field None junk p;
     b1 \<leftarrow> put_at off (le_bytes 4 v) b;
     get_fifo self rs (off + 4) junk b1 p1 }"

definition s_dsp_monit1_amp_pos :: "u32 \<Rightarrow> ('o, 'l, 'p) dsp_func" where
  "s_dsp_monit1_amp_pos junk w msg ret =
     (case smio_get_handler (fst w) of
        None \<Rightarrow> Some (- DSP_ERR, w, ret)
      | Some dsp \<Rightarrow> do {
          let self = fst w;
          b \<leftarrow> ret;
          b1 \<leftarrow> put_at 16 [0] b;
          b2 \<leftarrow> put_at 36 [0] b1;
          (_, amp_empty, p1) \<leftarrow> GET_PARAM self 0 POS_CALC_REG_AMPFIFO_MONIT1_CSR
            (Single_Bit POS_CALC_AMPFIFO_MONIT1_CSR_EMPTY) None junk (snd w);
          (_, pos_empty, p2) \<leftarrow> GET_PARAM self 0 POS_CALC_REG_POSFIFO_MONIT1_CSR
            (Single_Bit POS_CALC_POSFIFO_MONIT1_CSR_EMPTY) None junk p1;
          (b3, p3) \<leftarrow> (if amp_empty = 0 then get_fifo self POS_CALC_AMPFIFO_MONIT1_REGS 0 junk b2 p2 else Some (b2, p2));
          (b4, p4) \<leftarrow> (if pos_empty = 0 then get_fifo self POS_CALC_POSFIFO_MONIT1_REGS 20 junk b3 p3 else Some (b3, p3));
          b5 \<leftarrow> (if amp_empty = 0 then put_at 16 [1] b4 else Some b4);
          b6 \<leftarrow> (if pos_empty = 0 then put_at 36 [1] b5 else Some b5);
          Some (40, (self, p4), Some b6) })"

definition dsp_exp_fp :: "'l monit_env \<Rightarrow> u32 \<Rightarrow> monit_event list \<Rightarrow> ('o, 'l, 'p) dsp_func list" where
  "dsp_exp_fp Z junk evs = [
s_dsp_set_get_kx junk, s_dsp_set_get_ky junk, s_dsp_set_get_ksum junk, s_dsp_set_get_ds_tbt_thres junk,
      s_dsp_set_get_ds_fofb_thres junk, s_dsp_set_get_ds_monit_thres junk,
      s_dsp_set_get_pos_calc_cfg_test_data junk, s_dsp_set_get_monit_amp_ch0 junk,
      s_dsp_set_get_monit_amp_ch1 junk, s_dsp_set_get_monit_amp_ch2 junk, s_dsp_set_get_monit_amp_ch3 junk,
      s_dsp_set_get_monit_pos_x junk, s_dsp_set_get_monit_pos_y junk, s_dsp_set_get_monit_pos_q junk,
      s_dsp_set_get_monit_pos_sum junk, s_dsp_set_get_monit_updt junk, s_dsp_monit_poll_time Z junk evs,
      s_dsp_set_get_monit1_amp_ch0 junk, s_dsp_set_get_monit1_amp_ch1 junk, s_dsp_set_get_monit1_amp_ch2 junk,
      s_dsp_set_get_monit1_amp_ch3 junk, s_dsp_set_get_monit1_pos_x junk, s_dsp_set_get_monit1_pos_y junk,
      s_dsp_set_get_monit1_pos_q junk, s_dsp_set_get_monit1_pos_sum junk, s_dsp_set_get_monit1_updt junk,
      s_dsp_monit1_amp_pos junk, s_dsp_set_get_sw_tag_en junk, s_dsp_set_get_sw_data_mask_en junk,
      s_dsp_set_get_sw_data_mask_samples junk, s_dsp_set_get_tbt_tag_en junk, s_dsp_set_get_tbt_tag_dly junk,
      s_dsp_set_get_tbt_data_mask_en junk, s_dsp_set_get_tbt_data_mask_samples_beg junk,
      s_dsp_set_get_tbt_data_mask_samples_end junk, s_dsp_set_get_sw_tag_desync_cnt_rst junk,
      s_dsp_set_get_sw_tag_desync_cnt junk, s_dsp_set_get_tbt_tag_desync_cnt_rst junk,
      s_dsp_set_get_tbt_tag_desync_cnt junk, s_dsp_set_get_monit1_tag_en junk,
      s_dsp_set_get_monit1_tag_dly junk, s_dsp_set_get_monit1_data_mask_en junk,
      s_dsp_set_get_monit1_data_mask_samples_beg junk, s_dsp_set_get_monit1_data_mask_samples_end junk,
      s_dsp_set_get_monit1_tag_desync_cnt_rst junk, s_dsp_set_get_monit1_tag_desync_cnt junk,
      s_dsp_set_get_monit_tag_en junk, s_dsp_set_get_monit_tag_dly junk, s_dsp_set_get_monit_data_mask_en junk,
      s_dsp_set_get_monit_data_mask_samples_beg junk, s_dsp_set_get_monit_data_mask_samples_end junk,
      s_dsp_set_get_monit_tag_desync_cnt_rst junk, s_dsp_set_get_monit_tag_desync_cnt junk,
      s_dsp_offset_x junk, s_dsp_offset_y junk]"

definition dsp_ops :: "'w smio_ops" where "dsp_ops = not_impl_ops"

definition dsp_init ::
  "bool \<Rightarrow> (nat \<Rightarrow> bool) \<Rightarrow> 'l monit_env \<Rightarrow> (nat \<Rightarrow> bool) \<Rightarrow> 'l \<Rightarrow> u32 \<Rightarrow> monit_event list \<Rightarrow> nat list \<Rightarrow>
     ('v smio_ops, 'l smio_dsp, 'p) smio \<Rightarrow> 'p \<Rightarrow> (('v smio_ops, 'l smio_dsp, 'p) smio_world, msg_args) dheap \<Rightarrow>
     (smio_err \<times> ('v smio_ops, 'l smio_dsp, 'p) smio \<times> 'p \<times> (('v smio_ops, 'l smio_dsp, 'p) smio_world, msg_args) dheap) option" where
  "dsp_init ok ze E al l junk evs exp_ops self p h =
     mod_init ok ze DSP_SDB_DEVID DSP_SDB_NAME dsp_ops exp_ops (dsp_exp_fp E junk evs) (smio_dsp_new E al l) self p h"

definition dsp_shutdown :: "('v smio_ops, 'l smio_dsp, 'p) smio \<Rightarrow> smio_err \<times> ('v smio_ops, 'l smio_dsp, 'p) smio" where
  "dsp_shutdown self = mod_shutdown self"

text \<open>The registers and the fields of the FIFOs.\<close>

lemmas dsp_fifo_regs = POS_CALC_REG_AMPFIFO_MONIT_CSR_def
  POS_CALC_AMPFIFO_MONIT_CSR_EMPTY_def
  POS_CALC_REG_AMPFIFO_MONIT_R0_def
  POS_CALC_AMPFIFO_MONIT_R0_AMP_CH0_def
  POS_CALC_REG_AMPFIFO_MONIT_R1_def
  POS_CALC_AMPFIFO_MONIT_R1_AMP_CH1_def
  POS_CALC_REG_AMPFIFO_MONIT_R2_def
  POS_CALC_AMPFIFO_MONIT_R2_AMP_CH2_def
  POS_CALC_REG_AMPFIFO_MONIT_R3_def
  POS_CALC_AMPFIFO_MONIT_R3_AMP_CH3_def
  POS_CALC_REG_AMPFIFO_MONIT1_CSR_def
  POS_CALC_AMPFIFO_MONIT1_CSR_EMPTY_def
  POS_CALC_REG_AMPFIFO_MONIT1_R0_def
  POS_CALC_AMPFIFO_MONIT1_R0_AMP_CH0_def
  POS_CALC_REG_AMPFIFO_MONIT1_R1_def
  POS_CALC_AMPFIFO_MONIT1_R1_AMP_CH1_def
  POS_CALC_REG_AMPFIFO_MONIT1_R2_def
  POS_CALC_AMPFIFO_MONIT1_R2_AMP_CH2_def
  POS_CALC_REG_AMPFIFO_MONIT1_R3_def
  POS_CALC_AMPFIFO_MONIT1_R3_AMP_CH3_def
  POS_CALC_REG_POSFIFO_MONIT1_CSR_def
  POS_CALC_POSFIFO_MONIT1_CSR_EMPTY_def
  POS_CALC_REG_POSFIFO_MONIT1_R0_def
  POS_CALC_POSFIFO_MONIT1_R0_POS_X_def
  POS_CALC_REG_POSFIFO_MONIT1_R1_def
  POS_CALC_POSFIFO_MONIT1_R1_POS_Y_def
  POS_CALC_REG_POSFIFO_MONIT1_R2_def
  POS_CALC_POSFIFO_MONIT1_R2_POS_Q_def
  POS_CALC_REG_POSFIFO_MONIT1_R3_def
  POS_CALC_POSFIFO_MONIT1_R3_POS_SUM_def
  POS_CALC_AMPFIFO_MONIT_REGS_def POS_CALC_AMPFIFO_MONIT1_REGS_def POS_CALC_POSFIFO_MONIT1_REGS_def

end
