(* ===== verification/Parts_Facts.thy ===== *)
theory Parts_Facts
  imports Mod_Dsp
begin

text \<open>
  What holds of the modules with functions of their own. Their parameters are served as a store, as
  those of the other modules are, whatever the rest of the module keeps in its handler. The actor of
  the position calculation answers for its polling time, and does not survive a failed read.
\<close>

section \<open>Parameters\<close>













section \<open>The polling time\<close>

text \<open>The actor, its timer apart: the queue of commands, the answers and the polling time.\<close>

fun pipe_step :: "(string \<times> u32 list) list \<times> u32 list \<times> u32 \<Rightarrow> (string \<times> u32 list) list \<times> u32 list \<times> u32" where
  "pipe_step ([], out, t) = ([], out, t)"
| "pipe_step ((c, as) # q, out, t) =
     (if c = ''MONIT_POLL_TIME_W'' then (q, out, hd as) else (q, out @ [t], t))"

definition poll_command :: "string \<times> u32 list \<Rightarrow> bool" where
  "poll_command m \<longleftrightarrow> (\<exists>v. m = (''MONIT_POLL_TIME_W'', [v])) \<or> m = (''MONIT_POLL_TIME_R'', [])"

definition monit_abs :: "'l smio_dsp \<Rightarrow> (string \<times> u32 list) list \<times> u32 list \<times> u32" where
  "monit_abs d = (da_in d, da_out d, case da_run d of None \<Rightarrow> 0 | Some m \<Rightarrow> dm_poll_time m)"

lemma get_regs_bus:
  assumes bus: "reg_bus rd wr view good mapped" and "good p" and "\<forall>(r, f) \<in> set rs. mapped r"
  shows "\<exists>p'. get_regs rd rs junk p = Some (Some (map (\<lambda>(r, f). field_get f (view p r)) rs), p') \<and> good p' \<and>
    (\<forall>b. mapped b \<longrightarrow> view p' b = view p b)"
  using assms(2,3)
proof (induction rs arbitrary: p)
  case (Cons x rs)
  obtain r f where x: "x = (r, f)" by (cases x)
  then have r: "mapped r" and rs: "\<forall>(r, f) \<in> set rs. mapped r" using Cons.prems(2) by auto
  obtain p1 where p1: "rd p r junk = Some (4, view p r, p1)" "good p1" "\<forall>b. mapped b \<longrightarrow> view p1 b = view p b"
    using reg_bus.rd_view [OF bus Cons.prems(1) r] by blast
  obtain p2 where p2: "get_regs rd rs junk p1 = Some (Some (map (\<lambda>(r, f). field_get f (view p1 r)) rs), p2)" "good p2"
    "\<forall>b. mapped b \<longrightarrow> view p2 b = view p1 b" using Cons.IH [OF p1(2) rs] by blast
  have "map (\<lambda>(r, f). field_get f (view p1 r)) rs = map (\<lambda>(r, f). field_get f (view p r)) rs"
    using p1(3) rs by (intro map_cong) auto
  with p1 p2 show ?case by (simp add: x GET_PARAM_GEN_def)
qed simp

lemma timer_handler_ok:
  assumes bus: "reg_bus (rd_gen parent (smio_get_dealer2 parent)) wr view good mapped" and g: "good p"
    and m: "\<forall>a < 2 ^ 16. word_addr a \<longrightarrow> mapped a"
  shows "\<exists>m' p'. s_smio_dsp_monit_handle_timer E junk parent m p = Some (0, m', p') \<and> good p' \<and>
    dm_poll_time m' = dm_poll_time m"
proof -
  have c: "mapped POS_CALC_REG_AMPFIFO_MONIT_CSR" and rs: "\<forall>(r, f) \<in> set POS_CALC_AMPFIFO_MONIT_REGS. mapped r"
    using m by (simp_all add: dsp_fifo_regs word_addr_def)
  obtain p1 where p1: "rd_gen parent (smio_get_dealer2 parent) p POS_CALC_REG_AMPFIFO_MONIT_CSR junk =
      Some (4, view p POS_CALC_REG_AMPFIFO_MONIT_CSR, p1)" "good p1" using reg_bus.rd_view [OF bus g c] by blast
  obtain p2 vs where p2: "get_regs (rd_gen parent (smio_get_dealer2 parent)) POS_CALC_AMPFIFO_MONIT_REGS junk p1 =
      Some (Some vs, p2)" "good p2" using get_regs_bus [OF bus p1(2) rs] by blast
  show ?thesis using p1 p2
    by (auto simp: s_smio_dsp_monit_handle_timer_def GET_PARAM_GEN_def RW_OK_def split: prod.split)
qed

lemma monit_step_abs:
  assumes bus: "reg_bus (rd_gen parent (smio_get_dealer2 parent)) wr view good mapped" and g: "good p"
    and m: "\<forall>a < 2 ^ 16. word_addr a \<longrightarrow> mapped a" and r: "da_run d \<noteq> None" and q: "list_all poll_command (da_in d)"
    and e: "ev \<noteq> Monit_Interrupt"
  shows "\<exists>d' p'. monit_step E junk parent ev (d, p) = Some (d', p') \<and> good p' \<and> da_run d' \<noteq> None \<and>
    monit_abs d' = (if ev = Monit_Pipe then pipe_step (monit_abs d) else monit_abs d)"
proof -
  obtain m0 where m0: "da_run d = Some m0" using r by blast
  show ?thesis
  proof (cases ev)
    case Monit_Timer
    with timer_handler_ok [OF bus g m, of E junk m0] show ?thesis by (auto simp: m0 monit_abs_def)
  next
    case Monit_Pipe
    show ?thesis
    proof (cases "da_in d")
      case Nil
      with Monit_Pipe g show ?thesis by (simp add: m0 monit_abs_def)
    next
      case (Cons c cs)
      then have "poll_command c" using q by simp
      then consider v where "c = (''MONIT_POLL_TIME_W'', [v])" | "c = (''MONIT_POLL_TIME_R'', [])"
        unfolding poll_command_def by blast
      then show ?thesis
      proof cases
        case 1
        obtain tid l where "me_timer E v (me_timer_end E (dm_timer_id m0) (dm_env m0)) = (tid, l)" by fastforce
        with 1 Monit_Pipe g Cons show ?thesis
          by (simp add: m0 monit_abs_def after_pipe_def s_smio_dsp_monit_handle_pipe_mgmt_def)
      next
        case 2
        with Monit_Pipe g Cons show ?thesis
          by (simp add: m0 monit_abs_def after_pipe_def s_smio_dsp_monit_handle_pipe_mgmt_def)
      qed
    qed
  qed (use e in simp)
qed

text \<open>Over any schedule without interruption the actor is the pipe alone, run as often as a message
  is received.\<close>

lemma pipe_step_commands:
  "list_all poll_command q \<Longrightarrow> list_all poll_command (fst (pipe_step (q, out, t)))"
  by (cases q) auto

lemma monit_run_abs:
  assumes bus: "reg_bus (rd_gen parent (smio_get_dealer2 parent)) wr view good mapped"
    and m: "\<forall>a < 2 ^ 16. word_addr a \<longrightarrow> mapped a" and "good p" and "da_run d \<noteq> None" and "list_all poll_command (da_in d)"
    and "Monit_Interrupt \<notin> set evs"
  shows "\<exists>d' p'. monit_run E junk parent evs (d, p) = Some (d', p') \<and> good p' \<and> da_run d' \<noteq> None \<and>
    monit_abs d' = (pipe_step ^^ count_list evs Monit_Pipe) (monit_abs d)"
  using assms(3-)
proof (induction evs arbitrary: d p)
  case (Cons ev evs)
  obtain d1 p1 where 1: "monit_step E junk parent ev (d, p) = Some (d1, p1)" "good p1" "da_run d1 \<noteq> None"
    "monit_abs d1 = (if ev = Monit_Pipe then pipe_step (monit_abs d) else monit_abs d)"
    using monit_step_abs [OF bus Cons.prems(1) m Cons.prems(2,3), of ev E junk] Cons.prems(4) by auto
  have "list_all poll_command (da_in d1)"
    using 1(4) Cons.prems(3) pipe_step_commands by (auto simp: monit_abs_def split: if_splits dest: arg_cong [of _ _ fst])
  from Cons.IH [OF 1(2,3) this] Cons.prems(4) obtain d' p' where 2: "monit_run E junk parent evs (d1, p1) = Some (d', p')"
    "good p'" "da_run d' \<noteq> None" "monit_abs d' = (pipe_step ^^ count_list evs Monit_Pipe) (monit_abs d1)" by auto
  then show ?case using 1 by (simp add: funpow_swap1)
qed simp

lemma pipe_done: "(pipe_step ^^ n) ([], out, t) = ([], out, t)"
  by (induction n) simp_all

lemma pipe_write_read:
  assumes "2 \<le> n"
  shows "(pipe_step ^^ n) ([(''MONIT_POLL_TIME_W'', [v :: u32]), (''MONIT_POLL_TIME_R'', [])], [], t) = ([], [v], v)"
proof -
  obtain k where "n = Suc (Suc k)" using assms by (metis Suc_le_D Suc_le_mono numeral_2_eq_2)
  then show ?thesis by (simp add: funpow_swap1 pipe_done del: funpow.simps(2) add: funpow_Suc_right)
qed

text \<open>An environment that counts its timers, and a module over it.\<close>

definition monit_env0 :: "nat monit_env" where
  "monit_env0 = \<lparr>me_timer = (\<lambda>_ n. (int n + 1, n + 1)), me_timer_end = (\<lambda>_ n. n), me_msg = True, me_send = (\<lambda>_ n. (0, n))\<rparr>"

definition dsp_smio :: "'p sock \<Rightarrow> (unit smio_ops, nat smio_dsp, 'p) smio" where
  "dsp_smio S = \<lparr>sm_id = DSP_SDB_DEVID, sm_inst_id = 0, sm_base = 0x4000000000310000, sm_name = Some DSP_SDB_NAME,
     sm_service = [], sm_endpoint = [],
     sm_handler = Some \<lparr>da_in = [], da_out = [], da_run = Some \<lparr>dm_timer_id = 1, dm_poll_time = 4, dm_env = 1\<rparr>\<rparr>,
     sm_dealer = S, sm_dealer2 = S, sm_exp_ops = None, sm_ops = None,
     sm_thsafe = Some (smio_thsafe_client_zmq_ops (\<lambda>_. True))\<rparr>"

text \<open>C13: the polling time of the monitoring actor is read back as it was written, whatever its timer
  does in between. With the module started (no command or answer pending) over the PCI Express board,
  a write request is answered at once, and the following read request returns the value, for every
  schedule of timer expiries and receptions in which the actor gets to receive both commands.\<close>

theorem dsp_poll_time_roundtrip:
  assumes "board_ok H V" and "pcie_good H V board" and "thsafe_ready cast_ep (llio_ops_pcie H al) srv"
    and "smio_ready (self\<lparr>sm_dealer := sm_dealer2 self\<rparr>) rid" and "mod_base (sm_base self)"
    and "sm_handler self = Some \<lparr>da_in = [], da_out = [], da_run = Some m\<rparr>"
    and "Monit_Interrupt \<notin> set evs" and "2 \<le> count_list evs Monit_Pipe" and "length b = 4"
  shows "\<exists>self1 self2 board' srv' proto'.
    s_dsp_monit_poll_time E junk [] (self, (board, srv, proto, [])) \<lparr>tag = EXP_MSG_ZMQ_TAG, content = [le_bytes 4 (0 :: u32), le_bytes 4 (v :: u32)]\<rparr> (Some b) =
      Some (0, (self1, (board, srv, proto, [])), Some b) \<and>
    s_dsp_monit_poll_time E junk evs (self1, (board, srv, proto, [])) \<lparr>tag = EXP_MSG_ZMQ_TAG, content = [le_bytes 4 (1 :: u32), le_bytes 4 (x :: u32)]\<rparr> (Some b) =
      Some (4, (self2, (board', srv', proto', [])), Some (le_bytes 4 v)) \<and>
    pcie_good H V board' \<and> thsafe_ready cast_ep (llio_ops_pcie H al) srv'"
proof -
  let ?self = "self\<lparr>sm_dealer := sm_dealer2 self\<rparr>"
  let ?d = "\<lparr>da_in = [(''MONIT_POLL_TIME_W'', [v])], da_out = [], da_run = Some m\<rparr>"
  let ?d1 = "?d\<lparr>da_in := [(''MONIT_POLL_TIME_W'', [v]), (''MONIT_POLL_TIME_R'', [])]\<rparr>"
  let ?self1 = "self\<lparr>sm_handler := Some ?d\<rparr>"
  let ?p = "(board, srv, proto, [])"
  note bus0 = smio_bus [OF assms(4) client_bus [OF pcie_llio_bus [OF assms(1)]], of cast_ep al]
  have rd: "smio_rd ?self = rd_gen ?self1 (smio_get_dealer2 ?self1)"
    unfolding rd_gen_dealer [symmetric] by (intro ext) (simp add: rd_gen_def smio_get_dealer_def smio_get_dealer2_def
        smio_thsafe_client_read_32_gen_def SMIO_FUNC_WRAPPER_def)
  note bus = bus0 [unfolded rd]
  have m: "\<forall>a < 2 ^ 16. word_addr a \<longrightarrow> smio_addr ?self data_addr a"
  proof (intro allI impI)
    fix a :: u64 assume "a < 2 ^ 16" and w: "word_addr a"
    then have "take_bit 16 (unat a) = unat a" by (intro take_bit_nat_eq_self) (simp add: word_less_nat_alt)
    then have "take_bit 16 (of_nat (unat a) :: u64) = of_nat (unat a)" unfolding take_bit_of_nat by simp
    then have "take_bit 16 a = a" by simp
    with base_or_addr [of ?self a, OF _ _ w] assms(5) show "smio_addr ?self data_addr a" by simp
  qed
  have g: "client_good cast_ep (llio_ops_pcie H al) (pcie_good H V) ?p" using assms(2,3) by simp
  have q: "list_all poll_command (da_in ?d1)" by (simp add: poll_command_def)
  obtain d' p' where r: "monit_run E junk ?self1 evs (?d1, ?p) = Some (d', p')"
    "client_good cast_ep (llio_ops_pcie H al) (pcie_good H V) p'"
    "monit_abs d' = (pipe_step ^^ count_list evs Monit_Pipe) (monit_abs ?d1)"
    using monit_run_abs [OF bus m g _ q assms(7), of E junk] by auto
  have out: "da_out d' = [v]" using r(3) pipe_write_read [OF assms(8), of v "dm_poll_time m"] by (simp add: monit_abs_def)
  obtain board' srv' proto' where p': "p' = (board', srv', proto', [])" using r(2) by (cases p') auto
  show ?thesis
    by (rule exI [of _ ?self1], rule exI [of _ "self\<lparr>sm_handler := Some (d'\<lparr>da_out := []\<rparr>)\<rparr>"],
        rule exI [of _ board'], rule exI [of _ srv'], rule exI [of _ proto'])
      (use assms(6,9) r(1,2) out p' in \<open>simp add: s_dsp_monit_poll_time_def EXP_MSG_ZMQ_ARG_def smio_get_handler_def
        smio_send_dsp_monit_mgmt_msg_def smio_recv_dsp_monit_mgmt_msg_def DSP_OK_def put_ret_def wr_word_def\<close>)
qed

theorem dsp_poll_time_roundtrip_witness:
  "\<exists>(srv :: srv_table) (self :: (unit smio_ops, nat smio_dsp, srv_peer) smio) self1 self2 r.
    s_dsp_monit_poll_time monit_env0 0 [] (self, (board_open, srv, proto0, []))
      \<lparr>tag = EXP_MSG_ZMQ_TAG, content = [le_bytes 4 (0 :: u32), le_bytes 4 (20 :: u32)]\<rparr> (Some [0, 0, 0, 0]) =
      Some (0, (self1, (board_open, srv, proto0, [])), Some [0, 0, 0, 0]) \<and>
    s_dsp_monit_poll_time monit_env0 0 [Monit_Timer, Monit_Pipe, Monit_Timer, Monit_Pipe, Monit_Timer]
      (self1, (board_open, srv, proto0, [])) \<lparr>tag = EXP_MSG_ZMQ_TAG, content = [le_bytes 4 (1 :: u32), le_bytes 4 (0 :: u32)]\<rparr> (Some [0, 0, 0, 0]) =
      Some (4, (self2, r), Some (le_bytes 4 (20 :: u32)))"
proof -
  obtain srv :: srv_table where srv: "thsafe_ready cast0 (llio_ops_pcie board_hw (\<lambda>_. True)) srv"
    using srv_ready unfolding srv_llio_def by blast
  let ?self = "dsp_smio (devio_sock [1] :: srv_peer sock)"
  have self: "smio_ready (?self\<lparr>sm_dealer := sm_dealer2 ?self\<rparr>) [1]" "mod_base (sm_base ?self)"
    "sm_handler ?self = Some \<lparr>da_in = [], da_out = [], da_run = Some \<lparr>dm_timer_id = 1, dm_poll_time = 4, dm_env = 1\<rparr>\<rparr>"
    by (simp_all add: smio_ready_def dsp_smio_def swap_base)
  have e: "Monit_Interrupt \<notin> set [Monit_Timer, Monit_Pipe, Monit_Timer, Monit_Pipe, Monit_Timer]"
    "2 \<le> count_list [Monit_Timer, Monit_Pipe, Monit_Timer, Monit_Pipe, Monit_Timer] Monit_Pipe"
    "length [0, 0, 0, 0 :: u8] = 4" by simp_all
  from dsp_poll_time_roundtrip [OF board_hw_ok board_open_good srv self e, of monit_env0 0 proto0 20 0]
  show ?thesis by (elim exE conjE) (intro exI conjI; assumption)
qed

text \<open>C14: one failed read of the status register ends the monitoring. When the timer fires and the
  client cannot read the register, the handler's result ends the reactor, and the actor with it; from
  then on no request for the polling time is ever answered, nor any other the module gets while it
  waits: the function does not return, for any request and whatever happens meanwhile.\<close>

theorem dsp_monitor_dies:
  assumes "da_run d = Some m" and "smio_get_handler self = Some d" and "n \<noteq> 4"
    and "rd_gen self (smio_get_dealer2 self) p POS_CALC_REG_AMPFIFO_MONIT_CSR junk = Some (n, v, p')"
    and "EXP_MSG_ZMQ_ARG 0 msg = Some rw" and "EXP_MSG_ZMQ_ARG 1 msg = Some x"
  shows "monit_step E junk self Monit_Timer (d, p) = Some (d\<lparr>da_run := None\<rparr>, p') \<and>
    s_dsp_monit_poll_time E junk' evs (self\<lparr>sm_handler := Some (d\<lparr>da_run := None\<rparr>)\<rparr>, q) msg ret = None"
  using assms by (simp add: s_smio_dsp_monit_handle_timer_def GET_PARAM_GEN_def RW_OK_def RW_READ_EAGAIN_def
      s_dsp_monit_poll_time_def smio_get_handler_def smio_send_dsp_monit_mgmt_msg_def)

theorem dsp_monitor_dies_witness:
  "monit_step monit_env0 0 (dsp_smio dead_sock) Monit_Timer
      (\<lparr>da_in = [], da_out = [], da_run = Some \<lparr>dm_timer_id = 1, dm_poll_time = 4, dm_env = 1\<rparr>\<rparr>, ()) =
      Some (\<lparr>da_in = [], da_out = [], da_run = None\<rparr>, ()) \<and>
    s_dsp_monit_poll_time monit_env0 0 [Monit_Pipe]
      ((dsp_smio dead_sock)\<lparr>sm_handler := Some \<lparr>da_in = [], da_out = [], da_run = None\<rparr>\<rparr>, ())
      \<lparr>tag = EXP_MSG_ZMQ_TAG, content = [[1, 0, 0, 0], [0, 0, 0, 0]]\<rparr> (Some [0, 0, 0, 0]) = None"
proof -
  let ?d = "\<lparr>da_in = [], da_out = [], da_run = Some \<lparr>dm_timer_id = 1, dm_poll_time = 4, dm_env = 1 :: nat\<rparr>\<rparr>"
  let ?msg = "\<lparr>tag = EXP_MSG_ZMQ_TAG, content = [[1, 0, 0, 0], [0, 0, 0, 0 :: u8]]\<rparr>"
  have 1: "da_run ?d = Some \<lparr>dm_timer_id = 1, dm_poll_time = 4, dm_env = 1\<rparr>" "smio_get_handler (dsp_smio dead_sock) = Some ?d"
    "(-1 :: int) \<noteq> 4" by (simp_all add: smio_get_handler_def dsp_smio_def)
  have 2: "rd_gen (dsp_smio dead_sock) (smio_get_dealer2 (dsp_smio dead_sock)) () POS_CALC_REG_AMPFIFO_MONIT_CSR 0 =
      Some (-1, le_word (le_bytes 4 (0 :: u32)), ())"
    by (simp add: rd_gen_def smio_get_dealer2_def dsp_smio_def smio_thsafe_client_read_32_gen_def SMIO_FUNC_WRAPPER_def
        smio_thsafe_client_zmq_ops_def thsafe_zmq_client_read_32_def s_thsafe_zmq_client_read_generic_def send_request_def
        build_msg_def dead_sock_def)
  have 3: "EXP_MSG_ZMQ_ARG 0 ?msg = Some (le_word [1, 0, 0, 0])" "EXP_MSG_ZMQ_ARG 1 ?msg = Some (le_word [0, 0, 0, 0])"
    by (simp_all add: EXP_MSG_ZMQ_ARG_def rd_word_def)
  from dsp_monitor_dies [OF 1 2 3, of monit_env0 0 "[Monit_Pipe]" "()" "Some [0, 0, 0, 0]"] show ?thesis by simp
qed

end
