(* ===== verification/Spi.thy ===== *)
theory Spi
  imports Smpr
begin

text \<open>
  SPI, src/sm_io/protocols/ops/sm_pr_spi.c, over the OpenCores core of hw/wb_spi_regs.h. A transfer
  sends the chip's register address and data as one character of up to 128 bits and receives as many:
  the core is set up, the bytes written to its TX registers, the transfer started, its end awaited in
  ten readings of the busy bit, and the RX registers read. \<open>junk\<close> is in the variables that registers
  are read into.
\<close>

section \<open>Registers\<close>

definition SPI_PROTO_REG_TX0 :: u64 where [regs]: "SPI_PROTO_REG_TX0 = 0x0"
definition SPI_PROTO_REG_RX0 :: u64 where [regs]: "SPI_PROTO_REG_RX0 = 0x0"
definition SPI_PROTO_REG_CTRL :: u64 where [regs]: "SPI_PROTO_REG_CTRL = 0x10"
definition SPI_PROTO_REG_DIVIDER :: u64 where [regs]: "SPI_PROTO_REG_DIVIDER = 0x14"
definition SPI_PROTO_REG_SS :: u64 where [regs]: "SPI_PROTO_REG_SS = 0x18"
definition SPI_PROTO_REG_CFG_BIDIR :: u64 where [regs]: "SPI_PROTO_REG_CFG_BIDIR = 0x1c"
definition SPI_PROTO_REG_RX0_SINGLE :: u64 where [regs]: "SPI_PROTO_REG_RX0_SINGLE = 0x20"
definition SPI_PROTO_REG_RXTX_NUM :: nat where "SPI_PROTO_REG_RXTX_NUM = 4"

definition SPI_PROTO_CTRL_ASS :: u32 where "SPI_PROTO_CTRL_ASS = WBGEN2_GEN_MASK 13 1"
definition SPI_PROTO_CTRL_TXNEG :: u32 where "SPI_PROTO_CTRL_TXNEG = WBGEN2_GEN_MASK 10 1"
definition SPI_PROTO_CTRL_GO_BSY :: u32 where "SPI_PROTO_CTRL_GO_BSY = WBGEN2_GEN_MASK 8 1"
definition SPI_PROTO_CTRL_BSY :: u32 where "SPI_PROTO_CTRL_BSY = WBGEN2_GEN_MASK 8 1"
definition SPI_PROTO_CTRL_CHARLEN :: param_field where "SPI_PROTO_CTRL_CHARLEN = gen_field 0 7"
definition SPI_PROTO_CTRL_CHARLEN_MASK :: u32 where "SPI_PROTO_CTRL_CHARLEN_MASK = WBGEN2_GEN_MASK 0 7"
definition SPI_PROTO_CTRL :: param_field where
  "SPI_PROTO_CTRL = Mult_Bit (\<lambda>reg. reg) (\<lambda>v. v) (WBGEN2_GEN_MASK 0 16)"
definition SPI_PROTO_DIVIDER :: param_field where "SPI_PROTO_DIVIDER = gen_field 0 16"
definition SPI_PROTO_SS :: param_field where "SPI_PROTO_SS = gen_field 0 8"
definition SPI_PROTO_CFG_BIDIR_CHARLEN :: param_field where "SPI_PROTO_CFG_BIDIR_CHARLEN = gen_field 0 7"
definition SPI_PROTO_CFG_BIDIR_EN :: u32 where "SPI_PROTO_CFG_BIDIR_EN = WBGEN2_GEN_MASK 7 1"

definition SM_PR_SPI_DFLT_SYS_FREQ :: u32 where "SM_PR_SPI_DFLT_SYS_FREQ = 100000000"
definition SM_PR_SPI_DFLT_SPI_FREQ :: u32 where "SM_PR_SPI_DFLT_SPI_FREQ = 100000"
definition SM_PR_SPI_DFLT_SPI_CONFIG :: u32 where "SM_PR_SPI_DFLT_SPI_CONFIG = SPI_PROTO_CTRL_ASS OR SPI_PROTO_CTRL_TXNEG"
definition SM_PR_SPI_DFLT_BIDIR :: bool where "SM_PR_SPI_DFLT_BIDIR = False"
definition SM_PR_SPI_MAX_TRIES :: nat where "SM_PR_SPI_MAX_TRIES = 10"

section \<open>State\<close>

record smpr_proto_spi =
  sp_base :: u64
  sp_sys_freq :: u32
  sp_spi_freq :: u32
  sp_init_config :: u32
  sp_bidir :: bool

record spi_proto_args =
  sa_sys_freq :: u32
  sa_spi_freq :: u32
  sa_init_config :: u32
  sa_bidir :: bool

record smpr_spi =
  ss_ss :: u32
  ss_addr_msb :: u32

datatype spi_mode = SPI_MODE_WRITE | SPI_MODE_READ | SPI_MODE_WRITE_READ

type_synonym spi_dev = "(smpr_proto_spi, smpr_spi) smpr_dev"

definition smpr_proto_spi_new :: "bool \<Rightarrow> u64 \<Rightarrow> smpr_proto_spi option" where
  "smpr_proto_spi_new ok base = (if ok then Some \<lparr>sp_base = base, sp_sys_freq = 0, sp_spi_freq = 0,
     sp_init_config = 0, sp_bidir = False\<rparr> else None)"

text \<open>The structure is freed, but it is the function's own pointer that is cleared.\<close>

definition smpr_proto_spi_destroy :: "smpr_proto_spi option \<Rightarrow> smpr_err \<times> smpr_proto_spi option" where
  "smpr_proto_spi_destroy self_p = (SMPR_SUCCESS, self_p)"

definition smpr_spi_new :: "bool \<Rightarrow> u32 \<Rightarrow> u32 \<Rightarrow> smpr_spi option" where
  "smpr_spi_new ok ss addr_msb = (if ok then Some \<lparr>ss_ss = ss, ss_addr_msb = addr_msb\<rparr> else None)"

definition smpr_spi_destroy :: "smpr_spi option \<Rightarrow> smpr_err \<times> smpr_spi option" where
  "smpr_spi_destroy self_p = (SMPR_SUCCESS, self_p)"

definition smpr_spi_set_ss :: "smpr_spi \<Rightarrow> u32 \<Rightarrow> smpr_err \<times> smpr_spi" where
  "smpr_spi_set_ss self ss = (SMPR_SUCCESS, self\<lparr>ss_ss := ss\<rparr>)"

definition smpr_spi_get_ss :: "smpr_spi \<Rightarrow> u32" where "smpr_spi_get_ss = ss_ss"

definition smpr_spi_set_addr_msb :: "smpr_spi \<Rightarrow> u32 \<Rightarrow> smpr_err \<times> smpr_spi" where
  "smpr_spi_set_addr_msb self addr_msb = (SMPR_SUCCESS, self\<lparr>ss_addr_msb := addr_msb\<rparr>)"

definition smpr_spi_get_addr_msb :: "smpr_spi \<Rightarrow> u32" where "smpr_spi_get_addr_msb = ss_addr_msb"

section \<open>Start\<close>

text \<open>Both registers are read back after they are written, and must hold what was written.\<close>

definition s_spi_init :: "u32 \<Rightarrow> ('o, 'h, 'p) smio \<Rightarrow> spi_dev \<Rightarrow> 'p \<Rightarrow> (smpr_err \<times> 'p) option" where
  "s_spi_init junk parent dev p =
     (case smpr_get_handler dev of
        None \<Rightarrow> Some (SMPR_ERR_PROTO_INFO, p)
      | Some spi \<Rightarrow> do {
          f_freq \<leftarrow> proto_divider 2 (sp_sys_freq spi) (sp_spi_freq spi);
          let freq = WBGEN2_GEN_WRITE (ucast f_freq) 0 16;
          (rw_err, p1) \<leftarrow> SET_PARAM parent (sp_base spi) SPI_PROTO_REG_DIVIDER SPI_PROTO_DIVIDER freq None None junk p;
          if rw_err \<noteq> RW_OK then Some (SMPR_ERR_RW_SMIO, p1)
          else do {
            (_, freq_rb, p2) \<leftarrow> smio_rd parent p1 (sp_base spi OR SPI_PROTO_REG_DIVIDER) junk;
            if field_get SPI_PROTO_DIVIDER freq_rb \<noteq> freq then Some (SMPR_ERR_RW_SMIO, p2)
            else do {
              (rw_err', p3) \<leftarrow> SET_PARAM parent (sp_base spi) SPI_PROTO_REG_CTRL SPI_PROTO_CTRL (sp_init_config spi) None None junk p2;
              if rw_err' \<noteq> RW_OK then Some (SMPR_ERR_RW_SMIO, p3)
              else do {
                (_, config_rb, p4) \<leftarrow> smio_rd parent p3 (sp_base spi OR SPI_PROTO_REG_CTRL) junk;
                Some (if config_rb \<noteq> sp_init_config spi then SMPR_ERR_RW_SMIO else SMPR_SUCCESS, p4) } } } })"

definition spi_open ::
  "bool \<Rightarrow> u32 \<Rightarrow> ('o, 'h, 'p) smio \<Rightarrow> spi_dev \<Rightarrow> u64 \<Rightarrow> spi_proto_args option \<Rightarrow> 'p \<Rightarrow> (int \<times> spi_dev \<times> 'p) option" where
  "spi_open ok junk parent dev base as p =
     (case smpr_proto_spi_new ok base of
        None \<Rightarrow> Some (-1, dev, p)
      | Some spi0 \<Rightarrow>
          let spi = (case as of
                Some a \<Rightarrow> spi0\<lparr>sp_sys_freq := sa_sys_freq a, sp_spi_freq := sa_spi_freq a,
                  sp_init_config := sa_init_config a, sp_bidir := sa_bidir a\<rparr>
              | None \<Rightarrow> spi0\<lparr>sp_sys_freq := SM_PR_SPI_DFLT_SYS_FREQ, sp_spi_freq := SM_PR_SPI_DFLT_SPI_FREQ,
                  sp_init_config := SM_PR_SPI_DFLT_SPI_CONFIG, sp_bidir := SM_PR_SPI_DFLT_BIDIR\<rparr>);
              (err, dev1) = smpr_set_handler dev spi
          in if err \<noteq> SMPR_SUCCESS then Some (-1, dev1, p)
             else do {
               (err', p1) \<leftarrow> s_spi_init junk parent dev1 p;
               if err' \<noteq> SMPR_SUCCESS then Some (-1, snd (smpr_unset_handler dev1), p1) else Some (0, dev1, p1) })"

definition spi_release :: "spi_dev \<Rightarrow> (int \<times> spi_dev) option" where
  "spi_release dev =
     (case smpr_unset_handler dev of
        (None, dev1) \<Rightarrow> Some (-1, dev1)
      | (Some spi, dev1) \<Rightarrow> Some (if fst (smpr_proto_spi_destroy (Some spi)) = SMPR_SUCCESS then 0 else -1, dev1))"

section \<open>A transfer\<close>

text \<open>The words are written one after the other, until a write returns -1; the sum of the sizes.\<close>

fun spi_tx :: "('o, 'h, 'p) smio \<Rightarrow> u64 \<Rightarrow> u32 list \<Rightarrow> int \<Rightarrow> 'p \<Rightarrow> ((int + int) \<times> 'p) option" where
  "spi_tx parent a [] err p = Some (Inr err, p)"
| "spi_tx parent a (w # ws) err p = do {
     (num_bytes, p1) \<leftarrow> smio_wr parent p a w;
     if num_bytes = -1 then Some (Inl err, p1) else spi_tx parent (a + 4) ws (err + num_bytes) p1 }"

text \<open>The same for reading \<open>n\<close> words, into a buffer of zeros.\<close>

fun spi_rx :: "('o, 'h, 'p) smio \<Rightarrow> u64 \<Rightarrow> nat \<Rightarrow> int \<Rightarrow> u8 list \<Rightarrow> 'p \<Rightarrow> ((int + u8 list) \<times> 'p) option" where
  "spi_rx parent a 0 err b p = Some (Inr b, p)"
| "spi_rx parent a (Suc n) err b p = do {
     (num_bytes, w, p1) \<leftarrow> smio_rd parent p a 0;
     if num_bytes = -1 then Some (Inl err, p1) else spi_rx parent (a + 4) n (err + num_bytes) (b @ le_bytes 4 w) p1 }"

text \<open>Waiting for the busy bit to clear, in at most \<open>n\<close> readings.\<close>

fun spi_wait :: "('o, 'h, 'p) smio \<Rightarrow> u64 \<Rightarrow> u32 \<Rightarrow> nat \<Rightarrow> 'p \<Rightarrow> (bool \<times> 'p) option" where
  "spi_wait parent base junk 0 p = Some (False, p)"
| "spi_wait parent base junk (Suc n) p = do {
     (rw_err, busy, p1) \<leftarrow> GET_PARAM parent base SPI_PROTO_REG_CTRL (Single_Bit SPI_PROTO_CTRL_BSY) None junk p;
     if rw_err \<noteq> RW_OK then Some (False, p1)
     else if busy = 0 then Some (True, p1)
     else spi_wait parent base junk n p1 }"

text \<open>The words of a buffer of 16 bytes that the data is copied into.\<close>

definition tx_words :: "u8 list \<Rightarrow> nat \<Rightarrow> u32 list" where
  "tx_words bs n = map (\<lambda>i. le_word (take 4 (drop (4 * i) (bs @ replicate (16 - length bs) 0)))) [0..<n]"

text \<open>The character length, in the control register or in that of the bidirectional mode. The two
  results of the latter are combined bitwise.\<close>

definition spi_set_charlen :: "u32 \<Rightarrow> ('o, 'h, 'p) smio \<Rightarrow> smpr_proto_spi \<Rightarrow> u32 \<Rightarrow> 'p \<Rightarrow> (nat \<times> 'p) option" where
  "spi_set_charlen junk parent spi charlen p =
     (if \<not> sp_bidir spi then
        SET_PARAM parent (sp_base spi) SPI_PROTO_REG_CTRL SPI_PROTO_CTRL_CHARLEN charlen None None junk p
      else do {
        (e1, p1) \<leftarrow> SET_PARAM parent (sp_base spi) SPI_PROTO_REG_CFG_BIDIR SPI_PROTO_CFG_BIDIR_CHARLEN charlen None None junk p;
        (e2, p2) \<leftarrow> SET_PARAM parent (sp_base spi) SPI_PROTO_REG_CFG_BIDIR (Single_Bit SPI_PROTO_CFG_BIDIR_EN) 1 None None junk p1;
        Some (e1 OR e2, p2) })"

text \<open>After the core has been set up: the data out, the transfer, the data in. Too few bytes written,
  a failed access or a timeout give -1; a read or write that returns -1 gives the bytes moved so far.\<close>

definition spi_exchange ::
  "u32 \<Rightarrow> ('o, 'h, 'p) smio \<Rightarrow> smpr_proto_spi \<Rightarrow> nat \<Rightarrow> nat \<Rightarrow> u8 list \<Rightarrow> spi_mode \<Rightarrow> 'p \<Rightarrow> (int \<times> u8 list \<times> 'p) option" where
  "spi_exchange junk parent spi sz size_align b mode p = do {
     (sent, p1) \<leftarrow> (if mode = SPI_MODE_WRITE \<or> mode = SPI_MODE_WRITE_READ
       then spi_tx parent (sp_base spi OR SPI_PROTO_REG_TX0) (tx_words b (size_align div 4)) 0 p
       else Some (Inr (int size_align), p));
     case sent of
       Inl err \<Rightarrow> Some (err, b, p1)
     | Inr err \<Rightarrow>
         if err \<noteq> int size_align then Some (-1, b, p1)
         else do {
           (rw_err, p2) \<leftarrow> SET_PARAM parent (sp_base spi) SPI_PROTO_REG_CTRL (Single_Bit SPI_PROTO_CTRL_GO_BSY) 1 None None junk p1;
           if rw_err \<noteq> RW_OK then Some (-1, b, p2)
           else do {
             (done, p3) \<leftarrow> spi_wait parent (sp_base spi) junk SM_PR_SPI_MAX_TRIES p2;
             if \<not> done then Some (-1, b, p3)
             else do {
               (got, p4) \<leftarrow> spi_rx parent (sp_base spi OR (if sp_bidir spi then SPI_PROTO_REG_RX0 else SPI_PROTO_REG_RX0_SINGLE))
                 (size_align div 4) 0 [] p3;
               Some (case got of
                   Inl err' \<Rightarrow> (err', b, p4)
                 | Inr bs \<Rightarrow> (int sz, take sz bs @ drop sz b, p4)) } } } }"

definition s_spi_read_write_raw ::
  "u32 \<Rightarrow> ('o, 'h, 'p) smio \<Rightarrow> spi_dev \<Rightarrow> nat \<Rightarrow> u8 list \<Rightarrow> spi_mode \<Rightarrow> 'p \<Rightarrow> (int \<times> u8 list \<times> 'p) option" where
  "s_spi_read_write_raw junk parent dev sz b mode p =
     (if \<not> (0 < sz \<and> sz * SMPR_BYTE_2_BIT < unat SPI_PROTO_CTRL_CHARLEN_MASK + 1 + 1) then Some (-1, b, p)
      else case smpr_get_handler dev of
        None \<Rightarrow> Some (-1, b, p)
      | Some spi \<Rightarrow>
          if length b < sz then None
          else do {
            (rw_err, _, p1) \<leftarrow> GET_PARAM parent (sp_base spi) SPI_PROTO_REG_CTRL SPI_PROTO_CTRL None junk p;
            if rw_err \<noteq> RW_OK then Some (-1, b, p1)
            else do {
              size_align \<leftarrow> hutils_align_value (of_nat sz) (of_nat SMPR_WB_REG_2_BYTE);
              let charlen = sz * SMPR_BYTE_2_BIT;
              let len_field = (if charlen = SPI_PROTO_REG_RXTX_NUM * SMPR_WB_REG_2_BIT then 0 else charlen);
              (rw_err1, p2) \<leftarrow> SET_PARAM parent (sp_base spi) SPI_PROTO_REG_SS SPI_PROTO_SS
                (smpr_spi_get_ss (pd_spec dev)) None None junk p1;
              if rw_err1 \<noteq> RW_OK then Some (-1, b, p2)
              else do {
                (rw_err2, p3) \<leftarrow> spi_set_charlen junk parent spi (of_nat len_field) p2;
                if rw_err2 \<noteq> RW_OK then Some (-1, b, p3)
                else spi_exchange junk parent spi sz (unat size_align) b mode p3 } } })"

text \<open>The address and the data are put together in the order of the chip. The bytes received go back
  to the caller's buffer, also when it was to be written only.\<close>

definition s_spi_read_write_generic ::
  "u32 \<Rightarrow> ('o, 'h, 'p) smio \<Rightarrow> spi_dev \<Rightarrow> nat \<Rightarrow> u64 \<Rightarrow> nat \<Rightarrow> u8 list option \<Rightarrow> spi_mode \<Rightarrow> 'p \<Rightarrow>
     (int \<times> u8 list option \<times> spi_dev \<times> 'p) option" where
  "s_spi_read_write_generic junk parent dev size_offs offs sz buf mode p = do {
     addr \<leftarrow> addr_bytes size_offs offs;
     raw \<leftarrow> (case buf of
         None \<Rightarrow> Some addr
       | Some b \<Rightarrow> if length b < sz then None
           else Some (if smpr_spi_get_addr_msb (pd_spec dev) \<noteq> 0 then take sz b @ addr else addr @ take sz b));
     (err, raw', p1) \<leftarrow> s_spi_read_write_raw junk parent dev (length raw) raw mode p;
     if \<not> (0 < err \<and> err = int (length raw)) then Some (-1, buf, dev, p1)
     else case buf of
       None \<Rightarrow> if sz = 0 then Some (0, None, dev, p1) else None
     | Some b \<Rightarrow> Some (int sz, Some (take sz raw' @ drop sz b), dev, p1) }"

section \<open>The operations\<close>

definition spi_read_16 :: "u32 \<Rightarrow> (smpr_proto_spi, smpr_spi, 'o, 'h, 'p) smpr_rw" where
  "spi_read_16 junk parent dev size_offs offs b p = s_spi_read_write_generic junk parent dev size_offs offs 2 b SPI_MODE_WRITE_READ p"

definition spi_write_16 :: "u32 \<Rightarrow> (smpr_proto_spi, smpr_spi, 'o, 'h, 'p) smpr_rw" where
  "spi_write_16 junk parent dev size_offs offs b p = s_spi_read_write_generic junk parent dev size_offs offs 2 b SPI_MODE_WRITE p"

definition spi_read_32 :: "u32 \<Rightarrow> (smpr_proto_spi, smpr_spi, 'o, 'h, 'p) smpr_rw" where
  "spi_read_32 junk parent dev size_offs offs b p = s_spi_read_write_generic junk parent dev size_offs offs 4 b SPI_MODE_WRITE_READ p"

definition spi_write_32 :: "u32 \<Rightarrow> (smpr_proto_spi, smpr_spi, 'o, 'h, 'p) smpr_rw" where
  "spi_write_32 junk parent dev size_offs offs b p = s_spi_read_write_generic junk parent dev size_offs offs 4 b SPI_MODE_WRITE p"

definition spi_read_64 :: "u32 \<Rightarrow> (smpr_proto_spi, smpr_spi, 'o, 'h, 'p) smpr_rw" where
  "spi_read_64 junk parent dev size_offs offs b p = s_spi_read_write_generic junk parent dev size_offs offs 8 b SPI_MODE_WRITE_READ p"

definition spi_write_64 :: "u32 \<Rightarrow> (smpr_proto_spi, smpr_spi, 'o, 'h, 'p) smpr_rw" where
  "spi_write_64 junk parent dev size_offs offs b p = s_spi_read_write_generic junk parent dev size_offs offs 8 b SPI_MODE_WRITE p"

definition spi_read_block :: "u32 \<Rightarrow> (smpr_proto_spi, smpr_spi, 'o, 'h, 'p) smpr_rw_block" where
  "spi_read_block junk parent dev size_offs offs sz b p = s_spi_read_write_generic junk parent dev size_offs offs sz b SPI_MODE_WRITE_READ p"

definition spi_write_block :: "u32 \<Rightarrow> (smpr_proto_spi, smpr_spi, 'o, 'h, 'p) smpr_rw_block" where
  "spi_write_block junk parent dev size_offs offs sz b p = s_spi_read_write_generic junk parent dev size_offs offs sz b SPI_MODE_WRITE p"

definition smpr_proto_ops_spi :: "bool \<Rightarrow> u32 \<Rightarrow> (spi_proto_args, smpr_proto_spi, smpr_spi, 'o, 'h, 'p) smpr_proto_ops" where
  "smpr_proto_ops_spi ok junk = \<lparr>proto_name = ''SPI'',
     proto_open = Some (spi_open ok junk), proto_release = Some spi_release,
     proto_read_16 = Some (spi_read_16 junk), proto_read_32 = Some (spi_read_32 junk), proto_read_64 = Some (spi_read_64 junk),
     proto_write_16 = Some (spi_write_16 junk), proto_write_32 = Some (spi_write_32 junk), proto_write_64 = Some (spi_write_64 junk),
     proto_read_block = Some (spi_read_block junk), proto_write_block = Some (spi_write_block junk),
     proto_read_dma = None, proto_write_dma = None\<rparr>"

definition smpr_spi_get_ops ::
  "bool \<Rightarrow> u32 \<Rightarrow> smpr_spi \<Rightarrow> (spi_proto_args, smpr_proto_spi, smpr_spi, 'o, 'h, 'p) smpr_proto_ops" where
  "smpr_spi_get_ops ok junk self = smpr_proto_ops_spi ok junk"

end
