(* ===== verification/I2c.thy ===== *)
theory I2c
  imports Smpr
begin

text \<open>
  I2C, src/sm_io/protocols/ops/sm_pr_i2c.c, over the OpenCores core of hw/wb_i2c_regs.h: every byte
  is a command of the core, whose end is awaited in ten readings of the status register; a byte sent
  must be acknowledged. A read writes the register address first and then, after a repeated start,
  reads the bytes, so the mode of the chip's object is changed during it.
\<close>

section \<open>Registers\<close>

definition I2C_PROTO_REG_PRER_LO :: u64 where [regs]: "I2C_PROTO_REG_PRER_LO = 0x0"
definition I2C_PROTO_REG_PRER_HI :: u64 where [regs]: "I2C_PROTO_REG_PRER_HI = 0x4"
definition I2C_PROTO_REG_CTR :: u64 where [regs]: "I2C_PROTO_REG_CTR = 0x8"
definition I2C_PROTO_REG_TXR :: u64 where [regs]: "I2C_PROTO_REG_TXR = 0xc"
definition I2C_PROTO_REG_RXR :: u64 where [regs]: "I2C_PROTO_REG_RXR = 0xc"
definition I2C_PROTO_REG_CR :: u64 where [regs]: "I2C_PROTO_REG_CR = 0x10"
definition I2C_PROTO_REG_SR :: u64 where [regs]: "I2C_PROTO_REG_SR = 0x10"

definition I2C_PROTO_PRER_LO :: param_field where "I2C_PROTO_PRER_LO = gen_field 0 8"
definition I2C_PROTO_PRER_HI :: param_field where "I2C_PROTO_PRER_HI = gen_field 0 8"
definition I2C_PROTO_CTR_EN :: u32 where "I2C_PROTO_CTR_EN = WBGEN2_GEN_MASK 7 1"
definition I2C_PROTO_TXR :: param_field where "I2C_PROTO_TXR = gen_field 0 8"
definition I2C_PROTO_TXR_RW :: u32 where "I2C_PROTO_TXR_RW = WBGEN2_GEN_MASK 0 1"
definition I2C_PROTO_TXR_ADDR_W :: "u32 \<Rightarrow> u32" where "I2C_PROTO_TXR_ADDR_W v = WBGEN2_GEN_WRITE v 1 7"
definition I2C_PROTO_RXR :: param_field where "I2C_PROTO_RXR = gen_field 0 8"
definition I2C_PROTO_CR :: param_field where "I2C_PROTO_CR = gen_field 0 8"
definition I2C_PROTO_CR_ACK :: u32 where "I2C_PROTO_CR_ACK = WBGEN2_GEN_MASK 3 1"
definition I2C_PROTO_CR_WR :: u32 where "I2C_PROTO_CR_WR = WBGEN2_GEN_MASK 4 1"
definition I2C_PROTO_CR_RD :: u32 where "I2C_PROTO_CR_RD = WBGEN2_GEN_MASK 5 1"
definition I2C_PROTO_CR_STO :: u32 where "I2C_PROTO_CR_STO = WBGEN2_GEN_MASK 6 1"
definition I2C_PROTO_CR_STA :: u32 where "I2C_PROTO_CR_STA = WBGEN2_GEN_MASK 7 1"
definition I2C_PROTO_SR_TIP :: u32 where "I2C_PROTO_SR_TIP = WBGEN2_GEN_MASK 1 1"
definition I2C_PROTO_SR_RXACK :: u32 where "I2C_PROTO_SR_RXACK = WBGEN2_GEN_MASK 7 1"

definition SM_PR_I2C_DFLT_SYS_FREQ :: u32 where "SM_PR_I2C_DFLT_SYS_FREQ = 100000000"
definition SM_PR_I2C_DFLT_I2C_FREQ :: u32 where "SM_PR_I2C_DFLT_I2C_FREQ = 100000"
definition SM_PR_I2C_DFLT_I2C_CONFIG :: u32 where "SM_PR_I2C_DFLT_I2C_CONFIG = 0"
definition SM_PR_I2C_MAX_TRIES :: nat where "SM_PR_I2C_MAX_TRIES = 10"

definition SMPR_PROTO_I2C_TRANS_SIZE_FLAGS_SIZE :: nat where "SMPR_PROTO_I2C_TRANS_SIZE_FLAGS_SIZE = 9"
definition SMPR_PROTO_I2C_TRANS_SIZE_FLAGS_SHIFT :: nat where "SMPR_PROTO_I2C_TRANS_SIZE_FLAGS_SHIFT = 7"
definition SMPR_PROTO_I2C_TRANS_SIZE_FLAGS_MASK :: u32 where
  "SMPR_PROTO_I2C_TRANS_SIZE_FLAGS_MASK =
     WBGEN2_GEN_MASK SMPR_PROTO_I2C_TRANS_SIZE_FLAGS_SHIFT SMPR_PROTO_I2C_TRANS_SIZE_FLAGS_SIZE"
definition SMPR_PROTO_I2C_TRANS_SIZE_FLAGS_MAX :: u32 where
  "SMPR_PROTO_I2C_TRANS_SIZE_FLAGS_MAX = drop_bit SMPR_PROTO_I2C_TRANS_SIZE_FLAGS_SHIFT SMPR_PROTO_I2C_TRANS_SIZE_FLAGS_MASK"

section \<open>State\<close>

datatype i2c_mode = I2C_MODE_NORMAL | I2C_MODE_REP_START

record smpr_proto_i2c =
  ip_base :: u64
  ip_sys_freq :: u32
  ip_i2c_freq :: u32
  ip_init_config :: u32
  ip_mode :: i2c_mode

record i2c_proto_args =
  ia_sys_freq :: u32
  ia_i2c_freq :: u32
  ia_init_config :: u32

record smpr_i2c =
  ii_rep_start :: u32
  ii_addr :: u32

type_synonym i2c_dev = "(smpr_proto_i2c, smpr_i2c) smpr_dev"

definition smpr_proto_i2c_new :: "bool \<Rightarrow> u64 \<Rightarrow> smpr_proto_i2c option" where
  "smpr_proto_i2c_new ok base = (if ok then Some \<lparr>ip_base = base, ip_sys_freq = 0, ip_i2c_freq = 0,
     ip_init_config = 0, ip_mode = I2C_MODE_NORMAL\<rparr> else None)"

definition smpr_proto_i2c_destroy :: "smpr_proto_i2c option \<Rightarrow> smpr_err \<times> smpr_proto_i2c option" where
  "smpr_proto_i2c_destroy self_p = (SMPR_SUCCESS, self_p)"

definition smpr_i2c_new :: "bool \<Rightarrow> u32 \<Rightarrow> u32 \<Rightarrow> smpr_i2c option" where
  "smpr_i2c_new ok rep_start addr = (if ok then Some \<lparr>ii_rep_start = rep_start, ii_addr = addr\<rparr> else None)"

definition smpr_i2c_destroy :: "smpr_i2c option \<Rightarrow> smpr_err \<times> smpr_i2c option" where
  "smpr_i2c_destroy self_p = (SMPR_SUCCESS, self_p)"

definition smpr_i2c_set_rep_start :: "smpr_i2c \<Rightarrow> u32 \<Rightarrow> smpr_err \<times> smpr_i2c" where
  "smpr_i2c_set_rep_start self rep_start = (SMPR_SUCCESS, self\<lparr>ii_rep_start := rep_start\<rparr>)"

definition smpr_i2c_get_rep_start :: "smpr_i2c \<Rightarrow> u32" where "smpr_i2c_get_rep_start = ii_rep_start"

definition smpr_i2c_set_addr :: "smpr_i2c \<Rightarrow> u32 \<Rightarrow> smpr_err \<times> smpr_i2c" where
  "smpr_i2c_set_addr self addr = (SMPR_SUCCESS, self\<lparr>ii_addr := addr\<rparr>)"

definition smpr_i2c_get_addr :: "smpr_i2c \<Rightarrow> u32" where "smpr_i2c_get_addr = ii_addr"

section \<open>Start\<close>

text \<open>The two halves of the divider are written and read back, then the core is enabled. The result
  is the return code; the mode is set at the end.\<close>

definition s_i2c_init :: "u32 \<Rightarrow> ('o, 'h, 'p) smio \<Rightarrow> i2c_dev \<Rightarrow> 'p \<Rightarrow> (bool \<times> i2c_dev \<times> 'p) option" where
  "s_i2c_init junk parent dev p =
     (case smpr_get_handler dev of
        None \<Rightarrow> Some (False, dev, p)
      | Some i2c \<Rightarrow> do {
          f_freq \<leftarrow> proto_divider 5 (ip_sys_freq i2c) (ip_i2c_freq i2c);
          let freq_lo = ucast f_freq AND (0xff :: u32);
          let freq_hi = drop_bit 8 (ucast f_freq AND (0xff00 :: u32));
          (e1, p1) \<leftarrow> SET_PARAM parent (ip_base i2c) I2C_PROTO_REG_PRER_LO I2C_PROTO_PRER_LO freq_lo None None junk p;
          if e1 \<noteq> RW_OK then Some (False, dev, p1)
          else do {
            (_, lo_rb, p2) \<leftarrow> smio_rd parent p1 (ip_base i2c OR I2C_PROTO_REG_PRER_LO) junk;
            if field_get I2C_PROTO_PRER_LO lo_rb \<noteq> freq_lo then Some (False, dev, p2)
            else do {
              (e2, p3) \<leftarrow> SET_PARAM parent (ip_base i2c) I2C_PROTO_REG_PRER_HI I2C_PROTO_PRER_HI freq_hi None None junk p2;
              if e2 \<noteq> RW_OK then Some (False, dev, p3)
              else do {
                (_, hi_rb, p4) \<leftarrow> smio_rd parent p3 (ip_base i2c OR I2C_PROTO_REG_PRER_HI) junk;
                if field_get I2C_PROTO_PRER_HI hi_rb \<noteq> freq_hi then Some (False, dev, p4)
                else do {
                  (e3, p5) \<leftarrow> SET_PARAM parent (ip_base i2c) I2C_PROTO_REG_CTR (Single_Bit I2C_PROTO_CTR_EN) 1 None None junk p4;
                  if e3 \<noteq> RW_OK then Some (False, dev, p5)
                  else do {
                    (_, en_rb, p6) \<leftarrow> smio_rd parent p5 (ip_base i2c OR I2C_PROTO_REG_CTR) junk;
                    if I2C_PROTO_CTR_EN AND en_rb = 0 then Some (False, dev, p6)
                    else Some (True, dev\<lparr>pd_handler := Some (i2c\<lparr>ip_mode := I2C_MODE_NORMAL\<rparr>)\<rparr>, p6) } } } } } })"

definition i2c_open ::
  "bool \<Rightarrow> u32 \<Rightarrow> ('o, 'h, 'p) smio \<Rightarrow> i2c_dev \<Rightarrow> u64 \<Rightarrow> i2c_proto_args option \<Rightarrow> 'p \<Rightarrow> (int \<times> i2c_dev \<times> 'p) option" where
  "i2c_open ok junk parent dev base as p =
     (case smpr_proto_i2c_new ok base of
        None \<Rightarrow> Some (-1, dev, p)
      | Some i2c0 \<Rightarrow>
          let i2c = (case as of
                Some a \<Rightarrow> i2c0\<lparr>ip_sys_freq := ia_sys_freq a, ip_i2c_freq := ia_i2c_freq a, ip_init_config := ia_init_config a\<rparr>
              | None \<Rightarrow> i2c0\<lparr>ip_sys_freq := SM_PR_I2C_DFLT_SYS_FREQ, ip_i2c_freq := SM_PR_I2C_DFLT_I2C_FREQ,
                  ip_init_config := SM_PR_I2C_DFLT_I2C_CONFIG\<rparr>);
              (err, dev1) = smpr_set_handler dev i2c
          in if err \<noteq> SMPR_SUCCESS then Some (-1, dev1, p)
             else do {
               (ok', dev2, p1) \<leftarrow> s_i2c_init junk parent dev1 p;
               if \<not> ok' then Some (-1, snd (smpr_unset_handler dev2), p1) else Some (0, dev2, p1) })"

definition i2c_release :: "i2c_dev \<Rightarrow> (int \<times> i2c_dev) option" where
  "i2c_release dev =
     (case smpr_unset_handler dev of
        (None, dev1) \<Rightarrow> Some (-1, dev1)
      | (Some i2c, dev1) \<Rightarrow> Some (if fst (smpr_proto_i2c_destroy (Some i2c)) = SMPR_SUCCESS then 0 else -1, dev1))"

section \<open>One byte\<close>

text \<open>Waiting for the end of a command in at most \<open>n\<close> readings.\<close>

fun i2c_wait :: "('o, 'h, 'p) smio \<Rightarrow> u64 \<Rightarrow> u32 \<Rightarrow> nat \<Rightarrow> 'p \<Rightarrow> (bool \<times> 'p) option" where
  "i2c_wait parent base junk 0 p = Some (False, p)"
| "i2c_wait parent base junk (Suc n) p = do {
     (rw_err, tip, p1) \<leftarrow> GET_PARAM parent base I2C_PROTO_REG_SR (Single_Bit I2C_PROTO_SR_TIP) None junk p;
     if rw_err \<noteq> RW_OK then Some (False, p1)
     else if tip = 0 then Some (True, p1)
     else i2c_wait parent base junk n p1 }"

definition s_i2c_check_transfer :: "u32 \<Rightarrow> ('o, 'h, 'p) smio \<Rightarrow> i2c_dev \<Rightarrow> bool \<Rightarrow> 'p \<Rightarrow> (int \<times> 'p) option" where
  "s_i2c_check_transfer junk parent dev ack_check p =
     (case smpr_get_handler dev of
        None \<Rightarrow> Some (-1, p)
      | Some i2c \<Rightarrow> do {
          (done, p1) \<leftarrow> i2c_wait parent (ip_base i2c) junk SM_PR_I2C_MAX_TRIES p;
          if \<not> done then Some (-1, p1)
          else if \<not> ack_check then Some (0, p1)
          else do {
            (rw_err, rxack, p2) \<leftarrow> GET_PARAM parent (ip_base i2c) I2C_PROTO_REG_SR (Single_Bit I2C_PROTO_SR_RXACK) None junk p1;
            Some (if rw_err \<noteq> RW_OK \<or> rxack \<noteq> 0 then -1 else 0, p2) } })"

definition s_i2c_set_mode :: "i2c_dev \<Rightarrow> smpr_err \<times> i2c_dev" where
  "s_i2c_set_mode dev =
     (case smpr_get_handler dev of
        None \<Rightarrow> (SMPR_ERR_PROTO_INFO, dev)
      | Some i2c \<Rightarrow> (SMPR_SUCCESS, dev\<lparr>pd_handler := Some (i2c\<lparr>ip_mode :=
          (if smpr_i2c_get_rep_start (pd_spec dev) \<noteq> 0 then I2C_MODE_REP_START else I2C_MODE_NORMAL)\<rparr>)\<rparr>))"

text \<open>The address byte, with a start condition.\<close>

definition s_i2c_read_write_header :: "u32 \<Rightarrow> ('o, 'h, 'p) smio \<Rightarrow> i2c_dev \<Rightarrow> bool \<Rightarrow> 'p \<Rightarrow> (int \<times> 'p) option" where
  "s_i2c_read_write_header junk parent dev rw p =
     (case smpr_get_handler dev of
        None \<Rightarrow> Some (-1, p)
      | Some i2c \<Rightarrow> do {
          let a = I2C_PROTO_TXR_ADDR_W (smpr_i2c_get_addr (pd_spec dev));
          let i2c_data = (if rw then a OR I2C_PROTO_TXR_RW else a AND NOT I2C_PROTO_TXR_RW);
          (e1, p1) \<leftarrow> SET_PARAM parent (ip_base i2c) I2C_PROTO_REG_TXR I2C_PROTO_TXR i2c_data None None junk p;
          if e1 \<noteq> RW_OK then Some (-1, p1)
          else do {
            (e2, p2) \<leftarrow> SET_PARAM parent (ip_base i2c) I2C_PROTO_REG_CR I2C_PROTO_CR (I2C_PROTO_CR_STA OR I2C_PROTO_CR_WR) None None junk p1;
            if e2 \<noteq> RW_OK then Some (-1, p2)
            else do {
              (err, p3) \<leftarrow> s_i2c_check_transfer junk parent dev True p2;
              Some (if err \<noteq> 0 then -1 else 1, p3) } } })"

section \<open>Raw transfers\<close>

text \<open>The bytes of a write, the last with a stop condition in normal mode.\<close>

fun i2c_send ::
  "u32 \<Rightarrow> ('o, 'h, 'p) smio \<Rightarrow> i2c_dev \<Rightarrow> smpr_proto_i2c \<Rightarrow> u8 list \<Rightarrow> 'p \<Rightarrow> (bool \<times> 'p) option" where
  "i2c_send junk parent dev i2c [] p = Some (True, p)"
| "i2c_send junk parent dev i2c (x # xs) p = do {
     (e1, p1) \<leftarrow> SET_PARAM parent (ip_base i2c) I2C_PROTO_REG_TXR I2C_PROTO_TXR (ucast x) None None junk p;
     if e1 \<noteq> RW_OK then Some (False, p1)
     else do {
       (e2, p2) \<leftarrow> SET_PARAM parent (ip_base i2c) I2C_PROTO_REG_CR I2C_PROTO_CR
         (if xs = [] \<and> ip_mode i2c = I2C_MODE_NORMAL then I2C_PROTO_CR_STO OR I2C_PROTO_CR_WR else I2C_PROTO_CR_WR)
         None None junk p1;
       if e2 \<noteq> RW_OK then Some (False, p2)
       else do {
         (err, p3) \<leftarrow> s_i2c_check_transfer junk parent dev True p2;
         if err \<noteq> 0 then Some (False, p3) else i2c_send junk parent dev i2c xs p3 } } }"

definition s_i2c_write_raw :: "u32 \<Rightarrow> ('o, 'h, 'p) smio \<Rightarrow> i2c_dev \<Rightarrow> u8 list \<Rightarrow> 'p \<Rightarrow> (int \<times> i2c_dev \<times> 'p) option" where
  "s_i2c_write_raw junk parent dev bs p =
     (if \<not> length bs * SMPR_BYTE_2_BIT < unat SMPR_PROTO_I2C_TRANS_SIZE_FLAGS_MAX + 1 then Some (-1, dev, p)
      else if smpr_get_handler dev = None then Some (-1, dev, p)
      else do {
        (err, p1) \<leftarrow> s_i2c_read_write_header junk parent dev False p;
        if \<not> 0 < err then Some (-1, dev, p1)
        else do {
          let dev1 = snd (s_i2c_set_mode dev);
          i2c \<leftarrow> smpr_get_handler dev1;
          (done, p2) \<leftarrow> i2c_send junk parent dev1 i2c bs p1;
          Some (if done then int (length bs) else -1, dev1, p2) } })"

text \<open>The bytes of a read: the last is not acknowledged, and a stop condition follows. The ones read
  go to the buffer; \<open>done\<close> are those before.\<close>

fun i2c_recv ::
  "u32 \<Rightarrow> ('o, 'h, 'p) smio \<Rightarrow> i2c_dev \<Rightarrow> smpr_proto_i2c \<Rightarrow> nat \<Rightarrow> 'p \<Rightarrow> (bool \<times> u8 list \<times> 'p) option" where
  "i2c_recv junk parent dev i2c 0 p = Some (True, [], p)"
| "i2c_recv junk parent dev i2c (Suc n) p = do {
     (e1, p1) \<leftarrow> SET_PARAM parent (ip_base i2c) I2C_PROTO_REG_CR I2C_PROTO_CR
       (if n = 0 then I2C_PROTO_CR_STO OR I2C_PROTO_CR_RD OR I2C_PROTO_CR_ACK else I2C_PROTO_CR_RD AND NOT I2C_PROTO_CR_ACK)
       None None junk p;
     if e1 \<noteq> RW_OK then Some (False, [], p1)
     else do {
       (err, p2) \<leftarrow> s_i2c_check_transfer junk parent dev False p1;
       if err \<noteq> 0 then Some (False, [], p2)
       else do {
         (e2, x, p3) \<leftarrow> GET_PARAM parent (ip_base i2c) I2C_PROTO_REG_RXR I2C_PROTO_RXR None junk p2;
         if e2 \<noteq> RW_OK then Some (False, [ucast x], p3)
         else do {
           (done, xs, p4) \<leftarrow> i2c_recv junk parent dev i2c n p3;
           Some (done, ucast x # xs, p4) } } } }"

definition s_i2c_read_raw ::
  "u32 \<Rightarrow> ('o, 'h, 'p) smio \<Rightarrow> i2c_dev \<Rightarrow> nat \<Rightarrow> u8 list \<Rightarrow> 'p \<Rightarrow> (int \<times> u8 list \<times> i2c_dev \<times> 'p) option" where
  "s_i2c_read_raw junk parent dev sz b p =
     (if \<not> sz * SMPR_BYTE_2_BIT < unat SMPR_PROTO_I2C_TRANS_SIZE_FLAGS_MAX + 1 then Some (-1, b, dev, p)
      else if smpr_get_handler dev = None then Some (-1, b, dev, p)
      else do {
        (err, p1) \<leftarrow> s_i2c_read_write_header junk parent dev True p;
        if \<not> 0 < err then Some (-1, b, dev, p1)
        else do {
          let dev1 = snd (s_i2c_set_mode dev);
          i2c \<leftarrow> smpr_get_handler dev1;
          (done, xs, p2) \<leftarrow> i2c_recv junk parent dev1 i2c sz p1;
          if length b < length xs then None
          else Some (if done then int sz else -1, xs @ drop (length xs) b, dev1, p2) } })"

section \<open>Transfers with a register address\<close>

definition set_rep_start :: "i2c_dev \<Rightarrow> u32 \<Rightarrow> i2c_dev" where
  "set_rep_start dev v = dev\<lparr>pd_spec := snd (smpr_i2c_set_rep_start (pd_spec dev) v)\<rparr>"

definition s_i2c_write_read_generic ::
  "u32 \<Rightarrow> ('o, 'h, 'p) smio \<Rightarrow> i2c_dev \<Rightarrow> nat \<Rightarrow> u64 \<Rightarrow> nat \<Rightarrow> u8 list option \<Rightarrow> 'p \<Rightarrow>
     (int \<times> u8 list option \<times> i2c_dev \<times> 'p) option" where
  "s_i2c_write_read_generic junk parent dev size_offs offs sz buf p =
     (if smpr_get_handler dev = None then Some (-1, buf, dev, p)
      else do {
        addr \<leftarrow> addr_bytes size_offs offs;
        (err, dev1, p1) \<leftarrow> s_i2c_write_raw junk parent (set_rep_start dev 1) addr p;
        if \<not> (0 < err \<and> err = int size_offs) then Some (-1, buf, set_rep_start dev1 0, p1)
        else do {
          b \<leftarrow> buf;
          (err', b', dev2, p2) \<leftarrow> s_i2c_read_raw junk parent dev1 sz b p1;
          Some (if \<not> (0 < err' \<and> err' = int sz) then -1 else err', Some b', set_rep_start dev2 0, p2) } })"

definition s_i2c_write_generic ::
  "u32 \<Rightarrow> ('o, 'h, 'p) smio \<Rightarrow> i2c_dev \<Rightarrow> nat \<Rightarrow> u64 \<Rightarrow> nat \<Rightarrow> u8 list option \<Rightarrow> 'p \<Rightarrow>
     (int \<times> u8 list option \<times> i2c_dev \<times> 'p) option" where
  "s_i2c_write_generic junk parent dev size_offs offs sz buf p = do {
     addr \<leftarrow> addr_bytes size_offs offs;
     raw \<leftarrow> (case buf of None \<Rightarrow> Some addr | Some b \<Rightarrow> if length b < sz then None else Some (addr @ take sz b));
     (err, dev1, p1) \<leftarrow> s_i2c_write_raw junk parent dev raw p;
     Some (if \<not> (0 < err \<and> err = int (length raw)) then -1 else int sz, buf, dev1, p1) }"

section \<open>The operations\<close>

definition i2c_read_16 :: "u32 \<Rightarrow> (smpr_proto_i2c, smpr_i2c, 'o, 'h, 'p) smpr_rw" where
  "i2c_read_16 junk parent dev size_offs offs b p = s_i2c_write_read_generic junk parent dev size_offs offs 2 b p"

definition i2c_write_16 :: "u32 \<Rightarrow> (smpr_proto_i2c, smpr_i2c, 'o, 'h, 'p) smpr_rw" where
  "i2c_write_16 junk parent dev size_offs offs b p = s_i2c_write_generic junk parent dev size_offs offs 2 b p"

definition i2c_read_32 :: "u32 \<Rightarrow> (smpr_proto_i2c, smpr_i2c, 'o, 'h, 'p) smpr_rw" where
  "i2c_read_32 junk parent dev size_offs offs b p = s_i2c_write_read_generic junk parent dev size_offs offs 4 b p"

definition i2c_write_32 :: "u32 \<Rightarrow> (smpr_proto_i2c, smpr_i2c, 'o, 'h, 'p) smpr_rw" where
  "i2c_write_32 junk parent dev size_offs offs b p = s_i2c_write_generic junk parent dev size_offs offs 4 b p"

definition i2c_read_64 :: "u32 \<Rightarrow> (smpr_proto_i2c, smpr_i2c, 'o, 'h, 'p) smpr_rw" where
  "i2c_read_64 junk parent dev size_offs offs b p = s_i2c_write_read_generic junk parent dev size_offs offs 8 b p"

definition i2c_write_64 :: "u32 \<Rightarrow> (smpr_proto_i2c, smpr_i2c, 'o, 'h, 'p) smpr_rw" where
  "i2c_write_64 junk parent dev size_offs offs b p = s_i2c_write_generic junk parent dev size_offs offs 8 b p"

definition i2c_read_block :: "u32 \<Rightarrow> (smpr_proto_i2c, smpr_i2c, 'o, 'h, 'p) smpr_rw_block" where
  "i2c_read_block junk parent dev size_offs offs sz b p = s_i2c_write_read_generic junk parent dev size_offs offs sz b p"

definition i2c_write_block :: "u32 \<Rightarrow> (smpr_proto_i2c, smpr_i2c, 'o, 'h, 'p) smpr_rw_block" where
  "i2c_write_block junk parent dev size_offs offs sz b p = s_i2c_write_generic junk parent dev size_offs offs sz b p"

definition smpr_proto_ops_i2c :: "bool \<Rightarrow> u32 \<Rightarrow> (i2c_proto_args, smpr_proto_i2c, smpr_i2c, 'o, 'h, 'p) smpr_proto_ops" where
  "smpr_proto_ops_i2c ok junk = \<lparr>proto_name = ''I2C'',
     proto_open = Some (i2c_open ok junk), proto_release = Some i2c_release,
     proto_read_16 = Some (i2c_read_16 junk), proto_read_32 = Some (i2c_read_32 junk), proto_read_64 = Some (i2c_read_64 junk),
     proto_write_16 = Some (i2c_write_16 junk), proto_write_32 = Some (i2c_write_32 junk), proto_write_64 = Some (i2c_write_64 junk),
     proto_read_block = Some (i2c_read_block junk), proto_write_block = Some (i2c_write_block junk),
     proto_read_dma = None, proto_write_dma = None\<rparr>"

definition smpr_i2c_get_ops ::
  "bool \<Rightarrow> u32 \<Rightarrow> smpr_i2c \<Rightarrow> (i2c_proto_args, smpr_proto_i2c, smpr_i2c, 'o, 'h, 'p) smpr_proto_ops" where
  "smpr_i2c_get_ops ok junk self = smpr_proto_ops_i2c ok junk"

end
