(* ===== verification/Ch_Ad9510.thy ===== *)
theory Ch_Ad9510
  imports Chip
begin

text \<open>
  The clock distribution chip AD9510 on SPI: include/chips/ad9510_regs.h and src/sm_io/chips/sm_ch_ad9510.c.
  Sleeps are left out. The settings \<open>set\<close> take a value, the functions \<open>get\<close> the content of the variable of
  the caller that they fill.
\<close>

section \<open>The registers\<close>

definition AD9510_HDR_RW :: u32 where "AD9510_HDR_RW = WBGEN2_GEN_MASK 15 1"
definition AD9510_HDR_BT_MASK :: u32 where "AD9510_HDR_BT_MASK = WBGEN2_GEN_MASK 13 2"
definition AD9510_HDR_BT_W :: "u32 \<Rightarrow> u32" where "AD9510_HDR_BT_W v = WBGEN2_GEN_WRITE v 13 2"
definition AD9510_HDR_BT_R :: "u32 \<Rightarrow> u32" where "AD9510_HDR_BT_R v = WBGEN2_GEN_READ v 13 2"
definition AD9510_HDR_ADDR_MASK :: u32 where "AD9510_HDR_ADDR_MASK = WBGEN2_GEN_MASK 0 7"
definition AD9510_HDR_ADDR_W :: "u32 \<Rightarrow> u32" where "AD9510_HDR_ADDR_W v = WBGEN2_GEN_WRITE v 0 7"
definition AD9510_HDR_ADDR_R :: "u32 \<Rightarrow> u32" where "AD9510_HDR_ADDR_R v = WBGEN2_GEN_READ v 0 7"
definition AD9510_HDR_ADDR_PAD_SIZE :: nat where "AD9510_HDR_ADDR_PAD_SIZE = 6"
definition AD9510_INSTADDR_SIZE :: nat where "AD9510_INSTADDR_SIZE = 16"
definition AD9510_DATA_MASK :: u32 where "AD9510_DATA_MASK = WBGEN2_GEN_MASK 0 8"
definition AD9510_DATA_W :: "u32 \<Rightarrow> u32" where "AD9510_DATA_W v = WBGEN2_GEN_WRITE v 0 8"
definition AD9510_DATA_R :: "u32 \<Rightarrow> u32" where "AD9510_DATA_R v = WBGEN2_GEN_READ v 0 8"
definition AD9510_TRANS_SIZE :: nat where "AD9510_TRANS_SIZE = 24"
definition AD9510_REG_CFG_SERIAL :: u8 where "AD9510_REG_CFG_SERIAL = 0x0"
definition AD9510_CFG_SERIAL_LONG_INST :: u32 where "AD9510_CFG_SERIAL_LONG_INST = WBGEN2_GEN_MASK 4 1"
definition AD9510_CFG_SERIAL_SOFT_RST :: u32 where "AD9510_CFG_SERIAL_SOFT_RST = WBGEN2_GEN_MASK 5 1"
definition AD9510_CFG_SERIAL_LSB_FIRST :: u32 where "AD9510_CFG_SERIAL_LSB_FIRST = WBGEN2_GEN_MASK 6 1"
definition AD9510_REG_PLL_A_COUNTER :: u8 where "AD9510_REG_PLL_A_COUNTER = 0x4"
definition AD9510_PLL_A_COUNTER_MASK :: u32 where "AD9510_PLL_A_COUNTER_MASK = WBGEN2_GEN_MASK 0 6"
definition AD9510_PLL_A_COUNTER_W :: "u32 \<Rightarrow> u32" where "AD9510_PLL_A_COUNTER_W v = WBGEN2_GEN_WRITE v 0 6"
definition AD9510_PLL_A_COUNTER_R :: "u32 \<Rightarrow> u32" where "AD9510_PLL_A_COUNTER_R v = WBGEN2_GEN_READ v 0 6"
definition AD9510_REG_PLL_B_MSB_COUNTER :: u8 where "AD9510_REG_PLL_B_MSB_COUNTER = 0x5"
definition AD9510_PLL_B_MSB_COUNTER_MASK :: u32 where "AD9510_PLL_B_MSB_COUNTER_MASK = WBGEN2_GEN_MASK 0 5"
definition AD9510_PLL_B_MSB_COUNTER_W :: "u32 \<Rightarrow> u32" where "AD9510_PLL_B_MSB_COUNTER_W v = WBGEN2_GEN_WRITE v 0 5"
definition AD9510_PLL_B_MSB_COUNTER_R :: "u32 \<Rightarrow> u32" where "AD9510_PLL_B_MSB_COUNTER_R v = WBGEN2_GEN_READ v 0 5"
definition AD9510_REG_PLL_B_LSB_COUNTER :: u8 where "AD9510_REG_PLL_B_LSB_COUNTER = 0x6"
definition AD9510_PLL_B_LSB_COUNTER_MASK :: u32 where "AD9510_PLL_B_LSB_COUNTER_MASK = WBGEN2_GEN_MASK 0 8"
definition AD9510_PLL_B_LSB_COUNTER_W :: "u32 \<Rightarrow> u32" where "AD9510_PLL_B_LSB_COUNTER_W v = WBGEN2_GEN_WRITE v 0 8"
definition AD9510_PLL_B_LSB_COUNTER_R :: "u32 \<Rightarrow> u32" where "AD9510_PLL_B_LSB_COUNTER_R v = WBGEN2_GEN_READ v 0 8"
definition AD9510_PLL_B_COUNTER_MASK :: u32 where "AD9510_PLL_B_COUNTER_MASK = WBGEN2_GEN_MASK 0 13"
definition AD9510_PLL_B_COUNTER_W :: "u32 \<Rightarrow> u32" where "AD9510_PLL_B_COUNTER_W v = WBGEN2_GEN_WRITE v 0 13"
definition AD9510_PLL_B_COUNTER_R :: "u32 \<Rightarrow> u32" where "AD9510_PLL_B_COUNTER_R v = WBGEN2_GEN_READ v 0 13"
definition AD9510_PLL_B_MIN_VALUE :: u32 where "AD9510_PLL_B_MIN_VALUE = 3"
definition AD9510_REG_PLL_1 :: u8 where "AD9510_REG_PLL_1 = 0x7"
definition AD9510_PLL_1_LOR_EN :: u32 where "AD9510_PLL_1_LOR_EN = WBGEN2_GEN_MASK 2 1"
definition AD9510_PLL_1_LOR_LOCK_DEL_MASK :: u32 where "AD9510_PLL_1_LOR_LOCK_DEL_MASK = WBGEN2_GEN_MASK 5 2"
definition AD9510_PLL_1_LOR_LOCK_DEL_W :: "u32 \<Rightarrow> u32" where "AD9510_PLL_1_LOR_LOCK_DEL_W v = WBGEN2_GEN_WRITE v 5 2"
definition AD9510_PLL_1_LOR_LOCK_DEL_R :: "u32 \<Rightarrow> u32" where "AD9510_PLL_1_LOR_LOCK_DEL_R v = WBGEN2_GEN_READ v 5 2"
definition AD9510_REG_PLL_2 :: u8 where "AD9510_REG_PLL_2 = 0x8"
definition AD9510_PLL_2_CP_MODE_MASK :: u32 where "AD9510_PLL_2_CP_MODE_MASK = WBGEN2_GEN_MASK 0 2"
definition AD9510_PLL_2_CP_MODE_W :: "u32 \<Rightarrow> u32" where "AD9510_PLL_2_CP_MODE_W v = WBGEN2_GEN_WRITE v 0 2"
definition AD9510_PLL_2_CP_MODE_R :: "u32 \<Rightarrow> u32" where "AD9510_PLL_2_CP_MODE_R v = WBGEN2_GEN_READ v 0 2"
definition AD9510_PLL_2_MUX_SEL_MASK :: u32 where "AD9510_PLL_2_MUX_SEL_MASK = WBGEN2_GEN_MASK 2 4"
definition AD9510_PLL_2_MUX_SEL_W :: "u32 \<Rightarrow> u32" where "AD9510_PLL_2_MUX_SEL_W v = WBGEN2_GEN_WRITE v 2 4"
definition AD9510_PLL_2_MUX_SEL_R :: "u32 \<Rightarrow> u32" where "AD9510_PLL_2_MUX_SEL_R v = WBGEN2_GEN_READ v 2 4"
definition AD9510_PLL_2_MUX_SEL_MIN :: u32 where "AD9510_PLL_2_MUX_SEL_MIN = 0"
definition AD9510_PLL_2_MUX_SEL_MAX :: u32 where "AD9510_PLL_2_MUX_SEL_MAX = 15"
definition AD9510_PLL_2_PFD_POL_POS :: u32 where "AD9510_PLL_2_PFD_POL_POS = WBGEN2_GEN_MASK 6 1"
definition AD9510_REG_PLL_3 :: u8 where "AD9510_REG_PLL_3 = 0x9"
definition AD9510_PLL_3_RST_ALL_CNT :: u32 where "AD9510_PLL_3_RST_ALL_CNT = WBGEN2_GEN_MASK 0 1"
definition AD9510_PLL_3_RST_N_CNT :: u32 where "AD9510_PLL_3_RST_N_CNT = WBGEN2_GEN_MASK 1 1"
definition AD9510_PLL_3_RST_R_CNT :: u32 where "AD9510_PLL_3_RST_R_CNT = WBGEN2_GEN_MASK 2 1"
definition AD9510_PLL_3_CP_CURRENT_MASK :: u32 where "AD9510_PLL_3_CP_CURRENT_MASK = WBGEN2_GEN_MASK 4 3"
definition AD9510_PLL_3_CP_CURRENT_W :: "u32 \<Rightarrow> u32" where "AD9510_PLL_3_CP_CURRENT_W v = WBGEN2_GEN_WRITE v 4 3"
definition AD9510_PLL_3_CP_CURRENT_R :: "u32 \<Rightarrow> u32" where "AD9510_PLL_3_CP_CURRENT_R v = WBGEN2_GEN_READ v 4 3"
definition AD9510_PLL3_CP_CURRENT_600 :: u32 where "AD9510_PLL3_CP_CURRENT_600 = 600"
definition AD9510_PLL3_CP_CURRENT_1200 :: u32 where "AD9510_PLL3_CP_CURRENT_1200 = 1200"
definition AD9510_PLL3_CP_CURRENT_1800 :: u32 where "AD9510_PLL3_CP_CURRENT_1800 = 1800"
definition AD9510_PLL3_CP_CURRENT_2400 :: u32 where "AD9510_PLL3_CP_CURRENT_2400 = 2400"
definition AD9510_PLL3_CP_CURRENT_3000 :: u32 where "AD9510_PLL3_CP_CURRENT_3000 = 3000"
definition AD9510_PLL3_CP_CURRENT_3600 :: u32 where "AD9510_PLL3_CP_CURRENT_3600 = 3600"
definition AD9510_PLL3_CP_CURRENT_4200 :: u32 where "AD9510_PLL3_CP_CURRENT_4200 = 4200"
definition AD9510_PLL3_CP_CURRENT_4800 :: u32 where "AD9510_PLL3_CP_CURRENT_4800 = 4800"
definition AD9510_PLL3_CP_CURRENT_NUM :: nat where "AD9510_PLL3_CP_CURRENT_NUM = 8"
definition AD9510_PLL3_CP_CURRENT_MIN :: u32 where "AD9510_PLL3_CP_CURRENT_MIN = 600"
definition AD9510_PLL3_CP_CURRENT_MAX :: u32 where "AD9510_PLL3_CP_CURRENT_MAX = 4800"
definition AD9510_REG_PLL_4 :: u8 where "AD9510_REG_PLL_4 = 0xa"
definition AD9510_PLL_4_PLL_PDOWN_MASK :: u32 where "AD9510_PLL_4_PLL_PDOWN_MASK = WBGEN2_GEN_MASK 0 2"
definition AD9510_PLL_4_PLL_PDOWN_W :: "u32 \<Rightarrow> u32" where "AD9510_PLL_4_PLL_PDOWN_W v = WBGEN2_GEN_WRITE v 0 2"
definition AD9510_PLL_4_PLL_PDOWN_R :: "u32 \<Rightarrow> u32" where "AD9510_PLL_4_PLL_PDOWN_R v = WBGEN2_GEN_READ v 0 2"
definition AD9510_PLL_PDOWN_NORMAL_OP1 :: u32 where "AD9510_PLL_PDOWN_NORMAL_OP1 = 0"
definition AD9510_PLL_PDOWN_ASYNC :: u32 where "AD9510_PLL_PDOWN_ASYNC = 1"
definition AD9510_PLL_PDOWN_NORMAL_OP2 :: u32 where "AD9510_PLL_PDOWN_NORMAL_OP2 = 2"
definition AD9510_PLL_PDOWN_SYNC :: u32 where "AD9510_PLL_PDOWN_SYNC = 3"
definition AD9510_PLL_PDOWN_MAX_VAL :: u32 where "AD9510_PLL_PDOWN_MAX_VAL = 3"
definition AD9510_PLL_4_PRESCALER_P_MASK :: u32 where "AD9510_PLL_4_PRESCALER_P_MASK = WBGEN2_GEN_MASK 2 3"
definition AD9510_PLL_4_PRESCALER_P_W :: "u32 \<Rightarrow> u32" where "AD9510_PLL_4_PRESCALER_P_W v = WBGEN2_GEN_WRITE v 2 3"
definition AD9510_PLL_4_PRESCALER_P_R :: "u32 \<Rightarrow> u32" where "AD9510_PLL_4_PRESCALER_P_R v = WBGEN2_GEN_READ v 2 3"
definition AD9510_PLL_4_B_BYPASS :: u32 where "AD9510_PLL_4_B_BYPASS = WBGEN2_GEN_MASK 6 1"
definition AD9510_REG_PLL_R_MSB_COUNTER :: u8 where "AD9510_REG_PLL_R_MSB_COUNTER = 0xb"
definition AD9510_PLL_R_MSB_COUNTER_MASK :: u32 where "AD9510_PLL_R_MSB_COUNTER_MASK = WBGEN2_GEN_MASK 0 6"
definition AD9510_PLL_R_MSB_COUNTER_W :: "u32 \<Rightarrow> u32" where "AD9510_PLL_R_MSB_COUNTER_W v = WBGEN2_GEN_WRITE v 0 6"
definition AD9510_PLL_R_MSB_COUNTER_R :: "u32 \<Rightarrow> u32" where "AD9510_PLL_R_MSB_COUNTER_R v = WBGEN2_GEN_READ v 0 6"
definition AD9510_REG_PLL_R_LSB_COUNTER :: u8 where "AD9510_REG_PLL_R_LSB_COUNTER = 0xc"
definition AD9510_PLL_R_LSB_COUNTER_MASK :: u32 where "AD9510_PLL_R_LSB_COUNTER_MASK = WBGEN2_GEN_MASK 0 8"
definition AD9510_PLL_R_LSB_COUNTER_W :: "u32 \<Rightarrow> u32" where "AD9510_PLL_R_LSB_COUNTER_W v = WBGEN2_GEN_WRITE v 0 8"
definition AD9510_PLL_R_LSB_COUNTER_R :: "u32 \<Rightarrow> u32" where "AD9510_PLL_R_LSB_COUNTER_R v = WBGEN2_GEN_READ v 0 8"
definition AD9510_PLL_R_COUNTER_MASK :: u32 where "AD9510_PLL_R_COUNTER_MASK = WBGEN2_GEN_MASK 0 14"
definition AD9510_PLL_R_COUNTER_W :: "u32 \<Rightarrow> u32" where "AD9510_PLL_R_COUNTER_W v = WBGEN2_GEN_WRITE v 0 14"
definition AD9510_PLL_R_COUNTER_R :: "u32 \<Rightarrow> u32" where "AD9510_PLL_R_COUNTER_R v = WBGEN2_GEN_READ v 0 14"
definition AD9510_REG_PLL_5 :: u8 where "AD9510_REG_PLL_5 = 0xd"
definition AD9510_PLL_5_ANTI_BL_PW_MASK :: u32 where "AD9510_PLL_5_ANTI_BL_PW_MASK = WBGEN2_GEN_MASK 0 2"
definition AD9510_PLL_5_ANTI_BL_PW_W :: "u32 \<Rightarrow> u32" where "AD9510_PLL_5_ANTI_BL_PW_W v = WBGEN2_GEN_WRITE v 0 2"
definition AD9510_PLL_5_ANTI_BL_PW_R :: "u32 \<Rightarrow> u32" where "AD9510_PLL_5_ANTI_BL_PW_R v = WBGEN2_GEN_READ v 0 2"
definition AD9510_PLL_5_DIG_LOCK_DET_WDW :: u32 where "AD9510_PLL_5_DIG_LOCK_DET_WDW = WBGEN2_GEN_MASK 5 1"
definition AD9510_PLL_5_DIG_LOCK_DET_EN :: u32 where "AD9510_PLL_5_DIG_LOCK_DET_EN = WBGEN2_GEN_MASK 6 1"
definition AD9510_REG_LVPECL_OUT0 :: u8 where "AD9510_REG_LVPECL_OUT0 = 0x3c"
definition AD9510_REG_LVPECL_OUT1 :: u8 where "AD9510_REG_LVPECL_OUT1 = 0x3d"
definition AD9510_REG_LVPECL_OUT2 :: u8 where "AD9510_REG_LVPECL_OUT2 = 0x3e"
definition AD9510_REG_LVPECL_OUT3 :: u8 where "AD9510_REG_LVPECL_OUT3 = 0x3f"
definition AD9510_LVPECL_OUT_PDOWN_MASK :: u32 where "AD9510_LVPECL_OUT_PDOWN_MASK = WBGEN2_GEN_MASK 0 2"
definition AD9510_LVPECL_OUT_PDOWN_W :: "u32 \<Rightarrow> u32" where "AD9510_LVPECL_OUT_PDOWN_W v = WBGEN2_GEN_WRITE v 0 2"
definition AD9510_LVPECL_OUT_PDOWN_R :: "u32 \<Rightarrow> u32" where "AD9510_LVPECL_OUT_PDOWN_R v = WBGEN2_GEN_READ v 0 2"
definition AD9510_LVPECL_OUT_LVL_MASK :: u32 where "AD9510_LVPECL_OUT_LVL_MASK = WBGEN2_GEN_MASK 2 2"
definition AD9510_LVPECL_OUT_LVL_W :: "u32 \<Rightarrow> u32" where "AD9510_LVPECL_OUT_LVL_W v = WBGEN2_GEN_WRITE v 2 2"
definition AD9510_LVPECL_OUT_LVL_R :: "u32 \<Rightarrow> u32" where "AD9510_LVPECL_OUT_LVL_R v = WBGEN2_GEN_READ v 2 2"
definition AD9510_REG_LVDS_CMOS_OUT4 :: u8 where "AD9510_REG_LVDS_CMOS_OUT4 = 0x40"
definition AD9510_REG_LVDS_CMOS_OUT5 :: u8 where "AD9510_REG_LVDS_CMOS_OUT5 = 0x41"
definition AD9510_REG_LVDS_CMOS_OUT6 :: u8 where "AD9510_REG_LVDS_CMOS_OUT6 = 0x42"
definition AD9510_REG_LVDS_CMOS_OUT7 :: u8 where "AD9510_REG_LVDS_CMOS_OUT7 = 0x43"
definition AD9510_LVDS_CMOS_PDOWN :: u32 where "AD9510_LVDS_CMOS_PDOWN = WBGEN2_GEN_MASK 0 1"
definition AD9510_LVDS_CMOS_CURR_MASK :: u32 where "AD9510_LVDS_CMOS_CURR_MASK = WBGEN2_GEN_MASK 1 2"
definition AD9510_LVDS_CMOS_CURR_W :: "u32 \<Rightarrow> u32" where "AD9510_LVDS_CMOS_CURR_W v = WBGEN2_GEN_WRITE v 1 2"
definition AD9510_LVDS_CMOS_CURR_R :: "u32 \<Rightarrow> u32" where "AD9510_LVDS_CMOS_CURR_R v = WBGEN2_GEN_READ v 1 2"
definition AD9510_LVDS_CMOS_SELECT :: u32 where "AD9510_LVDS_CMOS_SELECT = WBGEN2_GEN_MASK 3 1"
definition AD9510_LVDS_CMOS_INV_CMOS :: u32 where "AD9510_LVDS_CMOS_INV_CMOS = WBGEN2_GEN_MASK 4 1"
definition AD9510_REG_OUTPUT_START :: u8 where "AD9510_REG_OUTPUT_START = 0x3c"
definition AD9510_NUM_LVPECL_OUTPUTS :: nat where "AD9510_NUM_LVPECL_OUTPUTS = 4"
definition AD9510_NUM_LVDS_LVCMOS_OUTPUTS :: nat where "AD9510_NUM_LVDS_LVCMOS_OUTPUTS = 4"
definition AD9510_NUM_OUTPUTS :: nat where "AD9510_NUM_OUTPUTS = 8"
definition AD9510_OUTPUT_EN_MASK :: u32 where "AD9510_OUTPUT_EN_MASK = WBGEN2_GEN_MASK 0 8"
definition AD9510_OUTPUT_EN_W :: "u32 \<Rightarrow> u32" where "AD9510_OUTPUT_EN_W v = WBGEN2_GEN_WRITE v 0 8"
definition AD9510_OUTPUT_EN_R :: "u32 \<Rightarrow> u32" where "AD9510_OUTPUT_EN_R v = WBGEN2_GEN_READ v 0 8"
definition AD9510_OUTPUT_EN_LSB_MASK :: u32 where "AD9510_OUTPUT_EN_LSB_MASK = WBGEN2_GEN_MASK 0 1"
definition AD9510_REG_CLK_OPT :: u8 where "AD9510_REG_CLK_OPT = 0x45"
definition AD9510_CLK_OPT_SEL_CLK1 :: u32 where "AD9510_CLK_OPT_SEL_CLK1 = WBGEN2_GEN_MASK 0 1"
definition AD9510_CLK_OPT_CLK1_PD :: u32 where "AD9510_CLK_OPT_CLK1_PD = WBGEN2_GEN_MASK 1 1"
definition AD9510_CLK_OPT_CLK2_PD :: u32 where "AD9510_CLK_OPT_CLK2_PD = WBGEN2_GEN_MASK 2 1"
definition AD9510_CLK_OPT_PS_PD :: u32 where "AD9510_CLK_OPT_PS_PD = WBGEN2_GEN_MASK 3 1"
definition AD9510_CLK_OPT_REFIN_PD :: u32 where "AD9510_CLK_OPT_REFIN_PD = WBGEN2_GEN_MASK 4 1"
definition AD9510_CLK_OPT_ALLCLKS_PD :: u32 where "AD9510_CLK_OPT_ALLCLKS_PD = WBGEN2_GEN_MASK 5 1"
definition AD9510_PLL_NUM_PLL_CLKS :: nat where "AD9510_PLL_NUM_PLL_CLKS = 2"
definition AD9510_PLL_CLK1_SEL :: u32 where "AD9510_PLL_CLK1_SEL = 1"
definition AD9510_PLL_CLK2_SEL :: u32 where "AD9510_PLL_CLK2_SEL = 2"
definition AD9510_PLL_CLK_MIN_SEL :: u32 where "AD9510_PLL_CLK_MIN_SEL = 1"
definition AD9510_PLL_CLK_MAX_SEL :: u32 where "AD9510_PLL_CLK_MAX_SEL = 2"
definition AD9510_REG_DIV0_DCYCLE :: u8 where "AD9510_REG_DIV0_DCYCLE = 0x48"
definition AD9510_REG_DIV1_DCYCLE :: u8 where "AD9510_REG_DIV1_DCYCLE = 0x4a"
definition AD9510_REG_DIV2_DCYCLE :: u8 where "AD9510_REG_DIV2_DCYCLE = 0x4c"
definition AD9510_REG_DIV3_DCYCLE :: u8 where "AD9510_REG_DIV3_DCYCLE = 0x4e"
definition AD9510_REG_DIV4_DCYCLE :: u8 where "AD9510_REG_DIV4_DCYCLE = 0x50"
definition AD9510_REG_DIV5_DCYCLE :: u8 where "AD9510_REG_DIV5_DCYCLE = 0x52"
definition AD9510_REG_DIV6_DCYCLE :: u8 where "AD9510_REG_DIV6_DCYCLE = 0x54"
definition AD9510_REG_DIV7_DCYCLE :: u8 where "AD9510_REG_DIV7_DCYCLE = 0x56"
definition AD9510_DIV_DCYCLE_HIGH_MASK :: u32 where "AD9510_DIV_DCYCLE_HIGH_MASK = WBGEN2_GEN_MASK 0 4"
definition AD9510_DIV_DCYCLE_HIGH_W :: "u32 \<Rightarrow> u32" where "AD9510_DIV_DCYCLE_HIGH_W v = WBGEN2_GEN_WRITE v 0 4"
definition AD9510_DIV_DCYCLE_HIGH_R :: "u32 \<Rightarrow> u32" where "AD9510_DIV_DCYCLE_HIGH_R v = WBGEN2_GEN_READ v 0 4"
definition AD9510_DIV_DCYCLE_LOW_MASK :: u32 where "AD9510_DIV_DCYCLE_LOW_MASK = WBGEN2_GEN_MASK 4 4"
definition AD9510_DIV_DCYCLE_LOW_W :: "u32 \<Rightarrow> u32" where "AD9510_DIV_DCYCLE_LOW_W v = WBGEN2_GEN_WRITE v 4 4"
definition AD9510_DIV_DCYCLE_LOW_R :: "u32 \<Rightarrow> u32" where "AD9510_DIV_DCYCLE_LOW_R v = WBGEN2_GEN_READ v 4 4"
definition AD9510_REG_DIV0_OPT :: u8 where "AD9510_REG_DIV0_OPT = 0x49"
definition AD9510_REG_DIV1_OPT :: u8 where "AD9510_REG_DIV1_OPT = 0x4b"
definition AD9510_REG_DIV2_OPT :: u8 where "AD9510_REG_DIV2_OPT = 0x4d"
definition AD9510_REG_DIV3_OPT :: u8 where "AD9510_REG_DIV3_OPT = 0x4f"
definition AD9510_REG_DIV4_OPT :: u8 where "AD9510_REG_DIV4_OPT = 0x51"
definition AD9510_REG_DIV5_OPT :: u8 where "AD9510_REG_DIV5_OPT = 0x53"
definition AD9510_REG_DIV6_OPT :: u8 where "AD9510_REG_DIV6_OPT = 0x55"
definition AD9510_REG_DIV7_OPT :: u8 where "AD9510_REG_DIV7_OPT = 0x57"
definition AD9510_DIV_OPT_PHASE_MASK :: u32 where "AD9510_DIV_OPT_PHASE_MASK = WBGEN2_GEN_MASK 0 4"
definition AD9510_DIV_OPT_PHASE_W :: "u32 \<Rightarrow> u32" where "AD9510_DIV_OPT_PHASE_W v = WBGEN2_GEN_WRITE v 0 4"
definition AD9510_DIV_OPT_PHASE_R :: "u32 \<Rightarrow> u32" where "AD9510_DIV_OPT_PHASE_R v = WBGEN2_GEN_READ v 0 4"
definition AD9510_DIV_START_HIGH :: u32 where "AD9510_DIV_START_HIGH = WBGEN2_GEN_MASK 4 1"
definition AD9510_DIV_FORCE :: u32 where "AD9510_DIV_FORCE = WBGEN2_GEN_MASK 5 1"
definition AD9510_DIV_IGN_CHIP_SYNC :: u32 where "AD9510_DIV_IGN_CHIP_SYNC = WBGEN2_GEN_MASK 6 1"
definition AD9510_DIV_BYPASS :: u32 where "AD9510_DIV_BYPASS = WBGEN2_GEN_MASK 7 1"
definition AD9510_REG_UPDATE_REGS :: u8 where "AD9510_REG_UPDATE_REGS = 0x5a"
definition AD9510_UPDATE_REGS_VAL :: u32 where "AD9510_UPDATE_REGS_VAL = WBGEN2_GEN_MASK 0 1"
definition AD9510_REG_FUNCTION :: u8 where "AD9510_REG_FUNCTION = 0x58"
definition AD9510_FUNCTION_SYNC_EN :: u32 where "AD9510_FUNCTION_SYNC_EN = WBGEN2_GEN_MASK 0 1"
definition AD9510_FUNCTION_SYNC_SEL :: u32 where "AD9510_FUNCTION_SYNC_SEL = WBGEN2_GEN_MASK 1 1"
definition AD9510_FUNCTION_SYNC_REG :: u32 where "AD9510_FUNCTION_SYNC_REG = WBGEN2_GEN_MASK 2 1"
definition AD9510_FUNCTION_REF_PD :: u32 where "AD9510_FUNCTION_REF_PD = WBGEN2_GEN_MASK 3 1"
definition AD9510_FUNCTION_SYNC_PD :: u32 where "AD9510_FUNCTION_SYNC_PD = WBGEN2_GEN_MASK 4 1"
definition AD9510_FUNCTION_FUNC_SEL_MASK :: u32 where "AD9510_FUNCTION_FUNC_SEL_MASK = WBGEN2_GEN_MASK 5 2"
definition AD9510_FUNCTION_FUNC_SEL_W :: "u32 \<Rightarrow> u32" where "AD9510_FUNCTION_FUNC_SEL_W v = WBGEN2_GEN_WRITE v 5 2"
definition AD9510_FUNCTION_FUNC_SEL_R :: "u32 \<Rightarrow> u32" where "AD9510_FUNCTION_FUNC_SEL_R v = WBGEN2_GEN_READ v 5 2"
definition AD9510_DATA_SIZE :: nat where "AD9510_DATA_SIZE = 8"
definition AD9510_PLL_B_LSB_COUNTER_SIZE :: nat where "AD9510_PLL_B_LSB_COUNTER_SIZE = 8"
definition AD9510_PLL_R_LSB_COUNTER_SIZE :: nat where "AD9510_PLL_R_LSB_COUNTER_SIZE = 8"
definition AD9510_OUTPUT_EN_LSB_SIZE :: nat where "AD9510_OUTPUT_EN_LSB_SIZE = 1"

definition AD9510_CLK_OPT_CLK_PD_MASK :: u32 where
  "AD9510_CLK_OPT_CLK_PD_MASK = AD9510_CLK_OPT_CLK1_PD OR AD9510_CLK_OPT_CLK2_PD"

definition SMCH_AD9510_DFLT_PLL_B_COUNTER :: u32 where "SMCH_AD9510_DFLT_PLL_B_COUNTER = 35"
definition SMCH_AD9510_DFLT_PLL_R_COUNTER :: u32 where "SMCH_AD9510_DFLT_PLL_R_COUNTER = 4"
definition SMCH_AD9510_WAIT_TRIES :: nat where "SMCH_AD9510_WAIT_TRIES = 10"
definition SMCH_AD9510_NAME :: string where "SMCH_AD9510_NAME = ''SPI_AD9510''"

section \<open>Accesses\<close>

text \<open>One byte per transfer, after an instruction of 16 bits. The result is the size of the byte or
  -1.\<close>

definition s_smch_ad9510_write_8 ::
  "u8 \<Rightarrow> u8 \<Rightarrow> ('a, 'b, 'd, 'o, 'h, 'p) chip \<Rightarrow> (int \<times> ('a, 'b, 'd, 'o, 'h, 'p) chip) option" where
  "s_smch_ad9510_write_8 addr data w = do {
     let a = (ucast (NOT AD9510_HDR_RW AND (AD9510_HDR_BT_W 0 OR AD9510_HDR_ADDR_W (ucast addr))) :: u64);
     (smpr_err, w1) \<leftarrow> chip_write (AD9510_INSTADDR_SIZE div SMPR_BYTE_2_BIT) a
       (take (AD9510_DATA_SIZE div SMPR_BYTE_2_BIT) (le_bytes 4 (AD9510_DATA_W (ucast data)))) w;
     Some (if 0 < smpr_err \<and> smpr_err = int (AD9510_DATA_SIZE div SMPR_BYTE_2_BIT) then 1 else -1, w1) }"

definition s_smch_ad9510_read_8 ::
  "u8 \<Rightarrow> u8 \<Rightarrow> ('a, 'b, 'd, 'o, 'h, 'p) chip \<Rightarrow> (int \<times> u8 \<times> ('a, 'b, 'd, 'o, 'h, 'p) chip) option" where
  "s_smch_ad9510_read_8 addr data w = do {
     let a = (ucast (AD9510_HDR_RW OR (AD9510_HDR_BT_W 0 OR AD9510_HDR_ADDR_W (ucast addr))) :: u64);
     (smpr_err, b, w1) \<leftarrow> chip_read (AD9510_INSTADDR_SIZE div SMPR_BYTE_2_BIT) a [data] w;
     Some (if 0 < smpr_err \<and> smpr_err = int (AD9510_DATA_SIZE div SMPR_BYTE_2_BIT) then 1 else -1, hd b, w1) }"

definition smch_ad9510_write_8 ::
  "u8 \<Rightarrow> u8 \<Rightarrow> ('a, 'b, 'd, 'o, 'h, 'p) chip \<Rightarrow> (smch_err \<times> ('a, 'b, 'd, 'o, 'h, 'p) chip) option" where
  "smch_ad9510_write_8 addr data w =
     map_option (\<lambda>(r, w1). (if r = 1 then SMCH_SUCCESS else SMCH_ERR_RW_SMPR, w1)) (s_smch_ad9510_write_8 addr data w)"

definition smch_ad9510_read_8 ::
  "u8 \<Rightarrow> u8 \<Rightarrow> ('a, 'b, 'd, 'o, 'h, 'p) chip \<Rightarrow> (smch_err \<times> u8 \<times> ('a, 'b, 'd, 'o, 'h, 'p) chip) option" where
  "smch_ad9510_read_8 addr data w =
     map_option (\<lambda>(r, b, w1). (if r = 1 then SMCH_SUCCESS else SMCH_ERR_RW_SMPR, b, w1)) (s_smch_ad9510_read_8 addr data w)"

text \<open>Most functions do not look at the result of a transfer; after a failed read the variable keeps its
  value.\<close>

definition ad9510_put :: "u8 \<Rightarrow> u32 \<Rightarrow> ('a, 'b, 'd, 'o, 'h, 'p) chip \<Rightarrow> ('a, 'b, 'd, 'o, 'h, 'p) chip option" where
  "ad9510_put addr data w = map_option snd (s_smch_ad9510_write_8 addr (ucast data) w)"

definition ad9510_get :: "u8 \<Rightarrow> u8 \<Rightarrow> ('a, 'b, 'd, 'o, 'h, 'p) chip \<Rightarrow> (u8 \<times> ('a, 'b, 'd, 'o, 'h, 'p) chip) option" where
  "ad9510_get addr data w = map_option snd (s_smch_ad9510_read_8 addr data w)"

fun ad9510_puts :: "(u8 \<times> u32) list \<Rightarrow> ('a, 'b, 'd, 'o, 'h, 'p) chip \<Rightarrow> ('a, 'b, 'd, 'o, 'h, 'p) chip option" where
  "ad9510_puts [] w = Some w"
| "ad9510_puts ((a, d) # xs) w = do { w1 \<leftarrow> ad9510_put a d w; ad9510_puts xs w1 }"

section \<open>Taking over the registers\<close>

text \<open>The update bit clears itself when the chip has taken the values over; at most \<open>tries\<close> readings.\<close>

fun s_smch_ad9510_wait_completion ::
  "nat \<Rightarrow> u8 \<Rightarrow> ('a, 'b, 'd, 'o, 'h, 'p) chip \<Rightarrow> (bool \<times> ('a, 'b, 'd, 'o, 'h, 'p) chip) option" where
  "s_smch_ad9510_wait_completion 0 data w = Some (False, w)"
| "s_smch_ad9510_wait_completion (Suc n) data w = do {
     (err, data1, w1) \<leftarrow> s_smch_ad9510_read_8 AD9510_REG_UPDATE_REGS data w;
     if err \<noteq> 1 then Some (False, w1)
     else if ucast data1 AND AD9510_UPDATE_REGS_VAL = 0 then Some (True, w1)
     else s_smch_ad9510_wait_completion n data1 w1 }"

definition s_smch_ad9510_reg_update ::
  "('a, 'b, 'd, 'o, 'h, 'p) chip \<Rightarrow> (smch_err \<times> ('a, 'b, 'd, 'o, 'h, 'p) chip) option" where
  "s_smch_ad9510_reg_update w = do {
     (rw_err, w1) \<leftarrow> s_smch_ad9510_write_8 AD9510_REG_UPDATE_REGS (ucast AD9510_UPDATE_REGS_VAL) w;
     if rw_err \<noteq> 1 then Some (SMCH_ERR_RW_SMPR, w1)
     else do {
       (finished, w2) \<leftarrow> s_smch_ad9510_wait_completion SMCH_AD9510_WAIT_TRIES 0 w1;
       Some (if finished then SMCH_SUCCESS else SMCH_ERR_TIMEOUT, w2) } }"

definition smch_ad9510_reg_update ::
  "('a, 'b, 'd, 'o, 'h, 'p) chip \<Rightarrow> (smch_err \<times> ('a, 'b, 'd, 'o, 'h, 'p) chip) option" where
  "smch_ad9510_reg_update w = s_smch_ad9510_reg_update w"

definition smch_ad9510_write_8_update ::
  "u8 \<Rightarrow> u8 \<Rightarrow> ('a, 'b, 'd, 'o, 'h, 'p) chip \<Rightarrow> (smch_err \<times> ('a, 'b, 'd, 'o, 'h, 'p) chip) option" where
  "smch_ad9510_write_8_update addr data w = do {
     (err, w1) \<leftarrow> smch_ad9510_write_8 addr data w;
     if err \<noteq> SMCH_SUCCESS then Some (err, w1) else s_smch_ad9510_reg_update w1 }"

definition smch_ad9510_read_8_update ::
  "u8 \<Rightarrow> u8 \<Rightarrow> ('a, 'b, 'd, 'o, 'h, 'p) chip \<Rightarrow> (smch_err \<times> u8 \<times> ('a, 'b, 'd, 'o, 'h, 'p) chip) option" where
  "smch_ad9510_read_8_update addr data w = do {
     (err, data1, w1) \<leftarrow> smch_ad9510_read_8 addr data w;
     if err \<noteq> SMCH_SUCCESS then Some (err, data1, w1)
     else do { (err', w2) \<leftarrow> s_smch_ad9510_reg_update w1; Some (err', data1, w2) } }"

section \<open>Start and defaults\<close>

definition s_smch_ad9510_init ::
  "('a, 'b, 'd, 'o, 'h, 'p) chip \<Rightarrow> (smch_err \<times> ('a, 'b, 'd, 'o, 'h, 'p) chip) option" where
  "s_smch_ad9510_init w = do {
     let data = (ucast (AD9510_CFG_SERIAL_SOFT_RST OR AD9510_CFG_SERIAL_LONG_INST) :: u8);
     (rw_err, w1) \<leftarrow> s_smch_ad9510_write_8 AD9510_REG_CFG_SERIAL data w;
     if rw_err \<noteq> 1 then Some (SMCH_ERR_RW_SMPR, w1)
     else do {
       let data1 = (ucast (ucast data AND NOT AD9510_CFG_SERIAL_SOFT_RST) :: u8);
       (rw_err', w2) \<leftarrow> s_smch_ad9510_write_8 AD9510_REG_CFG_SERIAL data1 w1;
       Some (if rw_err' \<noteq> 1 then SMCH_ERR_RW_SMPR else SMCH_SUCCESS, w2) } }"

definition smch_ad9510_new ::
  "bool \<Rightarrow> (nat \<Rightarrow> bool) \<Rightarrow> ('o, 'h, 'p) smio \<Rightarrow> u64 \<Rightarrow> ('a, 'b, 'd, 'o, 'h, 'p) smpr_proto_ops option \<Rightarrow> 'd \<Rightarrow> int \<Rightarrow>
     'p \<Rightarrow> (('a, 'b, 'd, 'o, 'h, 'p) smpr option \<times> 'p) option" where
  "smch_ad9510_new ok al parent base reg_ops d verb p = do {
     r \<leftarrow> chip_open ok al SMCH_AD9510_NAME parent reg_ops d verb base None p;
     chip_start s_smch_ad9510_init r }"

definition smch_ad9510_destroy ::
  "('a, 'b, 'd, 'o, 'h, 'p) smpr option \<Rightarrow> (smch_err \<times> ('a, 'b, 'd, 'o, 'h, 'p) smpr option) option" where
  "smch_ad9510_destroy self_p = chip_destroy self_p"

definition ad9510_dflt_pll :: "(u8 \<times> u32) list" where
  "ad9510_dflt_pll =
    [(AD9510_REG_PLL_A_COUNTER, AD9510_PLL_A_COUNTER_W 0),
     (AD9510_REG_PLL_B_MSB_COUNTER, AD9510_PLL_B_MSB_COUNTER_W (drop_bit AD9510_PLL_B_LSB_COUNTER_SIZE SMCH_AD9510_DFLT_PLL_B_COUNTER)),
     (AD9510_REG_PLL_B_LSB_COUNTER, AD9510_PLL_B_LSB_COUNTER_W SMCH_AD9510_DFLT_PLL_B_COUNTER),
     (AD9510_REG_PLL_2, AD9510_PLL_2_CP_MODE_W 3 OR AD9510_PLL_2_MUX_SEL_W 1 OR AD9510_PLL_2_PFD_POL_POS),
     (AD9510_REG_PLL_4, AD9510_PLL_4_PRESCALER_P_W 0 OR AD9510_PLL_4_PLL_PDOWN_W 0),
     (AD9510_REG_PLL_R_MSB_COUNTER, AD9510_PLL_R_MSB_COUNTER_W (drop_bit AD9510_PLL_R_LSB_COUNTER_SIZE SMCH_AD9510_DFLT_PLL_R_COUNTER)),
     (AD9510_REG_PLL_R_LSB_COUNTER, AD9510_PLL_R_LSB_COUNTER_W SMCH_AD9510_DFLT_PLL_R_COUNTER)]"

definition ad9510_dflt_out :: "(u8 \<times> u32) list" where
  "ad9510_dflt_out =
     map (\<lambda>r. (r, AD9510_LVPECL_OUT_LVL_W 2 OR AD9510_LVPECL_OUT_PDOWN_W 0))
       [AD9510_REG_LVPECL_OUT0, AD9510_REG_LVPECL_OUT1, AD9510_REG_LVPECL_OUT2, AD9510_REG_LVPECL_OUT3] @
     [(AD9510_REG_LVDS_CMOS_OUT4, AD9510_LVDS_CMOS_CURR_W 1 AND NOT AD9510_LVDS_CMOS_PDOWN)] @
     map (\<lambda>r. (r, AD9510_LVDS_CMOS_CURR_W 1 OR AD9510_LVDS_CMOS_PDOWN))
       [AD9510_REG_LVDS_CMOS_OUT5, AD9510_REG_LVDS_CMOS_OUT6, AD9510_REG_LVDS_CMOS_OUT7] @
     [(AD9510_REG_CLK_OPT, AD9510_CLK_OPT_CLK1_PD AND
        (NOT AD9510_CLK_OPT_REFIN_PD AND NOT AD9510_CLK_OPT_PS_PD AND NOT AD9510_CLK_OPT_SEL_CLK1))]"

definition ad9510_dflt_div :: "(u8 \<times> u32) list" where
  "ad9510_dflt_div =
     map (\<lambda>r. (r, AD9510_DIV_DCYCLE_LOW_W 0 OR AD9510_DIV_DCYCLE_HIGH_W 0))
       [AD9510_REG_DIV0_DCYCLE, AD9510_REG_DIV1_DCYCLE, AD9510_REG_DIV2_DCYCLE, AD9510_REG_DIV3_DCYCLE,
        AD9510_REG_DIV4_DCYCLE, AD9510_REG_DIV5_DCYCLE, AD9510_REG_DIV6_DCYCLE, AD9510_REG_DIV7_DCYCLE] @
     map (\<lambda>r. (r, AD9510_DIV_BYPASS OR AD9510_DIV_START_HIGH OR AD9510_DIV_OPT_PHASE_W 0))
       [AD9510_REG_DIV0_OPT, AD9510_REG_DIV1_OPT, AD9510_REG_DIV2_OPT, AD9510_REG_DIV3_OPT,
        AD9510_REG_DIV4_OPT, AD9510_REG_DIV5_OPT, AD9510_REG_DIV6_OPT, AD9510_REG_DIV7_OPT] @
     [(AD9510_REG_FUNCTION, AD9510_FUNCTION_FUNC_SEL_W 1)]"

text \<open>Groups of writes, each followed by taking the registers over, until one does not succeed.\<close>

fun ad9510_groups ::
  "(u8 \<times> u32) list list \<Rightarrow> ('a, 'b, 'd, 'o, 'h, 'p) chip \<Rightarrow> (smch_err \<times> ('a, 'b, 'd, 'o, 'h, 'p) chip) option" where
  "ad9510_groups [] w = Some (SMCH_SUCCESS, w)"
| "ad9510_groups (g # gs) w = do {
     w1 \<leftarrow> ad9510_puts g w;
     (err, w2) \<leftarrow> s_smch_ad9510_reg_update w1;
     if err \<noteq> SMCH_SUCCESS then Some (err, w2) else ad9510_groups gs w2 }"

definition smch_ad9510_cfg_defaults ::
  "('a, 'b, 'd, 'o, 'h, 'p) chip \<Rightarrow> (smch_err \<times> ('a, 'b, 'd, 'o, 'h, 'p) chip) option" where
  "smch_ad9510_cfg_defaults w = do {
     (err, w1) \<leftarrow> s_smch_ad9510_init w;
     if err \<noteq> SMCH_SUCCESS then Some (SMCH_ERR_RW_SMPR, w1)
     else do {
       let data = AD9510_FUNCTION_FUNC_SEL_W 1;
       ad9510_groups
         [ad9510_dflt_pll @ ad9510_dflt_out, ad9510_dflt_div,
          [(AD9510_REG_FUNCTION, data OR AD9510_FUNCTION_SYNC_REG)],
          [(AD9510_REG_FUNCTION, (data OR AD9510_FUNCTION_SYNC_REG) AND NOT AD9510_FUNCTION_SYNC_REG)]] w1 } }"

section \<open>The settings\<close>

type_synonym ('a, 'b, 'd, 'o, 'h, 'p) chip_set =
  "u32 \<Rightarrow> ('a, 'b, 'd, 'o, 'h, 'p) chip \<Rightarrow> (smch_err \<times> ('a, 'b, 'd, 'o, 'h, 'p) chip) option"

type_synonym ('a, 'b, 'd, 'o, 'h, 'p) chip_get =
  "u32 \<Rightarrow> ('a, 'b, 'd, 'o, 'h, 'p) chip \<Rightarrow> (smch_err \<times> u32 \<times> ('a, 'b, 'd, 'o, 'h, 'p) chip) option"

text \<open>A field of a register: read, changed, written, taken over.\<close>

definition ad9510_modify ::
  "u8 \<Rightarrow> (u32 \<Rightarrow> u32) \<Rightarrow> ('a, 'b, 'd, 'o, 'h, 'p) chip \<Rightarrow> (smch_err \<times> ('a, 'b, 'd, 'o, 'h, 'p) chip) option" where
  "ad9510_modify addr f w = do {
     (data, w1) \<leftarrow> ad9510_get addr 0 w;
     w2 \<leftarrow> ad9510_put addr (f (ucast data)) w1;
     s_smch_ad9510_reg_update w2 }"

text \<open>A read into the lowest byte of the value of the caller.\<close>

definition ad9510_get_low :: "u8 \<Rightarrow> u32 \<Rightarrow> ('a, 'b, 'd, 'o, 'h, 'p) chip \<Rightarrow> (u32 \<times> ('a, 'b, 'd, 'o, 'h, 'p) chip) option" where
  "ad9510_get_low addr v w = do {
     (data, w1) \<leftarrow> ad9510_get addr (ucast v) w;
     Some ((v AND NOT (mask 8)) OR ucast data, w1) }"

definition smch_ad9510_set_pll_a_div :: "('a, 'b, 'd, 'o, 'h, 'p) chip_set" where
  "smch_ad9510_set_pll_a_div dv w =
     (if \<not> dv < AD9510_PLL_A_COUNTER_MASK + 1 then Some (SMCH_ERR_INV_FUNC_PARAM, w)
      else do {
        w1 \<leftarrow> ad9510_put AD9510_REG_PLL_A_COUNTER (AD9510_PLL_A_COUNTER_W dv) w;
        s_smch_ad9510_reg_update w1 })"

definition smch_ad9510_get_pll_a_div :: "('a, 'b, 'd, 'o, 'h, 'p) chip_get" where
  "smch_ad9510_get_pll_a_div dv w = do {
     (v, w1) \<leftarrow> ad9510_get_low AD9510_REG_PLL_A_COUNTER dv w;
     Some (SMCH_SUCCESS, AD9510_PLL_A_COUNTER_R v, w1) }"

definition smch_ad9510_set_pll_b_div :: "('a, 'b, 'd, 'o, 'h, 'p) chip_set" where
  "smch_ad9510_set_pll_b_div dv w =
     (if \<not> (dv = 0 \<or> AD9510_PLL_B_MIN_VALUE - 1 < dv \<and> dv < AD9510_PLL_B_COUNTER_MASK + 1)
      then Some (SMCH_ERR_INV_FUNC_PARAM, w)
      else do {
        (data, w1) \<leftarrow> ad9510_get AD9510_REG_PLL_4 0 w;
        w2 \<leftarrow> ad9510_puts
          [(AD9510_REG_PLL_4, if dv = 0 then ucast data OR AD9510_PLL_4_B_BYPASS else ucast data AND NOT AD9510_PLL_4_B_BYPASS),
           (AD9510_REG_PLL_B_MSB_COUNTER, AD9510_PLL_B_MSB_COUNTER_W (drop_bit AD9510_PLL_B_LSB_COUNTER_SIZE dv)),
           (AD9510_REG_PLL_B_LSB_COUNTER, AD9510_PLL_B_LSB_COUNTER_W dv)] w1;
        s_smch_ad9510_reg_update w2 })"

definition smch_ad9510_get_pll_b_div :: "('a, 'b, 'd, 'o, 'h, 'p) chip_get" where
  "smch_ad9510_get_pll_b_div dv w = do {
     (data, w1) \<leftarrow> ad9510_get AD9510_REG_PLL_4 0 w;
     if ucast data AND AD9510_PLL_4_B_BYPASS \<noteq> 0 then Some (SMCH_SUCCESS, 1, w1)
     else do {
       (msb, w2) \<leftarrow> ad9510_get AD9510_REG_PLL_B_MSB_COUNTER data w1;
       (lsb, w3) \<leftarrow> ad9510_get AD9510_REG_PLL_B_LSB_COUNTER msb w2;
       Some (SMCH_SUCCESS, push_bit AD9510_PLL_B_LSB_COUNTER_SIZE (AD9510_PLL_B_MSB_COUNTER_R (ucast msb)) OR
         AD9510_PLL_B_LSB_COUNTER_R (ucast lsb), w3) } }"

definition smch_ad9510_set_pll_prescaler :: "('a, 'b, 'd, 'o, 'h, 'p) chip_set" where
  "smch_ad9510_set_pll_prescaler pre w = ad9510_modify AD9510_REG_PLL_4
     (\<lambda>data. (data AND NOT AD9510_PLL_4_PRESCALER_P_MASK) OR AD9510_PLL_4_PRESCALER_P_W pre) w"

definition smch_ad9510_get_pll_prescaler :: "('a, 'b, 'd, 'o, 'h, 'p) chip_get" where
  "smch_ad9510_get_pll_prescaler pre w = do {
     (v, w1) \<leftarrow> ad9510_get_low AD9510_REG_PLL_4 pre w;
     Some (SMCH_SUCCESS, AD9510_PLL_4_PRESCALER_P_R v, w1) }"

definition smch_ad9510_set_pll_pdown :: "('a, 'b, 'd, 'o, 'h, 'p) chip_set" where
  "smch_ad9510_set_pll_pdown pdown w =
     (if \<not> pdown < AD9510_PLL_PDOWN_SYNC + 1 then Some (SMCH_ERR_INV_FUNC_PARAM, w)
      else ad9510_modify AD9510_REG_PLL_4
        (\<lambda>data. (data AND NOT AD9510_PLL_4_PLL_PDOWN_MASK) OR AD9510_PLL_4_PLL_PDOWN_W pdown) w)"

definition smch_ad9510_get_pll_pdown :: "('a, 'b, 'd, 'o, 'h, 'p) chip_get" where
  "smch_ad9510_get_pll_pdown pdown w = do {
     (v, w1) \<leftarrow> ad9510_get_low AD9510_REG_PLL_4 pdown w;
     Some (SMCH_SUCCESS, AD9510_PLL_4_PLL_PDOWN_R v, w1) }"

definition smch_ad9510_set_mux_status :: "('a, 'b, 'd, 'o, 'h, 'p) chip_set" where
  "smch_ad9510_set_mux_status mux w =
     (if \<not> mux \<le> AD9510_PLL_2_MUX_SEL_MAX then Some (SMCH_ERR_INV_FUNC_PARAM, w)
      else ad9510_modify AD9510_REG_PLL_2
        (\<lambda>data. (data AND NOT AD9510_PLL_2_MUX_SEL_MASK) OR AD9510_PLL_2_MUX_SEL_W mux) w)"

definition smch_ad9510_get_mux_status :: "('a, 'b, 'd, 'o, 'h, 'p) chip_get" where
  "smch_ad9510_get_mux_status mux w = do {
     (data, w1) \<leftarrow> ad9510_get AD9510_REG_PLL_2 0 w;
     Some (SMCH_SUCCESS, AD9510_PLL_2_MUX_SEL_R (ucast data), w1) }"

definition smch_ad9510_set_r_div :: "('a, 'b, 'd, 'o, 'h, 'p) chip_set" where
  "smch_ad9510_set_r_div dv w =
     (if \<not> dv < AD9510_PLL_R_COUNTER_MASK + 1 then Some (SMCH_ERR_INV_FUNC_PARAM, w)
      else do {
        w1 \<leftarrow> ad9510_puts
          [(AD9510_REG_PLL_R_MSB_COUNTER, AD9510_PLL_R_MSB_COUNTER_W (drop_bit AD9510_PLL_R_LSB_COUNTER_SIZE dv)),
           (AD9510_REG_PLL_R_LSB_COUNTER, AD9510_PLL_R_LSB_COUNTER_W dv)] w;
        s_smch_ad9510_reg_update w1 })"

definition smch_ad9510_get_r_div :: "('a, 'b, 'd, 'o, 'h, 'p) chip_get" where
  "smch_ad9510_get_r_div dv w = do {
     (msb, w1) \<leftarrow> ad9510_get AD9510_REG_PLL_R_MSB_COUNTER 0 w;
     (lsb, w2) \<leftarrow> ad9510_get AD9510_REG_PLL_R_LSB_COUNTER msb w1;
     Some (SMCH_SUCCESS, push_bit AD9510_PLL_R_LSB_COUNTER_SIZE (AD9510_PLL_R_MSB_COUNTER_R (ucast msb)) OR
       AD9510_PLL_R_LSB_COUNTER_R (ucast lsb), w2) }"

definition smch_ad9510_set_cp_current :: "('a, 'b, 'd, 'o, 'h, 'p) chip_set" where
  "smch_ad9510_set_cp_current cp_current w =
     (if \<not> (AD9510_PLL3_CP_CURRENT_MIN - 1 < cp_current \<and> cp_current < AD9510_PLL3_CP_CURRENT_MAX + 1 \<and>
          cp_current mod AD9510_PLL3_CP_CURRENT_MIN = 0)
      then Some (SMCH_ERR_INV_FUNC_PARAM, w)
      else ad9510_modify AD9510_REG_PLL_3
        (\<lambda>data. (data AND NOT AD9510_PLL_3_CP_CURRENT_MASK) OR
          AD9510_PLL_3_CP_CURRENT_W (cp_current div AD9510_PLL3_CP_CURRENT_MIN - 1)) w)"

definition smch_ad9510_get_cp_current :: "('a, 'b, 'd, 'o, 'h, 'p) chip_get" where
  "smch_ad9510_get_cp_current cp_current w = do {
     (v, w1) \<leftarrow> ad9510_get_low AD9510_REG_PLL_3 cp_current w;
     Some (SMCH_SUCCESS, (AD9510_PLL_3_CP_CURRENT_R v + 1) * AD9510_PLL3_CP_CURRENT_MIN, w1) }"

text \<open>The outputs: one bit each, from the first. The variable of the LVPECL outputs is kept from one to
  the next, that of the others starts at 0.\<close>

fun ad9510_set_lvpecl ::
  "nat list \<Rightarrow> u32 \<Rightarrow> u8 \<Rightarrow> ('a, 'b, 'd, 'o, 'h, 'p) chip \<Rightarrow> (u32 \<times> ('a, 'b, 'd, 'o, 'h, 'p) chip) option" where
  "ad9510_set_lvpecl [] en data w = Some (en, w)"
| "ad9510_set_lvpecl (i # is) en data w = do {
     let r = AD9510_REG_OUTPUT_START + of_nat i;
     (old, w1) \<leftarrow> ad9510_get r data w;
     let new = (ucast ((ucast old AND NOT AD9510_LVPECL_OUT_PDOWN_MASK) OR
       AD9510_LVPECL_OUT_PDOWN_W (if en AND AD9510_OUTPUT_EN_LSB_MASK = 0 then 2 else 0)) :: u8);
     w2 \<leftarrow> ad9510_put r (ucast new) w1;
     ad9510_set_lvpecl is (drop_bit AD9510_OUTPUT_EN_LSB_SIZE en) new w2 }"

fun ad9510_set_lvds ::
  "nat list \<Rightarrow> u32 \<Rightarrow> ('a, 'b, 'd, 'o, 'h, 'p) chip \<Rightarrow> ('a, 'b, 'd, 'o, 'h, 'p) chip option" where
  "ad9510_set_lvds [] en w = Some w"
| "ad9510_set_lvds (i # is) en w = do {
     let r = AD9510_REG_OUTPUT_START + of_nat i;
     (old, w1) \<leftarrow> ad9510_get r 0 w;
     w2 \<leftarrow> ad9510_put r (if en AND AD9510_OUTPUT_EN_LSB_MASK = 0 then ucast old OR AD9510_LVDS_CMOS_PDOWN
       else ucast old AND NOT AD9510_LVDS_CMOS_PDOWN) w1;
     ad9510_set_lvds is (drop_bit AD9510_OUTPUT_EN_LSB_SIZE en) w2 }"

definition smch_ad9510_set_outputs :: "('a, 'b, 'd, 'o, 'h, 'p) chip_set" where
  "smch_ad9510_set_outputs out_en w =
     (if \<not> out_en < AD9510_OUTPUT_EN_MASK + 1 then Some (SMCH_ERR_INV_FUNC_PARAM, w)
      else do {
        (en, w1) \<leftarrow> ad9510_set_lvpecl [0..<AD9510_NUM_LVPECL_OUTPUTS] (AD9510_OUTPUT_EN_R out_en) 0 w;
        w2 \<leftarrow> ad9510_set_lvds [AD9510_NUM_LVPECL_OUTPUTS..<AD9510_NUM_OUTPUTS] en w1;
        s_smch_ad9510_reg_update w2 })"

fun ad9510_get_outs ::
  "(u32 \<Rightarrow> bool) \<Rightarrow> nat list \<Rightarrow> u8 \<Rightarrow> u32 \<Rightarrow> ('a, 'b, 'd, 'o, 'h, 'p) chip \<Rightarrow> (u8 \<times> u32 \<times> ('a, 'b, 'd, 'o, 'h, 'p) chip) option" where
  "ad9510_get_outs on [] data out w = Some (data, out, w)"
| "ad9510_get_outs on (i # is) data out w = do {
     (data1, w1) \<leftarrow> ad9510_get (AD9510_REG_OUTPUT_START + of_nat i) data w;
     ad9510_get_outs on is data1 (if on (ucast data1) then out OR push_bit i 1 else out) w1 }"

definition smch_ad9510_get_outputs :: "('a, 'b, 'd, 'o, 'h, 'p) chip_get" where
  "smch_ad9510_get_outputs out_en w = do {
     (data, out, w1) \<leftarrow> ad9510_get_outs (\<lambda>v. AD9510_LVPECL_OUT_PDOWN_R v = 0) [0..<AD9510_NUM_LVPECL_OUTPUTS] 0 0 w;
     (_, out', w2) \<leftarrow> ad9510_get_outs (\<lambda>v. v AND AD9510_LVDS_CMOS_PDOWN = 0) [AD9510_NUM_LVPECL_OUTPUTS..<AD9510_NUM_OUTPUTS] data out w1;
     Some (SMCH_SUCCESS, out', w2) }"

definition smch_ad9510_set_pll_clk_sel :: "('a, 'b, 'd, 'o, 'h, 'p) chip_set" where
  "smch_ad9510_set_pll_clk_sel clk_num w =
     (if \<not> (AD9510_PLL_CLK_MIN_SEL - 1 < clk_num \<and> clk_num < AD9510_PLL_CLK_MAX_SEL + 1) then Some (SMCH_ERR_INV_FUNC_PARAM, w)
      else ad9510_modify AD9510_REG_CLK_OPT (\<lambda>data0.
        let data = data0 AND NOT AD9510_CLK_OPT_CLK_PD_MASK
        in if clk_num = AD9510_PLL_CLK1_SEL then (data OR AD9510_CLK_OPT_SEL_CLK1) OR AD9510_CLK_OPT_CLK2_PD
           else if clk_num = AD9510_PLL_CLK2_SEL then (data AND NOT AD9510_CLK_OPT_SEL_CLK1) OR AD9510_CLK_OPT_CLK1_PD
           else (data OR AD9510_CLK_OPT_SEL_CLK1) OR AD9510_CLK_OPT_CLK2_PD) w)"

definition smch_ad9510_get_pll_clk_sel :: "('a, 'b, 'd, 'o, 'h, 'p) chip_get" where
  "smch_ad9510_get_pll_clk_sel clk_num w = do {
     (data, w1) \<leftarrow> ad9510_get AD9510_REG_CLK_OPT 0 w;
     Some (SMCH_SUCCESS, if ucast data AND AD9510_CLK_OPT_SEL_CLK1 \<noteq> 0 then AD9510_PLL_CLK1_SEL else AD9510_PLL_CLK2_SEL, w1) }"

end
