(* ===== verification/Ad9510_Facts.thy ===== *)
theory Ad9510_Facts
  imports Ch_Ad9510
begin

text \<open>
  The settings of the AD9510 over a chip that holds its registers: what was set is read back.
\<close>

definition ad9510_waddr :: "u8 \<Rightarrow> u64" where
  "ad9510_waddr a = ucast (NOT AD9510_HDR_RW AND (AD9510_HDR_BT_W 0 OR AD9510_HDR_ADDR_W (ucast a)))"

definition ad9510_raddr :: "u8 \<Rightarrow> u64" where
  "ad9510_raddr a = ucast (AD9510_HDR_RW OR (AD9510_HDR_BT_W 0 OR AD9510_HDR_ADDR_W (ucast a)))"

text \<open>The chip of the data sheet: the registers are its first 128 addresses, and the update bit clears
  itself.\<close>

definition ad9510_holds :: "u8 \<Rightarrow> u8 \<Rightarrow> u8" where
  "ad9510_holds a d = (if a = AD9510_REG_UPDATE_REGS then 0 else d)"

definition ad9510_chip ::
  "('a, 'b, 'd, 'o, 'h, 'p) chip set \<Rightarrow> (('a, 'b, 'd, 'o, 'h, 'p) chip \<Rightarrow> u8 \<Rightarrow> u8) \<Rightarrow> bool" where
  "ad9510_chip I m \<longleftrightarrow> byte_chip I {a. a < 128} 2 ad9510_waddr ad9510_raddr m ad9510_holds"

lemma data_byte [simp]: "take (AD9510_DATA_SIZE div SMPR_BYTE_2_BIT) (le_bytes 4 (AD9510_DATA_W (ucast (d :: u8)))) = [d]"
proof -
  have "(ucast (AD9510_DATA_W (ucast d)) :: u8) = d"
    by (rule bit_word_eqI) (simp add: AD9510_DATA_W_def WBGEN2_GEN_WRITE_def bit_simps)
  then show ?thesis by (simp add: AD9510_DATA_SIZE_def SMPR_BYTE_2_BIT_def le_bytes_4)
qed

text \<open>The accesses as functions: \<open>W\<close>, \<open>R\<close> and \<open>U\<close> give the state after a write, a read and the taking
  over of the registers.\<close>

lemma ad9510_chip_fun:
  assumes "ad9510_chip I m"
  obtains W R U where
    "\<And>a d w. w \<in> I \<Longrightarrow> a < 128 \<Longrightarrow> s_smch_ad9510_write_8 a d w = Some (1, W a d w) \<and> W a d w \<in> I \<and> m (W a d w) = (m w)(a := ad9510_holds a d)"
    "\<And>a d w. w \<in> I \<Longrightarrow> a < 128 \<Longrightarrow> s_smch_ad9510_read_8 a d w = Some (1, m w a, R a d w) \<and> R a d w \<in> I \<and> m (R a d w) = m w"
    "\<And>w. w \<in> I \<Longrightarrow> s_smch_ad9510_reg_update w = Some (SMCH_SUCCESS, U w) \<and> U w \<in> I \<and> m (U w) = (m w)(AD9510_REG_UPDATE_REGS := 0)"
proof -
  have sz: "AD9510_INSTADDR_SIZE div SMPR_BYTE_2_BIT = 2" "AD9510_DATA_SIZE div SMPR_BYTE_2_BIT = 1"
    by (simp_all add: AD9510_INSTADDR_SIZE_def AD9510_DATA_SIZE_def SMPR_BYTE_2_BIT_def)
  have "\<exists>w'. s_smch_ad9510_write_8 a d w = Some (1, w') \<and> w' \<in> I \<and> m w' = (m w)(a := ad9510_holds a d)" if w: "w \<in> I" and a: "a < 128" for a d w
  proof -
    obtain w' where "w' \<in> I" "chip_write 2 (ad9510_waddr a) [d] w = Some (1, w')" "m w' = (m w)(a := ad9510_holds a d)"
      using assms w a unfolding ad9510_chip_def byte_chip_def by blast
    then show ?thesis unfolding s_smch_ad9510_write_8_def Let_def ad9510_waddr_def [symmetric] data_byte unfolding sz by (intro exI [of _ w']) simp
  qed
  note ex_w = this
  define W where "W a d w = (SOME w'. s_smch_ad9510_write_8 a d w = Some (1, w') \<and> w' \<in> I \<and> m w' = (m w)(a := ad9510_holds a d))" for a d w
  have W: "s_smch_ad9510_write_8 a d w = Some (1, W a d w) \<and> W a d w \<in> I \<and> m (W a d w) = (m w)(a := ad9510_holds a d)" if "w \<in> I" "a < 128" for a d w
    unfolding W_def by (rule someI_ex) (rule ex_w [OF that])
  have "\<exists>w'. s_smch_ad9510_read_8 a d w = Some (1, m w a, w') \<and> w' \<in> I \<and> m w' = m w" if w: "w \<in> I" and a: "a < 128" for a d w
  proof -
    obtain w' where "w' \<in> I" "chip_read 2 (ad9510_raddr a) [d] w = Some (1, [m w a], w')" "m w' = m w"
      using assms w a unfolding ad9510_chip_def byte_chip_def by blast
    then show ?thesis unfolding s_smch_ad9510_read_8_def Let_def ad9510_raddr_def [symmetric] sz by (intro exI [of _ w']) simp
  qed
  note ex_r = this
  define R where "R a d w = (SOME w'. s_smch_ad9510_read_8 a d w = Some (1, m w a, w') \<and> w' \<in> I \<and> m w' = m w)" for a d w
  have R: "s_smch_ad9510_read_8 a d w = Some (1, m w a, R a d w) \<and> R a d w \<in> I \<and> m (R a d w) = m w" if "w \<in> I" "a < 128" for a d w
    unfolding R_def by (rule someI_ex) (rule ex_r [OF that])
  define U where "U w = R AD9510_REG_UPDATE_REGS 0 (W AD9510_REG_UPDATE_REGS (ucast AD9510_UPDATE_REGS_VAL) w)" for w
  have "s_smch_ad9510_reg_update w = Some (SMCH_SUCCESS, U w) \<and> U w \<in> I \<and> m (U w) = (m w)(AD9510_REG_UPDATE_REGS := 0)" if "w \<in> I" for w
  proof -
    have u: "AD9510_REG_UPDATE_REGS < 128" by (simp add: AD9510_REG_UPDATE_REGS_def)
    note w = W [OF that u, of "ucast AD9510_UPDATE_REGS_VAL"]
    note r = R [OF w [THEN conjunct2, THEN conjunct1] u, of 0]
    show ?thesis using w r by (simp add: s_smch_ad9510_reg_update_def SMCH_AD9510_WAIT_TRIES_def U_def ad9510_holds_def numeral_eq_Suc)
  qed
  with W R that show ?thesis by blast
qed

section \<open>Fields of a byte\<close>

lemma byte_field:
  "pos + sz \<le> 8 \<Longrightarrow> WBGEN2_GEN_READ (ucast (ucast ((ucast (x :: u8) AND NOT (WBGEN2_GEN_MASK pos sz)) OR WBGEN2_GEN_WRITE v pos sz) :: u8)) pos sz = v AND mask sz"
  by (rule bit_word_eqI) (auto simp: WBGEN2_GEN_READ_def WBGEN2_GEN_WRITE_def WBGEN2_GEN_MASK_def bit_simps)

lemma byte_field_new:
  "pos + sz \<le> 8 \<Longrightarrow> WBGEN2_GEN_READ (ucast (ucast (WBGEN2_GEN_WRITE v pos sz) :: u8)) pos sz = v AND mask sz"
  by (rule bit_word_eqI) (auto simp: WBGEN2_GEN_READ_def WBGEN2_GEN_WRITE_def WBGEN2_GEN_MASK_def bit_simps)

lemma low_byte_field:
  "pos + sz \<le> 8 \<Longrightarrow> WBGEN2_GEN_READ ((u AND NOT (mask 8)) OR ucast (x :: u8)) pos sz = WBGEN2_GEN_READ (ucast x) pos sz"
  by (rule bit_word_eqI) (auto simp: WBGEN2_GEN_READ_def bit_simps)

lemma word_bit_nonzero: "bit x n \<Longrightarrow> x \<noteq> (0 :: 'a::len word)"
  by auto

lemma byte_flag_set:
  assumes "n < 8"
  shows "ucast (ucast (ucast (x :: u8) OR WBGEN2_GEN_MASK n (Suc 0)) :: u8) AND WBGEN2_GEN_MASK n (Suc 0) \<noteq> (0 :: u32)"
  by (rule word_bit_nonzero [of _ n]) (use assms in \<open>simp add: WBGEN2_GEN_MASK_def bit_simps\<close>)

lemma byte_flag_clear: "ucast (ucast (ucast (x :: u8) AND NOT (WBGEN2_GEN_MASK n (Suc 0))) :: u8) AND WBGEN2_GEN_MASK n (Suc 0) = (0 :: u32)"
  by (rule bit_word_eqI) (auto simp: WBGEN2_GEN_MASK_def bit_simps)

lemma and_mask_below: "v < 2 ^ n \<Longrightarrow> (v :: u32) AND mask n = v"
  by (simp add: less_mask_eq)

lemma halves:
  assumes "v < 2 ^ (k + 8)"
  shows "push_bit 8 (drop_bit 8 (v :: u32) AND mask k) OR (v AND mask 8) = v"
proof -
  have t: "take_bit (k + 8) v = v" using assms by (simp add: less_mask_eq take_bit_eq_mask)
  have "bit v n \<Longrightarrow> n < k + 8" for n using t by (metis bit_take_bit_iff)
  then show ?thesis by (intro bit_word_eqI) (auto simp: bit_simps less_diff_conv2)
qed

section \<open>The settings\<close>

text \<open>Each setting with its getter, the values it accepts, and what is read back.\<close>

definition ad9510_settings ::
  "(('a, 'b, 'd, 'o, 'h, 'p) chip_set \<times> ('a, 'b, 'd, 'o, 'h, 'p) chip_get \<times> (u32 \<Rightarrow> bool) \<times> (u32 \<Rightarrow> u32)) list" where
  "ad9510_settings =
    [(smch_ad9510_set_pll_a_div, smch_ad9510_get_pll_a_div, \<lambda>v. v < 64, \<lambda>v. v),
     (smch_ad9510_set_pll_b_div, smch_ad9510_get_pll_b_div, \<lambda>v. v = 0 \<or> 3 \<le> v \<and> v < 8192, \<lambda>v. if v = 0 then 1 else v),
     (smch_ad9510_set_pll_prescaler, smch_ad9510_get_pll_prescaler, \<lambda>v. True, \<lambda>v. v AND 7),
     (smch_ad9510_set_pll_pdown, smch_ad9510_get_pll_pdown, \<lambda>v. v < 4, \<lambda>v. v),
     (smch_ad9510_set_mux_status, smch_ad9510_get_mux_status, \<lambda>v. v < 16, \<lambda>v. v),
     (smch_ad9510_set_r_div, smch_ad9510_get_r_div, \<lambda>v. v < 16384, \<lambda>v. v),
     (smch_ad9510_set_cp_current, smch_ad9510_get_cp_current,
       \<lambda>v. v \<in> {600, 1200, 1800, 2400, 3000, 3600, 4200, 4800}, \<lambda>v. v),
     (smch_ad9510_set_outputs, smch_ad9510_get_outputs, \<lambda>v. v < 256, \<lambda>v. v),
     (smch_ad9510_set_pll_clk_sel, smch_ad9510_get_pll_clk_sel, \<lambda>v. v = 1 \<or> v = 2, \<lambda>v. v)]"

definition reads_back ::
  "('a, 'b, 'd, 'o, 'h, 'p) chip_set \<Rightarrow> ('a, 'b, 'd, 'o, 'h, 'p) chip_get \<Rightarrow> u32 \<Rightarrow> u32 \<Rightarrow> ('a, 'b, 'd, 'o, 'h, 'p) chip \<Rightarrow> bool" where
  "reads_back setf getf v v' w \<longleftrightarrow>
     (case setf v w of
        None \<Rightarrow> False
      | Some (e, w1) \<Rightarrow> e = SMCH_SUCCESS \<and> (\<forall>u. map_option (\<lambda>(e, x, _). (e, x)) (getf u w1) = Some (SMCH_SUCCESS, v')))"

lemmas ad9510_addrs = AD9510_REG_PLL_A_COUNTER_def AD9510_REG_PLL_B_MSB_COUNTER_def AD9510_REG_PLL_B_LSB_COUNTER_def
  AD9510_REG_PLL_4_def AD9510_REG_PLL_3_def AD9510_REG_PLL_2_def AD9510_REG_PLL_R_MSB_COUNTER_def AD9510_REG_PLL_R_LSB_COUNTER_def
  AD9510_REG_CLK_OPT_def AD9510_REG_UPDATE_REGS_def AD9510_REG_OUTPUT_START_def ad9510_holds_def

lemmas ad9510_acc = ad9510_get_def ad9510_put_def ad9510_modify_def ad9510_get_low_def reads_back_def

lemma ad9510_masks:
  "AD9510_PLL_A_COUNTER_MASK = 63" "AD9510_PLL_B_COUNTER_MASK = 8191" "AD9510_PLL_R_COUNTER_MASK = 16383" "AD9510_OUTPUT_EN_MASK = 255"
  by (simp_all add: AD9510_PLL_A_COUNTER_MASK_def AD9510_PLL_B_COUNTER_MASK_def AD9510_PLL_R_COUNTER_MASK_def
      AD9510_OUTPUT_EN_MASK_def WBGEN2_GEN_MASK_def mask_eq_exp_minus_1)

text \<open>The accesses as functions of the state, as one predicate.\<close>

definition ad9510_fun where
  "ad9510_fun I m W R U \<longleftrightarrow>
     (\<forall>w a d. w \<in> I \<longrightarrow> a < 128 \<longrightarrow> s_smch_ad9510_write_8 a d w = Some (1, W a d w) \<and> W a d w \<in> I \<and> m (W a d w) = (m w)(a := ad9510_holds a d)) \<and>
     (\<forall>w a d. w \<in> I \<longrightarrow> a < 128 \<longrightarrow> s_smch_ad9510_read_8 a d w = Some (1, m w a, R a d w) \<and> R a d w \<in> I \<and> m (R a d w) = m w) \<and>
     (\<forall>w. w \<in> I \<longrightarrow> s_smch_ad9510_reg_update w = Some (SMCH_SUCCESS, U w) \<and> U w \<in> I \<and> m (U w) = (m w)(AD9510_REG_UPDATE_REGS := 0))"

lemma ad9510_funI: "ad9510_chip I m \<Longrightarrow> \<exists>W R U. ad9510_fun I m W R U"
  by (erule ad9510_chip_fun) (unfold ad9510_fun_def, blast)

lemma ad9510_funD:
  assumes "ad9510_fun I m W R U" and "w \<in> I"
  shows "a < 128 \<Longrightarrow> s_smch_ad9510_write_8 a d w = Some (1, W a d w)" "a < 128 \<Longrightarrow> W a d w \<in> I"
    "a < 128 \<Longrightarrow> m (W a d w) = (m w)(a := ad9510_holds a d)"
    "a < 128 \<Longrightarrow> s_smch_ad9510_read_8 a d w = Some (1, m w a, R a d w)" "a < 128 \<Longrightarrow> R a d w \<in> I" "a < 128 \<Longrightarrow> m (R a d w) = m w"
    "s_smch_ad9510_reg_update w = Some (SMCH_SUCCESS, U w)" "U w \<in> I" "m (U w) = (m w)(AD9510_REG_UPDATE_REGS := 0)"
  using assms unfolding ad9510_fun_def by blast+

lemmas byte_fields = low_byte_field byte_field byte_field_new

lemma pll_a_back:
  assumes "ad9510_fun I m W R U" "w \<in> I" "v < 64"
  shows "reads_back smch_ad9510_set_pll_a_div smch_ad9510_get_pll_a_div v v w"
  using assms(2,3) by (simp add: smch_ad9510_set_pll_a_div_def smch_ad9510_get_pll_a_div_def ad9510_acc ad9510_addrs
      ad9510_funD [OF assms(1)] ad9510_masks AD9510_PLL_A_COUNTER_W_def AD9510_PLL_A_COUNTER_R_def
      byte_fields and_mask_below)

lemma prescaler_back:
  assumes "ad9510_fun I m W R U" "w \<in> I"
  shows "reads_back smch_ad9510_set_pll_prescaler smch_ad9510_get_pll_prescaler v (v AND 7) w"
  using assms(2) by (simp add: smch_ad9510_set_pll_prescaler_def smch_ad9510_get_pll_prescaler_def ad9510_acc ad9510_addrs
      ad9510_funD [OF assms(1)] AD9510_PLL_4_PRESCALER_P_W_def AD9510_PLL_4_PRESCALER_P_R_def AD9510_PLL_4_PRESCALER_P_MASK_def
      byte_fields) (simp add: mask_eq_exp_minus_1)

lemma pdown_back:
  assumes "ad9510_fun I m W R U" "w \<in> I" "v < 4"
  shows "reads_back smch_ad9510_set_pll_pdown smch_ad9510_get_pll_pdown v v w"
  using assms(2,3) by (simp add: smch_ad9510_set_pll_pdown_def smch_ad9510_get_pll_pdown_def ad9510_acc ad9510_addrs
      ad9510_funD [OF assms(1)] AD9510_PLL_4_PLL_PDOWN_W_def AD9510_PLL_4_PLL_PDOWN_R_def AD9510_PLL_4_PLL_PDOWN_MASK_def
      AD9510_PLL_PDOWN_SYNC_def byte_fields and_mask_below)

lemma mux_back:
  assumes "ad9510_fun I m W R U" "w \<in> I" "v < 16"
  shows "reads_back smch_ad9510_set_mux_status smch_ad9510_get_mux_status v v w"
proof -
  have "v \<le> 15" using assms(3) by (simp add: word_le_nat_alt word_less_nat_alt)
  then show ?thesis using assms(2,3)
    by (simp add: smch_ad9510_set_mux_status_def smch_ad9510_get_mux_status_def ad9510_acc ad9510_addrs
      ad9510_funD [OF assms(1)] AD9510_PLL_2_MUX_SEL_W_def AD9510_PLL_2_MUX_SEL_R_def AD9510_PLL_2_MUX_SEL_MASK_def
      AD9510_PLL_2_MUX_SEL_MAX_def byte_fields and_mask_below)
qed

lemma r_div_back:
  assumes "ad9510_fun I m W R U" "w \<in> I" "v < 16384"
  shows "reads_back smch_ad9510_set_r_div smch_ad9510_get_r_div v v w"
  using assms(2,3) halves [of v 6] by (simp add: smch_ad9510_set_r_div_def smch_ad9510_get_r_div_def ad9510_acc ad9510_addrs
      ad9510_funD [OF assms(1)] ad9510_masks AD9510_PLL_R_MSB_COUNTER_W_def AD9510_PLL_R_MSB_COUNTER_R_def
      AD9510_PLL_R_LSB_COUNTER_W_def AD9510_PLL_R_LSB_COUNTER_R_def AD9510_PLL_R_LSB_COUNTER_SIZE_def byte_fields)

lemma b_div_back:
  assumes "ad9510_fun I m W R U" "w \<in> I" "v = 0 \<or> 3 \<le> v \<and> v < 8192"
  shows "reads_back smch_ad9510_set_pll_b_div smch_ad9510_get_pll_b_div v (if v = 0 then 1 else v) w"
proof (cases "v = 0")
  case True
  then show ?thesis using assms(2)
    by (simp add: smch_ad9510_set_pll_b_div_def smch_ad9510_get_pll_b_div_def ad9510_acc ad9510_addrs ad9510_funD [OF assms(1)]
        AD9510_PLL_4_B_BYPASS_def byte_flag_set)
next
  case False
  then have v: "2 < v" "v < 8192" using assms(3) by (auto simp: word_less_nat_alt word_le_nat_alt)
  then show ?thesis using False assms(2) halves [of v 5]
    by (simp add: smch_ad9510_set_pll_b_div_def smch_ad9510_get_pll_b_div_def ad9510_acc ad9510_addrs ad9510_funD [OF assms(1)]
        AD9510_PLL_4_B_BYPASS_def byte_flag_clear AD9510_PLL_B_MIN_VALUE_def ad9510_masks AD9510_PLL_B_MSB_COUNTER_W_def
        AD9510_PLL_B_MSB_COUNTER_R_def AD9510_PLL_B_LSB_COUNTER_W_def AD9510_PLL_B_LSB_COUNTER_R_def
        AD9510_PLL_B_LSB_COUNTER_SIZE_def byte_fields)
qed

lemma cp_back:
  assumes "ad9510_fun I m W R U" "w \<in> I" "v \<in> {600, 1200, 1800, 2400, 3000, 3600, 4200, 4800}"
  shows "reads_back smch_ad9510_set_cp_current smch_ad9510_get_cp_current v v w"
proof -
  have v: "AD9510_PLL3_CP_CURRENT_MIN - 1 < v" "v < AD9510_PLL3_CP_CURRENT_MAX + 1" "v mod AD9510_PLL3_CP_CURRENT_MIN = 0"
    "v div AD9510_PLL3_CP_CURRENT_MIN - 1 < 2 ^ 3" "(v div AD9510_PLL3_CP_CURRENT_MIN - 1 + 1) * AD9510_PLL3_CP_CURRENT_MIN = v"
    using assms(3) by (auto simp: AD9510_PLL3_CP_CURRENT_MIN_def AD9510_PLL3_CP_CURRENT_MAX_def)
  then show ?thesis using assms(2) and_mask_below [OF v(4)]
    by (simp add: smch_ad9510_set_cp_current_def smch_ad9510_get_cp_current_def ad9510_acc ad9510_addrs ad9510_funD [OF assms(1)]
        AD9510_PLL_3_CP_CURRENT_MASK_def AD9510_PLL_3_CP_CURRENT_W_def AD9510_PLL_3_CP_CURRENT_R_def byte_fields)
qed

lemma clk_sel_back:
  assumes "ad9510_fun I m W R U" "w \<in> I" "v = 1 \<or> v = 2"
  shows "reads_back smch_ad9510_set_pll_clk_sel smch_ad9510_get_pll_clk_sel v v w"
proof -
  have one: "ucast (ucast ((x OR WBGEN2_GEN_MASK 0 1) OR WBGEN2_GEN_MASK 2 1 :: u32) :: u8) AND WBGEN2_GEN_MASK 0 1 \<noteq> (0 :: u32)" for x
    by (rule word_bit_nonzero [of _ 0]) (simp add: WBGEN2_GEN_MASK_def bit_simps)
  have two: "ucast (ucast ((x AND NOT (WBGEN2_GEN_MASK 0 1)) OR WBGEN2_GEN_MASK 1 1 :: u32) :: u8) AND WBGEN2_GEN_MASK 0 1 = (0 :: u32)" for x
    by (rule bit_word_eqI) (auto simp: WBGEN2_GEN_MASK_def bit_simps)
  show ?thesis using assms(2,3)
    by (auto simp: smch_ad9510_set_pll_clk_sel_def smch_ad9510_get_pll_clk_sel_def ad9510_acc ad9510_addrs ad9510_funD [OF assms(1)]
        AD9510_PLL_CLK_MIN_SEL_def AD9510_PLL_CLK_MAX_SEL_def AD9510_PLL_CLK1_SEL_def AD9510_PLL_CLK2_SEL_def
        AD9510_CLK_OPT_SEL_CLK1_def AD9510_CLK_OPT_CLK1_PD_def AD9510_CLK_OPT_CLK2_PD_def one [unfolded One_nat_def] two [unfolded One_nat_def])
qed

section \<open>The outputs\<close>

abbreviation out_reg :: "nat \<Rightarrow> u8" where "out_reg i \<equiv> AD9510_REG_OUTPUT_START + of_nat i"

lemma below_8: "(i :: nat) < 8 \<longleftrightarrow> i = 0 \<or> i = 1 \<or> i = 2 \<or> i = 3 \<or> i = 4 \<or> i = 5 \<or> i = 6 \<or> i = 7"
  by auto

lemma out_reg_facts:
  assumes "i < 8"
  shows "out_reg i < 128" "out_reg i \<noteq> AD9510_REG_UPDATE_REGS"
  using assms unfolding below_8 by (auto simp: AD9510_REG_OUTPUT_START_def AD9510_REG_UPDATE_REGS_def)

lemma out_reg_inj:
  assumes "i < 8" "j < 8"
  shows "out_reg i = out_reg j \<longleftrightarrow> i = j"
proof
  assume "out_reg i = out_reg j"
  then have "(of_nat i :: u8) = of_nat j" by simp
  then have "unat (of_nat i :: u8) = unat (of_nat j :: u8)" by simp
  then show "i = j" using assms by (simp add: unat_of_nat)
qed simp

text \<open>One state to the next: the written registers are those of the list, each with its bit.\<close>

lemma set_lvpecl:
  assumes "ad9510_fun I m W R U" "w \<in> I" "distinct is" "\<forall>i \<in> set is. i < 8"
  shows "\<exists>w'. ad9510_set_lvpecl is en data w = Some (drop_bit (length is) en, w') \<and> w' \<in> I \<and>
    (\<forall>j < 8. j \<notin> set is \<longrightarrow> m w' (out_reg j) = m w (out_reg j)) \<and>
    (\<forall>k < length is. AD9510_LVPECL_OUT_PDOWN_R (ucast (m w' (out_reg (is ! k)))) = 0 \<longleftrightarrow> bit en k)"
  using assms(2-4)
proof (induction "is" arbitrary: en data w)
  case (Cons i "is")
  have i: "i < 8" "i \<notin> set is" "distinct is" "\<forall>j \<in> set is. j < 8" using Cons.prems by auto
  note f = ad9510_funD [OF assms(1)] out_reg_facts [OF i(1)]
  define old where "old = m w (out_reg i)"
  define pd :: u32 where "pd = (if bit en 0 then 0 else 2)"
  define new :: u8 where "new = ucast ((ucast old AND NOT AD9510_LVPECL_OUT_PDOWN_MASK) OR AD9510_LVPECL_OUT_PDOWN_W pd)"
  define w1 where "w1 = W (out_reg i) new (R (out_reg i) data w)"
  have w1: "w1 \<in> I" "m w1 = (m w)(out_reg i := new)"
    using Cons.prems(1) f by (simp_all add: w1_def ad9510_holds_def)
  have lsb: "en AND AD9510_OUTPUT_EN_LSB_MASK = 0 \<longleftrightarrow> \<not> bit en 0"
    by (simp add: AD9510_OUTPUT_EN_LSB_MASK_def WBGEN2_GEN_MASK_def and_one_eq bit_0 odd_iff_mod_2_eq_one)
  have step: "ad9510_set_lvpecl (i # is) en data w = ad9510_set_lvpecl is (drop_bit 1 en) new w1"
    using Cons.prems(1) f by (simp add: ad9510_acc Let_def lsb w1_def new_def pd_def old_def AD9510_OUTPUT_EN_LSB_SIZE_def)
  have pdr: "AD9510_LVPECL_OUT_PDOWN_R (ucast new) = 0 \<longleftrightarrow> bit en 0"
    by (simp add: new_def pd_def AD9510_LVPECL_OUT_PDOWN_R_def AD9510_LVPECL_OUT_PDOWN_W_def AD9510_LVPECL_OUT_PDOWN_MASK_def byte_fields and_mask_below)
  from Cons.IH [OF w1(1) i(3,4), of "drop_bit 1 en" new] obtain w' where
    w': "ad9510_set_lvpecl is (drop_bit 1 en) new w1 = Some (drop_bit (length is) (drop_bit 1 en), w')" "w' \<in> I"
      "\<forall>j < 8. j \<notin> set is \<longrightarrow> m w' (out_reg j) = m w1 (out_reg j)"
      "\<forall>k < length is. AD9510_LVPECL_OUT_PDOWN_R (ucast (m w' (out_reg (is ! k)))) = 0 \<longleftrightarrow> bit (drop_bit 1 en) k"
    by blast
  have keep: "\<forall>j < 8. j \<notin> set (i # is) \<longrightarrow> m w' (out_reg j) = m w (out_reg j)"
    using w'(3) w1(2) out_reg_inj i(1) by simp
  have bits: "AD9510_LVPECL_OUT_PDOWN_R (ucast (m w' (out_reg ((i # is) ! k)))) = 0 \<longleftrightarrow> bit en k" if "k < length (i # is)" for k
  proof (cases k)
    case 0
    then show ?thesis using w'(3) i w1(2) pdr by simp
  next
    case (Suc n)
    then show ?thesis using w'(4) that by (simp add: bit_drop_bit_eq)
  qed
  show ?case using step w'(1,2) keep bits by (intro exI [of _ w']) simp
qed auto

lemma set_lvds:
  assumes "ad9510_fun I m W R U" "w \<in> I" "distinct is" "\<forall>i \<in> set is. i < 8"
  shows "\<exists>w'. ad9510_set_lvds is en w = Some w' \<and> w' \<in> I \<and>
    (\<forall>j < 8. j \<notin> set is \<longrightarrow> m w' (out_reg j) = m w (out_reg j)) \<and>
    (\<forall>k < length is. ucast (m w' (out_reg (is ! k))) AND AD9510_LVDS_CMOS_PDOWN = 0 \<longleftrightarrow> bit en k)"
  using assms(2-4)
proof (induction "is" arbitrary: en w)
  case (Cons i "is")
  have i: "i < 8" "i \<notin> set is" "distinct is" "\<forall>j \<in> set is. j < 8" using Cons.prems by auto
  note f = ad9510_funD [OF assms(1)] out_reg_facts [OF i(1)]
  define old :: u32 where "old = ucast (m w (out_reg i))"
  define new :: u8 where "new = ucast (if bit en 0 then old AND NOT AD9510_LVDS_CMOS_PDOWN else old OR AD9510_LVDS_CMOS_PDOWN)"
  define w1 where "w1 = W (out_reg i) new (R (out_reg i) 0 w)"
  have w1: "w1 \<in> I" "m w1 = (m w)(out_reg i := new)"
    using Cons.prems(1) f by (simp_all add: w1_def ad9510_holds_def)
  have lsb: "en AND AD9510_OUTPUT_EN_LSB_MASK = 0 \<longleftrightarrow> \<not> bit en 0"
    by (simp add: AD9510_OUTPUT_EN_LSB_MASK_def WBGEN2_GEN_MASK_def and_one_eq bit_0 odd_iff_mod_2_eq_one)
  have step: "ad9510_set_lvds (i # is) en w = ad9510_set_lvds is (drop_bit 1 en) w1"
    using Cons.prems(1) f by (simp add: ad9510_acc Let_def lsb w1_def new_def old_def AD9510_OUTPUT_EN_LSB_SIZE_def)
  have pdr: "ucast new AND AD9510_LVDS_CMOS_PDOWN = 0 \<longleftrightarrow> bit en 0"
    using byte_flag_set [of 0 "m w (out_reg i)"] byte_flag_clear [of "m w (out_reg i)" 0]
    by (simp add: new_def old_def AD9510_LVDS_CMOS_PDOWN_def)
  from Cons.IH [OF w1(1) i(3,4), of "drop_bit 1 en"] obtain w' where
    w': "ad9510_set_lvds is (drop_bit 1 en) w1 = Some w'" "w' \<in> I"
      "\<forall>j < 8. j \<notin> set is \<longrightarrow> m w' (out_reg j) = m w1 (out_reg j)"
      "\<forall>k < length is. ucast (m w' (out_reg (is ! k))) AND AD9510_LVDS_CMOS_PDOWN = 0 \<longleftrightarrow> bit (drop_bit 1 en) k"
    by blast
  have keep: "\<forall>j < 8. j \<notin> set (i # is) \<longrightarrow> m w' (out_reg j) = m w (out_reg j)"
    using w'(3) w1(2) out_reg_inj i(1) by simp
  have bits: "ucast (m w' (out_reg ((i # is) ! k))) AND AD9510_LVDS_CMOS_PDOWN = 0 \<longleftrightarrow> bit en k" if "k < length (i # is)" for k
  proof (cases k)
    case 0
    then show ?thesis using w'(3) i w1(2) pdr by simp
  next
    case (Suc n)
    then show ?thesis using w'(4) that by (simp add: bit_drop_bit_eq)
  qed
  show ?case using step w'(1,2) keep bits by (intro exI [of _ w']) simp
qed auto

lemma get_outs:
  assumes "ad9510_fun I m W R U" "w \<in> I" "\<forall>i \<in> set is. i < 8"
  shows "\<exists>data' w'. ad9510_get_outs on is data out w =
      Some (data', fold (\<lambda>i out. if on (ucast (m w (out_reg i))) then out OR push_bit i 1 else out) is out, w') \<and> w' \<in> I \<and> m w' = m w"
  using assms(2,3)
proof (induction "is" arbitrary: data out w)
  case (Cons i "is")
  then have i: "i < 8" "\<forall>j \<in> set is. j < 8" by auto
  note f = ad9510_funD [OF assms(1) Cons.prems(1)] out_reg_facts [OF i(1)]
  have r: "R (out_reg i) data w \<in> I" "m (R (out_reg i) data w) = m w" using f by simp_all
  show ?case using f Cons.IH [OF r(1) i(2), of "m w (out_reg i)"] r(2) by (simp add: ad9510_acc)
qed auto

lemma fold_bits:
  assumes "\<forall>i \<in> set is. on i \<longleftrightarrow> bit v i" and "n < 32"
  shows "bit (fold (\<lambda>i out. if on i then out OR push_bit i 1 else out) is (out :: u32)) n \<longleftrightarrow> bit out n \<or> n \<in> set is \<and> bit v n"
  using assms(1)
proof (induction "is" arbitrary: out)
  case (Cons i "is")
  have "bit (if on i then out OR push_bit i 1 else out) n \<longleftrightarrow> bit out n \<or> n = i \<and> bit v i"
    using Cons.prems assms(2) by (auto simp: bit_simps)
  then show ?case using Cons by auto
qed simp

lemma below_bits: "v < 256 \<Longrightarrow> bit (v :: u32) n \<Longrightarrow> n < 8"
proof -
  assume v: "v < 256" and b: "bit v n"
  have "take_bit 8 v = v" using v by (simp add: less_mask_eq take_bit_eq_mask)
  then show "n < 8" using b by (metis bit_take_bit_iff)
qed

lemma outputs_back:
  assumes "ad9510_fun I m W R U" "w \<in> I" "v < 256"
  shows "reads_back smch_ad9510_set_outputs smch_ad9510_get_outputs v v w"
proof -
  define lo hi :: "nat list" where "lo = [0, 1, 2, 3]" and "hi = [4, 5, 6, 7]"
  have en: "AD9510_OUTPUT_EN_R v = v"
    using assms(3) by (simp add: AD9510_OUTPUT_EN_R_def WBGEN2_GEN_READ_def and_mask_below)
  have lists: "[0..<AD9510_NUM_LVPECL_OUTPUTS] = lo" "[AD9510_NUM_LVPECL_OUTPUTS..<AD9510_NUM_OUTPUTS] = hi"
    by (simp_all add: AD9510_NUM_LVPECL_OUTPUTS_def AD9510_NUM_OUTPUTS_def upt_rec lo_def hi_def)
  have d: "distinct lo" "\<forall>i \<in> set lo. i < 8" "distinct hi" "\<forall>i \<in> set hi. i < 8" "length lo = 4" "length hi = 4"
    by (simp_all add: lo_def hi_def)
  obtain w1 where w1: "ad9510_set_lvpecl lo v 0 w = Some (drop_bit 4 v, w1)" "w1 \<in> I"
    "\<forall>k < 4. AD9510_LVPECL_OUT_PDOWN_R (ucast (m w1 (out_reg (lo ! k)))) = 0 \<longleftrightarrow> bit v k"
    using set_lvpecl [OF assms(1,2) d(1,2), of v 0] unfolding d(5) by blast
  obtain w2 where w2: "ad9510_set_lvds hi (drop_bit 4 v) w1 = Some w2" "w2 \<in> I"
    "\<forall>j < 8. j \<notin> set hi \<longrightarrow> m w2 (out_reg j) = m w1 (out_reg j)"
    "\<forall>k < 4. ucast (m w2 (out_reg (hi ! k))) AND AD9510_LVDS_CMOS_PDOWN = 0 \<longleftrightarrow> bit (drop_bit 4 v) k"
    using set_lvds [OF assms(1) w1(2) d(3,4), of "drop_bit 4 v"] unfolding d(6) by blast
  note u = ad9510_funD(7-9) [OF assms(1) w2(2)]
  have same: "m (U w2) (out_reg i) = m w2 (out_reg i)" if "i < 8" for i using u(3) out_reg_facts(2) [OF that] by simp
  have on: "\<forall>i \<in> set lo. AD9510_LVPECL_OUT_PDOWN_R (ucast (m (U w2) (out_reg i))) = 0 \<longleftrightarrow> bit v i"
  proof
    fix i assume i: "i \<in> set lo"
    then have "i < 4" "i \<notin> set hi" "lo ! i = i" by (auto simp: lo_def hi_def)
    then show "AD9510_LVPECL_OUT_PDOWN_R (ucast (m (U w2) (out_reg i))) = 0 \<longleftrightarrow> bit v i"
      using w1(3) [rule_format, of i] w2(3) [rule_format, of i] same [of i] by simp
  qed
  have on': "\<forall>i \<in> set hi. ucast (m (U w2) (out_reg i)) AND AD9510_LVDS_CMOS_PDOWN = 0 \<longleftrightarrow> bit v i"
  proof
    fix i assume i: "i \<in> set hi"
    then have "i - 4 < 4" "i < 8" "hi ! (i - 4) = i" "4 + (i - 4) = i" by (auto simp: hi_def)
    then show "ucast (m (U w2) (out_reg i)) AND AD9510_LVDS_CMOS_PDOWN = 0 \<longleftrightarrow> bit v i"
      using w2(4) [rule_format, of "i - 4"] same [of i] by (simp add: bit_drop_bit_eq)
  qed
  define out where "out = fold (\<lambda>i out. if AD9510_LVPECL_OUT_PDOWN_R (ucast (m (U w2) (out_reg i))) = 0 then out OR push_bit i 1 else out) lo (0 :: u32)"
  have bo: "bit out n \<longleftrightarrow> n \<in> set lo \<and> bit v n" if "n < 32" for n
    unfolding out_def fold_bits [OF on that] by simp
  have res: "fold (\<lambda>i out. if ucast (m (U w2) (out_reg i)) AND AD9510_LVDS_CMOS_PDOWN = 0 then out OR push_bit i 1 else out) hi out = v"
  proof (rule bit_word_eqI)
    fix n assume n: "n < LENGTH(32)"
    then have n': "n < 32" by simp
    have "n < 8 \<longleftrightarrow> n \<in> set lo \<or> n \<in> set hi" unfolding below_8 by (auto simp: lo_def hi_def)
    then show "bit (fold (\<lambda>i out. if ucast (m (U w2) (out_reg i)) AND AD9510_LVDS_CMOS_PDOWN = 0 then out OR push_bit i 1 else out) hi out) n = bit v n"
      unfolding fold_bits [OF on' n'] bo [OF n'] using below_bits [OF assms(3)] by blast
  qed
  have get: "\<exists>w'. smch_ad9510_get_outputs x (U w2) = Some (SMCH_SUCCESS, v, w')" for x
  proof -
    from get_outs [OF assms(1) u(2) d(2), of "\<lambda>v. AD9510_LVPECL_OUT_PDOWN_R v = 0" 0 0] obtain d3 w3 where
      g: "ad9510_get_outs (\<lambda>v. AD9510_LVPECL_OUT_PDOWN_R v = 0) lo 0 0 (U w2) = Some (d3, out, w3)" "w3 \<in> I" "m w3 = m (U w2)"
      unfolding out_def by blast
    from get_outs [OF assms(1) g(2) d(4), of "\<lambda>v. v AND AD9510_LVDS_CMOS_PDOWN = 0" d3 out] obtain d4 w4 where
      "ad9510_get_outs (\<lambda>v. v AND AD9510_LVDS_CMOS_PDOWN = 0) hi d3 out w3 = Some (d4, v, w4)"
      unfolding g(3) res by blast
    then show ?thesis using g(1) by (simp add: smch_ad9510_get_outputs_def lists)
  qed
  have set: "smch_ad9510_set_outputs v w = Some (SMCH_SUCCESS, U w2)"
    using assms(3) w1(1) w2(1) u(1) by (simp add: smch_ad9510_set_outputs_def en lists ad9510_masks)
  have "map_option (\<lambda>(e, x, _). (e, x)) (smch_ad9510_get_outputs x (U w2)) = Some (SMCH_SUCCESS, v)" for x
    using get [of x] by auto
  then show ?thesis unfolding reads_back_def set by simp
qed

section \<open>All settings\<close>

lemma cp_values:
  assumes "600 - 1 < v" and "v < 4800 + 1" and "v mod 600 = (0 :: u32)"
  shows "v \<in> {600, 1200, 1800, 2400, 3000, 3600, 4200, 4800}"
proof -
  have b: "599 < unat v" "unat v < 4801" using assms(1,2) by (simp_all add: word_less_nat_alt)
  have "unat v mod 600 = 0" using arg_cong [OF assms(3), of unat] by (simp add: unat_mod)
  then have d: "unat v = 600 * (unat v div 600)" using div_mult_mod_eq [of "unat v" 600] by linarith
  then have "1 \<le> unat v div 600" "unat v div 600 \<le> 8" using b by linarith+
  then have "unat v div 600 \<in> {1, 2, 3, 4, 5, 6, 7, 8}" by auto
  then have "unat v \<in> {600, 1200, 1800, 2400, 3000, 3600, 4200, 4800}" using d by auto
  then show ?thesis by (auto simp: word_unat_eq_iff)
qed

lemma word_steps:
  "(2 < v) = (3 \<le> (v :: u32))" "(v < 3 + 1) = (v < (4 :: u32))" "(v \<le> 15) = (v < (16 :: u32))"
  "(0 < v \<and> v < 3) = (v = 1 \<or> v = (2 :: u32))"
proof -
  show "(2 < v) = (3 \<le> v)" "(v < 3 + 1) = (v < 4)" "(v \<le> 15) = (v < 16)"
    by (auto simp: word_less_nat_alt word_le_nat_alt)
  have "0 < v \<and> v < 3 \<longleftrightarrow> unat v = 1 \<or> unat v = 2" by (auto simp: word_less_nat_alt)
  also have "\<dots> \<longleftrightarrow> v = 1 \<or> v = 2" by (simp add: word_unat_eq_iff)
  finally show "(0 < v \<and> v < 3) = (v = 1 \<or> v = 2)" .
qed

lemma set_refused:
  "\<not> v < 64 \<Longrightarrow> smch_ad9510_set_pll_a_div v w = Some (SMCH_ERR_INV_FUNC_PARAM, w)"
  "\<not> (v = 0 \<or> 3 \<le> v \<and> v < 8192) \<Longrightarrow> smch_ad9510_set_pll_b_div v w = Some (SMCH_ERR_INV_FUNC_PARAM, w)"
  "\<not> v < 4 \<Longrightarrow> smch_ad9510_set_pll_pdown v w = Some (SMCH_ERR_INV_FUNC_PARAM, w)"
  "\<not> v < 16 \<Longrightarrow> smch_ad9510_set_mux_status v w = Some (SMCH_ERR_INV_FUNC_PARAM, w)"
  "\<not> v < 16384 \<Longrightarrow> smch_ad9510_set_r_div v w = Some (SMCH_ERR_INV_FUNC_PARAM, w)"
  "v \<notin> {600, 1200, 1800, 2400, 3000, 3600, 4200, 4800} \<Longrightarrow> smch_ad9510_set_cp_current v w = Some (SMCH_ERR_INV_FUNC_PARAM, w)"
  "\<not> v < 256 \<Longrightarrow> smch_ad9510_set_outputs v w = Some (SMCH_ERR_INV_FUNC_PARAM, w)"
  "\<not> (v = 1 \<or> v = 2) \<Longrightarrow> smch_ad9510_set_pll_clk_sel v w = Some (SMCH_ERR_INV_FUNC_PARAM, w)"
  subgoal unfolding smch_ad9510_set_pll_a_div_def ad9510_masks by (rule if_P) simp
  subgoal unfolding smch_ad9510_set_pll_b_div_def ad9510_masks AD9510_PLL_B_MIN_VALUE_def by (rule if_P) (simp add: word_steps)
  subgoal unfolding smch_ad9510_set_pll_pdown_def by (rule if_P) (simp add: AD9510_PLL_PDOWN_SYNC_def AD9510_PLL_PDOWN_MAX_VAL_def word_steps)
  subgoal unfolding smch_ad9510_set_mux_status_def
    by (rule if_P) (simp add: AD9510_PLL_2_MUX_SEL_MIN_def AD9510_PLL_2_MUX_SEL_MAX_def word_steps)
  subgoal unfolding smch_ad9510_set_r_div_def ad9510_masks by (rule if_P) simp
  subgoal unfolding smch_ad9510_set_cp_current_def AD9510_PLL3_CP_CURRENT_MIN_def AD9510_PLL3_CP_CURRENT_MAX_def
    by (rule if_P, erule contrapos_nn, elim conjE, rule cp_values)
  subgoal unfolding smch_ad9510_set_outputs_def ad9510_masks by (rule if_P) simp
  subgoal unfolding smch_ad9510_set_pll_clk_sel_def AD9510_PLL_CLK_MIN_SEL_def AD9510_PLL_CLK_MAX_SEL_def
    by (rule if_P) (use word_steps(4) [of v] in simp)
  done

lemma settings_refuse:
  assumes "(setf, getf, ok, res) \<in> set ad9510_settings" and "\<not> ok v"
  shows "setf v w = Some (SMCH_ERR_INV_FUNC_PARAM, w)"
  using assms set_refused [of v w] unfolding ad9510_settings_def by auto

text \<open>C17: the settings of the AD9510. Over a chip that keeps its registers and a protocol that does not
  fail, each of the nine settings (dividers, prescaler, power-down, status pin, charge pump current,
  outputs, clock selection) accepts exactly the values of its range, succeeds, and the value is read
  back by its getter, whatever the registers held: a B divider of 0 as 1, a prescaler by its lowest
  three bits. Every other value is refused without an access to the chip.\<close>

theorem ad9510_settings_roundtrip:
  assumes "ad9510_chip I m" and "w \<in> I" and "(setf, getf, ok, res) \<in> set ad9510_settings"
  shows "if ok v then reads_back setf getf v (res v) w else setf v w = Some (SMCH_ERR_INV_FUNC_PARAM, w)"
proof (cases "ok v")
  case True
  from ad9510_funI [OF assms(1)] obtain W R U where f: "ad9510_fun I m W R U" by blast
  show ?thesis using assms(3) True unfolding ad9510_settings_def
    by (auto intro: pll_a_back [OF f assms(2)] prescaler_back [OF f assms(2)] pdown_back [OF f assms(2)]
        mux_back [OF f assms(2)] r_div_back [OF f assms(2)] b_div_back [OF f assms(2)] b_div_back [OF f assms(2), of 0, simplified]
        cp_back [OF f assms(2)] outputs_back [OF f assms(2)] clk_sel_back [OF f assms(2)])
next
  case False
  then show ?thesis using settings_refuse [OF assms(3)] by simp
qed

text \<open>A chip that is a memory.\<close>

definition mem_ops :: "(unit, unit, unit, unit, unit, u8 \<Rightarrow> u8) smpr_proto_ops" where
  "mem_ops = \<lparr>proto_name = ''SPI'', proto_open = None, proto_release = None, proto_read_16 = None, proto_read_32 = None,
     proto_read_64 = None, proto_write_16 = None, proto_write_32 = None, proto_write_64 = None,
     proto_read_block = Some (\<lambda>par dev so offs sz b p. Some (1, Some [p (ucast (offs AND 127))], dev, p)),
     proto_write_block = Some (\<lambda>par dev so offs sz b p. case b of
        Some (d # _) \<Rightarrow> Some (1, b, dev, p(ucast (offs AND 127) := ad9510_holds (ucast (offs AND 127)) d))
      | _ \<Rightarrow> None),
     proto_read_dma = None, proto_write_dma = None\<rparr>"

definition mem_chip :: "(unit, unit, unit, unit, unit, u8 \<Rightarrow> u8) smpr" where
  "mem_chip = \<lparr>pr_name = ''SPI_AD9510'', pr_verbose = 0, pr_parent = undefined, pr_dev = \<lparr>pd_handler = None, pd_spec = ()\<rparr>, pr_ops = Some mem_ops\<rparr>"

lemma addr_bits:
  assumes "a < 128"
  shows "ucast (ad9510_waddr a AND 127) = a" "ucast (ad9510_raddr a AND 127) = a"
proof -
  have "take_bit 7 a = a" using assms by (simp add: less_mask_eq take_bit_eq_mask)
  then have b: "bit a n \<Longrightarrow> n < 7" for n by (metis bit_take_bit_iff)
  have m: "(127 :: u64) = mask 7" by (simp add: mask_eq_exp_minus_1)
  have t: "AD9510_HDR_RW = 2 ^ 15" by (simp add: AD9510_HDR_RW_def WBGEN2_GEN_MASK_def)
  have r: "bit AD9510_HDR_RW n \<longleftrightarrow> n = 15" for n unfolding t bit_exp_iff by auto
  have e: "ucast (ad9510_waddr a AND mask 7) = a" "ucast (ad9510_raddr a AND mask 7) = a"
    unfolding ad9510_waddr_def ad9510_raddr_def AD9510_HDR_BT_W_def AD9510_HDR_ADDR_W_def WBGEN2_GEN_WRITE_def
    by (rule bit_word_eqI, auto simp: bit_simps r dest: b)+
  then show "ucast (ad9510_waddr a AND 127) = a" "ucast (ad9510_raddr a AND 127) = a" unfolding m .
qed

lemma mem_is_chip: "ad9510_chip {w. fst w = mem_chip} snd"
  unfolding ad9510_chip_def byte_chip_def
  by (auto simp: chip_write_def chip_read_def smpr_write_block_def smpr_read_block_def SMPR_FUNC_WRAPPER_def with_dev_def
      mem_chip_def mem_ops_def addr_bits)

theorem ad9510_settings_roundtrip_witness:
  "reads_back smch_ad9510_set_r_div smch_ad9510_get_r_div 1234 1234 (mem_chip, \<lambda>_. 0xff) \<and>
   smch_ad9510_set_r_div 16384 (mem_chip, \<lambda>_. 0xff) = Some (SMCH_ERR_INV_FUNC_PARAM, (mem_chip, \<lambda>_. 0xff))"
proof -
  have i: "(mem_chip, \<lambda>_. 0xff) \<in> {w. fst w = mem_chip}" by simp
  have s: "(smch_ad9510_set_r_div, smch_ad9510_get_r_div, \<lambda>v. v < 16384, \<lambda>v. v) \<in> set ad9510_settings"
    by (simp add: ad9510_settings_def)
  show ?thesis
    using ad9510_settings_roundtrip [OF mem_is_chip i s, of 1234] ad9510_settings_roundtrip [OF mem_is_chip i s, of 16384] by simp
qed

end
