(* ===== verification/Ch_Ltc2174.thy ===== *)
theory Ch_Ltc2174
  imports Chip
begin

text \<open>
  The converter LTC2174 on SPI: include/chips/ltc2174_regs.h and src/sm_io/chips/sm_ch_ltc2174.c. A getter is
  given the content of the variable of the caller that it fills.
\<close>

section \<open>The registers\<close>

definition LTC2174_HDR_RW :: u32 where "LTC2174_HDR_RW = WBGEN2_GEN_MASK 7 1"
definition LTC2174_HDR_ADDR_MASK :: u32 where "LTC2174_HDR_ADDR_MASK = WBGEN2_GEN_MASK 0 7"
definition LTC2174_HDR_ADDR_W :: "u32 \<Rightarrow> u32" where "LTC2174_HDR_ADDR_W v = WBGEN2_GEN_WRITE v 0 7"
definition LTC2174_HDR_ADDR_R :: "u32 \<Rightarrow> u32" where "LTC2174_HDR_ADDR_R v = WBGEN2_GEN_READ v 0 7"
definition LTC2174_HDR_ADDR_PAD_SIZE :: nat where "LTC2174_HDR_ADDR_PAD_SIZE = 0"
definition LTC2174_INSTADDR_SIZE :: nat where "LTC2174_INSTADDR_SIZE = 8"
definition LTC2174_DATA_MASK :: u32 where "LTC2174_DATA_MASK = WBGEN2_GEN_MASK 0 8"
definition LTC2174_DATA_W :: "u32 \<Rightarrow> u32" where "LTC2174_DATA_W v = WBGEN2_GEN_WRITE v 0 8"
definition LTC2174_DATA_R :: "u32 \<Rightarrow> u32" where "LTC2174_DATA_R v = WBGEN2_GEN_READ v 0 8"
definition LTC2174_TRANS_SIZE :: nat where "LTC2174_TRANS_SIZE = 16"
definition LTC2174_REG_RESET :: u8 where "LTC2174_REG_RESET = 0x0"
definition LTC2174_RESET_EN :: u32 where "LTC2174_RESET_EN = WBGEN2_GEN_MASK 7 1"
definition LTC2174_REG_FORMAT_PDOWN :: u8 where "LTC2174_REG_FORMAT_PDOWN = 0x1"
definition LTC2174_FORMAT_PDOWN_TWOS_COMPL :: u32 where "LTC2174_FORMAT_PDOWN_TWOS_COMPL = WBGEN2_GEN_MASK 5 1"
definition LTC2174_REG_TEST_PATT_MSB :: u8 where "LTC2174_REG_TEST_PATT_MSB = 0x3"
definition LTC2174_TEST_PATT_OUTTEST :: u32 where "LTC2174_TEST_PATT_OUTTEST = WBGEN2_GEN_MASK 7 1"
definition LTC2174_TEST_PATT_MSB_MASK :: u32 where "LTC2174_TEST_PATT_MSB_MASK = WBGEN2_GEN_MASK 0 6"
definition LTC2174_TEST_PATT_MSB_W :: "u32 \<Rightarrow> u32" where "LTC2174_TEST_PATT_MSB_W v = WBGEN2_GEN_WRITE v 0 6"
definition LTC2174_TEST_PATT_MSB_R :: "u32 \<Rightarrow> u32" where "LTC2174_TEST_PATT_MSB_R v = WBGEN2_GEN_READ v 0 6"
definition LTC2174_REG_TEST_PATT_LSB :: u8 where "LTC2174_REG_TEST_PATT_LSB = 0x4"
definition LTC2174_TEST_PATT_LSB_MASK :: u32 where "LTC2174_TEST_PATT_LSB_MASK = WBGEN2_GEN_MASK 0 8"
definition LTC2174_TEST_PATT_LSB_W :: "u32 \<Rightarrow> u32" where "LTC2174_TEST_PATT_LSB_W v = WBGEN2_GEN_WRITE v 0 8"
definition LTC2174_TEST_PATT_LSB_R :: "u32 \<Rightarrow> u32" where "LTC2174_TEST_PATT_LSB_R v = WBGEN2_GEN_READ v 0 8"
definition LTC2174_DATA_SIZE :: nat where "LTC2174_DATA_SIZE = 8"
definition LTC2174_RESET_EN_SHIFT :: nat where "LTC2174_RESET_EN_SHIFT = 7"
definition LTC2174_FORMAT_PDOWN_TWOS_COMPL_SHIFT :: nat where "LTC2174_FORMAT_PDOWN_TWOS_COMPL_SHIFT = 5"
definition LTC2174_TEST_PATT_LSB_SIZE :: nat where "LTC2174_TEST_PATT_LSB_SIZE = 8"


definition SMCH_LTC2174_NAME :: string where "SMCH_LTC2174_NAME = ''SPI_LTC2174''"

section \<open>Accesses\<close>

definition s_smch_ltc2174_write_8 :: "u8 \<Rightarrow> u8 \<Rightarrow> ('a, 'b, 'd, 'o, 'h, 'p) chip \<Rightarrow> (int \<times> ('a, 'b, 'd, 'o, 'h, 'p) chip) option" where
  "s_smch_ltc2174_write_8 addr data w = do {
     let a = NOT LTC2174_HDR_RW AND LTC2174_HDR_ADDR_W (ucast addr);
     (smpr_err, w1) \<leftarrow> chip_write (LTC2174_INSTADDR_SIZE div SMPR_BYTE_2_BIT) (ucast a)
       (take (LTC2174_DATA_SIZE div SMPR_BYTE_2_BIT) (le_bytes 4 (LTC2174_DATA_W (ucast data)))) w;
     Some (if 0 < smpr_err \<and> smpr_err = int (LTC2174_DATA_SIZE div SMPR_BYTE_2_BIT) then 1 else -1, w1) }"

definition s_smch_ltc2174_read_8 :: "u8 \<Rightarrow> u8 \<Rightarrow> ('a, 'b, 'd, 'o, 'h, 'p) chip \<Rightarrow> (int \<times> u8 \<times> ('a, 'b, 'd, 'o, 'h, 'p) chip) option" where
  "s_smch_ltc2174_read_8 addr data w = do {
     let a = LTC2174_HDR_RW OR LTC2174_HDR_ADDR_W (ucast addr);
     (smpr_err, b, w1) \<leftarrow> chip_read (LTC2174_INSTADDR_SIZE div SMPR_BYTE_2_BIT) (ucast a) [data] w;
     Some (if 0 < smpr_err \<and> smpr_err = int (LTC2174_DATA_SIZE div SMPR_BYTE_2_BIT) then 1 else -1, hd b, w1) }"

definition smch_ltc2174_write_8 :: "u8 \<Rightarrow> u8 \<Rightarrow> ('a, 'b, 'd, 'o, 'h, 'p) chip \<Rightarrow> (smch_err \<times> ('a, 'b, 'd, 'o, 'h, 'p) chip) option" where
  "smch_ltc2174_write_8 addr data w =
     map_option (\<lambda>(r, w1). (if r = 1 then SMCH_SUCCESS else SMCH_ERR_RW_SMPR, w1)) (s_smch_ltc2174_write_8 addr data w)"

definition smch_ltc2174_write_8_update :: "u8 \<Rightarrow> u8 \<Rightarrow> ('a, 'b, 'd, 'o, 'h, 'p) chip \<Rightarrow> (smch_err \<times> ('a, 'b, 'd, 'o, 'h, 'p) chip) option" where
  "smch_ltc2174_write_8_update addr data w =
     map_option (\<lambda>(r, w1). (if r = 1 then SMCH_SUCCESS else SMCH_ERR_RW_SMPR, w1)) (s_smch_ltc2174_write_8 addr data w)"

definition smch_ltc2174_read_8 :: "u8 \<Rightarrow> u8 \<Rightarrow> ('a, 'b, 'd, 'o, 'h, 'p) chip \<Rightarrow> (smch_err \<times> u8 \<times> ('a, 'b, 'd, 'o, 'h, 'p) chip) option" where
  "smch_ltc2174_read_8 addr data w =
     map_option (\<lambda>(r, b, w1). (if r = 1 then SMCH_SUCCESS else SMCH_ERR_RW_SMPR, b, w1)) (s_smch_ltc2174_read_8 addr data w)"

section \<open>Start and end\<close>

definition s_smch_ltc2174_reset :: "('a, 'b, 'd, 'o, 'h, 'p) chip \<Rightarrow> (smch_err \<times> ('a, 'b, 'd, 'o, 'h, 'p) chip) option" where
  "s_smch_ltc2174_reset w = do {
     (rw_err, w1) \<leftarrow> s_smch_ltc2174_write_8 LTC2174_REG_RESET (ucast LTC2174_RESET_EN) w;
     Some (if rw_err = 1 then SMCH_SUCCESS else SMCH_ERR_RW_SMPR, w1) }"

definition smch_ltc2174_reset :: "('a, 'b, 'd, 'o, 'h, 'p) chip \<Rightarrow> (smch_err \<times> ('a, 'b, 'd, 'o, 'h, 'p) chip) option" where
  "smch_ltc2174_reset w = s_smch_ltc2174_reset w"

text \<open>The four registers are read for the log only; the reset may fail.\<close>

definition s_smch_ltc2174_init :: "('a, 'b, 'd, 'o, 'h, 'p) chip \<Rightarrow> (smch_err \<times> ('a, 'b, 'd, 'o, 'h, 'p) chip) option" where
  "s_smch_ltc2174_init w = do {
     (_, w0) \<leftarrow> s_smch_ltc2174_reset w;
     (_, d1, w1) \<leftarrow> smch_ltc2174_read_8 1 0 w0;
     (_, d2, w2) \<leftarrow> smch_ltc2174_read_8 2 d1 w1;
     (_, d3, w3) \<leftarrow> smch_ltc2174_read_8 3 d2 w2;
     (_, _, w4) \<leftarrow> smch_ltc2174_read_8 4 d3 w3;
     Some (SMCH_SUCCESS, w4) }"

definition smch_ltc2174_new ::
  "bool \<Rightarrow> (nat \<Rightarrow> bool) \<Rightarrow> ('o, 'h, 'p) smio \<Rightarrow> u64 \<Rightarrow> ('a, 'b, 'd, 'o, 'h, 'p) smpr_proto_ops option \<Rightarrow> 'd \<Rightarrow> int \<Rightarrow>
     'a option \<Rightarrow> 'p \<Rightarrow> (('a, 'b, 'd, 'o, 'h, 'p) smpr option \<times> 'p) option" where
  "smch_ltc2174_new ok al parent base reg_ops d verb as p = do {
     r \<leftarrow> chip_open ok al SMCH_LTC2174_NAME parent reg_ops d verb base as p;
     chip_start s_smch_ltc2174_init r }"

definition smch_ltc2174_destroy ::
  "('a, 'b, 'd, 'o, 'h, 'p) smpr option \<Rightarrow> (smch_err \<times> ('a, 'b, 'd, 'o, 'h, 'p) smpr option) option" where
  "smch_ltc2174_destroy self_p = chip_destroy self_p"

section \<open>Settings\<close>

definition smch_ltc2174_set_test_patt :: "u32 \<Rightarrow> ('a, 'b, 'd, 'o, 'h, 'p) chip \<Rightarrow> (smch_err \<times> ('a, 'b, 'd, 'o, 'h, 'p) chip) option" where
  "smch_ltc2174_set_test_patt test_patt w = do {
     (_, data, w1) \<leftarrow> s_smch_ltc2174_read_8 LTC2174_REG_TEST_PATT_MSB 0 w;
     let data1 = (ucast data AND NOT LTC2174_TEST_PATT_OUTTEST) OR (if test_patt \<noteq> 0 then LTC2174_TEST_PATT_OUTTEST else 0);
     (rw_err, w2) \<leftarrow> s_smch_ltc2174_write_8 LTC2174_REG_TEST_PATT_MSB (ucast data1) w1;
     Some (if rw_err = 1 then SMCH_SUCCESS else SMCH_ERR_RW_SMPR, w2) }"

definition smch_ltc2174_get_test_patt :: "u32 \<Rightarrow> ('a, 'b, 'd, 'o, 'h, 'p) chip \<Rightarrow> (smch_err \<times> u32 \<times> ('a, 'b, 'd, 'o, 'h, 'p) chip) option" where
  "smch_ltc2174_get_test_patt test_patt w = do {
     (rw_err, data, w1) \<leftarrow> s_smch_ltc2174_read_8 LTC2174_REG_TEST_PATT_MSB 0 w;
     if rw_err \<noteq> 1 then Some (SMCH_ERR_RW_SMPR, test_patt, w1)
     else Some (SMCH_SUCCESS, drop_bit LTC2174_RESET_EN_SHIFT (ucast data AND LTC2174_TEST_PATT_OUTTEST), w1) }"

definition smch_ltc2174_set_test_patt_data :: "u32 \<Rightarrow> ('a, 'b, 'd, 'o, 'h, 'p) chip \<Rightarrow> (smch_err \<times> ('a, 'b, 'd, 'o, 'h, 'p) chip) option" where
  "smch_ltc2174_set_test_patt_data test_patt_data w = do {
     (rw_err, data, w1) \<leftarrow> s_smch_ltc2174_read_8 LTC2174_REG_TEST_PATT_MSB 0 w;
     if rw_err \<noteq> 1 then Some (SMCH_ERR_RW_SMPR, w1)
     else do {
       let data1 = (ucast data AND NOT LTC2174_TEST_PATT_MSB_MASK) OR
         LTC2174_TEST_PATT_MSB_W (drop_bit LTC2174_TEST_PATT_LSB_SIZE test_patt_data);
       (_, w2) \<leftarrow> s_smch_ltc2174_write_8 LTC2174_REG_TEST_PATT_MSB (ucast data1) w1;
       (rw_err', w3) \<leftarrow> s_smch_ltc2174_write_8 LTC2174_REG_TEST_PATT_LSB (ucast (LTC2174_TEST_PATT_LSB_W test_patt_data)) w2;
       Some (if rw_err' = 1 then SMCH_SUCCESS else SMCH_ERR_RW_SMPR, w3) } }"

definition smch_ltc2174_get_test_patt_data :: "u32 \<Rightarrow> ('a, 'b, 'd, 'o, 'h, 'p) chip \<Rightarrow> (smch_err \<times> u32 \<times> ('a, 'b, 'd, 'o, 'h, 'p) chip) option" where
  "smch_ltc2174_get_test_patt_data test_patt_data w = do {
     (rw_err, msb, w1) \<leftarrow> s_smch_ltc2174_read_8 LTC2174_REG_TEST_PATT_MSB 0 w;
     if rw_err \<noteq> 1 then Some (SMCH_ERR_RW_SMPR, test_patt_data, w1)
     else do {
       (rw_err', lsb, w2) \<leftarrow> s_smch_ltc2174_read_8 LTC2174_REG_TEST_PATT_LSB msb w1;
       if rw_err' \<noteq> 1 then Some (SMCH_ERR_RW_SMPR, test_patt_data, w2)
       else Some (SMCH_SUCCESS, push_bit LTC2174_TEST_PATT_LSB_SIZE (LTC2174_TEST_PATT_MSB_R (ucast msb)) OR
         LTC2174_TEST_PATT_LSB_R (ucast lsb), w2) } }"

text \<open>After the write it is again the result of the read that is tested.\<close>

definition smch_ltc2174_set_twos_compl :: "u32 \<Rightarrow> ('a, 'b, 'd, 'o, 'h, 'p) chip \<Rightarrow> (smch_err \<times> ('a, 'b, 'd, 'o, 'h, 'p) chip) option" where
  "smch_ltc2174_set_twos_compl twos_compl w = do {
     (rw_err, data, w1) \<leftarrow> s_smch_ltc2174_read_8 LTC2174_REG_FORMAT_PDOWN 0 w;
     if rw_err \<noteq> 1 then Some (SMCH_ERR_RW_SMPR, w1)
     else do {
       let data1 = (ucast data AND NOT LTC2174_FORMAT_PDOWN_TWOS_COMPL) OR
         (if twos_compl \<noteq> 0 then LTC2174_FORMAT_PDOWN_TWOS_COMPL else 0);
       (_, w2) \<leftarrow> s_smch_ltc2174_write_8 LTC2174_REG_FORMAT_PDOWN (ucast data1) w1;
       Some (if rw_err \<noteq> 1 then SMCH_ERR_RW_SMPR else SMCH_SUCCESS, w2) } }"

definition smch_ltc2174_get_twos_compl :: "u32 \<Rightarrow> ('a, 'b, 'd, 'o, 'h, 'p) chip \<Rightarrow> (smch_err \<times> u32 \<times> ('a, 'b, 'd, 'o, 'h, 'p) chip) option" where
  "smch_ltc2174_get_twos_compl twos_compl w = do {
     (rw_err, data, w1) \<leftarrow> s_smch_ltc2174_read_8 LTC2174_REG_FORMAT_PDOWN 0 w;
     if rw_err \<noteq> 1 then Some (SMCH_ERR_RW_SMPR, twos_compl, w1)
     else Some (SMCH_SUCCESS,
       drop_bit LTC2174_FORMAT_PDOWN_TWOS_COMPL_SHIFT (ucast data AND LTC2174_FORMAT_PDOWN_TWOS_COMPL), w1) }"

end
