(* ===== verification/Ch_24aa64.thy ===== *)
theory Ch_24aa64
  imports Chip
begin

text \<open>
  The EEPROM 24AA64 on I2C: include/chips/e24aa64_regs.h and src/sm_io/chips/sm_ch_24aa64.c.
\<close>

section \<open>The registers\<close>

definition E24AA64_ADDR_TRANS_SIZE :: nat where "E24AA64_ADDR_TRANS_SIZE = 16"
definition E24AA64_DATA_TRANS_SIZE :: nat where "E24AA64_DATA_TRANS_SIZE = 8"
definition E24AA64_BYTE_TRANS_SIZE :: nat where "E24AA64_BYTE_TRANS_SIZE = 24"
definition E24AA64_PAGE_DATA_BYTES_MAX :: nat where "E24AA64_PAGE_DATA_BYTES_MAX = 32"
definition E24AA64_PAGE_TRANS_SIZE_MAX :: nat where "E24AA64_PAGE_TRANS_SIZE_MAX = 272"
definition E24AA64_ADDR_MASK :: u32 where "E24AA64_ADDR_MASK = WBGEN2_GEN_MASK 0 16"
definition E24AA64_ADDR_SIZE :: nat where "E24AA64_ADDR_SIZE = 16"


definition E24AA64_SWAP_16BIT_BYTES :: "u32 \<Rightarrow> u32" where
  "E24AA64_SWAP_16BIT_BYTES v = (drop_bit 8 v AND 0xFF) OR (push_bit 8 v AND 0xFF00)"
definition E24AA64_ADDR_W :: "u32 \<Rightarrow> u32" where
  "E24AA64_ADDR_W v = WBGEN2_GEN_WRITE (E24AA64_SWAP_16BIT_BYTES v) 0 16"
definition E24AA64_ADDR_R :: "u32 \<Rightarrow> u32" where
  "E24AA64_ADDR_R reg = E24AA64_SWAP_16BIT_BYTES (WBGEN2_GEN_READ reg 0 16)"

definition SMCH_24AA64_NAME :: string where "SMCH_24AA64_NAME = ''24AA64''"

definition smch_24aa64_new ::
  "bool \<Rightarrow> (nat \<Rightarrow> bool) \<Rightarrow> ('o, 'h, 'p) smio \<Rightarrow> u64 \<Rightarrow> ('a, 'b, 'd, 'o, 'h, 'p) smpr_proto_ops option \<Rightarrow> 'd \<Rightarrow> int \<Rightarrow>
     'p \<Rightarrow> (('a, 'b, 'd, 'o, 'h, 'p) smpr option \<times> 'p) option" where
  "smch_24aa64_new ok al parent base reg_ops d verb p = chip_open ok al SMCH_24AA64_NAME parent reg_ops d verb base None p"

definition smch_24aa64_destroy ::
  "('a, 'b, 'd, 'o, 'h, 'p) smpr option \<Rightarrow> (smch_err \<times> ('a, 'b, 'd, 'o, 'h, 'p) smpr option) option" where
  "smch_24aa64_destroy self_p = chip_destroy self_p"

section \<open>Accesses\<close>

text \<open>The two bytes of the address are swapped, so that the high one is sent first. The results are
  compared as unsigned numbers after the sign has been tested.\<close>

definition s_smch_24aa64_write_generic :: "u16 \<Rightarrow> u8 list \<Rightarrow> ('a, 'b, 'd, 'o, 'h, 'p) chip \<Rightarrow> (int \<times> ('a, 'b, 'd, 'o, 'h, 'p) chip) option" where
  "s_smch_24aa64_write_generic addr data w =
     (if \<not> length data < E24AA64_PAGE_DATA_BYTES_MAX then Some (-1, w)
      else do {
        (smpr_err, w1) \<leftarrow> chip_write (E24AA64_ADDR_SIZE div SMPR_BYTE_2_BIT) (ucast (E24AA64_ADDR_W (ucast addr))) data w;
        Some (if 0 \<le> smpr_err \<and> smpr_err = int (length data) then smpr_err else -1, w1) })"

definition s_smch_24aa64_read_generic :: "u16 \<Rightarrow> u8 list \<Rightarrow> ('a, 'b, 'd, 'o, 'h, 'p) chip \<Rightarrow> (int \<times> u8 list \<times> ('a, 'b, 'd, 'o, 'h, 'p) chip) option" where
  "s_smch_24aa64_read_generic addr data w = do {
     (err, b, w1) \<leftarrow> chip_read (E24AA64_ADDR_SIZE div SMPR_BYTE_2_BIT) (ucast (E24AA64_ADDR_W (ucast addr))) data w;
     Some (if 0 \<le> err \<and> err = int (length data) then err else -1, b, w1) }"

definition smch_24aa64_write_8 :: "u16 \<Rightarrow> u8 \<Rightarrow> ('a, 'b, 'd, 'o, 'h, 'p) chip \<Rightarrow> (smch_err \<times> ('a, 'b, 'd, 'o, 'h, 'p) chip) option" where
  "smch_24aa64_write_8 addr data w = do {
     (ret, w1) \<leftarrow> s_smch_24aa64_write_generic addr [data] w;
     Some (if ret = 1 then SMCH_SUCCESS else SMCH_ERR_RW_SMPR, w1) }"

definition smch_24aa64_read_8 :: "u16 \<Rightarrow> u8 \<Rightarrow> ('a, 'b, 'd, 'o, 'h, 'p) chip \<Rightarrow> (smch_err \<times> u8 \<times> ('a, 'b, 'd, 'o, 'h, 'p) chip) option" where
  "smch_24aa64_read_8 addr data w = do {
     (ret, b, w1) \<leftarrow> s_smch_24aa64_read_generic addr [data] w;
     Some (if ret = 1 then SMCH_SUCCESS else SMCH_ERR_RW_SMPR, hd b, w1) }"

definition smch_24aa64_write_block :: "u16 \<Rightarrow> u8 list \<Rightarrow> ('a, 'b, 'd, 'o, 'h, 'p) chip \<Rightarrow> (smch_err \<times> ('a, 'b, 'd, 'o, 'h, 'p) chip) option" where
  "smch_24aa64_write_block addr data w = do {
     (ret, w1) \<leftarrow> s_smch_24aa64_write_generic addr data w;
     Some (if 0 \<le> ret \<and> ret = int (length data) then SMCH_SUCCESS else SMCH_ERR_RW_SMPR, w1) }"

definition smch_24aa64_read_block :: "u16 \<Rightarrow> u8 list \<Rightarrow> ('a, 'b, 'd, 'o, 'h, 'p) chip \<Rightarrow> (smch_err \<times> u8 list \<times> ('a, 'b, 'd, 'o, 'h, 'p) chip) option" where
  "smch_24aa64_read_block addr data w = do {
     (ret, b, w1) \<leftarrow> s_smch_24aa64_read_generic addr data w;
     Some (if 0 \<le> ret \<and> ret = int (length data) then SMCH_SUCCESS else SMCH_ERR_RW_SMPR, b, w1) }"

end
