(* ===== verification/Ch_Pca9547.thy ===== *)
theory Ch_Pca9547
  imports Chip
begin

text \<open>
  The switch PCA9547 on I2C: include/chips/pca9547_regs.h and src/sm_io/chips/sm_ch_pca9547.c.
\<close>

section \<open>The register\<close>

definition PCA9547_DATA_TRANS_SIZE :: nat where "PCA9547_DATA_TRANS_SIZE = 8"
definition PCA9547_BYTE_TRANS_SIZE :: nat where "PCA9547_BYTE_TRANS_SIZE = 8"
definition PCA9547_MAX_NUM_CHANNEL :: nat where "PCA9547_MAX_NUM_CHANNEL = 8"
definition PCA9547_CHANNEL_SEL_EN :: u32 where "PCA9547_CHANNEL_SEL_EN = WBGEN2_GEN_MASK 3 1"
definition PCA9547_CHANNEL_SEL_EN_OFF :: u32 where "PCA9547_CHANNEL_SEL_EN_OFF = 0"


definition SMCH_PCA9547_NAME :: string where "SMCH_PCA9547_NAME = ''PCA9547''"
definition SMCH_PCA9547_NO_CHANNEL :: u8 where "SMCH_PCA9547_NO_CHANNEL = 0xFF"

definition smch_pca9547_new ::
  "bool \<Rightarrow> (nat \<Rightarrow> bool) \<Rightarrow> ('o, 'h, 'p) smio \<Rightarrow> u64 \<Rightarrow> ('a, 'b, 'd, 'o, 'h, 'p) smpr_proto_ops option \<Rightarrow> 'd \<Rightarrow> int \<Rightarrow>
     'p \<Rightarrow> (('a, 'b, 'd, 'o, 'h, 'p) smpr option \<times> 'p) option" where
  "smch_pca9547_new ok al parent base reg_ops d verb p = chip_open ok al SMCH_PCA9547_NAME parent reg_ops d verb base None p"

definition smch_pca9547_destroy ::
  "('a, 'b, 'd, 'o, 'h, 'p) smpr option \<Rightarrow> (smch_err \<times> ('a, 'b, 'd, 'o, 'h, 'p) smpr option) option" where
  "smch_pca9547_destroy self_p = chip_destroy self_p"

section \<open>Accesses\<close>

text \<open>The chip has one register: a transfer has no address.\<close>

definition s_smch_pca9547_write_8 :: "u8 \<Rightarrow> ('a, 'b, 'd, 'o, 'h, 'p) chip \<Rightarrow> (smch_err \<times> ('a, 'b, 'd, 'o, 'h, 'p) chip) option" where
  "s_smch_pca9547_write_8 data w = do {
     (smpr_err, w1) \<leftarrow> chip_write 0 0 [data] w;
     Some (if smpr_err = 1 then SMCH_SUCCESS else SMCH_ERR_RW_SMPR, w1) }"

definition s_smch_pca9547_read_8 :: "u8 \<Rightarrow> ('a, 'b, 'd, 'o, 'h, 'p) chip \<Rightarrow> (smch_err \<times> u8 \<times> ('a, 'b, 'd, 'o, 'h, 'p) chip) option" where
  "s_smch_pca9547_read_8 data w = do {
     (smpr_err, b, w1) \<leftarrow> chip_read 0 0 [data] w;
     Some (if smpr_err = 1 then SMCH_SUCCESS else SMCH_ERR_RW_SMPR, hd b, w1) }"

definition smch_pca9547_write_8 :: "u8 \<Rightarrow> ('a, 'b, 'd, 'o, 'h, 'p) chip \<Rightarrow> (smch_err \<times> ('a, 'b, 'd, 'o, 'h, 'p) chip) option" where
  "smch_pca9547_write_8 data w = s_smch_pca9547_write_8 data w"

definition smch_pca9547_read_8 :: "u8 \<Rightarrow> ('a, 'b, 'd, 'o, 'h, 'p) chip \<Rightarrow> (smch_err \<times> u8 \<times> ('a, 'b, 'd, 'o, 'h, 'p) chip) option" where
  "smch_pca9547_read_8 data w = s_smch_pca9547_read_8 data w"

definition smch_pca9547_en_chan :: "u8 \<Rightarrow> ('a, 'b, 'd, 'o, 'h, 'p) chip \<Rightarrow> (smch_err \<times> ('a, 'b, 'd, 'o, 'h, 'p) chip) option" where
  "smch_pca9547_en_chan chan w =
     (if \<not> (unat chan < PCA9547_MAX_NUM_CHANNEL \<or> chan = SMCH_PCA9547_NO_CHANNEL) then Some (SMCH_ERR_INV_FUNC_PARAM, w)
      else s_smch_pca9547_write_8
        (if chan = SMCH_PCA9547_NO_CHANNEL then ucast PCA9547_CHANNEL_SEL_EN_OFF else ucast PCA9547_CHANNEL_SEL_EN OR chan) w)"

end
