(* ===== verification/Ch_Si57x.thy ===== *)
theory Ch_Si57x
  imports Chip Hutils
begin

text \<open>
  The oscillator Si57x on I2C: include/chips/si57x_regs.h and src/sm_io/chips/sm_ch_si57x.c. Frequencies are in
  double precision, of theory Floats. A division by zero, whose infinity the code would go on with, and a
  conversion to an integer type that cannot hold the number give None.
\<close>

section \<open>The registers\<close>

definition SI57X_ADDR_TRANS_SIZE :: nat where "SI57X_ADDR_TRANS_SIZE = 8"
definition SI57X_DATA_TRANS_SIZE :: nat where "SI57X_DATA_TRANS_SIZE = 8"
definition SI57X_BYTE_TRANS_SIZE :: nat where "SI57X_BYTE_TRANS_SIZE = 16"
definition SI57X_DATA_BYTES_MAX :: nat where "SI57X_DATA_BYTES_MAX = 32"
definition SI57X_TRANS_SIZE_MAX :: nat where "SI57X_TRANS_SIZE_MAX = 264"
definition SI57X_MIN_FREQ :: u32 where "SI57X_MIN_FREQ = 10000000"
definition SI57X_MAX_FREQ :: u32 where "SI57X_MAX_FREQ = 1417500000"
definition SI57X_FDCO_MIN :: u64 where "SI57X_FDCO_MIN = 4850000000"
definition SI57X_FDCO_MAX :: u64 where "SI57X_FDCO_MAX = 5670000000"
definition SI57X_REG_HS_N1 :: u8 where "SI57X_REG_HS_N1 = 0x7"
definition SI57X_HS_N1_N1_6_2_MASK :: u32 where "SI57X_HS_N1_N1_6_2_MASK = WBGEN2_GEN_MASK 0 5"
definition SI57X_HS_N1_N1_6_2_W :: "u32 \<Rightarrow> u32" where "SI57X_HS_N1_N1_6_2_W v = WBGEN2_GEN_WRITE v 0 5"
definition SI57X_HS_N1_N1_6_2_R :: "u32 \<Rightarrow> u32" where "SI57X_HS_N1_N1_6_2_R v = WBGEN2_GEN_READ v 0 5"
definition SI57X_HS_N1_HS_MASK :: u32 where "SI57X_HS_N1_HS_MASK = WBGEN2_GEN_MASK 5 3"
definition SI57X_HS_N1_HS_W :: "u32 \<Rightarrow> u32" where "SI57X_HS_N1_HS_W v = WBGEN2_GEN_WRITE v 5 3"
definition SI57X_HS_N1_HS_R :: "u32 \<Rightarrow> u32" where "SI57X_HS_N1_HS_R v = WBGEN2_GEN_READ v 5 3"
definition SI57X_HS_N1_HS_OFFSET :: u32 where "SI57X_HS_N1_HS_OFFSET = 4"
definition SI57X_REG_N1_RFREQ0 :: u8 where "SI57X_REG_N1_RFREQ0 = 0x8"
definition SI57X_N1_RFREQ0_RFREQ_37_32_MASK :: u32 where "SI57X_N1_RFREQ0_RFREQ_37_32_MASK = WBGEN2_GEN_MASK 0 6"
definition SI57X_N1_RFREQ0_RFREQ_37_32_W :: "u32 \<Rightarrow> u32" where "SI57X_N1_RFREQ0_RFREQ_37_32_W v = WBGEN2_GEN_WRITE v 0 6"
definition SI57X_N1_RFREQ0_RFREQ_37_32_R :: "u32 \<Rightarrow> u32" where "SI57X_N1_RFREQ0_RFREQ_37_32_R v = WBGEN2_GEN_READ v 0 6"
definition SI57X_N1_RFREQ0_N1_1_0_MASK :: u32 where "SI57X_N1_RFREQ0_N1_1_0_MASK = WBGEN2_GEN_MASK 6 2"
definition SI57X_N1_RFREQ0_N1_1_0_W :: "u32 \<Rightarrow> u32" where "SI57X_N1_RFREQ0_N1_1_0_W v = WBGEN2_GEN_WRITE v 6 2"
definition SI57X_N1_RFREQ0_N1_1_0_R :: "u32 \<Rightarrow> u32" where "SI57X_N1_RFREQ0_N1_1_0_R v = WBGEN2_GEN_READ v 6 2"
definition SI57X_HS_N1_N1_6_2_SHIFT_MSB :: nat where "SI57X_HS_N1_N1_6_2_SHIFT_MSB = 2"
definition SI57X_REG_RFREQ1 :: u8 where "SI57X_REG_RFREQ1 = 0x9"
definition SI57X_RFREQ1_RFREQ_31_24_MASK :: u32 where "SI57X_RFREQ1_RFREQ_31_24_MASK = WBGEN2_GEN_MASK 0 8"
definition SI57X_RFREQ1_RFREQ_31_24_W :: "u32 \<Rightarrow> u32" where "SI57X_RFREQ1_RFREQ_31_24_W v = WBGEN2_GEN_WRITE v 0 8"
definition SI57X_RFREQ1_RFREQ_31_24_R :: "u32 \<Rightarrow> u32" where "SI57X_RFREQ1_RFREQ_31_24_R v = WBGEN2_GEN_READ v 0 8"
definition SI57X_RFREQ1_RFREQ_31_28_MASK :: u32 where "SI57X_RFREQ1_RFREQ_31_28_MASK = WBGEN2_GEN_MASK 0 4"
definition SI57X_RFREQ1_RFREQ_27_24_MASK :: u32 where "SI57X_RFREQ1_RFREQ_27_24_MASK = WBGEN2_GEN_MASK 4 4"
definition SI57X_REG_RFREQ2 :: u8 where "SI57X_REG_RFREQ2 = 0xa"
definition SI57X_RFREQ2_RFREQ_23_16_MASK :: u32 where "SI57X_RFREQ2_RFREQ_23_16_MASK = WBGEN2_GEN_MASK 0 8"
definition SI57X_RFREQ2_RFREQ_23_16_W :: "u32 \<Rightarrow> u32" where "SI57X_RFREQ2_RFREQ_23_16_W v = WBGEN2_GEN_WRITE v 0 8"
definition SI57X_RFREQ2_RFREQ_23_16_R :: "u32 \<Rightarrow> u32" where "SI57X_RFREQ2_RFREQ_23_16_R v = WBGEN2_GEN_READ v 0 8"
definition SI57X_REG_RFREQ3 :: u8 where "SI57X_REG_RFREQ3 = 0xb"
definition SI57X_RFREQ3_RFREQ_15_8_MASK :: u32 where "SI57X_RFREQ3_RFREQ_15_8_MASK = WBGEN2_GEN_MASK 0 8"
definition SI57X_RFREQ3_RFREQ_15_8_W :: "u32 \<Rightarrow> u32" where "SI57X_RFREQ3_RFREQ_15_8_W v = WBGEN2_GEN_WRITE v 0 8"
definition SI57X_RFREQ3_RFREQ_15_8_R :: "u32 \<Rightarrow> u32" where "SI57X_RFREQ3_RFREQ_15_8_R v = WBGEN2_GEN_READ v 0 8"
definition SI57X_REG_RFREQ4 :: u8 where "SI57X_REG_RFREQ4 = 0xc"
definition SI57X_RFREQ4_RFREQ_7_0_MASK :: u32 where "SI57X_RFREQ4_RFREQ_7_0_MASK = WBGEN2_GEN_MASK 0 8"
definition SI57X_RFREQ4_RFREQ_7_0_W :: "u32 \<Rightarrow> u32" where "SI57X_RFREQ4_RFREQ_7_0_W v = WBGEN2_GEN_WRITE v 0 8"
definition SI57X_RFREQ4_RFREQ_7_0_R :: "u32 \<Rightarrow> u32" where "SI57X_RFREQ4_RFREQ_7_0_R v = WBGEN2_GEN_READ v 0 8"
definition SI57X_RFREQ_FRAC_SIZE :: nat where "SI57X_RFREQ_FRAC_SIZE = 28"
definition SI57X_RFREQ_INTEGER_SIZE :: nat where "SI57X_RFREQ_INTEGER_SIZE = 10"
definition SI57X_REG_CONTROL :: u8 where "SI57X_REG_CONTROL = 0x87"
definition SI57X_CONTROL_RECALL :: u32 where "SI57X_CONTROL_RECALL = WBGEN2_GEN_MASK 0 1"
definition SI57X_CONTROL_FREEZE_ADC :: u32 where "SI57X_CONTROL_FREEZE_ADC = WBGEN2_GEN_MASK 4 1"
definition SI57X_CONTROL_FREEZE_M :: u32 where "SI57X_CONTROL_FREEZE_M = WBGEN2_GEN_MASK 5 1"
definition SI57X_CONTROL_NEWFREQ :: u32 where "SI57X_CONTROL_NEWFREQ = WBGEN2_GEN_MASK 6 1"
definition SI57X_CONTROL_RESET :: u32 where "SI57X_CONTROL_RESET = WBGEN2_GEN_MASK 7 1"
definition SI57X_REG_FREEZE_DCO :: u8 where "SI57X_REG_FREEZE_DCO = 0x89"
definition SI57X_FREEZE_DCO :: u32 where "SI57X_FREEZE_DCO = WBGEN2_GEN_MASK 4 1"
definition SI57X_REG_START :: u8 where "SI57X_REG_START = 0x7"
definition SI57X_NUM_DIV_REGS :: nat where "SI57X_NUM_DIV_REGS = 6"
definition SI57X_NUM_RFREQ_REGS :: nat where "SI57X_NUM_RFREQ_REGS = 5"


definition SI57X_FOUT_FACTORY_DFLT :: rat where "SI57X_FOUT_FACTORY_DFLT = 155490000"

definition SMCH_SI57X_DFLT_FXTAL :: rat where "SMCH_SI57X_DFLT_FXTAL = 0"
definition SMCH_SI57X_DFLT_N1 :: u32 where "SMCH_SI57X_DFLT_N1 = 0"
definition SMCH_SI57X_DFLT_HSDIV :: u32 where "SMCH_SI57X_DFLT_HSDIV = 0"
definition SMCH_SI57X_DFLT_RFREQ :: u64 where "SMCH_SI57X_DFLT_RFREQ = 0"
definition SMCH_SI57X_DFLT_FREQUENCY :: rat where "SMCH_SI57X_DFLT_FREQUENCY = SI57X_FOUT_FACTORY_DFLT"
definition SMCH_SI57X_DFLT_FACTORY :: rat where "SMCH_SI57X_DFLT_FACTORY = SI57X_FOUT_FACTORY_DFLT"

definition SMCH_SI57X_WAIT_TRIES :: nat where "SMCH_SI57X_WAIT_TRIES = 10"
definition SMCH_SI57X_NAME :: string where "SMCH_SI57X_NAME = ''SI57X''"

section \<open>The driver\<close>

text \<open>The members beside the protocol object, which is carried along with the peer state.\<close>

record smch_si57x =
  si_fxtal :: rat
  si_n1 :: u32
  si_hs_div :: u32
  si_rfreq :: u64
  si_frequency :: rat
  si_fstartup :: rat

definition smch_si57x_new ::
  "bool \<Rightarrow> (nat \<Rightarrow> bool) \<Rightarrow> ('o, 'h, 'p) smio \<Rightarrow> u64 \<Rightarrow> ('a, 'b, 'd, 'o, 'h, 'p) smpr_proto_ops option \<Rightarrow> 'd \<Rightarrow> int \<Rightarrow>
     'p \<Rightarrow> ((smch_si57x \<times> ('a, 'b, 'd, 'o, 'h, 'p) smpr) option \<times> 'p) option" where
  "smch_si57x_new ok al parent base reg_ops d verb p = do {
     (r, p1) \<leftarrow> chip_open ok al SMCH_SI57X_NAME parent reg_ops d verb base None p;
     Some (map_option (\<lambda>s. (\<lparr>si_fxtal = SMCH_SI57X_DFLT_FXTAL, si_n1 = SMCH_SI57X_DFLT_N1, si_hs_div = SMCH_SI57X_DFLT_HSDIV,
       si_rfreq = SMCH_SI57X_DFLT_RFREQ, si_frequency = SMCH_SI57X_DFLT_FREQUENCY, si_fstartup = SMCH_SI57X_DFLT_FACTORY\<rparr>, s)) r, p1) }"

definition smch_si57x_destroy ::
  "(smch_si57x \<times> ('a, 'b, 'd, 'o, 'h, 'p) smpr) option \<Rightarrow>
     (smch_err \<times> (smch_si57x \<times> ('a, 'b, 'd, 'o, 'h, 'p) smpr) option) option" where
  "smch_si57x_destroy self_p = map_option (\<lambda>(err, _). (err, None)) (chip_destroy (map_option snd self_p))"

section \<open>Accesses\<close>

definition s_smch_si57x_write_generic :: "u8 \<Rightarrow> u8 list \<Rightarrow> ('a, 'b, 'd, 'o, 'h, 'p) chip \<Rightarrow> (int \<times> ('a, 'b, 'd, 'o, 'h, 'p) chip) option" where
  "s_smch_si57x_write_generic addr data w =
     (if \<not> length data < SI57X_DATA_BYTES_MAX then Some (-1, w)
      else do {
        (err, w1) \<leftarrow> chip_write (SI57X_ADDR_TRANS_SIZE div SMPR_BYTE_2_BIT) (ucast addr) data w;
        Some (if 0 \<le> err \<and> err = int (length data) then err else -1, w1) })"

definition s_smch_si57x_read_generic :: "u8 \<Rightarrow> u8 list \<Rightarrow> ('a, 'b, 'd, 'o, 'h, 'p) chip \<Rightarrow> (int \<times> u8 list \<times> ('a, 'b, 'd, 'o, 'h, 'p) chip) option" where
  "s_smch_si57x_read_generic addr data w = do {
     (err, b, w1) \<leftarrow> chip_read (SI57X_ADDR_TRANS_SIZE div SMPR_BYTE_2_BIT) (ucast addr) data w;
     Some (if 0 \<le> err \<and> err = int (length data) then err else -1, b, w1) }"

definition s_smch_si57x_write_8 :: "u8 \<Rightarrow> u8 \<Rightarrow> ('a, 'b, 'd, 'o, 'h, 'p) chip \<Rightarrow> (smch_err \<times> ('a, 'b, 'd, 'o, 'h, 'p) chip) option" where
  "s_smch_si57x_write_8 addr data w = do {
     (ret, w1) \<leftarrow> s_smch_si57x_write_generic addr [data] w;
     Some (if ret = 1 then SMCH_SUCCESS else SMCH_ERR_RW_SMPR, w1) }"

definition s_smch_si57x_write_block :: "u8 \<Rightarrow> u8 list \<Rightarrow> ('a, 'b, 'd, 'o, 'h, 'p) chip \<Rightarrow> (smch_err \<times> ('a, 'b, 'd, 'o, 'h, 'p) chip) option" where
  "s_smch_si57x_write_block addr data w = do {
     (ret, w1) \<leftarrow> s_smch_si57x_write_generic addr data w;
     Some (if 0 \<le> ret \<and> ret = int (length data) then SMCH_SUCCESS else SMCH_ERR_RW_SMPR, w1) }"

definition s_smch_si57x_read_8 :: "u8 \<Rightarrow> u8 \<Rightarrow> ('a, 'b, 'd, 'o, 'h, 'p) chip \<Rightarrow> (smch_err \<times> u8 \<times> ('a, 'b, 'd, 'o, 'h, 'p) chip) option" where
  "s_smch_si57x_read_8 addr data w = do {
     (ret, b, w1) \<leftarrow> s_smch_si57x_read_generic addr [data] w;
     Some (if ret = 1 then SMCH_SUCCESS else SMCH_ERR_RW_SMPR, hd b, w1) }"

definition s_smch_si57x_read_block :: "u8 \<Rightarrow> u8 list \<Rightarrow> ('a, 'b, 'd, 'o, 'h, 'p) chip \<Rightarrow> (smch_err \<times> u8 list \<times> ('a, 'b, 'd, 'o, 'h, 'p) chip) option" where
  "s_smch_si57x_read_block addr data w = do {
     (ret, b, w1) \<leftarrow> s_smch_si57x_read_generic addr data w;
     Some (if 0 \<le> ret \<and> ret = int (length data) then SMCH_SUCCESS else SMCH_ERR_RW_SMPR, b, w1) }"

definition smch_si57x_write_8 :: "u8 \<Rightarrow> u8 \<Rightarrow> ('a, 'b, 'd, 'o, 'h, 'p) chip \<Rightarrow> (smch_err \<times> ('a, 'b, 'd, 'o, 'h, 'p) chip) option" where
  "smch_si57x_write_8 = s_smch_si57x_write_8"
definition smch_si57x_write_block :: "u8 \<Rightarrow> u8 list \<Rightarrow> ('a, 'b, 'd, 'o, 'h, 'p) chip \<Rightarrow> (smch_err \<times> ('a, 'b, 'd, 'o, 'h, 'p) chip) option" where
  "smch_si57x_write_block = s_smch_si57x_write_block"
definition smch_si57x_read_8 :: "u8 \<Rightarrow> u8 \<Rightarrow> ('a, 'b, 'd, 'o, 'h, 'p) chip \<Rightarrow> (smch_err \<times> u8 \<times> ('a, 'b, 'd, 'o, 'h, 'p) chip) option" where
  "smch_si57x_read_8 = s_smch_si57x_read_8"
definition smch_si57x_read_block :: "u8 \<Rightarrow> u8 list \<Rightarrow> ('a, 'b, 'd, 'o, 'h, 'p) chip \<Rightarrow> (smch_err \<times> u8 list \<times> ('a, 'b, 'd, 'o, 'h, 'p) chip) option" where
  "smch_si57x_read_block = s_smch_si57x_read_block"

section \<open>Numbers\<close>

definition POW_2_28 :: rat where "POW_2_28 = 268435456"

definition to_u64 :: "rat \<Rightarrow> u64 option" where
  "to_u64 x = (if 0 \<le> cut_int x \<and> cut_int x < 2 ^ 64 then Some (word_of_int (cut_int x)) else None)"

definition dbl_u64 :: "u64 \<Rightarrow> rat" where "dbl_u64 x = to_double (of_nat (unat x))"
definition dbl_u32 :: "u32 \<Rightarrow> rat" where "dbl_u32 x = of_nat (unat x)"

definition dmul :: "rat \<Rightarrow> rat \<Rightarrow> rat" where "dmul x y = to_double (x * y)"
definition ddiv :: "rat \<Rightarrow> rat \<Rightarrow> rat option" where "ddiv x y = (if y = 0 then None else Some (to_double (x / y)))"

text \<open>With two doubles the type of \<open>-1\<close> is signed, and the signs of the operands decide.\<close>

definition DIV_ROUND_CLOSEST :: "rat \<Rightarrow> rat \<Rightarrow> rat option" where
  "DIV_ROUND_CLOSEST x d = do {
     h \<leftarrow> ddiv d 2;
     if (0 < x) = (0 < d) then ddiv (to_double (x + h)) d else ddiv (to_double (x - h)) d }"

section \<open>The dividers\<close>

text \<open>Values are changed only when the registers could be read.\<close>

definition s_smch_si57x_get_divs :: "('a, 'b, 'd, 'o, 'h, 'p) chip \<Rightarrow> (smch_err \<times> (u64 \<times> u32 \<times> u32) option \<times> ('a, 'b, 'd, 'o, 'h, 'p) chip) option" where
  "s_smch_si57x_get_divs w = do {
     (smpr_err, divs, w1) \<leftarrow> s_smch_si57x_read_generic SI57X_REG_HS_N1 (replicate SI57X_NUM_DIV_REGS 0) w;
     if smpr_err \<noteq> int SI57X_NUM_DIV_REGS then Some (SMCH_ERR_RW_SMPR, None, w1)
     else do {
       let d = (\<lambda>i. ucast (divs ! i) :: u32);
       let hs = SI57X_HS_N1_HS_R (d 0) + SI57X_HS_N1_HS_OFFSET;
       let n = push_bit SI57X_HS_N1_N1_6_2_SHIFT_MSB (SI57X_HS_N1_N1_6_2_R (d 0)) + SI57X_N1_RFREQ0_N1_1_0_R (d 1) + 1;
       let t0 = (ucast (SI57X_N1_RFREQ0_RFREQ_37_32_R (d 1)) :: u64);
       let t1 = push_bit 8 t0 + ucast (SI57X_RFREQ1_RFREQ_31_24_R (d 2));
       let t2 = push_bit 8 t1 + ucast (SI57X_RFREQ2_RFREQ_23_16_R (d 3));
       let t3 = push_bit 8 t2 + ucast (SI57X_RFREQ3_RFREQ_15_8_R (d 4));
       let t4 = push_bit 8 t3 + ucast (SI57X_RFREQ4_RFREQ_7_0_R (d 5));
       Some (SMCH_SUCCESS, Some (t4, if 1 < n then n AND NOT 1 else n, hs), w1) } }"

definition smch_si57x_get_divs :: "('a, 'b, 'd, 'o, 'h, 'p) chip \<Rightarrow> (smch_err \<times> (u64 \<times> u32 \<times> u32) option \<times> ('a, 'b, 'd, 'o, 'h, 'p) chip) option" where
  "smch_si57x_get_divs = s_smch_si57x_get_divs"

definition s_smch_si57x_update_rfreq_raw :: "smch_si57x \<Rightarrow> ('a, 'b, 'd, 'o, 'h, 'p) chip \<Rightarrow> (smch_err \<times> ('a, 'b, 'd, 'o, 'h, 'p) chip) option" where
  "s_smch_si57x_update_rfreq_raw self w = s_smch_si57x_write_block SI57X_REG_N1_RFREQ0
     [ucast (SI57X_N1_RFREQ0_N1_1_0_W (si_n1 self - 1) OR SI57X_N1_RFREQ0_RFREQ_37_32_W (ucast (drop_bit 32 (si_rfreq self)))),
      ucast (SI57X_RFREQ1_RFREQ_31_24_W (ucast (drop_bit 24 (si_rfreq self)))),
      ucast (SI57X_RFREQ2_RFREQ_23_16_W (ucast (drop_bit 16 (si_rfreq self)))),
      ucast (SI57X_RFREQ3_RFREQ_15_8_W (ucast (drop_bit 8 (si_rfreq self)))),
      ucast (SI57X_RFREQ4_RFREQ_7_0_W (ucast (si_rfreq self)))] w"

text \<open>The search: the frequency of the oscillator for every high-speed divider and every allowed
  divider from the lowest on; the lowest one in range wins. \<open>best\<close> is None at first.\<close>

definition si57x_hs_div_values :: "u32 list" where "si57x_hs_div_values = [11, 9, 7, 6, 5, 4]"

definition rfreq_of :: "rat \<Rightarrow> rat \<Rightarrow> u64 option" where
  "rfreq_of fdco xtal = do {
     t \<leftarrow> ddiv fdco xtal;
     i \<leftarrow> to_u64 (of_int \<lfloor>t\<rfloor>);
     f \<leftarrow> to_u64 (of_int \<lfloor>dmul (to_double (t - dbl_u64 i)) POW_2_28\<rfloor>);
     Some (push_bit SI57X_RFREQ_FRAC_SIZE i OR f) }"

definition fdco_of :: "rat \<Rightarrow> u32 \<Rightarrow> nat \<Rightarrow> rat" where
  "fdco_of freq hs n = dmul (dmul freq (dbl_u32 hs)) (of_nat n)"

function calc_n1 ::
  "rat \<Rightarrow> rat \<Rightarrow> u32 \<Rightarrow> nat \<Rightarrow> (rat \<times> u64 \<times> u32 \<times> u32) option \<Rightarrow> (rat \<times> u64 \<times> u32 \<times> u32) option option" where
  "calc_n1 freq xtal hs n best =
     (if 128 < n then Some best
      else if of_nat (unat SI57X_FDCO_MAX) < fdco_of freq hs n then Some best
      else if of_nat (unat SI57X_FDCO_MIN) \<le> fdco_of freq hs n \<and> (case best of None \<Rightarrow> True | Some b \<Rightarrow> fdco_of freq hs n < fst b)
      then do {
        r \<leftarrow> rfreq_of (fdco_of freq hs n) xtal;
        calc_n1 freq xtal hs (n + (if n = 1 then 1 else 2)) (Some (fdco_of freq hs n, r, of_nat n, hs)) }
      else calc_n1 freq xtal hs (n + (if n = 1 then 1 else 2)) best)"
  by pat_completeness auto
termination
  by (relation "measure (\<lambda>(_, _, _, n, _). 129 - n)") auto

definition lowest_n1 :: "rat \<Rightarrow> u32 \<Rightarrow> u32 option" where
  "lowest_n1 freq hs = do {
     q \<leftarrow> hutils_div_u64 SI57X_FDCO_MIN hs;
     f \<leftarrow> to_u64 (of_int \<lfloor>freq\<rfloor>);
     n \<leftarrow> hutils_div_u64 q (ucast f);
     let m = (ucast n :: u32);
     Some (if m = 0 \<or> m AND 1 \<noteq> 0 then m + 1 else m) }"

fun calc_hs ::
  "rat \<Rightarrow> rat \<Rightarrow> u32 list \<Rightarrow> (rat \<times> u64 \<times> u32 \<times> u32) option \<Rightarrow> (rat \<times> u64 \<times> u32 \<times> u32) option option" where
  "calc_hs freq xtal [] best = Some best"
| "calc_hs freq xtal (hs # hss) best = do {
     m \<leftarrow> lowest_n1 freq hs;
     best' \<leftarrow> calc_n1 freq xtal hs (unat m) best;
     calc_hs freq xtal hss best' }"

definition s_smch_si57x_calc_divs :: "smch_si57x \<Rightarrow> rat \<Rightarrow> (smch_err \<times> (u64 \<times> u32 \<times> u32) option) option" where
  "s_smch_si57x_calc_divs self freq = do {
     best \<leftarrow> calc_hs freq (si_fxtal self) si57x_hs_div_values None;
     Some (case best of None \<Rightarrow> (SMCH_ERR_INV_FUNC_PARAM, None) | Some (_, r) \<Rightarrow> (SMCH_SUCCESS, Some r)) }"

section \<open>Setting a frequency\<close>

text \<open>The bit of a new frequency clears itself; at most \<open>n\<close> readings.\<close>

fun si57x_wait :: "nat \<Rightarrow> u8 \<Rightarrow> ('a, 'b, 'd, 'o, 'h, 'p) chip \<Rightarrow> (smch_err \<times> ('a, 'b, 'd, 'o, 'h, 'p) chip) option" where
  "si57x_wait 0 data w = Some (SMCH_ERR_TIMEOUT, w)"
| "si57x_wait (Suc n) data w = do {
     (err, data1, w1) \<leftarrow> s_smch_si57x_read_8 SI57X_REG_CONTROL data w;
     if err \<noteq> SMCH_SUCCESS then Some (err, w1)
     else if ucast data1 AND SI57X_CONTROL_NEWFREQ = 0 then Some (SMCH_SUCCESS, w1)
     else si57x_wait n data1 w1 }"

definition s_smch_si57x_wait_new_freq :: "('a, 'b, 'd, 'o, 'h, 'p) chip \<Rightarrow> (smch_err \<times> ('a, 'b, 'd, 'o, 'h, 'p) chip) option" where
  "s_smch_si57x_wait_new_freq w = si57x_wait SMCH_SI57X_WAIT_TRIES (ucast SI57X_CONTROL_NEWFREQ) w"

definition s_smch_si57x_set_freq_small :: "smch_si57x \<Rightarrow> rat \<Rightarrow> ('a, 'b, 'd, 'o, 'h, 'p) chip \<Rightarrow> (smch_err \<times> smch_si57x \<times> ('a, 'b, 'd, 'o, 'h, 'p) chip) option" where
  "s_smch_si57x_set_freq_small self freq w = do {
     q \<leftarrow> DIV_ROUND_CLOSEST (dmul (dbl_u64 (si_rfreq self)) freq) (si_frequency self);
     r \<leftarrow> to_u64 q;
     let self' = self\<lparr>si_rfreq := r\<rparr>;
     (e1, w1) \<leftarrow> s_smch_si57x_write_8 SI57X_REG_CONTROL (ucast SI57X_CONTROL_FREEZE_M) w;
     if e1 \<noteq> SMCH_SUCCESS then Some (e1, self', w1)
     else do {
       (e2, w2) \<leftarrow> s_smch_si57x_update_rfreq_raw self' w1;
       if e2 \<noteq> SMCH_SUCCESS then Some (e2, self', w2)
       else do {
         (e3, w3) \<leftarrow> s_smch_si57x_write_8 SI57X_REG_CONTROL 0 w2;
         if e3 \<noteq> SMCH_SUCCESS then Some (e3, self', w3)
         else do {
           (e4, w4) \<leftarrow> s_smch_si57x_wait_new_freq w3;
           Some (e4, self', w4) } } } }"

definition hs_n1_byte :: "smch_si57x \<Rightarrow> u8" where
  "hs_n1_byte self = ucast (SI57X_HS_N1_HS_W (si_hs_div self - SI57X_HS_N1_HS_OFFSET) OR
     (drop_bit SI57X_HS_N1_N1_6_2_SHIFT_MSB (si_n1 self - 1) AND SI57X_HS_N1_N1_6_2_MASK))"

definition s_smch_si57x_set_freq_any :: "smch_si57x \<Rightarrow> rat \<Rightarrow> ('a, 'b, 'd, 'o, 'h, 'p) chip \<Rightarrow> (smch_err \<times> smch_si57x \<times> ('a, 'b, 'd, 'o, 'h, 'p) chip) option" where
  "s_smch_si57x_set_freq_any self freq w = do {
     (e0, divs) \<leftarrow> s_smch_si57x_calc_divs self freq;
     let self' = (case divs of Some (r, n, hs) \<Rightarrow> self\<lparr>si_rfreq := r, si_n1 := n, si_hs_div := hs\<rparr> | None \<Rightarrow> self);
     if e0 \<noteq> SMCH_SUCCESS then Some (e0, self', w)
     else do {
       (e1, w1) \<leftarrow> s_smch_si57x_write_8 SI57X_REG_FREEZE_DCO (ucast SI57X_FREEZE_DCO) w;
       if e1 \<noteq> SMCH_SUCCESS then Some (e1, self', w1)
       else do {
         (e2, w2) \<leftarrow> s_smch_si57x_write_8 SI57X_REG_HS_N1 (hs_n1_byte self') w1;
         if e2 \<noteq> SMCH_SUCCESS then Some (e2, self', w2)
         else do {
           (e3, w3) \<leftarrow> s_smch_si57x_update_rfreq_raw self' w2;
           if e3 \<noteq> SMCH_SUCCESS then Some (e3, self', w3)
           else do {
             (e4, w4) \<leftarrow> s_smch_si57x_write_8 SI57X_REG_FREEZE_DCO (ucast (NOT SI57X_FREEZE_DCO)) w3;
             if e4 \<noteq> SMCH_SUCCESS then Some (e4, self', w4)
             else do {
               (e5, w5) \<leftarrow> s_smch_si57x_write_8 SI57X_REG_CONTROL (ucast SI57X_CONTROL_NEWFREQ) w4;
               if e5 \<noteq> SMCH_SUCCESS then Some (e5, self', w5)
               else do {
                 (e6, w6) \<leftarrow> s_smch_si57x_wait_new_freq w5;
                 Some (e6, self', w6) } } } } } } }"

text \<open>A change below 35 of 10000 is done without stopping the output; with the frequency 0 the quotient
  is an infinity. The frequency is recorded whatever the result is.\<close>

definition small_change :: "smch_si57x \<Rightarrow> rat \<Rightarrow> bool" where
  "small_change self freq =
     (case ddiv (dmul \<bar>to_double (freq - si_frequency self)\<bar> 10000) (si_frequency self) of None \<Rightarrow> False | Some q \<Rightarrow> q < 35)"

definition s_smch_si57x_set_freq :: "smch_si57x \<Rightarrow> rat \<Rightarrow> ('a, 'b, 'd, 'o, 'h, 'p) chip \<Rightarrow> (smch_err \<times> smch_si57x \<times> ('a, 'b, 'd, 'o, 'h, 'p) chip) option" where
  "s_smch_si57x_set_freq self freq w =
     (if \<not> (dbl_u32 SI57X_MIN_FREQ \<le> freq \<and> freq \<le> dbl_u32 SI57X_MAX_FREQ) then Some (SMCH_ERR_RW_SMPR, self, w)
      else do {
        (err, self', w1) \<leftarrow> (if small_change self freq then s_smch_si57x_set_freq_small self freq w
          else s_smch_si57x_set_freq_any self freq w);
        Some (err, self'\<lparr>si_frequency := freq\<rparr>, w1) })"

definition smch_si57x_set_freq :: "smch_si57x \<Rightarrow> rat \<Rightarrow> ('a, 'b, 'd, 'o, 'h, 'p) chip \<Rightarrow> (smch_err \<times> smch_si57x \<times> ('a, 'b, 'd, 'o, 'h, 'p) chip) option" where
  "smch_si57x_set_freq = s_smch_si57x_set_freq"

definition smch_si57x_get_freq :: "smch_si57x \<Rightarrow> (smch_err \<times> rat) option" where
  "smch_si57x_get_freq self = do {
     a \<leftarrow> ddiv (dbl_u64 (si_rfreq self)) POW_2_28;
     f \<leftarrow> ddiv a (dbl_u32 (si_hs_div self * si_n1 self));
     Some (SMCH_SUCCESS, dmul f (si_fxtal self)) }"

section \<open>The start-up frequency\<close>

text \<open>The result of the recall is ignored; the crystal is computed from the dividers the chip starts
  with.\<close>

definition s_smch_si57x_get_defaults :: "smch_si57x \<Rightarrow> rat \<Rightarrow> ('a, 'b, 'd, 'o, 'h, 'p) chip \<Rightarrow> (smch_err \<times> smch_si57x \<times> ('a, 'b, 'd, 'o, 'h, 'p) chip) option" where
  "s_smch_si57x_get_defaults self fout w = do {
     (_, w1) \<leftarrow> s_smch_si57x_write_8 SI57X_REG_CONTROL (ucast SI57X_CONTROL_RECALL) w;
     (err, divs, w2) \<leftarrow> s_smch_si57x_get_divs w1;
     case divs of
       None \<Rightarrow> Some (err, self, w2)
     | Some (r, n, hs) \<Rightarrow> do {
         let self1 = self\<lparr>si_rfreq := r, si_n1 := n, si_hs_div := hs\<rparr>;
         fdco \<leftarrow> to_u64 (dmul (dmul (si_fstartup self) (dbl_u32 n)) (dbl_u32 hs));
         xtal \<leftarrow> ddiv (dbl_u64 (push_bit SI57X_RFREQ_FRAC_SIZE fdco)) (dbl_u64 r);
         Some (SMCH_SUCCESS, self1\<lparr>si_fxtal := xtal, si_frequency := fout\<rparr>, w2) } }"

definition smch_si57x_get_defaults :: "smch_si57x \<Rightarrow> rat \<Rightarrow> ('a, 'b, 'd, 'o, 'h, 'p) chip \<Rightarrow> (smch_err \<times> smch_si57x \<times> ('a, 'b, 'd, 'o, 'h, 'p) chip) option" where
  "smch_si57x_get_defaults = s_smch_si57x_get_defaults"

definition s_smch_si57x_set_fstartup :: "smch_si57x \<Rightarrow> rat \<Rightarrow> ('a, 'b, 'd, 'o, 'h, 'p) chip \<Rightarrow> (smch_err \<times> smch_si57x \<times> ('a, 'b, 'd, 'o, 'h, 'p) chip) option" where
  "s_smch_si57x_set_fstartup self f w = do {
     (err, self1, w1) \<leftarrow> s_smch_si57x_get_defaults (self\<lparr>si_fstartup := f\<rparr>) f w;
     if err \<noteq> SMCH_SUCCESS then Some (err, self1, w1)
     else s_smch_si57x_set_freq self1 (si_frequency self) w1 }"

definition smch_si57x_set_fstartup :: "smch_si57x \<Rightarrow> rat \<Rightarrow> ('a, 'b, 'd, 'o, 'h, 'p) chip \<Rightarrow> (smch_err \<times> smch_si57x \<times> ('a, 'b, 'd, 'o, 'h, 'p) chip) option" where
  "smch_si57x_set_fstartup self f w =
     (if \<not> 1000000 < f then Some (SMCH_ERR_RW_SMPR, self, w) else s_smch_si57x_set_fstartup self f w)"

definition s_smch_si57x_get_fstartup :: "smch_si57x \<Rightarrow> rat" where "s_smch_si57x_get_fstartup = si_fstartup"
definition smch_si57x_get_fstartup :: "smch_si57x \<Rightarrow> rat" where "smch_si57x_get_fstartup = s_smch_si57x_get_fstartup"

end
