(* ===== verification/Wb_Map.thy ===== *)
theory Wb_Map
  imports Rw_Param
begin

text \<open>
  The register maps of the gateware as data: a header under include/hw gives, for each register, the
  masks of its fields (a single bit, or a field with the macros \<open>_MASK\<close>, \<open>_SHIFT\<close>, \<open>_W\<close> and \<open>_R\<close>), and
  the address of each register. A field of 32 bits shifts 1 by the width of the type in the macros of
  some headers, which C leaves undefined; here its mask is the whole word.
\<close>

datatype wb_field =
  Wb_Bit string nat
| Wb_Field string nat nat

type_synonym wb_layout = "(string \<times> wb_field list) list"
type_synonym wb_addrs = "(string \<times> nat) list"

record wb_map =
  wm_prefix :: string
  wm_layout :: "wb_layout list"
  wm_addrs :: "wb_addrs list"

text \<open>The field as a parameter of the access functions.\<close>

fun wb_param :: "wb_field \<Rightarrow> param_field" where
  "wb_param (Wb_Bit _ p) = Single_Bit (WBGEN2_GEN_MASK p 1)"
| "wb_param (Wb_Field _ p k) = gen_field p k"

fun wb_pos :: "wb_field \<Rightarrow> nat" where
  "wb_pos (Wb_Bit _ p) = p"
| "wb_pos (Wb_Field _ p k) = p"

fun wb_bits :: "wb_field \<Rightarrow> nat" where
  "wb_bits (Wb_Bit _ p) = 1"
| "wb_bits (Wb_Field _ p k) = k"

section \<open>Well-formed maps\<close>

text \<open>The fields of a register lie within its 32 bits and do not overlap; the addresses are those of
  different words, in ascending order.\<close>

definition wb_apart :: "wb_field \<Rightarrow> wb_field \<Rightarrow> bool" where
  "wb_apart f g \<longleftrightarrow> wb_pos f + wb_bits f \<le> wb_pos g \<or> wb_pos g + wb_bits g \<le> wb_pos f"

fun fields_ok :: "wb_field list \<Rightarrow> bool" where
  "fields_ok [] \<longleftrightarrow> True"
| "fields_ok (f # fs) \<longleftrightarrow> 0 < wb_bits f \<and> wb_pos f + wb_bits f \<le> 32 \<and> list_all (wb_apart f) fs \<and> fields_ok fs"

definition layout_ok :: "wb_layout \<Rightarrow> bool" where
  "layout_ok l = list_all (\<lambda>(_, fs). fields_ok fs) l"

definition addrs_ok :: "wb_addrs \<Rightarrow> bool" where
  "addrs_ok l = list_all (\<lambda>(_, a). a mod 4 = 0) l"

fun ascending :: "nat \<Rightarrow> nat list \<Rightarrow> bool" where
  "ascending n [] \<longleftrightarrow> True"
| "ascending n (a # as) \<longleftrightarrow> n \<le> a \<and> ascending (Suc a) as"

definition map_ok :: "wb_map \<Rightarrow> bool" where
  "map_ok m \<longleftrightarrow> list_all layout_ok (wm_layout m) \<and> list_all addrs_ok (wm_addrs m) \<and>
     ascending 0 (map snd (concat (wm_addrs m)))"

section \<open>Facts\<close>

lemma fields_ok_member: "fields_ok fs \<Longrightarrow> f \<in> set fs \<Longrightarrow> 0 < wb_bits f \<and> wb_pos f + wb_bits f \<le> 32"
  by (induction fs) auto

lemma wb_apart_sym: "wb_apart f g \<longleftrightarrow> wb_apart g f"
  by (auto simp: wb_apart_def)

lemma fields_ok_less: "fields_ok fs \<Longrightarrow> i < j \<Longrightarrow> j < length fs \<Longrightarrow> wb_apart (fs ! i) (fs ! j)"
proof (induction fs arbitrary: i j)
  case (Cons g fs)
  from Cons.prems(2) obtain k where k: "j = Suc k" by (cases j) auto
  with Cons.prems show ?case
    by (cases i) (auto simp: list_all_length intro: Cons.IH)
qed simp

lemma fields_ok_apart:
  assumes "fields_ok fs" and "i \<noteq> j" and "i < length fs" and "j < length fs"
  shows "wb_apart (fs ! i) (fs ! j)"
proof (cases "i < j")
  case True
  then show ?thesis using fields_ok_less [OF assms(1)] assms(4) by blast
next
  case False
  then have "j < i" using assms(2) by simp
  then show ?thesis using fields_ok_less [OF assms(1)] assms(3) wb_apart_sym by blast
qed

lemma wb_mask: "field_mask (wb_param f) = WBGEN2_GEN_MASK (wb_pos f) (wb_bits f)"
  by (cases f) (simp_all add: gen_field_def)

lemma gen_mask_apart: "p + k \<le> q \<or> q + l \<le> p \<Longrightarrow> WBGEN2_GEN_MASK p k AND WBGEN2_GEN_MASK q l = 0"
  by (rule bit_word_eqI) (auto simp: WBGEN2_GEN_MASK_def bit_simps)

lemma gen_mask_nonzero:
  assumes "0 < k" and "p + k \<le> 32"
  shows "WBGEN2_GEN_MASK p k \<noteq> 0"
proof -
  have "bit (WBGEN2_GEN_MASK p k) p" using assms by (simp add: WBGEN2_GEN_MASK_def bit_simps)
  then show ?thesis by auto
qed

lemma wb_param_wf: "0 < wb_bits f \<Longrightarrow> wb_pos f + wb_bits f \<le> 32 \<Longrightarrow> field_wf (wb_param f)"
  by (cases f) (simp_all add: gen_field_wf gen_mask_nonzero)

text \<open>Writing a field of a well-formed register: the field reads back, the others are as they were.\<close>

lemma wb_set_other:
  assumes "fields_ok fs" and "i \<noteq> j" and "i < length fs" and "j < length fs"
  shows "field_get (wb_param (fs ! j)) (field_set (wb_param (fs ! i)) old v) = field_get (wb_param (fs ! j)) old"
proof (rule field_get_set_other)
  show "field_wf (wb_param (fs ! i))" "field_wf (wb_param (fs ! j))"
    using fields_ok_member [OF assms(1)] assms(3,4) by (auto intro: wb_param_wf)
  show "field_mask (wb_param (fs ! i)) AND field_mask (wb_param (fs ! j)) = 0"
    unfolding wb_mask by (rule gen_mask_apart) (use fields_ok_apart [OF assms] in \<open>auto simp: wb_apart_def\<close>)
qed

lemma wb_set_back:
  assumes "0 < wb_bits f" and "wb_pos f + wb_bits f \<le> 32" and "v < 2 ^ wb_bits f"
  shows "field_get (wb_param f) (field_set (wb_param f) old v) = v"
proof (cases f)
  case (Wb_Bit n p)
  have "v \<le> 1" using assms(3) Wb_Bit inc_le [of v 1] by (simp add: word_le_nat_alt word_less_nat_alt)
  moreover have "WBGEN2_GEN_MASK p 1 \<noteq> 0" using assms Wb_Bit by (intro gen_mask_nonzero) simp_all
  ultimately have "field_holds (wb_param f) v" using single_holds unfolding Wb_Bit by simp
  then show ?thesis by (simp add: field_holds_def)
next
  case (Wb_Field n p k)
  then show ?thesis using assms gen_get_set_val [of p k v old] by simp
qed

lemma map_ok_fields:
  assumes "map_ok m" and "l \<in> set (wm_layout m)" and "(r, fs) \<in> set l"
  shows "fields_ok fs"
  using assms by (auto simp: map_ok_def layout_ok_def list_all_iff)

lemma ascending_less: "ascending n as \<Longrightarrow> a \<in> set as \<Longrightarrow> n \<le> a"
  by (induction as arbitrary: n) force+

lemma ascending_distinct: "ascending n as \<Longrightarrow> distinct as"
  by (induction as arbitrary: n) (auto dest: ascending_less)

end
