(* ===== verification/Regs_Trigger.thy ===== *)
theory Regs_Trigger
  imports Wb_Map
begin

text \<open>The registers of the trigger interface and of the trigger multiplexer, channel by channel.
  The tables follow the headers under include/hw line by line: the fields of each register, then the
  addresses.\<close>

section \<open>include/hw/wb_trigger_iface_regs.h\<close>

definition trigger_iface_layout1 :: wb_layout where
  "trigger_iface_layout1 = [
    (''CH0_CTL'', [Wb_Bit ''DIR'' 0, Wb_Bit ''DIR_POL'' 1, Wb_Bit ''RCV_COUNT_RST'' 2,
      Wb_Bit ''TRANSM_COUNT_RST'' 3]),
    (''CH0_CFG'', [Wb_Field ''RCV_LEN'' 0 8, Wb_Field ''TRANSM_LEN'' 8 8]),
    (''CH0_COUNT'', [Wb_Field ''RCV'' 0 16, Wb_Field ''TRANSM'' 16 16]),
    (''CH1_CTL'', [Wb_Bit ''DIR'' 0, Wb_Bit ''DIR_POL'' 1, Wb_Bit ''RCV_COUNT_RST'' 2,
      Wb_Bit ''TRANSM_COUNT_RST'' 3]),
    (''CH1_CFG'', [Wb_Field ''RCV_LEN'' 0 8, Wb_Field ''TRANSM_LEN'' 8 8]),
    (''CH1_COUNT'', [Wb_Field ''RCV'' 0 16, Wb_Field ''TRANSM'' 16 16]),
    (''CH2_CTL'', [Wb_Bit ''DIR'' 0, Wb_Bit ''DIR_POL'' 1, Wb_Bit ''RCV_COUNT_RST'' 2,
      Wb_Bit ''TRANSM_COUNT_RST'' 3]),
    (''CH2_CFG'', [Wb_Field ''RCV_LEN'' 0 8, Wb_Field ''TRANSM_LEN'' 8 8]),
    (''CH2_COUNT'', [Wb_Field ''RCV'' 0 16, Wb_Field ''TRANSM'' 16 16]),
    (''CH3_CTL'', [Wb_Bit ''DIR'' 0, Wb_Bit ''DIR_POL'' 1, Wb_Bit ''RCV_COUNT_RST'' 2,
      Wb_Bit ''TRANSM_COUNT_RST'' 3])]"

definition trigger_iface_layout2 :: wb_layout where
  "trigger_iface_layout2 = [
    (''CH3_CFG'', [Wb_Field ''RCV_LEN'' 0 8, Wb_Field ''TRANSM_LEN'' 8 8]),
    (''CH3_COUNT'', [Wb_Field ''RCV'' 0 16, Wb_Field ''TRANSM'' 16 16]),
    (''CH4_CTL'', [Wb_Bit ''DIR'' 0, Wb_Bit ''DIR_POL'' 1, Wb_Bit ''RCV_COUNT_RST'' 2,
      Wb_Bit ''TRANSM_COUNT_RST'' 3]),
    (''CH4_CFG'', [Wb_Field ''RCV_LEN'' 0 8, Wb_Field ''TRANSM_LEN'' 8 8]),
    (''CH4_COUNT'', [Wb_Field ''RCV'' 0 16, Wb_Field ''TRANSM'' 16 16]),
    (''CH5_CTL'', [Wb_Bit ''DIR'' 0, Wb_Bit ''DIR_POL'' 1, Wb_Bit ''RCV_COUNT_RST'' 2,
      Wb_Bit ''TRANSM_COUNT_RST'' 3]),
    (''CH5_CFG'', [Wb_Field ''RCV_LEN'' 0 8, Wb_Field ''TRANSM_LEN'' 8 8]),
    (''CH5_COUNT'', [Wb_Field ''RCV'' 0 16, Wb_Field ''TRANSM'' 16 16]),
    (''CH6_CTL'', [Wb_Bit ''DIR'' 0, Wb_Bit ''DIR_POL'' 1, Wb_Bit ''RCV_COUNT_RST'' 2,
      Wb_Bit ''TRANSM_COUNT_RST'' 3]),
    (''CH6_CFG'', [Wb_Field ''RCV_LEN'' 0 8, Wb_Field ''TRANSM_LEN'' 8 8])]"

definition trigger_iface_layout3 :: wb_layout where
  "trigger_iface_layout3 = [
    (''CH6_COUNT'', [Wb_Field ''RCV'' 0 16, Wb_Field ''TRANSM'' 16 16]),
    (''CH7_CTL'', [Wb_Bit ''DIR'' 0, Wb_Bit ''DIR_POL'' 1, Wb_Bit ''RCV_COUNT_RST'' 2,
      Wb_Bit ''TRANSM_COUNT_RST'' 3]),
    (''CH7_CFG'', [Wb_Field ''RCV_LEN'' 0 8, Wb_Field ''TRANSM_LEN'' 8 8]),
    (''CH7_COUNT'', [Wb_Field ''RCV'' 0 16, Wb_Field ''TRANSM'' 16 16]),
    (''CH8_CTL'', [Wb_Bit ''DIR'' 0, Wb_Bit ''DIR_POL'' 1, Wb_Bit ''RCV_COUNT_RST'' 2,
      Wb_Bit ''TRANSM_COUNT_RST'' 3]),
    (''CH8_CFG'', [Wb_Field ''RCV_LEN'' 0 8, Wb_Field ''TRANSM_LEN'' 8 8]),
    (''CH8_COUNT'', [Wb_Field ''RCV'' 0 16, Wb_Field ''TRANSM'' 16 16]),
    (''CH9_CTL'', [Wb_Bit ''DIR'' 0, Wb_Bit ''DIR_POL'' 1, Wb_Bit ''RCV_COUNT_RST'' 2,
      Wb_Bit ''TRANSM_COUNT_RST'' 3]),
    (''CH9_CFG'', [Wb_Field ''RCV_LEN'' 0 8, Wb_Field ''TRANSM_LEN'' 8 8]),
    (''CH9_COUNT'', [Wb_Field ''RCV'' 0 16, Wb_Field ''TRANSM'' 16 16])]"

definition trigger_iface_layout4 :: wb_layout where
  "trigger_iface_layout4 = [
    (''CH10_CTL'', [Wb_Bit ''DIR'' 0, Wb_Bit ''DIR_POL'' 1, Wb_Bit ''RCV_COUNT_RST'' 2,
      Wb_Bit ''TRANSM_COUNT_RST'' 3]),
    (''CH10_CFG'', [Wb_Field ''RCV_LEN'' 0 8, Wb_Field ''TRANSM_LEN'' 8 8]),
    (''CH10_COUNT'', [Wb_Field ''RCV'' 0 16, Wb_Field ''TRANSM'' 16 16]),
    (''CH11_CTL'', [Wb_Bit ''DIR'' 0, Wb_Bit ''DIR_POL'' 1, Wb_Bit ''RCV_COUNT_RST'' 2,
      Wb_Bit ''TRANSM_COUNT_RST'' 3]),
    (''CH11_CFG'', [Wb_Field ''RCV_LEN'' 0 8, Wb_Field ''TRANSM_LEN'' 8 8]),
    (''CH11_COUNT'', [Wb_Field ''RCV'' 0 16, Wb_Field ''TRANSM'' 16 16]),
    (''CH12_CTL'', [Wb_Bit ''DIR'' 0, Wb_Bit ''DIR_POL'' 1, Wb_Bit ''RCV_COUNT_RST'' 2,
      Wb_Bit ''TRANSM_COUNT_RST'' 3]),
    (''CH12_CFG'', [Wb_Field ''RCV_LEN'' 0 8, Wb_Field ''TRANSM_LEN'' 8 8]),
    (''CH12_COUNT'', [Wb_Field ''RCV'' 0 16, Wb_Field ''TRANSM'' 16 16]),
    (''CH13_CTL'', [Wb_Bit ''DIR'' 0, Wb_Bit ''DIR_POL'' 1, Wb_Bit ''RCV_COUNT_RST'' 2,
      Wb_Bit ''TRANSM_COUNT_RST'' 3])]"

definition trigger_iface_layout5 :: wb_layout where
  "trigger_iface_layout5 = [
    (''CH13_CFG'', [Wb_Field ''RCV_LEN'' 0 8, Wb_Field ''TRANSM_LEN'' 8 8]),
    (''CH13_COUNT'', [Wb_Field ''RCV'' 0 16, Wb_Field ''TRANSM'' 16 16]),
    (''CH14_CTL'', [Wb_Bit ''DIR'' 0, Wb_Bit ''DIR_POL'' 1, Wb_Bit ''RCV_COUNT_RST'' 2,
      Wb_Bit ''TRANSM_COUNT_RST'' 3]),
    (''CH14_CFG'', [Wb_Field ''RCV_LEN'' 0 8, Wb_Field ''TRANSM_LEN'' 8 8]),
    (''CH14_COUNT'', [Wb_Field ''RCV'' 0 16, Wb_Field ''TRANSM'' 16 16]),
    (''CH15_CTL'', [Wb_Bit ''DIR'' 0, Wb_Bit ''DIR_POL'' 1, Wb_Bit ''RCV_COUNT_RST'' 2,
      Wb_Bit ''TRANSM_COUNT_RST'' 3]),
    (''CH15_CFG'', [Wb_Field ''RCV_LEN'' 0 8, Wb_Field ''TRANSM_LEN'' 8 8]),
    (''CH15_COUNT'', [Wb_Field ''RCV'' 0 16, Wb_Field ''TRANSM'' 16 16]),
    (''CH16_CTL'', [Wb_Bit ''DIR'' 0, Wb_Bit ''DIR_POL'' 1, Wb_Bit ''RCV_COUNT_RST'' 2,
      Wb_Bit ''TRANSM_COUNT_RST'' 3]),
    (''CH16_CFG'', [Wb_Field ''RCV_LEN'' 0 8, Wb_Field ''TRANSM_LEN'' 8 8])]"

definition trigger_iface_layout6 :: wb_layout where
  "trigger_iface_layout6 = [
    (''CH16_COUNT'', [Wb_Field ''RCV'' 0 16, Wb_Field ''TRANSM'' 16 16]),
    (''CH17_CTL'', [Wb_Bit ''DIR'' 0, Wb_Bit ''DIR_POL'' 1, Wb_Bit ''RCV_COUNT_RST'' 2,
      Wb_Bit ''TRANSM_COUNT_RST'' 3]),
    (''CH17_CFG'', [Wb_Field ''RCV_LEN'' 0 8, Wb_Field ''TRANSM_LEN'' 8 8]),
    (''CH17_COUNT'', [Wb_Field ''RCV'' 0 16, Wb_Field ''TRANSM'' 16 16]),
    (''CH18_CTL'', [Wb_Bit ''DIR'' 0, Wb_Bit ''DIR_POL'' 1, Wb_Bit ''RCV_COUNT_RST'' 2,
      Wb_Bit ''TRANSM_COUNT_RST'' 3]),
    (''CH18_CFG'', [Wb_Field ''RCV_LEN'' 0 8, Wb_Field ''TRANSM_LEN'' 8 8]),
    (''CH18_COUNT'', [Wb_Field ''RCV'' 0 16, Wb_Field ''TRANSM'' 16 16]),
    (''CH19_CTL'', [Wb_Bit ''DIR'' 0, Wb_Bit ''DIR_POL'' 1, Wb_Bit ''RCV_COUNT_RST'' 2,
      Wb_Bit ''TRANSM_COUNT_RST'' 3]),
    (''CH19_CFG'', [Wb_Field ''RCV_LEN'' 0 8, Wb_Field ''TRANSM_LEN'' 8 8]),
    (''CH19_COUNT'', [Wb_Field ''RCV'' 0 16, Wb_Field ''TRANSM'' 16 16])]"

definition trigger_iface_layout7 :: wb_layout where
  "trigger_iface_layout7 = [
    (''CH20_CTL'', [Wb_Bit ''DIR'' 0, Wb_Bit ''DIR_POL'' 1, Wb_Bit ''RCV_COUNT_RST'' 2,
      Wb_Bit ''TRANSM_COUNT_RST'' 3]),
    (''CH20_CFG'', [Wb_Field ''RCV_LEN'' 0 8, Wb_Field ''TRANSM_LEN'' 8 8]),
    (''CH20_COUNT'', [Wb_Field ''RCV'' 0 16, Wb_Field ''TRANSM'' 16 16]),
    (''CH21_CTL'', [Wb_Bit ''DIR'' 0, Wb_Bit ''DIR_POL'' 1, Wb_Bit ''RCV_COUNT_RST'' 2,
      Wb_Bit ''TRANSM_COUNT_RST'' 3]),
    (''CH21_CFG'', [Wb_Field ''RCV_LEN'' 0 8, Wb_Field ''TRANSM_LEN'' 8 8]),
    (''CH21_COUNT'', [Wb_Field ''RCV'' 0 16, Wb_Field ''TRANSM'' 16 16]),
    (''CH22_CTL'', [Wb_Bit ''DIR'' 0, Wb_Bit ''DIR_POL'' 1, Wb_Bit ''RCV_COUNT_RST'' 2,
      Wb_Bit ''TRANSM_COUNT_RST'' 3]),
    (''CH22_CFG'', [Wb_Field ''RCV_LEN'' 0 8, Wb_Field ''TRANSM_LEN'' 8 8]),
    (''CH22_COUNT'', [Wb_Field ''RCV'' 0 16, Wb_Field ''TRANSM'' 16 16]),
    (''CH23_CTL'', [Wb_Bit ''DIR'' 0, Wb_Bit ''DIR_POL'' 1, Wb_Bit ''RCV_COUNT_RST'' 2,
      Wb_Bit ''TRANSM_COUNT_RST'' 3])]"

definition trigger_iface_layout8 :: wb_layout where
  "trigger_iface_layout8 = [
    (''CH23_CFG'', [Wb_Field ''RCV_LEN'' 0 8, Wb_Field ''TRANSM_LEN'' 8 8]),
    (''CH23_COUNT'', [Wb_Field ''RCV'' 0 16, Wb_Field ''TRANSM'' 16 16])]"

definition trigger_iface_addrs1 :: wb_addrs where
  "trigger_iface_addrs1 = [
    (''CH0_CTL'', 0x0), (''CH0_CFG'', 0x4), (''CH0_COUNT'', 0x8), (''CH1_CTL'', 0xc), (''CH1_CFG'', 0x10),
    (''CH1_COUNT'', 0x14), (''CH2_CTL'', 0x18), (''CH2_CFG'', 0x1c), (''CH2_COUNT'', 0x20),
    (''CH3_CTL'', 0x24), (''CH3_CFG'', 0x28), (''CH3_COUNT'', 0x2c), (''CH4_CTL'', 0x30),
    (''CH4_CFG'', 0x34), (''CH4_COUNT'', 0x38), (''CH5_CTL'', 0x3c), (''CH5_CFG'', 0x40),
    (''CH5_COUNT'', 0x44), (''CH6_CTL'', 0x48), (''CH6_CFG'', 0x4c), (''CH6_COUNT'', 0x50),
    (''CH7_CTL'', 0x54), (''CH7_CFG'', 0x58), (''CH7_COUNT'', 0x5c), (''CH8_CTL'', 0x60),
    (''CH8_CFG'', 0x64), (''CH8_COUNT'', 0x68), (''CH9_CTL'', 0x6c), (''CH9_CFG'', 0x70),
    (''CH9_COUNT'', 0x74), (''CH10_CTL'', 0x78), (''CH10_CFG'', 0x7c), (''CH10_COUNT'', 0x80),
    (''CH11_CTL'', 0x84), (''CH11_CFG'', 0x88), (''CH11_COUNT'', 0x8c), (''CH12_CTL'', 0x90),
    (''CH12_CFG'', 0x94), (''CH12_COUNT'', 0x98), (''CH13_CTL'', 0x9c), (''CH13_CFG'', 0xa0),
    (''CH13_COUNT'', 0xa4), (''CH14_CTL'', 0xa8), (''CH14_CFG'', 0xac), (''CH14_COUNT'', 0xb0),
    (''CH15_CTL'', 0xb4), (''CH15_CFG'', 0xb8), (''CH15_COUNT'', 0xbc), (''CH16_CTL'', 0xc0),
    (''CH16_CFG'', 0xc4), (''CH16_COUNT'', 0xc8), (''CH17_CTL'', 0xcc), (''CH17_CFG'', 0xd0),
    (''CH17_COUNT'', 0xd4), (''CH18_CTL'', 0xd8), (''CH18_CFG'', 0xdc), (''CH18_COUNT'', 0xe0),
    (''CH19_CTL'', 0xe4), (''CH19_CFG'', 0xe8), (''CH19_COUNT'', 0xec), (''CH20_CTL'', 0xf0),
    (''CH20_CFG'', 0xf4), (''CH20_COUNT'', 0xf8), (''CH21_CTL'', 0xfc), (''CH21_CFG'', 0x100),
    (''CH21_COUNT'', 0x104), (''CH22_CTL'', 0x108), (''CH22_CFG'', 0x10c), (''CH22_COUNT'', 0x110),
    (''CH23_CTL'', 0x114)]"

definition trigger_iface_addrs2 :: wb_addrs where
  "trigger_iface_addrs2 = [
    (''CH23_CFG'', 0x118), (''CH23_COUNT'', 0x11c)]"

section \<open>include/hw/wb_trigger_mux_regs.h\<close>

definition trigger_mux_layout1 :: wb_layout where
  "trigger_mux_layout1 = [
    (''CH0_CTL'', [Wb_Bit ''RCV_SRC'' 0, Wb_Field ''RCV_IN_SEL'' 8 8, Wb_Bit ''TRANSM_SRC'' 16,
      Wb_Field ''TRANSM_OUT_SEL'' 24 8]),
    (''CH0_DUMMY'', []),
    (''CH1_CTL'', [Wb_Bit ''RCV_SRC'' 0, Wb_Field ''RCV_IN_SEL'' 8 8, Wb_Bit ''TRANSM_SRC'' 16,
      Wb_Field ''TRANSM_OUT_SEL'' 24 8]),
    (''CH1_DUMMY'', []),
    (''CH2_CTL'', [Wb_Bit ''RCV_SRC'' 0, Wb_Field ''RCV_IN_SEL'' 8 8, Wb_Bit ''TRANSM_SRC'' 16,
      Wb_Field ''TRANSM_OUT_SEL'' 24 8]),
    (''CH2_DUMMY'', []),
    (''CH3_CTL'', [Wb_Bit ''RCV_SRC'' 0, Wb_Field ''RCV_IN_SEL'' 8 8, Wb_Bit ''TRANSM_SRC'' 16,
      Wb_Field ''TRANSM_OUT_SEL'' 24 8]),
    (''CH3_DUMMY'', []),
    (''CH4_CTL'', [Wb_Bit ''RCV_SRC'' 0, Wb_Field ''RCV_IN_SEL'' 8 8, Wb_Bit ''TRANSM_SRC'' 16,
      Wb_Field ''TRANSM_OUT_SEL'' 24 8]),
    (''CH4_DUMMY'', []),
    (''CH5_CTL'', [Wb_Bit ''RCV_SRC'' 0, Wb_Field ''RCV_IN_SEL'' 8 8, Wb_Bit ''TRANSM_SRC'' 16,
      Wb_Field ''TRANSM_OUT_SEL'' 24 8]),
    (''CH5_DUMMY'', [])]"

definition trigger_mux_layout2 :: wb_layout where
  "trigger_mux_layout2 = [
    (''CH6_CTL'', [Wb_Bit ''RCV_SRC'' 0, Wb_Field ''RCV_IN_SEL'' 8 8, Wb_Bit ''TRANSM_SRC'' 16,
      Wb_Field ''TRANSM_OUT_SEL'' 24 8]),
    (''CH6_DUMMY'', []),
    (''CH7_CTL'', [Wb_Bit ''RCV_SRC'' 0, Wb_Field ''RCV_IN_SEL'' 8 8, Wb_Bit ''TRANSM_SRC'' 16,
      Wb_Field ''TRANSM_OUT_SEL'' 24 8]),
    (''CH7_DUMMY'', []),
    (''CH8_CTL'', [Wb_Bit ''RCV_SRC'' 0, Wb_Field ''RCV_IN_SEL'' 8 8, Wb_Bit ''TRANSM_SRC'' 16,
      Wb_Field ''TRANSM_OUT_SEL'' 24 8]),
    (''CH8_DUMMY'', []),
    (''CH9_CTL'', [Wb_Bit ''RCV_SRC'' 0, Wb_Field ''RCV_IN_SEL'' 8 8, Wb_Bit ''TRANSM_SRC'' 16,
      Wb_Field ''TRANSM_OUT_SEL'' 24 8]),
    (''CH9_DUMMY'', []),
    (''CH10_CTL'', [Wb_Bit ''RCV_SRC'' 0, Wb_Field ''RCV_IN_SEL'' 8 8, Wb_Bit ''TRANSM_SRC'' 16,
      Wb_Field ''TRANSM_OUT_SEL'' 24 8]),
    (''CH10_DUMMY'', []),
    (''CH11_CTL'', [Wb_Bit ''RCV_SRC'' 0, Wb_Field ''RCV_IN_SEL'' 8 8, Wb_Bit ''TRANSM_SRC'' 16,
      Wb_Field ''TRANSM_OUT_SEL'' 24 8]),
    (''CH11_DUMMY'', [])]"

definition trigger_mux_layout3 :: wb_layout where
  "trigger_mux_layout3 = [
    (''CH12_CTL'', [Wb_Bit ''RCV_SRC'' 0, Wb_Field ''RCV_IN_SEL'' 8 8, Wb_Bit ''TRANSM_SRC'' 16,
      Wb_Field ''TRANSM_OUT_SEL'' 24 8]),
    (''CH12_DUMMY'', []),
    (''CH13_CTL'', [Wb_Bit ''RCV_SRC'' 0, Wb_Field ''RCV_IN_SEL'' 8 8, Wb_Bit ''TRANSM_SRC'' 16,
      Wb_Field ''TRANSM_OUT_SEL'' 24 8]),
    (''CH13_DUMMY'', []),
    (''CH14_CTL'', [Wb_Bit ''RCV_SRC'' 0, Wb_Field ''RCV_IN_SEL'' 8 8, Wb_Bit ''TRANSM_SRC'' 16,
      Wb_Field ''TRANSM_OUT_SEL'' 24 8]),
    (''CH14_DUMMY'', []),
    (''CH15_CTL'', [Wb_Bit ''RCV_SRC'' 0, Wb_Field ''RCV_IN_SEL'' 8 8, Wb_Bit ''TRANSM_SRC'' 16,
      Wb_Field ''TRANSM_OUT_SEL'' 24 8]),
    (''CH15_DUMMY'', []),
    (''CH16_CTL'', [Wb_Bit ''RCV_SRC'' 0, Wb_Field ''RCV_IN_SEL'' 8 8, Wb_Bit ''TRANSM_SRC'' 16,
      Wb_Field ''TRANSM_OUT_SEL'' 24 8]),
    (''CH16_DUMMY'', []),
    (''CH17_CTL'', [Wb_Bit ''RCV_SRC'' 0, Wb_Field ''RCV_IN_SEL'' 8 8, Wb_Bit ''TRANSM_SRC'' 16,
      Wb_Field ''TRANSM_OUT_SEL'' 24 8]),
    (''CH17_DUMMY'', [])]"

definition trigger_mux_layout4 :: wb_layout where
  "trigger_mux_layout4 = [
    (''CH18_CTL'', [Wb_Bit ''RCV_SRC'' 0, Wb_Field ''RCV_IN_SEL'' 8 8, Wb_Bit ''TRANSM_SRC'' 16,
      Wb_Field ''TRANSM_OUT_SEL'' 24 8]),
    (''CH18_DUMMY'', []),
    (''CH19_CTL'', [Wb_Bit ''RCV_SRC'' 0, Wb_Field ''RCV_IN_SEL'' 8 8, Wb_Bit ''TRANSM_SRC'' 16,
      Wb_Field ''TRANSM_OUT_SEL'' 24 8]),
    (''CH19_DUMMY'', []),
    (''CH20_CTL'', [Wb_Bit ''RCV_SRC'' 0, Wb_Field ''RCV_IN_SEL'' 8 8, Wb_Bit ''TRANSM_SRC'' 16,
      Wb_Field ''TRANSM_OUT_SEL'' 24 8]),
    (''CH20_DUMMY'', []),
    (''CH21_CTL'', [Wb_Bit ''RCV_SRC'' 0, Wb_Field ''RCV_IN_SEL'' 8 8, Wb_Bit ''TRANSM_SRC'' 16,
      Wb_Field ''TRANSM_OUT_SEL'' 24 8]),
    (''CH21_DUMMY'', []),
    (''CH22_CTL'', [Wb_Bit ''RCV_SRC'' 0, Wb_Field ''RCV_IN_SEL'' 8 8, Wb_Bit ''TRANSM_SRC'' 16,
      Wb_Field ''TRANSM_OUT_SEL'' 24 8]),
    (''CH22_DUMMY'', []),
    (''CH23_CTL'', [Wb_Bit ''RCV_SRC'' 0, Wb_Field ''RCV_IN_SEL'' 8 8, Wb_Bit ''TRANSM_SRC'' 16,
      Wb_Field ''TRANSM_OUT_SEL'' 24 8]),
    (''CH23_DUMMY'', [])]"

definition trigger_mux_addrs1 :: wb_addrs where
  "trigger_mux_addrs1 = [
    (''CH0_CTL'', 0x0), (''CH0_DUMMY'', 0x4), (''CH1_CTL'', 0x8), (''CH1_DUMMY'', 0xc), (''CH2_CTL'', 0x10),
    (''CH2_DUMMY'', 0x14), (''CH3_CTL'', 0x18), (''CH3_DUMMY'', 0x1c), (''CH4_CTL'', 0x20),
    (''CH4_DUMMY'', 0x24), (''CH5_CTL'', 0x28), (''CH5_DUMMY'', 0x2c), (''CH6_CTL'', 0x30),
    (''CH6_DUMMY'', 0x34), (''CH7_CTL'', 0x38), (''CH7_DUMMY'', 0x3c), (''CH8_CTL'', 0x40),
    (''CH8_DUMMY'', 0x44), (''CH9_CTL'', 0x48), (''CH9_DUMMY'', 0x4c), (''CH10_CTL'', 0x50),
    (''CH10_DUMMY'', 0x54), (''CH11_CTL'', 0x58), (''CH11_DUMMY'', 0x5c), (''CH12_CTL'', 0x60),
    (''CH12_DUMMY'', 0x64), (''CH13_CTL'', 0x68), (''CH13_DUMMY'', 0x6c), (''CH14_CTL'', 0x70),
    (''CH14_DUMMY'', 0x74), (''CH15_CTL'', 0x78), (''CH15_DUMMY'', 0x7c), (''CH16_CTL'', 0x80),
    (''CH16_DUMMY'', 0x84), (''CH17_CTL'', 0x88), (''CH17_DUMMY'', 0x8c), (''CH18_CTL'', 0x90),
    (''CH18_DUMMY'', 0x94), (''CH19_CTL'', 0x98), (''CH19_DUMMY'', 0x9c), (''CH20_CTL'', 0xa0),
    (''CH20_DUMMY'', 0xa4), (''CH21_CTL'', 0xa8), (''CH21_DUMMY'', 0xac), (''CH22_CTL'', 0xb0),
    (''CH22_DUMMY'', 0xb4), (''CH23_CTL'', 0xb8), (''CH23_DUMMY'', 0xbc)]"

lemmas trigger_iface_map_defs = trigger_iface_layout1_def
  trigger_iface_layout2_def
  trigger_iface_layout3_def
  trigger_iface_layout4_def
  trigger_iface_layout5_def
  trigger_iface_layout6_def
  trigger_iface_layout7_def
  trigger_iface_layout8_def
  trigger_iface_addrs1_def
  trigger_iface_addrs2_def

lemmas trigger_mux_map_defs = trigger_mux_layout1_def
  trigger_mux_layout2_def
  trigger_mux_layout3_def
  trigger_mux_layout4_def
  trigger_mux_addrs1_def

end
