(* ===== verification/Regs_Timing.thy ===== *)
theory Regs_Timing
  imports Wb_Map
begin

text \<open>The registers of the timing receivers.
  The tables follow the headers under include/hw line by line: the fields of each register, then the
  addresses.\<close>

section \<open>include/hw/wb_slave_afc_timing_regs.h\<close>

definition afc_timing_layout1 :: wb_layout where
  "afc_timing_layout1 = [
    (''STAT'', [Wb_Bit ''LINK'' 0, Wb_Bit ''RXEN'' 1, Wb_Bit ''REFCLKLOCK'' 2, Wb_Bit ''EVREN'' 3]),
    (''ALIVE'', []),
    (''RTM_RFREQ_HI'', []),
    (''RTM_RFREQ_LO'', []),
    (''RTM'', [Wb_Field ''N1'' 0 7, Wb_Field ''HS_DIV'' 7 3]),
    (''RTM_FREQ'', [Wb_Field ''KP'' 0 16, Wb_Field ''KI'' 16 16]),
    (''RTM_PHASE'', [Wb_Field ''KP'' 0 16, Wb_Field ''KI'' 16 16]),
    (''RTM_MAF'', [Wb_Field ''NAVG'' 0 12, Wb_Field ''DIV_EXP'' 12 5]),
    (''AFC_RFREQ_HI'', []),
    (''AFC_RFREQ_LO'', []),
    (''AFC'', [Wb_Field ''N1'' 0 7, Wb_Field ''HS_DIV'' 7 3]),
    (''AFC_FREQ'', [Wb_Field ''KP'' 0 16, Wb_Field ''KI'' 16 16]),
    (''AFC_PHASE'', [Wb_Field ''KP'' 0 16, Wb_Field ''KI'' 16 16]),
    (''AFC_MAF'', [Wb_Field ''NAVG'' 0 12, Wb_Field ''DIV_EXP'' 12 5])]"

definition afc_timing_layout2 :: wb_layout where
  "afc_timing_layout2 = [
    (''AMC0'', [Wb_Bit ''EN'' 0, Wb_Bit ''POL'' 1, Wb_Bit ''LOG'' 2, Wb_Bit ''ITL'' 3, Wb_Field ''SRC'' 4 4,
      Wb_Bit ''DIR'' 8, Wb_Bit ''COUNT_RST'' 9]),
    (''AMC0_PULSES'', []),
    (''AMC0_COUNT'', []),
    (''AMC0_EVT'', []),
    (''AMC0_DLY'', []),
    (''AMC0_WDT'', []),
    (''AMC1'', [Wb_Bit ''EN'' 0, Wb_Bit ''POL'' 1, Wb_Bit ''LOG'' 2, Wb_Bit ''ITL'' 3, Wb_Field ''SRC'' 4 4,
      Wb_Bit ''DIR'' 8, Wb_Bit ''COUNT_RST'' 9]),
    (''AMC1_PULSES'', []),
    (''AMC1_COUNT'', []),
    (''AMC1_EVT'', []),
    (''AMC1_DLY'', []),
    (''AMC1_WDT'', []),
    (''AMC2'', [Wb_Bit ''EN'' 0, Wb_Bit ''POL'' 1, Wb_Bit ''LOG'' 2, Wb_Bit ''ITL'' 3, Wb_Field ''SRC'' 4 4,
      Wb_Bit ''DIR'' 8, Wb_Bit ''COUNT_RST'' 9]),
    (''AMC2_PULSES'', []),
    (''AMC2_COUNT'', []),
    (''AMC2_EVT'', []),
    (''AMC2_DLY'', []),
    (''AMC2_WDT'', []),
    (''AMC3'', [Wb_Bit ''EN'' 0, Wb_Bit ''POL'' 1, Wb_Bit ''LOG'' 2, Wb_Bit ''ITL'' 3, Wb_Field ''SRC'' 4 4,
      Wb_Bit ''DIR'' 8, Wb_Bit ''COUNT_RST'' 9]),
    (''AMC3_PULSES'', []),
    (''AMC3_COUNT'', []),
    (''AMC3_EVT'', []),
    (''AMC3_DLY'', []),
    (''AMC3_WDT'', [])]"

definition afc_timing_layout3 :: wb_layout where
  "afc_timing_layout3 = [
    (''AMC4'', [Wb_Bit ''EN'' 0, Wb_Bit ''POL'' 1, Wb_Bit ''LOG'' 2, Wb_Bit ''ITL'' 3, Wb_Field ''SRC'' 4 4,
      Wb_Bit ''DIR'' 8, Wb_Bit ''COUNT_RST'' 9]),
    (''AMC4_PULSES'', []),
    (''AMC4_COUNT'', []),
    (''AMC4_EVT'', []),
    (''AMC4_DLY'', []),
    (''AMC4_WDT'', []),
    (''AMC5'', [Wb_Bit ''EN'' 0, Wb_Bit ''POL'' 1, Wb_Bit ''LOG'' 2, Wb_Bit ''ITL'' 3, Wb_Field ''SRC'' 4 4,
      Wb_Bit ''DIR'' 8, Wb_Bit ''COUNT_RST'' 9]),
    (''AMC5_PULSES'', []),
    (''AMC5_COUNT'', []),
    (''AMC5_EVT'', []),
    (''AMC5_DLY'', []),
    (''AMC5_WDT'', []),
    (''AMC6'', [Wb_Bit ''EN'' 0, Wb_Bit ''POL'' 1, Wb_Bit ''LOG'' 2, Wb_Bit ''ITL'' 3, Wb_Field ''SRC'' 4 4,
      Wb_Bit ''DIR'' 8, Wb_Bit ''COUNT_RST'' 9]),
    (''AMC6_PULSES'', []),
    (''AMC6_COUNT'', []),
    (''AMC6_EVT'', []),
    (''AMC6_DLY'', []),
    (''AMC6_WDT'', []),
    (''AMC7'', [Wb_Bit ''EN'' 0, Wb_Bit ''POL'' 1, Wb_Bit ''LOG'' 2, Wb_Bit ''ITL'' 3, Wb_Field ''SRC'' 4 4,
      Wb_Bit ''DIR'' 8, Wb_Bit ''COUNT_RST'' 9]),
    (''AMC7_PULSES'', []),
    (''AMC7_COUNT'', []),
    (''AMC7_EVT'', []),
    (''AMC7_DLY'', []),
    (''AMC7_WDT'', [])]"

definition afc_timing_layout4 :: wb_layout where
  "afc_timing_layout4 = [
    (''FMC1CH0'', [Wb_Bit ''EN'' 0, Wb_Bit ''POL'' 1, Wb_Bit ''LOG'' 2, Wb_Bit ''ITL'' 3,
      Wb_Field ''SRC'' 4 4, Wb_Bit ''DIR'' 8, Wb_Bit ''COUNT_RST'' 9]),
    (''FMC1CH0_PULSES'', []),
    (''FMC1CH0_COUNT'', []),
    (''FMC1CH0_EVT'', []),
    (''FMC1CH0_DLY'', []),
    (''FMC1CH0_WDT'', []),
    (''FMC1CH1'', [Wb_Bit ''EN'' 0, Wb_Bit ''POL'' 1, Wb_Bit ''LOG'' 2, Wb_Bit ''ITL'' 3,
      Wb_Field ''SRC'' 4 4, Wb_Bit ''DIR'' 8, Wb_Bit ''COUNT_RST'' 9]),
    (''FMC1CH1_PULSES'', []),
    (''FMC1CH1_COUNT'', []),
    (''FMC1CH1_EVT'', []),
    (''FMC1CH1_DLY'', []),
    (''FMC1CH1_WDT'', []),
    (''FMC1CH2'', [Wb_Bit ''EN'' 0, Wb_Bit ''POL'' 1, Wb_Bit ''LOG'' 2, Wb_Bit ''ITL'' 3,
      Wb_Field ''SRC'' 4 4, Wb_Bit ''DIR'' 8, Wb_Bit ''COUNT_RST'' 9]),
    (''FMC1CH2_PULSES'', []),
    (''FMC1CH2_COUNT'', []),
    (''FMC1CH2_EVT'', []),
    (''FMC1CH2_DLY'', []),
    (''FMC1CH2_WDT'', []),
    (''FMC1CH3'', [Wb_Bit ''EN'' 0, Wb_Bit ''POL'' 1, Wb_Bit ''LOG'' 2, Wb_Bit ''ITL'' 3,
      Wb_Field ''SRC'' 4 4, Wb_Bit ''DIR'' 8, Wb_Bit ''COUNT_RST'' 9]),
    (''FMC1CH3_PULSES'', []),
    (''FMC1CH3_COUNT'', []),
    (''FMC1CH3_EVT'', []),
    (''FMC1CH3_DLY'', []),
    (''FMC1CH3_WDT'', [])]"

definition afc_timing_layout5 :: wb_layout where
  "afc_timing_layout5 = [
    (''FMC1CH4'', [Wb_Bit ''EN'' 0, Wb_Bit ''POL'' 1, Wb_Bit ''LOG'' 2, Wb_Bit ''ITL'' 3,
      Wb_Field ''SRC'' 4 4, Wb_Bit ''DIR'' 8, Wb_Bit ''COUNT_RST'' 9]),
    (''FMC1CH4_PULSES'', []),
    (''FMC1CH4_COUNT'', []),
    (''FMC1CH4_EVT'', []),
    (''FMC1CH4_DLY'', []),
    (''FMC1CH4_WDT'', []),
    (''FMC2CH0'', [Wb_Bit ''EN'' 0, Wb_Bit ''POL'' 1, Wb_Bit ''LOG'' 2, Wb_Bit ''ITL'' 3,
      Wb_Field ''SRC'' 4 4, Wb_Bit ''DIR'' 8, Wb_Bit ''COUNT_RST'' 9]),
    (''FMC2CH0_PULSES'', []),
    (''FMC2CH0_COUNT'', []),
    (''FMC2CH0_EVT'', []),
    (''FMC2CH0_DLY'', []),
    (''FMC2CH0_WDT'', []),
    (''FMC2CH1'', [Wb_Bit ''EN'' 0, Wb_Bit ''POL'' 1, Wb_Bit ''LOG'' 2, Wb_Bit ''ITL'' 3,
      Wb_Field ''SRC'' 4 4, Wb_Bit ''DIR'' 8, Wb_Bit ''COUNT_RST'' 9]),
    (''FMC2CH1_PULSES'', []),
    (''FMC2CH1_COUNT'', []),
    (''FMC2CH1_EVT'', []),
    (''FMC2CH1_DLY'', []),
    (''FMC2CH1_WDT'', []),
    (''FMC2CH2'', [Wb_Bit ''EN'' 0, Wb_Bit ''POL'' 1, Wb_Bit ''LOG'' 2, Wb_Bit ''ITL'' 3,
      Wb_Field ''SRC'' 4 4, Wb_Bit ''DIR'' 8, Wb_Bit ''COUNT_RST'' 9]),
    (''FMC2CH2_PULSES'', []),
    (''FMC2CH2_COUNT'', []),
    (''FMC2CH2_EVT'', []),
    (''FMC2CH2_DLY'', []),
    (''FMC2CH2_WDT'', [])]"

definition afc_timing_layout6 :: wb_layout where
  "afc_timing_layout6 = [
    (''FMC2CH3'', [Wb_Bit ''EN'' 0, Wb_Bit ''POL'' 1, Wb_Bit ''LOG'' 2, Wb_Bit ''ITL'' 3,
      Wb_Field ''SRC'' 4 4, Wb_Bit ''DIR'' 8, Wb_Bit ''COUNT_RST'' 9]),
    (''FMC2CH3_PULSES'', []),
    (''FMC2CH3_COUNT'', []),
    (''FMC2CH3_EVT'', []),
    (''FMC2CH3_DLY'', []),
    (''FMC2CH3_WDT'', []),
    (''FMC2CH4'', [Wb_Bit ''EN'' 0, Wb_Bit ''POL'' 1, Wb_Bit ''LOG'' 2, Wb_Bit ''ITL'' 3,
      Wb_Field ''SRC'' 4 4, Wb_Bit ''DIR'' 8, Wb_Bit ''COUNT_RST'' 9]),
    (''FMC2CH4_PULSES'', []),
    (''FMC2CH4_COUNT'', []),
    (''FMC2CH4_EVT'', []),
    (''FMC2CH4_DLY'', []),
    (''FMC2CH4_WDT'', [])]"

definition afc_timing_addrs1 :: wb_addrs where
  "afc_timing_addrs1 = [
    (''STAT'', 0x0), (''ALIVE'', 0x4), (''RTM_RFREQ_HI'', 0x8), (''RTM_RFREQ_LO'', 0xc), (''RTM'', 0x10),
    (''RTM_FREQ'', 0x14), (''RTM_PHASE'', 0x18), (''RTM_MAF'', 0x1c), (''AFC_RFREQ_HI'', 0x20),
    (''AFC_RFREQ_LO'', 0x24), (''AFC'', 0x28), (''AFC_FREQ'', 0x2c), (''AFC_PHASE'', 0x30),
    (''AFC_MAF'', 0x34), (''AMC0'', 0x38), (''AMC0_PULSES'', 0x3c), (''AMC0_COUNT'', 0x40),
    (''AMC0_EVT'', 0x44), (''AMC0_DLY'', 0x48), (''AMC0_WDT'', 0x4c), (''AMC1'', 0x50),
    (''AMC1_PULSES'', 0x54), (''AMC1_COUNT'', 0x58), (''AMC1_EVT'', 0x5c), (''AMC1_DLY'', 0x60),
    (''AMC1_WDT'', 0x64), (''AMC2'', 0x68), (''AMC2_PULSES'', 0x6c), (''AMC2_COUNT'', 0x70),
    (''AMC2_EVT'', 0x74), (''AMC2_DLY'', 0x78), (''AMC2_WDT'', 0x7c), (''AMC3'', 0x80),
    (''AMC3_PULSES'', 0x84), (''AMC3_COUNT'', 0x88), (''AMC3_EVT'', 0x8c), (''AMC3_DLY'', 0x90),
    (''AMC3_WDT'', 0x94), (''AMC4'', 0x98), (''AMC4_PULSES'', 0x9c), (''AMC4_COUNT'', 0xa0),
    (''AMC4_EVT'', 0xa4), (''AMC4_DLY'', 0xa8), (''AMC4_WDT'', 0xac), (''AMC5'', 0xb0),
    (''AMC5_PULSES'', 0xb4), (''AMC5_COUNT'', 0xb8), (''AMC5_EVT'', 0xbc), (''AMC5_DLY'', 0xc0),
    (''AMC5_WDT'', 0xc4), (''AMC6'', 0xc8), (''AMC6_PULSES'', 0xcc), (''AMC6_COUNT'', 0xd0),
    (''AMC6_EVT'', 0xd4), (''AMC6_DLY'', 0xd8), (''AMC6_WDT'', 0xdc), (''AMC7'', 0xe0),
    (''AMC7_PULSES'', 0xe4), (''AMC7_COUNT'', 0xe8), (''AMC7_EVT'', 0xec), (''AMC7_DLY'', 0xf0),
    (''AMC7_WDT'', 0xf4), (''FMC1CH0'', 0xf8), (''FMC1CH0_PULSES'', 0xfc), (''FMC1CH0_COUNT'', 0x100),
    (''FMC1CH0_EVT'', 0x104), (''FMC1CH0_DLY'', 0x108), (''FMC1CH0_WDT'', 0x10c), (''FMC1CH1'', 0x110),
    (''FMC1CH1_PULSES'', 0x114)]"

definition afc_timing_addrs2 :: wb_addrs where
  "afc_timing_addrs2 = [
    (''FMC1CH1_COUNT'', 0x118), (''FMC1CH1_EVT'', 0x11c), (''FMC1CH1_DLY'', 0x120), (''FMC1CH1_WDT'', 0x124),
    (''FMC1CH2'', 0x128), (''FMC1CH2_PULSES'', 0x12c), (''FMC1CH2_COUNT'', 0x130), (''FMC1CH2_EVT'', 0x134),
    (''FMC1CH2_DLY'', 0x138), (''FMC1CH2_WDT'', 0x13c), (''FMC1CH3'', 0x140), (''FMC1CH3_PULSES'', 0x144),
    (''FMC1CH3_COUNT'', 0x148), (''FMC1CH3_EVT'', 0x14c), (''FMC1CH3_DLY'', 0x150), (''FMC1CH3_WDT'', 0x154),
    (''FMC1CH4'', 0x158), (''FMC1CH4_PULSES'', 0x15c), (''FMC1CH4_COUNT'', 0x160), (''FMC1CH4_EVT'', 0x164),
    (''FMC1CH4_DLY'', 0x168), (''FMC1CH4_WDT'', 0x16c), (''FMC2CH0'', 0x170), (''FMC2CH0_PULSES'', 0x174),
    (''FMC2CH0_COUNT'', 0x178), (''FMC2CH0_EVT'', 0x17c), (''FMC2CH0_DLY'', 0x180), (''FMC2CH0_WDT'', 0x184),
    (''FMC2CH1'', 0x188), (''FMC2CH1_PULSES'', 0x18c), (''FMC2CH1_COUNT'', 0x190), (''FMC2CH1_EVT'', 0x194),
    (''FMC2CH1_DLY'', 0x198), (''FMC2CH1_WDT'', 0x19c), (''FMC2CH2'', 0x1a0), (''FMC2CH2_PULSES'', 0x1a4),
    (''FMC2CH2_COUNT'', 0x1a8), (''FMC2CH2_EVT'', 0x1ac), (''FMC2CH2_DLY'', 0x1b0), (''FMC2CH2_WDT'', 0x1b4),
    (''FMC2CH3'', 0x1b8), (''FMC2CH3_PULSES'', 0x1bc), (''FMC2CH3_COUNT'', 0x1c0), (''FMC2CH3_EVT'', 0x1c4),
    (''FMC2CH3_DLY'', 0x1c8), (''FMC2CH3_WDT'', 0x1cc), (''FMC2CH4'', 0x1d0), (''FMC2CH4_PULSES'', 0x1d4),
    (''FMC2CH4_COUNT'', 0x1d8), (''FMC2CH4_EVT'', 0x1dc), (''FMC2CH4_DLY'', 0x1e0), (''FMC2CH4_WDT'', 0x1e4)]"

section \<open>include/hw/wb_tim_rcv_core_regs.h\<close>

definition tim_rcv_layout1 :: wb_layout where
  "tim_rcv_layout1 = [
    (''PHASE_MEAS_NAVG'', []),
    (''DMTD_A_CTL'', [Wb_Field ''DEGLITCHER_THRES'' 0 16, Wb_Field ''RESERVED1'' 16 16]),
    (''DMTD_B_CTL'', [Wb_Field ''DEGLITCHER_THRES'' 0 16, Wb_Field ''RESERVED1'' 16 16]),
    (''PHASE_MEAS'', []),
    (''F_DMTD_A'', [Wb_Field ''FREQ'' 0 28, Wb_Bit ''VALID'' 28]),
    (''F_DMTD_B'', [Wb_Field ''FREQ'' 0 28, Wb_Bit ''VALID'' 28])]"

definition tim_rcv_addrs1 :: wb_addrs where
  "tim_rcv_addrs1 = [
    (''PHASE_MEAS_NAVG'', 0x0), (''DMTD_A_CTL'', 0x4), (''DMTD_B_CTL'', 0x8), (''PHASE_MEAS'', 0xc),
    (''F_DMTD_A'', 0x10), (''F_DMTD_B'', 0x14)]"

lemmas afc_timing_map_defs = afc_timing_layout1_def
  afc_timing_layout2_def
  afc_timing_layout3_def
  afc_timing_layout4_def
  afc_timing_layout5_def
  afc_timing_layout6_def
  afc_timing_addrs1_def
  afc_timing_addrs2_def

lemmas tim_rcv_map_defs = tim_rcv_layout1_def
  tim_rcv_addrs1_def

end
