(* ===== verification/Regs_Acq.thy ===== *)
theory Regs_Acq
  imports Wb_Map
begin

text \<open>The registers of the acquisition core and of the position calculation.
  The tables follow the headers under include/hw line by line: the fields of each register, then the
  addresses.\<close>

section \<open>include/hw/wb_acq_core_regs.h\<close>

definition acq_core_layout1 :: wb_layout where
  "acq_core_layout1 = [
    (''CTL'', [Wb_Bit ''FSM_START_ACQ'' 0, Wb_Bit ''FSM_STOP_ACQ'' 1, Wb_Field ''RESERVED1'' 2 14,
      Wb_Bit ''FSM_ACQ_NOW'' 16, Wb_Field ''RESERVED2'' 17 15]),
    (''STA'', [Wb_Field ''FSM_STATE'' 0 3, Wb_Bit ''FSM_ACQ_DONE'' 3, Wb_Field ''RESERVED1'' 4 4,
      Wb_Bit ''FC_TRANS_DONE'' 8, Wb_Bit ''FC_FULL'' 9, Wb_Field ''RESERVED2'' 10 6,
      Wb_Bit ''DDR3_TRANS_DONE'' 16, Wb_Field ''RESERVED3'' 17 15]),
    (''TRIG_CFG'', [Wb_Bit ''HW_TRIG_SEL'' 0, Wb_Bit ''HW_TRIG_POL'' 1, Wb_Bit ''HW_TRIG_EN'' 2,
      Wb_Bit ''SW_TRIG_EN'' 3, Wb_Field ''INT_TRIG_SEL'' 4 5, Wb_Field ''RESERVED'' 9 23]),
    (''TRIG_DATA_CFG'', [Wb_Field ''THRES_FILT'' 0 8, Wb_Field ''RESERVED'' 8 24]),
    (''TRIG_DATA_THRES'', []),
    (''TRIG_DLY'', []),
    (''SW_TRIG'', []),
    (''SHOTS'', [Wb_Field ''NB'' 0 16, Wb_Bit ''MULTISHOT_RAM_SIZE_IMPL'' 16,
      Wb_Field ''MULTISHOT_RAM_SIZE'' 17 15]),
    (''TRIG_POS'', []),
    (''PRE_SAMPLES'', []),
    (''POST_SAMPLES'', []),
    (''SAMPLES_CNT'', []),
    (''DDR3_START_ADDR'', []),
    (''DDR3_END_ADDR'', [])]"

definition acq_core_layout2 :: wb_layout where
  "acq_core_layout2 = [
    (''ACQ_CHAN_CTL'', [Wb_Field ''WHICH'' 0 5, Wb_Field ''RESERVED'' 5 3, Wb_Field ''DTRIG_WHICH'' 8 5,
      Wb_Field ''RESERVED1'' 13 3, Wb_Field ''NUM_CHAN'' 16 5, Wb_Field ''RESERVED2'' 21 11]),
    (''CH0_DESC'', [Wb_Field ''INT_WIDTH'' 0 16, Wb_Field ''NUM_COALESCE'' 16 16]),
    (''CH0_ATOM_DESC'', [Wb_Field ''NUM_ATOMS'' 0 16, Wb_Field ''ATOM_WIDTH'' 16 16]),
    (''CH1_DESC'', [Wb_Field ''INT_WIDTH'' 0 16, Wb_Field ''NUM_COALESCE'' 16 16]),
    (''CH1_ATOM_DESC'', [Wb_Field ''NUM_ATOMS'' 0 16, Wb_Field ''ATOM_WIDTH'' 16 16]),
    (''CH2_DESC'', [Wb_Field ''INT_WIDTH'' 0 16, Wb_Field ''NUM_COALESCE'' 16 16]),
    (''CH2_ATOM_DESC'', [Wb_Field ''NUM_ATOMS'' 0 16, Wb_Field ''ATOM_WIDTH'' 16 16]),
    (''CH3_DESC'', [Wb_Field ''INT_WIDTH'' 0 16, Wb_Field ''NUM_COALESCE'' 16 16])]"

definition acq_core_layout3 :: wb_layout where
  "acq_core_layout3 = [
    (''CH3_ATOM_DESC'', [Wb_Field ''NUM_ATOMS'' 0 16, Wb_Field ''ATOM_WIDTH'' 16 16]),
    (''CH4_DESC'', [Wb_Field ''INT_WIDTH'' 0 16, Wb_Field ''NUM_COALESCE'' 16 16]),
    (''CH4_ATOM_DESC'', [Wb_Field ''NUM_ATOMS'' 0 16, Wb_Field ''ATOM_WIDTH'' 16 16]),
    (''CH5_DESC'', [Wb_Field ''INT_WIDTH'' 0 16, Wb_Field ''NUM_COALESCE'' 16 16]),
    (''CH5_ATOM_DESC'', [Wb_Field ''NUM_ATOMS'' 0 16, Wb_Field ''ATOM_WIDTH'' 16 16]),
    (''CH6_DESC'', [Wb_Field ''INT_WIDTH'' 0 16, Wb_Field ''NUM_COALESCE'' 16 16]),
    (''CH6_ATOM_DESC'', [Wb_Field ''NUM_ATOMS'' 0 16, Wb_Field ''ATOM_WIDTH'' 16 16]),
    (''CH7_DESC'', [Wb_Field ''INT_WIDTH'' 0 16, Wb_Field ''NUM_COALESCE'' 16 16]),
    (''CH7_ATOM_DESC'', [Wb_Field ''NUM_ATOMS'' 0 16, Wb_Field ''ATOM_WIDTH'' 16 16]),
    (''CH8_DESC'', [Wb_Field ''INT_WIDTH'' 0 16, Wb_Field ''NUM_COALESCE'' 16 16])]"

definition acq_core_layout4 :: wb_layout where
  "acq_core_layout4 = [
    (''CH8_ATOM_DESC'', [Wb_Field ''NUM_ATOMS'' 0 16, Wb_Field ''ATOM_WIDTH'' 16 16]),
    (''CH9_DESC'', [Wb_Field ''INT_WIDTH'' 0 16, Wb_Field ''NUM_COALESCE'' 16 16]),
    (''CH9_ATOM_DESC'', [Wb_Field ''NUM_ATOMS'' 0 16, Wb_Field ''ATOM_WIDTH'' 16 16]),
    (''CH10_DESC'', [Wb_Field ''INT_WIDTH'' 0 16, Wb_Field ''NUM_COALESCE'' 16 16]),
    (''CH10_ATOM_DESC'', [Wb_Field ''NUM_ATOMS'' 0 16, Wb_Field ''ATOM_WIDTH'' 16 16]),
    (''CH11_DESC'', [Wb_Field ''INT_WIDTH'' 0 16, Wb_Field ''NUM_COALESCE'' 16 16]),
    (''CH11_ATOM_DESC'', [Wb_Field ''NUM_ATOMS'' 0 16, Wb_Field ''ATOM_WIDTH'' 16 16]),
    (''CH12_DESC'', [Wb_Field ''INT_WIDTH'' 0 16, Wb_Field ''NUM_COALESCE'' 16 16]),
    (''CH12_ATOM_DESC'', [Wb_Field ''NUM_ATOMS'' 0 16, Wb_Field ''ATOM_WIDTH'' 16 16]),
    (''CH13_DESC'', [Wb_Field ''INT_WIDTH'' 0 16, Wb_Field ''NUM_COALESCE'' 16 16])]"

definition acq_core_layout5 :: wb_layout where
  "acq_core_layout5 = [
    (''CH13_ATOM_DESC'', [Wb_Field ''NUM_ATOMS'' 0 16, Wb_Field ''ATOM_WIDTH'' 16 16]),
    (''CH14_DESC'', [Wb_Field ''INT_WIDTH'' 0 16, Wb_Field ''NUM_COALESCE'' 16 16]),
    (''CH14_ATOM_DESC'', [Wb_Field ''NUM_ATOMS'' 0 16, Wb_Field ''ATOM_WIDTH'' 16 16]),
    (''CH15_DESC'', [Wb_Field ''INT_WIDTH'' 0 16, Wb_Field ''NUM_COALESCE'' 16 16]),
    (''CH15_ATOM_DESC'', [Wb_Field ''NUM_ATOMS'' 0 16, Wb_Field ''ATOM_WIDTH'' 16 16]),
    (''CH16_DESC'', [Wb_Field ''INT_WIDTH'' 0 16, Wb_Field ''NUM_COALESCE'' 16 16]),
    (''CH16_ATOM_DESC'', [Wb_Field ''NUM_ATOMS'' 0 16, Wb_Field ''ATOM_WIDTH'' 16 16]),
    (''CH17_DESC'', [Wb_Field ''INT_WIDTH'' 0 16, Wb_Field ''NUM_COALESCE'' 16 16]),
    (''CH17_ATOM_DESC'', [Wb_Field ''NUM_ATOMS'' 0 16, Wb_Field ''ATOM_WIDTH'' 16 16]),
    (''CH18_DESC'', [Wb_Field ''INT_WIDTH'' 0 16, Wb_Field ''NUM_COALESCE'' 16 16])]"

definition acq_core_layout6 :: wb_layout where
  "acq_core_layout6 = [
    (''CH18_ATOM_DESC'', [Wb_Field ''NUM_ATOMS'' 0 16, Wb_Field ''ATOM_WIDTH'' 16 16]),
    (''CH19_DESC'', [Wb_Field ''INT_WIDTH'' 0 16, Wb_Field ''NUM_COALESCE'' 16 16]),
    (''CH19_ATOM_DESC'', [Wb_Field ''NUM_ATOMS'' 0 16, Wb_Field ''ATOM_WIDTH'' 16 16]),
    (''CH20_DESC'', [Wb_Field ''INT_WIDTH'' 0 16, Wb_Field ''NUM_COALESCE'' 16 16]),
    (''CH20_ATOM_DESC'', [Wb_Field ''NUM_ATOMS'' 0 16, Wb_Field ''ATOM_WIDTH'' 16 16]),
    (''CH21_DESC'', [Wb_Field ''INT_WIDTH'' 0 16, Wb_Field ''NUM_COALESCE'' 16 16]),
    (''CH21_ATOM_DESC'', [Wb_Field ''NUM_ATOMS'' 0 16, Wb_Field ''ATOM_WIDTH'' 16 16]),
    (''CH22_DESC'', [Wb_Field ''INT_WIDTH'' 0 16, Wb_Field ''NUM_COALESCE'' 16 16]),
    (''CH22_ATOM_DESC'', [Wb_Field ''NUM_ATOMS'' 0 16, Wb_Field ''ATOM_WIDTH'' 16 16]),
    (''CH23_DESC'', [Wb_Field ''INT_WIDTH'' 0 16, Wb_Field ''NUM_COALESCE'' 16 16])]"

definition acq_core_layout7 :: wb_layout where
  "acq_core_layout7 = [
    (''CH23_ATOM_DESC'', [Wb_Field ''NUM_ATOMS'' 0 16, Wb_Field ''ATOM_WIDTH'' 16 16])]"

definition acq_core_addrs1 :: wb_addrs where
  "acq_core_addrs1 = [
    (''CTL'', 0x0), (''STA'', 0x4), (''TRIG_CFG'', 0x8), (''TRIG_DATA_CFG'', 0xc),
    (''TRIG_DATA_THRES'', 0x10), (''TRIG_DLY'', 0x14), (''SW_TRIG'', 0x18), (''SHOTS'', 0x1c),
    (''TRIG_POS'', 0x20), (''PRE_SAMPLES'', 0x24), (''POST_SAMPLES'', 0x28), (''SAMPLES_CNT'', 0x2c),
    (''DDR3_START_ADDR'', 0x30), (''DDR3_END_ADDR'', 0x34), (''ACQ_CHAN_CTL'', 0x38), (''CH0_DESC'', 0x3c),
    (''CH0_ATOM_DESC'', 0x40), (''CH1_DESC'', 0x44), (''CH1_ATOM_DESC'', 0x48), (''CH2_DESC'', 0x4c),
    (''CH2_ATOM_DESC'', 0x50), (''CH3_DESC'', 0x54), (''CH3_ATOM_DESC'', 0x58), (''CH4_DESC'', 0x5c),
    (''CH4_ATOM_DESC'', 0x60), (''CH5_DESC'', 0x64), (''CH5_ATOM_DESC'', 0x68), (''CH6_DESC'', 0x6c),
    (''CH6_ATOM_DESC'', 0x70), (''CH7_DESC'', 0x74), (''CH7_ATOM_DESC'', 0x78), (''CH8_DESC'', 0x7c),
    (''CH8_ATOM_DESC'', 0x80), (''CH9_DESC'', 0x84), (''CH9_ATOM_DESC'', 0x88), (''CH10_DESC'', 0x8c),
    (''CH10_ATOM_DESC'', 0x90), (''CH11_DESC'', 0x94), (''CH11_ATOM_DESC'', 0x98), (''CH12_DESC'', 0x9c),
    (''CH12_ATOM_DESC'', 0xa0), (''CH13_DESC'', 0xa4), (''CH13_ATOM_DESC'', 0xa8), (''CH14_DESC'', 0xac),
    (''CH14_ATOM_DESC'', 0xb0), (''CH15_DESC'', 0xb4), (''CH15_ATOM_DESC'', 0xb8), (''CH16_DESC'', 0xbc),
    (''CH16_ATOM_DESC'', 0xc0), (''CH17_DESC'', 0xc4), (''CH17_ATOM_DESC'', 0xc8), (''CH18_DESC'', 0xcc),
    (''CH18_ATOM_DESC'', 0xd0), (''CH19_DESC'', 0xd4), (''CH19_ATOM_DESC'', 0xd8), (''CH20_DESC'', 0xdc),
    (''CH20_ATOM_DESC'', 0xe0), (''CH21_DESC'', 0xe4), (''CH21_ATOM_DESC'', 0xe8), (''CH22_DESC'', 0xec),
    (''CH22_ATOM_DESC'', 0xf0), (''CH23_DESC'', 0xf4), (''CH23_ATOM_DESC'', 0xf8)]"

section \<open>include/hw/wb_pos_calc_regs.h\<close>

definition pos_calc_layout1 :: wb_layout where
  "pos_calc_layout1 = [
    (''DS_TBT_THRES'', [Wb_Field ''VAL'' 0 26, Wb_Field ''RESERVED'' 26 6]),
    (''DS_FOFB_THRES'', [Wb_Field ''VAL'' 0 26, Wb_Field ''RESERVED'' 26 6]),
    (''DS_MONIT_THRES'', [Wb_Field ''VAL'' 0 26, Wb_Field ''RESERVED'' 26 6]),
    (''KX'', [Wb_Field ''VAL'' 0 25, Wb_Field ''RESERVED'' 25 7]),
    (''KY'', [Wb_Field ''VAL'' 0 25, Wb_Field ''RESERVED'' 25 7]),
    (''KSUM'', [Wb_Field ''VAL'' 0 25, Wb_Field ''RESERVED'' 25 7]),
    (''DSP_CTNR_TBT'', [Wb_Field ''CH01'' 0 16, Wb_Field ''CH23'' 16 16]),
    (''DSP_CTNR_FOFB'', [Wb_Field ''CH01'' 0 16, Wb_Field ''CH23'' 16 16]),
    (''DSP_CTNR1_MONIT'', [Wb_Field ''CIC'' 0 16, Wb_Field ''CFIR'' 16 16]),
    (''DSP_CTNR2_MONIT'', [Wb_Field ''PFIR'' 0 16, Wb_Field ''FIR_01'' 16 16])]"

definition pos_calc_layout2 :: wb_layout where
  "pos_calc_layout2 = [
    (''DSP_ERR_CLR'', [Wb_Bit ''TBT'' 0, Wb_Bit ''FOFB'' 1, Wb_Bit ''MONIT_PART1'' 2,
      Wb_Bit ''MONIT_PART2'' 3]),
    (''DDS_CFG'', [Wb_Bit ''VALID_CH0'' 0, Wb_Bit ''TEST_DATA'' 1, Wb_Field ''RESERVED_CH0'' 2 6,
      Wb_Bit ''VALID_CH1'' 8, Wb_Field ''RESERVED_CH1'' 9 7, Wb_Bit ''VALID_CH2'' 16,
      Wb_Field ''RESERVED_CH2'' 17 7, Wb_Bit ''VALID_CH3'' 24, Wb_Field ''RESERVED_CH3'' 25 7]),
    (''DDS_PINC_CH0'', [Wb_Field ''VAL'' 0 30, Wb_Field ''RESERVED'' 30 2]),
    (''DDS_PINC_CH1'', [Wb_Field ''VAL'' 0 30, Wb_Field ''RESERVED'' 30 2]),
    (''DDS_PINC_CH2'', [Wb_Field ''VAL'' 0 30, Wb_Field ''RESERVED'' 30 2]),
    (''DDS_PINC_CH3'', [Wb_Field ''VAL'' 0 30, Wb_Field ''RESERVED'' 30 2]),
    (''DDS_POFF_CH0'', [Wb_Field ''VAL'' 0 30, Wb_Field ''RESERVED'' 30 2]),
    (''DDS_POFF_CH1'', [Wb_Field ''VAL'' 0 30, Wb_Field ''RESERVED'' 30 2])]"

definition pos_calc_layout3 :: wb_layout where
  "pos_calc_layout3 = [
    (''DDS_POFF_CH2'', [Wb_Field ''VAL'' 0 30, Wb_Field ''RESERVED'' 30 2]),
    (''DDS_POFF_CH3'', [Wb_Field ''VAL'' 0 30, Wb_Field ''RESERVED'' 30 2]),
    (''DSP_MONIT_AMP_CH0'', []),
    (''DSP_MONIT_AMP_CH1'', []),
    (''DSP_MONIT_AMP_CH2'', []),
    (''DSP_MONIT_AMP_CH3'', []),
    (''DSP_MONIT_POS_X'', []),
    (''DSP_MONIT_POS_Y'', []),
    (''DSP_MONIT_POS_Q'', []),
    (''DSP_MONIT_POS_SUM'', []),
    (''DSP_MONIT_UPDT'', []),
    (''DSP_MONIT1_AMP_CH0'', []),
    (''DSP_MONIT1_AMP_CH1'', []),
    (''DSP_MONIT1_AMP_CH2'', []),
    (''DSP_MONIT1_AMP_CH3'', []),
    (''DSP_MONIT1_POS_X'', []),
    (''DSP_MONIT1_POS_Y'', []),
    (''DSP_MONIT1_POS_Q'', []),
    (''DSP_MONIT1_POS_SUM'', []),
    (''DSP_MONIT1_UPDT'', []),
    (''AMPFIFO_MONIT_R0'', [Wb_Field ''AMP_CH0'' 0 32]),
    (''AMPFIFO_MONIT_R1'', [Wb_Field ''AMP_CH1'' 0 32]),
    (''AMPFIFO_MONIT_R2'', [Wb_Field ''AMP_CH2'' 0 32]),
    (''AMPFIFO_MONIT_R3'', [Wb_Field ''AMP_CH3'' 0 32]),
    (''AMPFIFO_MONIT_CSR'', [Wb_Bit ''FULL'' 16, Wb_Bit ''EMPTY'' 17, Wb_Field ''USEDW'' 0 4]),
    (''POSFIFO_MONIT_R0'', [Wb_Field ''POS_X'' 0 32]),
    (''POSFIFO_MONIT_R1'', [Wb_Field ''POS_Y'' 0 32]),
    (''POSFIFO_MONIT_R2'', [Wb_Field ''POS_Q'' 0 32]),
    (''POSFIFO_MONIT_R3'', [Wb_Field ''POS_SUM'' 0 32])]"

definition pos_calc_layout4 :: wb_layout where
  "pos_calc_layout4 = [
    (''POSFIFO_MONIT_CSR'', [Wb_Bit ''FULL'' 16, Wb_Bit ''EMPTY'' 17, Wb_Field ''USEDW'' 0 4]),
    (''AMPFIFO_MONIT1_R0'', [Wb_Field ''AMP_CH0'' 0 32]),
    (''AMPFIFO_MONIT1_R1'', [Wb_Field ''AMP_CH1'' 0 32]),
    (''AMPFIFO_MONIT1_R2'', [Wb_Field ''AMP_CH2'' 0 32]),
    (''AMPFIFO_MONIT1_R3'', [Wb_Field ''AMP_CH3'' 0 32]),
    (''AMPFIFO_MONIT1_CSR'', [Wb_Bit ''FULL'' 16, Wb_Bit ''EMPTY'' 17, Wb_Field ''USEDW'' 0 4]),
    (''POSFIFO_MONIT1_R0'', [Wb_Field ''POS_X'' 0 32]),
    (''POSFIFO_MONIT1_R1'', [Wb_Field ''POS_Y'' 0 32]),
    (''POSFIFO_MONIT1_R2'', [Wb_Field ''POS_Q'' 0 32]),
    (''POSFIFO_MONIT1_R3'', [Wb_Field ''POS_SUM'' 0 32]),
    (''POSFIFO_MONIT1_CSR'', [Wb_Bit ''FULL'' 16, Wb_Bit ''EMPTY'' 17, Wb_Field ''USEDW'' 0 4]),
    (''SW_TAG'', [Wb_Bit ''EN'' 0, Wb_Bit ''DESYNC_CNT_RST'' 8, Wb_Field ''DESYNC_CNT'' 9 14]),
    (''SW_DATA_MASK'', [Wb_Bit ''EN'' 0, Wb_Field ''SAMPLES'' 1 16])]"

definition pos_calc_layout5 :: wb_layout where
  "pos_calc_layout5 = [
    (''TBT_TAG'', [Wb_Bit ''EN'' 0, Wb_Field ''DLY'' 1 16, Wb_Bit ''DESYNC_CNT_RST'' 17,
      Wb_Field ''DESYNC_CNT'' 18 14]),
    (''TBT_DATA_MASK_CTL'', [Wb_Bit ''EN'' 0]),
    (''TBT_DATA_MASK_SAMPLES'', [Wb_Field ''BEG'' 0 16, Wb_Field ''END'' 16 16]),
    (''MONIT1_TAG'', [Wb_Bit ''EN'' 0, Wb_Field ''DLY'' 1 16, Wb_Bit ''DESYNC_CNT_RST'' 17,
      Wb_Field ''DESYNC_CNT'' 18 14]),
    (''MONIT1_DATA_MASK_CTL'', [Wb_Bit ''EN'' 0]),
    (''MONIT1_DATA_MASK_SAMPLES'', [Wb_Field ''BEG'' 0 16, Wb_Field ''END'' 16 16]),
    (''MONIT_TAG'', [Wb_Bit ''EN'' 0, Wb_Field ''DLY'' 1 16, Wb_Bit ''DESYNC_CNT_RST'' 17,
      Wb_Field ''DESYNC_CNT'' 18 14]),
    (''MONIT_DATA_MASK_CTL'', [Wb_Bit ''EN'' 0]),
    (''MONIT_DATA_MASK_SAMPLES'', [Wb_Field ''BEG'' 0 16, Wb_Field ''END'' 16 16])]"

definition pos_calc_addrs1 :: wb_addrs where
  "pos_calc_addrs1 = [
    (''DS_TBT_THRES'', 0x0), (''DS_FOFB_THRES'', 0x4), (''DS_MONIT_THRES'', 0x8), (''KX'', 0xc),
    (''KY'', 0x10), (''KSUM'', 0x14), (''DSP_CTNR_TBT'', 0x18), (''DSP_CTNR_FOFB'', 0x1c),
    (''DSP_CTNR1_MONIT'', 0x20), (''DSP_CTNR2_MONIT'', 0x24), (''DSP_ERR_CLR'', 0x28), (''DDS_CFG'', 0x2c),
    (''DDS_PINC_CH0'', 0x30), (''DDS_PINC_CH1'', 0x34), (''DDS_PINC_CH2'', 0x38), (''DDS_PINC_CH3'', 0x3c),
    (''DDS_POFF_CH0'', 0x40), (''DDS_POFF_CH1'', 0x44), (''DDS_POFF_CH2'', 0x48), (''DDS_POFF_CH3'', 0x4c),
    (''DSP_MONIT_AMP_CH0'', 0x50), (''DSP_MONIT_AMP_CH1'', 0x54), (''DSP_MONIT_AMP_CH2'', 0x58),
    (''DSP_MONIT_AMP_CH3'', 0x5c), (''DSP_MONIT_POS_X'', 0x60), (''DSP_MONIT_POS_Y'', 0x64),
    (''DSP_MONIT_POS_Q'', 0x68), (''DSP_MONIT_POS_SUM'', 0x6c), (''DSP_MONIT_UPDT'', 0x70),
    (''DSP_MONIT1_AMP_CH0'', 0x74), (''DSP_MONIT1_AMP_CH1'', 0x78), (''DSP_MONIT1_AMP_CH2'', 0x7c),
    (''DSP_MONIT1_AMP_CH3'', 0x80), (''DSP_MONIT1_POS_X'', 0x84), (''DSP_MONIT1_POS_Y'', 0x88),
    (''DSP_MONIT1_POS_Q'', 0x8c), (''DSP_MONIT1_POS_SUM'', 0x90), (''DSP_MONIT1_UPDT'', 0x94),
    (''AMPFIFO_MONIT_R0'', 0x98), (''AMPFIFO_MONIT_R1'', 0x9c), (''AMPFIFO_MONIT_R2'', 0xa0),
    (''AMPFIFO_MONIT_R3'', 0xa4), (''AMPFIFO_MONIT_CSR'', 0xa8), (''POSFIFO_MONIT_R0'', 0xac),
    (''POSFIFO_MONIT_R1'', 0xb0), (''POSFIFO_MONIT_R2'', 0xb4), (''POSFIFO_MONIT_R3'', 0xb8),
    (''POSFIFO_MONIT_CSR'', 0xbc), (''AMPFIFO_MONIT1_R0'', 0xc0), (''AMPFIFO_MONIT1_R1'', 0xc4),
    (''AMPFIFO_MONIT1_R2'', 0xc8), (''AMPFIFO_MONIT1_R3'', 0xcc), (''AMPFIFO_MONIT1_CSR'', 0xd0),
    (''POSFIFO_MONIT1_R0'', 0xd4), (''POSFIFO_MONIT1_R1'', 0xd8), (''POSFIFO_MONIT1_R2'', 0xdc),
    (''POSFIFO_MONIT1_R3'', 0xe0), (''POSFIFO_MONIT1_CSR'', 0xe4), (''SW_TAG'', 0xe8),
    (''SW_DATA_MASK'', 0xec), (''TBT_TAG'', 0xf0), (''TBT_DATA_MASK_CTL'', 0xf4),
    (''TBT_DATA_MASK_SAMPLES'', 0xf8), (''MONIT1_TAG'', 0xfc), (''MONIT1_DATA_MASK_CTL'', 0x100),
    (''MONIT1_DATA_MASK_SAMPLES'', 0x104), (''MONIT_TAG'', 0x108), (''MONIT_DATA_MASK_CTL'', 0x10c),
    (''MONIT_DATA_MASK_SAMPLES'', 0x110), (''OFFSET_X'', 0x114)]"

definition pos_calc_addrs2 :: wb_addrs where
  "pos_calc_addrs2 = [
    (''OFFSET_Y'', 0x118)]"

lemmas acq_core_map_defs = acq_core_layout1_def
  acq_core_layout2_def
  acq_core_layout3_def
  acq_core_layout4_def
  acq_core_layout5_def
  acq_core_layout6_def
  acq_core_layout7_def
  acq_core_addrs1_def

lemmas pos_calc_map_defs = pos_calc_layout1_def
  pos_calc_layout2_def
  pos_calc_layout3_def
  pos_calc_layout4_def
  pos_calc_layout5_def
  pos_calc_addrs1_def
  pos_calc_addrs2_def

end
