(* ===== verification/Regs_Fmc.thy ===== *)
theory Regs_Fmc
  imports Wb_Map
begin

text \<open>The registers of the orbit interlock, the switching, the ADC boards and the carrier.
  The tables follow the headers under include/hw line by line: the fields of each register, then the
  addresses.\<close>

section \<open>include/hw/wb_orbit_intlk_regs.h\<close>

definition orbit_intlk_layout1 :: wb_layout where
  "orbit_intlk_layout1 = [
    (''CTRL'', [Wb_Bit ''EN'' 0, Wb_Bit ''CLR'' 1, Wb_Bit ''MIN_SUM_EN'' 2, Wb_Bit ''TRANS_EN'' 3,
      Wb_Bit ''TRANS_CLR'' 4, Wb_Bit ''ANG_EN'' 5, Wb_Bit ''ANG_CLR'' 6, Wb_Field ''RESERVED'' 7 24]),
    (''STS'', [Wb_Bit ''TRANS_BIGGER_X'' 0, Wb_Bit ''TRANS_BIGGER_Y'' 1, Wb_Bit ''TRANS_BIGGER_LTC_X'' 2,
      Wb_Bit ''TRANS_BIGGER_LTC_Y'' 3, Wb_Bit ''TRANS_BIGGER_ANY'' 4, Wb_Bit ''TRANS_BIGGER'' 5,
      Wb_Bit ''TRANS_BIGGER_LTC'' 6, Wb_Bit ''ANG_BIGGER_X'' 7, Wb_Bit ''ANG_BIGGER_Y'' 8,
      Wb_Bit ''ANG_BIGGER_LTC_X'' 9, Wb_Bit ''ANG_BIGGER_LTC_Y'' 10, Wb_Bit ''ANG_BIGGER_ANY'' 11,
      Wb_Bit ''ANG_BIGGER'' 12, Wb_Bit ''ANG_BIGGER_LTC'' 13, Wb_Bit ''INTLK'' 14, Wb_Bit ''INTLK_LTC'' 15,
      Wb_Bit ''TRANS_SMALLER_X'' 16, Wb_Bit ''TRANS_SMALLER_Y'' 17, Wb_Bit ''TRANS_SMALLER_LTC_X'' 18,
      Wb_Bit ''TRANS_SMALLER_LTC_Y'' 19, Wb_Bit ''TRANS_SMALLER_ANY'' 20, Wb_Bit ''TRANS_SMALLER'' 21,
      Wb_Bit ''TRANS_SMALLER_LTC'' 22, Wb_Bit ''ANG_SMALLER_X'' 23, Wb_Bit ''ANG_SMALLER_Y'' 24,
      Wb_Bit ''ANG_SMALLER_LTC_X'' 25, Wb_Bit ''ANG_SMALLER_LTC_Y'' 26, Wb_Bit ''ANG_SMALLER_ANY'' 27,
      Wb_Bit ''ANG_SMALLER'' 28, Wb_Bit ''ANG_SMALLER_LTC'' 29, Wb_Field ''RESERVED'' 30 2]),
    (''MIN_SUM'', []),
    (''TRANS_MAX_X'', []),
    (''TRANS_MAX_Y'', []),
    (''ANG_MAX_X'', []),
    (''ANG_MAX_Y'', []),
    (''TRANS_MIN_X'', []),
    (''TRANS_MIN_Y'', []),
    (''ANG_MIN_X'', []),
    (''ANG_MIN_Y'', [])]"

definition orbit_intlk_addrs1 :: wb_addrs where
  "orbit_intlk_addrs1 = [
    (''CTRL'', 0x0), (''STS'', 0x4), (''MIN_SUM'', 0x8), (''TRANS_MAX_X'', 0xc), (''TRANS_MAX_Y'', 0x10),
    (''ANG_MAX_X'', 0x14), (''ANG_MAX_Y'', 0x18), (''TRANS_MIN_X'', 0x1c), (''TRANS_MIN_Y'', 0x20),
    (''ANG_MIN_X'', 0x24), (''ANG_MIN_Y'', 0x28)]"

section \<open>include/hw/wb_bpm_swap_regs.h\<close>

definition bpm_swap_layout1 :: wb_layout where
  "bpm_swap_layout1 = [
    (''CTRL'', [Wb_Bit ''RST'' 0, Wb_Field ''MODE'' 1 2, Wb_Field ''RESERVED'' 3 2,
      Wb_Field ''SWAP_DIV_F'' 8 16]),
    (''DLY'', [Wb_Field ''DESWAP'' 0 16, Wb_Field ''RESERVED'' 16 16])]"

definition bpm_swap_addrs1 :: wb_addrs where
  "bpm_swap_addrs1 = [
    (''CTRL'', 0x0), (''DLY'', 0x4)]"

section \<open>include/hw/wb_fmc250m_4ch_regs.h\<close>

definition fmc250m_layout1 :: wb_layout where
  "fmc250m_layout1 = [
    (''ADC_STA'', [Wb_Field ''CLK_CHAINS'' 0 4, Wb_Field ''RESERVED_CLK_CHAINS'' 4 4,
      Wb_Field ''DATA_CHAINS'' 8 4, Wb_Field ''RESERVED_DATA_CHAINS'' 12 4,
      Wb_Field ''ADC_PKT_SIZE'' 16 16]),
    (''ADC_CTL'', [Wb_Bit ''UPDATE_CLK_DLY'' 0, Wb_Bit ''UPDATE_DATA_DLY'' 1, Wb_Bit ''RST_ADCS'' 2,
      Wb_Bit ''RST_DIV_ADCS'' 3, Wb_Bit ''SLEEP_ADCS'' 4, Wb_Field ''RESERVED'' 5 27]),
    (''CH0_STA'', [Wb_Field ''VAL'' 0 16, Wb_Field ''RESERVED'' 16 16]),
    (''CH0_FN_DLY'', [Wb_Field ''CLK_CHAIN_DLY'' 0 5, Wb_Field ''RESERVED_CLK_CHAIN_DLY'' 5 3,
      Wb_Field ''DATA_CHAIN_DLY'' 8 5, Wb_Field ''RESERVED_DATA_CHAIN_DLY'' 13 3,
      Wb_Bit ''INC_CLK_CHAIN_DLY'' 16, Wb_Bit ''DEC_CLK_CHAIN_DLY'' 17,
      Wb_Field ''RESERVED_CLK_INCDEC_DLY'' 18 6, Wb_Bit ''INC_DATA_CHAIN_DLY'' 24,
      Wb_Bit ''DEC_DATA_CHAIN_DLY'' 25, Wb_Field ''RESERVED_DATA_INCDEC_DLY'' 26 6]),
    (''CH0_FN_SEL'', [Wb_Field ''LINE'' 0 17, Wb_Field ''RESERVED'' 17 15])]"

definition fmc250m_layout2 :: wb_layout where
  "fmc250m_layout2 = [
    (''CH0_CS_DLY'', [Wb_Field ''FE_DLY'' 0 2, Wb_Field ''RESERVED_FE_DLY'' 2 6, Wb_Field ''RG_DLY'' 8 2,
      Wb_Field ''RESERVED_RG_DLY'' 10 22]),
    (''CH1_STA'', [Wb_Field ''VAL'' 0 16, Wb_Field ''RESERVED'' 16 16]),
    (''CH1_FN_DLY'', [Wb_Field ''CLK_CHAIN_DLY'' 0 5, Wb_Field ''RESERVED_CLK_CHAIN_DLY'' 5 3,
      Wb_Field ''DATA_CHAIN_DLY'' 8 5, Wb_Field ''RESERVED_DATA_CHAIN_DLY'' 13 3,
      Wb_Bit ''INC_CLK_CHAIN_DLY'' 16, Wb_Bit ''DEC_CLK_CHAIN_DLY'' 17,
      Wb_Field ''RESERVED_CLK_INCDEC_DLY'' 18 6, Wb_Bit ''INC_DATA_CHAIN_DLY'' 24,
      Wb_Bit ''DEC_DATA_CHAIN_DLY'' 25, Wb_Field ''RESERVED_DATA_INCDEC_DLY'' 26 6]),
    (''CH1_FN_SEL'', [Wb_Field ''LINE'' 0 17, Wb_Field ''RESERVED'' 17 15]),
    (''CH1_CS_DLY'', [Wb_Field ''FE_DLY'' 0 2, Wb_Field ''RESERVED_FE_DLY'' 2 6, Wb_Field ''RG_DLY'' 8 2,
      Wb_Field ''RESERVED_RG_DLY'' 10 22]),
    (''CH2_STA'', [Wb_Field ''VAL'' 0 16, Wb_Field ''RESERVED'' 16 16])]"

definition fmc250m_layout3 :: wb_layout where
  "fmc250m_layout3 = [
    (''CH2_FN_DLY'', [Wb_Field ''CLK_CHAIN_DLY'' 0 5, Wb_Field ''RESERVED_CLK_CHAIN_DLY'' 5 3,
      Wb_Field ''DATA_CHAIN_DLY'' 8 5, Wb_Field ''RESERVED_DATA_CHAIN_DLY'' 13 3,
      Wb_Bit ''INC_CLK_CHAIN_DLY'' 16, Wb_Bit ''DEC_CLK_CHAIN_DLY'' 17,
      Wb_Field ''RESERVED_CLK_INCDEC_DLY'' 18 6, Wb_Bit ''INC_DATA_CHAIN_DLY'' 24,
      Wb_Bit ''DEC_DATA_CHAIN_DLY'' 25, Wb_Field ''RESERVED_DATA_INCDEC_DLY'' 26 6]),
    (''CH2_FN_SEL'', [Wb_Field ''LINE'' 0 17, Wb_Field ''RESERVED'' 17 15]),
    (''CH2_CS_DLY'', [Wb_Field ''FE_DLY'' 0 2, Wb_Field ''RESERVED_FE_DLY'' 2 6, Wb_Field ''RG_DLY'' 8 2,
      Wb_Field ''RESERVED_RG_DLY'' 10 22]),
    (''CH3_STA'', [Wb_Field ''VAL'' 0 16, Wb_Field ''RESERVED'' 16 16])]"

definition fmc250m_layout4 :: wb_layout where
  "fmc250m_layout4 = [
    (''CH3_FN_DLY'', [Wb_Field ''CLK_CHAIN_DLY'' 0 5, Wb_Field ''RESERVED_CLK_CHAIN_DLY'' 5 3,
      Wb_Field ''DATA_CHAIN_DLY'' 8 5, Wb_Field ''RESERVED_DATA_CHAIN_DLY'' 13 3,
      Wb_Bit ''INC_CLK_CHAIN_DLY'' 16, Wb_Bit ''DEC_CLK_CHAIN_DLY'' 17,
      Wb_Field ''RESERVED_CLK_INCDEC_DLY'' 18 6, Wb_Bit ''INC_DATA_CHAIN_DLY'' 24,
      Wb_Bit ''DEC_DATA_CHAIN_DLY'' 25, Wb_Field ''RESERVED_DATA_INCDEC_DLY'' 26 6]),
    (''CH3_FN_SEL'', [Wb_Field ''LINE'' 0 17, Wb_Field ''RESERVED'' 17 15]),
    (''CH3_CS_DLY'', [Wb_Field ''FE_DLY'' 0 2, Wb_Field ''RESERVED_FE_DLY'' 2 6, Wb_Field ''RG_DLY'' 8 2,
      Wb_Field ''RESERVED_RG_DLY'' 10 22]),
    (''TEMP'', [Wb_Field ''MON_DEV'' 0 1])]"

definition fmc250m_addrs1 :: wb_addrs where
  "fmc250m_addrs1 = [
    (''ADC_STA'', 0x0), (''ADC_CTL'', 0x4), (''CH0_STA'', 0x8), (''CH0_FN_DLY'', 0xc),
    (''CH0_FN_SEL'', 0x10), (''CH0_CS_DLY'', 0x14), (''CH1_STA'', 0x18), (''CH1_FN_DLY'', 0x1c),
    (''CH1_FN_SEL'', 0x20), (''CH1_CS_DLY'', 0x24), (''CH2_STA'', 0x28), (''CH2_FN_DLY'', 0x2c),
    (''CH2_FN_SEL'', 0x30), (''CH2_CS_DLY'', 0x34), (''CH3_STA'', 0x38), (''CH3_FN_DLY'', 0x3c),
    (''CH3_FN_SEL'', 0x40), (''CH3_CS_DLY'', 0x44), (''TEMP'', 0x48)]"

section \<open>include/hw/wb_fmc130m_4ch_regs.h\<close>

definition fmc130m_layout1 :: wb_layout where
  "fmc130m_layout1 = [
    (''ADC'', [Wb_Bit ''RAND'' 0, Wb_Bit ''DITH'' 1, Wb_Bit ''SHDN'' 2, Wb_Bit ''PGA'' 3,
      Wb_Field ''RESERVED'' 4 28]),
    (''FPGA_CTRL'', [Wb_Bit ''FMC_IDELAY_RST'' 0, Wb_Bit ''FMC_FIFO_RST'' 1, Wb_Bit ''FMC_IDELAY0_RDY'' 2,
      Wb_Bit ''FMC_IDELAY1_RDY'' 3, Wb_Bit ''FMC_IDELAY2_RDY'' 4, Wb_Bit ''FMC_IDELAY3_RDY'' 5,
      Wb_Field ''RESERVED1'' 6 2, Wb_Bit ''TEMP_ALARM'' 8, Wb_Field ''RESERVED2'' 9 23]),
    (''IDELAY0_CAL'', [Wb_Bit ''UPDATE'' 0, Wb_Field ''LINE'' 1 17, Wb_Field ''VAL'' 18 5,
      Wb_Field ''RESERVED'' 23 9]),
    (''IDELAY1_CAL'', [Wb_Bit ''UPDATE'' 0, Wb_Field ''LINE'' 1 17, Wb_Field ''VAL'' 18 5,
      Wb_Field ''RESERVED'' 23 9]),
    (''IDELAY2_CAL'', [Wb_Bit ''UPDATE'' 0, Wb_Field ''LINE'' 1 17, Wb_Field ''VAL'' 18 5,
      Wb_Field ''RESERVED'' 23 9]),
    (''IDELAY3_CAL'', [Wb_Bit ''UPDATE'' 0, Wb_Field ''LINE'' 1 17, Wb_Field ''VAL'' 18 5,
      Wb_Field ''RESERVED'' 23 9])]"

definition fmc130m_layout2 :: wb_layout where
  "fmc130m_layout2 = [
    (''DATA0'', [Wb_Field ''VAL'' 0 32]),
    (''DATA1'', [Wb_Field ''VAL'' 0 32]),
    (''DATA2'', [Wb_Field ''VAL'' 0 32]),
    (''DATA3'', [Wb_Field ''VAL'' 0 32]),
    (''DCM'', [Wb_Bit ''ADC_EN'' 0, Wb_Bit ''ADC_PHASE'' 1, Wb_Bit ''ADC_DONE'' 2, Wb_Bit ''ADC_STATUS0'' 3,
      Wb_Bit ''ADC_RESET'' 4, Wb_Field ''RESERVED'' 5 27])]"

definition fmc130m_addrs1 :: wb_addrs where
  "fmc130m_addrs1 = [
    (''ADC'', 0x0), (''FPGA_CTRL'', 0x4), (''IDELAY0_CAL'', 0x8), (''IDELAY1_CAL'', 0xc),
    (''IDELAY2_CAL'', 0x10), (''IDELAY3_CAL'', 0x14), (''DATA0'', 0x18), (''DATA1'', 0x1c),
    (''DATA2'', 0x20), (''DATA3'', 0x24), (''DCM'', 0x28)]"

section \<open>include/hw/wb_fmcpico1m_4ch_regs.h\<close>

definition fmcpico_layout1 :: wb_layout where
  "fmcpico_layout1 = [
    (''FMC_STATUS'', [Wb_Bit ''PRSNT'' 0, Wb_Bit ''PG_M2C'' 1]),
    (''FMC_CTL'', [Wb_Bit ''LED1'' 0, Wb_Bit ''LED2'' 1]),
    (''RNG_CTL'', [Wb_Bit ''R0'' 0, Wb_Bit ''R1'' 8, Wb_Bit ''R2'' 16, Wb_Bit ''R3'' 24]),
    (''DATA0'', []),
    (''DATA1'', []),
    (''DATA2'', []),
    (''DATA3'', [])]"

definition fmcpico_addrs1 :: wb_addrs where
  "fmcpico_addrs1 = [
    (''FMC_STATUS'', 0x0), (''FMC_CTL'', 0x4), (''RNG_CTL'', 0x8), (''DATA0'', 0xc), (''DATA1'', 0x10),
    (''DATA2'', 0x14), (''DATA3'', 0x18)]"

section \<open>include/hw/wb_fmc_active_clk_regs.h\<close>

definition fmc_active_clk_layout1 :: wb_layout where
  "fmc_active_clk_layout1 = [
    (''CLK_DISTRIB'', [Wb_Bit ''SI571_OE'' 0, Wb_Bit ''PLL_FUNCTION'' 1, Wb_Bit ''PLL_STATUS'' 2,
      Wb_Bit ''CLK_SEL'' 3, Wb_Field ''RESERVED'' 4 28]),
    (''DUMMY'', [Wb_Field ''RESERVED'' 0 32])]"

definition fmc_active_clk_addrs1 :: wb_addrs where
  "fmc_active_clk_addrs1 = [
    (''CLK_DISTRIB'', 0x0), (''DUMMY'', 0x4)]"

section \<open>include/hw/wb_fmc_adc_common_regs.h\<close>

definition fmc_adc_common_layout1 :: wb_layout where
  "fmc_adc_common_layout1 = [
    (''FMC_STATUS'', [Wb_Bit ''MMCM_LOCKED'' 0, Wb_Bit ''PWR_GOOD'' 1, Wb_Bit ''PRST'' 2,
      Wb_Field ''RESERVED'' 3 28]),
    (''TRIGGER'', [Wb_Bit ''DIR'' 0, Wb_Bit ''TERM'' 1, Wb_Bit ''TRIG_VAL'' 2, Wb_Field ''RESERVED'' 3 29]),
    (''MONITOR'', [Wb_Bit ''TEST_DATA_EN'' 0, Wb_Bit ''LED1'' 1, Wb_Bit ''LED2'' 2, Wb_Bit ''LED3'' 3,
      Wb_Bit ''MMCM_RST'' 4, Wb_Field ''RESERVED'' 5 27])]"

definition fmc_adc_common_addrs1 :: wb_addrs where
  "fmc_adc_common_addrs1 = [
    (''FMC_STATUS'', 0x0), (''TRIGGER'', 0x4), (''MONITOR'', 0x8)]"

section \<open>include/hw/wb_afc_diag_regs.h\<close>

definition afc_diag_layout1 :: wb_layout where
  "afc_diag_layout1 = [
    (''ID_PART4'', []),
    (''ID_PART3'', []),
    (''ID_PART2'', []),
    (''ID_PART1'', []),
    (''GEO_ID'', [Wb_Field ''CARD_SLOT'' 0 16, Wb_Field ''IPMI_ADDR'' 16 16]),
    (''DATA_VALID'', []),
    (''SENS_DATA_START'', []),
    (''SENS_DATA_END'', []),
    (''FMC_SLOT_STATUS'', [])]"

definition afc_diag_addrs1 :: wb_addrs where
  "afc_diag_addrs1 = [
    (''ID_PART4'', 0x0), (''ID_PART3'', 0x4), (''ID_PART2'', 0x8), (''ID_PART1'', 0xc), (''GEO_ID'', 0x10),
    (''DATA_VALID'', 0x14), (''SENS_DATA_START'', 0x18), (''SENS_DATA_END'', 0x3f8),
    (''FMC_SLOT_STATUS'', 0x3fc)]"

section \<open>include/hw/wb_afc_mgmt_regs.h\<close>

definition afc_mgmt_layout1 :: wb_layout where
  "afc_mgmt_layout1 = [
    (''CLK_DISTRIB'', [Wb_Bit ''SI57X_OE'' 0, Wb_Field ''RESERVED'' 1 31]),
    (''DUMMY'', [Wb_Field ''RESERVED'' 0 32])]"

definition afc_mgmt_addrs1 :: wb_addrs where
  "afc_mgmt_addrs1 = [
    (''CLK_DISTRIB'', 0x0), (''DUMMY'', 0x4)]"

lemmas orbit_intlk_map_defs = orbit_intlk_layout1_def
  orbit_intlk_addrs1_def

lemmas bpm_swap_map_defs = bpm_swap_layout1_def
  bpm_swap_addrs1_def

lemmas fmc250m_map_defs = fmc250m_layout1_def
  fmc250m_layout2_def
  fmc250m_layout3_def
  fmc250m_layout4_def
  fmc250m_addrs1_def

lemmas fmc130m_map_defs = fmc130m_layout1_def
  fmc130m_layout2_def
  fmc130m_addrs1_def

lemmas fmcpico_map_defs = fmcpico_layout1_def
  fmcpico_addrs1_def

lemmas fmc_active_clk_map_defs = fmc_active_clk_layout1_def
  fmc_active_clk_addrs1_def

lemmas fmc_adc_common_map_defs = fmc_adc_common_layout1_def
  fmc_adc_common_addrs1_def

lemmas afc_diag_map_defs = afc_diag_layout1_def
  afc_diag_addrs1_def

lemmas afc_mgmt_map_defs = afc_mgmt_layout1_def
  afc_mgmt_addrs1_def

end
