(* ===== verification/Regs_Cheby.thy ===== *)
theory Regs_Cheby
  imports Wb_Map
begin

text \<open>The registers of the 100 MHz ADC board, of the fast orbit feedback's communication controller and of
  the RTM amplifiers. Their headers are written by another generator (cheby): the first macro after a
  comment is the address of a register, the macros below it are its fields, as masks. The tables follow
  the headers line by line. The controller keeps most of its registers in a memory, whose addresses are
  given in wb_fofb_cc_regs.h; the one that comes first there is the last by its address.\<close>

section \<open>include/hw/wb_fmc100m_4ch_regs.h\<close>

definition fmc100m_layout1 :: wb_layout where
  "fmc100m_layout1 = [
    (''CTL'', [Wb_Field ''FSM_CMD'' 0 2, Wb_Bit ''FMC_CLK_OE'' 2, Wb_Bit ''OFFSET_DAC_CLR_N'' 3,
      Wb_Bit ''MAN_BITSLIP'' 4, Wb_Bit ''TEST_DATA_EN'' 5, Wb_Bit ''TRIG_LED'' 6,
      Wb_Bit ''ACQ_LED'' 7, Wb_Bit ''CLEAR_TRIG_STAT'' 8]),
    (''STA'', [Wb_Field ''FSM'' 0 3, Wb_Bit ''SERDES_PLL'' 3, Wb_Bit ''SERDES_SYNCED'' 4,
      Wb_Bit ''ACQ_CFG'' 5]),
    (''TRIG_STAT'', [Wb_Bit ''EXT'' 0, Wb_Bit ''SW'' 1, Wb_Bit ''TIME'' 4, Wb_Bit ''CH1'' 8,
      Wb_Bit ''CH2'' 9, Wb_Bit ''CH3'' 10, Wb_Bit ''CH4'' 11]),
    (''TRIG_EN'', [Wb_Bit ''EXT'' 0, Wb_Bit ''SW'' 1, Wb_Bit ''TIME'' 4, Wb_Bit ''AUX_TIME'' 5,
      Wb_Bit ''CH1'' 8, Wb_Bit ''CH2'' 9, Wb_Bit ''CH3'' 10, Wb_Bit ''CH4'' 11]),
    (''TRIG_POL'', [Wb_Bit ''EXT'' 0, Wb_Bit ''CH1'' 8, Wb_Bit ''CH2'' 9, Wb_Bit ''CH3'' 10,
      Wb_Bit ''CH4'' 11]),
    (''EXT_TRIG_DLY'', []),
    (''SW_TRIG'', []),
    (''SHOTS'', [Wb_Field ''NBR'' 0 16, Wb_Field ''REMAIN'' 16 16]),
    (''MULTI_DEPTH'', []),
    (''TRIG_POS'', []),
    (''FS_FREQ'', []),
    (''DOWNSAMPLE'', []),
    (''PRE_SAMPLES'', []),
    (''POST_SAMPLES'', []),
    (''SAMPLES_CNT'', []),
    (''CH1_CTL'', [Wb_Field ''SSR'' 0 7]),
    (''CH1_STA'', [Wb_Field ''VAL'' 0 16]),
    (''CH1_CALIB'', [Wb_Field ''GAIN'' 0 16, Wb_Field ''OFFSET'' 16 16]),
    (''CH1_SAT'', [Wb_Field ''VAL'' 0 15]),
    (''CH1_TRIG_THRES'', [Wb_Field ''VAL'' 0 16, Wb_Field ''HYST'' 16 16]),
    (''CH1_TRIG_DLY'', []),
    (''CH2_CTL'', [Wb_Field ''SSR'' 0 7])]"

definition fmc100m_layout2 :: wb_layout where
  "fmc100m_layout2 = [
    (''CH2_STA'', [Wb_Field ''VAL'' 0 16]),
    (''CH2_CALIB'', [Wb_Field ''GAIN'' 0 16, Wb_Field ''OFFSET'' 16 16]),
    (''CH2_SAT'', [Wb_Field ''VAL'' 0 15]),
    (''CH2_TRIG_THRES'', [Wb_Field ''VAL'' 0 16, Wb_Field ''HYST'' 16 16]),
    (''CH2_TRIG_DLY'', []),
    (''CH3_CTL'', [Wb_Field ''SSR'' 0 7]),
    (''CH3_STA'', [Wb_Field ''VAL'' 0 16]),
    (''CH3_CALIB'', [Wb_Field ''GAIN'' 0 16, Wb_Field ''OFFSET'' 16 16]),
    (''CH3_SAT'', [Wb_Field ''VAL'' 0 15]),
    (''CH3_TRIG_THRES'', [Wb_Field ''VAL'' 0 16, Wb_Field ''HYST'' 16 16]),
    (''CH3_TRIG_DLY'', []),
    (''CH4_CTL'', [Wb_Field ''SSR'' 0 7]),
    (''CH4_STA'', [Wb_Field ''VAL'' 0 16]),
    (''CH4_CALIB'', [Wb_Field ''GAIN'' 0 16, Wb_Field ''OFFSET'' 16 16]),
    (''CH4_SAT'', [Wb_Field ''VAL'' 0 15]),
    (''CH4_TRIG_THRES'', [Wb_Field ''VAL'' 0 16, Wb_Field ''HYST'' 16 16]),
    (''CH4_TRIG_DLY'', [])]"

definition fmc100m_addrs1 :: wb_addrs where
  "fmc100m_addrs1 = [
    (''CTL'', 0x0), (''STA'', 0x4), (''TRIG_STAT'', 0x8), (''TRIG_EN'', 0xc), (''TRIG_POL'', 0x10),
    (''EXT_TRIG_DLY'', 0x14), (''SW_TRIG'', 0x18), (''SHOTS'', 0x1c), (''MULTI_DEPTH'', 0x20),
    (''TRIG_POS'', 0x24), (''FS_FREQ'', 0x28), (''DOWNSAMPLE'', 0x2c), (''PRE_SAMPLES'', 0x30),
    (''POST_SAMPLES'', 0x34), (''SAMPLES_CNT'', 0x38), (''CH1_CTL'', 0x80), (''CH1_STA'', 0x84),
    (''CH1_CALIB'', 0x88), (''CH1_SAT'', 0x8c), (''CH1_TRIG_THRES'', 0x90), (''CH1_TRIG_DLY'', 0x94),
    (''CH2_CTL'', 0xc0), (''CH2_STA'', 0xc4), (''CH2_CALIB'', 0xc8), (''CH2_SAT'', 0xcc),
    (''CH2_TRIG_THRES'', 0xd0), (''CH2_TRIG_DLY'', 0xd4), (''CH3_CTL'', 0x100), (''CH3_STA'', 0x104),
    (''CH3_CALIB'', 0x108), (''CH3_SAT'', 0x10c), (''CH3_TRIG_THRES'', 0x110), (''CH3_TRIG_DLY'', 0x114),
    (''CH4_CTL'', 0x140), (''CH4_STA'', 0x144), (''CH4_CALIB'', 0x148), (''CH4_SAT'', 0x14c),
    (''CH4_TRIG_THRES'', 0x150), (''CH4_TRIG_DLY'', 0x154)]"

section \<open>include/hw/__wb_rtmlamp_ohwr_regs.h\<close>

definition rtmlamp_layout1 :: wb_layout where
  "rtmlamp_layout1 = [
    (''STA'', [Wb_Field ''RESERVED'' 0 32]),
    (''CTL'', [Wb_Bit ''DAC_DATA_FROM_WB'' 0, Wb_Field ''RESERVED'' 1 31]),
    (''CH_0_STA'', [Wb_Bit ''AMP_IFLAG_L'' 0, Wb_Bit ''AMP_TFLAG_L'' 1, Wb_Bit ''AMP_IFLAG_R'' 2,
      Wb_Bit ''AMP_TFLAG_R'' 3, Wb_Field ''RESERVED'' 4 28]),
    (''CH_0_CTL'', [Wb_Bit ''AMP_EN'' 0, Wb_Field ''RESERVED'' 1 31]),
    (''CH_0_DAC'', [Wb_Field ''DATA'' 0 16, Wb_Bit ''WR'' 16, Wb_Field ''RESERVED'' 17 15]),
    (''CH_1_STA'', [Wb_Bit ''AMP_IFLAG_L'' 0, Wb_Bit ''AMP_TFLAG_L'' 1, Wb_Bit ''AMP_IFLAG_R'' 2,
      Wb_Bit ''AMP_TFLAG_R'' 3, Wb_Field ''RESERVED'' 4 28]),
    (''CH_1_CTL'', [Wb_Bit ''AMP_EN'' 0, Wb_Field ''RESERVED'' 1 31]),
    (''CH_1_DAC'', [Wb_Field ''DATA'' 0 16, Wb_Bit ''WR'' 16, Wb_Field ''RESERVED'' 17 15]),
    (''CH_2_STA'', [Wb_Bit ''AMP_IFLAG_L'' 0, Wb_Bit ''AMP_TFLAG_L'' 1, Wb_Bit ''AMP_IFLAG_R'' 2,
      Wb_Bit ''AMP_TFLAG_R'' 3, Wb_Field ''RESERVED'' 4 28]),
    (''CH_2_CTL'', [Wb_Bit ''AMP_EN'' 0, Wb_Field ''RESERVED'' 1 31]),
    (''CH_2_DAC'', [Wb_Field ''DATA'' 0 16, Wb_Bit ''WR'' 16, Wb_Field ''RESERVED'' 17 15]),
    (''CH_3_STA'', [Wb_Bit ''AMP_IFLAG_L'' 0, Wb_Bit ''AMP_TFLAG_L'' 1, Wb_Bit ''AMP_IFLAG_R'' 2,
      Wb_Bit ''AMP_TFLAG_R'' 3, Wb_Field ''RESERVED'' 4 28]),
    (''CH_3_CTL'', [Wb_Bit ''AMP_EN'' 0, Wb_Field ''RESERVED'' 1 31]),
    (''CH_3_DAC'', [Wb_Field ''DATA'' 0 16, Wb_Bit ''WR'' 16, Wb_Field ''RESERVED'' 17 15]),
    (''CH_4_STA'', [Wb_Bit ''AMP_IFLAG_L'' 0, Wb_Bit ''AMP_TFLAG_L'' 1, Wb_Bit ''AMP_IFLAG_R'' 2,
      Wb_Bit ''AMP_TFLAG_R'' 3, Wb_Field ''RESERVED'' 4 28]),
    (''CH_4_CTL'', [Wb_Bit ''AMP_EN'' 0, Wb_Field ''RESERVED'' 1 31])]"

definition rtmlamp_layout2 :: wb_layout where
  "rtmlamp_layout2 = [
    (''CH_4_DAC'', [Wb_Field ''DATA'' 0 16, Wb_Bit ''WR'' 16, Wb_Field ''RESERVED'' 17 15]),
    (''CH_5_STA'', [Wb_Bit ''AMP_IFLAG_L'' 0, Wb_Bit ''AMP_TFLAG_L'' 1, Wb_Bit ''AMP_IFLAG_R'' 2,
      Wb_Bit ''AMP_TFLAG_R'' 3, Wb_Field ''RESERVED'' 4 28]),
    (''CH_5_CTL'', [Wb_Bit ''AMP_EN'' 0, Wb_Field ''RESERVED'' 1 31]),
    (''CH_5_DAC'', [Wb_Field ''DATA'' 0 16, Wb_Bit ''WR'' 16, Wb_Field ''RESERVED'' 17 15]),
    (''CH_6_STA'', [Wb_Bit ''AMP_IFLAG_L'' 0, Wb_Bit ''AMP_TFLAG_L'' 1, Wb_Bit ''AMP_IFLAG_R'' 2,
      Wb_Bit ''AMP_TFLAG_R'' 3, Wb_Field ''RESERVED'' 4 28]),
    (''CH_6_CTL'', [Wb_Bit ''AMP_EN'' 0, Wb_Field ''RESERVED'' 1 31]),
    (''CH_6_DAC'', [Wb_Field ''DATA'' 0 16, Wb_Bit ''WR'' 16, Wb_Field ''RESERVED'' 17 15]),
    (''CH_7_STA'', [Wb_Bit ''AMP_IFLAG_L'' 0, Wb_Bit ''AMP_TFLAG_L'' 1, Wb_Bit ''AMP_IFLAG_R'' 2,
      Wb_Bit ''AMP_TFLAG_R'' 3, Wb_Field ''RESERVED'' 4 28]),
    (''CH_7_CTL'', [Wb_Bit ''AMP_EN'' 0, Wb_Field ''RESERVED'' 1 31]),
    (''CH_7_DAC'', [Wb_Field ''DATA'' 0 16, Wb_Bit ''WR'' 16, Wb_Field ''RESERVED'' 17 15]),
    (''CH_8_STA'', [Wb_Bit ''AMP_IFLAG_L'' 0, Wb_Bit ''AMP_TFLAG_L'' 1, Wb_Bit ''AMP_IFLAG_R'' 2,
      Wb_Bit ''AMP_TFLAG_R'' 3, Wb_Field ''RESERVED'' 4 28]),
    (''CH_8_CTL'', [Wb_Bit ''AMP_EN'' 0, Wb_Field ''RESERVED'' 1 31]),
    (''CH_8_DAC'', [Wb_Field ''DATA'' 0 16, Wb_Bit ''WR'' 16, Wb_Field ''RESERVED'' 17 15]),
    (''CH_9_STA'', [Wb_Bit ''AMP_IFLAG_L'' 0, Wb_Bit ''AMP_TFLAG_L'' 1, Wb_Bit ''AMP_IFLAG_R'' 2,
      Wb_Bit ''AMP_TFLAG_R'' 3, Wb_Field ''RESERVED'' 4 28]),
    (''CH_9_CTL'', [Wb_Bit ''AMP_EN'' 0, Wb_Field ''RESERVED'' 1 31])]"

definition rtmlamp_layout3 :: wb_layout where
  "rtmlamp_layout3 = [
    (''CH_9_DAC'', [Wb_Field ''DATA'' 0 16, Wb_Bit ''WR'' 16, Wb_Field ''RESERVED'' 17 15]),
    (''CH_10_STA'', [Wb_Bit ''AMP_IFLAG_L'' 0, Wb_Bit ''AMP_TFLAG_L'' 1, Wb_Bit ''AMP_IFLAG_R'' 2,
      Wb_Bit ''AMP_TFLAG_R'' 3, Wb_Field ''RESERVED'' 4 28]),
    (''CH_10_CTL'', [Wb_Bit ''AMP_EN'' 0, Wb_Field ''RESERVED'' 1 31]),
    (''CH_10_DAC'', [Wb_Field ''DATA'' 0 16, Wb_Bit ''WR'' 16, Wb_Field ''RESERVED'' 17 15]),
    (''CH_11_STA'', [Wb_Bit ''AMP_IFLAG_L'' 0, Wb_Bit ''AMP_TFLAG_L'' 1, Wb_Bit ''AMP_IFLAG_R'' 2,
      Wb_Bit ''AMP_TFLAG_R'' 3, Wb_Field ''RESERVED'' 4 28]),
    (''CH_11_CTL'', [Wb_Bit ''AMP_EN'' 0, Wb_Field ''RESERVED'' 1 31]),
    (''CH_11_DAC'', [Wb_Field ''DATA'' 0 16, Wb_Bit ''WR'' 16, Wb_Field ''RESERVED'' 17 15])]"

definition rtmlamp_addrs1 :: wb_addrs where
  "rtmlamp_addrs1 = [
    (''STA'', 0x0), (''CTL'', 0x4), (''CH_0_STA'', 0x100), (''CH_0_CTL'', 0x104), (''CH_0_DAC'', 0x108),
    (''CH_1_STA'', 0x10c), (''CH_1_CTL'', 0x110), (''CH_1_DAC'', 0x114), (''CH_2_STA'', 0x118),
    (''CH_2_CTL'', 0x11c), (''CH_2_DAC'', 0x120), (''CH_3_STA'', 0x124), (''CH_3_CTL'', 0x128),
    (''CH_3_DAC'', 0x12c), (''CH_4_STA'', 0x130), (''CH_4_CTL'', 0x134), (''CH_4_DAC'', 0x138),
    (''CH_5_STA'', 0x13c), (''CH_5_CTL'', 0x140), (''CH_5_DAC'', 0x144), (''CH_6_STA'', 0x148),
    (''CH_6_CTL'', 0x14c), (''CH_6_DAC'', 0x150), (''CH_7_STA'', 0x154), (''CH_7_CTL'', 0x158),
    (''CH_7_DAC'', 0x15c), (''CH_8_STA'', 0x160), (''CH_8_CTL'', 0x164), (''CH_8_DAC'', 0x168),
    (''CH_9_STA'', 0x16c), (''CH_9_CTL'', 0x170), (''CH_9_DAC'', 0x174), (''CH_10_STA'', 0x178),
    (''CH_10_CTL'', 0x17c), (''CH_10_DAC'', 0x180), (''CH_11_STA'', 0x184), (''CH_11_CTL'', 0x188),
    (''CH_11_DAC'', 0x18c)]"

section \<open>include/hw/__wb_fofb_cc_regs.h\<close>

definition fofb_cc_layout1 :: wb_layout where
  "fofb_cc_layout1 = [
    (''CFG_VAL'', [Wb_Bit ''ACT_PART'' 0, Wb_Bit ''UNUSED'' 1, Wb_Bit ''ERR_CLR'' 2,
      Wb_Bit ''CC_ENABLE'' 3, Wb_Bit ''TFS_OVERRIDE'' 4]),
    (''TOA_CTL'', [Wb_Bit ''RD_EN'' 0, Wb_Bit ''RD_STR'' 1]),
    (''TOA_DATA'', [Wb_Field ''VAL'' 0 32]),
    (''RCB_CTL'', [Wb_Bit ''RD_EN'' 0, Wb_Bit ''RD_STR'' 1]),
    (''RCB_DATA'', [Wb_Field ''VAL'' 0 32]),
    (''XY_BUFF_CTL'', [Wb_Field ''UNUSED'' 0 16, Wb_Field ''ADDR'' 16 16]),
    (''XY_BUFF_DATA_MSB'', [Wb_Field ''VAL'' 0 32]),
    (''XY_BUFF_DATA_LSB'', [Wb_Field ''VAL'' 0 32])]"

definition fofb_cc_addrs1 :: wb_addrs where
  "fofb_cc_addrs1 = [
    (''CFG_VAL'', 0x0), (''TOA_CTL'', 0x4), (''TOA_DATA'', 0x8), (''RCB_CTL'', 0xc), (''RCB_DATA'', 0x10),
    (''XY_BUFF_CTL'', 0x14), (''XY_BUFF_DATA_MSB'', 0x18), (''XY_BUFF_DATA_LSB'', 0x1c)]"

section \<open>include/hw/wb_fofb_cc_regs.h\<close>

definition fofb_cc_addrs2 :: wb_addrs where
  "fofb_cc_addrs2 = [
    (''BPM_ID'', 0x2000), (''TIME_FRAME_LEN'', 0x2004), (''MGT_POWERDOWN'', 0x2008),
    (''MGT_LOOPBACK'', 0x200c), (''TIME_FRAME_DLY'', 0x2010), (''GOLDEN_ORB_X'', 0x2014),
    (''GOLDEN_ORB_Y'', 0x2018), (''CUST_FEATURE'', 0x201c), (''RXPOLARITY'', 0x2020),
    (''PAYLOADSEL'', 0x2024), (''FOFBDATASEL'', 0x2028), (''SYS_STATUS'', 0x2c00),
    (''LINK_PARTNER_1'', 0x2c04), (''LINK_PARTNER_2'', 0x2c08), (''LINK_PARTNER_3'', 0x2c0c),
    (''LINK_PARTNER_4'', 0x2c10), (''LINK_UP'', 0x2c14), (''TIME_FRAME_COUNT'', 0x2c18),
    (''HARD_ERR_CNT_1'', 0x2c1c), (''HARD_ERR_CNT_2'', 0x2c20), (''HARD_ERR_CNT_3'', 0x2c24),
    (''HARD_ERR_CNT_4'', 0x2c28), (''SOFT_ERR_CNT_1'', 0x2c2c), (''SOFT_ERR_CNT_2'', 0x2c30),
    (''SOFT_ERR_CNT_3'', 0x2c34), (''SOFT_ERR_CNT_4'', 0x2c38), (''FRAME_ERR_CNT_1'', 0x2c3c),
    (''FRAME_ERR_CNT_2'', 0x2c40), (''FRAME_ERR_CNT_3'', 0x2c44), (''FRAME_ERR_CNT_4'', 0x2c48),
    (''RX_PCK_CNT_1'', 0x2c4c), (''RX_PCK_CNT_2'', 0x2c50), (''RX_PCK_CNT_3'', 0x2c54),
    (''RX_PCK_CNT_4'', 0x2c58), (''TX_PCK_CNT_1'', 0x2c5c), (''TX_PCK_CNT_2'', 0x2c60),
    (''TX_PCK_CNT_3'', 0x2c64), (''TX_PCK_CNT_4'', 0x2c68), (''FOD_PROCESS_TIME'', 0x2c6c),
    (''BPM_COUNT'', 0x2c70), (''BPM_ID_RDBACK'', 0x2c74), (''TF_LENGTH_RDBACK'', 0x2c78),
    (''POWERDOWN_RDBACK'', 0x2c7c), (''LOOPBACK_RDBACK'', 0x2c80), (''FAIVAL_RDBACK'', 0x2c84),
    (''FEATURE_RDBACK'', 0x2c88), (''RX_MAXCOUNT'', 0x2c8c), (''TX_MAXCOUNT'', 0x2c90),
    (''FIRMWARE_VER'', 0x2ffc)]"

lemmas fmc100m_map_defs = fmc100m_layout1_def
  fmc100m_layout2_def
  fmc100m_addrs1_def

lemmas rtmlamp_map_defs = rtmlamp_layout1_def
  rtmlamp_layout2_def
  rtmlamp_layout3_def
  rtmlamp_addrs1_def

lemmas fofb_cc_map_defs = fofb_cc_layout1_def
  fofb_cc_addrs1_def
  fofb_cc_addrs2_def

end
