(* ===== verification/Regs_Facts.thy ===== *)
theory Regs_Facts
  imports Regs_Trigger Regs_Timing Regs_Acq Regs_Fmc Regs_Cheby
begin

text \<open>
  The register maps of all headers together, and what holds of every register: its fields do not
  overlap, so that writing one leaves the others.
\<close>

definition trigger_iface_map :: wb_map where
  "trigger_iface_map = \<lparr>wm_prefix = ''WB_TRIG_IFACE'',
     wm_layout = [trigger_iface_layout1, trigger_iface_layout2, trigger_iface_layout3, trigger_iface_layout4, trigger_iface_layout5, trigger_iface_layout6, trigger_iface_layout7, trigger_iface_layout8],
     wm_addrs = [trigger_iface_addrs1, trigger_iface_addrs2]\<rparr>"

definition trigger_mux_map :: wb_map where
  "trigger_mux_map = \<lparr>wm_prefix = ''WB_TRIG_MUX'',
     wm_layout = [trigger_mux_layout1, trigger_mux_layout2, trigger_mux_layout3, trigger_mux_layout4],
     wm_addrs = [trigger_mux_addrs1]\<rparr>"

definition afc_timing_map :: wb_map where
  "afc_timing_map = \<lparr>wm_prefix = ''TIMING'',
     wm_layout = [afc_timing_layout1, afc_timing_layout2, afc_timing_layout3, afc_timing_layout4, afc_timing_layout5, afc_timing_layout6],
     wm_addrs = [afc_timing_addrs1, afc_timing_addrs2]\<rparr>"

definition tim_rcv_map :: wb_map where
  "tim_rcv_map = \<lparr>wm_prefix = ''TIM_RCV_CORE'',
     wm_layout = [tim_rcv_layout1],
     wm_addrs = [tim_rcv_addrs1]\<rparr>"

definition acq_core_map :: wb_map where
  "acq_core_map = \<lparr>wm_prefix = ''ACQ_CORE'',
     wm_layout = [acq_core_layout1, acq_core_layout2, acq_core_layout3, acq_core_layout4, acq_core_layout5, acq_core_layout6, acq_core_layout7],
     wm_addrs = [acq_core_addrs1]\<rparr>"

definition pos_calc_map :: wb_map where
  "pos_calc_map = \<lparr>wm_prefix = ''POS_CALC'',
     wm_layout = [pos_calc_layout1, pos_calc_layout2, pos_calc_layout3, pos_calc_layout4, pos_calc_layout5],
     wm_addrs = [pos_calc_addrs1, pos_calc_addrs2]\<rparr>"

definition orbit_intlk_map :: wb_map where
  "orbit_intlk_map = \<lparr>wm_prefix = ''ORBIT_INTLK'',
     wm_layout = [orbit_intlk_layout1],
     wm_addrs = [orbit_intlk_addrs1]\<rparr>"

definition bpm_swap_map :: wb_map where
  "bpm_swap_map = \<lparr>wm_prefix = ''BPM_SWAP'',
     wm_layout = [bpm_swap_layout1],
     wm_addrs = [bpm_swap_addrs1]\<rparr>"

definition fmc250m_map :: wb_map where
  "fmc250m_map = \<lparr>wm_prefix = ''WB_FMC_250M_4CH_CSR'',
     wm_layout = [fmc250m_layout1, fmc250m_layout2, fmc250m_layout3, fmc250m_layout4],
     wm_addrs = [fmc250m_addrs1]\<rparr>"

definition fmc130m_map :: wb_map where
  "fmc130m_map = \<lparr>wm_prefix = ''WB_FMC_130M_4CH_CSR'',
     wm_layout = [fmc130m_layout1, fmc130m_layout2],
     wm_addrs = [fmc130m_addrs1]\<rparr>"

definition fmcpico_map :: wb_map where
  "fmcpico_map = \<lparr>wm_prefix = ''WB_FMCPICO1M_4CH_CSR'',
     wm_layout = [fmcpico_layout1],
     wm_addrs = [fmcpico_addrs1]\<rparr>"

definition fmc_active_clk_map :: wb_map where
  "fmc_active_clk_map = \<lparr>wm_prefix = ''WB_FMC_ACTIVE_CLK_CSR'',
     wm_layout = [fmc_active_clk_layout1],
     wm_addrs = [fmc_active_clk_addrs1]\<rparr>"

definition fmc_adc_common_map :: wb_map where
  "fmc_adc_common_map = \<lparr>wm_prefix = ''WB_FMC_ADC_COMMON_CSR'',
     wm_layout = [fmc_adc_common_layout1],
     wm_addrs = [fmc_adc_common_addrs1]\<rparr>"

definition afc_diag_map :: wb_map where
  "afc_diag_map = \<lparr>wm_prefix = ''HALCS_AFC_DIAG'',
     wm_layout = [afc_diag_layout1],
     wm_addrs = [afc_diag_addrs1]\<rparr>"

definition afc_mgmt_map :: wb_map where
  "afc_mgmt_map = \<lparr>wm_prefix = ''AFC_MGMT'',
     wm_layout = [afc_mgmt_layout1],
     wm_addrs = [afc_mgmt_addrs1]\<rparr>"

definition fmc100m_map :: wb_map where
  "fmc100m_map = \<lparr>wm_prefix = ''FMC_ADC_100MS_CSR'',
     wm_layout = [fmc100m_layout1, fmc100m_layout2],
     wm_addrs = [fmc100m_addrs1]\<rparr>"

definition rtmlamp_map :: wb_map where
  "rtmlamp_map = \<lparr>wm_prefix = ''RTMLAMP_OHWR'',
     wm_layout = [rtmlamp_layout1, rtmlamp_layout2, rtmlamp_layout3],
     wm_addrs = [rtmlamp_addrs1]\<rparr>"

definition fofb_cc_map :: wb_map where
  "fofb_cc_map = \<lparr>wm_prefix = ''FOFB_CC'',
     wm_layout = [fofb_cc_layout1],
     wm_addrs = [fofb_cc_addrs1, fofb_cc_addrs2]\<rparr>"

definition wb_maps :: "wb_map list" where
  "wb_maps = [trigger_iface_map, trigger_mux_map, afc_timing_map, tim_rcv_map, acq_core_map, pos_calc_map, orbit_intlk_map, bpm_swap_map, fmc250m_map, fmc130m_map, fmcpico_map, fmc_active_clk_map, fmc_adc_common_map, afc_diag_map, afc_mgmt_map,
     fmc100m_map, rtmlamp_map, fofb_cc_map]"

lemma trigger_iface_layout1_ok: "layout_ok trigger_iface_layout1"
  by (simp add: trigger_iface_layout1_def layout_ok_def wb_apart_def)

lemma trigger_iface_layout2_ok: "layout_ok trigger_iface_layout2"
  by (simp add: trigger_iface_layout2_def layout_ok_def wb_apart_def)

lemma trigger_iface_layout3_ok: "layout_ok trigger_iface_layout3"
  by (simp add: trigger_iface_layout3_def layout_ok_def wb_apart_def)

lemma trigger_iface_layout4_ok: "layout_ok trigger_iface_layout4"
  by (simp add: trigger_iface_layout4_def layout_ok_def wb_apart_def)

lemma trigger_iface_layout5_ok: "layout_ok trigger_iface_layout5"
  by (simp add: trigger_iface_layout5_def layout_ok_def wb_apart_def)

lemma trigger_iface_layout6_ok: "layout_ok trigger_iface_layout6"
  by (simp add: trigger_iface_layout6_def layout_ok_def wb_apart_def)

lemma trigger_iface_layout7_ok: "layout_ok trigger_iface_layout7"
  by (simp add: trigger_iface_layout7_def layout_ok_def wb_apart_def)

lemma trigger_iface_layout8_ok: "layout_ok trigger_iface_layout8"
  by (simp add: trigger_iface_layout8_def layout_ok_def wb_apart_def)

lemma trigger_iface_map_ok: "map_ok trigger_iface_map"
  by (simp add: map_ok_def trigger_iface_map_def trigger_iface_layout1_ok trigger_iface_layout2_ok trigger_iface_layout3_ok trigger_iface_layout4_ok trigger_iface_layout5_ok trigger_iface_layout6_ok trigger_iface_layout7_ok trigger_iface_layout8_ok addrs_ok_def
    trigger_iface_addrs1_def trigger_iface_addrs2_def)

lemma trigger_mux_layout1_ok: "layout_ok trigger_mux_layout1"
  by (simp add: trigger_mux_layout1_def layout_ok_def wb_apart_def)

lemma trigger_mux_layout2_ok: "layout_ok trigger_mux_layout2"
  by (simp add: trigger_mux_layout2_def layout_ok_def wb_apart_def)

lemma trigger_mux_layout3_ok: "layout_ok trigger_mux_layout3"
  by (simp add: trigger_mux_layout3_def layout_ok_def wb_apart_def)

lemma trigger_mux_layout4_ok: "layout_ok trigger_mux_layout4"
  by (simp add: trigger_mux_layout4_def layout_ok_def wb_apart_def)

lemma trigger_mux_map_ok: "map_ok trigger_mux_map"
  by (simp add: map_ok_def trigger_mux_map_def trigger_mux_layout1_ok trigger_mux_layout2_ok trigger_mux_layout3_ok trigger_mux_layout4_ok addrs_ok_def
    trigger_mux_addrs1_def)

lemma afc_timing_layout1_ok: "layout_ok afc_timing_layout1"
  by (simp add: afc_timing_layout1_def layout_ok_def wb_apart_def)

lemma afc_timing_layout2_ok: "layout_ok afc_timing_layout2"
  by (simp add: afc_timing_layout2_def layout_ok_def wb_apart_def)

lemma afc_timing_layout3_ok: "layout_ok afc_timing_layout3"
  by (simp add: afc_timing_layout3_def layout_ok_def wb_apart_def)

lemma afc_timing_layout4_ok: "layout_ok afc_timing_layout4"
  by (simp add: afc_timing_layout4_def layout_ok_def wb_apart_def)

lemma afc_timing_layout5_ok: "layout_ok afc_timing_layout5"
  by (simp add: afc_timing_layout5_def layout_ok_def wb_apart_def)

lemma afc_timing_layout6_ok: "layout_ok afc_timing_layout6"
  by (simp add: afc_timing_layout6_def layout_ok_def wb_apart_def)

lemma afc_timing_map_ok: "map_ok afc_timing_map"
  by (simp add: map_ok_def afc_timing_map_def afc_timing_layout1_ok afc_timing_layout2_ok afc_timing_layout3_ok afc_timing_layout4_ok afc_timing_layout5_ok afc_timing_layout6_ok addrs_ok_def
    afc_timing_addrs1_def afc_timing_addrs2_def)

lemma tim_rcv_layout1_ok: "layout_ok tim_rcv_layout1"
  by (simp add: tim_rcv_layout1_def layout_ok_def wb_apart_def)

lemma tim_rcv_map_ok: "map_ok tim_rcv_map"
  by (simp add: map_ok_def tim_rcv_map_def tim_rcv_layout1_ok addrs_ok_def
    tim_rcv_addrs1_def)

lemma acq_core_layout1_ok: "layout_ok acq_core_layout1"
  by (simp add: acq_core_layout1_def layout_ok_def wb_apart_def)

lemma acq_core_layout2_ok: "layout_ok acq_core_layout2"
  by (simp add: acq_core_layout2_def layout_ok_def wb_apart_def)

lemma acq_core_layout3_ok: "layout_ok acq_core_layout3"
  by (simp add: acq_core_layout3_def layout_ok_def wb_apart_def)

lemma acq_core_layout4_ok: "layout_ok acq_core_layout4"
  by (simp add: acq_core_layout4_def layout_ok_def wb_apart_def)

lemma acq_core_layout5_ok: "layout_ok acq_core_layout5"
  by (simp add: acq_core_layout5_def layout_ok_def wb_apart_def)

lemma acq_core_layout6_ok: "layout_ok acq_core_layout6"
  by (simp add: acq_core_layout6_def layout_ok_def wb_apart_def)

lemma acq_core_layout7_ok: "layout_ok acq_core_layout7"
  by (simp add: acq_core_layout7_def layout_ok_def wb_apart_def)

lemma acq_core_map_ok: "map_ok acq_core_map"
  by (simp add: map_ok_def acq_core_map_def acq_core_layout1_ok acq_core_layout2_ok acq_core_layout3_ok acq_core_layout4_ok acq_core_layout5_ok acq_core_layout6_ok acq_core_layout7_ok addrs_ok_def
    acq_core_addrs1_def)

lemma pos_calc_layout1_ok: "layout_ok pos_calc_layout1"
  by (simp add: pos_calc_layout1_def layout_ok_def wb_apart_def)

lemma pos_calc_layout2_ok: "layout_ok pos_calc_layout2"
  by (simp add: pos_calc_layout2_def layout_ok_def wb_apart_def)

lemma pos_calc_layout3_ok: "layout_ok pos_calc_layout3"
  by (simp add: pos_calc_layout3_def layout_ok_def wb_apart_def)

lemma pos_calc_layout4_ok: "layout_ok pos_calc_layout4"
  by (simp add: pos_calc_layout4_def layout_ok_def wb_apart_def)

lemma pos_calc_layout5_ok: "layout_ok pos_calc_layout5"
  by (simp add: pos_calc_layout5_def layout_ok_def wb_apart_def)

lemma pos_calc_map_ok: "map_ok pos_calc_map"
  by (simp add: map_ok_def pos_calc_map_def pos_calc_layout1_ok pos_calc_layout2_ok pos_calc_layout3_ok pos_calc_layout4_ok pos_calc_layout5_ok addrs_ok_def
    pos_calc_addrs1_def pos_calc_addrs2_def)

lemma orbit_intlk_layout1_ok: "layout_ok orbit_intlk_layout1"
  by (simp add: orbit_intlk_layout1_def layout_ok_def wb_apart_def)

lemma orbit_intlk_map_ok: "map_ok orbit_intlk_map"
  by (simp add: map_ok_def orbit_intlk_map_def orbit_intlk_layout1_ok addrs_ok_def
    orbit_intlk_addrs1_def)

lemma bpm_swap_layout1_ok: "layout_ok bpm_swap_layout1"
  by (simp add: bpm_swap_layout1_def layout_ok_def wb_apart_def)

lemma bpm_swap_map_ok: "map_ok bpm_swap_map"
  by (simp add: map_ok_def bpm_swap_map_def bpm_swap_layout1_ok addrs_ok_def
    bpm_swap_addrs1_def)

lemma fmc250m_layout1_ok: "layout_ok fmc250m_layout1"
  by (simp add: fmc250m_layout1_def layout_ok_def wb_apart_def)

lemma fmc250m_layout2_ok: "layout_ok fmc250m_layout2"
  by (simp add: fmc250m_layout2_def layout_ok_def wb_apart_def)

lemma fmc250m_layout3_ok: "layout_ok fmc250m_layout3"
  by (simp add: fmc250m_layout3_def layout_ok_def wb_apart_def)

lemma fmc250m_layout4_ok: "layout_ok fmc250m_layout4"
  by (simp add: fmc250m_layout4_def layout_ok_def wb_apart_def)

lemma fmc250m_map_ok: "map_ok fmc250m_map"
  by (simp add: map_ok_def fmc250m_map_def fmc250m_layout1_ok fmc250m_layout2_ok fmc250m_layout3_ok fmc250m_layout4_ok addrs_ok_def
    fmc250m_addrs1_def)

lemma fmc130m_layout1_ok: "layout_ok fmc130m_layout1"
  by (simp add: fmc130m_layout1_def layout_ok_def wb_apart_def)

lemma fmc130m_layout2_ok: "layout_ok fmc130m_layout2"
  by (simp add: fmc130m_layout2_def layout_ok_def wb_apart_def)

lemma fmc130m_map_ok: "map_ok fmc130m_map"
  by (simp add: map_ok_def fmc130m_map_def fmc130m_layout1_ok fmc130m_layout2_ok addrs_ok_def
    fmc130m_addrs1_def)

lemma fmcpico_layout1_ok: "layout_ok fmcpico_layout1"
  by (simp add: fmcpico_layout1_def layout_ok_def wb_apart_def)

lemma fmcpico_map_ok: "map_ok fmcpico_map"
  by (simp add: map_ok_def fmcpico_map_def fmcpico_layout1_ok addrs_ok_def
    fmcpico_addrs1_def)

lemma fmc_active_clk_layout1_ok: "layout_ok fmc_active_clk_layout1"
  by (simp add: fmc_active_clk_layout1_def layout_ok_def wb_apart_def)

lemma fmc_active_clk_map_ok: "map_ok fmc_active_clk_map"
  by (simp add: map_ok_def fmc_active_clk_map_def fmc_active_clk_layout1_ok addrs_ok_def
    fmc_active_clk_addrs1_def)

lemma fmc_adc_common_layout1_ok: "layout_ok fmc_adc_common_layout1"
  by (simp add: fmc_adc_common_layout1_def layout_ok_def wb_apart_def)

lemma fmc_adc_common_map_ok: "map_ok fmc_adc_common_map"
  by (simp add: map_ok_def fmc_adc_common_map_def fmc_adc_common_layout1_ok addrs_ok_def
    fmc_adc_common_addrs1_def)

lemma afc_diag_layout1_ok: "layout_ok afc_diag_layout1"
  by (simp add: afc_diag_layout1_def layout_ok_def wb_apart_def)

lemma afc_diag_map_ok: "map_ok afc_diag_map"
  by (simp add: map_ok_def afc_diag_map_def afc_diag_layout1_ok addrs_ok_def
    afc_diag_addrs1_def)

lemma afc_mgmt_layout1_ok: "layout_ok afc_mgmt_layout1"
  by (simp add: afc_mgmt_layout1_def layout_ok_def wb_apart_def)

lemma afc_mgmt_map_ok: "map_ok afc_mgmt_map"
  by (simp add: map_ok_def afc_mgmt_map_def afc_mgmt_layout1_ok addrs_ok_def
    afc_mgmt_addrs1_def)

lemma fmc100m_layout1_ok: "layout_ok fmc100m_layout1"
  by (simp add: fmc100m_layout1_def layout_ok_def wb_apart_def)

lemma fmc100m_layout2_ok: "layout_ok fmc100m_layout2"
  by (simp add: fmc100m_layout2_def layout_ok_def wb_apart_def)

lemma fmc100m_map_ok: "map_ok fmc100m_map"
  by (simp add: map_ok_def fmc100m_map_def fmc100m_layout1_ok fmc100m_layout2_ok addrs_ok_def
    fmc100m_addrs1_def)

lemma rtmlamp_layout1_ok: "layout_ok rtmlamp_layout1"
  by (simp add: rtmlamp_layout1_def layout_ok_def wb_apart_def)

lemma rtmlamp_layout2_ok: "layout_ok rtmlamp_layout2"
  by (simp add: rtmlamp_layout2_def layout_ok_def wb_apart_def)

lemma rtmlamp_layout3_ok: "layout_ok rtmlamp_layout3"
  by (simp add: rtmlamp_layout3_def layout_ok_def wb_apart_def)

lemma rtmlamp_map_ok: "map_ok rtmlamp_map"
  by (simp add: map_ok_def rtmlamp_map_def rtmlamp_layout1_ok rtmlamp_layout2_ok rtmlamp_layout3_ok addrs_ok_def
    rtmlamp_addrs1_def)

lemma fofb_cc_layout1_ok: "layout_ok fofb_cc_layout1"
  by (simp add: fofb_cc_layout1_def layout_ok_def wb_apart_def)

lemma fofb_cc_map_ok: "map_ok fofb_cc_map"
  by (simp add: map_ok_def fofb_cc_map_def fofb_cc_layout1_ok addrs_ok_def
    fofb_cc_addrs1_def fofb_cc_addrs2_def)

lemma wb_maps_ok: "m \<in> set wb_maps \<Longrightarrow> map_ok m"
  unfolding wb_maps_def by (auto simp: trigger_iface_map_ok trigger_mux_map_ok afc_timing_map_ok tim_rcv_map_ok acq_core_map_ok pos_calc_map_ok orbit_intlk_map_ok bpm_swap_map_ok fmc250m_map_ok fmc130m_map_ok fmcpico_map_ok fmc_active_clk_map_ok fmc_adc_common_map_ok afc_diag_map_ok afc_mgmt_map_ok
    fmc100m_map_ok rtmlamp_map_ok fofb_cc_map_ok)

end
