(* ===== verification/Reg_Check.thy ===== *)
theory Reg_Check
  imports Wb_Map Param_Store
begin

text \<open>
  The parameters of a module against a register map: what it means that every parameter is a register
  that the header declares, channel by channel, and that the bits it reads and writes are whole fields
  of that register; a check that goes once through the map, and that it is enough.
\<close>

section \<open>What it means for a parameter to be declared\<close>

definition wb_inside :: "nat \<Rightarrow> nat \<Rightarrow> wb_field \<Rightarrow> bool" where
  "wb_inside l n f \<longleftrightarrow> l \<le> wb_pos f \<and> wb_pos f + wb_bits f \<le> l + n"

definition wb_outside :: "nat \<Rightarrow> nat \<Rightarrow> wb_field \<Rightarrow> bool" where
  "wb_outside l n f \<longleftrightarrow> wb_pos f + wb_bits f \<le> l \<or> l + n \<le> wb_pos f"

text \<open>The bits are those of whole fields, or the register has no fields and the bits are all of it.\<close>

definition bits_declared :: "shape \<Rightarrow> wb_field list \<Rightarrow> bool" where
  "bits_declared sh fs \<longleftrightarrow>
     (let l = shape_lo sh; n = shape_len sh
      in if fs = [] then l = 0 \<and> n = 32
         else list_all (\<lambda>f. wb_inside l n f \<or> wb_outside l n f) fs \<and>
           sum_list (map wb_bits (filter (wb_inside l n) fs)) = n)"

text \<open>A register and its fields; a register may have no section of its own in the header.\<close>

definition wb_register :: "wb_map \<Rightarrow> string \<Rightarrow> nat \<Rightarrow> wb_field list \<Rightarrow> bool" where
  "wb_register m r a fs \<longleftrightarrow> (r, a) \<in> set (concat (wm_addrs m)) \<and>
     ((r, fs) \<in> set (concat (wm_layout m)) \<or> fs = [] \<and> r \<notin> fst ` set (concat (wm_layout m)))"

definition param_declared :: "wb_map \<Rightarrow> param_spec \<Rightarrow> bool" where
  "param_declared m d \<longleftrightarrow> (\<forall>c < ps_count d. \<exists>r fs.
     wb_register m r (ps_reg d + c * ps_offset d) fs \<and> bits_declared (ps_shape d) fs)"

section \<open>Checking it\<close>

text \<open>The registers are consecutive words and the sections stand in the order of the addresses, so the
  sections are gone through once, with the parameters that have a slot at the address reached.\<close>

definition slot_at :: "param_spec \<Rightarrow> nat \<Rightarrow> bool" where
  "slot_at d a \<longleftrightarrow>
     (case ps_chan d of
        None \<Rightarrow> a = ps_reg d
      | Some (off, num) \<Rightarrow>
          if a < ps_reg d then False
          else if ps_reg d + off * num \<le> a then False
          else (a - ps_reg d) mod off = 0)"

fun regs_check :: "param_spec list \<Rightarrow> nat \<Rightarrow> wb_layout \<Rightarrow> bool" where
  "regs_check ds a [] \<longleftrightarrow> True"
| "regs_check ds a ((_, fs) # l) \<longleftrightarrow> list_all (\<lambda>d. if slot_at d a then bits_declared (ps_shape d) fs else True) ds \<and> regs_check ds (a + 4) l"

definition slot_near :: "param_spec \<Rightarrow> nat \<Rightarrow> nat \<Rightarrow> bool" where
  "slot_near d a b \<longleftrightarrow> ps_reg d < b \<and> a \<le> ps_reg d + ps_count d * ps_offset d"

definition part_check :: "param_spec list \<Rightarrow> nat \<Rightarrow> wb_layout \<Rightarrow> bool" where
  "part_check ds a l \<longleftrightarrow> regs_check (filter (\<lambda>d. slot_near d a (a + 4 * length l)) ds) a l"

text \<open>Every slot is a word among the first \<open>n\<close>, and those from the \<open>k\<close>-th on are whole registers.\<close>

definition slots_in :: "nat \<Rightarrow> nat \<Rightarrow> param_spec \<Rightarrow> bool" where
  "slots_in k n d \<longleftrightarrow> ps_reg d mod 4 = 0 \<and> ps_offset d mod 4 = 0 \<and> 0 < ps_count d \<and>
     (ps_chan d = None \<or> 0 < ps_offset d) \<and>
     ps_reg d + (ps_count d - 1) * ps_offset d < 4 * n \<and>
     (ps_reg d + (ps_count d - 1) * ps_offset d < 4 * k \<or> ps_shape d = Whole)"

text \<open>The addresses of the first registers are consecutive and the names of the sections are theirs.\<close>

definition map_in_order :: "wb_map \<Rightarrow> nat \<Rightarrow> bool" where
  "map_in_order m n \<longleftrightarrow> (let as = concat (wm_addrs m); l = concat (wm_layout m)
     in n \<le> length as \<and> map snd (take n as) = map ((*) 4) [0..<n] \<and>
       map fst l = take (length l) (map fst as) \<and> (\<forall>r \<in> fst ` set (drop (length l) as). r \<notin> fst ` set l))"

section \<open>From the checks to the declaration\<close>

lemma regs_check_append:
  "regs_check ds a (l @ l') \<longleftrightarrow> regs_check ds a l \<and> regs_check ds (a + 4 * length l) l'"
  by (induction ds a l rule: regs_check.induct) (auto simp: algebra_simps)

lemma regs_check_iff:
  "regs_check ds a l \<longleftrightarrow> (\<forall>i < length l. \<forall>d \<in> set ds. slot_at d (a + 4 * i) \<longrightarrow> bits_declared (ps_shape d) (snd (l ! i)))"
proof (induction ds a l rule: regs_check.induct)
  case (2 ds a r fs l)
  have e: "a + 4 + 4 * i = a + 4 * Suc i" for i by simp
  show ?case unfolding regs_check.simps 2 e length_Cons All_less_Suc2 by (auto simp: list_all_iff)
qed simp

lemma regs_check_nth:
  "regs_check ds 0 l \<Longrightarrow> i < length l \<Longrightarrow> d \<in> set ds \<Longrightarrow> slot_at d (4 * i) \<Longrightarrow> bits_declared (ps_shape d) (snd (l ! i))"
  by (simp add: regs_check_iff)

text \<open>A part of the map concerns only the parameters with slots near it.\<close>

lemma slot_at_near: "slot_at d x \<Longrightarrow> a \<le> x \<Longrightarrow> x < b \<Longrightarrow> slot_near d a b"
  by (cases "ps_chan d")
    (auto simp: slot_at_def slot_near_def ps_count_def ps_offset_def mult.commute split: if_splits)

lemma part_checkD: "part_check ds a l \<Longrightarrow> regs_check ds a l"
  unfolding part_check_def regs_check_iff using slot_at_near [of _ _ a "a + 4 * length l"] by auto

lemma slot_at_slot:
  assumes "c < ps_count d" and "ps_chan d = None \<or> 0 < ps_offset d"
  shows "slot_at d (ps_reg d + c * ps_offset d)"
  using assms by (cases "ps_chan d") (auto simp: slot_at_def ps_count_def ps_offset_def)

lemma slots_in_word:
  assumes "slots_in k n d" and "c < ps_count d"
  obtains i where "ps_reg d + c * ps_offset d = 4 * i" and "i < n" and "i < k \<or> ps_shape d = Whole"
proof -
  let ?a = "ps_reg d + c * ps_offset d"
  have s: "ps_reg d mod 4 = 0" "ps_offset d mod 4 = 0" using assms(1) by (simp_all add: slots_in_def)
  then have "4 dvd ?a" by (metis dvd_add dvd_mult mod_0_imp_dvd)
  then obtain i where i: "?a = 4 * i" by (rule dvdE)
  have "c * ps_offset d \<le> (ps_count d - 1) * ps_offset d" using assms(2) by (intro mult_right_mono) simp_all
  then have "?a \<le> ps_reg d + (ps_count d - 1) * ps_offset d" by simp
  moreover have "ps_reg d + (ps_count d - 1) * ps_offset d < 4 * n"
    "ps_reg d + (ps_count d - 1) * ps_offset d < 4 * k \<or> ps_shape d = Whole"
    using assms(1) unfolding slots_in_def by blast+
  ultimately have "i < n" "i < k \<or> ps_shape d = Whole" using i by auto
  with i show thesis by (rule that)
qed

lemma checks_declare:
  assumes "regs_check ds 0 (concat (wm_layout m))" and "map_in_order m n"
    and "list_all (slots_in (length (concat (wm_layout m))) n) ds"
  shows "list_all (param_declared m) ds"
  unfolding list_all_iff param_declared_def
proof (intro ballI allI impI)
  fix d c
  assume d: "d \<in> set ds" and c: "c < ps_count d"
  let ?l = "concat (wm_layout m)" and ?as = "concat (wm_addrs m)"
  have sl: "slots_in (length ?l) n d" using assms(3) d by (simp add: list_all_iff)
  then obtain i where i: "ps_reg d + c * ps_offset d = 4 * i" "i < n" "i < length ?l \<or> ps_shape d = Whole"
    using c by (rule slots_in_word)
  have o: "n \<le> length ?as" "map snd (take n ?as) = map ((*) 4) [0..<n]" "map fst ?l = take (length ?l) (map fst ?as)"
    "\<forall>r \<in> fst ` set (drop (length ?l) ?as). r \<notin> fst ` set ?l"
    using assms(2) by (simp_all add: map_in_order_def Let_def)
  have "snd (?as ! i) = map snd (take n ?as) ! i" using i(2) o(1) by simp
  then have a: "snd (?as ! i) = 4 * i" using i(2) unfolding o(2) by simp
  have am: "(fst (?as ! i), 4 * i) \<in> set ?as" using i(2) o(1) a by (metis nth_mem order_less_le_trans prod.collapse)
  show "\<exists>r fs. wb_register m r (ps_reg d + c * ps_offset d) fs \<and> bits_declared (ps_shape d) fs"
  proof (cases "i < length ?l")
    case True
    have "fst (?l ! i) = map fst ?l ! i" using True by simp
    also have "\<dots> = fst (?as ! i)" unfolding o(3) using True i(2) o(1) by simp
    finally have "(fst (?as ! i), snd (?l ! i)) \<in> set ?l" using True by (metis nth_mem prod.collapse)
    moreover have "bits_declared (ps_shape d) (snd (?l ! i))"
      using regs_check_nth [OF assms(1) True d] slot_at_slot [OF c] sl i(1) by (simp add: slots_in_def)
    ultimately show ?thesis using am unfolding wb_register_def i(1) by blast
  next
    case False
    have "?as ! i \<in> set (drop (length ?l) ?as)"
      using False i(2) o(1) nth_mem [of "i - length ?l" "drop (length ?l) ?as"] by simp
    then have "fst (?as ! i) \<notin> fst ` set ?l" using o(4) by blast
    moreover have "bits_declared (ps_shape d) []" using i(3) False by (simp add: bits_declared_def)
    ultimately show ?thesis using am unfolding wb_register_def i(1) by blast
  qed
qed

text \<open>Where the registers are not consecutive words, the sections are gone through together with their
  addresses, and every slot is looked up among the addresses.\<close>

fun pass_check :: "(shape \<Rightarrow> wb_field list \<Rightarrow> bool) \<Rightarrow> param_spec list \<Rightarrow> nat list \<Rightarrow> wb_layout \<Rightarrow> bool" where
  "pass_check P ds (a # as) ((_, fs) # l) \<longleftrightarrow>
     list_all (\<lambda>d. if slot_at d a then P (ps_shape d) fs else True) ds \<and> pass_check P ds as l"
| "pass_check P ds _ _ \<longleftrightarrow> True"

definition slots_found :: "(shape \<Rightarrow> wb_field list \<Rightarrow> bool) \<Rightarrow> nat list \<Rightarrow> nat list \<Rightarrow> param_spec \<Rightarrow> bool" where
  "slots_found P as bs d \<longleftrightarrow> (ps_chan d = None \<or> 0 < ps_offset d) \<and>
     list_all (\<lambda>c. if ps_reg d + c * ps_offset d \<in> set as then True
       else ps_reg d + c * ps_offset d \<in> set bs \<and> P (ps_shape d) []) [0..<ps_count d]"

definition sections_named :: "wb_addrs \<Rightarrow> wb_addrs \<Rightarrow> wb_layout \<Rightarrow> bool" where
  "sections_named as bs l \<longleftrightarrow> map fst l = map fst as \<and> (\<forall>r \<in> fst ` set bs. r \<notin> fst ` set l)"

lemma map_in_order_all:
  assumes "map fst (concat (wm_layout m)) = map fst (concat (wm_addrs m))"
    and "take n (map snd (concat (wm_addrs m))) = map ((*) 4) [0..<n]"
  shows "map_in_order m n"
proof -
  have l: "length (concat (wm_layout m)) = length (concat (wm_addrs m))" using arg_cong [OF assms(1), of length] by simp
  have "length (take n (map snd (concat (wm_addrs m)))) = n" unfolding assms(2) by simp
  then have "n \<le> length (concat (wm_addrs m))" unfolding length_take length_map by linarith
  then show ?thesis using assms l by (simp add: map_in_order_def Let_def take_map)
qed

lemma pass_check_nth:
  "pass_check P ds as l \<Longrightarrow> i < length l \<Longrightarrow> i < length as \<Longrightarrow> d \<in> set ds \<Longrightarrow> slot_at d (as ! i) \<Longrightarrow>
     P (ps_shape d) (snd (l ! i))"
proof (induction P ds as l arbitrary: i rule: pass_check.induct)
  case (1 P ds a as r fs l)
  then show ?case by (cases i) (auto simp: list_all_iff)
qed simp_all

lemma pass_declares:
  assumes m: "concat (wm_addrs m) = as @ bs" "concat (wm_layout m) = l" and n: "sections_named as bs l"
    and p: "pass_check P ds (map snd as) l" and f: "list_all (slots_found P (map snd as) (map snd bs)) ds"
    and d: "d \<in> set ds" and c: "c < ps_count d"
  shows "\<exists>r fs. wb_register m r (ps_reg d + c * ps_offset d) fs \<and> P (ps_shape d) fs"
proof -
  let ?a = "ps_reg d + c * ps_offset d"
  have sf: "slots_found P (map snd as) (map snd bs) d" using f d by (simp add: list_all_iff)
  have "map fst l = map fst as" using n unfolding sections_named_def by (rule conjunct1)
  then have len: "length l = length as" by (rule map_eq_imp_length_eq)
  show ?thesis
  proof (cases "?a \<in> set (map snd as)")
    case True
    then obtain i where i: "i < length as" "snd (as ! i) = ?a" by (auto simp: in_set_conv_nth)
    have "slot_at d ?a" using slot_at_slot [OF c] sf by (simp add: slots_found_def)
    with pass_check_nth [OF p _ _ d, of i] i len have "P (ps_shape d) (snd (l ! i))" by simp
    moreover have "fst (l ! i) = fst (as ! i)"
      using n i(1) len by (metis nth_map sections_named_def)
    then have "(fst (as ! i), snd (l ! i)) \<in> set l" using i(1) len by (metis nth_mem prod.collapse)
    moreover have "(fst (as ! i), ?a) \<in> set as" using i by (metis nth_mem prod.collapse)
    ultimately show ?thesis using m by (auto simp: wb_register_def simp del: set_concat)
  next
    case False
    then have "?a \<in> set (map snd bs)" "P (ps_shape d) []"
      using sf c unfolding slots_found_def list_all_iff by (auto split: if_splits)
    moreover then obtain r where r: "(r, ?a) \<in> set bs" by auto
    moreover have "r \<notin> fst ` set l" using n r by (force simp: sections_named_def)
    ultimately show ?thesis using m by (auto simp: wb_register_def simp del: set_concat)
  qed
qed

text \<open>The bits of a parameter, written, leave the fields outside as they were.\<close>

lemma shape_outside:
  assumes "wb_outside (shape_lo sh) (shape_len sh) f" and "0 < wb_bits f" and "wb_pos f + wb_bits f \<le> 32"
    and "sh \<noteq> Whole" and "0 < shape_len sh" and "shape_lo sh + shape_len sh \<le> 32"
  shows "field_get (wb_param f) (field_set (shape_field sh) old v) = field_get (wb_param f) old"
proof -
  have m: "field_mask (shape_field sh) = WBGEN2_GEN_MASK (shape_lo sh) (shape_len sh)"
    using assms(4) by (cases sh) (simp_all add: gen_field_def)
  have w: "field_wf (shape_field sh)"
    using assms(4-6) by (cases sh) (simp_all add: gen_field_wf gen_mask_nonzero)
  show ?thesis
    by (rule field_get_set_other [OF w wb_param_wf [OF assms(2,3)]])
      (unfold m wb_mask, rule gen_mask_apart, use assms(1) in \<open>auto simp: wb_outside_def\<close>)
qed

end
