(* ===== verification/Regs_Params.thy ===== *)
theory Regs_Params
  imports Regs_Facts Reg_Check Sensor_Modules Mod_Parts
begin


































































































section \<open>All modules\<close>











text \<open>C16: the fields of a register are independent. In every register of the eighteen headers under
  include/hw that the modules include (those with the registers of the I2C and SPI masters, which the
  protocols use, are not among them), writing a value that fits to one field reads back as that value and leaves
  every other field of the register as it was, whatever the register held and for single bits as for
  fields of several bits.\<close>

theorem wb_fields_independent:
  assumes "m \<in> set wb_maps" and "l \<in> set (wm_layout m)" and "(r, fs) \<in> set l"
    and "i < length fs" and "v < 2 ^ wb_bits (fs ! i)"
  shows "field_get (wb_param (fs ! i)) (field_set (wb_param (fs ! i)) old v) = v \<and>
    (\<forall>j < length fs. j \<noteq> i \<longrightarrow>
       field_get (wb_param (fs ! j)) (field_set (wb_param (fs ! i)) old v) = field_get (wb_param (fs ! j)) old)"
proof -
  have ok: "fields_ok fs" by (rule map_ok_fields [OF wb_maps_ok [OF assms(1)] assms(2,3)])
  have "0 < wb_bits (fs ! i)" "wb_pos (fs ! i) + wb_bits (fs ! i) \<le> 32"
    using fields_ok_member [OF ok] assms(4) by simp_all
  then show ?thesis using wb_set_back assms(4,5) wb_set_other [OF ok] by simp
qed

theorem wb_fields_independent_witness:
  "field_get (gen_field 8 8) (field_set (gen_field 8 8) 0x1234abcd 0x55) = 0x55 \<and>
   field_get (gen_field 0 8) (field_set (gen_field 8 8) 0x1234abcd 0x55) = field_get (gen_field 0 8) 0x1234abcd"
proof -
  have r: "(''CH0_CFG'', [Wb_Field ''RCV_LEN'' 0 8, Wb_Field ''TRANSM_LEN'' 8 8]) \<in> set trigger_iface_layout1"
    by (simp add: trigger_iface_layout1_def)
  have m: "trigger_iface_map \<in> set wb_maps" "trigger_iface_layout1 \<in> set (wm_layout trigger_iface_map)"
    by (simp_all add: wb_maps_def trigger_iface_map_def)
  show ?thesis
    using wb_fields_independent [OF m r, of 1 "0x55" "0x1234abcd"] by (auto simp: less_Suc_eq)
qed



end
