(* ===== verification/Chip_Maps.thy ===== *)
theory Chip_Maps
  imports Wb_Map Ch_Ad9510 Ch_Isla216p Ch_Ltc2174 Ch_Si57x
begin

text \<open>
  The registers of the chips as tables that follow the headers under include/chips: addresses, fields
  and values in their order. The constants that the drivers use are definitions of their theories; the
  lemmas below show that they are those of the tables.
\<close>

datatype chip_item =
  Chip_Reg string nat
| Chip_Field wb_field
| Chip_Value string nat

fun item_regs :: "chip_item list \<Rightarrow> nat list" where
  "item_regs [] = []"
| "item_regs (Chip_Reg _ a # xs) = a # item_regs xs"
| "item_regs (_ # xs) = item_regs xs"

fun item_masks :: "chip_item list \<Rightarrow> u32 list" where
  "item_masks [] = []"
| "item_masks (Chip_Field f # xs) = WBGEN2_GEN_MASK (wb_pos f) (wb_bits f) # item_masks xs"
| "item_masks (_ # xs) = item_masks xs"

definition ad9510_items1 :: "chip_item list" where
  "ad9510_items1 = [
    Chip_Field (Wb_Bit ''HDR_RW'' 15), Chip_Field (Wb_Field ''HDR_BT'' 13 2),
    Chip_Field (Wb_Field ''HDR_ADDR'' 0 7), Chip_Value ''HDR_ADDR_PAD_SIZE'' 6,
    Chip_Value ''INSTADDR_SIZE'' 16, Chip_Field (Wb_Field ''DATA'' 0 8), Chip_Value ''TRANS_SIZE'' 24,
    Chip_Reg ''REG_CFG_SERIAL'' 0x0, Chip_Field (Wb_Bit ''CFG_SERIAL_LONG_INST'' 4),
    Chip_Field (Wb_Bit ''CFG_SERIAL_SOFT_RST'' 5), Chip_Field (Wb_Bit ''CFG_SERIAL_LSB_FIRST'' 6),
    Chip_Reg ''REG_PLL_A_COUNTER'' 0x4, Chip_Field (Wb_Field ''PLL_A_COUNTER'' 0 6),
    Chip_Reg ''REG_PLL_B_MSB_COUNTER'' 0x5, Chip_Field (Wb_Field ''PLL_B_MSB_COUNTER'' 0 5),
    Chip_Reg ''REG_PLL_B_LSB_COUNTER'' 0x6, Chip_Field (Wb_Field ''PLL_B_LSB_COUNTER'' 0 8),
    Chip_Field (Wb_Field ''PLL_B_COUNTER'' 0 13), Chip_Value ''PLL_B_MIN_VALUE'' 3,
    Chip_Reg ''REG_PLL_1'' 0x7, Chip_Field (Wb_Bit ''PLL_1_LOR_EN'' 2),
    Chip_Field (Wb_Field ''PLL_1_LOR_LOCK_DEL'' 5 2), Chip_Reg ''REG_PLL_2'' 0x8,
    Chip_Field (Wb_Field ''PLL_2_CP_MODE'' 0 2)]"

definition ad9510_items2 :: "chip_item list" where
  "ad9510_items2 = [
    Chip_Field (Wb_Field ''PLL_2_MUX_SEL'' 2 4), Chip_Value ''PLL_2_MUX_SEL_MIN'' 0,
    Chip_Value ''PLL_2_MUX_SEL_MAX'' 15, Chip_Field (Wb_Bit ''PLL_2_PFD_POL_POS'' 6),
    Chip_Reg ''REG_PLL_3'' 0x9, Chip_Field (Wb_Bit ''PLL_3_RST_ALL_CNT'' 0),
    Chip_Field (Wb_Bit ''PLL_3_RST_N_CNT'' 1), Chip_Field (Wb_Bit ''PLL_3_RST_R_CNT'' 2),
    Chip_Field (Wb_Field ''PLL_3_CP_CURRENT'' 4 3), Chip_Value ''PLL3_CP_CURRENT_600'' 600,
    Chip_Value ''PLL3_CP_CURRENT_1200'' 1200, Chip_Value ''PLL3_CP_CURRENT_1800'' 1800,
    Chip_Value ''PLL3_CP_CURRENT_2400'' 2400, Chip_Value ''PLL3_CP_CURRENT_3000'' 3000,
    Chip_Value ''PLL3_CP_CURRENT_3600'' 3600, Chip_Value ''PLL3_CP_CURRENT_4200'' 4200,
    Chip_Value ''PLL3_CP_CURRENT_4800'' 4800, Chip_Value ''PLL3_CP_CURRENT_NUM'' 8,
    Chip_Value ''PLL3_CP_CURRENT_MIN'' 600, Chip_Value ''PLL3_CP_CURRENT_MAX'' 4800,
    Chip_Reg ''REG_PLL_4'' 0xa, Chip_Field (Wb_Field ''PLL_4_PLL_PDOWN'' 0 2),
    Chip_Value ''PLL_PDOWN_NORMAL_OP1'' 0, Chip_Value ''PLL_PDOWN_ASYNC'' 1,
    Chip_Value ''PLL_PDOWN_NORMAL_OP2'' 2, Chip_Value ''PLL_PDOWN_SYNC'' 3,
    Chip_Value ''PLL_PDOWN_MAX_VAL'' 3, Chip_Field (Wb_Field ''PLL_4_PRESCALER_P'' 2 3),
    Chip_Field (Wb_Bit ''PLL_4_B_BYPASS'' 6), Chip_Reg ''REG_PLL_R_MSB_COUNTER'' 0xb,
    Chip_Field (Wb_Field ''PLL_R_MSB_COUNTER'' 0 6), Chip_Reg ''REG_PLL_R_LSB_COUNTER'' 0xc,
    Chip_Field (Wb_Field ''PLL_R_LSB_COUNTER'' 0 8), Chip_Field (Wb_Field ''PLL_R_COUNTER'' 0 14),
    Chip_Reg ''REG_PLL_5'' 0xd, Chip_Field (Wb_Field ''PLL_5_ANTI_BL_PW'' 0 2),
    Chip_Field (Wb_Bit ''PLL_5_DIG_LOCK_DET_WDW'' 5), Chip_Field (Wb_Bit ''PLL_5_DIG_LOCK_DET_EN'' 6),
    Chip_Reg ''REG_LVPECL_OUT0'' 0x3c, Chip_Reg ''REG_LVPECL_OUT1'' 0x3d,
    Chip_Reg ''REG_LVPECL_OUT2'' 0x3e]"

definition ad9510_items3 :: "chip_item list" where
  "ad9510_items3 = [
    Chip_Reg ''REG_LVPECL_OUT3'' 0x3f, Chip_Field (Wb_Field ''LVPECL_OUT_PDOWN'' 0 2),
    Chip_Field (Wb_Field ''LVPECL_OUT_LVL'' 2 2), Chip_Reg ''REG_LVDS_CMOS_OUT4'' 0x40,
    Chip_Reg ''REG_LVDS_CMOS_OUT5'' 0x41, Chip_Reg ''REG_LVDS_CMOS_OUT6'' 0x42,
    Chip_Reg ''REG_LVDS_CMOS_OUT7'' 0x43, Chip_Field (Wb_Bit ''LVDS_CMOS_PDOWN'' 0),
    Chip_Field (Wb_Field ''LVDS_CMOS_CURR'' 1 2), Chip_Field (Wb_Bit ''LVDS_CMOS_SELECT'' 3),
    Chip_Field (Wb_Bit ''LVDS_CMOS_INV_CMOS'' 4), Chip_Reg ''REG_OUTPUT_START'' 0x3c,
    Chip_Value ''NUM_LVPECL_OUTPUTS'' 4, Chip_Value ''NUM_LVDS_LVCMOS_OUTPUTS'' 4,
    Chip_Value ''NUM_OUTPUTS'' 8, Chip_Field (Wb_Field ''OUTPUT_EN'' 0 8),
    Chip_Field (Wb_Field ''OUTPUT_EN_LSB'' 0 1), Chip_Reg ''REG_CLK_OPT'' 0x45,
    Chip_Field (Wb_Bit ''CLK_OPT_SEL_CLK1'' 0), Chip_Field (Wb_Bit ''CLK_OPT_CLK1_PD'' 1),
    Chip_Field (Wb_Bit ''CLK_OPT_CLK2_PD'' 2), Chip_Field (Wb_Bit ''CLK_OPT_PS_PD'' 3),
    Chip_Field (Wb_Bit ''CLK_OPT_REFIN_PD'' 4), Chip_Field (Wb_Bit ''CLK_OPT_ALLCLKS_PD'' 5),
    Chip_Value ''PLL_NUM_PLL_CLKS'' 2, Chip_Value ''PLL_CLK1_SEL'' 1, Chip_Value ''PLL_CLK2_SEL'' 2,
    Chip_Value ''PLL_CLK_MIN_SEL'' 1, Chip_Value ''PLL_CLK_MAX_SEL'' 2,
    Chip_Reg ''REG_DIV0_DCYCLE'' 0x48, Chip_Reg ''REG_DIV1_DCYCLE'' 0x4a,
    Chip_Reg ''REG_DIV2_DCYCLE'' 0x4c, Chip_Reg ''REG_DIV3_DCYCLE'' 0x4e,
    Chip_Reg ''REG_DIV4_DCYCLE'' 0x50, Chip_Reg ''REG_DIV5_DCYCLE'' 0x52,
    Chip_Reg ''REG_DIV6_DCYCLE'' 0x54, Chip_Reg ''REG_DIV7_DCYCLE'' 0x56,
    Chip_Field (Wb_Field ''DIV_DCYCLE_HIGH'' 0 4), Chip_Field (Wb_Field ''DIV_DCYCLE_LOW'' 4 4),
    Chip_Reg ''REG_DIV0_OPT'' 0x49, Chip_Reg ''REG_DIV1_OPT'' 0x4b, Chip_Reg ''REG_DIV2_OPT'' 0x4d,
    Chip_Reg ''REG_DIV3_OPT'' 0x4f, Chip_Reg ''REG_DIV4_OPT'' 0x51]"

definition ad9510_items4 :: "chip_item list" where
  "ad9510_items4 = [
    Chip_Reg ''REG_DIV5_OPT'' 0x53, Chip_Reg ''REG_DIV6_OPT'' 0x55, Chip_Reg ''REG_DIV7_OPT'' 0x57,
    Chip_Field (Wb_Field ''DIV_OPT_PHASE'' 0 4), Chip_Field (Wb_Bit ''DIV_START_HIGH'' 4),
    Chip_Field (Wb_Bit ''DIV_FORCE'' 5), Chip_Field (Wb_Bit ''DIV_IGN_CHIP_SYNC'' 6),
    Chip_Field (Wb_Bit ''DIV_BYPASS'' 7), Chip_Reg ''REG_UPDATE_REGS'' 0x5a,
    Chip_Field (Wb_Bit ''UPDATE_REGS_VAL'' 0), Chip_Reg ''REG_FUNCTION'' 0x58,
    Chip_Field (Wb_Bit ''FUNCTION_SYNC_EN'' 0), Chip_Field (Wb_Bit ''FUNCTION_SYNC_SEL'' 1),
    Chip_Field (Wb_Bit ''FUNCTION_SYNC_REG'' 2), Chip_Field (Wb_Bit ''FUNCTION_REF_PD'' 3),
    Chip_Field (Wb_Bit ''FUNCTION_SYNC_PD'' 4), Chip_Field (Wb_Field ''FUNCTION_FUNC_SEL'' 5 2)]"

definition isla216p_items1 :: "chip_item list" where
  "isla216p_items1 = [
    Chip_Field (Wb_Bit ''HDR_RW'' 15), Chip_Field (Wb_Field ''HDR_BT'' 13 2),
    Chip_Field (Wb_Field ''HDR_ADDR'' 0 13), Chip_Value ''INSTADDR_SIZE'' 16,
    Chip_Field (Wb_Field ''DATA'' 0 8), Chip_Value ''TRANS_SIZE'' 24, Chip_Reg ''REG_PORTCONFIG'' 0x0,
    Chip_Field (Wb_Bit ''PORTCONFIG_SDO_ACTIVE_LSB'' 0),
    Chip_Field (Wb_Bit ''PORTCONFIG_LSB_FIRST_LSB'' 1),
    Chip_Field (Wb_Bit ''PORTCONFIG_SOFT_RESET_LSB'' 2),
    Chip_Field (Wb_Bit ''PORTCONFIG_SOFT_RESET_MSB'' 5),
    Chip_Field (Wb_Bit ''PORTCONFIG_MSB_FIRST_MSB'' 6),
    Chip_Field (Wb_Bit ''PORTCONFIG_SDO_ACTIVE_MSB'' 7), Chip_Reg ''REG_SPI_BURSTEND'' 0x2,
    Chip_Reg ''REG_CHIPID'' 0x8, Chip_Field (Wb_Field ''CHIPID'' 0 8), Chip_Reg ''REG_CHIPVER'' 0x9,
    Chip_Field (Wb_Field ''CHIPVER'' 0 8), Chip_Reg ''REG_MODESADC0'' 0x25,
    Chip_Reg ''REG_MODESADC1'' 0x2b, Chip_Reg ''REG_CLKDIV'' 0x72, Chip_Reg ''REG_OUTMODEA'' 0x73,
    Chip_Field (Wb_Field ''OUTMODEA_FMT'' 0 3), Chip_Value ''OUTMODEA_FMT_2COMPL'' 0,
    Chip_Value ''OUTMODEA_FMT_GRAYCODE'' 2, Chip_Value ''OUTMODEA_FMT_OFSBIN'' 4]"

definition isla216p_items2 :: "chip_item list" where
  "isla216p_items2 = [
    Chip_Field (Wb_Field ''OUTMODEA_MODE'' 5 3), Chip_Value ''OUTMODA_MODE_LVDS3'' 0,
    Chip_Value ''OUTMODA_MODE_LVDS2'' 1, Chip_Value ''OUTMODA_MODE_LVCMOS'' 4,
    Chip_Value ''OUTMODEB_REG'' 116, Chip_Reg ''REG_CALSTATUS'' 0xb6,
    Chip_Field (Wb_Bit ''CALCSTATUS_CALCDONE'' 0), Chip_Reg ''REG_TESTIO'' 0xc0,
    Chip_Field (Wb_Field ''TESTIO_USRMODE'' 0 3), Chip_Value ''TESTIO_USRMODE_USRPAT1'' 0,
    Chip_Value ''TESTIO_USRMODE_CYCPAT13'' 1, Chip_Value ''TESTIO_USRMODE_CYCPAT135'' 2,
    Chip_Value ''TESTIO_USRMODE_CYCPAT1357'' 3, Chip_Field (Wb_Field ''TESTIO_OUTMODE'' 4 4),
    Chip_Value ''TESTIO_OUTMODE_OFF'' 0, Chip_Value ''TESTIO_OUTMODE_MIDSHORT'' 1,
    Chip_Value ''TESTIO_OUTMODE_PLUS_FSSHORT'' 2, Chip_Value ''TESTIO_OUTMODE_MINUS_FSSHORT'' 3,
    Chip_Value ''TESTIO_OUTMODE_RES0'' 4, Chip_Value ''TESTIO_OUTMODE_RES1'' 5,
    Chip_Value ''TESTIO_OUTMODE_RES2'' 6, Chip_Value ''TESTIO_OUTMODE_RES3'' 7,
    Chip_Value ''TESTIO_OUTMODE_USRPAT'' 8, Chip_Value ''TESTIO_OUTMODE_RES4'' 9,
    Chip_Value ''TESTIO_OUTMODE_RAMP'' 10, Chip_Value ''TESTIO_OUTMODE_RES5'' 11,
    Chip_Value ''TESTIO_OUTMODE_RES6'' 12, Chip_Value ''TESTIO_OUTMODE_RES7'' 13,
    Chip_Value ''TESTIO_OUTMODE_RES8'' 14, Chip_Value ''TESTIO_OUTMODE_RES9'' 15,
    Chip_Reg ''REG_NAPSLP'' 0x25, Chip_Field (Wb_Field ''NAPSLP'' 0 3),
    Chip_Value ''NAPSLP_PIN_CONTROL'' 0, Chip_Value ''NAPSLP_NORMAL_OPERATION'' 1,
    Chip_Value ''NAPSLP_NAP_MODE'' 2, Chip_Value ''NAPSLP_SLEEP_MODE'' 4,
    Chip_Reg ''REG_TEMP_COUNTER_HIGH'' 0x4b, Chip_Field (Wb_Field ''TEMP_COUNTER_HIGH'' 0 3),
    Chip_Field (Wb_Bit ''TEMP_CTL_VALID_READ'' 7), Chip_Reg ''REG_TEMP_COUNTER_LOW'' 0x4c,
    Chip_Field (Wb_Field ''TEMP_COUNTER_LOW'' 0 8), Chip_Field (Wb_Field ''TEMP_COUNTER'' 0 11),
    Chip_Reg ''REG_TEMP_CTL'' 0x4d, Chip_Field (Wb_Bit ''TEMP_CTL_SELECT'' 0),
    Chip_Field (Wb_Field ''TEMP_CTL_DIVIDER'' 1 3), Chip_Value ''TEMP_CTL_DIVIDER_REC_VALUE'' 5]"

definition isla216p_items3 :: "chip_item list" where
  "isla216p_items3 = [
    Chip_Field (Wb_Bit ''TEMP_CTL_RESET'' 4), Chip_Field (Wb_Bit ''TEMP_CTL_PD'' 5),
    Chip_Field (Wb_Bit ''TEMP_CTL_ENABLE'' 6), Chip_Field (Wb_Bit ''TEMP_CTL_PTAT_MODE_EN'' 7)]"

definition ltc2174_items1 :: "chip_item list" where
  "ltc2174_items1 = [
    Chip_Field (Wb_Bit ''HDR_RW'' 7), Chip_Field (Wb_Field ''HDR_ADDR'' 0 7),
    Chip_Value ''HDR_ADDR_PAD_SIZE'' 0, Chip_Value ''INSTADDR_SIZE'' 8,
    Chip_Field (Wb_Field ''DATA'' 0 8), Chip_Value ''TRANS_SIZE'' 16, Chip_Reg ''REG_RESET'' 0x0,
    Chip_Field (Wb_Bit ''RESET_EN'' 7), Chip_Reg ''REG_FORMAT_PDOWN'' 0x1,
    Chip_Field (Wb_Bit ''FORMAT_PDOWN_TWOS_COMPL'' 5), Chip_Reg ''REG_TEST_PATT_MSB'' 0x3,
    Chip_Field (Wb_Bit ''TEST_PATT_OUTTEST'' 7), Chip_Field (Wb_Field ''TEST_PATT_MSB'' 0 6),
    Chip_Reg ''REG_TEST_PATT_LSB'' 0x4, Chip_Field (Wb_Field ''TEST_PATT_LSB'' 0 8)]"

definition si57x_items1 :: "chip_item list" where
  "si57x_items1 = [
    Chip_Value ''ADDR_TRANS_SIZE'' 8, Chip_Value ''DATA_TRANS_SIZE'' 8,
    Chip_Value ''BYTE_TRANS_SIZE'' 16, Chip_Value ''DATA_BYTES_MAX'' 32,
    Chip_Value ''TRANS_SIZE_MAX'' 264, Chip_Value ''FOUT_FACTORY_DFLT'' 155490000,
    Chip_Value ''MIN_FREQ'' 10000000, Chip_Value ''MAX_FREQ'' 1417500000,
    Chip_Value ''FDCO_MIN'' 4850000000, Chip_Value ''FDCO_MAX'' 5670000000, Chip_Reg ''REG_HS_N1'' 0x7,
    Chip_Field (Wb_Field ''HS_N1_N1_6_2'' 0 5), Chip_Field (Wb_Field ''HS_N1_HS'' 5 3),
    Chip_Value ''HS_N1_HS_OFFSET'' 4, Chip_Reg ''REG_N1_RFREQ0'' 0x8,
    Chip_Field (Wb_Field ''N1_RFREQ0_RFREQ_37_32'' 0 6), Chip_Field (Wb_Field ''N1_RFREQ0_N1_1_0'' 6 2),
    Chip_Value ''HS_N1_N1_6_2_SHIFT_MSB'' 2, Chip_Reg ''REG_RFREQ1'' 0x9,
    Chip_Field (Wb_Field ''RFREQ1_RFREQ_31_24'' 0 8), Chip_Field (Wb_Field ''RFREQ1_RFREQ_31_28'' 0 4),
    Chip_Field (Wb_Field ''RFREQ1_RFREQ_27_24'' 4 4), Chip_Reg ''REG_RFREQ2'' 0xa,
    Chip_Field (Wb_Field ''RFREQ2_RFREQ_23_16'' 0 8), Chip_Reg ''REG_RFREQ3'' 0xb,
    Chip_Field (Wb_Field ''RFREQ3_RFREQ_15_8'' 0 8), Chip_Reg ''REG_RFREQ4'' 0xc,
    Chip_Field (Wb_Field ''RFREQ4_RFREQ_7_0'' 0 8), Chip_Value ''RFREQ_FRAC_SIZE'' 28,
    Chip_Value ''RFREQ_INTEGER_SIZE'' 10, Chip_Reg ''REG_CONTROL'' 0x87,
    Chip_Field (Wb_Bit ''CONTROL_RECALL'' 0), Chip_Field (Wb_Bit ''CONTROL_FREEZE_ADC'' 4),
    Chip_Field (Wb_Bit ''CONTROL_FREEZE_M'' 5), Chip_Field (Wb_Bit ''CONTROL_NEWFREQ'' 6)]"

definition si57x_items2 :: "chip_item list" where
  "si57x_items2 = [
    Chip_Field (Wb_Bit ''CONTROL_RESET'' 7), Chip_Reg ''REG_FREEZE_DCO'' 0x89,
    Chip_Field (Wb_Bit ''FREEZE_DCO'' 4), Chip_Reg ''REG_START'' 0x7, Chip_Value ''NUM_DIV_REGS'' 6,
    Chip_Value ''NUM_RFREQ_REGS'' 5]"

section \<open>The constants of the drivers\<close>

lemma ad9510_items1_regs:
  "item_regs ad9510_items1 = map unat
    [AD9510_REG_CFG_SERIAL,
     AD9510_REG_PLL_A_COUNTER,
     AD9510_REG_PLL_B_MSB_COUNTER,
     AD9510_REG_PLL_B_LSB_COUNTER,
     AD9510_REG_PLL_1,
     AD9510_REG_PLL_2]"
  by (simp add: ad9510_items1_def AD9510_REG_CFG_SERIAL_def
    AD9510_REG_PLL_A_COUNTER_def
    AD9510_REG_PLL_B_MSB_COUNTER_def
    AD9510_REG_PLL_B_LSB_COUNTER_def
    AD9510_REG_PLL_1_def
    AD9510_REG_PLL_2_def)

lemma ad9510_items1_masks:
  "item_masks ad9510_items1 =
    [AD9510_HDR_RW,
     AD9510_HDR_BT_MASK,
     AD9510_HDR_ADDR_MASK,
     AD9510_DATA_MASK,
     AD9510_CFG_SERIAL_LONG_INST,
     AD9510_CFG_SERIAL_SOFT_RST,
     AD9510_CFG_SERIAL_LSB_FIRST,
     AD9510_PLL_A_COUNTER_MASK,
     AD9510_PLL_B_MSB_COUNTER_MASK,
     AD9510_PLL_B_LSB_COUNTER_MASK,
     AD9510_PLL_B_COUNTER_MASK,
     AD9510_PLL_1_LOR_EN,
     AD9510_PLL_1_LOR_LOCK_DEL_MASK,
     AD9510_PLL_2_CP_MODE_MASK]"
  by (simp add: ad9510_items1_def AD9510_HDR_RW_def
    AD9510_HDR_BT_MASK_def
    AD9510_HDR_ADDR_MASK_def
    AD9510_DATA_MASK_def
    AD9510_CFG_SERIAL_LONG_INST_def
    AD9510_CFG_SERIAL_SOFT_RST_def
    AD9510_CFG_SERIAL_LSB_FIRST_def
    AD9510_PLL_A_COUNTER_MASK_def
    AD9510_PLL_B_MSB_COUNTER_MASK_def
    AD9510_PLL_B_LSB_COUNTER_MASK_def
    AD9510_PLL_B_COUNTER_MASK_def
    AD9510_PLL_1_LOR_EN_def
    AD9510_PLL_1_LOR_LOCK_DEL_MASK_def
    AD9510_PLL_2_CP_MODE_MASK_def)

lemma ad9510_items2_regs:
  "item_regs ad9510_items2 = map unat
    [AD9510_REG_PLL_3,
     AD9510_REG_PLL_4,
     AD9510_REG_PLL_R_MSB_COUNTER,
     AD9510_REG_PLL_R_LSB_COUNTER,
     AD9510_REG_PLL_5,
     AD9510_REG_LVPECL_OUT0,
     AD9510_REG_LVPECL_OUT1,
     AD9510_REG_LVPECL_OUT2]"
  by (simp add: ad9510_items2_def AD9510_REG_PLL_3_def
    AD9510_REG_PLL_4_def
    AD9510_REG_PLL_R_MSB_COUNTER_def
    AD9510_REG_PLL_R_LSB_COUNTER_def
    AD9510_REG_PLL_5_def
    AD9510_REG_LVPECL_OUT0_def
    AD9510_REG_LVPECL_OUT1_def
    AD9510_REG_LVPECL_OUT2_def)

lemma ad9510_items2_masks:
  "item_masks ad9510_items2 =
    [AD9510_PLL_2_MUX_SEL_MASK,
     AD9510_PLL_2_PFD_POL_POS,
     AD9510_PLL_3_RST_ALL_CNT,
     AD9510_PLL_3_RST_N_CNT,
     AD9510_PLL_3_RST_R_CNT,
     AD9510_PLL_3_CP_CURRENT_MASK,
     AD9510_PLL_4_PLL_PDOWN_MASK,
     AD9510_PLL_4_PRESCALER_P_MASK,
     AD9510_PLL_4_B_BYPASS,
     AD9510_PLL_R_MSB_COUNTER_MASK,
     AD9510_PLL_R_LSB_COUNTER_MASK,
     AD9510_PLL_R_COUNTER_MASK,
     AD9510_PLL_5_ANTI_BL_PW_MASK,
     AD9510_PLL_5_DIG_LOCK_DET_WDW,
     AD9510_PLL_5_DIG_LOCK_DET_EN]"
  by (simp add: ad9510_items2_def AD9510_PLL_2_MUX_SEL_MASK_def
    AD9510_PLL_2_PFD_POL_POS_def
    AD9510_PLL_3_RST_ALL_CNT_def
    AD9510_PLL_3_RST_N_CNT_def
    AD9510_PLL_3_RST_R_CNT_def
    AD9510_PLL_3_CP_CURRENT_MASK_def
    AD9510_PLL_4_PLL_PDOWN_MASK_def
    AD9510_PLL_4_PRESCALER_P_MASK_def
    AD9510_PLL_4_B_BYPASS_def
    AD9510_PLL_R_MSB_COUNTER_MASK_def
    AD9510_PLL_R_LSB_COUNTER_MASK_def
    AD9510_PLL_R_COUNTER_MASK_def
    AD9510_PLL_5_ANTI_BL_PW_MASK_def
    AD9510_PLL_5_DIG_LOCK_DET_WDW_def
    AD9510_PLL_5_DIG_LOCK_DET_EN_def)

lemma ad9510_items3_regs:
  "item_regs ad9510_items3 = map unat
    [AD9510_REG_LVPECL_OUT3,
     AD9510_REG_LVDS_CMOS_OUT4,
     AD9510_REG_LVDS_CMOS_OUT5,
     AD9510_REG_LVDS_CMOS_OUT6,
     AD9510_REG_LVDS_CMOS_OUT7,
     AD9510_REG_OUTPUT_START,
     AD9510_REG_CLK_OPT,
     AD9510_REG_DIV0_DCYCLE,
     AD9510_REG_DIV1_DCYCLE,
     AD9510_REG_DIV2_DCYCLE,
     AD9510_REG_DIV3_DCYCLE,
     AD9510_REG_DIV4_DCYCLE,
     AD9510_REG_DIV5_DCYCLE,
     AD9510_REG_DIV6_DCYCLE,
     AD9510_REG_DIV7_DCYCLE,
     AD9510_REG_DIV0_OPT,
     AD9510_REG_DIV1_OPT,
     AD9510_REG_DIV2_OPT,
     AD9510_REG_DIV3_OPT,
     AD9510_REG_DIV4_OPT]"
  by (simp add: ad9510_items3_def AD9510_REG_LVPECL_OUT3_def
    AD9510_REG_LVDS_CMOS_OUT4_def
    AD9510_REG_LVDS_CMOS_OUT5_def
    AD9510_REG_LVDS_CMOS_OUT6_def
    AD9510_REG_LVDS_CMOS_OUT7_def
    AD9510_REG_OUTPUT_START_def
    AD9510_REG_CLK_OPT_def
    AD9510_REG_DIV0_DCYCLE_def
    AD9510_REG_DIV1_DCYCLE_def
    AD9510_REG_DIV2_DCYCLE_def
    AD9510_REG_DIV3_DCYCLE_def
    AD9510_REG_DIV4_DCYCLE_def
    AD9510_REG_DIV5_DCYCLE_def
    AD9510_REG_DIV6_DCYCLE_def
    AD9510_REG_DIV7_DCYCLE_def
    AD9510_REG_DIV0_OPT_def
    AD9510_REG_DIV1_OPT_def
    AD9510_REG_DIV2_OPT_def
    AD9510_REG_DIV3_OPT_def
    AD9510_REG_DIV4_OPT_def)

lemma ad9510_items3_masks:
  "item_masks ad9510_items3 =
    [AD9510_LVPECL_OUT_PDOWN_MASK,
     AD9510_LVPECL_OUT_LVL_MASK,
     AD9510_LVDS_CMOS_PDOWN,
     AD9510_LVDS_CMOS_CURR_MASK,
     AD9510_LVDS_CMOS_SELECT,
     AD9510_LVDS_CMOS_INV_CMOS,
     AD9510_OUTPUT_EN_MASK,
     AD9510_OUTPUT_EN_LSB_MASK,
     AD9510_CLK_OPT_SEL_CLK1,
     AD9510_CLK_OPT_CLK1_PD,
     AD9510_CLK_OPT_CLK2_PD,
     AD9510_CLK_OPT_PS_PD,
     AD9510_CLK_OPT_REFIN_PD,
     AD9510_CLK_OPT_ALLCLKS_PD,
     AD9510_DIV_DCYCLE_HIGH_MASK,
     AD9510_DIV_DCYCLE_LOW_MASK]"
  by (simp add: ad9510_items3_def AD9510_LVPECL_OUT_PDOWN_MASK_def
    AD9510_LVPECL_OUT_LVL_MASK_def
    AD9510_LVDS_CMOS_PDOWN_def
    AD9510_LVDS_CMOS_CURR_MASK_def
    AD9510_LVDS_CMOS_SELECT_def
    AD9510_LVDS_CMOS_INV_CMOS_def
    AD9510_OUTPUT_EN_MASK_def
    AD9510_OUTPUT_EN_LSB_MASK_def
    AD9510_CLK_OPT_SEL_CLK1_def
    AD9510_CLK_OPT_CLK1_PD_def
    AD9510_CLK_OPT_CLK2_PD_def
    AD9510_CLK_OPT_PS_PD_def
    AD9510_CLK_OPT_REFIN_PD_def
    AD9510_CLK_OPT_ALLCLKS_PD_def
    AD9510_DIV_DCYCLE_HIGH_MASK_def
    AD9510_DIV_DCYCLE_LOW_MASK_def)

lemma ad9510_items4_regs:
  "item_regs ad9510_items4 = map unat
    [AD9510_REG_DIV5_OPT,
     AD9510_REG_DIV6_OPT,
     AD9510_REG_DIV7_OPT,
     AD9510_REG_UPDATE_REGS,
     AD9510_REG_FUNCTION]"
  by (simp add: ad9510_items4_def AD9510_REG_DIV5_OPT_def
    AD9510_REG_DIV6_OPT_def
    AD9510_REG_DIV7_OPT_def
    AD9510_REG_UPDATE_REGS_def
    AD9510_REG_FUNCTION_def)

lemma ad9510_items4_masks:
  "item_masks ad9510_items4 =
    [AD9510_DIV_OPT_PHASE_MASK,
     AD9510_DIV_START_HIGH,
     AD9510_DIV_FORCE,
     AD9510_DIV_IGN_CHIP_SYNC,
     AD9510_DIV_BYPASS,
     AD9510_UPDATE_REGS_VAL,
     AD9510_FUNCTION_SYNC_EN,
     AD9510_FUNCTION_SYNC_SEL,
     AD9510_FUNCTION_SYNC_REG,
     AD9510_FUNCTION_REF_PD,
     AD9510_FUNCTION_SYNC_PD,
     AD9510_FUNCTION_FUNC_SEL_MASK]"
  by (simp add: ad9510_items4_def AD9510_DIV_OPT_PHASE_MASK_def
    AD9510_DIV_START_HIGH_def
    AD9510_DIV_FORCE_def
    AD9510_DIV_IGN_CHIP_SYNC_def
    AD9510_DIV_BYPASS_def
    AD9510_UPDATE_REGS_VAL_def
    AD9510_FUNCTION_SYNC_EN_def
    AD9510_FUNCTION_SYNC_SEL_def
    AD9510_FUNCTION_SYNC_REG_def
    AD9510_FUNCTION_REF_PD_def
    AD9510_FUNCTION_SYNC_PD_def
    AD9510_FUNCTION_FUNC_SEL_MASK_def)

lemma isla216p_items1_regs:
  "item_regs isla216p_items1 = map unat
    [ISLA216P_REG_PORTCONFIG,
     ISLA216P_REG_SPI_BURSTEND,
     ISLA216P_REG_CHIPID,
     ISLA216P_REG_CHIPVER,
     ISLA216P_REG_MODESADC0,
     ISLA216P_REG_MODESADC1,
     ISLA216P_REG_CLKDIV,
     ISLA216P_REG_OUTMODEA]"
  by (simp add: isla216p_items1_def ISLA216P_REG_PORTCONFIG_def
    ISLA216P_REG_SPI_BURSTEND_def
    ISLA216P_REG_CHIPID_def
    ISLA216P_REG_CHIPVER_def
    ISLA216P_REG_MODESADC0_def
    ISLA216P_REG_MODESADC1_def
    ISLA216P_REG_CLKDIV_def
    ISLA216P_REG_OUTMODEA_def)

lemma isla216p_items1_masks:
  "item_masks isla216p_items1 =
    [ISLA216P_HDR_RW,
     ISLA216P_HDR_BT_MASK,
     ISLA216P_HDR_ADDR_MASK,
     ISLA216P_DATA_MASK,
     ISLA216P_PORTCONFIG_SDO_ACTIVE_LSB,
     ISLA216P_PORTCONFIG_LSB_FIRST_LSB,
     ISLA216P_PORTCONFIG_SOFT_RESET_LSB,
     ISLA216P_PORTCONFIG_SOFT_RESET_MSB,
     ISLA216P_PORTCONFIG_MSB_FIRST_MSB,
     ISLA216P_PORTCONFIG_SDO_ACTIVE_MSB,
     ISLA216P_CHIPID_MASK,
     ISLA216P_CHIPVER_MASK,
     ISLA216P_OUTMODEA_FMT_MASK]"
  by (simp add: isla216p_items1_def ISLA216P_HDR_RW_def
    ISLA216P_HDR_BT_MASK_def
    ISLA216P_HDR_ADDR_MASK_def
    ISLA216P_DATA_MASK_def
    ISLA216P_PORTCONFIG_SDO_ACTIVE_LSB_def
    ISLA216P_PORTCONFIG_LSB_FIRST_LSB_def
    ISLA216P_PORTCONFIG_SOFT_RESET_LSB_def
    ISLA216P_PORTCONFIG_SOFT_RESET_MSB_def
    ISLA216P_PORTCONFIG_MSB_FIRST_MSB_def
    ISLA216P_PORTCONFIG_SDO_ACTIVE_MSB_def
    ISLA216P_CHIPID_MASK_def
    ISLA216P_CHIPVER_MASK_def
    ISLA216P_OUTMODEA_FMT_MASK_def)

lemma isla216p_items2_regs:
  "item_regs isla216p_items2 = map unat
    [ISLA216P_REG_CALSTATUS,
     ISLA216P_REG_TESTIO,
     ISLA216P_REG_NAPSLP,
     ISLA216P_REG_TEMP_COUNTER_HIGH,
     ISLA216P_REG_TEMP_COUNTER_LOW,
     ISLA216P_REG_TEMP_CTL]"
  by (simp add: isla216p_items2_def ISLA216P_REG_CALSTATUS_def
    ISLA216P_REG_TESTIO_def
    ISLA216P_REG_NAPSLP_def
    ISLA216P_REG_TEMP_COUNTER_HIGH_def
    ISLA216P_REG_TEMP_COUNTER_LOW_def
    ISLA216P_REG_TEMP_CTL_def)

lemma isla216p_items2_masks:
  "item_masks isla216p_items2 =
    [ISLA216P_OUTMODEA_MODE_MASK,
     ISLA216P_CALCSTATUS_CALCDONE,
     ISLA216P_TESTIO_USRMODE_MASK,
     ISLA216P_TESTIO_OUTMODE_MASK,
     ISLA216P_NAPSLP_MASK,
     ISLA216P_TEMP_COUNTER_HIGH_MASK,
     ISLA216P_TEMP_CTL_VALID_READ,
     ISLA216P_TEMP_COUNTER_LOW_MASK,
     ISLA216P_TEMP_COUNTER_MASK,
     ISLA216P_TEMP_CTL_SELECT,
     ISLA216P_TEMP_CTL_DIVIDER_MASK]"
  by (simp add: isla216p_items2_def ISLA216P_OUTMODEA_MODE_MASK_def
    ISLA216P_CALCSTATUS_CALCDONE_def
    ISLA216P_TESTIO_USRMODE_MASK_def
    ISLA216P_TESTIO_OUTMODE_MASK_def
    ISLA216P_NAPSLP_MASK_def
    ISLA216P_TEMP_COUNTER_HIGH_MASK_def
    ISLA216P_TEMP_CTL_VALID_READ_def
    ISLA216P_TEMP_COUNTER_LOW_MASK_def
    ISLA216P_TEMP_COUNTER_MASK_def
    ISLA216P_TEMP_CTL_SELECT_def
    ISLA216P_TEMP_CTL_DIVIDER_MASK_def)

lemma isla216p_items3_masks:
  "item_masks isla216p_items3 =
    [ISLA216P_TEMP_CTL_RESET,
     ISLA216P_TEMP_CTL_PD,
     ISLA216P_TEMP_CTL_ENABLE,
     ISLA216P_TEMP_CTL_PTAT_MODE_EN]"
  by (simp add: isla216p_items3_def ISLA216P_TEMP_CTL_RESET_def
    ISLA216P_TEMP_CTL_PD_def
    ISLA216P_TEMP_CTL_ENABLE_def
    ISLA216P_TEMP_CTL_PTAT_MODE_EN_def)

lemma ltc2174_items1_regs:
  "item_regs ltc2174_items1 = map unat
    [LTC2174_REG_RESET,
     LTC2174_REG_FORMAT_PDOWN,
     LTC2174_REG_TEST_PATT_MSB,
     LTC2174_REG_TEST_PATT_LSB]"
  by (simp add: ltc2174_items1_def LTC2174_REG_RESET_def
    LTC2174_REG_FORMAT_PDOWN_def
    LTC2174_REG_TEST_PATT_MSB_def
    LTC2174_REG_TEST_PATT_LSB_def)

lemma ltc2174_items1_masks:
  "item_masks ltc2174_items1 =
    [LTC2174_HDR_RW,
     LTC2174_HDR_ADDR_MASK,
     LTC2174_DATA_MASK,
     LTC2174_RESET_EN,
     LTC2174_FORMAT_PDOWN_TWOS_COMPL,
     LTC2174_TEST_PATT_OUTTEST,
     LTC2174_TEST_PATT_MSB_MASK,
     LTC2174_TEST_PATT_LSB_MASK]"
  by (simp add: ltc2174_items1_def LTC2174_HDR_RW_def
    LTC2174_HDR_ADDR_MASK_def
    LTC2174_DATA_MASK_def
    LTC2174_RESET_EN_def
    LTC2174_FORMAT_PDOWN_TWOS_COMPL_def
    LTC2174_TEST_PATT_OUTTEST_def
    LTC2174_TEST_PATT_MSB_MASK_def
    LTC2174_TEST_PATT_LSB_MASK_def)

lemma si57x_items1_regs:
  "item_regs si57x_items1 = map unat
    [SI57X_REG_HS_N1,
     SI57X_REG_N1_RFREQ0,
     SI57X_REG_RFREQ1,
     SI57X_REG_RFREQ2,
     SI57X_REG_RFREQ3,
     SI57X_REG_RFREQ4,
     SI57X_REG_CONTROL]"
  by (simp add: si57x_items1_def SI57X_REG_HS_N1_def
    SI57X_REG_N1_RFREQ0_def
    SI57X_REG_RFREQ1_def
    SI57X_REG_RFREQ2_def
    SI57X_REG_RFREQ3_def
    SI57X_REG_RFREQ4_def
    SI57X_REG_CONTROL_def)

lemma si57x_items1_masks:
  "item_masks si57x_items1 =
    [SI57X_HS_N1_N1_6_2_MASK,
     SI57X_HS_N1_HS_MASK,
     SI57X_N1_RFREQ0_RFREQ_37_32_MASK,
     SI57X_N1_RFREQ0_N1_1_0_MASK,
     SI57X_RFREQ1_RFREQ_31_24_MASK,
     SI57X_RFREQ1_RFREQ_31_28_MASK,
     SI57X_RFREQ1_RFREQ_27_24_MASK,
     SI57X_RFREQ2_RFREQ_23_16_MASK,
     SI57X_RFREQ3_RFREQ_15_8_MASK,
     SI57X_RFREQ4_RFREQ_7_0_MASK,
     SI57X_CONTROL_RECALL,
     SI57X_CONTROL_FREEZE_ADC,
     SI57X_CONTROL_FREEZE_M,
     SI57X_CONTROL_NEWFREQ]"
  by (simp add: si57x_items1_def SI57X_HS_N1_N1_6_2_MASK_def
    SI57X_HS_N1_HS_MASK_def
    SI57X_N1_RFREQ0_RFREQ_37_32_MASK_def
    SI57X_N1_RFREQ0_N1_1_0_MASK_def
    SI57X_RFREQ1_RFREQ_31_24_MASK_def
    SI57X_RFREQ1_RFREQ_31_28_MASK_def
    SI57X_RFREQ1_RFREQ_27_24_MASK_def
    SI57X_RFREQ2_RFREQ_23_16_MASK_def
    SI57X_RFREQ3_RFREQ_15_8_MASK_def
    SI57X_RFREQ4_RFREQ_7_0_MASK_def
    SI57X_CONTROL_RECALL_def
    SI57X_CONTROL_FREEZE_ADC_def
    SI57X_CONTROL_FREEZE_M_def
    SI57X_CONTROL_NEWFREQ_def)

lemma si57x_items2_regs:
  "item_regs si57x_items2 = map unat
    [SI57X_REG_FREEZE_DCO,
     SI57X_REG_START]"
  by (simp add: si57x_items2_def SI57X_REG_FREEZE_DCO_def
    SI57X_REG_START_def)

lemma si57x_items2_masks:
  "item_masks si57x_items2 =
    [SI57X_CONTROL_RESET,
     SI57X_FREEZE_DCO]"
  by (simp add: si57x_items2_def SI57X_CONTROL_RESET_def
    SI57X_FREEZE_DCO_def)

end
