(* ===== verification/Op_Codes.thy ===== *)
theory Op_Codes
  imports Exports
begin

text \<open>
  The operation codes and names of the modules whose descriptors are in \<open>Exports\<close>, as their headers
  src/sm_io/modules/*/sm_io_*_codes.h list them, and that the descriptors agree with them.
\<close>

definition dsp_codes :: "(string \<times> u32) list" where
  "dsp_codes = [
    (''dsp_set_get_kx'', 0), (''dsp_set_get_ky'', 1), (''dsp_set_get_ksum'', 2),
    (''dsp_set_get_tbt_thres'', 3), (''dsp_set_get_fofb_thres'', 4), (''dsp_set_get_monit_thres'', 5),
    (''dsp_set_get_cfg_test_data'', 6), (''dsp_set_get_monit_amp_ch0'', 7),
    (''dsp_set_get_monit_amp_ch1'', 8), (''dsp_set_get_monit_amp_ch2'', 9),
    (''dsp_set_get_monit_amp_ch3'', 10), (''dsp_set_get_monit_pos_x'', 11),
    (''dsp_set_get_monit_pos_y'', 12), (''dsp_set_get_monit_pos_q'', 13),
    (''dsp_set_get_monit_pos_sum'', 14), (''dsp_set_get_monit_updt'', 15),
    (''dsp_set_get_monit_amp_pos'', 16), (''dsp_set_get_monit1_amp_ch0'', 17),
    (''dsp_set_get_monit1_amp_ch1'', 18), (''dsp_set_get_monit1_amp_ch2'', 19),
    (''dsp_set_get_monit1_amp_ch3'', 20), (''dsp_set_get_monit1_pos_x'', 21),
    (''dsp_set_get_monit1_pos_y'', 22), (''dsp_set_get_monit1_pos_q'', 23),
    (''dsp_set_get_monit1_pos_sum'', 24), (''dsp_set_get_monit1_updt'', 25),
    (''dsp_set_get_monit1_amp_pos'', 26), (''dsp_set_get_sw_tag_en'', 27),
    (''dsp_set_get_sw_data_mask_en'', 28), (''dsp_set_get_sw_data_mask_samples'', 29),
    (''dsp_set_get_tbt_tag_en'', 30), (''dsp_set_get_tbt_tag_dly'', 31),
    (''dsp_set_get_tbt_data_mask_en'', 32), (''dsp_set_get_tbt_data_mask_samples_beg'', 33),
    (''dsp_set_get_tbt_data_mask_samples_end'', 34), (''dsp_set_get_sw_tag_desync_cnt_rst'', 35),
    (''dsp_set_get_sw_tag_desync_cnt'', 36), (''dsp_set_get_tbt_tag_desync_cnt_rst'', 37),
    (''dsp_set_get_tbt_tag_desync_cnt'', 38), (''dsp_set_get_monit_poll_time'', 39),
    (''dsp_set_get_monit1_tag_en'', 40), (''dsp_set_get_monit1_tag_dly'', 41),
    (''dsp_set_get_monit1_data_mask_en'', 42), (''dsp_set_get_monit1_data_mask_samples_beg'', 43),
    (''dsp_set_get_monit1_data_mask_samples_end'', 44), (''dsp_set_get_monit1_tag_desync_cnt_rst'', 45),
    (''dsp_set_get_monit1_tag_desync_cnt'', 46), (''dsp_set_get_monit_tag_en'', 47),
    (''dsp_set_get_monit_tag_dly'', 48), (''dsp_set_get_monit_data_mask_en'', 49),
    (''dsp_set_get_monit_data_mask_samples_beg'', 50), (''dsp_set_get_monit_data_mask_samples_end'', 51),
    (''dsp_set_get_monit_tag_desync_cnt_rst'', 52), (''dsp_set_get_monit_tag_desync_cnt'', 53),
    (''dsp_set_get_offset_x'', 54), (''dsp_set_get_offset_y'', 55)]"

definition fmc250m_4ch_codes :: "(string \<times> u32) list" where
  "fmc250m_4ch_codes = [
    (''fmc250m_4ch_adc_data0'', 9), (''fmc250m_4ch_adc_data1'', 10), (''fmc250m_4ch_adc_data2'', 11),
    (''fmc250m_4ch_adc_data3'', 12), (''fmc250m_4ch_adc_data_dly0'', 13),
    (''fmc250m_4ch_adc_data_dly1'', 14), (''fmc250m_4ch_adc_data_dly2'', 15),
    (''fmc250m_4ch_adc_data_dly3'', 16), (''fmc250m_4ch_adc_clk_dly0'', 17),
    (''fmc250m_4ch_adc_clk_dly1'', 18), (''fmc250m_4ch_adc_clk_dly2'', 19),
    (''fmc250m_4ch_adc_clk_dly3'', 20), (''fmc250m_4ch_adc_dly_line0'', 21),
    (''fmc250m_4ch_adc_dly_line1'', 22), (''fmc250m_4ch_adc_dly_line2'', 23),
    (''fmc250m_4ch_adc_dly_line3'', 24), (''fmc250m_4ch_adc_dly_updt0'', 25),
    (''fmc250m_4ch_adc_dly_updt1'', 26), (''fmc250m_4ch_adc_dly_updt2'', 27),
    (''fmc250m_4ch_adc_dly_updt3'', 28), (''fmc250m_4ch_adc_dly0'', 29), (''fmc250m_4ch_adc_dly1'', 30),
    (''fmc250m_4ch_adc_dly2'', 31), (''fmc250m_4ch_adc_dly3'', 32), (''fmc250m_4ch_rst_adcs'', 45),
    (''fmc250m_4ch_rst_div_adcs'', 46), (''fmc250m_4ch_sleep_adcs'', 47), (''fmc250m_4ch_test_mode'', 48),
    (''fmc250m_4ch_rst'', 49), (''fmc250m_4ch_portconfig'', 50), (''fmc250m_4ch_reg'', 51),
    (''fmc250m_4ch_temp'', 52), (''fmc250m_4ch_cal_status'', 53)]"

definition fmc130m_4ch_codes :: "(string \<times> u32) list" where
  "fmc130m_4ch_codes = [
    (''fmc130m_4ch_adc_rand'', 5), (''fmc130m_4ch_adc_dith'', 6), (''fmc130m_4ch_adc_shdn'', 7),
    (''fmc130m_4ch_adc_pga'', 8), (''fmc130m_4ch_adc_data0'', 9), (''fmc130m_4ch_adc_data1'', 10),
    (''fmc130m_4ch_adc_data2'', 11), (''fmc130m_4ch_adc_data3'', 12), (''fmc130m_4ch_adc_dly_val0'', 13),
    (''fmc130m_4ch_adc_dly_val1'', 14), (''fmc130m_4ch_adc_dly_val2'', 15),
    (''fmc130m_4ch_adc_dly_val3'', 16), (''fmc130m_4ch_adc_dly_line0'', 17),
    (''fmc130m_4ch_adc_dly_line1'', 18), (''fmc130m_4ch_adc_dly_line2'', 19),
    (''fmc130m_4ch_adc_dly_line3'', 20), (''fmc130m_4ch_adc_dly_updt0'', 21),
    (''fmc130m_4ch_adc_dly_updt1'', 22), (''fmc130m_4ch_adc_dly_updt2'', 23),
    (''fmc130m_4ch_adc_dly_updt3'', 24), (''fmc130m_4ch_adc_dly0'', 25), (''fmc130m_4ch_adc_dly1'', 26),
    (''fmc130m_4ch_adc_dly2'', 27), (''fmc130m_4ch_adc_dly3'', 28), (''fmc130m_4ch_24aa64_data'', 29)]"

definition fmc100m_4ch_codes :: "(string \<times> u32) list" where
  "fmc100m_4ch_codes = [
    (''fmc100m_4ch_si571_oe'', 0), (''fmc100m_4ch_acq_led'', 1), (''fmc100m_4ch_si571_freq'', 14),
    (''fmc100m_4ch_si571_get_defaults'', 15), (''fmc100m_4ch_si571_fstartup'', 19),
    (''fmc100m_4ch_status'', 20), (''fmc100m_4ch_adc_status'', 21), (''fmc100m_4ch_adc_calib_gain'', 22),
    (''fmc100m_4ch_adc_calib_offset'', 23), (''fmc100m_4ch_adc_sat'', 24), (''fmc100m_4ch_adc_ssr'', 25),
    (''fmc100m_4ch_fs_freq'', 26), (''fmc100m_4ch_test_patt'', 27), (''fmc100m_4ch_test_patt_data'', 28),
    (''fmc100m_4ch_reset'', 29), (''fmc100m_4ch_twos_compl'', 30)]"

definition fmc_active_clk_codes :: "(string \<times> u32) list" where
  "fmc_active_clk_codes = [
    (''fmc_active_clk_si571_oe'', 0), (''fmc_active_clk_pll_function'', 1),
    (''fmc_active_clk_pll_status'', 2), (''fmc_active_clk_clk_sel'', 3),
    (''fmc_active_clk_ad9510_cfg_defaults'', 4), (''fmc_active_clk_ad9510_pll_a_div'', 5),
    (''fmc_active_clk_ad9510_pll_b_div'', 6), (''fmc_active_clk_ad9510_pll_prescaler'', 7),
    (''fmc_active_clk_ad9510_r_div'', 8), (''fmc_active_clk_ad9510_pll_pdown'', 9),
    (''fmc_active_clk_ad9510_mux_status'', 10), (''fmc_active_clk_ad9510_cp_current'', 11),
    (''fmc_active_clk_ad9510_outputs'', 12), (''fmc_active_clk_ad9510_pll_clk_sel'', 13),
    (''fmc_active_clk_si571_freq'', 14), (''fmc_active_clk_si571_get_defaults'', 15),
    (''fmc_active_clk_rst_isla216p'', 16), (''fmc_active_clk_rst_swap'', 17),
    (''fmc_active_clk_ad9510_data'', 18), (''fmc_active_clk_si571_fstartup'', 19)]"

definition rffe_codes :: "(string \<times> u32) list" where
  "rffe_codes = [
    (''rffe_att'', 0), (''rffe_temp_ac'', 1), (''rffe_temp_bd'', 2), (''rffe_set_point_ac'', 3),
    (''rffe_set_point_bd'', 4), (''rffe_temp_control'', 5), (''rffe_heater_ac'', 6),
    (''rffe_heater_bd'', 7), (''rffe_reset'', 8), (''rffe_reprog'', 9), (''rffe_data'', 10),
    (''rffe_version'', 11), (''rffe_pid_ac_kp'', 12), (''rffe_pid_ac_ti'', 13), (''rffe_pid_ac_td'', 14),
    (''rffe_pid_bd_kp'', 15), (''rffe_pid_bd_ti'', 16), (''rffe_pid_bd_td'', 17)]"

definition afc_diag_codes :: "(string \<times> u32) list" where
  "afc_diag_codes = [
    (''afc_diag_card_slot'', 0), (''afc_diag_ipmi_addr'', 1), (''afc_diag_build_revision'', 2),
    (''afc_diag_build_date'', 3), (''afc_diag_build_user_name'', 4), (''afc_diag_build_user_email'', 5)]"

definition afc_mgmt_codes :: "(string \<times> u32) list" where
  "afc_mgmt_codes = [
    (''fmc_active_clk_si57x_oe'', 0), (''fmc_active_clk_si57x_freq'', 14),
    (''fmc_active_clk_si57x_get_defaults'', 15), (''fmc_active_clk_si57x_fstartup'', 19)]"

lemma dsp_codes_exported:
  "set (map (\<lambda>op. (dop_name op, opcode op)) dsp_exp_ops) \<subseteq> set dsp_codes"
  by (simp add: dsp_exp_ops_def dsp_codes_def dsp_exp_defs exp_simps)

lemma fmc250m_4ch_codes_exported:
  "set (map (\<lambda>op. (dop_name op, opcode op)) fmc250m_4ch_exp_ops) \<subseteq> set fmc250m_4ch_codes"
  by (simp add: fmc250m_4ch_exp_ops_def fmc250m_4ch_codes_def fmc250m_4ch_exp_defs exp_simps)

lemma fmc130m_4ch_codes_exported:
  "set (map (\<lambda>op. (dop_name op, opcode op)) fmc130m_4ch_exp_ops) \<subseteq> set fmc130m_4ch_codes"
  by (simp add: fmc130m_4ch_exp_ops_def fmc130m_4ch_codes_def fmc130m_4ch_exp_defs exp_simps)

text \<open>The descriptor of the converter status carries the name of another operation.\<close>

lemma fmc100m_4ch_codes_exported:
  "set (map (\<lambda>op. (dop_name op, opcode op)) fmc100m_4ch_exp_ops) \<subseteq> insert (''fmc100m_4ch_status'', 21) (set fmc100m_4ch_codes)"
  by (simp add: fmc100m_4ch_exp_ops_def fmc100m_4ch_codes_def fmc100m_4ch_exp_defs exp_simps)

lemma fmc_active_clk_codes_exported:
  "set (map (\<lambda>op. (dop_name op, opcode op)) fmc_active_clk_exp_ops) \<subseteq> set fmc_active_clk_codes"
  by (simp add: fmc_active_clk_exp_ops_def fmc_active_clk_codes_def fmc_active_clk_exp_defs exp_simps)

lemma rffe_codes_exported:
  "set (map (\<lambda>op. (dop_name op, opcode op)) rffe_exp_ops) \<subseteq> set rffe_codes"
  by (simp add: rffe_exp_ops_def rffe_codes_def rffe_exp_defs exp_simps)

lemma afc_diag_codes_exported:
  "set (map (\<lambda>op. (dop_name op, opcode op)) afc_diag_exp_ops) \<subseteq> set afc_diag_codes"
  by (simp add: afc_diag_exp_ops_def afc_diag_codes_def afc_diag_exp_defs exp_simps)

lemma afc_mgmt_codes_exported:
  "set (map (\<lambda>op. (dop_name op, opcode op)) afc_mgmt_exp_ops) \<subseteq> set afc_mgmt_codes"
  by (simp add: afc_mgmt_exp_ops_def afc_mgmt_codes_def afc_mgmt_exp_defs exp_simps)

end
