(* ===== verification/Spec2Isabelle.thy ===== *)
theory Spec2Isabelle
  imports Sensor_Modules Acq_Block Defaults_Facts Devio_Core_Facts Acq_Client_Facts Parts_Facts Spi I2c Ad9510_Facts Ch_Isla216p
    Ch_Ltc2174 Ch_24aa64 Ch_Pca9547 Ch_Si57x Regs_Params Chip_Maps Op_Codes
begin

text \<open>
  A verification library for HALCS, the hardware abstraction layer and control server: a device server
  gives the sensor modules of a board access to its registers over PCI Express, the sensor modules
  serve the operations of their part of the gateware to clients over a broker, and client libraries
  call these operations. Paths below are relative to src/ of the repository.

  The parts of the program and the theories that model them, bottom up.

  \<^bold>\<open>Helpers.\<close> \<open>Prelude\<close> holds the integer types, the byte order and lemmas that the other theories
  share. \<open>Hutils\<close> models libs/hutils (keys and numbers as strings, alignment, division). \<open>Floats\<close> is
  floating point arithmetic: rational numbers, rounded to nearest after every operation.

  \<^bold>\<open>Registers of the board.\<close> \<open>Llio\<close> models libs/llio/src/ll_io_core.c, an object with an operation vector,
  and states as locale \<open>reg_bus\<close> what a register bus promises. \<open>Pcie\<close> models libs/llio/src/ops/ll_io_pcie.c
  (windows, pages, blocks, DMA) and interprets \<open>reg_bus\<close>. The driver of the card is the record
  \<open>pcie_hw\<close>, with \<open>board_ok\<close> and \<open>kmem_ok\<close> for what its documentation says of it. The windows are byte
  addressed, so \<open>board_ok\<close> (\<open>window_ok\<close> and a reset register) speaks of 32-bit words at multiples of 4
  only (\<open>word_addr\<close>), which do not overlap, and takes them to change only when they are written; the board of the witnesses is a memory of bytes.
  \<open>data_addr\<close>, the addresses that the properties over the bus speak of, are such addresses.

  \<^bold>\<open>Dispatching.\<close> \<open>Disptable\<close> models libs/disptable, a hash table of operations and return buffers on a
  heap with explicit allocation, and the locale \<open>dispatcher\<close>. zhashx of CZMQ is a parameter with the
  laws \<open>zhashx_ok\<close>; \<open>zh_alist\<close> shows that they can hold. \<open>Msg\<close> models src/msg/msg.c, the checks on a
  request and the reply, over sockets and over the broker, in the locale \<open>msg_server\<close>, which extends
  \<open>dispatcher\<close> and is interpreted on the table.

  \<^bold>\<open>Device server.\<close> \<open>Thsafe_Server\<close> and \<open>Thsafe_Client\<close> model src/msg/smio_thsafe_ops, the twelve
  operations of the server and the calls of its clients; \<open>Device\<close> the handlers of
  src/dev_io/dev_io_core.c that serve one request; \<open>Devio_Core\<close> its registry of modules, the actors in their
  arrays and hash tables with the commands that add, remove and reach them, and \<open>Devio_Core_Facts\<close> the
  invariant of the registry. The client's functions, run against the server, are
  a \<open>reg_bus\<close> again: whatever is proved over a bus holds over the whole path.

  \<^bold>\<open>Sensor modules.\<close> \<open>Smio\<close> models src/sm_io/sm_io.c; \<open>Rw_Param\<close> the macros of include/rw_param.h and
  src/sm_io/rw_param; \<open>Module\<close> what all modules share; \<open>Param_Store\<close> the abstract specification of a
  module whose operations are parameters: a store of values with limits. Registers that a module
  exports as parameters although the hardware writes them (status, counters) or takes a write back (resets,
  strobes) are listed in \<open>volatile_params\<close> and \<open>part_volatile_params\<close>; the store claims nothing of a write of
  them but its reply. \<open>Mod_Trigger\<close>, \<open>Mod_Timing\<close>,
  \<open>Mod_Fofb\<close>, \<open>Mod_Orbit\<close> and \<open>Mod_Adc\<close> model the modules (src/sm_io/modules/*) of which every operation is a
  parameter, \<open>Mod_Parts\<close> the parameters of the modules that have other operations too, and \<open>Mod_Dsp\<close>
  the rest of the position calculation with its monitoring actor. \<open>Acq\<close> models src/sm_io/modules/acq.
  \<open>Exports\<close>, \<open>Op_Codes\<close> and \<open>Op_Table\<close> hold the descriptors (src/sm_io_table), codes and names.

  \<^bold>\<open>Registers of the gateware.\<close> \<open>Regs_Trigger\<close>, \<open>Regs_Timing\<close>, \<open>Regs_Acq\<close>, \<open>Regs_Fmc\<close> and
  \<open>Regs_Cheby\<close> are the eighteen headers under include/hw that the modules include, as tables over the types of
  \<open>Wb_Map\<close>, \<open>Regs_Facts\<close> collects them; \<open>Chip_Maps\<close> does
  the same for include/chips.

  \<^bold>\<open>Protocols and chips.\<close> \<open>Smpr\<close> models src/sm_io/protocols/sm_pr.c; \<open>Spi\<close> and \<open>I2c\<close> the two protocols as
  sequences of register accesses of the thread-safe client; \<open>Chip\<close> and \<open>Ch_*\<close> the drivers on top of
  them (AD9510, ISLA216P, LTC2174, Si57x, 24AA64, PCA9547); \<open>Ad9510_Facts\<close> the settings of the AD9510.

  \<^bold>\<open>Clients.\<close> \<open>Client\<close> models src/client/src/halcs_client_core.c and halcs_client_rw_param.c, \<open>Client_Timing\<close>,
  \<open>Client_Orbit\<close>, \<open>Client_Fmc\<close> and \<open>Client_Board\<close> the functions for each parameter; \<open>Client_Link\<close> the locale
  \<open>service_link\<close> of a broker with one service. \<open>Acq_Client\<close> models libs/acqclient. \<open>Defaults\<close> models the
  config_defaults functions of the modules (src/sm_io/modules/*/*_defaults.c), which are clients.

  \<^bold>\<open>How state and errors correspond.\<close> A structure of the code is a record, passed and returned; objects
  that are reached over pointers (the table's operations, buffers) live in a heap. A static function \<open>_f\<close>
  is \<open>s_f\<close>. Integers have their width. The outer \<open>option\<close> of an operation is \<open>None\<close> where C leaves the
  behaviour undefined or an assertion stops the process (a null pointer, a buffer overrun, a division by
  0) and where a call blocks for ever; error codes are values. Results of the outside that the code can
  not know are arguments: allocation (\<open>ok\<close>, \<open>al\<close>), CZMQ sends (\<open>ze\<close>), contents of an uninitialised
  variable (\<open>junk\<close>), the clock and interrupts (\<open>now\<close>, \<open>intr\<close>), the table of memory regions of the board,
  the Malamute client, the reactor of the monitoring actor.

  \<^bold>\<open>What the lemmas show.\<close> Registers: a write is read back and changes nothing else (\<open>Pcie\<close>), also through
  client, server and table (below); replies can be stale, negative or refused. Table: insertion, removal
  and destruction keep the invariant and leak nothing. Modules: each answers every sequence of requests as
  the store does, end to end; the seventeen modules with
  parameters use registers and whole fields that the headers declare, with two exceptions in fmc100m_4ch
  (\<open>Regs_Params\<close>), and fields of a register do not disturb each other. Acquisition: what a start programs,
  which bytes a block holds and where they come from, the invariant of the state, the address arithmetic of
  the ring. Clients: calls act on the store of the module; curves are the samples of the shot; the types
  of the requests fit the descriptors; what happens without a reply. Monitoring: the polling time is read
  back under every schedule; the actor dies with the first failed read. Registry: keys and places stay consistent
  under all commands, registering and unregistering are inverse but for the places, which run out.
  Defaults: the values that the modules send to themselves are within their limits and arrive. Clock chip: each setting that is
  accepted is read back, others are refused without an access.

  \<^bold>\<open>Bounds and fuel.\<close> Waiting for the end of a transfer tries as often as the code does (10 times for SPI,
  I2C and the chips). The search for a free instance number, the DMA wait, polling of the client and the block loop of a curve run until an
  event that may not come: they are \<open>partial_function\<close>s, \<open>None\<close> when it does not, and the theorems that
  they return are proved as such. Every other loop is structural or has a measure.

  \<^bold>\<open>Not modelled.\<close> The start of processes and threads, signals, the device manager, and the sockets of the
  device server and of the modules (dev_mngr, the set-up and destruction in dev_io_core.c, the poll loops,
  sm_io_cfg.c): file system, processes and sockets. Ethernet devices (BSD sockets), BSMP and SCPI with the
  RF front end (a library outside the tree, text over a serial line), the position client bpmclient, sdbfs
  (third party), logging, board constants, command line programs. The manifest lists every part with its
  reason.
\<close>

section \<open>The device server on a PCI Express board\<close>

text \<open>C32: the set-up of the device server. From a heap holding the twelve descriptors of the server's
  operations, with an allocator and a hash table that deliver, \<open>devio_new\<close>'s table gets all twelve
  opcodes, each with its descriptor and a return buffer of the descriptor's size, the table's
  invariant holds, and the arguments of its requests are checked by \<open>_devio_check_msg_args\<close>.\<close>

theorem devio_new_table_ready:
  assumes "zhashx_ok Z" and "zh_new Z \<noteq> None" and "heap_wf h" and "\<forall>n. hp_ok h n" and "length ps = 12"
    and "\<forall>(p, op) \<in> set (zip ps (smio_thsafe_zmq_server_ops cast_ep (llio_ops_pcie H al))).
      hp_mem h p = Some (BObj (OOp op))"
    and "kmem_ok H"
  shows "\<exists>s h'. devio_new_table Z ps h = Some (Some s, h') \<and> dt_good s \<and> dt_table_ops s = devio_disp_table_ops \<and>
    (\<forall>op \<in> set (smio_thsafe_zmq_server_ops cast_ep (llio_ops_pcie H al)). \<exists>b.
       dt_view s (opcode op) = Some (op, Some b) \<and> length b = unat (DISP_GET_ASIZE (retval op)))"
  using new_table_ready [OF assms(1-6) pcie_lens_ok [OF assms(7)]] unfolding thsafe_ready_def .

theorem devio_new_table_ready_witness:
  "\<exists>s h'. devio_new_table zh_alist [0..<12] srv_heap = Some (Some s, h') \<and> dt_good s \<and>
    (\<exists>b. dt_view s 3 = Some (thsafe_zmq_server_read_32_exp srv_llio, Some b) \<and> length b = 4)"
proof -
  have l: "length [0..<12] = 12" by simp
  from devio_new_table_ready [OF zhashx_ok_alist zh_alist_new srv_heap_wf l
      srv_heap_descs [unfolded srv_llio_def] srv_kmem, folded srv_llio_def]
  obtain s h' where s: "devio_new_table zh_alist [0..<12] srv_heap = Some (Some s, h')" "dt_good s"
    "\<forall>op \<in> set (smio_thsafe_zmq_server_ops cast0 srv_llio). \<exists>b.
       dt_view s (opcode op) = Some (op, Some b) \<and> length b = unat (DISP_GET_ASIZE (retval op))" by blast
  from bspec [OF s(3) server_ops_mem(1)] s(1,2) show ?thesis
    by (simp add: server_exps fits_simps opcodes)
qed

text \<open>C2: the device server is a memory of words. Any sequence of 32-bit reads and writes of registers, at
  addresses in the windows that are multiples of 4, that
  arrives at its socket, from any mixture of clients, is answered completely and in order: the
  replies are those of a plain memory that executes the requests one after the other, each goes
  out with the routing id its request came with, and the board ends with that memory's content. The
  board's words are taken to change only when they are written (\<open>board_ok\<close>), as those of its memory and of
  plain registers do.\<close>

theorem devio_serves_registers:
  assumes "board_ok H V" and "thsafe_ready cast_ep (llio_ops_pcie H al) s" and "pcie_good H V self"
    and "\<forall>q \<in> set qs. data_addr (req_addr q)"
  shows "\<exists>proto' self' s'.
    s_devio_handle_protocol dt_call (\<lambda>_. True) (map (\<lambda>q. Some (req_wire q)) qs) proto self s =
      Some (0, fst (mem_run qs (pcie_view32 V self)), proto', self', s') \<and>
    thsafe_ready cast_ep (llio_ops_pcie H al) s' \<and> pcie_good H V self' \<and>
    (\<forall>a. data_addr a \<longrightarrow> pcie_view32 V self' a = snd (mem_run qs (pcie_view32 V self)) a)"
  by (rule handle_protocol_run [OF pcie_llio_bus [OF assms(1)] assms(2-4)])

theorem devio_serves_registers_witness:
  "\<exists>s :: srv_table. \<exists>r. s_devio_handle_protocol dt_call (\<lambda>_. True)
      [Some (req_wire (Write_Req [1] 0x2000000000100010 5)), Some (req_wire (Read_Req [2] 0x2000000000100010))]
      proto0 board_open s = Some (0, [[1] # ok_reply 4, [2] # ok_reply 5], r)"
proof -
  obtain s :: srv_table where s: "thsafe_ready cast0 (llio_ops_pcie board_hw (\<lambda>_. True)) s"
    using srv_ready unfolding srv_llio_def by blast
  have "\<forall>q \<in> set [Write_Req [1] 0x2000000000100010 5, Read_Req [2] 0x2000000000100010]. data_addr (req_addr q)"
    using board_addr by simp
  from devio_serves_registers [OF board_hw_ok s board_open_good this, of proto0]
  have "\<exists>r. s_devio_handle_protocol dt_call (\<lambda>_. True)
      (map (\<lambda>q. Some (req_wire q)) [Write_Req [1] 0x2000000000100010 5, Read_Req [2] 0x2000000000100010])
      proto0 board_open s = Some (0, fst (mem_run [Write_Req [1] 0x2000000000100010 5,
        Read_Req [2] 0x2000000000100010] (pcie_view32 board_view board_open)), r)" by blast
  then show ?thesis
    by - (rule exI [of _ s], simp add: Let_def del: s_devio_handle_protocol.simps)
qed

text \<open>C3: through all layers, a client's 32-bit write to a register of the board, at an address that is a
  multiple of 4 (request, dispatch,
  argument check, page selection, window access, reply) returns 4, and its next read of any such
  register returns 4 with the value written if it is the same register, else with the former one.
  The board's words are taken to change only when they are written (\<open>board_ok\<close>).\<close>

theorem thsafe_client_write_read:
  assumes "board_ok H V" and "pcie_good H V self" and "thsafe_ready cast_ep (llio_ops_pcie H al) s"
    and "data_addr a" and "data_addr b"
  shows "\<exists>p1 p2. thsafe_zmq_client_write_32 (devio_sock rid) (\<lambda>_. True) a (le_bytes 4 v) (self, s, proto, []) =
      Some (4, p1) \<and>
    thsafe_zmq_client_read_32 (devio_sock rid) (\<lambda>_. True) b (le_bytes 4 x) p1 =
      Some (4, le_bytes 4 (if b = a then v else pcie_view32 V self b), p2)"
proof -
  have g: "client_good cast_ep (llio_ops_pcie H al) (pcie_good H V) (self, s, proto, [])"
    using assms by simp
  obtain p1 where p1: "client_wr rid (self, s, proto, []) a v = Some (4, p1)"
    "client_good cast_ep (llio_ops_pcie H al) (pcie_good H V) p1"
    "\<forall>c. data_addr c \<longrightarrow> client_view (pcie_view32 V) p1 c =
       (if c = a then v else client_view (pcie_view32 V) (self, s, proto, []) c)"
    using reg_bus.wr_view [OF client_bus [OF pcie_llio_bus [OF assms(1)]] g assms(4)] by blast
  obtain self1 s1 proto1 where e: "p1 = (self1, s1, proto1, [])" "pcie_good H V self1"
    "thsafe_ready cast_ep (llio_ops_pcie H al) s1" using p1(2) by (cases p1) auto
  from client_read_32 [OF e(3) pcie_llio_bus [OF assms(1)] e(2) assms(5), of "le_bytes 4 x" rid proto1]
  show ?thesis using p1 assms(5) by (auto simp: client_wr_def e(1))
qed

theorem thsafe_client_write_read_witness:
  "\<exists>s :: srv_table. \<exists>p1 p2.
    thsafe_zmq_client_write_32 (devio_sock [1]) (\<lambda>_. True) 0x4000000000000008 (le_bytes 4 (7 :: u32))
      (board_open, s, proto0, []) = Some (4, p1) \<and>
    thsafe_zmq_client_read_32 (devio_sock [1]) (\<lambda>_. True) 0x4000000000000008 (le_bytes 4 (0 :: u32)) p1 =
      Some (4, le_bytes 4 (7 :: u32), p2)"
proof -
  obtain s :: srv_table where s: "thsafe_ready cast0 (llio_ops_pcie board_hw (\<lambda>_. True)) s"
    using srv_ready unfolding srv_llio_def by blast
  from thsafe_client_write_read [OF board_hw_ok board_open_good s board_addr(2,2), of "[1]" 7 proto0 0]
  show ?thesis by - (rule exI [of _ s], simp)
qed

text \<open>A client can never open or release the device through the server. The request carries an
  empty endpoint frame, but the descriptors encode the size of the literal 0, which is that of an
  \<open>int\<close>, so the argument check refuses it: the client's \<open>open\<close> and \<open>release\<close> return -1 on every
  device and for every endpoint, and the device is not touched.\<close>

theorem thsafe_open_release_refused:
  assumes "thsafe_ready cast_ep ops s"
  shows "(\<exists>s' proto'. thsafe_zmq_client_open (devio_sock rid) (\<lambda>_. True) ep (w, s, proto, []) =
      Some (-1, (w, s', proto', []))) \<and>
    (\<exists>s' proto'. thsafe_zmq_client_release (devio_sock rid) (\<lambda>_. True) ep (w, s, proto, []) =
      Some (-1, (w, s', proto', [])))"
  unfolding thsafe_zmq_client_open_def thsafe_zmq_client_release_def
  using open_release_refused [OF assms] by blast

theorem thsafe_open_release_refused_witness:
  "\<exists>s :: srv_table. \<exists>s' proto'.
    thsafe_zmq_client_open (devio_sock [1]) (\<lambda>_. True) None (board_closed, s, proto0, []) =
      Some (-1, (board_closed, s', proto', []))"
proof -
  obtain s :: srv_table where s: "thsafe_ready cast0 srv_llio s" using srv_ready by blast
  from thsafe_open_release_refused [OF s, of "[1]" None board_closed proto0] show ?thesis
    by - (rule exI [of _ s], blast)
qed

text \<open>How a failure of the device reaches the client. When the llio layer returns a negative
  status, a read gives -1 with the buffer unchanged, but a write gives the status modulo \<open>2 ^ 32\<close>,
  a positive number: the client's write never reports a failure of the device as a negative
  value.\<close>

theorem thsafe_negative_status:
  assumes "thsafe_ready cast_ep ops s" and "- (2 ^ 31) < e" and "e < 0"
    and "\<And>x. llio_read_32 ops a x w = Some (e, x, w)" and "llio_write_32 ops a v w = Some (e, w)"
    and "4 \<le> length data"
  shows "(\<exists>s' proto'. thsafe_zmq_client_read_32 (devio_sock rid) (\<lambda>_. True) a data (w, s, proto, []) =
      Some (-1, data, (w, s', proto', []))) \<and>
    (\<exists>s' proto'. thsafe_zmq_client_write_32 (devio_sock rid) (\<lambda>_. True) a (le_bytes 4 v) (w, s, proto, []) =
      Some (2 ^ 32 + e, (w, s', proto', [])))"
  using failed_read_32 [OF assms(1-4,6)] failed_write_32 [OF assms(1) _ assms(3,5)] assms(2) by fastforce

theorem thsafe_negative_status_witness:
  "\<exists>s :: srv_table. \<exists>s' proto'.
    thsafe_zmq_client_write_32 (devio_sock [1]) (\<lambda>_. True) 0x4000000000000008 (le_bytes 4 (7 :: u32))
      (board_closed, s, proto0, []) = Some (4294967295, (board_closed, s', proto', []))"
proof -
  obtain s :: srv_table where s: "thsafe_ready cast0 srv_llio s" using srv_ready by blast
  from thsafe_negative_status [OF s _ _ closed_access, where data = "[0, 0, 0, 0]" and rid = "[1]" and proto = proto0]
  show ?thesis by - (rule exI [of _ s], simp)
qed

text \<open>C34: requests and replies are not matched. When a request has timed out and its reply arrives
  later, the client's next read, of any register, succeeds with the old reply's value, and leaves
  its own reply in the queue for the one after: from then on every access gets the answer to the
  one before.\<close>

theorem thsafe_stale_reply:
  assumes "board_ok H V" and "pcie_good H V self" and "thsafe_ready cast_ep (llio_ops_pcie H al) s"
    and "data_addr a" and "4 \<le> length data"
  shows "\<exists>self' s' proto'.
    thsafe_zmq_client_read_32 (devio_sock rid) (\<lambda>_. True) a data (self, s, proto, [ok_reply old]) =
      Some (4, le_bytes 4 old @ drop 4 data, (self', s', proto', [ok_reply (pcie_view32 V self a)])) \<and>
    pcie_good H V self' \<and> thsafe_ready cast_ep (llio_ops_pcie H al) s'"
  using stale_reply [OF assms(3) pcie_llio_bus [OF assms(1)] assms(2,4,5)] by blast

theorem thsafe_stale_reply_witness:
  "\<exists>s :: srv_table. \<exists>self' s' proto'.
    thsafe_zmq_client_read_32 (devio_sock [1]) (\<lambda>_. True) 0x4000000000000008 [0, 0, 0, 0]
      (board_open, s, proto0, [ok_reply 9]) =
      Some (4, [9, 0, 0, 0], (self', s', proto', [ok_reply 0]))"
proof -
  obtain s :: srv_table where s: "thsafe_ready cast0 (llio_ops_pcie board_hw (\<lambda>_. True)) s"
    using srv_ready unfolding srv_llio_def by blast
  have "le_bytes 4 (9 :: u32) = [9, 0, 0, 0]" by (simp add: le_bytes_4)
  note z = this
  from thsafe_stale_reply [OF board_hw_ok board_open_good s board_addr(2), of "[0, 0, 0, 0]" "[1]" proto0 9]
  show ?thesis by - (rule exI [of _ s], auto simp: board_view0 z)
qed

end
